(* ===== verification/Rust_Prelude.thy ===== *)
theory Rust_Prelude
  imports Main "HOL-Library.Sublist"
begin

text \<open>
  The vocabulary every component shares: Rust's \<open>Result\<close> as a sum, its UTF-8 \<open>String\<close> as a list of
  bytes, and the functions of \<open>core::str\<close> and \<open>core::num\<close> the sources call, with the lemmas the
  component theories use to reason about them.

  A Rust \<open>String\<close> is its UTF-8 encoding, so \<open>len\<close>, \<open>starts_with\<close>, \<open>contains\<close>, \<open>split\<close> and
  comparison with an ASCII literal are functions of the bytes. Only what the sources do per Unicode
  scalar value (the tokenizer's loop, \<open>is_whitespace\<close>, \<open>trim\<close>) goes through \<open>chars\<close>, which cuts the
  bytes at the lead bytes.
\<close>

section \<open>Results\<close>

text \<open>\<open>Result<A, E>\<close> is \<open>'e + 'a\<close>, with \<open>Inl\<close> the error; the \<open>?\<close> operator is \<open>res_bind\<close>.\<close>

definition res_bind :: "'e + 'a \<Rightarrow> ('a \<Rightarrow> 'e + 'b) \<Rightarrow> 'e + 'b" where
  "res_bind r f = (case r of Inl e \<Rightarrow> Inl e | Inr x \<Rightarrow> f x)"

definition ok_or :: "'e \<Rightarrow> 'a option \<Rightarrow> 'e + 'a" where
  "ok_or e v = (case v of None \<Rightarrow> Inl e | Some x \<Rightarrow> Inr x)"

text \<open>\<open>Iterator::collect\<close> into a \<open>Result<Vec<_>, _>\<close>: the first error wins.\<close>

fun res_collect :: "('a \<Rightarrow> 'e + 'b) \<Rightarrow> 'a list \<Rightarrow> 'e + 'b list" where
  "res_collect f [] = Inr []"
| "res_collect f (x # xs) =
     (case f x of Inl e \<Rightarrow> Inl e
      | Inr y \<Rightarrow> (case res_collect f xs of Inl e \<Rightarrow> Inl e | Inr ys \<Rightarrow> Inr (y # ys)))"

text \<open>\<open>collect\<close> into an \<open>Option<Vec<_>>\<close>.\<close>

fun opt_collect :: "('a \<Rightarrow> 'b option) \<Rightarrow> 'a list \<Rightarrow> 'b list option" where
  "opt_collect f [] = Some []"
| "opt_collect f (x # xs) =
     (case f x of None \<Rightarrow> None
      | Some y \<Rightarrow> (case opt_collect f xs of None \<Rightarrow> None | Some ys \<Rightarrow> Some (y # ys)))"

named_theorems rust_simps "equations of the Rust library functions, unfolded by component proofs"

lemma res_bind_simps [simp]:
  "res_bind (Inl e) f = Inl e" "res_bind (Inr x) f = f x"
  by (simp_all add: res_bind_def)

lemma res_bind_Inr_iff: "res_bind r f = Inr y \<longleftrightarrow> (\<exists>x. r = Inr x \<and> f x = Inr y)"
  by (cases r) auto

lemma res_bind_Inl_iff: "res_bind r f = Inl e \<longleftrightarrow> r = Inl e \<or> (\<exists>x. r = Inr x \<and> f x = Inl e)"
  by (cases r) auto

lemma ok_or_simps [simp]:
  "ok_or e None = Inl e" "ok_or e (Some x) = Inr x"
  by (simp_all add: ok_or_def)

lemma ok_or_Inr_iff [simp]: "ok_or e v = Inr x \<longleftrightarrow> v = Some x"
  by (cases v) auto

lemma res_collect_Inr:
  "res_collect f xs = Inr ys \<longleftrightarrow> list_all2 (\<lambda>x y. f x = Inr y) xs ys"
proof (induction xs arbitrary: ys)
  case Nil
  show ?case by auto
next
  case (Cons x xs)
  show ?case
  proof (cases "res_collect f xs")
    case (Inl e)
    then have "\<not> list_all2 (\<lambda>x y. f x = Inr y) xs zs" for zs
      by (simp flip: Cons.IH)
    with Inl show ?thesis by (auto simp: list_all2_Cons1 split: sum.splits)
  next
    case (Inr zs)
    then have "list_all2 (\<lambda>x y. f x = Inr y) xs ys' \<longleftrightarrow> zs = ys'" for ys'
      by (simp flip: Cons.IH)
    with Inr show ?thesis by (auto simp: list_all2_Cons1 split: sum.splits)
  qed
qed

lemma res_collect_set:
  assumes "res_collect f xs = Inr ys" and "y \<in> set ys"
  shows "\<exists>x \<in> set xs. f x = Inr y"
proof -
  obtain i where i: "i < length ys" "ys ! i = y"
    using assms(2) by (auto simp: in_set_conv_nth)
  with assms(1) have "i < length xs" "f (xs ! i) = Inr y"
    by (auto simp: res_collect_Inr list_all2_conv_all_nth)
  then show ?thesis by (metis nth_mem)
qed

section \<open>Strings\<close>

definition starts_with :: "string \<Rightarrow> string \<Rightarrow> bool" where
  "starts_with s p \<longleftrightarrow> take (length p) s = p"

definition ends_with :: "string \<Rightarrow> string \<Rightarrow> bool" where
  "ends_with s p \<longleftrightarrow> starts_with (rev s) (rev p)"

definition strip_prefix :: "string \<Rightarrow> string \<Rightarrow> string option" where
  "strip_prefix s p = (if starts_with s p then Some (drop (length p) s) else None)"

definition strip_suffix :: "string \<Rightarrow> string \<Rightarrow> string option" where
  "strip_suffix s p = (if ends_with s p then Some (take (length s - length p) s) else None)"

fun contains :: "string \<Rightarrow> string \<Rightarrow> bool" where
  "contains [] p = (p = [])"
| "contains (c # cs) p = (starts_with (c # cs) p \<or> contains cs p)"

text \<open>\<open>str::split\<close> on a character: always at least one piece.\<close>

fun split_on :: "char \<Rightarrow> string \<Rightarrow> string list" where
  "split_on d [] = [[]]"
| "split_on d (c # cs) =
     (if c = d then [] # split_on d cs
      else (case split_on d cs of [] \<Rightarrow> [[c]] | w # ws \<Rightarrow> (c # w) # ws))"

fun split_once :: "char \<Rightarrow> string \<Rightarrow> (string \<times> string) option" where
  "split_once d [] = None"
| "split_once d (c # cs) =
     (if c = d then Some ([], cs) else map_option (\<lambda>(a, b). (c # a, b)) (split_once d cs))"

definition join_with :: "string \<Rightarrow> string list \<Rightarrow> string" where
  "join_with sep ws = concat (case ws of [] \<Rightarrow> [] | w # ws' \<Rightarrow> w # map (\<lambda>x. sep @ x) ws')"

definition replace_char :: "char \<Rightarrow> char \<Rightarrow> string \<Rightarrow> string" where
  "replace_char a b s = map (\<lambda>c. if c = a then b else c) s"

definition nat_of_char :: "char \<Rightarrow> nat" where
  "nat_of_char c = of_char c"

definition to_ascii_lower :: "char \<Rightarrow> char" where
  "to_ascii_lower c =
     (if 65 \<le> nat_of_char c \<and> nat_of_char c \<le> 90 then char_of (nat_of_char c + 32) else c)"

definition to_ascii_lowercase :: "string \<Rightarrow> string" where
  "to_ascii_lowercase s = map to_ascii_lower s"

definition is_ascii_digit :: "char \<Rightarrow> bool" where
  "is_ascii_digit c \<longleftrightarrow> 48 \<le> nat_of_char c \<and> nat_of_char c \<le> 57"

definition is_ascii_alphanumeric :: "char \<Rightarrow> bool" where
  "is_ascii_alphanumeric c \<longleftrightarrow>
     is_ascii_digit c \<or> 65 \<le> nat_of_char c \<and> nat_of_char c \<le> 90
     \<or> 97 \<le> nat_of_char c \<and> nat_of_char c \<le> 122"

text \<open>
  \<open>trim_start_matches(c)\<close> drops the leading occurrences of one character.
\<close>

definition trim_start_matches :: "char \<Rightarrow> string \<Rightarrow> string" where
  "trim_start_matches c s = dropWhile (\<lambda>x. x = c) s"

subsection \<open>Unicode scalar values\<close>

text \<open>The length of an encoded scalar value, from its lead byte.\<close>

definition utf8_len :: "char \<Rightarrow> nat" where
  "utf8_len c = (let n = nat_of_char c in
     if n < 192 then 1 else if n < 224 then 2 else if n < 240 then 3 else 4)"

text \<open>\<open>str::chars\<close>: each scalar value as its own encoding.\<close>

fun chars :: "string \<Rightarrow> string list" where
  "chars [] = []"
| "chars (c # cs) = (c # take (utf8_len c - 1) cs) # chars (drop (utf8_len c - 1) cs)"

text \<open>\<open>char::is_whitespace\<close>: the \<open>White_Space\<close> property, on the encoding of one scalar value.\<close>

fun is_whitespace :: "string \<Rightarrow> bool" where
  "is_whitespace [a] = (9 \<le> nat_of_char a \<and> nat_of_char a \<le> 13 \<or> nat_of_char a = 32)"
| "is_whitespace [a, b] = (nat_of_char a = 194 \<and> (nat_of_char b = 133 \<or> nat_of_char b = 160))"
| "is_whitespace [a, b, c] =
     (let x = nat_of_char a; y = nat_of_char b; z = nat_of_char c in
        x = 225 \<and> y = 154 \<and> z = 128
      \<or> x = 226 \<and> y = 128 \<and> (128 \<le> z \<and> z \<le> 138 \<or> z = 168 \<or> z = 169 \<or> z = 175)
      \<or> x = 226 \<and> y = 129 \<and> z = 159
      \<or> x = 227 \<and> y = 128 \<and> z = 128)"
| "is_whitespace _ = False"

definition trim :: "string \<Rightarrow> string" where
  "trim s = concat (rev (dropWhile is_whitespace (rev (dropWhile is_whitespace (chars s)))))"

subsection \<open>Integers\<close>

fun digits_value :: "string \<Rightarrow> nat \<Rightarrow> nat" where
  "digits_value [] acc = acc"
| "digits_value (c # cs) acc = digits_value cs (10 * acc + (nat_of_char c - 48))"

text \<open>
  \<open>str::parse\<close> at an unsigned type whose largest value is \<open>bound\<close>: an optional plus sign, then at least
  one decimal digit, and no overflow.
\<close>

definition parse_unsigned :: "nat \<Rightarrow> string \<Rightarrow> nat option" where
  "parse_unsigned bound s =
     (let ds = (case s of c # cs \<Rightarrow> if c = CHR ''+'' then cs else s | [] \<Rightarrow> s) in
      if ds = [] \<or> \<not> list_all is_ascii_digit ds then None
      else if digits_value ds 0 \<le> bound then Some (digits_value ds 0) else None)"

text \<open>\<open>ToString\<close> of an unsigned integer.\<close>

fun to_decimal :: "nat \<Rightarrow> string" where
  "to_decimal n = (if n < 10 then [char_of (48 + n)]
     else to_decimal (n div 10) @ [char_of (48 + n mod 10)])"

declare to_decimal.simps [simp del]

abbreviation u8_max :: nat where "u8_max \<equiv> 255"
abbreviation u16_max :: nat where "u16_max \<equiv> 65535"
abbreviation u32_max :: nat where "u32_max \<equiv> 4294967295"
abbreviation u64_max :: nat where "u64_max \<equiv> 18446744073709551615"

section \<open>Lemmas on the string functions\<close>

lemma starts_with_iff_prefix: "starts_with s p \<longleftrightarrow> prefix p s"
  by (metis append_eq_conv_conj append_take_drop_id prefix_def starts_with_def)

lemma starts_with_Nil [simp]: "starts_with s []"
  by (simp add: starts_with_def)

lemma starts_with_Cons [simp]:
  "starts_with [] (p # ps) = False"
  "starts_with (c # cs) (p # ps) \<longleftrightarrow> c = p \<and> starts_with cs ps"
  by (auto simp: starts_with_def)

lemma starts_with_self [simp]: "starts_with s s"
  by (simp add: starts_with_def)

lemma starts_with_append [simp]: "starts_with (p @ s) p"
  by (simp add: starts_with_def)

lemma starts_with_trans: "starts_with s (p @ q) \<Longrightarrow> starts_with p r \<Longrightarrow> starts_with s r"
  unfolding starts_with_iff_prefix by (meson append_prefixD prefix_order.trans)

lemma strip_prefix_Some: "strip_prefix s p = Some r \<longleftrightarrow> s = p @ r"
  by (auto simp: strip_prefix_def starts_with_iff_prefix elim: prefixE)

lemma strip_prefix_None: "strip_prefix s p = None \<longleftrightarrow> \<not> starts_with s p"
  by (simp add: strip_prefix_def)

lemma ends_with_iff_suffix: "ends_with s p \<longleftrightarrow> suffix p s"
  by (simp add: ends_with_def starts_with_iff_prefix suffix_to_prefix)

lemma contains_iff_sublist: "contains s p \<longleftrightarrow> sublist p s"
proof (induction s)
  case Nil
  show ?case by simp
next
  case (Cons c s)
  then show ?case by (simp add: sublist_Cons_right starts_with_iff_prefix)
qed

lemma contains_single [simp]: "contains s [c] \<longleftrightarrow> c \<in> set s"
  by (induction s) auto

lemma split_on_not_Nil [simp]: "split_on d s \<noteq> []"
  by (induction s) (auto split: list.splits)

lemma split_on_no_delimiter: "w \<in> set (split_on d s) \<Longrightarrow> d \<notin> set w"
proof (induction s arbitrary: w)
  case Nil
  then show ?case by simp
next
  case (Cons c s)
  then show ?case by (cases "split_on d s") (auto split: if_splits)
qed

lemma split_on_id: "d \<notin> set s \<Longrightarrow> split_on d s = [s]"
  by (induction s) auto

lemma split_on_append: "split_on d (a @ d # b) = split_on d a @ split_on d b"
proof (induction a)
  case Nil
  show ?case by simp
next
  case (Cons c a)
  then show ?case by (cases "split_on d a") auto
qed

lemma split_once_Some: "split_once d s = Some (a, b) \<longleftrightarrow> s = a @ d # b \<and> d \<notin> set a"
proof (induction s arbitrary: a)
  case Nil
  show ?case by simp
next
  case (Cons c s)
  then show ?case by (cases a) (auto split: if_splits)
qed

lemma split_once_None: "split_once d s = None \<longleftrightarrow> d \<notin> set s"
  by (induction s) auto

lemma concat_chars [simp]: "concat (chars s) = s"
  by (induction s rule: chars.induct) simp_all

lemma chars_not_Nil: "ch \<in> set (chars s) \<Longrightarrow> ch \<noteq> []"
  by (induction s rule: chars.induct) auto

lemma chars_eq_Nil [simp]: "chars s = [] \<longleftrightarrow> s = []"
  by (cases s) auto

definition is_ascii :: "string \<Rightarrow> bool" where
  "is_ascii s \<longleftrightarrow> list_all (\<lambda>c. nat_of_char c < 128) s"

lemma chars_ascii: "is_ascii s \<Longrightarrow> chars s = map (\<lambda>c. [c]) s"
  by (induction s) (auto simp: is_ascii_def utf8_len_def)

lemma chars_ascii_Cons [simp]: "nat_of_char c < 192 \<Longrightarrow> chars (c # s) = [c] # chars s"
  by (simp add: utf8_len_def)

lemma trim_Nil_iff: "trim s = [] \<longleftrightarrow> list_all is_whitespace (chars s)"
proof -
  define c where "c = dropWhile is_whitespace (chars s)"
  define d where "d = dropWhile is_whitespace (rev c)"
  have "[] \<notin> set d"
    unfolding d_def c_def by (metis chars_not_Nil set_dropWhileD set_rev)
  then have "concat (rev d) = [] \<longleftrightarrow> d = []"
    by (cases d) auto
  then have "trim s = [] \<longleftrightarrow> d = []"
    by (simp add: trim_def c_def d_def)
  also have "\<dots> \<longleftrightarrow> (\<forall>x \<in> set c. is_whitespace x)"
    by (simp add: d_def dropWhile_eq_Nil_conv)
  also have "\<dots> \<longleftrightarrow> c = []"
    unfolding c_def by (metis hd_dropWhile hd_in_set empty_iff empty_set)
  also have "\<dots> \<longleftrightarrow> list_all is_whitespace (chars s)"
    by (simp add: c_def dropWhile_eq_Nil_conv list_all_iff)
  finally show ?thesis .
qed

lemma parse_unsigned_bound: "parse_unsigned b s = Some n \<Longrightarrow> n \<le> b"
  by (auto simp: parse_unsigned_def Let_def split: if_splits list.splits)

lemma length_to_ascii_lowercase [simp]: "length (to_ascii_lowercase s) = length s"
  by (simp add: to_ascii_lowercase_def)

lemma to_ascii_lowercase_Nil_iff [simp]: "to_ascii_lowercase s = [] \<longleftrightarrow> s = []"
  by (simp add: to_ascii_lowercase_def)

lemma nat_of_char_less [simp]: "nat_of_char c < 256"
  by (simp add: nat_of_char_def)

lemma to_ascii_lower_idem: "to_ascii_lower (to_ascii_lower c) = to_ascii_lower c"
  by (auto simp: to_ascii_lower_def nat_of_char_def)

lemma to_ascii_lowercase_idem [simp]:
  "to_ascii_lowercase (to_ascii_lowercase s) = to_ascii_lowercase s"
  by (simp add: to_ascii_lowercase_def to_ascii_lower_idem)

subsection \<open>Decimal numerals\<close>

lemma nat_of_char_digit: "d < 10 \<Longrightarrow> nat_of_char (char_of (48 + d)) = 48 + d"
  by (simp add: nat_of_char_def)

lemma digits_value_append: "digits_value (a @ b) acc = digits_value b (digits_value a acc)"
  by (induction a arbitrary: acc) simp_all

lemma to_decimal_digits: "list_all is_ascii_digit (to_decimal n)"
proof (induction n rule: to_decimal.induct)
  case (1 n)
  then show ?case
    by (cases "n < 10")
      (simp_all add: to_decimal.simps [of n] is_ascii_digit_def nat_of_char_digit)
qed

lemma digits_value_to_decimal [simp]: "digits_value (to_decimal n) 0 = n"
proof (induction n rule: to_decimal.induct)
  case (1 n)
  then show ?case
    by (cases "n < 10") (simp_all add: to_decimal.simps [of n] digits_value_append nat_of_char_digit)
qed

lemma to_decimal_inject: "to_decimal a = to_decimal b \<longleftrightarrow> a = b"
  by (metis digits_value_to_decimal)

lemma length_to_decimal_le: "n < 10 ^ Suc k \<Longrightarrow> length (to_decimal n) \<le> Suc k"
proof (induction k arbitrary: n)
  case 0
  then show ?case by (simp add: to_decimal.simps)
next
  case (Suc k)
  then have "n div 10 < 10 ^ Suc k" by (simp add: less_mult_imp_div_less mult.commute)
  with Suc.IH show ?case by (subst to_decimal.simps) auto
qed

lemma length_to_decimal:
  "10 ^ k \<le> n \<Longrightarrow> n < 10 ^ Suc k \<Longrightarrow> length (to_decimal n) = Suc k"
proof (induction k arbitrary: n)
  case 0
  then show ?case by (simp add: to_decimal.simps [of n])
next
  case (Suc k)
  then have "10 ^ k \<le> n div 10" "n div 10 < 10 ^ Suc k" by simp_all
  moreover have "\<not> n < 10"
    using Suc.prems(1) one_le_power [of "10::nat" k] by (auto dest: le_less_trans)
  ultimately show ?case by (simp add: to_decimal.simps [of n] Suc.IH)
qed

end
