(* ===== verification/Store_Records.thy ===== *)
theory Store_Records
  imports Rust_Prelude
begin

text \<open>
  The types of the persistent store (\<open>external-store/src/records.rs\<close>, \<open>error.rs\<close>, the integer
  conversions of \<open>store.rs\<close>). Every enumeration that the database keeps as TEXT comes with its two
  functions \<open>as_str\<close> and \<open>parse\<close>, and the locale \<open>enum_codec\<close> collects what the store relies on of
  such a pair: parsing inverts printing, and nothing else parses.

  A \<open>u64\<close> is a natural number and an SQLite INTEGER is an integer; the conversions between them, which
  fail outside the common range, are written out.
\<close>

section \<open>Errors\<close>

datatype StoreError =
    Sqlite string
  | LegacySchemaUnsupported
  | InvalidState string
  | Conflict string

fun StoreError_code :: "StoreError \<Rightarrow> string" where
  "StoreError_code LegacySchemaUnsupported = ''STORE_SCHEMA_VERSION_UNSUPPORTED''"
| "StoreError_code (Sqlite _) = ''PERSISTENCE_ERROR''"
| "StoreError_code (InvalidState _) = ''INVALID_STATE''"
| "StoreError_code (Conflict _) = ''CONFLICT''"

section \<open>Integers\<close>

abbreviation i64_max :: int where "i64_max \<equiv> 9223372036854775807"
abbreviation i64_min :: int where "i64_min \<equiv> - 9223372036854775808"

definition u64_to_i64 :: "nat \<Rightarrow> StoreError + int" where
  "u64_to_i64 v = (if int v \<le> i64_max then Inr (int v) else Inl (InvalidState ''value exceeds SQLite i64''))"

definition usize_to_i64 :: "nat \<Rightarrow> StoreError + int" where
  "usize_to_i64 v = (if int v \<le> i64_max then Inr (int v) else Inl (InvalidState ''value exceeds SQLite i64''))"

definition i64_to_u64 :: "int \<Rightarrow> StoreError + nat" where
  "i64_to_u64 v = (if 0 \<le> v then Inr (nat v) else Inl (InvalidState ''negative SQLite value''))"

section \<open>Enumerations kept as TEXT\<close>

locale enum_codec =
  fixes as_str :: "'a \<Rightarrow> string"
    and parse :: "string \<Rightarrow> StoreError + 'a"
  assumes parse_as_str: "parse (as_str x) = Inr x"
    and parse_sound: "parse s = Inr x \<Longrightarrow> s = as_str x"
begin

lemma as_str_eq_iff: "as_str x = as_str y \<longleftrightarrow> x = y"
  by (metis Inr_inject parse_as_str)

lemma parse_Inr_iff: "parse s = Inr x \<longleftrightarrow> s = as_str x"
  using parse_as_str parse_sound by blast

lemma parse_Inl_iff: "(\<exists>e. parse s = Inl e) \<longleftrightarrow> s \<notin> range as_str"
  by (cases "parse s") (auto simp: parse_Inr_iff parse_as_str dest: parse_sound)

end

subsection \<open>Task phases\<close>

datatype TaskPhase = Queued | Preparing | Running | WaitingInput | Cancelling | Terminal

fun TaskPhase_as_str :: "TaskPhase \<Rightarrow> string" where
  "TaskPhase_as_str Queued = ''QUEUED''"
| "TaskPhase_as_str Preparing = ''PREPARING''"
| "TaskPhase_as_str Running = ''RUNNING''"
| "TaskPhase_as_str WaitingInput = ''WAITING_INPUT''"
| "TaskPhase_as_str Cancelling = ''CANCELLING''"
| "TaskPhase_as_str Terminal = ''TERMINAL''"

definition TaskPhase_parse :: "string \<Rightarrow> StoreError + TaskPhase" where
  "TaskPhase_parse v =
     (if v = ''QUEUED'' then Inr Queued
      else if v = ''PREPARING'' then Inr Preparing
      else if v = ''RUNNING'' then Inr Running
      else if v = ''WAITING_INPUT'' then Inr WaitingInput
      else if v = ''CANCELLING'' then Inr Cancelling
      else if v = ''TERMINAL'' then Inr Terminal
      else Inl (InvalidState (''unknown task phase '' @ v)))"

interpretation phase_codec: enum_codec TaskPhase_as_str TaskPhase_parse
proof
  show "TaskPhase_parse (TaskPhase_as_str x) = Inr x" for x
    by (cases x) (simp_all add: TaskPhase_parse_def)
  show "s = TaskPhase_as_str x" if "TaskPhase_parse s = Inr x" for s x
    using that by (auto simp: TaskPhase_parse_def split: if_splits)
qed

subsection \<open>Task outcomes\<close>

datatype TaskOutcome = Completed | Failed | Cancelled | TimedOut | RuntimeLost | ResultInvalid

fun TaskOutcome_as_str :: "TaskOutcome \<Rightarrow> string" where
  "TaskOutcome_as_str Completed = ''COMPLETED''"
| "TaskOutcome_as_str Failed = ''FAILED''"
| "TaskOutcome_as_str Cancelled = ''CANCELLED''"
| "TaskOutcome_as_str TimedOut = ''TIMED_OUT''"
| "TaskOutcome_as_str RuntimeLost = ''RUNTIME_LOST''"
| "TaskOutcome_as_str ResultInvalid = ''RESULT_INVALID''"

definition TaskOutcome_parse :: "string \<Rightarrow> StoreError + TaskOutcome" where
  "TaskOutcome_parse v =
     (if v = ''COMPLETED'' then Inr Completed
      else if v = ''FAILED'' then Inr Failed
      else if v = ''CANCELLED'' then Inr Cancelled
      else if v = ''TIMED_OUT'' then Inr TimedOut
      else if v = ''RUNTIME_LOST'' then Inr RuntimeLost
      else if v = ''RESULT_INVALID'' then Inr ResultInvalid
      else Inl (InvalidState (''unknown task outcome '' @ v)))"

interpretation outcome_codec: enum_codec TaskOutcome_as_str TaskOutcome_parse
proof
  show "TaskOutcome_parse (TaskOutcome_as_str x) = Inr x" for x
    by (cases x) (simp_all add: TaskOutcome_parse_def)
  show "s = TaskOutcome_as_str x" if "TaskOutcome_parse s = Inr x" for s x
    using that by (auto simp: TaskOutcome_parse_def split: if_splits)
qed

subsection \<open>Turn states\<close>

datatype TurnState = TurnIdle | TurnActive | TurnFailed

fun TurnState_as_str :: "TurnState \<Rightarrow> string" where
  "TurnState_as_str TurnIdle = ''IDLE''"
| "TurnState_as_str TurnActive = ''ACTIVE''"
| "TurnState_as_str TurnFailed = ''FAILED''"

definition TurnState_parse :: "string \<Rightarrow> StoreError + TurnState" where
  "TurnState_parse v =
     (if v = ''IDLE'' then Inr TurnIdle
      else if v = ''ACTIVE'' then Inr TurnActive
      else if v = ''FAILED'' then Inr TurnFailed
      else Inl (InvalidState (''unknown turn state '' @ v)))"

interpretation turn_codec: enum_codec TurnState_as_str TurnState_parse
proof
  show "TurnState_parse (TurnState_as_str x) = Inr x" for x
    by (cases x) (simp_all add: TurnState_parse_def)
  show "s = TurnState_as_str x" if "TurnState_parse s = Inr x" for s x
    using that by (auto simp: TurnState_parse_def split: if_splits)
qed

subsection \<open>Message and pending request states\<close>

text \<open>
  These two have no \<open>as_str\<close> of their own: the statements of \<open>messages.rs\<close> and \<open>pending.rs\<close> write the
  literals, which the two printing functions below collect, and the readers match them.
\<close>

datatype MessageState = MsgQueued | MsgSending | MsgDelivered | MsgFailed

fun MessageState_text :: "MessageState \<Rightarrow> string" where
  "MessageState_text MsgQueued = ''QUEUED''"
| "MessageState_text MsgSending = ''SENDING''"
| "MessageState_text MsgDelivered = ''DELIVERED''"
| "MessageState_text MsgFailed = ''FAILED''"

definition MessageState_parse :: "string \<Rightarrow> StoreError + MessageState" where
  "MessageState_parse v =
     (if v = ''QUEUED'' then Inr MsgQueued
      else if v = ''SENDING'' then Inr MsgSending
      else if v = ''DELIVERED'' then Inr MsgDelivered
      else if v = ''FAILED'' then Inr MsgFailed
      else Inl (InvalidState (''unknown message state '' @ v)))"

interpretation message_codec: enum_codec MessageState_text MessageState_parse
proof
  show "MessageState_parse (MessageState_text x) = Inr x" for x
    by (cases x) (simp_all add: MessageState_parse_def)
  show "s = MessageState_text x" if "MessageState_parse s = Inr x" for s x
    using that by (auto simp: MessageState_parse_def split: if_splits)
qed

datatype PendingRequestState = ReqPending | ReqSending | ReqResponded

fun PendingRequestState_text :: "PendingRequestState \<Rightarrow> string" where
  "PendingRequestState_text ReqPending = ''PENDING''"
| "PendingRequestState_text ReqSending = ''SENDING''"
| "PendingRequestState_text ReqResponded = ''RESPONDED''"

definition PendingRequestState_parse :: "string \<Rightarrow> StoreError + PendingRequestState" where
  "PendingRequestState_parse v =
     (if v = ''PENDING'' then Inr ReqPending
      else if v = ''SENDING'' then Inr ReqSending
      else if v = ''RESPONDED'' then Inr ReqResponded
      else Inl (InvalidState (''unknown pending request state '' @ v)))"

interpretation pending_codec: enum_codec PendingRequestState_text PendingRequestState_parse
proof
  show "PendingRequestState_parse (PendingRequestState_text x) = Inr x" for x
    by (cases x) (simp_all add: PendingRequestState_parse_def)
  show "s = PendingRequestState_text x" if "PendingRequestState_parse s = Inr x" for s x
    using that by (auto simp: PendingRequestState_parse_def split: if_splits)
qed

datatype PendingResponseClaimDisposition =
    Claimed | TaskStopping | NotPending PendingRequestState | NotFound

text \<open>The texts stay folded in proofs: only the laws of the codecs are used.\<close>

declare TaskPhase_as_str.simps [simp del] TaskOutcome_as_str.simps [simp del]
  TurnState_as_str.simps [simp del] MessageState_text.simps [simp del]
  PendingRequestState_text.simps [simp del]

lemmas codec_simps [simp] =
  phase_codec.parse_as_str phase_codec.as_str_eq_iff
  outcome_codec.parse_as_str outcome_codec.as_str_eq_iff
  turn_codec.parse_as_str turn_codec.as_str_eq_iff
  message_codec.parse_as_str message_codec.as_str_eq_iff
  pending_codec.parse_as_str pending_codec.as_str_eq_iff

section \<open>Records\<close>

record NewTask =
  new_agent_id :: string
  new_repository :: string
  new_workspace_path :: string
  new_runtime_hash :: "string option"
  new_prepared_launch_json :: string
  new_initial_prompt :: string

record StoredProcessIdentity =
  pid :: nat
  process_group_id :: int
  uid :: nat
  start_token :: string

record TaskRecord =
  agent_id :: string
  repository :: string
  phase :: TaskPhase
  outcome :: "TaskOutcome option"
  workspace_path :: string
  runtime_hash :: "string option"
  prepared_launch_json :: string
  initial_prompt :: string
  owner_id :: "string option"
  owner_epoch :: nat
  close_requested :: bool
  stop_requested :: bool
  last_event_seq :: nat
  task_failure_code :: "string option"
  task_failure_message :: "string option"
  runtime_agent_id :: "string option"
  session_id :: "string option"
  turn_state :: TurnState
  process_identity :: "StoredProcessIdentity option"
  closed_at :: "int option"
  reaped_at :: "int option"
  created_at :: int

record TaskResult =
  result_outcome :: TaskOutcome
  final_text :: string
  partial :: bool

record StoredTaskResult =
  stored_result :: TaskResult
  result_sha256 :: string

record TaskPageFilter =
  filter_agent :: "string option"
  filter_phase :: "TaskPhase option"
  filter_outcome :: "TaskOutcome option"

record TaskWindowQuery =
  window_agent_id :: "string option"
  window_workspace_path :: "string option"
  start_ms :: "int option"
  end_ms :: "int option"

record TaskPage =
  page_tasks :: "TaskRecord list"
  next_cursor :: "nat option"

record TaskClaim =
  claim_task :: TaskRecord
  claim_owner_epoch :: nat

record TerminalUpdate =
  terminal_outcome :: TaskOutcome
  terminal_failure_code :: "string option"
  terminal_failure_message :: "string option"

record LifecycleWrite =
  write_agent_id :: string
  write_runtime_agent_id :: string
  write_owner_epoch :: nat
  source_sequence :: nat
  event_type :: string
  turn_id :: "string option"
  payload_json :: string
  redaction_level :: string
  terminal :: "TerminalUpdate option"
  write_turn_state :: "TurnState option"

record ControlDecision =
  decision_phase :: TaskPhase
  decision_outcome :: "TaskOutcome option"
  decision_owner_epoch :: nat
  needs_runtime_stop :: bool
  prior_stop_or_close :: bool

record StoredMessage =
  message_id :: string
  message_agent_id :: string
  message_mode :: string
  message_content :: string
  message_state :: MessageState
  target_turn_id :: "string option"
  message_failure_code :: "string option"
  message_created_at :: int
  delivered_at :: "int option"

record StoredPendingRequest =
  request_id :: string
  request_agent_id :: string
  correlation_id :: string
  request_type :: string
  request_payload_json :: string
  request_state :: PendingRequestState
  response_decision :: "string option"
  response_content :: "string option"
  request_created_at :: int

section \<open>Lemmas\<close>

lemma u64_to_i64_Inr: "u64_to_i64 v = Inr i \<longleftrightarrow> int v \<le> i64_max \<and> i = int v"
  by (auto simp: u64_to_i64_def)

lemma i64_to_u64_Inr: "i64_to_u64 i = Inr v \<longleftrightarrow> 0 \<le> i \<and> i = int v"
  by (auto simp: i64_to_u64_def)

text \<open>
  An integer the store writes reads back as it was: every unsigned value that converts to an SQLite
  INTEGER converts back to itself, and every non-negative 64-bit INTEGER survives the other round.
\<close>

theorem sqlite_integer_roundtrip:
  "(\<exists>i. u64_to_i64 v = Inr i \<and> i64_to_u64 i = Inr v) = (v < 2 ^ 63)
   \<and> ((\<exists>w. i64_to_u64 j = Inr w \<and> u64_to_i64 w = Inr j) = (0 \<le> j \<and> j < 2 ^ 63))"
  by (auto simp: u64_to_i64_def i64_to_u64_def)

end
