(* ===== verification/Store_Tables.thy ===== *)
theory Store_Tables
  imports Store_Records
begin

text \<open>
  The database of the store: the tables of \<open>external-store/src/schema.rs\<close> as lists of rows in rowid
  order, the statements the operations are made of, and the readers \<open>query_task\<close>,
  \<open>convert_task_row\<close>, \<open>query_guard\<close> (\<open>tasks.rs\<close>), \<open>insert_ledger\<close>, \<open>settle_terminal_commands\<close> and
  \<open>apply_terminal\<close> (\<open>lifecycle.rs\<close>).

  TEXT columns hold strings, also where the code keeps an enumeration in them, so that a reader can
  meet a text it cannot decode; INTEGER flags, which are only ever written as 0 or 1, are Booleans. A
  statement that violates the CHECK or a key of its table fails with a \<open>Sqlite\<close> error. An operation is
  a function from the store to an error, which leaves the transaction rolled back and the store
  unchanged, or to its value and the committed store. The clock is an argument: \<open>clock i\<close> is the
  answer of the operation's \<open>i\<close>-th call of \<open>now_millis\<close>.
\<close>

section \<open>Tables\<close>

record task_row =
  t_agent_id :: string
  t_repository :: string
  t_phase :: string
  t_outcome :: "string option"
  t_workspace_path :: string
  t_runtime_hash :: "string option"
  t_prepared_launch_json :: string
  t_initial_prompt :: string
  t_session_id :: "string option"
  t_turn_state :: string
  t_pid :: "int option"
  t_process_group_id :: "int option"
  t_process_uid :: "int option"
  t_process_start_token :: "string option"
  t_runtime_agent_id :: "string option"
  t_owner_id :: "string option"
  t_owner_epoch :: int
  t_lease_expires_at :: "int option"
  t_close_requested :: bool
  t_stop_requested :: bool
  t_created_at :: int
  t_started_at :: "int option"
  t_completed_at :: "int option"
  t_last_heartbeat_at :: "int option"
  t_last_event_seq :: int
  t_failure_code :: "string option"
  t_failure_message :: "string option"
  t_closed_at :: "int option"
  t_reaped_at :: "int option"

record event_row =
  e_agent_id :: string
  e_runtime_agent_id :: string
  e_seq :: int
  e_source_seq :: int
  e_timestamp :: int
  e_event_type :: string
  e_turn_id :: "string option"
  e_payload_json :: string
  e_redaction_level :: string

record message_row =
  m_message_id :: string
  m_agent_id :: string
  m_mode :: string
  m_content :: string
  m_state :: string
  m_created_at :: int
  m_delivered_at :: "int option"
  m_target_turn_id :: "string option"
  m_failure_code :: "string option"
  m_failure_message :: "string option"

record pending_row =
  p_request_id :: string
  p_agent_id :: string
  p_correlation_id :: string
  p_request_type :: string
  p_payload_json :: string
  p_state :: string
  p_created_at :: int
  p_responded_at :: "int option"
  p_response_decision :: "string option"
  p_response_content :: "string option"

record result_row =
  r_agent_id :: string
  r_outcome :: string
  r_final_text :: string
  r_partial :: bool
  r_sha256 :: string
  r_completed_at :: int

record ledger_row =
  l_agent_id :: string
  l_owner_epoch :: int
  l_from_phase :: "string option"
  l_to_phase :: string
  l_outcome :: "string option"
  l_reason_code :: "string option"
  l_recorded_at :: int

record store =
  tasks :: "task_row list"
  events :: "event_row list"
  messages :: "message_row list"
  pending_requests :: "pending_row list"
  task_results :: "result_row list"
  lifecycle_ledger :: "ledger_row list"
  next_id :: int

definition empty_store :: store where
  "empty_store = \<lparr>tasks = [], events = [], messages = [], pending_requests = [], task_results = [],
     lifecycle_ledger = [], next_id = 10000000\<rparr>"

type_synonym clock = "nat \<Rightarrow> int"

type_synonym 'a op = "store \<Rightarrow> StoreError + 'a \<times> store"

section \<open>Statements\<close>

text \<open>\<open>CHECK ((phase = 'TERMINAL') = (outcome IS NOT NULL))\<close>.\<close>

definition task_check :: "task_row \<Rightarrow> bool" where
  "task_check r \<longleftrightarrow> (t_phase r = TaskPhase_as_str Terminal) = (t_outcome r \<noteq> None)"

text \<open>\<open>UPDATE \<dots> SET f WHERE p\<close>, and the number of rows it changed.\<close>

definition update_rows :: "('r \<Rightarrow> bool) \<Rightarrow> ('r \<Rightarrow> 'r) \<Rightarrow> 'r list \<Rightarrow> 'r list" where
  "update_rows p f rows = map (\<lambda>r. if p r then f r else r) rows"

definition changed_rows :: "('r \<Rightarrow> bool) \<Rightarrow> 'r list \<Rightarrow> nat" where
  "changed_rows p rows = length (filter p rows)"

definition update_tasks :: "(task_row \<Rightarrow> bool) \<Rightarrow> (task_row \<Rightarrow> task_row) \<Rightarrow> nat op" where
  "update_tasks p f s =
     (if list_ex (\<lambda>r. p r \<and> \<not> task_check (f r)) (tasks s)
      then Inl (Sqlite ''CHECK constraint failed'')
      else Inr (changed_rows p (tasks s), s\<lparr>tasks := update_rows p f (tasks s)\<rparr>))"

definition insert_task_row :: "task_row \<Rightarrow> unit op" where
  "insert_task_row r s =
     (if list_ex (\<lambda>x. t_agent_id x = t_agent_id r) (tasks s)
      then Inl (Sqlite ''UNIQUE constraint failed'')
      else if \<not> task_check r then Inl (Sqlite ''CHECK constraint failed'')
      else Inr ((), s\<lparr>tasks := tasks s @ [r]\<rparr>))"

definition find_task :: "store \<Rightarrow> string \<Rightarrow> task_row option" where
  "find_task s aid = find (\<lambda>r. t_agent_id r = aid) (tasks s)"

definition coalesce :: "'a option \<Rightarrow> 'a option \<Rightarrow> 'a option" where
  "coalesce a b = (case a of None \<Rightarrow> b | Some x \<Rightarrow> Some x)"

text \<open>\<open>ORDER BY created_at, rowid\<close>: the sort is stable and the rows are in rowid order.\<close>

definition by_created :: "('r \<Rightarrow> int) \<Rightarrow> 'r list \<Rightarrow> 'r list" where
  "by_created created rows = sort_key created rows"

abbreviation first_row :: "'r list \<Rightarrow> 'r option" where
  "first_row rows \<equiv> (case rows of [] \<Rightarrow> None | r # _ \<Rightarrow> Some r)"

text \<open>\<open>phase IN (\<dots>)\<close>.\<close>

definition phase_in :: "TaskPhase list \<Rightarrow> task_row \<Rightarrow> bool" where
  "phase_in ps r \<longleftrightarrow> t_phase r \<in> TaskPhase_as_str ` set ps"

abbreviation nonterminal_phases :: "TaskPhase list" where
  "nonterminal_phases \<equiv> [Queued, Preparing, Running, WaitingInput, Cancelling]"

abbreviation active_phases :: "TaskPhase list" where
  "active_phases \<equiv> [Preparing, Running, WaitingInput, Cancelling]"

section \<open>Readers\<close>

text \<open>The reader of an optional enumeration column.\<close>

definition parse_outcome_column :: "string option \<Rightarrow> StoreError + TaskOutcome option" where
  "parse_outcome_column v =
     (case v of None \<Rightarrow> Inr None
      | Some text \<Rightarrow> res_bind (TaskOutcome_parse text) (\<lambda>x. Inr (Some x)))"

definition u32_try_from :: "string \<Rightarrow> int \<Rightarrow> StoreError + nat" where
  "u32_try_from err v = (if 0 \<le> v \<and> v \<le> 4294967295 then Inr (nat v) else Inl (InvalidState err))"

definition i32_try_from :: "string \<Rightarrow> int \<Rightarrow> StoreError + int" where
  "i32_try_from err v = (if - 2147483648 \<le> v \<and> v \<le> 2147483647 then Inr v else Inl (InvalidState err))"

definition convert_process_identity :: "task_row \<Rightarrow> StoreError + StoredProcessIdentity option" where
  "convert_process_identity r =
     (case (t_pid r, t_process_group_id r, t_process_uid r, t_process_start_token r) of
        (Some p, Some g, Some u, Some token) \<Rightarrow>
          res_bind (u32_try_from ''stored pid is invalid'' p) (\<lambda>p'.
          res_bind (i32_try_from ''stored process group is invalid'' g) (\<lambda>g'.
          res_bind (u32_try_from ''stored uid is invalid'' u) (\<lambda>u'.
            Inr (Some \<lparr>pid = p', process_group_id = g', uid = u', start_token = token\<rparr>))))
      | (None, None, None, None) \<Rightarrow> Inr None
      | _ \<Rightarrow> Inl (InvalidState ''stored process identity is incomplete''))"

definition convert_task_row :: "task_row \<Rightarrow> StoreError + TaskRecord" where
  "convert_task_row r =
     res_bind (convert_process_identity r) (\<lambda>identity.
     res_bind (TaskPhase_parse (t_phase r)) (\<lambda>ph.
     res_bind (parse_outcome_column (t_outcome r)) (\<lambda>oc.
     res_bind (i64_to_u64 (t_owner_epoch r)) (\<lambda>epoch.
     res_bind (TurnState_parse (t_turn_state r)) (\<lambda>turn.
     res_bind (i64_to_u64 (t_last_event_seq r)) (\<lambda>seq.
       Inr \<lparr>agent_id = t_agent_id r, repository = t_repository r, phase = ph, outcome = oc,
            workspace_path = t_workspace_path r, runtime_hash = t_runtime_hash r,
            prepared_launch_json = t_prepared_launch_json r, initial_prompt = t_initial_prompt r,
            owner_id = t_owner_id r, owner_epoch = epoch, close_requested = t_close_requested r,
            stop_requested = t_stop_requested r, last_event_seq = seq,
            task_failure_code = t_failure_code r, task_failure_message = t_failure_message r,
            runtime_agent_id = t_runtime_agent_id r, session_id = t_session_id r, turn_state = turn,
            process_identity = identity, closed_at = t_closed_at r, reaped_at = t_reaped_at r,
            created_at = t_created_at r\<rparr>))))))"

definition query_task :: "store \<Rightarrow> string \<Rightarrow> StoreError + TaskRecord option" where
  "query_task s aid =
     (case find_task s aid of
        None \<Rightarrow> Inr None
      | Some r \<Rightarrow> res_bind (convert_task_row r) (\<lambda>t. Inr (Some t)))"

definition require_task :: "string \<Rightarrow> store \<Rightarrow> string \<Rightarrow> StoreError + TaskRecord" where
  "require_task err s aid = res_bind (query_task s aid) (ok_or (InvalidState err))"

definition query_guard ::
    "store \<Rightarrow> string \<Rightarrow> StoreError + TaskPhase \<times> TaskOutcome option \<times> nat \<times> bool \<times> bool" where
  "query_guard s aid =
     (case find_task s aid of
        None \<Rightarrow> Inl (InvalidState (''unknown task '' @ aid))
      | Some r \<Rightarrow>
          res_bind (TaskPhase_parse (t_phase r)) (\<lambda>ph.
          res_bind (parse_outcome_column (t_outcome r)) (\<lambda>oc.
          res_bind (i64_to_u64 (t_owner_epoch r)) (\<lambda>epoch.
            Inr (ph, oc, epoch, t_close_requested r, t_stop_requested r)))))"

section \<open>Shared steps of the transactions\<close>

definition insert_ledger ::
    "int \<Rightarrow> string \<Rightarrow> nat \<Rightarrow> TaskPhase option \<Rightarrow> TaskPhase \<Rightarrow> TaskOutcome option \<Rightarrow> string option
     \<Rightarrow> store \<Rightarrow> StoreError + store" where
  "insert_ledger now aid epoch from to_ph oc code s =
     res_bind (u64_to_i64 epoch) (\<lambda>e.
       Inr (s\<lparr>lifecycle_ledger := lifecycle_ledger s @
         [\<lparr>l_agent_id = aid, l_owner_epoch = e, l_from_phase = map_option TaskPhase_as_str from,
           l_to_phase = TaskPhase_as_str to_ph, l_outcome = map_option TaskOutcome_as_str oc,
           l_reason_code = code, l_recorded_at = now\<rparr>]\<rparr>))"

definition open_message :: "string \<Rightarrow> message_row \<Rightarrow> bool" where
  "open_message aid m \<longleftrightarrow>
     m_agent_id m = aid \<and> (m_state m = MessageState_text MsgQueued \<or> m_state m = MessageState_text MsgSending)"

definition open_request :: "string \<Rightarrow> pending_row \<Rightarrow> bool" where
  "open_request aid p \<longleftrightarrow>
     p_agent_id p = aid
     \<and> (p_state p = PendingRequestState_text ReqPending \<or> p_state p = PendingRequestState_text ReqSending)"

definition settle_terminal_commands :: "string \<Rightarrow> string \<Rightarrow> store \<Rightarrow> store" where
  "settle_terminal_commands aid reason_code s =
     s\<lparr>messages := update_rows (open_message aid)
          (\<lambda>m. m\<lparr>m_state := MessageState_text MsgFailed, m_failure_code := Some reason_code,
                 m_failure_message := Some ''runtime is no longer available''\<rparr>) (messages s),
       pending_requests := filter (\<lambda>p. \<not> open_request aid p) (pending_requests s)\<rparr>"

definition effective_outcome :: "bool \<Rightarrow> bool \<Rightarrow> TaskOutcome \<Rightarrow> TaskOutcome" where
  "effective_outcome close stop oc =
     (if (stop \<or> close) \<and> oc \<noteq> Cancelled then Cancelled else oc)"

definition failing_outcomes :: "TaskOutcome list" where
  "failing_outcomes = [Failed, RuntimeLost, ResultInvalid]"

definition apply_terminal ::
    "int \<Rightarrow> int \<Rightarrow> string \<Rightarrow> nat \<Rightarrow> TaskPhase \<Rightarrow> bool \<Rightarrow> bool \<Rightarrow> TerminalUpdate \<Rightarrow> TaskOutcome op" where
  "apply_terminal now ledger_now aid epoch from_phase close stop upd s =
     (if from_phase = Terminal then Inl (Conflict ''task is already terminal'')
      else
        (let oc = effective_outcome close stop (terminal_outcome upd);
             message = (if oc \<in> set failing_outcomes then terminal_failure_message upd else None) in
         res_bind (u64_to_i64 epoch) (\<lambda>e.
         res_bind
           (update_tasks
              (\<lambda>r. t_agent_id r = aid \<and> t_owner_epoch r = e \<and> t_phase r \<noteq> TaskPhase_as_str Terminal)
              (\<lambda>r. r\<lparr>t_phase := TaskPhase_as_str Terminal, t_outcome := Some (TaskOutcome_as_str oc),
                     t_completed_at := coalesce (t_completed_at r) (Some now),
                     t_failure_code := terminal_failure_code upd, t_failure_message := message,
                     t_turn_state := TurnState_as_str (if oc \<in> set failing_outcomes then TurnFailed else TurnIdle),
                     t_closed_at := (if t_close_requested r then coalesce (t_closed_at r) (Some now)
                                     else t_closed_at r)\<rparr>) s)
           (\<lambda>(changed, s1).
              if changed \<noteq> 1
              then Inl (Conflict (''terminal transition lost for '' @ aid @ '' epoch '' @ to_decimal epoch))
              else
                res_bind
                  (insert_ledger ledger_now aid epoch (Some from_phase) Terminal (Some oc)
                     (terminal_failure_code upd)
                     (settle_terminal_commands aid
                        (case terminal_failure_code upd of None \<Rightarrow> ''TASK_TERMINATED'' | Some c \<Rightarrow> c) s1))
                  (\<lambda>s2. Inr (oc, s2))))))"

end
