(* ===== verification/Store_Tasks.thy ===== *)
theory Store_Tasks
  imports Store_Tables "HOL-Library.List_Lexorder" "HOL-Library.Char_ord"
begin

text \<open>
  The operations of \<open>external-store/src/tasks.rs\<close>: identities, submission, queries, claims, the
  cancellation of a task that has not started and the start of its runtime.

  The SQLite function that extracts the admitted agent from the launch JSON is the argument
  \<open>admission_agent\<close> of the query that uses it.
\<close>

section \<open>Identities and submission\<close>

definition reserve_task_id :: "string op" where
  "reserve_task_id s =
     (let next = next_id s in
      if \<not> (10000000 \<le> next \<and> next \<le> 99999999)
      then Inl (Conflict ''task id allocator exhausted'')
      else Inr (to_decimal (nat next), s\<lparr>next_id := next + 1\<rparr>))"

definition new_task_columns :: "NewTask \<Rightarrow> (string \<times> string) list" where
  "new_task_columns t =
     [(''agent_id'', new_agent_id t), (''repository'', new_repository t),
      (''workspace_path'', new_workspace_path t), (''prepared_launch_json'', new_prepared_launch_json t),
      (''initial_prompt'', new_initial_prompt t)]"

definition invalid_column :: "string \<Rightarrow> bool" where
  "invalid_column v \<longleftrightarrow> trim v = [] \<or> CHR 0x00 \<in> set v"

definition validate_task :: "NewTask \<Rightarrow> StoreError + unit" where
  "validate_task t =
     (case find (\<lambda>(n, v). invalid_column v) (new_task_columns t) of
        None \<Rightarrow> Inr ()
      | Some (n, v) \<Rightarrow> Inl (InvalidState (n @ '' is invalid'')))"

definition new_task_row :: "NewTask \<Rightarrow> int \<Rightarrow> task_row" where
  "new_task_row t now =
     \<lparr>t_agent_id = new_agent_id t, t_repository = new_repository t, t_phase = TaskPhase_as_str Queued,
      t_outcome = None, t_workspace_path = new_workspace_path t, t_runtime_hash = new_runtime_hash t,
      t_prepared_launch_json = new_prepared_launch_json t, t_initial_prompt = new_initial_prompt t,
      t_session_id = None, t_turn_state = TurnState_as_str TurnIdle, t_pid = None,
      t_process_group_id = None, t_process_uid = None, t_process_start_token = None,
      t_runtime_agent_id = None, t_owner_id = None, t_owner_epoch = 0, t_lease_expires_at = None,
      t_close_requested = False, t_stop_requested = False, t_created_at = now, t_started_at = None,
      t_completed_at = None, t_last_heartbeat_at = None, t_last_event_seq = 0, t_failure_code = None,
      t_failure_message = None, t_closed_at = None, t_reaped_at = None\<rparr>"

definition workspace_owner :: "store \<Rightarrow> (task_row \<Rightarrow> bool) \<Rightarrow> task_row option" where
  "workspace_owner s p =
     first_row (by_created t_created_at (filter (\<lambda>r. p r \<and> phase_in nonterminal_phases r) (tasks s)))"

definition enqueue_task_authoritative :: "clock \<Rightarrow> NewTask \<Rightarrow> TaskRecord op" where
  "enqueue_task_authoritative clock t s =
     res_bind (validate_task t) (\<lambda>_.
     res_bind (query_task s (new_agent_id t)) (\<lambda>existing.
       if existing \<noteq> None
       then Inl (Conflict (''agent id '' @ new_agent_id t @ '' already exists''))
       else
         (case workspace_owner s (\<lambda>r. t_workspace_path r = new_workspace_path t) of
            Some active \<Rightarrow> Inl (Conflict (''WORKSPACE_BUSY active_agent_id='' @ t_agent_id active))
          | None \<Rightarrow>
              res_bind (insert_task_row (new_task_row t (clock 0)) s) (\<lambda>(_, s1).
              res_bind (insert_ledger (clock 1) (new_agent_id t) 0 None Queued None None s1) (\<lambda>s2.
              res_bind (require_task ''inserted task disappeared'' s2 (new_agent_id t)) (\<lambda>stored.
                Inr (stored, s2)))))))"

section \<open>Queries\<close>

definition get_task :: "store \<Rightarrow> string \<Rightarrow> StoreError + TaskRecord option" where
  "get_task s aid = query_task s aid"

definition validate_scope :: "string option \<Rightarrow> StoreError + unit" where
  "validate_scope scope =
     (if scope = None then Inl (InvalidState ''repository or group task scope is required'') else Inr ())"

definition matches_option :: "'a option \<Rightarrow> 'a \<Rightarrow> bool" where
  "matches_option wanted v \<longleftrightarrow> wanted = None \<or> wanted = Some v"

definition get_task_scoped :: "store \<Rightarrow> string \<Rightarrow> string option \<Rightarrow> StoreError + TaskRecord option" where
  "get_task_scoped s aid scope =
     res_bind (validate_scope scope) (\<lambda>_.
       (case find (\<lambda>r. t_agent_id r = aid \<and> matches_option scope (t_repository r)) (tasks s) of
          None \<Rightarrow> Inr None
        | Some r \<Rightarrow> query_task s (t_agent_id r)))"

text \<open>Tasks are never deleted, so the rowid of a task is its position, counted from one.\<close>

definition numbered_tasks :: "store \<Rightarrow> (nat \<times> task_row) list" where
  "numbered_tasks s = zip [1 ..< Suc (length (tasks s))] (tasks s)"

definition page_match ::
    "(string \<Rightarrow> string option) \<Rightarrow> string option \<Rightarrow> TaskPageFilter \<Rightarrow> nat option \<Rightarrow> nat \<times> task_row \<Rightarrow> bool" where
  "page_match admission_agent scope flt cursor row \<longleftrightarrow>
     matches_option scope (t_repository (snd row))
     \<and> matches_option (map_option TaskPhase_as_str (filter_phase flt)) (t_phase (snd row))
     \<and> (filter_outcome flt = None \<or> map_option TaskOutcome_as_str (filter_outcome flt) = t_outcome (snd row))
     \<and> (case cursor of None \<Rightarrow> True | Some c \<Rightarrow> fst row < c)
     \<and> (case filter_agent flt of None \<Rightarrow> True
        | Some a \<Rightarrow> admission_agent (t_prepared_launch_json (snd row)) = Some a)"

definition saturating_add_usize :: "nat \<Rightarrow> nat \<Rightarrow> nat" where
  "saturating_add_usize a b = min (a + b) u64_max"

definition list_task_page ::
    "(string \<Rightarrow> string option) \<Rightarrow> store \<Rightarrow> string option \<Rightarrow> TaskPageFilter \<Rightarrow> nat option \<Rightarrow> nat
     \<Rightarrow> StoreError + TaskPage" where
  "list_task_page admission_agent s scope flt cursor limit =
     res_bind (validate_scope scope) (\<lambda>_.
       if limit = 0 then Inl (InvalidState ''task page limit must be positive'')
       else
         res_bind (case cursor of None \<Rightarrow> Inr () | Some c \<Rightarrow> res_bind (u64_to_i64 c) (\<lambda>_. Inr ())) (\<lambda>_.
         res_bind (usize_to_i64 (saturating_add_usize limit 1)) (\<lambda>n.
           (let rows = take (nat n) (filter (page_match admission_agent scope flt cursor)
                         (rev (numbered_tasks s)));
                selected = take limit rows in
            res_bind (res_collect (\<lambda>(_, r). require_task ''listed task disappeared'' s (t_agent_id r)) selected)
              (\<lambda>ts. Inr \<lparr>page_tasks = ts,
                        next_cursor = (if limit < length rows then Some (fst (last selected)) else None)\<rparr>)))))"

definition window_match :: "TaskWindowQuery \<Rightarrow> task_row \<Rightarrow> bool" where
  "window_match q r \<longleftrightarrow>
     matches_option (window_agent_id q) (t_agent_id r)
     \<and> matches_option (window_workspace_path q) (t_workspace_path r)
     \<and> (case start_ms q of None \<Rightarrow> True | Some a \<Rightarrow> a \<le> t_created_at r)
     \<and> (case end_ms q of None \<Rightarrow> True
        | Some b \<Rightarrow> (case t_completed_at r of None \<Rightarrow> False | Some c \<Rightarrow> c \<le> b))"

definition list_task_window :: "store \<Rightarrow> TaskWindowQuery \<Rightarrow> StoreError + TaskRecord list" where
  "list_task_window s q =
     (if window_agent_id q = None \<and> window_workspace_path q = None
      then Inl (InvalidState ''agent_id or workspace_path query scope is required'')
      else if (case (start_ms q, end_ms q) of (Some a, Some b) \<Rightarrow> b < a | _ \<Rightarrow> False)
      then Inl (InvalidState ''query start_ms must be less than or equal to end_ms'')
      else
        res_collect (\<lambda>r. require_task ''task disappeared during query'' s (t_agent_id r))
          (by_created t_created_at (sort_key t_agent_id (filter (window_match q) (tasks s)))))"

section \<open>Claims\<close>

definition active_in_repository :: "store \<Rightarrow> string \<Rightarrow> nat" where
  "active_in_repository s repo =
     length (filter (\<lambda>r. t_repository r = repo \<and> phase_in active_phases r) (tasks s))"

definition queued_free :: "task_row \<Rightarrow> bool" where
  "queued_free r \<longleftrightarrow>
     t_phase r = TaskPhase_as_str Queued \<and> \<not> t_close_requested r \<and> \<not> t_stop_requested r"

definition claimable :: "store \<Rightarrow> int \<Rightarrow> task_row \<Rightarrow> bool" where
  "claimable s limit r \<longleftrightarrow>
     queued_free r \<and> int (active_in_repository s (t_repository r)) < limit"

text \<open>
  The update both claims make of the candidate. An \<open>owner_epoch\<close> past the range of INTEGER turns into a
  REAL, which the following read refuses.
\<close>

definition claim_row :: "clock \<Rightarrow> string \<Rightarrow> string \<Rightarrow> TaskClaim option op" where
  "claim_row clock owner aid s =
     res_bind
       (update_tasks (\<lambda>r. t_agent_id r = aid \<and> queued_free r)
          (\<lambda>r. r\<lparr>t_phase := TaskPhase_as_str Preparing, t_owner_id := Some owner,
                 t_owner_epoch := t_owner_epoch r + 1,
                 t_started_at := coalesce (t_started_at r) (Some (clock 0)),
                 t_last_heartbeat_at := Some (clock 0)\<rparr>) s)
       (\<lambda>(changed, s1).
          if changed \<noteq> 1 then Inl (Conflict (''task '' @ aid @ '' lost its queue claim''))
          else if list_ex (\<lambda>r. t_agent_id r = aid \<and> i64_max < t_owner_epoch r) (tasks s1)
          then Inl (Sqlite ''Invalid column type Real'')
          else
            res_bind (require_task ''claimed task disappeared'' s1 aid) (\<lambda>task.
            res_bind (insert_ledger (clock 1) aid (owner_epoch task) (Some Queued) Preparing None
                        (Some ''CLAIMED'') s1) (\<lambda>s2.
              Inr (Some \<lparr>claim_task = task, claim_owner_epoch = owner_epoch task\<rparr>, s2))))"

definition claim_next :: "clock \<Rightarrow> string \<Rightarrow> nat \<Rightarrow> nat \<Rightarrow> TaskClaim option op" where
  "claim_next clock owner global_limit per_workspace_limit s =
     (if per_workspace_limit = 0 then Inr (None, s)
      else
        res_bind (usize_to_i64 per_workspace_limit) (\<lambda>limit.
          (case first_row (by_created t_created_at (filter (claimable s limit) (tasks s))) of
             None \<Rightarrow> Inr (None, s)
           | Some r \<Rightarrow> claim_row clock owner (t_agent_id r) s)))"

definition claim_specific :: "clock \<Rightarrow> string \<Rightarrow> string \<Rightarrow> nat \<Rightarrow> TaskClaim option op" where
  "claim_specific clock aid owner per_workspace_limit s =
     (if per_workspace_limit = 0 then Inr (None, s)
      else
        res_bind (usize_to_i64 per_workspace_limit) (\<lambda>limit.
          (case find (\<lambda>r. t_agent_id r = aid \<and> claimable s limit r) (tasks s) of
             None \<Rightarrow> Inr (None, s)
           | Some r \<Rightarrow> claim_row clock owner (t_agent_id r) s)))"

section \<open>Cancellation before the start, and the start\<close>

definition cancel_unstarted_if_still_fresh :: "clock \<Rightarrow> string \<Rightarrow> (TaskRecord + TaskPhase \<times> nat) op" where
  "cancel_unstarted_if_still_fresh clock aid s =
     res_bind (require_task (''unknown task '' @ aid) s aid) (\<lambda>task.
       if \<not> (session_id task = None \<and> (phase task = Queued \<or> phase task = Preparing)
              \<and> \<not> stop_requested task)
       then Inr (Inl task, s)
       else
         res_bind
           (update_tasks
              (\<lambda>r. t_agent_id r = aid \<and> t_session_id r = None \<and> phase_in [Queued, Preparing] r
                   \<and> \<not> t_stop_requested r)
              (\<lambda>r. r\<lparr>t_phase := TaskPhase_as_str Cancelling, t_stop_requested := True\<rparr>) s)
           (\<lambda>(changed, s1).
              if changed \<noteq> 1 then
                res_bind (require_task (''task '' @ aid @ '' disappeared'') s1 aid)
                  (\<lambda>current. Inr (Inl current, s1))
              else
                res_bind
                  (insert_ledger (clock 0) aid (owner_epoch task) (Some (phase task)) Cancelling None
                     (Some ''STOP_REQUESTED'') (settle_terminal_commands aid ''STOP_REQUESTED'' s1))
                  (\<lambda>s2. Inr (Inr (phase task, owner_epoch task), s2))))"

definition mark_session_running ::
    "clock \<Rightarrow> string \<Rightarrow> nat \<Rightarrow> string \<Rightarrow> StoredProcessIdentity option \<Rightarrow> string option \<Rightarrow> TurnState option
     \<Rightarrow> bool op" where
  "mark_session_running clock aid epoch runtime identity session turn s =
     res_bind (u64_to_i64 epoch) (\<lambda>e.
     res_bind
       (update_tasks
          (\<lambda>r. t_agent_id r = aid \<and> t_owner_epoch r = e \<and> t_phase r = TaskPhase_as_str Preparing)
          (\<lambda>r. r\<lparr>t_phase := TaskPhase_as_str Running, t_runtime_agent_id := Some runtime,
                 t_pid := map_option (\<lambda>i. int (pid i)) identity,
                 t_process_group_id := map_option process_group_id identity,
                 t_process_uid := map_option (\<lambda>i. int (uid i)) identity,
                 t_process_start_token := map_option start_token identity,
                 t_last_heartbeat_at := Some (clock 0),
                 t_session_id := coalesce session (t_session_id r),
                 t_turn_state := (case turn of None \<Rightarrow> t_turn_state r | Some t \<Rightarrow> TurnState_as_str t)\<rparr>) s)
       (\<lambda>(changed, s1).
          if changed = 1 then
            res_bind (insert_ledger (clock 1) aid epoch (Some Preparing) Running None
                        (Some ''RUNTIME_STARTED'') s1) (\<lambda>s2. Inr (True, s2))
          else Inr (False, s1)))"

definition active_count :: "store \<Rightarrow> nat" where
  "active_count s = length (filter (phase_in active_phases) (tasks s))"

definition all_tasks_reaped :: "store \<Rightarrow> bool" where
  "all_tasks_reaped s \<longleftrightarrow>
     filter (\<lambda>r. t_phase r \<noteq> TaskPhase_as_str Terminal \<or> t_reaped_at r = None) (tasks s) = []"

end
