(* ===== verification/Store_Lifecycle.thy ===== *)
theory Store_Lifecycle
  imports Store_Tasks
begin

text \<open>
  The lifecycle of a task in the store (\<open>external-store/src/lifecycle.rs\<close> and \<open>recovery.rs\<close>): the
  records a runtime appends, terminal transitions, stop and close requests, resumption of a terminal
  task, reaping, and the queries of recovery. The JSON encoder and SHA-256, with which a result is
  identified, are the argument \<open>digest\<close>.

  Two operations check a value after their transaction has committed; their result is the pair of that
  check's outcome and the committed store.
\<close>

section \<open>Records of a runtime\<close>

definition same_event :: "LifecycleWrite \<Rightarrow> int \<Rightarrow> event_row \<Rightarrow> bool" where
  "same_event w src e \<longleftrightarrow>
     e_agent_id e = write_agent_id w \<and> e_runtime_agent_id e = write_runtime_agent_id w
     \<and> e_source_seq e = src"

definition insert_event :: "event_row \<Rightarrow> store \<Rightarrow> StoreError + store" where
  "insert_event e s =
     (if list_ex (\<lambda>x. e_agent_id x = e_agent_id e \<and> e_runtime_agent_id x = e_runtime_agent_id e
                    \<and> (e_seq x = e_seq e \<or> e_source_seq x = e_source_seq e)) (events s)
      then Inl (Sqlite ''UNIQUE constraint failed'')
      else Inr (s\<lparr>events := events s @ [e]\<rparr>))"

definition append_lifecycle :: "clock \<Rightarrow> LifecycleWrite \<Rightarrow> (StoreError + nat) op" where
  "append_lifecycle clock w s =
     res_bind (u64_to_i64 (source_sequence w)) (\<lambda>src.
       (case find (same_event w src) (events s) of
          Some existing \<Rightarrow> Inr (i64_to_u64 (e_seq existing), s)
        | None \<Rightarrow>
            res_bind (query_guard s (write_agent_id w)) (\<lambda>(ph, oc, epoch, close, stop).
              if ph = Terminal \<or> epoch \<noteq> write_owner_epoch w
              then Inl (Conflict (''late lifecycle record rejected for '' @ write_agent_id w
                                  @ '' epoch '' @ to_decimal (write_owner_epoch w)))
              else
                (case find_task s (write_agent_id w) of
                   None \<Rightarrow> Inl (Sqlite ''Query returned no rows'')
                 | Some r \<Rightarrow>
                     if i64_max < t_last_event_seq r + 1
                     then Inl (InvalidState ''event sequence overflow'')
                     else
                       (let sequence = t_last_event_seq r + 1 in
                        res_bind
                          (insert_event \<lparr>e_agent_id = write_agent_id w,
                             e_runtime_agent_id = write_runtime_agent_id w, e_seq = sequence,
                             e_source_seq = src, e_timestamp = clock 0, e_event_type = event_type w,
                             e_turn_id = turn_id w, e_payload_json = payload_json w,
                             e_redaction_level = redaction_level w\<rparr> s) (\<lambda>s1.
                        res_bind
                          (update_tasks (\<lambda>x. t_agent_id x = write_agent_id w)
                             (\<lambda>x. x\<lparr>t_last_event_seq := sequence, t_last_heartbeat_at := Some (clock 1),
                                    t_turn_state := (case write_turn_state w of None \<Rightarrow> t_turn_state x
                                                     | Some t \<Rightarrow> TurnState_as_str t)\<rparr>) s1) (\<lambda>(_, s2).
                          (case terminal w of
                             None \<Rightarrow> Inr (i64_to_u64 sequence, s2)
                           | Some upd \<Rightarrow>
                               res_bind (apply_terminal (clock 2) (clock 3) (write_agent_id w)
                                           (write_owner_epoch w) ph close stop upd s2)
                                 (\<lambda>(_, s3). Inr (i64_to_u64 sequence, s3))))))))))"

section \<open>Terminal transitions\<close>

definition transition_terminal :: "clock \<Rightarrow> string \<Rightarrow> nat \<Rightarrow> TerminalUpdate \<Rightarrow> TaskOutcome op" where
  "transition_terminal clock aid epoch upd s =
     res_bind (query_guard s aid) (\<lambda>(ph, oc, current, close, stop).
       if ph = Terminal
       then res_bind (ok_or (InvalidState ''terminal task is missing its outcome'') oc) (\<lambda>x. Inr (x, s))
       else if current \<noteq> epoch then Inl (Conflict (''owner epoch changed for '' @ aid))
       else apply_terminal (clock 0) (clock 1) aid epoch ph close stop upd s)"

definition fail_claim :: "clock \<Rightarrow> string \<Rightarrow> nat \<Rightarrow> string \<Rightarrow> string \<Rightarrow> TaskOutcome op" where
  "fail_claim clock aid epoch code message s =
     transition_terminal clock aid epoch
       \<lparr>terminal_outcome = RuntimeLost, terminal_failure_code = Some code,
        terminal_failure_message = Some message\<rparr> s"

section \<open>Stop and close requests\<close>

definition request_stop_internal :: "clock \<Rightarrow> string \<Rightarrow> bool \<Rightarrow> bool \<Rightarrow> ControlDecision op" where
  "request_stop_internal clock aid close cancellation_intent s =
     res_bind (query_guard s aid) (\<lambda>(ph, oc, epoch, closing, stopping).
       (let needs_stop = (ph \<in> set active_phases);
            next_phase = (if ph = Terminal then ph else Cancelling) in
        res_bind
          (update_tasks (\<lambda>r. t_agent_id r = aid)
             (\<lambda>r. r\<lparr>t_phase := TaskPhase_as_str next_phase,
                    t_close_requested := (if close then True else t_close_requested r),
                    t_stop_requested := (if cancellation_intent then True else t_stop_requested r),
                    t_closed_at := (if close then coalesce (t_closed_at r) (Some (clock 0))
                                    else t_closed_at r)\<rparr>) s)
          (\<lambda>(_, s1).
             res_bind
               (if ph \<noteq> Terminal then
                  (let s2 = settle_terminal_commands aid ''STOP_REQUESTED'' s1 in
                   if ph \<noteq> next_phase then
                     insert_ledger (clock 1) aid epoch (Some ph) next_phase None
                       (Some (if close then ''CLOSE_REQUESTED'' else ''STOP_REQUESTED'')) s2
                   else Inr s2)
                else Inr s1)
               (\<lambda>s3. Inr (\<lparr>decision_phase = next_phase, decision_outcome = oc,
                           decision_owner_epoch = epoch, needs_runtime_stop = needs_stop,
                           prior_stop_or_close = (closing \<or> stopping)\<rparr>, s3)))))"

definition request_close :: "clock \<Rightarrow> string \<Rightarrow> ControlDecision op" where
  "request_close clock aid s = request_stop_internal clock aid True True s"

definition request_stop :: "clock \<Rightarrow> string \<Rightarrow> ControlDecision op" where
  "request_stop clock aid s = request_stop_internal clock aid False True s"

definition request_runtime_stop :: "clock \<Rightarrow> string \<Rightarrow> ControlDecision op" where
  "request_runtime_stop clock aid s = request_stop_internal clock aid False False s"

section \<open>Resumption\<close>

definition message_modes :: "string list" where
  "message_modes = [''queue'', ''steer'']"

definition new_message_row :: "string \<Rightarrow> string \<Rightarrow> string \<Rightarrow> string \<Rightarrow> int \<Rightarrow> message_row" where
  "new_message_row mid aid mode content now =
     \<lparr>m_message_id = mid, m_agent_id = aid, m_mode = mode, m_content = content,
      m_state = MessageState_text MsgQueued, m_created_at = now, m_delivered_at = None,
      m_target_turn_id = None, m_failure_code = None, m_failure_message = None\<rparr>"

definition requeued_row :: "task_row \<Rightarrow> task_row" where
  "requeued_row r =
     r\<lparr>t_phase := TaskPhase_as_str Queued, t_outcome := None, t_owner_id := None,
       t_lease_expires_at := None, t_close_requested := False, t_stop_requested := False,
       t_failure_code := None, t_failure_message := None, t_closed_at := None, t_reaped_at := None,
       t_completed_at := None, t_last_event_seq := 0, t_turn_state := TurnState_as_str TurnIdle,
       t_pid := None, t_process_group_id := None, t_process_uid := None,
       t_process_start_token := None, t_runtime_agent_id := None\<rparr>"

text \<open>A text that does not decode while the row is read is an error of the statement.\<close>

definition as_conversion_failure :: "StoreError + 'a \<Rightarrow> StoreError + 'a" where
  "as_conversion_failure v = (case v of Inl _ \<Rightarrow> Inl (Sqlite ''FromSqlConversionFailure'') | Inr x \<Rightarrow> Inr x)"

definition requeue_task_for_resume_with_message ::
    "clock \<Rightarrow> string \<Rightarrow> string \<Rightarrow> string \<Rightarrow> string \<Rightarrow> bool op" where
  "requeue_task_for_resume_with_message clock aid mid mode content s =
     (if mode \<notin> set message_modes then Inl (InvalidState ''message mode must be queue or steer'')
      else
        (case find_task s aid of
           None \<Rightarrow> Inl (Sqlite ''Query returned no rows'')
         | Some r \<Rightarrow>
             res_bind (as_conversion_failure (TaskPhase_parse (t_phase r))) (\<lambda>ph.
             res_bind (as_conversion_failure (parse_outcome_column (t_outcome r))) (\<lambda>oc.
               if ph \<noteq> Terminal then Inl (Conflict (''task '' @ aid @ '' is not terminal''))
               else if t_session_id r = None
               then Inl (InvalidState ''task has no persisted session id to resume'')
               else if oc = Some Cancelled \<or> t_stop_requested r \<or> t_close_requested r
                       \<or> t_closed_at r \<noteq> None
               then Inr (False, s)
               else if t_pid r \<noteq> None \<and> t_reaped_at r = None then Inr (False, s)
               else
                 (case workspace_owner s (\<lambda>x. t_workspace_path x = t_workspace_path r \<and> t_agent_id x \<noteq> aid) of
                    Some active \<Rightarrow> Inl (Conflict (''WORKSPACE_BUSY active_agent_id='' @ t_agent_id active))
                  | None \<Rightarrow>
                      if list_ex (\<lambda>m. m_message_id m = mid) (messages s)
                      then Inl (Conflict (''message '' @ mid @ '' already exists''))
                      else
                        res_bind
                          (update_tasks (\<lambda>x. t_agent_id x = aid \<and> t_phase x = TaskPhase_as_str Terminal)
                             requeued_row
                             (s\<lparr>task_results := filter (\<lambda>x. r_agent_id x \<noteq> aid) (task_results s)\<rparr>))
                          (\<lambda>(changed, s1).
                             if changed \<noteq> 1
                             then Inl (Conflict (''task '' @ aid @ '' changed before resume''))
                             else
                               res_bind (i64_to_u64 (t_owner_epoch r)) (\<lambda>epoch.
                               res_bind (insert_ledger (clock 0) aid epoch (Some Terminal) Queued None
                                           (Some ''RESUME_REQUESTED'') s1) (\<lambda>s2.
                                 Inr (True, s2\<lparr>messages := messages s2
                                   @ [new_message_row mid aid mode content (clock 1)]\<rparr>))))))))) "

definition restore_terminal_after_resume_failure ::
    "(TaskResult \<Rightarrow> StoreError + string) \<Rightarrow> clock \<Rightarrow> TaskRecord \<Rightarrow> TaskResult option \<Rightarrow> unit op" where
  "restore_terminal_after_resume_failure digest clock original result s =
     res_bind (u64_to_i64 (last_event_seq original)) (\<lambda>seq.
     res_bind
       (update_tasks (\<lambda>r. t_agent_id r = agent_id original)
          (\<lambda>r. r\<lparr>t_phase := TaskPhase_as_str Terminal,
                 t_outcome := map_option TaskOutcome_as_str (outcome original),
                 t_owner_id := owner_id original, t_lease_expires_at := None,
                 t_close_requested := close_requested original, t_stop_requested := stop_requested original,
                 t_failure_code := task_failure_code original,
                 t_failure_message := task_failure_message original,
                 t_runtime_agent_id := runtime_agent_id original, t_session_id := session_id original,
                 t_turn_state := TurnState_as_str (turn_state original),
                 t_pid := map_option (\<lambda>i. int (pid i)) (process_identity original),
                 t_process_group_id := map_option process_group_id (process_identity original),
                 t_process_uid := map_option (\<lambda>i. int (uid i)) (process_identity original),
                 t_process_start_token := map_option start_token (process_identity original),
                 t_closed_at := closed_at original, t_reaped_at := reaped_at original,
                 t_last_event_seq := seq\<rparr>) s)
       (\<lambda>(_, s1).
          (case result of
             None \<Rightarrow> Inr ((), s1)
           | Some res \<Rightarrow>
               res_bind (digest res) (\<lambda>d.
                 if find_task s1 (agent_id original) = None
                 then Inl (Sqlite ''FOREIGN KEY constraint failed'')
                 else
                 Inr ((), s1\<lparr>task_results :=
                   filter (\<lambda>x. r_agent_id x \<noteq> agent_id original) (task_results s1)
                   @ [\<lparr>r_agent_id = agent_id original, r_outcome = TaskOutcome_as_str (result_outcome res),
                       r_final_text = final_text res, r_partial = partial res, r_sha256 = d,
                       r_completed_at = clock 0\<rparr>]\<rparr>)))))"

section \<open>Reaping\<close>

definition reap_task :: "clock \<Rightarrow> string \<Rightarrow> (StoreError + TaskOutcome) op" where
  "reap_task clock aid s =
     res_bind (query_guard s aid) (\<lambda>(ph, oc, _, _, _).
       if ph \<noteq> Terminal then Inl (InvalidState (''cannot reap nonterminal task '' @ aid))
       else
         res_bind
           (update_tasks (\<lambda>r. t_agent_id r = aid)
              (\<lambda>r. r\<lparr>t_owner_id := None, t_lease_expires_at := None,
                     t_reaped_at := coalesce (t_reaped_at r) (Some (clock 0))\<rparr>) s)
           (\<lambda>(_, s1). Inr (ok_or (InvalidState ''terminal task has no outcome'') oc, s1)))"

section \<open>Recovery\<close>

definition fence_queued_cancellation :: "unit op" where
  "fence_queued_cancellation s =
     res_bind (update_tasks (\<lambda>r. t_phase r = TaskPhase_as_str Queued) (\<lambda>r. r\<lparr>t_stop_requested := True\<rparr>) s)
       (\<lambda>(_, s1). Inr ((), s1))"

definition nonterminal_task_ids :: "store \<Rightarrow> string list" where
  "nonterminal_task_ids s =
     map t_agent_id
       (by_created t_created_at (filter (\<lambda>r. t_phase r \<noteq> TaskPhase_as_str Terminal) (tasks s)))"

definition startup_recovery_tasks :: "store \<Rightarrow> StoreError + TaskRecord list" where
  "startup_recovery_tasks s =
     res_collect (\<lambda>r. require_task ''startup recovery task disappeared'' s (t_agent_id r))
       (by_created t_created_at
          (filter (\<lambda>r. phase_in active_phases r
                     \<or> t_phase r = TaskPhase_as_str Queued \<and> t_stop_requested r
                     \<or> t_phase r = TaskPhase_as_str Terminal \<and> t_reaped_at r = None) (tasks s)))"

definition terminal_unreaped_tasks :: "store \<Rightarrow> StoreError + TaskRecord list" where
  "terminal_unreaped_tasks s =
     res_collect (\<lambda>r. require_task ''terminal task disappeared'' s (t_agent_id r))
       (by_created t_created_at
          (filter (\<lambda>r. t_phase r = TaskPhase_as_str Terminal \<and> t_reaped_at r = None) (tasks s)))"

end
