(* ===== verification/Store_Exchange.thy ===== *)
theory Store_Exchange
  imports Store_Lifecycle
begin

text \<open>
  What is exchanged with a running task: messages to it (\<open>external-store/src/messages.rs\<close>), its requests
  for input and their answers (\<open>pending.rs\<close>), and its result (\<open>results.rs\<close>). The JSON encoder and SHA-256,
  which identify a result, are the argument \<open>digest\<close>.
\<close>

section \<open>Messages\<close>

definition convert_message :: "message_row \<Rightarrow> StoreError + StoredMessage" where
  "convert_message m =
     res_bind (MessageState_parse (m_state m)) (\<lambda>st.
       Inr \<lparr>message_id = m_message_id m, message_agent_id = m_agent_id m, message_mode = m_mode m,
            message_content = m_content m, message_state = st, target_turn_id = m_target_turn_id m,
            message_failure_code = m_failure_code m, message_created_at = m_created_at m,
            delivered_at = m_delivered_at m\<rparr>)"

definition query_message :: "store \<Rightarrow> string \<Rightarrow> StoreError + StoredMessage option" where
  "query_message s mid =
     (case find (\<lambda>m. m_message_id m = mid) (messages s) of
        None \<Rightarrow> Inr None
      | Some m \<Rightarrow> res_bind (convert_message m) (\<lambda>x. Inr (Some x)))"

definition insert_message :: "clock \<Rightarrow> string \<Rightarrow> string \<Rightarrow> string \<Rightarrow> string \<Rightarrow> bool op" where
  "insert_message clock mid aid mode content s =
     (if mode \<notin> set message_modes then Inl (InvalidState ''message mode must be queue or steer'')
      else
        res_bind (query_guard s aid) (\<lambda>(ph, _, _, close, stop).
          if ph = Terminal \<or> close \<or> stop
          then Inl (Conflict ''terminal or stopping task cannot accept messages'')
          else if list_ex (\<lambda>m. m_message_id m = mid) (messages s) then
            res_bind (query_message s mid) (\<lambda>found.
            res_bind (ok_or (InvalidState ''message idempotency row disappeared'') found) (\<lambda>existing.
              if message_agent_id existing \<noteq> aid \<or> message_mode existing \<noteq> mode
                 \<or> message_content existing \<noteq> content
              then Inl (Conflict ''message id is already bound to different content'')
              else Inr (False, s)))
          else Inr (True, s\<lparr>messages := messages s @ [new_message_row mid aid mode content (clock 0)]\<rparr>)))"

text \<open>\<open>ORDER BY CASE mode WHEN 'steer' THEN 0 ELSE 1 END, created_at, rowid\<close>.\<close>

definition mode_rank :: "message_row \<Rightarrow> nat" where
  "mode_rank m = (if m_mode m = ''steer'' then 0 else 1)"

definition claim_next_message :: "string \<Rightarrow> StoredMessage option op" where
  "claim_next_message aid s =
     res_bind (query_guard s aid) (\<lambda>(ph, _, _, close, stop).
       if \<not> (ph = Running \<or> ph = WaitingInput) \<or> close \<or> stop then Inr (None, s)
       else
         (case first_row (sort_key mode_rank (by_created m_created_at
                 (filter (\<lambda>m. m_agent_id m = aid \<and> m_state m = MessageState_text MsgQueued) (messages s)))) of
            None \<Rightarrow> Inr (None, s)
          | Some m \<Rightarrow>
              (let s1 = s\<lparr>messages := update_rows
                     (\<lambda>x. m_message_id x = m_message_id m \<and> m_state x = MessageState_text MsgQueued)
                     (\<lambda>x. x\<lparr>m_state := MessageState_text MsgSending\<rparr>) (messages s)\<rparr> in
               res_bind (query_message s1 (m_message_id m)) (\<lambda>msg. Inr (msg, s1)))))"

definition complete_message :: "clock \<Rightarrow> string \<Rightarrow> string option \<Rightarrow> bool op" where
  "complete_message clock mid target s =
     (let p = (\<lambda>m. m_message_id m = mid \<and> m_state m = MessageState_text MsgSending) in
      Inr (changed_rows p (messages s) = 1,
           s\<lparr>messages := update_rows p
               (\<lambda>m. m\<lparr>m_state := MessageState_text MsgDelivered, m_delivered_at := Some (clock 0),
                      m_target_turn_id := target\<rparr>) (messages s)\<rparr>))"

definition fail_message :: "string \<Rightarrow> string \<Rightarrow> string \<Rightarrow> bool op" where
  "fail_message mid code message s =
     (let p = (\<lambda>m. m_message_id m = mid
                 \<and> (m_state m = MessageState_text MsgQueued \<or> m_state m = MessageState_text MsgSending)) in
      Inr (changed_rows p (messages s) = 1,
           s\<lparr>messages := update_rows p
               (\<lambda>m. m\<lparr>m_state := MessageState_text MsgFailed, m_failure_code := Some code,
                      m_failure_message := Some message\<rparr>) (messages s)\<rparr>))"

section \<open>Pending requests\<close>

definition convert_pending :: "pending_row \<Rightarrow> StoreError + StoredPendingRequest" where
  "convert_pending p =
     res_bind (PendingRequestState_parse (p_state p)) (\<lambda>st.
       Inr \<lparr>request_id = p_request_id p, request_agent_id = p_agent_id p,
            correlation_id = p_correlation_id p, request_type = p_request_type p,
            request_payload_json = p_payload_json p, request_state = st,
            response_decision = p_response_decision p, response_content = p_response_content p,
            request_created_at = p_created_at p\<rparr>)"

definition query_pending_request :: "store \<Rightarrow> string \<Rightarrow> StoreError + StoredPendingRequest option" where
  "query_pending_request s rid =
     (case find (\<lambda>p. p_request_id p = rid) (pending_requests s) of
        None \<Rightarrow> Inr None
      | Some p \<Rightarrow> res_bind (convert_pending p) (\<lambda>x. Inr (Some x)))"

text \<open>\<open>INSERT OR IGNORE\<close> skips a row that would repeat the request id or the agent's correlation id.\<close>

definition pending_conflict :: "store \<Rightarrow> string \<Rightarrow> string \<Rightarrow> string \<Rightarrow> bool" where
  "pending_conflict s rid aid cid \<longleftrightarrow>
     list_ex (\<lambda>p. p_request_id p = rid \<or> p_agent_id p = aid \<and> p_correlation_id p = cid)
       (pending_requests s)"

definition new_pending_row ::
    "string \<Rightarrow> string \<Rightarrow> string \<Rightarrow> string \<Rightarrow> string \<Rightarrow> int \<Rightarrow> pending_row" where
  "new_pending_row rid aid cid kind payload now =
     \<lparr>p_request_id = rid, p_agent_id = aid, p_correlation_id = cid, p_request_type = kind,
      p_payload_json = payload, p_state = PendingRequestState_text ReqPending, p_created_at = now,
      p_responded_at = None, p_response_decision = None, p_response_content = None\<rparr>"

definition insert_pending_request ::
    "clock \<Rightarrow> string \<Rightarrow> string \<Rightarrow> string \<Rightarrow> string \<Rightarrow> string \<Rightarrow> bool op" where
  "insert_pending_request clock rid aid cid kind payload s =
     res_bind (query_guard s aid) (\<lambda>(ph, _, epoch, close, stop).
       if \<not> (ph = Running \<or> ph = WaitingInput) \<or> close \<or> stop
       then Inl (Conflict ''task cannot publish a pending request in its current phase'')
       else if pending_conflict s rid aid cid then
         res_bind (query_pending_request s rid) (\<lambda>found.
         res_bind (ok_or (InvalidState ''pending request idempotency row disappeared'') found) (\<lambda>existing.
           if request_agent_id existing \<noteq> aid \<or> correlation_id existing \<noteq> cid
              \<or> request_type existing \<noteq> kind \<or> request_payload_json existing \<noteq> payload
           then Inl (Conflict ''pending request identity has different content'')
           else Inr (False, s)))
       else
         (let s1 = s\<lparr>pending_requests := pending_requests s
                       @ [new_pending_row rid aid cid kind payload (clock 0)]\<rparr> in
          if ph = Running then
            res_bind
              (update_tasks (\<lambda>r. t_agent_id r = aid \<and> t_phase r = TaskPhase_as_str Running)
                 (\<lambda>r. r\<lparr>t_phase := TaskPhase_as_str WaitingInput\<rparr>) s1) (\<lambda>(_, s2).
            res_bind (insert_ledger (clock 1) aid epoch (Some Running) WaitingInput None
                        (Some ''INPUT_REQUESTED'') s2) (\<lambda>s3. Inr (True, s3)))
          else Inr (True, s1)))"

definition pending_request :: "store \<Rightarrow> string \<Rightarrow> string \<Rightarrow> StoreError + StoredPendingRequest option" where
  "pending_request s aid rid =
     res_bind (query_pending_request s rid) (\<lambda>found.
       Inr (case found of None \<Rightarrow> None | Some p \<Rightarrow> if request_agent_id p = aid then Some p else None))"

definition pending_requests_bounded ::
    "store \<Rightarrow> string \<Rightarrow> nat \<Rightarrow> StoreError + StoredPendingRequest list" where
  "pending_requests_bounded s aid limit =
     res_bind (usize_to_i64 limit) (\<lambda>n.
       res_collect
         (\<lambda>p. res_bind (query_pending_request s (p_request_id p))
                 (ok_or (InvalidState ''pending request disappeared'')))
         (take (nat n) (by_created p_created_at (filter (open_request aid) (pending_requests s)))))"

definition completion_blockers :: "store \<Rightarrow> string \<Rightarrow> bool \<times> bool" where
  "completion_blockers s aid =
     (list_ex (open_request aid) (pending_requests s), list_ex (open_message aid) (messages s))"

definition claim_pending_response_if_accepting ::
    "string \<Rightarrow> string \<Rightarrow> string \<Rightarrow> string option \<Rightarrow> PendingResponseClaimDisposition op" where
  "claim_pending_response_if_accepting aid rid decision content s =
     res_bind (query_pending_request s rid) (\<lambda>found.
       (case found of
          None \<Rightarrow> Inr (NotFound, s)
        | Some request \<Rightarrow>
            if request_agent_id request \<noteq> aid then Inr (NotFound, s)
            else if request_state request \<noteq> ReqPending then Inr (NotPending (request_state request), s)
            else
              res_bind (query_guard s aid) (\<lambda>(ph, _, _, close, stop).
                if \<not> (ph = Running \<or> ph = WaitingInput) \<or> close \<or> stop then Inr (TaskStopping, s)
                else
                  Inr (Claimed,
                       s\<lparr>pending_requests := update_rows
                           (\<lambda>p. p_request_id p = rid \<and> p_agent_id p = aid
                                \<and> p_state p = PendingRequestState_text ReqPending)
                           (\<lambda>p. p\<lparr>p_state := PendingRequestState_text ReqSending,
                                  p_response_decision := Some decision, p_response_content := content\<rparr>)
                           (pending_requests s)\<rparr>))))"

definition complete_pending_response :: "clock \<Rightarrow> string \<Rightarrow> string \<Rightarrow> bool op" where
  "complete_pending_response clock aid rid s =
     (let p = (\<lambda>x. p_request_id x = rid \<and> p_agent_id x = aid
                   \<and> p_state x = PendingRequestState_text ReqSending);
          s1 = s\<lparr>pending_requests := update_rows p
                   (\<lambda>x. x\<lparr>p_state := PendingRequestState_text ReqResponded,
                          p_responded_at := Some (clock 0)\<rparr>) (pending_requests s)\<rparr> in
      if changed_rows p (pending_requests s) = 1 then
        res_bind (query_guard s1 aid) (\<lambda>(ph, _, epoch, close, stop).
          if \<not> list_ex (open_request aid) (pending_requests s1) \<and> ph = WaitingInput \<and> \<not> close \<and> \<not> stop
          then
            res_bind
              (update_tasks (\<lambda>r. t_agent_id r = aid \<and> t_phase r = TaskPhase_as_str WaitingInput)
                 (\<lambda>r. r\<lparr>t_phase := TaskPhase_as_str Running\<rparr>) s1) (\<lambda>(_, s2).
            res_bind (insert_ledger (clock 1) aid epoch (Some WaitingInput) Running None
                        (Some ''INPUT_RESOLVED'') s2) (\<lambda>s3. Inr (True, s3)))
          else Inr (True, s1))
      else Inr (False, s1))"

definition release_pending_response :: "string \<Rightarrow> string \<Rightarrow> bool op" where
  "release_pending_response aid rid s =
     (let p = (\<lambda>x. p_request_id x = rid \<and> p_agent_id x = aid
                   \<and> p_state x = PendingRequestState_text ReqSending) in
      Inr (changed_rows p (pending_requests s) = 1,
           s\<lparr>pending_requests := update_rows p
               (\<lambda>x. x\<lparr>p_state := PendingRequestState_text ReqPending, p_response_decision := None,
                      p_response_content := None\<rparr>) (pending_requests s)\<rparr>))"

section \<open>Results\<close>

definition validate_result :: "TaskResult \<Rightarrow> StoreError + unit" where
  "validate_result res =
     (if trim (final_text res) = [] then Inl (InvalidState ''invalid task result'')
      else if partial res \<and> result_outcome res = Completed
      then Inl (InvalidState ''partial result cannot be completed'')
      else Inr ())"

definition result_terminal_update ::
    "TaskResult \<Rightarrow> string option \<Rightarrow> string option \<Rightarrow> string option \<Rightarrow> TerminalUpdate" where
  "result_terminal_update res reason task_code message =
     \<lparr>terminal_outcome = result_outcome res,
      terminal_failure_code = coalesce reason (coalesce task_code
        (if result_outcome res \<noteq> Completed then Some ''task failed'' else None)),
      terminal_failure_message = message\<rparr>"

definition store_task_result_with_reason ::
    "(TaskResult \<Rightarrow> StoreError + string) \<Rightarrow> clock \<Rightarrow> string \<Rightarrow> TaskResult \<Rightarrow> string option \<Rightarrow> string option
     \<Rightarrow> unit op" where
  "store_task_result_with_reason digest clock aid res reason message s =
     res_bind (validate_result res) (\<lambda>_.
     res_bind (digest res) (\<lambda>d.
     res_bind (require_task (''unknown task '' @ aid) s aid) (\<lambda>task.
       (case find (\<lambda>x. r_agent_id x = aid) (task_results s) of
          Some existing \<Rightarrow>
            if r_sha256 existing = d then Inr ((), s)
            else Inl (Conflict (''task '' @ aid @ '' already has a different immutable result''))
        | None \<Rightarrow>
            if phase task = Terminal
            then Inl (Conflict (''task '' @ aid @ '' is terminal without this result''))
            else if phase task \<notin> set active_phases
            then Inl (Conflict (''task '' @ aid @ '' cannot complete from Queued''))
            else if result_outcome res = Completed
                    \<and> (fst (completion_blockers s aid) \<or> snd (completion_blockers s aid))
            then Inl (Conflict ''task completion is blocked by pending input or queued messages'')
            else if (stop_requested task \<or> close_requested task) \<and> result_outcome res \<noteq> Cancelled
            then Inl (Conflict ''cancellation or close intent wins over late result'')
            else
              res_bind
                (apply_terminal (clock 1) (clock 2) aid (owner_epoch task) (phase task)
                   (close_requested task) (stop_requested task)
                   (result_terminal_update res reason (task_failure_code task) message)
                   (s\<lparr>task_results := task_results s @
                      [\<lparr>r_agent_id = aid, r_outcome = TaskOutcome_as_str (result_outcome res),
                        r_final_text = final_text res, r_partial = partial res, r_sha256 = d,
                        r_completed_at = clock 0\<rparr>]\<rparr>))
                (\<lambda>(_, s1). Inr ((), s1))))))"

definition store_task_result ::
    "(TaskResult \<Rightarrow> StoreError + string) \<Rightarrow> clock \<Rightarrow> string \<Rightarrow> TaskResult \<Rightarrow> unit op" where
  "store_task_result digest clock aid res s = store_task_result_with_reason digest clock aid res None None s"

definition query_task_result :: "store \<Rightarrow> string \<Rightarrow> StoreError + StoredTaskResult option" where
  "query_task_result s aid =
     (case find (\<lambda>x. r_agent_id x = aid) (task_results s) of
        None \<Rightarrow> Inr None
      | Some x \<Rightarrow>
          res_bind (TaskOutcome_parse (r_outcome x)) (\<lambda>oc.
            Inr (Some \<lparr>stored_result = \<lparr>result_outcome = oc, final_text = r_final_text x,
                         partial = r_partial x\<rparr>, result_sha256 = r_sha256 x\<rparr>)))"

definition query_terminal_reason :: "store \<Rightarrow> string \<Rightarrow> string option" where
  "query_terminal_reason s aid =
     (case first_row (rev (filter (\<lambda>l. l_agent_id l = aid \<and> l_to_phase l = TaskPhase_as_str Terminal)
              (lifecycle_ledger s))) of
        None \<Rightarrow> None
      | Some l \<Rightarrow> if l_reason_code l = Some ''task failed'' then None else l_reason_code l)"

definition task_with_result ::
    "store \<Rightarrow> string \<Rightarrow> StoreError + (TaskRecord \<times> StoredTaskResult option \<times> string option) option" where
  "task_with_result s aid =
     res_bind (query_task s aid) (\<lambda>found.
       (case found of
          None \<Rightarrow> Inr None
        | Some task \<Rightarrow>
            res_bind (query_task_result s aid) (\<lambda>res.
              Inr (Some (task, res, query_terminal_reason s aid)))))"

end
