(* ===== verification/Store_Frame.thy ===== *)
theory Store_Frame
  imports Store_Exchange
begin

text \<open>
  The store as one task sees it. \<open>find_task\<close> reads the task table as a map from agent ids; the views
  \<open>has_request\<close>, \<open>has_message\<close>, \<open>result_of\<close> and \<open>ledger_of\<close> read what the other tables hold for an agent.
  The lemmas say what each statement does to the map and the views, and that the rows of other agents
  keep theirs; the proofs about the operations use nothing else of the tables.
\<close>

section \<open>Keyed rows\<close>

definition keyed :: "store \<Rightarrow> bool" where
  "keyed s \<longleftrightarrow> distinct (map t_agent_id (tasks s))"

lemma find_keyed_map:
  assumes "\<And>r. key (g r) = key r"
  shows "find (\<lambda>r. key r = k) (map g rows) = map_option g (find (\<lambda>r. key r = k) rows)"
  by (induction rows) (simp_all add: assms)

lemma find_key: "find (\<lambda>r. key r = k) rows = Some r \<Longrightarrow> key r = k \<and> r \<in> set rows"
  by (induction rows) (auto split: if_splits)

lemma find_key_unique:
  assumes "distinct (map key rows)" and "r \<in> set rows"
  shows "find (\<lambda>x. key x = key r) rows = Some r"
  using assms by (induction rows) auto

lemma find_key_None: "find (\<lambda>r. key r = k) rows = None \<longleftrightarrow> k \<notin> key ` set rows"
  by (induction rows) auto

lemma filter_key_unique:
  assumes "distinct (map key rows)" and "find (\<lambda>r. key r = k) rows = Some r"
  shows "filter (\<lambda>x. key x = k \<and> P x) rows = (if P r then [r] else [])"
  using assms
proof (induction rows)
  case (Cons x rows)
  show ?case
  proof (cases "key x = k")
    case True
    with Cons.prems have "x = r" and rest: "k \<notin> key ` set rows" by auto
    then have "filter (\<lambda>x. key x = k \<and> P x) rows = []" by (auto simp: filter_empty_conv)
    with True \<open>x = r\<close> show ?thesis by simp
  next
    case False
    with Cons show ?thesis by simp
  qed
qed simp

lemma find_task_agent: "find_task s a = Some r \<Longrightarrow> t_agent_id r = a \<and> r \<in> set (tasks s)"
  unfolding find_task_def by (rule find_key)

lemma find_task_mem: "keyed s \<Longrightarrow> r \<in> set (tasks s) \<Longrightarrow> find_task s (t_agent_id r) = Some r"
  unfolding find_task_def keyed_def by (rule find_key_unique)

lemma tasks_find: "keyed s \<Longrightarrow> r \<in> set (tasks s) \<longleftrightarrow> find_task s (t_agent_id r) = Some r"
  using find_task_agent [of s "t_agent_id r" r] find_task_mem [of s r] by (intro iffI) simp_all

section \<open>Replacing the row of a task\<close>

definition set_task :: "store \<Rightarrow> string \<Rightarrow> task_row \<Rightarrow> store" where
  "set_task s aid r' = s\<lparr>tasks := map (\<lambda>x. if t_agent_id x = aid then r' else x) (tasks s)\<rparr>"

lemma keyed_set_task [simp]: "t_agent_id r' = aid \<Longrightarrow> keyed (set_task s aid r') = keyed s"
  by (simp add: keyed_def set_task_def o_def if_distrib cong: if_cong map_cong)

lemma find_set_task:
  assumes "t_agent_id r' = aid" and "find_task s aid \<noteq> None"
  shows "find_task (set_task s aid r') = (find_task s)(aid \<mapsto> r')"
proof
  fix b
  have "find_task (set_task s aid r') b
      = map_option (\<lambda>x. if t_agent_id x = aid then r' else x) (find_task s b)"
    unfolding find_task_def set_task_def by (simp add: find_keyed_map assms(1))
  also have "\<dots> = ((find_task s)(aid \<mapsto> r')) b"
    using assms find_task_agent by (cases "find_task s b") fastforce+
  finally show "find_task (set_task s aid r') b = ((find_task s)(aid \<mapsto> r')) b" .
qed

lemma update_rows_set_task:
  assumes "keyed s" "find_task s aid = Some r" "P r"
  shows "s\<lparr>tasks := update_rows (\<lambda>x. t_agent_id x = aid \<and> P x) f (tasks s)\<rparr> = set_task s aid (f r)"
proof -
  have "x = r" if "x \<in> set (tasks s)" "t_agent_id x = aid" for x
    using find_task_mem [OF assms(1) that(1)] assms(2) that(2) by simp
  then have "update_rows (\<lambda>x. t_agent_id x = aid \<and> P x) f (tasks s)
      = map (\<lambda>x. if t_agent_id x = aid then f r else x) (tasks s)"
    unfolding update_rows_def using assms(3) by (intro map_cong refl) metis
  then show ?thesis by (simp add: set_task_def)
qed

lemma update_tasks_hit:
  assumes "keyed s" "find_task s aid = Some r" "P r"
  shows "update_tasks (\<lambda>x. t_agent_id x = aid \<and> P x) f s =
    (if task_check (f r) then Inr (1, set_task s aid (f r)) else Inl (Sqlite ''CHECK constraint failed''))"
proof -
  have one: "filter (\<lambda>x. t_agent_id x = aid \<and> P x) (tasks s) = [r]"
    using filter_key_unique [of t_agent_id "tasks s" aid r P] assms by (simp add: keyed_def find_task_def)
  have "list_ex (\<lambda>x. (t_agent_id x = aid \<and> P x) \<and> \<not> task_check (f x)) (tasks s)
      \<longleftrightarrow> list_ex (\<lambda>x. \<not> task_check (f x)) (filter (\<lambda>x. t_agent_id x = aid \<and> P x) (tasks s))"
    by (auto simp: list_ex_iff)
  then show ?thesis
    using one update_rows_set_task [of s aid r P f] assms by (simp add: update_tasks_def changed_rows_def)
qed

lemma update_tasks_miss:
  assumes "keyed s" "\<forall>r. find_task s aid = Some r \<longrightarrow> \<not> P r"
  shows "update_tasks (\<lambda>x. t_agent_id x = aid \<and> P x) f s = Inr (0, s)"
proof -
  have "\<not> (t_agent_id x = aid \<and> P x)" if "x \<in> set (tasks s)" for x
    using assms find_task_mem [OF assms(1) that] by auto
  then have "update_rows (\<lambda>x. t_agent_id x = aid \<and> P x) f (tasks s) = tasks s"
    "filter (\<lambda>x. t_agent_id x = aid \<and> P x) (tasks s) = []"
    "\<not> list_ex (\<lambda>x. (t_agent_id x = aid \<and> P x) \<and> \<not> task_check (f x)) (tasks s)"
    by (auto simp: update_rows_def list_ex_iff filter_empty_conv intro!: map_idI)
  then show ?thesis by (simp add: update_tasks_def changed_rows_def)
qed

lemma update_tasks_hit_all:
  assumes "keyed s" "find_task s aid = Some r"
  shows "update_tasks (\<lambda>x. t_agent_id x = aid) f s =
    (if task_check (f r) then Inr (1, set_task s aid (f r)) else Inl (Sqlite ''CHECK constraint failed''))"
  using update_tasks_hit [OF assms, of "\<lambda>_. True"] by simp

section \<open>Views\<close>

definition has_request :: "store \<Rightarrow> string \<Rightarrow> bool" where
  "has_request s aid = list_ex (open_request aid) (pending_requests s)"

definition has_message :: "store \<Rightarrow> string \<Rightarrow> bool" where
  "has_message s aid = list_ex (open_message aid) (messages s)"

definition result_of :: "store \<Rightarrow> string \<Rightarrow> result_row option" where
  "result_of s aid = find (\<lambda>x. r_agent_id x = aid) (task_results s)"

definition ledger_of :: "store \<Rightarrow> string \<Rightarrow> ledger_row list" where
  "ledger_of s aid = filter (\<lambda>l. l_agent_id l = aid) (lifecycle_ledger s)"

lemma set_task_frame [simp]:
  "events (set_task s a r) = events s" "messages (set_task s a r) = messages s"
  "pending_requests (set_task s a r) = pending_requests s" "task_results (set_task s a r) = task_results s"
  "lifecycle_ledger (set_task s a r) = lifecycle_ledger s" "next_id (set_task s a r) = next_id s"
  by (simp_all add: set_task_def)

lemma views_set_task [simp]:
  "has_request (set_task s a r) = has_request s" "has_message (set_task s a r) = has_message s"
  "result_of (set_task s a r) = result_of s" "ledger_of (set_task s a r) = ledger_of s"
  by (simp_all add: has_request_def has_message_def result_of_def ledger_of_def fun_eq_iff)

lemma find_task_update [simp]:
  "find_task (s\<lparr>events := ev\<rparr>) = find_task s" "find_task (s\<lparr>messages := ms\<rparr>) = find_task s"
  "find_task (s\<lparr>pending_requests := ps\<rparr>) = find_task s" "find_task (s\<lparr>task_results := rs\<rparr>) = find_task s"
  "find_task (s\<lparr>lifecycle_ledger := ls\<rparr>) = find_task s" "find_task (s\<lparr>next_id := n\<rparr>) = find_task s"
  by (simp_all add: find_task_def fun_eq_iff)

lemma keyed_update [simp]:
  "keyed (s\<lparr>events := ev\<rparr>) = keyed s" "keyed (s\<lparr>messages := ms\<rparr>) = keyed s"
  "keyed (s\<lparr>pending_requests := ps\<rparr>) = keyed s" "keyed (s\<lparr>task_results := rs\<rparr>) = keyed s"
  "keyed (s\<lparr>lifecycle_ledger := ls\<rparr>) = keyed s" "keyed (s\<lparr>next_id := n\<rparr>) = keyed s"
  by (simp_all add: keyed_def)

lemma views_update [simp]:
  "has_request (s\<lparr>events := ev\<rparr>) = has_request s" "has_request (s\<lparr>messages := ms\<rparr>) = has_request s"
  "has_request (s\<lparr>task_results := rs\<rparr>) = has_request s" "has_request (s\<lparr>lifecycle_ledger := ls\<rparr>) = has_request s"
  "has_request (s\<lparr>next_id := n\<rparr>) = has_request s" "has_request (s\<lparr>tasks := ts\<rparr>) = has_request s"
  "has_message (s\<lparr>events := ev\<rparr>) = has_message s" "has_message (s\<lparr>pending_requests := ps\<rparr>) = has_message s"
  "has_message (s\<lparr>task_results := rs\<rparr>) = has_message s" "has_message (s\<lparr>lifecycle_ledger := ls\<rparr>) = has_message s"
  "has_message (s\<lparr>next_id := n\<rparr>) = has_message s" "has_message (s\<lparr>tasks := ts\<rparr>) = has_message s"
  "result_of (s\<lparr>events := ev\<rparr>) = result_of s" "result_of (s\<lparr>messages := ms\<rparr>) = result_of s"
  "result_of (s\<lparr>pending_requests := ps\<rparr>) = result_of s" "result_of (s\<lparr>lifecycle_ledger := ls\<rparr>) = result_of s"
  "result_of (s\<lparr>next_id := n\<rparr>) = result_of s" "result_of (s\<lparr>tasks := ts\<rparr>) = result_of s"
  "ledger_of (s\<lparr>events := ev\<rparr>) = ledger_of s" "ledger_of (s\<lparr>messages := ms\<rparr>) = ledger_of s"
  "ledger_of (s\<lparr>pending_requests := ps\<rparr>) = ledger_of s" "ledger_of (s\<lparr>task_results := rs\<rparr>) = ledger_of s"
  "ledger_of (s\<lparr>next_id := n\<rparr>) = ledger_of s" "ledger_of (s\<lparr>tasks := ts\<rparr>) = ledger_of s"
  by (simp_all add: has_request_def has_message_def result_of_def ledger_of_def fun_eq_iff)

section \<open>The other statements\<close>

definition add_ledger :: "ledger_row \<Rightarrow> store \<Rightarrow> store" where
  "add_ledger l s = s\<lparr>lifecycle_ledger := lifecycle_ledger s @ [l]\<rparr>"

definition ledger_entry ::
    "int \<Rightarrow> string \<Rightarrow> nat \<Rightarrow> TaskPhase option \<Rightarrow> TaskPhase \<Rightarrow> TaskOutcome option \<Rightarrow> string option
     \<Rightarrow> ledger_row" where
  "ledger_entry now aid epoch from to_ph oc code =
     \<lparr>l_agent_id = aid, l_owner_epoch = int epoch, l_from_phase = map_option TaskPhase_as_str from,
      l_to_phase = TaskPhase_as_str to_ph, l_outcome = map_option TaskOutcome_as_str oc,
      l_reason_code = code, l_recorded_at = now\<rparr>"

lemma ledger_entry_sel [simp]:
  "l_agent_id (ledger_entry now aid epoch from to_ph oc code) = aid"
  "l_owner_epoch (ledger_entry now aid epoch from to_ph oc code) = int epoch"
  "l_from_phase (ledger_entry now aid epoch from to_ph oc code) = map_option TaskPhase_as_str from"
  "l_to_phase (ledger_entry now aid epoch from to_ph oc code) = TaskPhase_as_str to_ph"
  "l_outcome (ledger_entry now aid epoch from to_ph oc code) = map_option TaskOutcome_as_str oc"
  "l_reason_code (ledger_entry now aid epoch from to_ph oc code) = code"
  by (simp_all add: ledger_entry_def)

lemma insert_ledger_eq:
  "insert_ledger now aid epoch from to_ph oc code s =
     (if int epoch \<le> i64_max then Inr (add_ledger (ledger_entry now aid epoch from to_ph oc code) s)
      else Inl (InvalidState ''value exceeds SQLite i64''))"
  by (simp add: insert_ledger_def u64_to_i64_def add_ledger_def ledger_entry_def)

lemma add_ledger_frame [simp]:
  "find_task (add_ledger l s) = find_task s" "keyed (add_ledger l s) = keyed s"
  "has_request (add_ledger l s) = has_request s" "has_message (add_ledger l s) = has_message s"
  "result_of (add_ledger l s) = result_of s" "tasks (add_ledger l s) = tasks s"
  "messages (add_ledger l s) = messages s" "pending_requests (add_ledger l s) = pending_requests s"
  "task_results (add_ledger l s) = task_results s" "events (add_ledger l s) = events s"
  "next_id (add_ledger l s) = next_id s"
  by (simp_all add: add_ledger_def)

lemma ledger_of_add_ledger [simp]:
  "ledger_of (add_ledger l s) = (ledger_of s)(l_agent_id l := ledger_of s (l_agent_id l) @ [l])"
  by (auto simp: add_ledger_def ledger_of_def fun_eq_iff)

lemma settle_frame [simp]:
  "find_task (settle_terminal_commands a c s) = find_task s"
  "keyed (settle_terminal_commands a c s) = keyed s"
  "result_of (settle_terminal_commands a c s) = result_of s"
  "ledger_of (settle_terminal_commands a c s) = ledger_of s"
  "tasks (settle_terminal_commands a c s) = tasks s"
  "task_results (settle_terminal_commands a c s) = task_results s"
  "events (settle_terminal_commands a c s) = events s"
  "lifecycle_ledger (settle_terminal_commands a c s) = lifecycle_ledger s"
  "next_id (settle_terminal_commands a c s) = next_id s"
  by (simp_all add: settle_terminal_commands_def find_task_def keyed_def result_of_def ledger_of_def
      fun_eq_iff)

lemma has_request_settle [simp]:
  "has_request (settle_terminal_commands a c s) = (has_request s)(a := False)"
  by (auto simp: has_request_def settle_terminal_commands_def list_ex_iff fun_eq_iff open_request_def)

lemma settled_message:
  assumes "m' = (if open_message a m then m\<lparr>m_state := MessageState_text MsgFailed,
      m_failure_code := c, m_failure_message := d\<rparr> else m)"
  shows "open_message b m' \<longleftrightarrow> b \<noteq> a \<and> open_message b m"
proof (cases "open_message a m")
  case True
  then have "m_agent_id m = a" by (simp add: open_message_def)
  with True assms show ?thesis by (auto simp: open_message_def)
next
  case False
  with assms show ?thesis by (auto simp: open_message_def)
qed

lemma has_message_settle [simp]:
  "has_message (settle_terminal_commands a c s) = (has_message s)(a := False)"
proof
  fix b
  have "list_ex (open_message b) (update_rows (open_message a) (\<lambda>m. m\<lparr>m_state := MessageState_text MsgFailed,
      m_failure_code := Some c, m_failure_message := d\<rparr>) ms) \<longleftrightarrow> b \<noteq> a \<and> list_ex (open_message b) ms" for ms d
    by (induction ms) (simp_all add: update_rows_def settled_message [OF refl], blast)
  then show "has_message (settle_terminal_commands a c s) b = ((has_message s)(a := False)) b"
    by (simp add: has_message_def settle_terminal_commands_def)
qed

lemma find_set_task_eq [simp]:
  "find_task s a = Some r \<Longrightarrow> t_agent_id r' = a \<Longrightarrow> find_task (set_task s a r') = (find_task s)(a \<mapsto> r')"
  by (simp add: find_set_task)

end
