(* ===== verification/Store_Invariant.thy ===== *)
theory Store_Invariant
  imports Store_Frame
begin

text \<open>
  The invariant of the store. For every task, \<open>agent_ok\<close> relates its row to what the other tables hold
  for it: the row decodes and passes the CHECK; a stop or close request leaves only a queued, a
  cancelling or a terminal task; requests for input are open exactly while it waits; a terminal task
  has no open message; a result belongs to a terminal task of the same outcome; and the ledger replays
  to its phase, outcome and owner epoch. Two tasks that are not terminal never share a workspace.
\<close>

section \<open>The invariant\<close>

definition identity_ok :: "task_row \<Rightarrow> bool" where
  "identity_ok r \<longleftrightarrow> (\<exists>i. convert_process_identity r = Inr i)"

definition row_ok :: "task_row \<Rightarrow> bool" where
  "row_ok r \<longleftrightarrow>
     t_phase r \<in> range TaskPhase_as_str \<and> t_turn_state r \<in> range TurnState_as_str
     \<and> (\<forall>x. t_outcome r = Some x \<longrightarrow> x \<in> range TaskOutcome_as_str) \<and> task_check r
     \<and> 0 \<le> t_owner_epoch r \<and> t_owner_epoch r \<le> i64_max
     \<and> 0 \<le> t_last_event_seq r \<and> t_last_event_seq r \<le> i64_max \<and> identity_ok r"

fun ledger_links :: "string option \<Rightarrow> int \<Rightarrow> ledger_row list \<Rightarrow> bool" where
  "ledger_links prev epoch [] = True"
| "ledger_links prev epoch (l # ls) =
     (l_from_phase l = prev \<and> epoch \<le> l_owner_epoch l
      \<and> ledger_links (Some (l_to_phase l)) (l_owner_epoch l) ls)"

definition ledger_ok :: "ledger_row list \<Rightarrow> task_row \<Rightarrow> bool" where
  "ledger_ok ls r \<longleftrightarrow>
     ls \<noteq> [] \<and> ledger_links None 0 ls \<and> l_to_phase (last ls) = t_phase r
     \<and> l_outcome (last ls) = t_outcome r \<and> l_owner_epoch (last ls) = t_owner_epoch r"

abbreviation is_terminal_row :: "task_row \<Rightarrow> bool" where
  "is_terminal_row r \<equiv> t_phase r = TaskPhase_as_str Terminal"

definition agent_ok :: "task_row \<Rightarrow> bool \<Rightarrow> bool \<Rightarrow> result_row option \<Rightarrow> ledger_row list \<Rightarrow> bool" where
  "agent_ok r req msg res ls \<longleftrightarrow>
     row_ok r
     \<and> (t_close_requested r \<or> t_stop_requested r \<longrightarrow> phase_in [Queued, Cancelling, Terminal] r)
     \<and> (req \<longleftrightarrow> t_phase r = TaskPhase_as_str WaitingInput)
     \<and> (msg \<longrightarrow> \<not> is_terminal_row r)
     \<and> (\<forall>x. res = Some x \<longrightarrow> is_terminal_row r \<and> t_outcome r = Some (r_outcome x))
     \<and> ledger_ok ls r"

definition exclusive :: "(string \<Rightarrow> task_row option) \<Rightarrow> bool" where
  "exclusive f \<longleftrightarrow>
     (\<forall>a b ra rb. f a = Some ra \<longrightarrow> f b = Some rb \<longrightarrow> t_workspace_path ra = t_workspace_path rb
        \<longrightarrow> \<not> is_terminal_row ra \<longrightarrow> \<not> is_terminal_row rb \<longrightarrow> a = b)"

lemma exclusiveD:
  "exclusive f \<Longrightarrow> f a = Some ra \<Longrightarrow> f b = Some rb \<Longrightarrow> t_workspace_path ra = t_workspace_path rb \<Longrightarrow>
     \<not> is_terminal_row ra \<Longrightarrow> \<not> is_terminal_row rb \<Longrightarrow> a = b"
  unfolding exclusive_def by (elim allE impE)

definition messages_ok :: "message_row list \<Rightarrow> bool" where
  "messages_ok ms \<longleftrightarrow>
     distinct (map m_message_id ms)
     \<and> (\<forall>m \<in> set ms. m_state m \<in> range MessageState_text \<and> m_mode m \<in> set message_modes)"

definition pendings_ok :: "pending_row list \<Rightarrow> bool" where
  "pendings_ok ps \<longleftrightarrow>
     distinct (map p_request_id ps) \<and> distinct (map (\<lambda>p. (p_agent_id p, p_correlation_id p)) ps)
     \<and> (\<forall>p \<in> set ps. p_state p \<in> range PendingRequestState_text)"

definition results_ok :: "result_row list \<Rightarrow> bool" where
  "results_ok rs \<longleftrightarrow> distinct (map r_agent_id rs)"

definition view_ok :: "store \<Rightarrow> string \<Rightarrow> bool" where
  "view_ok s a \<longleftrightarrow>
     (case find_task s a of
        Some r \<Rightarrow> agent_ok r (has_request s a) (has_message s a) (result_of s a) (ledger_of s a)
      | None \<Rightarrow> \<not> has_request s a \<and> \<not> has_message s a \<and> result_of s a = None \<and> ledger_of s a = [])"

definition store_inv :: "store \<Rightarrow> bool" where
  "store_inv s \<longleftrightarrow>
     keyed s \<and> (\<forall>a. view_ok s a) \<and> exclusive (find_task s) \<and> messages_ok (messages s)
     \<and> pendings_ok (pending_requests s) \<and> results_ok (task_results s)
     \<and> 10000000 \<le> next_id s \<and> next_id s \<le> 100000000"

section \<open>Consequences\<close>

lemma store_inv_keyed [dest]: "store_inv s \<Longrightarrow> keyed s"
  by (simp add: store_inv_def)

lemma store_inv_agent:
  assumes "store_inv s" and "find_task s a = Some r"
  shows "agent_ok r (has_request s a) (has_message s a) (result_of s a) (ledger_of s a)"
proof -
  have "view_ok s a" using assms(1) by (simp add: store_inv_def)
  with assms(2) show ?thesis by (simp add: view_ok_def)
qed

lemma store_inv_absent:
  assumes "store_inv s" and "find_task s a = None"
  shows "\<not> has_request s a \<and> \<not> has_message s a \<and> result_of s a = None \<and> ledger_of s a = []"
proof -
  have "view_ok s a" using assms(1) by (simp add: store_inv_def)
  with assms(2) show ?thesis by (simp add: view_ok_def)
qed

lemma store_inv_row: "store_inv s \<Longrightarrow> find_task s a = Some r \<Longrightarrow> row_ok r"
  using store_inv_agent by (auto simp: agent_ok_def)

lemma row_ok_phase: "row_ok r \<Longrightarrow> \<exists>p. t_phase r = TaskPhase_as_str p"
  by (auto simp: row_ok_def)

lemma convert_task_row_ok:
  assumes "row_ok r"
  shows "\<exists>t. convert_task_row r = Inr t \<and> agent_id t = t_agent_id r \<and> t_phase r = TaskPhase_as_str (phase t)
    \<and> t_outcome r = map_option TaskOutcome_as_str (outcome t) \<and> int (owner_epoch t) = t_owner_epoch r
    \<and> close_requested t = t_close_requested r \<and> stop_requested t = t_stop_requested r
    \<and> session_id t = t_session_id r \<and> task_failure_code t = t_failure_code r
    \<and> repository t = t_repository r \<and> workspace_path t = t_workspace_path r
    \<and> owner_id t = t_owner_id r"
proof -
  from assms obtain p u i where p: "t_phase r = TaskPhase_as_str p" "t_turn_state r = TurnState_as_str u"
    and i: "convert_process_identity r = Inr i"
    by (auto simp: row_ok_def identity_ok_def)
  obtain oc where oc: "t_outcome r = map_option TaskOutcome_as_str oc"
  proof (cases "t_outcome r")
    case None
    with that [of None] show thesis by simp
  next
    case (Some x)
    with assms that show thesis by (auto simp: row_ok_def) (metis option.simps(9))
  qed
  have "parse_outcome_column (t_outcome r) = Inr oc"
    by (cases oc) (simp_all add: oc parse_outcome_column_def)
  with assms p i oc show ?thesis
    by (simp add: convert_task_row_def row_ok_def i64_to_u64_def)
qed

lemma query_guard_ok:
  assumes "store_inv s"
  shows "query_guard s a = Inr (ph, oc, epoch, close, stop) \<longleftrightarrow>
    (\<exists>r. find_task s a = Some r \<and> t_phase r = TaskPhase_as_str ph
       \<and> t_outcome r = map_option TaskOutcome_as_str oc \<and> t_owner_epoch r = int epoch
       \<and> t_close_requested r = close \<and> t_stop_requested r = stop)"
proof (cases "find_task s a")
  case None
  then show ?thesis by (simp add: query_guard_def)
next
  case (Some r)
  with convert_task_row_ok [OF store_inv_row [OF assms Some]] obtain t :: TaskRecord where
    t: "t_phase r = TaskPhase_as_str (phase t)" "t_outcome r = map_option TaskOutcome_as_str (outcome t)"
      "int (owner_epoch t) = t_owner_epoch r"
    by blast
  have "parse_outcome_column (map_option TaskOutcome_as_str o') = Inr o'" for o'
    by (cases o') (simp_all add: parse_outcome_column_def)
  moreover have "map_option TaskOutcome_as_str a = map_option TaskOutcome_as_str b \<longleftrightarrow> a = b" for a b
    by (cases a; cases b) simp_all
  ultimately show ?thesis
    using Some t by (auto simp: query_guard_def i64_to_u64_def t(3) [symmetric])
qed

lemma require_task_ok:
  assumes "store_inv s" and "require_task err s a = Inr t"
  obtains r where "find_task s a = Some r" "t_phase r = TaskPhase_as_str (phase t)"
    "t_outcome r = map_option TaskOutcome_as_str (outcome t)" "t_owner_epoch r = int (owner_epoch t)"
    "t_close_requested r = close_requested t" "t_stop_requested r = stop_requested t"
    "t_session_id r = session_id t" "t_failure_code r = task_failure_code t" "agent_id t = a"
proof -
  from assms(2) obtain r where r: "find_task s a = Some r" "convert_task_row r = Inr t"
    by (auto simp: require_task_def query_task_def res_bind_Inr_iff split: option.splits)
  with convert_task_row_ok [OF store_inv_row [OF assms(1) r(1)]] find_task_agent [OF r(1)] show thesis
    using that by simp
qed

section \<open>Preservation\<close>

lemma ledger_links_snoc:
  "ledger_links p e (ls @ [l]) \<longleftrightarrow>
     ledger_links p e ls
     \<and> l_from_phase l = (if ls = [] then p else Some (l_to_phase (last ls)))
     \<and> (if ls = [] then e else l_owner_epoch (last ls)) \<le> l_owner_epoch l"
  by (induction ls arbitrary: p e) auto

lemma ledger_ok_snoc:
  assumes "ledger_ok ls r" "l_from_phase l = Some (t_phase r)" "l_to_phase l = t_phase r'"
    "l_outcome l = t_outcome r'" "l_owner_epoch l = t_owner_epoch r'" "t_owner_epoch r \<le> t_owner_epoch r'"
  shows "ledger_ok (ls @ [l]) r'"
  using assms by (simp add: ledger_ok_def ledger_links_snoc)

lemma ledger_ok_same:
  assumes "ledger_ok ls r" "t_phase r' = t_phase r" "t_outcome r' = t_outcome r"
    "t_owner_epoch r' = t_owner_epoch r"
  shows "ledger_ok ls r'"
  using assms by (simp add: ledger_ok_def)

definition same_views :: "store \<Rightarrow> store \<Rightarrow> string \<Rightarrow> bool" where
  "same_views s s' b \<longleftrightarrow>
     has_request s' b = has_request s b \<and> has_message s' b = has_message s b
     \<and> result_of s' b = result_of s b \<and> ledger_of s' b = ledger_of s b"

definition tables_ok :: "store \<Rightarrow> bool" where
  "tables_ok s \<longleftrightarrow>
     messages_ok (messages s) \<and> pendings_ok (pending_requests s) \<and> results_ok (task_results s)
     \<and> 10000000 \<le> next_id s \<and> next_id s \<le> 100000000"

lemma store_inv_tables: "store_inv s \<Longrightarrow> tables_ok s"
  by (simp add: store_inv_def tables_ok_def)

lemma exclusive_insert:
  assumes ex: "exclusive f"
    and free: "is_terminal_row r' \<or> (\<forall>b rb. b \<noteq> a \<longrightarrow> f b = Some rb
      \<longrightarrow> t_workspace_path rb = t_workspace_path r' \<longrightarrow> is_terminal_row rb)"
  shows "exclusive (f(a \<mapsto> r'))"
  unfolding exclusive_def
proof (intro allI impI)
  fix x y rx ry
  assume x: "(f(a \<mapsto> r')) x = Some rx" and y: "(f(a \<mapsto> r')) y = Some ry"
    and w: "t_workspace_path rx = t_workspace_path ry" and n: "\<not> is_terminal_row rx" "\<not> is_terminal_row ry"
  show "x = y"
  proof (cases "x = a"; cases "y = a")
    assume "x \<noteq> a" "y \<noteq> a"
    with x y w n ex show ?thesis unfolding exclusive_def by (metis fun_upd_other)
  qed (use x y w n free in \<open>auto split: if_splits\<close>)
qed

lemma exclusive_upd:
  assumes "exclusive f" "f a = Some r" "t_workspace_path r' = t_workspace_path r"
    and "is_terminal_row r' \<or> \<not> is_terminal_row r
      \<or> (\<forall>b rb. b \<noteq> a \<longrightarrow> f b = Some rb \<longrightarrow> t_workspace_path rb = t_workspace_path r \<longrightarrow> is_terminal_row rb)"
  shows "exclusive (f(a \<mapsto> r'))"
proof (rule exclusive_insert [OF assms(1)])
  show "is_terminal_row r' \<or> (\<forall>b rb. b \<noteq> a \<longrightarrow> f b = Some rb
      \<longrightarrow> t_workspace_path rb = t_workspace_path r' \<longrightarrow> is_terminal_row rb)"
    using assms unfolding exclusive_def by metis
qed

text \<open>An operation that touches one task keeps the invariant when the task's own view stays in order.\<close>

lemma store_inv_touch:
  assumes inv: "store_inv s" and r: "find_task s a = Some r"
    and s': "keyed s'" "find_task s' = (find_task s)(a \<mapsto> r')" "\<And>b. b \<noteq> a \<Longrightarrow> same_views s s' b"
    and ok: "agent_ok r' (has_request s' a) (has_message s' a) (result_of s' a) (ledger_of s' a)"
    and ws: "t_workspace_path r' = t_workspace_path r"
    and free: "is_terminal_row r' \<or> \<not> is_terminal_row r
      \<or> (\<forall>b rb. b \<noteq> a \<longrightarrow> find_task s b = Some rb \<longrightarrow> t_workspace_path rb = t_workspace_path r
            \<longrightarrow> is_terminal_row rb)"
    and tables: "tables_ok s'"
  shows "store_inv s'"
proof -
  have "view_ok s' b" for b
  proof (cases "b = a")
    case True
    with ok show ?thesis by (simp add: view_ok_def s'(2))
  next
    case False
    have "view_ok s b" using inv by (simp add: store_inv_def)
    moreover have "has_request s' b = has_request s b" "has_message s' b = has_message s b"
      "result_of s' b = result_of s b" "ledger_of s' b = ledger_of s b"
      using s'(3) [OF False] by (simp_all add: same_views_def)
    ultimately show ?thesis using False by (simp only: view_ok_def s'(2)) simp
  qed
  moreover have "exclusive (find_task s')"
    using exclusive_upd [OF _ r ws free] inv by (simp add: s'(2) store_inv_def)
  ultimately show ?thesis
    using s'(1) tables by (simp add: store_inv_def tables_ok_def)
qed

lemma messages_ok_update:
  assumes "messages_ok ms" "\<And>m. m_message_id (f m) = m_message_id m" "\<And>m. m_mode (f m) = m_mode m"
    "\<And>m. m_state (f m) \<in> range MessageState_text"
  shows "messages_ok (update_rows p f ms)"
  using assms by (auto simp: messages_ok_def update_rows_def o_def if_distrib cong: if_cong)

lemma pendings_ok_update:
  assumes "pendings_ok ps" "\<And>p. p_request_id (f p) = p_request_id p" "\<And>p. p_agent_id (f p) = p_agent_id p"
    "\<And>p. p_correlation_id (f p) = p_correlation_id p" "\<And>p. p_state (f p) \<in> range PendingRequestState_text"
  shows "pendings_ok (update_rows q f ps)"
  using assms by (auto simp: pendings_ok_def update_rows_def o_def if_distrib cong: if_cong)

lemma pendings_ok_filter: "pendings_ok ps \<Longrightarrow> pendings_ok (filter q ps)"
  by (simp add: pendings_ok_def distinct_map_filter)

lemma tables_ok_frame [simp]:
  "tables_ok (set_task s a r) = tables_ok s" "tables_ok (add_ledger l s) = tables_ok s"
  by (simp_all add: tables_ok_def)

lemma tables_ok_settle: "tables_ok s \<Longrightarrow> tables_ok (settle_terminal_commands a c s)"
  by (simp add: tables_ok_def settle_terminal_commands_def messages_ok_update pendings_ok_filter)

end
