(* ===== verification/Store_Preservation.thy ===== *)
theory Store_Preservation
  imports Store_Invariant
begin

text \<open>
  Every operation of the store keeps the invariant. Each proof first evaluates the operation on the
  task it touches, to one replaced row, settled commands and one ledger entry, and then checks the view
  of that task.
\<close>

section \<open>Terminal transitions\<close>

definition terminal_row :: "int \<Rightarrow> TaskOutcome \<Rightarrow> TerminalUpdate \<Rightarrow> task_row \<Rightarrow> task_row" where
  "terminal_row now oc upd r =
     r\<lparr>t_phase := TaskPhase_as_str Terminal, t_outcome := Some (TaskOutcome_as_str oc),
       t_completed_at := coalesce (t_completed_at r) (Some now),
       t_failure_code := terminal_failure_code upd,
       t_failure_message := (if oc \<in> set failing_outcomes then terminal_failure_message upd else None),
       t_turn_state := TurnState_as_str (if oc \<in> set failing_outcomes then TurnFailed else TurnIdle),
       t_closed_at := (if t_close_requested r then coalesce (t_closed_at r) (Some now) else t_closed_at r)\<rparr>"

lemma terminal_row_sel [simp]:
  "t_agent_id (terminal_row now oc upd r) = t_agent_id r"
  "t_phase (terminal_row now oc upd r) = TaskPhase_as_str Terminal"
  "t_outcome (terminal_row now oc upd r) = Some (TaskOutcome_as_str oc)"
  "t_owner_epoch (terminal_row now oc upd r) = t_owner_epoch r"
  "t_workspace_path (terminal_row now oc upd r) = t_workspace_path r"
  "t_close_requested (terminal_row now oc upd r) = t_close_requested r"
  "t_stop_requested (terminal_row now oc upd r) = t_stop_requested r"
  "t_session_id (terminal_row now oc upd r) = t_session_id r"
  "t_failure_code (terminal_row now oc upd r) = terminal_failure_code upd"
  "t_failure_message (terminal_row now oc upd r)
   = (if oc \<in> set failing_outcomes then terminal_failure_message upd else None)"
  by (simp_all add: terminal_row_def)

definition settle_code :: "TerminalUpdate \<Rightarrow> string" where
  "settle_code upd = (case terminal_failure_code upd of None \<Rightarrow> ''TASK_TERMINATED'' | Some c \<Rightarrow> c)"

definition terminal_store ::
    "int \<Rightarrow> int \<Rightarrow> string \<Rightarrow> nat \<Rightarrow> TaskPhase \<Rightarrow> TaskOutcome \<Rightarrow> TerminalUpdate \<Rightarrow> task_row \<Rightarrow> store \<Rightarrow> store" where
  "terminal_store now lnow a epoch ph oc upd r s =
     add_ledger (ledger_entry lnow a epoch (Some ph) Terminal (Some oc) (terminal_failure_code upd))
       (settle_terminal_commands a (settle_code upd) (set_task s a (terminal_row now oc upd r)))"

lemma apply_terminal_eval:
  assumes "keyed s" "find_task s a = Some r" "t_owner_epoch r = int epoch" "int epoch \<le> i64_max"
    "t_phase r = TaskPhase_as_str ph" "ph \<noteq> Terminal"
  shows "apply_terminal now lnow a epoch ph close stop upd s =
    Inr (effective_outcome close stop (terminal_outcome upd),
         terminal_store now lnow a epoch ph (effective_outcome close stop (terminal_outcome upd)) upd r s)"
proof -
  let ?oc = "effective_outcome close stop (terminal_outcome upd)"
  have "update_tasks
      (\<lambda>r. t_agent_id r = a \<and> t_owner_epoch r = int epoch \<and> t_phase r \<noteq> TaskPhase_as_str Terminal)
      (terminal_row now ?oc upd) s = Inr (1, set_task s a (terminal_row now ?oc upd r))"
    by (subst update_tasks_hit [OF assms(1,2)]) (simp_all add: assms task_check_def)
  then show ?thesis
    using assms(4,6)
    by (simp add: apply_terminal_def u64_to_i64_def insert_ledger_eq terminal_store_def settle_code_def
        terminal_row_def [abs_def] Let_def)
qed

lemma agent_ok_terminal:
  assumes "agent_ok r q m res ls" and "res' = None \<or> (\<exists>x. res' = Some x \<and> r_outcome x = TaskOutcome_as_str oc)"
    and "t_owner_epoch r = int epoch" and "t_phase r = TaskPhase_as_str ph"
  shows "agent_ok (terminal_row now oc upd r) False False res'
    (ls @ [ledger_entry lnow a epoch (Some ph) Terminal (Some oc) c])"
proof -
  have "row_ok (terminal_row now oc upd r)"
    using assms(1)
    by (simp add: agent_ok_def row_ok_def terminal_row_def task_check_def identity_ok_def
        convert_process_identity_def)
  moreover have "ledger_ok (ls @ [ledger_entry lnow a epoch (Some ph) Terminal (Some oc) c])
      (terminal_row now oc upd r)"
    using assms by (intro ledger_ok_snoc [of ls r]) (simp_all add: agent_ok_def)
  ultimately show ?thesis
    using assms(2) by (auto simp: agent_ok_def phase_in_def)
qed

lemma terminal_store_inv:
  assumes inv: "store_inv s" and r: "find_task s a = Some r"
    and ph: "t_owner_epoch r = int epoch" "t_phase r = TaskPhase_as_str ph" "ph \<noteq> Terminal"
  shows "store_inv (terminal_store now lnow a epoch ph oc upd r s)"
proof (rule store_inv_touch [OF inv r, where r' = "terminal_row now oc upd r"])
  note agent = store_inv_agent [OF inv r] find_task_agent [OF r]
  then have res: "result_of s a = None"
    using ph by (cases "result_of s a") (auto simp: agent_ok_def)
  show "agent_ok (terminal_row now oc upd r)
      (has_request (terminal_store now lnow a epoch ph oc upd r s) a)
      (has_message (terminal_store now lnow a epoch ph oc upd r s) a)
      (result_of (terminal_store now lnow a epoch ph oc upd r s) a)
      (ledger_of (terminal_store now lnow a epoch ph oc upd r s) a)"
    using agent_ok_terminal [OF agent(1) _ ph(1,2), of None] res by (simp add: terminal_store_def)
  show "tables_ok (terminal_store now lnow a epoch ph oc upd r s)"
    using store_inv_tables [OF inv] by (simp add: terminal_store_def tables_ok_settle)
qed (use inv r find_task_agent [OF r] in \<open>auto simp: terminal_store_def same_views_def\<close>)

lemma transition_terminal_inv:
  assumes inv: "store_inv s" and run: "transition_terminal clock a epoch upd s = Inr (v, s')"
  shows "store_inv s'"
proof -
  from run obtain ph oc current close stop where
    guard: "query_guard s a = Inr (ph, oc, current, close, stop)"
    by (auto simp: transition_terminal_def res_bind_Inr_iff)
  then obtain r where r: "find_task s a = Some r" "t_phase r = TaskPhase_as_str ph"
      "t_owner_epoch r = int current"
    by (auto simp: query_guard_ok [OF inv])
  show ?thesis
  proof (cases "ph = Terminal")
    case True
    with run guard inv show ?thesis by (auto simp: transition_terminal_def res_bind_Inr_iff)
  next
    case False
    have "int current \<le> i64_max"
      using store_inv_row [OF inv r(1)] r(3) by (simp add: row_ok_def)
    with False run guard r show ?thesis
      using apply_terminal_eval [OF store_inv_keyed [OF inv] r(1,3) _ r(2) False] terminal_store_inv [OF inv r(1,3,2) False] inv
      by (auto simp: transition_terminal_def split: if_splits)
  qed
qed

section \<open>Submission and identities\<close>

lemma view_ok_next_id [simp]: "view_ok (s\<lparr>next_id := n\<rparr>) a = view_ok s a"
  by (cases "find_task s a") (simp_all add: view_ok_def)

lemma reserve_task_id_inv: "store_inv s \<Longrightarrow> reserve_task_id s = Inr (v, s') \<Longrightarrow> store_inv s'"
  by (auto simp: reserve_task_id_def store_inv_def Let_def split: if_splits)

lemma by_created_Nil: "by_created f rows = [] \<longleftrightarrow> rows = []"
  unfolding by_created_def by (metis set_empty set_sort)

lemma workspace_owner_None:
  "workspace_owner s p = None \<longleftrightarrow> (\<forall>r \<in> set (tasks s). p r \<longrightarrow> \<not> phase_in nonterminal_phases r)"
proof -
  have "workspace_owner s p = None
      \<longleftrightarrow> by_created t_created_at (filter (\<lambda>r. p r \<and> phase_in nonterminal_phases r) (tasks s)) = []"
    by (simp add: workspace_owner_def split: list.splits)
  then show ?thesis by (auto simp: by_created_Nil filter_empty_conv)
qed

lemma phase_in_nonterminal:
  assumes "row_ok r"
  shows "phase_in nonterminal_phases r \<longleftrightarrow> \<not> is_terminal_row r"
proof -
  obtain p where "t_phase r = TaskPhase_as_str p" using row_ok_phase [OF assms] by blast
  then show ?thesis by (cases p) (simp_all add: phase_in_def)
qed

lemma query_task_None: "query_task s a = Inr None \<longleftrightarrow> find_task s a = None"
  by (auto simp: query_task_def res_bind_Inr_iff split: option.splits)

lemma new_task_row_ok: "row_ok (new_task_row t now)"
  by (simp add: row_ok_def new_task_row_def task_check_def identity_ok_def convert_process_identity_def)

lemma find_task_append:
  "find_task (s\<lparr>tasks := tasks s @ [r]\<rparr>) a =
     (case find_task s a of Some x \<Rightarrow> Some x | None \<Rightarrow> if t_agent_id r = a then Some r else None)"
proof -
  have "find p (rows @ [r]) = (case find p rows of Some x \<Rightarrow> Some x | None \<Rightarrow> if p r then Some r else None)"
    for p :: "task_row \<Rightarrow> bool" and rows
    by (induction rows) simp_all
  then show ?thesis by (simp add: find_task_def)
qed

lemma enqueue_shape:
  assumes "enqueue_task_authoritative clock t s = Inr (v, s')"
  shows "find_task s (new_agent_id t) = None
    \<and> workspace_owner s (\<lambda>r. t_workspace_path r = new_workspace_path t) = None
    \<and> s' = add_ledger (ledger_entry (clock 1) (new_agent_id t) 0 None Queued None None)
        (s\<lparr>tasks := tasks s @ [new_task_row t (clock 0)]\<rparr>)"
  using assms
  by (auto simp: enqueue_task_authoritative_def res_bind_Inr_iff insert_task_row_def insert_ledger_eq
      query_task_None [symmetric] split: option.splits if_splits)

lemma enqueue_inv:
  assumes inv: "store_inv s" and run: "enqueue_task_authoritative clock t s = Inr (v, s')"
  shows "store_inv s'"
proof -
  let ?a = "new_agent_id t" and ?r = "new_task_row t (clock 0)"
  note shape = enqueue_shape [OF run]
  have agent: "t_agent_id ?r = ?a" "t_workspace_path ?r = new_workspace_path t"
    "t_phase ?r = TaskPhase_as_str Queued" "t_outcome ?r = None" "t_owner_epoch ?r = 0"
    "\<not> t_close_requested ?r" "\<not> t_stop_requested ?r"
    by (simp_all add: new_task_row_def)
  have find: "find_task s' = (find_task s)(?a \<mapsto> ?r)"
    using shape agent(1) by (auto simp: fun_eq_iff find_task_append split: option.splits)
  have none: "\<not> has_request s ?a" "\<not> has_message s ?a" "result_of s ?a = None" "ledger_of s ?a = []"
    using store_inv_absent [OF inv] shape by blast+
  have views: "has_request s' = has_request s" "has_message s' = has_message s" "result_of s' = result_of s"
    "ledger_of s' = (ledger_of s)(?a := [ledger_entry (clock 1) ?a 0 None Queued None None])"
    using shape none by auto
  have "view_ok s' b" for b
  proof (cases "b = ?a")
    case True
    then show ?thesis
      using none agent new_task_row_ok [of t "clock 0"]
      by (simp add: view_ok_def find views agent_ok_def ledger_ok_def)
  next
    case False
    moreover have "view_ok s b" using inv by (simp add: store_inv_def)
    ultimately show ?thesis by (simp add: view_ok_def find views cong: option.case_cong)
  qed
  moreover have "keyed s'"
    using inv shape agent(1) find_key_None [of t_agent_id ?a "tasks s"]
    by (auto simp: store_inv_def keyed_def add_ledger_def find_task_def)
  moreover have "exclusive (find_task s')"
  proof -
    have "is_terminal_row rb" if "find_task s b = Some rb" "t_workspace_path rb = new_workspace_path t" for b rb
      using shape that find_task_agent [OF that(1)] phase_in_nonterminal [OF store_inv_row [OF inv that(1)]]
      by (auto simp: workspace_owner_None)
    then show ?thesis
      unfolding find using inv agent(2) by (intro exclusive_insert) (auto simp: store_inv_def)
  qed
  moreover have "tables_ok s'"
    using shape store_inv_tables [OF inv] by (simp add: tables_ok_def)
  ultimately show ?thesis by (simp add: store_inv_def tables_ok_def)
qed

section \<open>Changes of one row\<close>

lemma inv_row_ledger:
  assumes inv: "store_inv s" "find_task s a = Some r"
    and r': "t_agent_id r' = a" "t_workspace_path r' = t_workspace_path r"
    and free: "is_terminal_row r' \<or> \<not> is_terminal_row r"
    and l: "l_agent_id l = a"
    and ok: "agent_ok r' (has_request s a) (has_message s a) (result_of s a) (ledger_of s a @ [l])"
  shows "store_inv (add_ledger l (set_task s a r'))"
  by (rule store_inv_touch [OF inv, where r' = r'])
    (use assms store_inv_tables [OF inv(1)] in \<open>auto simp: same_views_def\<close>)

lemma inv_row:
  assumes inv: "store_inv s" "find_task s a = Some r"
    and r': "t_agent_id r' = a" "t_workspace_path r' = t_workspace_path r"
    and free: "is_terminal_row r' \<or> \<not> is_terminal_row r"
    and ok: "agent_ok r' (has_request s a) (has_message s a) (result_of s a) (ledger_of s a)"
  shows "store_inv (set_task s a r')"
  by (rule store_inv_touch [OF inv, where r' = r'])
    (use assms store_inv_tables [OF inv(1)] in \<open>auto simp: same_views_def\<close>)

lemma inv_row_settle:
  assumes inv: "store_inv s" "find_task s a = Some r"
    and r': "t_agent_id r' = a" "t_workspace_path r' = t_workspace_path r"
    and free: "is_terminal_row r' \<or> \<not> is_terminal_row r"
    and ok: "agent_ok r' False False (result_of s a) (ledger_of s a)"
  shows "store_inv (settle_terminal_commands a c (set_task s a r'))"
  by (rule store_inv_touch [OF inv, where r' = r'])
    (use assms store_inv_tables [OF inv(1)] in \<open>auto simp: same_views_def tables_ok_settle\<close>)

lemma inv_row_settle_ledger:
  assumes inv: "store_inv s" "find_task s a = Some r"
    and r': "t_agent_id r' = a" "t_workspace_path r' = t_workspace_path r"
    and free: "is_terminal_row r' \<or> \<not> is_terminal_row r"
    and l: "l_agent_id l = a"
    and ok: "agent_ok r' False False (result_of s a) (ledger_of s a @ [l])"
  shows "store_inv (add_ledger l (settle_terminal_commands a c (set_task s a r')))"
  by (rule store_inv_touch [OF inv, where r' = r'])
    (use assms store_inv_tables [OF inv(1)] in \<open>auto simp: same_views_def tables_ok_settle\<close>)

text \<open>A row that keeps its texts, flags, counters and process columns in order.\<close>

lemmas row_ok_simps = row_ok_def task_check_def identity_ok_def convert_process_identity_def

lemma no_result_if_active:
  "agent_ok r q m res ls \<Longrightarrow> \<not> is_terminal_row r \<Longrightarrow> res = None"
  by (cases res) (auto simp: agent_ok_def)

section \<open>Claims\<close>

definition claimed_row :: "int \<Rightarrow> string \<Rightarrow> task_row \<Rightarrow> task_row" where
  "claimed_row now owner r =
     r\<lparr>t_phase := TaskPhase_as_str Preparing, t_owner_id := Some owner,
       t_owner_epoch := t_owner_epoch r + 1, t_started_at := coalesce (t_started_at r) (Some now),
       t_last_heartbeat_at := Some now\<rparr>"

lemma claimed_row_sel [simp]:
  "t_agent_id (claimed_row now owner r) = t_agent_id r"
  "t_phase (claimed_row now owner r) = TaskPhase_as_str Preparing"
  "t_outcome (claimed_row now owner r) = t_outcome r"
  "t_owner_epoch (claimed_row now owner r) = t_owner_epoch r + 1"
  "t_owner_id (claimed_row now owner r) = Some owner"
  "t_workspace_path (claimed_row now owner r) = t_workspace_path r"
  "t_repository (claimed_row now owner r) = t_repository r"
  "t_close_requested (claimed_row now owner r) = t_close_requested r"
  "t_stop_requested (claimed_row now owner r) = t_stop_requested r"
  by (simp_all add: claimed_row_def)

lemma claim_row_eval:
  assumes inv: "store_inv s" and r: "find_task s a = Some r" "queued_free r"
    and run: "claim_row clock owner a s = Inr (v, s')"
  shows "t_owner_epoch r < i64_max
    \<and> s' = add_ledger (ledger_entry (clock 1) a (nat (t_owner_epoch r + 1)) (Some Queued) Preparing None
             (Some ''CLAIMED'')) (set_task s a (claimed_row (clock 0) owner r))
    \<and> (\<exists>c. v = Some c \<and> int (claim_owner_epoch c) = t_owner_epoch r + 1
           \<and> agent_id (claim_task c) = a \<and> phase (claim_task c) = Preparing
           \<and> owner_epoch (claim_task c) = claim_owner_epoch c)"
proof -
  let ?s = "set_task s a (claimed_row (clock 0) owner r)"
  note row = store_inv_row [OF inv r(1)] find_task_agent [OF r(1)]
  have check: "task_check (claimed_row (clock 0) owner r)"
    using r(2) row(1) by (simp add: task_check_def row_ok_def queued_free_def)
  have hit: "update_tasks (\<lambda>r. t_agent_id r = a \<and> queued_free r) (claimed_row (clock 0) owner) s = Inr (1, ?s)"
    using update_tasks_hit [OF store_inv_keyed [OF inv] r(1), of queued_free] r(2) check by simp
  have found: "find_task ?s a = Some (claimed_row (clock 0) owner r)"
    using r(1) row(2) by simp
  then have mem: "claimed_row (clock 0) owner r \<in> set (tasks ?s)"
    using find_task_agent by blast
  from run hit have epoch: "\<not> list_ex (\<lambda>r. t_agent_id r = a \<and> i64_max < t_owner_epoch r) (tasks ?s)"
    and rest: "\<exists>task. require_task ''claimed task disappeared'' ?s a = Inr task
      \<and> res_bind (insert_ledger (clock 1) a (owner_epoch task) (Some Queued) Preparing None (Some ''CLAIMED'') ?s)
          (\<lambda>s2. Inr (Some \<lparr>claim_task = task, claim_owner_epoch = owner_epoch task\<rparr>, s2)) = Inr (v, s')"
    by (auto simp: claim_row_def claimed_row_def [abs_def] res_bind_Inr_iff split: if_splits)
  from epoch mem row(2) have bound: "t_owner_epoch r < i64_max"
    by (auto simp: list_ex_iff)
  have ok: "row_ok (claimed_row (clock 0) owner r)"
    using row(1) bound check by (simp add: row_ok_def claimed_row_def identity_ok_def convert_process_identity_def)
  from rest obtain task where task: "require_task ''claimed task disappeared'' ?s a = Inr task"
    and last: "res_bind (insert_ledger (clock 1) a (owner_epoch task) (Some Queued) Preparing None (Some ''CLAIMED'') ?s)
          (\<lambda>s2. Inr (Some \<lparr>claim_task = task, claim_owner_epoch = owner_epoch task\<rparr>, s2)) = Inr (v, s')"
    by blast
  from task found have "convert_task_row (claimed_row (clock 0) owner r) = Inr task"
    by (auto simp: require_task_def query_task_def res_bind_Inr_iff)
  then have t: "int (owner_epoch task) = t_owner_epoch r + 1" "agent_id task = a" "phase task = Preparing"
    using convert_task_row_ok [OF ok] row(2) by auto
  then have "owner_epoch task = nat (t_owner_epoch r + 1)" by simp
  with last t bound show ?thesis
    by (auto simp: insert_ledger_eq split: if_splits)
qed

lemma claim_row_inv:
  assumes inv: "store_inv s" and r: "find_task s a = Some r" "queued_free r"
    and run: "claim_row clock owner a s = Inr (v, s')"
  shows "store_inv s'"
proof -
  note shape = claim_row_eval [OF assms] and ag = store_inv_agent [OF inv r(1)] find_task_agent [OF r(1)]
  have queued: "t_phase r = TaskPhase_as_str Queued" "\<not> t_close_requested r" "\<not> t_stop_requested r"
    using r(2) by (auto simp: queued_free_def)
  have none: "result_of s a = None"
    using no_result_if_active [OF ag(1)] queued by simp
  have "store_inv (add_ledger (ledger_entry (clock 1) a (nat (t_owner_epoch r + 1)) (Some Queued) Preparing None
             (Some ''CLAIMED'')) (set_task s a (claimed_row (clock 0) owner r)))"
  proof (rule inv_row_ledger [OF inv r(1)])
    have "t_outcome r = None"
      using ag(1) queued by (simp add: agent_ok_def row_ok_def task_check_def)
    moreover from this have "row_ok (claimed_row (clock 0) owner r)"
      using ag(1) shape by (simp add: agent_ok_def row_ok_simps claimed_row_def)
    ultimately show "agent_ok (claimed_row (clock 0) owner r) (has_request s a) (has_message s a) (result_of s a)
       (ledger_of s a @ [ledger_entry (clock 1) a (nat (t_owner_epoch r + 1)) (Some Queued) Preparing None
             (Some ''CLAIMED'')])"
      using ag(1) queued none
      by (simp add: agent_ok_def phase_in_def row_ok_def) (rule ledger_ok_snoc [of _ r], simp_all)
  qed (use ag queued in simp_all)
  then show ?thesis using shape by simp
qed

lemma claim_next_candidate:
  assumes "first_row (by_created f (filter p rows)) = Some r"
  shows "r \<in> set rows \<and> p r"
proof -
  from assms have "r \<in> set (by_created f (filter p rows))"
    by (cases "by_created f (filter p rows)") auto
  then show ?thesis by (simp add: by_created_def)
qed

lemma claim_next_inv:
  assumes inv: "store_inv s" and run: "claim_next clock owner g limit s = Inr (v, s')"
  shows "store_inv s'"
proof (cases "s' = s")
  case False
  with run obtain n r where "first_row (by_created t_created_at (filter (claimable s n) (tasks s))) = Some r"
    and claim: "claim_row clock owner (t_agent_id r) s = Inr (v, s')"
    by (auto simp: claim_next_def res_bind_Inr_iff split: if_splits option.splits)
  then have "r \<in> set (tasks s)" "queued_free r"
    by (auto simp: claimable_def dest: claim_next_candidate)
  with claim_row_inv [OF inv _ _ claim, of r] find_task_mem [OF store_inv_keyed [OF inv]] show ?thesis
    by simp
qed (use inv in simp)

lemma claim_specific_inv:
  assumes inv: "store_inv s" and run: "claim_specific clock a owner limit s = Inr (v, s')"
  shows "store_inv s'"
proof (cases "s' = s")
  case False
  with run obtain n r where "find (\<lambda>r. t_agent_id r = a \<and> claimable s n r) (tasks s) = Some r"
    and claim: "claim_row clock owner (t_agent_id r) s = Inr (v, s')"
    by (auto simp: claim_specific_def res_bind_Inr_iff split: if_splits option.splits)
  then have "r \<in> set (tasks s)" "queued_free r"
    by (auto simp: claimable_def find_Some_iff)
  with claim_row_inv [OF inv _ _ claim, of r] find_task_mem [OF store_inv_keyed [OF inv]] show ?thesis
    by simp
qed (use inv in simp)

end
