(* ===== verification/Store_Preservation_Control.thy ===== *)
theory Store_Preservation_Control
  imports Store_Preservation
begin

text \<open>
  Preservation of the store's invariant by the start of a runtime, cancellation, stop and close
  requests, resumption, reaping and the records of a runtime.
\<close>

section \<open>Start and cancellation before it\<close>

lemma convert_identity_roundtrip:
  assumes "\<forall>i. identity = Some i \<longrightarrow> pid i \<le> 4294967295 \<and> uid i \<le> 4294967295
    \<and> - 2147483648 \<le> process_group_id i \<and> process_group_id i \<le> 2147483647"
    and "t_pid r = map_option (\<lambda>i. int (pid i)) identity"
    and "t_process_group_id r = map_option process_group_id identity"
    and "t_process_uid r = map_option (\<lambda>i. int (uid i)) identity"
    and "t_process_start_token r = map_option start_token identity"
  shows "convert_process_identity r = Inr identity"
  using assms
  by (cases identity) (auto simp: convert_process_identity_def u32_try_from_def i32_try_from_def)

text \<open>The fields of a process identity are of type \<open>u32\<close> and \<open>i32\<close>.\<close>

definition identity_in_range :: "StoredProcessIdentity option \<Rightarrow> bool" where
  "identity_in_range identity \<longleftrightarrow>
     (\<forall>i. identity = Some i \<longrightarrow> pid i \<le> 4294967295 \<and> uid i \<le> 4294967295
        \<and> - 2147483648 \<le> process_group_id i \<and> process_group_id i \<le> 2147483647)"

definition started_row ::
    "int \<Rightarrow> string \<Rightarrow> StoredProcessIdentity option \<Rightarrow> string option \<Rightarrow> TurnState option \<Rightarrow> task_row \<Rightarrow> task_row" where
  "started_row now runtime identity session turn r =
     r\<lparr>t_phase := TaskPhase_as_str Running, t_runtime_agent_id := Some runtime,
       t_pid := map_option (\<lambda>i. int (pid i)) identity,
       t_process_group_id := map_option process_group_id identity,
       t_process_uid := map_option (\<lambda>i. int (uid i)) identity,
       t_process_start_token := map_option start_token identity,
       t_last_heartbeat_at := Some now, t_session_id := coalesce session (t_session_id r),
       t_turn_state := (case turn of None \<Rightarrow> t_turn_state r | Some t \<Rightarrow> TurnState_as_str t)\<rparr>"

lemma started_row_sel [simp]:
  "t_agent_id (started_row now runtime identity session turn r) = t_agent_id r"
  "t_phase (started_row now runtime identity session turn r) = TaskPhase_as_str Running"
  "t_outcome (started_row now runtime identity session turn r) = t_outcome r"
  "t_owner_epoch (started_row now runtime identity session turn r) = t_owner_epoch r"
  "t_workspace_path (started_row now runtime identity session turn r) = t_workspace_path r"
  "t_close_requested (started_row now runtime identity session turn r) = t_close_requested r"
  "t_stop_requested (started_row now runtime identity session turn r) = t_stop_requested r"
  by (simp_all add: started_row_def)

lemma mark_session_running_eval:
  assumes inv: "store_inv s"
    and run: "mark_session_running clock a epoch runtime identity session turn s = Inr (v, s')"
  shows "(\<not> v \<and> s' = s
      \<and> (\<forall>r. find_task s a = Some r \<longrightarrow> t_owner_epoch r \<noteq> int epoch \<or> t_phase r \<noteq> TaskPhase_as_str Preparing))
    \<or> (v \<and> (\<exists>r. find_task s a = Some r \<and> t_owner_epoch r = int epoch \<and> t_phase r = TaskPhase_as_str Preparing
        \<and> s' = add_ledger (ledger_entry (clock 1) a epoch (Some Preparing) Running None (Some ''RUNTIME_STARTED''))
                 (set_task s a (started_row (clock 0) runtime identity session turn r))))"
proof -
  let ?P = "\<lambda>r. t_owner_epoch r = int epoch \<and> t_phase r = TaskPhase_as_str Preparing"
  from run have bound: "int epoch \<le> i64_max"
    by (auto simp: mark_session_running_def u64_to_i64_Inr res_bind_Inr_iff)
  show ?thesis
  proof (cases "\<exists>r. find_task s a = Some r \<and> ?P r")
    case True
    then obtain r where r: "find_task s a = Some r" "?P r" by blast
    have "task_check (started_row (clock 0) runtime identity session turn r)"
      using store_inv_row [OF inv r(1)] r(2) by (simp add: row_ok_def task_check_def)
    then have "update_tasks (\<lambda>r. t_agent_id r = a \<and> ?P r) (started_row (clock 0) runtime identity session turn) s
        = Inr (1, set_task s a (started_row (clock 0) runtime identity session turn r))"
      using update_tasks_hit [OF store_inv_keyed [OF inv] r(1), of ?P] r(2) by simp
    with run r bound show ?thesis
      by (auto simp: mark_session_running_def u64_to_i64_def insert_ledger_eq started_row_def [abs_def])
  next
    case False
    then have "update_tasks (\<lambda>r. t_agent_id r = a \<and> ?P r) (started_row (clock 0) runtime identity session turn) s
        = Inr (0, s)"
      by (intro update_tasks_miss store_inv_keyed [OF inv]) blast
    with run False bound show ?thesis
      by (auto simp: mark_session_running_def u64_to_i64_def started_row_def [abs_def])
  qed
qed

lemma mark_session_running_inv:
  assumes inv: "store_inv s" and range: "identity_in_range identity"
    and run: "mark_session_running clock a epoch runtime identity session turn s = Inr (v, s')"
  shows "store_inv s'"
proof (cases "s' = s")
  case False
  with mark_session_running_eval [OF inv run] obtain r where r: "find_task s a = Some r"
      "t_owner_epoch r = int epoch" "t_phase r = TaskPhase_as_str Preparing"
    and s': "s' = add_ledger (ledger_entry (clock 1) a epoch (Some Preparing) Running None (Some ''RUNTIME_STARTED''))
                 (set_task s a (started_row (clock 0) runtime identity session turn r))"
    by blast
  note ag = store_inv_agent [OF inv r(1)] find_task_agent [OF r(1)]
  have out: "t_outcome r = None" "result_of s a = None" "\<not> t_close_requested r" "\<not> t_stop_requested r"
    using ag(1) r(3) no_result_if_active [OF ag(1)]
    by (auto simp: agent_ok_def row_ok_def task_check_def phase_in_def)
  have "convert_process_identity (started_row (clock 0) runtime identity session turn r) = Inr identity"
    by (rule convert_identity_roundtrip) (use range in \<open>auto simp: identity_in_range_def started_row_def\<close>)
  then have "row_ok (started_row (clock 0) runtime identity session turn r)"
    using ag(1) out by (auto simp: agent_ok_def row_ok_def task_check_def identity_ok_def started_row_def
        split: option.splits)
  then show ?thesis
    unfolding s' using ag r out
    by (intro inv_row_ledger [OF inv r(1)]) (auto simp: agent_ok_def intro!: ledger_ok_snoc [of _ r])
qed (use inv in simp)

definition cancelling_row :: "task_row \<Rightarrow> task_row" where
  "cancelling_row r = r\<lparr>t_phase := TaskPhase_as_str Cancelling, t_stop_requested := True\<rparr>"

lemma agent_ok_cancelling:
  assumes ok: "agent_ok r q m res ls" and ph: "t_phase r = TaskPhase_as_str ph" "ph \<noteq> Terminal"
    "t_owner_epoch r = int epoch"
    and r': "row_ok r'" "t_phase r' = TaskPhase_as_str Cancelling" "t_outcome r' = t_outcome r"
      "t_owner_epoch r' = t_owner_epoch r"
  shows "agent_ok r' False False res (ls @ [ledger_entry now a epoch (Some ph) Cancelling None c])"
proof -
  have "t_outcome r = None" "res = None"
    using ok ph no_result_if_active [OF ok] by (auto simp: agent_ok_def row_ok_def task_check_def)
  with ok r' ph show ?thesis
    by (auto simp: agent_ok_def phase_in_def intro!: ledger_ok_snoc [of _ r])
qed

lemma cancel_unstarted_eval:
  assumes inv: "store_inv s" and run: "cancel_unstarted_if_still_fresh clock a s = Inr (v, s')"
  shows "(\<exists>t. v = Inl t) \<and> s' = s
    \<or> (\<exists>r ph epoch. v = Inr (ph, epoch) \<and> find_task s a = Some r \<and> t_phase r = TaskPhase_as_str ph
        \<and> (ph = Queued \<or> ph = Preparing) \<and> t_session_id r = None \<and> \<not> t_stop_requested r
        \<and> t_owner_epoch r = int epoch
        \<and> s' = add_ledger (ledger_entry (clock 0) a epoch (Some ph) Cancelling None (Some ''STOP_REQUESTED''))
            (settle_terminal_commands a ''STOP_REQUESTED'' (set_task s a (cancelling_row r))))"
proof -
  from run obtain t where t: "require_task (''unknown task '' @ a) s a = Inr t"
    by (auto simp: cancel_unstarted_if_still_fresh_def res_bind_Inr_iff)
  then obtain r where r: "find_task s a = Some r" "t_phase r = TaskPhase_as_str (phase t)"
      "t_owner_epoch r = int (owner_epoch t)" "t_stop_requested r = stop_requested t" "t_session_id r = session_id t"
    using require_task_ok [OF inv t] by metis
  let ?P = "\<lambda>r. t_session_id r = None \<and> phase_in [Queued, Preparing] r \<and> \<not> t_stop_requested r"
  show ?thesis
  proof (cases "session_id t = None \<and> (phase t = Queued \<or> phase t = Preparing) \<and> \<not> stop_requested t")
    case True
    with r have P: "?P r" by (auto simp: phase_in_def)
    have "task_check (cancelling_row r)"
      using store_inv_row [OF inv r(1)] True r(2)
      by (auto simp: row_ok_def task_check_def cancelling_row_def)
    then have "update_tasks (\<lambda>r. t_agent_id r = a \<and> ?P r) cancelling_row s = Inr (1, set_task s a (cancelling_row r))"
      using update_tasks_hit [OF store_inv_keyed [OF inv] r(1), of ?P] P by simp
    with run t True r show ?thesis
      by (auto simp: cancel_unstarted_if_still_fresh_def insert_ledger_eq cancelling_row_def [abs_def]
          split: if_splits)
  next
    case False
    with run t show ?thesis
      by (auto simp: cancel_unstarted_if_still_fresh_def)
  qed
qed

lemma cancel_unstarted_inv:
  assumes inv: "store_inv s" and run: "cancel_unstarted_if_still_fresh clock a s = Inr (v, s')"
  shows "store_inv s'"
proof (cases "s' = s")
  case False
  with cancel_unstarted_eval [OF inv run] obtain r ph epoch where r: "find_task s a = Some r"
      "t_phase r = TaskPhase_as_str ph" "ph = Queued \<or> ph = Preparing" "t_owner_epoch r = int epoch"
    and s': "s' = add_ledger (ledger_entry (clock 0) a epoch (Some ph) Cancelling None (Some ''STOP_REQUESTED''))
            (settle_terminal_commands a ''STOP_REQUESTED'' (set_task s a (cancelling_row r)))"
    by blast
  note ag = store_inv_agent [OF inv r(1)] find_task_agent [OF r(1)]
  have "row_ok (cancelling_row r)"
    using ag(1) r by (auto simp: agent_ok_def row_ok_simps cancelling_row_def)
  then have "agent_ok (cancelling_row r) False False (result_of s a)
      (ledger_of s a @ [ledger_entry (clock 0) a epoch (Some ph) Cancelling None (Some ''STOP_REQUESTED'')])"
    using r by (intro agent_ok_cancelling [OF ag(1) r(2) _ r(4)]) (auto simp: cancelling_row_def)
  then show ?thesis
    unfolding s' using ag r
    by (intro inv_row_settle_ledger [OF inv r(1)]) (auto simp: cancelling_row_def)
qed (use inv in simp)

section \<open>Stop and close requests\<close>

definition stopped_row :: "int \<Rightarrow> TaskPhase \<Rightarrow> bool \<Rightarrow> bool \<Rightarrow> task_row \<Rightarrow> task_row" where
  "stopped_row now next_phase close intent r =
     r\<lparr>t_phase := TaskPhase_as_str next_phase,
       t_close_requested := (if close then True else t_close_requested r),
       t_stop_requested := (if intent then True else t_stop_requested r),
       t_closed_at := (if close then coalesce (t_closed_at r) (Some now) else t_closed_at r)\<rparr>"

lemma stopped_row_sel [simp]:
  "t_agent_id (stopped_row now p close intent r) = t_agent_id r"
  "t_phase (stopped_row now p close intent r) = TaskPhase_as_str p"
  "t_outcome (stopped_row now p close intent r) = t_outcome r"
  "t_owner_epoch (stopped_row now p close intent r) = t_owner_epoch r"
  "t_workspace_path (stopped_row now p close intent r) = t_workspace_path r"
  "t_close_requested (stopped_row now p close intent r) = (close \<or> t_close_requested r)"
  "t_stop_requested (stopped_row now p close intent r) = (intent \<or> t_stop_requested r)"
  by (simp_all add: stopped_row_def)

lemma request_stop_eval:
  assumes inv: "store_inv s" and run: "request_stop_internal clock a close intent s = Inr (d, s')"
  obtains r ph epoch where "find_task s a = Some r" "t_phase r = TaskPhase_as_str ph"
    "t_owner_epoch r = int epoch" "decision_phase d = (if ph = Terminal then Terminal else Cancelling)"
    "needs_runtime_stop d \<longleftrightarrow> ph \<in> set active_phases" "decision_owner_epoch d = epoch"
    "prior_stop_or_close d \<longleftrightarrow> t_close_requested r \<or> t_stop_requested r"
    "s' = (if ph = Terminal then set_task s a (stopped_row (clock 0) Terminal close intent r)
       else if ph = Cancelling
       then settle_terminal_commands a ''STOP_REQUESTED''
              (set_task s a (stopped_row (clock 0) Cancelling close intent r))
       else add_ledger (ledger_entry (clock 1) a epoch (Some ph) Cancelling None
                (Some (if close then ''CLOSE_REQUESTED'' else ''STOP_REQUESTED'')))
              (settle_terminal_commands a ''STOP_REQUESTED''
                (set_task s a (stopped_row (clock 0) Cancelling close intent r))))"
proof -
  from run obtain ph oc epoch c st where guard: "query_guard s a = Inr (ph, oc, epoch, c, st)"
    by (auto simp: request_stop_internal_def res_bind_Inr_iff)
  then obtain r where r: "find_task s a = Some r" "t_phase r = TaskPhase_as_str ph" "t_owner_epoch r = int epoch"
      "t_close_requested r = c" "t_stop_requested r = st"
    by (auto simp: query_guard_ok [OF inv])
  let ?p = "if ph = Terminal then Terminal else Cancelling"
  note row = store_inv_row [OF inv r(1)]
  have "task_check (stopped_row (clock 0) ?p close intent r)"
    using row r(2) by (auto simp: row_ok_def task_check_def)
  then have "update_tasks (\<lambda>r. t_agent_id r = a) (stopped_row (clock 0) ?p close intent) s
      = Inr (1, set_task s a (stopped_row (clock 0) ?p close intent r))"
    using update_tasks_hit_all [OF store_inv_keyed [OF inv] r(1)] by simp
  moreover have "int epoch \<le> i64_max" using row r(3) by (simp add: row_ok_def)
  ultimately show thesis
    using run guard r
    by (intro that [of r ph epoch])
      (auto simp: request_stop_internal_def Let_def insert_ledger_eq stopped_row_def [abs_def] split: if_splits)
qed

lemma request_stop_inv:
  assumes inv: "store_inv s" and run: "request_stop_internal clock a close intent s = Inr (d, s')"
  shows "store_inv s'"
proof (rule request_stop_eval [OF assms])
  fix r ph epoch
  assume r: "find_task s a = Some r" "t_phase r = TaskPhase_as_str ph" "t_owner_epoch r = int epoch"
    and s': "s' = (if ph = Terminal then set_task s a (stopped_row (clock 0) Terminal close intent r)
       else if ph = Cancelling
       then settle_terminal_commands a ''STOP_REQUESTED''
              (set_task s a (stopped_row (clock 0) Cancelling close intent r))
       else add_ledger (ledger_entry (clock 1) a epoch (Some ph) Cancelling None
                (Some (if close then ''CLOSE_REQUESTED'' else ''STOP_REQUESTED'')))
              (settle_terminal_commands a ''STOP_REQUESTED''
                (set_task s a (stopped_row (clock 0) Cancelling close intent r))))"
  note ag = store_inv_agent [OF inv r(1)] find_task_agent [OF r(1)]
  have row: "row_ok (stopped_row (clock 0) (if ph = Terminal then Terminal else Cancelling) close intent r)"
    using ag(1) r by (auto simp: agent_ok_def row_ok_simps stopped_row_def)
  consider "ph = Terminal" | "ph = Cancelling" | "ph \<noteq> Terminal" "ph \<noteq> Cancelling" by blast
  then show "store_inv s'"
  proof cases
    case 1
    have "agent_ok (stopped_row (clock 0) Terminal close intent r) (has_request s a) (has_message s a)
        (result_of s a) (ledger_of s a)"
      using 1 ag(1) r row by (auto simp: agent_ok_def phase_in_def intro: ledger_ok_same)
    then have "store_inv (set_task s a (stopped_row (clock 0) Terminal close intent r))"
      using ag(2) by (intro inv_row [OF inv r(1)]) simp_all
    with 1 show ?thesis by (simp add: s')
  next
    case 2
    have "agent_ok (stopped_row (clock 0) Cancelling close intent r) False False
        (result_of s a) (ledger_of s a)"
      using 2 ag(1) r row by (auto simp: agent_ok_def phase_in_def intro: ledger_ok_same)
    then have "store_inv (settle_terminal_commands a ''STOP_REQUESTED''
        (set_task s a (stopped_row (clock 0) Cancelling close intent r)))"
      using ag(2) r(2) 2 by (intro inv_row_settle [OF inv r(1)]) simp_all
    with 2 show ?thesis by (simp add: s')
  next
    case 3
    have "agent_ok (stopped_row (clock 0) Cancelling close intent r) False False (result_of s a)
        (ledger_of s a @ [ledger_entry (clock 1) a epoch (Some ph) Cancelling None
                (Some (if close then ''CLOSE_REQUESTED'' else ''STOP_REQUESTED''))])"
      using 3 row by (intro agent_ok_cancelling [OF ag(1) r(2) _ r(3)]) auto
    then have "store_inv (add_ledger (ledger_entry (clock 1) a epoch (Some ph) Cancelling None
          (Some (if close then ''CLOSE_REQUESTED'' else ''STOP_REQUESTED'')))
        (settle_terminal_commands a ''STOP_REQUESTED''
          (set_task s a (stopped_row (clock 0) Cancelling close intent r))))"
      using ag(2) r(2) 3 by (intro inv_row_settle_ledger [OF inv r(1)]) simp_all
    with 3 show ?thesis by (simp add: s')
  qed
qed

section \<open>Reaping and the cancellation fence\<close>

definition reaped_row :: "int \<Rightarrow> task_row \<Rightarrow> task_row" where
  "reaped_row now r = r\<lparr>t_owner_id := None, t_lease_expires_at := None,
     t_reaped_at := coalesce (t_reaped_at r) (Some now)\<rparr>"

lemma reap_task_eval:
  assumes inv: "store_inv s" and run: "reap_task clock a s = Inr (v, s')"
  shows "\<exists>r oc. find_task s a = Some r \<and> is_terminal_row r \<and> t_outcome r = Some (TaskOutcome_as_str oc)
    \<and> v = Inr oc \<and> s' = set_task s a (reaped_row (clock 0) r)"
proof -
  from run obtain oc epoch c st where guard: "query_guard s a = Inr (Terminal, oc, epoch, c, st)"
    by (auto simp: reap_task_def res_bind_Inr_iff split: if_splits)
  then obtain r where r: "find_task s a = Some r" "is_terminal_row r" "t_outcome r = map_option TaskOutcome_as_str oc"
    by (auto simp: query_guard_ok [OF inv])
  note row = store_inv_row [OF inv r(1)]
  have "task_check (reaped_row (clock 0) r)"
    using row by (simp add: row_ok_def task_check_def reaped_row_def)
  then have "update_tasks (\<lambda>r. t_agent_id r = a) (reaped_row (clock 0)) s = Inr (1, set_task s a (reaped_row (clock 0) r))"
    using update_tasks_hit_all [OF store_inv_keyed [OF inv] r(1)] by simp
  moreover obtain x where "oc = Some x"
    using row r by (cases oc) (auto simp: row_ok_def task_check_def)
  ultimately show ?thesis
    using run guard r by (auto simp: reap_task_def reaped_row_def [abs_def])
qed

lemma agent_ok_reaped: "agent_ok r q m res ls \<Longrightarrow> agent_ok (reaped_row now r) q m res ls"
  by (auto simp: agent_ok_def row_ok_simps reaped_row_def phase_in_def intro: ledger_ok_same)

lemma reap_task_inv:
  assumes inv: "store_inv s" and run: "reap_task clock a s = Inr (v, s')"
  shows "store_inv s'"
proof -
  from reap_task_eval [OF assms] obtain r where r: "find_task s a = Some r" "is_terminal_row r"
    and s': "s' = set_task s a (reaped_row (clock 0) r)"
    by blast
  show ?thesis
    unfolding s' using agent_ok_reaped [OF store_inv_agent [OF inv r(1)]] find_task_agent [OF r(1)] r(2)
    by (intro inv_row [OF inv r(1)]) (auto simp: reaped_row_def)
qed

definition fenced_row :: "task_row \<Rightarrow> task_row" where
  "fenced_row r = (if t_phase r = TaskPhase_as_str Queued then r\<lparr>t_stop_requested := True\<rparr> else r)"

lemma fenced_row_sel [simp]:
  "t_agent_id (fenced_row r) = t_agent_id r" "t_phase (fenced_row r) = t_phase r"
  "t_outcome (fenced_row r) = t_outcome r" "t_owner_epoch (fenced_row r) = t_owner_epoch r"
  "t_workspace_path (fenced_row r) = t_workspace_path r"
  "t_close_requested (fenced_row r) = t_close_requested r"
  "t_stop_requested (fenced_row r) \<longleftrightarrow> t_phase r = TaskPhase_as_str Queued \<or> t_stop_requested r"
  by (simp_all add: fenced_row_def)

lemma fence_eval:
  assumes inv: "store_inv s"
  shows "fence_queued_cancellation s = Inr ((), s\<lparr>tasks := map fenced_row (tasks s)\<rparr>)"
proof -
  have "task_check (r\<lparr>t_stop_requested := True\<rparr>)" if "r \<in> set (tasks s)" for r
    using store_inv_row [OF inv find_task_mem [OF store_inv_keyed [OF inv] that]]
    by (simp add: row_ok_def task_check_def)
  then show ?thesis
    by (auto simp: fence_queued_cancellation_def update_tasks_def list_ex_iff update_rows_def
        fenced_row_def [abs_def])
qed

lemma find_task_fence:
  "find_task (s\<lparr>tasks := map fenced_row (tasks s)\<rparr>) a = map_option fenced_row (find_task s a)"
  unfolding find_task_def by (simp add: find_keyed_map [where key = t_agent_id])

lemma agent_ok_fenced:
  assumes "agent_ok r q m res ls"
  shows "agent_ok (fenced_row r) q m res ls"
proof (cases "t_phase r = TaskPhase_as_str Queued")
  case True
  then have row: "fenced_row r = r\<lparr>t_stop_requested := True\<rparr>" by (simp add: fenced_row_def)
  from True assms show ?thesis
    unfolding row by (simp add: agent_ok_def row_ok_simps phase_in_def ledger_ok_def)
next
  case False
  with assms show ?thesis by (simp add: fenced_row_def)
qed

lemma fence_inv:
  assumes inv: "store_inv s" and run: "fence_queued_cancellation s = Inr (v, s')"
  shows "store_inv s'"
proof -
  have s': "s' = s\<lparr>tasks := map fenced_row (tasks s)\<rparr>"
    using run fence_eval [OF inv] by simp
  have "view_ok s' a" for a
  proof (cases "find_task s a")
    case None
    then show ?thesis
      using store_inv_absent [OF inv None] by (simp add: view_ok_def s' find_task_fence)
  next
    case (Some r)
    then show ?thesis
      using agent_ok_fenced [OF store_inv_agent [OF inv Some]] by (simp add: view_ok_def s' find_task_fence)
  qed
  moreover have "exclusive (find_task s')"
  proof -
    have "exclusive (find_task s)" using inv by (simp add: store_inv_def)
    then show ?thesis by (auto simp: exclusive_def s' find_task_fence)
  qed
  moreover have "keyed s'" using inv by (simp add: s' store_inv_def keyed_def o_def)
  ultimately show ?thesis using inv by (simp add: store_inv_def s')
qed

section \<open>Resumption\<close>

lemma requeued_row_sel [simp]:
  "t_agent_id (requeued_row r) = t_agent_id r" "t_phase (requeued_row r) = TaskPhase_as_str Queued"
  "t_outcome (requeued_row r) = None" "t_owner_epoch (requeued_row r) = t_owner_epoch r"
  "t_workspace_path (requeued_row r) = t_workspace_path r"
  "\<not> t_close_requested (requeued_row r)" "\<not> t_stop_requested (requeued_row r)"
  "t_session_id (requeued_row r) = t_session_id r" "t_last_event_seq (requeued_row r) = 0"
  by (simp_all add: requeued_row_def)

definition requeued_store ::
    "clock \<Rightarrow> string \<Rightarrow> string \<Rightarrow> string \<Rightarrow> string \<Rightarrow> task_row \<Rightarrow> store \<Rightarrow> store" where
  "requeued_store clock a mid mode content r s =
     (let s1 = set_task (s\<lparr>task_results := filter (\<lambda>x. r_agent_id x \<noteq> a) (task_results s)\<rparr>) a (requeued_row r);
          s2 = add_ledger (ledger_entry (clock 0) a (nat (t_owner_epoch r)) (Some Terminal) Queued None
                 (Some ''RESUME_REQUESTED'')) s1 in
      s2\<lparr>messages := messages s2 @ [new_message_row mid a mode content (clock 1)]\<rparr>)"

lemma requeue_eval:
  assumes inv: "store_inv s"
    and run: "requeue_task_for_resume_with_message clock a mid mode content s = Inr (v, s')"
  shows "\<exists>r. find_task s a = Some r \<and> is_terminal_row r \<and> t_session_id r \<noteq> None \<and> mode \<in> set message_modes
    \<and> (if v then t_outcome r \<noteq> Some (TaskOutcome_as_str Cancelled) \<and> \<not> t_stop_requested r
              \<and> \<not> t_close_requested r \<and> t_closed_at r = None \<and> (t_pid r \<noteq> None \<longrightarrow> t_reaped_at r \<noteq> None)
              \<and> (\<forall>b rb. b \<noteq> a \<longrightarrow> find_task s b = Some rb \<longrightarrow> t_workspace_path rb = t_workspace_path r
                    \<longrightarrow> is_terminal_row rb)
              \<and> mid \<notin> m_message_id ` set (messages s)
              \<and> s' = requeued_store clock a mid mode content r s
       else s' = s)"
proof -
  from run obtain r where r: "find_task s a = Some r"
    by (auto simp: requeue_task_for_resume_with_message_def split: if_splits option.splits)
  note row = store_inv_row [OF inv r]
  then obtain ph where ph: "t_phase r = TaskPhase_as_str ph" using row_ok_phase by blast
  obtain oc where oc: "t_outcome r = map_option TaskOutcome_as_str oc"
    and parse: "parse_outcome_column (t_outcome r) = Inr oc"
  proof (cases "t_outcome r")
    case None
    with that [of None] show thesis by (simp add: parse_outcome_column_def)
  next
    case (Some x)
    with row obtain y where "x = TaskOutcome_as_str y" by (auto simp: row_ok_def)
    with Some that [of "Some y"] show thesis by (simp add: parse_outcome_column_def)
  qed
  have canc: "oc = Some Cancelled \<longleftrightarrow> t_outcome r = Some (TaskOutcome_as_str Cancelled)"
    by (cases oc) (simp_all add: oc)
  let ?s0 = "s\<lparr>task_results := filter (\<lambda>x. r_agent_id x \<noteq> a) (task_results s)\<rparr>"
  have upd: "update_tasks (\<lambda>x. t_agent_id x = a \<and> t_phase x = TaskPhase_as_str Terminal) requeued_row ?s0
      = Inr (1, set_task ?s0 a (requeued_row r))" if "ph = Terminal"
    using update_tasks_hit [of ?s0 a r "\<lambda>x. t_phase x = TaskPhase_as_str Terminal" requeued_row] r ph that
      store_inv_keyed [OF inv] by (simp add: task_check_def)
  have owner: "workspace_owner s (\<lambda>x. t_workspace_path x = t_workspace_path r \<and> t_agent_id x \<noteq> a) = None \<longleftrightarrow>
      (\<forall>b rb. b \<noteq> a \<longrightarrow> find_task s b = Some rb \<longrightarrow> t_workspace_path rb = t_workspace_path r \<longrightarrow> is_terminal_row rb)"
    (is "?L = ?R")
  proof
    assume ?L
    then show ?R
      using find_task_agent phase_in_nonterminal store_inv_row [OF inv] unfolding workspace_owner_None by metis
  next
    assume ?R
    then show ?L
      using tasks_find [OF store_inv_keyed [OF inv]] phase_in_nonterminal store_inv_row [OF inv]
      unfolding workspace_owner_None by metis
  qed
  have epoch: "i64_to_u64 (t_owner_epoch r) = Inr (nat (t_owner_epoch r))" "int (nat (t_owner_epoch r)) \<le> i64_max"
    using row by (simp_all add: row_ok_def i64_to_u64_def)
  show ?thesis
    using run r ph parse upd owner epoch canc
    by (auto simp: requeue_task_for_resume_with_message_def as_conversion_failure_def insert_ledger_eq
        requeued_store_def Let_def list_ex_iff split: if_splits option.splits)
qed

lemma open_new_message [simp]: "open_message b (new_message_row mid a mode content now) \<longleftrightarrow> b = a"
  by (auto simp: open_message_def new_message_row_def)

lemma has_message_append:
  "has_message (s\<lparr>messages := ms @ [new_message_row mid a mode content now]\<rparr>) b
   \<longleftrightarrow> list_ex (open_message b) ms \<or> b = a"
  by (auto simp: has_message_def)

lemma messages_ok_append:
  "messages_ok ms \<Longrightarrow> mid \<notin> m_message_id ` set ms \<Longrightarrow> mode \<in> set message_modes \<Longrightarrow>
     messages_ok (ms @ [new_message_row mid a mode content now])"
  by (auto simp: messages_ok_def new_message_row_def)

lemma find_filter_other:
  "find (\<lambda>x. key x = b) (filter (\<lambda>x. key x \<noteq> a) xs) = (if b = a then None else find (\<lambda>x. key x = b) xs)"
  by (induction xs) auto

lemma result_of_delete:
  "result_of (s\<lparr>task_results := filter (\<lambda>x. r_agent_id x \<noteq> a) (task_results s)\<rparr>) b
   = (if b = a then None else result_of s b)"
  using find_filter_other [of r_agent_id b a "task_results s"] by (simp add: result_of_def)

lemma requeued_store_views:
  assumes "find_task s a = Some r"
  shows "find_task (requeued_store clock a mid mode content r s) = (find_task s)(a \<mapsto> requeued_row r)"
    and "has_request (requeued_store clock a mid mode content r s) = has_request s"
    and "has_message (requeued_store clock a mid mode content r s) b \<longleftrightarrow> has_message s b \<or> b = a"
    and "result_of (requeued_store clock a mid mode content r s) b = (if b = a then None else result_of s b)"
    and "ledger_of (requeued_store clock a mid mode content r s) = (ledger_of s)(a := ledger_of s a @
      [ledger_entry (clock 0) a (nat (t_owner_epoch r)) (Some Terminal) Queued None (Some ''RESUME_REQUESTED'')])"
    and "keyed (requeued_store clock a mid mode content r s) = keyed s"
  using assms find_task_agent [OF assms]
  by (simp_all add: requeued_store_def Let_def has_message_append result_of_delete has_message_def)

lemma requeue_inv:
  assumes inv: "store_inv s"
    and run: "requeue_task_for_resume_with_message clock a mid mode content s = Inr (v, s')"
  shows "store_inv s'"
proof (cases v)
  case False
  with requeue_eval [OF assms] inv show ?thesis by auto
next
  case True
  with requeue_eval [OF assms] obtain r where r: "find_task s a = Some r" "is_terminal_row r"
    and mode: "mode \<in> set message_modes" "mid \<notin> m_message_id ` set (messages s)"
    and free: "\<forall>b rb. b \<noteq> a \<longrightarrow> find_task s b = Some rb \<longrightarrow> t_workspace_path rb = t_workspace_path r
        \<longrightarrow> is_terminal_row rb"
    and s': "s' = requeued_store clock a mid mode content r s"
    by auto
  note ag = store_inv_agent [OF inv r(1)] find_task_agent [OF r(1)] and views = requeued_store_views [OF r(1)]
  have row: "row_ok (requeued_row r)"
    using ag(1) by (simp add: agent_ok_def row_ok_simps requeued_row_def)
  have epoch: "0 \<le> t_owner_epoch r" using ag(1) by (simp add: agent_ok_def row_ok_def)
  show ?thesis
  proof (rule store_inv_touch [OF inv r(1), where r' = "requeued_row r"])
    show "agent_ok (requeued_row r) (has_request s' a) (has_message s' a) (result_of s' a) (ledger_of s' a)"
      using ag(1) r(2) row epoch unfolding s' views
      by (simp add: agent_ok_def) (rule ledger_ok_snoc [of _ r], simp_all)
    show "tables_ok s'"
      using store_inv_tables [OF inv] mode
      by (simp add: s' tables_ok_def requeued_store_def Let_def messages_ok_append results_ok_def
          distinct_map_filter)
  qed (use inv free in \<open>auto simp: s' views same_views_def\<close>)
qed

section \<open>Records of a runtime\<close>

definition recorded_row :: "int \<Rightarrow> int \<Rightarrow> TurnState option \<Rightarrow> task_row \<Rightarrow> task_row" where
  "recorded_row sequence now turn r =
     r\<lparr>t_last_event_seq := sequence, t_last_heartbeat_at := Some now,
       t_turn_state := (case turn of None \<Rightarrow> t_turn_state r | Some t \<Rightarrow> TurnState_as_str t)\<rparr>"

lemma recorded_row_sel [simp]:
  "t_agent_id (recorded_row q now turn r) = t_agent_id r" "t_phase (recorded_row q now turn r) = t_phase r"
  "t_outcome (recorded_row q now turn r) = t_outcome r"
  "t_owner_epoch (recorded_row q now turn r) = t_owner_epoch r"
  "t_workspace_path (recorded_row q now turn r) = t_workspace_path r"
  "t_close_requested (recorded_row q now turn r) = t_close_requested r"
  "t_stop_requested (recorded_row q now turn r) = t_stop_requested r"
  "t_last_event_seq (recorded_row q now turn r) = q"
  by (simp_all add: recorded_row_def)

lemma agent_ok_recorded:
  assumes "agent_ok r q m res ls" "0 \<le> n" "n \<le> i64_max"
  shows "agent_ok (recorded_row n now turn r) q m res ls"
proof -
  have "row_ok (recorded_row n now turn r)"
    using assms by (cases turn) (simp_all add: agent_ok_def row_ok_simps recorded_row_def)
  with assms show ?thesis by (simp add: agent_ok_def phase_in_def ledger_ok_def)
qed

definition event_of :: "clock \<Rightarrow> LifecycleWrite \<Rightarrow> int \<Rightarrow> event_row" where
  "event_of clock w sequence =
     \<lparr>e_agent_id = write_agent_id w, e_runtime_agent_id = write_runtime_agent_id w, e_seq = sequence,
      e_source_seq = int (source_sequence w), e_timestamp = clock 0, e_event_type = event_type w,
      e_turn_id = turn_id w, e_payload_json = payload_json w, e_redaction_level = redaction_level w\<rparr>"

definition recorded_store :: "clock \<Rightarrow> LifecycleWrite \<Rightarrow> task_row \<Rightarrow> store \<Rightarrow> store" where
  "recorded_store clock w r s =
     (let n = t_last_event_seq r + 1 in
      set_task (s\<lparr>events := events s @ [event_of clock w n]\<rparr>) (write_agent_id w)
        (recorded_row n (clock 1) (write_turn_state w) r))"

lemma store_inv_events [simp]: "store_inv (s\<lparr>events := ev\<rparr>) = store_inv s"
  by (simp add: store_inv_def view_ok_def cong: option.case_cong)

lemma recorded_store_inv:
  assumes inv: "store_inv s" and r: "find_task s (write_agent_id w) = Some r"
    and bound: "t_last_event_seq r < i64_max"
  shows "store_inv (recorded_store clock w r s)"
proof -
  let ?s = "s\<lparr>events := events s @ [event_of clock w (t_last_event_seq r + 1)]\<rparr>"
  have inv': "store_inv ?s" and r': "find_task ?s (write_agent_id w) = Some r"
    using inv r by simp_all
  note ag = store_inv_agent [OF inv' r'] find_task_agent [OF r]
  have "0 \<le> t_last_event_seq r" using ag(1) by (simp add: agent_ok_def row_ok_def)
  then show ?thesis
    unfolding recorded_store_def Let_def using bound ag
    by (intro inv_row [OF inv' r'] agent_ok_recorded) auto
qed

lemma find_recorded_store:
  assumes "find_task s (write_agent_id w) = Some r"
  shows "find_task (recorded_store clock w r s) = (find_task s)(write_agent_id w \<mapsto>
    recorded_row (t_last_event_seq r + 1) (clock 1) (write_turn_state w) r)"
  using assms find_task_agent [OF assms] by (simp add: recorded_store_def Let_def)

lemma append_lifecycle_eval:
  assumes inv: "store_inv s" and run: "append_lifecycle clock w s = Inr (v, s')"
  shows "(\<exists>e \<in> set (events s). same_event w (int (source_sequence w)) e \<and> v = i64_to_u64 (e_seq e) \<and> s' = s)
    \<or> (\<exists>r ph. find_task s (write_agent_id w) = Some r \<and> t_phase r = TaskPhase_as_str ph \<and> ph \<noteq> Terminal
        \<and> t_owner_epoch r = int (write_owner_epoch w) \<and> t_last_event_seq r < i64_max
        \<and> v = Inr (nat (t_last_event_seq r + 1))
        \<and> s' = (case terminal w of None \<Rightarrow> recorded_store clock w r s
             | Some upd \<Rightarrow>
                 terminal_store (clock 2) (clock 3) (write_agent_id w) (write_owner_epoch w) ph
                   (effective_outcome (t_close_requested r) (t_stop_requested r) (terminal_outcome upd)) upd
                   (recorded_row (t_last_event_seq r + 1) (clock 1) (write_turn_state w) r)
                   (recorded_store clock w r s)))"
proof -
  let ?a = "write_agent_id w" and ?src = "int (source_sequence w)"
  from run have src: "u64_to_i64 (source_sequence w) = Inr ?src"
    by (auto simp: append_lifecycle_def res_bind_Inr_iff u64_to_i64_Inr)
  show ?thesis
  proof (cases "find (same_event w ?src) (events s)")
    case (Some e)
    then have "e \<in> set (events s)" "same_event w ?src e" by (auto simp: find_Some_iff)
    with run src Some show ?thesis by (auto simp: append_lifecycle_def)
  next
    case None
    with run src obtain ph oc epoch c st where guard: "query_guard s ?a = Inr (ph, oc, epoch, c, st)"
      by (auto simp: append_lifecycle_def res_bind_Inr_iff)
    then obtain r where r: "find_task s ?a = Some r" "t_phase r = TaskPhase_as_str ph" "t_owner_epoch r = int epoch"
        "t_close_requested r = c" "t_stop_requested r = st"
      by (auto simp: query_guard_ok [OF inv])
    note row = store_inv_row [OF inv r(1)]
    let ?n = "t_last_event_seq r + 1"
    let ?s1 = "s\<lparr>events := events s @ [event_of clock w ?n]\<rparr>"
    let ?r = "recorded_row ?n (clock 1) (write_turn_state w) r"
    from run src None guard r have ph: "ph \<noteq> Terminal" "epoch = write_owner_epoch w" "t_last_event_seq r < i64_max"
      by (auto simp: append_lifecycle_def split: if_splits)
    have "task_check ?r" using row by (simp add: row_ok_def task_check_def)
    then have upd: "update_tasks (\<lambda>x. t_agent_id x = ?a) (recorded_row ?n (clock 1) (write_turn_state w)) ?s1
        = Inr (1, recorded_store clock w r s)"
      using update_tasks_hit_all [of ?s1 ?a r] r(1) store_inv_keyed [OF inv] by (simp add: recorded_store_def Let_def)
    have epoch: "int (write_owner_epoch w) \<le> i64_max" using row r(3) ph(2) by (simp add: row_ok_def)
    have rec: "keyed (recorded_store clock w r s)" "find_task (recorded_store clock w r s) ?a = Some ?r"
      using recorded_store_inv [OF inv r(1) ph(3)] find_recorded_store [OF r(1)] by auto
    have fin: "apply_terminal (clock 2) (clock 3) ?a (write_owner_epoch w) ph c st upd (recorded_store clock w r s)
        = Inr (effective_outcome c st (terminal_outcome upd),
            terminal_store (clock 2) (clock 3) ?a (write_owner_epoch w) ph
              (effective_outcome c st (terminal_outcome upd)) upd ?r (recorded_store clock w r s))" for upd
      using r ph epoch by (intro apply_terminal_eval [OF rec]) simp_all
    have seq: "i64_to_u64 ?n = Inr (nat ?n)" using row by (simp add: row_ok_def i64_to_u64_def)
    from run src None guard r ph obtain s1 where "insert_event (event_of clock w ?n) s = Inr s1"
      by (auto simp: append_lifecycle_def Let_def event_of_def res_bind_Inr_iff)
    then have ins: "insert_event (event_of clock w ?n) s = Inr ?s1"
      by (auto simp: insert_event_def split: if_splits)
    have "append_lifecycle clock w s = (case terminal w of None \<Rightarrow> Inr (i64_to_u64 ?n, recorded_store clock w r s)
         | Some upd \<Rightarrow> res_bind (apply_terminal (clock 2) (clock 3) ?a (write_owner_epoch w) ph c st upd
               (recorded_store clock w r s)) (\<lambda>(_, s3). Inr (i64_to_u64 ?n, s3)))"
      using src None guard r ph ins upd
      by (simp add: append_lifecycle_def Let_def event_of_def recorded_row_def [abs_def])
    with run fin seq r ph show ?thesis by (auto split: option.splits)
  qed
qed

lemma append_lifecycle_inv:
  assumes inv: "store_inv s" and run: "append_lifecycle clock w s = Inr (v, s')"
  shows "store_inv s'"
  using append_lifecycle_eval [OF assms]
proof (elim disjE exE bexE conjE)
  fix r ph
  assume r: "find_task s (write_agent_id w) = Some r" "t_phase r = TaskPhase_as_str ph" "ph \<noteq> Terminal"
      "t_owner_epoch r = int (write_owner_epoch w)" "t_last_event_seq r < i64_max"
    and s': "s' = (case terminal w of None \<Rightarrow> recorded_store clock w r s
             | Some upd \<Rightarrow>
                 terminal_store (clock 2) (clock 3) (write_agent_id w) (write_owner_epoch w) ph
                   (effective_outcome (t_close_requested r) (t_stop_requested r) (terminal_outcome upd)) upd
                   (recorded_row (t_last_event_seq r + 1) (clock 1) (write_turn_state w) r)
                   (recorded_store clock w r s))"
  note rec = recorded_store_inv [OF inv r(1,5), of clock] and find = find_recorded_store [OF r(1), of clock]
  show "store_inv s'"
    using rec r find by (cases "terminal w") (auto simp: s' intro!: terminal_store_inv [OF rec])
qed (use inv in simp)

end
