(* ===== verification/Store_Preservation_Exchange.thy ===== *)
theory Store_Preservation_Exchange
  imports Store_Preservation_Control
begin

text \<open>
  Preservation of the store's invariant by results, messages and requests for input.
\<close>

section \<open>Results\<close>

definition new_result_row :: "int \<Rightarrow> string \<Rightarrow> TaskResult \<Rightarrow> string \<Rightarrow> result_row" where
  "new_result_row now a res d =
     \<lparr>r_agent_id = a, r_outcome = TaskOutcome_as_str (result_outcome res), r_final_text = final_text res,
      r_partial = partial res, r_sha256 = d, r_completed_at = now\<rparr>"

lemma result_of_append:
  "result_of (s\<lparr>task_results := task_results s @ [x]\<rparr>) b =
     (case result_of s b of Some y \<Rightarrow> Some y | None \<Rightarrow> if r_agent_id x = b then Some x else None)"
proof -
  have "find p (xs @ [x]) = (case find p xs of Some y \<Rightarrow> Some y | None \<Rightarrow> if p x then Some x else None)"
    for p :: "result_row \<Rightarrow> bool" and xs
    by (induction xs) simp_all
  then show ?thesis by (simp add: result_of_def)
qed

definition result_store ::
    "clock \<Rightarrow> string \<Rightarrow> TaskResult \<Rightarrow> string \<Rightarrow> TerminalUpdate \<Rightarrow> nat \<Rightarrow> TaskPhase \<Rightarrow> task_row \<Rightarrow> store \<Rightarrow> store" where
  "result_store clock a res d upd epoch ph r s =
     terminal_store (clock 1) (clock 2) a epoch ph (result_outcome res) upd r
       (s\<lparr>task_results := task_results s @ [new_result_row (clock 0) a res d]\<rparr>)"

lemma store_task_result_eval:
  assumes inv: "store_inv s"
    and run: "store_task_result_with_reason digest clock a res reason message s = Inr (v, s')"
  shows "\<exists>d. digest res = Inr d \<and> validate_result res = Inr () \<and>
    ((\<exists>x. result_of s a = Some x \<and> r_sha256 x = d \<and> s' = s)
     \<or> (\<exists>r ph epoch. result_of s a = None \<and> find_task s a = Some r \<and> t_phase r = TaskPhase_as_str ph
         \<and> ph \<in> set active_phases \<and> t_owner_epoch r = int epoch
         \<and> (result_outcome res = Completed \<longrightarrow> \<not> has_request s a \<and> \<not> has_message s a)
         \<and> (t_stop_requested r \<or> t_close_requested r \<longrightarrow> result_outcome res = Cancelled)
         \<and> s' = result_store clock a res d (result_terminal_update res reason (t_failure_code r) message)
              epoch ph r s))"
proof -
  from run obtain d task where d: "validate_result res = Inr ()" "digest res = Inr d"
    and task: "require_task (''unknown task '' @ a) s a = Inr task"
    by (auto simp: store_task_result_with_reason_def res_bind_Inr_iff)
  then obtain r where r: "find_task s a = Some r" "t_phase r = TaskPhase_as_str (phase task)"
      "t_owner_epoch r = int (owner_epoch task)" "t_close_requested r = close_requested task"
      "t_stop_requested r = stop_requested task" "t_failure_code r = task_failure_code task"
    using require_task_ok [OF inv task] by metis
  show ?thesis
  proof (cases "result_of s a")
    case (Some x)
    with run d task show ?thesis
      by (auto simp: store_task_result_with_reason_def result_of_def split: if_splits)
  next
    case None
    let ?s = "s\<lparr>task_results := task_results s @ [new_result_row (clock 0) a res d]\<rparr>"
    let ?upd = "result_terminal_update res reason (t_failure_code r) message"
    from None run d task have ph: "phase task \<in> set active_phases" "phase task \<noteq> Terminal"
        "result_outcome res = Completed \<longrightarrow> \<not> has_request s a \<and> \<not> has_message s a"
        "stop_requested task \<or> close_requested task \<longrightarrow> result_outcome res = Cancelled"
      and last: "res_bind (apply_terminal (clock 1) (clock 2) a (owner_epoch task) (phase task)
          (close_requested task) (stop_requested task) ?upd ?s) (\<lambda>(_, s1). Inr ((), s1)) = Inr (v, s')"
      by (auto simp: store_task_result_with_reason_def result_of_def completion_blockers_def
          has_request_def has_message_def new_result_row_def r(6) split: if_splits)
    have out: "effective_outcome (close_requested task) (stop_requested task) (terminal_outcome ?upd) = result_outcome res"
      using ph(4) by (auto simp: effective_outcome_def result_terminal_update_def)
    have bound: "int (owner_epoch task) \<le> i64_max"
      using store_inv_row [OF inv r(1)] r(3) by (simp add: row_ok_def)
    have "apply_terminal (clock 1) (clock 2) a (owner_epoch task) (phase task)
          (close_requested task) (stop_requested task) ?upd ?s
        = Inr (result_outcome res, result_store clock a res d ?upd (owner_epoch task) (phase task) r s)"
      using apply_terminal_eval [of ?s a r "owner_epoch task" "phase task" "clock 1" "clock 2"
          "close_requested task" "stop_requested task" ?upd] r ph(2) bound store_inv_keyed [OF inv] out
      by (simp add: result_store_def)
    with last None r ph d show ?thesis by auto
  qed
qed

lemma store_task_result_inv:
  assumes inv: "store_inv s"
    and run: "store_task_result_with_reason digest clock a res reason message s = Inr (v, s')"
  shows "store_inv s'"
proof (cases "s' = s")
  case False
  with store_task_result_eval [OF assms] obtain d r ph epoch where none: "result_of s a = None"
    and r: "find_task s a = Some r" "t_phase r = TaskPhase_as_str ph" "ph \<in> set active_phases"
      "t_owner_epoch r = int epoch"
    and s': "s' = result_store clock a res d (result_terminal_update res reason (t_failure_code r) message)
              epoch ph r s"
    by blast
  let ?upd = "result_terminal_update res reason (t_failure_code r) message"
  let ?x = "new_result_row (clock 0) a res d" and ?r = "terminal_row (clock 1) (result_outcome res) ?upd r"
  note ag = store_inv_agent [OF inv r(1)] find_task_agent [OF r(1)]
  have res: "result_of s' b = (if b = a then Some ?x else result_of s b)" for b
    using none by (auto simp: s' result_store_def terminal_store_def result_of_append new_result_row_def
        split: option.splits)
  show ?thesis
  proof (rule store_inv_touch [OF inv r(1), where r' = ?r])
    have "agent_ok ?r False False (Some ?x) (ledger_of s a @ [ledger_entry (clock 2) a epoch (Some ph) Terminal
        (Some (result_outcome res)) (terminal_failure_code ?upd)])"
      by (rule agent_ok_terminal [OF ag(1) _ r(4,2)]) (simp add: new_result_row_def)
    then show "agent_ok ?r (has_request s' a) (has_message s' a) (result_of s' a) (ledger_of s' a)"
      unfolding res by (simp add: s' result_store_def terminal_store_def)
    have "a \<notin> r_agent_id ` set (task_results s)"
      using none find_key_None [of r_agent_id a "task_results s"] by (simp add: result_of_def)
    then have "tables_ok (s\<lparr>task_results := task_results s @ [?x]\<rparr>)"
      using store_inv_tables [OF inv] by (auto simp: tables_ok_def results_ok_def new_result_row_def)
    then show "tables_ok s'"
      by (simp add: s' result_store_def terminal_store_def tables_ok_settle)
  qed (use inv r(1) ag(2) res in \<open>auto simp: s' result_store_def terminal_store_def same_views_def\<close>)
qed (use inv in simp)

section \<open>Messages\<close>

text \<open>An operation on the messages of a store whose tasks keep theirs in order.\<close>

lemma inv_messages:
  assumes inv: "store_inv s" and ok: "messages_ok ms"
    and view: "\<And>b. list_ex (open_message b) ms \<Longrightarrow>
      has_message s b \<or> (\<exists>r. find_task s b = Some r \<and> \<not> is_terminal_row r)"
  shows "store_inv (s\<lparr>messages := ms\<rparr>)"
proof -
  have "view_ok (s\<lparr>messages := ms\<rparr>) b" for b
  proof (cases "find_task s b")
    case None
    then show ?thesis
      using store_inv_absent [OF inv None] view [of b] by (auto simp: view_ok_def has_message_def)
  next
    case (Some r)
    then show ?thesis
      using store_inv_agent [OF inv Some] view [of b] by (auto simp: view_ok_def agent_ok_def has_message_def)
  qed
  then show ?thesis using inv ok by (simp add: store_inv_def)
qed

lemma insert_message_eval:
  assumes inv: "store_inv s" and run: "insert_message clock mid a mode content s = Inr (v, s')"
  shows "\<exists>r. find_task s a = Some r \<and> \<not> is_terminal_row r \<and> \<not> t_close_requested r \<and> \<not> t_stop_requested r
    \<and> mode \<in> set message_modes
    \<and> (if v then mid \<notin> m_message_id ` set (messages s)
              \<and> s' = s\<lparr>messages := messages s @ [new_message_row mid a mode content (clock 0)]\<rparr>
       else s' = s \<and> (\<exists>m \<in> set (messages s). m_message_id m = mid \<and> m_agent_id m = a
              \<and> m_mode m = mode \<and> m_content m = content))"
proof -
  from run obtain ph oc epoch c st where guard: "query_guard s a = Inr (ph, oc, epoch, c, st)"
    by (auto simp: insert_message_def res_bind_Inr_iff split: if_splits)
  then obtain r where r: "find_task s a = Some r" "t_phase r = TaskPhase_as_str ph"
      "t_close_requested r = c" "t_stop_requested r = st"
    by (auto simp: query_guard_ok [OF inv])
  from run guard have base: "mode \<in> set message_modes" "ph \<noteq> Terminal" "\<not> c" "\<not> st"
    by (auto simp: insert_message_def split: if_splits)
  show ?thesis
  proof (cases "list_ex (\<lambda>m. m_message_id m = mid) (messages s)")
    case True
    with run guard base obtain x where x: "query_message s mid = Inr (Some x)"
      and same: "message_agent_id x = a" "message_mode x = mode" "message_content x = content" "s' = s" "\<not> v"
      by (simp add: insert_message_def res_bind_Inr_iff) (metis Inl_Inr_False Inr_inject prod.inject)
    from x obtain m where m: "find (\<lambda>m. m_message_id m = mid) (messages s) = Some m" "convert_message m = Inr x"
      by (auto simp: query_message_def res_bind_Inr_iff split: option.splits)
    then have "m_agent_id m = a" "m_mode m = mode" "m_content m = content"
      using same by (auto simp: convert_message_def res_bind_Inr_iff)
    then show ?thesis
      using r base same find_key [OF m(1)] by auto
  next
    case False
    with run guard base r show ?thesis
      by (auto simp: insert_message_def list_ex_iff)
  qed
qed

lemma insert_message_inv:
  assumes inv: "store_inv s" and run: "insert_message clock mid a mode content s = Inr (v, s')"
  shows "store_inv s'"
proof (cases v)
  case True
  with insert_message_eval [OF assms] obtain r where r: "find_task s a = Some r" "\<not> is_terminal_row r"
    and m: "mode \<in> set message_modes" "mid \<notin> m_message_id ` set (messages s)"
    and s': "s' = s\<lparr>messages := messages s @ [new_message_row mid a mode content (clock 0)]\<rparr>"
    by auto
  show ?thesis
    unfolding s' using inv r m store_inv_tables [OF inv]
    by (intro inv_messages [OF inv] messages_ok_append) (auto simp: tables_ok_def has_message_def)
qed (use insert_message_eval [OF assms] inv in auto)

lemma has_message_update:
  assumes "\<And>m. m_agent_id (f m) = m_agent_id m" "\<And>m. p m \<Longrightarrow> m_state m = MessageState_text MsgQueued
      \<or> m_state m = MessageState_text MsgSending"
    and "list_ex (open_message b) (update_rows p f ms)"
  shows "list_ex (open_message b) ms"
  using assms by (auto simp: list_ex_iff update_rows_def open_message_def split: if_splits) metis+

lemma inv_update_messages:
  assumes inv: "store_inv s"
    and f: "\<And>m. m_message_id (f m) = m_message_id m" "\<And>m. m_mode (f m) = m_mode m"
      "\<And>m. m_agent_id (f m) = m_agent_id m" "\<And>m. m_state (f m) \<in> range MessageState_text"
    and p: "\<And>m. p m \<Longrightarrow> m_state m = MessageState_text MsgQueued \<or> m_state m = MessageState_text MsgSending"
  shows "store_inv (s\<lparr>messages := update_rows p f (messages s)\<rparr>)"
proof (rule inv_messages [OF inv])
  show "messages_ok (update_rows p f (messages s))"
    using store_inv_tables [OF inv] f by (intro messages_ok_update) (simp_all add: tables_ok_def)
  show "has_message s b \<or> (\<exists>r. find_task s b = Some r \<and> \<not> is_terminal_row r)"
    if "list_ex (open_message b) (update_rows p f (messages s))" for b
    using has_message_update [OF f(3) p that] by (simp add: has_message_def)
qed

lemma claim_next_message_inv:
  assumes inv: "store_inv s" and run: "claim_next_message a s = Inr (v, s')"
  shows "store_inv s'"
  using run inv
  by (auto simp: claim_next_message_def Let_def res_bind_Inr_iff split: if_splits option.splits
      intro!: inv_update_messages [OF inv])

lemma complete_message_inv:
  "store_inv s \<Longrightarrow> complete_message clock mid target s = Inr (v, s') \<Longrightarrow> store_inv s'"
  by (auto simp: complete_message_def Let_def intro!: inv_update_messages)

lemma fail_message_inv:
  "store_inv s \<Longrightarrow> fail_message mid code message s = Inr (v, s') \<Longrightarrow> store_inv s'"
  by (auto simp: fail_message_def Let_def intro!: inv_update_messages)

section \<open>Requests for input\<close>

lemma open_new_pending [simp]: "open_request b (new_pending_row rid a cid kind payload now) \<longleftrightarrow> b = a"
  by (auto simp: open_request_def new_pending_row_def)

lemma pendings_ok_append:
  assumes "pendings_ok (pending_requests s)" "\<not> pending_conflict s rid a cid"
  shows "pendings_ok (pending_requests s @ [new_pending_row rid a cid kind payload now])"
  using assms by (auto simp: pendings_ok_def pending_conflict_def list_ex_iff new_pending_row_def)

definition waiting_row :: "TaskPhase \<Rightarrow> task_row \<Rightarrow> task_row" where
  "waiting_row p r = r\<lparr>t_phase := TaskPhase_as_str p\<rparr>"

lemma agent_ok_waiting:
  assumes ok: "agent_ok r q m res ls" and ph: "t_phase r = TaskPhase_as_str ph" "t_owner_epoch r = int epoch"
    and p: "{ph, p} = {Running, WaitingInput}"
  shows "agent_ok (waiting_row p r) (p = WaitingInput) m res
    (ls @ [ledger_entry now a epoch (Some ph) p None c])"
proof -
  have run: "ph \<noteq> Terminal" "p \<noteq> Terminal" "ph = Running \<or> ph = WaitingInput"
    using p by (auto simp: doubleton_eq_iff)
  then have none: "t_outcome r = None" "res = None" "\<not> t_close_requested r" "\<not> t_stop_requested r"
    using ok ph no_result_if_active [OF ok]
    by (auto simp: agent_ok_def row_ok_def task_check_def phase_in_def)
  have "row_ok (waiting_row p r)"
    using ok run none by (simp add: agent_ok_def row_ok_simps waiting_row_def)
  moreover have "ledger_ok (ls @ [ledger_entry now a epoch (Some ph) p None c]) (waiting_row p r)"
    using ok ph none by (intro ledger_ok_snoc [of ls r]) (simp_all add: agent_ok_def waiting_row_def)
  ultimately show ?thesis
    using none run by (auto simp: agent_ok_def waiting_row_def)
qed

text \<open>The whole effect on a task that changes its requests, with or without a change of its phase.\<close>

lemma inv_pending:
  assumes inv: "store_inv s" and r: "find_task s a = Some r"
    and ps: "pendings_ok ps" "\<And>b. b \<noteq> a \<Longrightarrow> list_ex (open_request b) ps = has_request s b"
    and s': "s' = s\<lparr>pending_requests := ps\<rparr> \<and> r' = r
      \<or> s' = add_ledger l (set_task (s\<lparr>pending_requests := ps\<rparr>) a r') \<and> l_agent_id l = a"
    and row: "t_agent_id r' = t_agent_id r" "t_workspace_path r' = t_workspace_path r"
      "is_terminal_row r' \<or> \<not> is_terminal_row r"
    and ok: "agent_ok r' (list_ex (open_request a) ps) (has_message s a) (result_of s a) (ledger_of s' a)"
  shows "store_inv s'"
proof (rule store_inv_touch [OF inv r, where r' = r'])
  have agent: "t_agent_id r = a" using find_task_agent [OF r] by simp
  show "find_task s' = (find_task s)(a \<mapsto> r')"
    using s' r row agent by auto
  show "keyed s'" using s' store_inv_keyed [OF inv] row agent by auto
  show "same_views s s' b" if "b \<noteq> a" for b
    using s' ps(2) [OF that] that by (auto simp: same_views_def has_request_def)
  show "agent_ok r' (has_request s' a) (has_message s' a) (result_of s' a) (ledger_of s' a)"
    using s' ok by (auto simp: has_request_def)
  show "tables_ok s'"
    using s' ps(1) store_inv_tables [OF inv] by (auto simp: tables_ok_def)
qed (use row in auto)

lemma insert_pending_eval:
  assumes inv: "store_inv s" and run: "insert_pending_request clock rid a cid kind payload s = Inr (v, s')"
  obtains (same) "\<not> v" "s' = s"
  | (fresh) r ph epoch where "v" "find_task s a = Some r" "t_phase r = TaskPhase_as_str ph"
      "ph = Running \<or> ph = WaitingInput" "t_owner_epoch r = int epoch" "\<not> pending_conflict s rid a cid"
      "s' = (let s1 = s\<lparr>pending_requests := pending_requests s @ [new_pending_row rid a cid kind payload (clock 0)]\<rparr>
             in if ph = Running then add_ledger (ledger_entry (clock 1) a epoch (Some Running) WaitingInput None
                  (Some ''INPUT_REQUESTED'')) (set_task s1 a (waiting_row WaitingInput r))
                else s1)"
proof -
  from run obtain ph oc epoch c st where guard: "query_guard s a = Inr (ph, oc, epoch, c, st)"
    by (auto simp: insert_pending_request_def res_bind_Inr_iff)
  then obtain r where r: "find_task s a = Some r" "t_phase r = TaskPhase_as_str ph" "t_owner_epoch r = int epoch"
    by (auto simp: query_guard_ok [OF inv])
  note row = store_inv_row [OF inv r(1)]
  from run guard have ph: "ph = Running \<or> ph = WaitingInput"
    by (auto simp: insert_pending_request_def split: if_splits)
  let ?s1 = "s\<lparr>pending_requests := pending_requests s @ [new_pending_row rid a cid kind payload (clock 0)]\<rparr>"
  show thesis
  proof (cases "pending_conflict s rid a cid")
    case True
    with run guard show thesis
      by (intro same) (auto simp: insert_pending_request_def res_bind_Inr_iff split: if_splits)
  next
    case False
    have "task_check (waiting_row WaitingInput r)" if "ph = Running"
      using row r(2) that by (simp add: row_ok_def task_check_def waiting_row_def)
    then have "update_tasks (\<lambda>r. t_agent_id r = a \<and> t_phase r = TaskPhase_as_str Running)
        (waiting_row WaitingInput) ?s1 = Inr (1, set_task ?s1 a (waiting_row WaitingInput r))" if "ph = Running"
      using update_tasks_hit [of ?s1 a r "\<lambda>r. t_phase r = TaskPhase_as_str Running"] r that
        store_inv_keyed [OF inv] by simp
    moreover have "int epoch \<le> i64_max" using row r(3) by (simp add: row_ok_def)
    ultimately show thesis
      using run guard ph False r
      by (intro fresh [of r ph epoch])
        (auto simp: insert_pending_request_def insert_ledger_eq Let_def waiting_row_def [abs_def] split: if_splits)
  qed
qed

lemma insert_pending_inv:
  assumes inv: "store_inv s" and run: "insert_pending_request clock rid a cid kind payload s = Inr (v, s')"
  shows "store_inv s'"
proof (rule insert_pending_eval [OF assms])
  fix r ph epoch
  assume r: "find_task s a = Some r" "t_phase r = TaskPhase_as_str ph" "ph = Running \<or> ph = WaitingInput"
      "t_owner_epoch r = int epoch" and new: "\<not> pending_conflict s rid a cid"
    and s': "s' = (let s1 = s\<lparr>pending_requests := pending_requests s @ [new_pending_row rid a cid kind payload (clock 0)]\<rparr>
             in if ph = Running then add_ledger (ledger_entry (clock 1) a epoch (Some Running) WaitingInput None
                  (Some ''INPUT_REQUESTED'')) (set_task s1 a (waiting_row WaitingInput r))
                else s1)"
  let ?ps = "pending_requests s @ [new_pending_row rid a cid kind payload (clock 0)]"
  let ?r = "if ph = Running then waiting_row WaitingInput r else r"
  note ag = store_inv_agent [OF inv r(1)]
  have ps: "pendings_ok ?ps"
    using store_inv_tables [OF inv] new by (intro pendings_ok_append) (simp_all add: tables_ok_def)
  show "store_inv s'"
  proof (rule inv_pending [OF inv r(1) ps, where r' = ?r
        and l = "ledger_entry (clock 1) a epoch (Some Running) WaitingInput None (Some ''INPUT_REQUESTED'')"])
    show "agent_ok ?r (list_ex (open_request a) ?ps) (has_message s a) (result_of s a) (ledger_of s' a)"
    proof (cases "ph = Running")
      case True
      then have "{ph, WaitingInput} = {Running, WaitingInput}" by simp
      from agent_ok_waiting [OF ag r(2,4) this, of "clock 1" a "Some ''INPUT_REQUESTED''"] True show ?thesis
        by (simp add: s' Let_def)
    next
      case False
      with r(3) have "ph = WaitingInput" by simp
      with ag r(2) show ?thesis by (simp add: s' Let_def agent_ok_def)
    qed
  qed (use r in \<open>auto simp: s' Let_def waiting_row_def has_request_def\<close>)
qed (use inv in simp)

lemma has_request_update:
  assumes "\<And>x. p x \<Longrightarrow> open_request b (f x) = open_request b x"
  shows "list_ex (open_request b) (update_rows p f ps) = list_ex (open_request b) ps"
  using assms by (induction ps) (simp_all add: update_rows_def)

text \<open>A response is claimed or released: the requests stay open.\<close>

lemma inv_requests_stay_open:
  assumes inv: "store_inv s" and st: "st = ReqPending \<or> st = ReqSending"
    and p: "\<And>x. p x \<Longrightarrow> p_state x = PendingRequestState_text ReqPending
      \<or> p_state x = PendingRequestState_text ReqSending"
  shows "store_inv (s\<lparr>pending_requests := update_rows p
    (\<lambda>x. x\<lparr>p_state := PendingRequestState_text st, p_response_decision := d, p_response_content := c\<rparr>)
    (pending_requests s)\<rparr>)" (is "store_inv (s\<lparr>pending_requests := ?ps\<rparr>)")
proof -
  have same: "list_ex (open_request b) ?ps = has_request s b" for b
    unfolding has_request_def by (rule has_request_update) (use p st in \<open>auto simp: open_request_def\<close>)
  have "pendings_ok ?ps"
    using store_inv_tables [OF inv] by (intro pendings_ok_update) (simp_all add: tables_ok_def)
  moreover have "view_ok (s\<lparr>pending_requests := ?ps\<rparr>) b" for b
  proof -
    have "has_request (s\<lparr>pending_requests := ?ps\<rparr>) b = has_request s b"
      using same [of b] by (simp add: has_request_def)
    moreover have "view_ok s b" using inv by (simp add: store_inv_def)
    ultimately show ?thesis by (simp add: view_ok_def cong: option.case_cong)
  qed
  ultimately show ?thesis using inv by (simp add: store_inv_def)
qed

lemma claim_pending_response_inv:
  assumes inv: "store_inv s" and run: "claim_pending_response_if_accepting a rid decision content s = Inr (v, s')"
  shows "store_inv s'"
  using run inv
  by (auto simp: claim_pending_response_if_accepting_def res_bind_Inr_iff split: if_splits option.splits
      intro!: inv_requests_stay_open [OF inv])

lemma release_pending_response_inv:
  "store_inv s \<Longrightarrow> release_pending_response a rid s = Inr (v, s') \<Longrightarrow> store_inv s'"
  by (auto simp: release_pending_response_def Let_def intro!: inv_requests_stay_open)

lemma changed_rows_key:
  assumes "distinct (map key rows)" "\<And>x. p x \<Longrightarrow> key x = k"
  shows "changed_rows p rows = 1 \<or> filter p rows = []"
proof (cases "find (\<lambda>r. key r = k) rows")
  case None
  then have "k \<notin> key ` set rows" by (simp add: find_key_None)
  with assms(2) show ?thesis by (auto simp: filter_empty_conv)
next
  case (Some r)
  have "filter p rows = filter (\<lambda>x. key x = k \<and> p x) rows"
    using assms(2) by (intro filter_cong) auto
  with filter_key_unique [OF assms(1) Some, of p] show ?thesis
    by (auto simp: changed_rows_def)
qed

lemma update_rows_none: "filter p rows = [] \<Longrightarrow> update_rows p f rows = rows"
  by (auto simp: update_rows_def filter_empty_conv intro: map_idI)

definition answered :: "int \<Rightarrow> string \<Rightarrow> string \<Rightarrow> pending_row list \<Rightarrow> pending_row list" where
  "answered now a rid ps =
     update_rows (\<lambda>x. p_request_id x = rid \<and> p_agent_id x = a \<and> p_state x = PendingRequestState_text ReqSending)
       (\<lambda>x. x\<lparr>p_state := PendingRequestState_text ReqResponded, p_responded_at := Some now\<rparr>) ps"

lemma answered_other: "b \<noteq> a \<Longrightarrow> list_ex (open_request b) (answered now a rid ps) = list_ex (open_request b) ps"
  unfolding answered_def by (rule has_request_update) (auto simp: open_request_def)

lemma complete_pending_eval:
  assumes inv: "store_inv s" and run: "complete_pending_response clock a rid s = Inr (v, s')"
  obtains (same) "\<not> v" "s' = s"
  | (answer) r epoch where "v" "find_task s a = Some r" "t_phase r = TaskPhase_as_str WaitingInput"
      "t_owner_epoch r = int epoch" "\<not> t_close_requested r" "\<not> t_stop_requested r"
      "s' = (let s1 = s\<lparr>pending_requests := answered (clock 0) a rid (pending_requests s)\<rparr> in
             if list_ex (open_request a) (pending_requests s1) then s1
             else add_ledger (ledger_entry (clock 1) a epoch (Some WaitingInput) Running None
                    (Some ''INPUT_RESOLVED'')) (set_task s1 a (waiting_row Running r)))"
proof -
  let ?p = "\<lambda>x. p_request_id x = rid \<and> p_agent_id x = a \<and> p_state x = PendingRequestState_text ReqSending"
  let ?s1 = "s\<lparr>pending_requests := answered (clock 0) a rid (pending_requests s)\<rparr>"
  have "distinct (map p_request_id (pending_requests s))"
    using store_inv_tables [OF inv] by (simp add: tables_ok_def pendings_ok_def)
  from changed_rows_key [OF this, of ?p rid] consider "filter ?p (pending_requests s) = []"
    | "changed_rows ?p (pending_requests s) = 1" by auto
  then show thesis
  proof cases
    case 1
    then have "s\<lparr>pending_requests := update_rows ?p f (pending_requests s)\<rparr> = s" for f
      by (simp add: update_rows_none)
    with 1 run show thesis
      by (intro same) (auto simp: complete_pending_response_def Let_def changed_rows_def)
  next
    case 2
    then have "filter ?p (pending_requests s) \<noteq> []" by (auto simp: changed_rows_def)
    then obtain x where "x \<in> set (pending_requests s)" "?p x" unfolding filter_empty_conv by blast
    then have req: "has_request s a"
      by (auto simp: has_request_def list_ex_iff open_request_def)
    then obtain r where r: "find_task s a = Some r"
      using store_inv_absent [OF inv, of a] by (cases "find_task s a") auto
    note ag = store_inv_agent [OF inv r]
    from req ag have wait: "t_phase r = TaskPhase_as_str WaitingInput" "\<not> t_close_requested r" "\<not> t_stop_requested r"
      by (auto simp: agent_ok_def phase_in_def)
    have "query_guard s a = Inr (WaitingInput, None, nat (t_owner_epoch r), False, False)"
      using r wait ag by (simp add: query_guard_ok [OF inv] agent_ok_def row_ok_def task_check_def)
    then have guard: "query_guard ?s1 a = Inr (WaitingInput, None, nat (t_owner_epoch r), False, False)"
      by (simp add: query_guard_def)
    have "task_check (waiting_row Running r)"
      using ag wait by (simp add: agent_ok_def row_ok_def task_check_def waiting_row_def)
    then have upd: "update_tasks (\<lambda>r. t_agent_id r = a \<and> t_phase r = TaskPhase_as_str WaitingInput)
        (waiting_row Running) ?s1 = Inr (1, set_task ?s1 a (waiting_row Running r))"
      using update_tasks_hit [of ?s1 a r "\<lambda>r. t_phase r = TaskPhase_as_str WaitingInput"] r wait
        store_inv_keyed [OF inv] by simp
    have epoch: "t_owner_epoch r = int (nat (t_owner_epoch r))" "int (nat (t_owner_epoch r)) \<le> i64_max"
      using ag by (simp_all add: agent_ok_def row_ok_def)
    have "complete_pending_response clock a rid s = Inr (True,
        if list_ex (open_request a) (pending_requests ?s1) then ?s1
        else add_ledger (ledger_entry (clock 1) a (nat (t_owner_epoch r)) (Some WaitingInput) Running None
                    (Some ''INPUT_RESOLVED'')) (set_task ?s1 a (waiting_row Running r)))"
      using 2 guard upd epoch(2)
      by (simp add: complete_pending_response_def Let_def answered_def waiting_row_def [abs_def] insert_ledger_eq)
    with run r wait epoch show thesis by (intro answer [of r "nat (t_owner_epoch r)"]) (auto simp: Let_def)
  qed
qed

lemma complete_pending_inv:
  assumes inv: "store_inv s" and run: "complete_pending_response clock a rid s = Inr (v, s')"
  shows "store_inv s'"
proof (rule complete_pending_eval [OF assms])
  fix r epoch
  let ?ps = "answered (clock 0) a rid (pending_requests s)"
  let ?l = "ledger_entry (clock 1) a epoch (Some WaitingInput) Running None (Some ''INPUT_RESOLVED'')"
  assume r: "find_task s a = Some r" "t_phase r = TaskPhase_as_str WaitingInput" "t_owner_epoch r = int epoch"
    and s': "s' = (let s1 = s\<lparr>pending_requests := ?ps\<rparr> in
       if list_ex (open_request a) (pending_requests s1) then s1
       else add_ledger ?l (set_task s1 a (waiting_row Running r)))"
  let ?r = "if list_ex (open_request a) ?ps then r else waiting_row Running r"
  note ag = store_inv_agent [OF inv r(1)]
  have ps: "pendings_ok ?ps"
    unfolding answered_def using store_inv_tables [OF inv]
    by (intro pendings_ok_update) (simp_all add: tables_ok_def)
  show "store_inv s'"
  proof (rule inv_pending [OF inv r(1) ps, where r' = ?r and l = ?l])
    show "agent_ok ?r (list_ex (open_request a) ?ps) (has_message s a) (result_of s a) (ledger_of s' a)"
    proof (cases "list_ex (open_request a) ?ps")
      case True
      with ag r(2) show ?thesis by (simp add: s' Let_def agent_ok_def)
    next
      case False
      have "{WaitingInput, Running} = {Running, WaitingInput}" by auto
      from agent_ok_waiting [OF ag r(2,3) this, of "clock 1" a "Some ''INPUT_RESOLVED''"] False show ?thesis
        by (simp add: s' Let_def)
    qed
  qed (use r in \<open>auto simp: s' Let_def waiting_row_def answered_other has_request_def\<close>)
qed (use inv in simp)

end
