(* ===== verification/Transition_System.thy ===== *)
theory Transition_System
  imports Main
begin

text \<open>
  Reachability in a transition system, and two interfaces on it: a system with an invariant, whose
  reachable states all satisfy it, and a system that refines another one, whose runs all abstract to
  runs.
\<close>

inductive reachable :: "('s \<Rightarrow> bool) \<Rightarrow> ('s \<Rightarrow> 's \<Rightarrow> bool) \<Rightarrow> 's \<Rightarrow> bool"
  for init :: "'s \<Rightarrow> bool" and step :: "'s \<Rightarrow> 's \<Rightarrow> bool" where
  initial: "init s \<Longrightarrow> reachable init step s"
| advance: "reachable init step s \<Longrightarrow> step s s' \<Longrightarrow> reachable init step s'"

locale transition_system =
  fixes init :: "'s \<Rightarrow> bool" and step :: "'s \<Rightarrow> 's \<Rightarrow> bool" and inv :: "'s \<Rightarrow> bool"
  assumes init_inv: "init s \<Longrightarrow> inv s"
    and step_inv: "inv s \<Longrightarrow> step s s' \<Longrightarrow> inv s'"
begin

lemma reachable_inv: "reachable init step s \<Longrightarrow> inv s"
  by (induction rule: reachable.induct) (auto intro: init_inv step_inv)

lemma run_inv: "step\<^sup>*\<^sup>* s s' \<Longrightarrow> inv s \<Longrightarrow> inv s'"
  by (induction rule: rtranclp_induct) (auto intro: step_inv)

end

text \<open>
  A component of the state, read by \<open>view\<close>, follows an abstract relation; an absent component may
  appear in an initial abstract state and never disappears.
\<close>

locale component_simulation = transition_system +
  fixes view :: "'s \<Rightarrow> 'k \<Rightarrow> 'a option" and fresh :: "'a \<Rightarrow> bool" and astep :: "'a \<Rightarrow> 'a \<Rightarrow> bool"
  assumes simulates: "inv s \<Longrightarrow> step s s' \<Longrightarrow> view s k = Some x \<Longrightarrow>
      \<exists>y. view s' k = Some y \<and> (y = x \<or> astep x y)"
    and appears: "inv s \<Longrightarrow> step s s' \<Longrightarrow> view s k = None \<Longrightarrow> view s' k = Some y \<Longrightarrow> fresh y"
begin

lemma run_simulates:
  "step\<^sup>*\<^sup>* s s' \<Longrightarrow> inv s \<Longrightarrow> view s k = Some x \<Longrightarrow> \<exists>y. view s' k = Some y \<and> astep\<^sup>*\<^sup>* x y"
proof (induction rule: rtranclp_induct)
  case (step t u)
  then obtain y where y: "view t k = Some y" "astep\<^sup>*\<^sup>* x y" by blast
  have "inv t" using run_inv step.hyps(1) step.prems(1) by blast
  from simulates [OF this step.hyps(2) y(1)] y(2) show ?case by (auto intro: rtranclp.rtrancl_into_rtrancl)
qed auto

lemma run_monotone:
  assumes "\<And>x y. astep x y \<Longrightarrow> (f x :: nat) \<le> f y"
    and "step\<^sup>*\<^sup>* s s'" "inv s" "view s k = Some x"
  shows "\<exists>y. view s' k = Some y \<and> f x \<le> f y"
proof -
  obtain y where y: "view s' k = Some y" "astep\<^sup>*\<^sup>* x y"
    using run_simulates [OF assms(2,3,4)] by blast
  from y(2) have "f x \<le> f y"
    by (induction rule: rtranclp_induct) (auto dest: assms(1))
  with y(1) show ?thesis by blast
qed

lemma reachable_simulates:
  assumes "reachable init step s" and none: "\<And>s k. init s \<Longrightarrow> view s k = None" and "view s k = Some x"
  shows "reachable fresh astep x"
  using assms(1,3)
proof (induction arbitrary: x rule: reachable.induct)
  case (initial s)
  then show ?case using none by simp
next
  case (advance s s')
  then have "inv s" using reachable_inv by blast
  show ?case
  proof (cases "view s k")
    case None
    from appears [OF \<open>inv s\<close> advance.hyps(2) None advance.prems] show ?thesis by (rule reachable.initial)
  next
    case (Some y)
    from simulates [OF \<open>inv s\<close> advance.hyps(2) Some] advance.prems advance.IH [OF Some] show ?thesis
      by (auto intro: reachable.advance)
  qed
qed

end

end
