(* ===== verification/Store_Machine.thy ===== *)
theory Store_Machine
  imports Store_Preservation_Exchange Transition_System
begin

text \<open>
  The store as a state machine: one step per committed operation of \<open>external-store\<close>, in any order and
  with any arguments and clock, as the daemon's threads interleave them behind the connection's lock.
  The invariant holds in every reachable store, and every task follows the abstract lifecycle
  \<open>life_step\<close>. \<open>restore_terminal_after_resume_failure\<close>, which nothing in the repository calls, is no
  step of the machine.
\<close>

section \<open>Steps\<close>

inductive store_step :: "store \<Rightarrow> store \<Rightarrow> bool" where
  reserve: "reserve_task_id s = Inr (v, s') \<Longrightarrow> store_step s s'"
| enqueue: "enqueue_task_authoritative clock t s = Inr (v, s') \<Longrightarrow> store_step s s'"
| claim: "claim_next clock owner g n s = Inr (v, s') \<Longrightarrow> store_step s s'"
| claim_one: "claim_specific clock a owner n s = Inr (v, s') \<Longrightarrow> store_step s s'"
| cancel_fresh: "cancel_unstarted_if_still_fresh clock a s = Inr (v, s') \<Longrightarrow> store_step s s'"
| start: "mark_session_running clock a e runtime identity session turn s = Inr (v, s') \<Longrightarrow>
    identity_in_range identity \<Longrightarrow> store_step s s'"
| log_event: "append_lifecycle clock w s = Inr (v, s') \<Longrightarrow> store_step s s'"
| finish: "transition_terminal clock a e upd s = Inr (v, s') \<Longrightarrow> store_step s s'"
| fail: "fail_claim clock a e code message s = Inr (v, s') \<Longrightarrow> store_step s s'"
| close: "request_close clock a s = Inr (v, s') \<Longrightarrow> store_step s s'"
| stop: "request_stop clock a s = Inr (v, s') \<Longrightarrow> store_step s s'"
| runtime_stop: "request_runtime_stop clock a s = Inr (v, s') \<Longrightarrow> store_step s s'"
| resume: "requeue_task_for_resume_with_message clock a mid mode content s = Inr (v, s') \<Longrightarrow> store_step s s'"
| reap: "reap_task clock a s = Inr (v, s') \<Longrightarrow> store_step s s'"
| fence: "fence_queued_cancellation s = Inr (v, s') \<Longrightarrow> store_step s s'"
| send: "insert_message clock mid a mode content s = Inr (v, s') \<Longrightarrow> store_step s s'"
| claim_message: "claim_next_message a s = Inr (v, s') \<Longrightarrow> store_step s s'"
| deliver: "complete_message clock mid target s = Inr (v, s') \<Longrightarrow> store_step s s'"
| undeliver: "fail_message mid code message s = Inr (v, s') \<Longrightarrow> store_step s s'"
| ask: "insert_pending_request clock rid a cid kind payload s = Inr (v, s') \<Longrightarrow> store_step s s'"
| claim_response: "claim_pending_response_if_accepting a rid decision answer s = Inr (v, s') \<Longrightarrow> store_step s s'"
| answer: "complete_pending_response clock a rid s = Inr (v, s') \<Longrightarrow> store_step s s'"
| release: "release_pending_response a rid s = Inr (v, s') \<Longrightarrow> store_step s s'"
| result: "store_task_result_with_reason digest clock a res reason message s = Inr (v, s') \<Longrightarrow> store_step s s'"

lemmas operation_inv = reserve_task_id_inv enqueue_inv claim_next_inv claim_specific_inv
  cancel_unstarted_inv mark_session_running_inv append_lifecycle_inv transition_terminal_inv
  transition_terminal_inv [folded fail_claim_def] request_stop_inv [folded request_close_def]
  request_stop_inv requeue_inv reap_task_inv fence_inv insert_message_inv
  claim_next_message_inv complete_message_inv fail_message_inv insert_pending_inv
  claim_pending_response_inv complete_pending_inv release_pending_response_inv store_task_result_inv

lemma store_step_inv: "store_inv s \<Longrightarrow> store_step s s' \<Longrightarrow> store_inv s'"
  by (erule store_step.cases)
    (auto simp: fail_claim_def request_close_def request_stop_def request_runtime_stop_def
      dest: operation_inv)

lemma empty_store_inv: "store_inv empty_store"
  by (auto simp: store_inv_def empty_store_def keyed_def view_ok_def find_task_def has_request_def
      has_message_def result_of_def ledger_of_def exclusive_def messages_ok_def pendings_ok_def results_ok_def)

interpretation store_system: transition_system "\<lambda>s. s = empty_store" store_step store_inv
  by unfold_locales (auto intro: empty_store_inv store_step_inv)

abbreviation store_reachable :: "store \<Rightarrow> bool" where
  "store_reachable \<equiv> reachable (\<lambda>s. s = empty_store) store_step"

section \<open>The abstract lifecycle\<close>

record life =
  life_phase :: TaskPhase
  life_outcome :: "TaskOutcome option"
  life_epoch :: nat
  life_close :: bool
  life_stop :: bool

definition life_init :: "life \<Rightarrow> bool" where
  "life_init x \<longleftrightarrow>
     x = \<lparr>life_phase = Queued, life_outcome = None, life_epoch = 0, life_close = False, life_stop = False\<rparr>"

inductive life_step :: "life \<Rightarrow> life \<Rightarrow> bool" where
  claim: "life_phase x = Queued \<Longrightarrow> \<not> life_close x \<Longrightarrow> \<not> life_stop x \<Longrightarrow>
    life_step x (x\<lparr>life_phase := Preparing, life_epoch := Suc (life_epoch x)\<rparr>)"
| start: "life_phase x = Preparing \<Longrightarrow> life_step x (x\<lparr>life_phase := Running\<rparr>)"
| ask: "life_phase x = Running \<Longrightarrow> life_step x (x\<lparr>life_phase := WaitingInput\<rparr>)"
| answer: "life_phase x = WaitingInput \<Longrightarrow> life_step x (x\<lparr>life_phase := Running\<rparr>)"
| stop: "life_phase x \<noteq> Terminal \<Longrightarrow>
    life_step x (x\<lparr>life_phase := Cancelling, life_close := (c \<or> life_close x), life_stop := (d \<or> life_stop x)\<rparr>)"
| late_stop: "life_phase x = Terminal \<Longrightarrow>
    life_step x (x\<lparr>life_close := (c \<or> life_close x), life_stop := (d \<or> life_stop x)\<rparr>)"
| fence: "life_phase x = Queued \<Longrightarrow> life_step x (x\<lparr>life_stop := True\<rparr>)"
| finish: "life_phase x \<noteq> Terminal \<Longrightarrow> life_close x \<or> life_stop x \<longrightarrow> oc = Cancelled \<Longrightarrow>
    life_step x (x\<lparr>life_phase := Terminal, life_outcome := Some oc\<rparr>)"
| resume: "life_phase x = Terminal \<Longrightarrow> life_outcome x \<noteq> Some Cancelled \<Longrightarrow> \<not> life_close x \<Longrightarrow> \<not> life_stop x \<Longrightarrow>
    life_step x (x\<lparr>life_phase := Queued, life_outcome := None\<rparr>)"

inductive_cases life_stepE: "life_step x y"

definition life_of :: "task_row \<Rightarrow> life" where
  "life_of r = \<lparr>life_phase = (case TaskPhase_parse (t_phase r) of Inr p \<Rightarrow> p | Inl _ \<Rightarrow> Queued),
     life_outcome = (case t_outcome r of None \<Rightarrow> None
       | Some x \<Rightarrow> (case TaskOutcome_parse x of Inr oc \<Rightarrow> Some oc | Inl _ \<Rightarrow> None)),
     life_epoch = nat (t_owner_epoch r), life_close = t_close_requested r, life_stop = t_stop_requested r\<rparr>"

definition task_life :: "store \<Rightarrow> string \<Rightarrow> life option" where
  "task_life s a = map_option life_of (find_task s a)"

lemma life_of_eq:
  assumes "t_phase r = TaskPhase_as_str p" "t_outcome r = map_option TaskOutcome_as_str oc"
  shows "life_of r = \<lparr>life_phase = p, life_outcome = oc, life_epoch = nat (t_owner_epoch r),
    life_close = t_close_requested r, life_stop = t_stop_requested r\<rparr>"
  using assms by (cases oc) (simp_all add: life_of_def)

lemma row_ok_life:
  assumes "row_ok r" "t_phase r = TaskPhase_as_str p" "p \<noteq> Terminal"
  shows "life_of r = \<lparr>life_phase = p, life_outcome = None, life_epoch = nat (t_owner_epoch r),
    life_close = t_close_requested r, life_stop = t_stop_requested r\<rparr>"
  using assms life_of_eq [of r p None] by (simp add: row_ok_def task_check_def)

section \<open>Every operation follows the lifecycle\<close>

definition follows :: "store \<Rightarrow> store \<Rightarrow> bool" where
  "follows s s' \<longleftrightarrow>
     (\<forall>a. case task_life s a of
        Some x \<Rightarrow> \<exists>y. task_life s' a = Some y \<and> (y = x \<or> life_step x y)
      | None \<Rightarrow> task_life s' a = None \<or> (\<exists>y. task_life s' a = Some y \<and> life_init y))"

lemma follows_same: "find_task s' = find_task s \<Longrightarrow> follows s s'"
  by (auto simp: follows_def task_life_def split: option.splits)

lemma follows_touch:
  assumes "find_task s a = Some r" "find_task s' = (find_task s)(a \<mapsto> r')"
    and "life_of r' = life_of r \<or> life_step (life_of r) (life_of r')"
  shows "follows s s'"
  using assms by (auto simp: follows_def task_life_def split: option.splits)

lemma life_finish:
  assumes "row_ok r" "t_phase r = TaskPhase_as_str ph" "ph \<noteq> Terminal"
    and "t_close_requested r \<or> t_stop_requested r \<longrightarrow> oc = Cancelled"
  shows "life_step (life_of r) (life_of (terminal_row now oc upd r))"
  using life_step.finish [of "life_of r" oc] row_ok_life [OF assms(1-3)] assms(3,4)
    life_of_eq [of "terminal_row now oc upd r" Terminal "Some oc"] by simp

lemma effective_outcome_cancelled:
  "close \<or> stop \<Longrightarrow> effective_outcome close stop oc = Cancelled"
  by (auto simp: effective_outcome_def)

lemma enqueue_follows:
  assumes "enqueue_task_authoritative clock t s = Inr (v, s')"
  shows "follows s s'"
proof -
  have new: "life_init (life_of (new_task_row t now))" for now
    using life_of_eq [of "new_task_row t now" Queued None] by (simp add: life_init_def new_task_row_def)
  from enqueue_shape [OF assms] new show ?thesis
    by (auto simp: follows_def task_life_def find_task_append split: option.splits)
qed

lemma claim_row_follows:
  assumes inv: "store_inv s" and r: "find_task s a = Some r" "queued_free r"
    and run: "claim_row clock owner a s = Inr (v, s')"
  shows "follows s s'"
proof (rule follows_touch [OF r(1)])
  note row = store_inv_row [OF inv r(1)]
  show "find_task s' = (find_task s)(a \<mapsto> claimed_row (clock 0) owner r)"
    using claim_row_eval [OF assms] r(1) find_task_agent [OF r(1)] by simp
  have q: "t_phase r = TaskPhase_as_str Queued" "\<not> t_close_requested r" "\<not> t_stop_requested r"
    using r(2) by (auto simp: queued_free_def)
  have "life_of (claimed_row (clock 0) owner r) = \<lparr>life_phase = Preparing, life_outcome = None,
      life_epoch = Suc (nat (t_owner_epoch r)), life_close = False, life_stop = False\<rparr>"
    using life_of_eq [of "claimed_row (clock 0) owner r" Preparing None] row q
    by (simp add: row_ok_def task_check_def Suc_nat_eq_nat_zadd1)
  then show "life_of (claimed_row (clock 0) owner r) = life_of r
      \<or> life_step (life_of r) (life_of (claimed_row (clock 0) owner r))"
    using life_step.claim [of "life_of r"] row_ok_life [OF row q(1)] q by simp
qed

lemma claim_next_follows:
  assumes inv: "store_inv s" and run: "claim_next clock owner g n s = Inr (v, s')"
  shows "follows s s'"
proof (cases "s' = s")
  case False
  with run obtain n r where "first_row (by_created t_created_at (filter (claimable s n) (tasks s))) = Some r"
    and claim: "claim_row clock owner (t_agent_id r) s = Inr (v, s')"
    by (auto simp: claim_next_def res_bind_Inr_iff split: if_splits option.splits)
  then have "r \<in> set (tasks s)" "queued_free r"
    by (auto simp: claimable_def dest: claim_next_candidate)
  with claim_row_follows [OF inv _ _ claim, of r] find_task_mem [OF store_inv_keyed [OF inv]] show ?thesis
    by simp
qed (simp add: follows_same)

lemma claim_specific_follows:
  assumes inv: "store_inv s" and run: "claim_specific clock a owner n s = Inr (v, s')"
  shows "follows s s'"
proof (cases "s' = s")
  case False
  with run obtain n r where "find (\<lambda>r. t_agent_id r = a \<and> claimable s n r) (tasks s) = Some r"
    and claim: "claim_row clock owner (t_agent_id r) s = Inr (v, s')"
    by (auto simp: claim_specific_def res_bind_Inr_iff split: if_splits option.splits)
  then have "r \<in> set (tasks s)" "queued_free r"
    by (auto simp: claimable_def find_Some_iff)
  with claim_row_follows [OF inv _ _ claim, of r] find_task_mem [OF store_inv_keyed [OF inv]] show ?thesis
    by simp
qed (simp add: follows_same)

lemma cancel_unstarted_follows:
  assumes inv: "store_inv s" and run: "cancel_unstarted_if_still_fresh clock a s = Inr (v, s')"
  shows "follows s s'"
proof (cases "s' = s")
  case False
  with cancel_unstarted_eval [OF inv run] obtain r ph epoch where r: "find_task s a = Some r"
      "t_phase r = TaskPhase_as_str ph" "ph = Queued \<or> ph = Preparing"
    and s': "s' = add_ledger (ledger_entry (clock 0) a epoch (Some ph) Cancelling None (Some ''STOP_REQUESTED''))
            (settle_terminal_commands a ''STOP_REQUESTED'' (set_task s a (cancelling_row r)))"
    by blast
  from r(3) have ph: "ph \<noteq> Terminal" by auto
  note row = store_inv_row [OF inv r(1)]
  show ?thesis
  proof (rule follows_touch [OF r(1)])
    show "find_task s' = (find_task s)(a \<mapsto> cancelling_row r)"
      using r(1) find_task_agent [OF r(1)] by (simp add: s' cancelling_row_def)
    have "life_of (cancelling_row r) = \<lparr>life_phase = Cancelling, life_outcome = None,
        life_epoch = nat (t_owner_epoch r), life_close = t_close_requested r, life_stop = True\<rparr>"
      using life_of_eq [of "cancelling_row r" Cancelling None] row r(2) ph
      by (simp add: row_ok_def task_check_def cancelling_row_def)
    then show "life_of (cancelling_row r) = life_of r \<or> life_step (life_of r) (life_of (cancelling_row r))"
      using life_step.stop [where x = "life_of r" and c = False and d = True] row_ok_life [OF row r(2) ph] ph by simp
  qed
qed (simp add: follows_same)

lemma mark_session_running_follows:
  assumes inv: "store_inv s"
    and run: "mark_session_running clock a epoch runtime identity session turn s = Inr (v, s')"
  shows "follows s s'"
proof (cases "s' = s")
  case False
  let ?f = "started_row (clock 0) runtime identity session turn"
  from False mark_session_running_eval [OF inv run] obtain r where r: "find_task s a = Some r"
      "t_phase r = TaskPhase_as_str Preparing"
    and s': "s' = add_ledger (ledger_entry (clock 1) a epoch (Some Preparing) Running None (Some ''RUNTIME_STARTED''))
                 (set_task s a (?f r))"
    by blast
  note row = store_inv_row [OF inv r(1)]
  show ?thesis
  proof (rule follows_touch [OF r(1)])
    show "find_task s' = (find_task s)(a \<mapsto> ?f r)"
      using r(1) find_task_agent [OF r(1)] by (simp add: s')
    show "life_of (?f r) = life_of r \<or> life_step (life_of r) (life_of (?f r))"
      using life_step.start [of "life_of r"] row_ok_life [OF row r(2)] life_of_eq [of "?f r" Running None] row r(2)
      by (simp add: row_ok_def task_check_def)
  qed
qed (simp add: follows_same)

lemma find_terminal_store:
  assumes "find_task s a = Some r"
  shows "find_task (terminal_store now lnow a epoch ph oc upd r s) = (find_task s)(a \<mapsto> terminal_row now oc upd r)"
  using assms find_task_agent [OF assms] by (simp add: terminal_store_def)

lemma terminal_store_follows:
  assumes inv: "store_inv s" and r: "find_task s a = Some r" "t_phase r = TaskPhase_as_str ph" "ph \<noteq> Terminal"
    and oc: "t_close_requested r \<or> t_stop_requested r \<Longrightarrow> oc = Cancelled"
  shows "follows s (terminal_store now lnow a epoch ph oc upd r s)"
  using life_finish [OF store_inv_row [OF inv r(1)] r(2,3), of oc now upd] oc
  by (intro follows_touch [OF r(1) find_terminal_store [OF r(1)]]) blast

lemma transition_terminal_eval:
  assumes inv: "store_inv s" and run: "transition_terminal clock a epoch upd s = Inr (v, s')"
  shows "\<exists>r ph. find_task s a = Some r \<and> t_phase r = TaskPhase_as_str ph
    \<and> (if ph = Terminal then s' = s \<and> t_outcome r = Some (TaskOutcome_as_str v)
       else t_owner_epoch r = int epoch
            \<and> v = effective_outcome (t_close_requested r) (t_stop_requested r) (terminal_outcome upd)
            \<and> s' = terminal_store (clock 0) (clock 1) a epoch ph v upd r s)"
proof -
  from run obtain ph oc current close stop where
    guard: "query_guard s a = Inr (ph, oc, current, close, stop)"
    by (auto simp: transition_terminal_def res_bind_Inr_iff)
  then obtain r where r: "find_task s a = Some r" "t_phase r = TaskPhase_as_str ph"
      "t_owner_epoch r = int current" "t_outcome r = map_option TaskOutcome_as_str oc"
      "t_close_requested r = close" "t_stop_requested r = stop"
    by (auto simp: query_guard_ok [OF inv])
  have "int current \<le> i64_max" using store_inv_row [OF inv r(1)] r(3) by (simp add: row_ok_def)
  with run guard r show ?thesis
    using apply_terminal_eval [OF store_inv_keyed [OF inv] r(1,3) _ r(2)]
    by (cases "ph = Terminal") (auto simp: transition_terminal_def res_bind_Inr_iff split: if_splits)
qed

lemma transition_terminal_follows:
  assumes inv: "store_inv s" and run: "transition_terminal clock a epoch upd s = Inr (v, s')"
  shows "follows s s'"
proof (cases "s' = s")
  case False
  with transition_terminal_eval [OF assms] obtain r ph where r: "find_task s a = Some r"
      "t_phase r = TaskPhase_as_str ph" "ph \<noteq> Terminal"
    and v: "v = effective_outcome (t_close_requested r) (t_stop_requested r) (terminal_outcome upd)"
    and s': "s' = terminal_store (clock 0) (clock 1) a epoch ph v upd r s"
    by (metis (full_types))
  show ?thesis
    unfolding s' by (rule terminal_store_follows [OF inv r]) (simp add: v effective_outcome_cancelled)
qed (simp add: follows_same)

lemma append_lifecycle_follows:
  assumes inv: "store_inv s" and run: "append_lifecycle clock w s = Inr (v, s')"
  shows "follows s s'"
proof (cases "s' = s")
  case False
  with append_lifecycle_eval [OF assms] obtain r ph where
    r: "find_task s (write_agent_id w) = Some r" "t_phase r = TaskPhase_as_str ph" "ph \<noteq> Terminal"
      "t_last_event_seq r < i64_max"
    and s': "s' = (case terminal w of None \<Rightarrow> recorded_store clock w r s
             | Some upd \<Rightarrow>
                 terminal_store (clock 2) (clock 3) (write_agent_id w) (write_owner_epoch w) ph
                   (effective_outcome (t_close_requested r) (t_stop_requested r) (terminal_outcome upd)) upd
                   (recorded_row (t_last_event_seq r + 1) (clock 1) (write_turn_state w) r)
                   (recorded_store clock w r s))"
    by blast
  let ?r = "recorded_row (t_last_event_seq r + 1) (clock 1) (write_turn_state w) r"
  let ?s = "recorded_store clock w r s"
  have same: "life_of ?r = life_of r" by (simp add: life_of_def)
  note inv' = recorded_store_inv [OF inv r(1,4), of clock] and find = find_recorded_store [OF r(1), of clock]
  show ?thesis
  proof (cases "terminal w")
    case None
    with find same show ?thesis by (intro follows_touch [OF r(1)]) (auto simp: s')
  next
    case (Some upd)
    let ?oc = "effective_outcome (t_close_requested r) (t_stop_requested r) (terminal_outcome upd)"
    have r': "find_task ?s (write_agent_id w) = Some ?r" by (simp add: find)
    have "row_ok ?r" using store_inv_row [OF inv' r'] .
    then have "life_step (life_of ?r) (life_of (terminal_row (clock 2) ?oc upd ?r))"
      using r(2,3) effective_outcome_cancelled by (intro life_finish) auto
    moreover have "find_task s' = (find_task s)(write_agent_id w \<mapsto> terminal_row (clock 2) ?oc upd ?r)"
      using find_terminal_store [OF r'] by (simp add: s' Some find)
    ultimately show ?thesis using same by (intro follows_touch [OF r(1)]) auto
  qed
qed (simp add: follows_same)

lemma request_stop_follows:
  assumes inv: "store_inv s" and run: "request_stop_internal clock a close intent s = Inr (d, s')"
  shows "follows s s'"
proof (rule request_stop_eval [OF assms])
  fix r ph epoch
  assume r: "find_task s a = Some r" "t_phase r = TaskPhase_as_str ph"
    and s': "s' = (if ph = Terminal then set_task s a (stopped_row (clock 0) Terminal close intent r)
       else if ph = Cancelling
       then settle_terminal_commands a ''STOP_REQUESTED''
              (set_task s a (stopped_row (clock 0) Cancelling close intent r))
       else add_ledger (ledger_entry (clock 1) a epoch (Some ph) Cancelling None
                (Some (if close then ''CLOSE_REQUESTED'' else ''STOP_REQUESTED'')))
              (settle_terminal_commands a ''STOP_REQUESTED''
                (set_task s a (stopped_row (clock 0) Cancelling close intent r))))"
  let ?p = "if ph = Terminal then Terminal else Cancelling"
  let ?r = "stopped_row (clock 0) ?p close intent r"
  note row = store_inv_row [OF inv r(1)]
  from convert_task_row_ok [OF row] obtain oc where oc: "t_outcome r = map_option TaskOutcome_as_str oc" by blast
  have life: "life_of r = \<lparr>life_phase = ph, life_outcome = oc, life_epoch = nat (t_owner_epoch r),
        life_close = t_close_requested r, life_stop = t_stop_requested r\<rparr>"
      "life_of ?r = \<lparr>life_phase = ?p, life_outcome = oc, life_epoch = nat (t_owner_epoch r),
        life_close = (close \<or> t_close_requested r), life_stop = (intent \<or> t_stop_requested r)\<rparr>"
    using life_of_eq [OF r(2) oc] life_of_eq [of ?r ?p oc] oc by simp_all
  have "life_step (life_of r) (life_of ?r)"
    using life_step.stop [where x = "life_of r" and c = close and d = intent]
      life_step.late_stop [where x = "life_of r" and c = close and d = intent]
    by (simp add: life)
  moreover have "find_task s' = (find_task s)(a \<mapsto> ?r)"
    using r(1) find_task_agent [OF r(1)] by (simp add: s')
  ultimately show "follows s s'" by (intro follows_touch [OF r(1)]) blast+
qed

lemma requeue_follows:
  assumes inv: "store_inv s"
    and run: "requeue_task_for_resume_with_message clock a mid mode content s = Inr (v, s')"
  shows "follows s s'"
proof (cases v)
  case False
  with requeue_eval [OF assms] show ?thesis by (auto simp: follows_same)
next
  case True
  with requeue_eval [OF assms] obtain r where r: "find_task s a = Some r" "is_terminal_row r"
    and free: "t_outcome r \<noteq> Some (TaskOutcome_as_str Cancelled)" "\<not> t_stop_requested r" "\<not> t_close_requested r"
    and s': "s' = requeued_store clock a mid mode content r s"
    by auto
  from convert_task_row_ok [OF store_inv_row [OF inv r(1)]] obtain oc where
    oc: "t_outcome r = map_option TaskOutcome_as_str oc" by blast
  have "oc \<noteq> Some Cancelled" using oc free(1) by auto
  then have "life_step (life_of r) (life_of (requeued_row r))"
    using life_step.resume [of "life_of r"] life_of_eq [OF r(2) oc] life_of_eq [of "requeued_row r" Queued None] free
    by simp
  then show ?thesis
    unfolding s' by (intro follows_touch [OF r(1) requeued_store_views(1) [OF r(1)]]) blast
qed

lemma reap_task_follows:
  assumes inv: "store_inv s" and run: "reap_task clock a s = Inr (v, s')"
  shows "follows s s'"
proof -
  from reap_task_eval [OF assms] obtain r where r: "find_task s a = Some r"
    and s': "s' = set_task s a (reaped_row (clock 0) r)"
    by blast
  have "life_of (reaped_row (clock 0) r) = life_of r" by (simp add: life_of_def reaped_row_def)
  with r find_task_agent [OF r] show ?thesis
    by (intro follows_touch [OF r]) (auto simp: s' reaped_row_def)
qed

lemma fence_follows:
  assumes inv: "store_inv s" and run: "fence_queued_cancellation s = Inr (v, s')"
  shows "follows s s'"
proof -
  have s': "s' = s\<lparr>tasks := map fenced_row (tasks s)\<rparr>" using run fence_eval [OF inv] by simp
  have "life_of (fenced_row r) = life_of r \<or> life_step (life_of r) (life_of (fenced_row r))" if "row_ok r" for r
  proof (cases "t_phase r = TaskPhase_as_str Queued")
    case True
    then show ?thesis
      using life_step.fence [of "life_of r"] row_ok_life [OF that True] row_ok_life [of "fenced_row r" Queued] that
      by (simp add: fenced_row_def row_ok_simps)
  next
    case False
    then show ?thesis by (simp add: fenced_row_def)
  qed
  then show ?thesis
    using store_inv_row [OF inv] by (auto simp: follows_def task_life_def s' find_task_fence split: option.splits)
qed

lemma insert_pending_follows:
  assumes inv: "store_inv s" and run: "insert_pending_request clock rid a cid kind payload s = Inr (v, s')"
  shows "follows s s'"
proof (rule insert_pending_eval [OF assms])
  fix r ph epoch
  assume r: "find_task s a = Some r" "t_phase r = TaskPhase_as_str ph" "ph = Running \<or> ph = WaitingInput"
    and s': "s' = (let s1 = s\<lparr>pending_requests := pending_requests s @ [new_pending_row rid a cid kind payload (clock 0)]\<rparr>
             in if ph = Running then add_ledger (ledger_entry (clock 1) a epoch (Some Running) WaitingInput None
                  (Some ''INPUT_REQUESTED'')) (set_task s1 a (waiting_row WaitingInput r))
                else s1)"
  note row = store_inv_row [OF inv r(1)]
  show "follows s s'"
  proof (cases "ph = Running")
    case True
    have "life_step (life_of r) (life_of (waiting_row WaitingInput r))"
      using life_step.ask [of "life_of r"] row_ok_life [OF row] r(2) True row
        life_of_eq [of "waiting_row WaitingInput r" WaitingInput None]
      by (simp add: waiting_row_def row_ok_def task_check_def)
    with True r(1) find_task_agent [OF r(1)] show ?thesis
      by (intro follows_touch [OF r(1)]) (auto simp: s' Let_def waiting_row_def)
  qed (simp add: s' Let_def follows_same)
qed (simp add: follows_same)

lemma complete_pending_follows:
  assumes inv: "store_inv s" and run: "complete_pending_response clock a rid s = Inr (v, s')"
  shows "follows s s'"
proof (rule complete_pending_eval [OF assms])
  fix r epoch
  let ?ps = "answered (clock 0) a rid (pending_requests s)"
  assume r: "find_task s a = Some r" "t_phase r = TaskPhase_as_str WaitingInput"
    and s': "s' = (let s1 = s\<lparr>pending_requests := ?ps\<rparr> in
       if list_ex (open_request a) (pending_requests s1) then s1
       else add_ledger (ledger_entry (clock 1) a epoch (Some WaitingInput) Running None (Some ''INPUT_RESOLVED''))
              (set_task s1 a (waiting_row Running r)))"
  note row = store_inv_row [OF inv r(1)]
  show "follows s s'"
  proof (cases "list_ex (open_request a) ?ps")
    case False
    have "life_step (life_of r) (life_of (waiting_row Running r))"
      using life_step.answer [of "life_of r"] row_ok_life [OF row] r(2) row
        life_of_eq [of "waiting_row Running r" Running None]
      by (simp add: waiting_row_def row_ok_def task_check_def)
    with False r(1) find_task_agent [OF r(1)] show ?thesis
      by (intro follows_touch [OF r(1)]) (auto simp: s' Let_def waiting_row_def)
  qed (simp add: s' Let_def follows_same)
qed (simp add: follows_same)

lemma store_task_result_follows:
  assumes inv: "store_inv s"
    and run: "store_task_result_with_reason digest clock a res reason message s = Inr (v, s')"
  shows "follows s s'"
proof (cases "s' = s")
  case False
  with store_task_result_eval [OF assms] obtain d r ph epoch where
    r: "find_task s a = Some r" "t_phase r = TaskPhase_as_str ph" "ph \<in> set active_phases"
    and oc: "t_stop_requested r \<or> t_close_requested r \<longrightarrow> result_outcome res = Cancelled"
    and s': "s' = result_store clock a res d (result_terminal_update res reason (t_failure_code r) message)
              epoch ph r s"
    by blast
  let ?upd = "result_terminal_update res reason (t_failure_code r) message"
  from r(3) have ph: "ph \<noteq> Terminal" by auto
  have "find_task s' = (find_task s)(a \<mapsto> terminal_row (clock 1) (result_outcome res) ?upd r)"
    using r(1) find_terminal_store by (simp add: s' result_store_def)
  moreover have "life_step (life_of r) (life_of (terminal_row (clock 1) (result_outcome res) ?upd r))"
    using oc by (intro life_finish [OF store_inv_row [OF inv r(1)] r(2) ph]) blast
  ultimately show ?thesis by (intro follows_touch [OF r(1)]) blast+
qed (simp add: follows_same)

lemma reserve_task_id_follows: "reserve_task_id s = Inr (v, s') \<Longrightarrow> follows s s'"
  by (auto simp: reserve_task_id_def Let_def intro!: follows_same split: if_splits)

lemma insert_message_follows:
  assumes inv: "store_inv s" and run: "insert_message clock mid a mode content s = Inr (v, s')"
  shows "follows s s'"
  using insert_message_eval [OF assms] by (cases v) (auto intro!: follows_same)

lemma claim_next_message_find:
  assumes "claim_next_message a s = Inr (v, s')"
  shows "find_task s' = find_task s"
proof -
  from assms obtain ph oc epoch close stop where guard: "query_guard s a = Inr (ph, oc, epoch, close, stop)"
    by (auto simp: claim_next_message_def res_bind_Inr_iff)
  show ?thesis
  proof (cases "\<not> (ph = Running \<or> ph = WaitingInput) \<or> close \<or> stop")
    case True
    with assms guard show ?thesis by (simp add: claim_next_message_def)
  next
    case False
    let ?m = "first_row (sort_key mode_rank (by_created m_created_at
      (filter (\<lambda>m. m_agent_id m = a \<and> m_state m = MessageState_text MsgQueued) (messages s))))"
    from False assms guard show ?thesis
      by (cases ?m) (auto simp: claim_next_message_def Let_def res_bind_Inr_iff)
  qed
qed

lemma message_outcome_find:
  "complete_message clock mid target s = Inr (v, s') \<Longrightarrow> find_task s' = find_task s"
  "fail_message mid code message s = Inr (v, s') \<Longrightarrow> find_task s' = find_task s"
  "release_pending_response a rid s = Inr (v, s') \<Longrightarrow> find_task s' = find_task s"
  by (auto simp: complete_message_def fail_message_def release_pending_response_def Let_def)

lemma claim_pending_response_shape:
  assumes "claim_pending_response_if_accepting a rid decision answer s = Inr (v, s')"
  shows "s' = s \<or> (\<exists>ps. s' = s\<lparr>pending_requests := ps\<rparr>)"
proof -
  from assms obtain found where found: "query_pending_request s rid = Inr found"
    by (auto simp: claim_pending_response_if_accepting_def res_bind_Inr_iff)
  show ?thesis
  proof (cases "found = None \<or> (\<exists>q. found = Some q \<and> (request_agent_id q \<noteq> a \<or> request_state q \<noteq> ReqPending))")
    case True
    with assms found show ?thesis
      by (cases found) (auto simp: claim_pending_response_if_accepting_def split: if_splits)
  next
    case False
    then obtain q where q: "found = Some q" "request_agent_id q = a" "request_state q = ReqPending"
      by (cases found) auto
    let ?ps = "update_rows (\<lambda>p. p_request_id p = rid \<and> p_agent_id p = a
        \<and> p_state p = PendingRequestState_text ReqPending)
      (\<lambda>p. p\<lparr>p_state := PendingRequestState_text ReqSending, p_response_decision := Some decision,
        p_response_content := answer\<rparr>) (pending_requests s)"
    have "res_bind (query_guard s a) (\<lambda>(ph, _, _, close, stop).
        if \<not> (ph = Running \<or> ph = WaitingInput) \<or> close \<or> stop then Inr (TaskStopping, s)
        else Inr (Claimed, s\<lparr>pending_requests := ?ps\<rparr>)) = Inr (v, s')"
      using assms found q unfolding claim_pending_response_if_accepting_def by simp
    then have "s' = s \<or> s' = s\<lparr>pending_requests := ?ps\<rparr>"
      unfolding res_bind_Inr_iff by (auto split: if_splits)
    then show ?thesis by blast
  qed
qed

lemma claim_pending_response_find:
  "claim_pending_response_if_accepting a rid decision answer s = Inr (v, s') \<Longrightarrow> find_task s' = find_task s"
  by (drule claim_pending_response_shape) (elim disjE exE, simp_all)

lemmas same_tasks_follow =
  follows_same [OF claim_next_message_find] follows_same [OF message_outcome_find(1)]
  follows_same [OF message_outcome_find(2)] follows_same [OF message_outcome_find(3)]
  follows_same [OF claim_pending_response_find]

lemmas operation_follows = same_tasks_follow reserve_task_id_follows insert_message_follows enqueue_follows claim_next_follows claim_specific_follows
  cancel_unstarted_follows mark_session_running_follows append_lifecycle_follows
  transition_terminal_follows request_stop_follows requeue_follows reap_task_follows fence_follows
  insert_pending_follows complete_pending_follows store_task_result_follows

lemma store_step_follows: "store_inv s \<Longrightarrow> store_step s s' \<Longrightarrow> follows s s'"
  by (erule store_step.cases)
    (auto simp: fail_claim_def request_close_def request_stop_def request_runtime_stop_def
      dest: operation_follows)

interpretation store_lifecycle: component_simulation "\<lambda>s. s = empty_store" store_step store_inv task_life
    life_init life_step
proof
  fix s s' :: store and k x
  assume "store_inv s" "store_step s s'" "task_life s k = Some x"
  then show "\<exists>y. task_life s' k = Some y \<and> (y = x \<or> life_step x y)"
    using store_step_follows [of s s'] by (auto simp: follows_def dest: spec [of _ k])
next
  fix s s' :: store and k y
  assume "store_inv s" "store_step s s'" "task_life s k = None" "task_life s' k = Some y"
  then show "life_init y"
    using store_step_follows [of s s'] by (auto simp: follows_def dest: spec [of _ k])
qed

end
