(* ===== verification/Store_Properties.thy ===== *)
theory Store_Properties
  imports Store_Machine
begin

text \<open>
  What the store guarantees to the daemon, for every store that any interleaving of its operations can
  reach: exclusive workspaces, rows that decode, agreement between the tables, the abstract lifecycle,
  fencing of earlier owners, precedence of cancellation, immutability of results and the orders in
  which tasks and messages are handed out.
\<close>

section \<open>Every reachable store\<close>

lemma reachable_store_inv: "store_reachable s \<Longrightarrow> store_inv s"
  by (rule store_system.reachable_inv)

lemma reachable_row:
  assumes "store_reachable s" "r \<in> set (tasks s)"
  shows "find_task s (t_agent_id r) = Some r
    \<and> agent_ok r (has_request s (t_agent_id r)) (has_message s (t_agent_id r)) (result_of s (t_agent_id r))
        (ledger_of s (t_agent_id r))"
  using find_task_mem [OF store_inv_keyed [OF reachable_store_inv [OF assms(1)]] assms(2)]
    store_inv_agent [OF reachable_store_inv [OF assms(1)]] by blast

text \<open>
  C1. Two tasks that are not terminal never share a workspace, in any store reachable through any
  interleaving of submissions, claims, cancellations, resumptions and results.
\<close>

theorem workspace_exclusive:
  assumes "store_reachable s" "r \<in> set (tasks s)" "r' \<in> set (tasks s)"
    and "t_workspace_path r = t_workspace_path r'" "\<not> is_terminal_row r" "\<not> is_terminal_row r'"
  shows "r = r'"
proof -
  note f = conjunct1 [OF reachable_row [OF assms(1,2)]] conjunct1 [OF reachable_row [OF assms(1,3)]]
  have "exclusive (find_task s)" using reachable_store_inv [OF assms(1)] by (simp add: store_inv_def)
  then have "t_agent_id r = t_agent_id r'"
    by (rule exclusiveD [OF _ f assms(4-6)])
  with f show ?thesis by (metis option.inject)
qed

text \<open>
  C35. The tables agree about every task of a reachable store. Its row decodes to a record that is
  terminal exactly when it has an outcome; requests for input are open exactly while it waits for
  input; a terminal task has no open message; a stored result belongs to a terminal task with the
  outcome of the result; a stop or close request leaves it queued, cancelling or terminal.
\<close>

theorem tables_agree:
  assumes "store_reachable s" "r \<in> set (tasks s)"
  shows "\<exists>t. convert_task_row r = Inr t \<and> (phase t = Terminal \<longleftrightarrow> outcome t \<noteq> None)
    \<and> (phase t = WaitingInput \<longleftrightarrow> (\<exists>p \<in> set (pending_requests s). open_request (agent_id t) p))
    \<and> (phase t = Terminal \<longrightarrow> \<not> (\<exists>m \<in> set (messages s). open_message (agent_id t) m))
    \<and> (\<forall>x \<in> set (task_results s). r_agent_id x = agent_id t
         \<longrightarrow> phase t = Terminal \<and> map_option TaskOutcome_as_str (outcome t) = Some (r_outcome x))
    \<and> (close_requested t \<or> stop_requested t \<longrightarrow> phase t \<in> {Queued, Cancelling, Terminal})"
proof -
  let ?a = "t_agent_id r"
  note row = reachable_row [OF assms]
  then have ok: "row_ok r" by (simp add: agent_ok_def)
  from convert_task_row_ok [OF ok] obtain t where t: "convert_task_row r = Inr t" "agent_id t = ?a"
      "t_phase r = TaskPhase_as_str (phase t)" "t_outcome r = map_option TaskOutcome_as_str (outcome t)"
      "close_requested t = t_close_requested r" "stop_requested t = t_stop_requested r"
    by blast
  have res: "result_of s ?a = Some x" if "x \<in> set (task_results s)" "r_agent_id x = ?a" for x
    using find_key_unique [of r_agent_id "task_results s" x] that store_inv_tables [OF reachable_store_inv [OF assms(1)]]
    by (simp add: result_of_def tables_ok_def results_ok_def)
  have "phase t = Terminal \<longleftrightarrow> outcome t \<noteq> None"
    using ok t by (simp add: row_ok_def task_check_def)
  moreover have "phase t = WaitingInput \<longleftrightarrow> (\<exists>p \<in> set (pending_requests s). open_request (agent_id t) p)"
    using row t by (simp add: agent_ok_def has_request_def list_ex_iff)
  moreover have "phase t = Terminal \<longrightarrow> \<not> (\<exists>m \<in> set (messages s). open_message (agent_id t) m)"
    using row t by (auto simp: agent_ok_def has_message_def list_ex_iff)
  moreover have "\<forall>x \<in> set (task_results s). r_agent_id x = agent_id t
      \<longrightarrow> phase t = Terminal \<and> map_option TaskOutcome_as_str (outcome t) = Some (r_outcome x)"
  proof (intro ballI impI)
    fix x assume "x \<in> set (task_results s)" "r_agent_id x = agent_id t"
    then have "result_of s ?a = Some x" using res t(2) by simp
    with row have "is_terminal_row r \<and> t_outcome r = Some (r_outcome x)" by (simp add: agent_ok_def)
    with t(3,4) show "phase t = Terminal \<and> map_option TaskOutcome_as_str (outcome t) = Some (r_outcome x)"
      by simp
  qed
  moreover have "close_requested t \<or> stop_requested t \<longrightarrow> phase t \<in> {Queued, Cancelling, Terminal}"
    using row t by (auto simp: agent_ok_def phase_in_def)
  ultimately show ?thesis using t(1) by blast
qed

text \<open>
  C36. The ledger replays every task of a reachable store: its entries link from the submission, each
  from the phase the one before reached and under an owner epoch no smaller, and the last one reaches
  the task's phase, outcome and owner epoch.
\<close>

theorem ledger_replays:
  assumes "store_reachable s" "r \<in> set (tasks s)"
  shows "ledger_ok (filter (\<lambda>l. l_agent_id l = t_agent_id r) (lifecycle_ledger s)) r"
  using reachable_row [OF assms] by (simp add: agent_ok_def ledger_of_def)

section \<open>Refinement of the lifecycle\<close>

text \<open>
  C2. The store refines the abstract lifecycle. Every task of a reachable store is in a state the
  lifecycle reaches from submission; every committed operation leaves each task as it was or moves it
  along one transition of the lifecycle; tasks appear only in the initial state and never disappear.
\<close>

theorem store_refines_lifecycle:
  assumes "store_reachable s" "store_step s s'"
  shows "case task_life s a of
      Some x \<Rightarrow> reachable life_init life_step x
        \<and> (\<exists>y. task_life s' a = Some y \<and> (y = x \<or> life_step x y))
    | None \<Rightarrow> task_life s' a = None \<or> (\<exists>y. task_life s' a = Some y \<and> life_init y)"
proof (cases "task_life s a")
  case None
  then show ?thesis
    using store_lifecycle.appears [OF reachable_store_inv [OF assms(1)] assms(2) None] by (cases "task_life s' a") auto
next
  case (Some x)
  have "task_life t k = None" if "t = empty_store" for t k
    using that by (simp add: task_life_def find_task_def empty_store_def)
  then have "reachable life_init life_step x"
    by (rule store_lifecycle.reachable_simulates [OF assms(1) _ Some])
  with Some store_lifecycle.simulates [OF reachable_store_inv [OF assms(1)] assms(2) Some] show ?thesis by simp
qed

lemma life_step_epoch: "life_step x y \<Longrightarrow> life_epoch x \<le> life_epoch y"
  by (erule life_stepE) auto

text \<open>
  A task never disappears and its owner epoch never decreases, along every run of the store.
\<close>

theorem owner_epoch_monotone:
  assumes "store_reachable s" "store_step\<^sup>*\<^sup>* s s'" "r \<in> set (tasks s)"
  shows "\<exists>r' \<in> set (tasks s'). t_agent_id r' = t_agent_id r \<and> t_owner_epoch r \<le> t_owner_epoch r'"
proof -
  note row = reachable_row [OF assms(1,3)]
  then have "task_life s (t_agent_id r) = Some (life_of r)" by (simp add: task_life_def)
  from store_lifecycle.run_monotone [where f = life_epoch, OF life_step_epoch assms(2) reachable_store_inv [OF assms(1)] this]
  obtain r' where r': "find_task s' (t_agent_id r) = Some r'" "nat (t_owner_epoch r) \<le> nat (t_owner_epoch r')"
    by (auto simp: task_life_def life_of_def)
  have "0 \<le> t_owner_epoch r'"
    using store_inv_row [OF store_system.run_inv [OF assms(2) reachable_store_inv [OF assms(1)]] r'(1)]
    by (simp add: row_ok_def)
  with r' find_task_agent [OF r'(1)] show ?thesis by auto
qed

section \<open>Cancellation\<close>

definition doomed :: "life \<Rightarrow> bool" where
  "doomed x \<longleftrightarrow>
     (life_close x \<or> life_stop x)
     \<and> (life_phase x = Cancelling \<or> life_phase x = Terminal \<and> life_outcome x = Some Cancelled)"

lemma doomed_step: "life_step x y \<Longrightarrow> doomed x \<Longrightarrow> doomed y"
  by (erule life_stepE) (auto simp: doomed_def)

lemma doomed_run: "life_step\<^sup>*\<^sup>* x y \<Longrightarrow> doomed x \<Longrightarrow> doomed y"
  by (induction rule: rtranclp_induct) (auto dest: doomed_step)

lemma request_stop_find:
  assumes inv: "store_inv s" and run: "request_stop_internal clock a close intent s = Inr (d, s')"
    and "decision_phase d \<noteq> Terminal"
  shows "\<exists>r ph. find_task s a = Some r \<and> t_phase r = TaskPhase_as_str ph \<and> ph \<noteq> Terminal
    \<and> find_task s' = (find_task s)(a \<mapsto> stopped_row (clock 0) Cancelling close intent r)"
proof (rule request_stop_eval [OF inv run])
  fix r ph epoch
  assume r: "find_task s a = Some r" "t_phase r = TaskPhase_as_str ph"
    and d: "decision_phase d = (if ph = Terminal then Terminal else Cancelling)"
    and s': "s' = (if ph = Terminal then set_task s a (stopped_row (clock 0) Terminal close intent r)
       else if ph = Cancelling
       then settle_terminal_commands a ''STOP_REQUESTED''
              (set_task s a (stopped_row (clock 0) Cancelling close intent r))
       else add_ledger (ledger_entry (clock 1) a epoch (Some ph) Cancelling None
                (Some (if close then ''CLOSE_REQUESTED'' else ''STOP_REQUESTED'')))
              (settle_terminal_commands a ''STOP_REQUESTED''
                (set_task s a (stopped_row (clock 0) Cancelling close intent r))))"
  have "ph \<noteq> Terminal" using d assms(3) by auto
  moreover from this have "find_task s' = (find_task s)(a \<mapsto> stopped_row (clock 0) Cancelling close intent r)"
    using r(1) find_task_agent [OF r(1)] by (simp add: s')
  ultimately show ?thesis using r by blast
qed

text \<open>
  C3. Cancellation is final. Once a stop request has been committed for a task that was not terminal,
  no later operation, of any owner and in any order, lets it run again or resumes it: it stays
  cancelling until it is terminal, and then its outcome is \<open>CANCELLED\<close>.
\<close>

theorem stop_request_final:
  assumes "store_reachable s" "request_stop clock a s = Inr (d, s1)" "decision_phase d \<noteq> Terminal"
    and "store_step\<^sup>*\<^sup>* s1 s2"
  shows "\<exists>y. task_life s2 a = Some y
    \<and> (life_phase y = Cancelling \<or> life_phase y = Terminal \<and> life_outcome y = Some Cancelled)"
proof -
  have inv: "store_inv s" by (rule reachable_store_inv [OF assms(1)])
  have run: "request_stop_internal clock a False True s = Inr (d, s1)"
    using assms(2) by (simp add: request_stop_def)
  obtain r ph where r: "find_task s a = Some r" "t_phase r = TaskPhase_as_str ph" "ph \<noteq> Terminal"
    and s1: "find_task s1 = (find_task s)(a \<mapsto> stopped_row (clock 0) Cancelling False True r)"
    using request_stop_find [OF inv run assms(3)] by blast
  have row: "row_ok r" by (rule store_inv_row [OF inv r(1)])
  have "life_of (stopped_row (clock 0) Cancelling False True r) = \<lparr>life_phase = Cancelling, life_outcome = None,
      life_epoch = nat (t_owner_epoch r), life_close = t_close_requested r, life_stop = True\<rparr>"
    using life_of_eq [of "stopped_row (clock 0) Cancelling False True r" Cancelling None] row r(2,3)
    by (simp add: row_ok_def task_check_def)
  then have "\<exists>x. task_life s1 a = Some x \<and> doomed x"
    by (simp add: task_life_def s1 doomed_def)
  then obtain x where x: "task_life s1 a = Some x" "doomed x" by blast
  from store_lifecycle.run_simulates [OF assms(4) request_stop_inv [OF inv run] x(1)] x(2) show ?thesis
    by (auto dest!: doomed_run simp: doomed_def)
qed

end
