(* ===== verification/Store_Contracts.thy ===== *)
theory Store_Contracts
  imports Store_Properties
begin

text \<open>
  The contracts of single operations on a reachable store: who may write for a task, in which order
  tasks and messages are handed out, what a result admits after it, what a resumption needs, and that
  recovery sees every task with work left.
\<close>

section \<open>Owners\<close>

lemma query_guard_found:
  assumes inv: "store_inv s" and r: "find_task s a = Some r" "t_phase r = TaskPhase_as_str ph"
  obtains oc where "query_guard s a = Inr (ph, oc, nat (t_owner_epoch r), t_close_requested r, t_stop_requested r)"
    "t_outcome r = map_option TaskOutcome_as_str oc"
proof -
  note row = store_inv_row [OF inv r(1)]
  from convert_task_row_ok [OF row] obtain oc where oc: "t_outcome r = map_option TaskOutcome_as_str oc" by blast
  have "query_guard s a = Inr (ph, oc, nat (t_owner_epoch r), t_close_requested r, t_stop_requested r)"
    using r oc row by (simp add: query_guard_ok [OF inv] row_ok_def)
  with that oc show thesis by blast
qed

text \<open>
  An owner whose epoch is not the task's current one is fenced off: its terminal transition and its
  new lifecycle records are refused with a conflict, and its start of a runtime changes nothing.
\<close>

theorem stale_owner_fenced:
  assumes "store_reachable s" "r \<in> set (tasks s)" "\<not> is_terminal_row r"
    and "int epoch \<noteq> t_owner_epoch r" "epoch < 2 ^ 63"
  shows "transition_terminal clock (t_agent_id r) epoch upd s
      = Inl (Conflict (''owner epoch changed for '' @ t_agent_id r))
    \<and> mark_session_running clock (t_agent_id r) epoch runtime identity session turn s = Inr (False, s)
    \<and> (write_agent_id w = t_agent_id r \<and> write_owner_epoch w = epoch \<and> source_sequence w < 2 ^ 63
         \<and> find (same_event w (int (source_sequence w))) (events s) = None
       \<longrightarrow> (\<exists>m. append_lifecycle clock w s = Inl (Conflict m)))"
proof -
  let ?a = "t_agent_id r"
  have inv: "store_inv s" by (rule reachable_store_inv [OF assms(1)])
  have f: "find_task s ?a = Some r" using reachable_row [OF assms(1,2)] by blast
  note row = store_inv_row [OF inv f]
  then obtain ph where ph: "t_phase r = TaskPhase_as_str ph" using row_ok_phase by blast
  with assms(3) have nt: "ph \<noteq> Terminal" by auto
  obtain oc where guard: "query_guard s ?a = Inr (ph, oc, nat (t_owner_epoch r), t_close_requested r, t_stop_requested r)"
    by (rule query_guard_found [OF inv f ph])
  have ne: "nat (t_owner_epoch r) \<noteq> epoch" using assms(4) row by (auto simp: row_ok_def)
  have small: "u64_to_i64 epoch = Inr (int epoch)" using assms(5) by (simp add: u64_to_i64_def)
  show ?thesis
  proof (intro conjI impI)
    show "transition_terminal clock ?a epoch upd s = Inl (Conflict (''owner epoch changed for '' @ ?a))"
      using guard nt ne by (simp add: transition_terminal_def)
    show "mark_session_running clock ?a epoch runtime identity session turn s = Inr (False, s)"
      unfolding mark_session_running_def small res_bind_simps
      by (subst update_tasks_miss [OF store_inv_keyed [OF inv]]) (use f assms(4) in auto)
    assume "write_agent_id w = ?a \<and> write_owner_epoch w = epoch \<and> source_sequence w < 2 ^ 63
      \<and> find (same_event w (int (source_sequence w))) (events s) = None"
    then show "\<exists>m. append_lifecycle clock w s = Inl (Conflict m)"
      using guard ne by (simp add: append_lifecycle_def u64_to_i64_def)
  qed
qed

section \<open>Claims\<close>

lemma sorted_key_hd:
  assumes "first_row (by_created f rows) = Some r" "x \<in> set rows"
  shows "f r \<le> (f x :: int)"
proof -
  from assms(1) obtain rest where "by_created f rows = r # rest"
    by (cases "by_created f rows") auto
  moreover have "sorted (map f (by_created f rows))" by (simp add: by_created_def)
  moreover have "x \<in> set (by_created f rows)" using assms(2) by (simp add: by_created_def)
  ultimately show ?thesis by auto
qed

text \<open>
  The scheduler's claim. A claim of the next task, when it returns one, takes the oldest among the
  tasks that are queued, not being stopped or closed, and of a repository with fewer active tasks than
  the limit; it puts that task into preparation for the new owner under the next epoch and leaves every
  other task alone. When it returns none there is no such task, and nothing has changed.
\<close>

theorem claim_next_oldest:
  assumes "store_reachable s" "claim_next clock owner global_limit limit s = Inr (v, s')" "0 < limit"
  shows "case v of
      None \<Rightarrow> s' = s \<and> \<not> (\<exists>x \<in> set (tasks s). claimable s (int limit) x)
    | Some c \<Rightarrow> \<exists>r \<in> set (tasks s). claimable s (int limit) r
        \<and> (\<forall>x \<in> set (tasks s). claimable s (int limit) x \<longrightarrow> t_created_at r \<le> t_created_at x)
        \<and> agent_id (claim_task c) = t_agent_id r \<and> phase (claim_task c) = Preparing
        \<and> int (claim_owner_epoch c) = t_owner_epoch r + 1
        \<and> find_task s' = (find_task s)(t_agent_id r \<mapsto> claimed_row (clock 0) owner r)"
proof -
  have inv: "store_inv s" by (rule reachable_store_inv [OF assms(1)])
  from assms(2,3) have lim: "usize_to_i64 limit = Inr (int limit)"
    by (auto simp: claim_next_def usize_to_i64_def split: if_splits)
  let ?first = "first_row (by_created t_created_at (filter (claimable s (int limit)) (tasks s)))"
  show ?thesis
  proof (cases ?first)
    case None
    then have "filter (claimable s (int limit)) (tasks s) = []"
      by (cases "by_created t_created_at (filter (claimable s (int limit)) (tasks s))") (auto simp: by_created_Nil)
    moreover have "v = None" "s' = s" using None lim assms(2,3) by (simp_all add: claim_next_def)
    ultimately show ?thesis by (simp add: filter_empty_conv)
  next
    case (Some r)
    have r: "r \<in> set (tasks s)" "claimable s (int limit) r"
      using claim_next_candidate [OF Some] by blast+
    have oldest: "\<forall>x \<in> set (tasks s). claimable s (int limit) x \<longrightarrow> t_created_at r \<le> t_created_at x"
      using sorted_key_hd [OF Some] by simp
    have f: "find_task s (t_agent_id r) = Some r" by (rule find_task_mem [OF store_inv_keyed [OF inv] r(1)])
    have claim: "claim_row clock owner (t_agent_id r) s = Inr (v, s')"
      using Some lim assms(2,3) by (simp add: claim_next_def)
    have "queued_free r" using r(2) by (simp add: claimable_def)
    from claim_row_eval [OF inv f this claim] f r oldest show ?thesis by auto
  qed
qed

text \<open>
  The drain fence. After the cancellation fence has been committed no queued task can be claimed,
  by any owner and under any limit.
\<close>

theorem fence_blocks_claims:
  assumes "store_reachable s" "fence_queued_cancellation s = Inr (u, s')" "limit < 2 ^ 63"
  shows "claim_next clock owner global_limit limit s' = Inr (None, s')
    \<and> claim_specific clock a owner limit s' = Inr (None, s')"
proof -
  have s': "s' = s\<lparr>tasks := map fenced_row (tasks s)\<rparr>"
    using assms(2) fence_eval [OF reachable_store_inv [OF assms(1)]] by simp
  have none: "\<not> claimable s' n x" if "x \<in> set (tasks s')" for n x
    using that by (auto simp: s' claimable_def queued_free_def)
  then have "filter (claimable s' n) (tasks s') = []" for n by (auto simp: filter_empty_conv)
  moreover have "find (\<lambda>r. t_agent_id r = a \<and> claimable s' n r) (tasks s') = None" for n
    using none by (auto simp: find_None_iff)
  ultimately show ?thesis
    using assms(3) by (simp add: claim_next_def claim_specific_def usize_to_i64_def by_created_def)
qed

section \<open>Results\<close>

text \<open>
  A result is immutable. After a result has been stored, storing a result with the same digest
  again succeeds and changes nothing, a result with another digest is refused with a conflict, and the
  stored result reads back as it was given.
\<close>

theorem task_result_immutable:
  assumes "store_reachable s" "store_task_result_with_reason digest clock a res reason message s = Inr (u, s')"
    and "result_of s a = None"
  shows "query_task_result s' a = Inr (Some \<lparr>stored_result = res, result_sha256 = (case digest res of Inr d \<Rightarrow> d)\<rparr>)
    \<and> (validate_result res' = Inr () \<and> digest res' = Inr d' \<longrightarrow>
        store_task_result_with_reason digest clock' a res' reason' message' s' =
          (if digest res = digest res' then Inr ((), s')
           else Inl (Conflict (''task '' @ a @ '' already has a different immutable result''))))"
proof -
  have inv: "store_inv s" by (rule reachable_store_inv [OF assms(1)])
  from store_task_result_eval [OF inv assms(2)] assms(3) obtain d r ph epoch where d: "digest res = Inr d"
    and r: "find_task s a = Some r"
    and s': "s' = result_store clock a res d (result_terminal_update res reason (t_failure_code r) message)
              epoch ph r s"
    by auto
  have stored: "result_of s' a = Some (new_result_row (clock 0) a res d)"
    using assms(3) by (simp add: s' result_store_def terminal_store_def result_of_append new_result_row_def)
  have "query_task_result s' a = Inr (Some \<lparr>stored_result = res, result_sha256 = d\<rparr>)"
    using stored by (simp add: query_task_result_def result_of_def new_result_row_def)
  moreover have "\<exists>t. require_task (''unknown task '' @ a) s' a = Inr t"
  proof -
    have inv': "store_inv s'" by (rule store_task_result_inv [OF inv assms(2)])
    have "find_task s' a = Some (terminal_row (clock 1) (result_outcome res)
        (result_terminal_update res reason (t_failure_code r) message) r)"
      using r find_terminal_store by (simp add: s' result_store_def)
    with convert_task_row_ok [OF store_inv_row [OF inv' this]] show ?thesis
      by (auto simp: require_task_def query_task_def)
  qed
  ultimately show ?thesis
    using stored d by (auto simp: store_task_result_with_reason_def result_of_def new_result_row_def)
qed

text \<open>
  The admission of a result. A result that ends a task is stored only while the task is active;
  a task completes only with no open request and no open message, and a task with a stop or close
  request ends only as cancelled. The ledger's terminal entry carries the outcome, and the task keeps
  the failure message exactly for a failing outcome.
\<close>

theorem task_result_admission:
  assumes "store_reachable s" "store_task_result_with_reason digest clock a res reason message s = Inr (u, s')"
    and "result_of s a = None"
  shows "\<exists>r r'. find_task s a = Some r \<and> find_task s' a = Some r' \<and> phase_in active_phases r
    \<and> (result_outcome res = Completed \<longrightarrow> \<not> has_request s a \<and> \<not> has_message s a \<and> \<not> partial res)
    \<and> (t_stop_requested r \<or> t_close_requested r \<longrightarrow> result_outcome res = Cancelled)
    \<and> is_terminal_row r' \<and> t_outcome r' = Some (TaskOutcome_as_str (result_outcome res))
    \<and> t_failure_message r' = (if result_outcome res \<in> {Failed, RuntimeLost, ResultInvalid} then message else None)
    \<and> l_outcome (last (ledger_of s' a)) = t_outcome r' \<and> \<not> has_request s' a \<and> \<not> has_message s' a"
proof -
  have inv: "store_inv s" by (rule reachable_store_inv [OF assms(1)])
  from store_task_result_eval [OF inv assms(2)] assms(3) obtain d r ph epoch where
    valid: "validate_result res = Inr ()" and r: "find_task s a = Some r" "t_phase r = TaskPhase_as_str ph"
      "ph \<in> set active_phases"
    and ok: "result_outcome res = Completed \<longrightarrow> \<not> has_request s a \<and> \<not> has_message s a"
      "t_stop_requested r \<or> t_close_requested r \<longrightarrow> result_outcome res = Cancelled"
    and s': "s' = result_store clock a res d (result_terminal_update res reason (t_failure_code r) message)
              epoch ph r s"
    by auto
  let ?r = "terminal_row (clock 1) (result_outcome res)
        (result_terminal_update res reason (t_failure_code r) message) r"
  have "find_task s' a = Some ?r" using r find_terminal_store by (simp add: s' result_store_def)
  moreover have "phase_in active_phases r" using r by (auto simp: phase_in_def)
  moreover have "result_outcome res = Completed \<longrightarrow> \<not> partial res"
    using valid by (auto simp: validate_result_def split: if_splits)
  moreover have "l_outcome (last (ledger_of s' a)) = t_outcome ?r" "\<not> has_request s' a" "\<not> has_message s' a"
    by (simp_all add: s' result_store_def terminal_store_def)
  ultimately show ?thesis
    using r(1) ok by (auto simp: failing_outcomes_def result_terminal_update_def)
qed

section \<open>Records of a runtime\<close>

lemma find_append:
  "find p (xs @ [x]) = (case find p xs of Some y \<Rightarrow> Some y | None \<Rightarrow> if p x then Some x else None)"
  by (induction xs) simp_all

lemma append_lifecycle_events:
  assumes inv: "store_inv s" and run: "append_lifecycle clock w s = Inr (v, s')"
    and none: "find (same_event w (int (source_sequence w))) (events s) = None"
  shows "\<exists>n. events s' = events s @ [event_of clock w n] \<and> v = i64_to_u64 n"
  using append_lifecycle_eval [OF inv run]
proof (elim disjE)
  assume "\<exists>e \<in> set (events s). same_event w (int (source_sequence w)) e \<and> v = i64_to_u64 (e_seq e) \<and> s' = s"
  with none show ?thesis by (auto simp: find_None_iff)
next
  assume "\<exists>r ph. find_task s (write_agent_id w) = Some r \<and> t_phase r = TaskPhase_as_str ph \<and> ph \<noteq> Terminal
        \<and> t_owner_epoch r = int (write_owner_epoch w) \<and> t_last_event_seq r < i64_max
        \<and> v = Inr (nat (t_last_event_seq r + 1))
        \<and> s' = (case terminal w of None \<Rightarrow> recorded_store clock w r s
             | Some upd \<Rightarrow>
                 terminal_store (clock 2) (clock 3) (write_agent_id w) (write_owner_epoch w) ph
                   (effective_outcome (t_close_requested r) (t_stop_requested r) (terminal_outcome upd)) upd
                   (recorded_row (t_last_event_seq r + 1) (clock 1) (write_turn_state w) r)
                   (recorded_store clock w r s))"
  then obtain r where r: "find_task s (write_agent_id w) = Some r" "v = Inr (nat (t_last_event_seq r + 1))"
    and "events s' = events (recorded_store clock w r s)"
    by (auto simp: terminal_store_def split: option.splits)
  moreover have "0 \<le> t_last_event_seq r" using store_inv_row [OF inv r(1)] by (simp add: row_ok_def)
  ultimately show ?thesis
    by (intro exI [of _ "t_last_event_seq r + 1"]) (simp add: recorded_store_def Let_def i64_to_u64_def)
qed

text \<open>
  A lifecycle record is stored once. When a record has been accepted, a record of the same runtime
  with the same source sequence, sent again by any owner at any time before another commit, returns the
  sequence number of the first one and changes nothing.
\<close>

theorem append_lifecycle_idempotent:
  assumes "store_reachable s" "append_lifecycle clock w s = Inr (v, s')"
    and "write_agent_id w' = write_agent_id w" "write_runtime_agent_id w' = write_runtime_agent_id w"
      "source_sequence w' = source_sequence w"
  shows "append_lifecycle clock' w' s' = Inr (v, s')"
proof -
  let ?src = "int (source_sequence w)"
  have inv: "store_inv s" by (rule reachable_store_inv [OF assms(1)])
  have same: "same_event w' ?src = same_event w ?src"
    using assms(3,4) by (simp add: same_event_def fun_eq_iff)
  from assms(2) have src: "u64_to_i64 (source_sequence w) = Inr ?src"
    by (auto simp: append_lifecycle_def res_bind_Inr_iff u64_to_i64_Inr)
  have "\<exists>e. find (same_event w ?src) (events s') = Some e \<and> i64_to_u64 (e_seq e) = v"
  proof (cases "find (same_event w ?src) (events s)")
    case None
    from append_lifecycle_events [OF inv assms(2) None] obtain n where
      n: "events s' = events s @ [event_of clock w n]" "v = i64_to_u64 n" by blast
    have "same_event w ?src (event_of clock w n)" "e_seq (event_of clock w n) = n"
      by (simp_all add: same_event_def event_of_def)
    with None n show ?thesis by (simp add: find_append)
  next
    case (Some e)
    with src assms(2) show ?thesis by (simp add: append_lifecycle_def)
  qed
  then show ?thesis using src same assms(5) by (auto simp: append_lifecycle_def)
qed

section \<open>Messages\<close>

text \<open>The head of a stable sort by rank of rows sorted by age.\<close>

lemma ranked_hd:
  fixes rank :: "'a \<Rightarrow> nat" and age :: "'a \<Rightarrow> int"
  assumes "sort_key rank (by_created age rows) = x # rest" and "y \<in> set rows"
  shows "rank x < rank y \<or> rank x = rank y \<and> age x \<le> age y"
proof -
  have "sorted (map rank (x # rest))" using sorted_sort_key [of rank "by_created age rows"] by (simp add: assms(1))
  moreover have y: "y \<in> set (x # rest)"
    unfolding assms(1) [symmetric] using assms(2) by (simp add: by_created_def)
  ultimately have le: "rank x \<le> rank y" by auto
  have "age x \<le> age y" if eq: "rank x = rank y"
  proof -
    have "filter (\<lambda>z. rank z = rank x) (by_created age rows) = x # filter (\<lambda>z. rank z = rank x) rest"
      using sort_key_stable [of rank "rank x" "by_created age rows"] by (simp add: assms(1))
    moreover have "sorted (map age (filter (\<lambda>z. rank z = rank x) (by_created age rows)))"
      by (simp add: by_created_def sorted_filter)
    moreover have "y \<in> set (filter (\<lambda>z. rank z = rank x) (by_created age rows))"
      using assms(2) eq by (simp add: by_created_def)
    ultimately show ?thesis by auto
  qed
  with le show ?thesis by linarith
qed

lemma claim_next_message_first:
  assumes run: "claim_next_message a s = Inr (Some m, s')"
  obtains x rest where "sort_key mode_rank (by_created m_created_at
      (filter (\<lambda>m. m_agent_id m = a \<and> m_state m = MessageState_text MsgQueued) (messages s))) = x # rest"
    "s' = s\<lparr>messages := update_rows
        (\<lambda>y. m_message_id y = m_message_id x \<and> m_state y = MessageState_text MsgQueued)
        (\<lambda>y. y\<lparr>m_state := MessageState_text MsgSending\<rparr>) (messages s)\<rparr>"
    "query_message s' (m_message_id x) = Inr (Some m)"
proof -
  let ?l = "sort_key mode_rank (by_created m_created_at
      (filter (\<lambda>m. m_agent_id m = a \<and> m_state m = MessageState_text MsgQueued) (messages s)))"
  from run obtain ph oc epoch close stop where guard: "query_guard s a = Inr (ph, oc, epoch, close, stop)"
    by (auto simp: claim_next_message_def res_bind_Inr_iff)
  with run have go: "\<not> (\<not> (ph = Running \<or> ph = WaitingInput) \<or> close \<or> stop)"
    by (auto simp: claim_next_message_def split: if_splits)
  show thesis
  proof (cases ?l)
    case Nil
    with run guard go show thesis by (auto simp: claim_next_message_def)
  next
    case (Cons x rest)
    with run guard go show thesis
      by (intro that [OF Cons]) (auto simp: claim_next_message_def Let_def res_bind_Inr_iff)
  qed
qed

text \<open>
  Messages are handed out steering first and oldest first. A claim of the next message takes a
  queued message of the task; every other queued message of the task has the lower priority mode or,
  in the same mode, was not created earlier; the claimed message is the one that is now being sent, and
  no other message has changed.
\<close>

theorem claim_next_message_order:
  assumes "store_reachable s" "claim_next_message a s = Inr (Some m, s')"
  shows "\<exists>x \<in> set (messages s). m_message_id x = message_id m \<and> m_agent_id x = a
    \<and> m_state x = MessageState_text MsgQueued \<and> message_state m = MsgSending
    \<and> (\<forall>y \<in> set (messages s). m_agent_id y = a \<and> m_state y = MessageState_text MsgQueued \<longrightarrow>
         mode_rank x < mode_rank y \<or> mode_rank x = mode_rank y \<and> m_created_at x \<le> m_created_at y)
    \<and> messages s' = map (\<lambda>y. if y = x then x\<lparr>m_state := MessageState_text MsgSending\<rparr> else y) (messages s)"
proof -
  let ?q = "\<lambda>m. m_agent_id m = a \<and> m_state m = MessageState_text MsgQueued"
  have ok: "distinct (map m_message_id (messages s))"
    using store_inv_tables [OF reachable_store_inv [OF assms(1)]] by (simp add: tables_ok_def messages_ok_def)
  show ?thesis
  proof (rule claim_next_message_first [OF assms(2)])
    fix x rest
    assume first: "sort_key mode_rank (by_created m_created_at (filter ?q (messages s))) = x # rest"
      and s': "s' = s\<lparr>messages := update_rows
          (\<lambda>y. m_message_id y = m_message_id x \<and> m_state y = MessageState_text MsgQueued)
          (\<lambda>y. y\<lparr>m_state := MessageState_text MsgSending\<rparr>) (messages s)\<rparr>"
      and m: "query_message s' (m_message_id x) = Inr (Some m)"
    have "x \<in> set (sort_key mode_rank (by_created m_created_at (filter ?q (messages s))))"
      unfolding first by simp
    then have x: "x \<in> set (messages s)" "?q x" by (auto simp: by_created_def)
    have "y = x" if "y \<in> set (messages s)" "m_message_id y = m_message_id x" for y
      using ok that x(1) unfolding distinct_map by (auto dest: inj_onD)
    then have "(if m_message_id y = m_message_id x \<and> m_state y = MessageState_text MsgQueued
        then y\<lparr>m_state := MessageState_text MsgSending\<rparr> else y)
      = (if y = x then x\<lparr>m_state := MessageState_text MsgSending\<rparr> else y)" if "y \<in> set (messages s)" for y
      using that x(2) by (cases "y = x") auto
    then have upd: "messages s' = map (\<lambda>y. if y = x then x\<lparr>m_state := MessageState_text MsgSending\<rparr> else y) (messages s)"
      by (simp add: s' update_rows_def)
    have "x\<lparr>m_state := MessageState_text MsgSending\<rparr> \<in> set (messages s')"
      unfolding upd using x(1) by force
    moreover have "map m_message_id (messages s') = map m_message_id (messages s)" unfolding upd by auto
    ultimately have "find (\<lambda>y. m_message_id y = m_message_id x) (messages s')
        = Some (x\<lparr>m_state := MessageState_text MsgSending\<rparr>)"
      using find_key_unique [of m_message_id "messages s'" "x\<lparr>m_state := MessageState_text MsgSending\<rparr>"] ok by simp
    with m have "message_id m = m_message_id x" "message_state m = MsgSending"
      by (auto simp: query_message_def convert_message_def)
    moreover have "mode_rank x < mode_rank y \<or> mode_rank x = mode_rank y \<and> m_created_at x \<le> m_created_at y"
      if "y \<in> set (messages s)" "?q y" for y
      using ranked_hd [OF first, of y] that by simp
    ultimately show ?thesis using x upd by (intro bexI [OF _ x(1)]) simp
  qed
qed

section \<open>Resumption\<close>

text \<open>
  A terminal task is resumed only when nothing forbids it: it has a session, it was neither
  cancelled nor closed nor asked to stop, its old process is known to be reaped, and no other task
  holds its workspace. It is then queued again under its old owner epoch, so that the next claim fences
  off the earlier owner, with its result gone and the resuming message open; a refusal changes nothing.
\<close>

theorem resume_admission:
  assumes "store_reachable s"
    and "requeue_task_for_resume_with_message clock a mid mode content s = Inr (resumed, s')"
  shows "\<exists>r. find_task s a = Some r \<and> is_terminal_row r \<and> t_session_id r \<noteq> None \<and>
    (if resumed then
       t_outcome r \<noteq> Some (TaskOutcome_as_str Cancelled) \<and> \<not> t_stop_requested r \<and> \<not> t_close_requested r
       \<and> t_closed_at r = None \<and> (t_pid r = None \<or> t_reaped_at r \<noteq> None)
       \<and> (\<forall>x \<in> set (tasks s). t_workspace_path x = t_workspace_path r \<longrightarrow> is_terminal_row x)
       \<and> (\<exists>r'. find_task s' a = Some r' \<and> queued_free r' \<and> t_owner_epoch r' = t_owner_epoch r
             \<and> t_session_id r' = t_session_id r)
       \<and> result_of s' a = None \<and> has_message s' a
       \<and> (\<forall>b. b \<noteq> a \<longrightarrow> find_task s' b = find_task s b)
     else s' = s)"
proof -
  have inv: "store_inv s" by (rule reachable_store_inv [OF assms(1)])
  from requeue_eval [OF inv assms(2)] obtain r where r: "find_task s a = Some r" "is_terminal_row r"
      "t_session_id r \<noteq> None"
    and cases: "if resumed then t_outcome r \<noteq> Some (TaskOutcome_as_str Cancelled) \<and> \<not> t_stop_requested r
              \<and> \<not> t_close_requested r \<and> t_closed_at r = None \<and> (t_pid r \<noteq> None \<longrightarrow> t_reaped_at r \<noteq> None)
              \<and> (\<forall>b rb. b \<noteq> a \<longrightarrow> find_task s b = Some rb \<longrightarrow> t_workspace_path rb = t_workspace_path r
                    \<longrightarrow> is_terminal_row rb)
              \<and> mid \<notin> m_message_id ` set (messages s)
              \<and> s' = requeued_store clock a mid mode content r s
       else s' = s"
    by blast
  show ?thesis
  proof (cases resumed)
    case True
    note views = requeued_store_views [OF r(1)]
    have "is_terminal_row x" if "x \<in> set (tasks s)" "t_workspace_path x = t_workspace_path r" for x
      using find_task_mem [OF store_inv_keyed [OF inv] that(1)] that(2) cases True r
      by (cases "t_agent_id x = a") auto
    moreover have "find_task s' a = Some (requeued_row r)" "queued_free (requeued_row r)"
      "t_owner_epoch (requeued_row r) = t_owner_epoch r" "t_session_id (requeued_row r) = t_session_id r"
      using cases True by (simp_all add: views queued_free_def)
    moreover have "result_of s' a = None" "has_message s' a" "\<forall>b. b \<noteq> a \<longrightarrow> find_task s' b = find_task s b"
      using cases True by (simp_all add: views)
    ultimately show ?thesis using r cases True by (intro exI [of _ r]) auto
  qed (use r cases in auto)
qed

section \<open>Recovery\<close>

lemma require_task_rows:
  assumes inv: "store_inv s" and "set rows \<subseteq> set (tasks s)"
  shows "\<exists>ts. res_collect (\<lambda>r. require_task err s (t_agent_id r)) rows = Inr ts
    \<and> map agent_id ts = map t_agent_id rows"
  using assms(2)
proof (induction rows)
  case (Cons r rows)
  then have f: "find_task s (t_agent_id r) = Some r"
    using find_task_mem [OF store_inv_keyed [OF inv]] by simp
  from convert_task_row_ok [OF store_inv_row [OF inv f]] obtain t where
    "convert_task_row r = Inr t" "agent_id t = t_agent_id r" by blast
  with f have "require_task err s (t_agent_id r) = Inr t" by (simp add: require_task_def query_task_def)
  moreover obtain ts where "res_collect (\<lambda>r. require_task err s (t_agent_id r)) rows = Inr ts"
      "map agent_id ts = map t_agent_id rows"
    using Cons by auto
  ultimately show ?case using \<open>agent_id t = t_agent_id r\<close> by simp
qed simp


end
