(* ===== verification/Store_Identities.thy ===== *)
theory Store_Identities
  imports Store_Contracts
begin

text \<open>
  The allocator of public task identities: no operation but the reservation moves its counter, so that
  two reservations of one run never return the same identity.
\<close>

section \<open>The counter\<close>

lemma terminal_store_next_id [simp]: "next_id (terminal_store now lnow a epoch ph oc upd r s) = next_id s"
  by (simp add: terminal_store_def)

lemma recorded_store_next_id [simp]: "next_id (recorded_store clock w r s) = next_id s"
  by (simp add: recorded_store_def Let_def)

lemma result_store_next_id [simp]: "next_id (result_store clock a res d upd epoch ph r s) = next_id s"
  by (simp add: result_store_def)

lemma requeued_store_next_id [simp]: "next_id (requeued_store clock a mid mode content r s) = next_id s"
  by (simp add: requeued_store_def Let_def)

lemma claim_next_next_id:
  assumes inv: "store_inv s" and run: "claim_next clock owner g n s = Inr (v, s')"
  shows "next_id s' = next_id s"
proof (cases "s' = s")
  case False
  with run obtain n r where "first_row (by_created t_created_at (filter (claimable s n) (tasks s))) = Some r"
    and claim: "claim_row clock owner (t_agent_id r) s = Inr (v, s')"
    by (auto simp: claim_next_def res_bind_Inr_iff split: if_splits option.splits)
  then have "r \<in> set (tasks s)" "queued_free r"
    by (auto simp: claimable_def dest: claim_next_candidate)
  with claim_row_eval [OF inv _ _ claim, of r] find_task_mem [OF store_inv_keyed [OF inv]] show ?thesis
    by simp
qed simp

lemma claim_specific_next_id:
  assumes inv: "store_inv s" and run: "claim_specific clock a owner n s = Inr (v, s')"
  shows "next_id s' = next_id s"
proof (cases "s' = s")
  case False
  with run obtain n r where "find (\<lambda>r. t_agent_id r = a \<and> claimable s n r) (tasks s) = Some r"
    and claim: "claim_row clock owner (t_agent_id r) s = Inr (v, s')"
    by (auto simp: claim_specific_def res_bind_Inr_iff split: if_splits option.splits)
  then have "r \<in> set (tasks s)" "queued_free r"
    by (auto simp: claimable_def find_Some_iff)
  with claim_row_eval [OF inv _ _ claim, of r] find_task_mem [OF store_inv_keyed [OF inv]] show ?thesis
    by simp
qed simp

lemma enqueue_next_id: "enqueue_task_authoritative clock t s = Inr (v, s') \<Longrightarrow> next_id s' = next_id s"
  using enqueue_shape by fastforce

lemma cancel_unstarted_next_id:
  "store_inv s \<Longrightarrow> cancel_unstarted_if_still_fresh clock a s = Inr (v, s') \<Longrightarrow> next_id s' = next_id s"
  by (drule (1) cancel_unstarted_eval) (elim disjE conjE exE, simp_all)

lemma mark_session_running_next_id:
  "store_inv s \<Longrightarrow> mark_session_running clock a e runtime identity session turn s = Inr (v, s') \<Longrightarrow>
     next_id s' = next_id s"
  by (drule (1) mark_session_running_eval) (elim disjE conjE exE, simp_all)

lemma append_lifecycle_next_id:
  "store_inv s \<Longrightarrow> append_lifecycle clock w s = Inr (v, s') \<Longrightarrow> next_id s' = next_id s"
  by (drule (1) append_lifecycle_eval) (elim disjE conjE exE bexE, simp_all split: option.splits)

lemma transition_terminal_next_id:
  "store_inv s \<Longrightarrow> transition_terminal clock a e upd s = Inr (v, s') \<Longrightarrow> next_id s' = next_id s"
  by (drule (1) transition_terminal_eval) (elim conjE exE, simp split: if_splits)

lemma request_stop_next_id:
  "store_inv s \<Longrightarrow> request_stop_internal clock a close intent s = Inr (d, s') \<Longrightarrow> next_id s' = next_id s"
  by (erule (1) request_stop_eval) simp

lemma requeue_next_id:
  "store_inv s \<Longrightarrow> requeue_task_for_resume_with_message clock a mid mode content s = Inr (v, s') \<Longrightarrow>
     next_id s' = next_id s"
  by (drule (1) requeue_eval) (elim conjE exE, simp split: if_splits)

lemma reap_task_next_id: "store_inv s \<Longrightarrow> reap_task clock a s = Inr (v, s') \<Longrightarrow> next_id s' = next_id s"
  by (drule (1) reap_task_eval) (elim conjE exE, simp)

lemma fence_next_id: "store_inv s \<Longrightarrow> fence_queued_cancellation s = Inr (v, s') \<Longrightarrow> next_id s' = next_id s"
  by (auto simp: fence_eval)

lemma insert_message_next_id:
  "store_inv s \<Longrightarrow> insert_message clock mid a mode content s = Inr (v, s') \<Longrightarrow> next_id s' = next_id s"
  by (drule (1) insert_message_eval) (elim conjE exE, simp split: if_splits)

lemma insert_pending_next_id:
  "store_inv s \<Longrightarrow> insert_pending_request clock rid a cid kind payload s = Inr (v, s') \<Longrightarrow> next_id s' = next_id s"
  by (erule (1) insert_pending_eval) (simp_all add: Let_def)

lemma complete_pending_next_id:
  "store_inv s \<Longrightarrow> complete_pending_response clock a rid s = Inr (v, s') \<Longrightarrow> next_id s' = next_id s"
  by (erule (1) complete_pending_eval) (simp_all add: Let_def)

lemma store_task_result_next_id:
  "store_inv s \<Longrightarrow> store_task_result_with_reason digest clock a res reason message s = Inr (v, s') \<Longrightarrow>
     next_id s' = next_id s"
  by (drule (1) store_task_result_eval) (elim conjE exE disjE, simp_all)

lemma message_outcome_next_id:
  "complete_message clock mid target s = Inr (v, s') \<Longrightarrow> next_id s' = next_id s"
  "fail_message mid code message s = Inr (v, s') \<Longrightarrow> next_id s' = next_id s"
  "release_pending_response a rid s = Inr (v, s') \<Longrightarrow> next_id s' = next_id s"
  by (auto simp: complete_message_def fail_message_def release_pending_response_def Let_def)

lemma claim_next_message_next_id:
  assumes "claim_next_message a s = Inr (v, s')"
  shows "next_id s' = next_id s"
proof (cases v)
  case None
  with assms show ?thesis
    by (auto simp: claim_next_message_def Let_def res_bind_Inr_iff split: if_splits option.splits)
next
  case (Some m)
  with assms show ?thesis by (auto elim: claim_next_message_first)
qed

lemma claim_pending_response_next_id:
  "claim_pending_response_if_accepting a rid decision answer s = Inr (v, s') \<Longrightarrow> next_id s' = next_id s"
  by (drule claim_pending_response_shape) (elim disjE exE, simp_all)

lemmas operation_next_id = claim_next_next_id claim_specific_next_id enqueue_next_id
  cancel_unstarted_next_id mark_session_running_next_id append_lifecycle_next_id
  transition_terminal_next_id request_stop_next_id requeue_next_id reap_task_next_id fence_next_id
  insert_message_next_id insert_pending_next_id complete_pending_next_id store_task_result_next_id
  message_outcome_next_id claim_next_message_next_id claim_pending_response_next_id

lemma reserve_task_id_eval:
  "reserve_task_id s = Inr (v, s') \<longleftrightarrow>
     10000000 \<le> next_id s \<and> next_id s \<le> 99999999 \<and> v = to_decimal (nat (next_id s))
     \<and> s' = s\<lparr>next_id := next_id s + 1\<rparr>"
  by (auto simp: reserve_task_id_def Let_def)

lemma store_step_next_id: "store_inv s \<Longrightarrow> store_step s s' \<Longrightarrow> next_id s \<le> next_id s'"
  by (erule store_step.cases)
    (auto simp: fail_claim_def request_close_def request_stop_def request_runtime_stop_def
      reserve_task_id_eval dest: operation_next_id)

lemma store_run_next_id: "store_step\<^sup>*\<^sup>* s s' \<Longrightarrow> store_inv s \<Longrightarrow> next_id s \<le> next_id s'"
proof (induction rule: rtranclp_induct)
  case (step t u)
  then have "store_inv t" using store_system.run_inv by blast
  with step store_step_next_id [of t u] show ?case by simp
qed simp

text \<open>
  Public identities are never reused: of two reservations in one run of the store, whatever happens
  between them, the later returns the greater number, and each is written with eight digits.
\<close>

theorem reserved_ids_increase:
  assumes "store_reachable s" "reserve_task_id s = Inr (v, s1)" "store_step\<^sup>*\<^sup>* s1 s2"
    and "reserve_task_id s2 = Inr (v', s3)"
  shows "digits_value v 0 < digits_value v' 0 \<and> v \<noteq> v' \<and> length v = 8 \<and> length v' = 8
    \<and> list_all is_ascii_digit v \<and> list_all is_ascii_digit v'"
proof -
  have inv: "store_inv s1" by (rule reserve_task_id_inv [OF reachable_store_inv [OF assms(1)] assms(2)])
  have le: "next_id s + 1 \<le> next_id s2"
    using store_run_next_id [OF assms(3) inv] assms(2) by (simp add: reserve_task_id_eval)
  have len: "length (to_decimal (nat n)) = 8" if "10000000 \<le> n" "n \<le> 99999999" for n
    using length_to_decimal [of 7 "nat n"] that by simp
  show ?thesis
    using assms(2,4) le len [of "next_id s"] len [of "next_id s2"]
    by (auto simp: reserve_task_id_eval to_decimal_digits to_decimal_inject)
qed

end
