(* ===== verification/Store_Examples.thy ===== *)
theory Store_Examples
  imports Store_Identities
begin

text \<open>
  A concrete run of the store, from which the theorems about reachable stores are instantiated: a task
  is submitted, claimed, started, sent a message, and completed.
\<close>

definition op_ok :: "StoreError + 'a \<times> store \<Rightarrow> bool" where
  "op_ok x = (case x of Inl _ \<Rightarrow> False | Inr _ \<Rightarrow> True)"

definition op_store :: "StoreError + 'a \<times> store \<Rightarrow> store" where
  "op_store x = (case x of Inl _ \<Rightarrow> empty_store | Inr (_, s) \<Rightarrow> s)"

lemma op_okE:
  assumes "op_ok x"
  obtains v where "x = Inr (v, op_store x)"
  using assms by (cases x) (auto simp: op_ok_def op_store_def)

definition tick :: clock where
  "tick i = int i"

definition ex_task :: NewTask where
  "ex_task = \<lparr>new_agent_id = ''a1'', new_repository = ''/r'', new_workspace_path = ''/w'',
     new_runtime_hash = None, new_prepared_launch_json = ''{}'', new_initial_prompt = ''go''\<rparr>"

definition ex_result :: TaskResult where
  "ex_result = \<lparr>result_outcome = Completed, final_text = ''done'', partial = False\<rparr>"

definition ex_digest :: "TaskResult \<Rightarrow> StoreError + string" where
  "ex_digest res = Inr (final_text res)"

definition ex_write :: LifecycleWrite where
  "ex_write = \<lparr>write_agent_id = ''a1'', write_runtime_agent_id = ''r1'', write_owner_epoch = 1,
     source_sequence = 7, event_type = ''turn'', turn_id = None, payload_json = ''{}'',
     redaction_level = ''none'', terminal = None, write_turn_state = Some TurnActive\<rparr>"

definition ex_queued :: store where
  "ex_queued = op_store (enqueue_task_authoritative tick ex_task empty_store)"

definition ex_claimed :: store where
  "ex_claimed = op_store (claim_next tick ''owner'' 0 1 ex_queued)"

definition ex_running :: store where
  "ex_running = op_store (mark_session_running tick ''a1'' 1 ''r1'' None (Some ''session'') None ex_claimed)"

definition ex_messaged :: store where
  "ex_messaged = op_store (insert_message tick ''m1'' ''a1'' ''queue'' ''hello'' ex_running)"

definition ex_completed :: store where
  "ex_completed = op_store (store_task_result_with_reason ex_digest tick ''a1'' ex_result None None ex_running)"

lemma ex_ok:
  "op_ok (enqueue_task_authoritative tick ex_task empty_store)"
  "op_ok (claim_next tick ''owner'' 0 1 ex_queued)"
  "op_ok (mark_session_running tick ''a1'' 1 ''r1'' None (Some ''session'') None ex_claimed)"
  "op_ok (insert_message tick ''m1'' ''a1'' ''queue'' ''hello'' ex_running)"
  "op_ok (store_task_result_with_reason ex_digest tick ''a1'' ex_result None None ex_running)"
  by code_simp+

lemma ex_reachable:
  "store_reachable empty_store" "store_reachable ex_queued" "store_reachable ex_claimed"
  "store_reachable ex_running" "store_reachable ex_messaged" "store_reachable ex_completed"
proof -
  show 0: "store_reachable empty_store" by (rule reachable.initial) simp
  show 1: "store_reachable ex_queued"
    by (rule op_okE [OF ex_ok(1)], rule reachable.advance [OF 0])
      (unfold ex_queued_def, rule store_step.enqueue)
  show 2: "store_reachable ex_claimed"
    by (rule op_okE [OF ex_ok(2)], rule reachable.advance [OF 1])
      (unfold ex_claimed_def, rule store_step.claim)
  show 3: "store_reachable ex_running"
    by (rule op_okE [OF ex_ok(3)], rule reachable.advance [OF 2])
      (unfold ex_running_def, rule store_step.start, simp, simp add: identity_in_range_def)
  show "store_reachable ex_messaged"
    by (rule op_okE [OF ex_ok(4)], rule reachable.advance [OF 3])
      (unfold ex_messaged_def, rule store_step.send)
  show "store_reachable ex_completed"
    by (rule op_okE [OF ex_ok(5)], rule reachable.advance [OF 3])
      (unfold ex_completed_def, rule store_step.result)
qed

lemma ex_row: "tasks ex_queued \<noteq> []" "tasks ex_claimed \<noteq> []" "tasks ex_running \<noteq> []" "tasks ex_completed \<noteq> []"
  by code_simp+

section \<open>Instances\<close>

theorem workspace_exclusive_witness:
  "\<exists>r \<in> set (tasks ex_running). \<not> is_terminal_row r
     \<and> (\<forall>r' \<in> set (tasks ex_running). t_workspace_path r = t_workspace_path r' \<and> \<not> is_terminal_row r' \<longrightarrow> r = r')"
proof -
  have "\<not> is_terminal_row (hd (tasks ex_running))" by code_simp
  with workspace_exclusive [OF ex_reachable(4)] hd_in_set [OF ex_row(3)] show ?thesis by blast
qed

theorem tables_agree_witness:
  "\<exists>t. convert_task_row (hd (tasks ex_running)) = Inr t \<and> (phase t = Terminal \<longleftrightarrow> outcome t \<noteq> None)"
  using tables_agree [OF ex_reachable(4) hd_in_set [OF ex_row(3)]] by blast

theorem ledger_replays_witness:
  "ledger_ok (filter (\<lambda>l. l_agent_id l = t_agent_id (hd (tasks ex_completed))) (lifecycle_ledger ex_completed))
     (hd (tasks ex_completed))"
  by (rule ledger_replays [OF ex_reachable(6) hd_in_set [OF ex_row(4)]])

theorem store_refines_lifecycle_witness:
  "\<exists>x y. task_life ex_queued ''a1'' = Some x \<and> reachable life_init life_step x
     \<and> task_life ex_claimed ''a1'' = Some y \<and> (y = x \<or> life_step x y)"
proof -
  have step: "store_step ex_queued ex_claimed"
    by (rule op_okE [OF ex_ok(2)]) (unfold ex_claimed_def, rule store_step.claim)
  have "task_life ex_queued ''a1'' \<noteq> None" by code_simp
  with store_refines_lifecycle [OF ex_reachable(2) step, of "''a1''"] show ?thesis
    by (cases "task_life ex_queued ''a1''") auto
qed

theorem owner_epoch_monotone_witness:
  "\<exists>r' \<in> set (tasks ex_claimed). t_agent_id r' = t_agent_id (hd (tasks ex_queued))
     \<and> t_owner_epoch (hd (tasks ex_queued)) \<le> t_owner_epoch r'"
proof -
  have step: "store_step ex_queued ex_claimed"
    by (rule op_okE [OF ex_ok(2)]) (unfold ex_claimed_def, rule store_step.claim)
  show ?thesis
    by (rule owner_epoch_monotone [OF ex_reachable(2) r_into_rtranclp [where r = store_step, OF step]
          hd_in_set [OF ex_row(1)]])
qed

definition ex_stop_decision :: ControlDecision where
  "ex_stop_decision = \<lparr>decision_phase = Cancelling, decision_outcome = None, decision_owner_epoch = 1,
     needs_runtime_stop = True, prior_stop_or_close = False\<rparr>"

theorem stop_request_final_witness:
  "\<exists>y. task_life (op_store (request_stop tick ''a1'' ex_running)) ''a1'' = Some y
     \<and> (life_phase y = Cancelling \<or> life_phase y = Terminal \<and> life_outcome y = Some Cancelled)"
proof -
  have run: "request_stop tick ''a1'' ex_running
      = Inr (ex_stop_decision, op_store (request_stop tick ''a1'' ex_running))"
    by code_simp
  have "decision_phase ex_stop_decision \<noteq> Terminal" by (simp add: ex_stop_decision_def)
  from stop_request_final [OF ex_reachable(4) run this rtranclp.rtrancl_refl] show ?thesis .
qed

theorem stale_owner_fenced_witness:
  "transition_terminal tick ''a1'' 0 \<lparr>terminal_outcome = Failed, terminal_failure_code = None,
     terminal_failure_message = None\<rparr> ex_running = Inl (Conflict ''owner epoch changed for a1'')"
proof -
  have r: "\<not> is_terminal_row (hd (tasks ex_running))" "int 0 \<noteq> t_owner_epoch (hd (tasks ex_running))"
    "t_agent_id (hd (tasks ex_running)) = ''a1''"
    by code_simp+
  have "(0 :: nat) < 2 ^ 63" by simp
  from stale_owner_fenced [OF ex_reachable(4) hd_in_set [OF ex_row(3)] r(1,2) this] show ?thesis
    by (simp add: r(3))
qed

theorem claim_next_oldest_witness:
  "\<exists>r \<in> set (tasks ex_queued). claimable ex_queued 1 r
     \<and> find_task ex_claimed = (find_task ex_queued)(t_agent_id r \<mapsto> claimed_row (tick 0) ''owner'' r)"
proof (rule op_okE [OF ex_ok(2)])
  fix v
  assume run: "claim_next tick ''owner'' 0 1 ex_queued = Inr (v, op_store (claim_next tick ''owner'' 0 1 ex_queued))"
  have "claimable ex_queued 1 (hd (tasks ex_queued))" by code_simp
  then have some: "\<exists>x \<in> set (tasks ex_queued). claimable ex_queued 1 x"
    using hd_in_set [OF ex_row(1)] by blast
  from claim_next_oldest [OF ex_reachable(2) run] some show ?thesis
    by (cases v) (auto simp: ex_claimed_def)
qed

theorem fence_blocks_claims_witness:
  "claim_next tick ''owner'' 0 1 (op_store (fence_queued_cancellation ex_queued))
   = Inr (None, op_store (fence_queued_cancellation ex_queued))"
proof -
  have run: "fence_queued_cancellation ex_queued = Inr ((), op_store (fence_queued_cancellation ex_queued))"
    by code_simp
  have "(1 :: nat) < 2 ^ 63" by simp
  from fence_blocks_claims [OF ex_reachable(2) run this] show ?thesis by blast
qed

lemma ex_result_stored:
  "store_task_result_with_reason ex_digest tick ''a1'' ex_result None None ex_running = Inr ((), ex_completed)"
  "result_of ex_running ''a1'' = None"
proof -
  show "store_task_result_with_reason ex_digest tick ''a1'' ex_result None None ex_running = Inr ((), ex_completed)"
    by (rule op_okE [OF ex_ok(5)]) (simp add: ex_completed_def)
  show "result_of ex_running ''a1'' = None" by code_simp
qed

theorem task_result_immutable_witness:
  "store_task_result_with_reason ex_digest tick ''a1'' ex_result (Some ''late'') None ex_completed
   = Inr ((), ex_completed)"
proof -
  have "validate_result ex_result = Inr ()" "ex_digest ex_result = Inr ''done''" by code_simp+
  then show ?thesis
    using task_result_immutable [OF ex_reachable(4) ex_result_stored, of ex_result "''done''" tick "Some ''late''" None]
    by simp
qed

theorem task_result_admission_witness:
  "\<exists>r'. find_task ex_completed ''a1'' = Some r' \<and> t_outcome r' = Some (TaskOutcome_as_str Completed)"
proof -
  have "result_outcome ex_result = Completed" by (simp add: ex_result_def)
  with task_result_admission [OF ex_reachable(4) ex_result_stored] show ?thesis by auto
qed

theorem append_lifecycle_idempotent_witness:
  "append_lifecycle tick (ex_write\<lparr>write_owner_epoch := 0\<rparr>) (op_store (append_lifecycle tick ex_write ex_running))
   = Inr (Inr 1, op_store (append_lifecycle tick ex_write ex_running))"
proof -
  have run: "append_lifecycle tick ex_write ex_running
      = Inr (Inr 1, op_store (append_lifecycle tick ex_write ex_running))"
    by code_simp
  show ?thesis
    by (rule append_lifecycle_idempotent [OF ex_reachable(4) run]) simp_all
qed

theorem claim_next_message_order_witness:
  "\<exists>m s'. claim_next_message ''a1'' ex_messaged = Inr (Some m, s') \<and> message_state m = MsgSending
     \<and> (\<exists>x \<in> set (messages ex_messaged). m_message_id x = message_id m)"
proof -
  have "(case claim_next_message ''a1'' ex_messaged of Inr (Some m, _) \<Rightarrow> True | _ \<Rightarrow> False)" by code_simp
  then obtain m s' where m: "claim_next_message ''a1'' ex_messaged = Inr (Some m, s')"
    by (auto split: sum.splits option.splits)
  from claim_next_message_order [OF ex_reachable(5) m] m show ?thesis by blast
qed

theorem resume_admission_witness:
  "\<exists>r'. find_task (op_store (requeue_task_for_resume_with_message tick ''a1'' ''m2'' ''queue'' ''more'' ex_completed))
     ''a1'' = Some r' \<and> queued_free r' \<and> t_owner_epoch r' = 1"
proof -
  have run: "requeue_task_for_resume_with_message tick ''a1'' ''m2'' ''queue'' ''more'' ex_completed
      = Inr (True, op_store (requeue_task_for_resume_with_message tick ''a1'' ''m2'' ''queue'' ''more'' ex_completed))"
    by code_simp
  have "map_option t_owner_epoch (find_task ex_completed ''a1'') = Some 1" by code_simp
  with resume_admission [OF ex_reachable(6) run] show ?thesis by auto
qed


theorem reserved_ids_increase_witness:
  "\<exists>v v' s2. reserve_task_id empty_store = Inr (v, empty_store\<lparr>next_id := 10000001\<rparr>)
     \<and> reserve_task_id (empty_store\<lparr>next_id := 10000001\<rparr>) = Inr (v', s2) \<and> v \<noteq> v' \<and> length v' = 8"
proof -
  have 1: "reserve_task_id empty_store = Inr (to_decimal (nat 10000000), empty_store\<lparr>next_id := 10000001\<rparr>)"
    by (simp add: reserve_task_id_eval empty_store_def)
  have 2: "reserve_task_id (empty_store\<lparr>next_id := 10000001\<rparr>)
      = Inr (to_decimal (nat 10000001), empty_store\<lparr>next_id := 10000002\<rparr>)"
    by (simp add: reserve_task_id_eval empty_store_def)
  from reserved_ids_increase [OF ex_reachable(1) 1 rtranclp.rtrancl_refl 2] 1 2 show ?thesis by blast
qed

end
