(* ===== verification/Store_Schema.thy ===== *)
theory Store_Schema
  imports Store_Tables "HOL-Library.List_Lexorder" "HOL-Library.Char_ord"
begin

text \<open>
  The schema gate of the store (\<open>initialize_schema\<close> and \<open>schema_is_current\<close> of
  \<open>external-store/src/schema.rs\<close>), over the catalogue of a database: its \<open>user_version\<close>, the names of
  its tables, and the columns of the table \<open>tasks\<close>, which the migrations change. Creating the schema
  in an empty database also gives the initial contents, \<^const>\<open>empty_store\<close>.
\<close>

record catalogue =
  user_version :: int
  table_names :: "string list"
  task_columns :: "string list"

definition SCHEMA_VERSION :: int where
  "SCHEMA_VERSION = 14"

definition schema_tables :: "string list" where
  "schema_tables = [''events'', ''lifecycle_ledger'', ''messages'', ''pending_requests'',
     ''task_id_allocator'', ''task_results'', ''tasks'']"

definition schema_task_columns :: "string list" where
  "schema_task_columns = [''agent_id'', ''repository'', ''phase'', ''outcome'', ''workspace_path'',
     ''runtime_hash'', ''prepared_launch_json'', ''initial_prompt'', ''session_id'', ''turn_state'',
     ''pid'', ''process_group_id'', ''process_uid'', ''process_start_token'', ''runtime_agent_id'',
     ''owner_id'', ''owner_epoch'', ''lease_expires_at'', ''close_requested'', ''stop_requested'',
     ''created_at'', ''started_at'', ''completed_at'', ''last_heartbeat_at'', ''last_event_seq'',
     ''failure_code'', ''failure_message'', ''closed_at'', ''reaped_at'']"

text \<open>\<open>name NOT LIKE 'sqlite_%'\<close>: case does not count and the underscore stands for one character.\<close>

definition user_table :: "string \<Rightarrow> bool" where
  "user_table n \<longleftrightarrow> \<not> (starts_with (to_ascii_lowercase n) ''sqlite'' \<and> 7 \<le> length n)"

definition schema_is_current :: "catalogue \<Rightarrow> bool" where
  "schema_is_current c \<longleftrightarrow> sort (filter user_table (table_names c)) = schema_tables"

definition rename_column :: "string \<Rightarrow> string \<Rightarrow> catalogue \<Rightarrow> StoreError + catalogue" where
  "rename_column old new c =
     (if old \<notin> set (task_columns c) then Inl (Sqlite ''no such column'')
      else if new \<in> set (task_columns c) then Inl (Sqlite ''duplicate column name'')
      else Inr (c\<lparr>task_columns := map (\<lambda>x. if x = old then new else x) (task_columns c)\<rparr>))"

definition drop_column :: "string \<Rightarrow> catalogue \<Rightarrow> StoreError + catalogue" where
  "drop_column col c =
     (if col \<notin> set (task_columns c) then Inl (Sqlite ''no such column'')
      else Inr (c\<lparr>task_columns := filter (\<lambda>x. x \<noteq> col) (task_columns c)\<rparr>))"

definition initialize_schema :: "catalogue \<Rightarrow> StoreError + catalogue" where
  "initialize_schema c =
     (if filter user_table (table_names c) \<noteq> [] then
        (if user_version c \<notin> {12, 13, SCHEMA_VERSION} \<or> \<not> schema_is_current c
         then Inl LegacySchemaUnsupported
         else
           res_bind
             (if user_version c = 12 then rename_column ''zcode_session_id'' ''session_id'' c else Inr c)
             (\<lambda>c1.
                if user_version c \<noteq> SCHEMA_VERSION then
                  res_bind (drop_column ''prepared_launch_sha256'' c1)
                    (\<lambda>c2. Inr (c2\<lparr>user_version := SCHEMA_VERSION\<rparr>))
                else Inr c1))
      else if user_version c \<noteq> 0 then Inl LegacySchemaUnsupported
      else Inr (c\<lparr>user_version := SCHEMA_VERSION, table_names := table_names c @ schema_tables,
                  task_columns := schema_task_columns\<rparr>))"

section \<open>Lemmas\<close>

text \<open>What the historical versions had.\<close>

definition historical_columns :: "int \<Rightarrow> string list \<Rightarrow> bool" where
  "historical_columns v cols \<longleftrightarrow>
     (v = 12 \<longrightarrow> set cols = set schema_task_columns - {''session_id''}
                        \<union> {''zcode_session_id'', ''prepared_launch_sha256''})
     \<and> (v = 13 \<longrightarrow> set cols = set schema_task_columns \<union> {''prepared_launch_sha256''})
     \<and> (v = 14 \<longrightarrow> set cols = set schema_task_columns)"

lemma schema_tables_user: "filter user_table schema_tables = schema_tables" "schema_tables \<noteq> []"
  and schema_tables_sorted: "sort schema_tables = schema_tables"
  by code_simp+

lemma schema_columns:
  "''session_id'' \<in> set schema_task_columns" "''zcode_session_id'' \<notin> set schema_task_columns"
  "''prepared_launch_sha256'' \<notin> set schema_task_columns"
  by code_simp+

lemma renamed_and_dropped:
  assumes "a \<in> C" "z \<notin> C" "p \<notin> C"
  shows "{x \<in> (\<lambda>x. if x = z then a else x) ` (C - {a} \<union> {z, p}). x \<noteq> p} = C"
proof
  show "{x \<in> (\<lambda>x. if x = z then a else x) ` (C - {a} \<union> {z, p}). x \<noteq> p} \<subseteq> C"
    using assms by auto
  show "C \<subseteq> {x \<in> (\<lambda>x. if x = z then a else x) ` (C - {a} \<union> {z, p}). x \<noteq> p}"
  proof
    fix x assume "x \<in> C"
    then have "x \<noteq> p" "x \<noteq> z" using assms by auto
    moreover have "x \<in> (\<lambda>x. if x = z then a else x) ` (C - {a} \<union> {z, p})"
      by (rule image_eqI [of _ _ "if x = a then z else x"]) (use \<open>x \<in> C\<close> \<open>x \<noteq> z\<close> in auto)
    ultimately show "x \<in> {x \<in> (\<lambda>x. if x = z then a else x) ` (C - {a} \<union> {z, p}). x \<noteq> p}"
      by simp
  qed
qed

lemma initialize_schema_tables:
  assumes "initialize_schema c = Inr c'"
  shows "user_version c' = SCHEMA_VERSION \<and> schema_is_current c' \<and> filter user_table (table_names c') \<noteq> []"
proof (cases "filter user_table (table_names c) = []")
  case True
  with assms have "table_names c' = table_names c @ schema_tables" "user_version c' = SCHEMA_VERSION"
    by (auto simp: initialize_schema_def split: if_splits)
  with True show ?thesis
    using schema_tables_user schema_tables_sorted by (simp add: schema_is_current_def)
next
  case False
  with assms have "schema_is_current c" "table_names c' = table_names c" "user_version c' = SCHEMA_VERSION"
    by (auto simp: initialize_schema_def res_bind_Inr_iff rename_column_def drop_column_def
        split: if_splits)
  with False show ?thesis by (simp add: schema_is_current_def)
qed



end
