(* ===== verification/Rust_Path.thy ===== *)
theory Rust_Path
  imports Rust_Prelude
begin

text \<open>
  \<open>std::path\<close> on Unix. A path is its bytes (two spellings of one directory are different values of
  \<open>PathBuf\<close>, and the file system sees the spelling), while \<open>components\<close>, \<open>starts_with\<close>, \<open>strip_prefix\<close>
  and equality work on the parsed components, as in the standard library. The file system itself is
  the record \<open>filesystem\<close>: the answers of \<open>canonicalize\<close>, \<open>symlink_metadata\<close>, \<open>is_dir\<close> and
  \<open>is_file\<close>, on which the policy puts no assumption.
\<close>

type_synonym path = string

datatype component = RootDir | CurDir | ParentDir | Normal string

fun as_os_str :: "component \<Rightarrow> string" where
  "as_os_str RootDir = ''/''"
| "as_os_str CurDir = ''.''"
| "as_os_str ParentDir = ''..''"
| "as_os_str (Normal n) = n"

definition is_absolute :: "path \<Rightarrow> bool" where
  "is_absolute p \<longleftrightarrow> starts_with p ''/''"

text \<open>Empty pieces and inner dots are not components.\<close>

definition skipped :: "string \<Rightarrow> bool" where
  "skipped w \<longleftrightarrow> w = [] \<or> w = ''.''"

definition piece_component :: "string \<Rightarrow> component" where
  "piece_component w = (if w = ''..'' then ParentDir else Normal w)"

definition body_components :: "string list \<Rightarrow> component list" where
  "body_components ws = map piece_component (filter (\<lambda>w. \<not> skipped w) ws)"

definition components :: "path \<Rightarrow> component list" where
  "components p =
     (if is_absolute p then RootDir # body_components (split_on CHR ''/'' (tl p))
      else (case split_on CHR ''/'' p of
              w # ws \<Rightarrow> if w = ''.'' then CurDir # body_components ws else body_components (w # ws)
            | [] \<Rightarrow> []))"

text \<open>\<open>Path::join\<close> and \<open>PathBuf::push\<close>: an absolute argument replaces the base.\<close>

definition path_join :: "path \<Rightarrow> path \<Rightarrow> path" where
  "path_join b p =
     (if is_absolute p then p
      else if b = [] \<or> last b = CHR ''/'' then b @ p else b @ CHR ''/'' # p)"

definition path_starts_with :: "path \<Rightarrow> path \<Rightarrow> bool" where
  "path_starts_with p b \<longleftrightarrow>
     take (length (components b)) (components p) = components b"

text \<open>The remainder of \<open>strip_prefix\<close>, as components.\<close>

definition path_strip_prefix :: "path \<Rightarrow> path \<Rightarrow> component list option" where
  "path_strip_prefix p b =
     (if path_starts_with p b then Some (drop (length (components b)) (components p)) else None)"

text \<open>\<open>PathBuf: FromIterator<Component>\<close>.\<close>

definition path_of_components :: "component list \<Rightarrow> path" where
  "path_of_components cs = foldl path_join [] (map as_os_str cs)"

definition path_eq :: "path \<Rightarrow> path \<Rightarrow> bool" where
  "path_eq p q \<longleftrightarrow> components p = components q"

definition has_parent_dir :: "path \<Rightarrow> bool" where
  "has_parent_dir p \<longleftrightarrow> ParentDir \<in> set (components p)"

definition file_name :: "path \<Rightarrow> string option" where
  "file_name p =
     (case rev (components p) of Normal n # _ \<Rightarrow> Some n | _ \<Rightarrow> None)"

text \<open>
  \<open>Path::parent\<close>: trailing separators and dots go, then the last component with its separator, then
  what trailing separators and dots are left. A leading dot of a relative path is a component.
\<close>

definition trim_pieces :: "string list \<Rightarrow> string list" where
  "trim_pieces ws = rev (dropWhile skipped (rev ws))"

definition path_parent :: "path \<Rightarrow> path option" where
  "path_parent p =
     (let sep = ''/'' in
      if is_absolute p then
        (let ws = trim_pieces (split_on CHR ''/'' (tl p)) in
         if ws = [] then None
         else Some (CHR ''/'' # join_with sep (trim_pieces (butlast ws))))
      else
        (case split_on CHR ''/'' p of
           w # ws \<Rightarrow>
             if w = ''.'' then
               (let vs = trim_pieces ws in
                if vs = [] then Some []
                else Some (join_with sep (w # trim_pieces (butlast vs))))
             else
               (let vs = trim_pieces (w # ws) in
                if vs = [] then None
                else Some (join_with sep (trim_pieces (butlast vs))))
         | [] \<Rightarrow> None))"

section \<open>The file system\<close>

datatype io_error = NotFound | AlreadyExists | OtherIo

record filesystem =
  canonicalize :: "path \<Rightarrow> io_error + path"
  symlink_metadata :: "path \<Rightarrow> io_error + unit"
  is_dir :: "path \<Rightarrow> bool"
  is_file :: "path \<Rightarrow> bool"

section \<open>Lemmas\<close>

lemma is_absolute_Cons [simp]: "is_absolute (c # p) \<longleftrightarrow> c = CHR ''/''"
  by (simp add: is_absolute_def)

lemma not_is_absolute_Nil [simp]: "\<not> is_absolute []"
  by (simp add: is_absolute_def)

lemma is_absolute_append: "is_absolute b \<Longrightarrow> is_absolute (b @ p)"
  by (cases b) auto

lemma is_absolute_RootDir: "is_absolute p \<longleftrightarrow> RootDir \<in> set (components p)"
  by (auto simp: components_def body_components_def piece_component_def split: list.splits if_splits)

lemma body_components_append [simp]:
  "body_components (a @ b) = body_components a @ body_components b"
  by (simp add: body_components_def)

lemma body_components_Nil [simp]: "body_components [] = []"
  by (simp add: body_components_def)

lemma body_components_skip [simp]: "skipped w \<Longrightarrow> body_components (w # ws) = body_components ws"
  by (simp add: body_components_def)

lemma skipped_simps [simp]: "skipped []" "skipped ''.''"
  by (simp_all add: skipped_def)

lemma body_components_no_marker [simp]:
  "RootDir \<notin> set (body_components ws)" "CurDir \<notin> set (body_components ws)"
  by (auto simp: body_components_def piece_component_def split: if_splits)

lemma filter_body_components [simp]:
  "filter (\<lambda>c. c \<noteq> CurDir) (body_components ws) = body_components ws"
  by (rule filter_True) (metis body_components_no_marker(2))

lemma components_relative:
  assumes "\<not> is_absolute p"
  shows "filter (\<lambda>c. c \<noteq> CurDir) (components p) = body_components (split_on CHR ''/'' p)"
  using assms by (cases "split_on CHR ''/'' p") (auto simp: components_def)

lemma path_starts_with_prefix: "path_starts_with p b \<longleftrightarrow> prefix (components b) (components p)"
  by (metis append_eq_conv_conj append_take_drop_id path_starts_with_def prefix_def)

lemma path_starts_with_refl [simp]: "path_starts_with p p"
  by (simp add: path_starts_with_def)

lemma path_starts_with_trans:
  "path_starts_with p q \<Longrightarrow> path_starts_with q r \<Longrightarrow> path_starts_with p r"
  by (auto simp: path_starts_with_prefix intro: prefix_order.trans)

lemma path_strip_prefix_Some:
  "path_strip_prefix p b = Some cs \<longleftrightarrow> components p = components b @ cs"
  by (auto simp: path_strip_prefix_def path_starts_with_prefix elim: prefixE)

text \<open>Appending a relative path to a base appends its components (a leading dot is dropped).\<close>

lemma components_append_sep:
  assumes "b \<noteq> []"
  shows "components (b @ CHR ''/'' # p) = components b @ body_components (split_on CHR ''/'' p)"
proof (cases "is_absolute b")
  case True
  then obtain r where b: "b = CHR ''/'' # r" by (cases b) auto
  then show ?thesis by (simp add: components_def split_on_append)
next
  case False
  with assms have "\<not> is_absolute (b @ CHR ''/'' # p)" by (cases b) auto
  with False show ?thesis
    using body_components_append [of "split_on CHR ''/'' b" "split_on CHR ''/'' p"]
    by (cases "split_on CHR ''/'' b") (auto simp: components_def split_on_append)
qed

lemma components_trailing_sep:
  assumes "b \<noteq> []"
  shows "components (b @ ''/'') = components b"
  using components_append_sep [OF assms, of "[]"] by simp

lemma components_join:
  assumes "b \<noteq> []" and "\<not> is_absolute p"
  shows "components (path_join b p) = components b @ filter (\<lambda>c. c \<noteq> CurDir) (components p)"
proof (cases "last b = CHR ''/''")
  case False
  with assms show ?thesis
    by (simp add: path_join_def components_append_sep components_relative)
next
  case True
  define c where "c = butlast b"
  have b: "b = c @ ''/''"
    unfolding c_def using assms(1) True by (metis append_butlast_last_id)
  have "components (path_join b p) = components (c @ CHR ''/'' # p)"
    using assms True by (simp add: path_join_def b)
  also have "\<dots> = components b @ body_components (split_on CHR ''/'' p)"
  proof (cases "c = []")
    case True
    then show ?thesis by (simp add: b components_def)
  next
    case False
    then show ?thesis by (simp add: b components_append_sep components_trailing_sep)
  qed
  finally show ?thesis using assms(2) by (simp add: components_relative)
qed

lemma path_join_starts_with:
  assumes "b \<noteq> []" and "\<not> is_absolute p"
  shows "path_starts_with (path_join b p) b"
  using components_join [OF assms] by (simp add: path_starts_with_def)

lemma path_join_absolute: "is_absolute b \<Longrightarrow> is_absolute (path_join b p)"
  by (cases b) (auto simp: path_join_def)

lemma path_join_absolute_eq [simp]: "is_absolute p \<Longrightarrow> path_join b p = p"
  by (simp add: path_join_def)

lemma components_Nil [simp]: "components [] = []"
  by (simp add: components_def)

subsection \<open>A parent is shorter\<close>

lemma join_with_Cons:
  "join_with sep (w # ws) = w @ concat (map (\<lambda>x. sep @ x) ws)"
  by (simp add: join_with_def)

lemma join_with_Nil [simp]: "join_with sep [] = []"
  by (simp add: join_with_def)

lemma join_split_on [simp]: "join_with [d] (split_on d s) = s"
proof (induction s)
  case Nil
  show ?case by (simp add: join_with_Cons)
next
  case (Cons c s)
  then show ?case by (cases "split_on d s") (auto simp: join_with_Cons)
qed

lemma length_join_append: "length (join_with sep us) \<le> length (join_with sep (us @ vs))"
  by (cases us) (simp_all add: join_with_Cons)

lemma length_join_snoc:
  "w \<noteq> [] \<Longrightarrow> length (join_with sep us) < length (join_with sep (us @ w # vs))"
  by (cases us) (simp_all add: join_with_Cons)

lemma trim_pieces_split: "\<exists>vs. ws = trim_pieces ws @ vs \<and> list_all skipped vs"
proof -
  have "ws = rev (takeWhile skipped (rev ws) @ dropWhile skipped (rev ws))"
    by simp
  then have "ws = trim_pieces ws @ rev (takeWhile skipped (rev ws))"
    by (simp only: trim_pieces_def rev_append)
  moreover have "list_all skipped (rev (takeWhile skipped (rev ws)))"
    by (auto simp: list_all_iff dest: set_takeWhileD)
  ultimately show ?thesis by blast
qed

lemma trim_pieces_last: "trim_pieces ws \<noteq> [] \<Longrightarrow> \<not> skipped (last (trim_pieces ws))"
  by (simp add: trim_pieces_def last_rev hd_dropWhile)

lemma length_join_trim: "length (join_with sep (trim_pieces ws)) \<le> length (join_with sep ws)"
  using trim_pieces_split [of ws] length_join_append by metis

lemma length_join_parent:
  assumes "trim_pieces ws \<noteq> []"
  shows "length (join_with sep (pre @ trim_pieces (butlast (trim_pieces ws))))
         < length (join_with sep (pre @ ws))"
proof -
  define w where "w = last (trim_pieces ws)"
  define us where "us = butlast (trim_pieces ws)"
  obtain vs where "ws = trim_pieces ws @ vs" using trim_pieces_split by blast
  then have ws: "ws = us @ w # vs"
    unfolding w_def us_def using assms by (metis append.assoc append_Cons append_Nil append_butlast_last_id)
  have "w \<noteq> []"
    using trim_pieces_last [OF assms] by (auto simp: w_def)
  then have "length (join_with sep (pre @ us)) < length (join_with sep (pre @ ws))"
    using length_join_snoc [of w sep "pre @ us" vs] by (simp add: ws)
  moreover have "length (join_with sep (pre @ trim_pieces us)) \<le> length (join_with sep (pre @ us))"
    using trim_pieces_split [of us] length_join_append [of sep "pre @ trim_pieces us"] by (metis append.assoc)
  ultimately show ?thesis by (simp add: us_def)
qed

lemma path_parent_shorter:
  assumes "path_parent p = Some q"
  shows "length q < length p"
proof (cases "is_absolute p")
  case True
  then obtain r where p: "p = CHR ''/'' # r" by (cases p) auto
  with assms show ?thesis
    using length_join_parent [of "split_on CHR ''/'' r" "''/''" "[]"]
    by (auto simp: path_parent_def Let_def split: if_splits)
next
  case False
  obtain w ws where s: "split_on CHR ''/'' p = w # ws"
    by (cases "split_on CHR ''/'' p") auto
  then have p: "p = join_with ''/'' (w # ws)"
    by (metis join_split_on)
  show ?thesis
    using assms False s length_join_parent [of ws "''/''" "[w]"] length_join_parent [of "w # ws" "''/''" "[]"]
    by (auto simp: path_parent_def Let_def p join_with_Cons split: if_splits)
qed

subsection \<open>Paths and their components\<close>

text \<open>A component that a piece of a path can be.\<close>

definition body_component :: "component \<Rightarrow> bool" where
  "body_component c \<longleftrightarrow> (\<exists>w. c = piece_component w \<and> \<not> skipped w \<and> CHR ''/'' \<notin> set w)"

lemma body_components_body:
  "\<forall>w \<in> set ws. CHR ''/'' \<notin> set w \<Longrightarrow> list_all body_component (body_components ws)"
  by (auto simp: body_components_def body_component_def list_all_iff)

lemma body_component_single:
  assumes "body_component c"
  shows "components (as_os_str c) = [c] \<and> \<not> is_absolute (as_os_str c) \<and> as_os_str c \<noteq> []"
proof -
  from assms obtain w where w: "c = piece_component w" "\<not> skipped w" "CHR ''/'' \<notin> set w"
    by (auto simp: body_component_def)
  then have "as_os_str c = w" by (simp add: piece_component_def)
  moreover have "\<not> is_absolute w" using w(3) by (cases w) auto
  ultimately show ?thesis
    using w by (auto simp: components_def split_on_id body_components_def skipped_def)
qed

lemma components_foldl_join:
  assumes "list_all body_component cs" and "b \<noteq> []"
  shows "components (foldl path_join b (map as_os_str cs)) = components b @ cs"
  using assms
proof (induction cs arbitrary: b)
  case (Cons c cs)
  then have c: "body_component c" and CurDir: "c \<noteq> CurDir"
    by (auto simp: body_component_def piece_component_def split: if_splits)
  note single = body_component_single [OF c]
  then have "path_join b (as_os_str c) \<noteq> []" by (simp add: path_join_def)
  with Cons single CurDir show ?case by (simp add: components_join)
qed simp

lemma components_shape:
  obtains "components p = []" | c cs where "components p = c # cs" "list_all body_component cs"
    "c = RootDir \<or> c = CurDir \<or> body_component c"
proof -
  have no_sep: "list_all body_component (body_components ws)" if "set ws \<subseteq> set (split_on CHR ''/'' q)" for ws q
    using that split_on_no_delimiter by (intro body_components_body) blast
  show thesis
  proof (cases "is_absolute p")
    case True
    then show thesis
      using that(2) [OF _ no_sep [of "split_on CHR ''/'' (tl p)" "tl p"]] by (simp add: components_def)
  next
    case False
    obtain w ws where s: "split_on CHR ''/'' p = w # ws" by (cases "split_on CHR ''/'' p") auto
    have ws: "list_all body_component (body_components ws)"
      and all: "list_all body_component (body_components (w # ws))"
      using no_sep [of ws p] no_sep [of "w # ws" p] s by auto
    show thesis
    proof (cases "w = ''.''")
      case True
      with False s show thesis using that(2) [OF _ ws] by (simp add: components_def)
    next
      case w: False
      show thesis
      proof (cases "body_components (w # ws)")
        case Nil
        with False s w show thesis using that(1) by (simp add: components_def)
      next
        case (Cons c cs)
        with False s w all show thesis using that(2) [of c cs] by (simp add: components_def)
      qed
    qed
  qed
qed

text \<open>Collecting the components of a path gives a path with these components.\<close>

lemma components_path_of_components [simp]: "components (path_of_components (components p)) = components p"
proof (rule components_shape [of p])
  fix c cs
  assume p: "components p = c # cs" "list_all body_component cs"
    and c: "c = RootDir \<or> c = CurDir \<or> body_component c"
  have single: "components (as_os_str c) = [c]" "as_os_str c \<noteq> []" "path_join [] (as_os_str c) = as_os_str c"
    using c body_component_single [of c]
    by (auto simp: components_def body_components_def skipped_def path_join_def)
  show ?thesis
    using components_foldl_join [OF p(2) single(2)] single by (simp add: p path_of_components_def)
qed (simp add: path_of_components_def)

lemma is_absolute_path_eq: "components p = components q \<Longrightarrow> is_absolute p \<longleftrightarrow> is_absolute q"
  by (simp add: is_absolute_RootDir)

subsection \<open>The parent of a joined name\<close>

definition normalized :: "path \<Rightarrow> bool" where
  "normalized p \<longleftrightarrow> is_absolute p \<and> (p = ''/'' \<or> \<not> skipped (last (split_on CHR ''/'' (tl p))))"

lemma trim_pieces_snoc: "\<not> skipped w \<Longrightarrow> trim_pieces (ws @ [w]) = ws @ [w]"
  by (simp add: trim_pieces_def)

lemma trim_pieces_id: "ws \<noteq> [] \<Longrightarrow> \<not> skipped (last ws) \<Longrightarrow> trim_pieces ws = ws"
  using trim_pieces_snoc [of "last ws" "butlast ws"] by simp

lemma last_split_on_Nil: "s \<noteq> [] \<Longrightarrow> last s = d \<Longrightarrow> last (split_on d s) = []"
  using split_on_append [of d "butlast s" "[]"] append_butlast_last_id [of s] by simp

lemma path_parent_join:
  assumes "normalized b" and n: "\<not> skipped n" "CHR ''/'' \<notin> set n"
  shows "path_parent (path_join b n) = Some b"
proof -
  from assms obtain r where b: "b = CHR ''/'' # r" by (cases b) (auto simp: normalized_def)
  have rel: "\<not> is_absolute n" using n by (cases n) auto
  show ?thesis
  proof (cases "r = []")
    case True
    with b rel n show ?thesis
      by (simp add: path_join_def path_parent_def split_on_id trim_pieces_def Let_def)
  next
    case False
    with b assms(1) have last: "\<not> skipped (last (split_on CHR ''/'' r))" by (simp add: normalized_def)
    have "last b \<noteq> CHR ''/''"
      using last_split_on_Nil [of r "CHR ''/''"] last b False by (auto simp: skipped_def)
    then have join: "path_join b n = CHR ''/'' # (r @ CHR ''/'' # n)"
      using rel b by (simp add: path_join_def)
    have "split_on CHR ''/'' (r @ CHR ''/'' # n) = split_on CHR ''/'' r @ [n]"
      using n by (simp add: split_on_append split_on_id)
    then show ?thesis
      unfolding join using last n b by (simp add: path_parent_def trim_pieces_snoc trim_pieces_id Let_def)
  qed
qed

end
