(* ===== verification/Json_Value.thy ===== *)
theory Json_Value
  imports Rust_Prelude
begin

text \<open>
  The JSON data model the sources read through \<open>serde_json::Value\<close>: the six kinds of value, an object
  as its members in order, and the accessors (\<open>get\<close>, \<open>as_str\<close>, \<open>as_array\<close>, \<open>as_object\<close>,
  \<open>contains_key\<close>). Parsing text into a value is not part of the model.
\<close>

datatype json_number = PosInt nat | NegInt int | Float string

datatype json =
    JNull
  | JBool bool
  | JNumber json_number
  | JString string
  | JArray "json list"
  | JObject "(string \<times> json) list"

type_synonym json_object = "(string \<times> json) list"

fun json_get :: "json \<Rightarrow> string \<Rightarrow> json option" where
  "json_get (JObject ms) k = map_of ms k"
| "json_get _ _ = None"

fun as_str :: "json \<Rightarrow> string option" where
  "as_str (JString s) = Some s"
| "as_str _ = None"

fun as_array :: "json \<Rightarrow> json list option" where
  "as_array (JArray xs) = Some xs"
| "as_array _ = None"

fun as_object :: "json \<Rightarrow> json_object option" where
  "as_object (JObject ms) = Some ms"
| "as_object _ = None"

fun json_is_null :: "json \<Rightarrow> bool" where
  "json_is_null JNull = True"
| "json_is_null _ = False"

definition contains_key :: "json_object \<Rightarrow> string \<Rightarrow> bool" where
  "contains_key ms k \<longleftrightarrow> map_of ms k \<noteq> None"

text \<open>\<open>get(k).and_then(Value::as_str)\<close>, the shape of nearly every read of the sources.\<close>

definition get_str :: "json \<Rightarrow> string \<Rightarrow> string option" where
  "get_str v k = Option.bind (json_get v k) as_str"

lemma as_str_Some [simp]: "as_str v = Some s \<longleftrightarrow> v = JString s"
  by (cases v) auto

lemma as_array_Some [simp]: "as_array v = Some xs \<longleftrightarrow> v = JArray xs"
  by (cases v) auto

lemma as_object_Some [simp]: "as_object v = Some ms \<longleftrightarrow> v = JObject ms"
  by (cases v) auto

lemma get_str_Some: "get_str v k = Some s \<longleftrightarrow> json_get v k = Some (JString s)"
  by (auto simp: get_str_def bind_eq_Some_conv)

end
