(* ===== verification/Policy_Paths.thy ===== *)
theory Policy_Paths
  imports Rust_Path Json_Value
begin

text \<open>
  The path predicates of the permission policy (\<open>external-core/src/policy/paths.rs\<close>), the request and
  decision types and the file-path accessor of \<open>policy/requests.rs\<close>, and the error type of
  \<open>external-core/src/lib.rs\<close>.
\<close>

section \<open>Errors\<close>

datatype PreparationError =
    InvalidManifest string
  | InvalidPath path string
  | PathEscape path path
  | SymlinkInput path
  | MissingInput path
  | ForbiddenInput path
  | CredentialInput path
  | PolicyError string
  | IoError io_error
  | JsonError string

fun PreparationError_code :: "PreparationError \<Rightarrow> string" where
  "PreparationError_code (InvalidManifest _) = ''INVALID_MANIFEST''"
| "PreparationError_code (InvalidPath _ _) = ''INVALID_PATH''"
| "PreparationError_code (PathEscape _ _) = ''PATH_ESCAPE''"
| "PreparationError_code (SymlinkInput _) = ''SYMLINK_INPUT''"
| "PreparationError_code (MissingInput _) = ''MISSING_INPUT''"
| "PreparationError_code (ForbiddenInput _) = ''FORBIDDEN_INPUT''"
| "PreparationError_code (CredentialInput _) = ''CREDENTIAL_INPUT''"
| "PreparationError_code (PolicyError _) = ''POLICY_DENIED''"
| "PreparationError_code (IoError _) = ''IO_ERROR''"
| "PreparationError_code (JsonError _) = ''JSON_ERROR''"

section \<open>Requests and decisions\<close>

datatype ExternalDecision = Allow | Deny

datatype PermissionRequest =
    Read path
  | Write path
  | Edit path
  | Delete path
  | Move path path
  | Execute path "string list" path
  | Network string
  | GitRefMutation
  | CredentialRead path

record PermissionDecision =
  allowed :: bool
  reason :: string

abbreviation denied :: "string \<Rightarrow> PermissionDecision" where
  "denied r \<equiv> \<lparr>allowed = False, reason = r\<rparr>"

abbreviation permitted :: "string \<Rightarrow> PermissionDecision" where
  "permitted r \<equiv> \<lparr>allowed = True, reason = r\<rparr>"

text \<open>Both spellings of the field may be present, but then they have to agree.\<close>

definition zcode_file_path :: "json \<Rightarrow> string option" where
  "zcode_file_path input =
     (case (json_get input ''file_path'', json_get input ''path'') of
        (Some fp, None) \<Rightarrow> as_str fp
      | (None, Some p) \<Rightarrow> as_str p
      | (Some fp, Some p) \<Rightarrow>
          (case (as_str fp, as_str p) of
             (Some a, Some b) \<Rightarrow> if a = b then Some a else None
           | _ \<Rightarrow> None)
      | (None, None) \<Rightarrow> None)"

section \<open>Path predicates\<close>

definition lexical_confined_path :: "path \<Rightarrow> path \<Rightarrow> PreparationError + path" where
  "lexical_confined_path root v =
     (if is_absolute v \<or> has_parent_dir v
      then Inl (InvalidPath v ''path must be repository-relative and confined'')
      else Inr (path_join root v))"

definition protected_component :: "component \<Rightarrow> bool" where
  "protected_component c \<longleftrightarrow>
     as_os_str c = ''.git'' \<or> as_os_str c = ''.agent-work'' \<or> as_os_str c = ''.gitmodules''"

definition protected_worktree_path :: "path \<Rightarrow> path \<Rightarrow> bool" where
  "protected_worktree_path worktree target =
     (case path_strip_prefix target worktree of
        None \<Rightarrow> False
      | Some relative \<Rightarrow> list_ex protected_component relative)"

definition credential_names :: "string list" where
  "credential_names =
     [''.ssh'', ''.git'', ''.env'', ''.env.local'', ''.env.production'', ''.aws'', ''.gnupg'',
      ''.netrc'', ''.npmrc'', ''credentials'', ''credentials.json'', ''auth.json'', ''id_rsa'',
      ''id_ed25519'', ''known_hosts'', ''authorized_keys'']"

definition credential_value :: "string \<Rightarrow> bool" where
  "credential_value v \<longleftrightarrow>
     v \<in> set credential_names
     \<or> contains v ''access_token'' \<or> contains v ''api_key'' \<or> contains v ''secret_key''
     \<or> ends_with v ''.pem'' \<or> ends_with v ''.key'' \<or> ends_with v ''.p12''
     \<or> ends_with v ''.pfx'' \<or> ends_with v ''.jks'' \<or> ends_with v ''.kdbx''"

definition is_credential_path :: "path \<Rightarrow> bool" where
  "is_credential_path p \<longleftrightarrow>
     list_ex (\<lambda>c. credential_value (to_ascii_lowercase (as_os_str c))) (components p)"

definition is_agent_metadata_path :: "path \<Rightarrow> bool" where
  "is_agent_metadata_path p \<longleftrightarrow>
     ''.agent-work''
       \<in> set (split_on CHR ''/'' (to_ascii_lowercase (replace_char CHR 0x5C CHR ''/'' p)))"

section \<open>Lemmas\<close>

lemma lexical_confined_path_Inr:
  "lexical_confined_path root v = Inr p
   \<longleftrightarrow> \<not> is_absolute v \<and> \<not> has_parent_dir v \<and> p = path_join root v"
  by (auto simp: lexical_confined_path_def)

lemma zcode_file_path_Some:
  "zcode_file_path input = Some p \<Longrightarrow>
     json_get input ''file_path'' \<in> {None, Some (JString p)}
     \<and> json_get input ''path'' \<in> {None, Some (JString p)}
     \<and> (json_get input ''file_path'' = Some (JString p) \<or> json_get input ''path'' = Some (JString p))"
  by (auto simp: zcode_file_path_def split: option.splits if_splits)

text \<open>Whatever is a credential path stays one below any directory, and under ASCII case changes.\<close>

lemma is_credential_path_extend:
  "path_starts_with p b \<Longrightarrow> is_credential_path b \<Longrightarrow> is_credential_path p"
  by (auto simp: is_credential_path_def path_starts_with_prefix list_ex_iff elim!: prefixE)

lemma protected_worktree_path_iff:
  "protected_worktree_path w t
   \<longleftrightarrow> (\<exists>cs. components t = components w @ cs \<and> (\<exists>c \<in> set cs. protected_component c))"
  by (auto simp: protected_worktree_path_def path_strip_prefix_Some list_ex_iff split: option.splits)
    (metis option.distinct(1) path_strip_prefix_Some)

text \<open>Everything below a protected directory is protected.\<close>

lemma protected_worktree_path_extend:
  assumes "path_starts_with p q" and "protected_worktree_path w q"
  shows "protected_worktree_path w p"
  using assms by (fastforce simp: protected_worktree_path_iff path_starts_with_prefix elim!: prefixE)

end
