(* ===== verification/Policy_Commands.thy ===== *)
theory Policy_Commands
  imports Policy_Paths
begin

text \<open>
  The command grammars of the read-only agent shell (\<open>external-core/src/policy/commands.rs\<close>): the
  tokenizer, the allowlisted programs, the git, sed and find validators, and the functions that say
  which arguments of a command are paths. Loops over an index are recursions on the rest of the
  argument vector; \<open>args.get(index + 1)\<close> is the head of that rest.
\<close>

section \<open>Programs and numbers\<close>

definition AGENT_BASH_COMMAND_FAMILIES :: "string list" where
  "AGENT_BASH_COMMAND_FAMILIES =
     [''pwd'', ''ls'', ''stat'', ''wc'', ''head'', ''tail'', ''cat'', ''grep'', ''rg'', ''sed'',
      ''find'', ''git'', ''shasum'', ''cksum'']"

definition agent_bash_program_allowed :: "string \<Rightarrow> bool" where
  "agent_bash_program_allowed program \<longleftrightarrow> program \<in> set AGENT_BASH_COMMAND_FAMILIES"

definition valid_positive_integer :: "string \<Rightarrow> bool" where
  "valid_positive_integer v = (case parse_unsigned u32_max v of None \<Rightarrow> False | Some n \<Rightarrow> 0 < n)"

definition valid_nonnegative_integer :: "string \<Rightarrow> bool" where
  "valid_nonnegative_integer v = (parse_unsigned u16_max v \<noteq> None)"

section \<open>git\<close>

fun git_branch_loop :: "bool \<Rightarrow> string list \<Rightarrow> bool" where
  "git_branch_loop list_mode [] = True"
| "git_branch_loop list_mode (arg # rest) =
     (if arg = ''--list'' then git_branch_loop True rest
      else if arg \<in> {''--all'', ''--remotes'', ''--verbose'', ''-a'', ''-r'', ''-v'', ''-vv''}
      then git_branch_loop list_mode rest
      else if starts_with arg ''-'' then False
      else if list_mode then git_branch_loop list_mode rest
      else False)"

definition valid_agent_git_branch :: "string list \<Rightarrow> bool" where
  "valid_agent_git_branch args =
     (if args = [] \<or> args = [''--show-current''] then True else git_branch_loop False args)"

definition unsafe_agent_git_object_path :: "string \<Rightarrow> bool" where
  "unsafe_agent_git_object_path arg =
     (case split_once CHR '':'' arg of
        None \<Rightarrow> False
      | Some (_, object_path) \<Rightarrow>
          object_path = [] \<or> is_absolute object_path \<or> has_parent_dir object_path
          \<or> is_credential_path object_path \<or> is_agent_metadata_path object_path)"

definition safe_agent_git_operand :: "string \<Rightarrow> bool" where
  "safe_agent_git_operand arg \<longleftrightarrow>
     arg \<noteq> [] \<and> \<not> starts_with arg ''/'' \<and> \<not> starts_with arg ''~''
     \<and> \<not> list_ex (\<lambda>w. w = [] \<or> w = ''..'') (split_on CHR ''/'' arg)
     \<and> \<not> is_credential_path arg \<and> \<not> is_agent_metadata_path arg
     \<and> \<not> unsafe_agent_git_object_path arg"

definition git_status_option :: "string \<Rightarrow> bool" where
  "git_status_option arg \<longleftrightarrow>
     arg \<in> {''--short'', ''-s'', ''--branch'', ''-b'', ''--porcelain'', ''--long'',
            ''--no-ahead-behind'', ''--show-stash'', ''--no-renames''}
     \<or> strip_prefix arg ''--porcelain='' \<in> {Some ''v1'', Some ''v2''}
     \<or> strip_prefix arg ''--untracked-files='' \<in> {Some ''no'', Some ''normal'', Some ''all''}"

definition valid_agent_git_status :: "string list \<Rightarrow> bool" where
  "valid_agent_git_status args =
     list_all (\<lambda>arg. if starts_with arg ''-'' then git_status_option arg else False) args"

text \<open>The options of \<open>diff\<close>, \<open>show\<close> and \<open>log\<close> that run a program, write a file or read stdin.\<close>

definition git_denied_option :: "string \<Rightarrow> bool" where
  "git_denied_option arg \<longleftrightarrow>
     arg \<in> {''--output'', ''--ext-diff'', ''--textconv'', ''--no-index'', ''--show-signature'',
            ''--exec'', ''--stdin''}
     \<or> starts_with arg ''--output='' \<or> starts_with arg ''--exec=''
     \<or> starts_with arg ''--ext-diff='' \<or> starts_with arg ''--textconv=''
     \<or> starts_with arg ''--no-index=''"

definition git_diff_booleans :: "string list" where
  "git_diff_booleans =
     [''--cached'', ''--staged'', ''--stat'', ''--shortstat'', ''--numstat'', ''--name-only'',
      ''--name-status'', ''--check'', ''--binary'', ''--full-index'', ''--no-color'', ''--minimal'',
      ''--patience'', ''--histogram'', ''--ignore-space-change'', ''--ignore-all-space'',
      ''--ignore-blank-lines'', ''--exit-code'', ''--quiet'', ''--find-renames'', ''--find-copies'',
      ''--relative'', ''--merge-base'', ''--no-renames'', ''--word-diff'', ''-p'', ''-s'']"

definition git_log_booleans :: "string list" where
  "git_log_booleans =
     [''--oneline'', ''--graph'', ''--all'', ''--branches'', ''--tags'', ''--remotes'',
      ''--reverse'', ''--topo-order'', ''--date-order'', ''--author-date-order'',
      ''--first-parent'', ''--merges'', ''--no-merges'', ''--name-only'', ''--name-status'',
      ''--stat'', ''--shortstat'', ''--numstat'', ''--patch'', ''--no-patch'', ''--decorate'',
      ''--no-decorate'', ''--full-history'', ''--simplify-merges'', ''--dense'', ''--sparse'',
      ''--boundary'', ''--left-right'', ''--cherry-pick'', ''--cherry-mark'', ''--ancestry-path'',
      ''--bisect'', ''-p'']"

definition git_show_booleans :: "string list" where
  "git_show_booleans =
     [''--stat'', ''--name-only'', ''--name-status'', ''--no-color'', ''--no-patch'', ''-s'',
      ''--oneline'', ''--decorate'', ''--no-decorate'']"

definition git_allowed_boolean :: "string \<Rightarrow> string \<Rightarrow> bool" where
  "git_allowed_boolean subcommand arg =
     (if subcommand = ''diff'' then arg \<in> set git_diff_booleans
      else if subcommand = ''log'' then arg \<in> set git_log_booleans
      else if subcommand = ''show'' then arg \<in> set git_show_booleans
      else False)"

definition git_value_option :: "string \<Rightarrow> string \<Rightarrow> bool" where
  "git_value_option subcommand name =
     (if subcommand = ''diff'' then
        name \<in> {''--unified'', ''--diff-filter'', ''--submodule'', ''--word-diff'',
                ''--word-diff-regex'', ''--find-renames'', ''--find-copies'', ''--color'',
                ''--src-prefix'', ''--dst-prefix'', ''--line-prefix'', ''--inter-hunk-context''}
      else if subcommand = ''log'' then
        name \<in> {''--max-count'', ''--skip'', ''--since'', ''--until'', ''--after'', ''--before'',
                ''--author'', ''--committer'', ''--grep'', ''--pretty'', ''--format'', ''--date'',
                ''--decorate'', ''--diff-filter'', ''--unified'', ''--color''}
      else if subcommand = ''show'' then name \<in> {''--format'', ''--pretty'', ''--color''}
      else False)"

definition git_bad_number :: "string \<Rightarrow> string \<Rightarrow> bool" where
  "git_bad_number name v \<longleftrightarrow>
     name \<in> {''--max-count'', ''--skip''} \<and> \<not> valid_positive_integer v
     \<or> name \<in> {''--unified'', ''--inter-hunk-context''} \<and> \<not> valid_nonnegative_integer v"

definition option_name :: "string \<Rightarrow> string" where
  "option_name arg = (case split_once CHR ''='' arg of None \<Rightarrow> arg | Some (n, _) \<Rightarrow> n)"

definition option_inline :: "string \<Rightarrow> string option" where
  "option_inline arg = map_option snd (split_once CHR ''='' arg)"

fun git_diff_like_loop :: "string \<Rightarrow> bool \<Rightarrow> string list \<Rightarrow> bool" where
  "git_diff_like_loop subcommand paths_mode [] = True"
| "git_diff_like_loop subcommand paths_mode (arg # rest) =
     (if arg = ''--'' then git_diff_like_loop subcommand True rest
      else if paths_mode then
        (if \<not> safe_agent_git_operand arg then False
         else git_diff_like_loop subcommand paths_mode rest)
      else if git_denied_option arg then False
      else if starts_with arg ''-'' then
        (if git_allowed_boolean subcommand arg then git_diff_like_loop subcommand paths_mode rest
         else if subcommand = ''log'' \<and> (arg = ''-n'' \<or> starts_with arg ''-n'') then
           (if drop 2 arg \<noteq> [] then
              (if \<not> valid_positive_integer (drop 2 arg) then False
               else git_diff_like_loop subcommand paths_mode rest)
            else
              (case rest of
                 [] \<Rightarrow> False
               | v # rest' \<Rightarrow>
                   if \<not> valid_positive_integer v then False
                   else git_diff_like_loop subcommand paths_mode rest'))
         else if \<not> git_value_option subcommand (option_name arg) then False
         else
           (case option_inline arg of
              Some v \<Rightarrow>
                if v = [] then False
                else if git_bad_number (option_name arg) v then False
                else git_diff_like_loop subcommand paths_mode rest
            | None \<Rightarrow>
                (case rest of
                   [] \<Rightarrow> False
                 | v # rest' \<Rightarrow>
                     if starts_with v ''-'' \<or> v = [] then False
                     else if git_bad_number (option_name arg) v then False
                     else git_diff_like_loop subcommand paths_mode rest')))
      else if \<not> safe_agent_git_operand arg then False
      else git_diff_like_loop subcommand paths_mode rest)"

definition valid_agent_git_diff_like :: "string \<Rightarrow> string list \<Rightarrow> bool" where
  "valid_agent_git_diff_like subcommand args = git_diff_like_loop subcommand False args"

definition git_rev_parse_option :: "string \<Rightarrow> bool" where
  "git_rev_parse_option arg \<longleftrightarrow>
     arg \<in> {''--verify'', ''--quiet'', ''-q'', ''--show-toplevel'', ''--show-prefix'',
            ''--is-inside-work-tree'', ''--is-bare-repository'', ''--is-shallow-repository'',
            ''--show-object-format''}
     \<or> (case strip_prefix arg ''--short='' of
           None \<Rightarrow> False | Some v \<Rightarrow> list_all is_ascii_digit v)
     \<or> arg = ''--short''"

definition valid_agent_git_rev_parse :: "string list \<Rightarrow> bool" where
  "valid_agent_git_rev_parse args =
     (if args = [] then False
      else list_all (\<lambda>arg. if starts_with arg ''-'' then git_rev_parse_option arg
                           else safe_agent_git_operand arg) args)"

definition valid_agent_git_cat_file :: "string list \<Rightarrow> bool" where
  "valid_agent_git_cat_file args =
     (case args of
        [opt, operand] \<Rightarrow> opt \<in> {''-e'', ''-p'', ''-t'', ''-s''} \<and> safe_agent_git_operand operand
      | _ \<Rightarrow> False)"

definition git_ls_files_options :: "string list" where
  "git_ls_files_options =
     [''--cached'', ''--deleted'', ''--modified'', ''--others'', ''--ignored'', ''--stage'',
      ''--unmerged'', ''--killed'', ''--directory'', ''--empty-directory'', ''--full-name'',
      ''--error-unmatch'', ''--deduplicate'', ''-c'', ''-d'', ''-m'', ''-o'', ''-i'', ''-u'',
      ''-s'', ''-t'', ''-k'']"

fun git_ls_files_loop :: "bool \<Rightarrow> string list \<Rightarrow> bool" where
  "git_ls_files_loop paths_mode [] = True"
| "git_ls_files_loop paths_mode (arg # rest) =
     (if arg = ''--'' then git_ls_files_loop True rest
      else if paths_mode then
        (if \<not> safe_agent_git_operand arg then False else git_ls_files_loop paths_mode rest)
      else if arg \<in> set git_ls_files_options then git_ls_files_loop paths_mode rest
      else False)"

definition valid_agent_git_ls_files :: "string list \<Rightarrow> bool" where
  "valid_agent_git_ls_files args = git_ls_files_loop False args"

definition valid_agent_git :: "string list \<Rightarrow> bool" where
  "valid_agent_git args =
     (case (if args \<noteq> [] \<and> hd args = ''--no-pager'' then drop 1 args else args) of
        [] \<Rightarrow> False
      | subcommand # sub_args \<Rightarrow>
          if subcommand = ''status'' then valid_agent_git_status sub_args
          else if subcommand \<in> {''diff'', ''show'', ''log''}
          then valid_agent_git_diff_like subcommand sub_args
          else if subcommand = ''rev-parse'' then valid_agent_git_rev_parse sub_args
          else if subcommand = ''cat-file'' then valid_agent_git_cat_file sub_args
          else if subcommand = ''ls-files'' then valid_agent_git_ls_files sub_args
          else if subcommand = ''branch'' then valid_agent_git_branch sub_args
          else False)"

end
