(* ===== verification/Policy_Operands.thy ===== *)
theory Policy_Operands
  imports Policy_Commands
begin

text \<open>
  The second half of \<open>external-core/src/policy/commands.rs\<close>: which arguments of an allowlisted command
  are paths (\<open>agent_bash_path_operands\<close> and the grammars it dispatches to), the sed form, and the
  tokenizer.
\<close>

section \<open>Option tables with path operands\<close>

fun simple_operands_loop ::
    "string list \<Rightarrow> string list \<Rightarrow> bool \<Rightarrow> string list \<Rightarrow> string list option" where
  "simple_operands_loop bools vals options_ended [] = Some []"
| "simple_operands_loop bools vals options_ended (arg # rest) =
     (if arg = ''-'' then None
      else if \<not> options_ended \<and> arg = ''--'' then simple_operands_loop bools vals True rest
      else if \<not> options_ended
              \<and> (arg \<in> set bools \<or> list_ex (\<lambda>option. starts_with arg (option @ ''='')) vals)
      then simple_operands_loop bools vals options_ended rest
      else if \<not> options_ended \<and> arg \<in> set vals then
        (case rest of
           [] \<Rightarrow> None
         | _ # rest' \<Rightarrow> simple_operands_loop bools vals options_ended rest')
      else if \<not> options_ended \<and> starts_with arg ''-'' then None
      else map_option ((#) arg) (simple_operands_loop bools vals options_ended rest))"

definition simple_path_operands ::
    "string list \<Rightarrow> string list \<Rightarrow> string list \<Rightarrow> string list option" where
  "simple_path_operands args bools vals = simple_operands_loop bools vals False args"

definition required_path_operands ::
    "string list \<Rightarrow> string list \<Rightarrow> string list \<Rightarrow> string list option" where
  "required_path_operands args bools vals =
     (case simple_path_operands args bools vals of
        None \<Rightarrow> None
      | Some paths \<Rightarrow> if paths \<noteq> [] then Some paths else None)"

section \<open>head and tail\<close>

definition head_tail_count_option :: "string \<Rightarrow> bool" where
  "head_tail_count_option arg \<longleftrightarrow>
     (case strip_prefix arg ''-'' of
        None \<Rightarrow> False | Some v \<Rightarrow> v \<noteq> [] \<and> list_all is_ascii_digit v)
     \<or> list_ex (\<lambda>option. starts_with arg (option @ ''='')) [''-n'', ''--lines'', ''-c'', ''--bytes'']"

definition head_tail_switches :: "string list" where
  "head_tail_switches = [''-q'', ''-v'', ''--quiet'', ''--silent'', ''--verbose'']"

definition tail_follow_options :: "string list" where
  "tail_follow_options = [''-f'', ''-F'', ''--follow'', ''--retry'']"

definition head_tail_valued :: "string list" where
  "head_tail_valued = [''-n'', ''--lines'', ''-c'', ''--bytes'']"

fun head_tail_loop :: "string \<Rightarrow> bool \<Rightarrow> string list \<Rightarrow> string list option" where
  "head_tail_loop program options_ended [] = Some []"
| "head_tail_loop program options_ended (arg # rest) =
     (if \<not> options_ended \<and> arg = ''--'' then head_tail_loop program True rest
      else if \<not> options_ended \<and> arg \<in> set head_tail_switches
      then head_tail_loop program options_ended rest
      else if \<not> options_ended \<and> program = ''tail''
              \<and> arg \<in> set tail_follow_options then None
      else if \<not> options_ended \<and> head_tail_count_option arg
      then head_tail_loop program options_ended rest
      else if \<not> options_ended \<and> arg \<in> set head_tail_valued then
        (case rest of [] \<Rightarrow> None | _ # rest' \<Rightarrow> head_tail_loop program options_ended rest')
      else if \<not> options_ended \<and> starts_with arg ''-'' then None
      else map_option ((#) arg) (head_tail_loop program options_ended rest))"

definition head_tail_path_operands :: "string \<Rightarrow> string list \<Rightarrow> string list option" where
  "head_tail_path_operands program args =
     (case head_tail_loop program False args of
        None \<Rightarrow> None
      | Some paths \<Rightarrow> if paths \<noteq> [] then Some paths else None)"

section \<open>grep and rg\<close>

definition grep_boolean_short :: "bool \<Rightarrow> string" where
  "grep_boolean_short ripgrep = (if ripgrep then ''nHhIiSsFUlcvqwo'' else ''HhIiLnqsvEFPowx'')"

definition grep_value_short :: "bool \<Rightarrow> string" where
  "grep_value_short ripgrep = (if ripgrep then ''egtmABC'' else ''efmABC'')"

definition grep_boolean_long :: "bool \<Rightarrow> string list" where
  "grep_boolean_long ripgrep =
     (if ripgrep then
        [''--line-number'', ''--with-filename'', ''--no-filename'', ''--ignore-case'',
         ''--case-sensitive'', ''--smart-case'', ''--fixed-strings'', ''--files'',
         ''--files-with-matches'', ''--files-without-match'', ''--count'', ''--count-matches'',
         ''--only-matching'', ''--word-regexp'', ''--line-regexp'', ''--json'', ''--stats'',
         ''--heading'', ''--no-heading'', ''--column'', ''--pcre2'', ''--color=never'']
      else
        [''--with-filename'', ''--no-filename'', ''--ignore-case'', ''--no-messages'',
         ''--invert-match'', ''--line-number'', ''--files-with-matches'',
         ''--files-without-match'', ''--count'', ''--only-matching'', ''--word-regexp'',
         ''--line-regexp'', ''--fixed-strings'', ''--extended-regexp'', ''--perl-regexp'',
         ''--binary-files=without-match'', ''--binary-files=text'', ''--color=never''])"

definition grep_value_long :: "bool \<Rightarrow> string list" where
  "grep_value_long ripgrep =
     (if ripgrep then
        [''--regexp'', ''--glob'', ''--type'', ''--type-not'', ''--max-count'',
         ''--after-context'', ''--before-context'', ''--context'', ''--file'', ''--ignore-file'',
         ''--encoding'', ''--sort'', ''--sortr'']
      else
        [''--regexp'', ''--file'', ''--max-count'', ''--after-context'', ''--before-context'',
         ''--context'', ''--include'', ''--exclude'', ''--exclude-dir'', ''--exclude-from'',
         ''--directories'', ''--devices''])"

definition rg_denied_options :: "string list" where
  "rg_denied_options = [''--pre'', ''--pre-glob'', ''--hostname-bin'', ''--search-zip'', ''--follow'']"

record grep_state =
  grep_paths :: "string list"
  pattern_specified :: bool
  files_mode :: bool
  options_ended :: bool

abbreviation push_path :: "string \<Rightarrow> grep_state \<Rightarrow> grep_state" where
  "push_path p st \<equiv> st\<lparr>grep_paths := grep_paths st @ [p]\<rparr>"

text \<open>What one value-taking long option does with its value.\<close>

definition grep_long_value :: "string \<Rightarrow> string \<Rightarrow> grep_state \<Rightarrow> grep_state" where
  "grep_long_value option v st =
     (let st' = (if option \<in> {''--regexp'', ''--file''} then st\<lparr>pattern_specified := True\<rparr> else st)
      in if option \<in> {''--file'', ''--ignore-file'', ''--exclude-from''} then push_path v st' else st')"

definition grep_short_value :: "string \<Rightarrow> string \<Rightarrow> grep_state \<Rightarrow> grep_state" where
  "grep_short_value cluster v st =
     (let st' = (if cluster = ''e'' \<or> cluster = ''f'' then st\<lparr>pattern_specified := True\<rparr> else st)
      in if cluster = ''f'' then push_path v st' else st')"

fun grep_loop :: "bool \<Rightarrow> grep_state \<Rightarrow> string list \<Rightarrow> grep_state option" where
  "grep_loop ripgrep st [] = Some st"
| "grep_loop ripgrep st (arg # rest) =
     (if \<not> options_ended st \<and> arg = ''--'' then grep_loop ripgrep (st\<lparr>options_ended := True\<rparr>) rest
      else if \<not> options_ended st \<and> ripgrep
              \<and> list_ex (\<lambda>option. arg = option \<or> starts_with arg (option @ ''='')) rg_denied_options
      then None
      else if \<not> options_ended st \<and> starts_with arg ''--'' then
        (if arg \<in> set (grep_boolean_long ripgrep)
         then grep_loop ripgrep (st\<lparr>files_mode := files_mode st \<or> arg = ''--files''\<rparr>) rest
         else if option_name arg \<notin> set (grep_value_long ripgrep) then None
         else
           (case option_inline arg of
              Some v \<Rightarrow> grep_loop ripgrep (grep_long_value (option_name arg) v st) rest
            | None \<Rightarrow>
                (case rest of
                   [] \<Rightarrow> None
                 | v # rest' \<Rightarrow> grep_loop ripgrep (grep_long_value (option_name arg) v st) rest')))
      else if \<not> options_ended st \<and> arg = ''-'' then grep_loop ripgrep (push_path arg st) rest
      else if \<not> options_ended st \<and> starts_with arg ''-'' then
        (let cluster = drop 1 arg in
         if length cluster = 1 \<and> contains (grep_value_short ripgrep) cluster then
           (case rest of
              [] \<Rightarrow> None
            | v # rest' \<Rightarrow> grep_loop ripgrep (grep_short_value cluster v st) rest')
         else if \<not> list_all (\<lambda>flag. flag \<in> set (grep_boolean_short ripgrep)) cluster then None
         else grep_loop ripgrep st rest)
      else if files_mode st \<or> pattern_specified st then grep_loop ripgrep (push_path arg st) rest
      else grep_loop ripgrep (st\<lparr>pattern_specified := True\<rparr>) rest)"

definition grep_like_path_operands :: "string list \<Rightarrow> bool \<Rightarrow> string list option" where
  "grep_like_path_operands args ripgrep =
     (case grep_loop ripgrep
             \<lparr>grep_paths = [], pattern_specified = False, files_mode = False, options_ended = False\<rparr>
             args of
        None \<Rightarrow> None
      | Some st \<Rightarrow>
          if (\<not> files_mode st \<and> \<not> pattern_specified st) \<or> (\<not> ripgrep \<and> grep_paths st = [])
          then None else Some (grep_paths st))"

section \<open>git, find and sed\<close>

definition git_path_operands :: "string list \<Rightarrow> string list option" where
  "git_path_operands args =
     (let command_index = (if ''--no-pager'' \<in> set args then 1 else 0) in
      if command_index < length args then
        (let operands = drop (command_index + 1) args in
         if ''--'' \<in> set operands
         then Some (tl (dropWhile (\<lambda>arg. arg \<noteq> ''--'') operands))
         else Some [])
      else None)"

definition find_actions :: "string list" where
  "find_actions =
     [''-L'', ''-H'', ''-delete'', ''-exec'', ''-execdir'', ''-ok'', ''-okdir'', ''-prune'', ''-ls'',
      ''-print'', ''-print0'', ''-fprint'', ''-fprint0'', ''-fprintf'', ''-fls'', ''-printf'', ''-writable'']"

definition find_types :: string where
  "find_types = ''fdlpsbc''"

definition find_value_tests :: "string list" where
  "find_value_tests =
     [''-name'', ''-iname'', ''-path'', ''-ipath'', ''-size'', ''-mtime'', ''-mmin'']"

fun find_loop :: "string list \<Rightarrow> string list \<Rightarrow> string list option" where
  "find_loop paths [] = Some paths"
| "find_loop paths (arg # rest) =
     (if arg \<in> set find_actions then None
      else if arg = ''-maxdepth'' \<or> arg = ''-mindepth'' then
        (case rest of
           [] \<Rightarrow> None
         | v # rest' \<Rightarrow>
             (case parse_unsigned u8_max v of
                None \<Rightarrow> None
              | Some n \<Rightarrow> if 50 < n then None else find_loop paths rest'))
      else if arg = ''-type'' then
        (case rest of
           [] \<Rightarrow> None
         | v # rest' \<Rightarrow>
             if length v \<noteq> 1 \<or> hd v \<notin> set find_types then None else find_loop paths rest')
      else if arg \<in> set find_value_tests then
        (case rest of
           [] \<Rightarrow> None
         | v # rest' \<Rightarrow> if v = [] \<or> starts_with v ''-'' then None else find_loop paths rest')
      else if arg = ''-newer'' then
        (case rest of
           [] \<Rightarrow> None
         | v # rest' \<Rightarrow> if v = [] then None else find_loop (paths @ [v]) rest')
      else if arg = ''-empty'' \<or> arg = ''-readable'' \<or> arg = ''-quit'' then find_loop paths rest
      else None)"

definition valid_agent_find :: "string list \<Rightarrow> string list option" where
  "valid_agent_find args =
     (let paths = takeWhile (\<lambda>arg. \<not> starts_with arg ''-'') args in
      if paths = [] then None
      else find_loop paths (dropWhile (\<lambda>arg. \<not> starts_with arg ''-'') args))"

definition sed_valid_number :: "string \<Rightarrow> bool" where
  "sed_valid_number v \<longleftrightarrow>
     v \<noteq> [] \<and> list_all is_ascii_digit v
     \<and> (case parse_unsigned u64_max v of None \<Rightarrow> False | Some n \<Rightarrow> n \<le> 10000)"

definition valid_agent_sed :: "string list \<Rightarrow> bool" where
  "valid_agent_sed args =
     (case args of
        flag # script # files \<Rightarrow>
          if files = [] \<or> flag \<noteq> ''-n'' then False
          else
            (case split_on CHR '','' (case strip_suffix script ''p'' of None \<Rightarrow> '''' | Some r \<Rightarrow> r) of
               first # others \<Rightarrow>
                 length others \<le> 1 \<and> sed_valid_number first \<and> list_all sed_valid_number others
                 \<and> list_all (\<lambda>arg. \<not> starts_with arg ''-'') files
             | [] \<Rightarrow> False)
      | _ \<Rightarrow> False)"

section \<open>The dispatcher\<close>

definition ls_switches :: "string list" where
  "ls_switches =
     [''-a'', ''-A'', ''-l'', ''-d'', ''-h'', ''-n'', ''-i'', ''-1'', ''-G'', ''--all'',
      ''--almost-all'', ''--directory'', ''--human-readable'', ''--inode'',
      ''--numeric-uid-gid'', ''--color=never'', ''--group-directories-first'']"

definition ls_valued :: "string list" where
  "ls_valued = [''--time-style'']"

definition stat_switches :: "string list" where
  "stat_switches = [''-L'', ''-x'', ''--dereference'', ''--file-system'', ''--terse'']"

definition stat_valued :: "string list" where
  "stat_valued = [''-f'', ''-c'', ''--format'', ''--printf'']"

definition wc_switches :: "string list" where
  "wc_switches =
     [''-c'', ''-l'', ''-m'', ''-w'', ''-L'', ''--bytes'', ''--chars'', ''--lines'',
      ''--max-line-length'', ''--words'']"

definition cat_switches :: "string list" where
  "cat_switches =
     [''-A'', ''-b'', ''-E'', ''-n'', ''-s'', ''-t'', ''-T'', ''-u'', ''-v'', ''--number'',
      ''--number-nonblank'', ''--show-all'', ''--show-ends'', ''--show-tabs'', ''--squeeze-blank'']"

definition sum_switches :: "string list" where
  "sum_switches = [''-b'', ''-p'', ''-t'', ''-U'', ''-0'', ''--tag'', ''-l'']"

definition sum_valued :: "string list" where
  "sum_valued = [''-a'', ''--algorithm'', ''--length'']"

definition agent_bash_path_operands :: "string \<Rightarrow> string list \<Rightarrow> string list option" where
  "agent_bash_path_operands program args =
     (if program = ''pwd'' then
        (if list_all (\<lambda>arg. arg = ''-L'' \<or> arg = ''-P'') args then Some [] else None)
      else if program = ''ls'' then simple_path_operands args ls_switches ls_valued
      else if program = ''stat'' then simple_path_operands args stat_switches stat_valued
      else if program = ''wc'' then required_path_operands args wc_switches []
      else if program = ''head'' \<or> program = ''tail'' then head_tail_path_operands program args
      else if program = ''cat'' then required_path_operands args cat_switches []
      else if program = ''grep'' then grep_like_path_operands args False
      else if program = ''rg'' then grep_like_path_operands args True
      else if program = ''sed'' then (if valid_agent_sed args then Some (drop 2 args) else None)
      else if program = ''find'' then valid_agent_find args
      else if program = ''git'' then git_path_operands args
      else if program = ''shasum'' \<or> program = ''cksum''
      then required_path_operands args sum_switches sum_valued
      else None)"

section \<open>The tokenizer\<close>

definition shell_metacharacters :: "string" where
  "shell_metacharacters = '';&|><$`(){}*?[]#!'' @ [CHR 0x5C]"

definition is_quote :: "string \<Rightarrow> bool" where
  "is_quote ch \<longleftrightarrow> ch = [CHR 0x27] \<or> ch = [CHR 0x22]"

definition is_metacharacter :: "string \<Rightarrow> bool" where
  "is_metacharacter ch \<longleftrightarrow> (\<exists>c \<in> set shell_metacharacters. ch = [c])"

fun tokenize_loop ::
    "string list \<Rightarrow> string option \<Rightarrow> string \<Rightarrow> string list \<Rightarrow> string list option" where
  "tokenize_loop [] quote current result =
     (if quote \<noteq> None then None
      else
        (let result' = (if current \<noteq> [] then result @ [current] else result) in
         if 128 < length result' then None
         else if result' \<noteq> [] then Some result' else None))"
| "tokenize_loop (character # rest) (Some delimiter) current result =
     (if character = delimiter then tokenize_loop rest None current result
      else tokenize_loop rest (Some delimiter) (current @ character) result)"
| "tokenize_loop (character # rest) None current result =
     (if is_quote character then tokenize_loop rest (Some character) current result
      else if is_whitespace character then
        (if current \<noteq> [] then tokenize_loop rest None [] (result @ [current])
         else tokenize_loop rest None current result)
      else if is_metacharacter character then None
      else tokenize_loop rest None (current @ character) result)"

definition tokenize_agent_bash :: "string \<Rightarrow> string list option" where
  "tokenize_agent_bash command =
     (if command = [] \<or> 16 * 1024 < length command
         \<or> list_ex (\<lambda>c. c = CHR 0x0A \<or> c = CHR 0x0D) command
      then None
      else tokenize_loop (chars command) None [] [])"

end
