(* ===== verification/Policy_Grammar.thy ===== *)
theory Policy_Grammar
  imports Policy_Operands
begin

text \<open>
  What the command grammars of the policy guarantee: a reference reading of the tokenizer (the words a
  shell would form, and the characters outside quotes), a declarative grammar that the option-table
  loop decides, and the options the git and find validators exclude.
\<close>

section \<open>Reference definitions\<close>

text \<open>No metacharacter outside quotes.\<close>

fun unquoted_clean :: "string list \<Rightarrow> string option \<Rightarrow> bool" where
  "unquoted_clean [] quote = True"
| "unquoted_clean (ch # rest) (Some d) =
     (if ch = d then unquoted_clean rest None else unquoted_clean rest (Some d))"
| "unquoted_clean (ch # rest) None =
     (if is_quote ch then unquoted_clean rest (Some ch)
      else \<not> is_metacharacter ch \<and> unquoted_clean rest None)"

text \<open>
  The words a POSIX shell forms from a line without expansions: quotes are removed, unquoted blanks
  separate, and a quoted empty string is a word. \<open>None\<close> is an unterminated quote.
\<close>

definition open_word :: "string option \<Rightarrow> string" where
  "open_word w = (case w of None \<Rightarrow> [] | Some v \<Rightarrow> v)"

fun words_loop ::
    "string list \<Rightarrow> string option \<Rightarrow> string option \<Rightarrow> string list \<Rightarrow> string list option" where
  "words_loop [] quote word acc =
     (if quote \<noteq> None then None
      else Some (case word of None \<Rightarrow> acc | Some w \<Rightarrow> acc @ [w]))"
| "words_loop (ch # rest) (Some d) word acc =
     (if ch = d then words_loop rest None word acc
      else words_loop rest (Some d) (Some (open_word word @ ch)) acc)"
| "words_loop (ch # rest) None word acc =
     (if is_quote ch then words_loop rest (Some ch) (Some (open_word word)) acc
      else if is_whitespace ch then
        (case word of
           None \<Rightarrow> words_loop rest None None acc
         | Some w \<Rightarrow> words_loop rest None None (acc @ [w]))
      else words_loop rest None (Some (open_word word @ ch)) acc)"

definition shell_words :: "string \<Rightarrow> string list option" where
  "shell_words command = words_loop (chars command) None None []"

text \<open>The command lines an option table admits, and their path operands.\<close>

inductive option_grammar :: "string list \<Rightarrow> string list \<Rightarrow> string list \<Rightarrow> string list \<Rightarrow> bool"
  for bools vals where
  nil: "option_grammar bools vals [] []"
| switch: "option_grammar bools vals rest ps \<Longrightarrow> arg \<in> set bools
    \<Longrightarrow> option_grammar bools vals (arg # rest) ps"
| inline: "option_grammar bools vals rest ps \<Longrightarrow> opt \<in> set vals
    \<Longrightarrow> option_grammar bools vals ((opt @ CHR ''='' # v) # rest) ps"
| valued: "option_grammar bools vals rest ps \<Longrightarrow> opt \<in> set vals
    \<Longrightarrow> option_grammar bools vals (opt # v # rest) ps"
| operand: "option_grammar bools vals rest ps \<Longrightarrow> \<not> starts_with arg ''-''
    \<Longrightarrow> option_grammar bools vals (arg # rest) (arg # ps)"
| separator: "list_all (\<lambda>p. p \<noteq> ''-'') ps \<Longrightarrow> option_grammar bools vals (''--'' # ps) ps"

text \<open>A well-formed table: every entry is an option, none is both a switch and a valued option.\<close>

definition option_table :: "string list \<Rightarrow> string list \<Rightarrow> bool" where
  "option_table bools vals \<longleftrightarrow>
     list_all (\<lambda>a. starts_with a ''-'' \<and> a \<noteq> ''-'' \<and> a \<noteq> ''--'') (bools @ vals)
     \<and> list_all (\<lambda>a. a \<notin> set bools \<and> \<not> list_ex (\<lambda>b. starts_with a (b @ ''='')) vals) vals"

section \<open>The tokenizer\<close>

lemma whitespace_not_metacharacter: "is_whitespace ch \<Longrightarrow> \<not> is_metacharacter ch"
  by (auto simp: is_metacharacter_def shell_metacharacters_def nat_of_char_def)

lemma tokenize_loop_words:
  "tokenize_loop cs quote (open_word word) (filter (\<lambda>w. w \<noteq> []) acc) =
     (if unquoted_clean cs quote then
        (case words_loop cs quote word acc of
           None \<Rightarrow> None
         | Some ws \<Rightarrow>
             (let ts = filter (\<lambda>w. w \<noteq> []) ws in
              if 128 < length ts \<or> ts = [] then None else Some ts))
      else None)"
proof (induction cs quote word acc rule: words_loop.induct)
  case (1 quote word acc)
  then show ?case by (auto simp: open_word_def Let_def split: option.splits)
next
  case (2 ch rest d word acc)
  then show ?case by (simp add: open_word_def)
next
  case (3 ch rest word acc)
  show ?case
  proof (cases "is_quote ch")
    case True
    with 3 show ?thesis by (simp add: open_word_def)
  next
    case False
    show ?thesis
    proof (cases "is_whitespace ch")
      case True
      with False 3 show ?thesis
        by (cases word) (auto simp: open_word_def whitespace_not_metacharacter)
    next
      case nws: False
      with False 3 show ?thesis by (simp add: open_word_def)
    qed
  qed
qed

lemma tokenize_loop_start:
  "tokenize_loop cs None [] [] =
     (if unquoted_clean cs None then
        (case words_loop cs None None [] of
           None \<Rightarrow> None
         | Some ws \<Rightarrow>
             (let ts = filter (\<lambda>w. w \<noteq> []) ws in
              if 128 < length ts \<or> ts = [] then None else Some ts))
      else None)"
  using tokenize_loop_words [of cs None None "[]"] by (simp add: open_word_def)

text \<open>
  The tokenizer accepts a command exactly when it is non-empty, at most 16 KiB, on one line, free
  of shell metacharacters outside quotes, with balanced quotes and between 1 and 128 non-empty words;
  and then the tokens are the words a shell would form, with the empty ones left out.
\<close>

theorem tokenize_agent_bash_iff:
  "tokenize_agent_bash command = Some ts \<longleftrightarrow>
     command \<noteq> [] \<and> length command \<le> 16384
     \<and> CHR 0x0A \<notin> set command \<and> CHR 0x0D \<notin> set command
     \<and> unquoted_clean (chars command) None
     \<and> (\<exists>ws. shell_words command = Some ws \<and> ts = filter (\<lambda>w. w \<noteq> []) ws)
     \<and> 1 \<le> length ts \<and> length ts \<le> 128"
proof -
  have "tokenize_loop (chars command) None [] [] = Some ts \<longleftrightarrow>
      unquoted_clean (chars command) None
      \<and> (\<exists>ws. shell_words command = Some ws \<and> ts = filter (\<lambda>w. w \<noteq> []) ws)
      \<and> 1 \<le> length ts \<and> length ts \<le> 128"
    by (auto simp: tokenize_loop_start shell_words_def Let_def Suc_le_eq split: option.splits)
  then show ?thesis
    by (auto simp: tokenize_agent_bash_def list_ex_iff)
qed

text \<open>Tokens made of one quoted or unquoted stretch come back as they were.\<close>

definition plain_char :: "char \<Rightarrow> bool" where
  "plain_char c \<longleftrightarrow>
     nat_of_char c < 128 \<and> \<not> is_quote [c] \<and> \<not> is_whitespace [c] \<and> \<not> is_metacharacter [c]"

lemma words_loop_plain:
  "list_all plain_char t \<Longrightarrow>
   words_loop (map (\<lambda>c. [c]) t @ rest) None word acc
   = words_loop rest None (if t = [] then word else Some (open_word word @ t)) acc"
  by (induction t arbitrary: word) (auto simp: plain_char_def open_word_def)

lemma unquoted_clean_plain:
  "list_all plain_char t \<Longrightarrow> unquoted_clean (map (\<lambda>c. [c]) t @ rest) None = unquoted_clean rest None"
  by (induction t) (auto simp: plain_char_def)

lemma words_loop_joined:
  assumes "list_all (\<lambda>t. t \<noteq> [] \<and> list_all plain_char t) ts"
  shows "words_loop (map (\<lambda>c. [c]) (concat (map ((#) CHR '' '') ts))) None (Some w) acc
         = Some (acc @ w # ts)"
  using assms
proof (induction ts arbitrary: w acc)
  case Nil
  show ?case by simp
next
  case (Cons t ts)
  have sp: "\<not> is_quote '' ''" "is_whitespace '' ''"
    by (simp_all add: is_quote_def nat_of_char_def)
  from Cons sp show ?case by (simp add: words_loop_plain open_word_def nat_of_char_def)
qed

lemma unquoted_clean_joined:
  assumes "list_all (\<lambda>t. t \<noteq> [] \<and> list_all plain_char t) ts"
  shows "unquoted_clean (map (\<lambda>c. [c]) (concat (map ((#) CHR '' '') ts))) None"
proof -
  have sp: "\<not> is_quote '' ''" "\<not> is_metacharacter '' ''"
    by (simp_all add: is_quote_def is_metacharacter_def shell_metacharacters_def)
  from assms show ?thesis
    by (induction ts) (simp_all add: sp unquoted_clean_plain)
qed

text \<open>
  Joining one to 128 plain words (non-empty ASCII words without quotes, blanks or metacharacters)
  with spaces and tokenizing the line gives the words back.
\<close>

theorem tokenize_join_roundtrip:
  assumes "list_all (\<lambda>t. t \<noteq> [] \<and> list_all plain_char t) ts"
    and "ts \<noteq> []" and "length ts \<le> 128"
    and "length (join_with '' '' ts) \<le> 16384"
  shows "tokenize_agent_bash (join_with '' '' ts) = Some ts"
proof -
  obtain t us where ts: "ts = t # us" using assms(2) by (cases ts) auto
  define line where "line = join_with '' '' ts"
  have ln: "line = t @ concat (map ((#) CHR '' '') us)"
  proof -
    have "(@) '' '' = (#) CHR '' ''" by auto
    then show ?thesis by (simp add: line_def ts join_with_def)
  qed
  have t: "t \<noteq> []" "list_all plain_char t"
    and us: "list_all (\<lambda>t. t \<noteq> [] \<and> list_all plain_char t) us"
    using assms(1) by (simp_all add: ts)
  have in_word: "c = CHR '' '' \<or> plain_char c" if "c \<in> set line" for c
    using that t us by (auto simp: ln list_all_iff split: if_splits)
  have "nat_of_char c < 128" if "c \<in> set line" for c
    using in_word [OF that] by (auto simp: plain_char_def nat_of_char_def)
  then have "chars line = map (\<lambda>c. [c]) line"
    by (intro chars_ascii) (simp add: is_ascii_def list_all_iff)
  then have ch: "chars line = map (\<lambda>c. [c]) t @ map (\<lambda>c. [c]) (concat (map ((#) CHR '' '') us))"
    by (simp add: ln)
  have "\<not> plain_char CHR 0x0A" "\<not> plain_char CHR 0x0D"
    by (simp_all add: plain_char_def nat_of_char_def)
  then have nl: "CHR 0x0A \<notin> set line" "CHR 0x0D \<notin> set line"
    using in_word by auto
  have "shell_words line = Some ts"
    using t us by (simp add: shell_words_def ch words_loop_plain words_loop_joined open_word_def ts)
  moreover have "unquoted_clean (chars line) None"
    using t us by (simp add: ch unquoted_clean_plain unquoted_clean_joined)
  moreover have "filter (\<lambda>w. w \<noteq> []) ts = ts"
    using assms(1) by (auto simp: list_all_iff intro: filter_True)
  ultimately show ?thesis
    using assms(2-4) nl t(1)
    by (simp add: tokenize_agent_bash_iff ln Suc_le_eq flip: line_def)
qed

text \<open>Three plain words, joined and read back.\<close>

theorem tokenize_join_roundtrip_witness:
  "tokenize_agent_bash (join_with '' '' [''cat'', ''-n'', ''a/b.rs'']) = Some [''cat'', ''-n'', ''a/b.rs'']"
proof (rule tokenize_join_roundtrip)
  show "list_all (\<lambda>t. t \<noteq> [] \<and> list_all plain_char t) [''cat'', ''-n'', ''a/b.rs'']"
    by (simp add: plain_char_def is_quote_def is_metacharacter_def shell_metacharacters_def nat_of_char_def)
qed (simp_all add: join_with_def)

section \<open>Option tables\<close>

lemma option_table_bool:
  "option_table bools vals \<Longrightarrow> arg \<in> set bools \<Longrightarrow> starts_with arg ''-'' \<and> arg \<noteq> ''-'' \<and> arg \<noteq> ''--''"
  by (auto simp: option_table_def list_all_iff)

lemma option_table_val:
  "option_table bools vals \<Longrightarrow> arg \<in> set vals \<Longrightarrow>
     starts_with arg ''-'' \<and> arg \<noteq> ''-'' \<and> arg \<noteq> ''--'' \<and> arg \<notin> set bools
     \<and> \<not> list_ex (\<lambda>b. starts_with arg (b @ ''='')) vals"
  by (auto simp: option_table_def list_all_iff)

lemma simple_operands_ended:
  "simple_operands_loop bools vals True args = (if list_all (\<lambda>p. p \<noteq> ''-'') args then Some args else None)"
  by (induction args) auto

lemma simple_operands_grammar:
  assumes "option_table bools vals"
  shows "simple_operands_loop bools vals False args = Some ps \<Longrightarrow> option_grammar bools vals args ps"
proof (induction args arbitrary: ps rule: length_induct)
  case (1 args)
  show ?case
  proof (cases args)
    case Nil
    with 1 show ?thesis by (auto intro: option_grammar.nil)
  next
    case (Cons arg rest)
    have IH: "option_grammar bools vals xs qs"
      if "simple_operands_loop bools vals False xs = Some qs" "length xs < length args" for xs qs
      using 1(1) that by blast
    have inline: "\<exists>opt v. arg = opt @ CHR ''='' # v \<and> opt \<in> set vals"
      if ex: "list_ex (\<lambda>option. starts_with arg (option @ ''='')) vals"
    proof -
      obtain opt where "opt \<in> set vals" and "starts_with arg (opt @ ''='')"
        using ex unfolding list_ex_iff by blast
      then obtain v where "arg = (opt @ ''='') @ v"
        unfolding starts_with_iff_prefix by (auto elim: prefixE)
      with \<open>opt \<in> set vals\<close> show ?thesis by auto
    qed
    have r: "option_grammar bools vals rest qs"
      if "simple_operands_loop bools vals False rest = Some qs" for qs
      using IH Cons that by simp
    have r': "option_grammar bools vals xs qs"
      if "rest = x # xs" "simple_operands_loop bools vals False xs = Some qs" for x xs qs
      using IH Cons that by simp
    from 1(2) show ?thesis
      unfolding Cons
      by (auto simp: simple_operands_ended split: if_splits list.splits
          intro: option_grammar.intros r r' dest!: inline)
  qed
qed

lemma option_grammar_simple_operands:
  assumes "option_table bools vals" and "option_grammar bools vals args ps"
  shows "simple_operands_loop bools vals False args = Some ps"
  using assms(2)
proof (induction rule: option_grammar.induct)
  case nil
  show ?case by simp
next
  case (switch rest ps arg)
  with option_table_bool [OF assms(1)] show ?case by simp
next
  case (inline rest ps opt v)
  from option_table_val [OF assms(1) inline(2)] have o: "starts_with opt ''-''" "opt \<noteq> []" by auto
  have "list_ex (\<lambda>b. starts_with (opt @ CHR ''='' # v) (b @ ''='')) vals"
    using inline(2) by (auto simp: list_ex_iff starts_with_iff_prefix intro!: bexI [of _ opt])
  moreover have "opt @ CHR ''='' # v \<noteq> ''-''" "opt @ CHR ''='' # v \<noteq> ''--''"
    using o by (cases opt; cases "tl opt"; auto)+
  ultimately show ?case using inline.IH by simp
next
  case (valued rest ps opt v)
  with option_table_val [OF assms(1) valued(2)] show ?case by simp
next
  case (operand rest ps arg)
  then have "arg \<notin> set bools" "arg \<notin> set vals" "arg \<noteq> ''-''" "arg \<noteq> ''--''"
    using option_table_bool [OF assms(1)] option_table_val [OF assms(1)] by auto
  moreover have "\<not> starts_with arg (b @ ''='')" if "b \<in> set vals" for b
    using that operand(2) option_table_val [OF assms(1)] starts_with_trans by blast
  ultimately show ?case using operand by (simp add: list_ex_iff)
next
  case (separator ps)
  then show ?case by (simp add: simple_operands_ended)
qed

text \<open>
  For every well-formed option table the index loop of \<open>simple_path_operands\<close> accepts exactly the
  command lines of the declarative grammar (switches, valued options with an inline or a separate
  value, operands, and a separator after which everything but a lone dash is an operand), and returns
  exactly the operands of the derivation.
\<close>

theorem simple_path_operands_grammar:
  assumes "option_table bools vals"
  shows "simple_path_operands args bools vals = Some ps \<longleftrightarrow> option_grammar bools vals args ps"
  unfolding simple_path_operands_def
  using simple_operands_grammar [OF assms] option_grammar_simple_operands [OF assms] by blast

theorem simple_path_operands_grammar_witness:
  "option_table [''-L''] [''-c'']
   \<and> (simple_path_operands [''-L'', ''-c'', ''fmt'', ''a'', ''--'', ''-b''] [''-L''] [''-c''] = Some [''a'', ''-b'']
      \<longleftrightarrow> option_grammar [''-L''] [''-c''] [''-L'', ''-c'', ''fmt'', ''a'', ''--'', ''-b''] [''a'', ''-b''])
   \<and> simple_path_operands [''-L'', ''-c'', ''fmt'', ''a'', ''--'', ''-b''] [''-L''] [''-c''] = Some [''a'', ''-b'']"
proof -
  have t: "option_table [''-L''] [''-c'']" by (simp add: option_table_def)
  show ?thesis
    using t simple_path_operands_grammar
        [OF t, of "[''-L'', ''-c'', ''fmt'', ''a'', ''--'', ''-b'']" "[''a'', ''-b'']"]
    by (simp add: simple_path_operands_def)
qed

section \<open>git\<close>

lemma digits_no_dash: "list_all is_ascii_digit v \<Longrightarrow> \<not> starts_with v ''-''"
  by (cases v) (auto simp: is_ascii_digit_def nat_of_char_def)

lemma valid_positive_integer_no_dash: "valid_positive_integer v \<Longrightarrow> \<not> starts_with v ''-''"
proof -
  assume "valid_positive_integer v"
  then have "list_all is_ascii_digit (case v of c # cs \<Rightarrow> if c = CHR ''+'' then cs else v | [] \<Rightarrow> v)"
    by (auto simp: valid_positive_integer_def parse_unsigned_def Let_def split: option.splits if_splits)
  then show ?thesis by (cases v) (auto simp: is_ascii_digit_def nat_of_char_def split: if_splits)
qed

lemma git_denied_option_dash: "git_denied_option a \<Longrightarrow> starts_with a ''-''"
  by (auto simp: git_denied_option_def intro: starts_with_trans [where p = "''-''" and r = "''-''"])

lemma git_diff_like_paths:
  "git_diff_like_loop sub True args \<Longrightarrow> list_all (\<lambda>a. a = ''--'' \<or> safe_agent_git_operand a) args"
  by (induction args) (auto split: if_splits)

definition no_denied_option :: "string list \<Rightarrow> bool" where
  "no_denied_option args \<longleftrightarrow>
     list_all (\<lambda>a. \<not> git_denied_option a) (takeWhile (\<lambda>a. a \<noteq> ''--'') args)
     \<and> list_all (\<lambda>a. a = ''--'' \<or> safe_agent_git_operand a) (dropWhile (\<lambda>a. a \<noteq> ''--'') args)"

lemma no_denied_option_Cons:
  "\<not> git_denied_option a \<Longrightarrow> a \<noteq> ''--'' \<Longrightarrow> no_denied_option args \<Longrightarrow> no_denied_option (a # args)"
  by (simp add: no_denied_option_def)

lemma no_denied_option_value:
  "\<not> starts_with v ''-'' \<Longrightarrow> no_denied_option args \<Longrightarrow> no_denied_option (v # args)"
  by (rule no_denied_option_Cons) (auto dest: git_denied_option_dash)

lemma git_diff_like_no_denied:
  "git_diff_like_loop sub False args \<Longrightarrow> no_denied_option args"
proof (induction args rule: length_induct)
  case (1 args)
  have IH: "no_denied_option xs" if "git_diff_like_loop sub False xs" "length xs < length args" for xs
    using 1(1) that by blast
  show ?case
  proof (cases args)
    case Nil
    then show ?thesis by (simp add: no_denied_option_def)
  next
    case (Cons arg rest)
    show ?thesis
    proof (cases "arg = ''--''")
      case True
      with 1(2) show ?thesis
        using git_diff_like_paths [of sub rest] by (simp add: Cons no_denied_option_def)
    next
      case False
      with 1(2) Cons have arg: "\<not> git_denied_option arg" by (auto split: if_splits)
      have "no_denied_option rest"
      proof (cases "git_diff_like_loop sub False rest")
        case True
        then show ?thesis using IH Cons by simp
      next
        case skip: False
        with 1(2) False arg obtain v rest' where rest: "rest = v # rest'"
          and v: "\<not> starts_with v ''-''" and loop: "git_diff_like_loop sub False rest'"
          unfolding Cons
          by (cases rest) (auto split: if_splits option.splits dest: valid_positive_integer_no_dash)
        from loop have "no_denied_option rest'" using IH Cons rest by simp
        with v show ?thesis unfolding rest by (rule no_denied_option_value)
      qed
      with arg False show ?thesis unfolding Cons by (intro no_denied_option_Cons)
    qed
  qed
qed

text \<open>
  A git command line passes the validator only for one of eight read-only subcommands, after at
  most a leading \<open>--no-pager\<close>; and for \<open>diff\<close>, \<open>show\<close> and \<open>log\<close> no option that runs a program, writes
  a file or reads stdin occurs before the \<open>--\<close> separator (not even as an option's value), and
  everything after the separator is a relative operand without parent, credential or agent-metadata
  components.
\<close>

theorem valid_agent_git_read_only:
  assumes "valid_agent_git args"
  shows "\<exists>sub rest. (args = sub # rest \<or> args = ''--no-pager'' # sub # rest)
     \<and> sub \<in> {''status'', ''diff'', ''show'', ''log'', ''rev-parse'', ''cat-file'', ''ls-files'', ''branch''}
     \<and> (sub \<in> {''diff'', ''show'', ''log''} \<longrightarrow> no_denied_option rest)"
proof -
  obtain sub rest where
    args: "(if args \<noteq> [] \<and> hd args = ''--no-pager'' then drop 1 args else args) = sub # rest"
    using assms by (auto simp: valid_agent_git_def split: list.splits)
  then have shape: "args = sub # rest \<or> args = ''--no-pager'' # sub # rest"
    by (cases args) (auto split: if_splits)
  have sub: "sub \<in> {''status'', ''diff'', ''show'', ''log'', ''rev-parse'', ''cat-file'', ''ls-files'', ''branch''}"
    using assms unfolding valid_agent_git_def args by (auto split: if_splits)
  have nd: "no_denied_option rest" if "sub \<in> {''diff'', ''show'', ''log''}"
  proof (rule git_diff_like_no_denied)
    show "git_diff_like_loop sub False rest"
      using assms that unfolding valid_agent_git_def args
      by (auto simp: valid_agent_git_diff_like_def)
  qed
  show ?thesis by (intro exI conjI impI) (rule shape, rule sub, erule nd)
qed

theorem valid_agent_git_read_only_witness:
  "valid_agent_git [''--no-pager'', ''diff'', ''--stat'', ''HEAD'', ''--'', ''src/lib.rs'']
   \<and> (\<exists>sub rest. ([''--no-pager'', ''diff'', ''--stat'', ''HEAD'', ''--'', ''src/lib.rs''] = sub # rest
          \<or> [''--no-pager'', ''diff'', ''--stat'', ''HEAD'', ''--'', ''src/lib.rs''] = ''--no-pager'' # sub # rest)
     \<and> sub \<in> {''status'', ''diff'', ''show'', ''log'', ''rev-parse'', ''cat-file'', ''ls-files'', ''branch''}
     \<and> (sub \<in> {''diff'', ''show'', ''log''} \<longrightarrow> no_denied_option rest))"
proof -
  have v: "valid_agent_git [''--no-pager'', ''diff'', ''--stat'', ''HEAD'', ''--'', ''src/lib.rs'']"
    by code_simp
  show ?thesis by (rule conjI [OF v valid_agent_git_read_only [OF v]])
qed

section \<open>find\<close>

lemma find_action_dash: "a \<in> set find_actions \<Longrightarrow> starts_with a ''-'' \<and> 2 \<le> length a"
  by (auto simp: find_actions_def)

lemma parse_unsigned_no_dash: "parse_unsigned b v = Some n \<Longrightarrow> \<not> starts_with v ''-''"
  by (cases v) (auto simp: parse_unsigned_def Let_def is_ascii_digit_def nat_of_char_def split: if_splits)

lemma find_loop_Cons:
  assumes "find_loop paths (arg # rest) = Some ps"
  shows "arg \<notin> set find_actions
     \<and> (find_loop paths rest = Some ps
        \<or> (\<exists>v rest'. rest = v # rest'
             \<and> (find_loop paths rest' = Some ps \<and> (\<not> starts_with v ''-'' \<or> length v = 1)
                \<or> find_loop (paths @ [v]) rest' = Some ps)))"
proof (cases rest)
  case Nil
  with assms show ?thesis by (simp split: if_split_asm)
next
  case (Cons v rest')
  have "parse_unsigned b v = None" if "starts_with v ''-''" for b
    using parse_unsigned_no_dash that by fastforce
  with assms [unfolded find_loop.simps] Cons show ?thesis
    by (cases "starts_with v ''-''") (simp_all del: find_loop.simps split: if_split_asm option.split_asm)
qed

lemma find_loop_operands:
  "find_loop paths args = Some ps \<Longrightarrow>
   set paths \<subseteq> set ps \<and> set ps \<subseteq> set paths \<union> set args
   \<and> (\<forall>a \<in> set args. a \<in> set find_actions \<longrightarrow> a \<in> set ps)"
proof (induction args arbitrary: paths rule: length_induct)
  case (1 args)
  have IH: "set qs \<subseteq> set ps \<and> set ps \<subseteq> set qs \<union> set xs
      \<and> (\<forall>a \<in> set xs. a \<in> set find_actions \<longrightarrow> a \<in> set ps)"
    if "find_loop qs xs = Some ps" "length xs < length args" for xs qs
    using 1(1) that by blast
  show ?case
  proof (cases args)
    case Nil
    with 1(2) show ?thesis by simp
  next
    case (Cons arg rest)
    note step = find_loop_Cons [OF 1(2) [unfolded Cons]]
    then consider "find_loop paths rest = Some ps"
      | v rest' where "rest = v # rest'" "find_loop paths rest' = Some ps" "\<not> starts_with v ''-'' \<or> length v = 1"
      | v rest' where "rest = v # rest'" "find_loop (paths @ [v]) rest' = Some ps"
      by blast
    then show ?thesis
    proof cases
      case 1
      with IH [of paths rest] step show ?thesis by (auto simp: Cons)
    next
      case (2 v rest')
      then have "v \<notin> set find_actions" using find_action_dash [of v] by auto
      with 2 IH [of paths rest'] step show ?thesis by (auto simp: Cons)
    next
      case (3 v rest')
      with IH [of "paths @ [v]" rest'] step show ?thesis by (auto simp: Cons)
    qed
  qed
qed

text \<open>
  An accepted find command starts with at least one starting point, every starting point is
  reported as a path operand, and an argument spelled like one of find's executing, deleting,
  printing or link-following actions can only be the reference file of \<open>-newer\<close>, which is itself
  reported as a path operand.
\<close>

theorem valid_agent_find_no_actions:
  assumes "valid_agent_find args = Some ps"
  shows "takeWhile (\<lambda>a. \<not> starts_with a ''-'') args \<noteq> []
     \<and> set (takeWhile (\<lambda>a. \<not> starts_with a ''-'') args) \<subseteq> set ps
     \<and> (\<forall>a \<in> set args. a \<in> set find_actions \<longrightarrow> a \<in> set ps)"
proof -
  define starts where "starts = takeWhile (\<lambda>a. \<not> starts_with a ''-'') args"
  define rest where "rest = dropWhile (\<lambda>a. \<not> starts_with a ''-'') args"
  have loop: "starts \<noteq> []" "find_loop starts rest = Some ps"
    using assms by (auto simp: valid_agent_find_def Let_def starts_def rest_def split: if_splits)
  have "set args = set starts \<union> set rest"
    unfolding starts_def rest_def by (metis set_append takeWhile_dropWhile_id)
  moreover have "a \<notin> set find_actions" if "a \<in> set starts" for a
    using that find_action_dash [of a] by (auto simp: starts_def dest: set_takeWhileD)
  ultimately show ?thesis
    using loop find_loop_operands [OF loop(2)] by (auto simp flip: starts_def)
qed

theorem valid_agent_find_no_actions_witness:
  "valid_agent_find [''src'', ''-maxdepth'', ''2'', ''-newer'', ''-exec''] = Some [''src'', ''-exec'']
   \<and> takeWhile (\<lambda>a. \<not> starts_with a ''-'') [''src'', ''-maxdepth'', ''2'', ''-newer'', ''-exec''] \<noteq> []"
proof -
  have f: "valid_agent_find [''src'', ''-maxdepth'', ''2'', ''-newer'', ''-exec''] = Some [''src'', ''-exec'']"
    by code_simp
  show ?thesis by (rule conjI [OF f conjunct1 [OF valid_agent_find_no_actions [OF f]]])
qed

section \<open>Where path operands come from\<close>

text \<open>
  The contract between a grammar and the confinement check that canonicalizes its operands: every
  operand is an argument of the command or the inline value of one.
\<close>

definition argument_sources :: "string list \<Rightarrow> string set" where
  "argument_sources args = set args \<union> {v. \<exists>a \<in> set args. option_inline a = Some v}"

lemma argument_sources_simps [simp]:
  "argument_sources [] = {}"
  "argument_sources (a # args) = insert a ({v. option_inline a = Some v} \<union> argument_sources args)"
  by (auto simp: argument_sources_def)

lemma option_inline_Some: "option_inline a = Some v \<longleftrightarrow> (\<exists>n. a = n @ CHR ''='' # v \<and> CHR ''='' \<notin> set n)"
  by (auto simp: option_inline_def split_once_Some)

locale operand_source =
  fixes operands :: "string list \<Rightarrow> string list option"
  assumes from_arguments: "operands args = Some ps \<Longrightarrow> set ps \<subseteq> argument_sources args"
begin

lemma operand_is_suffix:
  assumes "operands args = Some ps" and "p \<in> set ps"
  shows "\<exists>a \<in> set args. suffix p a"
proof -
  from from_arguments [OF assms(1)] assms(2) have "p \<in> argument_sources args" by blast
  then show ?thesis
    by (auto simp: argument_sources_def option_inline_Some intro: suffixI)
      (metis append.assoc append_Cons append_Nil suffixI)
qed

lemma operands_keep_property:
  assumes "operands args = Some ps" and "\<And>a. a \<in> set args \<Longrightarrow> Q a"
    and "\<And>a v. a \<in> set args \<Longrightarrow> option_inline a = Some v \<Longrightarrow> Q v"
  shows "list_all Q ps"
  using from_arguments [OF assms(1)] assms(2,3) by (auto simp: list_all_iff argument_sources_def)

end

lemma simple_operands_source:
  "simple_operands_loop bools vals e args = Some ps \<Longrightarrow> set ps \<subseteq> set args"
  by (induction bools vals e args arbitrary: ps rule: simple_operands_loop.induct)
    (auto split: if_splits list.splits)

lemma head_tail_source:
  "head_tail_loop program e args = Some ps \<Longrightarrow> set ps \<subseteq> set args"
  by (induction program e args arbitrary: ps rule: head_tail_loop.induct)
    (auto split: if_splits list.splits)

lemma grep_value_paths:
  "set (grep_paths (grep_long_value option v st)) \<subseteq> insert v (set (grep_paths st))"
  "set (grep_paths (grep_short_value cluster v st)) \<subseteq> insert v (set (grep_paths st))"
  by (auto simp: grep_long_value_def grep_short_value_def Let_def)

lemma grep_loop_source:
  "grep_loop ripgrep st args = Some st' \<Longrightarrow>
   set (grep_paths st') \<subseteq> set (grep_paths st) \<union> argument_sources args"
proof (induction ripgrep st args rule: grep_loop.induct)
  case (1 ripgrep st)
  then show ?case by simp
next
  case (2 ripgrep st arg rest)
  note long = grep_value_paths(1) [THEN subsetD]
  note short = grep_value_paths(2) [THEN subsetD]
  from 2 show ?case
    by (auto simp: Let_def split: if_splits option.splits list.splits dest!: long short)
qed

lemma git_path_operands_source:
  assumes "git_path_operands args = Some ps"
  shows "set ps \<subseteq> set args"
proof -
  obtain n where "ps = tl (dropWhile (\<lambda>arg. arg \<noteq> ''--'') (drop n args)) \<or> ps = []"
    using assms by (auto simp: git_path_operands_def Let_def split: if_splits)
  moreover have "set (tl (dropWhile P (drop n args))) \<subseteq> set args" for P
    by (metis list.set_sel(2) set_dropWhileD set_drop_subset subsetD subsetI tl_Nil empty_iff list.set(1))
  ultimately show ?thesis by auto
qed

interpretation simple_ops: operand_source "\<lambda>args. simple_path_operands args bools vals" for bools vals
  by unfold_locales
    (auto simp: simple_path_operands_def argument_sources_def dest: simple_operands_source)

interpretation required_ops: operand_source "\<lambda>args. required_path_operands args bools vals" for bools vals
  by unfold_locales
    (auto simp: required_path_operands_def dest: simple_ops.from_arguments split: option.splits if_splits)

interpretation head_tail_ops: operand_source "head_tail_path_operands program" for program
  by unfold_locales
    (auto simp: head_tail_path_operands_def argument_sources_def dest: head_tail_source
      split: option.splits if_splits)

interpretation grep_ops: operand_source "\<lambda>args. grep_like_path_operands args ripgrep" for ripgrep
  by unfold_locales
    (auto simp: grep_like_path_operands_def dest!: grep_loop_source split: option.splits if_splits)

interpretation git_ops: operand_source git_path_operands
  by unfold_locales (auto simp: argument_sources_def dest: git_path_operands_source)

interpretation find_ops: operand_source valid_agent_find
proof unfold_locales
  fix args ps
  assume "valid_agent_find args = Some ps"
  then have "find_loop (takeWhile (\<lambda>a. \<not> starts_with a ''-'') args)
      (dropWhile (\<lambda>a. \<not> starts_with a ''-'') args) = Some ps"
    by (auto simp: valid_agent_find_def Let_def split: if_splits)
  from find_loop_operands [OF this] show "set ps \<subseteq> argument_sources args"
    by (auto simp: argument_sources_def dest: set_takeWhileD set_dropWhileD)
qed

lemma sed_operands_source: "set (drop 2 args) \<subseteq> argument_sources args"
  by (auto simp: argument_sources_def dest: in_set_dropD)

lemma agent_bash_path_operands_source:
  assumes "agent_bash_path_operands program args = Some ps"
  shows "set ps \<subseteq> argument_sources args"
proof -
  note sources = simple_ops.from_arguments required_ops.from_arguments head_tail_ops.from_arguments
    grep_ops.from_arguments find_ops.from_arguments git_ops.from_arguments
  from assms show ?thesis
    unfolding agent_bash_path_operands_def
    by (simp split: if_split_asm) (erule sources | hypsubst, rule sed_operands_source)+
qed

interpretation bash_ops: operand_source "agent_bash_path_operands program" for program
  by unfold_locales (rule agent_bash_path_operands_source)

text \<open>
  The grammars invent no paths: every path operand reported for an allowlisted command is a suffix
  of one of its arguments (the argument itself, or the value after its first equals sign), so
  confining the operands confines text of the command line.
\<close>

theorem path_operand_from_argument:
  assumes "agent_bash_path_operands program args = Some ps" and "p \<in> set ps"
  shows "\<exists>a \<in> set args. suffix p a"
  using assms by (rule bash_ops.operand_is_suffix)

theorem path_operand_from_argument_witness:
  "agent_bash_path_operands ''grep'' [''-n'', ''--file=pat'', ''src''] = Some [''pat'', ''src'']
   \<and> (\<exists>a \<in> set [''-n'', ''--file=pat'', ''src'']. suffix ''pat'' a)"
proof -
  have o: "agent_bash_path_operands ''grep'' [''-n'', ''--file=pat'', ''src''] = Some [''pat'', ''src'']"
    by code_simp
  have m: "''pat'' \<in> set [''pat'', ''src'']" by simp
  show ?thesis by (rule conjI [OF o path_operand_from_argument [OF o m]])
qed

end
