(* ===== verification/Policy_Denial.thy ===== *)
theory Policy_Denial
  imports Policy_Operands
begin

text \<open>
  The stable identity of a refused permission request (\<open>external-core/src/policy/denial.rs\<close>): from the
  request and the validated reason of the decision to a program family, a category, an operand class,
  and the advice the agent gets back.
\<close>

record PermissionDenialSemantics =
  program_family :: string
  category :: string
  reason_code :: string
  operand_class :: string
  retry_class :: string
  recommended_action :: string

definition AGENT_BASH_POLICY_VERSION :: string where
  "AGENT_BASH_POLICY_VERSION = ''zcode-agent-bash/v1.0.0''"

definition denial_fingerprint :: "PermissionDenialSemantics \<Rightarrow> string" where
  "denial_fingerprint d =
     ''family='' @ program_family d @ '';category='' @ category d @ '';reason='' @ reason_code d
     @ '';operand='' @ operand_class d"

definition denial_feedback :: "PermissionDenialSemantics \<Rightarrow> bool \<Rightarrow> string" where
  "denial_feedback d repeated =
     (if repeated then
        ''DENY[policy_version='' @ AGENT_BASH_POLICY_VERSION
        @ '';code=REPEATED_DENIED_OPERATION;retry=do_not_retry_equivalent;next=use_read_or_existing_inputs;original_code=''
        @ reason_code d @ '']''
      else
        ''DENY[policy_version='' @ AGENT_BASH_POLICY_VERSION @ '';code='' @ reason_code d
        @ '';retry='' @ retry_class d @ '';next='' @ recommended_action d @ '']'')"

section \<open>Identities\<close>

definition read_denial_identity ::
    "string \<Rightarrow> json \<Rightarrow> string \<Rightarrow> string \<times> string \<times> string \<times> string" where
  "read_denial_identity tool input validated_reason =
     (let path = (if tool = ''read'' then zcode_file_path input else get_str input ''path'') in
      if validated_reason = ''credential_read_denied''
         \<or> (case path of None \<Rightarrow> False | Some p \<Rightarrow> is_credential_path p)
      then (tool, ''path'', ''credential_read_denied'', ''sensitive_path'')
      else if validated_reason = ''read_path_escape_denied''
              \<or> validated_reason = ''agent_metadata_read_denied''
              \<or> (case path of None \<Rightarrow> False | Some p \<Rightarrow> has_parent_dir p)
      then (tool, ''path'', ''read_path_escape_denied'', ''outside_scope'')
      else (tool, ''path'', validated_reason,
            if path \<noteq> None then ''unavailable_path'' else ''missing_path''))"

fun git_denial_category :: "string list \<Rightarrow> string" where
  "git_denial_category [] = ''unknown''"
| "git_denial_category (v # rest) =
     (if v \<in> {''-C'', ''-c'', ''--git-dir'', ''--work-tree''} then git_denial_category (drop 1 rest)
      else if starts_with v ''--git-dir='' \<or> starts_with v ''--work-tree='' \<or> starts_with v ''-c''
              \<or> v = ''--no-pager''
      then git_denial_category rest
      else to_ascii_lowercase (trim_start_matches CHR ''-'' v))"

definition git_mutations :: "string list" where
  "git_mutations =
     [''add'', ''apply'', ''branch'', ''checkout'', ''clean'', ''commit'', ''merge'', ''mv'',
      ''rebase'', ''reset'', ''restore'', ''rm'', ''switch'', ''tag'']"

definition git_denial_operand_class :: "string list \<Rightarrow> string" where
  "git_denial_operand_class args =
     (if ''-C'' \<in> set args then ''cwd_override''
      else if list_ex (\<lambda>v. v = ''-c'' \<or> starts_with v ''-c'') args then ''config_override''
      else if list_ex (\<lambda>v. v = ''--git-dir'' \<or> v = ''--work-tree'' \<or> starts_with v ''--git-dir=''
                         \<or> starts_with v ''--work-tree='') args then ''repository_override''
      else if list_ex (\<lambda>v. v \<in> {''--output'', ''--ext-diff'', ''--textconv'', ''--no-index''}
                         \<or> starts_with v ''--output='') args then ''write_option''
      else if list_ex (\<lambda>v. is_credential_path v \<or> is_agent_metadata_path v) args
      then ''sensitive_path''
      else if args \<noteq> [] \<and> hd args \<in> set git_mutations then ''mutation''
      else ''option_or_operand'')"

definition bash_denial_identity :: "string \<Rightarrow> string \<times> string \<times> string \<times> string" where
  "bash_denial_identity command =
     (case tokenize_agent_bash command of
        None \<Rightarrow>
          (''shell'', ''composition'', ''shell_composition_or_expansion_denied'',
           if CHR 0x0A \<in> set command \<or> CHR 0x0D \<in> set command
           then ''multiline'' else ''compound_command'')
      | Some argv \<Rightarrow>
          (let family = to_ascii_lowercase
                 (case argv of [] \<Rightarrow> ''unknown''
                  | program # _ \<Rightarrow>
                      (case file_name program of None \<Rightarrow> ''unknown'' | Some n \<Rightarrow> n));
               rest = drop 1 argv in
           if \<not> agent_bash_program_allowed family
           then (family, ''program'', ''command_not_allowlisted'', ''program'')
           else if family = ''git'' then
             (let cls = git_denial_operand_class rest in
              (family, git_denial_category rest,
               if cls = ''sensitive_path'' then ''git_sensitive_path_denied''
               else ''git_option_or_mutation_denied'',
               cls))
           else
             (let credential_path = list_ex is_credential_path rest;
                  agent_metadata_path = list_ex is_agent_metadata_path rest;
                  cls = (if credential_path \<or> agent_metadata_path then ''sensitive_path''
                         else if list_ex (\<lambda>v. starts_with v ''-'') rest then ''option''
                         else if length argv \<le> 1 then ''missing_path''
                         else ''path'');
                  inferred = (if cls = ''sensitive_path'' \<and> agent_metadata_path
                              then ''agent_metadata_read_denied''
                              else if cls = ''sensitive_path'' then ''credential_read_denied''
                              else if cls = ''missing_path'' then ''command_option_not_allowlisted''
                              else ''external_policy_denied'') in
              (family, family, inferred, cls))))"

section \<open>Advice\<close>

definition network_programs :: "string list" where
  "network_programs = [''curl'', ''wget'', ''ssh'', ''scp'', ''sftp'', ''nc'', ''ncat'', ''telnet'']"

definition build_programs :: "string list" where
  "build_programs =
     [''cargo'', ''rustc'', ''npm'', ''npx'', ''pnpm'', ''yarn'', ''bun'', ''docker'', ''make'',
      ''cmake'', ''pytest'', ''python'', ''python3'', ''go'']"

definition final_denial :: "string \<Rightarrow> string \<Rightarrow> bool" where
  "final_denial code cls \<longleftrightarrow>
     contains code ''credential'' \<or> contains code ''sensitive''
     \<or> contains code ''secret'' \<or> contains code ''network''
     \<or> contains code ''write'' \<or> contains code ''mutation''
     \<or> contains code ''outside'' \<or> contains code ''escape''
     \<or> contains code ''protected'' \<or> contains code ''agent_metadata''
     \<or> code = ''external_policy_denied''
     \<or> cls \<in> {''write_option'', ''mutation'', ''sensitive_path'', ''outside_scope''}"

definition denial_recovery :: "string \<Rightarrow> string \<Rightarrow> string \<Rightarrow> string \<Rightarrow> string \<times> string" where
  "denial_recovery tool family code cls =
     (if starts_with code ''shell_'' \<or> contains code ''multiline''
         \<or> code = ''shell_composition_or_expansion_denied''
      then (''split_once'', ''split_into_single_commands'')
      else if tool = ''read''
              \<and> (code = ''read_path_unverifiable'' \<or> code = ''permission_request_unrecognized'')
      then (''simplify_once'', ''correct_read_path_once'')
      else if family = ''git''
              \<and> cls \<in> {''cwd_override'', ''config_override'', ''repository_override''}
      then (''simplify_once'', ''remove_denied_option_once'')
      else if contains code ''option_not_allowlisted''
              \<and> cls \<notin> {''write_option'', ''mutation'', ''sensitive_path''}
      then (''simplify_once'', ''remove_denied_option_once'')
      else if code = ''command_not_allowlisted'' \<or> code = ''program_not_allowlisted'' then
        (if family \<in> set network_programs
         then (''do_not_retry_equivalent'', ''stop_evidence_path'')
         else if family \<in> set build_programs
         then (''use_prepared_inputs'', ''use_prepared_inputs'')
         else (''use_read'', ''use_read_or_prepared_inputs''))
      else if final_denial code cls
      then (''do_not_retry_equivalent'', ''stop_evidence_path'')
      else (''use_read'', ''use_read_or_prepared_inputs''))"

section \<open>The whole identity\<close>

definition denial_identity ::
    "string \<Rightarrow> json \<Rightarrow> string \<Rightarrow> string \<times> string \<times> string \<times> string" where
  "denial_identity tool input validated_reason =
     (if tool = ''bash'' then
        (case get_str input ''command'' of
           None \<Rightarrow> (''bash'', ''command'', ''bash_command_missing'', ''missing_command'')
         | Some command \<Rightarrow> bash_denial_identity command)
      else if tool \<in> {''read'', ''grep'', ''glob''}
      then read_denial_identity tool input validated_reason
      else if tool \<in> {''write'', ''edit'', ''delete'', ''move''}
      then (tool, ''write'', ''write_denied'', ''mutation'')
      else if tool \<in> {''execute'', ''terminal''} then
        (to_ascii_lowercase
           (case Option.bind (get_str input ''program'') file_name of
              None \<Rightarrow> ''unknown'' | Some n \<Rightarrow> n),
         ''execute'', ''command_not_allowlisted'', ''program'')
      else if tool = ''network''
      then (''network'', ''network'', ''network_not_enforced_and_request_denied'', ''network'')
      else if tool = ''git_ref_mutation''
      then (''git'', ''ref_mutation'', ''git_ref_mutation_denied'', ''mutation'')
      else if starts_with tool ''mcp__''
      then (''mcp_tool'', ''mcp_tool'', ''permission_request_unrecognized'', ''unknown'')
      else (tool, ''unknown'', ''permission_request_unrecognized'', ''unknown''))"

definition permission_denial_semantics ::
    "json \<Rightarrow> string \<Rightarrow> PermissionDenialSemantics option" where
  "permission_denial_semantics params validated_reason =
     (let tool = to_ascii_lowercase
            (case get_str params ''toolName'' of None \<Rightarrow> ''unknown'' | Some t \<Rightarrow> t);
          input = (case json_get params ''input'' of None \<Rightarrow> JNull | Some v \<Rightarrow> v) in
      case denial_identity tool input validated_reason of
        (family, cat, inferred, cls) \<Rightarrow>
          (let code = (if validated_reason = [] then inferred else validated_reason);
               rec = denial_recovery tool family code cls in
           Some \<lparr>program_family = family, category = cat, reason_code = code,
                 operand_class = cls, retry_class = fst rec, recommended_action = snd rec\<rparr>))"

end
