(* ===== verification/Policy_Launcher.thy ===== *)
theory Policy_Launcher
  imports Policy_Grammar Policy_Denial
begin

text \<open>
  The permission policy of a task (\<open>external-core/src/policy/launcher.rs\<close> and
  \<open>policy/capabilities.rs\<close>): construction of a launcher from canonicalized roots, the decision on a
  request, the decision on a raw permission request of the agent, the read-only shell, and the
  resolution of write targets. Every function that looks at the disk takes the \<open>filesystem\<close> as an
  argument. A Rust panic is the \<open>Inl\<close> of the result.
\<close>

datatype AccessMode = ReadOnly | WorkspaceWrite

datatype SandboxEnforcement = Unsupported

record PolicyCapabilities =
  exact_command_allowlist :: bool
  sanitized_environment :: bool
  bounded_time_and_output :: bool
  local_hard_deny :: bool
  source_integrity_diagnostics :: bool
  network_isolation_enforced :: bool
  network_control :: string
  os_sandbox :: SandboxEnforcement

definition capabilities_for_network :: "bool \<Rightarrow> PolicyCapabilities" where
  "capabilities_for_network network =
     \<lparr>exact_command_allowlist = True, sanitized_environment = True, bounded_time_and_output = True,
      local_hard_deny = True, source_integrity_diagnostics = True,
      network_isolation_enforced = False,
      network_control =
        (if network then ''manifest allows network; no network isolation is enforced''
         else ''known network clients and URL arguments denied; general network isolation unsupported''),
      os_sandbox = Unsupported\<rparr>"

datatype EntryState = Existing | Missing

record PolicyLauncher =
  worktree :: path
  scratch_root :: path
  report_target :: path
  readable_inputs :: "path list"
  network_allowed :: bool
  capabilities :: PolicyCapabilities
  access_mode :: AccessMode
  tracked_write_roots :: "path list"
  interactive_bash :: bool

datatype rust_panic = SliceStartOutOfRange

section \<open>Construction\<close>

definition fs_canonicalize :: "filesystem \<Rightarrow> path \<Rightarrow> PreparationError + path" where
  "fs_canonicalize fs p = (case canonicalize fs p of Inl e \<Rightarrow> Inl (IoError e) | Inr q \<Rightarrow> Inr q)"

definition launcher_new ::
    "filesystem \<Rightarrow> path \<Rightarrow> path \<Rightarrow> path \<Rightarrow> path list \<Rightarrow> bool \<Rightarrow> PolicyCapabilities
     \<Rightarrow> PreparationError + PolicyLauncher" where
  "launcher_new fs wt scratch report inputs network caps =
     res_bind (fs_canonicalize fs wt) (\<lambda>wt'.
     res_bind (fs_canonicalize fs scratch) (\<lambda>scratch'.
     res_bind (ok_or (InvalidPath report ''report target has no parent'') (path_parent report)) (\<lambda>parent.
     res_bind (fs_canonicalize fs parent) (\<lambda>parent'.
     res_bind (ok_or (InvalidPath report ''report target has no file name'') (file_name report)) (\<lambda>name.
     res_bind (res_collect (fs_canonicalize fs) inputs) (\<lambda>inputs'.
       Inr \<lparr>worktree = wt', scratch_root = scratch', report_target = path_join parent' name,
            readable_inputs = inputs', network_allowed = network, capabilities = caps,
            access_mode = ReadOnly, tracked_write_roots = [], interactive_bash = False\<rparr>))))))"

definition tracked_root :: "path \<Rightarrow> path \<Rightarrow> PreparationError + path" where
  "tracked_root wt root =
     res_bind (lexical_confined_path wt root) (\<lambda>r.
       if protected_worktree_path wt r
       then Inl (PolicyError ''tracked write root targets protected metadata'')
       else Inr r)"

definition for_general ::
    "filesystem \<Rightarrow> path \<Rightarrow> path \<Rightarrow> path \<Rightarrow> path list \<Rightarrow> PolicyCapabilities \<Rightarrow> AccessMode
     \<Rightarrow> path list \<Rightarrow> PreparationError + PolicyLauncher" where
  "for_general fs wt scratch result_target inputs caps mode roots =
     res_bind (launcher_new fs wt scratch result_target inputs False caps) (\<lambda>launcher.
       if mode = WorkspaceWrite then
         res_bind (res_collect (tracked_root (worktree launcher)) roots) (\<lambda>roots'.
           Inr (launcher\<lparr>access_mode := mode, tracked_write_roots := roots'\<rparr>))
       else if roots \<noteq> []
       then Inl (PolicyError ''read-only access cannot define tracked write roots'')
       else Inr (launcher\<lparr>access_mode := mode, tracked_write_roots := roots\<rparr>))"

definition set_interactive_bash :: "bool \<Rightarrow> PolicyLauncher \<Rightarrow> PolicyLauncher" where
  "set_interactive_bash enabled L = L\<lparr>interactive_bash := enabled\<rparr>"

section \<open>Write targets\<close>

definition resolved_write_denial :: "PolicyLauncher \<Rightarrow> path \<Rightarrow> string option" where
  "resolved_write_denial L target =
     (case path_parent (report_target L) of
        None \<Rightarrow> Some ''write_path_unverifiable''
      | Some report_root \<Rightarrow>
          if path_starts_with target (worktree L) then
            (if protected_worktree_path (worktree L) target
             then Some ''protected_worktree_metadata_denied''
             else if access_mode L = WorkspaceWrite
                     \<and> list_ex (path_starts_with target) (tracked_write_roots L) then None
             else if access_mode L = WorkspaceWrite then Some ''tracked_path_not_allowlisted''
             else Some ''tracked_writes_denied_for_access_mode'')
          else if path_starts_with target report_root then Some ''daemon_result_root_denied''
          else if path_eq target (scratch_root L) \<or> path_eq target report_root
                  \<or> (\<not> path_starts_with target (scratch_root L)
                     \<and> \<not> path_starts_with target report_root)
          then Some ''write_outside_result_roots_denied''
          else None)"

definition canonical_parent_entry :: "filesystem \<Rightarrow> path \<Rightarrow> string + path" where
  "canonical_parent_entry fs p =
     res_bind (ok_or ''write_path_unverifiable'' (path_parent p)) (\<lambda>parent.
     res_bind (ok_or ''write_path_unverifiable'' (file_name p)) (\<lambda>filename.
       (case canonicalize fs parent of
          Inl _ \<Rightarrow> Inl ''write_path_unverifiable''
        | Inr canonical_parent \<Rightarrow>
            if \<not> is_dir fs canonical_parent then Inl ''write_path_unverifiable''
            else Inr (path_join canonical_parent filename))))"

function resolve_nonexistent_loop :: "filesystem \<Rightarrow> path \<Rightarrow> string list \<Rightarrow> path option" where
  "resolve_nonexistent_loop fs current missing =
     (case symlink_metadata fs current of
        Inr _ \<Rightarrow>
          (case canonicalize fs current of
             Inl _ \<Rightarrow> None
           | Inr canonical \<Rightarrow>
               if \<not> is_dir fs canonical then None
               else Some (foldl path_join canonical (rev missing)))
      | Inl NotFound \<Rightarrow>
          (case file_name current of
             None \<Rightarrow> None
           | Some name \<Rightarrow>
               (case path_parent current of
                  None \<Rightarrow> None
                | Some parent \<Rightarrow> resolve_nonexistent_loop fs parent (missing @ [name])))
      | Inl _ \<Rightarrow> None)"
  by pat_completeness auto
termination
  by (relation "measure (\<lambda>(fs, current, missing). length current)") (auto dest: path_parent_shorter)

declare resolve_nonexistent_loop.simps [simp del]

definition resolve_nonexistent_entry :: "filesystem \<Rightarrow> path \<Rightarrow> path option" where
  "resolve_nonexistent_entry fs p = resolve_nonexistent_loop fs p []"

definition lexical_entry_state ::
    "PolicyLauncher \<Rightarrow> filesystem \<Rightarrow> path \<Rightarrow> bool \<Rightarrow> string + EntryState" where
  "lexical_entry_state L fs p must_exist =
     (if \<not> is_absolute p \<or> has_parent_dir p then Inl ''write_path_unverifiable''
      else
        (case resolved_write_denial L p of
           Some r \<Rightarrow> Inl r
         | None \<Rightarrow>
             (case symlink_metadata fs p of
                Inr _ \<Rightarrow>
                  res_bind (canonical_parent_entry fs p) (\<lambda>candidate.
                    (case resolved_write_denial L candidate of
                       Some r \<Rightarrow> Inl r | None \<Rightarrow> Inr Existing))
              | Inl error \<Rightarrow>
                  if error = NotFound \<and> \<not> must_exist then
                    (case resolve_nonexistent_entry fs p of
                       None \<Rightarrow> Inl ''write_path_unverifiable''
                     | Some candidate \<Rightarrow>
                         (case resolved_write_denial L candidate of
                            Some r \<Rightarrow> Inl r | None \<Rightarrow> Inr Missing))
                  else Inl ''write_path_unverifiable'')))"

definition canonical_write_denial :: "PolicyLauncher \<Rightarrow> filesystem \<Rightarrow> path \<Rightarrow> string option" where
  "canonical_write_denial L fs p =
     (case canonicalize fs p of
        Inl _ \<Rightarrow> Some ''write_path_unverifiable''
      | Inr canonical \<Rightarrow> resolved_write_denial L canonical)"

definition followed_write_denial ::
    "PolicyLauncher \<Rightarrow> filesystem \<Rightarrow> path \<Rightarrow> bool \<Rightarrow> string option" where
  "followed_write_denial L fs p must_exist =
     (case lexical_entry_state L fs p must_exist of
        Inr Existing \<Rightarrow> canonical_write_denial L fs p
      | Inr Missing \<Rightarrow> None
      | Inl r \<Rightarrow> Some r)"

definition lexical_entry_denial ::
    "PolicyLauncher \<Rightarrow> filesystem \<Rightarrow> path \<Rightarrow> bool \<Rightarrow> string option" where
  "lexical_entry_denial L fs p must_exist =
     (case lexical_entry_state L fs p must_exist of Inl r \<Rightarrow> Some r | Inr _ \<Rightarrow> None)"

section \<open>Roots\<close>

definition is_agent_root :: "PolicyLauncher \<Rightarrow> path \<Rightarrow> bool" where
  "is_agent_root L p \<longleftrightarrow>
     path_starts_with p (worktree L) \<or> list_ex (path_starts_with p) (readable_inputs L)"

definition enters_agent_metadata :: "PolicyLauncher \<Rightarrow> path \<Rightarrow> bool" where
  "enters_agent_metadata L p \<longleftrightarrow>
     list_ex (\<lambda>root. case path_strip_prefix p root of
                       None \<Rightarrow> False
                     | Some relative \<Rightarrow> is_agent_metadata_path (path_of_components relative))
       (worktree L # readable_inputs L)"

definition resolve_job_path :: "PolicyLauncher \<Rightarrow> string \<Rightarrow> path" where
  "resolve_job_path L v = (if is_absolute v then v else path_join (worktree L) v)"

section \<open>Decisions\<close>

fun hard_deny_reason :: "PolicyLauncher \<Rightarrow> filesystem \<Rightarrow> PermissionRequest \<Rightarrow> string option" where
  "hard_deny_reason L fs (Network _) =
     (if \<not> network_allowed L then Some ''network_not_enforced_and_request_denied'' else None)"
| "hard_deny_reason L fs GitRefMutation = Some ''git_ref_mutation_denied''"
| "hard_deny_reason L fs (CredentialRead _) = Some ''credential_read_denied''"
| "hard_deny_reason L fs (Read p) =
     (if is_credential_path p then Some ''credential_read_denied''
      else
        (case canonicalize fs p of
           Inl _ \<Rightarrow> Some ''read_path_unverifiable''
         | Inr q \<Rightarrow>
             if enters_agent_metadata L q then Some ''agent_metadata_read_denied''
             else if path_starts_with q (worktree L) \<or> list_ex (path_starts_with q) (readable_inputs L)
             then None
             else Some ''read_path_escape_denied''))"
| "hard_deny_reason L fs (Write p) = followed_write_denial L fs p False"
| "hard_deny_reason L fs (Edit p) = followed_write_denial L fs p True"
| "hard_deny_reason L fs (Delete p) = lexical_entry_denial L fs p True"
| "hard_deny_reason L fs (Move source destination) =
     (case lexical_entry_denial L fs source True of
        Some r \<Rightarrow> Some r
      | None \<Rightarrow> lexical_entry_denial L fs destination False)"
| "hard_deny_reason L fs (Execute _ _ _) = None"

definition decide ::
    "PolicyLauncher \<Rightarrow> filesystem \<Rightarrow> PermissionRequest \<Rightarrow> ExternalDecision \<Rightarrow> PermissionDecision" where
  "decide L fs request external =
     (case hard_deny_reason L fs request of
        Some r \<Rightarrow> denied r
      | None \<Rightarrow>
          if external = Deny then denied ''external_policy_denied''
          else permitted ''allowed_by_bounded_policy'')"

definition agent_path_confined ::
    "PolicyLauncher \<Rightarrow> filesystem \<Rightarrow> path \<Rightarrow> bool \<Rightarrow> string \<Rightarrow> bool" where
  "agent_path_confined L fs cwd require_file arg =
     (if arg = ''-'' \<or> starts_with arg ''~'' \<or> has_parent_dir arg \<or> is_credential_path arg
         \<or> is_agent_metadata_path arg
      then False
      else
        (case canonicalize fs (if is_absolute arg then arg else path_join cwd arg) of
           Inl _ \<Rightarrow> False
         | Inr real \<Rightarrow>
             if \<not> is_agent_root L real \<or> is_credential_path real \<or> enters_agent_metadata L real
             then False
             else \<not> require_file \<or> is_file fs real))"

definition agent_paths_confined ::
    "PolicyLauncher \<Rightarrow> filesystem \<Rightarrow> string list \<Rightarrow> path \<Rightarrow> bool \<Rightarrow> bool" where
  "agent_paths_confined L fs args cwd require_file =
     list_all (agent_path_confined L fs cwd require_file) args"

definition file_programs :: "string list" where
  "file_programs = [''cat'', ''wc'', ''head'', ''tail'', ''sed'', ''shasum'', ''cksum'']"

text \<open>The slice \<open>argv[2..]\<close>, which panics when the vector has a single element.\<close>

definition argv_from_two :: "string list \<Rightarrow> rust_panic + string list" where
  "argv_from_two argv = (if 2 \<le> length argv then Inr (drop 2 argv) else Inl SliceStartOutOfRange)"

text \<open>The checks after tokenization, from the program on.\<close>

definition decide_argv ::
    "PolicyLauncher \<Rightarrow> filesystem \<Rightarrow> path \<Rightarrow> string list \<Rightarrow> rust_panic + PermissionDecision" where
  "decide_argv L fs cwd argv =
     (let program = (case argv of [] \<Rightarrow> [] | p # _ \<Rightarrow> p);
          args = drop 1 argv in
      if \<not> agent_bash_program_allowed program then Inr (denied ''command_not_allowlisted'')
      else if program = ''sed'' \<and> \<not> valid_agent_sed args then Inr (denied ''sed_form_not_bounded'')
      else
        res_bind
          (if program = ''git'' then
             res_bind (argv_from_two argv)
               (\<lambda>rest. Inr (list_ex (\<lambda>arg. is_credential_path arg \<or> is_agent_metadata_path arg) rest))
           else Inr False)
          (\<lambda>sensitive.
             if sensitive then Inr (denied ''git_sensitive_path_denied'')
             else if program = ''git'' \<and> \<not> valid_agent_git args
             then Inr (denied ''git_option_or_mutation_denied'')
             else
               (case agent_bash_path_operands program args of
                  None \<Rightarrow> Inr (denied ''command_option_not_allowlisted'')
                | Some path_args \<Rightarrow>
                    if ''-'' \<in> set path_args then Inr (denied ''stdin_input_denied'')
                    else if \<not> agent_paths_confined L fs path_args cwd (program \<in> set file_programs)
                    then Inr (denied ''path_outside_agent_roots'')
                    else Inr (permitted ''agent_bash_allowlisted''))))"

definition decide_agent_bash ::
    "PolicyLauncher \<Rightarrow> filesystem \<Rightarrow> json \<Rightarrow> ExternalDecision \<Rightarrow> rust_panic + PermissionDecision" where
  "decide_agent_bash L fs input external =
     (if external = Deny then Inr (denied ''external_policy_denied'')
      else
        (case get_str input ''command'' of
           None \<Rightarrow> Inr (denied ''bash_command_missing'')
         | Some command \<Rightarrow>
             (case canonicalize fs (case get_str input ''cwd'' of None \<Rightarrow> worktree L | Some c \<Rightarrow> c) of
                Inl _ \<Rightarrow> Inr (denied ''cwd_outside_agent_roots'')
              | Inr cwd \<Rightarrow>
                  if \<not> is_agent_root L cwd then Inr (denied ''cwd_outside_agent_roots'')
                  else
                    (case tokenize_agent_bash command of
                       None \<Rightarrow> Inr (denied ''shell_composition_or_expansion_denied'')
                     | Some argv \<Rightarrow> decide_argv L fs cwd argv))))"

text \<open>The typed request behind a tool call other than the shell.\<close>

definition zcode_request :: "PolicyLauncher \<Rightarrow> string \<Rightarrow> json \<Rightarrow> PermissionRequest option" where
  "zcode_request L tool input =
     (if tool = ''read'' then map_option (\<lambda>p. Read (resolve_job_path L p)) (zcode_file_path input)
      else if tool = ''grep'' \<or> tool = ''glob''
      then map_option (\<lambda>p. Read (resolve_job_path L p)) (get_str input ''path'')
      else if tool = ''write'' then map_option (\<lambda>p. Write (resolve_job_path L p)) (zcode_file_path input)
      else if tool = ''edit'' then map_option (\<lambda>p. Edit (resolve_job_path L p)) (zcode_file_path input)
      else if tool = ''delete'' then map_option (\<lambda>p. Delete (resolve_job_path L p)) (zcode_file_path input)
      else if tool = ''move'' then
        (case (get_str input ''source'', get_str input ''destination'') of
           (Some s, Some d) \<Rightarrow> Some (Move (resolve_job_path L s) (resolve_job_path L d))
         | _ \<Rightarrow> None)
      else if tool = ''network'' then map_option Network (get_str input ''target'')
      else if tool = ''git_ref_mutation'' then Some GitRefMutation
      else if tool = ''execute'' \<or> tool = ''terminal'' then
        (case (get_str input ''program'',
               Option.bind (Option.bind (json_get input ''args'') as_array) (opt_collect as_str),
               get_str input ''cwd'') of
           (Some program, Some args, Some cwd) \<Rightarrow> Some (Execute program args (resolve_job_path L cwd))
         | _ \<Rightarrow> None)
      else None)"

definition decide_zcode_permission ::
    "PolicyLauncher \<Rightarrow> filesystem \<Rightarrow> json \<Rightarrow> ExternalDecision \<Rightarrow> rust_panic + PermissionDecision" where
  "decide_zcode_permission L fs params external =
     (case get_str params ''toolName'' of
        None \<Rightarrow> Inr (denied ''permission_tool_missing'')
      | Some tool_name \<Rightarrow>
          (let input = (case json_get params ''input'' of None \<Rightarrow> JNull | Some v \<Rightarrow> v) in
           if tool_name = ''Bash'' then
             (if access_mode L \<noteq> ReadOnly then
                (if interactive_bash L then
                   (if external = Deny then Inr (denied ''external_policy_denied'')
                    else Inr (permitted ''interactive_permission_required''))
                 else Inr (denied ''permission_request_unrecognized''))
              else decide_agent_bash L fs input external)
           else
             (case zcode_request L (to_ascii_lowercase tool_name) input of
                Some request \<Rightarrow> Inr (decide L fs request external)
              | None \<Rightarrow> Inr (denied ''permission_request_unrecognized''))))"

definition decide_zcode_permission_validated ::
    "PolicyLauncher \<Rightarrow> filesystem \<Rightarrow> json \<Rightarrow> ExternalDecision
     \<Rightarrow> rust_panic + PermissionDecision \<times> PermissionDenialSemantics option" where
  "decide_zcode_permission_validated L fs params external =
     res_bind (decide_zcode_permission L fs params external) (\<lambda>decision.
       Inr (decision,
            if \<not> allowed decision
            then permission_denial_semantics params
                   (if external = Deny then ''external_policy_denied'' else reason decision)
            else None))"

definition external_zcode_denial :: "json \<Rightarrow> PermissionDenialSemantics option" where
  "external_zcode_denial params = permission_denial_semantics params ''external_policy_denied''"

end
