(* ===== verification/Policy_Safety.thy ===== *)
theory Policy_Safety
  imports Policy_Launcher
begin

text \<open>
  What an allowed decision of the policy implies. Nothing is assumed of the file system: a theorem
  speaks of the paths \<open>canonicalize\<close> answered with while the decision was taken.
\<close>

section \<open>Abstract specification of a write target\<close>

text \<open>
  A resolved path may be written when it lies below the worktree, outside protected metadata, in a
  workspace-write task and below one of its tracked roots; or strictly below the scratch directory
  and outside both the worktree and the daemon's result directory.
\<close>

definition tracked_target :: "PolicyLauncher \<Rightarrow> path \<Rightarrow> bool" where
  "tracked_target L q \<longleftrightarrow>
     path_starts_with q (worktree L) \<and> \<not> protected_worktree_path (worktree L) q
     \<and> access_mode L = WorkspaceWrite \<and> (\<exists>root \<in> set (tracked_write_roots L). path_starts_with q root)"

definition scratch_target :: "PolicyLauncher \<Rightarrow> path \<Rightarrow> path \<Rightarrow> bool" where
  "scratch_target L report_root q \<longleftrightarrow>
     \<not> path_starts_with q (worktree L) \<and> \<not> path_starts_with q report_root
     \<and> path_starts_with q (scratch_root L) \<and> \<not> path_eq q (scratch_root L)"

definition writable_target :: "PolicyLauncher \<Rightarrow> path \<Rightarrow> bool" where
  "writable_target L q \<longleftrightarrow>
     (\<exists>report_root. path_parent (report_target L) = Some report_root
        \<and> (tracked_target L q \<or> scratch_target L report_root q))"

lemma path_eq_starts_with: "path_eq p q \<Longrightarrow> path_starts_with p q"
  by (simp add: path_eq_def path_starts_with_def)

lemma resolved_write_denial_None: "resolved_write_denial L q = None \<longleftrightarrow> writable_target L q"
  by (auto simp: resolved_write_denial_def writable_target_def tracked_target_def scratch_target_def
      list_ex_iff dest: path_eq_starts_with split: option.splits if_splits)

text \<open>Every path the policy resolves for one directory entry.\<close>

definition entry_writable :: "PolicyLauncher \<Rightarrow> filesystem \<Rightarrow> path \<Rightarrow> bool \<Rightarrow> bool" where
  "entry_writable L fs p must_exist \<longleftrightarrow>
     is_absolute p \<and> \<not> has_parent_dir p \<and> writable_target L p
     \<and> (case symlink_metadata fs p of
          Inr _ \<Rightarrow> (\<exists>candidate. canonical_parent_entry fs p = Inr candidate \<and> writable_target L candidate)
        | Inl e \<Rightarrow> e = NotFound \<and> \<not> must_exist
             \<and> (\<exists>candidate. resolve_nonexistent_entry fs p = Some candidate \<and> writable_target L candidate))"

lemma lexical_entry_denial_None: "lexical_entry_denial L fs p m = None \<longleftrightarrow> entry_writable L fs p m"
  by (auto simp: lexical_entry_denial_def lexical_entry_state_def entry_writable_def
      res_bind_Inr_iff res_bind_Inl_iff resolved_write_denial_None [symmetric]
      split: sum.splits option.splits if_splits)

lemma lexical_entry_state_Inr:
  "lexical_entry_state L fs p m = Inr st \<longleftrightarrow>
     entry_writable L fs p m \<and> st = (case symlink_metadata fs p of Inr _ \<Rightarrow> Existing | Inl _ \<Rightarrow> Missing)"
  by (auto simp: lexical_entry_state_def entry_writable_def res_bind_Inr_iff
      resolved_write_denial_None [symmetric] split: sum.splits option.splits if_splits)

lemma followed_write_denial_None:
  "followed_write_denial L fs p m = None \<longleftrightarrow>
     entry_writable L fs p m
     \<and> (symlink_metadata fs p = Inr () \<longrightarrow> (\<exists>q. canonicalize fs p = Inr q \<and> writable_target L q))"
proof (cases "lexical_entry_state L fs p m")
  case (Inl r)
  then have "\<not> entry_writable L fs p m"
    using lexical_entry_denial_None [of L fs p m] by (simp add: lexical_entry_denial_def)
  with Inl show ?thesis by (simp add: followed_write_denial_def)
next
  case (Inr st)
  have "entry_writable L fs p m"
    and st: "st = (case symlink_metadata fs p of Inr _ \<Rightarrow> Existing | Inl _ \<Rightarrow> Missing)"
    using Inr by (simp_all add: lexical_entry_state_Inr)
  then show ?thesis
    by (auto simp: followed_write_denial_def Inr canonical_write_denial_def
        resolved_write_denial_None split: sum.splits)
qed

lemma decide_allowed:
  "allowed (decide L fs request external) \<longleftrightarrow> hard_deny_reason L fs request = None \<and> external = Allow"
  by (cases external) (auto simp: decide_def split: option.splits)

section \<open>Mutations of the disk\<close>

definition target_writable :: "PolicyLauncher \<Rightarrow> filesystem \<Rightarrow> path \<Rightarrow> bool" where
  "target_writable L fs p =
     (case symlink_metadata fs p of
        Inl _ \<Rightarrow> True
      | Inr _ \<Rightarrow> (case canonicalize fs p of Inl _ \<Rightarrow> False | Inr q \<Rightarrow> writable_target L q))"

lemma followed_write_denial_iff:
  "followed_write_denial L fs p m = None \<longleftrightarrow> entry_writable L fs p m \<and> target_writable L fs p"
  by (auto simp: followed_write_denial_None target_writable_def split: sum.splits)

lemma move_denial_iff:
  "hard_deny_reason L fs (Move p q) = None \<longleftrightarrow> entry_writable L fs p True \<and> entry_writable L fs q False"
  by (cases "lexical_entry_denial L fs p True")
    (simp_all add: lexical_entry_denial_None [symmetric])

declare hard_deny_reason.simps(8) [simp del]

text \<open>
  C4. A mutation is allowed exactly when the external decision allows it and the paths it names are
  writable: the path as written is absolute, free of parent components and a writable target, and so
  is the path its directory entry resolves to (the canonical parent with the entry's name, or the
  canonical nearest existing ancestor with the missing names when nothing exists there). A write or an
  edit follows links, so the canonical target of an existing entry must be writable too; an edit, a
  deletion and the source of a move demand that the entry exists.
\<close>

theorem decide_mutation_iff:
  "(allowed (decide L fs (Write p) external) \<longleftrightarrow>
      external = Allow \<and> entry_writable L fs p False \<and> target_writable L fs p)
   \<and> (allowed (decide L fs (Edit p) external) \<longleftrightarrow>
      external = Allow \<and> entry_writable L fs p True \<and> target_writable L fs p)
   \<and> (allowed (decide L fs (Delete p) external) \<longleftrightarrow> external = Allow \<and> entry_writable L fs p True)
   \<and> (allowed (decide L fs (Move p q) external) \<longleftrightarrow>
      external = Allow \<and> entry_writable L fs p True \<and> entry_writable L fs q False)"
  by (auto simp: decide_allowed followed_write_denial_iff move_denial_iff lexical_entry_denial_None
      split del: option.split)

text \<open>The paths a request changes, as the file system resolves them.\<close>

definition entry_paths :: "filesystem \<Rightarrow> path \<Rightarrow> path list" where
  "entry_paths fs p =
     p # (case symlink_metadata fs p of
            Inr _ \<Rightarrow> (case canonical_parent_entry fs p of Inr c \<Rightarrow> [c] | Inl _ \<Rightarrow> [])
          | Inl _ \<Rightarrow> (case resolve_nonexistent_entry fs p of Some c \<Rightarrow> [c] | None \<Rightarrow> []))"

definition target_paths :: "filesystem \<Rightarrow> path \<Rightarrow> path list" where
  "target_paths fs p =
     (case symlink_metadata fs p of
        Inl _ \<Rightarrow> []
      | Inr _ \<Rightarrow> (case canonicalize fs p of Inl _ \<Rightarrow> [] | Inr q \<Rightarrow> [q]))"

fun request_writes :: "filesystem \<Rightarrow> PermissionRequest \<Rightarrow> path list" where
  "request_writes fs (Write p) = entry_paths fs p @ target_paths fs p"
| "request_writes fs (Edit p) = entry_paths fs p @ target_paths fs p"
| "request_writes fs (Delete p) = entry_paths fs p"
| "request_writes fs (Move p q) = entry_paths fs p @ entry_paths fs q"
| "request_writes fs _ = []"

lemma entry_paths_writable: "entry_writable L fs p m \<Longrightarrow> list_all (writable_target L) (entry_paths fs p)"
  by (auto simp: entry_writable_def entry_paths_def split: sum.splits option.splits)

lemma target_paths_writable: "target_writable L fs p \<Longrightarrow> list_all (writable_target L) (target_paths fs p)"
  by (auto simp: target_writable_def target_paths_def split: sum.splits)

lemma allowed_writes_writable:
  "allowed (decide L fs request external) \<Longrightarrow> list_all (writable_target L) (request_writes fs request)"
  by (cases request)
    (auto simp: decide_allowed followed_write_denial_iff move_denial_iff lexical_entry_denial_None
      intro: entry_paths_writable target_paths_writable)

lemma writable_target_read_only:
  assumes "writable_target L q" "access_mode L = ReadOnly"
  shows "\<not> path_starts_with q (worktree L) \<and> path_starts_with q (scratch_root L)"
  using assms by (auto simp: writable_target_def tracked_target_def scratch_target_def)

text \<open>
  In a read-only task no allowed request changes the worktree: every path an allowed write, edit,
  deletion or move changes, as written and as the file system resolves it, is outside the worktree and
  below the task's scratch directory.
\<close>

theorem read_only_keeps_worktree:
  assumes "access_mode L = ReadOnly" and "allowed (decide L fs request external)"
    and "q \<in> set (request_writes fs request)"
  shows "\<not> path_starts_with q (worktree L) \<and> path_starts_with q (scratch_root L)"
  using writable_target_read_only assms allowed_writes_writable [OF assms(2)]
  by (auto simp: list_all_iff)

section \<open>Reads\<close>

text \<open>
  A read is allowed exactly when the external decision allows it, the path as written is no
  credential path, and it resolves to a path below the worktree or a readable input that enters no
  agent metadata.
\<close>

theorem decide_read_iff:
  "allowed (decide L fs (Read p) external) \<longleftrightarrow>
     external = Allow \<and> \<not> is_credential_path p
     \<and> (\<exists>q. canonicalize fs p = Inr q \<and> is_agent_root L q \<and> \<not> enters_agent_metadata L q)"
  by (auto simp: decide_allowed is_agent_root_def split: sum.splits if_splits)

section \<open>The read-only shell\<close>

definition confined_operand :: "PolicyLauncher \<Rightarrow> filesystem \<Rightarrow> path \<Rightarrow> string \<Rightarrow> bool" where
  "confined_operand L fs cwd arg \<longleftrightarrow>
     (\<exists>real. canonicalize fs (if is_absolute arg then arg else path_join cwd arg) = Inr real
        \<and> is_agent_root L real \<and> \<not> is_credential_path real \<and> \<not> enters_agent_metadata L real)"

lemma agent_path_confined_operand: "agent_path_confined L fs cwd m arg \<Longrightarrow> confined_operand L fs cwd arg"
  by (auto simp: agent_path_confined_def confined_operand_def split: if_splits sum.splits)

lemma program_Nil_not_allowed [simp]: "\<not> agent_bash_program_allowed []"
  by code_simp

lemma decide_argv_allowed:
  assumes "decide_argv L fs cwd argv = Inr d" "allowed d"
  obtains program args operands where "argv = program # args"
    and "agent_bash_program_allowed program"
    and "program = ''sed'' \<longrightarrow> valid_agent_sed args"
    and "program = ''git'' \<longrightarrow> valid_agent_git args"
    and "agent_bash_path_operands program args = Some operands"
    and "list_all (confined_operand L fs cwd) operands"
proof (cases argv)
  case Nil
  with assms show thesis
    by (auto simp: decide_argv_def)
next
  case (Cons program args)
  from assms Cons obtain operands where *: "agent_bash_program_allowed program"
      "program = ''sed'' \<longrightarrow> valid_agent_sed args" "program = ''git'' \<longrightarrow> valid_agent_git args"
      "agent_bash_path_operands program args = Some operands"
    and "list_all (agent_path_confined L fs cwd (program \<in> set file_programs)) operands"
    by (auto simp: decide_argv_def Let_def agent_paths_confined_def res_bind_Inr_iff
        split: if_splits option.splits)
  then have "list_all (confined_operand L fs cwd) operands"
    by (auto simp: list_all_iff dest: agent_path_confined_operand)
  with Cons * show thesis by (rule that)
qed


text \<open>
  An external denial is final: under it neither a typed request, nor a raw permission request, nor
  a shell command is allowed, whatever the launcher, the file system and the request are.
\<close>

theorem external_deny_dominates:
  "\<not> allowed (decide L fs request Deny)
   \<and> decide_agent_bash L fs input Deny = Inr (denied ''external_policy_denied'')
   \<and> (\<exists>d. decide_zcode_permission L fs params Deny = Inr d \<and> \<not> allowed d)"
  by (auto simp: decide_allowed decide_zcode_permission_def decide_agent_bash_def Let_def
      split: option.splits)

text \<open>The only panic is the slice taken of a command that is the single word \<open>git\<close>.\<close>

lemma git_allowed: "agent_bash_program_allowed ''git''"
  by code_simp

lemma decide_argv_panic: "decide_argv L fs cwd argv = Inl e \<longleftrightarrow> argv = [''git''] \<and> e = SliceStartOutOfRange"
proof (cases argv)
  case (Cons program args)
  then show ?thesis
    by (cases args)
      (auto simp: decide_argv_def Let_def argv_from_two_def git_allowed split: if_splits option.splits)
qed (simp add: decide_argv_def)

text \<open>
  C39. The decision on a raw permission request returns for every input but one: it panics exactly when
  a read-only task asks to run, from a directory below its roots, a shell command that tokenizes to the
  single word \<open>git\<close>.
\<close>

theorem decide_zcode_permission_panics_iff:
  "(\<exists>e. decide_zcode_permission L fs params external = Inl e) \<longleftrightarrow>
     get_str params ''toolName'' = Some ''Bash'' \<and> access_mode L = ReadOnly \<and> external = Allow
     \<and> (\<exists>input command cwd. json_get params ''input'' = Some input
          \<and> get_str input ''command'' = Some command
          \<and> canonicalize fs (case get_str input ''cwd'' of None \<Rightarrow> worktree L | Some c \<Rightarrow> c) = Inr cwd
          \<and> is_agent_root L cwd \<and> tokenize_agent_bash command = Some [''git''])"
proof -
  have "get_str JNull k = None" for k by (simp add: get_str_def)
  then show ?thesis
    by (cases external; cases "access_mode L")
      (auto simp: decide_zcode_permission_def decide_agent_bash_def decide_argv_panic Let_def
        split: option.splits sum.splits if_splits)
qed

section \<open>Construction of a general task's launcher\<close>

lemma fs_canonicalize_Inr: "fs_canonicalize fs p = Inr q \<longleftrightarrow> canonicalize fs p = Inr q"
  by (simp add: fs_canonicalize_def split: sum.splits)

lemma launcher_new_Inr:
  assumes "launcher_new fs wt scratch report inputs network caps = Inr L"
  shows "canonicalize fs wt = Inr (worktree L) \<and> canonicalize fs scratch = Inr (scratch_root L)
    \<and> access_mode L = ReadOnly \<and> tracked_write_roots L = [] \<and> network_allowed L = network
    \<and> \<not> interactive_bash L \<and> length (readable_inputs L) = length inputs
    \<and> (\<forall>i < length inputs. canonicalize fs (inputs ! i) = Inr (readable_inputs L ! i))"
  using assms
  by (auto simp: launcher_new_def res_bind_Inr_iff fs_canonicalize_Inr res_collect_Inr
      list_all2_conv_all_nth)

lemma tracked_root_confined:
  assumes "tracked_root wt r = Inr q" and "wt \<noteq> []"
  shows "path_starts_with q wt \<and> \<not> protected_worktree_path wt q"
  using assms path_join_starts_with
  by (auto simp: tracked_root_def res_bind_Inr_iff lexical_confined_path_Inr split: if_splits)

text \<open>
  A launcher built for a general task starts from resolved roots and gets no network access and no
  interactive shell. Its tracked write roots lie below the resolved worktree and outside protected
  metadata, one for each declared root; a read-only launcher has none. The hypothesis on
  \<open>canonicalize\<close> is its documented behaviour: what it returns is absolute.
\<close>

theorem for_general_launcher:
  assumes canonical: "\<forall>p q. canonicalize fs p = Inr q \<longrightarrow> is_absolute q"
    and built: "for_general fs wt scratch result_target inputs caps mode roots = Inr L"
  shows "canonicalize fs wt = Inr (worktree L) \<and> canonicalize fs scratch = Inr (scratch_root L)
    \<and> access_mode L = mode \<and> \<not> network_allowed L \<and> \<not> interactive_bash L
    \<and> length (tracked_write_roots L) = length roots
    \<and> (mode = ReadOnly \<longrightarrow> tracked_write_roots L = [])
    \<and> (\<forall>r \<in> set (tracked_write_roots L).
         path_starts_with r (worktree L) \<and> \<not> protected_worktree_path (worktree L) r)"
proof -
  from built obtain L0 where new: "launcher_new fs wt scratch result_target inputs False caps = Inr L0"
    and L: "L = L0\<lparr>access_mode := mode, tracked_write_roots := tracked_write_roots L\<rparr>"
    and roots: "mode = WorkspaceWrite \<and> res_collect (tracked_root (worktree L0)) roots = Inr (tracked_write_roots L)
      \<or> mode = ReadOnly \<and> roots = [] \<and> tracked_write_roots L = []"
    by (cases mode) (auto simp: for_general_def res_bind_Inr_iff split: if_splits)
  note facts = launcher_new_Inr [OF new]
  then have "worktree L0 \<noteq> []" using canonical by fastforce
  then have "\<forall>r \<in> set (tracked_write_roots L).
      path_starts_with r (worktree L0) \<and> \<not> protected_worktree_path (worktree L0) r"
    using roots tracked_root_confined by (auto dest!: res_collect_set)
  moreover have "length (tracked_write_roots L) = length roots"
    using roots by (auto simp: res_collect_Inr dest: list_all2_lengthD)
  moreover have "worktree L = worktree L0" "scratch_root L = scratch_root L0" "access_mode L = mode"
    "network_allowed L = network_allowed L0" "interactive_bash L = interactive_bash L0"
    by (subst L, simp)+
  ultimately show ?thesis using facts roots by auto
qed

section \<open>Refusals carry their reason\<close>

lemma resolved_write_denial_nonempty: "resolved_write_denial L q = Some r \<Longrightarrow> r \<noteq> []"
  by (auto simp: resolved_write_denial_def split: option.splits if_splits)

lemma lexical_entry_state_nonempty: "lexical_entry_state L fs p m = Inl r \<Longrightarrow> r \<noteq> []"
  by (auto simp: lexical_entry_state_def canonical_parent_entry_def res_bind_Inl_iff ok_or_def
      dest: resolved_write_denial_nonempty split: option.splits sum.splits if_splits)

lemma lexical_entry_denial_nonempty: "lexical_entry_denial L fs p m = Some r \<Longrightarrow> r \<noteq> []"
  by (auto simp: lexical_entry_denial_def dest: lexical_entry_state_nonempty split: sum.splits)

lemma followed_write_denial_nonempty: "followed_write_denial L fs p m = Some r \<Longrightarrow> r \<noteq> []"
  by (auto simp: followed_write_denial_def canonical_write_denial_def
      dest: lexical_entry_state_nonempty resolved_write_denial_nonempty
      split: sum.splits EntryState.splits)

lemma hard_deny_reason_nonempty: "hard_deny_reason L fs request = Some r \<Longrightarrow> r \<noteq> []"
  by (cases request)
    (auto simp: hard_deny_reason.simps(8) dest: lexical_entry_denial_nonempty followed_write_denial_nonempty
      split: if_splits sum.splits option.splits)

lemma decide_reason_nonempty: "reason (decide L fs request external) \<noteq> []"
  using hard_deny_reason_nonempty by (auto simp: decide_def split: option.splits)

lemma decide_agent_bash_reason_nonempty:
  "decide_agent_bash L fs input external = Inr d \<Longrightarrow> reason d \<noteq> []"
  by (auto simp: decide_agent_bash_def decide_argv_def Let_def res_bind_Inr_iff
      split: if_splits option.splits sum.splits)

lemma decide_zcode_permission_reason_nonempty:
  "decide_zcode_permission L fs params external = Inr d \<Longrightarrow> reason d \<noteq> []"
  using decide_reason_nonempty decide_agent_bash_reason_nonempty
  by (auto simp: decide_zcode_permission_def Let_def split: if_splits option.splits)

lemma permission_denial_semantics_code:
  "\<exists>sem. permission_denial_semantics params r = Some sem \<and> (r \<noteq> [] \<longrightarrow> reason_code sem = r)"
  by (auto simp: permission_denial_semantics_def Let_def split: prod.splits)

text \<open>
  The validated decision attaches a denial identity exactly to a refusal, and the reason code of
  that identity, from which the feedback to the agent is rendered, is the reason of the decision, or
  the external denial when the external policy denied. It is never the code inferred from the request.
\<close>

theorem validated_denial_reason:
  assumes "decide_zcode_permission_validated L fs params external = Inr (d, sem)"
  shows "if allowed d then sem = None
    else \<exists>s. sem = Some s
      \<and> reason_code s = (if external = Deny then ''external_policy_denied'' else reason d)"
proof -
  have "reason d \<noteq> []"
    using assms decide_zcode_permission_reason_nonempty
    by (auto simp: decide_zcode_permission_validated_def res_bind_Inr_iff)
  then show ?thesis
    using assms permission_denial_semantics_code [of params "reason d"]
      permission_denial_semantics_code [of params "''external_policy_denied''"]
    by (auto simp: decide_zcode_permission_validated_def res_bind_Inr_iff split: if_splits)
qed

section \<open>A concrete task\<close>

text \<open>
  A worktree \<open>/w\<close> with a link \<open>/w/link\<close> to \<open>/etc/passwd\<close> and a link \<open>/w/notes\<close> to \<open>/w/.env\<close>. Every
  path below it exists but those ending in \<open>new\<close>.
\<close>

definition example_canonicalize :: "path \<Rightarrow> io_error + path" where
  "example_canonicalize p =
     (if \<not> is_absolute p \<or> ends_with p ''new'' then Inl NotFound
      else if p = ''/w/link'' then Inr ''/etc/passwd''
      else if p = ''/w/notes'' then Inr ''/w/.env''
      else Inr p)"

definition example_fs :: filesystem where
  "example_fs = \<lparr>canonicalize = example_canonicalize,
     symlink_metadata = (\<lambda>p. if ends_with p ''new'' then Inl NotFound else Inr ()),
     is_dir = (\<lambda>p. True), is_file = (\<lambda>p. True)\<rparr>"

definition example_launcher :: "AccessMode \<Rightarrow> path list \<Rightarrow> PolicyLauncher" where
  "example_launcher mode roots =
     \<lparr>worktree = ''/w'', scratch_root = ''/s'', report_target = ''/r/result.md'', readable_inputs = [],
      network_allowed = False, capabilities = capabilities_for_network False, access_mode = mode,
      tracked_write_roots = roots, interactive_bash = False\<rparr>"

definition bash_input :: "string \<Rightarrow> json" where
  "bash_input command = JObject [(''command'', JString command)]"

lemma example_canonicalize_absolute: "\<forall>p q. canonicalize example_fs p = Inr q \<longrightarrow> is_absolute q"
  by (auto simp: example_fs_def example_canonicalize_def split: if_splits)

theorem read_only_keeps_worktree_witness:
  "access_mode (example_launcher ReadOnly []) = ReadOnly
   \<and> allowed (decide (example_launcher ReadOnly []) example_fs (Write ''/s/a/new'') Allow)
   \<and> ''/s/a/new'' \<in> set (request_writes example_fs (Write ''/s/a/new''))
   \<and> \<not> path_starts_with ''/s/a/new'' ''/w'' \<and> path_starts_with ''/s/a/new'' ''/s''"
proof -
  have *: "access_mode (example_launcher ReadOnly []) = ReadOnly"
    "allowed (decide (example_launcher ReadOnly []) example_fs (Write ''/s/a/new'') Allow)"
    "''/s/a/new'' \<in> set (request_writes example_fs (Write ''/s/a/new''))"
    by code_simp+
  from read_only_keeps_worktree [OF *] * show ?thesis by (simp add: example_launcher_def)
qed

definition network_params :: json where
  "network_params =
     JObject [(''toolName'', JString ''network''), (''input'', JObject [(''target'', JString ''x'')])]"

theorem validated_denial_reason_witness:
  "\<exists>s. permission_denial_semantics network_params ''network_not_enforced_and_request_denied'' = Some s
     \<and> reason_code s = ''network_not_enforced_and_request_denied''"
proof -
  have "decide_zcode_permission (example_launcher ReadOnly []) example_fs network_params Allow
      = Inr (denied ''network_not_enforced_and_request_denied'')"
    by code_simp
  then have "decide_zcode_permission_validated (example_launcher ReadOnly []) example_fs network_params Allow
      = Inr (denied ''network_not_enforced_and_request_denied'',
             permission_denial_semantics network_params ''network_not_enforced_and_request_denied'')"
    by (simp add: decide_zcode_permission_validated_def)
  from validated_denial_reason [OF this] show ?thesis by simp
qed


theorem for_general_launcher_witness:
  "\<exists>L. for_general example_fs ''/w'' ''/s'' ''/r/result.md'' [] (capabilities_for_network False)
          WorkspaceWrite [''src'', ''docs/new''] = Inr L
     \<and> access_mode L = WorkspaceWrite
     \<and> (\<forall>r \<in> set (tracked_write_roots L). path_starts_with r (worktree L))"
proof -
  have "for_general example_fs ''/w'' ''/s'' ''/r/result.md'' [] (capabilities_for_network False)
      WorkspaceWrite [''src'', ''docs/new''] = Inr (example_launcher WorkspaceWrite [''/w/src'', ''/w/docs/new''])"
    by code_simp
  then have "\<exists>L. for_general example_fs ''/w'' ''/s'' ''/r/result.md'' []
      (capabilities_for_network False) WorkspaceWrite [''src'', ''docs/new''] = Inr L"
    by (rule exI)
  then obtain L where built: "for_general example_fs ''/w'' ''/s'' ''/r/result.md'' []
      (capabilities_for_network False) WorkspaceWrite [''src'', ''docs/new''] = Inr L"
    by (rule exE)
  note facts = for_general_launcher [OF example_canonicalize_absolute built]
  have mode: "access_mode L = WorkspaceWrite" using facts by (elim conjE)
  have roots: "\<forall>r \<in> set (tracked_write_roots L). path_starts_with r (worktree L)"
    using facts by (elim conjE) auto
  show ?thesis by (rule exI, rule conjI [OF built conjI [OF mode roots]])
qed

section \<open>Where the policy decides otherwise than it says\<close>

text \<open>
  The shell's \<open>$(\<dots>)\<close> is accepted inside double quotes, though the refusal is documented as one of
  expansion: the tokenizer looks for metacharacters outside quotes only.
\<close>

lemma quoted_expansion_accepted:
  "tokenize_agent_bash ''rg \"$(id)\" src'' = Some [''rg'', ''$(id)'', ''src'']"
  by code_simp

text \<open>
  An empty quoted word is dropped, so that \<open>rg\<close> receives an empty pattern and \<open>/etc/passwd\<close> as its
  path, while the policy takes \<open>/etc/passwd\<close> for the pattern and checks no path.
\<close>

lemma empty_word_dropped:
  "decide_agent_bash (example_launcher ReadOnly []) example_fs (bash_input ''rg \"\" /etc/passwd'') Allow
   = Inr (permitted ''agent_bash_allowlisted'')"
  by code_simp

text \<open>
  \<open>--no-pager\<close> after the separator shifts the index of the git subcommand, and the operand behind it, a
  link to a file outside the roots, is not checked.
\<close>

lemma no_pager_skips_operand:
  "decide_agent_bash (example_launcher ReadOnly []) example_fs (bash_input ''git diff -- --no-pager link'') Allow
   = Inr (permitted ''agent_bash_allowlisted'')
   \<and> \<not> confined_operand (example_launcher ReadOnly []) example_fs ''/w'' ''link''"
proof
  show "decide_agent_bash (example_launcher ReadOnly []) example_fs (bash_input ''git diff -- --no-pager link'') Allow
   = Inr (permitted ''agent_bash_allowlisted'')"
    by code_simp
  have "canonicalize example_fs (if is_absolute ''link'' then ''link'' else path_join ''/w'' ''link'') = Inr ''/etc/passwd''"
    "\<not> is_agent_root (example_launcher ReadOnly []) ''/etc/passwd''"
    by code_simp+
  then show "\<not> confined_operand (example_launcher ReadOnly []) example_fs ''/w'' ''link''"
    by (simp add: confined_operand_def)
qed

text \<open>A read follows a link to a credential file: only the path as written is compared with the names.\<close>

lemma linked_credential_read:
  "canonicalize example_fs ''/w/notes'' = Inr ''/w/.env'' \<and> is_credential_path ''/w/.env''
   \<and> allowed (decide (example_launcher ReadOnly []) example_fs (Read ''/w/notes'') Allow)"
  by code_simp

text \<open>A request to execute a program is never refused by the local rules, in either access mode.\<close>

lemma execute_never_hard_denied:
  "hard_deny_reason L fs (Execute program args cwd) = None
   \<and> exact_command_allowlist (capabilities_for_network network)"
  by (simp add: capabilities_for_network_def)

end
