(* ===== verification/General_Task.thy ===== *)
theory General_Task
  imports Policy_Safety "HOL-Library.Word"
begin

text \<open>
  General tasks (\<open>external-core/src/general.rs\<close>): the submitted manifest and its validation, the
  allocation of a scratch directory, the prepared task, the launcher built from it, and the completion
  record. The host (temporary directory, directory creation, clock, entropy, JSON encoder and SHA-256)
  is the record \<open>submission_host\<close>, an argument of the functions that use it.
\<close>

section \<open>Data\<close>

datatype PermissionMode = BuildMode | EditMode | PlanMode | YoloMode

definition permission_access_mode :: "PermissionMode \<Rightarrow> AccessMode" where
  "permission_access_mode m =
     (case m of PlanMode \<Rightarrow> ReadOnly | BuildMode \<Rightarrow> WorkspaceWrite | EditMode \<Rightarrow> WorkspaceWrite
      | YoloMode \<Rightarrow> WorkspaceWrite)"

definition GENERAL_TASK_SCHEMA :: string where
  "GENERAL_TASK_SCHEMA = ''zcode-general-task/v1''"

definition MAX_PROMPT_BYTES :: nat where
  "MAX_PROMPT_BYTES = 256 * 1024"

record GeneralTaskManifest =
  manifest_schema :: string
  manifest_agent_id :: string
  manifest_repository :: path
  manifest_permission_mode :: "PermissionMode option"
  manifest_prompt :: string
  manifest_write :: "path list"

record PreparedWorkspace =
  workspace_dir :: path
  workspace_scratch_root :: path

record AdmissionIdentity =
  admitted_agent :: string
  config_revision :: "64 word"
  adapter_version :: string
  admitted_model :: "string option"
  model_source :: string
  admitted_effort :: "string option"
  developer_instructions :: "string option"

record PreparedGeneralTask =
  admission :: "AdmissionIdentity option"
  prepared_schema :: string
  prepared_agent_id :: string
  prepared_repository :: path
  prepared_workspace :: PreparedWorkspace
  permission_mode :: PermissionMode
  write_manifest :: "path list"

datatype CompletionOutcome = Completed | Failed | Cancelled | TimedOut | RuntimeLost | ResultInvalid

record GeneralCompletion =
  completion_outcome :: CompletionOutcome
  completion_reason_code :: "string option"
  completion_summary :: string
  residual_gaps :: "string list"
  cleaned :: bool
  failure_message :: "string option"

text \<open>
  What a submission observes of the host. The clock, the entropy source and the encoder are read at
  each attempt, which the attempt's nonce identifies.
\<close>

record submission_host =
  temp_dir :: path
  create_dir_all :: "path \<Rightarrow> io_error + unit"
  create_dir :: "path \<Rightarrow> io_error + unit"
  now_nanos :: "64 word \<Rightarrow> nat"
  urandom :: "64 word \<Rightarrow> string"
  submission_json :: "path \<times> string \<times> nat \<times> 64 word \<times> string \<Rightarrow> string + string"
  sha256_hex :: "string \<Rightarrow> string"

section \<open>Validation\<close>

definition identifier_byte :: "char \<Rightarrow> bool" where
  "identifier_byte b \<longleftrightarrow> is_ascii_alphanumeric b \<or> b \<in> set ''-_.:''"

text \<open>The set \<open>unique\<close> compares paths by their components.\<close>

fun has_duplicate :: "path list \<Rightarrow> path list \<Rightarrow> bool" where
  "has_duplicate unique [] = False"
| "has_duplicate unique (p # ps) = (list_ex (path_eq p) unique \<or> has_duplicate (p # unique) ps)"

definition validate_manifest :: "GeneralTaskManifest \<Rightarrow> PreparationError + unit" where
  "validate_manifest m =
     (if manifest_schema m \<noteq> GENERAL_TASK_SCHEMA
      then Inl (InvalidManifest ''unsupported general task schema'')
      else if manifest_agent_id m = [] \<or> 256 < length (manifest_agent_id m)
              \<or> \<not> list_all identifier_byte (manifest_agent_id m)
              \<or> trim (manifest_prompt m) = [] \<or> MAX_PROMPT_BYTES < length (manifest_prompt m)
              \<or> CHR 0x00 \<in> set (manifest_prompt m)
      then Inl (InvalidManifest ''invalid task identity or prompt'')
      else if has_duplicate [] (manifest_write m)
      then Inl (InvalidManifest ''write_manifest contains duplicates'')
      else Inr ())"

definition confined_relative :: "path \<Rightarrow> PreparationError + path" where
  "confined_relative p =
     (if p = [] \<or> is_absolute p \<or> list_ex (\<lambda>c. c = ParentDir \<or> c = RootDir) (components p)
      then Inl (InvalidPath p ''path must be repository-relative'')
      else Inr (path_of_components (components p)))"

definition validate_write_scope :: "PermissionMode \<Rightarrow> path list \<Rightarrow> PreparationError + unit" where
  "validate_write_scope mode ps =
     (if mode = PlanMode \<and> ps \<noteq> []
      then Inl (InvalidManifest ''plan mode does not accept a write manifest'')
      else if list_ex (\<lambda>p. list_ex (\<lambda>c. c = Normal ''.git'' \<or> c = Normal ''.gitmodules'') (components p)) ps
      then Inl (PolicyError ''protected repository metadata path'')
      else Inr ())"

definition is_public_task_id :: "string \<Rightarrow> bool" where
  "is_public_task_id v \<longleftrightarrow> length v = 8 \<and> list_all is_ascii_digit v"

text \<open>On a host that is not Windows \<open>project_verbatim\<close> is the identity.\<close>

definition canonical_general_repository :: "filesystem \<Rightarrow> path \<Rightarrow> PreparationError + path" where
  "canonical_general_repository fs p =
     (if \<not> is_absolute p then Inl (InvalidPath p ''repository must be absolute'')
      else
        (case canonicalize fs p of
           Inl e \<Rightarrow> Inl (IoError e)
         | Inr canonical \<Rightarrow>
             if \<not> is_dir fs canonical
             then Inl (InvalidPath canonical ''workspace is not a directory'')
             else Inr canonical))"

section \<open>Preparation\<close>

text \<open>
  The loop over \<open>attempts\<close> names. The counter \<open>SUBMISSION_NONCE\<close> is threaded as the state: every
  attempt takes its value and adds one, at 64 bits.
\<close>

fun allocate_loop ::
    "submission_host \<Rightarrow> filesystem \<Rightarrow> path \<Rightarrow> path \<Rightarrow> string \<Rightarrow> nat \<Rightarrow> 64 word
     \<Rightarrow> (PreparationError + string \<times> path) \<times> 64 word" where
  "allocate_loop h fs parent repository agent_id 0 nonce =
     (Inl (InvalidManifest ''could not allocate a unique task scratch directory''), nonce)"
| "allocate_loop h fs parent repository agent_id (Suc attempts) nonce =
     (case submission_json h (repository, agent_id, now_nanos h nonce, nonce, urandom h nonce) of
        Inl e \<Rightarrow> (Inl (JsonError e), nonce + 1)
      | Inr bytes \<Rightarrow>
          (let root = path_join parent (agent_id @ ''-'' @ sha256_hex h bytes) in
           case create_dir h root of
             Inr _ \<Rightarrow>
               (case canonicalize fs root of
                  Inl e \<Rightarrow> (Inl (IoError e), nonce + 1)
                | Inr scratch \<Rightarrow> (Inr (agent_id, scratch), nonce + 1))
           | Inl e \<Rightarrow>
               if e = AlreadyExists
               then allocate_loop h fs parent repository agent_id attempts (nonce + 1)
               else (Inl (IoError e), nonce + 1)))"

definition allocate_submission ::
    "submission_host \<Rightarrow> filesystem \<Rightarrow> path \<Rightarrow> string \<Rightarrow> 64 word
     \<Rightarrow> (PreparationError + string \<times> path) \<times> 64 word" where
  "allocate_submission h fs repository agent_id nonce =
     (let parent = path_join (temp_dir h) ''external-subagent'' in
      case create_dir_all h parent of
        Inl e \<Rightarrow> (Inl (IoError e), nonce)
      | Inr _ \<Rightarrow> allocate_loop h fs parent repository agent_id 32 nonce)"

definition effective_manifest ::
    "PermissionMode \<Rightarrow> path list \<Rightarrow> path list" where
  "effective_manifest mode ps = (if mode \<noteq> PlanMode \<and> ps = [] then [''.''] else ps)"

definition prepare_direct_submission ::
    "submission_host \<Rightarrow> filesystem \<Rightarrow> GeneralTaskManifest \<Rightarrow> 64 word
     \<Rightarrow> (PreparationError + PreparedGeneralTask) \<times> 64 word" where
  "prepare_direct_submission h fs m nonce =
     (case validate_manifest m of
        Inl e \<Rightarrow> (Inl e, nonce)
      | Inr _ \<Rightarrow>
     (case canonical_general_repository fs (manifest_repository m) of
        Inl e \<Rightarrow> (Inl e, nonce)
      | Inr repository \<Rightarrow>
     (case allocate_submission h fs repository (manifest_agent_id m) nonce of
        (Inl e, nonce') \<Rightarrow> (Inl e, nonce')
      | (Inr (allocated, scratch), nonce') \<Rightarrow>
          (let agent_id = (if is_public_task_id (manifest_agent_id m) then manifest_agent_id m else allocated);
               mode = (case manifest_permission_mode m of None \<Rightarrow> BuildMode | Some pm \<Rightarrow> pm) in
           (res_bind (res_collect confined_relative (manifest_write m)) (\<lambda>confined.
            res_bind (validate_write_scope mode (effective_manifest mode confined)) (\<lambda>_.
              Inr \<lparr>admission = None, prepared_schema = manifest_schema m, prepared_agent_id = agent_id,
                   prepared_repository = repository,
                   prepared_workspace = \<lparr>workspace_dir = repository, workspace_scratch_root = scratch\<rparr>,
                   permission_mode = mode, write_manifest = effective_manifest mode confined\<rparr>)),
            nonce')))))"

definition with_admission :: "AdmissionIdentity \<Rightarrow> PreparedGeneralTask \<Rightarrow> PreparedGeneralTask" where
  "with_admission identity p = p\<lparr>admission := Some identity\<rparr>"

section \<open>The launcher of a prepared task\<close>

definition build_launcher ::
    "filesystem \<Rightarrow> PreparedGeneralTask \<Rightarrow> path list \<Rightarrow> PreparationError + PolicyLauncher" where
  "build_launcher fs p inputs =
     for_general fs (workspace_dir (prepared_workspace p)) (workspace_scratch_root (prepared_workspace p))
       (path_join (workspace_scratch_root (prepared_workspace p)) ''result.json'')
       inputs (capabilities_for_network False) (permission_access_mode (permission_mode p))
       (write_manifest p)"

definition task_launcher :: "filesystem \<Rightarrow> PreparedGeneralTask \<Rightarrow> PreparationError + PolicyLauncher" where
  "task_launcher fs p = build_launcher fs p []"

definition resume_launcher ::
    "submission_host \<Rightarrow> filesystem \<Rightarrow> PreparedGeneralTask \<Rightarrow> PreparationError + PolicyLauncher" where
  "resume_launcher h fs p =
     (case create_dir_all h (workspace_scratch_root (prepared_workspace p)) of
        Inl e \<Rightarrow> Inl (IoError e)
      | Inr _ \<Rightarrow> build_launcher fs p [])"

section \<open>Completion\<close>

definition retry_cleanup :: "PreparedGeneralTask \<Rightarrow> GeneralCompletion \<Rightarrow> GeneralCompletion" where
  "retry_cleanup p persisted = persisted\<lparr>cleaned := True\<rparr>"

definition finalize_completion :: "PreparedGeneralTask \<Rightarrow> CompletionOutcome \<Rightarrow> GeneralCompletion" where
  "finalize_completion p requested =
     \<lparr>completion_outcome = requested, completion_reason_code = None, completion_summary = [],
      residual_gaps = [], cleaned = True, failure_message = None\<rparr>"

definition finish_cleanup :: "PreparedGeneralTask \<Rightarrow> GeneralCompletion \<Rightarrow> GeneralCompletion" where
  "finish_cleanup p completion = completion\<lparr>cleaned := True\<rparr>"

section \<open>Prepared tasks\<close>

definition metadata_component :: "component \<Rightarrow> bool" where
  "metadata_component c \<longleftrightarrow> c = Normal ''.git'' \<or> c = Normal ''.gitmodules''"

definition scope_entry :: "path \<Rightarrow> bool" where
  "scope_entry w \<longleftrightarrow>
     \<not> is_absolute w \<and> \<not> has_parent_dir w \<and> \<not> list_ex metadata_component (components w)"

text \<open>The invariant of prepared tasks.\<close>

definition prepared_wf :: "PreparedGeneralTask \<Rightarrow> bool" where
  "prepared_wf p \<longleftrightarrow>
     (permission_mode p = PlanMode \<longleftrightarrow> write_manifest p = []) \<and> list_all scope_entry (write_manifest p)
     \<and> workspace_dir (prepared_workspace p) = prepared_repository p
     \<and> prepared_schema p = GENERAL_TASK_SCHEMA
     \<and> prepared_agent_id p \<noteq> [] \<and> list_all identifier_byte (prepared_agent_id p)"

lemma confined_relative_Inr:
  assumes "confined_relative p = Inr w"
  shows "components w = components p \<and> \<not> is_absolute w \<and> \<not> has_parent_dir w"
  using assms is_absolute_path_eq [of w p]
  by (auto simp: confined_relative_def has_parent_dir_def list_ex_iff split: if_splits)

lemma validate_write_scope_Inr:
  "validate_write_scope mode ps = Inr u \<longleftrightarrow>
     (mode = PlanMode \<longrightarrow> ps = []) \<and> list_all (\<lambda>w. \<not> list_ex metadata_component (components w)) ps"
  by (auto simp: validate_write_scope_def metadata_component_def list_ex_iff list_all_iff split: if_splits)

lemma allocate_loop_Inr:
  "allocate_loop h fs parent repository agent_id attempts nonce = (Inr (a, scratch), nonce') \<Longrightarrow>
     a = agent_id \<and> (\<exists>root. canonicalize fs root = Inr scratch \<and> create_dir h root = Inr ())"
  by (induction h fs parent repository agent_id attempts nonce rule: allocate_loop.induct)
    (auto simp: Let_def split: sum.splits if_splits)

lemma allocate_submission_Inr:
  "allocate_submission h fs repository agent_id nonce = (Inr (a, scratch), nonce') \<Longrightarrow>
     a = agent_id \<and> (\<exists>root. canonicalize fs root = Inr scratch \<and> create_dir h root = Inr ())"
  by (auto simp: allocate_submission_def Let_def split: sum.splits dest!: allocate_loop_Inr)

lemma validate_manifest_Inr:
  "validate_manifest m = Inr u \<Longrightarrow>
     manifest_schema m = GENERAL_TASK_SCHEMA \<and> manifest_agent_id m \<noteq> []
     \<and> list_all identifier_byte (manifest_agent_id m)"
  by (auto simp: validate_manifest_def split: if_splits)

lemma scope_entry_dot: "scope_entry ''.''"
  by code_simp

lemma effective_manifest_scope:
  assumes "res_collect confined_relative ps = Inr confined"
    and "validate_write_scope mode (effective_manifest mode confined) = Inr u"
  shows "(mode = PlanMode \<longleftrightarrow> effective_manifest mode confined = [])
    \<and> list_all scope_entry (effective_manifest mode confined)"
proof -
  have "\<forall>w \<in> set confined. \<not> is_absolute w \<and> \<not> has_parent_dir w"
    using assms(1) confined_relative_Inr by (auto dest: res_collect_set)
  then show ?thesis
    using assms(2) scope_entry_dot
    by (auto simp: validate_write_scope_Inr effective_manifest_def list_all_iff scope_entry_def
        split: if_splits)
qed

lemma prepare_direct_submission_InrE:
  assumes "prepare_direct_submission h fs m nonce = (Inr p, nonce')"
  obtains repository scratch mode confined
  where "validate_manifest m = Inr ()"
    and "canonical_general_repository fs (manifest_repository m) = Inr repository"
    and "allocate_submission h fs repository (manifest_agent_id m) nonce
      = (Inr (manifest_agent_id m, scratch), nonce')"
    and "res_collect confined_relative (manifest_write m) = Inr confined"
    and "validate_write_scope mode (effective_manifest mode confined) = Inr ()"
    and "p = \<lparr>admission = None, prepared_schema = manifest_schema m, prepared_agent_id = manifest_agent_id m,
        prepared_repository = repository,
        prepared_workspace = \<lparr>workspace_dir = repository, workspace_scratch_root = scratch\<rparr>,
        permission_mode = mode, write_manifest = effective_manifest mode confined\<rparr>"
proof -
  from assms obtain u repository a scratch where valid: "validate_manifest m = Inr u"
    and repo: "canonical_general_repository fs (manifest_repository m) = Inr repository"
    and alloc: "allocate_submission h fs repository (manifest_agent_id m) nonce = (Inr (a, scratch), nonce')"
    by (auto simp: prepare_direct_submission_def Let_def split: sum.splits prod.splits)
  note scratch = allocate_submission_Inr [OF alloc]
  obtain mode confined u' where "res_collect confined_relative (manifest_write m) = Inr confined"
      "validate_write_scope mode (effective_manifest mode confined) = Inr u'"
      "p = \<lparr>admission = None, prepared_schema = manifest_schema m, prepared_agent_id = manifest_agent_id m,
        prepared_repository = repository,
        prepared_workspace = \<lparr>workspace_dir = repository, workspace_scratch_root = scratch\<rparr>,
        permission_mode = mode, write_manifest = effective_manifest mode confined\<rparr>"
    using assms scratch valid repo alloc
    by (auto simp: prepare_direct_submission_def Let_def res_bind_Inr_iff split: if_splits)
  with valid repo alloc scratch that show thesis by simp
qed

lemma prepared_submission_wf:
  assumes "prepare_direct_submission h fs m nonce = (Inr p, nonce')"
  shows "prepared_wf p" "prepared_agent_id p = manifest_agent_id m"
  using assms
  by (auto elim!: prepare_direct_submission_InrE simp: prepared_wf_def
      dest: effective_manifest_scope validate_manifest_Inr)

text \<open>
  C40. A manifest that is accepted becomes a prepared task whose identity is the submitted one and whose
  write manifest respects its mode: it is empty exactly in plan mode (an empty one of another mode is
  replaced by the whole repository), and every entry is relative, free of parent components and names
  no git metadata. The workspace is the canonical repository and the scratch directory was created by
  this submission and is canonical.
\<close>

theorem prepare_direct_submission_wf:
  assumes "prepare_direct_submission h fs m nonce = (Inr p, nonce')"
  shows "prepared_wf p \<and> prepared_agent_id p = manifest_agent_id m
    \<and> canonicalize fs (manifest_repository m) = Inr (prepared_repository p)
    \<and> is_dir fs (prepared_repository p)
    \<and> (\<exists>root. create_dir h root = Inr ()
         \<and> canonicalize fs root = Inr (workspace_scratch_root (prepared_workspace p)))"
  using assms
proof (rule prepare_direct_submission_InrE)
  fix repository scratch mode confined
  assume repo: "canonical_general_repository fs (manifest_repository m) = Inr repository"
    and alloc: "allocate_submission h fs repository (manifest_agent_id m) nonce
      = (Inr (manifest_agent_id m, scratch), nonce')"
    and p: "p = \<lparr>admission = None, prepared_schema = manifest_schema m,
        prepared_agent_id = manifest_agent_id m, prepared_repository = repository,
        prepared_workspace = \<lparr>workspace_dir = repository, workspace_scratch_root = scratch\<rparr>,
        permission_mode = mode, write_manifest = effective_manifest mode confined\<rparr>"
  have "canonicalize fs (manifest_repository m) = Inr repository" "is_dir fs repository"
    using repo by (auto simp: canonical_general_repository_def split: if_splits sum.splits)
  with p prepared_submission_wf [OF assms] allocate_submission_Inr [OF alloc] show ?thesis by auto
qed

text \<open>The directory the attempt with a given nonce tries to create.\<close>

definition attempt_root :: "submission_host \<Rightarrow> path \<Rightarrow> path \<Rightarrow> string \<Rightarrow> 64 word \<Rightarrow> string + path" where
  "attempt_root h parent repository agent_id nonce =
     (case submission_json h (repository, agent_id, now_nanos h nonce, nonce, urandom h nonce) of
        Inl e \<Rightarrow> Inl e
      | Inr bytes \<Rightarrow> Inr (path_join parent (agent_id @ ''-'' @ sha256_hex h bytes)))"

definition attempt_taken ::
    "submission_host \<Rightarrow> path \<Rightarrow> path \<Rightarrow> string \<Rightarrow> 64 word \<Rightarrow> bool" where
  "attempt_taken h parent repository agent_id nonce =
     (case attempt_root h parent repository agent_id nonce of
        Inl _ \<Rightarrow> False | Inr root \<Rightarrow> create_dir h root = Inl AlreadyExists)"

lemma allocate_loop_taken:
  "attempt_taken h parent repository agent_id nonce \<Longrightarrow>
     allocate_loop h fs parent repository agent_id (Suc n) nonce
     = allocate_loop h fs parent repository agent_id n (nonce + 1)"
  by (auto simp: attempt_taken_def attempt_root_def Let_def split: sum.splits)

lemma allocate_loop_skip:
  assumes "\<forall>j < i. attempt_taken h parent repository agent_id (nonce + of_nat j)"
  shows "allocate_loop h fs parent repository agent_id (i + n) nonce
    = allocate_loop h fs parent repository agent_id n (nonce + of_nat i)"
  using assms
proof (induction i arbitrary: nonce)
  case (Suc i)
  have "attempt_taken h parent repository agent_id nonce"
    using Suc.prems [rule_format, of 0] by simp
  moreover have "\<forall>j < i. attempt_taken h parent repository agent_id (nonce + 1 + of_nat j)"
  proof (intro allI impI)
    fix j assume "j < i"
    then show "attempt_taken h parent repository agent_id (nonce + 1 + of_nat j)"
      using Suc.prems [rule_format, of "Suc j"] by (simp add: add.assoc)
  qed
  ultimately show ?case
    using Suc.IH [of "nonce + 1"] by (simp add: allocate_loop_taken add.assoc del: allocate_loop.simps)
qed simp

text \<open>
  The scratch directory of a submission is the first free name of at most 32: when the names of the
  first \<open>i < 32\<close> attempts are taken and the next directory can be created and resolved, the submission
  succeeds with that directory and has advanced the counter by \<open>i + 1\<close>; when all 32 are taken it fails
  as an invalid manifest and has advanced it by 32, at 64 bits.
\<close>

theorem allocate_submission_first_free:
  assumes parent: "parent = path_join (temp_dir h) ''external-subagent''"
    and all: "create_dir_all h parent = Inr ()"
    and taken: "\<forall>j < i. attempt_taken h parent repository agent_id (nonce + of_nat j)"
    and free: "i = 32 \<or> i < 32 \<and> attempt_root h parent repository agent_id (nonce + of_nat i) = Inr root
      \<and> create_dir h root = Inr () \<and> canonicalize fs root = Inr scratch"
  shows "allocate_submission h fs repository agent_id nonce =
    (if i < 32 then (Inr (agent_id, scratch), nonce + of_nat i + 1)
     else (Inl (InvalidManifest ''could not allocate a unique task scratch directory''), nonce + 32))"
proof -
  have "i \<le> 32" using free by auto
  then have "allocate_submission h fs repository agent_id nonce
      = allocate_loop h fs parent repository agent_id (32 - i) (nonce + of_nat i)"
    using allocate_loop_skip [OF taken, of fs "32 - i"] all
    by (simp add: allocate_submission_def parent [symmetric])
  also have "\<dots> = (if i < 32 then (Inr (agent_id, scratch), nonce + of_nat i + 1)
     else (Inl (InvalidManifest ''could not allocate a unique task scratch directory''), nonce + 32))"
  proof (cases "i < 32")
    case True
    then obtain n where n: "32 - i = Suc n" by (metis Suc_diff_Suc)
    from True free show ?thesis unfolding n
      by (auto simp: attempt_root_def Let_def split: sum.splits)
  next
    case False
    with free have "i = 32" by simp
    then show ?thesis by simp
  qed
  finally show ?thesis .
qed

section \<open>What a prepared task may write\<close>

lemma scope_entry_tracked_root:
  assumes "scope_entry w" and "wt \<noteq> []"
  shows "tracked_root wt w =
    (if Normal ''.agent-work'' \<in> set (components w)
     then Inl (PolicyError ''tracked write root targets protected metadata'')
     else Inr (path_join wt w))"
proof -
  from assms have rel: "\<not> is_absolute w" "\<not> has_parent_dir w" by (auto simp: scope_entry_def)
  have names: "RootDir \<notin> set (components w)" "ParentDir \<notin> set (components w)"
    using rel by (auto simp: is_absolute_RootDir has_parent_dir_def)
  have "protected_worktree_path wt (path_join wt w)
      \<longleftrightarrow> (\<exists>c \<in> set (components w). c \<noteq> CurDir \<and> protected_component c)"
    using components_join [OF assms(2) rel(1)] by (auto simp: protected_worktree_path_iff)
  also have "\<dots> \<longleftrightarrow> Normal ''.agent-work'' \<in> set (components w)"
  proof
    assume "\<exists>c \<in> set (components w). c \<noteq> CurDir \<and> protected_component c"
    then obtain c where c: "c \<in> set (components w)" "c \<noteq> CurDir" "protected_component c" by blast
    with assms(1) names show "Normal ''.agent-work'' \<in> set (components w)"
      by (cases c) (auto simp: protected_component_def scope_entry_def metadata_component_def list_ex_iff)
  qed (force simp: protected_component_def)
  finally show ?thesis
    using rel by (simp add: tracked_root_def lexical_confined_path_def)
qed

lemma launcher_new_report:
  assumes "launcher_new fs wt scratch report inputs network caps = Inr L"
  shows "\<exists>parent parent' n. path_parent report = Some parent \<and> canonicalize fs parent = Inr parent'
    \<and> file_name report = Some n \<and> report_target L = path_join parent' n"
  using assms by (auto simp: launcher_new_def res_bind_Inr_iff fs_canonicalize_Inr)

lemma result_json_name: "\<not> skipped ''result.json''" "CHR ''/'' \<notin> set ''result.json''"
  by (simp_all add: skipped_def)

lemma file_name_join:
  assumes "b \<noteq> []" and "\<not> skipped n" "CHR ''/'' \<notin> set n" "n \<noteq> ''..''"
  shows "file_name (path_join b n) = Some n"
proof -
  have "\<not> is_absolute n" using assms(3) by (cases n) auto
  moreover from this have "components n = [Normal n]"
    using assms by (auto simp: components_def split_on_id body_components_def piece_component_def skipped_def)
  ultimately show ?thesis
    using components_join [OF assms(1), of n] by (simp add: file_name_def)
qed

text \<open>The launcher's report directory is the scratch directory, so nothing in it is writable.\<close>

lemma task_launcher_report:
  assumes canonical: "\<forall>a b. canonicalize fs a = Inr b \<longrightarrow> normalized b"
    and scratch: "canonicalize fs (workspace_scratch_root (prepared_workspace p))
      = Inr (workspace_scratch_root (prepared_workspace p))"
    and built: "task_launcher fs p = Inr L"
  shows "path_parent (report_target L) = Some (scratch_root L)"
proof -
  let ?s = "workspace_scratch_root (prepared_workspace p)"
  from canonical scratch have norm: "normalized ?s" by blast
  then have nonempty: "?s \<noteq> []" by (auto simp: normalized_def)
  from built obtain L0 where new: "launcher_new fs (workspace_dir (prepared_workspace p)) ?s
      (path_join ?s ''result.json'') [] False (capabilities_for_network False) = Inr L0"
    and L: "report_target L = report_target L0" "scratch_root L = scratch_root L0"
    by (auto simp: task_launcher_def build_launcher_def for_general_def res_bind_Inr_iff split: if_splits)
  have "path_parent (path_join ?s ''result.json'') = Some ?s"
    by (rule path_parent_join [OF norm result_json_name])
  moreover have "file_name (path_join ?s ''result.json'') = Some ''result.json''"
    by (rule file_name_join [OF nonempty result_json_name]) simp
  ultimately have "report_target L0 = path_join ?s ''result.json''"
    using launcher_new_report [OF new] scratch by auto
  moreover have "scratch_root L0 = ?s" using launcher_new_Inr [OF new] scratch by simp
  ultimately show ?thesis
    using path_parent_join [OF norm result_json_name] by (simp add: L)
qed

lemma task_launcher_roots:
  assumes wf: "prepared_wf p" and canonical: "\<forall>a b. canonicalize fs a = Inr b \<longrightarrow> normalized b"
    and built: "task_launcher fs p = Inr L"
  shows "tracked_write_roots L = map (path_join (worktree L)) (write_manifest p)
    \<and> access_mode L = permission_access_mode (permission_mode p)"
proof (cases "permission_access_mode (permission_mode p)")
  case ReadOnly
  with built show ?thesis
    by (auto simp: task_launcher_def build_launcher_def for_general_def res_bind_Inr_iff split: if_splits)
next
  case WorkspaceWrite
  with built obtain L0 roots where new: "launcher_new fs (workspace_dir (prepared_workspace p))
      (workspace_scratch_root (prepared_workspace p))
      (path_join (workspace_scratch_root (prepared_workspace p)) ''result.json'') []
      False (capabilities_for_network False) = Inr L0"
    and roots: "list_all2 (\<lambda>w r. tracked_root (worktree L0) w = Inr r) (write_manifest p) roots"
    and L: "L = L0\<lparr>access_mode := WorkspaceWrite, tracked_write_roots := roots\<rparr>"
    by (auto simp: task_launcher_def build_launcher_def for_general_def res_bind_Inr_iff res_collect_Inr)
  have "worktree L0 \<noteq> []"
    using launcher_new_Inr [OF new] canonical by (force simp: normalized_def)
  then have "r = path_join (worktree L0) w" if "w \<in> set (write_manifest p)" "tracked_root (worktree L0) w = Inr r" for w r
    using scope_entry_tracked_root [of w "worktree L0"] that wf
    by (auto simp: prepared_wf_def list_all_iff split: if_splits)
  with roots have "roots = map (path_join (worktree L0)) (write_manifest p)"
    by (auto simp: list_all2_conv_all_nth intro!: nth_equalityI)
  with WorkspaceWrite show ?thesis by (simp add: L)
qed


section \<open>A concrete submission\<close>

definition submission_fs :: filesystem where
  "submission_fs = \<lparr>canonicalize = (\<lambda>p. if normalized p then Inr p else Inl NotFound),
     symlink_metadata = (\<lambda>p. if ends_with p ''new'' then Inl NotFound else Inr ()),
     is_dir = (\<lambda>p. True), is_file = (\<lambda>p. True)\<rparr>"

text \<open>The first name is taken.\<close>

definition example_host :: submission_host where
  "example_host = \<lparr>temp_dir = ''/tmp'', create_dir_all = (\<lambda>_. Inr ()),
     create_dir = (\<lambda>p. if ends_with p ''-a'' then Inl AlreadyExists else Inr ()),
     now_nanos = (\<lambda>_. 0), urandom = (\<lambda>_. []),
     submission_json = (\<lambda>(_, _, _, nonce, _). Inr (if nonce = 0 then ''a'' else ''b'')),
     sha256_hex = id\<rparr>"

definition example_manifest :: GeneralTaskManifest where
  "example_manifest = \<lparr>manifest_schema = GENERAL_TASK_SCHEMA, manifest_agent_id = ''00000001'',
     manifest_repository = ''/w'', manifest_permission_mode = Some EditMode,
     manifest_prompt = ''do it'', manifest_write = [''src'']\<rparr>"

definition example_prepared :: PreparedGeneralTask where
  "example_prepared = \<lparr>admission = None, prepared_schema = GENERAL_TASK_SCHEMA,
     prepared_agent_id = ''00000001'', prepared_repository = ''/w'',
     prepared_workspace = \<lparr>workspace_dir = ''/w'',
       workspace_scratch_root = ''/tmp/external-subagent/00000001-b''\<rparr>,
     permission_mode = EditMode, write_manifest = [''src'']\<rparr>"

lemma submission_fs_normalized: "\<forall>a b. canonicalize submission_fs a = Inr b \<longrightarrow> normalized b"
  by (simp add: submission_fs_def)

lemma example_submission:
  "prepare_direct_submission example_host submission_fs example_manifest 0 = (Inr example_prepared, 2)"
proof -
  have "trim ''do it'' \<noteq> []" "list_all identifier_byte ''00000001''"
    by code_simp+
  then have "validate_manifest example_manifest = Inr ()"
    by (simp add: validate_manifest_def example_manifest_def MAX_PROMPT_BYTES_def)
  moreover have "canonical_general_repository submission_fs (manifest_repository example_manifest) = Inr ''/w''"
    by code_simp
  moreover have "allocate_submission example_host submission_fs ''/w'' (manifest_agent_id example_manifest) 0
      = (Inr (''00000001'', ''/tmp/external-subagent/00000001-b''), 2)"
    by code_simp
  moreover have "res_collect confined_relative (manifest_write example_manifest) = Inr [''src'']"
    "validate_write_scope EditMode (effective_manifest EditMode [''src'']) = Inr ()"
    by code_simp+
  ultimately show ?thesis
    by (simp add: prepare_direct_submission_def) (simp add: example_manifest_def example_prepared_def effective_manifest_def)
qed

theorem prepare_direct_submission_wf_witness:
  "prepared_wf example_prepared \<and> prepared_agent_id example_prepared = ''00000001''"
  using prepare_direct_submission_wf [OF example_submission] by (simp add: example_manifest_def)

theorem allocate_submission_first_free_witness:
  "allocate_submission example_host submission_fs ''/w'' ''t1'' 0
   = (Inr (''t1'', ''/tmp/external-subagent/t1-b''), 2)"
proof -
  let ?parent = "''/tmp/external-subagent''"
  have 1: "?parent = path_join (temp_dir example_host) ''external-subagent''"
    by code_simp
  have 2: "create_dir_all example_host ?parent = Inr ()"
    by (simp add: example_host_def)
  have "attempt_taken example_host ?parent ''/w'' ''t1'' 0"
    by code_simp
  then have 3: "\<forall>j < 1. attempt_taken example_host ?parent ''/w'' ''t1'' (0 + of_nat j)"
    by simp
  have "attempt_root example_host ?parent ''/w'' ''t1'' 1 = Inr ''/tmp/external-subagent/t1-b''"
    "create_dir example_host ''/tmp/external-subagent/t1-b'' = Inr ()"
    "canonicalize submission_fs ''/tmp/external-subagent/t1-b'' = Inr ''/tmp/external-subagent/t1-b''"
    by code_simp+
  then have 4: "(1::nat) = 32 \<or> (1::nat) < 32
      \<and> attempt_root example_host ?parent ''/w'' ''t1'' (0 + of_nat 1) = Inr ''/tmp/external-subagent/t1-b''
      \<and> create_dir example_host ''/tmp/external-subagent/t1-b'' = Inr ()
      \<and> canonicalize submission_fs ''/tmp/external-subagent/t1-b'' = Inr ''/tmp/external-subagent/t1-b''"
    by simp
  from allocate_submission_first_free [OF 1 2 3 4] show ?thesis by simp
qed


text \<open>
  The write manifest may name the agent's metadata directory, which admission does not check, but then
  no launcher can be built for the task.
\<close>

lemma agent_work_manifest_unlaunchable:
  "prepared_wf (example_prepared\<lparr>write_manifest := [''.agent-work'']\<rparr>)
   \<and> task_launcher submission_fs (example_prepared\<lparr>write_manifest := [''.agent-work'']\<rparr>)
     = Inl (PolicyError ''tracked write root targets protected metadata'')"
  by code_simp

end
