(* ===== verification/Contract_Wire.thy ===== *)
theory Contract_Wire
  imports Json_Value "HOL-Library.List_Lexorder" "HOL-Library.Char_ord"
begin

text \<open>
  The wire contract with the agent runtime (\<open>external-contract/src/lib.rs\<close>): envelopes, the
  classification of a line, the strict projections of session results, model references, and the
  permission responses a request offers. Decoding and encoding JSON text, and the text of a
  deserialization error, are arguments (\<open>json_codec\<close>): \<open>serde_json\<close> is not part of the sources. What \<open>from_value\<close> accepts is
  the documented behaviour of the derived deserializers: unknown members are refused, a member with a
  default may be missing.
\<close>

section \<open>JSON text\<close>

record json_codec =
  from_str :: "string \<Rightarrow> string + json"
  rejection :: "json \<Rightarrow> string"
  json_text :: "json \<Rightarrow> string"

section \<open>Envelopes\<close>

datatype WireId = WireInteger int | WireString string

record RequestEnvelope =
  request_envelope_id :: WireId
  request_method :: string
  request_params :: json

record ResponseEnvelope =
  response_envelope_id :: WireId
  response_result :: "json option"
  response_error :: "json option"

record EventEnvelope =
  event_method :: string
  event_params :: json

datatype WireMessage =
    Request RequestEnvelope
  | Response ResponseEnvelope
  | Event EventEnvelope
  | UnknownEvent string json

definition SESSION_EVENT :: string where
  "SESSION_EVENT = ''session/event''"

definition INTERACTION_REQUEST_PERMISSION :: string where
  "INTERACTION_REQUEST_PERMISSION = ''interaction/requestPermission''"

definition INTERACTION_REQUEST_USER_INPUT :: string where
  "INTERACTION_REQUEST_USER_INPUT = ''interaction/requestUserInput''"

definition INTERACTION_REQUEST_UNSUPPORTED_INPUT :: string where
  "INTERACTION_REQUEST_UNSUPPORTED_INPUT = ''interaction/unsupportedInput''"

definition response_success :: "WireId \<Rightarrow> json \<Rightarrow> ResponseEnvelope" where
  "response_success i v = \<lparr>response_envelope_id = i, response_result = Some v, response_error = None\<rparr>"

definition response_failure :: "WireId \<Rightarrow> json \<Rightarrow> ResponseEnvelope" where
  "response_failure i e = \<lparr>response_envelope_id = i, response_result = None, response_error = Some e\<rparr>"

section \<open>Model references\<close>

definition is_provider_segment :: "string \<Rightarrow> bool" where
  "is_provider_segment p \<longleftrightarrow> p \<noteq> [] \<and> list_all (\<lambda>b. is_ascii_alphanumeric b \<or> b \<in> set ''._-'') p"

definition normalized_model_reference :: "string \<Rightarrow> (string \<times> string) option" where
  "normalized_model_reference v =
     (if v = [] \<or> 128 < length v \<or> CHR 0x00 \<in> set v then None
      else
        (case (case split_once CHR ''/'' v of Some pm \<Rightarrow> pm | None \<Rightarrow> (''zai'', v)) of
           (provider, model) \<Rightarrow>
             if provider = [] \<or> model = [] \<or> CHR ''/'' \<in> set model then None
             else if \<not> is_provider_segment provider then None
             else Some (provider, to_ascii_lowercase model)))"

definition normalized_zai_model :: "string \<Rightarrow> string option" where
  "normalized_zai_model v = map_option snd (normalized_model_reference v)"

definition normalized_scoped_model :: "string \<Rightarrow> (string \<times> string) option" where
  "normalized_scoped_model v = (if CHR ''/'' \<in> set v then normalized_model_reference v else None)"

definition provider_model_matches :: "string \<Rightarrow> string \<Rightarrow> string \<Rightarrow> bool" where
  "provider_model_matches requested provider_id model_id =
     (case normalized_scoped_model requested of
        None \<Rightarrow> False
      | Some (requested_provider, requested_model) \<Rightarrow>
          if \<not> is_provider_segment provider_id then False
          else if model_id = [] \<or> 128 < length model_id \<or> CHR 0x00 \<in> set model_id \<or> CHR ''/'' \<in> set model_id
          then False
          else requested_provider = provider_id \<and> requested_model = to_ascii_lowercase model_id)"

section \<open>Projections of session results\<close>

datatype ProjectionError =
    Missing string
  | Invalid string
  | UnobservedAlternate string
  | ModelConflict

definition required_bounded_string :: "json option \<Rightarrow> string \<Rightarrow> nat \<Rightarrow> ProjectionError + string" where
  "required_bounded_string v path max_len =
     (case v of
        None \<Rightarrow> Inl (Missing path)
      | Some x \<Rightarrow>
          (case as_str x of
             None \<Rightarrow> Inl (Invalid path)
           | Some s \<Rightarrow>
               if s = [] \<or> max_len < length s \<or> CHR 0x00 \<in> set s then Inl (Invalid path) else Inr s))"

definition optional_bounded_string :: "json option \<Rightarrow> string \<Rightarrow> nat \<Rightarrow> ProjectionError + string option" where
  "optional_bounded_string v path max_len =
     (case v of
        None \<Rightarrow> Inr None
      | Some x \<Rightarrow>
          (case as_str x of
             None \<Rightarrow> Inl (Invalid path)
           | Some s \<Rightarrow>
               if s = [] \<or> max_len < length s \<or> CHR 0x00 \<in> set s then Inl (Invalid path) else Inr (Some s)))"

definition reject_alternate :: "json_object \<Rightarrow> string \<Rightarrow> string \<Rightarrow> ProjectionError + unit" where
  "reject_alternate ms key path = (if contains_key ms key then Inl (UnobservedAlternate path) else Inr ())"

definition optional_object :: "json_object \<Rightarrow> string \<Rightarrow> string \<Rightarrow> ProjectionError + json_object option" where
  "optional_object ms key path =
     (case map_of ms key of
        None \<Rightarrow> Inr None
      | Some v \<Rightarrow> (case as_object v of None \<Rightarrow> Inl (Invalid path) | Some o' \<Rightarrow> Inr (Some o')))"

text \<open>\<open>let Some(x) = e? else return Ok(d)\<close>.\<close>

definition res_bind_some :: "'e + 'a option \<Rightarrow> 'b \<Rightarrow> ('a \<Rightarrow> 'e + 'b) \<Rightarrow> 'e + 'b" where
  "res_bind_some m d f = res_bind m (\<lambda>x. case x of None \<Rightarrow> Inr d | Some y \<Rightarrow> f y)"

definition settings_current_model :: "json_object \<Rightarrow> ProjectionError + string option" where
  "settings_current_model root =
     res_bind_some (optional_object root ''settings'' ''result.settings'') None (\<lambda>settings.
     res_bind_some (optional_object settings ''model'' ''result.settings.model'') None (\<lambda>model.
     res_bind (reject_alternate model ''value'' ''result.settings.model.value'') (\<lambda>_.
     res_bind_some (optional_object model ''current'' ''result.settings.model.current'') None (\<lambda>current.
     res_bind (reject_alternate current ''id'' ''result.settings.model.current.id'') (\<lambda>_.
       (case map_of current ''modelId'' of
          None \<Rightarrow> Inr None
        | Some v \<Rightarrow>
            res_bind (required_bounded_string (Some v) ''result.settings.model.current.modelId'' 128) (\<lambda>s.
              if normalized_zai_model s = None
              then Inl (Invalid ''result.settings.model.current.modelId'')
              else Inr (Some s))))))))"

definition settings_thought_level :: "json_object \<Rightarrow> ProjectionError + string option" where
  "settings_thought_level root =
     res_bind_some (optional_object root ''settings'' ''result.settings'') None (\<lambda>settings.
     res_bind (reject_alternate settings ''thought'' ''result.settings.thought'') (\<lambda>_.
     res_bind_some (optional_object settings ''thoughtLevel'' ''result.settings.thoughtLevel'') None (\<lambda>level.
       (case map_of level ''current'' of
          None \<Rightarrow> Inr None
        | Some v \<Rightarrow>
            res_bind (required_bounded_string (Some v) ''result.settings.thoughtLevel.current'' 128)
              (\<lambda>s. Inr (Some s))))))"

definition session_consistency_model :: "json_object \<Rightarrow> ProjectionError + string option" where
  "session_consistency_model session =
     res_bind_some (optional_object session ''model'' ''result.session.model'') None (\<lambda>model.
       (case map_of model ''modelId'' of
          None \<Rightarrow> Inr None
        | Some v \<Rightarrow>
            res_bind (required_bounded_string (Some v) ''result.session.model.modelId'' 128) (\<lambda>s.
              if normalized_zai_model s = None then Inl (Invalid ''result.session.model.modelId'')
              else Inr (Some s))))"

definition settings_current_reference :: "json_object \<Rightarrow> ProjectionError + string option \<times> string option" where
  "settings_current_reference root =
     res_bind_some (optional_object root ''settings'' ''result.settings'') (None, None) (\<lambda>settings.
     res_bind_some (optional_object settings ''model'' ''result.settings.model'') (None, None) (\<lambda>model.
     res_bind (reject_alternate model ''value'' ''result.settings.model.value'') (\<lambda>_.
     res_bind_some (optional_object model ''current'' ''result.settings.model.current'') (None, None) (\<lambda>current.
     res_bind (reject_alternate current ''id'' ''result.settings.model.current.id'') (\<lambda>_.
     res_bind (optional_bounded_string (map_of current ''providerId'')
                 ''result.settings.model.current.providerId'' 128) (\<lambda>provider.
     res_bind (optional_bounded_string (map_of current ''modelId'')
                 ''result.settings.model.current.modelId'' 128) (\<lambda>model_id.
       Inr (provider, model_id))))))))"

record CatalogModelEntry =
  provider_id :: "string option"
  model_id :: "string option"
  reasoning_levels :: "string list"
  default_level :: "string option"

definition catalog_reference :: "json_object \<Rightarrow> ProjectionError + string option \<times> string option" where
  "catalog_reference item =
     (case map_of item ''ref'' of
        None \<Rightarrow> Inr (None, None)
      | Some reference \<Rightarrow>
          res_bind (ok_or (Invalid ''result.settings.model.available[].ref'') (as_object reference)) (\<lambda>r.
          res_bind (optional_bounded_string (map_of r ''providerId'')
                      ''result.settings.model.available[].ref.providerId'' 128) (\<lambda>p.
          res_bind (optional_bounded_string (map_of r ''modelId'')
                      ''result.settings.model.available[].ref.modelId'' 128) (\<lambda>m. Inr (p, m)))))"

fun catalog_levels :: "json list \<Rightarrow> ProjectionError + string list" where
  "catalog_levels [] = Inr []"
| "catalog_levels (level # rest) =
     res_bind (ok_or (Invalid ''result.settings.model.available[].reasoning.levels[]'') (as_object level)) (\<lambda>l.
     res_bind (optional_bounded_string (map_of l ''value'')
                 ''result.settings.model.available[].reasoning.levels[].value'' 128) (\<lambda>v.
     res_bind (catalog_levels rest) (\<lambda>vs. Inr (case v of None \<Rightarrow> vs | Some s \<Rightarrow> s # vs))))"

definition catalog_reasoning :: "json_object \<Rightarrow> ProjectionError + string list \<times> string option" where
  "catalog_reasoning item =
     (case map_of item ''reasoning'' of
        None \<Rightarrow> Inr ([], None)
      | Some reasoning \<Rightarrow>
          res_bind (ok_or (Invalid ''result.settings.model.available[].reasoning'') (as_object reasoning)) (\<lambda>r.
          res_bind
            (case map_of r ''levels'' of
               None \<Rightarrow> Inr []
             | Some levels \<Rightarrow>
                 res_bind (ok_or (Invalid ''result.settings.model.available[].reasoning.levels'') (as_array levels))
                   catalog_levels) (\<lambda>levels.
          res_bind (optional_bounded_string (map_of r ''defaultLevel'')
                      ''result.settings.model.available[].reasoning.defaultLevel'' 128) (\<lambda>d.
            Inr (levels, d)))))"

definition catalog_entry :: "json \<Rightarrow> ProjectionError + CatalogModelEntry" where
  "catalog_entry item =
     res_bind (ok_or (Invalid ''result.settings.model.available[]'') (as_object item)) (\<lambda>o'.
     res_bind (catalog_reference o') (\<lambda>(p, m).
     res_bind (catalog_reasoning o') (\<lambda>(levels, d).
       Inr \<lparr>provider_id = p, model_id = m, reasoning_levels = levels, default_level = d\<rparr>)))"

definition settings_available_models :: "json_object \<Rightarrow> ProjectionError + CatalogModelEntry list" where
  "settings_available_models root =
     res_bind_some (optional_object root ''settings'' ''result.settings'') [] (\<lambda>settings.
     res_bind_some (optional_object settings ''model'' ''result.settings.model'') [] (\<lambda>model.
       (case map_of model ''available'' of
          None \<Rightarrow> Inr []
        | Some available \<Rightarrow>
            res_bind (ok_or (Invalid ''result.settings.model.available'') (as_array available))
              (res_collect catalog_entry))))"

record SessionCreateProjection =
  projected_session_id :: string
  requested_model :: "string option"
  configured_thought_level :: "string option"
  available_models :: "CatalogModelEntry list"

definition session_object :: "json_object \<Rightarrow> ProjectionError + json_object" where
  "session_object root =
     res_bind (ok_or (Missing ''result.session.sessionId'') (map_of root ''session'')) (\<lambda>v.
       ok_or (Invalid ''result.session'') (as_object v))"

definition models_conflict :: "string option \<Rightarrow> string option \<Rightarrow> ProjectionError + unit" where
  "models_conflict requested observed =
     (case (requested, observed) of
        (Some r, Some c) \<Rightarrow>
          if normalized_zai_model r \<noteq> normalized_zai_model c then Inl ModelConflict else Inr ()
      | (None, Some _) \<Rightarrow> Inl (Missing ''result.settings.model.current.modelId'')
      | _ \<Rightarrow> Inr ())"

definition session_create_from_result :: "json \<Rightarrow> ProjectionError + SessionCreateProjection" where
  "session_create_from_result result =
     res_bind (ok_or (Invalid ''result'') (as_object result)) (\<lambda>root.
     res_bind (reject_alternate root ''sessionId'' ''result.sessionId'') (\<lambda>_.
     res_bind (reject_alternate root ''session_id'' ''result.session_id'') (\<lambda>_.
     res_bind (reject_alternate root ''modelId'' ''result.modelId'') (\<lambda>_.
     res_bind (reject_alternate root ''model'' ''result.model'') (\<lambda>_.
     res_bind (session_object root) (\<lambda>session.
     res_bind (reject_alternate session ''id'' ''result.session.id'') (\<lambda>_.
     res_bind (reject_alternate session ''session_id'' ''result.session.session_id'') (\<lambda>_.
     res_bind (reject_alternate session ''modelId'' ''result.session.modelId'') (\<lambda>_.
     res_bind (reject_alternate session ''settings'' ''result.session.settings'') (\<lambda>_.
     res_bind (required_bounded_string (map_of session ''sessionId'') ''result.session.sessionId'' 512) (\<lambda>sid.
     res_bind (settings_current_model root) (\<lambda>requested.
     res_bind (session_consistency_model session) (\<lambda>observed.
     res_bind (models_conflict requested observed) (\<lambda>_.
     res_bind (settings_thought_level root) (\<lambda>thought.
     res_bind (settings_available_models root) (\<lambda>models.
       Inr \<lparr>projected_session_id = sid, requested_model = requested,
            configured_thought_level = thought, available_models = models\<rparr>))))))))))))))))"

record SetModelProjection =
  set_provider_id :: "string option"
  set_model_id :: "string option"
  set_thought_level :: "string option"

definition set_model_projection_from_result :: "json \<Rightarrow> ProjectionError + SetModelProjection" where
  "set_model_projection_from_result result =
     res_bind (ok_or (Invalid ''result'') (as_object result)) (\<lambda>root.
     res_bind (settings_current_reference root) (\<lambda>(p, m).
     res_bind (settings_thought_level root) (\<lambda>thought.
       Inr \<lparr>set_provider_id = p, set_model_id = m, set_thought_level = thought\<rparr>)))"

definition configured_thought_level_from_result :: "json \<Rightarrow> ProjectionError + string option" where
  "configured_thought_level_from_result result =
     res_bind (ok_or (Invalid ''result'') (as_object result)) settings_thought_level"

record WorkspaceDiagnosticProjection =
  workspace_current_model :: "string option"
  workspace_available_models :: "string list"

definition workspace_catalog_item :: "json \<Rightarrow> ProjectionError + string" where
  "workspace_catalog_item item =
     res_bind (ok_or (Invalid ''result.modelCatalog.available[]'') (as_object item)) (\<lambda>o'.
     res_bind (ok_or (Invalid ''result.modelCatalog.available[].ref'')
                 (Option.bind (map_of o' ''ref'') as_object)) (\<lambda>r.
       required_bounded_string (map_of r ''modelId'') ''result.modelCatalog.available[].ref.modelId'' 128))"

definition workspace_diagnostic_from_result :: "json \<Rightarrow> ProjectionError + WorkspaceDiagnosticProjection" where
  "workspace_diagnostic_from_result result =
     res_bind (ok_or (Invalid ''result'') (as_object result)) (\<lambda>root.
     res_bind (settings_current_model root) (\<lambda>current.
     res_bind
       (res_bind_some (optional_object root ''modelCatalog'' ''result.modelCatalog'') [] (\<lambda>catalog.
          (case map_of catalog ''available'' of
             None \<Rightarrow> Inr []
           | Some available \<Rightarrow>
               res_bind (ok_or (Invalid ''result.modelCatalog.available'') (as_array available))
                 (res_collect workspace_catalog_item)))) (\<lambda>models.
       Inr \<lparr>workspace_current_model = current, workspace_available_models = remdups_adj (sort models)\<rparr>)))"

definition turn_id_from_result :: "json \<Rightarrow> string option" where
  "turn_id_from_result result = get_str result ''turnId''"

definition event_type :: "EventEnvelope \<Rightarrow> string option" where
  "event_type e = (if event_method e = SESSION_EVENT then get_str (event_params e) ''type'' else None)"

section \<open>Permission responses\<close>

definition offered_permission_response :: "json \<Rightarrow> string \<Rightarrow> json option" where
  "offered_permission_response params decision =
     Option.bind
       (if decision = ''allow'' then Some ''allow_once'' else if decision = ''deny'' then Some ''deny'' else None)
       (\<lambda>expected_kind.
     Option.bind (Option.bind (json_get params ''options'') as_array) (\<lambda>options.
       (case filter (\<lambda>option. get_str option ''kind'' = Some expected_kind) options of
          [option] \<Rightarrow>
            Option.bind (Option.bind (json_get option ''response'') as_object) (\<lambda>response.
              if Option.bind (map_of response ''decision'') as_str = Some decision
              then Some (JObject response) else None)
        | _ \<Rightarrow> None)))"

section \<open>Lines\<close>

datatype ParseError =
    InvalidJson string
  | NotObject
  | MissingKind
  | InvalidEnvelope string
  | ContradictoryResponse

definition known_keys :: "string list \<Rightarrow> json_object \<Rightarrow> bool" where
  "known_keys ks ms \<longleftrightarrow> list_all (\<lambda>(k, _). k \<in> set ks) ms"

fun wire_id :: "json \<Rightarrow> WireId option" where
  "wire_id (JNumber (PosInt n)) = (if n \<le> 9223372036854775807 then Some (WireInteger (int n)) else None)"
| "wire_id (JNumber (NegInt i)) = (if - 9223372036854775808 \<le> i then Some (WireInteger i) else None)"
| "wire_id (JString s) = Some (WireString s)"
| "wire_id _ = None"

definition params_member :: "json_object \<Rightarrow> json" where
  "params_member ms = (case map_of ms ''params'' of None \<Rightarrow> JNull | Some v \<Rightarrow> v)"

definition option_member :: "json_object \<Rightarrow> string \<Rightarrow> json option" where
  "option_member ms k = (case map_of ms k of None \<Rightarrow> None | Some v \<Rightarrow> if json_is_null v then None else Some v)"

definition request_from_value :: "json_object \<Rightarrow> RequestEnvelope option" where
  "request_from_value ms =
     (if \<not> known_keys [''id'', ''method'', ''params''] ms then None
      else
        (case (Option.bind (map_of ms ''id'') wire_id, Option.bind (map_of ms ''method'') as_str) of
           (Some i, Some m) \<Rightarrow>
             Some \<lparr>request_envelope_id = i, request_method = m, request_params = params_member ms\<rparr>
         | _ \<Rightarrow> None))"

definition response_from_value :: "json_object \<Rightarrow> ResponseEnvelope option" where
  "response_from_value ms =
     (if \<not> known_keys [''id'', ''result'', ''error''] ms then None
      else
        (case Option.bind (map_of ms ''id'') wire_id of
           Some i \<Rightarrow>
             Some \<lparr>response_envelope_id = i, response_result = option_member ms ''result'',
                   response_error = option_member ms ''error''\<rparr>
         | None \<Rightarrow> None))"

definition event_from_value :: "json_object \<Rightarrow> EventEnvelope option" where
  "event_from_value ms =
     (if \<not> known_keys [''method'', ''params''] ms then None
      else
        (case Option.bind (map_of ms ''method'') as_str of
           Some m \<Rightarrow> Some \<lparr>event_method = m, event_params = params_member ms\<rparr>
         | None \<Rightarrow> None))"

definition turn_events :: "string list" where
  "turn_events = [''turn.started'', ''turn.completed'', ''turn.failed'']"

definition known_event :: "string \<Rightarrow> json_object \<Rightarrow> bool" where
  "known_event method ms \<longleftrightarrow>
     method = SESSION_EVENT
     \<and> (case Option.bind (map_of ms ''params'') (\<lambda>params. get_str params ''type'') of
          None \<Rightarrow> False | Some kind \<Rightarrow> kind \<in> set turn_events)"

definition parse_object :: "json_codec \<Rightarrow> json_object \<Rightarrow> ParseError + WireMessage" where
  "parse_object codec ms =
     (if contains_key ms ''jsonrpc''
      then Inl (InvalidEnvelope ''jsonrpc is not part of the strict ZCode envelope'')
      else if contains_key ms ''id'' \<and> (contains_key ms ''result'' \<or> contains_key ms ''error'') then
        (if contains_key ms ''result'' \<and> contains_key ms ''error'' then Inl ContradictoryResponse
         else if (case map_of ms ''result'' of
                    Some v \<Rightarrow> json_is_null v
                  | None \<Rightarrow> (case map_of ms ''error'' of Some v \<Rightarrow> json_is_null v | None \<Rightarrow> True))
         then Inl (InvalidEnvelope ''response requires exactly one non-null result or error'')
         else
           (case response_from_value ms of
              Some r \<Rightarrow> Inr (Response r)
            | None \<Rightarrow> Inl (InvalidEnvelope (rejection codec (JObject ms)))))
      else
        (case Option.bind (map_of ms ''method'') as_str of
           Some method \<Rightarrow>
             if contains_key ms ''id'' then
               (let stripped = filter (\<lambda>(k, _). k \<noteq> ''trace'') ms in
                (case request_from_value stripped of
                   Some r \<Rightarrow> Inr (Request r)
                 | None \<Rightarrow> Inl (InvalidEnvelope (rejection codec (JObject stripped)))))
             else if known_event method ms then
               (case event_from_value ms of
                  Some e \<Rightarrow> Inr (Event e)
                | None \<Rightarrow> Inl (InvalidEnvelope (rejection codec (JObject ms))))
             else Inr (UnknownEvent method (JObject ms))
         | None \<Rightarrow> Inl MissingKind))"

definition parse_line :: "json_codec \<Rightarrow> string \<Rightarrow> ParseError + WireMessage" where
  "parse_line codec line =
     (case from_str codec line of
        Inl e \<Rightarrow> Inl (InvalidJson e)
      | Inr v \<Rightarrow>
          (case as_object v of
             None \<Rightarrow> Inl NotObject
           | Some ms \<Rightarrow> parse_object codec ms))"

section \<open>Lifecycle order\<close>

datatype LifecycleOrder = NotLifecycle | InOrder | OutOfOrder string

definition classify_lifecycle :: "string \<Rightarrow> bool \<Rightarrow> LifecycleOrder" where
  "classify_lifecycle method turn_active =
     (if method = ''turn.started'' then
        (if turn_active then OutOfOrder ''turn.completed or turn.failed'' else InOrder)
      else if method = ''turn.completed'' \<or> method = ''turn.failed'' then
        (if turn_active then InOrder else OutOfOrder ''turn.started'')
      else NotLifecycle)"

end
