(* ===== verification/Diagnostics.thy ===== *)
theory Diagnostics
  imports Contract_Wire
begin

text \<open>
  Failure records (\<open>external-daemon/src/scheduler/diagnostics.rs\<close>): bounded texts, the record of a
  failure in the log, and the bounded record that is persisted with a result. The persisted record
  keeps the longest suffix of the standard error output, found by bisection, that fits 16 KiB.
\<close>

section \<open>Character boundaries\<close>

fun char_starts :: "nat \<Rightarrow> string list \<Rightarrow> nat list" where
  "char_starts k [] = []"
| "char_starts k (c # cs) = k # char_starts (k + length c) cs"

text \<open>\<open>char_indices().map(|(index, _)| index)\<close>.\<close>

definition char_indices :: "string \<Rightarrow> nat list" where
  "char_indices s = char_starts 0 (chars s)"

definition continuation_byte :: "char \<Rightarrow> bool" where
  "continuation_byte c \<longleftrightarrow> 128 \<le> nat_of_char c \<and> nat_of_char c < 192"

definition is_char_boundary :: "string \<Rightarrow> nat \<Rightarrow> bool" where
  "is_char_boundary s i \<longleftrightarrow>
     i = 0 \<or> i = length s \<or> i < length s \<and> \<not> continuation_byte (s ! i)"

text \<open>\<open>while !s.is_char_boundary(i) { i += 1 }\<close>, for \<open>i \<le> s.len()\<close>.\<close>

function next_char_boundary :: "string \<Rightarrow> nat \<Rightarrow> nat" where
  "next_char_boundary s i =
     (if is_char_boundary s i \<or> length s \<le> i then i else next_char_boundary s (i + 1))"
  by pat_completeness auto
termination
  by (relation "measure (\<lambda>(s, i). length s - i)") auto

declare next_char_boundary.simps [simp del]

section \<open>Bounded texts\<close>

text \<open>The marker is the ellipsis U+2026, three bytes long.\<close>

definition MARKER :: string where
  "MARKER = [CHR 0xE2, CHR 0x80, CHR 0xA6]"

text \<open>Every caller passes at least eight bytes, so that the marker fits.\<close>

definition bounded_prefix :: "string \<Rightarrow> nat \<Rightarrow> string" where
  "bounded_prefix message max_bytes =
     (if length message \<le> max_bytes then message
      else
        (let limit = max_bytes - length MARKER;
             fitting = takeWhile (\<lambda>index. index \<le> limit) (char_indices message);
             end_index = (if fitting = [] then 0 else last fitting) in
         take end_index message @ MARKER))"

definition bounded_error :: "string \<Rightarrow> string" where
  "bounded_error message = bounded_prefix message 4096"

section \<open>JSON members\<close>

text \<open>The integers of a JSON number are 64 bits wide.\<close>

fun as_u64 :: "json \<Rightarrow> nat option" where
  "as_u64 (JNumber (PosInt n)) = (if n \<le> 18446744073709551615 then Some n else None)"
| "as_u64 _ = None"

fun as_i64 :: "json \<Rightarrow> int option" where
  "as_i64 (JNumber (PosInt n)) = (if n \<le> 9223372036854775807 then Some (int n) else None)"
| "as_i64 (JNumber (NegInt i)) = (if - 9223372036854775808 \<le> i \<and> i < 0 then Some i else None)"
| "as_i64 _ = None"

definition json_i64 :: "int \<Rightarrow> json" where
  "json_i64 i = JNumber (if 0 \<le> i then PosInt (nat i) else NegInt i)"

text \<open>\<open>record[field] = v\<close> on an object.\<close>

fun member_set :: "json_object \<Rightarrow> string \<Rightarrow> json \<Rightarrow> json_object" where
  "member_set [] k v = [(k, v)]"
| "member_set ((k', v') # ms) k v = (if k' = k then (k, v) # ms else (k', v') # member_set ms k v)"

definition member_opt :: "json_object \<Rightarrow> string \<Rightarrow> json option \<Rightarrow> json_object" where
  "member_opt ms k v = (case v of None \<Rightarrow> ms | Some x \<Rightarrow> member_set ms k x)"

definition nullable :: "string option \<Rightarrow> json" where
  "nullable v = (case v of None \<Rightarrow> JNull | Some s \<Rightarrow> JString s)"

section \<open>Failure records\<close>

definition text_fields :: "string list" where
  "text_fields = [''operation'', ''remote_message'', ''cleanup_result'']"

definition number_fields :: "string list" where
  "number_fields = [''bytes'', ''cap'', ''last_event_seq'']"

text \<open>The evidence of a detail, whose texts are cut at \<open>budget\<close>.\<close>

definition add_evidence :: "nat \<Rightarrow> json \<Rightarrow> json_object \<Rightarrow> json_object" where
  "add_evidence budget detail ms =
     (let ms1 = fold (\<lambda>f ms. member_opt ms f
                   (map_option (\<lambda>v. JString (bounded_prefix v budget)) (get_str detail f))) text_fields ms;
          ms2 = fold (\<lambda>f ms. member_opt ms f
                   (map_option (\<lambda>n. JNumber (PosInt n)) (Option.bind (json_get detail f) as_u64)))
                  number_fields ms1 in
      member_opt ms2 ''remote_code''
        (map_option json_i64 (Option.bind (json_get detail ''remote_code'') as_i64)))"

definition decoded :: "json_codec \<Rightarrow> string \<Rightarrow> json option" where
  "decoded codec s = (case from_str codec s of Inl _ \<Rightarrow> None | Inr v \<Rightarrow> Some v)"

definition detail_message :: "json option \<Rightarrow> string \<Rightarrow> string" where
  "detail_message detail message =
     (case Option.bind detail (\<lambda>v. get_str v ''message'') of None \<Rightarrow> message | Some m \<Rightarrow> m)"

definition runtime_failure_record ::
    "json_codec \<Rightarrow> string \<Rightarrow> string option \<Rightarrow> string \<Rightarrow> string \<Rightarrow> string \<Rightarrow> string \<Rightarrow> string" where
  "runtime_failure_record codec agent session stage error_code message stderr_tail =
     (let start = next_char_boundary stderr_tail (length stderr_tail - 16 * 1024);
          detail = decoded codec message;
          base = [(''agent_id'', JString (bounded_error agent)),
                  (''session_id'', nullable (map_option bounded_error session)),
                  (''stage'', JString (bounded_prefix stage 128)),
                  (''error_code'', JString (bounded_prefix error_code 128)),
                  (''message'', JString (bounded_error (detail_message detail message))),
                  (''stderr_tail'', JString (drop start stderr_tail))] in
      json_text codec (JObject (case detail of None \<Rightarrow> base | Some d \<Rightarrow> add_evidence 1024 d base)))"

definition PERSISTABLE_RECORD_BYTES :: nat where
  "PERSISTABLE_RECORD_BYTES = 16 * 1024"

definition PERSISTABLE_TAIL_BYTES :: nat where
  "PERSISTABLE_TAIL_BYTES = 12 * 1024"

record PersistableBudgets =
  budget_id :: nat
  budget_code :: nat
  budget_message :: nat
  budget_evidence :: nat

definition PERSISTABLE_BUDGETS :: PersistableBudgets where
  "PERSISTABLE_BUDGETS = \<lparr>budget_id = 256, budget_code = 128, budget_message = 512, budget_evidence = 192\<rparr>"

definition PERSISTABLE_MIN_BUDGET :: nat where
  "PERSISTABLE_MIN_BUDGET = 8"

definition budgets_shrunk :: "PersistableBudgets \<Rightarrow> PersistableBudgets" where
  "budgets_shrunk b =
     \<lparr>budget_id = max (budget_id b div 2) PERSISTABLE_MIN_BUDGET,
      budget_code = max (budget_code b div 2) PERSISTABLE_MIN_BUDGET,
      budget_message = max (budget_message b div 2) PERSISTABLE_MIN_BUDGET,
      budget_evidence = max (budget_evidence b div 2) PERSISTABLE_MIN_BUDGET\<rparr>"

definition budgets_at_floor :: "PersistableBudgets \<Rightarrow> bool" where
  "budgets_at_floor b \<longleftrightarrow>
     budget_id b \<le> PERSISTABLE_MIN_BUDGET \<and> budget_code b \<le> PERSISTABLE_MIN_BUDGET
     \<and> budget_message b \<le> PERSISTABLE_MIN_BUDGET \<and> budget_evidence b \<le> PERSISTABLE_MIN_BUDGET"

record PersistableFields =
  field_agent :: string
  field_session :: "string option"
  field_stage :: string
  field_error_code :: string
  field_message :: string
  field_detail :: "json option"
  field_stderr_tail :: string
  field_tail_truncated :: bool

definition persistable_object :: "PersistableFields \<Rightarrow> PersistableBudgets \<Rightarrow> json_object" where
  "persistable_object f b =
     (let base = [(''agent_id'', JString (bounded_prefix (field_agent f) (budget_id b))),
                  (''session_id'', nullable (map_option (\<lambda>v. bounded_prefix v (budget_id b)) (field_session f))),
                  (''stage'', JString (bounded_prefix (field_stage f) (budget_code b))),
                  (''error_code'', JString (bounded_prefix (field_error_code f) (budget_code b))),
                  (''message'', JString (bounded_prefix (detail_message (field_detail f) (field_message f))
                                          (budget_message b))),
                  (''stderr_tail'', JString (field_stderr_tail f)),
                  (''tail_truncated'', JBool (field_tail_truncated f))] in
      case field_detail f of None \<Rightarrow> base | Some d \<Rightarrow> add_evidence (budget_evidence b) d base)"

definition render_persistable :: "json_codec \<Rightarrow> PersistableFields \<Rightarrow> PersistableBudgets \<Rightarrow> string" where
  "render_persistable codec f b = json_text codec (JObject (persistable_object f b))"

definition persistable_record_with_tail ::
    "json_codec \<Rightarrow> string \<Rightarrow> string option \<Rightarrow> string \<Rightarrow> string \<Rightarrow> string \<Rightarrow> string \<Rightarrow> bool \<Rightarrow> string" where
  "persistable_record_with_tail codec agent session stage error_code message tail truncated =
     render_persistable codec
       \<lparr>field_agent = agent, field_session = session, field_stage = stage, field_error_code = error_code,
        field_message = message, field_detail = decoded codec message, field_stderr_tail = tail,
        field_tail_truncated = truncated\<rparr> PERSISTABLE_BUDGETS"

section \<open>Bisection\<close>

function bisect :: "(nat \<Rightarrow> bool) \<Rightarrow> nat \<Rightarrow> nat \<Rightarrow> nat" where
  "bisect feasible lo hi =
     (if 1 < hi - lo then
        (let mid = lo + (hi - lo) div 2 in
         if feasible mid then bisect feasible lo mid else bisect feasible mid hi)
      else hi)"
  by pat_completeness auto
termination
  by (relation "measure (\<lambda>(feasible, lo, hi). hi - lo)") (auto simp: Let_def)

declare bisect.simps [simp del]

definition tail_boundaries :: "string \<Rightarrow> nat list" where
  "tail_boundaries window = char_indices window @ [length window]"

definition persistable_failure_record ::
    "json_codec \<Rightarrow> string \<Rightarrow> string option \<Rightarrow> string \<Rightarrow> string \<Rightarrow> string \<Rightarrow> string \<Rightarrow> string" where
  "persistable_failure_record codec agent session stage error_code message stderr_tail =
     (let window_start = next_char_boundary stderr_tail (length stderr_tail - PERSISTABLE_TAIL_BYTES);
          window = drop window_start stderr_tail;
          boundaries = tail_boundaries window;
          render = (\<lambda>index. let cut = boundaries ! index in
                      persistable_record_with_tail codec agent session stage error_code message
                        (drop cut window) (0 < window_start \<or> 0 < cut));
          feasible = (\<lambda>index. length (render index) \<le> PERSISTABLE_RECORD_BYTES);
          chosen = (if feasible 0 then 0 else bisect feasible 0 (length boundaries - 1)) in
      render chosen)"

section \<open>Shrinking a stored record\<close>

definition stored_text :: "json \<Rightarrow> string \<Rightarrow> string" where
  "stored_text v k = (case get_str v k of None \<Rightarrow> [] | Some s \<Rightarrow> s)"

definition shrink_materials :: "json \<Rightarrow> string \<Rightarrow> bool \<Rightarrow> PersistableFields" where
  "shrink_materials v tail truncated =
     \<lparr>field_agent = stored_text v ''agent_id'', field_session = get_str v ''session_id'',
      field_stage = stored_text v ''stage'', field_error_code = stored_text v ''error_code'',
      field_message = stored_text v ''message'', field_detail = Some v, field_stderr_tail = tail,
      field_tail_truncated = truncated\<rparr>"

fun as_bool :: "json \<Rightarrow> bool option" where
  "as_bool (JBool b) = Some b"
| "as_bool _ = None"

definition budget_room :: "PersistableBudgets \<Rightarrow> nat" where
  "budget_room b = (budget_id b - 8) + (budget_code b - 8) + (budget_message b - 8) + (budget_evidence b - 8)"

lemma budget_room_shrunk: "\<not> budgets_at_floor b \<Longrightarrow> budget_room (budgets_shrunk b) < budget_room b"
proof -
  define h where "h n = max (n div 2) 8 - 8" for n :: nat
  define d where "d n = n - 8" for n :: nat
  have le: "h n \<le> d n" for n
    by (simp add: h_def d_def max_def diff_le_mono)
  have less: "8 < n \<Longrightarrow> h n < d n" for n
    by (simp add: h_def d_def max_def diff_less_mono)
  assume "\<not> budgets_at_floor b"
  then have "8 < budget_id b \<or> 8 < budget_code b \<or> 8 < budget_message b \<or> 8 < budget_evidence b"
    by (auto simp: budgets_at_floor_def PERSISTABLE_MIN_BUDGET_def)
  moreover have "budget_room (budgets_shrunk b) =
      h (budget_id b) + h (budget_code b) + h (budget_message b) + h (budget_evidence b)"
    by (simp add: budget_room_def budgets_shrunk_def PERSISTABLE_MIN_BUDGET_def h_def)
  moreover have "budget_room b = d (budget_id b) + d (budget_code b) + d (budget_message b) + d (budget_evidence b)"
    by (simp add: budget_room_def d_def)
  ultimately show ?thesis
    using le [of "budget_id b"] le [of "budget_code b"] le [of "budget_message b"] le [of "budget_evidence b"]
      less [of "budget_id b"] less [of "budget_code b"] less [of "budget_message b"] less [of "budget_evidence b"]
    by (elim disjE) linarith+
qed

function shrink_budgets :: "json_codec \<Rightarrow> json \<Rightarrow> nat \<Rightarrow> PersistableBudgets \<Rightarrow> PersistableBudgets" where
  "shrink_budgets codec v max_bytes b =
     (if length (render_persistable codec (shrink_materials v [] False) b) \<le> max_bytes \<or> budgets_at_floor b
      then b else shrink_budgets codec v max_bytes (budgets_shrunk b))"
  by pat_completeness auto
termination
  by (relation "measure (\<lambda>(codec, v, n, b). budget_room b)") (auto intro: budget_room_shrunk)

declare shrink_budgets.simps [simp del]

definition shrink_persistable_record :: "json_codec \<Rightarrow> string \<Rightarrow> nat \<Rightarrow> string option" where
  "shrink_persistable_record codec rec max_bytes =
     Option.bind (decoded codec rec) (\<lambda>v.
       if as_object v = None then None
       else
         (let original_tail = stored_text v ''stderr_tail'';
              original_truncated = (Option.bind (json_get v ''tail_truncated'') as_bool = Some True);
              budgets = shrink_budgets codec v max_bytes PERSISTABLE_BUDGETS;
              boundaries = tail_boundaries original_tail;
              render = (\<lambda>index. let cut = boundaries ! index in
                          render_persistable codec
                            (shrink_materials v (drop cut original_tail) (original_truncated \<or> 0 < cut)) budgets);
              feasible = (\<lambda>index. length (render index) \<le> max_bytes);
              chosen = (if feasible 0 then 0
                        else if \<not> feasible (length boundaries - 1) then length boundaries - 1
                        else bisect feasible 0 (length boundaries - 1)) in
          Some (render chosen)))"

definition update_latest_failure :: "(string \<rightharpoonup> string) \<Rightarrow> string \<Rightarrow> string \<Rightarrow> (string \<rightharpoonup> string)" where
  "update_latest_failure failures agent message = failures(agent \<mapsto> message)"

section \<open>Bounded texts are bounded\<close>

lemma char_starts_bound: "i \<in> set (char_starts k cs) \<Longrightarrow> k \<le> i \<and> i \<le> k + length (concat cs)"
  by (induction cs arbitrary: k) fastforce+

lemma char_indices_le: "i \<in> set (char_indices s) \<Longrightarrow> i \<le> length s"
  using char_starts_bound [of i 0 "chars s"] by (simp add: char_indices_def)

lemma char_indices_hd: "s \<noteq> [] \<Longrightarrow> char_indices s \<noteq> [] \<and> hd (char_indices s) = 0"
  by (cases s) (simp_all add: char_indices_def)

lemma last_takeWhile_le:
  fixes limit :: nat
  shows "takeWhile (\<lambda>i. i \<le> limit) xs \<noteq> [] \<Longrightarrow> last (takeWhile (\<lambda>i. i \<le> limit) xs) \<le> limit"
  using last_in_set set_takeWhileD by (metis (mono_tags, lifting))

lemma length_MARKER [simp]: "length MARKER = 3"
  by (simp add: MARKER_def)

lemma bounded_prefix_length: "8 \<le> n \<Longrightarrow> length (bounded_prefix s n) \<le> n"
  using last_takeWhile_le [of "n - 3" "char_indices s"]
  by (auto simp: bounded_prefix_def Let_def)

lemma bisect_maximal:
  "lo < hi \<Longrightarrow> \<not> feasible lo \<Longrightarrow> feasible hi \<Longrightarrow>
     lo < bisect feasible lo hi \<and> bisect feasible lo hi \<le> hi
     \<and> feasible (bisect feasible lo hi) \<and> \<not> feasible (bisect feasible lo hi - 1)"
proof (induction feasible lo hi rule: bisect.induct)
  case (1 feasible lo hi)
  show ?case
  proof (cases "1 < hi - lo")
    case False
    with 1 have "hi = Suc lo" by simp
    with 1 show ?thesis by (simp add: bisect.simps)
  next
    case True
    define mid where "mid = lo + (hi - lo) div 2"
    have mid: "lo < mid" "mid < hi" using True by (auto simp: mid_def)
    have eq: "bisect feasible lo hi =
        (if feasible mid then bisect feasible lo mid else bisect feasible mid hi)"
      using True by (subst bisect.simps) (simp add: mid_def)
    show ?thesis
    proof (cases "feasible mid")
      case t: True
      with 1 True mid have "lo < bisect feasible lo mid \<and> bisect feasible lo mid \<le> mid
        \<and> feasible (bisect feasible lo mid) \<and> \<not> feasible (bisect feasible lo mid - 1)"
        by (simp add: mid_def)
      with t mid eq show ?thesis by simp
    next
      case f: False
      with 1 True mid have "mid < bisect feasible mid hi \<and> bisect feasible mid hi \<le> hi
        \<and> feasible (bisect feasible mid hi) \<and> \<not> feasible (bisect feasible mid hi - 1)"
        by (simp add: mid_def)
      with f mid eq show ?thesis by simp
    qed
  qed
qed

section \<open>The size of a record\<close>

text \<open>
  The size of compact JSON text: a byte of a string takes at most six (\<open>\u0001\<close>), an integer its
  digits.
\<close>

fun json_size :: "json \<Rightarrow> nat" where
  "json_size JNull = 4"
| "json_size (JBool b) = 5"
| "json_size (JNumber (PosInt n)) = length (to_decimal n)"
| "json_size (JNumber (NegInt i)) = 1 + length (to_decimal (nat (- i)))"
| "json_size (JNumber (Float t)) = length t"
| "json_size (JString s) = 2 + 6 * length s"
| "json_size (JArray vs) = 2 + sum_list (map (\<lambda>v. 1 + json_size v) vs)"
| "json_size (JObject ms) = 2 + sum_list (map (\<lambda>(k, v). 4 + 6 * length k + json_size v) ms)"

definition compact_text :: "json_codec \<Rightarrow> bool" where
  "compact_text codec \<longleftrightarrow> (\<forall>v. length (json_text codec v) \<le> json_size v)"

abbreviation members_size :: "json_object \<Rightarrow> nat" where
  "members_size ms \<equiv> sum_list (map (\<lambda>(k, v). 4 + 6 * length k + json_size v) ms)"

lemma as_u64_size: "as_u64 v = Some n \<Longrightarrow> json_size (JNumber (PosInt n)) \<le> 20"
  using length_to_decimal_le [of n 19] by (cases v rule: as_u64.cases) (auto split: if_splits)

lemma as_i64_size: "as_i64 v = Some i \<Longrightarrow> json_size (json_i64 i) \<le> 20"
proof (cases v rule: as_i64.cases)
  case (1 n)
  assume "as_i64 v = Some i"
  with 1 have "i = int n" "n \<le> 9223372036854775807" by (auto split: if_splits)
  then show ?thesis using length_to_decimal_le [of n 18] by (simp add: json_i64_def)
next
  case (2 j)
  assume "as_i64 v = Some i"
  with 2 have "i < 0" "nat (- i) \<le> 9223372036854775808" by (auto split: if_splits)
  then show ?thesis using length_to_decimal_le [of "nat (- i)" 18] by (simp add: json_i64_def)
qed auto

lemma members_size_set: "members_size (member_set ms k v) \<le> members_size ms + 4 + 6 * length k + json_size v"
  by (induction ms k v rule: member_set.induct) auto

lemma members_size_opt:
  assumes "\<And>x. v = Some x \<Longrightarrow> json_size x \<le> n"
  shows "members_size (member_opt ms k v) \<le> members_size ms + (4 + n + 6 * length k)"
proof (cases v)
  case (Some x)
  with assms have "json_size x \<le> n" by simp
  with members_size_set [of ms k x] Some show ?thesis by (simp add: member_opt_def)
qed (simp add: member_opt_def)

lemma members_size_fold:
  assumes "\<And>f ms. members_size (g f ms) \<le> members_size ms + (c + 6 * length f)"
  shows "members_size (fold g fs ms) \<le> members_size ms + sum_list (map (\<lambda>f. c + 6 * length f) fs)"
proof (induction fs arbitrary: ms)
  case (Cons f fs)
  show ?case using Cons.IH [of "g f ms"] assms [of f ms] by simp
qed simp

lemma members_size_evidence:
  assumes "8 \<le> budget"
  shows "members_size (add_evidence budget detail ms) \<le> members_size ms + 18 * budget + 534"
proof -
  let ?t = "\<lambda>f ms. member_opt ms f (map_option (\<lambda>v. JString (bounded_prefix v budget)) (get_str detail f))"
  let ?n = "\<lambda>f ms. member_opt ms f
      (map_option (\<lambda>n. JNumber (PosInt n)) (Option.bind (json_get detail f) as_u64))"
  have "members_size (?t f ms) \<le> members_size ms + (4 + (2 + 6 * budget) + 6 * length f)" for f ms
    using bounded_prefix_length [OF assms] by (intro members_size_opt) auto
  from members_size_fold [OF this, of text_fields ms]
  have t: "members_size (fold ?t text_fields ms) \<le> members_size ms + 18 * budget + 240"
    by (simp add: text_fields_def)
  have "members_size (?n f ms) \<le> members_size ms + (4 + 20 + 6 * length f)" for f ms
    by (intro members_size_opt) (auto simp: bind_eq_Some_conv simp del: json_size.simps dest: as_u64_size)
  from members_size_fold [OF this, of number_fields]
  have n: "members_size (fold ?n number_fields ms') \<le> members_size ms' + 204" for ms'
    by (simp add: number_fields_def)
  have i: "members_size (member_opt ms' ''remote_code''
        (map_option json_i64 (Option.bind (json_get detail ''remote_code'') as_i64)))
      \<le> members_size ms' + (4 + 20 + 6 * length ''remote_code'')" for ms'
    by (intro members_size_opt) (auto simp: bind_eq_Some_conv simp del: json_size.simps dest: as_i64_size)
  show ?thesis
    unfolding add_evidence_def Let_def
    using i [of "fold ?n number_fields (fold ?t text_fields ms)"] n [of "fold ?t text_fields ms"] t
    by simp
qed

lemma members_size_persistable:
  assumes "8 \<le> budget_id b" "8 \<le> budget_code b" "8 \<le> budget_message b" "8 \<le> budget_evidence b"
  shows "members_size (persistable_object f b) \<le>
      12 * budget_id b + 12 * budget_code b + 6 * budget_message b + 18 * budget_evidence b
      + 6 * length (field_stderr_tail f) + 971"
proof -
  note B = bounded_prefix_length [OF assms(1)] bounded_prefix_length [OF assms(2)] bounded_prefix_length [OF assms(3)]
  note E = members_size_evidence [OF assms(4)]
  have s: "json_size (nullable (map_option (\<lambda>v. bounded_prefix v (budget_id b)) (field_session f)))
      \<le> 4 + 6 * budget_id b"
  proof (cases "field_session f")
    case (Some t)
    then show ?thesis using B(1) [of t] by (simp add: nullable_def)
  qed (simp add: nullable_def)
  show ?thesis
    unfolding persistable_object_def Let_def
    using s B(1) [of "field_agent f"] B(2) [of "field_stage f"] B(2) [of "field_error_code f"]
      B(3) [of "detail_message (field_detail f) (field_message f)"]
    by (auto split: option.split intro!: order_trans [OF E])
qed

lemma empty_tail_fits:
  assumes "compact_text codec"
  shows "length (persistable_record_with_tail codec agent session stage error_code message [] truncated)
           \<le> PERSISTABLE_RECORD_BYTES"
proof -
  let ?f = "\<lparr>field_agent = agent, field_session = session, field_stage = stage, field_error_code = error_code,
        field_message = message, field_detail = decoded codec message, field_stderr_tail = [],
        field_tail_truncated = truncated\<rparr>"
  have "length (json_text codec (JObject (persistable_object ?f PERSISTABLE_BUDGETS)))
      \<le> 2 + members_size (persistable_object ?f PERSISTABLE_BUDGETS)"
    using assms unfolding compact_text_def by (metis json_size.simps(8))
  also have "\<dots> \<le> 12109"
    using members_size_persistable [of PERSISTABLE_BUDGETS ?f] by (simp add: PERSISTABLE_BUDGETS_def)
  finally show ?thesis
    by (simp add: persistable_record_with_tail_def render_persistable_def PERSISTABLE_RECORD_BYTES_def)
qed

lemma tail_boundaries_last: "drop (tail_boundaries w ! (length (tail_boundaries w) - 1)) w = []"
  by (simp add: tail_boundaries_def)

lemma tail_boundaries_first: "tail_boundaries w ! 0 = 0"
  using char_indices_hd [of w] by (cases "w = []") (auto simp: tail_boundaries_def nth_append hd_conv_nth char_indices_def)

text \<open>
  The record of a failure that is stored with a task's result never exceeds 16 KiB, whatever the
  agent, the session, the error and the standard error output are, as long as the JSON text is compact
  (at most six bytes for a byte of a string). What it keeps of the output is the suffix of the last
  12 KiB that starts at a character boundary, and it is the longest one the search can justify: either
  the whole window is kept, or the record with one more character would not have fitted.
\<close>

theorem persistable_failure_record_bounded:
  assumes "compact_text codec"
  shows "\<exists>start window i.
      start = next_char_boundary stderr_tail (length stderr_tail - PERSISTABLE_TAIL_BYTES)
      \<and> window = drop start stderr_tail \<and> i < length (tail_boundaries window)
      \<and> persistable_failure_record codec agent session stage error_code message stderr_tail =
          persistable_record_with_tail codec agent session stage error_code message
            (drop (tail_boundaries window ! i) window) (0 < start \<or> 0 < tail_boundaries window ! i)
      \<and> length (persistable_failure_record codec agent session stage error_code message stderr_tail)
          \<le> PERSISTABLE_RECORD_BYTES
      \<and> (tail_boundaries window ! i = 0
          \<or> PERSISTABLE_RECORD_BYTES <
             length (persistable_record_with_tail codec agent session stage error_code message
               (drop (tail_boundaries window ! (i - 1)) window)
               (0 < start \<or> 0 < tail_boundaries window ! (i - 1))))"
proof -
  define start where "start = next_char_boundary stderr_tail (length stderr_tail - PERSISTABLE_TAIL_BYTES)"
  define w where "w = drop start stderr_tail"
  define n where "n = length (tail_boundaries w) - 1"
  define render where "render = (\<lambda>i. persistable_record_with_tail codec agent session stage error_code message
      (drop (tail_boundaries w ! i) w) (0 < start \<or> 0 < tail_boundaries w ! i))"
  define fits where "fits = (\<lambda>i. length (render i) \<le> PERSISTABLE_RECORD_BYTES)"
  define chosen where "chosen = (if fits 0 then 0 else bisect fits 0 n)"
  have eq: "persistable_failure_record codec agent session stage error_code message stderr_tail = render chosen"
    unfolding persistable_failure_record_def chosen_def n_def fits_def render_def w_def start_def Let_def ..
  have len: "length (tail_boundaries w) = Suc n" by (simp add: n_def tail_boundaries_def)
  have last: "fits n"
    using empty_tail_fits [OF assms] tail_boundaries_last [of w] by (simp add: fits_def render_def n_def)
  have "chosen \<le> n \<and> fits chosen \<and> (tail_boundaries w ! chosen = 0 \<or> \<not> fits (chosen - 1))"
  proof (cases "fits 0")
    case True
    then show ?thesis by (simp add: chosen_def tail_boundaries_first)
  next
    case False
    with last have "0 < n" by (cases n) auto
    from bisect_maximal [OF this False last] False show ?thesis by (simp add: chosen_def)
  qed
  then show ?thesis
    unfolding eq using len
    by (intro exI [of _ start] exI [of _ w] exI [of _ chosen])
       (auto simp: start_def [symmetric] w_def [symmetric] fits_def render_def)
qed

section \<open>A compact printer\<close>

text \<open>A printer that meets the assumption: quotes, backslashes and control characters are escaped.\<close>

definition hex_digit :: "nat \<Rightarrow> char" where
  "hex_digit n = char_of (if n < 10 then 48 + n else 87 + n)"

definition escape_byte :: "char \<Rightarrow> string" where
  "escape_byte c =
     (if c = CHR 0x22 \<or> c = CHR 0x5C then [CHR 0x5C, c]
      else if nat_of_char c < 32
      then [CHR 0x5C, CHR ''u'', CHR ''0'', CHR ''0'', hex_digit (nat_of_char c div 16), hex_digit (nat_of_char c mod 16)]
      else [c])"

definition quoted :: "string \<Rightarrow> string" where
  "quoted s = [CHR 0x22] @ concat (map escape_byte s) @ [CHR 0x22]"

fun commas :: "string list \<Rightarrow> string" where
  "commas [] = []"
| "commas [x] = x"
| "commas (x # y # xs) = x @ '','' @ commas (y # xs)"

fun print_json :: "json \<Rightarrow> string" where
  "print_json JNull = ''null''"
| "print_json (JBool b) = (if b then ''true'' else ''false'')"
| "print_json (JNumber (PosInt n)) = to_decimal n"
| "print_json (JNumber (NegInt i)) = CHR ''-'' # to_decimal (nat (- i))"
| "print_json (JNumber (Float t)) = t"
| "print_json (JString s) = quoted s"
| "print_json (JArray vs) = ''['' @ commas (map print_json vs) @ '']''"
| "print_json (JObject ms) = ''{'' @ commas (map (\<lambda>(k, v). quoted k @ '':'' @ print_json v) ms) @ ''}''"

definition printing_codec :: json_codec where
  "printing_codec = \<lparr>from_str = (\<lambda>_. Inl ''expected value''), rejection = (\<lambda>_. ''invalid type''),
     json_text = print_json\<rparr>"

lemma length_quoted: "length (quoted s) \<le> 2 + 6 * length s"
proof -
  have "length (escape_byte c) \<le> 6" for c by (simp add: escape_byte_def)
  then have "length (concat (map escape_byte s)) \<le> 6 * length s"
    by (induction s) (auto intro: add_mono)
  then show ?thesis by (simp add: quoted_def)
qed

lemma length_commas: "length (commas xs) \<le> sum_list (map (\<lambda>x. 1 + length x) xs)"
  by (induction xs rule: commas.induct) auto

lemma length_print_json: "length (print_json v) \<le> json_size v"
proof (induction v rule: print_json.induct)
  case (7 vs)
  then have "sum_list (map (\<lambda>x. 1 + length x) (map print_json vs)) \<le> sum_list (map (\<lambda>v. 1 + json_size v) vs)"
    unfolding map_map comp_def by (intro sum_list_mono) simp
  with length_commas [of "map print_json vs"] show ?case by simp
next
  case (8 ms)
  let ?p = "\<lambda>(k, v). quoted k @ '':'' @ print_json v"
  have "sum_list (map (\<lambda>x. 1 + length x) (map ?p ms)) \<le> members_size ms"
    unfolding map_map comp_def
  proof (intro sum_list_mono)
    fix m assume m: "m \<in> set ms"
    obtain k v where kv: "m = (k, v)" by fastforce
    have "length (print_json v) \<le> json_size v" by (rule 8 [OF m kv [symmetric]])
    with length_quoted [of k]
    show "1 + length (?p m) \<le> (case m of (k, v) \<Rightarrow> 4 + 6 * length k + json_size v)" by (simp add: kv)
  qed
  with length_commas [of "map ?p ms"] show ?case by simp
qed (use length_quoted in auto)

lemma compact_printing_codec: "compact_text printing_codec"
  by (simp add: compact_text_def printing_codec_def length_print_json)

theorem persistable_failure_record_bounded_witness:
  "length (persistable_failure_record printing_codec ''agent-1'' (Some ''s'') ''launch'' ''exit'' ''gone'' ''boom'')
     \<le> PERSISTABLE_RECORD_BYTES"
  using persistable_failure_record_bounded [OF compact_printing_codec, where agent = "''agent-1''"
      and session = "Some ''s''" and stage = "''launch''" and error_code = "''exit''" and message = "''gone''"
      and stderr_tail = "''boom''"]
  by (elim exE conjE)

end
