(* ===== verification/Contract_Properties.thy ===== *)
theory Contract_Properties
  imports Contract_Wire Diagnostics
begin

text \<open>
  Properties of the wire contract: what a line must be to be classified as a request, a response or an
  event, the round trip of the envelopes the daemon writes, the models a reference stands for, and the
  permission responses that may be given.
\<close>

section \<open>Serialization of envelopes\<close>

text \<open>The derived serializers: the fields in order, an absent result or error skipped.\<close>

fun wire_id_value :: "WireId \<Rightarrow> json" where
  "wire_id_value (WireInteger i) = json_i64 i"
| "wire_id_value (WireString s) = JString s"

definition request_value :: "RequestEnvelope \<Rightarrow> json" where
  "request_value r = JObject [(''id'', wire_id_value (request_envelope_id r)),
     (''method'', JString (request_method r)), (''params'', request_params r)]"

definition optional_value :: "string \<Rightarrow> json option \<Rightarrow> json_object" where
  "optional_value k v = (case v of None \<Rightarrow> [] | Some x \<Rightarrow> [(k, x)])"

definition response_value :: "ResponseEnvelope \<Rightarrow> json" where
  "response_value r = JObject ((''id'', wire_id_value (response_envelope_id r))
     # optional_value ''result'' (response_result r) @ optional_value ''error'' (response_error r))"

definition event_value :: "EventEnvelope \<Rightarrow> json" where
  "event_value e = JObject [(''method'', JString (event_method e)), (''params'', event_params e)]"

fun wire_id_in_range :: "WireId \<Rightarrow> bool" where
  "wire_id_in_range (WireInteger i) = (- 9223372036854775808 \<le> i \<and> i \<le> 9223372036854775807)"
| "wire_id_in_range (WireString _) = True"

lemma wire_id_roundtrip [simp]: "wire_id_in_range i \<Longrightarrow> wire_id (wire_id_value i) = Some i"
  by (cases i) (auto simp: json_i64_def nat_le_iff)

section \<open>Classification\<close>

lemma known_keys_filter:
  "known_keys ks (filter (\<lambda>(k, _). k \<noteq> x) ms) \<Longrightarrow> known_keys (x # ks) ms"
  by (auto simp: known_keys_def list_all_iff)

lemma map_of_filter_key: "map_of (filter (\<lambda>(k, _). k \<noteq> x) ms) k = (if k = x then None else map_of ms k)"
  by (induction ms) auto

definition sole_outcome :: "ResponseEnvelope \<Rightarrow> bool" where
  "sole_outcome r \<longleftrightarrow> (response_result r = None) \<noteq> (response_error r = None)"

text \<open>What the members of the line are, for each kind of message.\<close>

fun classified_as :: "json_object \<Rightarrow> WireMessage \<Rightarrow> bool" where
  "classified_as ms (Response r) \<longleftrightarrow>
     known_keys [''id'', ''result'', ''error''] ms \<and> sole_outcome r
     \<and> Option.bind (map_of ms ''id'') wire_id = Some (response_envelope_id r)
     \<and> response_result r = map_of ms ''result'' \<and> response_error r = map_of ms ''error''"
| "classified_as ms (Request r) \<longleftrightarrow>
     known_keys [''trace'', ''id'', ''method'', ''params''] ms
     \<and> Option.bind (map_of ms ''id'') wire_id = Some (request_envelope_id r)
     \<and> map_of ms ''method'' = Some (JString (request_method r)) \<and> request_params r = params_member ms"
| "classified_as ms (Event e) \<longleftrightarrow>
     known_keys [''method'', ''params''] ms
     \<and> map_of ms ''method'' = Some (JString (event_method e)) \<and> event_params e = params_member ms
     \<and> event_method e = SESSION_EVENT \<and> (\<exists>kind \<in> set turn_events. event_type e = Some kind)"
| "classified_as ms (UnknownEvent method raw) \<longleftrightarrow>
     raw = JObject ms \<and> map_of ms ''method'' = Some (JString method)
     \<and> \<not> contains_key ms ''id'' \<and> \<not> known_event method ms"

lemma response_classified:
  assumes "response_from_value ms = Some r"
    and "\<not> (contains_key ms ''result'' \<and> contains_key ms ''error'')"
    and "\<not> (case map_of ms ''result'' of
                Some v \<Rightarrow> json_is_null v
              | None \<Rightarrow> (case map_of ms ''error'' of Some v \<Rightarrow> json_is_null v | None \<Rightarrow> True))"
  shows "classified_as ms (Response r)"
  using assms
  by (auto simp: response_from_value_def option_member_def contains_key_def sole_outcome_def
      split: if_splits option.splits)

lemma request_classified:
  "request_from_value (filter (\<lambda>(k, _). k \<noteq> ''trace'') ms) = Some r \<Longrightarrow> classified_as ms (Request r)"
  by (auto simp: request_from_value_def map_of_filter_key params_member_def bind_eq_Some_conv
      split: if_splits option.splits dest: known_keys_filter)

lemma event_classified:
  assumes "event_from_value ms = Some e" "map_of ms ''method'' = Some (JString m)" "known_event m ms"
  shows "classified_as ms (Event e)"
  using assms
  by (auto simp: event_from_value_def known_event_def event_type_def params_member_def
      split: if_splits option.splits)

lemma parse_object_classified: "parse_object codec ms = Inr m \<Longrightarrow> classified_as ms m"
  unfolding parse_object_def
  by (auto simp: Let_def bind_eq_Some_conv split: if_splits option.splits
      simp del: classified_as.simps(1,2,3)
      intro: response_classified request_classified event_classified)

text \<open>
  C32. A line is classified strictly. It must be a JSON object without a \<open>jsonrpc\<close> member; a response
  has an id, exactly one of a result and an error, which is not null, and no other member; a request
  has an id, a method and at most parameters and a trace; an event is one of the three turn events and
  has only a method and parameters; anything else that has a method and no id is kept whole as an
  unknown event. Every other line is an error.
\<close>

theorem parse_line_strict:
  assumes "parse_line codec line = Inr m"
  shows "\<exists>ms. from_str codec line = Inr (JObject ms) \<and> \<not> contains_key ms ''jsonrpc'' \<and> classified_as ms m"
proof -
  from assms obtain ms where ms: "from_str codec line = Inr (JObject ms)" "parse_object codec ms = Inr m"
    by (auto simp: parse_line_def split: sum.splits option.splits)
  then have "\<not> contains_key ms ''jsonrpc''" by (auto simp: parse_object_def)
  with ms parse_object_classified show ?thesis by blast
qed

section \<open>Round trip\<close>

definition reads_back :: "json_codec \<Rightarrow> json \<Rightarrow> bool" where
  "reads_back codec v \<longleftrightarrow> from_str codec (json_text codec v) = Inr v"


definition example_request :: RequestEnvelope where
  "example_request = \<lparr>request_envelope_id = WireInteger 7, request_method = ''session/send'', request_params = JNull\<rparr>"

definition example_response :: ResponseEnvelope where
  "example_response = response_success (WireString ''a'') (JBool True)"

definition example_event :: EventEnvelope where
  "example_event = \<lparr>event_method = SESSION_EVENT, event_params = JObject [(''type'', JString ''turn.started'')]\<rparr>"

text \<open>A codec that numbers the three values.\<close>

definition example_codec :: json_codec where
  "example_codec = \<lparr>
     from_str = (\<lambda>s. if s = ''1'' then Inr (request_value example_request)
                   else if s = ''2'' then Inr (response_value example_response)
                   else if s = ''3'' then Inr (event_value example_event) else Inl ''expected value''),
     rejection = (\<lambda>_. ''invalid type''),
     json_text = (\<lambda>v. if v = request_value example_request then ''1''
                   else if v = response_value example_response then ''2'' else ''3'')\<rparr>"

lemmas example_envelopes =
  example_request_def example_response_def example_event_def response_success_def request_value_def
  response_value_def event_value_def optional_value_def SESSION_EVENT_def json_i64_def

lemma example_codec_reads_back:
  "v \<in> {request_value example_request, response_value example_response, event_value example_event} \<Longrightarrow>
     reads_back example_codec v"
  by (auto simp: reads_back_def example_codec_def example_envelopes)

lemma example_event_type: "event_type example_event = Some ''turn.started''"
  by (simp add: example_event_def event_type_def get_str_def)


theorem parse_line_strict_witness:
  "\<exists>ms. from_str example_codec (json_text example_codec (request_value example_request)) = Inr (JObject ms)
     \<and> \<not> contains_key ms ''jsonrpc'' \<and> classified_as ms (Request example_request)"
proof (rule parse_line_strict)
  show "parse_line example_codec (json_text example_codec (request_value example_request))
      = Inr (Request example_request)"
    using example_codec_reads_back [of "request_value example_request"]
    by (simp add: reads_back_def parse_line_def parse_object_def example_envelopes contains_key_def
        request_from_value_def known_keys_def params_member_def)
qed

section \<open>Model references\<close>

lemma provider_segment_no_slash: "is_provider_segment p \<Longrightarrow> CHR ''/'' \<notin> set p"
  by (auto simp: is_provider_segment_def list_all_iff is_ascii_alphanumeric_def is_ascii_digit_def nat_of_char_def
      dest!: bspec [where x = "CHR ''/''"])

lemma provider_segment_no_zero: "is_provider_segment p \<Longrightarrow> CHR 0x00 \<notin> set p"
  by (auto simp: is_provider_segment_def list_all_iff is_ascii_alphanumeric_def is_ascii_digit_def nat_of_char_def
      dest!: bspec [where x = "CHR 0x00"])

lemma normalized_scoped_append:
  assumes "CHR ''/'' \<notin> set a"
  shows "normalized_scoped_model (a @ CHR ''/'' # b) =
    (if length a + length b \<le> 127 \<and> CHR 0x00 \<notin> set a \<and> CHR 0x00 \<notin> set b \<and> is_provider_segment a
        \<and> b \<noteq> [] \<and> CHR ''/'' \<notin> set b
     then Some (a, to_ascii_lowercase b) else None)"
proof -
  have "split_once CHR ''/'' (a @ CHR ''/'' # b) = Some (a, b)" using assms by (simp add: split_once_Some)
  then show ?thesis
    by (auto simp: normalized_scoped_model_def normalized_model_reference_def is_provider_segment_def)
qed

lemma normalized_scoped_not_segment:
  assumes "\<not> is_provider_segment a"
  shows "normalized_scoped_model (a @ CHR ''/'' # b) = None"
proof (cases "CHR ''/'' \<in> set a")
  case True
  then obtain c d where "a = c @ CHR ''/'' # d" "CHR ''/'' \<notin> set c" using split_list_first by metis
  then show ?thesis using normalized_scoped_append [of c "d @ CHR ''/'' # b"] by simp
qed (simp add: normalized_scoped_append assms)

lemma normalized_scoped_SomeE:
  assumes "normalized_scoped_model v = Some (p, m)"
  obtains model where "v = p @ CHR ''/'' # model" "m = to_ascii_lowercase model" "is_provider_segment p"
    "length p + length model \<le> 127"
proof -
  from assms have "CHR ''/'' \<in> set v" by (auto simp: normalized_scoped_model_def split: if_splits)
  then obtain a b where ab: "v = a @ CHR ''/'' # b" "CHR ''/'' \<notin> set a"
    using split_list_first by metis
  with assms normalized_scoped_append [OF ab(2), of b] that [of b] show ?thesis by (auto split: if_splits)
qed

text \<open>
  A requested model matches the model of a provider exactly when the request is a well-formed
  reference and writing the provider and the model as a reference gives the same normalized one: the
  check, which tests the parts one by one, agrees with comparing whole references.
\<close>

theorem provider_model_matches_iff:
  "provider_model_matches requested provider model_name \<longleftrightarrow>
     normalized_scoped_model requested \<noteq> None
     \<and> normalized_scoped_model (provider @ ''/'' @ model_name) = normalized_scoped_model requested"
proof (cases "normalized_scoped_model requested")
  case None
  then show ?thesis by (simp add: provider_model_matches_def)
next
  case (Some pm)
  obtain p m where pm: "pm = (p, m)" by fastforce
  with Some obtain model where req: "m = to_ascii_lowercase model" "is_provider_segment p"
    "length p + length model \<le> 127"
    by (auto elim: normalized_scoped_SomeE)
  show ?thesis
  proof (cases "is_provider_segment provider")
    case False
    with normalized_scoped_not_segment Some pm show ?thesis by (auto simp: provider_model_matches_def)
  next
    case True
    have "length model_name = length model" if "to_ascii_lowercase model = to_ascii_lowercase model_name"
      using that by (metis length_to_ascii_lowercase)
    with True req Some pm show ?thesis
      by (auto simp: provider_model_matches_def normalized_scoped_append [OF provider_segment_no_slash]
          provider_segment_no_zero)
  qed
qed

end
