(* ===== verification/Runtime_Events.thy ===== *)
theory Runtime_Events
  imports Contract_Wire Transition_System
begin

text \<open>
  The events of a running agent in the daemon: the inbound events and exits of
  \<open>external-runtime/src/lib.rs\<close>, the runtime's terminals, the turn tracker and the publisher of
  \<open>external-daemon/src/lib.rs\<close>, the lifecycle of a runtime in \<open>scheduler/state.rs\<close>, and the
  projection of an event to what is stored (\<open>projection.rs\<close>).

  A mutex guards each of these states, so their operations are functions on the state. An operation of
  the publisher also returns the records it hands to its sink. Instants are numbers, given to the
  operation that reads the clock; waiting on a condition variable is not modelled.
\<close>

section \<open>Events\<close>

datatype ChildExit = ExitedCode "int option" | Signaled int | UnknownExit

datatype StopOutcome = AlreadyExited ChildExit | Terminated ChildExit

datatype Inbound =
    Message WireMessage
  | LifecycleEvent nat string LifecycleOrder
  | Malformed string
  | OversizedLine nat
  | ChildExited ChildExit
  | UnmatchedResponse WireId string

datatype RuntimeLoss =
    InvalidIdentity
  | UnsupportedIdentity
  | MissingLeader
  | IdentityMismatch
  | UnknownMembership
  | SessionLost
  | StopFailed string
  | EventStreamLost
  | PostureViolation string

datatype RuntimeTerminal =
    TerminalStopped StopOutcome
  | TerminalCompleted StopOutcome
  | TerminalFailedTurn StopOutcome
  | TerminalExited ChildExit
  | TerminalRuntimeLost RuntimeLoss
  | TerminalOrphaned RuntimeLoss

datatype RuntimeEvent = DriverEvent Inbound | TerminalEvent RuntimeTerminal

record LifecycleRecord =
  record_sequence :: nat
  record_event :: RuntimeEvent

fun terminal_proves_process_group_reaped :: "RuntimeTerminal \<Rightarrow> bool" where
  "terminal_proves_process_group_reaped (TerminalStopped _) = True"
| "terminal_proves_process_group_reaped (TerminalCompleted _) = True"
| "terminal_proves_process_group_reaped (TerminalFailedTurn _) = True"
| "terminal_proves_process_group_reaped (TerminalExited _) = True"
| "terminal_proves_process_group_reaped _ = False"

definition saturating_add_u64 :: "nat \<Rightarrow> nat \<Rightarrow> nat" where
  "saturating_add_u64 a b = min (a + b) u64_max"

section \<open>Turns\<close>

datatype TurnBoundary = BoundaryCompleted | BoundaryFailed

record TurnSnapshot =
  turn_generation :: nat
  turn_active :: bool
  turn_boundary :: "TurnBoundary option"

record TurnTrackerState =
  tracker_generation :: nat
  tracker_active :: bool
  tracker_boundary :: "TurnBoundary option"
  model_request_started_at :: "nat option"
  last_stream_activity_at :: "nat option"

definition turn_tracker_new :: TurnTrackerState where
  "turn_tracker_new = \<lparr>tracker_generation = 0, tracker_active = False, tracker_boundary = None,
     model_request_started_at = None, last_stream_activity_at = None\<rparr>"

definition turn_started :: "nat \<Rightarrow> TurnTrackerState \<Rightarrow> TurnTrackerState" where
  "turn_started now st =
     st\<lparr>tracker_generation := saturating_add_u64 (tracker_generation st) 1, tracker_active := True,
        tracker_boundary := None, model_request_started_at := Some now,
        last_stream_activity_at := Some now\<rparr>"

definition turn_ended :: "TurnBoundary \<Rightarrow> TurnTrackerState \<Rightarrow> TurnTrackerState" where
  "turn_ended b st =
     st\<lparr>tracker_active := False, tracker_boundary := Some b, model_request_started_at := None,
        last_stream_activity_at := None\<rparr>"

definition turn_observe :: "nat \<Rightarrow> Inbound \<Rightarrow> TurnTrackerState \<Rightarrow> TurnTrackerState" where
  "turn_observe now inbound st0 =
     (let st = (if tracker_active st0 then st0\<lparr>last_stream_activity_at := Some now\<rparr> else st0) in
      case inbound of
        Message (Event e) \<Rightarrow>
          (case event_type e of
             None \<Rightarrow> st
           | Some kind \<Rightarrow>
               if kind = ''turn.started'' then turn_started now st
               else if kind = ''turn.completed'' \<and> tracker_active st then turn_ended BoundaryCompleted st
               else if kind = ''turn.failed'' \<and> tracker_active st then turn_ended BoundaryFailed st
               else st)
      | _ \<Rightarrow> st)"

definition turn_snapshot :: "TurnTrackerState \<Rightarrow> TurnSnapshot" where
  "turn_snapshot st = \<lparr>turn_generation = tracker_generation st, turn_active = tracker_active st,
     turn_boundary = tracker_boundary st\<rparr>"

record RuntimeActivitySnapshot =
  activity_turn :: TurnSnapshot
  model_request_elapsed :: "nat option"
  transport_idle_elapsed :: "nat option"

definition checked_duration_since :: "nat \<Rightarrow> nat \<Rightarrow> nat option" where
  "checked_duration_since now earlier = (if earlier \<le> now then Some (now - earlier) else None)"

definition turn_activity_snapshot :: "nat \<Rightarrow> TurnTrackerState \<Rightarrow> RuntimeActivitySnapshot" where
  "turn_activity_snapshot now st =
     \<lparr>activity_turn = turn_snapshot st,
      model_request_elapsed = Option.bind (model_request_started_at st) (checked_duration_since now),
      transport_idle_elapsed = Option.bind (last_stream_activity_at st) (checked_duration_since now)\<rparr>"

section \<open>The publisher\<close>

datatype OwnerState = OwnerRunning | OwnerStopping | OwnerTerminal RuntimeTerminal

record PublisherState =
  next_sequence :: nat
  owner :: OwnerState
  exit_boundary_delivered :: bool

definition publisher_new :: PublisherState where
  "publisher_new = \<lparr>next_sequence = 1, owner = OwnerRunning, exit_boundary_delivered = False\<rparr>"

fun published_terminal :: "PublisherState \<Rightarrow> RuntimeTerminal option" where
  "published_terminal st = (case owner st of OwnerTerminal t \<Rightarrow> Some t | _ \<Rightarrow> None)"

definition emit_locked :: "RuntimeEvent \<Rightarrow> PublisherState \<Rightarrow> LifecycleRecord list \<times> PublisherState" where
  "emit_locked event st =
     ([\<lparr>record_sequence = next_sequence st, record_event = event\<rparr>],
      st\<lparr>next_sequence := saturating_add_u64 (next_sequence st) 1\<rparr>)"

definition publish_terminal_locked ::
    "RuntimeTerminal \<Rightarrow> PublisherState \<Rightarrow> LifecycleRecord list \<times> PublisherState" where
  "publish_terminal_locked t st = emit_locked (TerminalEvent t) (st\<lparr>owner := OwnerTerminal t\<rparr>)"

fun is_exit_boundary :: "Inbound \<Rightarrow> bool" where
  "is_exit_boundary (ChildExited _) = True"
| "is_exit_boundary _ = False"

definition emit_driver ::
    "Inbound \<Rightarrow> RuntimeTerminal option \<Rightarrow> PublisherState \<Rightarrow> LifecycleRecord list \<times> PublisherState" where
  "emit_driver event exit_terminal st =
     (case owner st of
        OwnerTerminal _ \<Rightarrow> ([], st)
      | _ \<Rightarrow>
          (let (records, st1) = emit_locked (DriverEvent event) st;
               st2 = (if is_exit_boundary event then st1\<lparr>exit_boundary_delivered := True\<rparr> else st1) in
           case exit_terminal of
             Some t \<Rightarrow>
               if owner st2 = OwnerRunning
               then (let (records', st3) = publish_terminal_locked t st2 in (records @ records', st3))
               else (records, st2)
           | None \<Rightarrow> (records, st2)))"

definition begin_stopping :: "PublisherState \<Rightarrow> RuntimeTerminal option \<times> PublisherState" where
  "begin_stopping st =
     (case owner st of
        OwnerTerminal t \<Rightarrow> (Some t, st)
      | OwnerRunning \<Rightarrow> (None, st\<lparr>owner := OwnerStopping\<rparr>)
      | OwnerStopping \<Rightarrow> (None, st))"

definition publish_terminal ::
    "RuntimeTerminal \<Rightarrow> PublisherState \<Rightarrow> RuntimeTerminal \<times> LifecycleRecord list \<times> PublisherState" where
  "publish_terminal t st =
     (case owner st of
        OwnerTerminal existing \<Rightarrow> (existing, [], st)
      | _ \<Rightarrow> (t, publish_terminal_locked t st))"

definition publish_cleanup_terminal ::
    "RuntimeTerminal \<Rightarrow> PublisherState \<Rightarrow> RuntimeTerminal \<times> LifecycleRecord list \<times> PublisherState" where
  "publish_cleanup_terminal t st = (t, publish_terminal_locked t st)"

section \<open>The lifecycle of a runtime\<close>

datatype RuntimeLifecyclePhase =
    LifecycleRunning | StopRequested | StopAcknowledged | ForceTerminating | LifecycleTerminal

record RuntimeLifecycle =
  lifecycle_phase :: RuntimeLifecyclePhase
  runtime_generation :: nat
  stopped_generation :: nat
  stop_requested_at :: "nat option"
  observed_boundary :: "TurnBoundary option"
  force_termination_count :: nat
  late_event_count :: nat
  read_error_reported :: bool

definition MAX_BOUNDED_LATE_EVENT_DIAGNOSTICS :: nat where
  "MAX_BOUNDED_LATE_EVENT_DIAGNOSTICS = 64"

definition runtime_lifecycle_new :: "nat \<Rightarrow> RuntimeLifecycle" where
  "runtime_lifecycle_new generation = \<lparr>lifecycle_phase = LifecycleRunning, runtime_generation = generation,
     stopped_generation = 0, stop_requested_at = None, observed_boundary = None,
     force_termination_count = 0, late_event_count = 0, read_error_reported = False\<rparr>"

definition note_decision_read_error :: "RuntimeLifecycle \<Rightarrow> bool \<times> RuntimeLifecycle" where
  "note_decision_read_error st = (\<not> read_error_reported st, st\<lparr>read_error_reported := True\<rparr>)"

definition lifecycle_request_stop :: "nat \<Rightarrow> TurnSnapshot \<Rightarrow> RuntimeLifecycle \<Rightarrow> RuntimeLifecycle" where
  "lifecycle_request_stop now turn st =
     (if lifecycle_phase st = LifecycleRunning
      then st\<lparr>lifecycle_phase := StopRequested, stopped_generation := turn_generation turn,
              stop_requested_at := Some now\<rparr>
      else st)"

definition force_terminating :: "RuntimeLifecycle \<Rightarrow> RuntimeLifecycle" where
  "force_terminating st =
     (if lifecycle_phase st \<noteq> ForceTerminating \<and> lifecycle_phase st \<noteq> LifecycleTerminal
      then st\<lparr>lifecycle_phase := ForceTerminating,
              force_termination_count := saturating_add_u64 (force_termination_count st) 1\<rparr>
      else st)"

definition acknowledge_boundary :: "TurnSnapshot \<Rightarrow> RuntimeLifecycle \<Rightarrow> bool \<times> RuntimeLifecycle" where
  "acknowledge_boundary turn st =
     (if (lifecycle_phase st = StopRequested \<or> lifecycle_phase st = StopAcknowledged)
         \<and> turn_generation turn = stopped_generation st \<and> \<not> turn_active turn \<and> turn_boundary turn \<noteq> None
      then (True, st\<lparr>lifecycle_phase := StopAcknowledged, observed_boundary := turn_boundary turn\<rparr>)
      else (False, st))"

definition terminalize :: "RuntimeLifecycle \<Rightarrow> RuntimeLifecycle" where
  "terminalize st = st\<lparr>lifecycle_phase := LifecycleTerminal\<rparr>"

definition ingress_reason :: "RuntimeLifecycle \<Rightarrow> string option" where
  "ingress_reason st =
     (case lifecycle_phase st of
        LifecycleRunning \<Rightarrow> None
      | LifecycleTerminal \<Rightarrow> Some ''LATE_AFTER_STOP''
      | _ \<Rightarrow> Some ''TASK_STOPPING'')"

definition admit_event :: "RuntimeLifecycle \<Rightarrow> bool \<times> RuntimeLifecycle" where
  "admit_event st =
     (if lifecycle_phase st = LifecycleRunning then (True, st)
      else (False, st\<lparr>late_event_count :=
              min (saturating_add_u64 (late_event_count st) 1) MAX_BOUNDED_LATE_EVENT_DIAGNOSTICS\<rparr>))"

definition is_admitting :: "RuntimeLifecycle \<Rightarrow> bool" where
  "is_admitting st \<longleftrightarrow> lifecycle_phase st = LifecycleRunning"

section \<open>Projection\<close>

record LifecycleProjection =
  projection_event_type :: string
  projection_payload :: json
  projection_redaction :: string

fun lifecycle_order_name :: "LifecycleOrder \<Rightarrow> string" where
  "lifecycle_order_name NotLifecycle = ''not_lifecycle''"
| "lifecycle_order_name InOrder = ''in_order''"
| "lifecycle_order_name (OutOfOrder _) = ''out_of_order''"

fun child_exit_name :: "ChildExit \<Rightarrow> string" where
  "child_exit_name (ExitedCode (Some c)) = (if c = 0 then ''exited_success'' else ''exited_failure'')"
| "child_exit_name (ExitedCode None) = ''exited_unknown''"
| "child_exit_name (Signaled _) = ''signaled''"
| "child_exit_name UnknownExit = ''unknown''"

fun stop_outcome_name :: "StopOutcome \<Rightarrow> string" where
  "stop_outcome_name (AlreadyExited _) = ''already_exited''"
| "stop_outcome_name (Terminated _) = ''terminated''"

fun runtime_loss_name :: "RuntimeLoss \<Rightarrow> string" where
  "runtime_loss_name InvalidIdentity = ''invalid_identity''"
| "runtime_loss_name UnsupportedIdentity = ''unsupported_identity''"
| "runtime_loss_name MissingLeader = ''missing_leader''"
| "runtime_loss_name IdentityMismatch = ''identity_mismatch''"
| "runtime_loss_name UnknownMembership = ''unknown_membership''"
| "runtime_loss_name SessionLost = ''session_lost''"
| "runtime_loss_name (StopFailed _) = ''stop_failed''"
| "runtime_loss_name EventStreamLost = ''event_stream_lost''"
| "runtime_loss_name (PostureViolation _) = ''posture_violation''"

fun runtime_loss_redaction :: "RuntimeLoss \<Rightarrow> string" where
  "runtime_loss_redaction (StopFailed _) = ''redacted''"
| "runtime_loss_redaction _ = ''allowlisted''"

definition json_option :: "string option \<Rightarrow> json" where
  "json_option v = (case v of None \<Rightarrow> JNull | Some s \<Rightarrow> JString s)"

fun lifecycle_projection :: "RuntimeEvent \<Rightarrow> string option \<Rightarrow> LifecycleProjection" where
  "lifecycle_projection (DriverEvent (Message (Request r))) pending =
     \<lparr>projection_event_type = ''driver.message'',
      projection_payload = JObject [(''kind'', JString ''request''), (''method'', JString (request_method r)),
        (''request_id'', json_option pending)],
      projection_redaction = ''redacted''\<rparr>"
| "lifecycle_projection (DriverEvent (Message (Response r))) pending =
     \<lparr>projection_event_type = ''driver.message'',
      projection_payload = JObject [(''kind'', JString ''response''),
        (''outcome'', JString (if response_error r \<noteq> None then ''error'' else ''result''))],
      projection_redaction = ''redacted''\<rparr>"
| "lifecycle_projection (DriverEvent (Message (Event e))) pending =
     \<lparr>projection_event_type = ''driver.message'',
      projection_payload = JObject [(''kind'', JString ''event''), (''method'', JString (event_method e)),
        (''type'', json_option (event_type e))],
      projection_redaction = ''redacted''\<rparr>"
| "lifecycle_projection (DriverEvent (Message (UnknownEvent _ _))) pending =
     \<lparr>projection_event_type = ''raw.unknown'',
      projection_payload = JObject [(''kind'', JString ''unknown_event''), (''raw'', JString ''[REDACTED]'')],
      projection_redaction = ''redacted''\<rparr>"
| "lifecycle_projection (DriverEvent (LifecycleEvent sequence method order)) pending =
     \<lparr>projection_event_type = ''driver.lifecycle'',
      projection_payload = JObject [(''kind'', JString ''lifecycle''), (''sequence'', JNumber (PosInt sequence)),
        (''method'', JString method), (''order'', JString (lifecycle_order_name order))],
      projection_redaction = ''allowlisted''\<rparr>"
| "lifecycle_projection (DriverEvent (Malformed _)) pending =
     \<lparr>projection_event_type = ''driver.malformed'',
      projection_payload = JObject [(''kind'', JString ''malformed''), (''detail'', JString ''[REDACTED]'')],
      projection_redaction = ''redacted''\<rparr>"
| "lifecycle_projection (DriverEvent (OversizedLine n)) pending =
     \<lparr>projection_event_type = ''driver.oversized_line'',
      projection_payload = JObject [(''kind'', JString ''oversized_line''), (''bytes'', JNumber (PosInt n))],
      projection_redaction = ''allowlisted''\<rparr>"
| "lifecycle_projection (DriverEvent (ChildExited exit)) pending =
     \<lparr>projection_event_type = ''driver.child_exited'',
      projection_payload = JObject [(''kind'', JString ''child_exited''), (''outcome'', JString (child_exit_name exit))],
      projection_redaction = ''allowlisted''\<rparr>"
| "lifecycle_projection (DriverEvent (UnmatchedResponse _ oc)) pending =
     \<lparr>projection_event_type = ''driver.unmatched_response'',
      projection_payload = JObject [(''kind'', JString ''unmatched_response''), (''outcome'', JString oc)],
      projection_redaction = ''redacted''\<rparr>"
| "lifecycle_projection (TerminalEvent (TerminalStopped oc)) pending =
     \<lparr>projection_event_type = ''runtime.stopped'',
      projection_payload = JObject [(''kind'', JString ''stopped''), (''outcome'', JString (stop_outcome_name oc))],
      projection_redaction = ''allowlisted''\<rparr>"
| "lifecycle_projection (TerminalEvent (TerminalCompleted oc)) pending =
     \<lparr>projection_event_type = ''runtime.completed'',
      projection_payload = JObject [(''kind'', JString ''completed''), (''outcome'', JString (stop_outcome_name oc))],
      projection_redaction = ''allowlisted''\<rparr>"
| "lifecycle_projection (TerminalEvent (TerminalFailedTurn oc)) pending =
     \<lparr>projection_event_type = ''runtime.turn_failed'',
      projection_payload = JObject [(''kind'', JString ''turn_failed''), (''outcome'', JString (stop_outcome_name oc))],
      projection_redaction = ''allowlisted''\<rparr>"
| "lifecycle_projection (TerminalEvent (TerminalExited exit)) pending =
     \<lparr>projection_event_type = ''runtime.exited'',
      projection_payload = JObject [(''kind'', JString ''exited''), (''outcome'', JString (child_exit_name exit))],
      projection_redaction = ''allowlisted''\<rparr>"
| "lifecycle_projection (TerminalEvent (TerminalRuntimeLost loss)) pending =
     \<lparr>projection_event_type = ''runtime.failed_runtime_lost'',
      projection_payload = JObject [(''kind'', JString ''failed_runtime_lost''),
        (''reason'', JString (runtime_loss_name loss))],
      projection_redaction = runtime_loss_redaction loss\<rparr>"
| "lifecycle_projection (TerminalEvent (TerminalOrphaned loss)) pending =
     \<lparr>projection_event_type = ''runtime.orphaned'',
      projection_payload = JObject [(''kind'', JString ''orphaned''), (''reason'', JString (runtime_loss_name loss))],
      projection_redaction = runtime_loss_redaction loss\<rparr>"

end
