(* ===== verification/Runtime_Properties.thy ===== *)
theory Runtime_Properties
  imports Runtime_Events
begin

text \<open>
  Properties of a running agent's events: the records a publisher hands to its sink, the phases of a
  runtime's lifecycle, the turns a tracker sees, and what the stored projection of an event may reveal.
\<close>

section \<open>The publisher's records\<close>

text \<open>The publisher's state with every record it has handed to its sink, oldest first.\<close>

type_synonym publisher_run = "PublisherState \<times> LifecycleRecord list"

inductive publisher_step :: "publisher_run \<Rightarrow> publisher_run \<Rightarrow> bool" where
  driver: "emit_driver event exit_terminal st = (new, st') \<Longrightarrow> publisher_step (st, rs) (st', rs @ new)"
| stopping: "begin_stopping st = (already, st') \<Longrightarrow> publisher_step (st, rs) (st', rs)"
| terminal: "publish_terminal t st = (winner, new, st') \<Longrightarrow> publisher_step (st, rs) (st', rs @ new)"
| cleanup: "publish_cleanup_terminal t st = (winner, new, st') \<Longrightarrow> publisher_step (st, rs) (st', rs @ new)"

definition publisher_initial :: "publisher_run \<Rightarrow> bool" where
  "publisher_initial r \<longleftrightarrow> r = (publisher_new, [])"

definition numbered :: "LifecycleRecord list \<Rightarrow> bool" where
  "numbered rs \<longleftrightarrow> map record_sequence rs = map (\<lambda>i. min (i + 1) u64_max) [0 ..< length rs]"

definition publisher_inv :: "publisher_run \<Rightarrow> bool" where
  "publisher_inv r \<longleftrightarrow>
     (case r of (st, rs) \<Rightarrow>
        numbered rs \<and> next_sequence st = min (length rs + 1) u64_max
        \<and> (\<exists>ds ts. map record_event rs = map DriverEvent ds @ map TerminalEvent ts
             \<and> published_terminal st = (if ts = [] then None else Some (last ts))
             \<and> (exit_boundary_delivered st \<longleftrightarrow> list_ex is_exit_boundary ds)))"

lemma numbered_snoc:
  "numbered rs \<Longrightarrow> n = min (length rs + 1) u64_max \<Longrightarrow> numbered (rs @ [\<lparr>record_sequence = n, record_event = e\<rparr>])"
  by (simp add: numbered_def)

lemma saturating_next: "saturating_add_u64 (min (n + 1) u64_max) 1 = min (n + 1 + 1) u64_max"
  by (auto simp: saturating_add_u64_def min_def)

lemma emit_driver_inv:
  assumes "publisher_inv (st, rs)" "\<And>t. owner st \<noteq> OwnerTerminal t"
    and "emit_locked (DriverEvent event) st = (new, st')"
  shows "publisher_inv (st'\<lparr>exit_boundary_delivered := exit_boundary_delivered st \<or> is_exit_boundary event\<rparr>, rs @ new)"
proof -
  from assms(1) obtain ds ts where d: "map record_event rs = map DriverEvent ds @ map TerminalEvent ts"
      "published_terminal st = (if ts = [] then None else Some (last ts))"
      "exit_boundary_delivered st \<longleftrightarrow> list_ex is_exit_boundary ds"
      "numbered rs" "next_sequence st = min (length rs + 1) u64_max"
    by (auto simp: publisher_inv_def)
  from assms(2) have none: "published_terminal st = None" by (simp split: OwnerState.splits)
  with d(2) have "ts = []" by (simp split: if_splits)
  have new: "new = [\<lparr>record_sequence = next_sequence st, record_event = DriverEvent event\<rparr>]"
    and st': "st' = st\<lparr>next_sequence := min (length rs + 1 + 1) u64_max\<rparr>"
    using assms(3) d(5) saturating_next [of "length rs"] by (simp_all only: emit_locked_def prod.inject)
  show ?thesis
    unfolding publisher_inv_def prod.case new st'
  proof (intro conjI exI [of _ "ds @ [event]"] exI [of _ "[]"])
    show "numbered (rs @ [\<lparr>record_sequence = next_sequence st, record_event = DriverEvent event\<rparr>])"
      by (rule numbered_snoc [OF d(4,5)])
  qed (use d(1,3) none \<open>ts = []\<close> in \<open>simp_all\<close>)
qed

lemma publish_terminal_inv:
  assumes "publisher_inv (st, rs)" "publish_terminal_locked t st = (new, st')"
  shows "publisher_inv (st', rs @ new)"
proof -
  from assms(1) obtain ds ts where d: "map record_event rs = map DriverEvent ds @ map TerminalEvent ts"
      "exit_boundary_delivered st \<longleftrightarrow> list_ex is_exit_boundary ds"
      "numbered rs" "next_sequence st = min (length rs + 1) u64_max"
    by (auto simp: publisher_inv_def)
  have new: "new = [\<lparr>record_sequence = next_sequence st, record_event = TerminalEvent t\<rparr>]"
    and st': "st' = st\<lparr>owner := OwnerTerminal t, next_sequence := min (length rs + 1 + 1) u64_max\<rparr>"
    using assms(2) d(4) saturating_next [of "length rs"]
    by (auto simp: publish_terminal_locked_def emit_locked_def)
  show ?thesis
    unfolding publisher_inv_def prod.case new st'
  proof (intro conjI exI [of _ ds] exI [of _ "ts @ [t]"])
    show "numbered (rs @ [\<lparr>record_sequence = next_sequence st, record_event = TerminalEvent t\<rparr>])"
      by (rule numbered_snoc [OF d(3,4)])
  qed (use d(1,2) in \<open>simp_all\<close>)
qed

lemma emit_driver_step:
  assumes "publisher_inv (st, rs)" "emit_driver event exit_terminal st = (new, st')"
  shows "publisher_inv (st', rs @ new)"
proof (cases "\<exists>t. owner st = OwnerTerminal t")
  case True
  with assms show ?thesis by (auto simp: emit_driver_def)
next
  case False
  define st1 where "st1 = snd (emit_locked (DriverEvent event) st)"
  define r1 where "r1 = fst (emit_locked (DriverEvent event) st)"
  define st2 where "st2 = st1\<lparr>exit_boundary_delivered := exit_boundary_delivered st \<or> is_exit_boundary event\<rparr>"
  have inv: "publisher_inv (st2, rs @ r1)"
    unfolding st2_def by (rule emit_driver_inv [OF assms(1)]) (use False in \<open>auto simp: r1_def st1_def\<close>)
  have st2: "(if is_exit_boundary event then st1\<lparr>exit_boundary_delivered := True\<rparr> else st1) = st2"
    by (auto simp: st2_def st1_def emit_locked_def)
  have eq: "emit_driver event exit_terminal st =
      (case exit_terminal of
         Some t \<Rightarrow> if owner st2 = OwnerRunning
           then (r1 @ fst (publish_terminal_locked t st2), snd (publish_terminal_locked t st2)) else (r1, st2)
       | None \<Rightarrow> (r1, st2))"
    unfolding emit_driver_def Let_def case_prod_unfold r1_def [symmetric] st1_def [symmetric] st2
    using False by (cases "owner st") (auto split: option.splits)
  show ?thesis
    using assms(2) inv publish_terminal_inv [OF inv] unfolding eq
    by (auto split: option.splits if_splits simp flip: append_assoc)
qed

interpretation publisher: transition_system publisher_initial publisher_step publisher_inv
proof unfold_locales
  fix r assume "publisher_initial r"
  then show "publisher_inv r"
    by (auto simp: publisher_initial_def publisher_inv_def publisher_new_def numbered_def)
next
  fix r r' assume "publisher_inv r" "publisher_step r r'"
  from this(2,1) show "publisher_inv r'"
  proof (induction rule: publisher_step.induct)
    case (driver event exit_terminal st new st' rs)
    then show ?case by (rule emit_driver_step [rotated])
  next
    case (stopping st already st' rs)
    have "publisher_inv (st\<lparr>owner := OwnerStopping\<rparr>, rs)" if "owner st = OwnerRunning"
      using stopping.prems that by (simp add: publisher_inv_def)
    with stopping show ?case by (auto simp: begin_stopping_def split: OwnerState.splits)
  next
    case (terminal t st winner new st' rs)
    then show ?case
      by (auto simp: publish_terminal_def split: OwnerState.splits intro: publish_terminal_inv)
  next
    case (cleanup t st winner new st' rs)
    then show ?case by (auto simp: publish_cleanup_terminal_def intro: publish_terminal_inv)
  qed
qed

text \<open>
  What the sink of a publisher receives, whatever order the driver's events, the stop requests,
  the terminals and the cleanup terminals arrive in: records numbered from 1 without gaps (the counter
  saturates at its 64 bits), the driver's events first and after the first terminal only terminals; the
  terminal that the publisher reports is the last one it has recorded, and it reports the exit of the
  child as delivered exactly when that event has been recorded.
\<close>

theorem publisher_records_ordered:
  assumes "reachable publisher_initial publisher_step (st, rs)"
  shows "map record_sequence rs = map (\<lambda>i. min (i + 1) u64_max) [0 ..< length rs]
    \<and> (\<exists>ds ts. map record_event rs = map DriverEvent ds @ map TerminalEvent ts
         \<and> published_terminal st = (if ts = [] then None else Some (last ts))
         \<and> (exit_boundary_delivered st \<longleftrightarrow> list_ex is_exit_boundary ds))"
  using publisher.reachable_inv [OF assms] by (auto simp: publisher_inv_def numbered_def)

lemma publisher_stopped_reachable:
  "reachable publisher_initial publisher_step (publisher_new\<lparr>owner := OwnerStopping\<rparr>, [])"
proof (rule reachable.advance)
  show "reachable publisher_initial publisher_step (publisher_new, [])"
    by (rule reachable.initial) (simp add: publisher_initial_def)
  show "publisher_step (publisher_new, []) (publisher_new\<lparr>owner := OwnerStopping\<rparr>, [])"
    by (rule publisher_step.stopping [of _ None]) (simp add: begin_stopping_def publisher_new_def)
qed

lemma publisher_exit_reachable:
  "reachable publisher_initial publisher_step
     (\<lparr>next_sequence = 2, owner = OwnerStopping, exit_boundary_delivered = True\<rparr>,
      [\<lparr>record_sequence = 1, record_event = DriverEvent (ChildExited (Signaled 9))\<rparr>])"
  using reachable.advance [OF publisher_stopped_reachable publisher_step.driver
      [of "ChildExited (Signaled 9)" "Some (TerminalExited (Signaled 9))"], OF refl [THEN trans]]
  by (simp add: emit_driver_def emit_locked_def publisher_new_def saturating_add_u64_def numeral_2_eq_2)

theorem publisher_records_ordered_witness:
  "\<exists>ds ts. [DriverEvent (ChildExited (Signaled 9))] = map DriverEvent ds @ map TerminalEvent ts
     \<and> list_ex is_exit_boundary ds"
  using publisher_records_ordered [OF publisher_exit_reachable] by auto

section \<open>The lifecycle of a runtime\<close>

inductive lifecycle_step :: "RuntimeLifecycle \<Rightarrow> RuntimeLifecycle \<Rightarrow> bool" where
  request_stop: "lifecycle_step st (lifecycle_request_stop now turn st)"
| force: "lifecycle_step st (force_terminating st)"
| acknowledge: "lifecycle_step st (snd (acknowledge_boundary turn st))"
| terminal: "lifecycle_step st (terminalize st)"
| admit: "lifecycle_step st (snd (admit_event st))"
| read_error: "lifecycle_step st (snd (note_decision_read_error st))"

fun phase_rank :: "RuntimeLifecyclePhase \<Rightarrow> nat" where
  "phase_rank LifecycleRunning = 0"
| "phase_rank StopRequested = 1"
| "phase_rank StopAcknowledged = 2"
| "phase_rank ForceTerminating = 3"
| "phase_rank LifecycleTerminal = 4"

definition lifecycle_initial :: "RuntimeLifecycle \<Rightarrow> bool" where
  "lifecycle_initial st \<longleftrightarrow> (\<exists>generation. st = runtime_lifecycle_new generation)"

definition lifecycle_inv :: "RuntimeLifecycle \<Rightarrow> bool" where
  "lifecycle_inv st \<longleftrightarrow>
     late_event_count st \<le> MAX_BOUNDED_LATE_EVENT_DIAGNOSTICS
     \<and> force_termination_count st \<le> 1
     \<and> (force_termination_count st = 1 \<longrightarrow> 3 \<le> phase_rank (lifecycle_phase st))
     \<and> (lifecycle_phase st = LifecycleRunning \<longrightarrow> late_event_count st = 0 \<and> stop_requested_at st = None)
     \<and> (lifecycle_phase st \<in> {StopRequested, StopAcknowledged} \<longrightarrow> stop_requested_at st \<noteq> None)
     \<and> (lifecycle_phase st = StopAcknowledged \<longrightarrow> observed_boundary st \<noteq> None)"

lemmas lifecycle_operations =
  lifecycle_request_stop_def force_terminating_def acknowledge_boundary_def terminalize_def admit_event_def
  note_decision_read_error_def

lemma lifecycle_step_rank:
  assumes "lifecycle_step st st'"
  shows "phase_rank (lifecycle_phase st) \<le> phase_rank (lifecycle_phase st')"
  using assms
proof cases
  case force
  then show ?thesis by (cases "lifecycle_phase st") (simp_all add: force_terminating_def)
next
  case terminal
  then show ?thesis by (cases "lifecycle_phase st") (simp_all add: terminalize_def)
qed (auto simp: lifecycle_operations)

lemma lifecycle_step_inv:
  assumes "lifecycle_step st st'" "lifecycle_inv st"
  shows "lifecycle_inv st'"
  using assms(1)
proof cases
  case request_stop
  then show ?thesis using assms(2) by (auto simp: lifecycle_request_stop_def lifecycle_inv_def)
next
  case force
  then show ?thesis using assms(2)
    by (cases "lifecycle_phase st") (auto simp: force_terminating_def lifecycle_inv_def saturating_add_u64_def)
next
  case acknowledge
  then show ?thesis using assms(2) by (auto simp: acknowledge_boundary_def lifecycle_inv_def)
next
  case terminal
  then show ?thesis using assms(2) by (auto simp: terminalize_def lifecycle_inv_def)
next
  case admit
  then show ?thesis using assms(2)
    by (cases "lifecycle_phase st") (simp_all add: admit_event_def lifecycle_inv_def)
next
  case read_error
  then show ?thesis using assms(2) by (auto simp: note_decision_read_error_def lifecycle_inv_def)
qed

interpretation lifecycle: transition_system lifecycle_initial lifecycle_step lifecycle_inv
proof unfold_locales
  fix st assume "lifecycle_initial st"
  then show "lifecycle_inv st" by (auto simp: lifecycle_initial_def lifecycle_inv_def runtime_lifecycle_new_def)
qed (rule lifecycle_step_inv)

lemma lifecycle_run_rank:
  "lifecycle_step\<^sup>*\<^sup>* st st' \<Longrightarrow> phase_rank (lifecycle_phase st) \<le> phase_rank (lifecycle_phase st')"
  by (induction rule: rtranclp_induct) (auto dest: lifecycle_step_rank)

text \<open>
  A runtime's lifecycle only moves forward: a stop that has been requested is never undone, so once
  an event has been refused no later event is admitted. On the way it is terminated by force at most
  once, it counts at most 64 late events, and a stop is acknowledged only with a boundary of the turn.
\<close>

theorem lifecycle_one_way:
  assumes "reachable lifecycle_initial lifecycle_step st" "lifecycle_step\<^sup>*\<^sup>* st st'"
  shows "phase_rank (lifecycle_phase st) \<le> phase_rank (lifecycle_phase st')
    \<and> (\<not> fst (admit_event st) \<longrightarrow> \<not> fst (admit_event st'))
    \<and> force_termination_count st' \<le> 1 \<and> late_event_count st' \<le> 64
    \<and> (lifecycle_phase st' = StopAcknowledged \<longrightarrow> observed_boundary st' \<noteq> None \<and> stop_requested_at st' \<noteq> None)"
proof -
  have rank: "phase_rank (lifecycle_phase st) \<le> phase_rank (lifecycle_phase st')"
    by (rule lifecycle_run_rank [OF assms(2)])
  moreover have "lifecycle_inv st'"
    using lifecycle.run_inv [OF assms(2)] lifecycle.reachable_inv [OF assms(1)] by blast
  moreover have "\<not> fst (admit_event st')" if "\<not> fst (admit_event st)"
    using that rank by (cases "lifecycle_phase st"; cases "lifecycle_phase st'") (auto simp: admit_event_def)
  ultimately show ?thesis
    by (auto simp: lifecycle_inv_def MAX_BOUNDED_LATE_EVENT_DIAGNOSTICS_def)
qed

theorem lifecycle_one_way_witness:
  "force_termination_count (force_terminating (runtime_lifecycle_new 3)) \<le> 1"
proof -
  have "reachable lifecycle_initial lifecycle_step (runtime_lifecycle_new 3)"
    by (rule reachable.initial) (auto simp: lifecycle_initial_def)
  moreover have "lifecycle_step\<^sup>*\<^sup>* (runtime_lifecycle_new 3) (force_terminating (runtime_lifecycle_new 3))"
    by (rule r_into_rtranclp) (rule lifecycle_step.force)
  ultimately show ?thesis using lifecycle_one_way by blast
qed

section \<open>What a projection reveals\<close>

text \<open>
  An event with everything removed that must not be stored: the parameters of requests and events
  but for the type of the event, the outcomes of responses but for which of the two it is, ids, raw
  lines and the texts of errors.
\<close>

fun redact_loss :: "RuntimeLoss \<Rightarrow> RuntimeLoss" where
  "redact_loss (StopFailed _) = StopFailed []"
| "redact_loss (PostureViolation _) = PostureViolation []"
| "redact_loss loss = loss"

fun redact_order :: "LifecycleOrder \<Rightarrow> LifecycleOrder" where
  "redact_order (OutOfOrder _) = OutOfOrder []"
| "redact_order order = order"

definition redact_event :: "EventEnvelope \<Rightarrow> EventEnvelope" where
  "redact_event e = e\<lparr>event_params :=
     (case event_type e of None \<Rightarrow> JNull | Some kind \<Rightarrow> JObject [(''type'', JString kind)])\<rparr>"

fun redacted_message :: "WireMessage \<Rightarrow> WireMessage" where
  "redacted_message (Request r) = Request (r\<lparr>request_envelope_id := WireInteger 0, request_params := JNull\<rparr>)"
| "redacted_message (Response r) =
     Response \<lparr>response_envelope_id = WireInteger 0, response_result = None,
       response_error = map_option (\<lambda>_. JNull) (response_error r)\<rparr>"
| "redacted_message (Event e) = Event (redact_event e)"
| "redacted_message (UnknownEvent _ _) = UnknownEvent [] JNull"

fun redacted_inbound :: "Inbound \<Rightarrow> Inbound" where
  "redacted_inbound (Message m) = Message (redacted_message m)"
| "redacted_inbound (LifecycleEvent n method order) = LifecycleEvent n method (redact_order order)"
| "redacted_inbound (Malformed _) = Malformed []"
| "redacted_inbound (UnmatchedResponse _ oc) = UnmatchedResponse (WireInteger 0) oc"
| "redacted_inbound event = event"

fun redacted_terminal :: "RuntimeTerminal \<Rightarrow> RuntimeTerminal" where
  "redacted_terminal (TerminalRuntimeLost loss) = TerminalRuntimeLost (redact_loss loss)"
| "redacted_terminal (TerminalOrphaned loss) = TerminalOrphaned (redact_loss loss)"
| "redacted_terminal t = t"

fun redacted :: "RuntimeEvent \<Rightarrow> RuntimeEvent" where
  "redacted (DriverEvent event) = DriverEvent (redacted_inbound event)"
| "redacted (TerminalEvent t) = TerminalEvent (redacted_terminal t)"

lemma event_type_redacted [simp]: "event_type (redact_event e) = event_type e"
  by (auto simp: redact_event_def event_type_def get_str_def split: option.splits)

lemma event_method_redacted [simp]: "event_method (redact_event e) = event_method e"
  by (simp add: redact_event_def)

lemma loss_redacted [simp]:
  "runtime_loss_name (redact_loss loss) = runtime_loss_name loss"
  "runtime_loss_redaction (redact_loss loss) = runtime_loss_redaction loss"
  by (cases loss; simp)+

lemma order_redacted [simp]: "lifecycle_order_name (redact_order order) = lifecycle_order_name order"
  by (cases order) simp_all

text \<open>
  The stored projection of an event reveals nothing that is to be kept out of the store: two events
  that differ only in the parameters of a request or of an event (but for its type), in the content of
  a result or of an error, in an id, in the raw text of an unknown or malformed line, or in the detail
  of a failed stop, have the same projection.
\<close>

theorem projection_noninterference:
  assumes "redacted a = redacted b"
  shows "lifecycle_projection a pending = lifecycle_projection b pending"
proof -
  have "lifecycle_projection (redacted e) pending = lifecycle_projection e pending" for e
    by (induction e pending rule: lifecycle_projection.induct) simp_all
  with assms show ?thesis by metis
qed

theorem projection_noninterference_witness:
  "lifecycle_projection (DriverEvent (Malformed ''secret'')) None = lifecycle_projection (DriverEvent (Malformed ''other'')) None"
  by (rule projection_noninterference) simp

end
