(* ===== verification/Diagnostic_Log.thy ===== *)
theory Diagnostic_Log
  imports Diagnostics Transition_System "HOL-Library.Word"
begin

text \<open>
  The diagnostic log (\<open>external-daemon/src/scheduler/diagnostics.rs\<close>): the bounded queue in front of
  the log writer, the writer thread that interleaves with it, and the rotation of the log file. The
  queue never blocks its clients, so lines can be dropped; the drops are counted and reported.
\<close>

section \<open>The queue and its writer thread\<close>

definition DIAGNOSTIC_QUEUE_CAPACITY :: nat where
  "DIAGNOSTIC_QUEUE_CAPACITY = 32"

definition DIAGNOSTIC_RECORD_BYTES :: nat where
  "DIAGNOSTIC_RECORD_BYTES = 192 * 1024"

definition DIAGNOSTIC_FILE_BYTES :: nat where
  "DIAGNOSTIC_FILE_BYTES = 1024 * 1024"

text \<open>Where the writer thread stands in the body of its loop, with its local variables.\<close>

datatype writer_phase =
    Receiving
  | Received string
  | Reporting string "64 word"
  | Writing string

record DiagnosticLogger =
  log_queue :: "string list"
  log_dropped :: "64 word"
  log_phase :: writer_phase

definition logger_start :: DiagnosticLogger where
  "logger_start = \<lparr>log_queue = [], log_dropped = 0, log_phase = Receiving\<rparr>"

definition logger_submit :: "string \<Rightarrow> DiagnosticLogger \<Rightarrow> DiagnosticLogger" where
  "logger_submit line l =
     (if DIAGNOSTIC_RECORD_BYTES < length line \<or> DIAGNOSTIC_QUEUE_CAPACITY \<le> length (log_queue l)
      then l\<lparr>log_dropped := log_dropped l + 1\<rparr>
      else l\<lparr>log_queue := log_queue l @ [line]\<rparr>)"

text \<open>
  One atomic action of the writer thread. \<open>ok\<close> says whether the \<open>write_all\<close> of this action, if it has
  one, succeeds.
\<close>

definition writer_step :: "bool \<Rightarrow> DiagnosticLogger \<Rightarrow> DiagnosticLogger option" where
  "writer_step ok l =
     (case log_phase l of
        Receiving \<Rightarrow>
          (case log_queue l of
             [] \<Rightarrow> None
           | line # rest \<Rightarrow> Some (l\<lparr>log_queue := rest, log_phase := Received line\<rparr>))
      | Received line \<Rightarrow>
          Some (l\<lparr>log_dropped := 0,
                  log_phase := (if 0 < log_dropped l then Reporting line (log_dropped l) else Writing line)\<rparr>)
      | Reporting line count \<Rightarrow>
          Some (l\<lparr>log_dropped := (if ok then log_dropped l else log_dropped l + count), log_phase := Writing line\<rparr>)
      | Writing line \<Rightarrow>
          Some (l\<lparr>log_dropped := (if ok then log_dropped l else log_dropped l + 1), log_phase := Receiving\<rparr>))"

text \<open>What has happened so far: lines submitted, lines written, drops reported.\<close>

record log_history =
  lines_submitted :: nat
  lines_written :: nat
  drops_reported :: "64 word"

type_synonym log_run = "DiagnosticLogger \<times> log_history"

inductive log_step :: "log_run \<Rightarrow> log_run \<Rightarrow> bool" where
  submit: "log_step (l, h) (logger_submit line l, h\<lparr>lines_submitted := lines_submitted h + 1\<rparr>)"
| silent: "log_phase l = Receiving \<or> (\<exists>line. log_phase l = Received line) \<Longrightarrow>
    writer_step ok l = Some l' \<Longrightarrow> log_step (l, h) (l', h)"
| report: "log_phase l = Reporting line count \<Longrightarrow> writer_step ok l = Some l' \<Longrightarrow>
    log_step (l, h) (l', if ok then h\<lparr>drops_reported := drops_reported h + count\<rparr> else h)"
| written: "log_phase l = Writing line \<Longrightarrow> writer_step ok l = Some l' \<Longrightarrow>
    log_step (l, h) (l', if ok then h\<lparr>lines_written := lines_written h + 1\<rparr> else h)"

fun in_hand :: "writer_phase \<Rightarrow> 64 word" where
  "in_hand Receiving = 0"
| "in_hand (Received line) = 1"
| "in_hand (Reporting line count) = 1 + count"
| "in_hand (Writing line) = 1"

definition log_initial :: "log_run \<Rightarrow> bool" where
  "log_initial r \<longleftrightarrow> r = (logger_start, \<lparr>lines_submitted = 0, lines_written = 0, drops_reported = 0\<rparr>)"

definition log_accounted :: "log_run \<Rightarrow> bool" where
  "log_accounted r \<longleftrightarrow>
     (case r of (l, h) \<Rightarrow>
        of_nat (lines_submitted h) =
          of_nat (lines_written h) + of_nat (length (log_queue l)) + in_hand (log_phase l)
          + log_dropped l + drops_reported h
        \<and> length (log_queue l) \<le> DIAGNOSTIC_QUEUE_CAPACITY
        \<and> list_all (\<lambda>line. length line \<le> DIAGNOSTIC_RECORD_BYTES) (log_queue l))"

lemma submit_accounted:
  "log_accounted (l, h) \<Longrightarrow> log_accounted (logger_submit line l, h\<lparr>lines_submitted := lines_submitted h + 1\<rparr>)"
  by (auto simp: log_accounted_def logger_submit_def)

lemma writer_accounted:
  assumes "log_accounted (l, h)" "writer_step ok l = Some l'"
  shows "log_phase l = Receiving \<or> (\<exists>line. log_phase l = Received line) \<Longrightarrow> log_accounted (l', h)"
    and "log_phase l = Reporting line count \<Longrightarrow>
      log_accounted (l', if ok then h\<lparr>drops_reported := drops_reported h + count\<rparr> else h)"
    and "log_phase l = Writing line \<Longrightarrow>
      log_accounted (l', if ok then h\<lparr>lines_written := lines_written h + 1\<rparr> else h)"
  using assms by (auto simp: log_accounted_def writer_step_def word_gt_0 split: list.splits)

interpretation diagnostic_log: transition_system log_initial log_step log_accounted
proof unfold_locales
  fix r assume "log_initial r"
  then show "log_accounted r" by (simp add: log_initial_def log_accounted_def logger_start_def)
next
  fix r r' assume "log_accounted r" "log_step r r'"
  from this(2,1) show "log_accounted r'"
    by (induction rule: log_step.induct) (simp_all add: submit_accounted [simplified] writer_accounted)
qed

text \<open>
  Diagnostic lines are accounted for under every interleaving of the clients with the writer
  thread and every pattern of write failures: the lines submitted are the lines written, those still
  queued or in the writer's hands, and those counted as dropped, whether the count has been reported
  in the log or not (the counters are 64 bits wide, so the equation is modulo that width). The queue
  never holds more than 32 lines, none longer than 192 KiB.
\<close>

theorem diagnostic_lines_accounted:
  assumes "reachable log_initial log_step (l, h)"
  shows "of_nat (lines_submitted h) =
           of_nat (lines_written h) + of_nat (length (log_queue l)) + in_hand (log_phase l)
           + log_dropped l + drops_reported h
         \<and> length (log_queue l) \<le> DIAGNOSTIC_QUEUE_CAPACITY
         \<and> list_all (\<lambda>line. length line \<le> DIAGNOSTIC_RECORD_BYTES) (log_queue l)"
  using diagnostic_log.reachable_inv [OF assms] by (simp_all add: log_accounted_def)

lemma log_submit_reachable:
  "reachable log_initial log_step
     (logger_submit ''x'' logger_start, \<lparr>lines_submitted = 1, lines_written = 0, drops_reported = 0\<rparr>)"
proof -
  let ?h = "\<lparr>lines_submitted = 0, lines_written = 0, drops_reported = 0\<rparr>"
  have "reachable log_initial log_step (logger_start, ?h)"
    by (rule reachable.initial) (simp add: log_initial_def)
  from reachable.advance [OF this log_step.submit [of _ _ "''x''"]] show ?thesis by simp
qed

theorem diagnostic_lines_accounted_witness:
  "length (log_queue (logger_submit ''x'' logger_start)) \<le> DIAGNOSTIC_QUEUE_CAPACITY"
  using diagnostic_lines_accounted [OF log_submit_reachable] by simp

section \<open>Rotation of the log file\<close>

text \<open>
  The three generations of the log. What the operating system answers to each call is an argument;
  a copy that stops early leaves the part of the destination it has written.
\<close>

record log_files =
  current_log :: "string option"
  first_log :: "string option"
  second_log :: "string option"

datatype CopyOutcome = CopyDone | SourceFails string | DestinationFails string | CopyStops string nat

record writer_io =
  open_fails :: "string option"
  metadata_fails :: "string option"
  copy_first_to_second :: CopyOutcome
  copy_current_to_first :: CopyOutcome
  truncate_fails :: "string option"
  write_outcome :: "string + nat"

definition last_bytes :: "nat \<Rightarrow> string \<Rightarrow> string" where
  "last_bytes n s = drop (length s - n) s"

definition copy_tail :: "CopyOutcome \<Rightarrow> string option \<Rightarrow> string option \<Rightarrow> (string + unit) \<times> string option" where
  "copy_tail outcome source destination =
     (case source of
        None \<Rightarrow> (Inr (), destination)
      | Some input \<Rightarrow>
          (case outcome of
             SourceFails e \<Rightarrow> (Inl e, destination)
           | DestinationFails e \<Rightarrow> (Inl e, destination)
           | CopyStops e n \<Rightarrow> (Inl e, Some (take n (last_bytes DIAGNOSTIC_FILE_BYTES input)))
           | CopyDone \<Rightarrow> (Inr (), Some (last_bytes DIAGNOSTIC_FILE_BYTES input))))"

definition append_log :: "writer_io \<Rightarrow> string \<Rightarrow> string \<Rightarrow> log_files \<Rightarrow> (string + nat) \<times> log_files" where
  "append_log io bytes output f =
     (case write_outcome io of
        Inl e \<Rightarrow> (Inl e, f\<lparr>current_log := Some output\<rparr>)
      | Inr n \<Rightarrow> (Inr (min n (length bytes)), f\<lparr>current_log := Some (output @ take n bytes)\<rparr>))"

definition rotate_log :: "writer_io \<Rightarrow> log_files \<Rightarrow> (string + unit) \<times> log_files" where
  "rotate_log io f =
     (case copy_tail (copy_first_to_second io) (first_log f) (second_log f) of
        (Inl e, second) \<Rightarrow> (Inl e, f\<lparr>second_log := second\<rparr>)
      | (Inr _, second) \<Rightarrow>
          (case copy_tail (copy_current_to_first io) (current_log f) (first_log f) of
             (Inl e, first) \<Rightarrow> (Inl e, f\<lparr>second_log := second, first_log := first\<rparr>)
           | (Inr _, first) \<Rightarrow>
               (let f' = f\<lparr>second_log := second, first_log := first\<rparr> in
                case truncate_fails io of
                  Some e \<Rightarrow> (Inl e, f')
                | None \<Rightarrow> (Inr (), f'\<lparr>current_log := Some []\<rparr>))))"

definition rotating_write :: "writer_io \<Rightarrow> string \<Rightarrow> log_files \<Rightarrow> (string + nat) \<times> log_files" where
  "rotating_write io bytes f =
     (if DIAGNOSTIC_FILE_BYTES < length bytes then (Inl ''diagnostic record exceeds file cap'', f)
      else
        (case open_fails io of
           Some e \<Rightarrow> (Inl e, f)
         | None \<Rightarrow>
             (let output = (case current_log f of None \<Rightarrow> [] | Some s \<Rightarrow> s);
                  f1 = f\<lparr>current_log := Some output\<rparr> in
              case metadata_fails io of
                Some e \<Rightarrow> (Inl e, f1)
              | None \<Rightarrow>
                  if DIAGNOSTIC_FILE_BYTES < length output + length bytes
                  then (case rotate_log io f1 of
                          (Inl e, f2) \<Rightarrow> (Inl e, f2)
                        | (Inr _, f2) \<Rightarrow> append_log io bytes [] f2)
                  else append_log io bytes output f1)))"

definition within_cap :: "string option \<Rightarrow> bool" where
  "within_cap s \<longleftrightarrow> (case s of None \<Rightarrow> True | Some t \<Rightarrow> length t \<le> DIAGNOSTIC_FILE_BYTES)"

definition log_within_cap :: "log_files \<Rightarrow> bool" where
  "log_within_cap f \<longleftrightarrow> within_cap (current_log f) \<and> within_cap (first_log f) \<and> within_cap (second_log f)"

lemma within_cap_last_bytes [simp]:
  "within_cap (Some (take n (last_bytes DIAGNOSTIC_FILE_BYTES s)))"
  "within_cap (Some (last_bytes DIAGNOSTIC_FILE_BYTES s))"
  by (auto simp: within_cap_def last_bytes_def)

lemma copy_tail_within_cap:
  "copy_tail outcome source destination = (r, d) \<Longrightarrow> within_cap destination \<Longrightarrow> within_cap d"
  by (auto simp: copy_tail_def split: option.splits CopyOutcome.splits)

lemma rotate_log_within_cap:
  assumes "rotate_log io f = (r, f')" "within_cap (first_log f)" "within_cap (second_log f)"
  shows "within_cap (first_log f') \<and> within_cap (second_log f')
    \<and> (current_log f' = (if r = Inr () then Some [] else current_log f))"
  using assms
  by (auto simp: rotate_log_def Let_def split: prod.splits sum.splits option.splits dest: copy_tail_within_cap)

lemma append_log_within_cap:
  assumes "append_log io bytes out f = (r, f')" "length out + length bytes \<le> DIAGNOSTIC_FILE_BYTES"
  shows "first_log f' = first_log f \<and> second_log f' = second_log f
    \<and> (case r of
          Inr n \<Rightarrow> within_cap (current_log f') \<and> n \<le> length bytes
        | Inl e \<Rightarrow> current_log f' = Some out)"
  using assms by (auto simp: append_log_def within_cap_def split: sum.splits)

text \<open>
  Whatever the operating system answers to each call (an open, a copy that stops half way, a
  truncation or a short write that fails), the older generations of the log stay within 1 MiB, and the
  current file is within 1 MiB after every write that reports success; a write that fails leaves the
  current file as it was, created empty at most, or emptied by a completed rotation.
\<close>

theorem rotating_write_bounded:
  assumes "rotating_write io bytes f = (r, f')" "within_cap (first_log f)" "within_cap (second_log f)"
  shows "within_cap (first_log f') \<and> within_cap (second_log f')
    \<and> (case r of
          Inr n \<Rightarrow> within_cap (current_log f') \<and> n \<le> length bytes
        | Inl e \<Rightarrow> current_log f' \<in>
            {current_log f, Some (case current_log f of None \<Rightarrow> [] | Some s \<Rightarrow> s), Some []})"
proof -
  let ?out = "case current_log f of None \<Rightarrow> [] | Some s \<Rightarrow> s"
  let ?f1 = "f\<lparr>current_log := Some ?out\<rparr>"
  consider (early) "current_log f' \<in> {current_log f, Some ?out}" "\<exists>e. r = Inl e"
      "first_log f' = first_log f" "second_log f' = second_log f"
    | (rotation) e where "rotate_log io ?f1 = (Inl e, f')" "r = Inl e"
    | (rotated) f2 where "rotate_log io ?f1 = (Inr (), f2)" "append_log io bytes [] f2 = (r, f')"
        "length bytes \<le> DIAGNOSTIC_FILE_BYTES"
    | (plain) "append_log io bytes ?out ?f1 = (r, f')" "length ?out + length bytes \<le> DIAGNOSTIC_FILE_BYTES"
    using assms(1) unfolding rotating_write_def Let_def
    by (auto split: if_splits option.splits prod.splits sum.splits)
  then show ?thesis
  proof cases
    case early
    with assms(2,3) show ?thesis by (auto split: sum.split)
  next
    case rotation
    from rotate_log_within_cap [OF this(1)] assms(2,3) rotation(2) show ?thesis by simp
  next
    case rotated
    from rotate_log_within_cap [OF this(1)] assms(2,3) append_log_within_cap [OF rotated(2)] rotated(3)
    show ?thesis by (auto split: sum.splits)
  next
    case plain
    from append_log_within_cap [OF this] assms(2,3) show ?thesis by (auto split: sum.splits)
  qed
qed

theorem rotating_write_bounded_witness:
  "within_cap (first_log (snd (rotating_write
     \<lparr>open_fails = None, metadata_fails = None, copy_first_to_second = CopyDone, copy_current_to_first = CopyDone,
      truncate_fails = None, write_outcome = Inr 4\<rparr> ''line''
     \<lparr>current_log = Some ''old'', first_log = None, second_log = None\<rparr>)))"
  by (rule rotating_write_bounded [OF surjective_pairing, THEN conjunct1]) (simp_all add: within_cap_def)

end
