(* ===== verification/Runtime_Session.thy ===== *)
theory Runtime_Session
  imports Runtime_Events Diagnostics General_Task Store_Records
begin

text \<open>
  The command plane of a running agent (\<open>external-daemon/src/lib.rs\<close>: \<open>RuntimeOwner\<close>, with the request
  parameters of \<open>external-contract/src/lib.rs\<close>): creating or resuming a session, switching its model,
  subscribing to it and sending turns.

  What the agent answers, whether the deadline has passed and whether a turn starts are the
  environment's, given the requests issued so far; so are the derived deserializer of a preparation and
  the lossy text of a path. The state keeps the requests issued, oldest first.
\<close>

section \<open>Errors\<close>

datatype RequestError =
    RequestTimeout
  | RequestCancelled
  | RequestChildExited ChildExit
  | StreamClosed
  | WriteFailed string
  | RemoteError json

definition int_text :: "int \<Rightarrow> string" where
  "int_text i = (if i < 0 then CHR ''-'' # to_decimal (nat (- i)) else to_decimal (nat i))"

fun child_exit_debug :: "ChildExit \<Rightarrow> string" where
  "child_exit_debug (ExitedCode (Some c)) = ''Exited(Some('' @ int_text c @ ''))''"
| "child_exit_debug (ExitedCode None) = ''Exited(None)''"
| "child_exit_debug (Signaled n) = ''Signaled('' @ int_text n @ '')''"
| "child_exit_debug UnknownExit = ''Unknown''"

fun request_error_text :: "RequestError \<Rightarrow> string" where
  "request_error_text RequestTimeout = ''request deadline elapsed''"
| "request_error_text RequestCancelled = ''request was cancelled''"
| "request_error_text (RequestChildExited exit) =
     ''runtime exited while request was pending: '' @ child_exit_debug exit"
| "request_error_text StreamClosed = ''runtime response stream closed''"
| "request_error_text (WriteFailed _) = ''runtime request write failed''"
| "request_error_text (RemoteError _) = ''runtime returned an application error''"

datatype RuntimeCommandError =
    CommandUnsupported
  | CommandTimeout
  | CommandTransport string
  | CommandRemote json
  | ModelRejected string
  | InvalidSession string

fun command_error_text :: "RuntimeCommandError \<Rightarrow> string" where
  "command_error_text CommandUnsupported = ''runtime command plane is unsupported''"
| "command_error_text CommandTimeout = ''runtime command deadline elapsed''"
| "command_error_text (CommandTransport _) = ''runtime command transport failed''"
| "command_error_text (CommandRemote _) = ''runtime command was rejected''"
| "command_error_text (ModelRejected message) = ''model selection was rejected: '' @ message"
| "command_error_text (InvalidSession message) = ''invalid session response: '' @ message"

fun command_error_from :: "RequestError \<Rightarrow> RuntimeCommandError" where
  "command_error_from RequestTimeout = CommandTimeout"
| "command_error_from (RemoteError v) = CommandRemote v"
| "command_error_from other = CommandTransport (request_error_text other)"

definition command_error_detail :: "RuntimeCommandError \<Rightarrow> string \<Rightarrow> json_object" where
  "command_error_detail e operation =
     (let detail = [(''operation'', JString operation), (''message'', JString (bounded_error (command_error_text e)))] in
      case e of
        CommandRemote v \<Rightarrow>
          member_set
            (member_set detail ''remote_code''
               (case Option.bind (json_get v ''code'') as_i64 of None \<Rightarrow> JNull | Some i \<Rightarrow> json_i64 i))
            ''remote_message'' (nullable (map_option (\<lambda>m. bounded_prefix m 1024) (get_str v ''message'')))
      | _ \<Rightarrow> detail)"

definition command_error_diagnostic :: "json_codec \<Rightarrow> RuntimeCommandError \<Rightarrow> string \<Rightarrow> string" where
  "command_error_diagnostic codec e operation = json_text codec (JObject (command_error_detail e operation))"

fun projection_error_text :: "ProjectionError \<Rightarrow> string" where
  "projection_error_text (Contract_Wire.Missing path) = ''missing authoritative field '' @ path"
| "projection_error_text (Invalid path) = ''invalid pinned field '' @ path"
| "projection_error_text (UnobservedAlternate path) = ''unobserved alternate field '' @ path @ '' is present''"
| "projection_error_text ModelConflict = ''requested and observed model conflict''"

section \<open>Waiting for a turn\<close>

text \<open>
  The wait on the tracker's condition variable (\<open>TurnTracker::wait_until\<close>). The \<open>k\<close>th wait reads the
  clock, and gives the state found on waking and whether the wait timed out.
\<close>

partial_function (option) wait_until ::
    "(TurnTrackerState \<Rightarrow> bool) \<Rightarrow> nat \<Rightarrow> (nat \<Rightarrow> nat \<times> TurnTrackerState \<times> bool) \<Rightarrow> nat \<Rightarrow> TurnTrackerState
       \<Rightarrow> (RuntimeCommandError + TurnSnapshot) option" where
  "wait_until predicate deadline wake k st =
     (if predicate st then Some (Inr (turn_snapshot st))
      else
        (case wake k of
           (now, woken, timed_out) \<Rightarrow>
             if deadline \<le> now then Some (Inl CommandTimeout)
             else if timed_out \<and> \<not> predicate woken then Some (Inl CommandTimeout)
             else wait_until predicate deadline wake (k + 1) woken))"

definition wait_started_after ::
    "nat \<Rightarrow> nat \<Rightarrow> (nat \<Rightarrow> nat \<times> TurnTrackerState \<times> bool) \<Rightarrow> TurnTrackerState
       \<Rightarrow> (RuntimeCommandError + TurnSnapshot) option" where
  "wait_started_after previous deadline wake st =
     wait_until (\<lambda>s. previous < tracker_generation s) deadline wake 0 st"

definition wait_boundary_after ::
    "nat \<Rightarrow> nat \<Rightarrow> (nat \<Rightarrow> nat \<times> TurnTrackerState \<times> bool) \<Rightarrow> TurnTrackerState
       \<Rightarrow> (RuntimeCommandError + TurnSnapshot) option" where
  "wait_boundary_after generation deadline wake st =
     wait_until (\<lambda>s. generation \<le> tracker_generation s \<and> \<not> tracker_active s \<and> tracker_boundary s \<noteq> None)
       deadline wake 0 st"

section \<open>Request parameters\<close>

definition SESSION_CREATE :: string where "SESSION_CREATE = ''session/create''"

definition SESSION_RESUME :: string where "SESSION_RESUME = ''session/resume''"

definition SESSION_SUBSCRIBE :: string where "SESSION_SUBSCRIBE = ''session/subscribe''"

definition SESSION_SET_MODEL :: string where "SESSION_SET_MODEL = ''session/setModel''"

definition SESSION_SEND :: string where "SESSION_SEND = ''session/send''"

definition SESSION_STOP :: string where "SESSION_STOP = ''session/stop''"

definition SESSION_CLOSE :: string where "SESSION_CLOSE = ''session/close''"

record McpEnvironmentVariable =
  variable_name :: string
  variable_value :: string

record StdioMcpServer =
  server_name :: string
  server_command :: string
  server_args :: "string list"
  server_env :: "McpEnvironmentVariable list"

definition skipped_member :: "string \<Rightarrow> json option \<Rightarrow> json_object" where
  "skipped_member k v = (case v of None \<Rightarrow> [] | Some x \<Rightarrow> [(k, x)])"

definition variable_value_json :: "McpEnvironmentVariable \<Rightarrow> json" where
  "variable_value_json e = JObject [(''name'', JString (variable_name e)), (''value'', JString (variable_value e))]"

definition server_json :: "StdioMcpServer \<Rightarrow> json" where
  "server_json s = JObject [(''name'', JString (server_name s)), (''command'', JString (server_command s)),
     (''args'', JArray (map JString (server_args s))), (''env'', JArray (map variable_value_json (server_env s)))]"

definition mcp_servers_member :: "StdioMcpServer list \<Rightarrow> json_object" where
  "mcp_servers_member servers = (if servers = [] then [] else [(''mcpServers'', JArray (map server_json servers))])"

definition workspace_ref :: "string \<Rightarrow> json" where
  "workspace_ref path = JObject [(''workspaceKey'', JString path), (''workspacePath'', JString path)]"

definition create_session_params ::
    "string \<Rightarrow> string option \<Rightarrow> string option \<Rightarrow> StdioMcpServer list \<Rightarrow> json" where
  "create_session_params path mode thought servers =
     JObject ((''workspace'', workspace_ref path) # skipped_member ''mode'' (map_option JString mode)
       @ skipped_member ''thoughtLevel'' (map_option JString thought) @ mcp_servers_member servers)"

definition resume_session_params :: "string \<Rightarrow> string \<Rightarrow> string option \<Rightarrow> StdioMcpServer list \<Rightarrow> json" where
  "resume_session_params session path thought servers =
     JObject ((''sessionId'', JString session) # (''workspace'', workspace_ref path)
       # skipped_member ''thoughtLevel'' (map_option JString thought) @ mcp_servers_member servers)"

definition set_model_params :: "string \<Rightarrow> string \<Rightarrow> string \<Rightarrow> string option \<Rightarrow> json" where
  "set_model_params session provider model level =
     JObject [(''sessionId'', JString session),
       (''model'', JObject ((''providerId'', JString provider) # (''modelId'', JString model)
          # skipped_member ''options'' (map_option (\<lambda>l. JObject [(''reasoningLevel'', JString l)]) level))),
       (''persistAsWorkspaceLastUsed'', JBool False)]"

definition subscribe_params :: "string \<Rightarrow> json" where
  "subscribe_params session =
     JObject [(''sessionId'', JString session), (''deliveryKind'', JString ''desktop-continuous''),
       (''includeSnapshot'', JBool True)]"

definition send_params :: "string \<Rightarrow> string \<Rightarrow> json" where
  "send_params session content = JObject [(''sessionId'', JString session), (''content'', JString content)]"

definition session_params :: "string \<Rightarrow> json" where
  "session_params session = JObject [(''sessionId'', JString session)]"

section \<open>The command plane\<close>

type_synonym requests = "(string \<times> json) list"

record runtime_env =
  agent_answer :: "requests \<Rightarrow> RequestError + ResponseEnvelope"
  deadline_passed :: "requests \<Rightarrow> bool"
  deadline_overflows :: bool
  turn_wait :: "requests \<Rightarrow> RuntimeCommandError + TurnSnapshot"

record command_plane =
  plane_session :: "string option"
  plane_diagnostic_session :: "string option"
  plane_turn :: TurnSnapshot
  stop_boundaries :: nat
  issued :: requests

type_synonym 'a command = "command_plane \<Rightarrow> (RuntimeCommandError + 'a) \<times> command_plane"

definition cmd_return :: "'a \<Rightarrow> 'a command" where
  "cmd_return x pl = (Inr x, pl)"

definition cmd_lift :: "RuntimeCommandError + 'a \<Rightarrow> 'a command" where
  "cmd_lift r pl = (r, pl)"

definition cmd_bind :: "'a command \<Rightarrow> ('a \<Rightarrow> 'b command) \<Rightarrow> 'b command" where
  "cmd_bind c f pl = (case c pl of (Inl e, pl') \<Rightarrow> (Inl e, pl') | (Inr x, pl') \<Rightarrow> f x pl')"

definition map_err :: "('e \<Rightarrow> 'f) \<Rightarrow> 'e + 'a \<Rightarrow> 'f + 'a" where
  "map_err f r = (case r of Inl e \<Rightarrow> Inl (f e) | Inr x \<Rightarrow> Inr x)"

text \<open>\<open>driver.request(method, params, remaining_runtime_time(deadline)?)\<close>, before the error is converted.\<close>

definition driver_request :: "runtime_env \<Rightarrow> string \<Rightarrow> json \<Rightarrow> (RequestError + ResponseEnvelope) command" where
  "driver_request env method params pl =
     (if deadline_passed env (issued pl) then (Inl CommandTimeout, pl)
      else
        (let pl' = pl\<lparr>issued := issued pl @ [(method, params)]\<rparr> in
         (Inr (agent_answer env (issued pl')), pl')))"

definition command_request :: "runtime_env \<Rightarrow> string \<Rightarrow> json \<Rightarrow> ResponseEnvelope command" where
  "command_request env method params =
     cmd_bind (driver_request env method params) (\<lambda>r. cmd_lift (map_err command_error_from r))"

definition validate_session :: "string \<Rightarrow> unit command" where
  "validate_session session pl =
     (if plane_session pl = Some session then (Inr (), pl)
      else (Inl (InvalidSession ''session id does not belong to this runtime''), pl))"

definition set_session :: "string \<Rightarrow> unit command" where
  "set_session session pl = (Inr (), pl\<lparr>plane_session := Some session\<rparr>)"

definition set_diagnostic_session :: "string \<Rightarrow> unit command" where
  "set_diagnostic_session session pl = (Inr (), pl\<lparr>plane_diagnostic_session := Some session\<rparr>)"

definition wait_turn :: "runtime_env \<Rightarrow> TurnSnapshot command" where
  "wait_turn env pl =
     (if deadline_passed env (issued pl) then (Inl CommandTimeout, pl) else (turn_wait env (issued pl), pl))"

definition send_turn_before :: "runtime_env \<Rightarrow> string \<Rightarrow> string \<Rightarrow> string option command" where
  "send_turn_before env session content =
     cmd_bind (validate_session session) (\<lambda>_.
     cmd_bind (command_request env SESSION_SEND (send_params session content)) (\<lambda>response.
     cmd_bind (wait_turn env) (\<lambda>_.
       cmd_return (Option.bind (response_result response) turn_id_from_result))))"

definition with_deadline :: "runtime_env \<Rightarrow> 'a command \<Rightarrow> 'a command" where
  "with_deadline env c pl = (if deadline_overflows env then (Inl CommandTimeout, pl) else c pl)"

definition send_turn :: "runtime_env \<Rightarrow> string \<Rightarrow> string \<Rightarrow> string option command" where
  "send_turn env session content = with_deadline env (send_turn_before env session content)"

definition count_stop_boundary :: "unit command" where
  "count_stop_boundary pl = (Inr (), pl\<lparr>stop_boundaries := (stop_boundaries pl + 1) mod 2 ^ 64\<rparr>)"

definition stop_turn :: "runtime_env \<Rightarrow> string \<Rightarrow> TurnSnapshot command" where
  "stop_turn env session =
     cmd_bind (validate_session session) (\<lambda>_ pl.
       if \<not> turn_active (plane_turn pl) then (Inr (plane_turn pl), pl)
       else
         cmd_bind (command_request env SESSION_STOP (session_params session)) (\<lambda>_.
         cmd_bind (wait_turn env) (\<lambda>boundary.
         cmd_bind count_stop_boundary (\<lambda>_. cmd_return boundary))) pl)"

definition close_session :: "runtime_env \<Rightarrow> string \<Rightarrow> unit command" where
  "close_session env session =
     cmd_bind (validate_session session) (\<lambda>_.
     cmd_bind (command_request env SESSION_CLOSE (session_params session)) (\<lambda>_. cmd_return ()))"

section \<open>Checks of the model and the effort\<close>

definition validate_requested_model :: "string option \<Rightarrow> string option \<Rightarrow> string + unit" where
  "validate_requested_model requested observed =
     (case requested of
        None \<Rightarrow> Inr ()
      | Some r \<Rightarrow>
          (case normalized_zai_model r of
             None \<Rightarrow> Inl ''MODEL_REQUEST_INVALID''
           | Some r' \<Rightarrow>
               (case Option.bind observed normalized_zai_model of
                  None \<Rightarrow> Inl ''MODEL_NOT_OBSERVED''
                | Some o' \<Rightarrow> if r' \<noteq> o' then Inl ''MODEL_MISMATCH'' else Inr ())))"

definition validate_requested_effort :: "string option \<Rightarrow> string option \<Rightarrow> string + unit" where
  "validate_requested_effort requested observed =
     (case (requested, observed) of
        (Some r, Some o') \<Rightarrow> if r \<noteq> o' then Inl ''EFFORT_MISMATCH'' else Inr ()
      | _ \<Rightarrow> Inr ())"

definition catalog_token :: "CatalogModelEntry \<Rightarrow> string option" where
  "catalog_token e =
     (case (provider_id e, model_id e) of (Some p, Some m) \<Rightarrow> Some (p @ ''/'' @ m) | _ \<Rightarrow> None)"

definition model_not_offered_message :: "string \<Rightarrow> CatalogModelEntry list \<Rightarrow> string" where
  "model_not_offered_message requested available =
     ''MODEL_NOT_OFFERED: '' @ bounded_prefix requested 128 @ ''; available: [''
     @ bounded_prefix (join_with '', '' (remdups_adj (sort (List.map_filter catalog_token available)))) 512 @ '']''"

definition model_rejection_message :: "json \<Rightarrow> string" where
  "model_rejection_message error =
     (case Option.bind (json_get error ''data'') (\<lambda>data. get_str data ''code'') of
        Some code \<Rightarrow> ''MODEL_REJECTED: '' @ bounded_prefix code 128
      | None \<Rightarrow> ''MODEL_REJECTED'')"

definition remote_set_model_error :: "json \<Rightarrow> RuntimeCommandError" where
  "remote_set_model_error error =
     (case Option.bind (json_get error ''data'') (\<lambda>data. get_str data ''code'') of
        Some code \<Rightarrow>
          if code = ''invalid_model_request'' \<or> code = ''model_not_found''
          then ModelRejected (model_rejection_message error)
          else InvalidSession (''session/setModel was rejected: '' @ bounded_prefix code 128)
      | None \<Rightarrow> InvalidSession ''session/setModel was rejected: unknown'')"

definition catalog_entry_matches :: "string \<Rightarrow> CatalogModelEntry \<Rightarrow> bool" where
  "catalog_entry_matches requested e =
     (case (provider_id e, model_id e) of
        (Some p, Some m) \<Rightarrow> provider_model_matches requested p m
      | _ \<Rightarrow> False)"

definition resolve_level :: "string option \<Rightarrow> CatalogModelEntry \<Rightarrow> RuntimeCommandError + string option" where
  "resolve_level effort e =
     (case effort of
        None \<Rightarrow> Inr (default_level e)
      | Some eff \<Rightarrow>
          if eff \<in> set (reasoning_levels e) then Inr (Some eff)
          else Inl (InvalidSession (''MODEL_NOT_OFFERED: effort '' @ bounded_prefix eff 128 @ '' not in levels [''
                 @ bounded_prefix (join_with '', '' (reasoning_levels e)) 512 @ '']'')))"

definition set_model_answer :: "RequestError + ResponseEnvelope \<Rightarrow> RuntimeCommandError + ResponseEnvelope" where
  "set_model_answer r =
     (case r of
        Inr response \<Rightarrow> Inr response
      | Inl (RemoteError error) \<Rightarrow> Inl (remote_set_model_error error)
      | Inl other \<Rightarrow> Inl (command_error_from other))"

text \<open>The read-back of a switch: the observed model, then the observed effort when there is one.\<close>

definition confirm_switch :: "string \<Rightarrow> string option \<Rightarrow> SetModelProjection \<Rightarrow> RuntimeCommandError + unit" where
  "confirm_switch requested effort echo =
     (case (set_provider_id echo, set_model_id echo) of
        (Some p, Some m) \<Rightarrow>
          if \<not> provider_model_matches requested p m then Inl (InvalidSession ''MODEL_MISMATCH'')
          else
            (case (effort, set_thought_level echo) of
               (Some e, Some observed) \<Rightarrow> if observed = e then Inr () else Inl (InvalidSession ''EFFORT_MISMATCH'')
             | _ \<Rightarrow> Inr ())
      | _ \<Rightarrow> Inl (InvalidSession ''MODEL_MISMATCH''))"

definition switch_session_model ::
    "runtime_env \<Rightarrow> string \<Rightarrow> string \<Rightarrow> string option \<Rightarrow> SessionCreateProjection \<Rightarrow> unit command" where
  "switch_session_model env session requested effort projection =
     cmd_bind (cmd_lift
       (if normalized_scoped_model requested = None
        then Inl (InvalidSession (''MODEL_REQUEST_INVALID: '' @ bounded_prefix requested 128))
        else Inr ())) (\<lambda>_.
     cmd_bind (cmd_lift (ok_or (InvalidSession (model_not_offered_message requested (available_models projection)))
                 (find (catalog_entry_matches requested) (available_models projection)))) (\<lambda>entry.
     cmd_bind (cmd_lift (resolve_level effort entry)) (\<lambda>level.
     cmd_bind (driver_request env SESSION_SET_MODEL
                 (set_model_params session (the (provider_id entry)) (the (model_id entry)) level)) (\<lambda>answer.
     cmd_bind (cmd_lift (set_model_answer answer)) (\<lambda>switched.
     cmd_bind (cmd_lift (ok_or (InvalidSession ''session/setModel result is missing'')
                 (response_result switched))) (\<lambda>result.
     cmd_bind (cmd_lift (map_err (\<lambda>e. InvalidSession (''session/setModel projection is invalid: ''
                 @ projection_error_text e)) (set_model_projection_from_result result))) (\<lambda>echo.
       cmd_lift (confirm_switch requested effort echo))))))))"

section \<open>Sessions\<close>

record SessionReady =
  ready_session :: string
  initial_turn_id :: "string option"
  configured_model :: "string option"

definition apply_requested_model ::
    "runtime_env \<Rightarrow> string \<Rightarrow> string option \<Rightarrow> string option \<Rightarrow> SessionCreateProjection
       \<Rightarrow> string option command" where
  "apply_requested_model env session model effort projection =
     (case model of
        None \<Rightarrow>
          cmd_bind (cmd_lift (map_err InvalidSession
            (validate_requested_model None (requested_model projection)))) (\<lambda>_.
          cmd_bind (cmd_lift (map_err InvalidSession
            (validate_requested_effort effort (configured_thought_level projection)))) (\<lambda>_.
            cmd_return (requested_model projection)))
      | Some requested \<Rightarrow>
          cmd_bind (switch_session_model env session requested effort projection) (\<lambda>_.
            cmd_return (Some requested)))"

definition subscribe_and_send ::
    "runtime_env \<Rightarrow> string \<Rightarrow> string \<Rightarrow> string option \<Rightarrow> SessionReady command" where
  "subscribe_and_send env session prompt configured =
     cmd_bind (command_request env SESSION_SUBSCRIBE (subscribe_params session)) (\<lambda>_.
     cmd_bind (set_session session) (\<lambda>_.
     cmd_bind (send_turn_before env session prompt) (\<lambda>turn.
       cmd_return \<lparr>ready_session = session, initial_turn_id = turn, configured_model = configured\<rparr>)))"

definition start_projected_session ::
    "runtime_env \<Rightarrow> string \<Rightarrow> string option \<Rightarrow> string option \<Rightarrow> SessionCreateProjection
       \<Rightarrow> SessionReady command" where
  "start_projected_session env prompt model effort projection =
     cmd_bind (set_diagnostic_session (projected_session_id projection)) (\<lambda>_.
     cmd_bind (apply_requested_model env (projected_session_id projection) model effort projection) (\<lambda>configured.
       subscribe_and_send env (projected_session_id projection) prompt configured))"

definition project_created :: "ResponseEnvelope \<Rightarrow> RuntimeCommandError + SessionCreateProjection" where
  "project_created created =
     res_bind (ok_or (InvalidSession ''session/create result is missing'') (response_result created)) (\<lambda>result.
       map_err (\<lambda>e. InvalidSession (''session/create projection is invalid: '' @ projection_error_text e))
         (session_create_from_result result))"

definition bootstrap_session_for_model ::
    "runtime_env \<Rightarrow> string \<Rightarrow> string \<Rightarrow> StdioMcpServer list \<Rightarrow> string option \<Rightarrow> string option
       \<Rightarrow> string option \<Rightarrow> SessionReady command" where
  "bootstrap_session_for_model env path prompt servers model effort mode =
     with_deadline env (
     cmd_bind (command_request env SESSION_CREATE (create_session_params path mode effort servers)) (\<lambda>created.
     cmd_bind (cmd_lift (project_created created)) (\<lambda>projection.
       start_projected_session env prompt model effort projection)))"

text \<open>The check of a resumed session's effort; a result that is absent is not checked.\<close>

definition resumed_effort_check :: "string option \<Rightarrow> json option \<Rightarrow> RuntimeCommandError + unit" where
  "resumed_effort_check effort result =
     (case result of
        None \<Rightarrow> Inr ()
      | Some v \<Rightarrow>
          res_bind (map_err (\<lambda>e. InvalidSession (''session/resume projection is invalid: '' @ projection_error_text e))
                      (configured_thought_level_from_result v)) (\<lambda>observed.
            map_err InvalidSession (validate_requested_effort effort observed)))"

definition resume_session ::
    "runtime_env \<Rightarrow> string option \<Rightarrow> string \<Rightarrow> string option \<Rightarrow> StdioMcpServer list \<Rightarrow> SessionReady command" where
  "resume_session env persisted path effort servers =
     cmd_bind (cmd_lift (ok_or (InvalidSession ''task has no persisted session id'') persisted)) (\<lambda>session.
     cmd_bind (set_diagnostic_session session) (\<lambda>_.
     with_deadline env (
     cmd_bind (command_request env SESSION_RESUME (resume_session_params session path effort servers)) (\<lambda>resumed.
     cmd_bind (cmd_lift (resumed_effort_check effort (response_result resumed))) (\<lambda>_.
     cmd_bind (command_request env SESSION_SUBSCRIBE (subscribe_params session)) (\<lambda>_.
     cmd_bind (set_session session) (\<lambda>_.
       cmd_return \<lparr>ready_session = session, initial_turn_id = None, configured_model = None\<rparr>)))))))"

section \<open>Prepared tasks\<close>

text \<open>How a stored preparation is read; the derived deserializer and the lossy text of a path are given.\<close>

record preparation_codec =
  prepared_json :: json_codec
  prepared_from_value :: "json \<Rightarrow> PreparedGeneralTask option"
  path_text :: "path \<Rightarrow> string"

definition task_route :: "preparation_codec \<Rightarrow> TaskRecord \<Rightarrow> string + PreparedGeneralTask" where
  "task_route pc task =
     (case decoded (prepared_json pc) (prepared_launch_json task) of
        None \<Rightarrow> Inl ''stored prepared launch is invalid''
      | Some v \<Rightarrow>
          (case get_str v ''schema'' of
             None \<Rightarrow> Inl ''stored prepared launch omitted task schema''
           | Some schema \<Rightarrow>
               if schema \<noteq> GENERAL_TASK_SCHEMA then Inl ''stored prepared launch uses an unknown task schema''
               else
                 (case prepared_from_value pc v of
                    None \<Rightarrow> Inl ''stored general preparation is invalid''
                  | Some prepared \<Rightarrow>
                      if workspace_path task \<noteq> path_text pc (workspace_dir (prepared_workspace prepared))
                      then Inl ''stored task does not match its general preparation''
                      else Inr prepared)))"

definition admitted_from_task ::
    "preparation_codec \<Rightarrow> (AdmissionIdentity \<Rightarrow> string option) \<Rightarrow> TaskRecord \<Rightarrow> string option" where
  "admitted_from_task pc field task =
     (case task_route pc task of
        Inr prepared \<Rightarrow> Option.bind (admission prepared) field
      | Inl _ \<Rightarrow> None)"

definition task_agent :: "preparation_codec \<Rightarrow> TaskRecord \<Rightarrow> string" where
  "task_agent pc task =
     (case task_route pc task of
        Inr prepared \<Rightarrow> (case admission prepared of None \<Rightarrow> ''zcode'' | Some a \<Rightarrow> admitted_agent a)
      | Inl _ \<Rightarrow> ''zcode'')"

definition permission_mode_from_task :: "preparation_codec \<Rightarrow> TaskRecord \<Rightarrow> string option" where
  "permission_mode_from_task pc task =
     Option.bind (decoded (prepared_json pc) (prepared_launch_json task)) (\<lambda>v.
       (case get_str v ''permission_mode'' of
          None \<Rightarrow> None
        | Some m \<Rightarrow>
            if m = ''plan'' then Some ''plan''
            else if m = ''build'' then Some ''build''
            else if m = ''edit'' then Some ''build''
            else if m = ''yolo'' then Some ''yolo''
            else None))"

definition bootstrap_prepared_session ::
    "preparation_codec \<Rightarrow> runtime_env \<Rightarrow> TaskRecord \<Rightarrow> StdioMcpServer list \<Rightarrow> SessionReady command" where
  "bootstrap_prepared_session pc env task servers =
     bootstrap_session_for_model env (workspace_path task) (initial_prompt task) servers
       (admitted_from_task pc admitted_model task) (admitted_from_task pc admitted_effort task)
       (permission_mode_from_task pc task)"

definition resume_prepared_session ::
    "preparation_codec \<Rightarrow> runtime_env \<Rightarrow> TaskRecord \<Rightarrow> StdioMcpServer list \<Rightarrow> SessionReady command" where
  "resume_prepared_session pc env task servers =
     resume_session env (session_id task) (workspace_path task) (admitted_from_task pc admitted_effort task) servers"

end
