(* ===== verification/Session_Properties.thy ===== *)
theory Session_Properties
  imports Runtime_Session
begin

text \<open>
  Properties of the command plane: no prompt reaches an agent before its session's model and effort
  have been confirmed, and the waits for a turn return.
\<close>

section \<open>Commands\<close>

lemma cmd_bindE:
  assumes "cmd_bind c f pl = (r, pl')"
  obtains (err) e where "c pl = (Inl e, pl')" "r = Inl e"
    | (ok) x pl1 where "c pl = (Inr x, pl1)" "f x pl1 = (r, pl')"
  using assms by (auto simp: cmd_bind_def split: prod.splits sum.splits)

lemma cmd_lift_eq [simp]: "cmd_lift v pl = (r, pl') \<longleftrightarrow> v = r \<and> pl' = pl"
  by (auto simp: cmd_lift_def)

lemma cmd_return_eq [simp]: "cmd_return v pl = (r, pl') \<longleftrightarrow> r = Inr v \<and> pl' = pl"
  by (auto simp: cmd_return_def)

lemma map_err_Inr [simp]: "map_err f r = Inr x \<longleftrightarrow> r = Inr x"
  by (auto simp: map_err_def split: sum.splits)

lemma driver_request_Inl: "driver_request env m p pl = (Inl e, pl') \<longleftrightarrow>
    deadline_passed env (issued pl) \<and> e = CommandTimeout \<and> pl' = pl"
  by (auto simp: driver_request_def Let_def)

lemma driver_request_Inr: "driver_request env m p pl = (Inr a, pl') \<longleftrightarrow>
    \<not> deadline_passed env (issued pl) \<and> pl' = pl\<lparr>issued := issued pl @ [(m, p)]\<rparr>
    \<and> a = agent_answer env (issued pl @ [(m, p)])"
  by (auto simp: driver_request_def Let_def)

lemma command_request_Inr: "command_request env m p pl = (Inr a, pl') \<longleftrightarrow>
    \<not> deadline_passed env (issued pl) \<and> pl' = pl\<lparr>issued := issued pl @ [(m, p)]\<rparr>
    \<and> agent_answer env (issued pl @ [(m, p)]) = Inr a"
  by (auto simp: command_request_def cmd_bind_def driver_request_def Let_def cmd_lift_def)

lemma command_request_issued:
  "command_request env m p pl = (r, pl') \<Longrightarrow> issued pl' = issued pl \<or> issued pl' = issued pl @ [(m, p)]"
  by (auto simp: command_request_def cmd_bind_def driver_request_def Let_def cmd_lift_def split: if_splits)

section \<open>Confirmation of the model\<close>

text \<open>The answer to the last of these requests confirms the model, and the effort when it shows one.\<close>

definition switch_confirmed :: "runtime_env \<Rightarrow> requests \<Rightarrow> string \<Rightarrow> string option \<Rightarrow> bool" where
  "switch_confirmed env reqs requested effort \<longleftrightarrow>
     (\<exists>response result echo p m.
        agent_answer env reqs = Inr response \<and> response_result response = Some result
        \<and> set_model_projection_from_result result = Inr echo
        \<and> set_provider_id echo = Some p \<and> set_model_id echo = Some m \<and> provider_model_matches requested p m
        \<and> (effort = None \<or> set_thought_level echo \<in> {None, effort}))"

text \<open>The answer to the creation of the session, as the daemon projects it.\<close>

definition created_as :: "runtime_env \<Rightarrow> requests \<Rightarrow> SessionCreateProjection \<Rightarrow> bool" where
  "created_as env reqs projection \<longleftrightarrow>
     (\<exists>response result. agent_answer env reqs = Inr response \<and> response_result response = Some result
        \<and> session_create_from_result result = Inr projection)"

lemma confirm_switch_Inr:
  "confirm_switch requested effort echo = Inr u \<Longrightarrow>
     \<exists>p m. set_provider_id echo = Some p \<and> set_model_id echo = Some m \<and> provider_model_matches requested p m
       \<and> (effort = None \<or> set_thought_level echo \<in> {None, effort})"
  by (auto simp: confirm_switch_def split: option.splits if_splits)

lemma switch_session_model_Inr:
  assumes "switch_session_model env session requested effort projection pl = (Inr u, pl')"
  shows "\<exists>entry level. entry \<in> set (available_models projection) \<and> catalog_entry_matches requested entry
    \<and> pl' = pl\<lparr>issued := issued pl @ [(SESSION_SET_MODEL,
               set_model_params session (the (provider_id entry)) (the (model_id entry)) level)]\<rparr>
    \<and> (effort = None \<or> level = effort)
    \<and> switch_confirmed env (issued pl') requested effort"
proof -
  obtain entry level answer switched result echo where
    entry: "find (catalog_entry_matches requested) (available_models projection) = Some entry"
    and level: "resolve_level effort entry = Inr level"
    and pl': "pl' = pl\<lparr>issued := issued pl @ [(SESSION_SET_MODEL,
               set_model_params session (the (provider_id entry)) (the (model_id entry)) level)]\<rparr>"
    and answer: "answer = agent_answer env (issued pl')" "set_model_answer answer = Inr switched"
    and echo: "response_result switched = Some result" "set_model_projection_from_result result = Inr echo"
      "confirm_switch requested effort echo = Inr u"
    using assms unfolding switch_session_model_def
    by (elim cmd_bindE) (auto simp: driver_request_Inr)
  from answer have "agent_answer env (issued pl') = Inr switched"
    by (auto simp: set_model_answer_def split: sum.splits RequestError.splits)
  with echo have "switch_confirmed env (issued pl') requested effort"
    using confirm_switch_Inr [OF echo(3)] unfolding switch_confirmed_def by blast
  moreover from level have "effort = None \<or> level = effort"
    by (auto simp: resolve_level_def split: option.splits if_splits)
  moreover from entry have "entry \<in> set (available_models projection)" "catalog_entry_matches requested entry"
    by (auto simp: find_Some_iff)
  ultimately show ?thesis using pl' by blast
qed

lemma switch_session_model_issued:
  assumes "switch_session_model env session requested effort projection pl = (r, pl')"
  shows "issued pl' = issued pl \<or> (\<exists>p. issued pl' = issued pl @ [(SESSION_SET_MODEL, p)])"
  using assms unfolding switch_session_model_def
  by (elim cmd_bindE) (auto simp: driver_request_Inr driver_request_Inl)

text \<open>What a session has to go through before its first prompt.\<close>

definition model_settled ::
    "runtime_env \<Rightarrow> string \<times> json \<Rightarrow> requests \<Rightarrow> string option \<Rightarrow> string option \<Rightarrow> SessionCreateProjection \<Rightarrow> bool" where
  "model_settled env create switch model effort projection \<longleftrightarrow>
     (case model of
        None \<Rightarrow> switch = [] \<and> (effort = None \<or> configured_thought_level projection \<in> {None, effort})
      | Some requested \<Rightarrow>
          (\<exists>entry level. entry \<in> set (available_models projection) \<and> catalog_entry_matches requested entry
             \<and> switch = [(SESSION_SET_MODEL, set_model_params (projected_session_id projection)
                  (the (provider_id entry)) (the (model_id entry)) level)]
             \<and> (effort = None \<or> level = effort))
          \<and> switch_confirmed env (create # switch) requested effort)"

lemma apply_requested_model_settled:
  assumes "apply_requested_model env (projected_session_id projection) model effort projection pl = (Inr c, pl1)"
    and "issued pl = [create]"
  shows "\<exists>switch. pl1 = pl\<lparr>issued := create # switch\<rparr> \<and> model_settled env create switch model effort projection
    \<and> c = (if model = None then requested_model projection else model)"
proof (cases model)
  case None
  with assms show ?thesis
    unfolding apply_requested_model_def
    by (auto elim!: cmd_bindE simp: validate_requested_effort_def model_settled_def intro!: exI [of _ "[]"]
        split: option.splits if_splits)
next
  case (Some requested)
  with assms(1) obtain u where
    sw: "switch_session_model env (projected_session_id projection) requested effort projection pl = (Inr u, pl1)"
    and c: "c = Some requested"
    unfolding apply_requested_model_def by (auto elim!: cmd_bindE)
  from switch_session_model_Inr [OF sw] obtain entry level where
    e: "entry \<in> set (available_models projection)" "catalog_entry_matches requested entry"
      "effort = None \<or> level = effort"
    and pl1: "pl1 = pl\<lparr>issued := issued pl @ [(SESSION_SET_MODEL, set_model_params (projected_session_id projection)
        (the (provider_id entry)) (the (model_id entry)) level)]\<rparr>" (is "_ = pl\<lparr>issued := _ @ ?switch\<rparr>")
    and confirmed: "switch_confirmed env (issued pl1) requested effort"
    by blast
  from pl1 confirmed assms(2) have "switch_confirmed env (create # ?switch) requested effort"
    "pl1 = pl\<lparr>issued := create # ?switch\<rparr>" by simp_all
  moreover from this(1) e have "model_settled env create ?switch model effort projection"
    unfolding model_settled_def Some by (auto intro!: exI [of _ entry] exI [of _ level])
  ultimately show ?thesis using c Some by (intro exI [of _ ?switch]) simp
qed

lemma apply_requested_model_issued:
  assumes "apply_requested_model env session model effort projection pl = (r, pl')"
  shows "issued pl' = issued pl \<or> (\<exists>p. issued pl' = issued pl @ [(SESSION_SET_MODEL, p)])"
  using assms unfolding apply_requested_model_def
  by (auto split: option.splits elim!: cmd_bindE dest: switch_session_model_issued)

lemmas session_methods = SESSION_CREATE_def SESSION_SUBSCRIBE_def SESSION_SET_MODEL_def SESSION_SEND_def

lemma wait_turn_plane: "wait_turn env pl = (x, pl') \<Longrightarrow> pl' = pl"
  by (auto simp: wait_turn_def split: if_splits)

lemma send_turn_before_issued:
  assumes "send_turn_before env session content pl = (r, pl')" "plane_session pl = Some session"
  shows "plane_session pl' = Some session
    \<and> (issued pl' = issued pl \<and> (\<exists>e. r = Inl e)
        \<or> issued pl' = issued pl @ [(SESSION_SEND, send_params session content)])"
  using assms unfolding send_turn_before_def command_request_def
  by (auto elim!: cmd_bindE simp: validate_session_def driver_request_Inl driver_request_Inr split: if_splits
      dest!: wait_turn_plane)

lemma subscribe_and_send_issued:
  assumes "subscribe_and_send env session prompt configured pl = (r, pl')"
  shows "(\<exists>e. r = Inl e) \<and> issued pl' \<in> {issued pl, issued pl @ [(SESSION_SUBSCRIBE, subscribe_params session)]}
    \<or> issued pl' = issued pl @ [(SESSION_SUBSCRIBE, subscribe_params session),
          (SESSION_SEND, send_params session prompt)]
       \<and> plane_session pl' = Some session
       \<and> (\<forall>ready. r = Inr ready \<longrightarrow> ready_session ready = session \<and> configured_model ready = configured)"
  using assms unfolding subscribe_and_send_def
proof (cases rule: cmd_bindE)
  case (err e)
  with command_request_issued [OF err(1)] show ?thesis by simp
next
  case (ok a pl1)
  let ?pl2 = "pl1\<lparr>plane_session := Some session\<rparr>"
  from ok(2) obtain turn where turn: "send_turn_before env session prompt ?pl2 = (turn, pl')"
    and r: "r = map_sum id (\<lambda>t. \<lparr>ready_session = session, initial_turn_id = t, configured_model = configured\<rparr>) turn"
    by (auto simp: set_session_def cmd_bind_def cmd_return_def split: prod.splits sum.splits)
  from ok(1) have "issued pl1 = issued pl @ [(SESSION_SUBSCRIBE, subscribe_params session)]"
    by (simp add: command_request_Inr)
  with send_turn_before_issued [OF turn] r show ?thesis by (cases turn) auto
qed

definition quiet :: "requests \<Rightarrow> bool" where
  "quiet ps \<longleftrightarrow> (\<forall>p. (SESSION_SEND, p) \<notin> set ps)"

lemma quiet_simps [simp]:
  "quiet []" "quiet (x # ps) \<longleftrightarrow> fst x \<noteq> SESSION_SEND \<and> quiet ps" "quiet (ps @ qs) \<longleftrightarrow> quiet ps \<and> quiet qs"
  by (auto simp: quiet_def) (metis prod.collapse)

lemma session_methods_distinct [simp]:
  "SESSION_CREATE \<noteq> SESSION_SEND" "SESSION_SUBSCRIBE \<noteq> SESSION_SEND" "SESSION_SET_MODEL \<noteq> SESSION_SEND"
  by (simp_all add: session_methods)

lemma start_projected_session_issued:
  assumes "start_projected_session env prompt model effort projection pl = (r, pl')"
    and "issued pl = [create]" "fst create \<noteq> SESSION_SEND"
  shows "(\<exists>e. r = Inl e) \<and> quiet (issued pl')
    \<or> (\<exists>switch. model_settled env create switch model effort projection
         \<and> issued pl' = create # switch @ [(SESSION_SUBSCRIBE, subscribe_params (projected_session_id projection)),
             (SESSION_SEND, send_params (projected_session_id projection) prompt)]
         \<and> plane_session pl' = Some (projected_session_id projection)
         \<and> (\<forall>ready. r = Inr ready \<longrightarrow> ready_session ready = projected_session_id projection
              \<and> configured_model ready = (if model = None then requested_model projection else model)))"
proof -
  let ?s = "projected_session_id projection"
  let ?pl2 = "pl\<lparr>plane_diagnostic_session := Some ?s\<rparr>"
  from assms(1) have "cmd_bind (apply_requested_model env ?s model effort projection)
      (\<lambda>configured. subscribe_and_send env ?s prompt configured) ?pl2 = (r, pl')"
    by (simp add: start_projected_session_def cmd_bind_def set_diagnostic_session_def)
  then show ?thesis
  proof (cases rule: cmd_bindE)
    case (err e)
    with apply_requested_model_issued [OF err(1)] assms(2,3) show ?thesis by auto
  next
    case (ok c pl3)
    from apply_requested_model_settled [OF ok(1)] assms(2) obtain switch where
      pl3: "issued pl3 = create # switch" "model_settled env create switch model effort projection"
      "c = (if model = None then requested_model projection else model)"
      by auto
    have "quiet (issued pl3)"
      using apply_requested_model_issued [OF ok(1)] assms(2,3) by auto
    with subscribe_and_send_issued [OF ok(2)] pl3 show ?thesis by auto
  qed
qed


text \<open>An agent that creates a session, accepts everything and starts the turn.\<close>

definition example_env :: runtime_env where
  "example_env = \<lparr>
     agent_answer = (\<lambda>reqs. Inr (response_success (WireInteger 1)
       (if length reqs = 1 then JObject [(''session'', JObject [(''sessionId'', JString ''s-1'')])] else JNull))),
     deadline_passed = (\<lambda>_. False), deadline_overflows = False,
     turn_wait = (\<lambda>_. Inr \<lparr>turn_generation = 1, turn_active = True, turn_boundary = None\<rparr>)\<rparr>"

definition example_plane :: command_plane where
  "example_plane = \<lparr>plane_session = None, plane_diagnostic_session = None,
     plane_turn = \<lparr>turn_generation = 0, turn_active = False, turn_boundary = None\<rparr>, stop_boundaries = 0, issued = []\<rparr>"

lemma example_bootstrap:
  "fst (bootstrap_session_for_model example_env ''/w'' ''go'' [] None None None example_plane) =
     Inr \<lparr>ready_session = ''s-1'', initial_turn_id = None, configured_model = None\<rparr>"
  by (simp add: bootstrap_session_for_model_def with_deadline_def cmd_bind_def command_request_def driver_request_def
      Let_def cmd_lift_def map_err_def example_env_def example_plane_def project_created_def response_success_def
      session_create_from_result_def session_object_def reject_alternate_def contains_key_def
      required_bounded_string_def settings_current_model_def session_consistency_model_def models_conflict_def
      settings_thought_level_def settings_available_models_def res_bind_some_def optional_object_def
      start_projected_session_def set_diagnostic_session_def apply_requested_model_def validate_requested_model_def
      validate_requested_effort_def cmd_return_def subscribe_and_send_def set_session_def send_turn_before_def
      validate_session_def wait_turn_def optional_bounded_string_def turn_id_from_result_def get_str_def)


section \<open>Waiting for a turn\<close>

lemma wait_until_returns:
  "k \<le> n \<Longrightarrow> deadline \<le> fst (wake n) \<Longrightarrow>
     \<exists>r. wait_until predicate deadline wake k st = Some r
       \<and> (case r of Inr snap \<Rightarrow> \<exists>s. predicate s \<and> snap = turn_snapshot s | Inl e \<Rightarrow> e = CommandTimeout)"
proof (induction "n - k" arbitrary: k st)
  case 0
  then have "k = n" by simp
  with 0 show ?case by (subst wait_until.simps) (auto split: prod.splits)
next
  case (Suc d)
  obtain now woken timed_out where w: "wake k = (now, woken, timed_out)" by (cases "wake k")
  have "\<exists>r. wait_until predicate deadline wake (k + 1) woken = Some r
       \<and> (case r of Inr snap \<Rightarrow> \<exists>s. predicate s \<and> snap = turn_snapshot s | Inl e \<Rightarrow> e = CommandTimeout)"
    using Suc by (intro Suc.hyps(1)) auto
  then show ?case by (subst wait_until.simps) (auto simp: w)
qed

text \<open>
  Waiting for a turn's boundary ends as soon as a clock reading reaches the deadline, if not before:
  it returns, whatever wakes it up and however often, either the timeout or the snapshot of a turn of at
  least the generation waited for, no longer active and with its boundary.
\<close>

theorem wait_boundary_returns:
  assumes "deadline \<le> fst (wake n)"
  shows "wait_boundary_after generation deadline wake st = Some (Inl CommandTimeout)
    \<or> (\<exists>snap. wait_boundary_after generation deadline wake st = Some (Inr snap)
         \<and> generation \<le> turn_generation snap \<and> \<not> turn_active snap \<and> turn_boundary snap \<noteq> None)"
proof -
  from wait_until_returns [of 0 n deadline wake _ st] assms obtain r where
    r: "wait_boundary_after generation deadline wake st = Some r"
      "case r of Inr snap \<Rightarrow> \<exists>s. (generation \<le> tracker_generation s \<and> \<not> tracker_active s \<and> tracker_boundary s \<noteq> None)
         \<and> snap = turn_snapshot s | Inl e \<Rightarrow> e = CommandTimeout"
    unfolding wait_boundary_after_def by blast
  then show ?thesis by (cases r) (auto simp: turn_snapshot_def)
qed

theorem wait_boundary_returns_witness:
  "\<exists>r. wait_boundary_after 1 5 (\<lambda>k. (3 * k, turn_tracker_new, False)) turn_tracker_new = Some r"
  using wait_boundary_returns [of 5 "\<lambda>k. (3 * k, turn_tracker_new, False)" 2 1 turn_tracker_new] by auto

end
