(* ===== verification/Runtime_Owner.thy ===== *)
theory Runtime_Owner
  imports Runtime_Session Runtime_Properties Contract_Properties
begin

text \<open>
  The owner of a running agent (\<open>external-daemon/src/lib.rs\<close>): the cache of offered permission
  responses, the answers to the agent's requests, the event pump, the end of the process and the
  classification of a process found after a restart.

  Each operation runs under a mutex of the owner. What the operating system and the agent's pipe answer
  is given to the operation. A request that is written to the agent is returned beside the result.
\<close>

section \<open>The cache of offered permission responses\<close>

record PermissionResponses =
  offered_allow :: json
  offered_deny :: json
  offered_params :: json

definition MAX_PENDING_PERMISSION_RESPONSES :: nat where
  "MAX_PENDING_PERMISSION_RESPONSES = 128"

record OfferedPermissionCache =
  cache_requests :: "(string \<times> PermissionResponses) list"
  denied_fingerprints :: "string list"

definition cache_empty :: OfferedPermissionCache where
  "cache_empty = \<lparr>cache_requests = [], denied_fingerprints = []\<rparr>"

definition offered_responses :: "json \<Rightarrow> PermissionResponses option" where
  "offered_responses params =
     (case (offered_permission_response params ''allow'', offered_permission_response params ''deny'') of
        (Some a, Some d) \<Rightarrow> Some \<lparr>offered_allow = a, offered_deny = d, offered_params = params\<rparr>
      | _ \<Rightarrow> None)"

definition remove_key :: "string \<Rightarrow> (string \<times> 'a) list \<Rightarrow> (string \<times> 'a) list" where
  "remove_key k ms = filter (\<lambda>(k', _). k' \<noteq> k) ms"

definition cache_observe :: "string \<Rightarrow> json \<Rightarrow> OfferedPermissionCache \<Rightarrow> OfferedPermissionCache" where
  "cache_observe key params c =
     (let reused = (map_of (cache_requests c) key \<noteq> None);
          remaining = remove_key key (cache_requests c) in
      if \<not> reused \<and> length remaining < MAX_PENDING_PERMISSION_RESPONSES
      then (case offered_responses params of
              Some offered \<Rightarrow> c\<lparr>cache_requests := (key, offered) # remaining\<rparr>
            | None \<Rightarrow> c\<lparr>cache_requests := remaining\<rparr>)
      else c\<lparr>cache_requests := remaining\<rparr>)"

definition denial_of :: "PermissionDenialSemantics option \<Rightarrow> PermissionResponses \<Rightarrow> PermissionDenialSemantics option" where
  "denial_of validated offered =
     (case validated of Some d \<Rightarrow> Some d | None \<Rightarrow> external_zcode_denial (offered_params offered))"

definition denial_reason :: "OfferedPermissionCache \<Rightarrow> PermissionDenialSemantics \<Rightarrow> string" where
  "denial_reason c d =
     (let repeated = (denial_fingerprint d \<in> set (denied_fingerprints c));
          feedback = denial_feedback d repeated in
      if repeated
      then feedback @ '' Stop this evidence path; use Read, prepared inputs, or record a coverage gap.''
      else feedback)"

definition cache_response ::
    "string \<Rightarrow> string \<Rightarrow> PermissionDenialSemantics option \<Rightarrow> OfferedPermissionCache \<Rightarrow> json option" where
  "cache_response key decision validated c =
     Option.bind (map_of (cache_requests c) key) (\<lambda>offered.
       if decision = ''allow'' then Some (offered_allow offered)
       else if decision = ''deny'' then
         Option.bind (denial_of validated offered) (\<lambda>d.
         Option.bind (as_object (offered_deny offered)) (\<lambda>response.
           Some (JObject (member_set response ''reason'' (JString (denial_reason c d))))))
       else None)"

definition cache_complete :: "string \<Rightarrow> OfferedPermissionCache \<Rightarrow> OfferedPermissionCache" where
  "cache_complete key c = c\<lparr>cache_requests := remove_key key (cache_requests c)\<rparr>"

definition cache_record_denial ::
    "string \<Rightarrow> PermissionDenialSemantics option \<Rightarrow> OfferedPermissionCache \<Rightarrow> OfferedPermissionCache" where
  "cache_record_denial key validated c =
     (case Option.bind (map_of (cache_requests c) key) (\<lambda>r. map_option denial_fingerprint (denial_of validated r)) of
        Some fingerprint \<Rightarrow>
          if length (denied_fingerprints c) < MAX_PENDING_PERMISSION_RESPONSES
          then c\<lparr>denied_fingerprints := List.insert fingerprint (denied_fingerprints c)\<rparr>
          else c
      | None \<Rightarrow> c)"

definition cache_clear :: "OfferedPermissionCache \<Rightarrow> OfferedPermissionCache" where
  "cache_clear c = cache_empty"

section \<open>The owner\<close>

record RuntimeOwner =
  owner_publisher :: PublisherState
  owner_tracker :: TurnTrackerState
  owner_cache :: OfferedPermissionCache
  owner_records :: "LifecycleRecord list"

definition owner_new :: RuntimeOwner where
  "owner_new = \<lparr>owner_publisher = publisher_new, owner_tracker = turn_tracker_new, owner_cache = cache_empty,
     owner_records = []\<rparr>"

definition with_publisher ::
    "LifecycleRecord list \<times> PublisherState \<Rightarrow> RuntimeOwner \<Rightarrow> RuntimeOwner" where
  "with_publisher r w =
     (case r of (new, st) \<Rightarrow> w\<lparr>owner_publisher := st, owner_records := owner_records w @ new\<rparr>)"

definition id_key :: "json_codec \<Rightarrow> WireId \<Rightarrow> string" where
  "id_key codec i = json_text codec (wire_id_value i)"

definition respond_request ::
    "json_codec \<Rightarrow> string \<Rightarrow> string \<Rightarrow> string option \<Rightarrow> PermissionDenialSemantics option \<Rightarrow> RequestError option
       \<Rightarrow> RuntimeOwner \<Rightarrow> (RuntimeCommandError + unit) \<times> (WireId \<times> json) option \<times> RuntimeOwner" where
  "respond_request codec correlation decision content validated failure w =
     (case Option.bind (decoded codec correlation) wire_id of
        None \<Rightarrow> (Inl (InvalidSession ''stored request correlation is invalid''), None, w)
      | Some i \<Rightarrow>
          if decision = ''answer'' then
            (case content of
               Some answer \<Rightarrow>
                 if trim answer = [] then (Inl CommandUnsupported, None, w)
                 else
                   (case failure of
                      None \<Rightarrow> (Inr (), Some (i, JString answer), w)
                    | Some e \<Rightarrow> (Inl (command_error_from e), Some (i, JString answer), w))
             | None \<Rightarrow> (Inl CommandUnsupported, None, w))
          else if decision \<noteq> ''allow'' \<and> decision \<noteq> ''deny'' then (Inl CommandUnsupported, None, w)
          else
            (let key = id_key codec i in
             case cache_response key decision validated (owner_cache w) of
               None \<Rightarrow> (Inl (InvalidSession ''runtime offered no matching permission response''), None, w)
             | Some result \<Rightarrow>
                 (case failure of
                    Some e \<Rightarrow> (Inl (command_error_from e), Some (i, result), w)
                  | None \<Rightarrow>
                      (let c1 = (if decision = ''deny'' then cache_record_denial key validated (owner_cache w)
                                 else owner_cache w) in
                       (Inr (), Some (i, result), w\<lparr>owner_cache := cache_complete key c1\<rparr>)))))"

section \<open>The event pump\<close>

definition SESSION_REQUEST_RUNTIME_PREFERENCES :: string where
  "SESSION_REQUEST_RUNTIME_PREFERENCES = ''session/requestRuntimePreferences''"

definition exit_terminal_of ::
    "ChildExit \<Rightarrow> nat option \<Rightarrow> TurnSnapshot \<Rightarrow> RuntimeTerminal" where
  "exit_terminal_of exit members turn =
     (if members = Some 0 then
        (if exit = ExitedCode (Some 0) then
           (if \<not> turn_active turn \<and> turn_boundary turn = Some BoundaryCompleted
            then TerminalCompleted (AlreadyExited exit)
            else TerminalRuntimeLost EventStreamLost)
         else TerminalExited exit)
      else TerminalOrphaned UnknownMembership)"

fun pump_requests :: "json_codec \<Rightarrow> Inbound \<Rightarrow> OfferedPermissionCache \<Rightarrow> OfferedPermissionCache" where
  "pump_requests codec (Message (Request r)) c =
     (if request_method r = INTERACTION_REQUEST_PERMISSION
      then cache_observe (id_key codec (request_envelope_id r)) (request_params r) c else c)"
| "pump_requests codec _ c = c"

fun wants_preferences :: "Inbound \<Rightarrow> bool" where
  "wants_preferences (Message (Request r)) = (request_method r = SESSION_REQUEST_RUNTIME_PREFERENCES)"
| "wants_preferences _ = False"

fun child_exit_of :: "Inbound \<Rightarrow> ChildExit option" where
  "child_exit_of (ChildExited exit) = Some exit"
| "child_exit_of _ = None"

text \<open>
  One received event. \<open>replied\<close> says whether the preferences could be written back, \<open>members\<close> how many
  processes the group still has, none if it could not be observed. The result says whether the pump
  goes on.
\<close>

definition pump_event ::
    "json_codec \<Rightarrow> nat \<Rightarrow> bool \<Rightarrow> nat option \<Rightarrow> Inbound \<Rightarrow> RuntimeOwner \<Rightarrow> bool \<times> RuntimeOwner" where
  "pump_event codec now replied members event w =
     (if wants_preferences event \<and> \<not> replied
      then (False, with_publisher (snd (publish_terminal (TerminalRuntimeLost EventStreamLost) (owner_publisher w))) w)
      else
        (let w1 = w\<lparr>owner_cache := (if wants_preferences event then owner_cache w
                                    else pump_requests codec event (owner_cache w)),
                    owner_tracker := turn_observe now event (owner_tracker w)\<rparr>;
             terminal = map_option (\<lambda>exit. exit_terminal_of exit members (turn_snapshot (owner_tracker w1)))
                          (child_exit_of event);
             w2 = with_publisher (emit_driver event terminal (owner_publisher w1)) w1 in
         if is_exit_boundary event then (False, w2\<lparr>owner_cache := cache_clear (owner_cache w2)\<rparr>)
         else (True, w2)))"

definition pump_disconnected :: "RuntimeOwner \<Rightarrow> RuntimeOwner" where
  "pump_disconnected w =
     with_publisher (snd (publish_terminal (TerminalRuntimeLost EventStreamLost) (owner_publisher w)))
       (w\<lparr>owner_cache := cache_clear (owner_cache w)\<rparr>)"

section \<open>The end of the process\<close>

text \<open>
  \<open>finish_process\<close>: mark the owner as stopping, stop and reap the process, wait for the exit event to be
  delivered, and publish. The pump may run between the first part and the last one.
\<close>

definition finish_begin :: "RuntimeOwner \<Rightarrow> RuntimeTerminal option \<times> RuntimeOwner" where
  "finish_begin w = (case begin_stopping (owner_publisher w) of (already, st) \<Rightarrow> (already, w\<lparr>owner_publisher := st\<rparr>))"

definition finish_terminal ::
    "string + StopOutcome \<Rightarrow> RuntimeTerminal option \<Rightarrow> TurnBoundary option \<Rightarrow> RuntimeTerminal" where
  "finish_terminal stopped exit_wait boundary =
     (case stopped of
        Inl e \<Rightarrow> TerminalRuntimeLost (StopFailed e)
      | Inr oc \<Rightarrow>
          (case exit_wait of
             Some t \<Rightarrow> t
           | None \<Rightarrow>
               (case boundary of
                  Some BoundaryCompleted \<Rightarrow> TerminalCompleted oc
                | Some BoundaryFailed \<Rightarrow> TerminalFailedTurn oc
                | None \<Rightarrow> TerminalStopped oc)))"

definition finish_publish :: "RuntimeTerminal \<Rightarrow> RuntimeOwner \<Rightarrow> RuntimeTerminal \<times> RuntimeOwner" where
  "finish_publish t w =
     (let w1 = w\<lparr>owner_cache := cache_clear (owner_cache w)\<rparr> in
      case publish_terminal t (owner_publisher w1) of (winner, r) \<Rightarrow> (winner, with_publisher r w1))"

definition cleanup_owned_group :: "string + StopOutcome \<Rightarrow> string + unit \<Rightarrow> RuntimeTerminal" where
  "cleanup_owned_group stopped reaped =
     (case stopped of
        Inr oc \<Rightarrow> TerminalStopped oc
      | Inl error \<Rightarrow>
          (case reaped of
             Inr _ \<Rightarrow> TerminalStopped (AlreadyExited UnknownExit)
           | Inl reap_error \<Rightarrow>
               TerminalRuntimeLost (StopFailed (''owned cleanup failed ('' @ error
                 @ ''); persisted group reap failed ('' @ reap_error @ '')''))))"

definition cleanup_for_forced_failure ::
    "string + StopOutcome \<Rightarrow> string + unit \<Rightarrow> RuntimeOwner \<Rightarrow> RuntimeTerminal \<times> RuntimeOwner" where
  "cleanup_for_forced_failure stopped reaped w =
     (let w1 = w\<lparr>owner_cache := cache_clear (owner_cache w)\<rparr>;
          t = cleanup_owned_group stopped reaped in
      case publish_cleanup_terminal t (owner_publisher w1) of (_, r) \<Rightarrow> (t, with_publisher r w1))"

section \<open>Processes found after a restart\<close>

record ProcessIdentity =
  identity_pid :: nat
  identity_pgid :: int
  identity_uid :: nat
  identity_start_token :: string

datatype observation = Observed ProcessIdentity | NotFound | Unobservable

definition identity_invalid :: "ProcessIdentity \<Rightarrow> bool" where
  "identity_invalid p \<longleftrightarrow>
     identity_pid p \<le> 1 \<or> identity_pgid p \<le> 1
     \<or> (if identity_pid p < 2 ^ 31 then int (identity_pid p) else int (identity_pid p) - 2 ^ 32) \<noteq> identity_pgid p
     \<or> identity_start_token p = []"

definition membership_unknown :: "ProcessIdentity \<Rightarrow> ProcessIdentity list \<Rightarrow> bool" where
  "membership_unknown p members \<longleftrightarrow>
     members = [] \<or> p \<notin> set members
     \<or> list_ex (\<lambda>m. identity_pgid m \<noteq> identity_pgid p \<or> identity_uid m \<noteq> identity_uid p
                  \<or> identity_start_token m = []) members"

text \<open>On macOS; elsewhere a process cannot be identified, whatever its identity is.\<close>

definition classify_restart ::
    "bool \<Rightarrow> observation \<Rightarrow> ProcessIdentity list option \<Rightarrow> observation \<Rightarrow> ProcessIdentity \<Rightarrow> RuntimeTerminal" where
  "classify_restart macos first members second p =
     (if identity_invalid p then TerminalOrphaned InvalidIdentity
      else if \<not> macos then TerminalOrphaned UnsupportedIdentity
      else
        (case first of
           NotFound \<Rightarrow> TerminalOrphaned MissingLeader
         | Unobservable \<Rightarrow> TerminalOrphaned UnsupportedIdentity
         | Observed o1 \<Rightarrow>
             if o1 \<noteq> p then TerminalOrphaned IdentityMismatch
             else
               (case members of
                  None \<Rightarrow> TerminalOrphaned UnknownMembership
                | Some ms \<Rightarrow>
                    if membership_unknown p ms then TerminalOrphaned UnknownMembership
                    else
                      (case second of
                         Observed o2 \<Rightarrow>
                           if o2 = o1 then TerminalRuntimeLost SessionLost else TerminalOrphaned IdentityMismatch
                       | NotFound \<Rightarrow> TerminalOrphaned MissingLeader
                       | Unobservable \<Rightarrow> TerminalOrphaned UnsupportedIdentity))))"

end
