(* ===== verification/Owner_Properties.thy ===== *)
theory Owner_Properties
  imports Runtime_Owner
begin

text \<open>
  Properties of the owner of a running agent: the permission responses it writes are offered by the
  agent's newest request under that id, and a terminal that proves the process group reaped is only
  published when the group was seen empty or the process was reaped.
\<close>

section \<open>Runs of an owner\<close>

text \<open>The owner with the permission requests received so far, the newest first, by key.\<close>

type_synonym owner_run = "RuntimeOwner \<times> (string \<times> json) list"

fun permission_request :: "json_codec \<Rightarrow> Inbound \<Rightarrow> (string \<times> json) list" where
  "permission_request codec (Message (Request r)) =
     (if request_method r = INTERACTION_REQUEST_PERMISSION
      then [(id_key codec (request_envelope_id r), request_params r)] else [])"
| "permission_request codec _ = []"

inductive owner_step :: "json_codec \<Rightarrow> owner_run \<Rightarrow> owner_run \<Rightarrow> bool" for codec :: json_codec where
  pump: "pump_event codec now replied members event w = (go, w') \<Longrightarrow>
    owner_step codec (w, seen) (w', permission_request codec event @ seen)"
| disconnected: "owner_step codec (w, seen) (pump_disconnected w, seen)"
| respond: "respond_request codec correlation decision content validated failure w = (r, out, w') \<Longrightarrow>
    owner_step codec (w, seen) (w', seen)"
| finish_begin: "finish_begin w = (already, w') \<Longrightarrow> owner_step codec (w, seen) (w', seen)"
| finish_publish: "finish_publish t w = (winner, w') \<Longrightarrow> owner_step codec (w, seen) (w', seen)"
| cleanup: "cleanup_for_forced_failure stopped reaped w = (t, w') \<Longrightarrow> owner_step codec (w, seen) (w', seen)"

definition owner_initial :: "owner_run \<Rightarrow> bool" where
  "owner_initial r \<longleftrightarrow> r = (owner_new, [])"

definition cache_inv :: "OfferedPermissionCache \<Rightarrow> (string \<times> json) list \<Rightarrow> bool" where
  "cache_inv c seen \<longleftrightarrow>
     length (cache_requests c) \<le> MAX_PENDING_PERMISSION_RESPONSES
     \<and> length (denied_fingerprints c) \<le> MAX_PENDING_PERMISSION_RESPONSES
     \<and> (\<forall>(key, offered) \<in> set (cache_requests c).
          map_of seen key = Some (offered_params offered) \<and> offered_responses (offered_params offered) = Some offered)"

definition owner_inv :: "owner_run \<Rightarrow> bool" where
  "owner_inv r \<longleftrightarrow> cache_inv (owner_cache (fst r)) (snd r)"

lemma cache_inv_empty [simp]: "cache_inv cache_empty seen"
  by (simp add: cache_inv_def cache_empty_def)

lemma offered_responses_params: "offered_responses params = Some offered \<Longrightarrow> offered_params offered = params"
  by (auto simp: offered_responses_def split: option.splits)

lemma cache_inv_remove:
  "cache_inv c seen \<Longrightarrow> cache_inv (c\<lparr>cache_requests := remove_key key (cache_requests c)\<rparr>) seen"
  by (auto simp: cache_inv_def remove_key_def intro: le_trans [OF length_filter_le])

lemma cache_inv_observe:
  assumes "cache_inv c seen"
  shows "cache_inv (cache_observe key params c) ((key, params) # seen)"
proof -
  let ?rest = "remove_key key (cache_requests c)"
  have rest: "length ?rest \<le> MAX_PENDING_PERMISSION_RESPONSES"
    "\<forall>(k, offered) \<in> set ?rest. map_of ((key, params) # seen) k = Some (offered_params offered)
       \<and> offered_responses (offered_params offered) = Some offered"
    using cache_inv_remove [OF assms, of key] by (auto simp: cache_inv_def remove_key_def)
  with assms show ?thesis
    by (auto simp: cache_observe_def Let_def cache_inv_def dest: offered_responses_params split: option.splits)
qed

lemma cache_inv_deny:
  "cache_inv c seen \<Longrightarrow> cache_inv (cache_record_denial key validated c) seen"
  by (auto simp: cache_record_denial_def cache_inv_def List.insert_def split: option.splits)

lemma pump_requests_inv:
  "cache_inv c seen \<Longrightarrow> cache_inv (pump_requests codec event c) (permission_request codec event @ seen)"
  by (induction codec event c rule: pump_requests.induct) (auto simp: cache_inv_observe)

lemma preferences_not_permission: "wants_preferences event \<Longrightarrow> permission_request codec event = []"
  by (induction event rule: wants_preferences.induct)
     (auto simp: SESSION_REQUEST_RUNTIME_PREFERENCES_def INTERACTION_REQUEST_PERMISSION_def)

lemma owner_cache_with_publisher [simp]: "owner_cache (with_publisher r w) = owner_cache w"
  by (simp add: with_publisher_def split: prod.splits)

lemma pump_event_inv:
  assumes "cache_inv (owner_cache w) seen" "pump_event codec now replied members event w = (go, w')"
  shows "cache_inv (owner_cache w') (permission_request codec event @ seen)"
  using assms pump_requests_inv [of "owner_cache w" seen codec event] preferences_not_permission [of event codec]
  by (auto simp: pump_event_def Let_def cache_clear_def split: if_splits)

lemma respond_request_inv:
  assumes "cache_inv (owner_cache w) seen"
    "respond_request codec correlation decision content validated failure w = (r, out, w')"
  shows "cache_inv (owner_cache w') seen"
proof -
  from assms(2) have "w' = w \<or> (\<exists>key c. w' = w\<lparr>owner_cache := cache_complete key c\<rparr>
      \<and> (c = owner_cache w \<or> c = cache_record_denial key validated (owner_cache w)))"
    by (auto simp: respond_request_def Let_def split: option.splits if_splits)
  with assms(1) show ?thesis
    by (auto simp: cache_complete_def intro!: cache_inv_remove intro: cache_inv_deny)
qed

interpretation owner: transition_system owner_initial "owner_step codec" owner_inv for codec
proof unfold_locales
  fix r assume "owner_initial r"
  then show "owner_inv r" by (simp add: owner_initial_def owner_inv_def owner_new_def)
next
  fix r r' assume "owner_inv r" "owner_step codec r r'"
  from this(2,1) show "owner_inv r'"
  proof (induction rule: owner_step.induct)
    case pump
    then show ?case by (auto simp: owner_inv_def dest: pump_event_inv)
  next
    case respond
    then show ?case by (auto simp: owner_inv_def dest: respond_request_inv)
  qed (auto simp: owner_inv_def pump_disconnected_def cache_clear_def finish_begin_def finish_publish_def
      cleanup_for_forced_failure_def Let_def split: prod.splits)
qed

section \<open>Permission answers\<close>

lemma cache_response_offered:
  assumes "cache_inv c seen" "cache_response key decision validated c = Some v"
  shows "\<exists>params. map_of seen key = Some params
    \<and> (decision = ''allow'' \<and> offered_permission_response params ''allow'' = Some v
       \<or> decision = ''deny'' \<and> (\<exists>ms reason. offered_permission_response params ''deny'' = Some (JObject ms)
            \<and> v = JObject (member_set ms ''reason'' (JString reason))))"
proof -
  from assms(2) obtain offered where o: "map_of (cache_requests c) key = Some offered"
    by (auto simp: cache_response_def bind_eq_Some_conv)
  then have "(key, offered) \<in> set (cache_requests c)" by (rule map_of_SomeD)
  with assms(1) have p: "map_of seen key = Some (offered_params offered)"
    "offered_responses (offered_params offered) = Some offered"
    by (auto simp: cache_inv_def)
  from p(2) have r: "offered_permission_response (offered_params offered) ''allow'' = Some (offered_allow offered)"
    "offered_permission_response (offered_params offered) ''deny'' = Some (offered_deny offered)"
    by (cases offered; auto simp: offered_responses_def split: option.splits)+
  from assms(2) o r show ?thesis
    by (intro exI [of _ "offered_params offered"])
       (auto simp: p(1) cache_response_def bind_eq_Some_conv split: if_splits)
qed


definition example_option :: "string \<Rightarrow> string \<Rightarrow> json" where
  "example_option kind decision =
     JObject [(''kind'', JString kind), (''response'', JObject [(''decision'', JString decision)])]"

definition example_params :: json where
  "example_params = JObject [(''options'', JArray [example_option ''allow_once'' ''allow'', example_option ''deny'' ''deny''])]"

definition example_permission :: Inbound where
  "example_permission = Message (Request \<lparr>request_envelope_id = WireInteger 4,
     request_method = INTERACTION_REQUEST_PERMISSION, request_params = example_params\<rparr>)"

text \<open>A codec that reads the id back.\<close>

definition id_codec :: json_codec where
  "id_codec = \<lparr>from_str = (\<lambda>s. if s = ''4'' then Inr (JNumber (PosInt 4)) else Inl ''expected value''),
     rejection = (\<lambda>_. []), json_text = (\<lambda>_. ''4'')\<rparr>"

definition example_owner :: RuntimeOwner where
  "example_owner = snd (pump_event id_codec 0 True None example_permission owner_new)"

lemma example_owner_reachable:
  "reachable owner_initial (owner_step id_codec) (example_owner, [(''4'', example_params)])"
proof -
  have "reachable owner_initial (owner_step id_codec) (owner_new, [])"
    by (rule reachable.initial) (simp add: owner_initial_def)
  moreover have "owner_step id_codec (owner_new, [])
      (example_owner, permission_request id_codec example_permission @ [])"
    unfolding example_owner_def by (rule owner_step.pump) (rule surjective_pairing)
  ultimately have "reachable owner_initial (owner_step id_codec)
      (example_owner, permission_request id_codec example_permission @ [])"
    by (rule reachable.advance)
  then show ?thesis by (simp add: example_permission_def id_key_def id_codec_def)
qed

lemma example_answer:
  "fst (snd (respond_request id_codec ''4'' ''allow'' None None None example_owner)) =
     Some (WireInteger 4, JObject [(''decision'', JString ''allow'')])"
  by (simp add: respond_request_def decoded_def id_codec_def id_key_def cache_response_def example_owner_def
      pump_event_def Let_def example_permission_def cache_observe_def offered_responses_def
      offered_permission_response_def example_params_def example_option_def get_str_def remove_key_def
      owner_new_def cache_empty_def MAX_PENDING_PERMISSION_RESPONSES_def
      SESSION_REQUEST_RUNTIME_PREFERENCES_def INTERACTION_REQUEST_PERMISSION_def)


section \<open>Terminals that prove the group reaped\<close>

text \<open>
  A terminal counts as proof that the agent's process group is gone only when that has been observed:
  for the exit of the child, only if the group was seen empty, and as completed only if moreover the
  child exited with 0 after a completed turn; for a stop or a forced cleanup, only if the process was
  stopped and reaped, or its recorded group was; a restart never proves it.
\<close>

theorem reaped_only_if_observed:
  "(terminal_proves_process_group_reaped (exit_terminal_of exit members turn) \<longrightarrow> members = Some 0)
   \<and> (exit_terminal_of exit members turn = TerminalCompleted oc \<longrightarrow>
        members = Some 0 \<and> exit = ExitedCode (Some 0) \<and> \<not> turn_active turn
        \<and> turn_boundary turn = Some BoundaryCompleted)
   \<and> (terminal_proves_process_group_reaped (finish_terminal stopped None boundary) \<longleftrightarrow> (\<exists>oc. stopped = Inr oc))
   \<and> (terminal_proves_process_group_reaped (cleanup_owned_group stopped reaped) \<longleftrightarrow>
        (\<exists>oc. stopped = Inr oc) \<or> reaped = Inr ())
   \<and> \<not> terminal_proves_process_group_reaped (classify_restart macos first processes second p)"
proof (intro conjI)
  show "terminal_proves_process_group_reaped (finish_terminal stopped None boundary) \<longleftrightarrow> (\<exists>oc. stopped = Inr oc)"
    by (auto simp: finish_terminal_def split: sum.split option.split TurnBoundary.split)
  show "\<not> terminal_proves_process_group_reaped (classify_restart macos first processes second p)"
    by (simp add: classify_restart_def split: observation.split option.split)
qed (auto simp: exit_terminal_of_def cleanup_owned_group_def split: if_splits sum.splits)

theorem reaped_only_if_observed_witness:
  "\<not> terminal_proves_process_group_reaped (exit_terminal_of (ExitedCode (Some 0)) (Some 1)
      \<lparr>turn_generation = 1, turn_active = False, turn_boundary = Some BoundaryCompleted\<rparr>)"
  using reaped_only_if_observed [of "ExitedCode (Some 0)" "Some 1"
      "\<lparr>turn_generation = 1, turn_active = False, turn_boundary = Some BoundaryCompleted\<rparr>"]
  by auto

end
