(* ===== verification/Lifecycle_Sink.thy ===== *)
theory Lifecycle_Sink
  imports Runtime_Owner Store_Contracts
begin

text \<open>
  The sink that stores a runtime's records, and the storing of a task's result
  (\<open>external-daemon/src/lifecycle_sink.rs\<close>).

  An operation here is a sequence of transactions. A transaction that fails leaves the store as it was;
  the transactions before it stay committed. Between two transactions of an operation other threads may
  change the store: \<open>meanwhile k\<close> is what they do before the operation's next transaction. The clock
  readings of the transactions of one operation are numbered apart. The activity
  tracker, which the sink also informs, is not part of this theory.
\<close>

section \<open>Sequences of transactions\<close>

type_synonym 'a steps = "store \<Rightarrow> (StoreError + 'a) \<times> store"

definition commit :: "'a op \<Rightarrow> 'a steps" where
  "commit f s = (case f s of Inl e \<Rightarrow> (Inl e, s) | Inr (x, s') \<Rightarrow> (Inr x, s'))"

definition read_store :: "(store \<Rightarrow> StoreError + 'a) \<Rightarrow> 'a steps" where
  "read_store f s = (f s, s)"

definition then_steps :: "'a steps \<Rightarrow> ('a \<Rightarrow> 'b steps) \<Rightarrow> 'b steps" where
  "then_steps m f s = (case m s of (Inl e, s') \<Rightarrow> (Inl e, s') | (Inr x, s') \<Rightarrow> f x s')"

definition return_steps :: "'a \<Rightarrow> 'a steps" where
  "return_steps x s = (Inr x, s)"

definition fail_steps :: "StoreError \<Rightarrow> 'a steps" where
  "fail_steps e s = (Inl e, s)"

type_synonym interference = "nat \<Rightarrow> store \<Rightarrow> store"

definition after_others :: "(store \<Rightarrow> store) \<Rightarrow> 'a steps \<Rightarrow> 'a steps" where
  "after_others others m s = m (others s)"

fun store_error_text :: "StoreError \<Rightarrow> string" where
  "store_error_text (Sqlite e) = ''SQLite store error: '' @ e"
| "store_error_text LegacySchemaUnsupported =
     ''STORE_SCHEMA_VERSION_UNSUPPORTED: existing Store must be backed up and recreated''"
| "store_error_text (InvalidState m) = ''invalid store state: '' @ m"
| "store_error_text (Conflict m) = ''store conflict: '' @ m"

section \<open>Results\<close>

fun task_outcome :: "CompletionOutcome \<Rightarrow> TaskOutcome" where
  "task_outcome CompletionOutcome.Completed = TaskOutcome.Completed"
| "task_outcome CompletionOutcome.Failed = TaskOutcome.Failed"
| "task_outcome CompletionOutcome.Cancelled = TaskOutcome.Cancelled"
| "task_outcome CompletionOutcome.TimedOut = TaskOutcome.TimedOut"
| "task_outcome CompletionOutcome.RuntimeLost = TaskOutcome.RuntimeLost"
| "task_outcome CompletionOutcome.ResultInvalid = TaskOutcome.ResultInvalid"

fun completion_outcome_debug :: "CompletionOutcome \<Rightarrow> string" where
  "completion_outcome_debug CompletionOutcome.Completed = ''Completed''"
| "completion_outcome_debug CompletionOutcome.Failed = ''Failed''"
| "completion_outcome_debug CompletionOutcome.Cancelled = ''Cancelled''"
| "completion_outcome_debug CompletionOutcome.TimedOut = ''TimedOut''"
| "completion_outcome_debug CompletionOutcome.RuntimeLost = ''RuntimeLost''"
| "completion_outcome_debug CompletionOutcome.ResultInvalid = ''ResultInvalid''"

definition completion_result :: "GeneralCompletion \<Rightarrow> TaskResult" where
  "completion_result c =
     \<lparr>result_outcome = task_outcome (completion_outcome c),
      final_text =
        (if trim (completion_summary c) = []
         then (case completion_reason_code c of
                 Some code \<Rightarrow> code
               | None \<Rightarrow> ''general task ended with '' @ completion_outcome_debug (completion_outcome c))
         else completion_summary c),
      partial = (completion_outcome c \<noteq> CompletionOutcome.Completed)\<rparr>"

definition minimal_task_result :: "CompletionOutcome \<Rightarrow> string \<Rightarrow> string \<Rightarrow> TaskResult" where
  "minimal_task_result oc summary code =
     \<lparr>result_outcome = task_outcome oc, final_text = (if trim summary = [] then code else summary),
      partial = (oc \<noteq> CompletionOutcome.Completed)\<rparr>"

definition bounded_cancelled_task_result :: TaskResult where
  "bounded_cancelled_task_result =
     \<lparr>result_outcome = TaskOutcome.Cancelled, final_text = ''task cancelled'', partial = True\<rparr>"

definition bounded_result_invalid_task_result :: TaskResult where
  "bounded_result_invalid_task_result =
     \<lparr>result_outcome = TaskOutcome.ResultInvalid, final_text = ''result unavailable'', partial = True\<rparr>"

type_synonym digest = "TaskResult \<Rightarrow> StoreError + string"

definition store_result_with_cancel_precedence ::
    "digest \<Rightarrow> clock \<Rightarrow> interference \<Rightarrow> string \<Rightarrow> TaskResult \<Rightarrow> string option \<Rightarrow> string option \<Rightarrow> unit steps" where
  "store_result_with_cancel_precedence digest clock meanwhile aid res why message s =
     (case commit (store_task_result_with_reason digest clock aid res why message) s of
        (Inr _, s1) \<Rightarrow> (Inr (), s1)
      | (Inl (Conflict m), s1) \<Rightarrow>
          then_steps (after_others (meanwhile 0)
            (read_store (\<lambda>s. require_task ''terminal result task disappeared'' s aid))) (\<lambda>task.
          if (stop_requested task \<or> close_requested task) \<and> result_outcome res \<noteq> TaskOutcome.Cancelled
          then
            then_steps (after_others (meanwhile 1) (read_store (\<lambda>s. query_task_result s aid))) (\<lambda>existing.
              if existing = None
              then after_others (meanwhile 2)
                     (commit (store_task_result_with_reason digest (\<lambda>n. clock (n + 8)) aid bounded_cancelled_task_result None None))
              else fail_steps (Conflict m))
          else fail_steps (Conflict m)) s1
      | (Inl e, s1) \<Rightarrow> (Inl e, s1))"

definition persist_general_result ::
    "digest \<Rightarrow> clock \<Rightarrow> interference \<Rightarrow> string \<Rightarrow> GeneralCompletion \<Rightarrow> unit steps" where
  "persist_general_result digest clock meanwhile aid c =
     store_result_with_cancel_precedence digest clock meanwhile aid (completion_result c)
       (completion_reason_code c) (failure_message c)"

record UnstartedTerminal =
  unstarted_outcome :: CompletionOutcome
  unstarted_reason_code :: string
  unstarted_message :: string
  unstarted_failure_message :: "string option"

definition finalized_general ::
    "PreparedGeneralTask \<Rightarrow> CompletionOutcome \<Rightarrow> string \<Rightarrow> string \<Rightarrow> string option \<Rightarrow> GeneralCompletion" where
  "finalized_general p oc code message failure =
     (let c = finalize_completion p oc;
          c1 = (if trim (completion_summary c) = []
                then c\<lparr>completion_summary := (if trim message = [] then code else message)\<rparr> else c);
          c2 = (if completion_reason_code c1 = None \<and> oc \<noteq> CompletionOutcome.Completed
                then c1\<lparr>completion_reason_code := Some code\<rparr> else c1) in
      c2\<lparr>failure_message := failure\<rparr>)"

definition unreaped_general ::
    "CompletionOutcome \<Rightarrow> string \<Rightarrow> string \<Rightarrow> string option \<Rightarrow> GeneralCompletion" where
  "unreaped_general oc code message failure =
     \<lparr>completion_outcome = oc,
      completion_reason_code = (if oc \<noteq> CompletionOutcome.Completed then Some code else None),
      completion_summary = (if trim message = [] then code else message), residual_gaps = [],
      cleaned = False, failure_message = failure\<rparr>"

section \<open>The sink\<close>

definition TRANSPORT_FRAME_LIMIT_REASON :: string where
  "TRANSPORT_FRAME_LIMIT_REASON = ''RUNTIME_TRANSPORT_FRAME_LIMIT''"

definition MAX_NDJSON_LINE_BYTES :: nat where
  "MAX_NDJSON_LINE_BYTES = 16 * 1024 * 1024"

record TransportFrameLimit =
  frame_reason :: string
  frame_bytes :: nat
  frame_cap :: nat
  frame_last_event_seq :: nat

record SinkWriteState =
  first_error :: "string option"
  last_source_sequence :: nat
  pending_terminal_sequence :: "nat option"
  terminal_written :: bool
  transport_failure :: "TransportFrameLimit option"

record StoreLifecycleSink =
  sink_agent_id :: string
  sink_runtime_agent_id :: string
  sink_owner_epoch :: nat
  sink_state :: SinkWriteState

definition sink_new :: "string \<Rightarrow> string \<Rightarrow> nat \<Rightarrow> StoreLifecycleSink" where
  "sink_new aid runtime epoch =
     \<lparr>sink_agent_id = aid, sink_runtime_agent_id = runtime, sink_owner_epoch = epoch,
      sink_state = \<lparr>first_error = None, last_source_sequence = 0, pending_terminal_sequence = None,
        terminal_written = False, transport_failure = None\<rparr>\<rparr>"

datatype NaturalCompletionAdmission = Ready | Deferred bool bool | Bypass

definition begin_natural_completion ::
    "StoreLifecycleSink \<Rightarrow> RuntimeLifecycle \<Rightarrow> store \<Rightarrow> NaturalCompletionAdmission \<times> RuntimeLifecycle" where
  "begin_natural_completion k lifecycle s =
     (if lifecycle_phase lifecycle \<noteq> LifecycleRunning then (Bypass, lifecycle)
      else
        (case completion_blockers s (sink_agent_id k) of
           (pending, queued) \<Rightarrow>
             if pending \<or> queued then (Deferred pending queued, lifecycle)
             else (Ready, lifecycle\<lparr>lifecycle_phase := LifecycleTerminal\<rparr>)))"

text \<open>The write of a projected event.\<close>

definition lifecycle_write ::
    "json_codec \<Rightarrow> StoreLifecycleSink \<Rightarrow> nat \<Rightarrow> LifecycleProjection \<Rightarrow> TurnState option \<Rightarrow> LifecycleWrite" where
  "lifecycle_write codec k sequence p turn =
     LifecycleWrite.make (sink_agent_id k) (sink_runtime_agent_id k) (sink_owner_epoch k) sequence
       (projection_event_type p) None (json_text codec (projection_payload p)) (projection_redaction p) None turn"

definition commit_append :: "clock \<Rightarrow> LifecycleWrite \<Rightarrow> nat steps" where
  "commit_append clock w s =
     (case append_lifecycle clock w s of
        Inl e \<Rightarrow> (Inl e, s)
      | Inr (Inl e, s') \<Rightarrow> (Inl e, s')
      | Inr (Inr n, s') \<Rightarrow> (Inr n, s'))"

definition commit_reap :: "clock \<Rightarrow> string \<Rightarrow> TaskOutcome steps" where
  "commit_reap clock aid s =
     (case reap_task clock aid s of
        Inl e \<Rightarrow> (Inl e, s)
      | Inr (Inl e, s') \<Rightarrow> (Inl e, s')
      | Inr (Inr oc, s') \<Rightarrow> (Inr oc, s'))"

definition task_phase :: "string \<Rightarrow> TaskPhase steps" where
  "task_phase aid = read_store (\<lambda>s. res_bind (require_task ''terminal task disappeared'' s aid) (\<lambda>t. Inr (phase t)))"

definition finish_general ::
    "json_codec \<Rightarrow> digest \<Rightarrow> clock \<Rightarrow> interference \<Rightarrow> StoreLifecycleSink \<Rightarrow> RuntimeTerminal \<Rightarrow> GeneralCompletion
       \<Rightarrow> store \<Rightarrow> (StoreError + TaskPhase) \<times> StoreLifecycleSink \<times> store" where
  "finish_general codec digest clock meanwhile k t completion s =
     (case first_error (sink_state k) of
        Some e \<Rightarrow> (Inl (InvalidState e), k, s)
      | None \<Rightarrow>
          if terminal_written (sink_state k) then
            (case task_phase (sink_agent_id k) s of (r, s') \<Rightarrow> (r, k, s'))
          else
            (let sequence = (case pending_terminal_sequence (sink_state k) of
                    Some n \<Rightarrow> n
                  | None \<Rightarrow> saturating_add_u64 (last_source_sequence (sink_state k)) 1);
                 written = then_steps (commit_append clock (lifecycle_write codec k sequence
                              (lifecycle_projection (TerminalEvent t) None) None)) (\<lambda>_.
                           then_steps (after_others (meanwhile 10)
                              (persist_general_result digest (\<lambda>n. clock (n + 16)) meanwhile (sink_agent_id k) completion)) (\<lambda>_.
                           if cleaned completion \<and> terminal_proves_process_group_reaped t
                           then then_steps (after_others (meanwhile 11) (commit_reap (\<lambda>n. clock (n + 32)) (sink_agent_id k)))
                                  (\<lambda>_. return_steps ())
                           else return_steps ())) in
             case written s of
               (Inl e, s') \<Rightarrow> (Inl e, k, s')
             | (Inr _, s') \<Rightarrow>
                 (case after_others (meanwhile 12) (task_phase (sink_agent_id k)) s' of
                    (r, s'') \<Rightarrow> (r, k\<lparr>sink_state := (sink_state k)\<lparr>terminal_written := True\<rparr>\<rparr>, s''))))"

section \<open>Emission\<close>

fun respondable_request :: "RuntimeEvent \<Rightarrow> RequestEnvelope option" where
  "respondable_request (DriverEvent (Message (Request r))) =
     (if request_method r \<in> {INTERACTION_REQUEST_PERMISSION, INTERACTION_REQUEST_USER_INPUT,
          INTERACTION_REQUEST_UNSUPPORTED_INPUT} then Some r else None)"
| "respondable_request _ = None"

definition request_type_of :: "string \<Rightarrow> string" where
  "request_type_of method =
     (if method = INTERACTION_REQUEST_PERMISSION then ''permission''
      else if method = INTERACTION_REQUEST_USER_INPUT then ''user_input'' else ''unsupported_input'')"

fun event_turn_state :: "RuntimeEvent \<Rightarrow> TurnState option" where
  "event_turn_state (DriverEvent (LifecycleEvent _ method _)) =
     (if method = ''turn.started'' then Some TurnActive
      else if method = ''turn.completed'' then Some TurnIdle
      else if method = ''turn.failed'' then Some TurnFailed else None)"
| "event_turn_state _ = None"

datatype insertion = Inserted | Dropped | InsertFailed string

text \<open>
  The retry of a request's insertion while the store's phase gate refuses it. The \<open>k\<close>th attempt finds
  the store other threads have left; \<open>admitting k\<close> and \<open>late k\<close> are the lifecycle and the deadline after it.
\<close>

partial_function (option) insert_retry ::
    "bool op \<Rightarrow> interference \<Rightarrow> (nat \<Rightarrow> bool) \<Rightarrow> (nat \<Rightarrow> bool) \<Rightarrow> nat \<Rightarrow> store \<Rightarrow> (insertion \<times> store) option" where
  "insert_retry attempt meanwhile admitting late k s =
     (let s1 = meanwhile k s in
      case attempt s1 of
        Inr (_, s2) \<Rightarrow> Some (Inserted, s2)
      | Inl (Conflict m) \<Rightarrow>
          if \<not> admitting k then Some (Dropped, s1)
          else if late k then Some (InsertFailed (store_error_text (Conflict m)), s1)
          else insert_retry attempt meanwhile admitting late (k + 1) s1
      | Inl e \<Rightarrow> Some (InsertFailed (store_error_text e), s1))"

definition latch_transport :: "RuntimeEvent \<Rightarrow> SinkWriteState \<Rightarrow> SinkWriteState" where
  "latch_transport event st =
     (case event of
        DriverEvent (OversizedLine n) \<Rightarrow>
          if transport_failure st = None
          then st\<lparr>transport_failure := Some \<lparr>frame_reason = TRANSPORT_FRAME_LIMIT_REASON, frame_bytes = n,
                    frame_cap = MAX_NDJSON_LINE_BYTES, frame_last_event_seq = last_source_sequence st\<rparr>\<rparr>
          else st
      | _ \<Rightarrow> st)"

definition append_event ::
    "json_codec \<Rightarrow> clock \<Rightarrow> StoreLifecycleSink \<Rightarrow> LifecycleRecord \<Rightarrow> string option \<Rightarrow> store
       \<Rightarrow> StoreLifecycleSink \<times> store" where
  "append_event codec clock k record pending s =
     (case commit_append clock (lifecycle_write codec k (record_sequence record)
             (lifecycle_projection (record_event record) pending) (event_turn_state (record_event record))) s of
        (Inr _, s') \<Rightarrow> (k, s')
      | (Inl e, s') \<Rightarrow> (k\<lparr>sink_state := (sink_state k)\<lparr>first_error := Some (store_error_text e)\<rparr>\<rparr>, s'))"

text \<open>
  What the rest of the daemon does during one emission; \<open>released\<close> is what it makes of the lifecycle while
  the sink waits without its guard.
\<close>

record emission_env =
  others :: interference
  admitting :: "nat \<Rightarrow> bool"
  past_deadline :: "nat \<Rightarrow> bool"
  released :: "RuntimeLifecycle \<Rightarrow> RuntimeLifecycle"

definition emit ::
    "json_codec \<Rightarrow> clock \<Rightarrow> emission_env \<Rightarrow> LifecycleRecord \<Rightarrow> StoreLifecycleSink \<Rightarrow> RuntimeLifecycle \<Rightarrow> store
       \<Rightarrow> (StoreLifecycleSink \<times> RuntimeLifecycle \<times> store) option" where
  "emit codec clock env record k lifecycle s =
     (case admit_event lifecycle of
        (False, lifecycle') \<Rightarrow> Some (k, lifecycle', s)
      | (True, lifecycle') \<Rightarrow>
          if first_error (sink_state k) \<noteq> None then Some (k, lifecycle', s)
          else
            (let st1 = (sink_state k)\<lparr>last_source_sequence := max (last_source_sequence (sink_state k)) (record_sequence record)\<rparr>;
                 st2 = latch_transport (record_event record) st1;
                 k2 = k\<lparr>sink_state := st2\<rparr> in
             case record_event record of
               TerminalEvent _ \<Rightarrow>
                 Some (k\<lparr>sink_state := st2\<lparr>pending_terminal_sequence := Some (record_sequence record)\<rparr>\<rparr>, lifecycle', s)
             | DriverEvent _ \<Rightarrow>
                 (case respondable_request (record_event record) of
                    None \<Rightarrow> (case append_event codec clock k2 record None s of (k', s') \<Rightarrow> Some (k', lifecycle', s'))
                  | Some r \<Rightarrow>
                      (let rid = sink_agent_id k @ '':request:'' @ to_decimal (record_sequence record) in
                       Option.bind
                         (insert_retry
                            (insert_pending_request clock rid (sink_agent_id k) (id_key codec (request_envelope_id r))
                               (request_type_of (request_method r)) (json_text codec (request_params r)))
                            (others env) (admitting env) (past_deadline env) 0 s)
                         (\<lambda>(inserted, s1).
                            case inserted of
                              InsertFailed e \<Rightarrow>
                                Some (k2\<lparr>sink_state := st2\<lparr>first_error := Some e\<rparr>\<rparr>, released env lifecycle', s1)
                            | Dropped \<Rightarrow> Some (k2, released env lifecycle', s1)
                            | Inserted \<Rightarrow>
                                (case admit_event (released env lifecycle') of
                                   (False, lifecycle'') \<Rightarrow> Some (k2, lifecycle'', s1)
                                 | (True, lifecycle'') \<Rightarrow>
                                     (case append_event codec clock k2 record (Some rid) s1 of
                                        (k', s') \<Rightarrow> Some (k', lifecycle'', s'))))))))"

end
