(* ===== verification/Sink_Properties.thy ===== *)
theory Sink_Properties
  imports Lifecycle_Sink Owner_Properties Store_Examples
begin

text \<open>
  Properties of the sink: a result always ends its task, as cancelled when a stop was requested, and an
  emission returns and leaves the latched facts of the sink in place.
\<close>

section \<open>Storing a result\<close>

lemma query_task_found:
  assumes "store_inv s" "find_task s a = Some r"
  obtains task where "require_task e s a = Inr task" "query_task s a = Inr (Some task)"
    "t_phase r = TaskPhase_as_str (phase task)"
    "t_owner_epoch r = int (owner_epoch task)" "t_close_requested r = close_requested task"
    "t_stop_requested r = stop_requested task" "t_failure_code r = task_failure_code task"
proof -
  from convert_task_row_ok [OF store_inv_row [OF assms]] obtain task where "query_task s a = Inr (Some task)"
    using assms(2) by (auto simp: query_task_def)
  then have req: "require_task e s a = Inr task" for e by (simp add: require_task_def)
  from require_task_ok [OF assms(1) req] assms(2) that [OF req \<open>query_task s a = _\<close>] show thesis by auto
qed

text \<open>What storing a first result does to an active task, on every branch.\<close>

lemma store_task_result_active:
  assumes inv: "store_inv s" and r: "find_task s a = Some r" "phase_in active_phases r" "result_of s a = None"
    and valid: "validate_result res = Inr ()" "digest res = Inr d"
  shows "\<exists>m s'. store_task_result_with_reason digest clock a res why message s =
    (if result_outcome res = TaskOutcome.Completed \<and> (has_request s a \<or> has_message s a)
        \<or> (t_stop_requested r \<or> t_close_requested r) \<and> result_outcome res \<noteq> TaskOutcome.Cancelled
     then Inl (Conflict m) else Inr ((), s'))"
proof -
  obtain task where task: "require_task (''unknown task '' @ a) s a = Inr task"
    and eq: "t_phase r = TaskPhase_as_str (phase task)" "t_owner_epoch r = int (owner_epoch task)"
      "t_close_requested r = close_requested task" "t_stop_requested r = stop_requested task"
    by (rule query_task_found [OF inv r(1)])
  have ph: "phase task \<in> set active_phases" "phase task \<noteq> Terminal"
    using r(2) eq(1) by (auto simp: phase_in_def)
  have none: "find (\<lambda>x. r_agent_id x = a) (task_results s) = None" using r(3) by (simp add: result_of_def)
  let ?s = "s\<lparr>task_results := task_results s @ [new_result_row (clock 0) a res d]\<rparr>"
  have "keyed ?s" "find_task ?s a = Some r" using store_inv_keyed [OF inv] r(1) by (simp_all add: keyed_def)
  moreover have "int (owner_epoch task) \<le> i64_max"
    using store_inv_row [OF inv r(1)] eq(2) by (simp add: row_ok_def)
  ultimately have "\<exists>x. apply_terminal (clock 1) (clock 2) a (owner_epoch task) (phase task) (close_requested task)
      (stop_requested task) upd ?s = Inr x" for upd
    using apply_terminal_eval [of ?s a r "owner_epoch task" "phase task"] eq ph(2) by blast
  then obtain oc s' where fin: "apply_terminal (clock 1) (clock 2) a (owner_epoch task) (phase task) (close_requested task)
      (stop_requested task) (result_terminal_update res why (task_failure_code task) message) ?s = Inr (oc, s')"
    by (metis prod.collapse)
  have "completion_blockers s a = (has_request s a, has_message s a)"
    by (simp add: completion_blockers_def has_request_def has_message_def)
  with task none ph valid fin eq show ?thesis
    by (auto simp: store_task_result_with_reason_def new_result_row_def)
qed

text \<open>Storing a first result ends the task, and keeps the store reachable.\<close>

lemma commit_result_ends:
  assumes "store_reachable s" "result_of s a = None"
    and "store_task_result_with_reason digest clock a res why message s = Inr (u, s')"
  shows "\<exists>r'. find_task s' a = Some r' \<and> is_terminal_row r'
    \<and> t_outcome r' = Some (TaskOutcome_as_str (result_outcome res))"
proof -
  have inv: "store_inv s" by (rule reachable_store_inv [OF assms(1)])
  from store_task_result_eval [OF inv assms(3)] assms(2) obtain d r ph epoch where
    r: "find_task s a = Some r" and
    s': "s' = result_store clock a res d (result_terminal_update res why (t_failure_code r) message) epoch ph r s"
    by auto
  then show ?thesis using find_terminal_store by (auto simp: s' result_store_def)
qed

lemma bounded_cancelled_valid: "validate_result bounded_cancelled_task_result = Inr ()"
proof -
  have "trim ''task cancelled'' \<noteq> []" by code_simp
  then show ?thesis by (simp add: validate_result_def bounded_cancelled_task_result_def)
qed

lemma store_result_ends:
  assumes "store_reachable s" "find_task s a = Some r" "phase_in active_phases r" "result_of s a = None"
    and "validate_result res = Inr ()" "\<And>x. \<exists>d. digest x = Inr d"
  shows "\<exists>answer s'. store_result_with_cancel_precedence digest clock (\<lambda>_ t. t) a res why message s = (answer, s')
    \<and> (if result_outcome res = TaskOutcome.Completed \<and> (has_request s a \<or> has_message s a)
          \<and> \<not> t_stop_requested r \<and> \<not> t_close_requested r
       then (\<exists>m. answer = Inl (Conflict m)) \<and> s' = s
       else answer = Inr ()
         \<and> (\<exists>r'. find_task s' a = Some r' \<and> is_terminal_row r'
              \<and> t_outcome r' = Some (TaskOutcome_as_str
                   (if t_stop_requested r \<or> t_close_requested r then TaskOutcome.Cancelled else result_outcome res))))"
proof -
  have inv: "store_inv s" by (rule reachable_store_inv [OF assms(1)])
  obtain d d' where d: "digest res = Inr d" "digest bounded_cancelled_task_result = Inr d'" using assms(6) by metis
  note first = store_task_result_active [of s a r res digest d clock why message, OF inv assms(2,3,4,5) d(1)]
  note second = store_task_result_active
      [of s a r bounded_cancelled_task_result digest d' "\<lambda>n. clock (n + 8)" None None, OF inv assms(2,3,4) bounded_cancelled_valid d(2)]
  note ends = commit_result_ends [OF assms(1,4)]
  obtain task where task: "require_task ''terminal result task disappeared'' s a = Inr task"
    and flags: "t_close_requested r = close_requested task" "t_stop_requested r = stop_requested task"
    by (rule query_task_found [OF inv assms(2)])
  have none: "query_task_result s a = Inr None" using assms(4) by (simp add: query_task_result_def result_of_def)
  let ?refused = "result_outcome res = TaskOutcome.Completed \<and> (has_request s a \<or> has_message s a)
        \<or> (t_stop_requested r \<or> t_close_requested r) \<and> result_outcome res \<noteq> TaskOutcome.Cancelled"
  show ?thesis
  proof (cases ?refused)
    case False
    with first obtain s' where s': "store_task_result_with_reason digest clock a res why message s = Inr ((), s')"
      by auto
    from ends [OF this] False s' show ?thesis
      by (auto simp: store_result_with_cancel_precedence_def commit_def)
  next
    case True
    with first obtain m where m: "store_task_result_with_reason digest clock a res why message s = Inl (Conflict m)"
      by auto
    from second obtain s' where s': "store_task_result_with_reason digest (\<lambda>n. clock (n + 8)) a bounded_cancelled_task_result None None s
        = Inr ((), s')"
      by (auto simp: bounded_cancelled_task_result_def)
    from ends [OF s'] True m s' task flags none show ?thesis
      by (auto simp: store_result_with_cancel_precedence_def commit_def then_steps_def after_others_def read_store_def
          fail_steps_def bounded_cancelled_task_result_def)
  qed
qed

text \<open>
  C31. Storing the result of an active task always ends it, and a stop wins: on a reachable store, with no
  other thread in between and a digest that can be computed, the task becomes terminal with the result's
  outcome, or as cancelled when a stop or a close was requested, even if the result says completed or
  failed. The only refusal is a result that claims completion while requests or messages are open and no
  stop was requested; then the store is unchanged.
\<close>

theorem result_with_cancel_precedence:
  assumes "store_reachable s" "find_task s a = Some r" "phase_in active_phases r" "result_of s a = None"
    and "validate_result res = Inr ()" "\<And>x. \<exists>d. digest x = Inr d"
  shows "\<exists>answer s'. store_result_with_cancel_precedence digest clock (\<lambda>_ t. t) a res why message s = (answer, s')
    \<and> (if result_outcome res = TaskOutcome.Completed \<and> (has_request s a \<or> has_message s a)
          \<and> \<not> t_stop_requested r \<and> \<not> t_close_requested r
       then (\<exists>m. answer = Inl (Conflict m)) \<and> s' = s
       else answer = Inr ()
         \<and> (\<exists>r'. find_task s' a = Some r' \<and> is_terminal_row r'
              \<and> t_outcome r' = Some (TaskOutcome_as_str
                   (if t_stop_requested r \<or> t_close_requested r then TaskOutcome.Cancelled else result_outcome res))))"
  by (rule store_result_ends [OF assms])

theorem result_with_cancel_precedence_witness:
  "\<exists>r'. find_task (snd (store_result_with_cancel_precedence ex_digest tick (\<lambda>_ t. t) ''a1'' ex_result None None ex_running)) ''a1''
      = Some r' \<and> is_terminal_row r'"
proof -
  let ?r = "hd (tasks ex_running)"
  have row: "find_task ex_running ''a1'' = Some ?r" "phase_in active_phases ?r" "result_of ex_running ''a1'' = None"
    by code_simp+
  have res: "validate_result ex_result = Inr ()" by code_simp
  have clear: "\<not> has_request ex_running ''a1''" "\<not> has_message ex_running ''a1''" by code_simp+
  have "\<exists>d. ex_digest x = Inr d" for x by (simp add: ex_digest_def)
  from result_with_cancel_precedence [where digest = ex_digest and clock = tick and why = None and message = None,
      OF ex_reachable(4) row res this] clear
  show ?thesis by auto
qed

section \<open>Emission\<close>

lemma insert_retry_returns:
  "k \<le> n \<Longrightarrow> late n \<or> \<not> accepting n \<Longrightarrow> \<exists>x. insert_retry attempt meanwhile accepting late k s = Some x"
proof (induction "n - k" arbitrary: k s)
  case 0
  then show ?case
    by (subst insert_retry.simps) (auto simp: Let_def split: sum.split StoreError.split)
next
  case (Suc d)
  have "\<exists>x. insert_retry attempt meanwhile accepting late (k + 1) s' = Some x" for s'
    using Suc by (intro Suc.hyps(1)) auto
  then show ?case
    by (subst insert_retry.simps) (auto simp: Let_def split: sum.split StoreError.split)
qed

lemma latch_transport_keeps:
  "last_source_sequence (latch_transport event st) = last_source_sequence st"
  "transport_failure st = Some f \<Longrightarrow> transport_failure (latch_transport event st) = Some f"
  by (auto simp: latch_transport_def split: RuntimeEvent.split Inbound.split)

lemma append_event_keeps:
  "append_event codec clock k rc pending s = (k', s') \<Longrightarrow>
     last_source_sequence (sink_state k') = last_source_sequence (sink_state k)
     \<and> transport_failure (sink_state k') = transport_failure (sink_state k)"
  by (auto simp: append_event_def split: prod.splits sum.splits)

text \<open>
  C34. An emission returns, whatever other threads do to the store in between, as soon as the deadline
  of a pending request's insertion passes or the lifecycle closes. The source sequence the sink has
  seen never goes back, and a transport failure, once latched, stays the one latched. An event that
  arrives after the lifecycle has closed, or after the sink has failed, changes neither the sink nor
  the store.
\<close>

theorem emission_returns:
  assumes "past_deadline env n \<or> \<not> admitting env n"
  shows "\<exists>k' l' s'. emit codec clock env rc k lifecycle s = Some (k', l', s')
    \<and> last_source_sequence (sink_state k) \<le> last_source_sequence (sink_state k')
    \<and> (\<forall>f. transport_failure (sink_state k) = Some f \<longrightarrow> transport_failure (sink_state k') = Some f)
    \<and> (first_error (sink_state k) \<noteq> None \<or> \<not> is_admitting lifecycle \<longrightarrow> k' = k \<and> s' = s)"
proof (cases "first_error (sink_state k) \<noteq> None \<or> \<not> is_admitting lifecycle")
  case True
  then show ?thesis by (auto simp: emit_def admit_event_def is_admitting_def)
next
  case False
  then have admitted: "admit_event lifecycle = (True, lifecycle)" "first_error (sink_state k) = None"
    by (auto simp: admit_event_def is_admitting_def)
  define st where "st = latch_transport (record_event rc)
    ((sink_state k)\<lparr>last_source_sequence := max (last_source_sequence (sink_state k)) (record_sequence rc)\<rparr>)"
  have st: "last_source_sequence (sink_state k) \<le> last_source_sequence st"
    "transport_failure (sink_state k) = Some f \<Longrightarrow> transport_failure st = Some f" for f
    by (auto simp: st_def latch_transport_keeps)
  have retry: "\<exists>ins s1. insert_retry attempt (others env) (admitting env) (past_deadline env) 0 s = Some (ins, s1)" for attempt
    using insert_retry_returns [of 0 n "past_deadline env" "admitting env" attempt "others env" s] assms by auto
  show ?thesis
  proof (cases "record_event rc")
    case (TerminalEvent t)
    with admitted False show ?thesis by (auto simp: emit_def Let_def latch_transport_keeps)
  next
    case (DriverEvent e)
    then have st_e: "latch_transport (DriverEvent e)
        ((sink_state k)\<lparr>last_source_sequence := max (last_source_sequence (sink_state k)) (record_sequence rc)\<rparr>) = st"
      by (simp add: st_def)
    show ?thesis
    proof (cases "respondable_request (record_event rc)")
      case None
      obtain k' s' where app: "append_event codec clock (k\<lparr>sink_state := st\<rparr>) rc None s = (k', s')" by fastforce
      from append_event_keeps [OF app] None DriverEvent admitted st app False show ?thesis
        by (simp add: emit_def Let_def st_e)
    next
      case (Some r)
      let ?rid = "sink_agent_id k @ '':request:'' @ to_decimal (record_sequence rc)"
      from retry obtain ins s1 where ins: "insert_retry
          (insert_pending_request clock ?rid (sink_agent_id k) (id_key codec (request_envelope_id r))
             (request_type_of (request_method r)) (json_text codec (request_params r)))
          (others env) (admitting env) (past_deadline env) 0 s = Some (ins, s1)" by blast
      obtain ok l'' where adm: "admit_event (released env lifecycle) = (ok, l'')" by fastforce
      obtain k' s' where app: "append_event codec clock (k\<lparr>sink_state := st\<rparr>) rc (Some ?rid) s1 = (k', s')" by fastforce
      from append_event_keeps [OF app] Some DriverEvent admitted st app ins adm False show ?thesis
        by (cases ins; cases ok) (simp_all add: emit_def Let_def st_e)
    qed
  qed
qed

theorem emission_returns_witness:
  "\<exists>x. emit id_codec tick \<lparr>others = (\<lambda>_ t. t), admitting = (\<lambda>_. False), past_deadline = (\<lambda>_. False), released = id\<rparr>
     \<lparr>record_sequence = 1, record_event = DriverEvent (Malformed ''x'')\<rparr> (sink_new ''a1'' ''r1'' 1)
     (runtime_lifecycle_new 1) ex_running = Some x"
  using emission_returns [of "\<lparr>others = (\<lambda>_ t. t), admitting = (\<lambda>_. False), past_deadline = (\<lambda>_. False), released = id\<rparr>" 0
      id_codec tick "\<lparr>record_sequence = 1, record_event = DriverEvent (Malformed ''x'')\<rparr>" "sink_new ''a1'' ''r1'' 1"
      "runtime_lifecycle_new 1" ex_running]
  by auto

section \<open>Natural completion\<close>

text \<open>
  A natural completion that is admitted cannot be overtaken: from then on every event the runtime
  still emits is dropped without touching the store, so no request can open in between, and storing the
  completion of an active task without a stop request ends it as completed.
\<close>

theorem natural_completion_final:
  assumes "begin_natural_completion k lifecycle s = (Ready, closed)"
    and "store_reachable s" "find_task s (sink_agent_id k) = Some r" "phase_in active_phases r"
    and "result_of s (sink_agent_id k) = None" "\<not> t_stop_requested r" "\<not> t_close_requested r"
    and "validate_result (completion_result c) = Inr ()" "completion_outcome c = CompletionOutcome.Completed"
    and "\<And>x. \<exists>d. digest x = Inr d"
  shows "(\<exists>l'. emit codec clock env rc k closed s = Some (k, l', s))
    \<and> (\<exists>s' r'. persist_general_result digest clock (\<lambda>_ t. t) (sink_agent_id k) c s = (Inr (), s')
         \<and> find_task s' (sink_agent_id k) = Some r' \<and> is_terminal_row r'
         \<and> t_outcome r' = Some (TaskOutcome_as_str TaskOutcome.Completed))"
proof -
  from assms(1) have clear: "\<not> has_request s (sink_agent_id k)" "\<not> has_message s (sink_agent_id k)"
    and closed: "lifecycle_phase closed = LifecycleTerminal"
    by (auto simp: begin_natural_completion_def completion_blockers_def has_request_def has_message_def
        split: if_splits)
  have "result_outcome (completion_result c) = TaskOutcome.Completed" using assms(9) by (simp add: completion_result_def)
  with store_result_ends [where digest = digest and clock = clock and why = "completion_reason_code c" and message = "failure_message c",
      OF assms(2-5) assms(8,10)]
    clear assms(6,7) closed show ?thesis
    by (auto simp: emit_def admit_event_def persist_general_result_def)
qed

theorem natural_completion_final_witness:
  "\<exists>l'. emit id_codec tick \<lparr>others = (\<lambda>_ t. t), admitting = (\<lambda>_. True), past_deadline = (\<lambda>_. False), released = id\<rparr>
     \<lparr>record_sequence = 9, record_event = DriverEvent example_permission\<rparr> (sink_new ''a1'' ''r1'' 1)
     ((runtime_lifecycle_new 1)\<lparr>lifecycle_phase := LifecycleTerminal\<rparr>) ex_running = Some (sink_new ''a1'' ''r1'' 1, l', ex_running)"
proof -
  let ?k = "sink_new ''a1'' ''r1'' 1" and ?r = "hd (tasks ex_running)"
  let ?c = "\<lparr>completion_outcome = CompletionOutcome.Completed, completion_reason_code = None, completion_summary = ''done'',
     residual_gaps = [], cleaned = True, failure_message = None\<rparr>"
  have a: "sink_agent_id ?k = ''a1''" by (simp add: sink_new_def)
  have "completion_blockers ex_running ''a1'' = (False, False)" by code_simp
  then have ready: "begin_natural_completion ?k (runtime_lifecycle_new 1) ex_running
      = (Ready, (runtime_lifecycle_new 1)\<lparr>lifecycle_phase := LifecycleTerminal\<rparr>)"
    by (simp add: begin_natural_completion_def sink_new_def runtime_lifecycle_new_def)
  have row: "find_task ex_running (sink_agent_id ?k) = Some ?r" "phase_in active_phases ?r"
    "result_of ex_running (sink_agent_id ?k) = None" "\<not> t_stop_requested ?r" "\<not> t_close_requested ?r"
    unfolding a by code_simp+
  have res: "validate_result (completion_result ?c) = Inr ()" by code_simp
  have "\<exists>d. ex_digest x = Inr d" for x by (simp add: ex_digest_def)
  from natural_completion_final [where digest = ex_digest, OF ready ex_reachable(4) row res _ this]
  show ?thesis by simp
qed

end
