(* ===== verification/Observation.thy ===== *)
theory Observation
  imports Runtime_Owner Diagnostics "HOL-Library.List_Lexorder" "HOL-Library.Product_Lexorder"
begin

text \<open>
  What the daemon remembers of an agent's tool calls and of its public reasoning
  (\<open>external-daemon/src/observation.rs\<close>).

  Hash maps are association lists and hash sets lists without repetition. Where the code iterates over a
  hash set, the order is an argument. The members of a JSON object of the code are sorted by their keys,
  so that equal objects have equal lists of members.
\<close>

section \<open>Data\<close>

definition VERIFIED_EVENT_TYPE :: string where
  "VERIFIED_EVENT_TYPE = ''model.streaming''"

definition MAX_IDENTITIES :: nat where
  "MAX_IDENTITIES = 65536"

definition MAX_TOOL_TYPES :: nat where
  "MAX_TOOL_TYPES = 64"

definition MAX_RECENT_CALLS :: nat where
  "MAX_RECENT_CALLS = 5"

definition MAX_REASONING_CHARS :: nat where
  "MAX_REASONING_CHARS = 200"

definition MAX_REASONING_BYTES :: nat where
  "MAX_REASONING_BYTES = 64 * 1024"

definition MAX_ID_BYTES :: nat where
  "MAX_ID_BYTES = 512"

definition MAX_ARGUMENT_BYTES :: nat where
  "MAX_ARGUMENT_BYTES = 4 * 1024"

definition MAX_ARGUMENT_PREVIEW_BYTES :: nat where
  "MAX_ARGUMENT_PREVIEW_BYTES = 2000"

record ObservedCall =
  call_seq :: nat
  observed_call_id :: string
  call_arguments :: json_object
  call_arguments_truncated :: bool
  call_redacted_fields :: nat

record ObservedTool =
  observed_tool_name :: string
  observed_call_count :: nat
  observed_calls :: "ObservedCall list"

record ReasoningSource =
  source_status :: string
  source_runtime_version :: string
  source_event_type :: string
  source_delta_pointer :: string

record ObservedReasoning =
  reasoning_shown :: string
  reasoning_shown_truncated :: bool
  reasoning_shown_source :: ReasoningSource

record ObservationCoverage =
  covers_tools :: bool
  covers_reasoning :: bool
  coverage_dropped :: nat

record ObservationSnapshot =
  observation_seq :: nat
  observation_tools :: "ObservedTool list"
  observation_reasoning :: ObservedReasoning
  observation_coverage :: ObservationCoverage

definition source_verified :: ReasoningSource where
  "source_verified = \<lparr>source_status = ''VERIFIED_RUNTIME_PUBLIC'', source_runtime_version = ''3.11.2'',
     source_event_type = VERIFIED_EVENT_TYPE, source_delta_pointer = ''/params/payload/delta''\<rparr>"

definition source_dsh :: ReasoningSource where
  "source_dsh = \<lparr>source_status = ''VERIFIED_PROTOCOL_PUBLIC'', source_runtime_version = ''acp/1'',
     source_event_type = ''agent_thought_chunk'', source_delta_pointer = ''/params/update/content/text''\<rparr>"

definition is_verified_public :: "ReasoningSource \<Rightarrow> bool" where
  "is_verified_public s \<longleftrightarrow> s = source_verified \<or> s = source_dsh"

definition observation_unavailable :: ObservationSnapshot where
  "observation_unavailable =
     \<lparr>observation_seq = 0, observation_tools = [],
      observation_reasoning = \<lparr>reasoning_shown = [], reasoning_shown_truncated = False,
        reasoning_shown_source = source_verified\<rparr>,
      observation_coverage = \<lparr>covers_tools = False, covers_reasoning = False, coverage_dropped = 0\<rparr>\<rparr>"

record ToolDescriptor =
  descriptor_turn_id :: string
  descriptor_call_id :: string
  descriptor_tool_name :: string
  descriptor_source :: string
  descriptor_input :: "json option"
  descriptor_detail :: "string option"

record ToolGroup =
  group_count :: nat
  group_latest_seq :: nat
  group_recent :: "ObservedCall list"

record ObservationState =
  launch_scope :: nat
  collect_reasoning :: bool
  reasoning_source :: ReasoningSource
  snapshot_seq :: nat
  next_call_seq :: nat
  seen_source_events :: "string list"
  seen_descriptor_frames :: "string list"
  seen_calls :: "(string \<times> string \<times> nat) list"
  observed_groups :: "(string \<times> ToolGroup) list"
  reasoning_raw :: string
  reasoning_text :: string
  reasoning_truncated :: bool
  tool_history_complete :: bool
  reasoning_complete :: bool
  dropped_events :: nat

definition observation_for_launch :: "string \<Rightarrow> nat \<Rightarrow> ObservationState" where
  "observation_for_launch adapter scope =
     \<lparr>launch_scope = scope, collect_reasoning = (adapter = ''zcode'' \<or> adapter = ''dsh''),
      reasoning_source = (if adapter = ''dsh'' then source_dsh else source_verified),
      snapshot_seq = 0, next_call_seq = 0, seen_source_events = [], seen_descriptor_frames = [],
      seen_calls = [], observed_groups = [], reasoning_raw = [], reasoning_text = [], reasoning_truncated = False,
      tool_history_complete = (adapter = ''zcode''),
      reasoning_complete = (adapter = ''zcode'' \<or> adapter = ''dsh''), dropped_events = 0\<rparr>"

section \<open>Helpers\<close>

definition put_entry :: "string \<Rightarrow> 'a \<Rightarrow> (string \<times> 'a) list \<Rightarrow> (string \<times> 'a) list" where
  "put_entry k v m = (k, v) # remove_key k m"

fun update_first :: "('a \<Rightarrow> bool) \<Rightarrow> ('a \<Rightarrow> 'a) \<Rightarrow> 'a list \<Rightarrow> 'a list" where
  "update_first p f [] = []"
| "update_first p f (x # xs) = (if p x then f x # xs else x # update_first p f xs)"

text \<open>\<open>while !s.is_char_boundary(i) { i -= 1 }\<close>.\<close>

primrec prev_char_boundary :: "string \<Rightarrow> nat \<Rightarrow> nat" where
  "prev_char_boundary s 0 = 0"
| "prev_char_boundary s (Suc i) = (if is_char_boundary s (Suc i) then Suc i else prev_char_boundary s i)"

definition launch_key :: "nat \<Rightarrow> string \<Rightarrow> string" where
  "launch_key scope source = to_decimal scope @ [CHR 0x00] @ source"

definition valid_text :: "string \<Rightarrow> bool" where
  "valid_text v \<longleftrightarrow> v \<noteq> [] \<and> length v \<le> MAX_ID_BYTES \<and> CHR 0x00 \<notin> set v"

definition valid_id :: "json option \<Rightarrow> string option" where
  "valid_id v = Option.bind (Option.bind v as_str) (\<lambda>s. if valid_text s then Some s else None)"

definition reasoning_tail :: "string \<Rightarrow> string" where
  "reasoning_tail v = concat (rev (take MAX_REASONING_CHARS (rev (chars v))))"

fun exclude_protocol_fields :: "json \<Rightarrow> nat \<Rightarrow> json \<times> nat"
  and exclude_members :: "json_object \<Rightarrow> nat \<Rightarrow> json_object \<times> nat"
  and exclude_values :: "json list \<Rightarrow> nat \<Rightarrow> json list \<times> nat" where
  "exclude_protocol_fields (JObject ms) n = (case exclude_members ms n of (ms', n') \<Rightarrow> (JObject ms', n'))"
| "exclude_protocol_fields (JArray vs) n = (case exclude_values vs n of (vs', n') \<Rightarrow> (JArray vs', n'))"
| "exclude_protocol_fields v n = (v, n)"
| "exclude_members [] n = ([], n)"
| "exclude_members ((k, v) # ms) n =
     (if k = ''encrypted_content'' then exclude_members ms (saturating_add_u64 n 1)
      else (case exclude_protocol_fields v n of
              (v', n1) \<Rightarrow> (case exclude_members ms n1 of (ms', n2) \<Rightarrow> ((k, v') # ms', n2))))"
| "exclude_values [] n = ([], n)"
| "exclude_values (v # vs) n =
     (case exclude_protocol_fields v n of
        (v', n1) \<Rightarrow> (case exclude_values vs n1 of (vs', n2) \<Rightarrow> (v' # vs', n2)))"

definition project_arguments :: "json_codec \<Rightarrow> json option \<Rightarrow> json_object \<times> bool \<times> nat" where
  "project_arguments codec input =
     (let (arguments, excluded) =
        (case input of Some (JObject ms) \<Rightarrow> exclude_members ms 0 | _ \<Rightarrow> ([], 0));
          serialized = json_text codec (JObject arguments) in
      if length serialized \<le> MAX_ARGUMENT_BYTES then (arguments, False, excluded)
      else
        (let preview_end = prev_char_boundary serialized (min (length serialized) MAX_ARGUMENT_PREVIEW_BYTES);
             projected = [(''_truncated_preview'', JString (take preview_end serialized))] in
         (if MAX_ARGUMENT_BYTES < length (json_text codec (JObject projected)) then [] else projected,
          True, excluded)))"

fun is_object :: "json option \<Rightarrow> bool" where
  "is_object (Some (JObject _)) = True"
| "is_object _ = False"

section \<open>Operations\<close>

definition bump_snapshot :: "ObservationState \<Rightarrow> ObservationState" where
  "bump_snapshot st = st\<lparr>snapshot_seq := saturating_add_u64 (snapshot_seq st) 1\<rparr>"

definition count_dropped :: "ObservationState \<Rightarrow> ObservationState" where
  "count_dropped st = st\<lparr>dropped_events := saturating_add_u64 (dropped_events st) 1\<rparr>"

definition drop_event :: "bool \<Rightarrow> ObservationState \<Rightarrow> ObservationState" where
  "drop_event tool st =
     bump_snapshot (count_dropped
       (if tool then st\<lparr>tool_history_complete := False\<rparr> else st\<lparr>reasoning_complete := False\<rparr>))"

definition lose_both :: "ObservationState \<Rightarrow> ObservationState" where
  "lose_both st = count_dropped (st\<lparr>tool_history_complete := False, reasoning_complete := False\<rparr>)"

definition observe_loss :: "ObservationState \<Rightarrow> ObservationState" where
  "observe_loss st = bump_snapshot (lose_both st)"

definition observe_reasoning :: "string \<Rightarrow> ObservationState \<Rightarrow> ObservationState" where
  "observe_reasoning delta st =
     (if delta = [] then st
      else
        (let combined = reasoning_raw st @ delta;
             st1 =
               (if MAX_REASONING_BYTES < length combined
                then count_dropped (st\<lparr>
                       reasoning_raw := drop (next_char_boundary combined (length combined - MAX_REASONING_BYTES)) combined,
                       reasoning_truncated := True, reasoning_complete := False\<rparr>)
                else st\<lparr>reasoning_raw := combined\<rparr>) in
         st1\<lparr>reasoning_text := reasoning_tail (reasoning_raw st1),
             reasoning_truncated := (reasoning_truncated st1
               \<or> MAX_REASONING_CHARS < length (chars (reasoning_raw st1)))\<rparr>))"

definition call_identity :: "string \<Rightarrow> string \<Rightarrow> string" where
  "call_identity turn call = turn @ [CHR 0x00] @ call"

text \<open>A call that is known already: better arguments replace worse ones.\<close>

definition refine_call :: "string \<Rightarrow> nat \<Rightarrow> json_object \<Rightarrow> bool \<Rightarrow> nat \<Rightarrow> ObservationState \<Rightarrow> ObservationState" where
  "refine_call name seq arguments truncated nred st =
     (case map_of (observed_groups st) name of
        None \<Rightarrow> st
      | Some g \<Rightarrow>
          (case find (\<lambda>c. call_seq c = seq) (group_recent g) of
             None \<Rightarrow> st
           | Some call \<Rightarrow>
               if (arguments = [] \<and> truncated \<and> call_arguments call \<noteq> [])
                  \<or> (call_arguments call = arguments \<and> call_arguments_truncated call = truncated
                     \<and> call_redacted_fields call = nred)
               then st
               else bump_snapshot (st\<lparr>observed_groups := put_entry name
                 (g\<lparr>group_recent := update_first (\<lambda>c. call_seq c = seq)
                      (\<lambda>c. c\<lparr>call_arguments := arguments, call_arguments_truncated := truncated,
                             call_redacted_fields := nred\<rparr>) (group_recent g)\<rparr>) (observed_groups st)\<rparr>)))"

definition record_tool_call ::
    "string \<Rightarrow> string \<Rightarrow> string \<Rightarrow> json_object \<Rightarrow> bool \<Rightarrow> nat \<Rightarrow> ObservationState \<Rightarrow> ObservationState" where
  "record_tool_call turn call name arguments truncated nred st =
     (let identity = call_identity turn call in
      case map_of (seen_calls st) identity of
        Some (original, seq) \<Rightarrow> refine_call original seq arguments truncated nred st
      | None \<Rightarrow>
          if MAX_IDENTITIES \<le> length (seen_calls st) then drop_event True st
          else if map_of (observed_groups st) name = None \<and> MAX_TOOL_TYPES \<le> length (observed_groups st)
          then drop_event True st
          else
            (let seq = saturating_add_u64 (next_call_seq st) 1;
                 g = (case map_of (observed_groups st) name of
                        Some g \<Rightarrow> g
                      | None \<Rightarrow> \<lparr>group_count = 0, group_latest_seq = 0, group_recent = []\<rparr>);
                 c = \<lparr>call_seq = seq, observed_call_id = call, call_arguments = arguments,
                      call_arguments_truncated = truncated, call_redacted_fields = nred\<rparr>;
                 g' = g\<lparr>group_count := saturating_add_u64 (group_count g) 1, group_latest_seq := seq,
                        group_recent := take MAX_RECENT_CALLS (c # group_recent g)\<rparr> in
             bump_snapshot (st\<lparr>next_call_seq := seq, seen_calls := put_entry identity (name, seq) (seen_calls st),
               observed_groups := put_entry name g' (observed_groups st)\<rparr>)))"

definition observe_tool :: "json_codec \<Rightarrow> json \<Rightarrow> json \<Rightarrow> ObservationState \<Rightarrow> ObservationState" where
  "observe_tool codec params payload st =
     (case (valid_id (json_get payload ''toolCallId''), valid_id (json_get payload ''toolName'')) of
        (Some call, Some name) \<Rightarrow>
          (let turn = (case valid_id (json_get params ''turnId'') of None \<Rightarrow> [] | Some t \<Rightarrow> t);
               (arguments, truncated, nred) = project_arguments codec (json_get payload ''input'') in
           record_tool_call turn call name arguments
             (truncated \<or> reasoning_source st = source_dsh \<and> \<not> is_object (json_get payload ''input'')) nred st)
      | _ \<Rightarrow> drop_event True st)"

definition observe_message :: "json_codec \<Rightarrow> string \<Rightarrow> json \<Rightarrow> ObservationState \<Rightarrow> ObservationState" where
  "observe_message codec method params st =
     (if method \<noteq> ''session/event'' \<or> get_str params ''type'' \<noteq> Some VERIFIED_EVENT_TYPE then st
      else
        (let payload = (case json_get params ''payload'' of None \<Rightarrow> JNull | Some p \<Rightarrow> p);
             kind = get_str payload ''kind'' in
         if kind \<noteq> Some ''reasoning_delta'' \<and> kind \<noteq> Some ''tool_call'' then st
         else if kind = Some ''reasoning_delta'' \<and> \<not> collect_reasoning st then st
         else
           (case valid_id (json_get params ''eventId'') of
              None \<Rightarrow> drop_event (kind = Some ''tool_call'') st
            | Some event \<Rightarrow>
                (let key = launch_key (launch_scope st) event in
                 if key \<in> set (seen_source_events st) then st
                 else if MAX_IDENTITIES \<le> length (seen_source_events st) then drop_event (kind = Some ''tool_call'') st
                 else
                   (let st1 = st\<lparr>seen_source_events := key # seen_source_events st\<rparr> in
                    if kind = Some ''tool_call'' then observe_tool codec params payload st1
                    else
                      (case get_str payload ''delta'' of
                         None \<Rightarrow> bump_snapshot (count_dropped (st1\<lparr>reasoning_complete := False\<rparr>))
                       | Some delta \<Rightarrow> bump_snapshot (observe_reasoning delta st1)))))))"

definition descriptor_arguments :: "json_codec \<Rightarrow> ToolDescriptor \<Rightarrow> json_object \<times> bool \<times> nat" where
  "descriptor_arguments codec d =
     (case descriptor_input d of
        Some input \<Rightarrow>
          (case project_arguments codec (Some input) of
             (arguments, truncated, nred) \<Rightarrow> (arguments, truncated \<or> \<not> is_object (Some input), nred))
      | None \<Rightarrow>
          project_arguments codec (Some (JObject [(''detail'', JString
            (case descriptor_detail d of None \<Rightarrow> [] | Some t \<Rightarrow> t))])))"

definition observe_descriptor :: "json_codec \<Rightarrow> ToolDescriptor \<Rightarrow> ObservationState \<Rightarrow> ObservationState" where
  "observe_descriptor codec d st =
     (if \<not> valid_text (descriptor_call_id d) \<or> \<not> valid_text (descriptor_tool_name d)
         \<or> descriptor_source d = [] \<or> CHR 0x00 \<in> set (descriptor_source d)
      then drop_event True st
      else
        (let key = launch_key (launch_scope st) (descriptor_source d) in
         if key \<in> set (seen_descriptor_frames st) then st
         else if MAX_IDENTITIES \<le> length (seen_descriptor_frames st) then drop_event True st
         else
           (case descriptor_arguments codec d of
              (arguments, truncated, nred) \<Rightarrow>
                record_tool_call (descriptor_turn_id d) (descriptor_call_id d) (descriptor_tool_name d)
                  arguments truncated nred (st\<lparr>seen_descriptor_frames := key # seen_descriptor_frames st\<rparr>))))"

section \<open>Inheritance\<close>

definition recorded_detail :: "ObservationState \<Rightarrow> string \<Rightarrow> nat \<Rightarrow> json_object \<times> bool \<times> nat" where
  "recorded_detail newer name seq =
     (case Option.bind (map_of (observed_groups newer) name) (\<lambda>g. find (\<lambda>c. call_seq c = seq) (group_recent g)) of
        Some call \<Rightarrow> (call_arguments call, call_arguments_truncated call, call_redacted_fields call)
      | None \<Rightarrow> ([], True, 0))"

definition replay_call :: "ObservationState \<Rightarrow> string \<times> string \<times> nat \<Rightarrow> ObservationState \<Rightarrow> ObservationState" where
  "replay_call newer entry st =
     (case entry of (identity, name, seq) \<Rightarrow>
        if map_of (seen_calls st) identity \<noteq> None then st
        else
          (case (case split_once (CHR 0x00) identity of Some tc \<Rightarrow> tc | None \<Rightarrow> ([], identity)) of
             (turn, call) \<Rightarrow>
               (case recorded_detail newer name seq of
                  (arguments, truncated, nred) \<Rightarrow>
                    record_tool_call turn call name arguments truncated nred st)))"

text \<open>The keys that fit; whether some did not.\<close>

fun absorb_keys :: "string list \<Rightarrow> string list \<Rightarrow> string list \<times> bool" where
  "absorb_keys seen [] = (seen, False)"
| "absorb_keys seen (k # ks) =
     (if MAX_IDENTITIES \<le> length seen then (seen, True)
      else absorb_keys (if k \<in> set seen then seen else k # seen) ks)"

definition absorb_events :: "string list \<Rightarrow> ObservationState \<Rightarrow> ObservationState" where
  "absorb_events ks st =
     (case absorb_keys (seen_source_events st) ks of
        (seen, full) \<Rightarrow>
          (let st1 = st\<lparr>seen_source_events := seen\<rparr> in if full then lose_both st1 else st1))"

definition absorb_frames :: "string list \<Rightarrow> ObservationState \<Rightarrow> ObservationState" where
  "absorb_frames ks st =
     (case absorb_keys (seen_descriptor_frames st) ks of
        (seen, full) \<Rightarrow>
          (let st1 = st\<lparr>seen_descriptor_frames := seen\<rparr> in if full then lose_both st1 else st1))"

text \<open>\<open>order\<close>: the order in which a hash set is iterated.\<close>

definition merge_newer ::
    "(string list \<Rightarrow> string list) \<Rightarrow> ObservationState \<Rightarrow> ObservationState \<Rightarrow> ObservationState" where
  "merge_newer order newer st =
     (let st1 = st\<lparr>launch_scope := launch_scope newer\<rparr>;
          st2 = (if reasoning_raw newer \<noteq> [] then observe_reasoning (reasoning_raw newer) st1 else st1);
          st3 = st2\<lparr>reasoning_truncated := (reasoning_truncated st2 \<or> reasoning_truncated newer),
                    reasoning_complete := (reasoning_complete st2 \<and> reasoning_complete newer),
                    tool_history_complete := (tool_history_complete st2 \<and> tool_history_complete newer),
                    dropped_events := saturating_add_u64 (dropped_events st2) (dropped_events newer)\<rparr>;
          st4 = fold (replay_call newer) (sort_key (\<lambda>(_, _, seq). seq) (seen_calls newer)) st3;
          st5 = absorb_frames (order (seen_descriptor_frames newer))
                  (absorb_events (order (seen_source_events newer)) st4) in
      st5\<lparr>snapshot_seq := saturating_add_u64 (snapshot_seq st5) (snapshot_seq newer)\<rparr>)"

section \<open>The snapshot\<close>

definition group_rank :: "string \<times> ToolGroup \<Rightarrow> int \<times> int \<times> nat list" where
  "group_rank e = (- int (group_count (snd e)), - int (group_latest_seq (snd e)), map nat_of_char (fst e))"

definition observation_snapshot :: "ObservationState \<Rightarrow> ObservationSnapshot" where
  "observation_snapshot st =
     \<lparr>observation_seq = snapshot_seq st,
      observation_tools = map (\<lambda>(name, g). \<lparr>observed_tool_name = name, observed_call_count = group_count g,
          observed_calls = group_recent g\<rparr>) (take 3 (sort_key group_rank (observed_groups st))),
      observation_reasoning = \<lparr>reasoning_shown = reasoning_text st, reasoning_shown_truncated = reasoning_truncated st,
        reasoning_shown_source = reasoning_source st\<rparr>,
      observation_coverage = \<lparr>covers_tools = tool_history_complete st, covers_reasoning = reasoning_complete st,
        coverage_dropped = dropped_events st\<rparr>\<rparr>"

text \<open>\<open>verified\<close>: whether the file of the runtime has the pinned path and digest.\<close>

definition adapter_runtime_source_verified :: "string \<Rightarrow> bool \<Rightarrow> bool" where
  "adapter_runtime_source_verified adapter verified =
     (if adapter = ''zcode'' then verified else adapter = ''dsh'')"

end
