(* ===== verification/Activity_Parser.thy ===== *)
theory Activity_Parser
  imports Observation
begin

text \<open>
  The two vocabularies of tool activity: the events their producers build
  (\<open>external-contract/src/activity.rs\<close>) and the parser that accepts or refuses them
  (\<open>external-daemon/src/activity_parser.rs\<close>).
\<close>

section \<open>The events of the producers\<close>

definition MAX_TOOL_COUNT :: nat where
  "MAX_TOOL_COUNT = 1024"

definition tool_updated :: "string \<Rightarrow> string \<Rightarrow> json_object \<Rightarrow> json" where
  "tool_updated event turn payload =
     JObject [(''eventId'', JString event), (''payload'', JObject payload), (''turnId'', JString turn),
              (''type'', JString ''tool.updated'')]"

definition tool_count_event :: "string \<Rightarrow> string \<Rightarrow> nat \<Rightarrow> string option \<Rightarrow> string option \<Rightarrow> json" where
  "tool_count_event event turn count tool detail =
     tool_updated event turn (member_opt (member_opt
       [(''count'', JNumber (PosInt count)), (''kind'', JString ''count'')]
       ''tool'' (map_option JString tool)) ''detail'' (map_option JString detail))"

definition tool_started_event :: "string \<Rightarrow> string \<Rightarrow> string \<Rightarrow> string option \<Rightarrow> json" where
  "tool_started_event event turn call name =
     tool_updated event turn (member_opt
       [(''kind'', JString ''started''), (''toolCallId'', JString call)] ''toolName'' (map_option JString name))"

definition tool_result_event :: "string \<Rightarrow> string \<Rightarrow> string \<Rightarrow> json" where
  "tool_result_event event turn call =
     tool_updated event turn [(''kind'', JString ''result''), (''toolCallId'', JString call)]"

section \<open>Parsed activity\<close>

definition MAX_ACTIVITY_ID_BYTES :: nat where
  "MAX_ACTIVITY_ID_BYTES = 512"

datatype PassiveToolKind = ReadTool | BashTool | OtherTool

datatype ToolActivityMode = Detailed | CountOnly | Mixed

datatype ActivitySource = SessionSource | TelemetrySource | RuntimeSource

datatype ActivitySampleKind =
    ReasoningDelta
  | TextDelta
  | SampleToolStarted PassiveToolKind nat
  | SampleToolCompleted
  | SampleToolFailed

record ActivitySample =
  sample_source :: ActivitySource
  sample_observed_at :: nat
  sample_kind :: ActivitySampleKind

datatype ActivityTransition =
    ModelStarted
  | ModelCompleted
  | ToolScheduled
  | ToolStarted
  | ToolCompleted
  | ToolFailed
  | PermissionRequested
  | PermissionResolved
  | TurnStartedActivity
  | TurnCompletedActivity
  | TurnFailedActivity

record ParsedActivity =
  parsed_source :: ActivitySource
  parsed_identity :: "string option"
  parsed_stream_key :: "string option"
  parsed_sample :: "ActivitySampleKind option"
  parsed_text_delta :: "string option"
  parsed_transition :: "ActivityTransition option"
  parsed_request_id :: "string option"
  parsed_tool_call_id :: "string option"
  parsed_tool_kind :: PassiveToolKind
  telemetry_known :: bool
  parsed_assistant_message :: "string option"
  message_finished :: bool
  terminal_response :: "string option"
  tool_descriptor :: "ToolDescriptor option"

definition parsed_runtime :: ParsedActivity where
  "parsed_runtime =
     \<lparr>parsed_source = RuntimeSource, parsed_identity = None, parsed_stream_key = None, parsed_sample = None,
      parsed_text_delta = None, parsed_transition = None, parsed_request_id = None, parsed_tool_call_id = None,
      parsed_tool_kind = OtherTool, telemetry_known = True, parsed_assistant_message = None,
      message_finished = False, terminal_response = None, tool_descriptor = None\<rparr>"

section \<open>Helpers\<close>

definition activity_id :: "json option \<Rightarrow> string option" where
  "activity_id v = Option.bind (Option.bind v as_str) (\<lambda>s.
     if s \<noteq> [] \<and> length s \<le> MAX_ACTIVITY_ID_BYTES \<and> CHR 0x00 \<notin> set s then Some s else None)"

definition classify_passive_tool :: "json option \<Rightarrow> PassiveToolKind" where
  "classify_passive_tool v =
     (let name = Option.bind v as_str in
      if name = Some ''Read'' \<or> name = Some ''read'' then ReadTool
      else if name = Some ''Bash'' \<or> name = Some ''bash'' then BashTool else OtherTool)"

definition stream_key :: "json \<Rightarrow> json \<Rightarrow> string \<Rightarrow> string option" where
  "stream_key params payload channel =
     (case (activity_id (json_get params ''turnId''), activity_id (json_get payload ''assistantMessageId'')) of
        (Some turn, Some message) \<Rightarrow> Some (turn @ '':'' @ message @ '':'' @ channel)
      | (None, Some message) \<Rightarrow> Some (message @ '':'' @ channel)
      | _ \<Rightarrow> None)"

definition count_call_id :: "string \<Rightarrow> string" where
  "count_call_id event =
     (let i = ''count:'' @ event in if length i \<le> MAX_ACTIVITY_ID_BYTES then i else event)"

text \<open>The name cut at 64 characters, the argument at 512 bytes.\<close>

definition bounded_tool_call :: "string \<Rightarrow> string \<Rightarrow> string \<times> string" where
  "bounded_tool_call tool arg =
     (concat (take 64 (chars tool)), take (prev_char_boundary arg (min (length arg) 512)) arg)"

definition tagged :: "string \<Rightarrow> string \<Rightarrow> string \<Rightarrow> string" where
  "tagged kind i stage = kind @ '':'' @ i @ '':'' @ stage"

section \<open>The vocabularies\<close>

definition parse_model_activity :: "json \<Rightarrow> bool \<Rightarrow> ParsedActivity \<Rightarrow> ParsedActivity" where
  "parse_model_activity payload started p =
     (let request = activity_id (json_get payload ''requestId'') in
      p\<lparr>parsed_request_id := request,
        parsed_identity := map_option (\<lambda>i. tagged ''model'' i (if started then ''started'' else ''completed'')) request,
        parsed_transition := Some (if started then ModelStarted else ModelCompleted)\<rparr>)"

definition parse_permission_activity :: "json \<Rightarrow> bool \<Rightarrow> ParsedActivity \<Rightarrow> ParsedActivity" where
  "parse_permission_activity payload requested p =
     (let request = activity_id (json_get payload ''requestId'') in
      p\<lparr>parsed_request_id := request,
        parsed_tool_call_id := activity_id (json_get payload ''toolCallId''),
        parsed_tool_kind := classify_passive_tool (json_get payload ''toolName''),
        parsed_identity :=
          map_option (\<lambda>i. tagged ''permission'' i (if requested then ''requested'' else ''resolved'')) request,
        parsed_transition := Some (if requested then PermissionRequested else PermissionResolved)\<rparr>)"

text \<open>The phase of a frame, and whether the name of the phase is one of the vocabulary.\<close>

definition tool_phase :: "string \<Rightarrow> ActivityTransition option \<times> bool" where
  "tool_phase stage =
     (if stage = ''scheduled'' then (Some ToolScheduled, True)
      else if stage = ''started'' then (Some ToolStarted, True)
      else if stage = ''result'' \<or> stage = ''tool_result'' \<or> stage = ''completed'' then (Some ToolCompleted, True)
      else if stage = ''error'' \<or> stage = ''tool_error'' \<or> stage = ''failed'' then (Some ToolFailed, True)
      else if stage = ''batch'' then (None, True)
      else (None, False))"

fun phase_name :: "ActivityTransition \<Rightarrow> string option" where
  "phase_name ToolScheduled = Some ''scheduled''"
| "phase_name ToolStarted = Some ''started''"
| "phase_name ToolCompleted = Some ''completed''"
| "phase_name ToolFailed = Some ''failed''"
| "phase_name _ = None"

fun phase_sample :: "PassiveToolKind \<Rightarrow> ActivityTransition \<Rightarrow> ActivitySampleKind option" where
  "phase_sample kind ToolStarted = Some (SampleToolStarted kind 1)"
| "phase_sample kind ToolCompleted = Some SampleToolCompleted"
| "phase_sample kind ToolFailed = Some SampleToolFailed"
| "phase_sample kind _ = None"

definition parse_tool_activity :: "json \<Rightarrow> ActivitySource \<Rightarrow> ParsedActivity \<Rightarrow> ParsedActivity" where
  "parse_tool_activity payload source p =
     (let (stage, known) =
        (case get_str payload (if source = TelemetrySource then ''phase'' else ''kind'') of
           None \<Rightarrow> (None, True) | Some name \<Rightarrow> tool_phase name);
          call = activity_id (json_get payload ''toolCallId'');
          kind = classify_passive_tool (json_get payload ''toolName'');
          p1 = p\<lparr>telemetry_known := (if known \<or> source \<noteq> TelemetrySource then telemetry_known p else False),
                 parsed_tool_call_id := call, parsed_tool_kind := kind, parsed_transition := stage\<rparr> in
      case (call, stage) of
        (Some i, Some ph) \<Rightarrow>
          (case phase_name ph of
             None \<Rightarrow> p1
           | Some name \<Rightarrow> p1\<lparr>parsed_identity := Some (tagged ''tool'' i name), parsed_sample := phase_sample kind ph\<rparr>)
      | _ \<Rightarrow> p1)"

definition parse_tool_count_activity ::
    "json \<Rightarrow> string option \<Rightarrow> string option \<Rightarrow> ParsedActivity \<Rightarrow> ParsedActivity" where
  "parse_tool_count_activity payload event turn p =
     (case Option.bind (json_get payload ''count'') as_u64 of
        None \<Rightarrow> p
      | Some count \<Rightarrow>
          if \<not> (1 \<le> count \<and> count \<le> MAX_TOOL_COUNT) then p
          else
            (case event of
               None \<Rightarrow> p
             | Some i \<Rightarrow>
                 (let identity = tagged ''tool'' i ''count'';
                      in_turn = (case turn of None \<Rightarrow> [] | Some t \<Rightarrow> t);
                      p1 = p\<lparr>parsed_identity := Some identity\<rparr>;
                      p2 = (case get_str payload ''tool'' of
                              None \<Rightarrow> p1
                            | Some tool \<Rightarrow>
                                p1\<lparr>tool_descriptor := Some
                                     \<lparr>descriptor_turn_id = in_turn, descriptor_call_id = count_call_id i,
                                      descriptor_tool_name = tool, descriptor_source = in_turn @ '':'' @ identity,
                                      descriptor_input = None,
                                      descriptor_detail = Some (case get_str payload ''detail'' of None \<Rightarrow> [] | Some d \<Rightarrow> d)\<rparr>\<rparr>) in
                  p2\<lparr>parsed_sample := Some (SampleToolStarted OtherTool count)\<rparr>)))"

definition parse_detailed_descriptor :: "json \<Rightarrow> json \<Rightarrow> ParsedActivity \<Rightarrow> ParsedActivity" where
  "parse_detailed_descriptor params payload p =
     (case (activity_id (json_get payload ''toolCallId''), get_str payload ''toolName'',
            json_get payload ''input'', parsed_identity p) of
        (Some call, Some tool, Some input, Some identity) \<Rightarrow>
          p\<lparr>tool_descriptor := Some
              \<lparr>descriptor_turn_id = (case activity_id (json_get params ''turnId'') of None \<Rightarrow> [] | Some t \<Rightarrow> t),
               descriptor_call_id = call, descriptor_tool_name = tool, descriptor_source = identity,
               descriptor_input = Some input, descriptor_detail = None\<rparr>\<rparr>
      | _ \<Rightarrow> p)"

section \<open>Messages\<close>

definition parse_turn_activity ::
    "ActivityTransition \<Rightarrow> string \<Rightarrow> string option \<Rightarrow> string option \<Rightarrow> ParsedActivity \<Rightarrow> ParsedActivity" where
  "parse_turn_activity transition stage event turn p =
     p\<lparr>parsed_transition := Some transition,
       parsed_identity := map_option (\<lambda>i. tagged ''turn'' i stage) (case event of None \<Rightarrow> turn | Some i \<Rightarrow> Some i)\<rparr>"

definition parse_finished_message :: "json \<Rightarrow> ParsedActivity \<Rightarrow> ParsedActivity" where
  "parse_finished_message payload p =
     p\<lparr>parsed_assistant_message := activity_id (json_get payload ''assistantMessageId''), message_finished := True\<rparr>"

definition parse_session_event :: "json \<Rightarrow> ActivitySource \<Rightarrow> ToolActivityMode \<Rightarrow> ParsedActivity \<Rightarrow> ParsedActivity" where
  "parse_session_event params source mode p =
     (let kind = get_str params ''type'';
          payload = (case json_get params ''payload'' of None \<Rightarrow> JNull | Some v \<Rightarrow> v);
          payload_kind = get_str payload ''kind'';
          payload_type = get_str payload ''type'';
          event = activity_id (json_get params ''eventId'');
          turn = activity_id (json_get params ''turnId'') in
      if kind = Some ''model.streaming'' \<and> payload_kind = Some ''reasoning_delta''
      then p\<lparr>parsed_stream_key := stream_key params payload ''reasoning'',
             parsed_identity := map_option (\<lambda>i. ''stream:'' @ i) event, parsed_sample := Some ReasoningDelta\<rparr>
      else if kind = Some ''model.streaming'' \<and> payload_kind = Some ''text_delta''
      then p\<lparr>parsed_stream_key := stream_key params payload ''text'',
             parsed_identity := map_option (\<lambda>i. ''stream:'' @ i) event, parsed_sample := Some TextDelta,
             parsed_text_delta := get_str payload ''delta'',
             parsed_assistant_message := activity_id (json_get payload ''assistantMessageId'')\<rparr>
      else if kind = Some ''model.streaming''
              \<and> payload_kind \<in> {Some ''message_finished'', Some ''message_done'', Some ''text_done''}
      then parse_finished_message payload p
      else if kind \<in> {Some ''message.completed'', Some ''message.finished'', Some ''message.done'', Some ''text.done''}
      then parse_finished_message payload p
      else if kind = Some ''tool.updated'' \<or> kind = Some ''streamRecovery.updated''
      then (if payload_kind = Some ''count''
            then (if mode \<noteq> Detailed then parse_tool_count_activity payload event turn p else p)
            else if mode \<noteq> CountOnly
            then (let p1 = parse_tool_activity payload source p in
                  if payload_kind = Some ''started'' then parse_detailed_descriptor params payload p1 else p1)
            else p)
      else if kind = Some ''session.updated'' \<and> payload_type = Some ''model_request_started''
      then parse_model_activity payload True p
      else if kind = Some ''session.updated'' \<and> payload_type = Some ''model_request_completed''
      then parse_model_activity payload False p
      else if kind = Some ''permission.requested'' then parse_permission_activity payload True p
      else if kind = Some ''permission.resolved'' then parse_permission_activity payload False p
      else if kind = Some ''turn.started'' then parse_turn_activity TurnStartedActivity ''started'' event turn p
      else if kind = Some ''turn.completed''
      then parse_turn_activity TurnCompletedActivity ''completed'' event turn
             (p\<lparr>terminal_response := get_str payload ''response''\<rparr>)
      else if kind = Some ''turn.failed'' then parse_turn_activity TurnFailedActivity ''failed'' event turn p
      else p)"

definition parse_telemetry_event :: "json \<Rightarrow> ActivitySource \<Rightarrow> ToolActivityMode \<Rightarrow> ParsedActivity \<Rightarrow> ParsedActivity" where
  "parse_telemetry_event params source mode p0 =
     (let p = p0\<lparr>telemetry_known := True\<rparr>; kind = get_str params ''kind'' in
      if kind = Some ''stream.chunk''
      then (let channel = get_str params ''channel'' in
            if channel \<noteq> Some ''thought'' \<and> channel \<noteq> Some ''text'' then p\<lparr>telemetry_known := False\<rparr>
            else p\<lparr>parsed_stream_key :=
                     stream_key params params (if channel = Some ''thought'' then ''reasoning'' else ''text''),
                   parsed_identity := map_option (\<lambda>i. ''stream:'' @ i) (activity_id (json_get params ''eventId'')),
                   parsed_sample := Some (if channel = Some ''thought'' then ReasoningDelta else TextDelta)\<rparr>)
      else if kind = Some ''tool.lifecycle''
      then (if mode \<noteq> CountOnly then parse_tool_activity params source p else p)
      else if kind = Some ''model.request.status''
      then (let status = get_str params ''status'' in
            if status = Some ''model_request_started'' \<or> status = Some ''model_request_completed''
            then parse_model_activity params (status = Some ''model_request_started'') p
            else p\<lparr>telemetry_known := False\<rparr>)
      else if kind = Some ''permission.lifecycle''
      then (let stage = get_str params ''phase'' in
            if stage = Some ''requested'' then parse_permission_activity params True p
            else if stage = Some ''resolved'' then parse_permission_activity params False p
            else p\<lparr>telemetry_known := False\<rparr>)
      else if kind = Some ''turn.started'' then p\<lparr>parsed_transition := Some TurnStartedActivity\<rparr>
      else if kind = Some ''turn.completed'' then p\<lparr>parsed_transition := Some TurnCompletedActivity\<rparr>
      else if kind = Some ''turn.failed'' then p\<lparr>parsed_transition := Some TurnFailedActivity\<rparr>
      else if kind = Some ''usage.delta'' then p
      else p\<lparr>telemetry_known := False\<rparr>)"

definition parse_activity_message ::
    "string \<Rightarrow> json \<Rightarrow> ActivitySource \<Rightarrow> ToolActivityMode \<Rightarrow> ParsedActivity" where
  "parse_activity_message method params source mode =
     (let p = parsed_runtime\<lparr>parsed_source := source, telemetry_known := (source \<noteq> TelemetrySource)\<rparr> in
      if method = ''session/event'' then parse_session_event params source mode p
      else if method = ''v4/telemetry/event'' then parse_telemetry_event params source mode p
      else p)"

definition raw_params :: "json \<Rightarrow> json" where
  "raw_params raw = (case json_get raw ''params'' of None \<Rightarrow> JNull | Some v \<Rightarrow> v)"

fun parse_passive_activity :: "RuntimeEvent \<Rightarrow> ToolActivityMode \<Rightarrow> ParsedActivity" where
  "parse_passive_activity (DriverEvent (Message (Event e))) mode =
     parse_activity_message (event_method e) (event_params e) SessionSource mode"
| "parse_passive_activity (DriverEvent (Message (UnknownEvent method raw))) mode =
     parse_activity_message method (raw_params raw)
       (if method = ''v4/telemetry/event'' then TelemetrySource
        else if method = ''session/event'' then SessionSource else RuntimeSource) mode"
| "parse_passive_activity (DriverEvent (Message (Request r))) mode =
     (if request_method r \<in> {INTERACTION_REQUEST_PERMISSION, INTERACTION_REQUEST_USER_INPUT,
          INTERACTION_REQUEST_UNSUPPORTED_INPUT}
      then parse_permission_activity (request_params r) True parsed_runtime
      else parsed_runtime)"
| "parse_passive_activity _ _ = parsed_runtime"

end
