(* ===== verification/Activity_Tracker.thy ===== *)
theory Activity_Tracker
  imports Activity_Parser
begin

text \<open>
  The tracker of one task's activity (\<open>external-daemon/src/activity_tracker.rs\<close>): the samples of the last
  minute, the active requests and tools, the stream of visible text that a wait delivers, and the terminal
  text of the turn. Instants are nanoseconds; the instant and the wall clock of an event are arguments of the
  operations, as in \<open>observe_at\<close>. A hash map is an association list.
\<close>

section \<open>Data\<close>

definition PASSIVE_ACTIVITY_WINDOW :: nat where
  "PASSIVE_ACTIVITY_WINDOW = 60 * 1000000000"

definition MAX_ACTIVITY_IDENTITIES :: nat where
  "MAX_ACTIVITY_IDENTITIES = 65536"

definition MAX_LATEST_TEXT_BYTES :: nat where
  "MAX_LATEST_TEXT_BYTES = 8 * 1024"

record PassiveActiveTool =
  active_tool_call_id :: string
  active_tool_kind :: PassiveToolKind

record PassiveActivityWindow =
  reasoning_delta_events :: nat
  text_delta_events :: nat
  tool_calls_started :: nat
  tool_calls_completed :: nat
  tool_calls_failed :: nat
  read_calls :: nat
  bash_calls :: nat
  other_tool_calls :: nat

record PassiveActivitySnapshot =
  snapshot_revision :: nat
  snapshot_last_event_at :: "nat option"
  last_activity_age_ms :: "nat option"
  model_request_active :: bool
  model_request_age_ms :: "nat option"
  model_last_delta_age_ms :: "nat option"
  snapshot_text_tail :: string
  snapshot_text_updated_at :: "nat option"
  snapshot_text_truncated :: bool
  snapshot_active_tools :: "PassiveActiveTool list"
  oldest_active_tool_age_ms :: "nat option"
  window_60s :: PassiveActivityWindow
  snapshot_degraded :: bool

record PassiveActivityState =
  activity_revision :: nat
  last_runtime_event_at :: "(nat \<times> nat) option"
  active_model_requests :: "(string \<times> nat) list"
  last_model_delta_at :: "nat option"
  latest_text_tail :: string
  latest_text_updated_at :: "nat option"
  latest_text_truncated :: bool
  appended_bytes :: nat
  delivered_bytes :: nat
  terminal_text :: string
  terminal_text_settled :: bool
  active_tools :: "(string \<times> PassiveToolKind \<times> nat) list"
  activity_samples :: "(string \<times> ActivitySample) list"
  sample_order :: "string list"
  telemetry_degraded :: bool
  tracker_observation :: ObservationState

record PassiveActivityTracker =
  tracker_state :: PassiveActivityState
  tracker_mode :: ToolActivityMode
  runtime_source_verified :: bool

datatype TerminalText = Visible string | Missing

record WaitTail =
  wait_text :: string
  wait_truncated :: bool

definition tracker_for_launch :: "string \<Rightarrow> bool \<Rightarrow> nat \<Rightarrow> PassiveActivityTracker" where
  "tracker_for_launch adapter verified scope =
     \<lparr>tracker_state =
        \<lparr>activity_revision = 0, last_runtime_event_at = None, active_model_requests = [],
         last_model_delta_at = None, latest_text_tail = [], latest_text_updated_at = None,
         latest_text_truncated = False, appended_bytes = 0, delivered_bytes = 0, terminal_text = [],
         terminal_text_settled = False, active_tools = [], activity_samples = [], sample_order = [],
         telemetry_degraded = False, tracker_observation = observation_for_launch adapter scope\<rparr>,
      tracker_mode =
        (if adapter = ''codex'' then CountOnly
         else if adapter = ''zcode'' \<or> adapter = ''dsh'' \<or> adapter = ''agy'' then Detailed else Mixed),
      runtime_source_verified = verified\<rparr>"

definition for_adapter :: "string \<Rightarrow> bool \<Rightarrow> PassiveActivityTracker" where
  "for_adapter adapter verified = tracker_for_launch adapter verified 0"

section \<open>Observing an event\<close>

text \<open>The window is cut at its head, on a character boundary.\<close>

definition trim_window :: "string \<Rightarrow> string" where
  "trim_window s =
     (if MAX_LATEST_TEXT_BYTES < length s
      then drop (next_char_boundary s (length s - MAX_LATEST_TEXT_BYTES)) s else s)"

definition append_latest_text :: "string \<Rightarrow> nat \<Rightarrow> PassiveActivityState \<Rightarrow> PassiveActivityState" where
  "append_latest_text delta wall st =
     (let joined = latest_text_tail st @ delta in
      st\<lparr>terminal_text := (if terminal_text_settled st then terminal_text st else terminal_text st @ delta),
         appended_bytes := saturating_add_u64 (appended_bytes st) (length delta),
         latest_text_tail := trim_window joined,
         latest_text_truncated := (latest_text_truncated st \<or> MAX_LATEST_TEXT_BYTES < length joined),
         latest_text_updated_at := Some wall\<rparr>)"

fun observe_source :: "json_codec \<Rightarrow> RuntimeEvent \<Rightarrow> ObservationState \<Rightarrow> ObservationState" where
  "observe_source codec (DriverEvent (Message (Event e))) st = observe_message codec (event_method e) (event_params e) st"
| "observe_source codec (DriverEvent (Message (UnknownEvent method raw))) st = observe_message codec method (raw_params raw) st"
| "observe_source codec (DriverEvent (Malformed _)) st = observe_loss st"
| "observe_source codec (DriverEvent (OversizedLine _)) st = observe_loss st"
| "observe_source codec _ st = st"

text \<open>Whether a sample is admitted, and the samples afterwards.\<close>

definition admit_sample ::
    "ParsedActivity \<Rightarrow> nat \<Rightarrow> PassiveActivityState \<Rightarrow> bool \<times> PassiveActivityState" where
  "admit_sample p now st =
     (case (parsed_identity p, parsed_sample p) of
        (Some i, Some kind) \<Rightarrow>
          (let s = \<lparr>sample_source = parsed_source p, sample_observed_at = now, sample_kind = kind\<rparr> in
           case map_of (activity_samples st) i of
             Some existing \<Rightarrow>
               if sample_source existing = TelemetrySource \<and> parsed_source p = SessionSource
               then (True, st\<lparr>activity_samples := put_entry i s (activity_samples st)\<rparr>)
               else (False, st)
           | None \<Rightarrow>
               (True, st\<lparr>activity_samples := put_entry i s (activity_samples st),
                        sample_order := sample_order st @ [i]\<rparr>))
      | _ \<Rightarrow> (True, st))"

text \<open>The oldest identities leave.\<close>

fun evict :: "string list \<Rightarrow> (string \<times> ActivitySample) list \<Rightarrow> string list \<times> (string \<times> ActivitySample) list" where
  "evict [] samples = ([], samples)"
| "evict (i # is) samples =
     (if MAX_ACTIVITY_IDENTITIES < length (i # is) then evict is (remove_key i samples) else (i # is, samples))"

definition evict_samples :: "PassiveActivityState \<Rightarrow> PassiveActivityState" where
  "evict_samples st =
     (case evict (sample_order st) (activity_samples st) of
        (order, samples) \<Rightarrow> st\<lparr>sample_order := order, activity_samples := samples\<rparr>)"

definition absorb_admitted :: "ParsedActivity \<Rightarrow> nat \<Rightarrow> nat \<Rightarrow> PassiveActivityState \<Rightarrow> PassiveActivityState" where
  "absorb_admitted p now wall st =
     (let st1 = (if parsed_sample p = Some ReasoningDelta \<or> parsed_sample p = Some TextDelta
                 then st\<lparr>last_model_delta_at := Some now\<rparr> else st);
          st2 = (case parsed_text_delta p of None \<Rightarrow> st1 | Some delta \<Rightarrow> append_latest_text delta wall st1) in
      case terminal_response p of
        None \<Rightarrow> st2
      | Some response \<Rightarrow> st2\<lparr>terminal_text := response, terminal_text_settled := True\<rparr>)"

definition start_tool :: "ParsedActivity \<Rightarrow> nat \<Rightarrow> PassiveActivityState \<Rightarrow> PassiveActivityState" where
  "start_tool p now st =
     (case parsed_tool_call_id p of
        None \<Rightarrow> st
      | Some i \<Rightarrow>
          if map_of (active_tools st) i = None
          then st\<lparr>active_tools := (i, parsed_tool_kind p, now) # active_tools st\<rparr> else st)"

definition finish_tool :: "ParsedActivity \<Rightarrow> PassiveActivityState \<Rightarrow> PassiveActivityState" where
  "finish_tool p st =
     (case parsed_tool_call_id p of
        None \<Rightarrow> st | Some i \<Rightarrow> st\<lparr>active_tools := remove_key i (active_tools st)\<rparr>)"

fun apply_transition :: "ActivityTransition option \<Rightarrow> ParsedActivity \<Rightarrow> nat \<Rightarrow> PassiveActivityState \<Rightarrow> PassiveActivityState" where
  "apply_transition (Some ModelStarted) p now st =
     (let i = (case parsed_request_id p of None \<Rightarrow> ''model-request'' | Some i \<Rightarrow> i) in
      if map_of (active_model_requests st) i = None
      then st\<lparr>active_model_requests := (i, now) # active_model_requests st, last_model_delta_at := Some now\<rparr>
      else st)"
| "apply_transition (Some ModelCompleted) p now st =
     (case parsed_request_id p of
        Some i \<Rightarrow> st\<lparr>active_model_requests := remove_key i (active_model_requests st)\<rparr>
      | None \<Rightarrow> st\<lparr>active_model_requests := []\<rparr>)"
| "apply_transition (Some ToolScheduled) p now st = start_tool p now st"
| "apply_transition (Some ToolStarted) p now st = start_tool p now st"
| "apply_transition (Some ToolCompleted) p now st = finish_tool p st"
| "apply_transition (Some ToolFailed) p now st = finish_tool p st"
| "apply_transition (Some PermissionResolved) p now st = finish_tool p st"
| "apply_transition (Some TurnCompletedActivity) p now st = st\<lparr>active_model_requests := [], active_tools := []\<rparr>"
| "apply_transition (Some TurnFailedActivity) p now st = st\<lparr>active_model_requests := [], active_tools := []\<rparr>"
| "apply_transition (Some TurnStartedActivity) p now st = st\<lparr>terminal_text := [], terminal_text_settled := False\<rparr>"
| "apply_transition (Some PermissionRequested) p now st = st"
| "apply_transition None p now st = st"

definition observe_state ::
    "json_codec \<Rightarrow> ToolActivityMode \<Rightarrow> RuntimeEvent \<Rightarrow> nat \<Rightarrow> nat \<Rightarrow> PassiveActivityState \<Rightarrow> PassiveActivityState" where
  "observe_state codec mode e now wall st =
     (let st1 = st\<lparr>tracker_observation := observe_source codec e (tracker_observation st),
                   activity_revision := saturating_add_u64 (activity_revision st) 1,
                   last_runtime_event_at := Some (now, wall)\<rparr>;
          p = parse_passive_activity e mode;
          st2 = (if parsed_source p = TelemetrySource \<and> \<not> telemetry_known p
                 then st1\<lparr>telemetry_degraded := True\<rparr> else st1);
          (admitted, st3) = admit_sample p now st2;
          st4 = evict_samples st3;
          st5 = (if admitted then absorb_admitted p now wall st4 else st4);
          st6 = (case tool_descriptor p of
                   None \<Rightarrow> st5
                 | Some d \<Rightarrow> st5\<lparr>tracker_observation := observe_descriptor codec d (tracker_observation st5)\<rparr>) in
      apply_transition (parsed_transition p) p now st6)"

definition tracker_observe_at ::
    "json_codec \<Rightarrow> RuntimeEvent \<Rightarrow> nat \<Rightarrow> nat \<Rightarrow> PassiveActivityTracker \<Rightarrow> PassiveActivityTracker" where
  "tracker_observe_at codec e now wall t =
     t\<lparr>tracker_state := observe_state codec (tracker_mode t) e now wall (tracker_state t)\<rparr>"

section \<open>Snapshots\<close>

definition duration_millis :: "nat \<Rightarrow> nat" where
  "duration_millis d = min (d div 1000000) u64_max"

definition window_empty :: PassiveActivityWindow where
  "window_empty =
     \<lparr>reasoning_delta_events = 0, text_delta_events = 0, tool_calls_started = 0, tool_calls_completed = 0,
      tool_calls_failed = 0, read_calls = 0, bash_calls = 0, other_tool_calls = 0\<rparr>"

fun count_sample :: "ActivitySampleKind \<Rightarrow> PassiveActivityWindow \<Rightarrow> PassiveActivityWindow" where
  "count_sample ReasoningDelta w = w\<lparr>reasoning_delta_events := saturating_add_u64 (reasoning_delta_events w) 1\<rparr>"
| "count_sample TextDelta w = w\<lparr>text_delta_events := saturating_add_u64 (text_delta_events w) 1\<rparr>"
| "count_sample (SampleToolStarted kind n) w =
     (let w1 = w\<lparr>tool_calls_started := saturating_add_u64 (tool_calls_started w) n\<rparr> in
      case kind of
        ReadTool \<Rightarrow> w1\<lparr>read_calls := saturating_add_u64 (read_calls w) n\<rparr>
      | BashTool \<Rightarrow> w1\<lparr>bash_calls := saturating_add_u64 (bash_calls w) n\<rparr>
      | OtherTool \<Rightarrow> w1\<lparr>other_tool_calls := saturating_add_u64 (other_tool_calls w) n\<rparr>)"
| "count_sample SampleToolCompleted w = w\<lparr>tool_calls_completed := saturating_add_u64 (tool_calls_completed w) 1\<rparr>"
| "count_sample SampleToolFailed w = w\<lparr>tool_calls_failed := saturating_add_u64 (tool_calls_failed w) 1\<rparr>"

definition in_window :: "nat \<Rightarrow> ActivitySample \<Rightarrow> bool" where
  "in_window now s \<longleftrightarrow> now - sample_observed_at s \<le> PASSIVE_ACTIVITY_WINDOW"

definition activity_window :: "nat \<Rightarrow> (string \<times> ActivitySample) list \<Rightarrow> PassiveActivityWindow" where
  "activity_window now samples =
     fold count_sample (map sample_kind (filter (in_window now) (map snd samples))) window_empty"

fun list_min :: "nat list \<Rightarrow> nat option" where
  "list_min [] = None"
| "list_min (x # xs) = Some (fold min xs x)"

fun list_max :: "nat list \<Rightarrow> nat option" where
  "list_max [] = None"
| "list_max (x # xs) = Some (fold max xs x)"

definition snapshot_at :: "nat \<Rightarrow> PassiveActivityState \<Rightarrow> PassiveActivitySnapshot" where
  "snapshot_at now st =
     \<lparr>snapshot_revision = activity_revision st,
      snapshot_last_event_at = map_option snd (last_runtime_event_at st),
      last_activity_age_ms = map_option (\<lambda>(at, _). duration_millis (now - at)) (last_runtime_event_at st),
      model_request_active = (active_model_requests st \<noteq> []),
      model_request_age_ms =
        map_option (\<lambda>at. duration_millis (now - at)) (list_min (map snd (active_model_requests st))),
      model_last_delta_age_ms = map_option (\<lambda>at. duration_millis (now - at)) (last_model_delta_at st),
      snapshot_text_tail = latest_text_tail st,
      snapshot_text_updated_at = latest_text_updated_at st,
      snapshot_text_truncated = latest_text_truncated st,
      snapshot_active_tools =
        map (\<lambda>(i, kind, _). \<lparr>active_tool_call_id = i, active_tool_kind = kind\<rparr>)
          (sort_key (\<lambda>(i, _, _). map nat_of_char i) (active_tools st)),
      oldest_active_tool_age_ms = list_max (map (\<lambda>(_, _, at). duration_millis (now - at)) (active_tools st)),
      window_60s = activity_window now (activity_samples st),
      snapshot_degraded = telemetry_degraded st\<rparr>"

section \<open>Texts\<close>

definition take_terminal_text :: "PassiveActivityState \<Rightarrow> TerminalText \<times> PassiveActivityState" where
  "take_terminal_text st =
     (if trim (terminal_text st) = [] then Missing else Visible (terminal_text st), st\<lparr>terminal_text := []\<rparr>)"

definition wait_tail_locked :: "PassiveActivityState \<Rightarrow> WaitTail" where
  "wait_tail_locked st =
     (let window_start = appended_bytes st - length (latest_text_tail st) in
      if delivered_bytes st < window_start then \<lparr>wait_text = latest_text_tail st, wait_truncated = True\<rparr>
      else \<lparr>wait_text = drop (delivered_bytes st - window_start) (latest_text_tail st), wait_truncated = False\<rparr>)"

definition peek_wait_tail :: "PassiveActivityState \<Rightarrow> WaitTail" where
  "peek_wait_tail st = wait_tail_locked st"

definition take_wait_tail :: "PassiveActivityState \<Rightarrow> WaitTail \<times> PassiveActivityState" where
  "take_wait_tail st = (wait_tail_locked st, st\<lparr>delivered_bytes := appended_bytes st\<rparr>)"

definition later_update :: "nat option \<Rightarrow> nat option \<Rightarrow> nat option" where
  "later_update a b =
     (case (a, b) of (Some x, Some y) \<Rightarrow> Some (max x y) | (Some x, None) \<Rightarrow> Some x | (None, y) \<Rightarrow> y)"

text \<open>\<open>order\<close> is the order in which the hash sets of the newer observation are iterated.\<close>

definition inherit_wait_text ::
    "(string list \<Rightarrow> string list) \<Rightarrow> PassiveActivityState \<Rightarrow> PassiveActivityState \<Rightarrow> PassiveActivityState" where
  "inherit_wait_text order old st =
     st\<lparr>latest_text_tail := trim_window (latest_text_tail old @ latest_text_tail st),
        appended_bytes := saturating_add_u64 (appended_bytes old) (appended_bytes st),
        delivered_bytes := delivered_bytes old,
        latest_text_updated_at := later_update (latest_text_updated_at old) (latest_text_updated_at st),
        tracker_observation := merge_newer order (tracker_observation st) (tracker_observation old)\<rparr>"

definition confirm_runtime_source :: "bool \<Rightarrow> PassiveActivityTracker \<Rightarrow> PassiveActivityTracker" where
  "confirm_runtime_source still_verified t =
     (if still_verified then t else t\<lparr>runtime_source_verified := False\<rparr>)"

end
