(* ===== verification/Scheduler_State.thy ===== *)
theory Scheduler_State
  imports Lifecycle_Sink Diagnostic_Log Activity_Tracker
begin

text \<open>
  The scheduler's state and the form of its operations (\<open>external-daemon/src/scheduler/state.rs\<close>,
  \<open>types.rs\<close>, and the failure records of \<open>diagnostics.rs\<close>).

  An operation is a sequence of steps: a transaction of the store, a critical section of one of the
  scheduler's mutexes, or a call whose answer comes from outside (a runtime, the clock, the operating
  system). Before each step the other threads may do anything the \<open>world\<close> says; the \<open>k\<close>th step of a run
  finds the world's \<open>k\<close>th answers, so that a runtime may answer differently every time. The objects that
  the code shares behind an \<open>Arc\<close> (a runtime's sink, its lifecycle and its check) are cells, found by the
  agent and the epoch they belong to. An operation that does not return is \<open>None\<close>.
\<close>

section \<open>Errors and deadlines\<close>

datatype SchedulerError =
    StoreFailure StoreError
  | InvalidConfig string
  | RuntimeSpawn string string
  | LifecycleSinkError string string
  | RuntimeCommand string string
  | StartTimeout string string
  | Interrupted string
  | StartFailed string string string

fun scheduler_error_text :: "SchedulerError \<Rightarrow> string" where
  "scheduler_error_text (StoreFailure e) = store_error_text e"
| "scheduler_error_text (InvalidConfig m) = ''invalid scheduler config: '' @ m"
| "scheduler_error_text (RuntimeSpawn a m) = ''runtime spawn failed for '' @ a @ '': '' @ m"
| "scheduler_error_text (LifecycleSinkError a m) = ''lifecycle sink failed for '' @ a @ '': '' @ m"
| "scheduler_error_text (RuntimeCommand a m) = ''runtime command failed for '' @ a @ '': '' @ m"
| "scheduler_error_text (StartTimeout a m) = ''start timeout for '' @ a @ '': '' @ m"
| "scheduler_error_text (Interrupted a) = ''start interrupted for '' @ a"
| "scheduler_error_text (StartFailed a why m) = ''start failed for '' @ a @ '' ('' @ why @ ''): '' @ m"

text \<open>Durations and instants are nanoseconds; a duration has 64 bits of seconds.\<close>

record SchedulerConfig =
  per_workspace_max_agents :: nat
  stop_grace :: nat
  bootstrap_timeout :: nat
  control_timeout :: nat
  runtime_source :: "path option"

definition scheduler_config_default :: SchedulerConfig where
  "scheduler_config_default = \<lparr>per_workspace_max_agents = 1, stop_grace = 1000000000,
     bootstrap_timeout = 2000000000, control_timeout = 2000000000, runtime_source = None\<rparr>"

definition duration_max :: nat where
  "duration_max = 2 ^ 64 * 1000000000 - 1"

definition duration_checked_mul :: "nat \<Rightarrow> nat \<Rightarrow> nat option" where
  "duration_checked_mul d n = (if d * n \<le> duration_max then Some (d * n) else None)"

record ControlDeadline =
  expires_at :: nat

definition control_deadline_new :: "nat \<Rightarrow> nat \<Rightarrow> ControlDeadline" where
  "control_deadline_new now budget = \<lparr>expires_at = now + budget\<rparr>"

definition positive :: "nat option \<Rightarrow> nat option" where
  "positive d = (case d of Some n \<Rightarrow> if n = 0 then None else Some n | None \<Rightarrow> None)"

definition remaining :: "nat \<Rightarrow> ControlDeadline \<Rightarrow> nat option" where
  "remaining now d = positive (checked_duration_since (expires_at d) now)"

definition runtime_phase_deadline :: "nat \<Rightarrow> nat \<Rightarrow> nat \<Rightarrow> ControlDeadline \<Rightarrow> nat option" where
  "runtime_phase_deadline now now' grace d =
     Option.bind (remaining now d) (\<lambda>left.
       let cleanup = min (case duration_checked_mul grace 3 of None \<Rightarrow> left | Some g \<Rightarrow> g) (left div 2);
           deadline = expires_at d - cleanup in
       if now' < deadline then Some deadline else None)"

definition runtime_phase :: "nat \<Rightarrow> nat \<Rightarrow> nat \<Rightarrow> nat \<Rightarrow> ControlDeadline \<Rightarrow> nat option" where
  "runtime_phase now now' now'' grace d =
     Option.bind (runtime_phase_deadline now now' grace d) (\<lambda>deadline.
       positive (checked_duration_since deadline now''))"

definition cleanup_grace :: "nat \<Rightarrow> nat \<Rightarrow> ControlDeadline \<Rightarrow> nat" where
  "cleanup_grace now configured d =
     (case remaining now d of None \<Rightarrow> 0 | Some left \<Rightarrow> min configured (left div 3))"

section \<open>State\<close>

record runtime_cell =
  cell_sink :: StoreLifecycleSink
  cell_lifecycle :: RuntimeLifecycle
  cell_cancelled :: bool
  cell_activity :: PassiveActivityTracker

record ActiveRuntime =
  active_owner_epoch :: nat
  active_session_id :: string
  active_route :: PreparedGeneralTask
  active_task :: "TaskRecord option"

record StartingHandle =
  starting_owner_epoch :: nat
  starting_identity :: "StoredProcessIdentity option"

record SchedulerInner =
  inner_owner_id :: string
  inner_store :: store
  inner_config :: SchedulerConfig
  active :: "(string \<times> ActiveRuntime) list"
  starting :: "(string \<times> StartingHandle) list"
  failures :: "string \<rightharpoonup> string"
  failure_logger :: "DiagnosticLogger option"
  cells :: "string \<times> nat \<Rightarrow> runtime_cell"
  activities :: "(string \<times> nat) list"
  draining :: bool
  drain_cancel_running :: bool
  updater_fired :: bool
  activation_claim :: "string option"
  submission_nonce :: "64 word"
  steps_done :: nat

record world =
  w_digest :: digest
  w_codec :: json_codec
  w_prep :: preparation_codec
  w_debug :: "RuntimeTerminal \<Rightarrow> string"
  w_io_text :: "io_error \<Rightarrow> string"
  w_prepared_text :: "PreparedGeneralTask \<Rightarrow> string + string"
  w_host :: "nat \<Rightarrow> submission_host"
  w_fs :: "nat \<Rightarrow> filesystem"
  w_clock :: "nat \<Rightarrow> clock"
  w_now :: "nat \<Rightarrow> nat"
  w_others :: "nat \<Rightarrow> SchedulerInner \<Rightarrow> SchedulerInner"
  w_inside :: "nat \<Rightarrow> interference"
  w_spawn :: "nat \<Rightarrow> string + StoredProcessIdentity option"
  w_session :: "nat \<Rightarrow> TaskRecord \<Rightarrow> nat \<Rightarrow> RuntimeCommandError + SessionReady"
  w_snapshot :: "nat \<Rightarrow> TurnSnapshot"
  w_stop :: "nat \<Rightarrow> nat \<Rightarrow> RuntimeTerminal"
  w_stop_turn :: "nat \<Rightarrow> string \<Rightarrow> nat \<Rightarrow> RuntimeCommandError + TurnSnapshot"
  w_send_turn :: "nat \<Rightarrow> string \<Rightarrow> string \<Rightarrow> nat \<Rightarrow> RuntimeCommandError + string option"
  w_inject_turn :: "nat \<Rightarrow> string \<Rightarrow> string \<Rightarrow> nat \<Rightarrow> RuntimeCommandError + string option"
  w_respond :: "nat \<Rightarrow> string \<Rightarrow> string \<Rightarrow> string option \<Rightarrow> nat \<Rightarrow> RuntimeCommandError + unit"
  w_close_session :: "nat \<Rightarrow> string \<Rightarrow> nat \<Rightarrow> RuntimeCommandError + unit"
  w_diagnostic :: "nat \<Rightarrow> string option \<times> string"
  w_source_verified :: "nat \<Rightarrow> path option \<Rightarrow> bool"
  w_set_order :: "string list \<Rightarrow> string list"
  w_lock :: "nat \<Rightarrow> bool"
  w_group_stopped :: "nat \<Rightarrow> StoredProcessIdentity \<Rightarrow> string + unit"
  w_group_members :: "nat \<Rightarrow> int \<Rightarrow> nat option"
  w_wait_terminal :: "nat \<Rightarrow> nat \<Rightarrow> RuntimeTerminal option"
  w_cleanup_forced :: "nat \<Rightarrow> nat \<Rightarrow> RuntimeTerminal"
  w_finish_turn :: "nat \<Rightarrow> TurnBoundary \<Rightarrow> nat \<Rightarrow> RuntimeTerminal"
  w_interrupted :: "nat \<Rightarrow> bool"
  w_drain_thread :: "nat \<Rightarrow> string option"
  w_starter_thread :: "nat \<Rightarrow> string option"
  w_kill :: "nat \<Rightarrow> int + nat \<Rightarrow> unit"

section \<open>Operations\<close>

type_synonym 'a sched = "world \<Rightarrow> SchedulerInner \<Rightarrow> ((SchedulerError + 'a) \<times> SchedulerInner) option"

definition sched_ok :: "'a \<Rightarrow> 'a sched" where
  "sched_ok x w i = Some (Inr x, i)"

definition sched_err :: "SchedulerError \<Rightarrow> 'a sched" where
  "sched_err e w i = Some (Inl e, i)"

definition sched_bind :: "'a sched \<Rightarrow> ('a \<Rightarrow> 'b sched) \<Rightarrow> 'b sched" where
  "sched_bind m f w i =
     Option.bind (m w i) (\<lambda>(r, i'). case r of Inl e \<Rightarrow> Some (Inl e, i') | Inr x \<Rightarrow> f x w i')"

text \<open>A panic: the operation does not return.\<close>

definition sched_panic :: "'a sched" where
  "sched_panic w i = None"

text \<open>The outcome of an operation as a value, for the callers that do not propagate its error.\<close>

definition attempt :: "'a sched \<Rightarrow> (SchedulerError + 'a) sched" where
  "attempt m w i = Option.bind (m w i) (\<lambda>(r, i'). Some (Inr r, i'))"

definition others_first :: "world \<Rightarrow> SchedulerInner \<Rightarrow> SchedulerInner" where
  "others_first w i = (w_others w (steps_done i) i)\<lparr>steps_done := steps_done i + 1\<rparr>"

text \<open>What the operation computes from the world without a step of its own.\<close>

definition given :: "(world \<Rightarrow> 'a) \<Rightarrow> 'a sched" where
  "given f w i = Some (Inr (f w), i)"

text \<open>A critical section, an answer from outside, and a sequence of transactions.\<close>

definition access :: "(SchedulerInner \<Rightarrow> 'a \<times> SchedulerInner) \<Rightarrow> 'a sched" where
  "access f w i = (case f (others_first w i) of (x, i') \<Rightarrow> Some (Inr x, i'))"

definition ask :: "(world \<Rightarrow> nat \<Rightarrow> 'a) \<Rightarrow> 'a sched" where
  "ask answer w i = Some (Inr (answer w (steps_done i)), others_first w i)"

definition transact :: "(world \<Rightarrow> nat \<Rightarrow> 'a steps) \<Rightarrow> (StoreError + 'a) sched" where
  "transact m w i =
     (let i1 = others_first w i in
      case m w (steps_done i) (inner_store i1) of (r, s) \<Rightarrow> Some (Inr r, i1\<lparr>inner_store := s\<rparr>))"

definition store_call :: "(world \<Rightarrow> nat \<Rightarrow> 'a steps) \<Rightarrow> 'a sched" where
  "store_call m = sched_bind (transact m) (\<lambda>r. case r of Inl e \<Rightarrow> sched_err (StoreFailure e) | Inr x \<Rightarrow> sched_ok x)"

definition store_write :: "(clock \<Rightarrow> 'a op) \<Rightarrow> 'a sched" where
  "store_write f = store_call (\<lambda>w k. commit (f (w_clock w k)))"

definition store_read :: "(store \<Rightarrow> StoreError + 'a) \<Rightarrow> 'a sched" where
  "store_read f = store_call (\<lambda>w k. read_store f)"

definition read_task :: "string \<Rightarrow> TaskRecord option sched" where
  "read_task aid = store_read (\<lambda>s. get_task s aid)"

definition expect_task :: "string \<Rightarrow> string \<Rightarrow> TaskRecord sched" where
  "expect_task message aid =
     sched_bind (read_task aid) (\<lambda>t.
       case t of None \<Rightarrow> sched_err (StoreFailure (InvalidState message)) | Some task \<Rightarrow> sched_ok task)"

definition store_result :: "string \<Rightarrow> TaskResult \<Rightarrow> string option \<Rightarrow> string option \<Rightarrow> unit sched" where
  "store_result aid res why message =
     store_call (\<lambda>w k. commit (store_task_result_with_reason (w_digest w) (w_clock w k) aid res why message))"

definition reap :: "string \<Rightarrow> TaskOutcome sched" where
  "reap aid = store_call (\<lambda>w k. commit_reap (w_clock w k) aid)"

definition from_result :: "('e \<Rightarrow> SchedulerError) \<Rightarrow> 'e + 'a \<Rightarrow> 'a sched" where
  "from_result f r = (case r of Inl e \<Rightarrow> sched_err (f e) | Inr x \<Rightarrow> sched_ok x)"

text \<open>
  A loop: the body either goes on with a new loop state or leaves with a value. It may run forever.
\<close>

partial_function (option) sched_loop ::
    "('s \<Rightarrow> world \<Rightarrow> SchedulerInner \<Rightarrow> ((SchedulerError + ('s + 'a)) \<times> SchedulerInner) option) \<Rightarrow> 's
       \<Rightarrow> world \<Rightarrow> SchedulerInner \<Rightarrow> ((SchedulerError + 'a) \<times> SchedulerInner) option" where
  "sched_loop body st w i =
     Option.bind (body st w i) (\<lambda>(r, i').
       case r of
         Inl e \<Rightarrow> Some (Inl e, i')
       | Inr c \<Rightarrow> (case c of Inl st' \<Rightarrow> sched_loop body st' w i' | Inr x \<Rightarrow> Some (Inr x, i')))"

section \<open>Active runtimes\<close>

definition set_cell :: "string \<times> nat \<Rightarrow> (runtime_cell \<Rightarrow> runtime_cell) \<Rightarrow> SchedulerInner \<Rightarrow> SchedulerInner" where
  "set_cell key f i = i\<lparr>cells := (cells i)(key := f (cells i key))\<rparr>"

definition with_lifecycle :: "string \<times> nat \<Rightarrow> (RuntimeLifecycle \<Rightarrow> 'a \<times> RuntimeLifecycle) \<Rightarrow> 'a sched" where
  "with_lifecycle key f =
     access (\<lambda>i. case f (cell_lifecycle (cells i key)) of
                   (x, l) \<Rightarrow> (x, set_cell key (\<lambda>c. c\<lparr>cell_lifecycle := l\<rparr>) i))"

definition change_lifecycle :: "string \<times> nat \<Rightarrow> (RuntimeLifecycle \<Rightarrow> RuntimeLifecycle) \<Rightarrow> unit sched" where
  "change_lifecycle key f = with_lifecycle key (\<lambda>l. ((), f l))"

definition cancel_check :: "string \<times> nat \<Rightarrow> SchedulerInner \<Rightarrow> SchedulerInner" where
  "cancel_check key = set_cell key (\<lambda>c. c\<lparr>cell_cancelled := True\<rparr>)"

definition active_session :: "string \<Rightarrow> ActiveRuntime option sched" where
  "active_session aid = access (\<lambda>i. (map_of (active i) aid, i))"

definition active_instance :: "string \<Rightarrow> nat \<Rightarrow> SchedulerInner \<Rightarrow> ActiveRuntime option" where
  "active_instance aid epoch i =
     (case map_of (active i) aid of
        Some a \<Rightarrow> if active_owner_epoch a = epoch then Some a else None
      | None \<Rightarrow> None)"

definition active_instance_matches :: "string \<Rightarrow> nat \<Rightarrow> bool sched" where
  "active_instance_matches aid epoch = access (\<lambda>i. (active_instance aid epoch i \<noteq> None, i))"

definition scheduler_active_count :: "SchedulerInner \<Rightarrow> nat" where
  "scheduler_active_count i = length (active i)"

definition release_active :: "string \<Rightarrow> nat \<Rightarrow> unit sched" where
  "release_active aid epoch =
     access (\<lambda>i. ((), case active_instance aid epoch i of
                        None \<Rightarrow> i
                      | Some a \<Rightarrow>
                          (set_cell (aid, epoch) (\<lambda>c. c\<lparr>cell_lifecycle := terminalize (cell_lifecycle c)\<rparr>) i)
                            \<lparr>active := remove_key aid (active i)\<rparr>))"

definition remove_starting :: "string \<Rightarrow> nat \<Rightarrow> unit sched" where
  "remove_starting aid epoch =
     access (\<lambda>i. ((), case map_of (starting i) aid of
                        Some h \<Rightarrow> if starting_owner_epoch h = epoch
                                  then i\<lparr>starting := remove_key aid (starting i)\<rparr> else i
                      | None \<Rightarrow> i))"

definition scheduler_new :: "string \<Rightarrow> store \<Rightarrow> SchedulerConfig \<Rightarrow> runtime_cell \<Rightarrow> SchedulerError + SchedulerInner" where
  "scheduler_new name s config blank =
     (if per_workspace_max_agents config = 0 \<or> bootstrap_timeout config = 0 \<or> control_timeout config = 0
      then Inl (InvalidConfig ''scheduler limits and bounded control waits must be positive'')
      else Inr \<lparr>inner_owner_id = name, inner_store = s, inner_config = config, active = [], starting = [],
              failures = Map.empty, failure_logger = None, cells = (\<lambda>_. blank), activities = [], draining = False,
              drain_cancel_running = False, updater_fired = False, activation_claim = None, submission_nonce = 0, steps_done = 0\<rparr>)"

section \<open>Activity\<close>

text \<open>
  A tracker is shared by the sink of a runtime and the registry of activities: it lives in the cell of the
  runtime, and the registry has the epoch of that cell.
\<close>

definition set_activity :: "string \<times> nat \<Rightarrow> (PassiveActivityTracker \<Rightarrow> PassiveActivityTracker) \<Rightarrow> SchedulerInner \<Rightarrow> SchedulerInner" where
  "set_activity key f = set_cell key (\<lambda>c. c\<lparr>cell_activity := f (cell_activity c)\<rparr>)"

definition activity_of :: "string \<Rightarrow> SchedulerInner \<Rightarrow> PassiveActivityTracker option" where
  "activity_of aid i = map_option (\<lambda>epoch. cell_activity (cells i (aid, epoch))) (map_of (activities i) aid)"

definition register_activity :: "(string list \<Rightarrow> string list) \<Rightarrow> string \<Rightarrow> nat \<Rightarrow> SchedulerInner \<Rightarrow> SchedulerInner" where
  "register_activity order aid epoch i =
     (let i1 = (case activity_of aid i of
                  None \<Rightarrow> i
                | Some previous \<Rightarrow> set_activity (aid, epoch) (\<lambda>t. t\<lparr>tracker_state :=
                    inherit_wait_text order (tracker_state previous) (tracker_state t)\<rparr>) i) in
      i1\<lparr>activities := put_entry aid epoch (activities i1)\<rparr>)"

definition source_verified_now :: "string \<Rightarrow> bool sched" where
  "source_verified_now adapter w i =
     (let i1 = others_first w i in
      Some (Inr (adapter_runtime_source_verified adapter
        (w_source_verified w (steps_done i) (runtime_source (inner_config i1)))), i1))"

definition passive_activity_snapshot :: "string \<Rightarrow> PassiveActivitySnapshot option sched" where
  "passive_activity_snapshot aid w i =
     (let i1 = others_first w i in
      Some (Inr (map_option (\<lambda>t. snapshot_at (w_now w (steps_done i)) (tracker_state t)) (activity_of aid i1)), i1))"

definition scheduler_take_wait_tail :: "string \<Rightarrow> WaitTail option sched" where
  "scheduler_take_wait_tail aid =
     access (\<lambda>i. case map_of (activities i) aid of
                   None \<Rightarrow> (None, i)
                 | Some epoch \<Rightarrow>
                     (case take_wait_tail (tracker_state (cell_activity (cells i (aid, epoch)))) of
                        (tail, st) \<Rightarrow> (Some tail, set_activity (aid, epoch) (\<lambda>t. t\<lparr>tracker_state := st\<rparr>) i)))"

definition scheduler_peek_wait_tail :: "string \<Rightarrow> WaitTail option sched" where
  "scheduler_peek_wait_tail aid =
     access (\<lambda>i. (map_option (\<lambda>t. peek_wait_tail (tracker_state t)) (activity_of aid i), i))"

definition take_cell_terminal_text :: "string \<times> nat \<Rightarrow> TerminalText sched" where
  "take_cell_terminal_text key =
     access (\<lambda>i. case take_terminal_text (tracker_state (cell_activity (cells i key))) of
                   (text, st) \<Rightarrow> (text, set_activity key (\<lambda>t. t\<lparr>tracker_state := st\<rparr>) i))"

section \<open>Failures\<close>

definition record_failure_line :: "string \<Rightarrow> string \<Rightarrow> string \<Rightarrow> unit sched" where
  "record_failure_line aid message text =
     sched_bind (access (\<lambda>i. ((), i\<lparr>failures := update_latest_failure (failures i) aid message\<rparr>))) (\<lambda>_.
     access (\<lambda>i. ((), i\<lparr>failure_logger := map_option
       (logger_submit (''[external-subagentd] failure agent='' @ bounded_error aid @ '': '' @ text @ [CHR 0x0A]))
       (failure_logger i)\<rparr>)))"

definition record_failure :: "string \<Rightarrow> string \<Rightarrow> unit sched" where
  "record_failure aid message = record_failure_line aid message (bounded_error message)"

text \<open>What a failed operation leaves behind when its error is only recorded.\<close>

definition record_error :: "string \<Rightarrow> 'a sched \<Rightarrow> unit sched" where
  "record_error aid m =
     sched_bind (attempt m) (\<lambda>r.
       case r of Inl e \<Rightarrow> record_failure aid (scheduler_error_text e) | Inr _ \<Rightarrow> sched_ok ())"

text \<open>\<open>owned\<close>: whether the caller has a runtime, whose session and output it then asks for.\<close>

definition runtime_diagnostic :: "bool \<Rightarrow> (string option \<times> string) sched" where
  "runtime_diagnostic owned = (if owned then ask w_diagnostic else sched_ok (None, []))"

definition persistable_failure_record_for ::
    "string \<Rightarrow> string option \<Rightarrow> string \<Rightarrow> string \<Rightarrow> string \<Rightarrow> bool \<Rightarrow> string sched" where
  "persistable_failure_record_for aid session stage code message owned =
     sched_bind (runtime_diagnostic owned) (\<lambda>(known, tail).
       given (\<lambda>w. persistable_failure_record (w_codec w) aid
              (case known of Some s \<Rightarrow> Some s | None \<Rightarrow> session) stage code message tail))"

definition record_runtime_failure ::
    "string \<Rightarrow> string option \<Rightarrow> string \<Rightarrow> string \<Rightarrow> string \<Rightarrow> bool \<Rightarrow> string sched" where
  "record_runtime_failure aid session stage code message owned =
     sched_bind (runtime_diagnostic owned) (\<lambda>(known, tail).
       let known_session = (case known of Some s \<Rightarrow> Some s | None \<Rightarrow> session) in
       sched_bind (given (\<lambda>w. runtime_failure_record (w_codec w) aid known_session stage code message tail)) (\<lambda>text.
       sched_bind (record_failure_line aid text text) (\<lambda>_.
         given (\<lambda>w. persistable_failure_record (w_codec w) aid known_session stage code message tail))))"

end
