(* ===== verification/Scheduler_Completion.thy ===== *)
theory Scheduler_Completion
  imports Scheduler_State
begin

text \<open>
  How the scheduler ends a task (\<open>external-daemon/src/scheduler/lifecycle.rs\<close>): storing a completion
  with its fallback, the end of a task whose runtime was never registered, the end of one with a
  terminal, and the cleanup of a registered runtime.
\<close>

definition persist_general_completion :: "string \<Rightarrow> GeneralCompletion \<Rightarrow> bool \<Rightarrow> TaskPhase sched" where
  "persist_general_completion aid completion reap_after_persist =
     sched_bind (transact (\<lambda>w k. persist_general_result (w_digest w) (w_clock w k) (w_inside w k) aid completion)) (\<lambda>r.
     sched_bind
       (case r of
          Inr _ \<Rightarrow> sched_ok ()
        | Inl e \<Rightarrow>
            sched_bind (record_failure aid (store_error_text e)) (\<lambda>_.
            sched_bind (store_read (\<lambda>s. query_task_result s aid)) (\<lambda>existing.
              if existing \<noteq> None then sched_ok ()
              else
                sched_bind (given (\<lambda>w. persistable_failure_record (w_codec w) aid None ''result_persist''
                    ''RESULT_PERSIST_FAILED'' (store_error_text e) [])) (\<lambda>failure.
                store_call (\<lambda>w k. store_result_with_cancel_precedence (w_digest w) (w_clock w k) (w_inside w k) aid
                    bounded_result_invalid_task_result None (Some failure)))))) (\<lambda>_.
     sched_bind (if reap_after_persist then sched_bind (reap aid) (\<lambda>_. sched_ok ()) else sched_ok ()) (\<lambda>_.
     sched_bind (expect_task ''terminal general task disappeared'' aid) (\<lambda>task. sched_ok (phase task)))))"

definition finish_unstarted_route ::
    "string \<Rightarrow> PreparedGeneralTask \<Rightarrow> UnstartedTerminal \<Rightarrow> bool \<Rightarrow> TaskPhase sched" where
  "finish_unstarted_route aid prepared t resources_reaped =
     (let completion =
        (if resources_reaped
         then finalized_general prepared (unstarted_outcome t) (unstarted_reason_code t) (unstarted_message t)
                (unstarted_failure_message t)
         else unreaped_general (unstarted_outcome t) (unstarted_reason_code t) (unstarted_message t)
                (unstarted_failure_message t)) in
      persist_general_completion aid completion (resources_reaped \<and> cleaned completion))"

section \<open>The end of a task with a terminal\<close>

record TerminalDecision =
  decided_terminal :: RuntimeTerminal
  natural_completion :: bool
  forced_outcome :: "(CompletionOutcome \<times> string) option"
  decided_failure :: "string option"

definition TRANSPORT_DIAGNOSTIC_STAGE :: string where
  "TRANSPORT_DIAGNOSTIC_STAGE = ''transport''"

fun terminal_outcome_of :: "bool \<Rightarrow> RuntimeTerminal \<Rightarrow> CompletionOutcome" where
  "terminal_outcome_of natural (TerminalCompleted _) =
     (if natural then CompletionOutcome.Completed else CompletionOutcome.Failed)"
| "terminal_outcome_of natural (TerminalStopped _) = CompletionOutcome.Cancelled"
| "terminal_outcome_of natural (TerminalRuntimeLost _) = CompletionOutcome.RuntimeLost"
| "terminal_outcome_of natural (TerminalOrphaned _) = CompletionOutcome.RuntimeLost"
| "terminal_outcome_of natural (TerminalFailedTurn _) = CompletionOutcome.Failed"
| "terminal_outcome_of natural (TerminalExited _) = CompletionOutcome.RuntimeLost"

fun is_completed_terminal :: "RuntimeTerminal \<Rightarrow> bool" where
  "is_completed_terminal (TerminalCompleted _) = True"
| "is_completed_terminal _ = False"

definition cleanup_detail :: "json_codec \<Rightarrow> string \<Rightarrow> string \<Rightarrow> string" where
  "cleanup_detail codec cause debug =
     json_text codec (JObject (member_set
       (case decoded codec cause of
          Some (JObject ms) \<Rightarrow> ms
        | _ \<Rightarrow> [(''message'', JString (bounded_error cause))])
       ''cleanup_result'' (JString debug)))"

definition routed_failure :: "string \<Rightarrow> CompletionOutcome \<Rightarrow> string \<Rightarrow> TerminalDecision \<Rightarrow> string option sched" where
  "routed_failure aid oc why d =
     (if oc = CompletionOutcome.Completed \<or> oc = CompletionOutcome.Cancelled then sched_ok None
      else
        sched_bind (active_session aid) (\<lambda>session.
        sched_bind
          (given (\<lambda>w. case decided_failure d of
                        Some cause \<Rightarrow> cleanup_detail (w_codec w) cause (w_debug w (decided_terminal d))
                      | None \<Rightarrow> w_debug w (decided_terminal d))) (\<lambda>message.
        sched_bind
          (record_runtime_failure aid (map_option active_session_id session)
             (if why = TRANSPORT_FRAME_LIMIT_REASON then TRANSPORT_DIAGNOSTIC_STAGE else ''runtime_terminal'')
             why message True)
          (\<lambda>text. sched_ok (Some text)))))"

text \<open>The completion of a natural end, from the text the agent has left.\<close>

definition natural_general :: "PreparedGeneralTask \<Rightarrow> TerminalText \<Rightarrow> GeneralCompletion" where
  "natural_general prepared text =
     finish_cleanup prepared
       (case text of
          Visible t \<Rightarrow> (finalize_completion prepared CompletionOutcome.Completed)\<lparr>completion_summary := t\<rparr>
        | Missing \<Rightarrow>
            (let c = (finalize_completion prepared CompletionOutcome.ResultInvalid)
                   \<lparr>completion_summary := ''runtime completed without visible final text''\<rparr> in
             if completion_reason_code c = None
             then c\<lparr>completion_reason_code := Some ''FINAL_TEXT_MISSING''\<rparr>
             else c\<lparr>residual_gaps := residual_gaps c @ [''FINAL_TEXT_MISSING'']\<rparr>))"

definition with_reason :: "string \<Rightarrow> GeneralCompletion \<Rightarrow> GeneralCompletion" where
  "with_reason why c =
     (let c1 = (if trim (completion_summary c) = [] then c\<lparr>completion_summary := why\<rparr> else c) in
      if completion_reason_code c1 = None \<and> completion_outcome c1 \<noteq> CompletionOutcome.Completed
      then c1\<lparr>completion_reason_code := Some why\<rparr> else c1)"

definition sink_finish ::
    "string \<times> nat \<Rightarrow> RuntimeTerminal \<Rightarrow> GeneralCompletion \<Rightarrow> (StoreError + TaskPhase) sched" where
  "sink_finish key t completion w i =
     (let i1 = others_first w i; k = steps_done i in
      case finish_general (w_codec w) (w_digest w) (w_clock w k) (w_inside w k) (cell_sink (cells i1 key)) t
             completion (inner_store i1) of
        (r, sink, s) \<Rightarrow> Some (Inr r, set_cell key (\<lambda>c. c\<lparr>cell_sink := sink\<rparr>) (i1\<lparr>inner_store := s\<rparr>)))"

definition finish_routed_terminal ::
    "string \<Rightarrow> nat \<Rightarrow> PreparedGeneralTask \<Rightarrow> TerminalDecision \<Rightarrow> TaskPhase sched" where
  "finish_routed_terminal aid epoch prepared d =
     sched_bind (change_lifecycle (aid, epoch) terminalize) (\<lambda>_.
     case (case forced_outcome d of
             Some forced \<Rightarrow> forced
           | None \<Rightarrow> (terminal_outcome_of (natural_completion d) (decided_terminal d), ''RUNTIME_TERMINAL'')) of
       (oc, why) \<Rightarrow>
         sched_bind (routed_failure aid oc why d) (\<lambda>routed.
         let t = decided_terminal d; reaped = terminal_proves_process_group_reaped t in
         sched_bind
           (if natural_completion d \<and> is_completed_terminal t
            then sched_bind (take_cell_terminal_text (aid, epoch)) (\<lambda>text. sched_ok (natural_general prepared text))
            else if reaped then sched_ok (finalize_completion prepared oc)
            else sched_ok (unreaped_general oc why why None)) (\<lambda>c0.
         let c1 = with_reason why c0 in
         sched_bind
           (if completion_outcome c1 = CompletionOutcome.ResultInvalid
            then sched_bind
                   (persistable_failure_record_for aid None ''runtime_terminal''
                      (case completion_reason_code c1 of None \<Rightarrow> ''FINAL_TEXT_MISSING'' | Some code \<Rightarrow> code)
                      (completion_summary c1) True)
                   (\<lambda>text. sched_ok (c1\<lparr>failure_message := Some text\<rparr>))
            else sched_ok (if routed \<noteq> None then c1\<lparr>failure_message := routed\<rparr> else c1)) (\<lambda>completion.
         sched_bind (sink_finish (aid, epoch) t completion) (\<lambda>r.
           case r of
             Inr ph \<Rightarrow> sched_ok ph
           | Inl e \<Rightarrow>
               sched_bind (record_failure aid (store_error_text e)) (\<lambda>_.
               persist_general_completion aid completion (cleaned completion \<and> reaped)))))))"

section \<open>The cleanup of a registered runtime\<close>

definition request_lifecycle_stop :: "string \<times> nat \<Rightarrow> unit sched" where
  "request_lifecycle_stop key =
     sched_bind (ask w_snapshot) (\<lambda>turn.
     sched_bind (ask w_now) (\<lambda>now. change_lifecycle key (lifecycle_request_stop now turn)))"

definition cleanup_registered_runtime_with_grace ::
    "string \<Rightarrow> nat \<Rightarrow> (string \<times> string) option \<Rightarrow> nat \<Rightarrow> TaskPhase sched" where
  "cleanup_registered_runtime_with_grace aid epoch failure grace =
     sched_bind (store_write (\<lambda>clock. request_runtime_stop clock aid)) (\<lambda>decision.
     let cancellation_wins = (prior_stop_or_close decision \<or> failure = None) in
     sched_bind (access (\<lambda>i. ((), if active_instance aid epoch i \<noteq> None then cancel_check (aid, epoch) i else i))) (\<lambda>_.
     sched_bind (access (\<lambda>i. (active_instance aid epoch i, i))) (\<lambda>found.
     case found of
       None \<Rightarrow> sched_err (InvalidConfig ''active generic route disappeared during cleanup'')
     | Some a \<Rightarrow>
         sched_bind (request_lifecycle_stop (aid, epoch)) (\<lambda>_.
         sched_bind (change_lifecycle (aid, epoch) force_terminating) (\<lambda>_.
         sched_bind (ask (\<lambda>w k. w_stop w k grace)) (\<lambda>t.
         sched_bind (read_task aid) (\<lambda>current.
         sched_bind
           (attempt
             (if (case current of None \<Rightarrow> False | Some task \<Rightarrow> phase task \<in> {Running, Cancelling, Terminal})
              then finish_routed_terminal aid epoch (active_route a)
                     \<lparr>decided_terminal = t, natural_completion = False,
                      forced_outcome =
                        Some (if cancellation_wins then (CompletionOutcome.Cancelled, ''CANCELLED'')
                              else case failure of
                                     Some (code, _) \<Rightarrow> (CompletionOutcome.Failed, code)
                                   | None \<Rightarrow> (CompletionOutcome.Cancelled, ''CANCELLED'')),
                      decided_failure = map_option snd failure\<rparr>
              else
                sched_bind
                  (case failure of
                     None \<Rightarrow> sched_ok None
                   | Some (code, message) \<Rightarrow>
                       sched_bind (persistable_failure_record_for aid None ''runtime_start'' code message True)
                         (\<lambda>text. sched_ok (Some text))) (\<lambda>text.
                let (code, message) = (case failure of
                       Some cm \<Rightarrow> cm
                     | None \<Rightarrow> (''GENERAL_START_CANCELLED'', ''general task stopped before entering its runtime phase''));
                    oc = (if cancellation_wins then CompletionOutcome.Cancelled else CompletionOutcome.Failed) in
                finish_unstarted_route aid (active_route a)
                  \<lparr>unstarted_outcome = oc,
                   unstarted_reason_code = (if oc = CompletionOutcome.Cancelled then ''CANCELLED'' else code),
                   unstarted_message = message, unstarted_failure_message = text\<rparr>
                  (terminal_proves_process_group_reaped t)))) (\<lambda>result.
         sched_bind (release_active aid epoch) (\<lambda>_. from_result id result))))))))) "

definition cleanup_registered_runtime :: "string \<Rightarrow> nat \<Rightarrow> (string \<times> string) option \<Rightarrow> TaskPhase sched" where
  "cleanup_registered_runtime aid epoch failure =
     sched_bind (access (\<lambda>i. (stop_grace (inner_config i), i)))
       (cleanup_registered_runtime_with_grace aid epoch failure)"

end
