(* ===== verification/Scheduler_Start.thy ===== *)
theory Scheduler_Start
  imports Scheduler_Completion
begin

text \<open>
  Starting the runtimes of claimed tasks and delivering their messages
  (\<open>external-daemon/src/scheduler/lifecycle.rs\<close>: \<open>start_claim\<close>, \<open>start_ready\<close>, \<open>fail_closed_control\<close>;
  \<open>messages.rs\<close>: \<open>deliver_next_message\<close>; the helpers of \<open>control.rs\<close>; the policy of a route in \<open>lib.rs\<close>).
  The monitor thread that a started runtime gets is one of the other threads of the world. The activity
  tracker of a runtime is not part of the model.
\<close>

section \<open>Helpers of control operations\<close>

definition late_ingress_error :: "string \<Rightarrow> string \<Rightarrow> SchedulerError" where
  "late_ingress_error aid why = RuntimeCommand aid why"

definition require_runtime_ingress :: "string \<Rightarrow> nat \<Rightarrow> unit sched" where
  "require_runtime_ingress aid epoch =
     sched_bind (with_lifecycle (aid, epoch) (\<lambda>l. (ingress_reason l, l))) (\<lambda>why.
       case why of None \<Rightarrow> sched_ok () | Some r \<Rightarrow> sched_err (late_ingress_error aid r))"

definition control_deadline :: "ControlDeadline sched" where
  "control_deadline =
     sched_bind (access (\<lambda>i. (control_timeout (inner_config i), i))) (\<lambda>budget.
     ask (\<lambda>w k. control_deadline_new (w_now w k) budget))"

definition control_timeout_error :: "string \<Rightarrow> SchedulerError" where
  "control_timeout_error aid = RuntimeCommand aid ''control operation deadline elapsed''"

definition configured_grace :: "nat sched" where
  "configured_grace = access (\<lambda>i. (stop_grace (inner_config i), i))"

definition deadline_remaining :: "ControlDeadline \<Rightarrow> nat option sched" where
  "deadline_remaining d = ask (\<lambda>w k. remaining (w_now w k) d)"

definition cleanup_grace_now :: "ControlDeadline \<Rightarrow> nat sched" where
  "cleanup_grace_now d =
     sched_bind configured_grace (\<lambda>grace. ask (\<lambda>w k. cleanup_grace (w_now w k) grace d))"

definition runtime_phase_timeout :: "string \<Rightarrow> ControlDeadline \<Rightarrow> nat sched" where
  "runtime_phase_timeout aid d =
     sched_bind configured_grace (\<lambda>grace.
     sched_bind (ask w_now) (\<lambda>now.
     sched_bind (ask w_now) (\<lambda>now'.
     sched_bind (ask w_now) (\<lambda>now''.
       from_result (\<lambda>_. control_timeout_error aid) (ok_or () (runtime_phase now now' now'' grace d))))))"

definition runtime_phase_deadline_of :: "string \<Rightarrow> ControlDeadline \<Rightarrow> nat sched" where
  "runtime_phase_deadline_of aid d =
     sched_bind configured_grace (\<lambda>grace.
     sched_bind (ask w_now) (\<lambda>now.
     sched_bind (ask w_now) (\<lambda>now'.
       from_result (\<lambda>_. control_timeout_error aid) (ok_or () (runtime_phase_deadline now now' grace d)))))"

section \<open>Delivery of messages\<close>

datatype delivery = Delivery (delivered_turn: "RuntimeCommandError + string option") (delivery_operation: string)
  (delivery_failure: string)

definition deliver_turn :: "string \<Rightarrow> string \<Rightarrow> StoredMessage \<Rightarrow> ControlDeadline \<Rightarrow> delivery sched" where
  "deliver_turn aid session m deadline =
     sched_bind (ask w_snapshot) (\<lambda>turn.
     sched_bind
       (if message_mode m = ''steer'' \<and> turn_active turn
        then sched_bind (attempt (runtime_phase_timeout aid deadline)) (\<lambda>timeout.
               case timeout of
                 Inl _ \<Rightarrow> sched_ok (Inl CommandTimeout)
               | Inr n \<Rightarrow> ask (\<lambda>w k. w_stop_turn w k session n))
        else sched_ok (Inr turn)) (\<lambda>stopped.
     case stopped of
       Inl e \<Rightarrow> sched_ok (Delivery (Inl e) ''session/stop'' ''SESSION_STOP_FAILED'')
     | Inr _ \<Rightarrow>
         sched_bind (attempt (runtime_phase_timeout aid deadline)) (\<lambda>timeout.
           case timeout of
             Inl _ \<Rightarrow> sched_ok (Delivery (Inl CommandTimeout) ''session/send'' ''SESSION_SEND_FAILED'')
           | Inr n \<Rightarrow>
               sched_bind
                 (if message_mode m = ''queue'' \<and> turn_active turn
                  then ask (\<lambda>w k. w_inject_turn w k session (message_content m) n)
                  else ask (\<lambda>w k. w_send_turn w k session (message_content m) n))
                 (\<lambda>r. sched_ok (Delivery r ''session/send'' ''SESSION_SEND_FAILED'')))))"

definition deliver_next_message ::
    "string \<Rightarrow> string \<Rightarrow> nat \<Rightarrow> ControlDeadline \<Rightarrow> StoredMessage option sched" where
  "deliver_next_message aid session epoch deadline =
     sched_bind (require_runtime_ingress aid epoch) (\<lambda>_.
     sched_bind (store_write (\<lambda>clock. claim_next_message aid)) (\<lambda>claimed.
     case claimed of
       None \<Rightarrow> sched_ok None
     | Some m \<Rightarrow>
         sched_bind (attempt (require_runtime_ingress aid epoch)) (\<lambda>ingress.
         case ingress of
           Inl e \<Rightarrow>
             sched_bind (store_write (\<lambda>clock. fail_message (message_id m) ''LATE_AFTER_STOP''
                 ''runtime_lifecycle stopped before message delivery'')) (\<lambda>_. sched_err e)
         | Inr _ \<Rightarrow>
             sched_bind (deliver_turn aid session m deadline) (\<lambda>d.
             case delivered_turn d of
               Inr turn \<Rightarrow>
                 sched_bind (store_write (\<lambda>clock. complete_message clock (message_id m) turn)) (\<lambda>completed.
                   if \<not> completed
                   then sched_err (StoreFailure (Conflict (''message '' @ message_id m @ '' lost its delivery claim'')))
                   else store_read (\<lambda>s. query_message s (message_id m)))
             | Inl e \<Rightarrow>
                 sched_bind (given (\<lambda>w. command_error_diagnostic (w_codec w) e (delivery_operation d))) (\<lambda>detail.
                 sched_bind (record_runtime_failure aid (Some session) ''message_delivery'' (delivery_failure d)
                     detail True) (\<lambda>_.
                 sched_bind (store_write (\<lambda>clock. fail_message (message_id m) (delivery_failure d) detail)) (\<lambda>_.
                   sched_err (RuntimeCommand aid detail))))))))"

section \<open>Starting a claimed task\<close>

fun preparation_error_text :: "(io_error \<Rightarrow> string) \<Rightarrow> (path \<Rightarrow> string) \<Rightarrow> PreparationError \<Rightarrow> string" where
  "preparation_error_text io display (InvalidManifest m) = ''invalid manifest: '' @ m"
| "preparation_error_text io display (InvalidPath p why) = ''invalid path '' @ display p @ '': '' @ why"
| "preparation_error_text io display (PathEscape p root) =
     ''path '' @ display p @ '' escapes allowed root '' @ display root"
| "preparation_error_text io display (SymlinkInput p) = ''symlink input is forbidden: '' @ display p"
| "preparation_error_text io display (MissingInput p) = ''input is missing: '' @ display p"
| "preparation_error_text io display (ForbiddenInput p) =
     ''forbidden agent metadata input is forbidden: '' @ display p"
| "preparation_error_text io display (CredentialInput p) = ''credential input is forbidden: '' @ display p"
| "preparation_error_text io display (PolicyError m) = ''policy denied request: '' @ m"
| "preparation_error_text io display (IoError e) = ''I/O error: '' @ io e"
| "preparation_error_text io display (JsonError e) = ''JSON error: '' @ e"

definition validate_task_route :: "TaskRecord option \<Rightarrow> PreparedGeneralTask \<Rightarrow> string + unit" where
  "validate_task_route task route =
     (case task of Some _ \<Rightarrow> Inr () | None \<Rightarrow> Inl ''prepared task metadata is missing'')"

definition route_policy ::
    "submission_host \<Rightarrow> filesystem \<Rightarrow> PreparedGeneralTask \<Rightarrow> bool \<Rightarrow> PreparationError + PolicyLauncher" where
  "route_policy h fs prepared resumed =
     res_bind (if resumed then resume_launcher h fs prepared else task_launcher fs prepared) (\<lambda>launcher.
       Inr (set_interactive_bash (permission_mode prepared = EditMode) launcher))"

text \<open>A claim whose stored preparation cannot be used.\<close>

definition invalid_claim :: "TaskClaim \<Rightarrow> TaskRecord option \<Rightarrow> string \<Rightarrow> string \<Rightarrow> 'a sched" where
  "invalid_claim claim task code message =
     (let aid = agent_id (claim_task claim) in
      sched_bind
        (if task \<noteq> None
         then sched_bind (persistable_failure_record_for aid (session_id (claim_task claim)) ''preparation'' code
                message False) (\<lambda>text.
              store_result aid (minimal_task_result CompletionOutcome.ResultInvalid message code) None (Some text))
         else sched_bind (store_write (\<lambda>clock. fail_claim clock aid (claim_owner_epoch claim) code message))
                (\<lambda>_. sched_ok ()))
        (\<lambda>_. sched_err (InvalidConfig message)))"

definition unstarted :: "CompletionOutcome \<Rightarrow> string \<Rightarrow> string \<Rightarrow> string option \<Rightarrow> UnstartedTerminal" where
  "unstarted oc code message failure =
     \<lparr>unstarted_outcome = oc, unstarted_reason_code = code, unstarted_message = message,
      unstarted_failure_message = failure\<rparr>"

text \<open>A runtime that has been spawned but not registered is stopped and its task ended.\<close>

definition abandon_start ::
    "TaskClaim \<Rightarrow> PreparedGeneralTask \<Rightarrow> string option \<Rightarrow> string \<Rightarrow> CompletionOutcome \<Rightarrow> string \<Rightarrow> string \<Rightarrow> unit sched" where
  "abandon_start claim route session stage oc code message =
     (let aid = agent_id (claim_task claim) in
      sched_bind (remove_starting aid (claim_owner_epoch claim)) (\<lambda>_.
      sched_bind configured_grace (\<lambda>grace.
      sched_bind (ask (\<lambda>w k. w_stop w k grace)) (\<lambda>t.
      sched_bind (record_runtime_failure aid session stage code message True) (\<lambda>text.
      record_error aid (finish_unstarted_route aid route (unstarted oc code message (Some text))
        (terminal_proves_process_group_reaped t)))))))"

definition ready_turn_state :: "TurnSnapshot \<Rightarrow> TurnState" where
  "ready_turn_state turn =
     (if turn_active turn then TurnActive
      else if turn_boundary turn = Some BoundaryFailed then TurnFailed else TurnIdle)"

text \<open>The registration of a session that is ready, and what follows it.\<close>

definition register_runtime ::
    "TaskClaim \<Rightarrow> TaskRecord option \<Rightarrow> PreparedGeneralTask \<Rightarrow> StoredProcessIdentity option \<Rightarrow> SessionReady \<Rightarrow> bool sched" where
  "register_runtime claim task route identity session =
     (let aid = agent_id (claim_task claim); epoch = claim_owner_epoch claim;
          runtime = aid @ '':'' @ to_decimal epoch in
      sched_bind (ask w_snapshot) (\<lambda>turn.
      sched_bind (given w_set_order) (\<lambda>order.
      sched_bind (access (\<lambda>i. ((), (register_activity order aid epoch (i\<lparr>starting := remove_key aid (starting i)\<rparr>))\<lparr>
          active := (aid, \<lparr>active_owner_epoch = epoch, active_session_id = ready_session session,
                            active_route = route, active_task = task\<rparr>) # remove_key aid (active i)\<rparr>))) (\<lambda>_.
      sched_bind (transact (\<lambda>w k. commit (mark_session_running (w_clock w k) aid epoch runtime identity
          (Some (ready_session session)) (Some (ready_turn_state turn))))) (\<lambda>marked.
      case marked of
        Inl e \<Rightarrow>
          sched_bind (attempt (cleanup_registered_runtime aid epoch (Some (''STORE_START_FAILED'', store_error_text e))))
            (\<lambda>_. sched_err (StoreFailure e))
      | Inr applied \<Rightarrow>
          sched_bind (transact (\<lambda>w k. read_store (\<lambda>s. get_task s aid))) (\<lambda>found.
          case found of
            Inl e \<Rightarrow>
              sched_bind (attempt (cleanup_registered_runtime aid epoch
                  (Some (''POST_REGISTRATION_READ_FAILED'', store_error_text e))))
                (\<lambda>_. sched_err (StoreFailure e))
          | Inr current \<Rightarrow>
              if \<not> applied
              then
                sched_bind
                  (cleanup_registered_runtime aid epoch
                    (if (case current of
                           None \<Rightarrow> False
                         | Some job \<Rightarrow> stop_requested job \<or> close_requested job \<or> phase job = Cancelling
                                      \<or> phase job = Terminal)
                     then None else Some (''RUNTIME_START_RACE'', ''running transition was not applied'')))
                  (\<lambda>_. sched_ok False)
              else if (case current of
                         None \<Rightarrow> False
                       | Some job \<Rightarrow> stop_requested job \<or> close_requested job \<or> phase job \<noteq> Running)
              then sched_bind (cleanup_registered_runtime aid epoch None) (\<lambda>_. sched_ok False)
              else if session_id (claim_task claim) \<noteq> None
              then
                sched_bind control_deadline (\<lambda>deadline.
                sched_bind (attempt (deliver_next_message aid (ready_session session) epoch deadline)) (\<lambda>r.
                case r of
                  Inr _ \<Rightarrow> sched_ok True
                | Inl e \<Rightarrow>
                    sched_bind (cleanup_registered_runtime aid epoch (Some (''SESSION_SEND_FAILED'',
                        case e of RuntimeCommand _ message \<Rightarrow> message | _ \<Rightarrow> scheduler_error_text e)))
                      (\<lambda>_. sched_err e)))
              else sched_ok True))))))"

definition start_claim :: "TaskClaim \<Rightarrow> bool sched" where
  "start_claim claim =
     (let aid = agent_id (claim_task claim); epoch = claim_owner_epoch claim;
          resumed = (session_id (claim_task claim) \<noteq> None) in
      sched_bind (read_task aid) (\<lambda>task.
      sched_bind (given (\<lambda>w. task_route (w_prep w) (claim_task claim))) (\<lambda>routed.
      case routed of
        Inl message \<Rightarrow> invalid_claim claim task ''PREPARED_LAUNCH_INVALID'' message
      | Inr route \<Rightarrow>
          (case validate_task_route task route of
             Inl message \<Rightarrow> invalid_claim claim task ''TASK_ROUTE_INVALID'' message
           | Inr _ \<Rightarrow>
               sched_bind (ask (\<lambda>w k. case route_policy (w_host w k) (w_fs w k) route resumed of
                   Inl e \<Rightarrow> Inl (preparation_error_text (w_io_text w) (path_text (w_prep w)) e)
                 | Inr _ \<Rightarrow> Inr ())) (\<lambda>policy.
               case policy of
                 Inl message \<Rightarrow>
                   sched_bind (persistable_failure_record_for aid (session_id (claim_task claim)) ''preparation''
                       ''PREPARED_CONTENT_INVALID'' message False) (\<lambda>text.
                   sched_bind (finish_unstarted_route aid route
                       (unstarted CompletionOutcome.ResultInvalid ''PREPARED_CONTENT_INVALID'' message (Some text)) True)
                     (\<lambda>_. sched_err (InvalidConfig message)))
               | Inr _ \<Rightarrow>
                   sched_bind (given (\<lambda>w. task_agent (w_prep w) (claim_task claim))) (\<lambda>adapter.
                   sched_bind (source_verified_now adapter) (\<lambda>verified.
                   sched_bind (access (\<lambda>i. ((), set_cell (aid, epoch) (\<lambda>_.
                       \<lparr>cell_sink = sink_new aid (aid @ '':'' @ to_decimal epoch) epoch,
                        cell_lifecycle = runtime_lifecycle_new epoch, cell_cancelled = False,
                        cell_activity = tracker_for_launch adapter verified epoch\<rparr>) i))) (\<lambda>_.
                   sched_bind (ask w_spawn) (\<lambda>spawned.
                   case spawned of
                     Inl message \<Rightarrow>
                       sched_bind (record_runtime_failure aid (session_id (claim_task claim)) ''spawn''
                           ''RUNTIME_SPAWN_FAILED'' message False) (\<lambda>text.
                       sched_bind (record_error aid (finish_unstarted_route aid route
                           (unstarted CompletionOutcome.Failed ''RUNTIME_SPAWN_FAILED'' message (Some text)) True))
                         (\<lambda>_. sched_err (RuntimeSpawn aid message)))
                   | Inr identity \<Rightarrow>
                       sched_bind (access (\<lambda>i. ((), i\<lparr>starting :=
                           (aid, \<lparr>starting_owner_epoch = epoch, starting_identity = identity\<rparr>)
                           # remove_key aid (starting i)\<rparr>))) (\<lambda>_.
                       sched_bind (read_task aid) (\<lambda>recheck.
                       if (case recheck of
                             None \<Rightarrow> True
                           | Some t \<Rightarrow> owner_epoch t = epoch
                                      \<and> (phase t = Cancelling \<or> stop_requested t \<or> close_requested t))
                       then
                         sched_bind (abandon_start claim route (session_id (claim_task claim)) ''cancelled''
                             CompletionOutcome.Cancelled ''CANCELLED'' ''task was cancelled before bootstrap'')
                           (\<lambda>_. sched_ok False)
                       else
                         sched_bind (source_verified_now adapter) (\<lambda>still.
                         sched_bind (access (\<lambda>i. ((), set_activity (aid, epoch) (confirm_runtime_source still) i))) (\<lambda>_.
                         sched_bind (access (\<lambda>i. (bootstrap_timeout (inner_config i), i))) (\<lambda>timeout.
                         sched_bind (ask (\<lambda>w k. w_session w k (claim_task claim) timeout)) (\<lambda>ready.
                         case ready of
                           Inl e \<Rightarrow>
                             sched_bind (abandon_start claim route (session_id (claim_task claim)) ''session_start''
                                 CompletionOutcome.Failed
                                 (case e of ModelRejected _ \<Rightarrow> ''MODEL_REJECTED'' | _ \<Rightarrow> ''SESSION_START_FAILED'')
                                 (command_error_text e))
                               (\<lambda>_. sched_err (RuntimeCommand aid (command_error_text e)))
                         | Inr session \<Rightarrow>
                             sched_bind
                               (if resumed then sched_ok (Inr ())
                                else given (\<lambda>w. validate_requested_model
                                  (admitted_from_task (w_prep w) admitted_model (claim_task claim))
                                  (configured_model session))) (\<lambda>checked.
                             case checked of
                               Inl code \<Rightarrow>
                                 sched_bind (abandon_start claim route (Some (ready_session session)) ''session_start''
                                     CompletionOutcome.Failed code ''runtime model did not match the prepared request'')
                                   (\<lambda>_. sched_err (RuntimeCommand aid ''runtime model did not match the prepared request''))
                             | Inr _ \<Rightarrow> register_runtime claim task route identity session))))))))))))))))"

section \<open>Starting everything that is ready\<close>

definition start_next :: "string list \<Rightarrow> (string list + string list) sched" where
  "start_next started =
     sched_bind (access (\<lambda>i. (i, i))) (\<lambda>i.
     sched_bind (store_write (\<lambda>clock. claim_next clock (inner_owner_id i) 18446744073709551615
         (per_workspace_max_agents (inner_config i)))) (\<lambda>claimed.
     case claimed of
       None \<Rightarrow> sched_ok (Inr started)
     | Some claim \<Rightarrow>
         sched_bind (start_claim claim) (\<lambda>running.
           sched_ok (Inl (if running then started @ [agent_id (claim_task claim)] else started)))))"

definition start_ready :: "string list sched" where
  "start_ready = sched_loop start_next []"

definition fail_closed_control :: "string \<Rightarrow> nat \<Rightarrow> ControlDeadline \<Rightarrow> string \<Rightarrow> string \<Rightarrow> unit sched" where
  "fail_closed_control aid epoch deadline code message =
     sched_bind (access (\<lambda>i. (active_instance aid epoch i, i))) (\<lambda>found.
     case found of
       None \<Rightarrow> sched_err (RuntimeCommand aid ''active runtime disappeared during fail-closed control cleanup'')
     | Some _ \<Rightarrow>
         sched_bind (cleanup_grace_now deadline) (\<lambda>grace.
         sched_bind (cleanup_registered_runtime_with_grace aid epoch (Some (code, message)) grace) (\<lambda>_.
         record_error aid start_ready)))"

end
