(* ===== verification/Scheduler_Control.thy ===== *)
theory Scheduler_Control
  imports Scheduler_Start
begin

text \<open>
  Stopping and closing tasks (\<open>external-daemon/src/scheduler/control.rs\<close>, \<open>shutdown_all\<close> of
  \<open>lifecycle.rs\<close>).
\<close>

definition request_cooperative_stop :: "string \<times> nat \<Rightarrow> string \<Rightarrow> nat \<Rightarrow> string option sched" where
  "request_cooperative_stop key session timeout =
     sched_bind (ask w_snapshot) (\<lambda>current.
     sched_bind (ask w_now) (\<lambda>now.
     sched_bind (change_lifecycle key (lifecycle_request_stop now current)) (\<lambda>_.
     sched_bind (with_lifecycle key (acknowledge_boundary current)) (\<lambda>acknowledged.
     if acknowledged then sched_ok None
     else if turn_active current
     then
       sched_bind (ask (\<lambda>w k. w_stop_turn w k session timeout)) (\<lambda>r.
       case r of
         Inl e \<Rightarrow>
           sched_bind (change_lifecycle key force_terminating) (\<lambda>_. sched_ok (Some (command_error_text e)))
       | Inr boundary \<Rightarrow>
           sched_bind (with_lifecycle key (acknowledge_boundary boundary)) (\<lambda>matched.
           if matched then sched_ok None
           else sched_bind (change_lifecycle key force_terminating) (\<lambda>_.
                  sched_ok (Some ''session/stop returned without a matching turn boundary''))))
     else sched_bind (change_lifecycle key force_terminating) (\<lambda>_.
            sched_ok (Some ''active turn had no matching stop boundary''))))))"

definition lock_operation :: "string \<Rightarrow> ControlDeadline \<Rightarrow> unit sched" where
  "lock_operation aid deadline =
     sched_loop (\<lambda>_.
       sched_bind (ask w_lock) (\<lambda>locked.
       if locked then sched_ok (Inr ())
       else
         sched_bind (deadline_remaining deadline) (\<lambda>left.
         if left = None then sched_err (control_timeout_error aid) else sched_ok (Inl ())))) ()"

text \<open>A task without a runtime converges at once.\<close>

definition cancel_routed :: "string \<Rightarrow> TaskRecord \<Rightarrow> string + PreparedGeneralTask \<Rightarrow> TaskPhase sched" where
  "cancel_routed aid task routed =
     (case routed of
        Inr route \<Rightarrow>
          sched_bind (from_result InvalidConfig (validate_task_route (Some task) route)) (\<lambda>_.
          finish_unstarted_route aid route
            (unstarted CompletionOutcome.Cancelled ''CANCELLED'' ''task cancelled before runtime launch'' None) True)
      | Inl message \<Rightarrow>
          sched_bind (store_result aid (minimal_task_result CompletionOutcome.Cancelled
              ''task cancelled with invalid prepared metadata'' ''CANCELLED_PREPARED_INVALID'') None None) (\<lambda>_.
          sched_bind (record_failure aid message) (\<lambda>_.
          sched_bind (read_task aid) (\<lambda>t. case t of Some x \<Rightarrow> sched_ok (phase x) | None \<Rightarrow> sched_panic))))"

definition converge_unstarted :: "string \<Rightarrow> TaskPhase sched" where
  "converge_unstarted aid =
     sched_bind (expect_task (''unknown task '' @ aid) aid) (\<lambda>job.
     sched_bind (expect_task ''converging V2 task metadata disappeared'' aid) (\<lambda>task.
     sched_bind (given (\<lambda>w. task_route (w_prep w) job)) (cancel_routed aid task)))"

text \<open>The stop of a registered runtime, under its operation lock.\<close>

definition stop_active ::
    "string \<Rightarrow> bool \<Rightarrow> ControlDeadline \<Rightarrow> ActiveRuntime \<Rightarrow> ActiveRuntime \<Rightarrow> nat \<Rightarrow> TaskPhase sched" where
  "stop_active aid close deadline act now_active epoch =
     (let key = (aid, active_owner_epoch act) in
      sched_bind (attempt (runtime_phase_timeout aid deadline)) (\<lambda>timeout.
      sched_bind
        (case timeout of
           Inr n \<Rightarrow> request_cooperative_stop key (active_session_id act) n
         | Inl e \<Rightarrow> sched_bind (change_lifecycle key force_terminating) (\<lambda>_. sched_ok (Some (scheduler_error_text e))))
        (\<lambda>control_error.
      sched_bind
        (if close
         then sched_bind (attempt (runtime_phase_timeout aid deadline)) (\<lambda>timeout'.
                case timeout' of
                  Inr n \<Rightarrow>
                    sched_bind (ask (\<lambda>w k. w_close_session w k (active_session_id act) n)) (\<lambda>r.
                      sched_ok (case r of Inl e \<Rightarrow> Some (command_error_text e) | Inr _ \<Rightarrow> None))
                | Inl e \<Rightarrow> sched_ok (Some (scheduler_error_text e)))
         else sched_ok None) (\<lambda>close_error.
      sched_bind (cleanup_grace_now deadline) (\<lambda>grace.
      sched_bind (ask (\<lambda>w k. w_stop w k grace)) (\<lambda>t.
      sched_bind
        (attempt (finish_routed_terminal aid (active_owner_epoch now_active) (active_route now_active)
          \<lparr>decided_terminal = t, natural_completion = False,
           forced_outcome = Some (CompletionOutcome.Cancelled, ''CANCELLED''), decided_failure = None\<rparr>)) (\<lambda>result.
      sched_bind (release_active aid epoch) (\<lambda>_.
      sched_bind (case close_error of None \<Rightarrow> sched_ok () | Some e \<Rightarrow> record_failure aid e) (\<lambda>_.
      sched_bind (case control_error of None \<Rightarrow> sched_ok () | Some e \<Rightarrow> record_failure aid e) (\<lambda>_.
        from_result id result))))))))))"

definition request_stop_or_close :: "string \<Rightarrow> bool \<Rightarrow> ControlDeadline \<Rightarrow> TaskPhase sched" where
  "request_stop_or_close aid close deadline =
     sched_bind (active_session aid) (\<lambda>found.
     sched_bind (deadline_remaining deadline) (\<lambda>left.
     if left = None then sched_err (control_timeout_error aid)
     else
     sched_bind (store_write (\<lambda>clock. if close then request_close clock aid else request_stop clock aid)) (\<lambda>decision.
     sched_bind (access (\<lambda>i. ((), case map_of (active i) aid of
         Some a \<Rightarrow> cancel_check (aid, active_owner_epoch a) i | None \<Rightarrow> i))) (\<lambda>_.
     sched_bind (case found of
         Some a \<Rightarrow> request_lifecycle_stop (aid, active_owner_epoch a) | None \<Rightarrow> sched_ok ()) (\<lambda>_.
     if \<not> needs_runtime_stop decision
     then (if decision_phase decision = Cancelling \<and> found = None then converge_unstarted aid
           else sched_ok (decision_phase decision))
     else
       (case found of
          None \<Rightarrow> sched_ok (decision_phase decision)
        | Some act \<Rightarrow>
            if active_owner_epoch act \<noteq> decision_owner_epoch decision then sched_ok (decision_phase decision)
            else
              sched_bind (attempt (lock_operation aid deadline)) (\<lambda>locked.
              case locked of
                Inl e \<Rightarrow>
                  sched_bind (fail_closed_control aid (active_owner_epoch act) deadline ''CONTROL_DEADLINE_EXCEEDED''
                      (scheduler_error_text e)) (\<lambda>_. sched_err e)
              | Inr _ \<Rightarrow>
                  sched_bind (active_session aid) (\<lambda>again.
                  case again of
                    None \<Rightarrow>
                      sched_bind (read_task aid) (\<lambda>t.
                        sched_ok (case t of Some job \<Rightarrow> phase job | None \<Rightarrow> decision_phase decision))
                  | Some now_active \<Rightarrow>
                      stop_active aid close deadline act now_active (decision_owner_epoch decision)))))))))"

definition cancel_task :: "string \<Rightarrow> TaskPhase sched" where
  "cancel_task aid = sched_bind control_deadline (request_stop_or_close aid False)"

definition close_task :: "string \<Rightarrow> TaskPhase sched" where
  "close_task aid = sched_bind control_deadline (request_stop_or_close aid True)"

text \<open>A loop over agents whose errors are only recorded.\<close>

fun for_each :: "('a \<Rightarrow> unit sched) \<Rightarrow> 'a list \<Rightarrow> unit sched" where
  "for_each f [] = sched_ok ()"
| "for_each f (x # xs) = sched_bind (f x) (\<lambda>_. for_each f xs)"

definition shutdown_all :: "unit sched" where
  "shutdown_all =
     sched_bind (access (\<lambda>i. (map fst (active i), i))) (\<lambda>aids.
     for_each (\<lambda>aid. record_error aid (close_task aid)) aids)"

end
