(* ===== verification/Scheduler_Recovery.thy ===== *)
theory Scheduler_Recovery
  imports Scheduler_Control
begin

text \<open>
  Recovery after a restart of the daemon, and the reaping of leftovers during a drain
  (\<open>external-daemon/src/scheduler/recovery.rs\<close>).
\<close>

definition store_invalid_prepared_terminal :: "TaskRecord \<Rightarrow> string \<Rightarrow> unit sched" where
  "store_invalid_prepared_terminal task message =
     (let stopping = (stop_requested task \<or> close_requested task);
          oc = (if stopping then CompletionOutcome.Cancelled else CompletionOutcome.ResultInvalid);
          code = (if stopping then ''CANCELLED_PREPARED_INVALID'' else ''PREPARED_LAUNCH_INVALID'');
          summary = (if stopping then ''task cancelled with invalid prepared metadata'' else message) in
      sched_bind (given (\<lambda>w.
          if oc = CompletionOutcome.ResultInvalid
          then Some (persistable_failure_record (w_codec w) (agent_id task) (session_id task) ''recovery'' code summary [])
          else None)) (\<lambda>failure.
      sched_bind (store_result (agent_id task) (minimal_task_result oc summary code) None failure) (\<lambda>_.
        record_failure (agent_id task) message)))"

definition finish_never_claimed_cancellation :: "TaskRecord \<Rightarrow> unit sched" where
  "finish_never_claimed_cancellation task =
     sched_bind (given (\<lambda>w. task_route (w_prep w) task)) (\<lambda>routed.
     case routed of
       Inl message \<Rightarrow> store_invalid_prepared_terminal task message
     | Inr route \<Rightarrow>
         sched_bind (from_result InvalidConfig (validate_task_route (Some task) route)) (\<lambda>_.
         sched_bind (finish_unstarted_route (agent_id task) route
           (unstarted CompletionOutcome.Cancelled ''CANCELLED'' ''task cancelled before runtime launch'' None) True)
           (\<lambda>_. sched_ok ())))"

definition reap_terminal_row :: "TaskRecord \<Rightarrow> unit sched" where
  "reap_terminal_row task =
     sched_bind (given (\<lambda>w. task_route (w_prep w) task)) (\<lambda>routed.
     case routed of
       Inl _ \<Rightarrow> sched_bind (reap (agent_id task)) (\<lambda>_. sched_ok ())
     | Inr route \<Rightarrow>
         sched_bind (from_result InvalidConfig (validate_task_route (Some task) route)) (\<lambda>_.
         sched_bind (store_read (\<lambda>s. query_task_result s (agent_id task))) (\<lambda>existing.
         if existing = None then sched_err (RuntimeCommand (agent_id task) ''terminal task has no immutable result'')
         else if \<not> cleaned (finalize_completion route CompletionOutcome.RuntimeLost)
         then sched_err (RuntimeCommand (agent_id task) ''terminal worktree recovery did not prove cleanup'')
         else sched_bind (reap (agent_id task)) (\<lambda>_. sched_ok ()))))"

definition is_never_claimed_cancellation :: "TaskRecord \<Rightarrow> bool" where
  "is_never_claimed_cancellation task \<longleftrightarrow>
     phase task = Cancelling \<and> owner_epoch task = 0 \<and> session_id task = None"

definition recovers_unstarted :: "TaskRecord \<Rightarrow> bool" where
  "recovers_unstarted task \<longleftrightarrow>
     (phase task = Queued \<or> is_never_claimed_cancellation task)
     \<and> stop_requested task \<and> runtime_agent_id task = None \<and> process_identity task = None"

text \<open>The process group of a task's recorded runtime is stopped, or there was none.\<close>

definition recover_process_group :: "TaskRecord \<Rightarrow> unit sched" where
  "recover_process_group task =
     (case (runtime_agent_id task, process_identity task) of
        (Some _, Some identity) \<Rightarrow>
          sched_bind (ask (\<lambda>w k. w_group_stopped w k identity)) (\<lambda>r.
            from_result (\<lambda>e. RuntimeCommand (agent_id task) (''startup process-group recovery failed: '' @ e)) r)
      | (None, None) \<Rightarrow>
          if phase task = Preparing \<or> phase task = Terminal then sched_ok ()
          else sched_err (RuntimeCommand (agent_id task)
                 ''startup runtime identity is incomplete; refusing unverified reap'')
      | _ \<Rightarrow> sched_err (RuntimeCommand (agent_id task)
               ''startup runtime identity is incomplete; refusing unverified reap''))"

definition recover_active_row :: "TaskRecord \<Rightarrow> PreparedGeneralTask \<Rightarrow> unit sched" where
  "recover_active_row task prepared =
     (let stopping = (stop_requested task \<or> close_requested task);
          oc = (if stopping then CompletionOutcome.Cancelled else CompletionOutcome.RuntimeLost);
          code = (if stopping then ''CANCELLED'' else ''DAEMON_RESTART_RUNTIME_LOST'');
          message = (if stopping then ''task cancellation was recovered after daemon restart''
                     else ''daemon restarted while task runtime was active'') in
      sched_bind (given (\<lambda>w.
          if oc = CompletionOutcome.RuntimeLost
          then Some (persistable_failure_record (w_codec w) (agent_id task) (session_id task) ''recovery'' code message [])
          else None)) (\<lambda>failure.
      let completion = finalized_general prepared oc code message failure in
      if \<not> cleaned completion
      then sched_err (RuntimeCommand (agent_id task) ''startup worktree recovery did not prove cleanup'')
      else
        sched_bind (store_call (\<lambda>w k. persist_general_result (w_digest w) (w_clock w k) (w_inside w k) (agent_id task)
            completion)) (\<lambda>_.
        sched_bind (reap (agent_id task)) (\<lambda>_. sched_ok ()))))"

definition recover_startup_task :: "TaskRecord \<Rightarrow> unit sched" where
  "recover_startup_task task =
     (if recovers_unstarted task
      then (if phase task = Queued then sched_bind (cancel_task (agent_id task)) (\<lambda>_. sched_ok ())
            else finish_never_claimed_cancellation task)
      else
        sched_bind (recover_process_group task) (\<lambda>_.
        if phase task = Terminal then reap_terminal_row task
        else
          sched_bind (given (\<lambda>w. task_route (w_prep w) task)) (\<lambda>routed.
          case routed of
            Inl message \<Rightarrow> store_invalid_prepared_terminal task message
          | Inr route \<Rightarrow>
              sched_bind (from_result InvalidConfig (validate_task_route (Some task) route)) (\<lambda>_.
              recover_active_row task route))))"

fun recover_all :: "TaskRecord list \<Rightarrow> (string \<times> TaskOutcome) list sched" where
  "recover_all [] = sched_ok []"
| "recover_all (task # ts) =
     sched_bind (recover_startup_task task) (\<lambda>_.
     sched_bind (expect_task ''startup recovery task disappeared'' (agent_id task)) (\<lambda>t.
     sched_bind (from_result StoreFailure (ok_or (InvalidState ''startup recovery did not terminalize the task'') (outcome t)))
       (\<lambda>oc.
     sched_bind (recover_all ts) (\<lambda>rest. sched_ok ((agent_id task, oc) # rest)))))"

definition reconcile_startup :: "(string \<times> TaskOutcome) list sched" where
  "reconcile_startup =
     sched_bind (access (\<lambda>i. (active i = [], i))) (\<lambda>idle.
     if \<not> idle then sched_err (InvalidConfig ''startup reconciliation requires an empty active set'')
     else sched_bind (store_read startup_recovery_tasks) recover_all)"

definition reap_straggler :: "TaskRecord \<Rightarrow> unit sched" where
  "reap_straggler task =
     sched_bind
       (case (runtime_agent_id task, process_identity task) of
          (None, None) \<Rightarrow> sched_ok True
        | (Some _, Some identity) \<Rightarrow>
            ask (\<lambda>w k. w_group_members w k (process_group_id identity) = Some 0)
        | _ \<Rightarrow> sched_ok False) (\<lambda>gone.
     if gone then sched_bind (attempt (reap_terminal_row task)) (\<lambda>_. sched_ok ()) else sched_ok ())"

definition reap_terminal_stragglers :: "unit sched" where
  "reap_terminal_stragglers =
     sched_bind (attempt (store_read terminal_unreaped_tasks)) (\<lambda>r.
     case r of Inl _ \<Rightarrow> sched_ok () | Inr ts \<Rightarrow> for_each reap_straggler ts)"

end
