(* ===== verification/Scheduler_Admission.thy ===== *)
theory Scheduler_Admission
  imports Scheduler_Recovery
begin

text \<open>
  Admission of tasks and the drain of the daemon before an update
  (\<open>external-daemon/src/scheduler/admission.rs\<close>). The admission lock is held from the check of the
  draining flag to the end of an enqueue, so an enqueue is one step for \<open>begin_drain\<close> and \<open>abort_drain\<close>:
  no other thread changes the flag meanwhile.
\<close>

section \<open>Admission\<close>

definition enqueue_general_with_admission ::
    "GeneralTaskManifest \<Rightarrow> AdmissionIdentity option \<Rightarrow> TaskRecord sched" where
  "enqueue_general_with_admission manifest identity =
     sched_bind (access (\<lambda>i. (draining i, i))) (\<lambda>closed.
     if closed then sched_err (InvalidConfig ''daemon_draining'')
     else
     sched_bind (store_write (\<lambda>clock. reserve_task_id)) (\<lambda>aid.
     sched_bind (given (\<lambda>w. w)) (\<lambda>w.
     sched_bind (access (\<lambda>i. (steps_done i, i))) (\<lambda>k.
     sched_bind (access (\<lambda>i.
         case prepare_direct_submission (w_host w k) (w_fs w k) (manifest\<lparr>manifest_agent_id := aid\<rparr>)
                (submission_nonce i) of
           (r, nonce) \<Rightarrow> (r, i\<lparr>submission_nonce := nonce\<rparr>))) (\<lambda>r.
     sched_bind (from_result (\<lambda>e. InvalidConfig (preparation_error_text (w_io_text w) (path_text (w_prep w)) e)) r)
       (\<lambda>prepared0.
     let prepared = (case identity of Some a \<Rightarrow> with_admission a prepared0 | None \<Rightarrow> prepared0) in
     sched_bind (from_result InvalidConfig (w_prepared_text w prepared)) (\<lambda>text.
     store_write (\<lambda>clock. enqueue_task_authoritative clock
       \<lparr>new_agent_id = prepared_agent_id prepared,
        new_repository = path_text (w_prep w) (prepared_repository prepared),
        new_workspace_path = path_text (w_prep w) (workspace_dir (prepared_workspace prepared)),
        new_runtime_hash = None, new_prepared_launch_json = text,
        new_initial_prompt = manifest_prompt manifest\<rparr>))))))))"

definition enqueue_general :: "GeneralTaskManifest \<Rightarrow> TaskRecord sched" where
  "enqueue_general manifest = enqueue_general_with_admission manifest None"

section \<open>Drain\<close>

definition begin_drain :: "unit sched" where
  "begin_drain =
     sched_bind (access (\<lambda>i. ((), i\<lparr>draining := True\<rparr>))) (\<lambda>_. reap_terminal_stragglers)"

definition abort_drain :: "unit sched" where
  "abort_drain =
     sched_bind
       (access (\<lambda>i.
          if \<not> draining i then (Inl (InvalidConfig ''drain_not_active''), i)
          else if drain_cancel_running i then (Inl (InvalidConfig ''drain_cancel_in_progress''), i)
          else (Inr (), i\<lparr>draining := False\<rparr>)))
       (from_result id)"

text \<open>The worker of an explicit cancellation, and the request that starts it.\<close>

definition drain_cancel_worker :: "string list \<Rightarrow> unit sched" where
  "drain_cancel_worker aids =
     sched_bind (for_each (\<lambda>aid. record_error aid (cancel_task aid)) aids) (\<lambda>_.
     access (\<lambda>i. ((), i\<lparr>drain_cancel_running := False\<rparr>)))"

definition cancel_draining_tasks :: "string list option sched" where
  "cancel_draining_tasks =
     sched_bind (store_write (\<lambda>clock. fence_queued_cancellation)) (\<lambda>_.
     sched_bind (access (\<lambda>i. (drain_cancel_running i, i\<lparr>drain_cancel_running := True\<rparr>))) (\<lambda>running.
     if running then sched_ok None
     else
       sched_bind (store_read (\<lambda>s. Inr (nonterminal_task_ids s))) (\<lambda>aids.
       sched_bind (ask w_drain_thread) (\<lambda>failed.
       case failed of
         Some e \<Rightarrow>
           sched_bind (access (\<lambda>i. ((), i\<lparr>drain_cancel_running := False\<rparr>))) (\<lambda>_.
           sched_err (InvalidConfig (''cannot start drain cancellation: '' @ e)))
       | None \<Rightarrow> sched_ok (Some aids)))))"

definition resources_reaped :: "bool sched" where
  "resources_reaped =
     sched_bind (access (\<lambda>i. (scheduler_active_count i, i))) (\<lambda>n.
     if n \<noteq> 0 then sched_ok False else access (\<lambda>i. (all_tasks_reaped (inner_store i), i)))"

definition ready_for_activation :: "bool sched" where
  "ready_for_activation =
     sched_bind (access (\<lambda>i. (draining i, i))) (\<lambda>closed.
     if \<not> closed then sched_ok False
     else
       sched_bind (access (\<lambda>i. (drain_cancel_running i, i))) (\<lambda>running.
       if running then sched_ok False else resources_reaped))"

definition claim_activation :: "string option sched" where
  "claim_activation =
     sched_bind ready_for_activation (\<lambda>ready.
     if \<not> ready then sched_ok None
     else access (\<lambda>i.
       let claim = (case activation_claim i of
                      Some token \<Rightarrow> token
                    | None \<Rightarrow> inner_owner_id i @ ''-activation'') in
       (Some claim, i\<lparr>activation_claim := Some claim,
          updater_fired := (if activation_claim i = None then True else updater_fired i)\<rparr>)))"

end
