(* ===== verification/Scheduler_Submit.thy ===== *)
theory Scheduler_Submit
  imports Scheduler_Admission
begin

text \<open>
  The submission of a task that waits for its session (\<open>submit_and_start_general\<close> of
  \<open>external-daemon/src/scheduler/admission.rs\<close>): the task is enqueued, a thread of its own claims and
  starts it, and the submission polls the store until there is a session, the task has ended, or the
  time is up. Then it cancels a task that is still fresh. The time it sleeps is not modelled.
\<close>

definition starter_thread :: "string \<Rightarrow> unit sched" where
  "starter_thread aid =
     sched_bind (access (\<lambda>i. (i, i))) (\<lambda>i.
     sched_bind (transact (\<lambda>w k. commit (claim_specific (w_clock w k) aid (inner_owner_id i)
         (per_workspace_max_agents (inner_config i))))) (\<lambda>claimed.
     case claimed of
       Inl e \<Rightarrow> record_failure aid (store_error_text e)
     | Inr None \<Rightarrow> sched_ok ()
     | Inr (Some claim) \<Rightarrow> sched_bind (attempt (start_claim claim)) (\<lambda>_. sched_ok ())))"

definition spawn_wait_budget :: "SchedulerConfig \<Rightarrow> nat" where
  "spawn_wait_budget c = bootstrap_timeout c + control_timeout c + 10000000000"

definition convergence_budget :: "SchedulerConfig \<Rightarrow> nat" where
  "convergence_budget c = control_timeout c + stop_grace c + 2000000000"

definition deadline_in :: "(SchedulerConfig \<Rightarrow> nat) \<Rightarrow> nat sched" where
  "deadline_in budget =
     sched_bind (access (\<lambda>i. (budget (inner_config i), i))) (\<lambda>n. ask (\<lambda>w k. w_now w k + n))"

definition starting_up :: "TaskRecord \<Rightarrow> bool" where
  "starting_up task \<longleftrightarrow> phase task = Queued \<or> phase task = Preparing"

definition start_failed :: "string \<Rightarrow> TaskRecord \<Rightarrow> SchedulerError" where
  "start_failed aid task =
     StartFailed aid (case task_failure_code task of None \<Rightarrow> ''START_FAILED'' | Some code \<Rightarrow> code)
       (case task_failure_message task of None \<Rightarrow> ''task terminated before establishment'' | Some m \<Rightarrow> m)"

definition resume_timeout :: "string \<Rightarrow> SchedulerError" where
  "resume_timeout aid =
     StartTimeout aid (''session established for '' @ aid @ '', being driven by resume, uncancelled'')"

definition cancelled_timeout :: "string \<Rightarrow> SchedulerError" where
  "cancelled_timeout aid = StartTimeout aid ''spawn timed out waiting for session establishment (cancelled)''"

definition pending_timeout :: "string \<Rightarrow> SchedulerError" where
  "pending_timeout aid =
     StartTimeout aid ''spawn timed out waiting for session establishment (cancelled, process termination pending)''"

text \<open>The task once its session is established, or \<open>None\<close> when the time is up without one.\<close>

definition poll_session :: "string \<Rightarrow> nat \<Rightarrow> TaskRecord option sched" where
  "poll_session aid deadline =
     sched_loop (\<lambda>_.
       sched_bind (ask w_interrupted) (\<lambda>stop.
       if stop then sched_err (Interrupted aid)
       else
         sched_bind (expect_task (''task '' @ aid @ '' disappeared from store'') aid) (\<lambda>task.
         if session_id task \<noteq> None
         then
           if \<not> starting_up task then sched_ok (Inr (Some task))
           else sched_bind (ask w_now) (\<lambda>now.
                  if deadline \<le> now then sched_err (resume_timeout aid) else sched_ok (Inl ()))
         else if phase task = Terminal then sched_err (start_failed aid task)
         else sched_bind (ask w_now) (\<lambda>now.
                sched_ok (if deadline \<le> now then Inr None else Inl ()))))) ()"

text \<open>Whether the task is seen to end in the time it is given.\<close>

definition poll_terminal :: "string \<Rightarrow> nat \<Rightarrow> bool sched" where
  "poll_terminal aid deadline =
     sched_loop (\<lambda>_.
       sched_bind (ask w_now) (\<lambda>now.
       if deadline \<le> now then sched_ok (Inr False)
       else
         sched_bind (attempt (read_task aid)) (\<lambda>r.
         if (case r of Inr (Some task) \<Rightarrow> phase task = Terminal | _ \<Rightarrow> False) then sched_ok (Inr True)
         else sched_bind (ask w_interrupted) (\<lambda>stop. sched_ok (if stop then Inr False else Inl ()))))) ()"

definition poll_resumed :: "string \<Rightarrow> nat \<Rightarrow> TaskRecord sched" where
  "poll_resumed aid deadline =
     sched_loop (\<lambda>_.
       sched_bind (ask w_now) (\<lambda>now.
       if deadline \<le> now then sched_err (resume_timeout aid)
       else
         sched_bind (ask w_interrupted) (\<lambda>stop.
         if stop then sched_err (Interrupted aid)
         else
           sched_bind (attempt (read_task aid)) (\<lambda>r.
             sched_ok (case r of
                Inr (Some task) \<Rightarrow> if starting_up task then Inl () else Inr task
              | _ \<Rightarrow> Inl ()))))) ()"

definition kill_target :: "StartingHandle option \<Rightarrow> nat \<Rightarrow> (int + nat) option" where
  "kill_target handle epoch =
     (case handle of
        None \<Rightarrow> None
      | Some h \<Rightarrow>
          if starting_owner_epoch h \<noteq> epoch then None
          else (case starting_identity h of
                  None \<Rightarrow> None
                | Some identity \<Rightarrow>
                    if 0 < process_group_id identity then Some (Inl (process_group_id identity))
                    else if 0 < pid identity then Some (Inr (pid identity)) else None))"

definition kill_starting :: "string \<Rightarrow> nat \<Rightarrow> unit sched" where
  "kill_starting aid epoch =
     sched_bind (access (\<lambda>i. (map_of (starting i) aid, i))) (\<lambda>handle.
     case kill_target handle epoch of
       None \<Rightarrow> sched_ok ()
     | Some target \<Rightarrow> ask (\<lambda>w k. w_kill w k target))"

definition cancel_fresh :: "string \<Rightarrow> TaskRecord \<Rightarrow> nat \<Rightarrow> TaskRecord sched" where
  "cancel_fresh aid enqueued deadline =
     sched_bind (store_write (\<lambda>clock. cancel_unstarted_if_still_fresh clock aid)) (\<lambda>r.
     case r of
       Inr (prior, epoch) \<Rightarrow>
         if prior = Queued
         then
           sched_bind (given (\<lambda>w. task_route (w_prep w) enqueued)) (\<lambda>routed.
           sched_bind (from_result InvalidConfig routed) (\<lambda>route.
           sched_bind (record_error aid (finish_unstarted_route aid route
               (unstarted CompletionOutcome.Cancelled ''CANCELLED'' ''spawn timed out before claim'' None) True)) (\<lambda>_.
             sched_err (cancelled_timeout aid))))
         else
           sched_bind (kill_starting aid epoch) (\<lambda>_.
           sched_bind (deadline_in convergence_budget) (\<lambda>until.
           sched_bind (poll_terminal aid until) (\<lambda>reached.
             sched_err (if reached then cancelled_timeout aid else pending_timeout aid))))
     | Inl current \<Rightarrow>
         if session_id current \<noteq> None
         then if \<not> starting_up current then sched_ok current else poll_resumed aid deadline
         else if phase current = Terminal then sched_err (start_failed aid current)
         else
           sched_bind (deadline_in convergence_budget) (\<lambda>until.
           sched_bind (poll_terminal aid until) (\<lambda>_. sched_err (cancelled_timeout aid))))"

definition submit_and_start_general ::
    "GeneralTaskManifest \<Rightarrow> AdmissionIdentity option \<Rightarrow> TaskRecord sched" where
  "submit_and_start_general manifest identity =
     sched_bind (enqueue_general_with_admission manifest identity) (\<lambda>enqueued.
     sched_bind (ask w_starter_thread) (\<lambda>failed.
     case failed of
       Some e \<Rightarrow> sched_err (RuntimeSpawn (agent_id enqueued) (''failed to spawn starter thread: '' @ e))
     | None \<Rightarrow>
         sched_bind (deadline_in spawn_wait_budget) (\<lambda>deadline.
         sched_bind (poll_session (agent_id enqueued) deadline) (\<lambda>established.
         case established of
           Some task \<Rightarrow> sched_ok task
         | None \<Rightarrow> cancel_fresh (agent_id enqueued) enqueued deadline))))"

end
