(* ===== verification/Scheduler_Messages.thy ===== *)
theory Scheduler_Messages
  imports Scheduler_Control
begin

text \<open>
  Messages and answers to an agent's requests (\<open>external-daemon/src/scheduler/messages.rs\<close>). The
  delivery of one message is in the theory of starting a task, which needs it too. The admission lock
  that \<open>send_message\<close> holds excludes a drain from starting meanwhile; the model lets it.
\<close>

section \<open>Messages\<close>

datatype MessageDisposition = DispQueued | DispDelivered | DispAlreadyDelivered | DispFailed

fun message_disposition :: "MessageState \<Rightarrow> MessageDisposition" where
  "message_disposition MsgDelivered = DispAlreadyDelivered"
| "message_disposition MsgFailed = DispFailed"
| "message_disposition MsgQueued = DispQueued"
| "message_disposition MsgSending = DispQueued"

definition terminal_resume_excluded :: "string \<Rightarrow> bool" where
  "terminal_resume_excluded agent \<longleftrightarrow> agent = ''dsh''"

definition resume_terminal_with_message :: "string \<Rightarrow> string \<Rightarrow> string \<Rightarrow> string \<Rightarrow> MessageDisposition sched" where
  "resume_terminal_with_message aid mid mode content =
     sched_bind (expect_task (''unknown task '' @ aid) aid) (\<lambda>task.
     sched_bind (given (\<lambda>w. task_agent (w_prep w) task)) (\<lambda>adapter.
     let eligible =
       (\<not> terminal_resume_excluded adapter
        \<and> (case session_id task of None \<Rightarrow> False | Some s \<Rightarrow> s \<noteq> [] \<and> length s \<le> 512)
        \<and> outcome task \<noteq> Some TaskOutcome.Cancelled
        \<and> \<not> stop_requested task \<and> \<not> close_requested task \<and> closed_at task = None) in
     if \<not> eligible then sched_err (RuntimeCommand aid ''TERMINAL_SEND_UNSUPPORTED'')
     else
       sched_bind (store_write (\<lambda>clock. requeue_task_for_resume_with_message clock aid mid mode content)) (\<lambda>queued.
         if \<not> queued then sched_err (RuntimeCommand aid ''TERMINAL_SEND_UNSUPPORTED'')
         else sched_ok DispQueued)))"

text \<open>The messages before this one are delivered first; a turn in progress stops the delivery of a queued one.\<close>

definition message_is :: "MessageState \<Rightarrow> StoredMessage option \<Rightarrow> bool" where
  "message_is st m = (case m of None \<Rightarrow> False | Some x \<Rightarrow> message_state x = st)"

definition deliver_up_to :: "string \<Rightarrow> string \<Rightarrow> string \<Rightarrow> bool \<Rightarrow> ActiveRuntime \<Rightarrow> ControlDeadline \<Rightarrow> unit sched" where
  "deliver_up_to aid mid mode native_queue act deadline =
     sched_loop (\<lambda>_.
       sched_bind (store_read (\<lambda>s. query_message s mid)) (\<lambda>m.
       if \<not> message_is MsgQueued m then sched_ok (Inr ())
       else
         sched_bind
           (if \<not> native_queue \<and> mode = ''queue''
            then sched_bind (ask w_snapshot) (\<lambda>turn. sched_ok (turn_active turn)) else sched_ok False) (\<lambda>busy.
         if busy then sched_ok (Inr ())
         else
           sched_bind (deliver_next_message aid (active_session_id act) (active_owner_epoch act) deadline) (\<lambda>sent.
             sched_ok (if sent = None then Inr () else Inl ()))))) ()"

definition deliver_now ::
    "string \<Rightarrow> string \<Rightarrow> string \<Rightarrow> string \<Rightarrow> ActiveRuntime \<Rightarrow> ControlDeadline \<Rightarrow> MessageDisposition sched" where
  "deliver_now aid mid mode adapter act deadline =
     (let native_queue = (adapter = ''codex'' \<or> adapter = ''agy'') in
      sched_bind
        (if mode = ''steer'' \<or> native_queue then sched_ok True
         else sched_bind (ask w_snapshot) (\<lambda>turn. sched_ok (\<not> turn_active turn))) (\<lambda>now.
      if \<not> now then sched_ok DispQueued
      else
        sched_bind (deliver_up_to aid mid mode native_queue act deadline) (\<lambda>_.
        sched_bind (store_read (\<lambda>s. query_message s mid)) (\<lambda>m.
          sched_ok (if message_is MsgDelivered m then DispDelivered else DispQueued)))))"

definition send_message :: "string \<Rightarrow> string \<Rightarrow> string \<Rightarrow> string \<Rightarrow> MessageDisposition sched" where
  "send_message aid mid mode content =
     (if mode \<noteq> ''queue'' \<and> mode \<noteq> ''steer'' then sched_err (InvalidConfig ''mode must be queue or steer'')
      else
      sched_bind control_deadline (\<lambda>deadline.
      sched_bind (store_read (\<lambda>s. query_message s mid)) (\<lambda>existing.
      case existing of
        Some m \<Rightarrow>
          if message_agent_id m = aid \<and> message_mode m = mode \<and> message_content m = content
          then sched_ok (message_disposition (message_state m))
          else sched_err (StoreFailure (Conflict ''MESSAGE_ID_CONFLICT''))
      | None \<Rightarrow>
          sched_bind (access (\<lambda>i. (draining i, i))) (\<lambda>closed.
          if closed then sched_err (RuntimeCommand aid ''daemon_draining'')
          else
          sched_bind (expect_task (''unknown task '' @ aid) aid) (\<lambda>task.
          sched_bind (given (\<lambda>w. task_agent (w_prep w) task)) (\<lambda>adapter.
          if mode = ''steer'' \<and> (adapter = ''dsh'' \<or> adapter = ''agy'')
          then sched_err (RuntimeCommand aid ''steer_unsupported'')
          else
          sched_bind (read_task aid) (\<lambda>current.
          if (case current of None \<Rightarrow> False | Some t \<Rightarrow> phase t = Terminal)
          then resume_terminal_with_message aid mid mode content
          else
          sched_bind (active_session aid) (\<lambda>act.
          sched_bind (case act of None \<Rightarrow> sched_ok () | Some _ \<Rightarrow> lock_operation aid deadline) (\<lambda>_.
          sched_bind
            (case act of
               Some a \<Rightarrow> require_runtime_ingress aid (active_owner_epoch a)
             | None \<Rightarrow>
                 sched_bind (read_task aid) (\<lambda>job.
                 if (case job of None \<Rightarrow> False
                     | Some j \<Rightarrow> phase j \<noteq> Running \<or> stop_requested j \<or> close_requested j)
                 then sched_err (late_ingress_error aid ''LATE_AFTER_STOP'') else sched_ok ())) (\<lambda>_.
          sched_bind (deadline_remaining deadline) (\<lambda>left.
          if left = None then sched_err (control_timeout_error aid)
          else
          sched_bind (store_write (\<lambda>clock. insert_message clock mid aid mode content)) (\<lambda>created.
          if \<not> created
          then sched_bind (store_read (\<lambda>s. query_message s mid)) (\<lambda>m.
                 sched_ok (case m of None \<Rightarrow> DispQueued | Some x \<Rightarrow> message_disposition (message_state x)))
          else
            (case act of
               None \<Rightarrow> sched_ok DispQueued
             | Some a \<Rightarrow> deliver_now aid mid mode adapter a deadline)))))))))))))"

section \<open>Answers\<close>

datatype ResponseDisposition = Responded | AlreadyResponded | InFlight

record ResponseOutcome =
  response_disposition :: ResponseDisposition
  requested_decision :: string
  effective_decision :: string
  policy_overrode :: bool
  policy_reason_code :: "string option"

definition answer_outcome :: "ResponseDisposition \<Rightarrow> string \<Rightarrow> ResponseOutcome" where
  "answer_outcome d decision =
     \<lparr>response_disposition = d, requested_decision = decision, effective_decision = decision,
      policy_overrode = False, policy_reason_code = None\<rparr>"

fun control_failure_code :: "RuntimeCommandError \<Rightarrow> string" where
  "control_failure_code CommandTimeout = ''CONTROL_DEADLINE_EXCEEDED''"
| "control_failure_code _ = ''CONTROL_RUNTIME_FAILED''"

definition valid_decision :: "string \<Rightarrow> string \<Rightarrow> string option \<Rightarrow> bool" where
  "valid_decision kind decision content =
     (if kind = ''permission'' then decision = ''allow'' \<or> decision = ''deny''
      else if kind = ''user_input''
      then decision = ''answer'' \<and> (case content of None \<Rightarrow> False | Some c \<Rightarrow> trim c \<noteq> [])
      else False)"

definition earlier_answer :: "StoredPendingRequest \<Rightarrow> string \<Rightarrow> SchedulerError + ResponseOutcome" where
  "earlier_answer request decision =
     (case response_decision request of
        None \<Rightarrow> Inl (InvalidConfig ''persisted response outcome is incomplete'')
      | Some effective \<Rightarrow>
          Inr \<lparr>response_disposition =
                 (if request_state request = ReqResponded then AlreadyResponded else InFlight),
               requested_decision = decision, effective_decision = effective,
               policy_overrode = (effective \<noteq> decision),
               policy_reason_code = (if effective \<noteq> decision then response_content request else None)\<rparr>)"

text \<open>Whether the task may no longer be answer_outcome by the owner of the given epoch.\<close>

definition not_accepting :: "nat \<Rightarrow> TaskRecord option \<Rightarrow> bool" where
  "not_accepting epoch current =
     (case current of
        None \<Rightarrow> True
      | Some job \<Rightarrow> owner_epoch job \<noteq> epoch \<or> (phase job \<noteq> Running \<and> phase job \<noteq> WaitingInput)
                   \<or> stop_requested job \<or> close_requested job)"

definition release_response :: "string \<Rightarrow> string \<Rightarrow> unit sched" where
  "release_response aid rid =
     sched_bind (store_write (\<lambda>clock. release_pending_response aid rid)) (\<lambda>_. sched_ok ())"

text \<open>What follows once the request has been claimed for this answer.\<close>

definition answer_claimed ::
    "string \<Rightarrow> StoredPendingRequest \<Rightarrow> string \<Rightarrow> string \<Rightarrow> string option \<Rightarrow> nat \<Rightarrow> ControlDeadline \<Rightarrow> ResponseOutcome sched" where
  "answer_claimed aid request rid decision content epoch deadline =
     sched_bind (attempt (require_runtime_ingress aid epoch)) (\<lambda>ingress.
     case ingress of
       Inl e \<Rightarrow> sched_bind (release_response aid rid) (\<lambda>_. sched_err e)
     | Inr _ \<Rightarrow>
         sched_bind (read_task aid) (\<lambda>current.
         if not_accepting epoch current
         then sched_bind (release_response aid rid) (\<lambda>_. sched_err (late_ingress_error aid ''TASK_STOPPING''))
         else
         sched_bind (attempt (runtime_phase_deadline_of aid deadline)) (\<lambda>phase_end.
         case phase_end of
           Inl e \<Rightarrow> sched_bind (release_response aid rid) (\<lambda>_. sched_err e)
         | Inr until \<Rightarrow>
             sched_bind (ask (\<lambda>w k. w_respond w k (correlation_id request) decision content until)) (\<lambda>sent.
             case sent of
               Inl e \<Rightarrow>
                 sched_bind (release_response aid rid) (\<lambda>_.
                 sched_bind (fail_closed_control aid epoch deadline (control_failure_code e) (command_error_text e)) (\<lambda>_.
                   sched_err (RuntimeCommand aid (command_error_text e))))
             | Inr _ \<Rightarrow>
                 sched_bind (deadline_remaining deadline) (\<lambda>left.
                 if left = None
                 then
                   sched_bind (release_response aid rid) (\<lambda>_.
                   sched_bind (fail_closed_control aid epoch deadline ''CONTROL_DEADLINE_EXCEEDED''
                       (scheduler_error_text (control_timeout_error aid))) (\<lambda>_.
                     sched_err (control_timeout_error aid)))
                 else
                   sched_bind (store_write (\<lambda>clock. complete_pending_response clock aid rid)) (\<lambda>completed.
                     if \<not> completed
                     then sched_err (StoreFailure (Conflict (''request '' @ rid @ '' lost its response claim'')))
                     else sched_ok (answer_outcome Responded decision)))))))"

definition scheduler_respond_request :: "string \<Rightarrow> string \<Rightarrow> string \<Rightarrow> string option \<Rightarrow> ResponseOutcome sched" where
  "scheduler_respond_request aid rid decision content =
     sched_bind control_deadline (\<lambda>deadline.
     sched_bind (store_read (\<lambda>s. pending_request s aid rid)) (\<lambda>found.
     case found of
       None \<Rightarrow> sched_err (StoreFailure (InvalidState (''unknown request '' @ rid)))
     | Some request \<Rightarrow>
         if \<not> valid_decision (request_type request) decision content
         then sched_err (InvalidConfig ''response decision does not match the pending request type'')
         else if request_state request \<noteq> ReqPending then from_result id (earlier_answer request decision)
         else
         sched_bind (active_session aid) (\<lambda>act.
         case act of
           None \<Rightarrow>
             sched_bind (read_task aid) (\<lambda>job.
               sched_err (RuntimeCommand aid
                 (if (case job of None \<Rightarrow> False
                      | Some j \<Rightarrow> (phase j \<noteq> Running \<and> phase j \<noteq> WaitingInput) \<or> stop_requested j \<or> close_requested j)
                  then ''LATE_AFTER_STOP'' else ''runtime is not active'')))
         | Some a \<Rightarrow>
             sched_bind (lock_operation aid deadline) (\<lambda>_.
             sched_bind (require_runtime_ingress aid (active_owner_epoch a)) (\<lambda>_.
             sched_bind (read_task aid) (\<lambda>current.
             if not_accepting (active_owner_epoch a) current
             then sched_err (late_ingress_error aid ''TASK_STOPPING'')
             else
             sched_bind (deadline_remaining deadline) (\<lambda>left.
             if left = None then sched_err (control_timeout_error aid)
             else
             sched_bind (store_write (\<lambda>clock. claim_pending_response_if_accepting aid rid decision content)) (\<lambda>claimed.
             case claimed of
               Claimed \<Rightarrow> answer_claimed aid request rid decision content (active_owner_epoch a) deadline
             | TaskStopping \<Rightarrow> sched_err (late_ingress_error aid ''TASK_STOPPING'')
             | PendingResponseClaimDisposition.NotFound \<Rightarrow> sched_err (StoreFailure (InvalidState (''unknown request '' @ rid)))
             | NotPending ReqSending \<Rightarrow> sched_ok (answer_outcome InFlight decision)
             | NotPending ReqResponded \<Rightarrow> sched_ok (answer_outcome AlreadyResponded decision)
             | NotPending ReqPending \<Rightarrow>
                 sched_err (StoreFailure (Conflict (''request '' @ rid @ '' claim did not change pending state''))))))))))) "

end
