(* ===== verification/Scheduler_Monitor.thy ===== *)
theory Scheduler_Monitor
  imports Scheduler_Control
begin

text \<open>
  The monitor thread of a running task (\<open>external-daemon/src/scheduler/monitor.rs\<close>). It waits for the
  runtime to end or for a turn to end, delivers waiting messages, and ends the task; a transport fault
  that the sink has latched goes before everything else. One round of its loop either goes on with the
  generation of the last turn it has handled, or ends the thread. Taking the operation lock is a step
  without an answer; the time it sleeps is not modelled.
\<close>

section \<open>Faults\<close>

datatype FaultDisposition = Handled | Suppressed | Abandoned

definition take_operation_lock :: "unit sched" where
  "take_operation_lock = ask (\<lambda>w k. ())"

definition sink_error :: "string \<times> nat \<Rightarrow> string option sched" where
  "sink_error key = access (\<lambda>i. (first_error (sink_state (cell_sink (cells i key))), i))"

definition sink_transport_failure :: "string \<times> nat \<Rightarrow> TransportFrameLimit option sched" where
  "sink_transport_failure key = access (\<lambda>i. (transport_failure (sink_state (cell_sink (cells i key))), i))"

definition cancel_active_check :: "string \<times> nat \<Rightarrow> unit sched" where
  "cancel_active_check key = access (\<lambda>i. ((), cancel_check key i))"

definition decision_task :: "string \<Rightarrow> (StoreError + TaskRecord option) sched" where
  "decision_task aid = transact (\<lambda>w k. read_store (\<lambda>s. get_task s aid))"

definition abandon_active_monitor :: "string \<Rightarrow> nat \<Rightarrow> unit sched" where
  "abandon_active_monitor aid epoch =
     sched_bind (release_active aid epoch) (\<lambda>_. record_error aid start_ready)"

definition finish_locked_monitor_terminal ::
    "string \<Rightarrow> nat \<Rightarrow> PreparedGeneralTask \<Rightarrow> TerminalDecision \<Rightarrow> TaskPhase sched" where
  "finish_locked_monitor_terminal aid epoch route d =
     sched_bind (expect_task ''active monitor task disappeared'' aid) (\<lambda>current.
     if phase current = Terminal \<or> owner_epoch current \<noteq> epoch then sched_ok (phase current)
     else
       sched_bind
         (if stop_requested current \<or> close_requested current
          then
            sched_bind (request_lifecycle_stop (aid, epoch)) (\<lambda>_.
            sched_bind (change_lifecycle (aid, epoch) force_terminating) (\<lambda>_.
            sched_bind configured_grace (\<lambda>grace.
            sched_bind (ask (\<lambda>w k. w_stop w k grace)) (\<lambda>t.
              sched_ok (d\<lparr>decided_terminal := t, natural_completion := False,
                forced_outcome := Some (CompletionOutcome.Cancelled, ''CANCELLED'')\<rparr>)))))
          else if forced_outcome d = None
          then
            sched_bind (sink_error (aid, epoch)) (\<lambda>failed.
              sched_ok (if failed \<noteq> None
                then d\<lparr>natural_completion := False,
                       forced_outcome := Some (CompletionOutcome.RuntimeLost, ''LIFECYCLE_SINK_FAILED'')\<rparr>
                else d))
          else sched_ok d) (finish_routed_terminal aid epoch route))"

definition terminal_decision ::
    "RuntimeTerminal \<Rightarrow> bool \<Rightarrow> (CompletionOutcome \<times> string) option \<Rightarrow> string option \<Rightarrow> TerminalDecision" where
  "terminal_decision t natural forced failure =
     \<lparr>decided_terminal = t, natural_completion = natural, forced_outcome = forced, decided_failure = failure\<rparr>"

definition transport_failure_message :: "json_codec \<Rightarrow> (RuntimeTerminal \<Rightarrow> string) \<Rightarrow> TransportFrameLimit \<Rightarrow> RuntimeTerminal \<Rightarrow> string" where
  "transport_failure_message codec debug f t =
     json_text codec (JObject
       [(''message'', JString (frame_reason f @ '': oversized NDJSON frame rejected (bytes='' @ to_decimal (frame_bytes f)
           @ '' cap='' @ to_decimal (frame_cap f) @ '' last_event_seq='' @ to_decimal (frame_last_event_seq f) @ '')'')),
        (''bytes'', JNumber (PosInt (frame_bytes f))), (''cap'', JNumber (PosInt (frame_cap f))),
        (''last_event_seq'', JNumber (PosInt (frame_last_event_seq f))),
        (''cleanup_result'', JString (debug t))])"

definition commit_fault ::
    "string \<Rightarrow> nat \<Rightarrow> PreparedGeneralTask \<Rightarrow> string \<Rightarrow> (world \<Rightarrow> RuntimeTerminal \<Rightarrow> string) \<Rightarrow> unit sched" where
  "commit_fault aid epoch route why detail =
     sched_bind (cancel_active_check (aid, epoch)) (\<lambda>_.
     sched_bind configured_grace (\<lambda>grace.
     sched_bind (ask (\<lambda>w k. w_cleanup_forced w k grace)) (\<lambda>t.
     sched_bind (given (\<lambda>w. detail w t)) (\<lambda>message.
     sched_bind take_operation_lock (\<lambda>_.
     sched_bind (record_error aid (finish_locked_monitor_terminal aid epoch route
         (terminal_decision t False (Some (CompletionOutcome.Failed, why)) (Some message)))) (\<lambda>_.
     sched_bind (release_active aid epoch) (\<lambda>_. record_error aid start_ready)))))))"

definition handle_transport_failure :: "string \<Rightarrow> nat \<Rightarrow> PreparedGeneralTask \<Rightarrow> FaultDisposition sched" where
  "handle_transport_failure aid epoch route =
     sched_bind (sink_transport_failure (aid, epoch)) (\<lambda>latched.
     case latched of
       None \<Rightarrow> sched_ok Suppressed
     | Some f \<Rightarrow>
         sched_bind take_operation_lock (\<lambda>_.
         sched_bind (decision_task aid) (\<lambda>found.
         case found of
           Inl e \<Rightarrow>
             sched_bind (with_lifecycle (aid, epoch) note_decision_read_error) (\<lambda>first.
             sched_bind (if first then record_failure aid (store_error_text e) else sched_ok ()) (\<lambda>_.
               sched_ok Suppressed))
         | Inr task \<Rightarrow>
             sched_bind
               (if (case task of None \<Rightarrow> False | Some t \<Rightarrow> phase t \<noteq> Terminal \<and> owner_epoch t = epoch)
                then active_instance_matches aid epoch else sched_ok False) (\<lambda>owned.
             if \<not> owned then sched_bind (abandon_active_monitor aid epoch) (\<lambda>_. sched_ok Abandoned)
             else
               sched_bind (request_lifecycle_stop (aid, epoch)) (\<lambda>_.
               sched_bind (change_lifecycle (aid, epoch) force_terminating) (\<lambda>_.
               sched_bind (commit_fault aid epoch route TRANSPORT_FRAME_LIMIT_REASON
                   (\<lambda>w. transport_failure_message (w_codec w) (w_debug w) f)) (\<lambda>_.
                 sched_ok Handled)))))))"

section \<open>The end of a runtime\<close>

text \<open>The end of the thread: \<open>Inr ()\<close> leaves the loop, \<open>Inl n\<close> goes on.\<close>

definition natural_admission :: "string \<times> nat \<Rightarrow> NaturalCompletionAdmission sched" where
  "natural_admission key =
     access (\<lambda>i. case begin_natural_completion (cell_sink (cells i key)) (cell_lifecycle (cells i key)) (inner_store i) of
                   (a, l) \<Rightarrow> (a, set_cell key (\<lambda>c. c\<lparr>cell_lifecycle := l\<rparr>) i))"

definition current_ingress :: "string \<times> nat \<Rightarrow> string option sched" where
  "current_ingress key = with_lifecycle key (\<lambda>l. (ingress_reason l, l))"

definition error_detail :: "SchedulerError \<Rightarrow> string" where
  "error_detail e = (case e of RuntimeCommand _ message \<Rightarrow> message | _ \<Rightarrow> scheduler_error_text e)"

definition release_and_start :: "string \<Rightarrow> nat \<Rightarrow> (nat + unit) sched" where
  "release_and_start aid epoch =
     sched_bind (release_active aid epoch) (\<lambda>_.
     sched_bind (record_error aid start_ready) (\<lambda>_. sched_ok (Inr ())))"

definition monitor_close :: "string \<Rightarrow> nat \<Rightarrow> PreparedGeneralTask \<Rightarrow> TerminalDecision \<Rightarrow> (nat + unit) sched" where
  "monitor_close aid epoch route d =
     sched_bind (record_error aid (finish_locked_monitor_terminal aid epoch route d)) (\<lambda>_.
     sched_bind (cancel_active_check (aid, epoch)) (\<lambda>_. release_and_start aid epoch))"

text \<open>A latched fault, if there is one; otherwise the round goes on.\<close>

definition fault_or ::
    "string \<Rightarrow> nat \<Rightarrow> PreparedGeneralTask \<Rightarrow> nat \<Rightarrow> (nat + unit) sched \<Rightarrow> (nat + unit) sched" where
  "fault_or aid epoch route handled go_on =
     sched_bind (sink_transport_failure (aid, epoch)) (\<lambda>latched.
     if latched = None then go_on
     else sched_bind (handle_transport_failure aid epoch route) (\<lambda>d.
            sched_ok (if d = Suppressed then Inl handled else Inr ())))"

definition monitor_terminal ::
    "string \<Rightarrow> nat \<Rightarrow> string \<Rightarrow> PreparedGeneralTask \<Rightarrow> nat \<Rightarrow> RuntimeTerminal \<Rightarrow> (nat + unit) sched" where
  "monitor_terminal aid epoch session route handled t =
     fault_or aid epoch route handled
      (sched_bind take_operation_lock (\<lambda>_.
       if \<not> is_completed_terminal t
       then
         sched_bind (current_ingress (aid, epoch)) (\<lambda>why.
         if why = Some ''LATE_AFTER_STOP'' then sched_ok (Inr ())
         else sched_bind (cancel_active_check (aid, epoch)) (\<lambda>_.
                monitor_close aid epoch route (terminal_decision t False None None)))
       else
         sched_bind (natural_admission (aid, epoch)) (\<lambda>admitted.
         case admitted of
           Deferred pending queued \<Rightarrow>
             if pending then sched_ok (Inl handled)
             else if queued
             then
               sched_bind control_deadline (\<lambda>deadline.
               sched_bind (attempt (deliver_next_message aid session epoch deadline)) (\<lambda>sent.
               case sent of
                 Inr _ \<Rightarrow> sched_ok (Inl handled)
               | Inl e \<Rightarrow>
                   sched_bind (record_runtime_failure aid (Some session) ''message_delivery'' ''SESSION_SEND_FAILED''
                       (error_detail e) True) (\<lambda>_. sched_ok (Inl handled))))
             else sched_panic
         | _ \<Rightarrow> monitor_close aid epoch route (terminal_decision t True None None))))"

definition monitor_sink_error :: "string \<Rightarrow> nat \<Rightarrow> PreparedGeneralTask \<Rightarrow> nat \<Rightarrow> (nat + unit) sched" where
  "monitor_sink_error aid epoch route handled =
     sched_bind (cancel_active_check (aid, epoch)) (\<lambda>_.
     sched_bind take_operation_lock (\<lambda>_.
     sched_bind (sink_error (aid, epoch)) (\<lambda>failed.
     case failed of
       None \<Rightarrow> sched_ok (Inl handled)
     | Some e \<Rightarrow>
         sched_bind (request_lifecycle_stop (aid, epoch)) (\<lambda>_.
         sched_bind (change_lifecycle (aid, epoch) force_terminating) (\<lambda>_.
         sched_bind configured_grace (\<lambda>grace.
         sched_bind (ask (\<lambda>w k. w_stop w k grace)) (\<lambda>t.
         sched_bind (record_error aid (finish_locked_monitor_terminal aid epoch route
             (terminal_decision t False (Some (CompletionOutcome.RuntimeLost, ''LIFECYCLE_SINK_FAILED'')) None))) (\<lambda>_.
         sched_bind (record_failure aid e) (\<lambda>_.
         sched_bind (release_active aid epoch) (\<lambda>_. sched_ok (Inr ()))))))))))) "

section \<open>The end of a turn\<close>

definition monitor_turn_end ::
    "string \<Rightarrow> nat \<Rightarrow> PreparedGeneralTask \<Rightarrow> TurnBoundary \<Rightarrow> ControlDeadline \<Rightarrow> (nat + unit) sched" where
  "monitor_turn_end aid epoch route boundary deadline =
     sched_bind (if boundary \<noteq> BoundaryCompleted then cancel_active_check (aid, epoch) else sched_ok ()) (\<lambda>_.
     sched_bind (cleanup_grace_now deadline) (\<lambda>grace.
     sched_bind (ask (\<lambda>w k. w_finish_turn w k boundary grace)) (\<lambda>t.
       monitor_close aid epoch route (terminal_decision t (boundary = BoundaryCompleted) None None))))"

definition monitor_delivery_failed ::
    "string \<Rightarrow> nat \<Rightarrow> string \<Rightarrow> PreparedGeneralTask \<Rightarrow> SchedulerError \<Rightarrow> ControlDeadline \<Rightarrow> (nat + unit) sched" where
  "monitor_delivery_failed aid epoch session route e deadline =
     sched_bind (cancel_active_check (aid, epoch)) (\<lambda>_.
     sched_bind (cleanup_grace_now deadline) (\<lambda>grace.
     sched_bind (ask (\<lambda>w k. w_finish_turn w k BoundaryFailed grace)) (\<lambda>t.
     sched_bind (given (\<lambda>w. cleanup_detail (w_codec w) (error_detail e) (w_debug w t))) (\<lambda>detail.
     sched_bind (record_error aid (finish_locked_monitor_terminal aid epoch route
         (terminal_decision t False (Some (CompletionOutcome.Failed, ''MESSAGE_DELIVERY_FAILED'')) (Some detail)))) (\<lambda>_.
     sched_bind (record_runtime_failure aid (Some session) ''message_delivery'' ''SESSION_SEND_FAILED'' detail True) (\<lambda>_.
       release_and_start aid epoch))))))"

text \<open>\<open>None\<close>: the completion has to wait, and the turn is looked at again.\<close>

definition monitor_delivery ::
    "string \<Rightarrow> nat \<Rightarrow> string \<Rightarrow> TurnBoundary \<Rightarrow> ControlDeadline \<Rightarrow> (SchedulerError + StoredMessage option) option sched" where
  "monitor_delivery aid epoch session boundary deadline =
     (let deliver = sched_bind (attempt (deliver_next_message aid session epoch deadline)) (\<lambda>r. sched_ok (Some r)) in
      if boundary \<noteq> BoundaryCompleted then deliver
      else
        sched_bind (natural_admission (aid, epoch)) (\<lambda>admitted.
        case admitted of
          Deferred pending queued \<Rightarrow> if \<not> pending \<and> queued then deliver else sched_ok None
        | _ \<Rightarrow> sched_ok (Some (Inr None))))"

definition monitor_turn ::
    "string \<Rightarrow> nat \<Rightarrow> string \<Rightarrow> PreparedGeneralTask \<Rightarrow> nat \<Rightarrow> (nat + unit) sched" where
  "monitor_turn aid epoch session route handled =
     sched_bind (ask w_snapshot) (\<lambda>turn.
     case turn_boundary turn of
       None \<Rightarrow> sched_ok (Inl handled)
     | Some boundary \<Rightarrow>
         if turn_active turn \<or> turn_generation turn \<le> handled then sched_ok (Inl handled)
         else
         fault_or aid epoch route handled
          (sched_bind take_operation_lock (\<lambda>_.
           sched_bind (if boundary \<noteq> BoundaryCompleted then current_ingress (aid, epoch) else sched_ok None) (\<lambda>why.
           if why \<noteq> None then sched_ok (Inr ())
           else
           sched_bind (ask w_snapshot) (\<lambda>current.
           if turn_active current \<or> turn_generation current \<noteq> turn_generation turn
              \<or> turn_boundary current \<noteq> Some boundary
           then sched_ok (Inl handled)
           else
           sched_bind control_deadline (\<lambda>deadline.
           sched_bind (monitor_delivery aid epoch session boundary deadline) (\<lambda>delivery.
           case delivery of
             None \<Rightarrow> sched_ok (Inl (turn_generation turn - 1))
           | Some (Inr (Some _)) \<Rightarrow> sched_ok (Inl (turn_generation turn))
           | Some (Inr None) \<Rightarrow> monitor_turn_end aid epoch route boundary deadline
           | Some (Inl e) \<Rightarrow> monitor_delivery_failed aid epoch session route e deadline)))))))"

definition monitor_round ::
    "string \<Rightarrow> nat \<Rightarrow> string \<Rightarrow> PreparedGeneralTask \<Rightarrow> nat \<Rightarrow> (nat + unit) sched" where
  "monitor_round aid epoch session route handled =
     sched_bind (sink_transport_failure (aid, epoch)) (\<lambda>latched.
     sched_bind (if latched = None then sched_ok Suppressed else handle_transport_failure aid epoch route) (\<lambda>d.
     if d \<noteq> Suppressed then sched_ok (Inr ())
     else
       sched_bind (ask (\<lambda>w k. w_wait_terminal w k 50000000)) (\<lambda>terminal.
       case terminal of
         Some t \<Rightarrow> monitor_terminal aid epoch session route handled t
       | None \<Rightarrow>
           sched_bind (sink_error (aid, epoch)) (\<lambda>failed.
             if failed \<noteq> None then monitor_sink_error aid epoch route handled
             else monitor_turn aid epoch session route handled))))"

definition spawn_monitor :: "string \<Rightarrow> nat \<Rightarrow> string \<Rightarrow> PreparedGeneralTask \<Rightarrow> unit sched" where
  "spawn_monitor aid epoch session route = sched_loop (monitor_round aid epoch session route) 0"

end
