(* ===== verification/Scheduler_Safety.thy ===== *)
theory Scheduler_Safety
  imports Scheduler_Submit Scheduler_Messages Scheduler_Monitor Store_Properties
begin

text \<open>
  What the scheduler's operations guarantee to the other threads, in the manner of rely and guarantee: the
  world is assumed to change the state only along a relation, and every operation is shown to change it
  only along that relation. The rules are proved once in a locale; the first instance says that the
  scheduler uses the store only through its operations, in any interleaving.
\<close>

section \<open>Guarantees of operations\<close>

definition guarantees ::
    "(world \<Rightarrow> bool) \<Rightarrow> (SchedulerInner \<Rightarrow> SchedulerInner \<Rightarrow> bool) \<Rightarrow> 'a sched \<Rightarrow> bool" where
  "guarantees ok rel m \<longleftrightarrow> (\<forall>w i r i'. ok w \<longrightarrow> m w i = Some (r, i') \<longrightarrow> rel i i')"

lemma guaranteesI: "(\<And>w i r i'. ok w \<Longrightarrow> m w i = Some (r, i') \<Longrightarrow> rel i i') \<Longrightarrow> guarantees ok rel m"
  by (auto simp: guarantees_def)

lemma guaranteesD: "guarantees ok rel m \<Longrightarrow> ok w \<Longrightarrow> m w i = Some (r, i') \<Longrightarrow> rel i i'"
  by (auto simp: guarantees_def)

lemma guarantees_case:
  "guarantees ok rel a \<Longrightarrow> (\<And>y. x = Some y \<Longrightarrow> guarantees ok rel (f y)) \<Longrightarrow>
     guarantees ok rel (case x of None \<Rightarrow> a | Some y \<Rightarrow> f y)"
  "(\<And>e. z = Inl e \<Longrightarrow> guarantees ok rel (g e)) \<Longrightarrow> (\<And>y. z = Inr y \<Longrightarrow> guarantees ok rel (h y)) \<Longrightarrow>
     guarantees ok rel (case z of Inl e \<Rightarrow> g e | Inr y \<Rightarrow> h y)"
  "(\<And>a b. p = (a, b) \<Longrightarrow> guarantees ok rel (k a b)) \<Longrightarrow> guarantees ok rel (case p of (a, b) \<Rightarrow> k a b)"
  "(c \<Longrightarrow> guarantees ok rel m) \<Longrightarrow> (\<not> c \<Longrightarrow> guarantees ok rel n) \<Longrightarrow> guarantees ok rel (if c then m else n)"
  "guarantees ok rel (q v) \<Longrightarrow> guarantees ok rel (Let v q)"
  by (auto split: option.split sum.split prod.split)

locale sched_relation =
  fixes ok :: "world \<Rightarrow> bool"
    and rel :: "SchedulerInner \<Rightarrow> SchedulerInner \<Rightarrow> bool"
  assumes refl: "rel i i"
    and trans: "rel i j \<Longrightarrow> rel j l \<Longrightarrow> rel i l"
    and others: "ok w \<Longrightarrow> rel i (others_first w i)"
begin

lemma returning: "guarantees ok rel (sched_ok x)" "guarantees ok rel (sched_err e)" "guarantees ok rel sched_panic"
    "guarantees ok rel (given g)" "guarantees ok rel (from_result f y)"
  by (auto simp: guarantees_def sched_ok_def sched_err_def sched_panic_def given_def from_result_def refl split: sum.splits)

lemma bind_value:
  assumes "guarantees ok rel m" "\<And>w i x i'. ok w \<Longrightarrow> m w i = Some (Inr x, i') \<Longrightarrow> p x"
    and "\<And>x. p x \<Longrightarrow> guarantees ok rel (f x)"
  shows "guarantees ok rel (sched_bind m f)"
proof (rule guaranteesI)
  fix w i r i' assume w: "ok w" and run: "sched_bind m f w i = Some (r, i')"
  then obtain r1 i1 where m: "m w i = Some (r1, i1)"
    and rest: "case r1 of Inl e \<Rightarrow> Some (Inl e, i1) = Some (r, i') | Inr x \<Rightarrow> f x w i1 = Some (r, i')"
    by (auto simp: sched_bind_def split: Option.bind_splits sum.splits)
  have "rel i i1" by (rule guaranteesD [OF assms(1) w m])
  moreover have "rel i1 i'"
  proof (cases r1)
    case (Inl e)
    with rest show ?thesis by (simp add: refl)
  next
    case (Inr x)
    with rest guaranteesD [OF assms(3) [OF assms(2)] w] m w show ?thesis by auto
  qed
  ultimately show "rel i i'" by (rule trans)
qed

lemma bind: "guarantees ok rel m \<Longrightarrow> (\<And>x. guarantees ok rel (f x)) \<Longrightarrow> guarantees ok rel (sched_bind m f)"
  by (rule bind_value [where p = "\<lambda>_. True"]) simp_all

lemma attempt: "guarantees ok rel m \<Longrightarrow> guarantees ok rel (attempt m)"
  by (auto simp: guarantees_def attempt_def split: Option.bind_splits)

lemma ask: "guarantees ok rel (ask answer)"
  by (auto simp: guarantees_def ask_def others)

lemma accessing:
  assumes "\<And>i x i'. f i = (x, i') \<Longrightarrow> rel i i'"
  shows "guarantees ok rel (access f)"
  by (auto simp: guarantees_def access_def split: prod.splits intro: trans [OF others] assms)

lemma record_error: "(\<And>a m. guarantees ok rel (record_failure a m)) \<Longrightarrow> guarantees ok rel m \<Longrightarrow>
    guarantees ok rel (record_error a m)"
  unfolding record_error_def by (intro bind attempt guarantees_case returning)

lemma for_each: "(\<And>x. guarantees ok rel (f x)) \<Longrightarrow> guarantees ok rel (for_each f xs)"
  by (induction xs) (auto intro: returning bind)

lemma loop_value:
  assumes "sched_loop body st w i = Some y" "\<And>st. guarantees ok rel (body st)" "ok w"
  shows "rel i (snd y)"
proof -
  let ?P = "\<lambda>body st w i y. (\<forall>st. guarantees ok rel (body st)) \<longrightarrow> ok w \<longrightarrow> rel i (snd y)"
  have "?P body st w i y"
  proof (rule sched_loop.raw_induct [where P = ?P, OF _ assms(1)])
    fix loop body st w i y
    assume IH: "\<And>body st w i y. loop body st w i = Some y \<Longrightarrow> ?P body st w i y"
      and run: "Option.bind (body st w i) (\<lambda>(r, i'). case r of Inl e \<Rightarrow> Some (Inl e, i')
        | Inr c \<Rightarrow> (case c of Inl st' \<Rightarrow> loop body st' w i' | Inr x \<Rightarrow> Some (Inr x, i'))) = Some y"
    show "?P body st w i y"
    proof (intro impI)
      assume body: "\<forall>st. guarantees ok rel (body st)" and w: "ok w"
      from run obtain r j where r: "body st w i = Some (r, j)" by (auto split: Option.bind_splits)
      have "rel i j" using body w r by (auto simp: guarantees_def)
      moreover have "rel j (snd y)"
        using run r IH body w by (auto simp: refl split: sum.splits)
      ultimately show "rel i (snd y)" by (rule trans)
    qed
  qed
  with assms(2,3) show ?thesis by blast
qed

lemma loop: "(\<And>st. guarantees ok rel (body st)) \<Longrightarrow> guarantees ok rel (sched_loop body st)"
  by (rule guaranteesI) (use loop_value in fastforce)

lemmas steps = returning bind attempt ask guarantees_case

end

section \<open>The scheduler uses the store through its operations\<close>

definition store_runs :: "SchedulerInner \<Rightarrow> SchedulerInner \<Rightarrow> bool" where
  "store_runs i i' \<longleftrightarrow> store_step\<^sup>*\<^sup>* (inner_store i) (inner_store i')"

text \<open>
  The world is one of this daemon: other threads change the store through its operations too, and the
  identity of a spawned process has the ranges of its integer types.
\<close>

definition fair_world :: "world \<Rightarrow> bool" where
  "fair_world w \<longleftrightarrow>
     (\<forall>k i. store_step\<^sup>*\<^sup>* (inner_store i) (inner_store (w_others w k i)))
     \<and> (\<forall>k n s. store_step\<^sup>*\<^sup>* s (w_inside w k n s))
     \<and> (\<forall>k identity. w_spawn w k = Inr identity \<longrightarrow> identity_in_range identity)"

interpretation runs: sched_relation fair_world store_runs
  by unfold_locales (auto simp: store_runs_def fair_world_def others_first_def intro: rtranclp_trans)

definition steps_run :: "'a steps \<Rightarrow> bool" where
  "steps_run m \<longleftrightarrow> (\<forall>s r s'. m s = (r, s') \<longrightarrow> store_step\<^sup>*\<^sup>* s s')"

lemma steps_run_commit: "(\<And>s v s'. f s = Inr (v, s') \<Longrightarrow> store_step s s') \<Longrightarrow> steps_run (commit f)"
  by (fastforce simp: steps_run_def commit_def split: sum.splits prod.splits)

lemma steps_run_read: "steps_run (read_store f)" "steps_run (fail_steps e)" "steps_run (return_steps x)"
  by (auto simp: steps_run_def read_store_def fail_steps_def return_steps_def)

lemma steps_run_others:
  assumes "\<And>s. store_step\<^sup>*\<^sup>* s (f s)" "steps_run m"
  shows "steps_run (after_others f m)"
  using assms rtranclp_trans by (fastforce simp: steps_run_def after_others_def)

lemma steps_run_then:
  assumes "steps_run m" "\<And>x. steps_run (f x)"
  shows "steps_run (then_steps m f)"
  unfolding steps_run_def then_steps_def
proof (intro allI impI)
  fix s r s' assume run: "(case m s of (Inl e, s') \<Rightarrow> (Inl e, s') | (Inr x, s') \<Rightarrow> f x s') = (r, s')"
  obtain r1 s1 where m: "m s = (r1, s1)" by fastforce
  then have "store_step\<^sup>*\<^sup>* s s1" using assms(1) by (auto simp: steps_run_def)
  moreover have "store_step\<^sup>*\<^sup>* s1 s'"
    using run m assms(2) by (cases r1) (auto simp: steps_run_def)
  ultimately show "store_step\<^sup>*\<^sup>* s s'" by (rule rtranclp_trans)
qed

lemma steps_run_reap: "steps_run (commit_reap clock aid)"
  by (fastforce simp: steps_run_def commit_reap_def split: sum.splits prod.splits intro: store_step.reap)

lemma steps_run_append: "steps_run (commit_append clock e)"
  by (fastforce simp: steps_run_def commit_append_def split: sum.splits prod.splits intro: store_step.log_event)

lemmas steps_run_rules = steps_run_read steps_run_others steps_run_then steps_run_reap steps_run_append

lemma store_result_run:
  assumes "\<And>n s. store_step\<^sup>*\<^sup>* s (meanwhile n s)"
  shows "steps_run (store_result_with_cancel_precedence digest clock meanwhile aid res why message)"
  unfolding steps_run_def
proof (intro allI impI)
  fix s r s'
  assume run: "store_result_with_cancel_precedence digest clock meanwhile aid res why message s = (r, s')"
  let ?first = "commit (store_task_result_with_reason digest clock aid res why message)"
  obtain r1 s1 where first: "?first s = (r1, s1)" by fastforce
  have "steps_run ?first" by (intro steps_run_commit store_step.result)
  then have "store_step\<^sup>*\<^sup>* s s1" using first by (auto simp: steps_run_def)
  moreover have retry: "steps_run (then_steps (after_others (meanwhile 0)
      (read_store (\<lambda>s. require_task ''terminal result task disappeared'' s aid))) (\<lambda>task.
      if (stop_requested task \<or> close_requested task) \<and> result_outcome res \<noteq> TaskOutcome.Cancelled
      then then_steps (after_others (meanwhile 1) (read_store (\<lambda>s. query_task_result s aid))) (\<lambda>existing.
             if existing = None
             then after_others (meanwhile 2)
                    (commit (store_task_result_with_reason digest (\<lambda>n. clock (n + 8)) aid bounded_cancelled_task_result None None))
             else fail_steps (Conflict m))
      else fail_steps (Conflict m)))" for m
    by (intro steps_run_rules steps_run_commit assms) (auto intro!: steps_run_rules steps_run_commit assms store_step.result)
  have "store_step\<^sup>*\<^sup>* s1 s'"
  proof (cases r1)
    case (Inl e)
    then show ?thesis
      using run first retry
      by (cases e) (auto simp: store_result_with_cancel_precedence_def steps_run_def)
  qed (use run first in \<open>auto simp: store_result_with_cancel_precedence_def\<close>)
  ultimately show "store_step\<^sup>*\<^sup>* s s'" by (rule rtranclp_trans)
qed

lemma persist_result_run:
  "(\<And>n s. store_step\<^sup>*\<^sup>* s (meanwhile n s)) \<Longrightarrow> steps_run (persist_general_result digest clock meanwhile aid c)"
  unfolding persist_general_result_def by (rule store_result_run)

lemma finish_general_run:
  assumes "\<And>n s. store_step\<^sup>*\<^sup>* s (meanwhile n s)" "finish_general codec digest clock meanwhile k t c s = (r, k', s')"
  shows "store_step\<^sup>*\<^sup>* s s'"
proof (cases "first_error (sink_state k) \<noteq> None \<or> terminal_written (sink_state k)")
  case True
  then show ?thesis using assms(2)
    by (auto simp: finish_general_def task_phase_def read_store_def split: if_splits option.splits)
next
  case False
  let ?seq = "case pending_terminal_sequence (sink_state k) of
      Some n \<Rightarrow> n | None \<Rightarrow> saturating_add_u64 (last_source_sequence (sink_state k)) 1"
  let ?written = "then_steps (commit_append clock (lifecycle_write codec k ?seq
        (lifecycle_projection (TerminalEvent t) None) None)) (\<lambda>_.
      then_steps (after_others (meanwhile 10)
        (persist_general_result digest (\<lambda>n. clock (n + 16)) meanwhile (sink_agent_id k) c)) (\<lambda>_.
      if cleaned c \<and> terminal_proves_process_group_reaped t
      then then_steps (after_others (meanwhile 11) (commit_reap (\<lambda>n. clock (n + 32)) (sink_agent_id k)))
             (\<lambda>_. return_steps ())
      else return_steps ()))"
  have run: "steps_run ?written"
    by (intro steps_run_rules persist_result_run assms(1)) (auto intro!: steps_run_rules assms(1))
  obtain r1 s1 where w: "?written s = (r1, s1)" by fastforce
  then have "store_step\<^sup>*\<^sup>* s s1" using run by (auto simp: steps_run_def)
  moreover have "store_step\<^sup>*\<^sup>* s1 s'"
    using assms False w
    by (cases r1) (auto simp: finish_general_def Let_def after_others_def task_phase_def read_store_def split: prod.splits)
  ultimately show ?thesis by (rule rtranclp_trans)
qed

section \<open>Operations\<close>

named_theorems runs_ops

lemma run_transact:
  assumes "\<And>w k. fair_world w \<Longrightarrow> steps_run (m w k)"
  shows "guarantees fair_world store_runs (transact m)"
proof (rule guaranteesI)
  fix w i r i' assume w: "fair_world w" and run: "transact m w i = Some (r, i')"
  let ?i = "others_first w i"
  obtain r1 s1 where m: "m w (steps_done i) (inner_store ?i) = (r1, s1)" by fastforce
  then have "store_step\<^sup>*\<^sup>* (inner_store ?i) s1" using assms [OF w] by (auto simp: steps_run_def)
  moreover have "store_step\<^sup>*\<^sup>* (inner_store i) (inner_store ?i)"
    using runs.others [OF w, of i] by (simp add: store_runs_def)
  moreover have "inner_store i' = s1" using run m by (auto simp: transact_def Let_def)
  ultimately show "store_runs i i'" by (simp add: store_runs_def)
qed

lemma run_store_call: "(\<And>w k. fair_world w \<Longrightarrow> steps_run (m w k)) \<Longrightarrow> guarantees fair_world store_runs (store_call m)"
  unfolding store_call_def by (intro runs.steps run_transact)

lemma run_store_write:
  "(\<And>clock s v s'. f clock s = Inr (v, s') \<Longrightarrow> store_step s s') \<Longrightarrow> guarantees fair_world store_runs (store_write f)"
  unfolding store_write_def by (intro run_store_call steps_run_commit) blast

lemma run_reads [runs_ops]:
  "guarantees fair_world store_runs (store_read f)"
  "guarantees fair_world store_runs (read_task aid)"
  "guarantees fair_world store_runs (expect_task message aid)"
  unfolding expect_task_def read_task_def store_read_def
  by (intro runs.steps run_store_call steps_run_read)+

lemma run_access: "(\<And>i. inner_store (snd (f i)) = inner_store i) \<Longrightarrow> guarantees fair_world store_runs (access f)"
  by (rule runs.accessing) (metis (no_types) rtranclp.rtrancl_refl snd_conv store_runs_def)

lemma inner_store_set_cell [simp]: "inner_store (set_cell key f i) = inner_store i"
  by (simp add: set_cell_def)

lemma run_results [runs_ops]:
  "guarantees fair_world store_runs (store_result aid res why message)"
  "guarantees fair_world store_runs (reap aid)"
  unfolding store_result_def reap_def
  by (intro run_store_call steps_run_commit store_step.result steps_run_reap; assumption)+

lemma run_state [runs_ops]:
  "guarantees fair_world store_runs (with_lifecycle key f)"
  "guarantees fair_world store_runs (change_lifecycle key g)"
  "guarantees fair_world store_runs (active_session aid)"
  "guarantees fair_world store_runs (release_active aid epoch)"
  "guarantees fair_world store_runs (remove_starting aid epoch)"
  unfolding with_lifecycle_def change_lifecycle_def active_session_def release_active_def remove_starting_def
  by (rule run_access; simp split: prod.splits option.splits)+

lemma run_failures [runs_ops]:
  "guarantees fair_world store_runs (record_failure_line aid message text)"
  "guarantees fair_world store_runs (record_failure aid message)"
  "guarantees fair_world store_runs (persistable_failure_record_for aid session stage code message owned)"
  "guarantees fair_world store_runs (record_runtime_failure aid session stage code message owned)"
  unfolding record_failure_def record_runtime_failure_def persistable_failure_record_for_def
    record_failure_line_def runtime_diagnostic_def
  by (intro runs.steps run_access; simp)+

lemma run_record_error [runs_ops]:
  "guarantees fair_world store_runs m \<Longrightarrow> guarantees fair_world store_runs (record_error aid m)"
  by (rule runs.record_error) (rule runs_ops)

lemma run_persist [runs_ops]:
  "guarantees fair_world store_runs (persist_general_completion aid c reaped)"
  "guarantees fair_world store_runs (finish_unstarted_route aid route t gone)"
  unfolding finish_unstarted_route_def persist_general_completion_def
  by (intro runs.steps runs_ops run_transact run_store_call persist_result_run store_result_run;
      simp add: fair_world_def)+

lemma inner_store_activity [simp]:
  "inner_store (set_activity key f i) = inner_store i" "inner_store (register_activity order aid epoch i) = inner_store i"
  by (simp_all add: set_activity_def register_activity_def Let_def split: option.split)

lemma run_activity [runs_ops]:
  "guarantees fair_world store_runs (source_verified_now adapter)"
  "guarantees fair_world store_runs (passive_activity_snapshot aid)"
  "guarantees fair_world store_runs (scheduler_take_wait_tail aid)"
  "guarantees fair_world store_runs (scheduler_peek_wait_tail aid)"
  "guarantees fair_world store_runs (take_cell_terminal_text key)"
  unfolding scheduler_take_wait_tail_def scheduler_peek_wait_tail_def
    take_cell_terminal_text_def
  by (auto intro!: guaranteesI run_access simp: source_verified_now_def passive_activity_snapshot_def Let_def
      split: option.split prod.split dest: runs.others)

lemma run_sink_finish [runs_ops]: "guarantees fair_world store_runs (sink_finish key t c)"
proof (rule guaranteesI)
  fix w i r i' assume w: "fair_world w" and run: "sink_finish key t c w i = Some (r, i')"
  have inside: "\<And>n s. store_step\<^sup>*\<^sup>* s (w_inside w (steps_done i) n s)" using w by (simp add: fair_world_def)
  have "store_step\<^sup>*\<^sup>* (inner_store (others_first w i)) (inner_store i')"
    using run by (auto simp: sink_finish_def Let_def split: prod.splits dest!: finish_general_run [OF inside])
  moreover have "store_step\<^sup>*\<^sup>* (inner_store i) (inner_store (others_first w i))"
    using runs.others [OF w, of i] by (simp add: store_runs_def)
  ultimately show "store_runs i i'" by (simp add: store_runs_def)
qed

lemma run_routed [runs_ops]:
  "guarantees fair_world store_runs (routed_failure aid oc why d)"
  "guarantees fair_world store_runs (finish_routed_terminal aid epoch route d)"
  unfolding finish_routed_terminal_def routed_failure_def
  by (intro runs.steps runs_ops)+

lemma run_cleanup [runs_ops]:
  "guarantees fair_world store_runs (request_lifecycle_stop key)"
  "guarantees fair_world store_runs (cleanup_registered_runtime_with_grace aid epoch failure grace)"
  "guarantees fair_world store_runs (cleanup_registered_runtime aid epoch failure)"
  unfolding cleanup_registered_runtime_def cleanup_registered_runtime_with_grace_def request_lifecycle_stop_def
  by (intro runs.steps runs_ops run_access run_store_write; simp add: cancel_check_def store_step.runtime_stop)+

lemma run_helpers [runs_ops]:
  "guarantees fair_world store_runs (require_runtime_ingress aid epoch)"
  "guarantees fair_world store_runs control_deadline"
  "guarantees fair_world store_runs configured_grace"
  "guarantees fair_world store_runs (deadline_remaining d)"
  "guarantees fair_world store_runs (cleanup_grace_now d)"
  "guarantees fair_world store_runs (runtime_phase_timeout aid d)"
  "guarantees fair_world store_runs (runtime_phase_deadline_of aid d)"
  unfolding require_runtime_ingress_def control_deadline_def configured_grace_def deadline_remaining_def
    cleanup_grace_now_def runtime_phase_timeout_def runtime_phase_deadline_of_def
  by (intro runs.steps runs_ops run_access; simp)+

lemma run_deliver [runs_ops]:
  "guarantees fair_world store_runs (deliver_turn aid session m deadline)"
  "guarantees fair_world store_runs (deliver_next_message aid session epoch deadline)"
  unfolding deliver_turn_def deliver_next_message_def
  by (intro runs.steps runs_ops run_store_write;
      auto intro: store_step.claim_message store_step.undeliver store_step.deliver)+

lemma run_start_parts [runs_ops]:
  "guarantees fair_world store_runs (invalid_claim claim task code message)"
  "guarantees fair_world store_runs (abandon_start claim route session stage oc code message)"
  unfolding invalid_claim_def abandon_start_def
  by (intro runs.steps runs_ops run_store_write; auto intro: store_step.fail)+

lemma run_register:
  "identity_in_range identity \<Longrightarrow> guarantees fair_world store_runs (register_runtime claim task route identity session)"
  unfolding register_runtime_def
  by (intro runs.steps runs_ops run_access run_transact steps_run_commit steps_run_read;
      auto intro: store_step.start)

lemma run_start_claim [runs_ops]: "guarantees fair_world store_runs (start_claim claim)"
proof -
  have spawn: "guarantees fair_world store_runs (sched_bind (ask w_spawn) f)"
    if "\<And>r. (\<And>identity. r = Inr identity \<Longrightarrow> identity_in_range identity) \<Longrightarrow> guarantees fair_world store_runs (f r)" for f :: "_ \<Rightarrow> 'a sched"
    by (rule runs.bind_value [where p = "\<lambda>r. \<forall>identity. r = Inr identity \<longrightarrow> identity_in_range identity"])
      (auto simp: ask_def fair_world_def intro: runs.ask that)
  show ?thesis
    unfolding start_claim_def
    by (intro spawn runs.steps runs_ops run_access run_register; simp)
qed

lemma run_start_ready [runs_ops]: "guarantees fair_world store_runs start_ready"
  unfolding start_ready_def start_next_def
  by (intro runs.loop runs.steps runs_ops run_access run_store_write; auto intro: store_step.claim)

lemma run_control [runs_ops]:
  "guarantees fair_world store_runs (fail_closed_control aid epoch deadline code message)"
  "guarantees fair_world store_runs (lock_operation aid deadline)"
  "guarantees fair_world store_runs (request_cooperative_stop key session timeout)"
  "guarantees fair_world store_runs (converge_unstarted aid)"
  unfolding fail_closed_control_def lock_operation_def request_cooperative_stop_def converge_unstarted_def cancel_routed_def
  by (intro runs.loop runs.steps runs_ops run_access; simp)+

lemma run_stop [runs_ops]:
  "guarantees fair_world store_runs (stop_active aid close deadline act now_active epoch)"
  "guarantees fair_world store_runs (request_stop_or_close aid close deadline)"
  "guarantees fair_world store_runs (cancel_task aid)"
  "guarantees fair_world store_runs (close_task aid)"
  "guarantees fair_world store_runs shutdown_all"
  unfolding shutdown_all_def close_task_def cancel_task_def request_stop_or_close_def stop_active_def
  by (intro runs.steps runs.for_each runs_ops run_access run_store_write;
      auto simp: cancel_check_def intro: store_step.close store_step.stop split: if_splits option.splits)+

lemma run_recovery_parts [runs_ops]:
  "guarantees fair_world store_runs (store_invalid_prepared_terminal task message)"
  "guarantees fair_world store_runs (finish_never_claimed_cancellation task)"
  "guarantees fair_world store_runs (reap_terminal_row task)"
  "guarantees fair_world store_runs (recover_process_group task)"
  "guarantees fair_world store_runs (recover_active_row task route)"
  unfolding finish_never_claimed_cancellation_def store_invalid_prepared_terminal_def reap_terminal_row_def
    recover_process_group_def recover_active_row_def
  by (intro runs.steps runs_ops run_store_call persist_result_run; simp add: fair_world_def)+

lemma run_recover_task [runs_ops]: "guarantees fair_world store_runs (recover_startup_task task)"
  unfolding recover_startup_task_def by (intro runs.steps runs_ops)

lemma run_recover_all [runs_ops]: "guarantees fair_world store_runs (recover_all ts)"
  by (induction ts) (simp_all, (intro runs.steps runs_ops; assumption)+)

lemma run_recovery [runs_ops]:
  "guarantees fair_world store_runs reconcile_startup"
  "guarantees fair_world store_runs (reap_straggler task)"
  "guarantees fair_world store_runs reap_terminal_stragglers"
  unfolding reconcile_startup_def reap_terminal_stragglers_def reap_straggler_def
  by (intro runs.steps runs.for_each runs_ops run_access; simp)+

lemma run_admission [runs_ops]:
  "guarantees fair_world store_runs (enqueue_general_with_admission manifest identity)"
  "guarantees fair_world store_runs begin_drain"
  "guarantees fair_world store_runs abort_drain"
  "guarantees fair_world store_runs (drain_cancel_worker aids)"
  "guarantees fair_world store_runs cancel_draining_tasks"
  "guarantees fair_world store_runs claim_activation"
  unfolding enqueue_general_with_admission_def begin_drain_def abort_drain_def drain_cancel_worker_def
    cancel_draining_tasks_def claim_activation_def ready_for_activation_def resources_reaped_def
  by (intro runs.steps runs.for_each runs_ops run_access run_store_write;
      auto simp: Let_def intro: store_step.reserve store_step.enqueue store_step.fence split: prod.splits)+

lemma run_messages [runs_ops]:
  "guarantees fair_world store_runs (resume_terminal_with_message aid mid mode content)"
  "guarantees fair_world store_runs (deliver_up_to aid mid mode native act deadline)"
  "guarantees fair_world store_runs (deliver_now aid mid mode adapter act deadline)"
  "guarantees fair_world store_runs (send_message aid mid mode content)"
  unfolding resume_terminal_with_message_def deliver_up_to_def deliver_now_def send_message_def
  by (intro runs.loop runs.steps runs_ops run_access run_store_write;
      auto intro: store_step.resume store_step.send)+

lemma run_answers [runs_ops]:
  "guarantees fair_world store_runs (release_response aid rid)"
  "guarantees fair_world store_runs (answer_claimed aid request rid decision content epoch deadline)"
  "guarantees fair_world store_runs (scheduler_respond_request aid rid decision content)"
proof -
  show "guarantees fair_world store_runs (release_response aid rid)"
    "guarantees fair_world store_runs (answer_claimed aid request rid decision content epoch deadline)"
    for request epoch deadline
    unfolding release_response_def answer_claimed_def
    by (intro runs.steps runs_ops run_store_write; auto intro: store_step.release store_step.answer)+
  note parts = this
  show "guarantees fair_world store_runs (scheduler_respond_request aid rid decision content)"
    unfolding scheduler_respond_request_def
    by (intro runs.steps parts runs_ops run_store_write;
        auto intro: store_step.claim_response runs.steps parts split: PendingResponseClaimDisposition.split PendingRequestState.split)
qed

lemma run_monitor_parts [runs_ops]:
  "guarantees fair_world store_runs take_operation_lock"
  "guarantees fair_world store_runs (sink_error key)"
  "guarantees fair_world store_runs (sink_transport_failure key)"
  "guarantees fair_world store_runs (cancel_active_check key)"
  "guarantees fair_world store_runs (decision_task aid)"
  "guarantees fair_world store_runs (active_instance_matches aid epoch)"
  "guarantees fair_world store_runs (natural_admission key)"
  "guarantees fair_world store_runs (current_ingress key)"
  unfolding take_operation_lock_def sink_error_def sink_transport_failure_def cancel_active_check_def
    decision_task_def active_instance_matches_def natural_admission_def current_ingress_def
  by (intro runs.steps runs_ops run_access run_transact steps_run_read; simp add: cancel_check_def split: prod.splits)+

lemma run_monitor_closes [runs_ops]:
  "guarantees fair_world store_runs (abandon_active_monitor aid epoch)"
  "guarantees fair_world store_runs (finish_locked_monitor_terminal aid epoch route d)"
  "guarantees fair_world store_runs (commit_fault aid epoch route why detail)"
  "guarantees fair_world store_runs (handle_transport_failure aid epoch route)"
  "guarantees fair_world store_runs (release_and_start aid epoch)"
  "guarantees fair_world store_runs (monitor_close aid epoch route d)"
  unfolding abandon_active_monitor_def handle_transport_failure_def commit_fault_def
    finish_locked_monitor_terminal_def release_and_start_def monitor_close_def
  by (intro runs.steps runs_ops)+

lemma run_fault_or: "guarantees fair_world store_runs m \<Longrightarrow> guarantees fair_world store_runs (fault_or aid epoch route handled m)"
  unfolding fault_or_def by (intro runs.steps runs_ops)

lemma run_admission_case:
  "(\<And>p q. a = Deferred p q \<Longrightarrow> guarantees ok rel (f p q)) \<Longrightarrow> guarantees ok rel m \<Longrightarrow> guarantees ok rel n \<Longrightarrow>
     guarantees ok rel (case a of Ready \<Rightarrow> m | Deferred p q \<Rightarrow> f p q | Bypass \<Rightarrow> n)"
  by (cases a) auto

lemma run_monitor [runs_ops]:
  "guarantees fair_world store_runs (monitor_turn_end aid epoch route boundary deadline)"
  "guarantees fair_world store_runs (monitor_delivery_failed aid epoch session route e deadline)"
  "guarantees fair_world store_runs (monitor_delivery aid epoch session boundary deadline)"
  "guarantees fair_world store_runs (monitor_sink_error aid epoch route handled)"
  "guarantees fair_world store_runs (monitor_terminal aid epoch session route handled t)"
  unfolding monitor_turn_end_def monitor_delivery_failed_def monitor_delivery_def monitor_sink_error_def
    monitor_terminal_def
  by (intro run_fault_or run_admission_case runs.steps runs_ops)+

lemma run_monitor_loop [runs_ops]:
  "guarantees fair_world store_runs (monitor_turn aid epoch session route handled)"
  "guarantees fair_world store_runs (monitor_round aid epoch session route handled)"
  "guarantees fair_world store_runs (spawn_monitor aid epoch session route)"
  unfolding spawn_monitor_def monitor_round_def monitor_turn_def
  by (intro runs.loop run_fault_or runs.steps runs_ops)+

lemma run_submit_parts [runs_ops]:
  "guarantees fair_world store_runs (starter_thread aid)"
  "guarantees fair_world store_runs (deadline_in budget)"
  "guarantees fair_world store_runs (poll_session aid deadline)"
  "guarantees fair_world store_runs (poll_terminal aid deadline)"
  "guarantees fair_world store_runs (poll_resumed aid deadline)"
  "guarantees fair_world store_runs (kill_starting aid epoch)"
  unfolding starter_thread_def deadline_in_def poll_session_def poll_terminal_def poll_resumed_def kill_starting_def
  by (intro runs.loop runs.steps runs_ops run_access run_transact steps_run_commit; auto intro: store_step.claim_one)+

lemma run_submit [runs_ops]:
  "guarantees fair_world store_runs (cancel_fresh aid enqueued deadline)"
  "guarantees fair_world store_runs (submit_and_start_general manifest identity)"
  unfolding cancel_fresh_def submit_and_start_general_def
  by (intro runs.steps runs_ops run_store_write; auto intro: store_step.cancel_fresh)+

end
