(* ===== verification/Recovery_Properties.thy ===== *)
theory Recovery_Properties
  imports Scheduler_Properties
begin

text \<open>
  Recovery after a restart settles every task it finds. It runs before the daemon serves requests, so
  the world of this theory has no other threads; the operations are evaluated by weakest preconditions,
  which include that they return.
\<close>

section \<open>Weakest preconditions\<close>

definition wp :: "'a sched \<Rightarrow> world \<Rightarrow> (SchedulerError + 'a \<Rightarrow> SchedulerInner \<Rightarrow> bool) \<Rightarrow> SchedulerInner \<Rightarrow> bool" where
  "wp m w Q i = (case m w i of None \<Rightarrow> False | Some (r, j) \<Rightarrow> Q r j)"

definition undisturbed :: "world \<Rightarrow> bool" where
  "undisturbed w \<longleftrightarrow>
     (\<forall>k i. w_others w k i = i) \<and> (\<forall>k n s. w_inside w k n s = s) \<and> (\<forall>x. \<exists>d. w_digest w x = Inr d)"

definition next_step :: "SchedulerInner \<Rightarrow> SchedulerInner" where
  "next_step i = i\<lparr>steps_done := steps_done i + 1\<rparr>"

lemma next_step_sel [simp]:
  "inner_store (next_step i) = inner_store i" "active (next_step i) = active i"
  "inner_config (next_step i) = inner_config i" "cells (next_step i) = cells i" "failures (next_step i) = failures i"
  "steps_done (next_step i) = Suc (steps_done i)" "failure_logger (next_step i) = failure_logger i"
  by (simp_all add: next_step_def)

lemma others_undisturbed: "undisturbed w \<Longrightarrow> others_first w i = next_step i"
  by (simp add: undisturbed_def others_first_def next_step_def)

lemma wp_mono: "wp m w Q i \<Longrightarrow> (\<And>r j. Q r j \<Longrightarrow> Q' r j) \<Longrightarrow> wp m w Q' i"
  by (auto simp: wp_def split: option.splits)

lemma wp_plain [simp]:
  "wp (sched_ok v) w T i = T (Inr v) i" "wp (sched_err e) w T i = T (Inl e) i"
  "wp (given g) w T i = T (Inr (g w)) i"
  "wp (attempt n) w R i = wp n w (\<lambda>r. R (Inr r)) i"
  "wp (from_result h y) w T i = (case y of Inl e \<Rightarrow> T (Inl (h e)) i | Inr v \<Rightarrow> T (Inr v) i)"
  by (auto simp: wp_def sched_ok_def sched_err_def given_def attempt_def from_result_def
      split: option.splits sum.splits Option.bind_splits)

lemma wp_bind:
  "wp (sched_bind m f) w Q i = wp m w (\<lambda>r j. case r of Inl e \<Rightarrow> Q (Inl e) j | Inr x \<Rightarrow> wp (f x) w Q j) i"
  by (auto simp: wp_def sched_bind_def split: option.splits sum.splits Option.bind_splits)

lemma wp_steps:
  assumes "undisturbed w"
  shows "wp (access f) w Q i = (case f (next_step i) of (x, j) \<Rightarrow> Q (Inr x) j)"
    "wp (ask g) w R i = R (Inr (g w (steps_done i))) (next_step i)"
    "wp (transact m) w T i = (case m w (steps_done i) (inner_store i) of
       (r, s) \<Rightarrow> T (Inr r) ((next_step i)\<lparr>inner_store := s\<rparr>))"
  by (auto simp: wp_def access_def ask_def transact_def others_undisturbed [OF assms] split: prod.splits)

lemma wp_store_call:
  assumes "undisturbed w" "m w (steps_done i) (inner_store i) = (Inr x, s)"
  shows "wp (store_call m) w Q i = Q (Inr x) ((next_step i)\<lparr>inner_store := s\<rparr>)"
  using assms(2) by (simp add: store_call_def wp_bind wp_steps [OF assms(1)])

lemma wp_read:
  assumes "undisturbed w" "f (inner_store i) = Inr x"
  shows "wp (store_read f) w Q i = Q (Inr x) ((next_step i)\<lparr>inner_store := inner_store i\<rparr>)"
  unfolding store_read_def by (rule wp_store_call [OF assms(1)]) (simp add: read_store_def assms(2))

section \<open>Settling a row\<close>

text \<open>Task \<open>a\<close> has become terminal with the given outcome, and nothing has happened to the others.\<close>

definition settled :: "string \<Rightarrow> TaskOutcome \<Rightarrow> store \<Rightarrow> store \<Rightarrow> bool" where
  "settled a oc s s' \<longleftrightarrow>
     store_reachable s'
     \<and> (\<exists>r. find_task s' a = Some r \<and> is_terminal_row r \<and> t_outcome r = Some (TaskOutcome_as_str oc))
     \<and> (\<forall>b. b \<noteq> a \<longrightarrow> find_task s' b = find_task s b \<and> result_of s' b = result_of s b)"

lemma settled_trans: "settled a oc s s' \<Longrightarrow> settled a oc' s' s'' \<Longrightarrow> settled a oc' s s''"
  by (auto simp: settled_def)

lemma active_row: "phase_in active_phases r \<Longrightarrow> \<not> is_terminal_row r"
  by (auto simp: phase_in_def)

lemma settles_row:
  assumes s: "store_reachable s" "find_task s a = Some r" "phase_in active_phases r"
    and res: "validate_result res = Inr ()" "digest res = Inr d" "result_outcome res \<noteq> TaskOutcome.Completed"
      "t_stop_requested r \<or> t_close_requested r \<Longrightarrow> result_outcome res = TaskOutcome.Cancelled"
  shows "\<exists>s'. store_task_result_with_reason digest clock a res why message s = Inr ((), s')
    \<and> settled a (result_outcome res) s s'"
proof -
  have inv: "store_inv s" by (rule reachable_store_inv [OF s(1)])
  have none: "result_of s a = None"
    by (rule no_result_if_active [OF store_inv_agent [OF inv s(2)] active_row [OF s(3)]])
  from store_task_result_active [of s a r res digest d clock why message, OF inv s(2,3) none res(1,2)] res(3,4)
  obtain s' where run: "store_task_result_with_reason digest clock a res why message s = Inr ((), s')"
    by (auto split: if_splits)
  have "store_reachable s'" by (rule reachable.advance [OF s(1) store_step.result [OF run]])
  moreover have "\<exists>r'. find_task s' a = Some r' \<and> is_terminal_row r'
      \<and> t_outcome r' = Some (TaskOutcome_as_str (result_outcome res))"
    by (rule commit_result_ends [OF s(1) none run])
  moreover have "find_task s' b = find_task s b" if "b \<noteq> a" for b
    using store_task_result_eval [OF inv run] none that by (auto simp: result_store_def find_terminal_store)
  moreover have "result_of s' b = result_of s b" if "b \<noteq> a" for b
    using store_task_result_eval [OF inv run] none that
    by (auto simp: result_store_def terminal_store_def result_of_append new_result_row_def split: option.splits)
  ultimately show ?thesis using run by (auto simp: settled_def)
qed

lemma reaps_row:
  assumes s: "store_reachable s" "find_task s a = Some r" "is_terminal_row r"
    and oc: "t_outcome r = Some (TaskOutcome_as_str oc)"
  shows "\<exists>s'. commit_reap clock a s = (Inr oc, s') \<and> settled a oc s s'"
proof -
  have inv: "store_inv s" by (rule reachable_store_inv [OF s(1)])
  have "query_guard s a = Inr (Terminal, Some oc, nat (t_owner_epoch r), t_close_requested r, t_stop_requested r)"
    using s(2,3) oc store_inv_row [OF inv s(2)] by (simp add: query_guard_ok [OF inv] row_ok_def)
  moreover have "task_check (reaped_row (clock 0) r)"
    using store_inv_row [OF inv s(2)] by (simp add: row_ok_def task_check_def reaped_row_def)
  ultimately obtain v s' where run: "reap_task clock a s = Inr (v, s')"
    using update_tasks_hit_all [OF store_inv_keyed [OF inv] s(2), of "reaped_row (clock 0)"]
    by (auto simp: reap_task_def reaped_row_def [abs_def])
  from reap_task_eval [OF inv run] s(2) oc have v: "v = Inr oc" "s' = set_task s a (reaped_row (clock 0) r)"
    by auto
  have "store_reachable s'" by (rule reachable.advance [OF s(1) store_step.reap [OF run]])
  then have "settled a oc s s'"
    using s(2,3) oc find_task_agent [OF s(2)] by (auto simp: settled_def v(2) reaped_row_def)
  then show ?thesis using run v(1) by (auto simp: commit_reap_def)
qed

lemma stops_row:
  assumes s: "store_reachable s" "find_task s a = Some r" "t_phase r = TaskPhase_as_str Queued"
  shows "\<exists>d s' r'. request_stop clock a s = Inr (d, s') \<and> decision_phase d = Cancelling \<and> \<not> needs_runtime_stop d
    \<and> store_reachable s' \<and> find_task s' a = Some r' \<and> phase_in active_phases r' \<and> t_stop_requested r'
    \<and> (\<forall>b. b \<noteq> a \<longrightarrow> find_task s' b = find_task s b \<and> result_of s' b = result_of s b)"
proof -
  have inv: "store_inv s" by (rule reachable_store_inv [OF s(1)])
  note row = store_inv_row [OF inv s(2)]
  obtain oc where guard: "query_guard s a = Inr (Queued, oc, nat (t_owner_epoch r), t_close_requested r, t_stop_requested r)"
    using s(2,3) row by (auto simp: query_guard_ok [OF inv] row_ok_def task_check_def)
  have "task_check (stopped_row (clock 0) Cancelling False True r)"
    using row s(3) by (auto simp: row_ok_def task_check_def)
  then have upd: "update_tasks (\<lambda>r. t_agent_id r = a) (stopped_row (clock 0) Cancelling False True) s
      = Inr (1, set_task s a (stopped_row (clock 0) Cancelling False True r))"
    using update_tasks_hit_all [OF store_inv_keyed [OF inv] s(2)] by simp
  have "int (nat (t_owner_epoch r)) \<le> i64_max" using row by (simp add: row_ok_def)
  then obtain d s' where run: "request_stop clock a s = Inr (d, s')" "decision_phase d = Cancelling" "\<not> needs_runtime_stop d"
    using guard upd
    by (auto simp: request_stop_def request_stop_internal_def Let_def insert_ledger_eq stopped_row_def [abs_def])
  then have internal: "request_stop_internal clock a False True s = Inr (d, s')" by (simp add: request_stop_def)
  have "result_of s' b = result_of s b" for b
    by (rule request_stop_eval [OF inv internal]) (auto split: if_splits)
  moreover from request_stop_find [OF inv internal] run(2) s(2) have "find_task s' = (find_task s)(a \<mapsto> stopped_row (clock 0) Cancelling False True r)"
    by auto
  moreover have "store_reachable s'" by (rule reachable.advance [OF s(1) store_step.stop [OF run(1)]])
  ultimately show ?thesis using run by (auto simp: phase_in_def)
qed

section \<open>Operations that settle a task\<close>

definition ends :: "string \<Rightarrow> TaskOutcome \<Rightarrow> SchedulerInner \<Rightarrow> SchedulerError + 'a \<Rightarrow> SchedulerInner \<Rightarrow> bool" where
  "ends a oc i r j \<longleftrightarrow>
     (\<exists>x. r = Inr x) \<and> settled a oc (inner_store i) (inner_store j)
     \<and> active j = active i \<and> inner_config j = inner_config i"

text \<open>Task \<open>a\<close> is active and may be given the result.\<close>

definition settleable :: "world \<Rightarrow> SchedulerInner \<Rightarrow> string \<Rightarrow> TaskResult \<Rightarrow> bool" where
  "settleable w i a res \<longleftrightarrow>
     undisturbed w \<and> store_reachable (inner_store i) \<and> validate_result res = Inr ()
     \<and> result_outcome res \<noteq> TaskOutcome.Completed
     \<and> (\<exists>r. find_task (inner_store i) a = Some r \<and> phase_in active_phases r
          \<and> (t_stop_requested r \<or> t_close_requested r \<longrightarrow> result_outcome res = TaskOutcome.Cancelled))"

lemma settleable_run:
  assumes "settleable w i a res"
  obtains s where "store_task_result_with_reason (w_digest w) clock a res why message (inner_store i) = Inr ((), s)"
    "settled a (result_outcome res) (inner_store i) s"
proof -
  obtain d where "w_digest w res = Inr d" using assms unfolding settleable_def undisturbed_def by metis
  with assms that settles_row [of "inner_store i" a _ res "w_digest w" d clock why message] show thesis
    by (auto simp: settleable_def)
qed

lemma wp_store_result:
  assumes "settleable w i a res"
  shows "wp (store_result a res why message) w (ends a (result_outcome res) i) i"
proof -
  have w: "undisturbed w" using assms by (simp add: settleable_def)
  obtain s where s: "store_task_result_with_reason (w_digest w) (w_clock w (steps_done i)) a res why message (inner_store i)
      = Inr ((), s)" "settled a (result_outcome res) (inner_store i) s"
    by (rule settleable_run [OF assms])
  have "wp (store_result a res why message) w (ends a (result_outcome res) i) i
      = ends a (result_outcome res) i (Inr ()) ((next_step i)\<lparr>inner_store := s\<rparr>)"
    unfolding store_result_def by (rule wp_store_call [OF w]) (simp add: commit_def s(1))
  with s(2) show ?thesis by (simp add: ends_def)
qed

lemma wp_reap:
  assumes w: "undisturbed w" and i: "store_reachable (inner_store i)" "find_task (inner_store i) a = Some r"
    "is_terminal_row r" "t_outcome r = Some (TaskOutcome_as_str oc)"
  shows "wp (reap a) w (ends a oc i) i"
proof -
  obtain s where s: "commit_reap (w_clock w (steps_done i)) a (inner_store i) = (Inr oc, s)" "settled a oc (inner_store i) s"
    using reaps_row [OF i] by blast
  have "wp (reap a) w (ends a oc i) i = ends a oc i (Inr oc) ((next_step i)\<lparr>inner_store := s\<rparr>)"
    unfolding reap_def by (rule wp_store_call [OF w]) (simp add: s(1))
  with s(2) show ?thesis by (simp add: ends_def)
qed

lemma ends_reap:
  assumes "undisturbed w" "ends a oc i (Inr x) j"
  shows "wp (reap a) w (ends a oc i) j"
proof -
  from assms(2) obtain r where "store_reachable (inner_store j)" "find_task (inner_store j) a = Some r" "is_terminal_row r"
      "t_outcome r = Some (TaskOutcome_as_str oc)"
    by (auto simp: ends_def settled_def)
  from wp_reap [OF assms(1) this] show ?thesis
    by (rule wp_mono) (use assms(2) in \<open>auto simp: ends_def intro: settled_trans\<close>)
qed

lemma ends_read:
  assumes w: "undisturbed w" and "ends a oc i (Inr x) j"
  obtains task where "get_task (inner_store j) a = Inr (Some task)" "outcome task = Some oc"
    "\<And>e Q. wp (expect_task e a) w Q j = Q (Inr task) ((next_step j)\<lparr>inner_store := inner_store j\<rparr>)"
    "\<And>Q. wp (read_task a) w Q j = Q (Inr (Some task)) ((next_step j)\<lparr>inner_store := inner_store j\<rparr>)"
proof -
  from assms(2) obtain r where j: "store_reachable (inner_store j)" "find_task (inner_store j) a = Some r"
      "t_outcome r = Some (TaskOutcome_as_str oc)"
    by (auto simp: ends_def settled_def)
  from convert_task_row_ok [OF store_inv_row [OF reachable_store_inv [OF j(1)] j(2)]] obtain task where
    task: "convert_task_row r = Inr task" "t_outcome r = map_option TaskOutcome_as_str (outcome task)" by blast
  then have "outcome task = Some oc" using j(3) by (cases "outcome task") auto
  moreover have get: "get_task (inner_store j) a = Inr (Some task)"
    using j(2) task(1) by (simp add: get_task_def query_task_def)
  moreover note read = wp_read [OF w, of "\<lambda>s. get_task s a" j, OF get]
  ultimately show thesis using that by (simp add: expect_task_def read_task_def wp_bind)
qed

lemma persist_result_settles:
  assumes "settleable w i a (completion_result c)"
  shows "\<exists>s. persist_general_result (w_digest w) clock meanwhile a c (inner_store i) = (Inr (), s)
    \<and> settled a (task_outcome (completion_outcome c)) (inner_store i) s"
proof -
  obtain s where "store_task_result_with_reason (w_digest w) clock a (completion_result c) (completion_reason_code c)
      (failure_message c) (inner_store i) = Inr ((), s)" "settled a (result_outcome (completion_result c)) (inner_store i) s"
    by (rule settleable_run [OF assms])
  then show ?thesis
    by (simp add: persist_general_result_def store_result_with_cancel_precedence_def commit_def completion_result_def)
qed

lemma wp_seq:
  "wp m w (\<lambda>r j. r = Inr x \<and> p j) i \<Longrightarrow> (\<And>j. p j \<Longrightarrow> wp (f x) w Q j) \<Longrightarrow> wp (sched_bind m f) w Q i"
  unfolding wp_bind by (erule wp_mono) auto

lemma wp_then:
  "wp m w (ends a oc i) j \<Longrightarrow> (\<And>x j. ends a oc i (Inr x) j \<Longrightarrow> wp (f x) w Q j) \<Longrightarrow> wp (sched_bind m f) w Q j"
  unfolding wp_bind by (erule wp_mono) (auto simp: ends_def)

lemma ends_value: "ends a oc i (Inr x) j \<Longrightarrow> ends a oc i (Inr y) j"
  by (simp add: ends_def)

lemma ends_expect:
  assumes w: "undisturbed w" and j: "ends a oc i (Inr x) j"
  shows "wp (sched_bind (expect_task e a) (\<lambda>task. sched_ok (phase task))) w (ends a oc i) j"
  by (rule ends_read [OF w j]) (use j in \<open>simp add: ends_def wp_bind\<close>)

lemma wp_persist_completion:
  assumes "settleable w i a (completion_result c)"
  shows "wp (persist_general_completion a c reaped) w (ends a (task_outcome (completion_outcome c)) i) i"
proof -
  let ?oc = "task_outcome (completion_outcome c)"
  have w: "undisturbed w" using assms by (simp add: settleable_def)
  obtain s where s: "persist_general_result (w_digest w) (w_clock w (steps_done i)) (w_inside w (steps_done i)) a c
      (inner_store i) = (Inr (), s)" "settled a ?oc (inner_store i) s"
    using persist_result_settles [OF assms] by blast
  show ?thesis unfolding persist_general_completion_def
  proof (rule wp_seq [where x = "Inr ()" and p = "ends a ?oc i (Inr ())"])
    show "wp (transact (\<lambda>w k. persist_general_result (w_digest w) (w_clock w k) (w_inside w k) a c)) w
        (\<lambda>r j. r = Inr (Inr ()) \<and> ends a ?oc i (Inr ()) j) i"
      using s by (simp add: wp_steps [OF w] ends_def)
  next
    fix j assume j: "ends a ?oc i (Inr ()) j"
    show "wp (sched_bind (case Inr () of Inr x \<Rightarrow> sched_ok () | Inl e \<Rightarrow> failed e) (\<lambda>_.
        sched_bind (if reaped then sched_bind (reap a) (\<lambda>_. sched_ok ()) else sched_ok ()) (\<lambda>_.
        sched_bind (expect_task ''terminal general task disappeared'' a) (\<lambda>task. sched_ok (phase task))))) w
        (ends a ?oc i) j" for failed :: "StoreError \<Rightarrow> unit sched"
    proof (rule wp_seq [where x = "()" and p = "ends a ?oc i (Inr ())"])
      show "wp (case Inr () of Inr x \<Rightarrow> sched_ok () | Inl e \<Rightarrow> failed e) w (\<lambda>r j. r = Inr () \<and> ends a ?oc i (Inr ()) j) j"
        using j by simp
    next
      fix l assume l: "ends a ?oc i (Inr ()) l"
      have "wp (if reaped then sched_bind (reap a) (\<lambda>_. sched_ok ()) else sched_ok ()) w (ends a ?oc i) l"
        using l ends_reap [OF w l] by (auto elim!: wp_then intro: ends_value)
      then show "wp (sched_bind (if reaped then sched_bind (reap a) (\<lambda>_. sched_ok ()) else sched_ok ()) (\<lambda>_.
          sched_bind (expect_task ''terminal general task disappeared'' a) (\<lambda>task. sched_ok (phase task)))) w
          (ends a ?oc i) l"
        by (rule wp_then) (rule ends_expect [OF w])
    qed
  qed
qed

lemma nonblank_texts:
  "trim ''task cancelled before runtime launch'' \<noteq> []" "trim ''task cancelled with invalid prepared metadata'' \<noteq> []"
  "trim ''task cancellation was recovered after daemon restart'' \<noteq> []"
  "trim ''daemon restarted while task runtime was active'' \<noteq> []"
  "trim ''stored prepared launch is invalid'' \<noteq> []" "trim ''stored prepared launch omitted task schema'' \<noteq> []"
  "trim ''stored prepared launch uses an unknown task schema'' \<noteq> []" "trim ''stored general preparation is invalid'' \<noteq> []"
  "trim ''stored task does not match its general preparation'' \<noteq> []"
  by code_simp+

lemma finalized_general_eval:
  assumes "trim message \<noteq> []"
  shows "completion_result (finalized_general p oc code message failure) =
      \<lparr>result_outcome = task_outcome oc, final_text = message, partial = (oc \<noteq> CompletionOutcome.Completed)\<rparr>"
    "cleaned (finalized_general p oc code message failure)"
    "completion_outcome (finalized_general p oc code message failure) = oc"
proof -
  have "trim [] = []" by code_simp
  with assms show "completion_result (finalized_general p oc code message failure) =
      \<lparr>result_outcome = task_outcome oc, final_text = message, partial = (oc \<noteq> CompletionOutcome.Completed)\<rparr>"
    "cleaned (finalized_general p oc code message failure)"
    "completion_outcome (finalized_general p oc code message failure) = oc"
    by (simp_all add: finalized_general_def finalize_completion_def completion_result_def Let_def)
qed

section \<open>Cancellation without a runtime\<close>

definition like :: "SchedulerInner \<Rightarrow> SchedulerInner \<Rightarrow> bool" where
  "like i j \<longleftrightarrow> inner_store j = inner_store i \<and> active j = active i \<and> inner_config j = inner_config i"

lemma ends_like: "ends a oc j r l \<Longrightarrow> like i j \<Longrightarrow> ends a oc i r l"
  by (simp add: ends_def like_def)

lemma settleable_like: "settleable w i a res \<Longrightarrow> like i j \<Longrightarrow> settleable w j a res"
  by (simp add: settleable_def like_def)

lemma wp_like: "wp m w (ends a oc j) j \<Longrightarrow> like i j \<Longrightarrow> wp m w (ends a oc i) j"
  by (erule wp_mono) (rule ends_like)

lemma wp_record: "undisturbed w \<Longrightarrow> wp (record_failure aid message) w (\<lambda>r j. r = Inr () \<and> like i j) i"
  by (simp add: record_failure_def record_failure_line_def wp_bind wp_steps like_def)

lemma wp_expect:
  assumes w: "undisturbed w" and i: "store_reachable (inner_store i)" "find_task (inner_store i) a = Some r"
  obtains task where "query_task (inner_store i) a = Inr (Some task)"
    "\<And>e. wp (expect_task e a) w (\<lambda>r j. r = Inr task \<and> like i j) i"
    "wp (read_task a) w (\<lambda>r j. r = Inr (Some task) \<and> like i j) i"
proof -
  obtain task where task: "query_task (inner_store i) a = Inr (Some task)"
    using convert_task_row_ok [OF store_inv_row [OF reachable_store_inv [OF i(1)] i(2)]] i(2)
    by (auto simp: query_task_def)
  then have get: "get_task (inner_store i) a = Inr (Some task)" by (simp add: get_task_def)
  note read = wp_read [OF w, of "\<lambda>s. get_task s a" i, OF get]
  show thesis
    by (rule that [OF task]) (simp_all add: expect_task_def read_task_def wp_bind read like_def)
qed

lemma settleable_cancelled:
  assumes "undisturbed w" "store_reachable (inner_store i)" "find_task (inner_store i) a = Some r" "phase_in active_phases r"
    and "trim (final_text res) \<noteq> []" "result_outcome res = TaskOutcome.Cancelled"
  shows "settleable w i a res"
  using assms by (simp add: settleable_def validate_result_def)

lemma wp_finish_cancelled:
  assumes "undisturbed w" "store_reachable (inner_store i)" "find_task (inner_store i) a = Some r" "phase_in active_phases r"
  shows "wp (finish_unstarted_route a route (unstarted CompletionOutcome.Cancelled ''CANCELLED''
      ''task cancelled before runtime launch'' None) True) w (ends a TaskOutcome.Cancelled i) i"
proof -
  let ?c = "finalized_general route CompletionOutcome.Cancelled ''CANCELLED'' ''task cancelled before runtime launch'' None"
  note c = finalized_general_eval [OF nonblank_texts(1), of route CompletionOutcome.Cancelled "''CANCELLED''" None]
  have "settleable w i a (completion_result ?c)"
    by (rule settleable_cancelled [OF assms]) (simp_all add: c nonblank_texts)
  from wp_persist_completion [OF this] show ?thesis
    by (simp add: finish_unstarted_route_def unstarted_def c Let_def)
qed

lemma task_route_nonblank: "task_route pc task = Inl message \<Longrightarrow> trim message \<noteq> []"
  by (auto simp: task_route_def nonblank_texts split: option.splits if_splits)

lemma wp_cancel_routed:
  assumes w: "undisturbed w" and i: "store_reachable (inner_store i)" "find_task (inner_store i) a = Some r"
    "phase_in active_phases r"
  shows "wp (cancel_routed a task routed) w (ends a TaskOutcome.Cancelled i) i"
proof (cases routed)
  case (Inr route)
  then show ?thesis
    using wp_finish_cancelled [OF w i] by (simp add: cancel_routed_def wp_bind validate_task_route_def)
next
  case (Inl message)
  let ?res = "minimal_task_result CompletionOutcome.Cancelled
     ''task cancelled with invalid prepared metadata'' ''CANCELLED_PREPARED_INVALID''"
  have "settleable w i a ?res"
    by (rule settleable_cancelled [OF w i]) (simp_all add: minimal_task_result_def nonblank_texts)
  from wp_store_result [OF this] have result: "wp (store_result a ?res None None) w (ends a TaskOutcome.Cancelled i) i"
    by (simp add: minimal_task_result_def)
  have read: "wp (sched_bind (read_task a) (\<lambda>t. case t of Some x \<Rightarrow> sched_ok (phase x) | None \<Rightarrow> sched_panic)) w
      (ends a TaskOutcome.Cancelled i) j" if "ends a TaskOutcome.Cancelled i (Inr x) j" for x :: unit and j
    by (rule ends_read [OF w that]) (use that in \<open>simp add: wp_bind ends_def\<close>)
  show ?thesis unfolding cancel_routed_def Inl sum.case
  proof (rule wp_then [OF result], rule wp_seq [OF wp_record [OF w]])
    fix x j l assume "ends a TaskOutcome.Cancelled i (Inr x) j" "like j l"
    then show "wp (sched_bind (read_task a) (\<lambda>t. case t of Some x \<Rightarrow> sched_ok (phase x) | None \<Rightarrow> sched_panic)) w
        (ends a TaskOutcome.Cancelled i) l"
      by (intro read) (simp add: ends_def like_def)
  qed
qed

lemma wp_converge:
  assumes w: "undisturbed w" and i: "store_reachable (inner_store i)" "find_task (inner_store i) a = Some r"
    "phase_in active_phases r"
  shows "wp (converge_unstarted a) w (ends a TaskOutcome.Cancelled i) i"
proof -
  have again: "\<exists>task. \<forall>e. wp (expect_task e a) w (\<lambda>r l. r = Inr task \<and> like j l) j" if "like i j" for j
    using wp_expect [OF w, of j a r] i that by (metis like_def)
  show ?thesis unfolding converge_unstarted_def
  proof -
    obtain job where job: "wp (expect_task (''unknown task '' @ a) a) w (\<lambda>r j. r = Inr job \<and> like i j) i"
      using again [of i] by (auto simp: like_def)
    show "wp (sched_bind (expect_task (''unknown task '' @ a) a) (\<lambda>job.
        sched_bind (expect_task ''converging V2 task metadata disappeared'' a) (\<lambda>task.
        sched_bind (given (\<lambda>w. task_route (w_prep w) job)) (cancel_routed a task)))) w (ends a TaskOutcome.Cancelled i) i"
    proof (rule wp_seq [OF job])
      fix j assume j: "like i j"
      then obtain task where task: "wp (expect_task ''converging V2 task metadata disappeared'' a) w
          (\<lambda>r l. r = Inr task \<and> like j l) j"
        using again by blast
      show "wp (sched_bind (expect_task ''converging V2 task metadata disappeared'' a) (\<lambda>task.
          sched_bind (given (\<lambda>w. task_route (w_prep w) job)) (cancel_routed a task))) w (ends a TaskOutcome.Cancelled i) j"
      proof (rule wp_seq [OF task])
        fix l assume "like j l"
        with j have l: "like i l" by (simp add: like_def)
        then have "wp (cancel_routed a task (task_route (w_prep w) job)) w (ends a TaskOutcome.Cancelled l) l"
          using i by (intro wp_cancel_routed [OF w]) (auto simp: like_def)
        with l show "wp (sched_bind (given (\<lambda>w. task_route (w_prep w) job)) (cancel_routed a task)) w
            (ends a TaskOutcome.Cancelled i) l"
          by (simp add: wp_bind wp_like)
      qed
    qed
  qed
qed

text \<open>Two readings of the clock that are two steps apart are within the control timeout.\<close>

definition prompt_clock :: "world \<Rightarrow> nat \<Rightarrow> bool" where
  "prompt_clock w timeout \<longleftrightarrow> (\<forall>k. w_now w (k + 2) < w_now w k + timeout)"

lemma wp_cancel_queued:
  assumes w: "undisturbed w" and i: "store_reachable (inner_store i)" "find_task (inner_store i) a = Some r"
    "t_phase r = TaskPhase_as_str Queued" "active i = []" "prompt_clock w (control_timeout (inner_config i))"
  shows "wp (cancel_task a) w (ends a TaskOutcome.Cancelled i) i"
proof -
  let ?k = "steps_done i"
  let ?d = "control_deadline_new (w_now w (Suc ?k)) (control_timeout (inner_config i))"
  have "w_now w (Suc ?k + 2) < w_now w (Suc ?k) + control_timeout (inner_config i)"
    using i(5) unfolding prompt_clock_def by blast
  then obtain n where left: "remaining (w_now w (Suc (Suc (Suc ?k)))) ?d = Some n"
    by (auto simp: remaining_def positive_def checked_duration_since_def control_deadline_new_def split: option.splits if_splits)
  obtain d s' r' where stop: "request_stop (w_clock w (Suc (Suc (Suc (Suc ?k))))) a (inner_store i) = Inr (d, s')"
    and d: "decision_phase d = Cancelling" "\<not> needs_runtime_stop d" and s': "store_reachable s'"
      "find_task s' a = Some r'" "phase_in active_phases r'"
      "\<And>b. b \<noteq> a \<Longrightarrow> find_task s' b = find_task (inner_store i) b \<and> result_of s' b = result_of (inner_store i) b"
    using stops_row [OF i(1-3)] by metis
  have settle: "ends a TaskOutcome.Cancelled i x l" if "ends a TaskOutcome.Cancelled j x l" "inner_store j = s'"
      "active j = []" "inner_config j = inner_config i" for x :: "SchedulerError + TaskPhase" and j l
    using that s'(4) i(4) by (simp add: ends_def settled_def)
  have converge: "wp (converge_unstarted a) w (ends a TaskOutcome.Cancelled i) j"
    if "inner_store j = s'" "active j = []" "inner_config j = inner_config i" for j
    by (rule wp_mono [OF wp_converge [OF w, of j a r']]) (use that s' settle in auto)
  show ?thesis
    using left stop d i(4)
    by (simp add: cancel_task_def request_stop_or_close_def control_deadline_def active_session_def
        deadline_remaining_def store_write_def store_call_def wp_bind wp_steps [OF w] commit_def converge)
qed

section \<open>Recovery of one task\<close>

text \<open>The row of a task that recovery has read, and the outcome a settled task gets.\<close>

definition row_read :: "SchedulerInner \<Rightarrow> TaskRecord \<Rightarrow> task_row \<Rightarrow> bool" where
  "row_read i task r \<longleftrightarrow>
     store_reachable (inner_store i) \<and> find_task (inner_store i) (agent_id task) = Some r
     \<and> t_phase r = TaskPhase_as_str (phase task) \<and> t_outcome r = map_option TaskOutcome_as_str (outcome task)
     \<and> t_stop_requested r = stop_requested task \<and> t_close_requested r = close_requested task"

definition recovered_outcome :: "world \<Rightarrow> TaskRecord \<Rightarrow> TaskOutcome" where
  "recovered_outcome w task =
     (if stop_requested task \<or> close_requested task then TaskOutcome.Cancelled
      else case task_route (w_prep w) task of Inl _ \<Rightarrow> TaskOutcome.ResultInvalid | Inr _ \<Rightarrow> TaskOutcome.RuntimeLost)"

lemma settleable_row:
  assumes "undisturbed w" "row_read i task r" "phase task \<in> set active_phases"
    and "trim (final_text res) \<noteq> []" "result_outcome res \<noteq> TaskOutcome.Completed"
    and "stop_requested task \<or> close_requested task \<Longrightarrow> result_outcome res = TaskOutcome.Cancelled"
  shows "settleable w i (agent_id task) res"
  using assms by (auto simp: settleable_def validate_result_def row_read_def phase_in_def)

lemma wp_invalid_prepared:
  assumes w: "undisturbed w" and i: "row_read i task r" "phase task \<in> set active_phases"
    and route: "task_route (w_prep w) task = Inl message"
  shows "wp (store_invalid_prepared_terminal task message) w (ends (agent_id task) (recovered_outcome w task) i) i"
proof -
  let ?stop = "stop_requested task \<or> close_requested task"
  let ?res = "minimal_task_result (if ?stop then CompletionOutcome.Cancelled else CompletionOutcome.ResultInvalid)
     (if ?stop then ''task cancelled with invalid prepared metadata'' else message)
     (if ?stop then ''CANCELLED_PREPARED_INVALID'' else ''PREPARED_LAUNCH_INVALID'')"
  have oc: "result_outcome ?res = recovered_outcome w task"
    using route by (simp add: minimal_task_result_def recovered_outcome_def)
  have "settleable w i (agent_id task) ?res"
    by (rule settleable_row [OF w i])
      (simp_all add: minimal_task_result_def nonblank_texts task_route_nonblank [OF route])
  from wp_store_result [OF this, unfolded oc]
  have "wp (sched_bind (store_result (agent_id task) ?res None f) (\<lambda>_. record_failure (agent_id task) message)) w
      (ends (agent_id task) (recovered_outcome w task) i) i" for f
    by (rule wp_then) (rule wp_mono [OF wp_record [OF w]], auto simp: ends_def like_def)
  then show ?thesis
    unfolding store_invalid_prepared_terminal_def by (simp add: wp_bind [of "given _"] Let_def)
qed

lemma wp_never_claimed:
  assumes w: "undisturbed w" and i: "row_read i task r" "phase task = Cancelling" and stop: "stop_requested task"
  shows "wp (finish_never_claimed_cancellation task) w (ends (agent_id task) TaskOutcome.Cancelled i) i"
proof (cases "task_route (w_prep w) task")
  case (Inr route)
  have "store_reachable (inner_store i)" "find_task (inner_store i) (agent_id task) = Some r" "phase_in active_phases r"
    using i by (auto simp: row_read_def phase_in_def)
  from wp_finish_cancelled [OF w this, of route]
  have "wp (sched_bind (finish_unstarted_route (agent_id task) route
      (unstarted CompletionOutcome.Cancelled ''CANCELLED'' ''task cancelled before runtime launch'' None) True) (\<lambda>_. sched_ok ())) w
      (ends (agent_id task) TaskOutcome.Cancelled i) i"
    by (rule wp_then) (simp add: ends_def)
  with Inr show ?thesis
    by (simp add: finish_never_claimed_cancellation_def wp_bind [of "given _"] wp_bind [of "from_result _ _"]
        validate_task_route_def)
next
  case (Inl message)
  with wp_invalid_prepared [OF w i(1) _ Inl] i(2) stop show ?thesis
    by (simp add: finish_never_claimed_cancellation_def wp_bind [of "given _"] recovered_outcome_def)
qed

lemma wp_recover_active:
  assumes w: "undisturbed w" and i: "row_read i task r" "phase task \<in> set active_phases"
    and route: "task_route (w_prep w) task = Inr prepared"
  shows "wp (recover_active_row task prepared) w (ends (agent_id task) (recovered_outcome w task) i) i"
proof -
  let ?stop = "stop_requested task \<or> close_requested task"
  let ?oc = "if ?stop then CompletionOutcome.Cancelled else CompletionOutcome.RuntimeLost"
  let ?code = "if ?stop then ''CANCELLED'' else ''DAEMON_RESTART_RUNTIME_LOST''"
  let ?message = "if ?stop then ''task cancellation was recovered after daemon restart''
     else ''daemon restarted while task runtime was active''"
  let ?c = "finalized_general prepared ?oc ?code ?message"
  have "trim ?message \<noteq> []" by (simp add: nonblank_texts)
  note c = finalized_general_eval [OF this, of prepared ?oc ?code]
  have oc: "task_outcome ?oc = recovered_outcome w task" using route by (simp add: recovered_outcome_def)
  have "settleable w i (agent_id task) (completion_result (?c f))" for f
    by (rule settleable_row [OF w i]) (simp_all add: finalized_general_eval nonblank_texts)
  from persist_result_settles [OF this] have
    "\<exists>s. persist_general_result (w_digest w) clock meanwhile (agent_id task) (?c f) (inner_store i) = (Inr (), s)
       \<and> settled (agent_id task) (recovered_outcome w task) (inner_store i) s" for clock meanwhile f
    unfolding c oc by blast
  then have "wp (store_call (\<lambda>w k. persist_general_result (w_digest w) (w_clock w k) (w_inside w k) (agent_id task) (?c f))) w
      (ends (agent_id task) (recovered_outcome w task) i) i" for f
    using wp_store_call [OF w] by (fastforce simp: ends_def)
  then have "wp (sched_bind (store_call (\<lambda>w k. persist_general_result (w_digest w) (w_clock w k) (w_inside w k)
        (agent_id task) (?c f))) (\<lambda>_. sched_bind (reap (agent_id task)) (\<lambda>_. sched_ok ()))) w
      (ends (agent_id task) (recovered_outcome w task) i) i" for f
    by (rule wp_then) (rule wp_then [OF ends_reap [OF w]], assumption, simp add: ends_def)
  then show ?thesis
    unfolding recover_active_row_def by (simp add: wp_bind [of "given _"] Let_def c)
qed

text \<open>Whether recovery can settle a task, and the outcome it then has.\<close>

definition recoverable :: "store \<Rightarrow> TaskRecord \<Rightarrow> bool" where
  "recoverable s task \<longleftrightarrow>
     recovers_unstarted task
     \<or> phase task \<noteq> Queued
       \<and> (runtime_agent_id task \<noteq> None \<and> process_identity task \<noteq> None
          \<or> runtime_agent_id task = None \<and> process_identity task = None \<and> (phase task = Preparing \<or> phase task = Terminal))
       \<and> (phase task = Terminal \<longrightarrow> result_of s (agent_id task) \<noteq> None)"

definition final_outcome :: "world \<Rightarrow> TaskRecord \<Rightarrow> TaskOutcome" where
  "final_outcome w task = (case outcome task of Some oc \<Rightarrow> oc | None \<Rightarrow> recovered_outcome w task)"

lemma wp_reap_terminal:
  assumes w: "undisturbed w" and i: "row_read i task r" "phase task = Terminal" "outcome task = Some oc"
    and res: "result_of (inner_store i) (agent_id task) \<noteq> None"
  shows "wp (reap_terminal_row task) w (ends (agent_id task) oc i) i"
proof -
  have reap: "wp (sched_bind (reap (agent_id task)) (\<lambda>_. sched_ok ())) w (ends (agent_id task) oc i) j" if "like i j" for j
  proof (rule wp_like [OF _ that], rule wp_then)
    show "wp (reap (agent_id task)) w (ends (agent_id task) oc j) j"
      using i that by (intro wp_reap [OF w]) (auto simp: row_read_def like_def)
  qed (simp add: ends_def)
  from res obtain x where x: "result_of (inner_store i) (agent_id task) = Some x" by blast
  have "r_outcome x = TaskOutcome_as_str oc"
    using i x store_inv_agent [OF reachable_store_inv, of "inner_store i" "agent_id task" r]
    by (simp add: row_read_def agent_ok_def)
  then obtain st where "query_task_result (inner_store i) (agent_id task) = Inr (Some st)"
    using x by (simp add: query_task_result_def result_of_def)
  note read = wp_read [OF w, of "\<lambda>s. query_task_result s (agent_id task)", OF this]
  show ?thesis
  proof (cases "task_route (w_prep w) task")
    case (Inl message)
    then show ?thesis using reap [of i] by (simp add: reap_terminal_row_def wp_bind [of "given _"] like_def)
  next
    case (Inr route)
    have "like i ((next_step i)\<lparr>inner_store := inner_store i\<rparr>)" by (simp add: like_def)
    from reap [OF this] Inr show ?thesis
      by (simp add: reap_terminal_row_def wp_bind [of "given _"] wp_bind [of "from_result _ _"] wp_bind [of "store_read _"]
          validate_task_route_def read finalize_completion_def)
  qed
qed

lemma wp_recover_group:
  assumes w: "undisturbed w" "\<And>k p. w_group_stopped w k p = Inr ()"
    and "recoverable s task" "\<not> recovers_unstarted task"
  shows "wp (recover_process_group task) w (\<lambda>r j. r = Inr () \<and> like i j) i"
  using assms(3,4)
  by (auto simp: recover_process_group_def recoverable_def wp_bind wp_steps [OF w(1)] w(2) like_def
      split: option.splits)

lemma wp_recover_task:
  assumes w: "undisturbed w" "\<And>k p. w_group_stopped w k p = Inr ()" "prompt_clock w (control_timeout (inner_config i))"
    and i: "row_read i task r" "active i = []" and task: "recoverable (inner_store i) task"
  shows "wp (recover_startup_task task) w (ends (agent_id task) (final_outcome w task) i) i"
proof -
  have row: "row_ok r" "store_reachable (inner_store i)" "find_task (inner_store i) (agent_id task) = Some r"
    using i(1) store_inv_row reachable_store_inv by (auto simp: row_read_def)
  have oc: "outcome task = None \<longleftrightarrow> phase task \<noteq> Terminal"
    using row(1) i(1) by (auto simp: row_ok_def task_check_def row_read_def)
  show ?thesis
  proof (cases "recovers_unstarted task")
    case True
    then have stop: "stop_requested task" "phase task = Queued \<or> phase task = Cancelling"
      by (auto simp: recovers_unstarted_def is_never_claimed_cancellation_def)
    have final: "final_outcome w task = TaskOutcome.Cancelled"
      using stop oc by (auto simp: final_outcome_def recovered_outcome_def)
    show ?thesis
    proof (cases "phase task = Queued")
      case queued: True
      have "wp (cancel_task (agent_id task)) w (ends (agent_id task) TaskOutcome.Cancelled i) i"
        using i queued w(3) by (intro wp_cancel_queued [OF w(1) row(2,3)]) (auto simp: row_read_def)
      then have "wp (sched_bind (cancel_task (agent_id task)) (\<lambda>_. sched_ok ())) w
          (ends (agent_id task) TaskOutcome.Cancelled i) i"
        by (rule wp_then) (simp add: ends_def)
      with True queued final show ?thesis by (simp add: recover_startup_task_def)
    next
      case False
      with True final stop wp_never_claimed [OF w(1) i(1)] show ?thesis by (simp add: recover_startup_task_def)
    qed
  next
    case False
    with task have "phase task \<noteq> Queued" by (auto simp: recoverable_def)
    have "wp (if phase task = Terminal then reap_terminal_row task
        else sched_bind (given (\<lambda>w. task_route (w_prep w) task)) (\<lambda>routed.
          case routed of
            Inl message \<Rightarrow> store_invalid_prepared_terminal task message
          | Inr route \<Rightarrow>
              sched_bind (from_result InvalidConfig (validate_task_route (Some task) route)) (\<lambda>_.
              recover_active_row task route))) w (ends (agent_id task) (final_outcome w task) j) j" if j: "like i j" for j
    proof (cases "phase task = Terminal")
      case True
      have "row_read j task r" using i(1) j by (simp add: row_read_def like_def)
      moreover have "result_of (inner_store j) (agent_id task) \<noteq> None"
        using task True j by (auto simp: recoverable_def recovers_unstarted_def is_never_claimed_cancellation_def like_def)
      ultimately show ?thesis
        using True oc wp_reap_terminal [OF w(1), of j task r] by (auto simp: final_outcome_def)
    next
      case active: False
      have "row_read j task r" using i(1) j by (simp add: row_read_def like_def)
      moreover have "phase task \<in> set active_phases"
        using active \<open>phase task \<noteq> Queued\<close> by (cases "phase task") (simp_all)
      ultimately show ?thesis
        using active oc wp_invalid_prepared [OF w(1), of j task r] wp_recover_active [OF w(1), of j task r]
        by (auto simp: wp_bind [of "given _"] wp_bind [of "from_result _ _"] validate_task_route_def final_outcome_def
            split: sum.splits)
    qed
    then show ?thesis
      using False unfolding recover_startup_task_def
      by (simp add: wp_like wp_seq [OF wp_recover_group [OF w(1,2) task False, where i = i]])
  qed
qed

section \<open>Recovery of all tasks\<close>

lemma startup_rows:
  assumes s: "store_reachable s" and ts: "startup_recovery_tasks s = Inr ts"
  shows "distinct (map agent_id ts)"
    "t \<in> set ts \<Longrightarrow> inner_store i = s \<Longrightarrow> \<exists>r. row_read i t r"
proof -
  have inv: "store_inv s" by (rule reachable_store_inv [OF s])
  let ?rows = "by_created t_created_at (filter (\<lambda>r. phase_in active_phases r
     \<or> t_phase r = TaskPhase_as_str Queued \<and> t_stop_requested r \<or> is_terminal_row r \<and> t_reaped_at r = None) (tasks s))"
  have "set ?rows \<subseteq> set (tasks s)" by (auto simp: by_created_def)
  from require_task_rows [OF inv this, of "''startup recovery task disappeared''"] ts
  have ids: "map agent_id ts = map t_agent_id ?rows" by (auto simp: startup_recovery_tasks_def)
  have "distinct (map t_agent_id (tasks s))" using store_inv_keyed [OF inv] by (simp add: keyed_def)
  then have "distinct (map t_agent_id (filter p (tasks s)))" for p by (rule distinct_map_filter)
  then show "distinct (map agent_id ts)" unfolding ids by (auto simp: by_created_def distinct_map)
  show "\<exists>r. row_read i t r" if "t \<in> set ts" "inner_store i = s"
    using ts that(1) s unfolding startup_recovery_tasks_def
    by (auto dest!: res_collect_set elim!: require_task_ok [OF inv] simp: row_read_def that(2))
qed

lemma ends_keeps:
  assumes "ends a oc i (Inr x) j" "agent_id t \<noteq> a"
  shows "row_read i t r \<Longrightarrow> row_read j t r" "recoverable (inner_store i) t \<Longrightarrow> recoverable (inner_store j) t"
  using assms by (auto simp: ends_def settled_def row_read_def recoverable_def)

definition all_settled :: "world \<Rightarrow> TaskRecord list \<Rightarrow> store \<Rightarrow> store \<Rightarrow> bool" where
  "all_settled w ts s s' \<longleftrightarrow>
     store_reachable s'
     \<and> (\<forall>t \<in> set ts. \<exists>r. find_task s' (agent_id t) = Some r \<and> is_terminal_row r
          \<and> t_outcome r = Some (TaskOutcome_as_str (final_outcome w t)))
     \<and> (\<forall>b. b \<notin> agent_id ` set ts \<longrightarrow> find_task s' b = find_task s b)"

lemma all_settled_Cons:
  assumes "settled (agent_id t) (final_outcome w t) s s'" "all_settled w ts s' s''" "agent_id t \<notin> agent_id ` set ts"
  shows "all_settled w (t # ts) s s''"
  using assms by (auto simp: all_settled_def settled_def)

lemma wp_recover_all:
  assumes w: "undisturbed w" "\<And>k p. w_group_stopped w k p = Inr ()" "prompt_clock w (control_timeout (inner_config i))"
    and i: "store_reachable (inner_store i)" "active i = []"
      "\<And>t. t \<in> set ts \<Longrightarrow> (\<exists>r. row_read i t r) \<and> recoverable (inner_store i) t" "distinct (map agent_id ts)"
  shows "wp (recover_all ts) w (\<lambda>r j. r = Inr (map (\<lambda>t. (agent_id t, final_outcome w t)) ts)
    \<and> all_settled w ts (inner_store i) (inner_store j)) i"
  using w(3) i
proof (induction ts arbitrary: i)
  case Nil
  then show ?case by (simp add: all_settled_def)
next
  case (Cons t ts)
  let ?Q = "\<lambda>ts i r j. r = Inr (map (\<lambda>t. (agent_id t, final_outcome w t)) ts)
    \<and> all_settled w ts (inner_store i) (inner_store j)"
  obtain r where r: "row_read i t r" "recoverable (inner_store i) t" using Cons.prems(4) [of t] by auto
  have rest: "wp (sched_bind (recover_all ts) (\<lambda>rest. sched_ok ((agent_id t, final_outcome w t) # rest))) w (?Q (t # ts) i) l"
    if j: "ends (agent_id t) (final_outcome w t) i (Inr x) j" and l: "l = (next_step j)\<lparr>inner_store := inner_store j\<rparr>"
    for x :: unit and j l
  proof -
    have j': "settled (agent_id t) (final_outcome w t) (inner_store i) (inner_store j)" "active j = []"
      "inner_config j = inner_config i" "store_reachable (inner_store j)"
      using j Cons.prems(3) by (auto simp: ends_def settled_def)
    have "(\<exists>r. row_read l u r) \<and> recoverable (inner_store l) u" if u: "u \<in> set ts" for u
    proof -
      have "agent_id u \<noteq> agent_id t" using Cons.prems(5) imageI [OF u, of agent_id] by auto
      moreover obtain r where "row_read i u r" "recoverable (inner_store i) u" using Cons.prems(4) [of u] u by auto
      ultimately have "row_read j u r" "recoverable (inner_store j) u" using ends_keeps [OF j] by blast+
      then show ?thesis unfolding l row_read_def by auto
    qed
    then have "wp (recover_all ts) w (?Q ts l) l"
      using Cons.prems l j' by (intro Cons.IH) auto
    moreover have "agent_id t \<notin> agent_id ` set ts" using Cons.prems(5) by auto
    ultimately show ?thesis
      unfolding wp_bind using all_settled_Cons [OF j'(1)] l by (auto elim!: wp_mono)
  qed
  show ?case unfolding recover_all.simps
  proof (rule wp_then [OF wp_recover_task [OF w(1,2) Cons.prems(1) r(1) Cons.prems(3) r(2)]])
    fix x :: unit and j assume j: "ends (agent_id t) (final_outcome w t) i (Inr x) j"
    obtain task where task: "outcome task = Some (final_outcome w t)"
      "\<And>e Q. wp (expect_task e (agent_id t)) w Q j = Q (Inr task) ((next_step j)\<lparr>inner_store := inner_store j\<rparr>)"
      by (rule ends_read [OF w(1) j], rule that)
    show "wp (sched_bind (expect_task ''startup recovery task disappeared'' (agent_id t)) (\<lambda>task.
        sched_bind (from_result StoreFailure (ok_or (InvalidState ''startup recovery did not terminalize the task'')
          (outcome task))) (\<lambda>oc.
        sched_bind (recover_all ts) (\<lambda>rest. sched_ok ((agent_id t, oc) # rest))))) w (?Q (t # ts) i) j"
      using rest [OF j refl] by (simp add: wp_bind [of "expect_task _ _"] task wp_bind [of "from_result _ _"] ok_or_def)
  qed
qed


lemma undisturbed_quiet: "undisturbed quiet_world" "prompt_clock quiet_world (control_timeout (inner_config (example_inner s)))"
  by (simp_all add: undisturbed_def quiet_world_def ex_digest_def prompt_clock_def example_inner_def
      scheduler_config_default_def)


text \<open>
  A task that was cancelled after its claim and before its runtime was on record is not recoverable:
  recovery refuses it, and with it the start of the daemon, whatever the world answers.
\<close>

definition ex_unidentified :: store where
  "ex_unidentified = op_store (request_stop tick ''a1'' ex_claimed)"

lemma unidentified_task_refused:
  assumes "\<not> recovers_unstarted task" "runtime_agent_id task = None" "process_identity task = None"
    and "phase task \<noteq> Preparing" "phase task \<noteq> Terminal"
  shows "recover_startup_task task w i
    = Some (Inl (RuntimeCommand (agent_id task) ''startup runtime identity is incomplete; refusing unverified reap''), i)"
  using assms by (simp add: recover_startup_task_def recover_process_group_def sched_bind_def sched_err_def)

lemma unidentified_blocks_startup:
  "store_reachable ex_unidentified"
  "\<exists>e j. reconcile_startup quiet_world (example_inner ex_unidentified) = Some (Inl e, j)"
proof -
  have "op_ok (request_stop tick ''a1'' ex_claimed)" by code_simp
  then obtain d where "request_stop tick ''a1'' ex_claimed = Inr (d, ex_unidentified)"
    by (auto elim: op_okE simp: ex_unidentified_def)
  then show "store_reachable ex_unidentified" by (rule reachable.advance [OF ex_reachable(3) store_step.stop])
  have "case startup_recovery_tasks ex_unidentified of Inl _ \<Rightarrow> False
     | Inr ts \<Rightarrow> ts \<noteq> [] \<and> (\<forall>t \<in> set ts. \<not> recovers_unstarted t \<and> runtime_agent_id t = None
         \<and> process_identity t = None \<and> phase t = Cancelling)"
    by code_simp
  then obtain t ts where ts: "startup_recovery_tasks ex_unidentified = Inr (t # ts)" and t: "\<not> recovers_unstarted t"
      "runtime_agent_id t = None" "process_identity t = None" "phase t = Cancelling"
    by (auto split: sum.splits simp: neq_Nil_conv)
  have read: "wp (store_read startup_recovery_tasks) quiet_world Q i
      = Q (Inr (t # ts)) ((next_step i)\<lparr>inner_store := inner_store i\<rparr>)" if "inner_store i = ex_unidentified" for Q i
    by (rule wp_read [OF undisturbed_quiet(1)]) (simp add: that ts)
  have "wp (recover_startup_task t) quiet_world Q i
      = Q (Inl (RuntimeCommand (agent_id t) ''startup runtime identity is incomplete; refusing unverified reap'')) i" for Q i
    using unidentified_task_refused [OF t(1-3)] t(4) by (simp add: wp_def)
  then have "wp reconcile_startup quiet_world (\<lambda>r j. \<exists>e. r = Inl e) (example_inner ex_unidentified)"
    by (simp add: reconcile_startup_def wp_bind wp_steps [OF undisturbed_quiet(1)] example_inner_def read)
  then show "\<exists>e j. reconcile_startup quiet_world (example_inner ex_unidentified) = Some (Inl e, j)"
    by (auto simp: wp_def split: option.splits)
qed

end
