(* ===== verification/Observation_Properties.thy ===== *)
theory Observation_Properties
  imports Activity_Tracker
begin

text \<open>
  The record of an agent's tool calls is consistent: the counts it shows are the numbers of distinct calls,
  the calls it shows are the newest ones, every table is bounded, and no argument that is kept holds an
  encrypted protocol field.
\<close>

section \<open>Excluded fields\<close>

fun plain_json :: "json \<Rightarrow> bool"
  and plain_members :: "json_object \<Rightarrow> bool"
  and plain_values :: "json list \<Rightarrow> bool" where
  "plain_json (JObject ms) = plain_members ms"
| "plain_json (JArray vs) = plain_values vs"
| "plain_json _ = True"
| "plain_members [] = True"
| "plain_members ((k, v) # ms) = (k \<noteq> ''encrypted_content'' \<and> plain_json v \<and> plain_members ms)"
| "plain_values [] = True"
| "plain_values (v # vs) = (plain_json v \<and> plain_values vs)"

lemma excluded_plain:
  "plain_json (fst (exclude_protocol_fields v n))"
  "plain_members (fst (exclude_members ms n))"
  "plain_values (fst (exclude_values vs n))"
  by (induction v n and ms n and vs n rule: exclude_protocol_fields_exclude_members_exclude_values.induct)
    (auto split: prod.splits)

lemma plain_unchanged:
  "plain_json v \<Longrightarrow> exclude_protocol_fields v n = (v, n)"
  "plain_members ms \<Longrightarrow> exclude_members ms n = (ms, n)"
  "plain_values vs \<Longrightarrow> exclude_values vs n = (vs, n)"
  by (induction v n and ms n and vs n rule: exclude_protocol_fields_exclude_members_exclude_values.induct) auto

definition arguments_ok :: "json_codec \<Rightarrow> json_object \<Rightarrow> bool" where
  "arguments_ok codec ms \<longleftrightarrow>
     plain_members ms \<and> (ms = [] \<or> length (json_text codec (JObject ms)) \<le> MAX_ARGUMENT_BYTES)"

lemma arguments_ok_Nil [simp]: "arguments_ok codec []"
  by (simp add: arguments_ok_def)

lemma projected_arguments_ok: "arguments_ok codec (fst (project_arguments codec input))"
proof -
  have "plain_members (fst (case input of Some (JObject ms) \<Rightarrow> exclude_members ms 0 | _ \<Rightarrow> ([], 0)))"
    by (simp add: excluded_plain split: option.split json.split)
  then show ?thesis
    by (auto simp: project_arguments_def arguments_ok_def Let_def split: prod.splits if_splits)
qed

lemma descriptor_arguments_ok: "arguments_ok codec (fst (descriptor_arguments codec d))"
  using projected_arguments_ok
  by (auto simp: descriptor_arguments_def split: option.split prod.split) (metis fst_conv)+

section \<open>Association lists\<close>

lemma map_of_remove_key [simp]: "map_of (remove_key k m) k' = (if k' = k then None else map_of m k')"
  by (induction m) (auto simp: remove_key_def)

lemma map_of_put_entry [simp]: "map_of (put_entry k v m) = (map_of m)(k \<mapsto> v)"
  by (auto simp: put_entry_def)

lemma fst_set_remove_key: "fst ` set (remove_key k m) = fst ` set m - {k}"
  by (force simp: remove_key_def)

lemma distinct_remove_key [simp]: "distinct (map fst m) \<Longrightarrow> distinct (map fst (remove_key k m))"
  by (induction m) (auto simp: remove_key_def)

lemma distinct_put_entry [simp]: "distinct (map fst m) \<Longrightarrow> distinct (map fst (put_entry k v m))"
  by (simp add: put_entry_def fst_set_remove_key)

lemma set_put_entry: "set (put_entry k v m) = insert (k, v) {e \<in> set m. fst e \<noteq> k}"
  by (auto simp: put_entry_def remove_key_def)

lemma fst_set_put_entry [simp]: "fst ` set (put_entry k v m) = insert k (fst ` set m)"
  by (force simp: set_put_entry)

lemma remove_key_absent: "map_of m k = None \<Longrightarrow> remove_key k m = m"
  by (induction m) (auto simp: remove_key_def split: if_splits)

lemma put_entry_fresh: "map_of m k = None \<Longrightarrow> put_entry k v m = (k, v) # m"
  by (simp add: put_entry_def remove_key_absent)

lemma length_remove_key_present:
  "distinct (map fst m) \<Longrightarrow> map_of m k \<noteq> None \<Longrightarrow> Suc (length (remove_key k m)) = length m"
proof (induction m)
  case (Cons a m)
  show ?case
  proof (cases "fst a = k")
    case True
    with Cons.prems have "remove_key k m = m"
      by (intro remove_key_absent) (auto simp: map_of_eq_None_iff)
    with True show ?thesis by (cases a) (simp add: remove_key_def)
  next
    case False
    with Cons show ?thesis by (cases a) (simp add: remove_key_def)
  qed
qed simp

lemma length_put_entry:
  "distinct (map fst m) \<Longrightarrow> length (put_entry k v m) = (if map_of m k = None then Suc (length m) else length m)"
  using length_remove_key_present [of m k] by (simp add: put_entry_def remove_key_absent)

lemma update_first_list_all2:
  assumes "list_all2 R xs ys" and "\<And>x y. x \<in> set xs \<Longrightarrow> R x y \<Longrightarrow> R (f x) y"
  shows "list_all2 R (update_first p f xs) ys"
  using assms by (induction xs ys rule: list_all2_induct) auto

lemma update_first_all:
  "\<forall>x \<in> set xs. P x \<Longrightarrow> \<forall>x \<in> set xs. P (f x) \<Longrightarrow> \<forall>x \<in> set (update_first p f xs). P x"
  by (induction xs) auto

section \<open>The invariant\<close>

definition calls_of :: "string \<Rightarrow> ObservationState \<Rightarrow> (string \<times> string \<times> nat) list" where
  "calls_of name st = filter (\<lambda>(_, n, _). n = name) (seen_calls st)"

definition call_recorded :: "ObservedCall \<Rightarrow> string \<times> string \<times> nat \<Rightarrow> bool" where
  "call_recorded c e \<longleftrightarrow>
     (case e of (identity, _, seq) \<Rightarrow> call_seq c = seq \<and> suffix ([CHR 0x00] @ observed_call_id c) identity)"

definition group_ok :: "json_codec \<Rightarrow> (string \<times> string \<times> nat) list \<Rightarrow> ToolGroup \<Rightarrow> bool" where
  "group_ok codec calls g \<longleftrightarrow>
     calls \<noteq> [] \<and> group_count g = length calls \<and> group_latest_seq g = snd (snd (hd calls))
     \<and> list_all2 call_recorded (group_recent g) (take MAX_RECENT_CALLS calls)
     \<and> (\<forall>c \<in> set (group_recent g). arguments_ok codec (call_arguments c))"

definition calls_ok :: "json_codec \<Rightarrow> ObservationState \<Rightarrow> bool" where
  "calls_ok codec st \<longleftrightarrow>
     distinct (map fst (seen_calls st)) \<and> length (seen_calls st) \<le> MAX_IDENTITIES
     \<and> next_call_seq st = length (seen_calls st)
     \<and> map (\<lambda>(_, _, seq). seq) (seen_calls st) = rev [1 ..< Suc (length (seen_calls st))]
     \<and> distinct (map fst (observed_groups st)) \<and> length (observed_groups st) \<le> MAX_TOOL_TYPES
     \<and> fst ` set (observed_groups st) = (\<lambda>(_, n, _). n) ` set (seen_calls st)
     \<and> (\<forall>(name, g) \<in> set (observed_groups st). group_ok codec (calls_of name st) g)"

definition reasoning_ok :: "ObservationState \<Rightarrow> bool" where
  "reasoning_ok st \<longleftrightarrow>
     length (reasoning_raw st) \<le> MAX_REASONING_BYTES \<and> reasoning_text st = reasoning_tail (reasoning_raw st)
     \<and> (reasoning_truncated st \<or> reasoning_text st = reasoning_raw st)"

definition seen_ok :: "ObservationState \<Rightarrow> bool" where
  "seen_ok st \<longleftrightarrow>
     length (seen_source_events st) \<le> MAX_IDENTITIES \<and> distinct (seen_source_events st)
     \<and> length (seen_descriptor_frames st) \<le> MAX_IDENTITIES \<and> distinct (seen_descriptor_frames st)"

definition observation_ok :: "json_codec \<Rightarrow> ObservationState \<Rightarrow> bool" where
  "observation_ok codec st \<longleftrightarrow> calls_ok codec st \<and> reasoning_ok st \<and> seen_ok st"

lemmas observation_defs = calls_ok_def calls_of_def reasoning_ok_def seen_ok_def

lemma launch_ok: "observation_ok codec (observation_for_launch adapter scope)"
  by (simp add: observation_ok_def observation_defs observation_for_launch_def reasoning_tail_def MAX_REASONING_BYTES_def
      MAX_IDENTITIES_def)

text \<open>The operations that touch only counters and flags.\<close>

lemma bookkeeping_ok [simp]:
  "calls_ok codec (bump_snapshot st) = calls_ok codec st" "reasoning_ok (bump_snapshot st) = reasoning_ok st"
  "seen_ok (bump_snapshot st) = seen_ok st"
  "calls_ok codec (count_dropped st) = calls_ok codec st" "reasoning_ok (count_dropped st) = reasoning_ok st"
  "seen_ok (count_dropped st) = seen_ok st"
  "calls_ok codec (lose_both st) = calls_ok codec st" "reasoning_ok (lose_both st) = reasoning_ok st"
  "seen_ok (lose_both st) = seen_ok st"
  "calls_ok codec (drop_event tool st) = calls_ok codec st" "reasoning_ok (drop_event tool st) = reasoning_ok st"
  "seen_ok (drop_event tool st) = seen_ok st"
  "calls_ok codec (observe_loss st) = calls_ok codec st" "reasoning_ok (observe_loss st) = reasoning_ok st"
  "seen_ok (observe_loss st) = seen_ok st"
  by (simp_all add: observation_defs bump_snapshot_def count_dropped_def lose_both_def drop_event_def observe_loss_def)

lemma field_updates_ok [simp]:
  "calls_ok codec (st\<lparr>seen_source_events := es\<rparr>) = calls_ok codec st"
  "calls_ok codec (st\<lparr>seen_descriptor_frames := es\<rparr>) = calls_ok codec st"
  "calls_ok codec (st\<lparr>reasoning_complete := b\<rparr>) = calls_ok codec st"
  "calls_ok codec (st\<lparr>snapshot_seq := n\<rparr>) = calls_ok codec st"
  "calls_ok codec (st\<lparr>launch_scope := n\<rparr>) = calls_ok codec st"
  "reasoning_ok (st\<lparr>seen_source_events := es\<rparr>) = reasoning_ok st"
  "reasoning_ok (st\<lparr>seen_descriptor_frames := es\<rparr>) = reasoning_ok st"
  "reasoning_ok (st\<lparr>reasoning_complete := b\<rparr>) = reasoning_ok st"
  "reasoning_ok (st\<lparr>snapshot_seq := n\<rparr>) = reasoning_ok st"
  "reasoning_ok (st\<lparr>launch_scope := n\<rparr>) = reasoning_ok st"
  "seen_ok (st\<lparr>reasoning_complete := b\<rparr>) = seen_ok st"
  "seen_ok (st\<lparr>snapshot_seq := n\<rparr>) = seen_ok st"
  "seen_ok (st\<lparr>launch_scope := n\<rparr>) = seen_ok st"
  by (simp_all add: observation_defs)

section \<open>Recording a call\<close>

lemma refine_call_keeps:
  "seen_calls (refine_call name seq arguments truncated nred st) = seen_calls st"
  "next_call_seq (refine_call name seq arguments truncated nred st) = next_call_seq st"
  "reasoning_ok (refine_call name seq arguments truncated nred st) = reasoning_ok st"
  "seen_ok (refine_call name seq arguments truncated nred st) = seen_ok st"
  by (auto simp: refine_call_def reasoning_ok_def seen_ok_def bump_snapshot_def split: option.split)

lemma refine_group_ok:
  assumes g: "group_ok codec calls g" and args: "arguments_ok codec arguments"
  shows "group_ok codec calls (g\<lparr>group_recent := update_first (\<lambda>c. call_seq c = seq)
    (\<lambda>c. c\<lparr>call_arguments := arguments, call_arguments_truncated := truncated, call_redacted_fields := nred\<rparr>)
    (group_recent g)\<rparr>)"
proof -
  let ?f = "\<lambda>c. c\<lparr>call_arguments := arguments, call_arguments_truncated := truncated, call_redacted_fields := nred\<rparr>"
  have "list_all2 call_recorded (update_first (\<lambda>c. call_seq c = seq) ?f (group_recent g)) (take MAX_RECENT_CALLS calls)"
    using g by (intro update_first_list_all2) (simp_all add: group_ok_def call_recorded_def split: prod.splits)
  moreover have "\<forall>c \<in> set (update_first (\<lambda>c. call_seq c = seq) ?f (group_recent g)). arguments_ok codec (call_arguments c)"
    using g args by (intro update_first_all) (simp_all add: group_ok_def)
  ultimately show ?thesis using g by (simp add: group_ok_def)
qed

lemma calls_ok_put:
  assumes ok: "calls_ok codec st" and known: "map_of (observed_groups st) name = Some g"
    and g': "group_ok codec (calls_of name st) g'"
  shows "calls_ok codec (st\<lparr>observed_groups := put_entry name g' (observed_groups st)\<rparr>)"
proof -
  let ?st = "st\<lparr>observed_groups := put_entry name g' (observed_groups st)\<rparr>"
  have "name \<in> fst ` set (observed_groups st)" using map_of_SomeD [OF known] by force
  then have "insert name (fst ` set (observed_groups st)) = fst ` set (observed_groups st)" by blast
  moreover have "calls_of n ?st = calls_of n st" for n by (simp add: calls_of_def)
  ultimately show ?thesis
    using ok g' known by (simp add: calls_ok_def length_put_entry) (auto simp: set_put_entry)
qed

lemma refine_call_ok:
  assumes ok: "calls_ok codec st" and args: "arguments_ok codec arguments"
  shows "calls_ok codec (refine_call name seq arguments truncated nred st)"
proof (cases "map_of (observed_groups st) name")
  case None
  with ok show ?thesis by (simp add: refine_call_def)
next
  case (Some g)
  from ok map_of_SomeD [OF Some] have "group_ok codec (calls_of name st) g" by (auto simp: calls_ok_def)
  from calls_ok_put [OF ok Some refine_group_ok [OF this args]] show ?thesis
    using Some ok by (simp add: refine_call_def split: option.split)
qed

text \<open>A new call.\<close>

lemma calls_ok_new:
  assumes ok: "calls_ok codec st" and fresh: "map_of (seen_calls st) identity = None"
    and room: "length (seen_calls st) < MAX_IDENTITIES"
    and types: "map_of (observed_groups st) name = None \<Longrightarrow> length (observed_groups st) < MAX_TOOL_TYPES"
    and seq: "seq = Suc (length (seen_calls st))"
    and g': "group_ok codec ((identity, name, seq) # calls_of name st) g'"
  shows "calls_ok codec (st\<lparr>next_call_seq := seq, seen_calls := put_entry identity (name, seq) (seen_calls st),
    observed_groups := put_entry name g' (observed_groups st)\<rparr>)"
proof -
  let ?st = "st\<lparr>next_call_seq := seq, seen_calls := put_entry identity (name, seq) (seen_calls st),
    observed_groups := put_entry name g' (observed_groups st)\<rparr>"
  have calls: "calls_of n ?st = (if n = name then (identity, name, seq) # calls_of name st else calls_of n st)" for n
    by (simp add: calls_of_def put_entry_fresh [OF fresh])
  have "distinct (map fst (put_entry identity (name, seq) (seen_calls st)))"
    "length (put_entry identity (name, seq) (seen_calls st)) = seq"
    using ok by (simp_all add: calls_ok_def length_put_entry fresh seq)
  moreover have "map (\<lambda>(_, _, q). q) (put_entry identity (name, seq) (seen_calls st)) = rev [1 ..< Suc seq]"
    using ok by (simp add: calls_ok_def put_entry_fresh [OF fresh] seq)
  moreover have "length (put_entry name g' (observed_groups st)) \<le> MAX_TOOL_TYPES"
    using ok types by (auto simp: calls_ok_def length_put_entry)
  moreover have "fst ` set (put_entry name g' (observed_groups st))
      = (\<lambda>(_, n, _). n) ` set (put_entry identity (name, seq) (seen_calls st))"
    using ok by (simp add: calls_ok_def put_entry_fresh [OF fresh])
  moreover have "\<forall>(n, g) \<in> set (put_entry name g' (observed_groups st)). group_ok codec (calls_of n ?st) g"
    using ok g' by (auto simp: calls calls_ok_def set_put_entry)
  ultimately show ?thesis
    using ok room unfolding calls_ok_def by (simp add: seq)
qed

lemma new_group_ok:
  assumes ok: "calls_ok codec st" and args: "arguments_ok codec (call_arguments c)"
    and c: "call_seq c = seq" "suffix ([CHR 0x00] @ observed_call_id c) identity"
    and g: "g = (case map_of (observed_groups st) name of
                   Some g \<Rightarrow> g | None \<Rightarrow> \<lparr>group_count = 0, group_latest_seq = 0, group_recent = []\<rparr>)"
  shows "group_ok codec ((identity, name, seq) # calls_of name st)
    (g\<lparr>group_count := saturating_add_u64 (group_count g) 1, group_latest_seq := seq,
       group_recent := take MAX_RECENT_CALLS (c # group_recent g)\<rparr>)"
proof -
  have known: "group_count g = length (calls_of name st)
      \<and> list_all2 call_recorded (group_recent g) (take MAX_RECENT_CALLS (calls_of name st))
      \<and> (\<forall>c \<in> set (group_recent g). arguments_ok codec (call_arguments c))"
  proof (cases "map_of (observed_groups st) name")
    case None
    then have "name \<notin> (\<lambda>(_, n, _). n) ` set (seen_calls st)"
      using ok by (simp add: calls_ok_def map_of_eq_None_iff)
    then have "calls_of name st = []" by (force simp: calls_of_def filter_empty_conv)
    with None show ?thesis by (simp add: g)
  next
    case (Some g0)
    with ok map_of_SomeD [OF Some] show ?thesis by (auto simp: g calls_ok_def group_ok_def)
  qed
  have few: "length (calls_of name st) \<le> MAX_IDENTITIES"
    using ok length_filter_le [of _ "seen_calls st"] unfolding calls_ok_def calls_of_def by (meson order_trans)
  have "list_all2 call_recorded (c # take 4 (group_recent g)) ((identity, name, seq) # take 4 (calls_of name st))"
    using known c list_all2_takeI [of call_recorded "group_recent g" "take MAX_RECENT_CALLS (calls_of name st)" 4]
    by (simp add: call_recorded_def MAX_RECENT_CALLS_def)
  moreover have "\<forall>d \<in> set (c # take 4 (group_recent g)). arguments_ok codec (call_arguments d)"
    using known args by (auto dest: in_set_takeD)
  ultimately show ?thesis
    using known few unfolding group_ok_def
    by (simp add: saturating_add_u64_def MAX_RECENT_CALLS_def MAX_IDENTITIES_def)
qed

lemma record_tool_call_ok:
  assumes ok: "calls_ok codec st" and args: "arguments_ok codec arguments"
  shows "calls_ok codec (record_tool_call turn call name arguments truncated nred st)"
proof (cases "map_of (seen_calls st) (call_identity turn call)")
  case (Some e)
  with refine_call_ok [OF ok args] show ?thesis by (cases e) (simp add: record_tool_call_def)
next
  case None
  show ?thesis
  proof (cases "MAX_IDENTITIES \<le> length (seen_calls st)
      \<or> map_of (observed_groups st) name = None \<and> MAX_TOOL_TYPES \<le> length (observed_groups st)")
    case True
    with None ok show ?thesis by (auto simp: record_tool_call_def)
  next
    case False
    have seq: "saturating_add_u64 (next_call_seq st) 1 = Suc (length (seen_calls st))"
      using ok False by (simp add: calls_ok_def saturating_add_u64_def MAX_IDENTITIES_def)
    let ?c = "\<lparr>call_seq = Suc (length (seen_calls st)), observed_call_id = call, call_arguments = arguments,
      call_arguments_truncated = truncated, call_redacted_fields = nred\<rparr>"
    define g where "g = (case map_of (observed_groups st) name of
        Some g \<Rightarrow> g | None \<Rightarrow> \<lparr>group_count = 0, group_latest_seq = 0, group_recent = []\<rparr>)"
    have "group_ok codec ((call_identity turn call, name, Suc (length (seen_calls st))) # calls_of name st)
      (g\<lparr>group_count := saturating_add_u64 (group_count g) 1, group_latest_seq := Suc (length (seen_calls st)),
         group_recent := take MAX_RECENT_CALLS (?c # group_recent g)\<rparr>)"
      by (rule new_group_ok [OF ok _ _ _ g_def]) (simp_all add: args call_identity_def suffix_def)
    moreover have room: "length (seen_calls st) < MAX_IDENTITIES"
      and types: "map_of (observed_groups st) name = None \<Longrightarrow> length (observed_groups st) < MAX_TOOL_TYPES"
      using False by auto
    ultimately have "calls_ok codec (st\<lparr>next_call_seq := Suc (length (seen_calls st)),
      seen_calls := put_entry (call_identity turn call) (name, Suc (length (seen_calls st))) (seen_calls st),
      observed_groups := put_entry name
        (g\<lparr>group_count := saturating_add_u64 (group_count g) 1, group_latest_seq := Suc (length (seen_calls st)),
           group_recent := take MAX_RECENT_CALLS (?c # group_recent g)\<rparr>) (observed_groups st)\<rparr>)"
      by (intro calls_ok_new [OF ok None]) simp_all
    with ok False show ?thesis
      using None by (auto simp: record_tool_call_def Let_def seq g_def [symmetric] simp del: One_nat_def)
  qed
qed

lemma record_tool_call_keeps:
  "reasoning_ok (record_tool_call turn call name arguments truncated nred st) = reasoning_ok st"
  "seen_ok (record_tool_call turn call name arguments truncated nred st) = seen_ok st"
  by (simp_all add: record_tool_call_def refine_call_keeps Let_def split: option.split prod.split)
    (simp_all add: reasoning_ok_def seen_ok_def)

section \<open>Reasoning\<close>

lemma char_parts_nonempty: "x \<in> set (chars s) \<Longrightarrow> x \<noteq> []"
  by (induction s rule: chars.induct) auto

lemma reasoning_tail_all: "length (chars s) \<le> MAX_REASONING_CHARS \<Longrightarrow> reasoning_tail s = s"
  by (simp add: reasoning_tail_def concat_chars)

lemma next_char_boundary_ge: "i \<le> next_char_boundary s i"
  by (induction s i rule: next_char_boundary.induct) (subst next_char_boundary.simps, auto)

lemma cut_length: "length (drop (next_char_boundary s (length s - n)) s) \<le> n"
  using next_char_boundary_ge [of "length s - n" s] by simp

lemma observe_reasoning_ok:
  assumes "reasoning_ok st"
  shows "reasoning_ok (observe_reasoning delta st)"
proof -
  have shown: "reasoning_ok (st1\<lparr>reasoning_text := reasoning_tail (reasoning_raw st1),
      reasoning_truncated := (reasoning_truncated st1 \<or> MAX_REASONING_CHARS < length (chars (reasoning_raw st1)))\<rparr>)"
    if "length (reasoning_raw st1) \<le> MAX_REASONING_BYTES" for st1 :: ObservationState
    using that reasoning_tail_all [of "reasoning_raw st1"]
    by (cases "length (chars (reasoning_raw st1)) \<le> MAX_REASONING_CHARS") (simp_all add: reasoning_ok_def not_le)
  show ?thesis
  proof (cases "delta = []")
    case False
    show ?thesis
      unfolding observe_reasoning_def Let_def if_not_P [OF False]
      by (rule shown) (simp add: count_dropped_def cut_length not_less del: drop_append length_append length_drop)
  qed (simp add: observe_reasoning_def assms)
qed

lemma observe_reasoning_keeps:
  "calls_ok codec (observe_reasoning delta st) = calls_ok codec st"
  "seen_ok (observe_reasoning delta st) = seen_ok st"
  by (simp_all add: observe_reasoning_def Let_def) (simp_all add: calls_ok_def calls_of_def seen_ok_def count_dropped_def)

section \<open>Every operation keeps the invariant\<close>

lemma observe_tool_ok:
  assumes "observation_ok codec st"
  shows "observation_ok codec (observe_tool codec params payload st)"
  using assms projected_arguments_ok [of codec "json_get payload ''toolInput''"]
  by (auto simp: observation_ok_def observe_tool_def Let_def record_tool_call_keeps
      split: option.split prod.split intro!: record_tool_call_ok)
    (metis projected_arguments_ok fst_conv)+

lemma seen_ok_source:
  "seen_ok st \<Longrightarrow> k \<notin> set (seen_source_events st) \<Longrightarrow> length (seen_source_events st) < MAX_IDENTITIES
    \<Longrightarrow> seen_ok (st\<lparr>seen_source_events := k # seen_source_events st\<rparr>)"
  by (simp add: seen_ok_def)

lemma seen_ok_frame:
  "seen_ok st \<Longrightarrow> k \<notin> set (seen_descriptor_frames st) \<Longrightarrow> length (seen_descriptor_frames st) < MAX_IDENTITIES
    \<Longrightarrow> seen_ok (st\<lparr>seen_descriptor_frames := k # seen_descriptor_frames st\<rparr>)"
  by (simp add: seen_ok_def)

lemma observe_message_ok:
  assumes ok: "observation_ok codec st"
  shows "observation_ok codec (observe_message codec method params st)"
proof -
  have drop: "observation_ok codec (drop_event b st)" for b
    using ok by (simp add: observation_ok_def)
  have step: "observation_ok codec (st\<lparr>seen_source_events := k # seen_source_events st\<rparr>)"
    if "k \<notin> set (seen_source_events st)" "\<not> MAX_IDENTITIES \<le> length (seen_source_events st)" for k
    using ok that by (simp add: observation_ok_def seen_ok_source)
  have fault: "observation_ok codec (bump_snapshot (count_dropped (s\<lparr>reasoning_complete := False\<rparr>)))"
    if "observation_ok codec s" for s
    using that by (simp add: observation_ok_def)
  have grow: "observation_ok codec (bump_snapshot (observe_reasoning d s))" if "observation_ok codec s" for d s
    using that by (simp add: observation_ok_def observe_reasoning_keeps observe_reasoning_ok)
  show ?thesis
    unfolding observe_message_def Let_def
    by (simp add: ok drop step fault grow observe_tool_ok split: option.split)
qed

lemma observe_descriptor_ok:
  assumes ok: "observation_ok codec st"
  shows "observation_ok codec (observe_descriptor codec d st)"
proof -
  have "observation_ok codec (record_tool_call turn call name a t n (st\<lparr>seen_descriptor_frames := k # seen_descriptor_frames st\<rparr>))"
    if "arguments_ok codec a" "k \<notin> set (seen_descriptor_frames st)"
      "\<not> MAX_IDENTITIES \<le> length (seen_descriptor_frames st)" for turn call name a t n k
    using ok that by (simp add: observation_ok_def record_tool_call_keeps record_tool_call_ok seen_ok_frame)
  moreover have "arguments_ok codec a" if "descriptor_arguments codec d = (a, t, n)" for a t n
    using descriptor_arguments_ok [of codec d] that by simp
  ultimately show ?thesis
    using ok by (auto simp: observe_descriptor_def Let_def observation_ok_def split: prod.split)
qed

section \<open>Inheritance\<close>

lemma recorded_detail_ok:
  assumes "calls_ok codec newer"
  shows "arguments_ok codec (fst (recorded_detail newer name seq))"
proof (cases "map_of (observed_groups newer) name")
  case (Some g)
  with assms have "\<forall>c \<in> set (group_recent g). arguments_ok codec (call_arguments c)"
    by (auto simp: calls_ok_def group_ok_def dest!: map_of_SomeD)
  with Some show ?thesis
    by (auto simp: recorded_detail_def find_Some_iff split: option.split)
qed (simp add: recorded_detail_def)

lemma replay_call_ok:
  assumes "calls_ok codec newer" "observation_ok codec st"
  shows "observation_ok codec (replay_call newer e st)"
proof -
  obtain identity name seq where e: "e = (identity, name, seq)" by (cases e)
  obtain a t n where d: "recorded_detail newer name seq = (a, t, n)" by (cases "recorded_detail newer name seq")
  with recorded_detail_ok [OF assms(1), of name seq] have "arguments_ok codec a" by simp
  with assms(2) show ?thesis
    by (simp add: replay_call_def e d observation_ok_def record_tool_call_keeps record_tool_call_ok split: prod.split)
qed

lemma replays_ok:
  "calls_ok codec newer \<Longrightarrow> observation_ok codec st \<Longrightarrow> observation_ok codec (fold (replay_call newer) es st)"
  by (induction es arbitrary: st) (simp_all add: replay_call_ok)

lemma absorb_keys_ok:
  "absorb_keys seen ks = (seen', full) \<Longrightarrow> distinct seen \<Longrightarrow> length seen \<le> MAX_IDENTITIES
    \<Longrightarrow> distinct seen' \<and> length seen' \<le> MAX_IDENTITIES"
  by (induction seen ks rule: absorb_keys.induct) (auto split: if_splits)

lemma absorb_ok:
  assumes "observation_ok codec st"
  shows "observation_ok codec (absorb_events ks st)" "observation_ok codec (absorb_frames ks st)"
proof -
  obtain s f where a: "absorb_keys (seen_source_events st) ks = (s, f)" by fastforce
  with assms absorb_keys_ok [OF this] have "seen_ok (st\<lparr>seen_source_events := s\<rparr>)"
    by (simp add: observation_ok_def seen_ok_def)
  with a assms show "observation_ok codec (absorb_events ks st)"
    by (simp add: absorb_events_def Let_def observation_ok_def)
  obtain s' f' where b: "absorb_keys (seen_descriptor_frames st) ks = (s', f')" by fastforce
  with assms absorb_keys_ok [OF this] have "seen_ok (st\<lparr>seen_descriptor_frames := s'\<rparr>)"
    by (simp add: observation_ok_def seen_ok_def)
  with b assms show "observation_ok codec (absorb_frames ks st)"
    by (simp add: absorb_frames_def Let_def observation_ok_def)
qed

lemma merge_newer_ok:
  assumes ok: "observation_ok codec st" and newer: "observation_ok codec newer"
  shows "observation_ok codec (merge_newer order newer st)"
proof -
  have snapshot: "observation_ok codec (s\<lparr>snapshot_seq := n\<rparr>) = observation_ok codec s" for s n
    by (simp add: observation_ok_def)
  have flags: "observation_ok codec (s\<lparr>reasoning_truncated := (reasoning_truncated s \<or> t), reasoning_complete := c,
      tool_history_complete := h, dropped_events := d\<rparr>)" if "observation_ok codec s" for s t c h d
    using that by (auto simp: observation_ok_def calls_ok_def calls_of_def reasoning_ok_def seen_ok_def)
  have base: "observation_ok codec (st\<lparr>launch_scope := n\<rparr>)" for n
    using ok by (simp add: observation_ok_def)
  have grown: "observation_ok codec (observe_reasoning d s)" if "observation_ok codec s" for d s
    using that by (simp add: observation_ok_def observe_reasoning_keeps observe_reasoning_ok)
  from newer have calls: "calls_ok codec newer" by (simp add: observation_ok_def)
  show ?thesis
    unfolding merge_newer_def Let_def snapshot
    by (intro absorb_ok replays_ok [OF calls] flags) (simp add: base grown)
qed

section \<open>Reachable states\<close>

text \<open>The states of the observation a tracker can hold.\<close>

inductive observed :: "json_codec \<Rightarrow> ObservationState \<Rightarrow> bool" for codec where
  launched: "observed codec (observation_for_launch adapter scope)"
| messaged: "observed codec st \<Longrightarrow> observed codec (observe_message codec method params st)"
| described: "observed codec st \<Longrightarrow> observed codec (observe_descriptor codec d st)"
| lost: "observed codec st \<Longrightarrow> observed codec (observe_loss st)"
| inherited: "observed codec st \<Longrightarrow> observed codec newer \<Longrightarrow> observed codec (merge_newer order newer st)"

lemma observed_ok: "observed codec st \<Longrightarrow> observation_ok codec st"
proof (induction rule: observed.induct)
  case (lost st)
  then show ?case by (simp add: observation_ok_def)
qed (simp_all add: launch_ok observe_message_ok observe_descriptor_ok merge_newer_ok)

lemma observed_source: "observed codec st \<Longrightarrow> observed codec (observe_source codec e st)"
  by (induction codec e st rule: observe_source.induct) (auto intro: observed.intros)

section \<open>What a snapshot shows\<close>

lemma sorted_split: "sorted xs \<Longrightarrow> x \<in> set (take n xs) \<Longrightarrow> y \<in> set (drop n xs) \<Longrightarrow> x \<le> (y :: 'a :: linorder)"
  by (metis append_take_drop_id sorted_append)

lemma ranked_split:
  assumes "x \<in> set (take n (sort_key f xs))" "y \<in> set (drop n (sort_key f xs))"
  shows "f x \<le> (f y :: 'b :: linorder)"
proof -
  have "f x \<in> set (take n (map f (sort_key f xs)))" "f y \<in> set (drop n (map f (sort_key f xs)))"
    using assms by (simp_all add: take_map drop_map)
  then show ?thesis by (rule sorted_split [OF sorted_sort_key])
qed

lemma rank_counts: "group_rank x \<le> group_rank y \<Longrightarrow> group_count (snd y) \<le> group_count (snd x)"
  by (auto simp: group_rank_def less_eq_prod_def)

lemma group_of_name:
  assumes "calls_ok codec st" "calls_of name st \<noteq> []"
  obtains g where "(name, g) \<in> set (observed_groups st)" "group_count g = length (calls_of name st)"
proof -
  from assms(2) obtain e where "e \<in> set (calls_of name st)" by (cases "calls_of name st") auto
  then have "name \<in> (\<lambda>(_, n, _). n) ` set (seen_calls st)" by (force simp: calls_of_def)
  with assms(1) have "name \<in> fst ` set (observed_groups st)" by (simp add: calls_ok_def)
  then obtain g where g: "(name, g) \<in> set (observed_groups st)" by force
  with assms(1) have "group_ok codec (calls_of name st) g" by (auto simp: calls_ok_def)
  with g that show ?thesis by (simp add: group_ok_def)
qed

lemma hidden_counts:
  assumes ok: "calls_ok codec st" and t: "t \<in> set (observation_tools (observation_snapshot st))"
    and hidden: "name \<notin> observed_tool_name ` set (observation_tools (observation_snapshot st))"
  shows "length (calls_of name st) \<le> observed_call_count t"
proof (cases "calls_of name st = []")
  case False
  from group_of_name [OF ok False] obtain g where
    g: "(name, g) \<in> set (observed_groups st)" "group_count g = length (calls_of name st)" .
  let ?ranked = "sort_key group_rank (observed_groups st)"
  from t obtain m h where m: "(m, h) \<in> set (take 3 ?ranked)" "observed_call_count t = group_count h"
    by (auto simp: observation_snapshot_def)
  have "(name, g) \<notin> set (take 3 ?ranked)" using hidden by (force simp: observation_snapshot_def)
  with g(1) have "(name, g) \<in> set (drop 3 ?ranked)"
    by (metis Un_iff append_take_drop_id set_append set_sort)
  from rank_counts [OF ranked_split [OF m(1) this]] g(2) m(2) show ?thesis by simp
qed simp

text \<open>
  C26. Whatever frames an agent sends, replays or withholds, and however often its tracker is replaced, a
  snapshot of its tool calls tells the truth about the calls that were recorded. The recorded calls have
  distinct identities and are numbered in the order of their arrival. At most three tools are shown. The
  count of each is the number of recorded calls of that tool, its list is that of its newest calls, at most
  five of them, and no tool that is left out has more calls than one that is shown. The arguments of a shown
  call hold no encrypted protocol field at any depth and take at most 4 KiB of JSON.
\<close>

theorem observation_shows_newest_calls:
  assumes "observed codec st"
  defines "shown \<equiv> observation_tools (observation_snapshot st)"
  shows "distinct (map fst (seen_calls st))
    \<and> map (\<lambda>(_, _, seq). seq) (seen_calls st) = rev [1 ..< Suc (length (seen_calls st))]
    \<and> length shown \<le> 3
    \<and> (\<forall>t \<in> set shown.
        observed_call_count t = length (calls_of (observed_tool_name t) st)
      \<and> list_all2 call_recorded (observed_calls t) (take MAX_RECENT_CALLS (calls_of (observed_tool_name t) st))
      \<and> (\<forall>c \<in> set (observed_calls t). arguments_ok codec (call_arguments c))
      \<and> (\<forall>name. name \<notin> observed_tool_name ` set shown \<longrightarrow> length (calls_of name st) \<le> observed_call_count t))"
proof -
  from observed_ok [OF assms(1)] have ok: "calls_ok codec st" by (simp add: observation_ok_def)
  have group: "observed_call_count t = length (calls_of (observed_tool_name t) st)
      \<and> list_all2 call_recorded (observed_calls t) (take MAX_RECENT_CALLS (calls_of (observed_tool_name t) st))
      \<and> (\<forall>c \<in> set (observed_calls t). arguments_ok codec (call_arguments c))" if "t \<in> set shown" for t
  proof -
    from that obtain n g where n: "(n, g) \<in> set (observed_groups st)"
      "t = \<lparr>observed_tool_name = n, observed_call_count = group_count g, observed_calls = group_recent g\<rparr>"
      unfolding shown_def observation_snapshot_def by (auto dest: in_set_takeD)
    with ok have "group_ok codec (calls_of n st) g" by (auto simp: calls_ok_def)
    with n(2) show ?thesis by (simp add: group_ok_def)
  qed
  have "length shown \<le> 3" by (simp add: shown_def observation_snapshot_def)
  with ok group hidden_counts [OF ok] show ?thesis
    unfolding shown_def by (simp add: calls_ok_def)
qed

definition sample_codec :: json_codec where
  "sample_codec = \<lparr>from_str = Inl, rejection = (\<lambda>_. ''invalid''), json_text = (\<lambda>_. ''{}'')\<rparr>"

definition sample_descriptor :: ToolDescriptor where
  "sample_descriptor =
     \<lparr>descriptor_turn_id = ''turn-1'', descriptor_call_id = ''call-1'', descriptor_tool_name = ''Bash'',
      descriptor_source = ''tool:call-1:started'',
      descriptor_input = Some (JObject [(''command'', JString ''ls''), (''encrypted_content'', JString ''x'')]),
      descriptor_detail = None\<rparr>"

lemmas sample_defs = sample_codec_def sample_descriptor_def observe_descriptor_def observation_for_launch_def
  descriptor_arguments_def project_arguments_def record_tool_call_def call_identity_def put_entry_def remove_key_def
  bump_snapshot_def saturating_add_u64_def valid_text_def launch_key_def observation_snapshot_def MAX_IDENTITIES_def
  MAX_TOOL_TYPES_def MAX_RECENT_CALLS_def MAX_ID_BYTES_def MAX_ARGUMENT_BYTES_def

theorem observation_shows_newest_calls_witness:
  "map observed_call_count (observation_tools (observation_snapshot
     (observe_descriptor sample_codec sample_descriptor (observation_for_launch ''zcode'' 1)))) = [1]
   \<and> arguments_ok sample_codec [(''command'', JString ''ls'')]"
proof -
  let ?st = "observe_descriptor sample_codec sample_descriptor (observation_for_launch ''zcode'' 1)"
  have shown: "observation_tools (observation_snapshot ?st) =
      [\<lparr>observed_tool_name = ''Bash'', observed_call_count = 1, observed_calls =
         [\<lparr>call_seq = 1, observed_call_id = ''call-1'', call_arguments = [(''command'', JString ''ls'')],
           call_arguments_truncated = False, call_redacted_fields = 1\<rparr>]\<rparr>]"
    by (simp add: sample_defs)
  have "observed sample_codec ?st" by (intro described launched)
  from observation_shows_newest_calls [OF this] have "\<forall>t \<in> set (observation_tools (observation_snapshot ?st)).
      \<forall>c \<in> set (observed_calls t). arguments_ok sample_codec (call_arguments c)"
    by blast
  then show ?thesis unfolding shown by simp
qed

end
