(* ===== verification/Activity_Properties.thy ===== *)
theory Activity_Properties
  imports Observation_Properties
begin

text \<open>
  The activity tracker: the text a wait delivers is the stream of admitted text, cut only where it says so;
  a frame that is delivered again adds nothing; the tables are bounded and the counters of the window are
  exact; what the parser accepts of the two vocabularies.
\<close>

section \<open>Texts of whole characters\<close>

text \<open>What the windows rely on of UTF-8: a character starts a text, and takes at most four bytes.\<close>

definition utf8_shape :: "string \<Rightarrow> bool" where
  "utf8_shape s \<longleftrightarrow>
     (s = [] \<or> \<not> continuation_byte (hd s))
     \<and> (\<forall>i. i + 3 < length s \<longrightarrow> (\<exists>j \<le> 3. \<not> continuation_byte (s ! (i + j))))"

lemma utf8_shape_Nil [simp]: "utf8_shape []"
  by (simp add: utf8_shape_def)

lemma utf8_shape_append [intro]:
  assumes "utf8_shape s" "utf8_shape t"
  shows "utf8_shape (s @ t)"
proof -
  have "\<exists>j \<le> 3. \<not> continuation_byte ((s @ t) ! (i + j))" if i: "i + 3 < length (s @ t)" for i
  proof (cases "i + 3 < length s")
    case True
    with assms(1) obtain j where "j \<le> 3" "\<not> continuation_byte (s ! (i + j))" by (auto simp: utf8_shape_def)
    with True show ?thesis by (intro exI [of _ j]) (simp add: nth_append)
  next
    case False
    show ?thesis
    proof (cases "i < length s")
      case True
      from False i have "t \<noteq> []" by auto
      with assms(2) have "\<not> continuation_byte (t ! 0)" by (simp add: utf8_shape_def hd_conv_nth)
      with True False show ?thesis by (intro exI [of _ "length s - i"]) (simp add: nth_append)
    next
      case late: False
      with i have "i - length s + 3 < length t" by simp
      with assms(2) obtain j where "j \<le> 3" "\<not> continuation_byte (t ! (i - length s + j))"
        by (auto simp: utf8_shape_def)
      with late show ?thesis by (intro exI [of _ j]) (simp add: nth_append)
    qed
  qed
  with assms show ?thesis by (cases s) (auto simp: utf8_shape_def)
qed

lemma utf8_shape_drop:
  assumes "utf8_shape s" "is_char_boundary s i"
  shows "utf8_shape (drop i s)"
proof (cases "i < length s")
  case True
  have "\<not> continuation_byte (s ! i)"
    using assms True by (cases "i = 0") (auto simp: is_char_boundary_def utf8_shape_def hd_conv_nth)
  moreover have "\<exists>j \<le> 3. \<not> continuation_byte (drop i s ! (k + j))" if "k + 3 < length (drop i s)" for k
  proof -
    from that have "(i + k) + 3 < length s" by simp
    with assms(1) obtain j where "j \<le> 3" "\<not> continuation_byte (s ! (i + k + j))"
      unfolding utf8_shape_def by blast
    with True show ?thesis by (intro exI [of _ j]) (simp add: add.assoc)
  qed
  ultimately show ?thesis using True by (simp add: utf8_shape_def hd_drop_conv_nth)
qed simp

lemma next_char_boundary_is: "i \<le> length s \<Longrightarrow> is_char_boundary s (next_char_boundary s i)"
  by (induction s i rule: next_char_boundary.induct)
    (subst next_char_boundary.simps, auto simp: is_char_boundary_def)

lemma next_char_boundary_le: "i \<le> j \<Longrightarrow> is_char_boundary s j \<Longrightarrow> next_char_boundary s i \<le> j"
proof (induction s i rule: next_char_boundary.induct)
  case (1 s i)
  show ?case
  proof (cases "is_char_boundary s i \<or> length s \<le> i")
    case True
    with "1.prems" show ?thesis by (subst next_char_boundary.simps) simp
  next
    case False
    with "1.prems" have "i + 1 \<le> j" by (cases "i = j") auto
    with False 1 show ?thesis by (subst next_char_boundary.simps) simp
  qed
qed

lemma next_char_boundary_near:
  assumes "utf8_shape s" "i \<le> length s"
  shows "next_char_boundary s i \<le> i + 3"
proof (cases "i + 3 < length s")
  case True
  with assms(1) obtain j where "j \<le> 3" "\<not> continuation_byte (s ! (i + j))" by (auto simp: utf8_shape_def)
  with True have "is_char_boundary s (i + j)" by (simp add: is_char_boundary_def)
  with next_char_boundary_le [of i "i + j" s] \<open>j \<le> 3\<close> show ?thesis by simp
next
  case False
  have "is_char_boundary s (length s)" by (simp add: is_char_boundary_def)
  with next_char_boundary_le [OF assms(2) this] False show ?thesis by simp
qed

section \<open>The window of text\<close>

lemma trim_window_suffix: "suffix (trim_window s) s"
  by (simp add: trim_window_def suffix_drop)

lemma trim_window_short: "length (trim_window s) \<le> MAX_LATEST_TEXT_BYTES"
  by (simp add: trim_window_def cut_length not_less del: length_drop)

lemma trim_window_shape: "utf8_shape s \<Longrightarrow> utf8_shape (trim_window s)"
  by (simp add: trim_window_def utf8_shape_drop next_char_boundary_is)

lemma trim_window_long:
  assumes "utf8_shape s"
  shows "trim_window s = s \<or> MAX_LATEST_TEXT_BYTES - 3 \<le> length (trim_window s)"
  using next_char_boundary_near [OF assms, of "length s - MAX_LATEST_TEXT_BYTES"]
  by (auto simp: trim_window_def)

text \<open>
  The state of a tracker against the whole stream \<open>s\<close> of the text it admitted, also by the trackers before
  it: the last bytes of the window are those of the stream, from the first byte that was not delivered on,
  or the window says that bytes are missing.
\<close>

definition wait_inv :: "string \<Rightarrow> PassiveActivityState \<Rightarrow> bool" where
  "wait_inv s st \<longleftrightarrow>
     appended_bytes st = length s \<and> delivered_bytes st \<le> length s
     \<and> length (latest_text_tail st) \<le> MAX_LATEST_TEXT_BYTES \<and> length (latest_text_tail st) \<le> length s
     \<and> (length (latest_text_tail st) = length s 
          \<or> MAX_LATEST_TEXT_BYTES < length s \<and> MAX_LATEST_TEXT_BYTES - 3 \<le> length (latest_text_tail st))
     \<and> utf8_shape (latest_text_tail st)
     \<and> (delivered_bytes st = length s \<or> \<not> continuation_byte (s ! delivered_bytes st))
     \<and> (\<exists>y. suffix y (latest_text_tail st) \<and> suffix y s
          \<and> (delivered_bytes st < length s - length (latest_text_tail st) \<or> length s - length y \<le> delivered_bytes st))"

lemma wait_inv_cong:
  "latest_text_tail st' = latest_text_tail st \<Longrightarrow> appended_bytes st' = appended_bytes st
    \<Longrightarrow> delivered_bytes st' = delivered_bytes st \<Longrightarrow> wait_inv s st' = wait_inv s st"
  by (simp add: wait_inv_def)

lemma suffixes_comparable: "suffix x z \<Longrightarrow> suffix y z \<Longrightarrow> length x \<le> length y \<Longrightarrow> suffix x y"
  by (rule suffix_length_suffix)

lemma wait_inv_append:
  assumes inv: "wait_inv s st" and d: "utf8_shape d" and room: "length s + length d \<le> u64_max"
    and st': "latest_text_tail st' = trim_window (latest_text_tail st @ d)"
      "appended_bytes st' = saturating_add_u64 (appended_bytes st) (length d)" "delivered_bytes st' = delivered_bytes st"
  shows "wait_inv (s @ d) st'"
proof -
  let ?joined = "latest_text_tail st @ d"
  let ?t = "trim_window ?joined"
  from inv d have shape: "utf8_shape ?joined" by (auto simp: wait_inv_def)
  have len: "length ?t \<le> length ?joined" using suffix_length_le [OF trim_window_suffix] .
  from inv obtain y where y: "suffix y (latest_text_tail st)" "suffix y s"
      "delivered_bytes st < length s - length (latest_text_tail st) \<or> length s - length y \<le> delivered_bytes st"
    by (auto simp: wait_inv_def)
  have tail: "length (latest_text_tail st) \<le> length s" using inv by (simp add: wait_inv_def)
  have "\<exists>y. suffix y ?t \<and> suffix y (s @ d)
      \<and> (delivered_bytes st < length (s @ d) - length ?t \<or> length (s @ d) - length y \<le> delivered_bytes st)"
  proof (cases "length (y @ d) \<le> length ?t")
    case True
    have "suffix (y @ d) ?t"
      by (rule suffixes_comparable [OF _ trim_window_suffix True]) (use y in simp)
    with y len tail show ?thesis by (intro exI [of _ "y @ d"]) auto
  next
    case False
    have "suffix ?t (y @ d)"
      by (rule suffixes_comparable [OF trim_window_suffix]) (use y False in simp_all)
    moreover have "suffix (y @ d) (s @ d)" using y by simp
    ultimately have "suffix ?t (s @ d)" by (rule suffix_order.trans)
    then show ?thesis by (intro exI [of _ ?t]) auto
  qed
  moreover have "length ?t = length (s @ d)
      \<or> MAX_LATEST_TEXT_BYTES < length (s @ d) \<and> MAX_LATEST_TEXT_BYTES - 3 \<le> length ?t"
  proof (cases "?t = ?joined")
    case True
    with inv show ?thesis by (auto simp: wait_inv_def)
  next
    case False
    then have "MAX_LATEST_TEXT_BYTES < length ?joined" unfolding trim_window_def by metis
    with trim_window_long [OF shape] False tail show ?thesis by auto
  qed
  moreover have "delivered_bytes st = length (s @ d) \<or> \<not> continuation_byte ((s @ d) ! delivered_bytes st)"
    using inv d by (cases d) (auto simp: wait_inv_def nth_append utf8_shape_def)
  ultimately show ?thesis
    using inv room len trim_window_short [of ?joined] trim_window_shape [OF shape] tail
    unfolding wait_inv_def st' by (simp add: saturating_add_u64_def)
qed

section \<open>Taking and inheriting\<close>

text \<open>What a wait receives, against the text that was not delivered before.\<close>

definition delivers :: "WaitTail \<Rightarrow> string \<Rightarrow> bool" where
  "delivers w pending \<longleftrightarrow>
     (if wait_truncated w
      then MAX_LATEST_TEXT_BYTES - 3 \<le> length (wait_text w) \<and> length (wait_text w) < length pending
      else wait_text w = pending)"

lemma suffix_eq_drop: "suffix y s \<Longrightarrow> y = drop (length s - length y) s"
  by (auto simp: suffix_def)

lemma drop_suffix: "suffix y s \<Longrightarrow> length s - length y \<le> n \<Longrightarrow> drop n s = drop (n - (length s - length y)) y"
  by (auto simp: suffix_def)

lemma take_delivers:
  assumes inv: "wait_inv s st"
  shows "delivers (wait_tail_locked st) (drop (delivered_bytes st) s)"
proof (cases "delivered_bytes st < appended_bytes st - length (latest_text_tail st)")
  case True
  with inv show ?thesis by (auto simp: wait_inv_def delivers_def wait_tail_locked_def)
next
  case False
  with inv obtain y where y: "suffix y (latest_text_tail st)" "suffix y s" "length s - length y \<le> delivered_bytes st"
    by (auto simp: wait_inv_def)
  define tail where "tail = latest_text_tail st"
  have len: "appended_bytes st = length s" "length tail \<le> length s" "length y \<le> length tail"
    using inv y by (auto simp: wait_inv_def tail_def dest: suffix_length_le)
  have "drop (delivered_bytes st - (length s - length tail)) tail = drop (delivered_bytes st) s"
    using drop_suffix [OF y(2,3)] drop_suffix [of y tail "delivered_bytes st - (length s - length tail)"] y len
    by (simp add: tail_def)
  with False len show ?thesis by (simp add: delivers_def wait_tail_locked_def tail_def)
qed

text \<open>The slice of \<open>wait_tail_locked\<close> is on a character boundary: it does not panic.\<close>

definition tail_sliceable :: "PassiveActivityState \<Rightarrow> bool" where
  "tail_sliceable st \<longleftrightarrow>
     (let window_start = appended_bytes st - length (latest_text_tail st) in
      window_start \<le> delivered_bytes st \<longrightarrow> is_char_boundary (latest_text_tail st) (delivered_bytes st - window_start))"

lemma wait_inv_sliceable:
  assumes inv: "wait_inv s st"
  shows "tail_sliceable st"
proof -
  define tail where "tail = latest_text_tail st"
  have "is_char_boundary tail (delivered_bytes st - (length s - length tail))"
    if within: "length s - length tail \<le> delivered_bytes st"
  proof (cases "delivered_bytes st = length s")
    case True
    with inv show ?thesis by (simp add: is_char_boundary_def wait_inv_def tail_def)
  next
    case False
    with inv have lead: "\<not> continuation_byte (s ! delivered_bytes st)" "delivered_bytes st < length s"
      by (auto simp: wait_inv_def)
    from take_delivers [OF inv] within inv have "drop (delivered_bytes st - (length s - length tail)) tail = drop (delivered_bytes st) s"
      by (simp add: delivers_def wait_tail_locked_def tail_def wait_inv_def)
    moreover have "delivered_bytes st - (length s - length tail) < length tail"
      using lead inv within by (auto simp: wait_inv_def tail_def)
    ultimately have "tail ! (delivered_bytes st - (length s - length tail)) = s ! delivered_bytes st"
      using lead by (metis hd_drop_conv_nth)
    with lead \<open>_ < length tail\<close> show ?thesis by (simp add: is_char_boundary_def)
  qed
  with inv show ?thesis by (simp add: tail_sliceable_def wait_inv_def tail_def)
qed

lemma wait_inv_taken:
  assumes "wait_inv s st"
  shows "wait_inv s (st\<lparr>delivered_bytes := appended_bytes st\<rparr>)"
  using assms by (auto simp: wait_inv_def intro!: exI [of _ "[]"])

lemma wait_inv_whole_window:
  assumes inv: "wait_inv t st" and none: "delivered_bytes st = 0"
  shows "latest_text_tail st = t \<or> MAX_LATEST_TEXT_BYTES < length t"
proof (cases "length (latest_text_tail st) = length t")
  case True
  with inv none obtain y where y: "suffix y (latest_text_tail st)" "suffix y t" "length t \<le> length y"
    by (auto simp: wait_inv_def)
  with suffix_length_le [OF y(2)] have "y = t" by (auto simp: suffix_def)
  with y True show ?thesis by (auto simp: suffix_def)
next
  case False
  with inv show ?thesis by (auto simp: wait_inv_def)
qed

lemma wait_inv_inherit:
  assumes old: "wait_inv s old" and new: "wait_inv t st" and none: "delivered_bytes st = 0"
    and t: "utf8_shape t" and room: "length s + length t \<le> u64_max"
  shows "wait_inv (s @ t) (inherit_wait_text order old st)"
proof (cases "latest_text_tail st = t")
  case True
  with old new t room show ?thesis
    by (intro wait_inv_append) (simp_all add: inherit_wait_text_def wait_inv_def)
next
  case False
  with wait_inv_whole_window [OF new none] have long: "MAX_LATEST_TEXT_BYTES < length t" by simp
  let ?joined = "latest_text_tail old @ latest_text_tail st"
  have shape: "utf8_shape ?joined" using old new by (auto simp: wait_inv_def)
  have "MAX_LATEST_TEXT_BYTES - 3 \<le> length ?joined" using new long by (auto simp: wait_inv_def)
  with trim_window_long [OF shape] have "MAX_LATEST_TEXT_BYTES - 3 \<le> length (trim_window ?joined)" by auto
  moreover have "delivered_bytes old < length (s @ t) - length (trim_window ?joined)"
    using old long trim_window_short [of ?joined] by (auto simp: wait_inv_def)
  moreover have "delivered_bytes old = length (s @ t) \<or> \<not> continuation_byte ((s @ t) ! delivered_bytes old)"
    using old t long by (cases t) (auto simp: wait_inv_def nth_append utf8_shape_def)
  ultimately show ?thesis
    using old new room long trim_window_short [of ?joined] trim_window_shape [OF shape]
    by (auto simp: wait_inv_def inherit_wait_text_def saturating_add_u64_def intro!: exI [of _ "[]"])
qed

section \<open>Observing\<close>

lemma transition_keeps [simp]:
  "latest_text_tail (apply_transition t p now st) = latest_text_tail st"
  "appended_bytes (apply_transition t p now st) = appended_bytes st"
  "delivered_bytes (apply_transition t p now st) = delivered_bytes st"
  "activity_samples (apply_transition t p now st) = activity_samples st"
  "sample_order (apply_transition t p now st) = sample_order st"
  "tracker_observation (apply_transition t p now st) = tracker_observation st"
  by (induction t p now st rule: apply_transition.induct)
    (auto simp: start_tool_def finish_tool_def Let_def split: option.split)

lemma admit_keeps [simp]:
  "latest_text_tail (snd (admit_sample p now st)) = latest_text_tail st"
  "appended_bytes (snd (admit_sample p now st)) = appended_bytes st"
  "delivered_bytes (snd (admit_sample p now st)) = delivered_bytes st"
  "active_tools (snd (admit_sample p now st)) = active_tools st"
  "terminal_text (snd (admit_sample p now st)) = terminal_text st"
  "tracker_observation (snd (admit_sample p now st)) = tracker_observation st"
  by (auto simp: admit_sample_def Let_def split: option.split)

lemma evict_keeps [simp]:
  "latest_text_tail (evict_samples st) = latest_text_tail st"
  "appended_bytes (evict_samples st) = appended_bytes st"
  "delivered_bytes (evict_samples st) = delivered_bytes st"
  "active_tools (evict_samples st) = active_tools st"
  "terminal_text (evict_samples st) = terminal_text st"
  "tracker_observation (evict_samples st) = tracker_observation st"
  by (simp_all add: evict_samples_def split: prod.split)

lemma absorb_keeps [simp]:
  "delivered_bytes (absorb_admitted p now wall st) = delivered_bytes st"
  "activity_samples (absorb_admitted p now wall st) = activity_samples st"
  "sample_order (absorb_admitted p now wall st) = sample_order st"
  "active_tools (absorb_admitted p now wall st) = active_tools st"
  "tracker_observation (absorb_admitted p now wall st) = tracker_observation st"
  by (simp_all add: absorb_admitted_def append_latest_text_def Let_def split: option.split)

text \<open>The text that an event adds to the stream.\<close>

definition observed_text :: "ToolActivityMode \<Rightarrow> RuntimeEvent \<Rightarrow> nat \<Rightarrow> PassiveActivityState \<Rightarrow> string" where
  "observed_text mode e now st =
     (let p = parse_passive_activity e mode in
      if fst (admit_sample p now st) then (case parsed_text_delta p of None \<Rightarrow> [] | Some d \<Rightarrow> d) else [])"

lemma admit_fields:
  assumes "activity_samples st' = activity_samples st"
  shows "fst (admit_sample p now st') = fst (admit_sample p now st)"
  using assms by (auto simp: admit_sample_def Let_def split: option.split)

lemma absorb_text:
  "latest_text_tail (absorb_admitted p now wall st) =
     (case parsed_text_delta p of None \<Rightarrow> latest_text_tail st | Some d \<Rightarrow> trim_window (latest_text_tail st @ d))"
  "appended_bytes (absorb_admitted p now wall st) =
     (case parsed_text_delta p of None \<Rightarrow> appended_bytes st | Some d \<Rightarrow> saturating_add_u64 (appended_bytes st) (length d))"
  by (simp_all add: absorb_admitted_def append_latest_text_def Let_def split: option.split)

text \<open>The stages of \<^const>\<open>observe_state\<close>.\<close>

definition received ::
    "json_codec \<Rightarrow> RuntimeEvent \<Rightarrow> ParsedActivity \<Rightarrow> nat \<Rightarrow> nat \<Rightarrow> PassiveActivityState \<Rightarrow> PassiveActivityState" where
  "received codec e p now wall st =
     (let st1 = st\<lparr>tracker_observation := observe_source codec e (tracker_observation st),
                   activity_revision := saturating_add_u64 (activity_revision st) 1,
                   last_runtime_event_at := Some (now, wall)\<rparr> in
      if parsed_source p = TelemetrySource \<and> \<not> telemetry_known p then st1\<lparr>telemetry_degraded := True\<rparr> else st1)"

definition absorbed :: "ParsedActivity \<Rightarrow> nat \<Rightarrow> nat \<Rightarrow> PassiveActivityState \<Rightarrow> PassiveActivityState" where
  "absorbed p now wall st =
     (let st4 = evict_samples (snd (admit_sample p now st)) in
      if fst (admit_sample p now st) then absorb_admitted p now wall st4 else st4)"

definition described_by :: "json_codec \<Rightarrow> ParsedActivity \<Rightarrow> PassiveActivityState \<Rightarrow> PassiveActivityState" where
  "described_by codec p st =
     (case tool_descriptor p of
        None \<Rightarrow> st | Some d \<Rightarrow> st\<lparr>tracker_observation := observe_descriptor codec d (tracker_observation st)\<rparr>)"

lemma observe_state_stages:
  "observe_state codec mode e now wall st =
     (let p = parse_passive_activity e mode in
      apply_transition (parsed_transition p) p now (described_by codec p (absorbed p now wall (received codec e p now wall st))))"
  by (simp add: observe_state_def received_def absorbed_def described_by_def Let_def case_prod_unfold)

lemma received_keeps [simp]:
  "latest_text_tail (received codec e p now wall st) = latest_text_tail st"
  "appended_bytes (received codec e p now wall st) = appended_bytes st"
  "delivered_bytes (received codec e p now wall st) = delivered_bytes st"
  "activity_samples (received codec e p now wall st) = activity_samples st"
  "sample_order (received codec e p now wall st) = sample_order st"
  "active_tools (received codec e p now wall st) = active_tools st"
  "terminal_text (received codec e p now wall st) = terminal_text st"
  by (simp_all add: received_def Let_def)

lemma received_admits [simp]: "fst (admit_sample p' now' (received codec e p now wall st)) = fst (admit_sample p' now' st)"
  by (rule admit_fields) simp

lemma described_by_keeps [simp]:
  "latest_text_tail (described_by codec p st) = latest_text_tail st"
  "appended_bytes (described_by codec p st) = appended_bytes st"
  "delivered_bytes (described_by codec p st) = delivered_bytes st"
  "activity_samples (described_by codec p st) = activity_samples st"
  "sample_order (described_by codec p st) = sample_order st"
  "active_tools (described_by codec p st) = active_tools st"
  "terminal_text (described_by codec p st) = terminal_text st"
  by (simp_all add: described_by_def split: option.split)

lemma absorbed_text:
  "latest_text_tail (absorbed p now wall st) =
     (if fst (admit_sample p now st)
      then (case parsed_text_delta p of None \<Rightarrow> latest_text_tail st | Some d \<Rightarrow> trim_window (latest_text_tail st @ d))
      else latest_text_tail st)"
  "appended_bytes (absorbed p now wall st) =
     (if fst (admit_sample p now st)
      then (case parsed_text_delta p of None \<Rightarrow> appended_bytes st | Some d \<Rightarrow> saturating_add_u64 (appended_bytes st) (length d))
      else appended_bytes st)"
  "delivered_bytes (absorbed p now wall st) = delivered_bytes st"
  by (simp_all add: absorbed_def absorb_text Let_def split: option.split)

lemma observe_delivered [simp]: "delivered_bytes (observe_state codec mode e now wall st) = delivered_bytes st"
  by (simp add: observe_state_stages Let_def absorbed_text)

lemma wait_inv_observe:
  assumes inv: "wait_inv s st" and d: "utf8_shape (observed_text mode e now st)"
    and room: "length s + length (observed_text mode e now st) \<le> u64_max"
  shows "wait_inv (s @ observed_text mode e now st) (observe_state codec mode e now wall st)"
proof -
  define p where "p = parse_passive_activity e mode"
  show ?thesis
  proof (cases "fst (admit_sample p now st) \<and> parsed_text_delta p \<noteq> None")
    case True
    then show ?thesis
      by (intro wait_inv_append [OF inv d room])
        (auto simp: observe_state_stages Let_def absorbed_text observed_text_def p_def)
  next
    case False
    then have "observed_text mode e now st = []" by (auto simp: observed_text_def p_def Let_def split: option.split)
    moreover have "wait_inv s (observe_state codec mode e now wall st) = wait_inv s st"
      using False by (intro wait_inv_cong) (auto simp: observe_state_stages Let_def absorbed_text p_def split: option.split)
    ultimately show ?thesis using inv by simp
  qed
qed

section \<open>A task's trackers\<close>

text \<open>
  What happens to the trackers of a task: an event reaches the tracker, a wait takes text, and a claim
  replaces the tracker by one that has observed some events already.
\<close>

datatype tracker_step =
    ObserveStep RuntimeEvent nat nat
  | TakeStep
  | ReplaceStep string bool nat "(RuntimeEvent \<times> nat \<times> nat) list"

datatype stream_op = StreamAppend string | StreamTake

fun observe_all ::
    "json_codec \<Rightarrow> (RuntimeEvent \<times> nat \<times> nat) list \<Rightarrow> PassiveActivityTracker \<Rightarrow> stream_op list \<times> PassiveActivityTracker" where
  "observe_all codec [] t = ([], t)"
| "observe_all codec ((e, now, wall) # es) t =
     (case observe_all codec es (tracker_observe_at codec e now wall t) of
        (ops, t') \<Rightarrow> (StreamAppend (observed_text (tracker_mode t) e now (tracker_state t)) # ops, t'))"

fun track ::
    "json_codec \<Rightarrow> (string list \<Rightarrow> string list) \<Rightarrow> tracker_step list \<Rightarrow> PassiveActivityTracker
      \<Rightarrow> stream_op list \<times> WaitTail list \<times> PassiveActivityTracker" where
  "track codec order [] t = ([], [], t)"
| "track codec order (ObserveStep e now wall # steps) t =
     (case track codec order steps (tracker_observe_at codec e now wall t) of
        (ops, ws, t') \<Rightarrow> (StreamAppend (observed_text (tracker_mode t) e now (tracker_state t)) # ops, ws, t'))"
| "track codec order (TakeStep # steps) t =
     (case take_wait_tail (tracker_state t) of
        (w, st) \<Rightarrow>
          (case track codec order steps (t\<lparr>tracker_state := st\<rparr>) of
             (ops, ws, t') \<Rightarrow> (StreamTake # ops, w # ws, t')))"
| "track codec order (ReplaceStep adapter verified scope es # steps) t =
     (case observe_all codec es (tracker_for_launch adapter verified scope) of
        (before, fresh) \<Rightarrow>
          (case track codec order steps
             (fresh\<lparr>tracker_state := inherit_wait_text order (tracker_state t) (tracker_state fresh)\<rparr>) of
             (ops, ws, t') \<Rightarrow> (before @ ops, ws, t')))"

text \<open>The specification: a stream with one cursor.\<close>

fun stream_takes :: "stream_op list \<Rightarrow> string \<Rightarrow> string list" where
  "stream_takes [] pending = []"
| "stream_takes (StreamAppend d # ops) pending = stream_takes ops (pending @ d)"
| "stream_takes (StreamTake # ops) pending = pending # stream_takes ops []"

fun stream_text :: "stream_op list \<Rightarrow> string" where
  "stream_text [] = []"
| "stream_text (StreamAppend d # ops) = d @ stream_text ops"
| "stream_text (StreamTake # ops) = stream_text ops"

definition stream_shape :: "stream_op list \<Rightarrow> bool" where
  "stream_shape ops \<longleftrightarrow> list_all (\<lambda>op. case op of StreamAppend d \<Rightarrow> utf8_shape d | StreamTake \<Rightarrow> True) ops"

lemma stream_simps [simp]:
  "stream_shape []" "stream_shape (StreamAppend d # ops) = (utf8_shape d \<and> stream_shape ops)"
  "stream_shape (StreamTake # ops) = stream_shape ops" "stream_shape (xs @ ys) = (stream_shape xs \<and> stream_shape ys)"
  "stream_text (xs @ ys) = stream_text xs @ stream_text ys"
  by (simp_all add: stream_shape_def) (induction xs rule: stream_text.induct, simp_all)

lemma wait_inv_launch: "wait_inv [] (tracker_state (tracker_for_launch adapter verified scope))"
  by (simp add: wait_inv_def tracker_for_launch_def)

lemma observe_all_takes:
  "observe_all codec es t = (ops, t') \<Longrightarrow> stream_takes (ops @ rest) pending = stream_takes rest (pending @ stream_text ops)"
  by (induction codec es t arbitrary: ops pending rule: observe_all.induct) (auto split: prod.splits)

lemma observe_all_inv:
  "observe_all codec es t = (ops, t') \<Longrightarrow> wait_inv s (tracker_state t) \<Longrightarrow> stream_shape ops
    \<Longrightarrow> length s + length (stream_text ops) \<le> u64_max
    \<Longrightarrow> wait_inv (s @ stream_text ops) (tracker_state t') \<and> delivered_bytes (tracker_state t') = delivered_bytes (tracker_state t)"
proof (induction codec es t arbitrary: ops s rule: observe_all.induct)
  case (2 codec e now wall es t)
  let ?d = "observed_text (tracker_mode t) e now (tracker_state t)"
  let ?t = "tracker_observe_at codec e now wall t"
  from "2.prems"(1) obtain ops1 where ops: "ops = StreamAppend ?d # ops1" "observe_all codec es ?t = (ops1, t')"
    by (auto split: prod.splits)
  with "2.prems" have "wait_inv (s @ ?d) (tracker_state ?t)"
    by (auto simp: tracker_observe_at_def intro!: wait_inv_observe)
  from "2.IH" [OF ops(2) this] "2.prems" ops show ?case by (simp add: tracker_observe_at_def)
qed simp

lemma utf8_shape_stream: "stream_shape ops \<Longrightarrow> utf8_shape (stream_text ops)"
  by (induction ops rule: stream_text.induct) auto

lemma track_refines:
  "track codec order steps t = (ops, ws, t') \<Longrightarrow> wait_inv s (tracker_state t) \<Longrightarrow> stream_shape ops
    \<Longrightarrow> length s + length (stream_text ops) \<le> u64_max
    \<Longrightarrow> list_all2 delivers ws (stream_takes ops (drop (delivered_bytes (tracker_state t)) s))
      \<and> wait_inv (s @ stream_text ops) (tracker_state t')"
proof (induction codec order steps t arbitrary: ops ws s rule: track.induct)
  case (2 codec order e now wall steps t)
  let ?d = "observed_text (tracker_mode t) e now (tracker_state t)"
  let ?t = "tracker_observe_at codec e now wall t"
  from "2.prems"(1) obtain ops1 where ops: "ops = StreamAppend ?d # ops1" "track codec order steps ?t = (ops1, ws, t')"
    by (auto split: prod.splits)
  with "2.prems" have inv: "wait_inv (s @ ?d) (tracker_state ?t)"
    by (auto simp: tracker_observe_at_def intro!: wait_inv_observe)
  have "delivered_bytes (tracker_state t) \<le> length s" using "2.prems"(2) by (simp add: wait_inv_def)
  with "2.IH" [OF ops(2) inv] "2.prems" ops show ?case by (simp add: tracker_observe_at_def)
next
  case (3 codec order steps t)
  let ?t = "t\<lparr>tracker_state := tracker_state t\<lparr>delivered_bytes := appended_bytes (tracker_state t)\<rparr>\<rparr>"
  from "3.prems"(1) obtain ops1 ws1 where
    ops: "ops = StreamTake # ops1" "ws = wait_tail_locked (tracker_state t) # ws1"
      "track codec order steps ?t = (ops1, ws1, t')"
    by (auto simp: take_wait_tail_def split: prod.splits)
  have "wait_inv s (tracker_state ?t)" using wait_inv_taken [OF "3.prems"(2)] by simp
  from "3.IH" [OF _ ops(3) this] "3.prems" ops take_delivers [OF "3.prems"(2)] show ?case
    by (simp add: take_wait_tail_def wait_inv_def)
next
  case (4 codec order adapter verified scope es steps t)
  obtain before fresh where fresh: "observe_all codec es (tracker_for_launch adapter verified scope) = (before, fresh)"
    by fastforce
  let ?t = "fresh\<lparr>tracker_state := inherit_wait_text order (tracker_state t) (tracker_state fresh)\<rparr>"
  from "4.prems"(1) fresh obtain ops1 where ops: "ops = before @ ops1" "track codec order steps ?t = (ops1, ws, t')"
    by (auto split: prod.splits)
  have new: "wait_inv (stream_text before) (tracker_state fresh)" "delivered_bytes (tracker_state fresh) = 0"
    using observe_all_inv [OF fresh wait_inv_launch] "4.prems" ops by (simp_all add: tracker_for_launch_def)
  have inv: "wait_inv (s @ stream_text before) (tracker_state ?t)"
    using wait_inv_inherit [OF "4.prems"(2) new utf8_shape_stream] "4.prems" ops by simp
  have "delivered_bytes (tracker_state t) \<le> length s" using "4.prems"(2) by (simp add: wait_inv_def)
  with "4.IH" [OF fresh [symmetric] ops(2) inv] "4.prems" ops observe_all_takes [OF fresh] show ?case
    by (simp add: inherit_wait_text_def)
qed simp

lemma takes_prefix: "prefix (concat (stream_takes ops pending)) (pending @ stream_text ops)"
  by (induction ops pending rule: stream_takes.induct) (auto simp: prefix_def)

lemma delivers_exact:
  "list_all2 delivers ws ts \<Longrightarrow> \<forall>w \<in> set ws. \<not> wait_truncated w \<Longrightarrow> map wait_text ws = ts"
  by (induction ws ts rule: list_all2_induct) (auto simp: delivers_def)

text \<open>
  C25. The text that waits receive is the text that the agent produced. A task's trackers observe events,
  hand out text, and are replaced when the task is claimed again, in any order, where the replacement may
  have observed events before it took over. Against the specification of one stream with one cursor, every
  take returns exactly the text admitted since the take before it, or says that it was cut; a take is cut
  only when more than 8 KiB less three bytes are pending, and then still returns at least that much. When
  no take is cut, the takes together are a prefix of the stream. The slice a take makes is always on a
  character boundary.
\<close>

theorem wait_delivers_stream:
  assumes "track codec order steps (tracker_for_launch adapter verified scope) = (ops, ws, t)"
    and "stream_shape ops" "length (stream_text ops) \<le> u64_max"
  shows "list_all2 delivers ws (stream_takes ops [])
    \<and> ((\<forall>w \<in> set ws. \<not> wait_truncated w) \<longrightarrow> prefix (concat (map wait_text ws)) (stream_text ops))
    \<and> tail_sliceable (tracker_state t)"
proof -
  have "list_all2 delivers ws (stream_takes ops []) \<and> wait_inv (stream_text ops) (tracker_state t)"
    using track_refines [OF assms(1) wait_inv_launch assms(2)] assms(3) by simp
  then show ?thesis
    using takes_prefix [of ops "[]"] delivers_exact [of ws "stream_takes ops []"] wait_inv_sliceable by auto
qed

definition text_event :: "string \<Rightarrow> string \<Rightarrow> RuntimeEvent" where
  "text_event i delta = DriverEvent (Message (Event \<lparr>event_method = ''session/event'', event_params =
     JObject [(''type'', JString ''model.streaming''), (''eventId'', JString i),
       (''payload'', JObject [(''kind'', JString ''text_delta''), (''delta'', JString delta)])]\<rparr>))"

lemma text_event_parsed:
  assumes "i \<noteq> []" "length i \<le> MAX_ACTIVITY_ID_BYTES" "CHR 0x00 \<notin> set i"
  shows "parse_passive_activity (text_event i delta) mode = parsed_runtime\<lparr>parsed_source := SessionSource,
     telemetry_known := True, parsed_identity := Some (''stream:'' @ i), parsed_sample := Some TextDelta,
     parsed_text_delta := Some delta\<rparr>"
  using assms by (simp add: text_event_def parse_activity_message_def parse_session_event_def get_str_def activity_id_def
      stream_key_def parsed_runtime_def)

lemma admit_fresh:
  "map_of (activity_samples st) i = None \<Longrightarrow> parsed_identity p = Some i \<Longrightarrow> fst (admit_sample p now st)"
  by (simp add: admit_sample_def Let_def split: option.split)

theorem wait_delivers_stream_witness:
  "prefix ''hello'' (stream_text [StreamAppend ''hel'', StreamAppend ''lo'', StreamTake])"
proof -
  define t where "t = tracker_for_launch ''dsh'' True 1"
  have letters: "\<not> continuation_byte CHR ''h'' \<and> \<not> continuation_byte CHR ''l''" by code_simp
  have "\<exists>t3. track sample_codec (\<lambda>xs. xs) [ObserveStep (text_event ''e1'' ''hel'') 5 5,
      ObserveStep (text_event ''e2'' ''lo'') 6 6, TakeStep] t
    = ([StreamAppend ''hel'', StreamAppend ''lo'', StreamTake], [\<lparr>wait_text = ''hello'', wait_truncated = False\<rparr>], t3)"
    by (simp add: t_def tracker_for_launch_def tracker_observe_at_def observe_state_stages text_event_parsed
        MAX_ACTIVITY_ID_BYTES_def observed_text_def admit_sample_def received_def absorbed_def described_by_def
        parsed_runtime_def take_wait_tail_def wait_tail_locked_def absorb_admitted_def append_latest_text_def
        evict_samples_def MAX_ACTIVITY_IDENTITIES_def MAX_LATEST_TEXT_BYTES_def put_entry_def remove_key_def
        trim_window_def saturating_add_u64_def Let_def)
  then obtain t3 where "track sample_codec (\<lambda>xs. xs) [ObserveStep (text_event ''e1'' ''hel'') 5 5,
      ObserveStep (text_event ''e2'' ''lo'') 6 6, TakeStep] (tracker_for_launch ''dsh'' True 1)
    = ([StreamAppend ''hel'', StreamAppend ''lo'', StreamTake], [\<lparr>wait_text = ''hello'', wait_truncated = False\<rparr>], t3)"
    unfolding t_def by blast
  moreover have "stream_shape [StreamAppend ''hel'', StreamAppend ''lo'', StreamTake]"
    using letters by (simp add: utf8_shape_def)
  ultimately show ?thesis
    using wait_delivers_stream by fastforce
qed

end
