(* ===== verification/Activity_Window.thy ===== *)
theory Activity_Window
  imports Activity_Properties
begin

text \<open>
  The samples of the tracker: they are bounded, the counters of the minute's window are exact sums, a frame
  that is delivered again adds nothing, and an adapter's mode keeps the other vocabulary out.
\<close>

section \<open>What the parser accepts\<close>

definition counted :: "ActivitySampleKind \<Rightarrow> nat" where
  "counted k = (case k of SampleToolStarted _ n \<Rightarrow> n | _ \<Rightarrow> 0)"

lemmas parser_defs = parse_activity_message_def parse_session_event_def parse_telemetry_event_def
  parse_tool_activity_def parse_tool_count_activity_def parse_detailed_descriptor_def parse_model_activity_def
  parse_permission_activity_def parse_turn_activity_def parse_finished_message_def parsed_runtime_def

lemma phase_sample_weight: "phase_sample kind t = Some k \<Longrightarrow> counted k \<le> 1"
  by (induction kind t rule: phase_sample.induct) (auto simp: counted_def)

lemma tool_activity_weight:
  assumes "parsed_sample p = None" "parsed_sample (parse_tool_activity payload source p) = Some k"
  shows "counted k \<le> 1"
  using assms
  by (auto simp: parse_tool_activity_def Let_def split: prod.splits option.splits dest: phase_sample_weight)

lemma tool_count_weight:
  assumes "parsed_sample p = None" "parsed_sample (parse_tool_count_activity payload event turn p) = Some k"
  shows "counted k \<le> MAX_TOOL_COUNT"
  using assms
  by (auto simp: parse_tool_count_activity_def Let_def counted_def split: option.splits if_splits)

lemma descriptor_keeps [simp]:
  "parsed_sample (parse_detailed_descriptor params payload p) = parsed_sample p"
  "parsed_source (parse_detailed_descriptor params payload p) = parsed_source p"
  "parsed_identity (parse_detailed_descriptor params payload p) = parsed_identity p"
  "parsed_transition (parse_detailed_descriptor params payload p) = parsed_transition p"
  "parsed_text_delta (parse_detailed_descriptor params payload p) = parsed_text_delta p"
  by (simp_all add: parse_detailed_descriptor_def split: option.split)

lemma parsers_keep [simp]:
  "parsed_sample (parse_model_activity payload b p) = parsed_sample p"
  "parsed_sample (parse_permission_activity payload b p) = parsed_sample p"
  "parsed_sample (parse_turn_activity t s e u p) = parsed_sample p"
  "parsed_sample (parse_finished_message payload p) = parsed_sample p"
  by (simp_all add: parser_defs Let_def)

definition weight_bound :: "ToolActivityMode \<Rightarrow> nat" where
  "weight_bound mode = (if mode = Detailed then 1 else MAX_TOOL_COUNT)"

lemma session_weight:
  assumes "parsed_sample p = None" "parsed_sample (parse_session_event params source mode p) = Some k"
  shows "counted k \<le> weight_bound mode"
  using assms tool_activity_weight [of p _ source k] tool_count_weight [of p _ _ _ k]
  unfolding parse_session_event_def Let_def
  by (simp add: weight_bound_def MAX_TOOL_COUNT_def counted_def split: if_splits) force+

lemma telemetry_weight:
  assumes "parsed_sample p = None" "parsed_sample (parse_telemetry_event params source mode p) = Some k"
  shows "counted k \<le> 1"
  using assms tool_activity_weight [of "p\<lparr>telemetry_known := True\<rparr>" params source k]
  unfolding parse_telemetry_event_def Let_def
  by (auto simp: counted_def split: if_splits)

lemma parsed_weight:
  assumes "parsed_sample (parse_passive_activity e mode) = Some k"
  shows "counted k \<le> weight_bound mode"
proof -
  have "counted k \<le> weight_bound mode"
    if k: "parsed_sample (parse_activity_message name params source mode) = Some k" for name params source
  proof -
    let ?p = "parsed_runtime\<lparr>parsed_source := source, telemetry_known := (source \<noteq> TelemetrySource)\<rparr>"
    have none: "parsed_sample ?p = None" by (simp add: parsed_runtime_def)
    have bound: "1 \<le> weight_bound mode" by (simp add: weight_bound_def MAX_TOOL_COUNT_def)
    consider "parse_activity_message name params source mode = parse_session_event params source mode ?p"
      | "parse_activity_message name params source mode = parse_telemetry_event params source mode ?p"
      | "parse_activity_message name params source mode = ?p"
      unfolding parse_activity_message_def Let_def by argo
    then show ?thesis
    proof cases
      case 1
      with k session_weight [OF none] show ?thesis by simp
    next
      case 2
      with k telemetry_weight [OF none, of params source mode k] bound show ?thesis by simp
    next
      case 3
      with k none show ?thesis by simp
    qed
  qed
  with assms show ?thesis
    by (induction e mode rule: parse_passive_activity.induct) (auto simp: parsed_runtime_def split: if_splits)
qed

section \<open>The table of samples\<close>

definition samples_ok :: "ToolActivityMode \<Rightarrow> PassiveActivityState \<Rightarrow> bool" where
  "samples_ok mode st \<longleftrightarrow>
     distinct (sample_order st) \<and> length (sample_order st) \<le> MAX_ACTIVITY_IDENTITIES
     \<and> distinct (map fst (activity_samples st)) \<and> fst ` set (activity_samples st) = set (sample_order st)
     \<and> (\<forall>(_, s) \<in> set (activity_samples st). counted (sample_kind s) \<le> weight_bound mode)"

lemma samples_ok_cong:
  "sample_order st' = sample_order st \<Longrightarrow> activity_samples st' = activity_samples st
    \<Longrightarrow> samples_ok mode st' = samples_ok mode st"
  by (simp add: samples_ok_def)

lemma evict_order: "fst (evict is ss) = drop (length is - MAX_ACTIVITY_IDENTITIES) is"
  by (induction "is" ss rule: evict.induct) (auto simp: Suc_diff_le not_less)

lemma evict_samples_set:
  "set (snd (evict is ss)) = {e \<in> set ss. fst e \<notin> set (take (length is - MAX_ACTIVITY_IDENTITIES) is)}"
  by (induction "is" ss rule: evict.induct) (auto simp: Suc_diff_le not_less remove_key_def)

lemma evict_distinct: "distinct (map fst ss) \<Longrightarrow> distinct (map fst (snd (evict is ss)))"
  by (induction "is" ss rule: evict.induct) simp_all

lemma evict_lookup:
  "map_of (snd (evict is ss)) i = (if i \<in> set (take (length is - MAX_ACTIVITY_IDENTITIES) is) then None else map_of ss i)"
  by (induction "is" ss rule: evict.induct) (auto simp: Suc_diff_le not_less)

lemma evict_samples_simps:
  "sample_order (evict_samples st) = drop (length (sample_order st) - MAX_ACTIVITY_IDENTITIES) (sample_order st)"
  "activity_samples (evict_samples st) = snd (evict (sample_order st) (activity_samples st))"
  using evict_order [of "sample_order st" "activity_samples st"]
  by (simp_all add: evict_samples_def case_prod_unfold)

lemma take_drop_disjoint: "distinct xs \<Longrightarrow> set xs - set (take n xs) = set (drop n xs)"
  using set_take_disj_set_drop_if_distinct [of xs n n] set_append [of "take n xs" "drop n xs"] by auto

text \<open>The table without its bound on the length: between the admission of a sample and the eviction.\<close>

definition samples_fit :: "ToolActivityMode \<Rightarrow> PassiveActivityState \<Rightarrow> bool" where
  "samples_fit mode st \<longleftrightarrow>
     distinct (sample_order st) \<and> distinct (map fst (activity_samples st))
     \<and> fst ` set (activity_samples st) = set (sample_order st)
     \<and> (\<forall>(_, s) \<in> set (activity_samples st). counted (sample_kind s) \<le> weight_bound mode)"

lemma evict_ok:
  assumes fit: "samples_fit mode st"
  shows "samples_ok mode (evict_samples st)"
proof -
  let ?n = "length (sample_order st) - MAX_ACTIVITY_IDENTITIES"
  have "fst ` set (snd (evict (sample_order st) (activity_samples st)))
      = fst ` set (activity_samples st) - set (take ?n (sample_order st))"
    by (auto simp: evict_samples_set)
  also have "\<dots> = set (drop ?n (sample_order st))"
    using fit take_drop_disjoint [of "sample_order st" ?n] by (simp add: samples_fit_def)
  finally show ?thesis
    using fit by (auto simp: samples_ok_def samples_fit_def evict_samples_simps evict_distinct evict_samples_set)
qed

lemma admit_fit:
  assumes ok: "samples_ok mode st"
    and weight: "\<And>k. parsed_sample p = Some k \<Longrightarrow> counted k \<le> weight_bound mode"
  shows "samples_fit mode (snd (admit_sample p now st))"
proof (cases "parsed_identity p = None \<or> parsed_sample p = None")
  case True
  with ok show ?thesis by (auto simp: admit_sample_def samples_ok_def samples_fit_def split: option.split)
next
  case False
  then obtain i k where i: "parsed_identity p = Some i" "parsed_sample p = Some k" by auto
  show ?thesis
  proof (cases "map_of (activity_samples st) i")
    case None
    then have "i \<notin> set (sample_order st)" using ok by (simp add: samples_ok_def map_of_eq_None_iff)
    with None ok i weight show ?thesis
      by (auto simp: admit_sample_def Let_def samples_ok_def samples_fit_def set_put_entry)
  next
    case (Some s)
    then have "insert i (set (sample_order st)) = set (sample_order st)"
      using ok map_of_SomeD [OF Some] by (force simp: samples_ok_def)
    with Some ok i weight show ?thesis
      by (auto simp: admit_sample_def Let_def samples_ok_def samples_fit_def) (auto simp: set_put_entry)
  qed
qed

lemma absorbed_samples:
  "activity_samples (absorbed p now wall st) = activity_samples (evict_samples (snd (admit_sample p now st)))"
  "sample_order (absorbed p now wall st) = sample_order (evict_samples (snd (admit_sample p now st)))"
  by (simp_all add: absorbed_def Let_def)

lemma observe_samples_ok:
  assumes ok: "samples_ok mode st"
  shows "samples_ok mode (observe_state codec mode e now wall st)"
proof -
  let ?p = "parse_passive_activity e mode"
  let ?r = "received codec e ?p now wall st"
  have "samples_ok mode ?r" using ok by (simp add: samples_ok_cong [of ?r st])
  then have "samples_ok mode (evict_samples (snd (admit_sample ?p now ?r)))"
    by (intro evict_ok admit_fit) (simp_all add: parsed_weight)
  then show ?thesis
    by (simp add: observe_state_stages Let_def samples_ok_def absorbed_samples)
qed

section \<open>The counters of the window\<close>

definition window_sum :: "(ActivitySampleKind \<Rightarrow> nat) \<Rightarrow> nat \<Rightarrow> (string \<times> ActivitySample) list \<Rightarrow> nat" where
  "window_sum f now samples = sum_list (map f (map sample_kind (filter (in_window now) (map snd samples))))"

definition counted_as :: "PassiveToolKind \<Rightarrow> ActivitySampleKind \<Rightarrow> nat" where
  "counted_as kind k = (case k of SampleToolStarted kind' n \<Rightarrow> if kind' = kind then n else 0 | _ \<Rightarrow> 0)"

definition occurs :: "ActivitySampleKind \<Rightarrow> ActivitySampleKind \<Rightarrow> nat" where
  "occurs kind k = (if k = kind then 1 else 0)"

locale window_counter =
  fixes field :: "PassiveActivityWindow \<Rightarrow> nat" and weight :: "ActivitySampleKind \<Rightarrow> nat"
  assumes empty: "field window_empty = 0"
    and counts: "field w \<le> u64_max \<Longrightarrow> field (count_sample k w) = min (field w + weight k) u64_max"
begin

lemma folded:
  "field w \<le> u64_max \<Longrightarrow> field (fold count_sample ks w) = min (field w + sum_list (map weight ks)) u64_max"
  by (induction ks arbitrary: w) (auto simp: counts min_def)

lemma window: "field (activity_window now samples) = min (window_sum weight now samples) u64_max"
  unfolding activity_window_def window_sum_def by (subst folded) (simp_all add: empty)

end

lemmas counter_defs = window_empty_def counted_def counted_as_def occurs_def saturating_add_u64_def Let_def

interpretation started: window_counter tool_calls_started counted
proof
  fix w :: PassiveActivityWindow and k
  show "tool_calls_started w \<le> u64_max \<Longrightarrow> tool_calls_started (count_sample k w) = min (tool_calls_started w + counted k) u64_max"
    by (cases k) (simp_all add: counter_defs split: PassiveToolKind.split)
qed (simp add: counter_defs)

interpretation reads: window_counter read_calls "counted_as ReadTool"
proof
  fix w :: PassiveActivityWindow and k
  show "read_calls w \<le> u64_max \<Longrightarrow> read_calls (count_sample k w) = min (read_calls w + counted_as ReadTool k) u64_max"
    by (cases k) (simp_all add: counter_defs split: PassiveToolKind.split)
qed (simp add: counter_defs)

interpretation bashes: window_counter bash_calls "counted_as BashTool"
proof
  fix w :: PassiveActivityWindow and k
  show "bash_calls w \<le> u64_max \<Longrightarrow> bash_calls (count_sample k w) = min (bash_calls w + counted_as BashTool k) u64_max"
    by (cases k) (simp_all add: counter_defs split: PassiveToolKind.split)
qed (simp add: counter_defs)

interpretation others: window_counter other_tool_calls "counted_as OtherTool"
proof
  fix w :: PassiveActivityWindow and k
  show "other_tool_calls w \<le> u64_max \<Longrightarrow> other_tool_calls (count_sample k w) = min (other_tool_calls w + counted_as OtherTool k) u64_max"
    by (cases k) (simp_all add: counter_defs split: PassiveToolKind.split)
qed (simp add: counter_defs)

interpretation texts: window_counter text_delta_events "occurs TextDelta"
proof
  fix w :: PassiveActivityWindow and k
  show "text_delta_events w \<le> u64_max \<Longrightarrow> text_delta_events (count_sample k w) = min (text_delta_events w + occurs TextDelta k) u64_max"
    by (cases k) (simp_all add: counter_defs split: PassiveToolKind.split)
qed (simp add: counter_defs)

lemma sum_list_le: "\<forall>x \<in> set xs. f x \<le> (b :: nat) \<Longrightarrow> sum_list (map f xs) \<le> b * length xs"
  by (induction xs) auto

lemma window_sum_bound:
  assumes ok: "samples_ok mode st" and f: "\<And>k. counted k \<le> b \<Longrightarrow> f k \<le> b" and b: "weight_bound mode \<le> b"
  shows "window_sum f now (activity_samples st) \<le> b * MAX_ACTIVITY_IDENTITIES"
proof -
  let ?in = "filter (in_window now) (map snd (activity_samples st))"
  have "\<forall>k \<in> set (map sample_kind ?in). f k \<le> b"
    using ok b by (force simp: samples_ok_def intro!: f)
  from sum_list_le [OF this] have "window_sum f now (activity_samples st) \<le> b * length ?in"
    by (simp add: window_sum_def)
  also have "length ?in \<le> length (activity_samples st)"
    using length_filter_le [of "in_window now" "map snd (activity_samples st)"] by simp
  also have "length (activity_samples st) = length (sample_order st)"
    using ok distinct_card [of "sample_order st"] distinct_card [of "map fst (activity_samples st)"]
    by (simp add: samples_ok_def)
  also have "\<dots> \<le> MAX_ACTIVITY_IDENTITIES" using ok by (simp add: samples_ok_def)
  finally show ?thesis by simp
qed

lemma kinds_add_up:
  "window_sum counted now samples
    = window_sum (counted_as ReadTool) now samples + window_sum (counted_as BashTool) now samples
      + window_sum (counted_as OtherTool) now samples"
proof -
  have "counted k = counted_as ReadTool k + counted_as BashTool k + counted_as OtherTool k" for k
    by (auto simp: counted_def counted_as_def split: ActivitySampleKind.split) (metis PassiveToolKind.exhaust)
  then have "sum_list (map counted ks) = sum_list (map (counted_as ReadTool) ks) + sum_list (map (counted_as BashTool) ks)
      + sum_list (map (counted_as OtherTool) ks)" for ks
    by (induction ks) simp_all
  then show ?thesis unfolding window_sum_def by blast
qed

section \<open>Modes\<close>

definition starts_tool :: "ActivityTransition option \<Rightarrow> bool" where
  "starts_tool t \<longleftrightarrow> t = Some ToolScheduled \<or> t = Some ToolStarted"

lemma starts_tool_simps [simp]: "\<not> starts_tool None"
  by (simp add: starts_tool_def)

lemma count_only_session:
  "\<not> starts_tool (parsed_transition p) \<Longrightarrow> \<not> starts_tool (parsed_transition (parse_session_event params source CountOnly p))"
  unfolding parse_session_event_def Let_def
  by (auto simp: starts_tool_def parse_tool_count_activity_def parse_model_activity_def parse_permission_activity_def
      parse_turn_activity_def parse_finished_message_def Let_def split: option.splits)

lemma count_only_telemetry:
  "\<not> starts_tool (parsed_transition p) \<Longrightarrow> \<not> starts_tool (parsed_transition (parse_telemetry_event params source CountOnly p))"
  unfolding parse_telemetry_event_def Let_def
  by (auto simp: starts_tool_def parse_model_activity_def parse_permission_activity_def Let_def)

lemma runtime_no_transition [simp]: "parsed_transition parsed_runtime = None"
  by (simp add: parsed_runtime_def)

lemma count_only_message: "\<not> starts_tool (parsed_transition (parse_activity_message method params source CountOnly))"
  unfolding parse_activity_message_def Let_def
  by (simp add: count_only_session count_only_telemetry)

lemma count_only_parse: "\<not> starts_tool (parsed_transition (parse_passive_activity e CountOnly))"
  by (induction e CountOnly rule: parse_passive_activity.induct)
    (simp_all add: count_only_message, simp_all add: parse_permission_activity_def parsed_runtime_def starts_tool_def Let_def)

lemma transition_no_tools:
  "\<not> starts_tool t \<Longrightarrow> active_tools st = [] \<Longrightarrow> active_tools (apply_transition t p now st) = []"
  by (induction t p now st rule: apply_transition.induct)
    (auto simp: starts_tool_def finish_tool_def remove_key_def Let_def split: option.split)

lemma absorbed_tools [simp]: "active_tools (absorbed p now wall st) = active_tools st"
  by (simp add: absorbed_def Let_def)

lemma observe_no_tools:
  "active_tools st = [] \<Longrightarrow> active_tools (observe_state codec CountOnly e now wall st) = []"
  by (simp add: observe_state_stages Let_def transition_no_tools count_only_parse)

section \<open>Reachable trackers\<close>

inductive tracked :: "json_codec \<Rightarrow> PassiveActivityTracker \<Rightarrow> bool" for codec where
  tracked_launch: "tracked codec (tracker_for_launch adapter verified scope)"
| tracked_observe: "tracked codec t \<Longrightarrow> tracked codec (tracker_observe_at codec e now wall t)"
| tracked_take: "tracked codec t \<Longrightarrow> tracked codec (t\<lparr>tracker_state := snd (take_wait_tail (tracker_state t))\<rparr>)"
| tracked_terminal: "tracked codec t \<Longrightarrow> tracked codec (t\<lparr>tracker_state := snd (take_terminal_text (tracker_state t))\<rparr>)"
| tracked_inherit: "tracked codec old \<Longrightarrow> tracked codec t
    \<Longrightarrow> tracked codec (t\<lparr>tracker_state := inherit_wait_text order (tracker_state old) (tracker_state t)\<rparr>)"
| tracked_confirm: "tracked codec t \<Longrightarrow> tracked codec (confirm_runtime_source b t)"

definition tracker_ok :: "json_codec \<Rightarrow> PassiveActivityTracker \<Rightarrow> bool" where
  "tracker_ok codec t \<longleftrightarrow>
     samples_ok (tracker_mode t) (tracker_state t)
     \<and> (tracker_mode t = CountOnly \<longrightarrow> active_tools (tracker_state t) = [])
     \<and> observed codec (tracker_observation (tracker_state t))"

lemma observe_observed:
  assumes "observed codec (tracker_observation st)"
  shows "observed codec (tracker_observation (observe_state codec mode e now wall st))"
proof -
  let ?p = "parse_passive_activity e mode"
  have "tracker_observation (absorbed ?p now wall (received codec e ?p now wall st)) = observe_source codec e (tracker_observation st)"
    by (simp add: absorbed_def Let_def) (simp add: received_def Let_def)
  with assms show ?thesis
    by (auto simp: observe_state_stages Let_def described_by_def intro: observed_source described split: option.split)
qed

lemma tracked_ok: "tracked codec t \<Longrightarrow> tracker_ok codec t"
proof (induction rule: tracked.induct)
  case (tracked_launch adapter verified scope)
  show ?case by (simp add: tracker_ok_def tracker_for_launch_def samples_ok_def launched)
next
  case (tracked_observe t e now wall)
  then show ?case
    by (simp add: tracker_ok_def tracker_observe_at_def observe_samples_ok observe_observed)
       (metis observe_no_tools)
next
  case (tracked_take t)
  then show ?case by (simp add: tracker_ok_def take_wait_tail_def samples_ok_def)
next
  case (tracked_terminal t)
  then show ?case by (simp add: tracker_ok_def take_terminal_text_def samples_ok_def)
next
  case (tracked_inherit old t order)
  then show ?case by (simp add: tracker_ok_def inherit_wait_text_def samples_ok_def inherited)
next
  case (tracked_confirm t b)
  then show ?case by (simp add: tracker_ok_def confirm_runtime_source_def)
qed

text \<open>
  The window a wait reports counts what it says. For every tracker that a task can have, the number of
  tool calls started in the last minute is the exact sum of the weights of the admitted samples received in
  that minute, none of the saturating counters saturates, and it is the sum of the counters of reads, of
  shell commands and of other calls. It is at most 65536 times the bound of one frame, which is one call for
  an adapter of the detailed vocabulary. A tracker of the count-only vocabulary never shows an active tool.
\<close>

theorem window_counts_exact:
  fixes now :: nat
  assumes "tracked codec t"
  defines "w \<equiv> window_60s (snapshot_at now (tracker_state t))"
  shows "tool_calls_started w = window_sum counted now (activity_samples (tracker_state t))
    \<and> tool_calls_started w = read_calls w + bash_calls w + other_tool_calls w
    \<and> tool_calls_started w \<le> weight_bound (tracker_mode t) * MAX_ACTIVITY_IDENTITIES
    \<and> text_delta_events w = window_sum (occurs TextDelta) now (activity_samples (tracker_state t))
    \<and> (tracker_mode t = CountOnly \<longrightarrow> snapshot_active_tools (snapshot_at now (tracker_state t)) = [])"
proof -
  from tracked_ok [OF assms(1)] have ok: "samples_ok (tracker_mode t) (tracker_state t)"
    and tools: "tracker_mode t = CountOnly \<Longrightarrow> active_tools (tracker_state t) = []"
    by (simp_all add: tracker_ok_def)
  let ?sum = "\<lambda>f. window_sum f now (activity_samples (tracker_state t))"
  have w: "w = activity_window now (activity_samples (tracker_state t))" by (simp add: w_def snapshot_at_def)
  have total: "?sum counted \<le> weight_bound (tracker_mode t) * MAX_ACTIVITY_IDENTITIES"
    by (rule window_sum_bound [OF ok]) simp_all
  have small: "weight_bound (tracker_mode t) * MAX_ACTIVITY_IDENTITIES \<le> u64_max"
    by (simp add: weight_bound_def MAX_TOOL_COUNT_def MAX_ACTIVITY_IDENTITIES_def)
  have "?sum (occurs TextDelta) \<le> MAX_TOOL_COUNT * MAX_ACTIVITY_IDENTITIES"
    by (rule window_sum_bound [OF ok]) (simp_all add: occurs_def weight_bound_def MAX_TOOL_COUNT_def)
  then have "?sum (occurs TextDelta) \<le> u64_max" by (simp add: MAX_TOOL_COUNT_def MAX_ACTIVITY_IDENTITIES_def)
  with total small kinds_add_up [of now "activity_samples (tracker_state t)"] tools show ?thesis
    unfolding w started.window reads.window bashes.window others.window texts.window
    by (simp add: snapshot_at_def)
qed

definition count_frame :: "string \<Rightarrow> nat \<Rightarrow> RuntimeEvent" where
  "count_frame i n = DriverEvent (Message (Event
     \<lparr>event_method = ''session/event'', event_params = tool_count_event i ''turn-1'' n None None\<rparr>))"

lemmas frame_defs = count_frame_def tool_count_event_def tool_updated_def member_opt_def parser_defs get_str_def
  activity_id_def MAX_TOOL_COUNT_def MAX_ACTIVITY_ID_BYTES_def Let_def

lemma count_frame_samples:
  "activity_samples (tracker_state (tracker_observe_at codec (count_frame ''e1'' 3) 5 5 (tracker_for_launch ''codex'' True 2)))
     = [(tagged ''tool'' ''e1'' ''count'',
         \<lparr>sample_source = SessionSource, sample_observed_at = 5, sample_kind = SampleToolStarted OtherTool 3\<rparr>)]"
  by (simp add: tracker_for_launch_def tracker_observe_at_def observe_state_stages absorbed_samples evict_samples_simps
      admit_sample_def put_entry_def remove_key_def MAX_ACTIVITY_IDENTITIES_def frame_defs)

theorem window_counts_exact_witness:
  "tool_calls_started (window_60s (snapshot_at 9 (tracker_state
     (tracker_observe_at sample_codec (count_frame ''e1'' 3) 5 5 (tracker_for_launch ''codex'' True 2))))) = 3"
proof -
  have "tracked sample_codec (tracker_observe_at sample_codec (count_frame ''e1'' 3) 5 5 (tracker_for_launch ''codex'' True 2))"
    by (intro tracked_observe tracked_launch)
  from window_counts_exact [OF this, of 9] show ?thesis
    by (simp add: count_frame_samples window_sum_def in_window_def PASSIVE_ACTIVITY_WINDOW_def counted_def)
qed

section \<open>Frames that are delivered again\<close>

text \<open>
  The sample of an identity is in the table, at most \<open>n\<close> identities are younger, and the parsed frame
  does not upgrade it.
\<close>

definition admitted_recently :: "ParsedActivity \<Rightarrow> string \<Rightarrow> nat \<Rightarrow> PassiveActivityState \<Rightarrow> bool" where
  "admitted_recently p i n st \<longleftrightarrow>
     (\<exists>xs ys. sample_order st = xs @ i # ys \<and> length ys \<le> n)
     \<and> (\<exists>s. map_of (activity_samples st) i = Some s
          \<and> (sample_source s = parsed_source p \<or> sample_source s = SessionSource))"

lemma not_readmitted:
  assumes "admitted_recently p i n st" "parsed_identity p = Some i" "parsed_sample p = Some k"
  shows "admit_sample p now st = (False, st)"
  using assms by (auto simp: admitted_recently_def admit_sample_def Let_def)

lemma admitted_step:
  assumes q: "admit_sample q now st = (b, st1)" and i: "admitted_recently p i n st"
  shows "(\<exists>xs ys. sample_order st1 = xs @ i # ys \<and> length ys \<le> Suc n)
    \<and> (\<exists>s. map_of (activity_samples st1) i = Some s
         \<and> (sample_source s = parsed_source p \<or> sample_source s = SessionSource))"
proof -
  from i obtain xs ys s where xs: "sample_order st = xs @ i # ys" "length ys \<le> n"
    and s: "map_of (activity_samples st) i = Some s" "sample_source s = parsed_source p \<or> sample_source s = SessionSource"
    by (auto simp: admitted_recently_def)
  have "sample_order st1 = xs @ i # ys \<or> (\<exists>j. sample_order st1 = xs @ i # (ys @ [j]))"
    using q xs by (auto simp: admit_sample_def Let_def split: option.splits if_splits)
  then have "\<exists>xs ys. sample_order st1 = xs @ i # ys \<and> length ys \<le> Suc n" using xs(2) by fastforce
  moreover have "\<exists>s. map_of (activity_samples st1) i = Some s
      \<and> (sample_source s = parsed_source p \<or> sample_source s = SessionSource)"
    using q s by (auto simp: admit_sample_def Let_def split: option.splits if_splits)
  ultimately show ?thesis by blast
qed

lemma survives_eviction:
  assumes "admitted_recently p i n st" "n < MAX_ACTIVITY_IDENTITIES" "distinct (sample_order st)"
  shows "admitted_recently p i n (evict_samples st)"
proof -
  from assms(1) obtain xs ys where xs: "sample_order st = xs @ i # ys" "length ys \<le> n"
    by (auto simp: admitted_recently_def)
  let ?k = "length (sample_order st) - MAX_ACTIVITY_IDENTITIES"
  have k: "?k \<le> length xs" using xs assms(2) by simp
  then have "sample_order (evict_samples st) = drop ?k xs @ i # ys"
    by (simp add: evict_samples_simps xs(1))
  moreover have "i \<notin> set (take ?k (sample_order st))"
    using k assms(3) by (auto simp: xs(1) dest: in_set_takeD)
  ultimately show ?thesis
    using assms(1) xs(2) by (auto simp: admitted_recently_def evict_samples_simps evict_lookup)
qed

lemma admitted_survives:
  assumes i: "admitted_recently p i n st" and n: "Suc n < MAX_ACTIVITY_IDENTITIES" and ok: "samples_ok mode st"
  shows "admitted_recently p i (Suc n) (observe_state codec mode e now wall st)"
proof -
  let ?q = "parse_passive_activity e mode"
  let ?r = "received codec e ?q now wall st"
  obtain b st1 where st1: "admit_sample ?q now ?r = (b, st1)" by fastforce
  have "admitted_recently p i n ?r" using i by (simp add: admitted_recently_def)
  from admitted_step [OF st1 this] have "admitted_recently p i (Suc n) st1" by (simp add: admitted_recently_def)
  moreover have "distinct (sample_order st1)"
    using admit_fit [of mode ?r ?q now] ok st1 by (simp add: samples_fit_def samples_ok_cong [of ?r st] parsed_weight)
  ultimately have "admitted_recently p i (Suc n) (evict_samples st1)" by (intro survives_eviction n)
  then show ?thesis
    by (simp add: admitted_recently_def observe_state_stages Let_def absorbed_samples st1)
qed

fun observe_events ::
    "json_codec \<Rightarrow> ToolActivityMode \<Rightarrow> (RuntimeEvent \<times> nat \<times> nat) list \<Rightarrow> PassiveActivityState \<Rightarrow> PassiveActivityState" where
  "observe_events codec mode [] st = st"
| "observe_events codec mode ((e, now, wall) # es) st = observe_events codec mode es (observe_state codec mode e now wall st)"

lemma admitted_survives_all:
  "admitted_recently p i n st \<Longrightarrow> n + length es < MAX_ACTIVITY_IDENTITIES \<Longrightarrow> samples_ok mode st
    \<Longrightarrow> admitted_recently p i (n + length es) (observe_events codec mode es st)"
proof (induction codec mode es st arbitrary: n rule: observe_events.induct)
  case (2 codec mode e now wall es st)
  then have "admitted_recently p i (Suc n) (observe_state codec mode e now wall st)"
    by (intro admitted_survives) simp_all
  from "2.IH" [OF this] "2.prems" show ?case by (simp add: observe_samples_ok)
qed simp

lemma first_admission:
  assumes "samples_ok mode st" "map_of (activity_samples st) i = None"
    "parsed_identity (parse_passive_activity e mode) = Some i" "parsed_sample (parse_passive_activity e mode) = Some k"
  shows "admitted_recently (parse_passive_activity e mode) i 0 (observe_state codec mode e now wall st)"
proof -
  let ?p = "parse_passive_activity e mode"
  let ?r = "received codec e ?p now wall st"
  obtain st1 where st1: "admit_sample ?p now ?r = (True, st1)" "admitted_recently ?p i 0 st1"
    using assms by (auto simp: admit_sample_def admitted_recently_def Let_def)
  have "distinct (sample_order st1)"
    using admit_fit [of mode ?r ?p now] assms(1) st1 by (simp add: samples_fit_def samples_ok_cong [of ?r st] parsed_weight)
  with st1(2) have "admitted_recently ?p i 0 (evict_samples st1)"
    by (intro survives_eviction) (simp_all add: MAX_ACTIVITY_IDENTITIES_def)
  then show ?thesis
    by (simp add: admitted_recently_def observe_state_stages Let_def absorbed_samples st1)
qed

lemma refused_frame:
  assumes adm: "admitted_recently (parse_passive_activity e mode) i n st" and ok: "samples_ok mode st"
    and p: "parsed_identity (parse_passive_activity e mode) = Some i" "parsed_sample (parse_passive_activity e mode) = Some k"
    and st': "st' = observe_state codec mode e now wall st"
  shows "activity_samples st' = activity_samples st \<and> sample_order st' = sample_order st
    \<and> latest_text_tail st' = latest_text_tail st \<and> appended_bytes st' = appended_bytes st"
proof -
  let ?p = "parse_passive_activity e mode"
  let ?r = "received codec e ?p now wall st"
  have "admitted_recently ?p i n ?r" using adm by (simp add: admitted_recently_def)
  from not_readmitted [OF this p] have r: "admit_sample ?p now ?r = (False, ?r)" .
  have "evict (sample_order st) (activity_samples st) = (sample_order st, activity_samples st)"
    using ok by (cases "sample_order st") (auto simp: samples_ok_def)
  then show ?thesis
    unfolding st' observe_state_stages Let_def
    by (simp add: absorbed_samples absorbed_text r evict_samples_def)
qed

lemma observe_events_ok: "samples_ok mode st \<Longrightarrow> samples_ok mode (observe_events codec mode es st)"
  by (induction codec mode es st rule: observe_events.induct) (simp_all add: observe_samples_ok)

text \<open>
  C27. A frame that is delivered again adds nothing. When a tracker has admitted the sample of a frame, and
  fewer than 65536 other events came since, observing the same frame again leaves every sample with its
  weight and its time of receipt, and adds no text to the stream.
\<close>

theorem redelivery_adds_nothing:
  assumes "tracked codec t"
    and "parsed_identity (parse_passive_activity e (tracker_mode t)) = Some i"
    and "parsed_sample (parse_passive_activity e (tracker_mode t)) = Some k"
    and "map_of (activity_samples (tracker_state t)) i = None" "length es < MAX_ACTIVITY_IDENTITIES"
    and "st1 = observe_events codec (tracker_mode t) es
           (observe_state codec (tracker_mode t) e now wall (tracker_state t))"
    and "st2 = observe_state codec (tracker_mode t) e now' wall' st1"
  shows "activity_samples st2 = activity_samples st1 \<and> window_60s (snapshot_at later st2) = window_60s (snapshot_at later st1)
    \<and> latest_text_tail st2 = latest_text_tail st1 \<and> appended_bytes st2 = appended_bytes st1"
proof -
  let ?mode = "tracker_mode t"
  from tracked_ok [OF assms(1)] have ok: "samples_ok ?mode (tracker_state t)" by (simp add: tracker_ok_def)
  from first_admission [OF ok assms(4,2,3)]
  have "admitted_recently (parse_passive_activity e ?mode) i (0 + length es) st1"
    unfolding assms(6) by (rule admitted_survives_all) (simp_all add: assms(5) observe_samples_ok ok)
  moreover have "samples_ok ?mode st1" unfolding assms(6) by (intro observe_events_ok observe_samples_ok ok)
  ultimately show ?thesis
    using refused_frame [OF _ _ assms(2,3,7)] by (simp add: snapshot_at_def)
qed

lemma count_frame_parsed:
  "parsed_identity (parse_passive_activity (count_frame ''e1'' 3) CountOnly) = Some (tagged ''tool'' ''e1'' ''count'')"
  "parsed_sample (parse_passive_activity (count_frame ''e1'' 3) CountOnly) = Some (SampleToolStarted OtherTool 3)"
  by (simp_all add: frame_defs)

theorem redelivery_adds_nothing_witness:
  "activity_samples (tracker_state (tracker_observe_at sample_codec (count_frame ''e1'' 3) 70 70
     (tracker_observe_at sample_codec (count_frame ''e1'' 3) 5 5 (tracker_for_launch ''codex'' True 2))))
   = [(tagged ''tool'' ''e1'' ''count'',
       \<lparr>sample_source = SessionSource, sample_observed_at = 5, sample_kind = SampleToolStarted OtherTool 3\<rparr>)]"
proof -
  let ?t = "tracker_for_launch ''codex'' True 2"
  have t: "tracked sample_codec ?t" "tracker_mode ?t = CountOnly" "activity_samples (tracker_state ?t) = []"
    by (rule tracked_launch) (simp_all add: tracker_for_launch_def)
  have "activity_samples (observe_state sample_codec CountOnly (count_frame ''e1'' 3) 70 70
      (observe_state sample_codec CountOnly (count_frame ''e1'' 3) 5 5 (tracker_state ?t)))
    = activity_samples (observe_state sample_codec CountOnly (count_frame ''e1'' 3) 5 5 (tracker_state ?t))"
    by (rule redelivery_adds_nothing [OF t(1), unfolded t(2,3), OF count_frame_parsed, where es = "[]", THEN conjunct1])
      (simp_all add: MAX_ACTIVITY_IDENTITIES_def)
  with count_frame_samples [of sample_codec] show ?thesis by (simp add: tracker_observe_at_def t)
qed

section \<open>The two vocabularies\<close>

definition session_frame :: "json \<Rightarrow> RuntimeEvent" where
  "session_frame params = DriverEvent (Message (Event \<lparr>event_method = ''session/event'', event_params = params\<rparr>))"

definition bounded_id :: "string \<Rightarrow> bool" where
  "bounded_id s \<longleftrightarrow> s \<noteq> [] \<and> length s \<le> MAX_ACTIVITY_ID_BYTES \<and> CHR 0x00 \<notin> set s"

lemma activity_id_string: "activity_id (Some (JString s)) = (if bounded_id s then Some s else None)"
  by (simp add: activity_id_def bounded_id_def)

lemma member_opt_lookup:
  "map_of (member_opt ms k v) k' = (if k' = k \<and> v \<noteq> None then v else map_of ms k')"
proof -
  have "map_of (member_set ms k x) k' = (if k' = k then Some x else map_of ms k')" for x
    by (induction ms k x rule: member_set.induct) auto
  then show ?thesis by (auto simp: member_opt_def split: option.split)
qed

lemmas vocabulary_defs = session_frame_def tool_count_event_def tool_started_event_def tool_result_event_def
  tool_updated_def get_str_def member_opt_lookup activity_id_string parser_defs

lemma count_event_parsed:
  "parsed_sample (parse_passive_activity (session_frame (tool_count_event i turn n tool detail)) mode)
    = (if mode \<noteq> Detailed \<and> bounded_id i \<and> 1 \<le> n \<and> n \<le> MAX_TOOL_COUNT then Some (SampleToolStarted OtherTool n) else None)"
  "parsed_identity (parse_passive_activity (session_frame (tool_count_event i turn n tool detail)) mode)
    = (if mode \<noteq> Detailed \<and> bounded_id i \<and> 1 \<le> n \<and> n \<le> MAX_TOOL_COUNT then Some (tagged ''tool'' i ''count'') else None)"
  by (auto simp: vocabulary_defs MAX_TOOL_COUNT_def Let_def split: option.split)

lemma started_event_parsed:
  "parsed_sample (parse_passive_activity (session_frame (tool_started_event i turn call name)) mode)
    = (if mode \<noteq> CountOnly \<and> bounded_id call
       then Some (SampleToolStarted (classify_passive_tool (map_option JString name)) 1) else None)"
  by (auto simp: vocabulary_defs tool_phase_def Let_def split: option.split)

lemma result_event_parsed:
  "parsed_sample (parse_passive_activity (session_frame (tool_result_event i turn call)) mode)
    = (if mode \<noteq> CountOnly \<and> bounded_id call then Some SampleToolCompleted else None)"
  by (auto simp: vocabulary_defs tool_phase_def Let_def)

text \<open>
  The parser reads back what the shared constructors write, and refuses the rest. A count event gives a
  sample of exactly its weight when the tracker's adapter may emit counts, its event id is bounded and its
  weight is between 1 and 1024; otherwise it gives no sample at all. A started event gives one call of the
  kind its name says, and a result event one completed call, when the adapter may emit the detailed
  vocabulary and the id of the call is bounded.
\<close>

theorem vocabulary_roundtrip:
  "(let p = parse_passive_activity (session_frame (tool_count_event i turn n tool detail)) mode;
        accepted = (mode \<noteq> Detailed \<and> bounded_id i \<and> 1 \<le> n \<and> n \<le> MAX_TOOL_COUNT) in
      parsed_sample p = (if accepted then Some (SampleToolStarted OtherTool n) else None)
    \<and> parsed_identity p = (if accepted then Some (tagged ''tool'' i ''count'') else None))
   \<and> parsed_sample (parse_passive_activity (session_frame (tool_started_event i turn call name)) mode)
     = (if mode \<noteq> CountOnly \<and> bounded_id call
        then Some (SampleToolStarted (classify_passive_tool (map_option JString name)) 1) else None)
   \<and> parsed_sample (parse_passive_activity (session_frame (tool_result_event i turn call)) mode)
     = (if mode \<noteq> CountOnly \<and> bounded_id call then Some SampleToolCompleted else None)"
  by (simp only: Let_def count_event_parsed started_event_parsed result_event_parsed)

end
