(* ===== verification/Rpc_Views.thy ===== *)
theory Rpc_Views
  imports Scheduler_Messages
begin

text \<open>
  The errors of the RPC surface (\<open>external-daemon/src/rpc/errors.rs\<close>), its limits and the types of a wait
  (\<open>rpc/types.rs\<close>), and the projections of tasks, results, requests and activity (\<open>rpc/views.rs\<close> and the
  helpers of \<open>rpc/handlers.rs\<close>). The \<open>serde\<close> attributes of the types a wait returns are the functions that
  end in \<open>_json\<close>; the encoding of these types cannot fail.
\<close>

section \<open>Errors\<close>

datatype RpcErrorCode =
    RpcMalformed
  | RpcOversized
  | RpcUnknownMethod
  | RpcValidation
  | RpcAgentRequired
  | RpcAgentUnknown
  | RpcAgentDisabled
  | RpcAgentUnsupported
  | RpcModelSelectionUnsupported
  | RpcSteerUnsupported
  | RpcNotFound
  | RpcConflict
  | RpcPersistence
  | RpcTimeout
  | RpcRuntimeLost
  | RpcResultInvalid
  | RpcUnavailable
  | RpcInternal

record RpcError =
  rpc_code :: RpcErrorCode
  rpc_message :: string
  rpc_active_agent_id :: "string option"

definition truncate_utf8 :: "string \<Rightarrow> nat \<Rightarrow> string" where
  "truncate_utf8 s n = (if n < length s then take (prev_char_boundary s n) s else s)"

definition rpc_error :: "RpcErrorCode \<Rightarrow> string \<Rightarrow> RpcError" where
  "rpc_error code message =
     \<lparr>rpc_code = code, rpc_message = truncate_utf8 message 512, rpc_active_agent_id = None\<rparr>"

fun map_store :: "StoreError \<Rightarrow> RpcError" where
  "map_store LegacySchemaUnsupported = rpc_error RpcPersistence ''STORE_SCHEMA_VERSION_UNSUPPORTED''"
| "map_store (Sqlite _) = rpc_error RpcPersistence ''durable store operation failed''"
| "map_store (Conflict message) =
     (if starts_with message ''WORKSPACE_BUSY''
      then (rpc_error RpcConflict ''WORKSPACE_BUSY'')
             \<lparr>rpc_active_agent_id := strip_prefix message ''WORKSPACE_BUSY active_agent_id=''\<rparr>
      else if message = ''message id is already bound to different content'' \<or> message = ''MESSAGE_ID_CONFLICT''
              \<or> starts_with message ''message '' \<and> ends_with message '' already exists''
      then rpc_error RpcConflict ''MESSAGE_ID_CONFLICT''
      else rpc_error RpcConflict ''durable state conflict'')"
| "map_store (InvalidState _) = rpc_error RpcValidation ''durable state rejected the operation''"

definition start_failure :: "string \<Rightarrow> string \<Rightarrow> RpcErrorCode \<times> string" where
  "start_failure why message =
     (if why = ''MODEL_REJECTED'' then (RpcValidation, ''MODEL_REJECTED: '' @ message)
      else if starts_with why ''PREPARED_'' \<or> starts_with why ''TASK_ROUTE_''
      then (RpcResultInvalid, why @ '': '' @ message)
      else if why = ''DRAIN_CANCELLED'' \<or> why = ''CANCELLED'' then (RpcUnavailable, ''task cancelled: '' @ message)
      else (RpcRuntimeLost, why @ '': '' @ message))"

fun map_scheduler :: "SchedulerError \<Rightarrow> RpcError" where
  "map_scheduler (StoreFailure e) = map_store e"
| "map_scheduler (InvalidConfig message) =
     (if message = ''daemon_draining'' then rpc_error RpcUnavailable ''daemon_draining''
      else if message = ''drain_not_active'' \<or> message = ''drain_cancel_in_progress'' then rpc_error RpcUnavailable message
      else rpc_error RpcValidation (''scheduler rejected the operation: '' @ message))"
| "map_scheduler (RuntimeSpawn aid _) =
     (rpc_error RpcRuntimeLost ''runtime operation failed'')\<lparr>rpc_active_agent_id := Some aid\<rparr>"
| "map_scheduler (LifecycleSinkError _ _) = rpc_error RpcRuntimeLost ''runtime operation failed''"
| "map_scheduler (RuntimeCommand _ message) =
     (if message = ''steer_unsupported'' then rpc_error RpcSteerUnsupported message
      else if message = ''TERMINAL_SEND_UNSUPPORTED'' then rpc_error RpcValidation message
      else if message = ''daemon_draining'' then rpc_error RpcUnavailable message
      else rpc_error RpcUnavailable ''RUNTIME_COMMAND_FAILED'')"
| "map_scheduler (StartTimeout aid message) =
     (rpc_error RpcTimeout message)\<lparr>rpc_active_agent_id := Some aid\<rparr>"
| "map_scheduler (Interrupted aid) =
     (rpc_error RpcTimeout (''spawn interrupted while session establishment continues for '' @ aid))
       \<lparr>rpc_active_agent_id := Some aid\<rparr>"
| "map_scheduler (StartFailed aid why message) =
     (case start_failure why message of
        (code, text) \<Rightarrow> (rpc_error code text)\<lparr>rpc_active_agent_id := Some aid\<rparr>)"

section \<open>Limits\<close>

definition MAX_REQUEST_FRAME_BYTES :: nat where
  "MAX_REQUEST_FRAME_BYTES = 512 * 1024"

definition MAX_RESPONSE_FRAME_BYTES :: nat where
  "MAX_RESPONSE_FRAME_BYTES = 2 * 1024 * 1024"

definition MAX_REQUEST_ID_BYTES :: nat where
  "MAX_REQUEST_ID_BYTES = 128"

definition MAX_LIST_TASKS :: nat where
  "MAX_LIST_TASKS = 100"

definition MAX_PENDING_REQUESTS :: nat where
  "MAX_PENDING_REQUESTS = 100"

definition MAX_WAIT_AGENTS :: nat where
  "MAX_WAIT_AGENTS = 16"

definition MAX_RESULT_CHUNK_BYTES :: nat where
  "MAX_RESULT_CHUNK_BYTES = 256 * 1024"

definition MAX_WAIT_SECONDS :: nat where
  "MAX_WAIT_SECONDS = 299"

definition MAX_QUESTION_SUMMARY_BYTES :: nat where
  "MAX_QUESTION_SUMMARY_BYTES = 2048"

definition MAX_QUESTION_EMBED_BYTES :: nat where
  "MAX_QUESTION_EMBED_BYTES = 16 * 1024"

section \<open>Tasks\<close>

record TaskHeaderView =
  header_agent_id :: string
  header_status :: string

record InputIdentityView =
  identity_subagent :: "string option"
  identity_config_revision :: "64 word option"
  identity_adapter_version :: "string option"
  identity_model :: "string option"
  identity_model_source :: "string option"
  identity_effort :: "string option"
  identity_workspace_path :: "string option"
  identity_permission_mode :: "string option"

record TaskView =
  view_agent_id :: string
  view_status :: string
  view_session_id :: "string option"
  view_input_identity :: InputIdentityView

fun outcome_status :: "TaskOutcome option \<Rightarrow> string" where
  "outcome_status (Some TaskOutcome.Completed) = ''completed''"
| "outcome_status (Some TaskOutcome.Failed) = ''failed''"
| "outcome_status (Some TaskOutcome.Cancelled) = ''cancelled''"
| "outcome_status (Some TaskOutcome.TimedOut) = ''timed_out''"
| "outcome_status (Some TaskOutcome.RuntimeLost) = ''runtime_lost''"
| "outcome_status (Some TaskOutcome.ResultInvalid) = ''result_invalid''"
| "outcome_status None = ''terminal''"

definition task_status :: "TaskRecord \<Rightarrow> string" where
  "task_status task =
     (if closed_at task \<noteq> None then ''closed''
      else (case phase task of
              Queued \<Rightarrow> ''queued''
            | Preparing \<Rightarrow> ''preparing''
            | Running \<Rightarrow> ''running''
            | WaitingInput \<Rightarrow> ''waiting_input''
            | Cancelling \<Rightarrow> ''cancelling''
            | Terminal \<Rightarrow> outcome_status (outcome task)))"

definition task_header_view :: "TaskRecord \<Rightarrow> TaskHeaderView" where
  "task_header_view task = \<lparr>header_agent_id = agent_id task, header_status = task_status task\<rparr>"

text \<open>\<open>decode\<close>: the derived deserializer of \<open>AdmissionIdentity\<close>.\<close>

definition task_view :: "json_codec \<Rightarrow> (json \<Rightarrow> AdmissionIdentity option) \<Rightarrow> TaskRecord \<Rightarrow> TaskView" where
  "task_view codec decode task =
     (let prepared = decoded codec (prepared_launch_json task);
          identity = Option.bind (Option.bind prepared (\<lambda>v. json_get v ''admission'')) decode in
      \<lparr>view_agent_id = agent_id task, view_status = task_status task, view_session_id = session_id task,
       view_input_identity =
         \<lparr>identity_subagent = map_option admitted_agent identity,
          identity_config_revision = map_option config_revision identity,
          identity_adapter_version = map_option adapter_version identity,
          identity_model = Option.bind identity admitted_model,
          identity_model_source = map_option model_source identity,
          identity_effort = Option.bind identity admitted_effort,
          identity_workspace_path = Some (workspace_path task),
          identity_permission_mode = Option.bind prepared (\<lambda>v. get_str v ''permission_mode'')\<rparr>\<rparr>)"

section \<open>Activity\<close>

datatype TelemetryStatusView = TelemetryHealthy | TelemetryDegraded | TelemetryUnavailable

record TaskActivityView =
  activity_text_tail :: string
  activity_text_truncated :: bool
  tool_calls_last_60s :: nat
  in_flight_tool_count :: nat
  oldest_in_flight_tool_age_ms :: "nat option"
  activity_age_ms :: "nat option"
  activity_model_request :: bool
  telemetry_status :: TelemetryStatusView

definition task_activity_view :: "PassiveActivitySnapshot option \<Rightarrow> TaskActivityView" where
  "task_activity_view snapshot =
     (case snapshot of
        None \<Rightarrow>
          \<lparr>activity_text_tail = [], activity_text_truncated = False, tool_calls_last_60s = 0,
           in_flight_tool_count = 0, oldest_in_flight_tool_age_ms = None, activity_age_ms = None,
           activity_model_request = False, telemetry_status = TelemetryUnavailable\<rparr>
      | Some s \<Rightarrow>
          \<lparr>activity_text_tail = snapshot_text_tail s, activity_text_truncated = snapshot_text_truncated s,
           tool_calls_last_60s = tool_calls_started (window_60s s),
           in_flight_tool_count = length (snapshot_active_tools s),
           oldest_in_flight_tool_age_ms = oldest_active_tool_age_ms s, activity_age_ms = last_activity_age_ms s,
           activity_model_request = model_request_active s,
           telemetry_status = (if snapshot_degraded s then TelemetryDegraded else TelemetryHealthy)\<rparr>)"

section \<open>Results\<close>

record TaskResultView =
  page_outcome :: TaskOutcome
  page_text :: string
  page_partial :: bool
  page_offset :: nat
  page_total_bytes :: nat
  page_next_offset :: "nat option"
  page_reason_code :: "string option"
  page_failure_message :: "string option"

definition truncate_at_char_boundary :: "string \<Rightarrow> nat \<Rightarrow> string" where
  "truncate_at_char_boundary v n = (if length v \<le> n then v else take (prev_char_boundary v n) v)"

text \<open>\<open>while end > offset && !text.is_char_boundary(end) { end -= 1 }\<close>.\<close>

fun page_end :: "string \<Rightarrow> nat \<Rightarrow> nat \<Rightarrow> nat" where
  "page_end text start 0 = 0"
| "page_end text start (Suc n) =
     (if start < Suc n \<and> \<not> is_char_boundary text (Suc n) then page_end text start n else Suc n)"

definition paged_text_bounds :: "string \<Rightarrow> nat \<Rightarrow> nat \<Rightarrow> string \<Rightarrow> RpcError + (nat \<times> nat option)" where
  "paged_text_bounds text start limit field =
     (let total = length text in
      if total < start \<or> \<not> is_char_boundary text start
      then Inl (rpc_error RpcValidation (field @ '' offset is outside the '' @ field))
      else
        (let finish = page_end text start (min (saturating_add_usize start limit) total) in
         if finish = start \<and> start < total
         then Inl (rpc_error RpcValidation (field @ '' limit does not include a complete UTF-8 character''))
         else Inr (finish, if finish < total then Some finish else None)))"

definition result_page_bounds :: "string \<Rightarrow> nat \<Rightarrow> nat \<Rightarrow> RpcError + (nat \<times> nat option)" where
  "result_page_bounds text start limit = paged_text_bounds text start limit ''result''"

definition task_result_view ::
    "StoredTaskResult \<Rightarrow> nat \<Rightarrow> nat \<Rightarrow> string option \<Rightarrow> string option \<Rightarrow> RpcError + TaskResultView" where
  "task_result_view stored start limit why message =
     (let text = final_text (stored_result stored) in
      res_bind (result_page_bounds text start limit) (\<lambda>(finish, next).
        Inr \<lparr>page_outcome = result_outcome (stored_result stored), page_text = take (finish - start) (drop start text),
             page_partial = partial (stored_result stored), page_offset = start, page_total_bytes = length text,
             page_next_offset = next, page_reason_code = why, page_failure_message = message\<rparr>))"

definition is_failure_outcome :: "TaskOutcome \<Rightarrow> bool" where
  "is_failure_outcome oc \<longleftrightarrow>
     oc = TaskOutcome.Failed \<or> oc = TaskOutcome.RuntimeLost \<or> oc = TaskOutcome.ResultInvalid"

definition failure_message_projection :: "TaskRecord \<Rightarrow> StoredTaskResult \<Rightarrow> string option" where
  "failure_message_projection task stored =
     (let oc = result_outcome (stored_result stored) in
      if \<not> is_failure_outcome oc then None
      else if outcome task \<noteq> Some oc then None else task_failure_message task)"

section \<open>Pending requests\<close>

record QuestionView =
  question_text :: string
  question_truncated :: bool

record PendingRequestView =
  pending_view_id :: string
  pending_view_kind :: string
  pending_view_tool :: "string option"
  pending_view_operation :: string
  pending_view_summary :: "string option"
  pending_view_question :: "QuestionView option"

definition user_input_question_page :: "json_codec \<Rightarrow> string \<Rightarrow> QuestionView option" where
  "user_input_question_page codec payload =
     map_option (\<lambda>q. let text = truncate_at_char_boundary q MAX_QUESTION_EMBED_BYTES in
         \<lparr>question_text = text, question_truncated = (length text < length q)\<rparr>)
       (Option.bind (decoded codec payload) (\<lambda>v. get_str v ''question''))"

definition operation_category :: "string \<Rightarrow> string" where
  "operation_category name =
     (let n = to_ascii_lowercase name in
      if n \<in> {''read'', ''grep'', ''glob''} then ''read''
      else if n \<in> {''write'', ''edit'', ''delete'', ''move''} then ''write''
      else if n \<in> {''bash'', ''execute'', ''terminal''} then ''command''
      else if n = ''network'' then ''network''
      else if n = ''git_ref_mutation'' then ''git_ref_mutation''
      else ''unknown'')"

definition first_chars :: "nat \<Rightarrow> string \<Rightarrow> string" where
  "first_chars n s = concat (take n (chars s))"

definition summary_leaf :: "json \<Rightarrow> string \<Rightarrow> string option" where
  "summary_leaf input name = map_option (first_chars 96) (Option.bind (get_str input name) file_name)"

definition sanitized_permission_summary :: "json \<Rightarrow> string" where
  "sanitized_permission_summary params =
     (let input = (case json_get params ''input'' of None \<Rightarrow> JNull | Some v \<Rightarrow> v) in
      case summary_leaf input ''program'' of
        Some program \<Rightarrow>
          ''command '' @ program @ '' with ''
            @ to_decimal (case Option.bind (json_get input ''args'') as_array of None \<Rightarrow> 0 | Some vs \<Rightarrow> length vs)
            @ '' arguments''
      | None \<Rightarrow>
          (case List.map_filter (summary_leaf input) [''path'', ''destination'', ''source''] of
             p # _ \<Rightarrow> ''target '' @ p
           | [] \<Rightarrow>
               if map_option to_ascii_lowercase (get_str params ''toolName'') = Some ''git_ref_mutation''
               then ''Git reference mutation'' else ''permission request''))"

definition pending_request_view :: "json_codec \<Rightarrow> StoredPendingRequest \<Rightarrow> PendingRequestView" where
  "pending_request_view codec r =
     (if request_type r = ''user_input''
      then \<lparr>pending_view_id = request_id r, pending_view_kind = ''user_input'', pending_view_tool = None,
            pending_view_operation = ''user_input'', pending_view_summary = None,
            pending_view_question = user_input_question_page codec (request_payload_json r)\<rparr>
      else
        (let params = decoded codec (request_payload_json r);
             tool = map_option (first_chars 64) (Option.bind params (\<lambda>v. get_str v ''toolName'')) in
         \<lparr>pending_view_id = request_id r, pending_view_kind = ''permission'', pending_view_tool = tool,
          pending_view_operation = (case tool of None \<Rightarrow> ''unknown'' | Some t \<Rightarrow> operation_category t),
          pending_view_summary = Some (case params of
              None \<Rightarrow> ''unrecognized permission request'' | Some v \<Rightarrow> sanitized_permission_summary v),
          pending_view_question = None\<rparr>))"

section \<open>Waits\<close>

record MessageReceiptView =
  receipt_message_id :: string
  receipt_state :: string
  receipt_failure_code :: "string option"

fun receipt_state_text :: "MessageState \<Rightarrow> string" where
  "receipt_state_text MsgQueued = ''queued''"
| "receipt_state_text MsgSending = ''sending''"
| "receipt_state_text MsgDelivered = ''delivered''"
| "receipt_state_text MsgFailed = ''failed''"

datatype WaitTarget = WaitOne string | WaitMany "string list"

record TaskWaitQuery =
  wait_agent_id :: WaitTarget
  wait_time :: nat
  wait_message_id :: "string option"

record TaskWaitBody =
  body_task :: TaskHeaderView
  body_pending :: "PendingRequestView list"
  body_activity :: TaskActivityView
  body_result :: "TaskResultView option"
  body_timed_out :: bool
  body_receipt :: "MessageReceiptView option"

record TaskWaitManyBody =
  many_bodies :: "(string \<times> TaskWaitBody) list"
  many_error :: "(string \<times> string) list"

section \<open>The encoding of a wait\<close>

definition opt_json :: "('a \<Rightarrow> json) \<Rightarrow> 'a option \<Rightarrow> json" where
  "opt_json f v = (case v of None \<Rightarrow> JNull | Some x \<Rightarrow> f x)"

definition nat_json :: "nat \<Rightarrow> json" where
  "nat_json n = JNumber (PosInt n)"

definition activity_json :: "TaskActivityView \<Rightarrow> json" where
  "activity_json a = JObject
     [(''latest_text_tail'', JString (activity_text_tail a)), (''latest_text_truncated'', JBool (activity_text_truncated a)),
      (''tool_calls_last_60s'', nat_json (tool_calls_last_60s a)), (''in_flight_tool_count'', nat_json (in_flight_tool_count a)),
      (''oldest_in_flight_tool_age_ms'', opt_json nat_json (oldest_in_flight_tool_age_ms a)),
      (''last_activity_age_ms'', opt_json nat_json (activity_age_ms a)),
      (''model_request_active'', JBool (activity_model_request a)),
      (''telemetry_status'', JString (case telemetry_status a of
          TelemetryHealthy \<Rightarrow> ''healthy'' | TelemetryDegraded \<Rightarrow> ''degraded'' | TelemetryUnavailable \<Rightarrow> ''unavailable''))]"

definition result_json :: "TaskResultView \<Rightarrow> json" where
  "result_json v = JObject
     [(''outcome'', JString (TaskOutcome_as_str (page_outcome v))), (''final_text'', JString (page_text v)),
      (''partial'', JBool (page_partial v)), (''offset'', nat_json (page_offset v)),
      (''total_bytes'', nat_json (page_total_bytes v)), (''next_offset'', opt_json nat_json (page_next_offset v)),
      (''reason_code'', nullable (page_reason_code v)), (''failure_message'', nullable (page_failure_message v))]"

definition pending_json :: "PendingRequestView \<Rightarrow> json" where
  "pending_json p = JObject
     [(''request_id'', JString (pending_view_id p)), (''kind'', JString (pending_view_kind p)),
      (''tool_name'', nullable (pending_view_tool p)), (''operation'', JString (pending_view_operation p)),
      (''summary'', nullable (pending_view_summary p)),
      (''question'', opt_json (\<lambda>q. JObject [(''text'', JString (question_text q)), (''truncated'', JBool (question_truncated q))])
          (pending_view_question p))]"

definition wait_body_json :: "TaskWaitBody \<Rightarrow> json_object" where
  "wait_body_json b =
     [(''task'', JObject [(''agent_id'', JString (header_agent_id (body_task b))), (''status'', JString (header_status (body_task b)))]),
      (''pending_requests'', JArray (map pending_json (body_pending b))), (''activity'', activity_json (body_activity b)),
      (''result'', opt_json result_json (body_result b)), (''timed_out'', JBool (body_timed_out b)),
      (''message_receipt'', opt_json (\<lambda>m. JObject [(''message_id'', JString (receipt_message_id m)),
          (''state'', JString (receipt_state m)), (''failure_code'', nullable (receipt_failure_code m))]) (body_receipt b))]"

definition wait_many_json :: "TaskWaitManyBody \<Rightarrow> json_object" where
  "wait_many_json m =
     map (\<lambda>(i, b). (i, JObject (wait_body_json b))) (many_bodies m)
     @ (if many_error m = [] then [] else [(''error'', JObject (map (\<lambda>(i, e). (i, JString e)) (many_error m)))])"

definition success_envelope :: "string \<Rightarrow> string \<Rightarrow> json_object \<Rightarrow> json" where
  "success_envelope rid kind members = JObject
     [(''request_id'', JString rid), (''outcome'', JString ''success''), (''result'', JObject ((''kind'', JString kind) # members))]"

text \<open>The whole envelope with the longest request id, and the newline after it.\<close>

definition envelope_fits :: "json_codec \<Rightarrow> string \<Rightarrow> json_object \<Rightarrow> bool" where
  "envelope_fits codec kind members \<longleftrightarrow>
     saturating_add_usize (length (json_text codec
       (success_envelope (replicate MAX_REQUEST_ID_BYTES (CHR 0x01)) kind members))) 1 \<le> MAX_RESPONSE_FRAME_BYTES"

definition wait_envelope_fits :: "json_codec \<Rightarrow> TaskWaitBody \<Rightarrow> bool" where
  "wait_envelope_fits codec b = envelope_fits codec ''task_wait'' (wait_body_json b)"

definition wait_many_envelope_fits :: "json_codec \<Rightarrow> TaskWaitManyBody \<Rightarrow> bool" where
  "wait_many_envelope_fits codec m = envelope_fits codec ''task_wait_many'' (wait_many_json m)"

end
