(* ===== verification/Rpc_Wait.thy ===== *)
theory Rpc_Wait
  imports Rpc_Views
begin

text \<open>
  The bounded wait of the RPC surface (\<open>external-daemon/src/rpc/wait.rs\<close>): how a response is cut to the
  frame of the transport, and the two loops that wait for one task and for several. An operation of the
  service is an operation of the scheduler whose value may be an error of the service.
\<close>

section \<open>Operations of the service\<close>

type_synonym 'a rpc = "world \<Rightarrow> SchedulerInner \<Rightarrow> ((SchedulerError + (RpcError + 'a)) \<times> SchedulerInner) option"

definition rpc_ok :: "'a \<Rightarrow> 'a rpc" where
  "rpc_ok x = sched_ok (Inr x)"

definition rpc_fail :: "RpcError \<Rightarrow> 'a rpc" where
  "rpc_fail e = sched_ok (Inl e)"

definition rpc_bind :: "'a rpc \<Rightarrow> ('a \<Rightarrow> 'b rpc) \<Rightarrow> 'b rpc" where
  "rpc_bind m f = sched_bind m (\<lambda>r. case r of Inl e \<Rightarrow> rpc_fail e | Inr x \<Rightarrow> f x)"

definition rpc_lift :: "'a sched \<Rightarrow> 'a rpc" where
  "rpc_lift m = sched_bind m rpc_ok"

definition rpc_result :: "RpcError + 'a \<Rightarrow> 'a rpc" where
  "rpc_result r = sched_ok r"

text \<open>A call of the scheduler, and a read of the store.\<close>

definition rpc_sched :: "'a sched \<Rightarrow> 'a rpc" where
  "rpc_sched m = sched_bind (attempt m) (\<lambda>r. case r of Inl e \<Rightarrow> rpc_fail (map_scheduler e) | Inr x \<Rightarrow> rpc_ok x)"

definition rpc_store :: "(store \<Rightarrow> StoreError + 'a) \<Rightarrow> 'a rpc" where
  "rpc_store f = sched_bind (transact (\<lambda>w k. read_store f))
     (\<lambda>r. case r of Inl e \<Rightarrow> rpc_fail (map_store e) | Inr x \<Rightarrow> rpc_ok x)"

definition rpc_try :: "'a rpc \<Rightarrow> (RpcError + 'a) rpc" where
  "rpc_try m = sched_bind m rpc_ok"

definition rpc_loop :: "('s \<Rightarrow> ('s + 'a) rpc) \<Rightarrow> 's \<Rightarrow> 'a rpc" where
  "rpc_loop body = sched_loop (\<lambda>st. sched_bind (body st) (\<lambda>r.
     sched_ok (case r of
                 Inl e \<Rightarrow> Inr (Inl e)
               | Inr c \<Rightarrow> (case c of Inl st' \<Rightarrow> Inl st' | Inr x \<Rightarrow> Inr (Inr x)))))"

section \<open>Access to tasks\<close>

definition validate_text :: "string \<Rightarrow> string \<Rightarrow> nat \<Rightarrow> RpcError + unit" where
  "validate_text v field n =
     (if v = [] \<or> n < length v \<or> CHR 0x00 \<in> set v then Inl (rpc_error RpcValidation (field @ '' is invalid'')) else Inr ())"

definition validate_id :: "string \<Rightarrow> string \<Rightarrow> RpcError + unit" where
  "validate_id v field = validate_text v field 256"

definition task_not_found :: RpcError where
  "task_not_found = rpc_error RpcNotFound ''task was not found''"

definition validate_task_record :: "preparation_codec \<Rightarrow> TaskRecord \<Rightarrow> RpcError + TaskRecord" where
  "validate_task_record pc task =
     (case Option.bind (decoded (prepared_json pc) (prepared_launch_json task)) (prepared_from_value pc) of
        None \<Rightarrow> Inl task_not_found
      | Some prepared \<Rightarrow>
          if path_text pc (prepared_repository prepared) \<noteq> repository task then Inl task_not_found else Inr task)"

definition checked_task :: "TaskRecord \<Rightarrow> TaskRecord rpc" where
  "checked_task task = rpc_bind (rpc_lift (given (\<lambda>w. validate_task_record (w_prep w) task))) rpc_result"

definition require_task_record :: "string \<Rightarrow> TaskRecord rpc" where
  "require_task_record aid =
     rpc_bind (rpc_result (validate_id aid ''agent_id'')) (\<lambda>_.
     rpc_bind (rpc_store (\<lambda>s. get_task s aid)) (\<lambda>found.
       case found of None \<Rightarrow> rpc_fail task_not_found | Some task \<Rightarrow> checked_task task))"

definition require_task_with_result :: "string \<Rightarrow> (TaskRecord \<times> StoredTaskResult option \<times> string option) rpc" where
  "require_task_with_result aid =
     rpc_bind (rpc_result (validate_id aid ''agent_id'')) (\<lambda>_.
     rpc_bind (rpc_store (\<lambda>s. task_with_result s aid)) (\<lambda>found.
       case found of
         None \<Rightarrow> rpc_fail task_not_found
       | Some (task, res, why) \<Rightarrow> rpc_bind (checked_task task) (\<lambda>task'. rpc_ok (task', res, why))))"

section \<open>Degradation\<close>

definition dedup_terminal_tail :: "string \<Rightarrow> string \<Rightarrow> string" where
  "dedup_terminal_tail tail final =
     (if tail = [] \<or> final = [] then tail
      else if ends_with tail final then take (length tail - length final) tail
      else if ends_with final tail then [] else tail)"

definition wake_pending_request :: "StoredPendingRequest \<Rightarrow> bool" where
  "wake_pending_request r \<longleftrightarrow>
     request_state r = ReqPending \<and> (request_type r = ''permission'' \<or> request_type r = ''user_input'')"

definition with_message :: "string \<Rightarrow> TaskWaitBody \<Rightarrow> TaskWaitBody" where
  "with_message message b = b\<lparr>body_result := map_option (\<lambda>v. v\<lparr>page_failure_message := Some message\<rparr>) (body_result b)\<rparr>"

definition message_body_fits :: "TaskWaitBody \<Rightarrow> string \<Rightarrow> (TaskWaitBody \<Rightarrow> bool) \<Rightarrow> bool" where
  "message_body_fits base message fits = fits (with_message message base)"

function fit_search :: "(nat \<Rightarrow> string option) \<Rightarrow> (string \<Rightarrow> bool) \<Rightarrow> nat \<Rightarrow> nat \<Rightarrow> string option \<Rightarrow> string option" where
  "fit_search shrink fits lo hi best =
     (if hi < lo then best
      else
        (let mid = lo + (hi - lo) div 2 in
         case shrink mid of
           Some candidate \<Rightarrow>
             if fits candidate
             then (if mid = hi then Some candidate else fit_search shrink fits (mid + 1) hi (Some candidate))
             else (if mid = 0 then best else fit_search shrink fits lo (mid - 1) best)
         | None \<Rightarrow> if mid = 0 then best else fit_search shrink fits lo (mid - 1) best))"
  by pat_completeness auto
termination
  by (relation "measure (\<lambda>(shrink, fits, lo, hi, best). Suc hi - lo)") auto

declare fit_search.simps [simp del]

definition fit_failure_message :: "json_codec \<Rightarrow> TaskWaitBody \<Rightarrow> string \<Rightarrow> (TaskWaitBody \<Rightarrow> bool) \<Rightarrow> string" where
  "fit_failure_message codec base original fits =
     (case fit_search (shrink_persistable_record codec original) (\<lambda>m. message_body_fits base m fits) 0 (length original) None of
        Some best \<Rightarrow> best
      | None \<Rightarrow> (case shrink_persistable_record codec original 0 of Some m \<Rightarrow> m | None \<Rightarrow> original))"

definition shorten_page :: "nat \<Rightarrow> TaskResultView \<Rightarrow> TaskResultView" where
  "shorten_page finish v =
     v\<lparr>page_text := take finish (page_text v),
       page_next_offset := (if page_offset v + finish < page_total_bytes v then Some (page_offset v + finish) else None)\<rparr>"

definition shorten_body :: "nat \<Rightarrow> TaskWaitBody \<Rightarrow> TaskWaitBody" where
  "shorten_body finish b = b\<lparr>body_result := map_option (shorten_page finish) (body_result b)\<rparr>"

text \<open>The last index that fits, when the first one does.\<close>

function last_fit :: "(nat \<Rightarrow> bool) \<Rightarrow> nat \<Rightarrow> nat \<Rightarrow> nat" where
  "last_fit f lo hi =
     (if lo < hi
      then (let mid = lo + (hi - lo + 1) div 2 in if f mid then last_fit f mid hi else last_fit f lo (mid - 1))
      else lo)"
  by pat_completeness auto
termination
  by (relation "measure (\<lambda>(f, lo, hi). hi - lo)") auto

declare last_fit.simps [simp del]

definition shrunk_result_page :: "TaskWaitBody \<Rightarrow> (TaskWaitBody \<Rightarrow> bool) \<Rightarrow> nat option" where
  "shrunk_result_page base fits =
     Option.bind (body_result base) (\<lambda>v.
       let ends = tl (char_indices (page_text v)); fits_end = (\<lambda>finish. fits (shorten_body finish base)) in
       if ends = [] \<or> \<not> fits_end (hd ends) then None
       else Some (ends ! last_fit (\<lambda>i. fits_end (ends ! i)) 0 (length ends - 1)))"

definition shorten_question :: "PendingRequestView \<Rightarrow> PendingRequestView" where
  "shorten_question p = p\<lparr>pending_view_question := map_option (\<lambda>q.
     let text = truncate_at_char_boundary (question_text q) MAX_QUESTION_SUMMARY_BYTES in
     \<lparr>question_text = text, question_truncated = (question_truncated q \<or> length text < length (question_text q))\<rparr>)
     (pending_view_question p)\<rparr>"

definition shorten_questions :: "TaskWaitBody \<Rightarrow> TaskWaitBody" where
  "shorten_questions b = b\<lparr>body_pending := map shorten_question (body_pending b)\<rparr>"

definition shrink_detail :: "json_codec \<Rightarrow> (TaskWaitBody \<Rightarrow> bool) \<Rightarrow> TaskWaitBody \<Rightarrow> TaskWaitBody" where
  "shrink_detail codec fits b =
     (case Option.bind (body_result b) page_failure_message of
        None \<Rightarrow> b | Some original \<Rightarrow> with_message (fit_failure_message codec b original fits) b)"

definition frame_exceeded :: RpcError where
  "frame_exceeded = rpc_error RpcOversized ''response frame exceeds cap''"

definition bound_wait_body :: "json_codec \<Rightarrow> (TaskWaitBody \<Rightarrow> bool) \<Rightarrow> TaskWaitBody \<Rightarrow> RpcError + TaskWaitBody" where
  "bound_wait_body codec fits b =
     (if fits b then Inr b
      else
        (let c1 = shrink_detail codec fits b in
         if fits c1 then Inr c1
         else
           (let c2 = shorten_questions c1 in
            if fits c2 then Inr c2
            else
              (let c3 = (case shrunk_result_page c2 fits of None \<Rightarrow> c2 | Some finish \<Rightarrow> shorten_body finish c2) in
               if fits c3 then Inr c3 else Inl frame_exceeded))))"

definition bound_wait_result :: "json_codec \<Rightarrow> TaskWaitBody \<Rightarrow> RpcError + TaskWaitBody" where
  "bound_wait_result codec b = bound_wait_body codec (wait_envelope_fits codec) b"

section \<open>Degradation of several bodies\<close>

type_synonym bodies = "(string \<times> TaskWaitBody) list"

definition replace_body :: "nat \<Rightarrow> TaskWaitBody \<Rightarrow> bodies \<Rightarrow> bodies" where
  "replace_body k b bs = bs[k := (fst (bs ! k), b)]"

definition structured_shrink :: "json_codec \<Rightarrow> (bodies \<Rightarrow> bool) \<Rightarrow> nat \<Rightarrow> bodies \<Rightarrow> bodies" where
  "structured_shrink codec fits k bs =
     (let b = snd (bs ! k); fits_one = (\<lambda>c. fits (replace_body k c bs)) in
      if fits_one b then bs
      else
        (let c1 = shrink_detail codec fits_one b in
         replace_body k (if fits_one c1 then c1 else shorten_questions c1) bs))"

definition coarse_page :: "nat \<Rightarrow> TaskResultView \<Rightarrow> TaskResultView" where
  "coarse_page budget v =
     (if budget < length (page_text v) then shorten_page (length (truncate_at_char_boundary (page_text v) budget)) v else v)"

definition coarse_body :: "nat \<Rightarrow> TaskWaitBody \<Rightarrow> TaskWaitBody" where
  "coarse_body budget b = b\<lparr>body_result := map_option (coarse_page budget) (body_result b)\<rparr>"

definition page_length :: "TaskWaitBody \<Rightarrow> nat" where
  "page_length b = (case body_result b of None \<Rightarrow> 0 | Some v \<Rightarrow> length (page_text v))"

text \<open>The first of the longest pages, unless every page is empty.\<close>

fun longest_page :: "nat \<Rightarrow> nat \<Rightarrow> nat option \<Rightarrow> bodies \<Rightarrow> nat option" where
  "longest_page k best found [] = found"
| "longest_page k best found ((_, b) # bs) =
     (if best < page_length b then longest_page (Suc k) (page_length b) (Some k) bs
      else longest_page (Suc k) best found bs)"

definition halve_body :: "TaskWaitBody \<Rightarrow> TaskWaitBody" where
  "halve_body b =
     (case body_result b of
        None \<Rightarrow> b
      | Some v \<Rightarrow>
          (let current = length (page_text v) in
           shorten_body (prev_char_boundary (page_text v) (min (max (current div 2) 1) (current - 1))) b))"

lemma longest_page_less: "longest_page k best found bs = Some j \<Longrightarrow> found \<noteq> Some j \<Longrightarrow> k \<le> j \<and> j < k + length bs"
  by (induction k best found bs rule: longest_page.induct) (fastforce split: if_splits)+

lemma prev_char_boundary_le: "prev_char_boundary s i \<le> i"
  by (induction i) auto

lemma page_length_shorten: "page_length (shorten_body n b) = min n (page_length b)"
  by (simp add: page_length_def shorten_body_def shorten_page_def min.commute split: option.split)

lemma halve_body_shorter:
  assumes "1 < page_length b"
  shows "page_length (halve_body b) < page_length b"
proof -
  obtain v where v: "body_result b = Some v" using assms by (cases "body_result b") (auto simp: page_length_def)
  let ?n = "prev_char_boundary (page_text v) (min (max (length (page_text v) div 2) 1) (length (page_text v) - 1))"
  have "?n \<le> length (page_text v) - 1" by (rule order_trans [OF prev_char_boundary_le]) simp
  moreover have "page_length (halve_body b) = min ?n (page_length b)"
    by (simp add: halve_body_def v Let_def page_length_shorten)
  ultimately show ?thesis using assms v by (simp add: page_length_def)
qed

lemma total_length_decreases:
  assumes "k < length bs" "page_length b < page_length (snd (bs ! k))"
  shows "sum_list (map (page_length \<circ> snd) (replace_body k b bs)) < sum_list (map (page_length \<circ> snd) bs)"
proof -
  let ?f = "page_length \<circ> snd"
  have "map ?f bs = take k (map ?f bs) @ ?f (bs ! k) # drop (Suc k) (map ?f bs)"
    using assms(1) id_take_nth_drop [of k "map ?f bs"] by simp
  moreover have "map ?f (replace_body k b bs) = take k (map ?f bs) @ page_length b # drop (Suc k) (map ?f bs)"
    using assms(1) by (simp add: replace_body_def map_update upd_conv_take_nth_drop take_map drop_map)
  moreover have "sum_list (xs @ x # ys) < sum_list (xs @ y # ys)" if "x < y" for x y :: nat and xs ys
    using that by simp
  ultimately show ?thesis using assms(2) by (metis (no_types, lifting) comp_apply)
qed

function halve_pages :: "(bodies \<Rightarrow> bool) \<Rightarrow> bodies \<Rightarrow> bodies" where
  "halve_pages fits bs =
     (if fits bs then bs
      else
        (case longest_page 0 0 None bs of
           None \<Rightarrow> bs
         | Some k \<Rightarrow>
             if page_length (snd (bs ! k)) \<le> 1 then bs
             else halve_pages fits (replace_body k (halve_body (snd (bs ! k))) bs)))"
  by pat_completeness auto
termination
  by (relation "measure (\<lambda>(fits, bs). sum_list (map (page_length \<circ> snd) bs))")
    (auto intro!: total_length_decreases halve_body_shorter dest: longest_page_less)

declare halve_pages.simps [simp del]

definition bound_bodies :: "json_codec \<Rightarrow> (bodies \<Rightarrow> bool) \<Rightarrow> bodies \<Rightarrow> bodies" where
  "bound_bodies codec fits bs =
     (if fits bs then bs
      else
        (let bs1 = fold (structured_shrink codec fits) [0 ..< length bs] bs in
         if fits bs1 then bs1
         else
           (let budget = (MAX_RESPONSE_FRAME_BYTES div 6) div (max (length bs1) 1);
                bs2 = map (\<lambda>(i, b). (i, coarse_body budget b)) bs1 in
            halve_pages fits bs2)))"

definition bound_wait_many_result :: "json_codec \<Rightarrow> TaskWaitManyBody \<Rightarrow> TaskWaitManyBody \<times> bool" where
  "bound_wait_many_result codec m =
     (let fits = (\<lambda>bs. wait_many_envelope_fits codec (m\<lparr>many_bodies := bs\<rparr>));
          bs = bound_bodies codec fits (many_bodies m) in
      (m\<lparr>many_bodies := bs\<rparr>, fits bs))"

section \<open>Waiting for one task\<close>

definition wait_interrupted :: RpcError where
  "wait_interrupted = rpc_error RpcUnavailable ''wait interrupted''"

definition all_pending :: "string \<Rightarrow> StoredPendingRequest list rpc" where
  "all_pending aid = rpc_store (\<lambda>s. pending_requests_bounded s aid 9223372036854775807)"

definition wait_receipt :: "string \<Rightarrow> string option \<Rightarrow> MessageReceiptView option rpc" where
  "wait_receipt aid mid =
     (case mid of
        None \<Rightarrow> rpc_ok None
      | Some i \<Rightarrow>
          rpc_bind (rpc_store (\<lambda>s. query_message s i)) (\<lambda>found. rpc_ok (Option.bind found (\<lambda>m.
            if message_agent_id m = aid
            then Some \<lparr>receipt_message_id = message_id m, receipt_state = receipt_state_text (message_state m),
                       receipt_failure_code = message_failure_code m\<rparr>
            else None))))"

definition terminal_page :: "TaskRecord \<Rightarrow> StoredTaskResult option \<Rightarrow> string option \<Rightarrow> RpcError + TaskResultView option" where
  "terminal_page task stored why =
     (case stored of
        Some r \<Rightarrow>
          if phase task = Terminal
          then res_bind (task_result_view r 0 MAX_RESULT_CHUNK_BYTES why (failure_message_projection task r))
                 (\<lambda>v. Inr (Some v))
          else Inr None
      | None \<Rightarrow> Inr None)"

definition with_tail :: "WaitTail option \<Rightarrow> TaskActivityView \<Rightarrow> TaskActivityView" where
  "with_tail tail a =
     (case tail of
        None \<Rightarrow> a | Some t \<Rightarrow> a\<lparr>activity_text_tail := wait_text t, activity_text_truncated := wait_truncated t\<rparr>)"

definition dedup_page :: "TaskResultView option \<Rightarrow> TaskActivityView \<Rightarrow> TaskActivityView" where
  "dedup_page page a =
     (case page of
        None \<Rightarrow> a | Some v \<Rightarrow> a\<lparr>activity_text_tail := dedup_terminal_tail (activity_text_tail a) (page_text v)\<rparr>)"

definition pending_views :: "json_codec \<Rightarrow> StoredPendingRequest list \<Rightarrow> PendingRequestView list" where
  "pending_views codec rs = map (pending_request_view codec) (take MAX_PENDING_REQUESTS (filter wake_pending_request rs))"

definition wait_one_round :: "string \<Rightarrow> string option \<Rightarrow> nat \<Rightarrow> unit \<Rightarrow> (unit + TaskWaitBody) rpc" where
  "wait_one_round aid mid deadline _ =
     rpc_bind (rpc_lift (ask w_interrupted)) (\<lambda>stopped.
     if stopped then rpc_fail wait_interrupted
     else
       rpc_bind (require_task_with_result aid) (\<lambda>(task, stored, why).
       rpc_bind (wait_receipt aid mid) (\<lambda>receipt.
       rpc_bind (all_pending (agent_id task)) (\<lambda>pending.
       rpc_bind (rpc_lift (given w_codec)) (\<lambda>codec.
       let actionable = filter wake_pending_request pending; ended = (phase task = Terminal) in
       rpc_bind (rpc_lift (passive_activity_snapshot (agent_id task))) (\<lambda>snapshot.
       rpc_bind (rpc_lift (ask w_now)) (\<lambda>now.
       if actionable \<noteq> [] \<or> ended \<or> deadline \<le> now
       then
         rpc_bind (rpc_result (terminal_page task stored why)) (\<lambda>page.
         rpc_bind (rpc_lift (scheduler_take_wait_tail (agent_id task))) (\<lambda>tail.
         rpc_bind (rpc_result (bound_wait_result codec
             \<lparr>body_task = task_header_view task, body_pending = pending_views codec pending,
              body_activity = dedup_page page (with_tail tail (task_activity_view snapshot)), body_result = page,
              body_timed_out = (actionable = [] \<and> \<not> ended \<and> deadline \<le> now), body_receipt = receipt\<rparr>)) (\<lambda>b.
         rpc_ok (Inr b))))
       else rpc_ok (Inl ()))))))))"

definition task_wait_one :: "string \<Rightarrow> string option \<Rightarrow> nat \<Rightarrow> TaskWaitBody rpc" where
  "task_wait_one aid mid deadline = rpc_loop (wait_one_round aid mid deadline) ()"

section \<open>Waiting for several tasks\<close>

text \<open>\<open>(body, actionable, terminal, owner_epoch)\<close>.\<close>

definition wait_body :: "string \<Rightarrow> bool \<Rightarrow> (TaskWaitBody \<times> bool \<times> bool \<times> nat) option rpc" where
  "wait_body aid force =
     rpc_bind (require_task_with_result aid) (\<lambda>(task, stored, why).
     rpc_bind (all_pending (agent_id task)) (\<lambda>pending.
     rpc_bind (rpc_lift (given w_codec)) (\<lambda>codec.
     let actionable = (filter wake_pending_request pending \<noteq> []); ended = (phase task = Terminal) in
     rpc_bind (rpc_lift (passive_activity_snapshot (agent_id task))) (\<lambda>snapshot.
     if \<not> ended \<and> \<not> actionable \<and> \<not> force then rpc_ok None
     else
       rpc_bind (rpc_result (terminal_page task stored why)) (\<lambda>page.
       rpc_bind (rpc_lift (scheduler_peek_wait_tail (agent_id task))) (\<lambda>tail.
       rpc_ok (Some
         (\<lparr>body_task = task_header_view task, body_pending = pending_views codec pending,
           body_activity = with_tail tail (task_activity_view snapshot), body_result = page,
           body_timed_out = False, body_receipt = None\<rparr>,
          actionable, ended, owner_epoch task))))))))"

type_synonym wait_slots = "(string \<times> (TaskWaitBody \<times> bool \<times> nat) option) list"

fun phase_debug :: "TaskPhase \<Rightarrow> string" where
  "phase_debug Queued = ''Queued''"
| "phase_debug Preparing = ''Preparing''"
| "phase_debug Running = ''Running''"
| "phase_debug WaitingInput = ''WaitingInput''"
| "phase_debug Cancelling = ''Cancelling''"
| "phase_debug Terminal = ''Terminal''"

definition stale_snapshot_message :: "TaskRecord \<Rightarrow> nat \<Rightarrow> string" where
  "stale_snapshot_message task cached =
     ''task_wait dropped stale terminal snapshot: phase='' @ phase_debug (phase task) @ '' cached_epoch=''
       @ to_decimal cached @ '' current_epoch='' @ to_decimal (owner_epoch task)"

text \<open>
  One slot in one round: the slot afterwards, whether its id turned out unknown, whether it is actionable
  and whether it is settled.
\<close>

definition scan_slot ::
    "string \<Rightarrow> (TaskWaitBody \<times> bool \<times> nat) option \<Rightarrow> ((TaskWaitBody \<times> bool \<times> nat) option \<times> bool \<times> bool \<times> bool) rpc" where
  "scan_slot i slot =
     (case slot of
        Some (b, True, cached) \<Rightarrow>
          rpc_bind (rpc_store (\<lambda>s. get_task s i)) (\<lambda>found.
          case found of
            None \<Rightarrow> rpc_ok (slot, True, False, True)
          | Some task \<Rightarrow>
              if phase task = Terminal \<and> owner_epoch task = cached then rpc_ok (slot, False, False, True)
              else rpc_bind (rpc_lift (record_failure i (stale_snapshot_message task cached)))
                     (\<lambda>_. rpc_ok (None, False, False, False)))
      | Some (b, False, cached) \<Rightarrow> rpc_ok (slot, False, False, False)
      | None \<Rightarrow>
          rpc_bind (rpc_try (wait_body i False)) (\<lambda>r.
          case r of
            Inl e \<Rightarrow> if rpc_code e = RpcNotFound then rpc_ok (None, True, False, True) else rpc_fail e
          | Inr None \<Rightarrow> rpc_ok (None, False, False, False)
          | Inr (Some (b, actionable, ended, epoch)) \<Rightarrow> rpc_ok (Some (b, ended, epoch), False, actionable, ended)))"

fun scan_slots :: "wait_slots \<Rightarrow> string list \<Rightarrow> (wait_slots \<times> string list \<times> bool \<times> bool) rpc" where
  "scan_slots [] unknown = rpc_ok ([], unknown, False, True)"
| "scan_slots ((i, slot) # slots) unknown =
     (if i \<in> set unknown
      then rpc_bind (scan_slots slots unknown) (\<lambda>(slots', unknown', actionable, settled).
             rpc_ok ((i, slot) # slots', unknown', actionable, settled))
      else
        rpc_bind (scan_slot i slot) (\<lambda>(slot', gone, actionable, settled).
        rpc_bind (scan_slots slots (if gone then i # unknown else unknown)) (\<lambda>(slots', unknown', actionable', settled').
          rpc_ok ((i, slot') # slots', unknown', actionable \<or> actionable', settled \<and> settled'))))"

text \<open>The bodies of the response with whether their snapshot is terminal.\<close>

fun project_slots :: "wait_slots \<Rightarrow> string list \<Rightarrow> (string \<times> TaskWaitBody \<times> bool) list rpc" where
  "project_slots [] unknown = rpc_ok []"
| "project_slots ((i, slot) # slots) unknown =
     (if i \<in> set unknown then project_slots slots unknown
      else
        rpc_bind
          (case slot of
             Some (b, ended, _) \<Rightarrow> rpc_ok (b, ended)
           | None \<Rightarrow>
               rpc_bind (wait_body i True) (\<lambda>forced.
               case forced of None \<Rightarrow> sched_panic | Some (b, _, _, _) \<Rightarrow> rpc_ok (b, False))) (\<lambda>(b, ended).
        rpc_bind (project_slots slots unknown) (\<lambda>bs. rpc_ok ((i, b, ended) # bs))))"

definition mark_timed_out :: "bool \<Rightarrow> (string \<times> TaskWaitBody \<times> bool) list \<Rightarrow> bodies" where
  "mark_timed_out expired bs = map (\<lambda>(i, b, ended). (i, if expired \<and> \<not> ended then b\<lparr>body_timed_out := True\<rparr> else b)) bs"

text \<open>The ids that occur again, and the map of problematic ids in the order of their bytes.\<close>

fun repeated :: "string list \<Rightarrow> string list \<Rightarrow> string list" where
  "repeated seen [] = []"
| "repeated seen (i # is) = (if i \<in> set seen then i # repeated seen is else repeated (i # seen) is)"

definition distinct_ids :: "string list \<Rightarrow> string list" where
  "distinct_ids is = rev (remdups (rev is))"

definition wait_errors :: "string list \<Rightarrow> string list \<Rightarrow> (string \<times> string) list" where
  "wait_errors duplicated unknown =
     map (\<lambda>i. (i, if i \<in> set unknown then ''unknown_agent'' else ''duplicated''))
       (sort_key (map nat_of_char) (remdups (duplicated @ unknown)))"

definition page_composition :: "string \<times> TaskWaitBody \<Rightarrow> string" where
  "page_composition e =
     (case e of (i, b) \<Rightarrow>
        i @ '':page='' @ to_decimal (page_length b) @ ''b/''
          @ to_decimal (case body_result b of None \<Rightarrow> 0 | Some v \<Rightarrow> page_total_bytes v) @ ''b'')"

definition oversized_message :: "TaskWaitManyBody \<Rightarrow> string" where
  "oversized_message m =
     ''task_wait_many oversized: agents='' @ to_decimal (length (many_bodies m)) @ '' error_ids=''
       @ to_decimal (length (many_error m)) @ '' questions=''
       @ to_decimal (sum_list (map (\<lambda>(_, b). length (body_pending b)) (many_bodies m)))
       @ '' pages=['' @ join_with '','' (map page_composition (many_bodies m)) @ '']''"

fun commit_tails :: "bodies \<Rightarrow> bodies rpc" where
  "commit_tails [] = rpc_ok []"
| "commit_tails ((i, b) # bs) =
     rpc_bind (rpc_lift (scheduler_take_wait_tail i)) (\<lambda>tail.
     rpc_bind (commit_tails bs) (\<lambda>bs'.
       rpc_ok ((i, b\<lparr>body_activity := dedup_page (body_result b) (with_tail tail (body_activity b))\<rparr>) # bs')))"

definition primary_id :: "string list \<Rightarrow> string" where
  "primary_id is = (case is of [] \<Rightarrow> ''wait-many'' | i # _ \<Rightarrow> i)"

definition interrupted_message :: "string list \<Rightarrow> string list \<Rightarrow> string" where
  "interrupted_message is unknown =
     ''task_wait interrupted: agents='' @ to_decimal (length is) @ '' duplicated=''
       @ to_decimal (length (remdups (repeated [] is))) @ '' unknown='' @ to_decimal (length unknown)"

definition wait_many_respond :: "string list \<Rightarrow> wait_slots \<Rightarrow> string list \<Rightarrow> bool \<Rightarrow> TaskWaitManyBody rpc" where
  "wait_many_respond is slots unknown expired =
     rpc_bind (project_slots slots unknown) (\<lambda>projected.
     rpc_bind (rpc_lift (given w_codec)) (\<lambda>codec.
     case bound_wait_many_result codec
            \<lparr>many_bodies = mark_timed_out expired projected, many_error = wait_errors (repeated [] is) unknown\<rparr> of
       (m, fits) \<Rightarrow>
         if \<not> fits
         then rpc_bind (rpc_lift (record_failure (primary_id is) (oversized_message m))) (\<lambda>_. rpc_fail frame_exceeded)
         else rpc_bind (commit_tails (many_bodies m)) (\<lambda>bs. rpc_ok (m\<lparr>many_bodies := bs\<rparr>))))"

definition wait_many_round ::
    "string list \<Rightarrow> nat \<Rightarrow> wait_slots \<times> string list \<Rightarrow> (wait_slots \<times> string list + TaskWaitManyBody) rpc" where
  "wait_many_round is deadline st =
     (case st of (slots, unknown) \<Rightarrow>
        rpc_bind (rpc_lift (ask w_interrupted)) (\<lambda>stopped.
        if stopped
        then rpc_bind (rpc_lift (record_failure (primary_id is) (interrupted_message is unknown)))
               (\<lambda>_. rpc_fail wait_interrupted)
        else
          rpc_bind (rpc_lift (ask w_now)) (\<lambda>now.
          rpc_bind (scan_slots slots unknown) (\<lambda>(slots', unknown', actionable, settled).
          if settled \<or> actionable \<or> deadline \<le> now
          then rpc_bind (wait_many_respond is slots' unknown' (\<not> settled \<and> \<not> actionable \<and> deadline \<le> now))
                 (\<lambda>m. rpc_ok (Inr m))
          else rpc_ok (Inl (slots', unknown'))))))"

definition task_wait_many :: "string list \<Rightarrow> nat \<Rightarrow> TaskWaitManyBody rpc" where
  "task_wait_many is deadline =
     rpc_loop (wait_many_round is deadline) (map (\<lambda>i. (i, None)) (distinct_ids is), [])"

definition task_wait :: "TaskWaitQuery \<Rightarrow> nat \<Rightarrow> (TaskWaitBody + TaskWaitManyBody) rpc" where
  "task_wait q deadline =
     (case wait_agent_id q of
        WaitOne i \<Rightarrow> rpc_bind (task_wait_one i (wait_message_id q) deadline) (\<lambda>b. rpc_ok (Inl b))
      | WaitMany is \<Rightarrow> rpc_bind (task_wait_many is deadline) (\<lambda>m. rpc_ok (Inr m)))"

end
