(* ===== verification/Rpc_Paging.thy ===== *)
theory Rpc_Paging
  imports Rpc_Wait Activity_Properties
begin

text \<open>
  Pages and frames: the pages of a result make up the result, and a response that is cut to the frame of
  the transport fits, keeps what identifies its parts, and never presents a shortened page as the end.
\<close>

section \<open>Pages of a text\<close>

lemma page_end_le: "page_end text start n \<le> n"
  by (induction n) auto

lemma page_end_ge: "start \<le> n \<Longrightarrow> start \<le> page_end text start n"
  by (induction n) (auto simp: le_Suc_eq)

lemma page_end_boundary:
  "is_char_boundary text start \<Longrightarrow> start \<le> n \<Longrightarrow> is_char_boundary text (page_end text start n)"
  by (induction n) (auto simp: le_Suc_eq is_char_boundary_def)

lemma page_end_above:
  "is_char_boundary text j \<Longrightarrow> start \<le> j \<Longrightarrow> j \<le> n \<Longrightarrow> j \<le> page_end text start n"
  by (induction n) (auto simp: le_Suc_eq)

lemma next_boundary_after:
  assumes "utf8_shape text" "is_char_boundary text start" "start < length text"
  obtains j where "is_char_boundary text j" "start < j" "j \<le> start + 4" "j \<le> length text"
proof -
  have "next_char_boundary text (Suc start) \<le> Suc start + 3"
    by (rule next_char_boundary_near [OF assms(1)]) (use assms(3) in simp)
  moreover have "is_char_boundary text (next_char_boundary text (Suc start))"
    by (rule next_char_boundary_is) (use assms(3) in simp)
  moreover have "Suc start \<le> next_char_boundary text (Suc start)" by (rule next_char_boundary_ge)
  ultimately show ?thesis
    by (intro that [of "next_char_boundary text (Suc start)"]) (auto simp: is_char_boundary_def)
qed

lemma paged_text_ok:
  assumes "paged_text_bounds text start limit field = Inr (finish, nxt)" and len: "length text \<le> u64_max"
  shows "start \<le> finish" "finish \<le> length text" "is_char_boundary text finish" "finish - start \<le> limit"
    "nxt = (if finish < length text then Some finish else None)" "start < length text \<Longrightarrow> start < finish"
proof -
  let ?n = "min (saturating_add_usize start limit) (length text)"
  have start: "start \<le> length text" "is_char_boundary text start"
    and f: "finish = page_end text start ?n" "\<not> (finish = start \<and> start < length text)"
      "nxt = (if finish < length text then Some finish else None)"
    using assms(1) by (auto simp: paged_text_bounds_def Let_def split: if_splits)
  have n: "start \<le> ?n" using start(1) len by (simp add: saturating_add_usize_def)
  have le: "finish \<le> ?n" unfolding f(1) by (rule page_end_le)
  then show "finish \<le> length text" "finish - start \<le> limit" by (auto simp: saturating_add_usize_def)
  show "is_char_boundary text finish" unfolding f(1) by (rule page_end_boundary [OF start(2) n])
  show "start \<le> finish" unfolding f(1) by (rule page_end_ge [OF n])
  with f(2) show "start < length text \<Longrightarrow> start < finish" by simp
  show "nxt = (if finish < length text then Some finish else None)" by (rule f)
qed

lemma paged_text_total:
  assumes shape: "utf8_shape text" and start: "is_char_boundary text start" "start \<le> length text"
    and limit: "4 \<le> limit" and len: "length text \<le> u64_max"
  shows "\<exists>finish nxt. paged_text_bounds text start limit field = Inr (finish, nxt)"
proof (cases "start < length text")
  case True
  let ?n = "min (saturating_add_usize start limit) (length text)"
  obtain j where j: "is_char_boundary text j" "start < j" "j \<le> start + 4" "j \<le> length text"
    using next_boundary_after [OF shape start(1) True] .
  have "j \<le> page_end text start ?n"
    by (rule page_end_above [OF j(1)]) (use j limit len in \<open>simp_all add: saturating_add_usize_def\<close>)
  with j(2) start show ?thesis by (auto simp: paged_text_bounds_def Let_def)
next
  case False
  with start show ?thesis by (auto simp: paged_text_bounds_def Let_def)
qed

text \<open>A caller that follows the cursor of each page, at most \<open>n\<close> times.\<close>

fun read_pages :: "StoredTaskResult \<Rightarrow> nat \<Rightarrow> nat \<Rightarrow> nat \<Rightarrow> string option" where
  "read_pages stored limit n start =
     (case task_result_view stored start limit None None of
        Inl e \<Rightarrow> None
      | Inr v \<Rightarrow>
          (case page_next_offset v of
             None \<Rightarrow> Some (page_text v)
           | Some nxt \<Rightarrow>
               (case n of 0 \<Rightarrow> None | Suc m \<Rightarrow> map_option ((@) (page_text v)) (read_pages stored limit m nxt))))"

declare read_pages.simps [simp del]

lemma read_pages_from:
  assumes "utf8_shape (final_text (stored_result stored))" "4 \<le> limit" "length (final_text (stored_result stored)) \<le> u64_max"
    and "is_char_boundary (final_text (stored_result stored)) start" "start \<le> length (final_text (stored_result stored))"
    and "length (final_text (stored_result stored)) \<le> start + n"
  shows "read_pages stored limit n start = Some (drop start (final_text (stored_result stored)))"
  using assms
proof (induction n arbitrary: start)
  case 0
  let ?text = "final_text (stored_result stored)"
  obtain finish nxt where p: "paged_text_bounds ?text start limit ''result'' = Inr (finish, nxt)"
    using paged_text_total [OF 0(1,4,5,2,3)] by blast
  from paged_text_ok [OF p 0(3)] 0 show ?case
    by (subst read_pages.simps) (simp add: task_result_view_def result_page_bounds_def p Let_def)
next
  case (Suc n)
  let ?text = "final_text (stored_result stored)"
  obtain finish nxt where p: "paged_text_bounds ?text start limit ''result'' = Inr (finish, nxt)"
    using paged_text_total [OF Suc.prems(1,4,5,2,3)] by blast
  note ok = paged_text_ok [OF p Suc.prems(3)]
  show ?case
  proof (cases "finish < length ?text")
    case True
    have "start < finish" by (rule ok(6)) (use True ok(1) in simp)
    then have "read_pages stored limit n finish = Some (drop finish ?text)"
      using Suc.prems ok by (intro Suc.IH) simp_all
    moreover have "take (finish - start) (drop start ?text) @ drop finish ?text = drop start ?text"
      using ok(1) by (metis add.commute append_take_drop_id drop_drop le_add_diff_inverse)
    ultimately show ?thesis
      using ok True by (subst read_pages.simps) (simp add: task_result_view_def result_page_bounds_def p Let_def)
  next
    case False
    with ok show ?thesis
      by (subst read_pages.simps) (simp add: task_result_view_def result_page_bounds_def p Let_def)
  qed
qed

text \<open>
  C11. The pages of a stored result make up the result. A caller that asks for pages of at least four bytes
  and follows the cursor of each page to the next gets the whole final text, byte for byte, after at most as
  many pages as the text has bytes: no page is refused, every page advances, and only the last has no cursor.
\<close>

theorem pages_make_up_result:
  assumes "utf8_shape (final_text (stored_result stored))" "length (final_text (stored_result stored)) \<le> u64_max" "4 \<le> limit"
  shows "read_pages stored limit (length (final_text (stored_result stored))) 0 = Some (final_text (stored_result stored))"
  using read_pages_from [of stored limit 0] assms by (simp add: is_char_boundary_def)

definition sample_result :: StoredTaskResult where
  "sample_result = \<lparr>stored_result = \<lparr>result_outcome = TaskOutcome.Completed, final_text = ''done now'', partial = False\<rparr>,
     result_sha256 = []\<rparr>"

lemma utf8_shape_ascii: "list_all (\<lambda>c. \<not> continuation_byte c) s \<Longrightarrow> utf8_shape s"
  by (auto simp: utf8_shape_def list_all_length hd_conv_nth)

theorem pages_make_up_result_witness: "read_pages sample_result 4 8 0 = Some ''done now''"
proof -
  have "list_all (\<lambda>c. \<not> continuation_byte c) ''done now''" by code_simp
  note shape = utf8_shape_ascii [OF this]
  have final: "final_text (stored_result sample_result) = ''done now''" "length ''done now'' = 8"
    by (simp_all add: sample_result_def)
  from pages_make_up_result [of sample_result 4, unfolded final, OF shape] show ?thesis by simp
qed

section \<open>Degraded responses\<close>

definition honest_page :: "TaskResultView \<Rightarrow> bool" where
  "honest_page v \<longleftrightarrow>
     page_offset v + length (page_text v) \<le> page_total_bytes v
     \<and> page_next_offset v = (if page_offset v + length (page_text v) < page_total_bytes v
                              then Some (page_offset v + length (page_text v)) else None)"

definition shorter_page :: "TaskResultView \<Rightarrow> TaskResultView \<Rightarrow> bool" where
  "shorter_page v v' \<longleftrightarrow>
     page_outcome v' = page_outcome v \<and> page_partial v' = page_partial v \<and> page_offset v' = page_offset v
     \<and> page_total_bytes v' = page_total_bytes v \<and> page_reason_code v' = page_reason_code v
     \<and> prefix (page_text v') (page_text v) \<and> (honest_page v \<longrightarrow> honest_page v')"

definition shorter_question :: "QuestionView \<Rightarrow> QuestionView \<Rightarrow> bool" where
  "shorter_question q q' \<longleftrightarrow>
     prefix (question_text q') (question_text q)
     \<and> (question_truncated q' \<longleftrightarrow> question_truncated q \<or> question_text q' \<noteq> question_text q)"

definition shorter_request :: "PendingRequestView \<Rightarrow> PendingRequestView \<Rightarrow> bool" where
  "shorter_request p p' \<longleftrightarrow>
     pending_view_id p' = pending_view_id p \<and> pending_view_kind p' = pending_view_kind p
     \<and> pending_view_tool p' = pending_view_tool p \<and> pending_view_operation p' = pending_view_operation p
     \<and> pending_view_summary p' = pending_view_summary p
     \<and> rel_option shorter_question (pending_view_question p) (pending_view_question p')"

text \<open>What degradation may do to a body.\<close>

definition degraded :: "TaskWaitBody \<Rightarrow> TaskWaitBody \<Rightarrow> bool" where
  "degraded b b' \<longleftrightarrow>
     body_task b' = body_task b \<and> body_activity b' = body_activity b \<and> body_timed_out b' = body_timed_out b
     \<and> body_receipt b' = body_receipt b \<and> list_all2 shorter_request (body_pending b) (body_pending b')
     \<and> rel_option shorter_page (body_result b) (body_result b')"

lemma shorter_page_refl: "shorter_page v v"
  by (simp add: shorter_page_def)

lemma shorter_page_trans: "shorter_page u v \<Longrightarrow> shorter_page v x \<Longrightarrow> shorter_page u x"
  by (auto simp: shorter_page_def)

lemma shorter_question_refl: "shorter_question q q"
  by (simp add: shorter_question_def)

lemma shorter_question_trans: "shorter_question q r \<Longrightarrow> shorter_question r s \<Longrightarrow> shorter_question q s"
  by (auto simp: shorter_question_def dest: prefix_order.antisym)

lemma rel_option_trans:
  assumes "rel_option R x y" "rel_option R y z" "\<And>a b c. R a b \<Longrightarrow> R b c \<Longrightarrow> R a c"
  shows "rel_option R x z"
  using assms(1,2) by (cases x; cases y; cases z) (auto intro: assms(3))

lemma shorter_request_refl: "shorter_request p p"
  by (simp add: shorter_request_def option.rel_refl shorter_question_refl)

lemma shorter_request_trans: "shorter_request p q \<Longrightarrow> shorter_request q r \<Longrightarrow> shorter_request p r"
  unfolding shorter_request_def by (auto elim: rel_option_trans shorter_question_trans)

lemma degraded_refl [simp]: "degraded b b"
  by (simp add: degraded_def list_all2_refl option.rel_refl shorter_request_refl shorter_page_refl)

lemma degraded_trans [trans]:
  assumes "degraded a b" "degraded b c"
  shows "degraded a c"
proof -
  have "list_all2 shorter_request (body_pending a) (body_pending c)"
    using assms by (auto simp: degraded_def intro: list_all2_trans [of shorter_request shorter_request shorter_request] shorter_request_trans)
  moreover have "rel_option shorter_page (body_result a) (body_result c)"
    using assms by (auto simp: degraded_def elim!: rel_option_trans intro: shorter_page_trans)
  ultimately show ?thesis using assms by (simp add: degraded_def)
qed

lemma degraded_message: "degraded b (with_message message b)"
  by (cases "body_result b")
    (simp_all add: degraded_def with_message_def list_all2_refl shorter_request_refl shorter_page_def honest_page_def)

lemma degraded_detail: "degraded b (shrink_detail codec fits b)"
  by (simp add: shrink_detail_def degraded_message split: option.split)

lemma truncate_prefix: "prefix (truncate_at_char_boundary v n) v"
  by (simp add: truncate_at_char_boundary_def take_is_prefix)

lemma shorter_shorten_question: "shorter_request p (shorten_question p)"
proof -
  have "shorter_question q (let text = truncate_at_char_boundary (question_text q) MAX_QUESTION_SUMMARY_BYTES in
     \<lparr>question_text = text, question_truncated = (question_truncated q \<or> length text < length (question_text q))\<rparr>)" for q
    using truncate_prefix [of "question_text q" MAX_QUESTION_SUMMARY_BYTES]
    by (auto simp: shorter_question_def Let_def prefix_def) (metis append_Nil2 length_append less_add_same_cancel1 length_greater_0_conv)
  then show ?thesis
    by (cases "pending_view_question p") (simp_all add: shorter_request_def shorten_question_def)
qed

lemma degraded_questions: "degraded b (shorten_questions b)"
  by (simp add: degraded_def shorten_questions_def option.rel_refl shorter_page_refl list_all2_map2 list_all2_refl
      shorter_shorten_question)

lemma shorter_shorten_page: "n \<le> length (page_text v) \<Longrightarrow> shorter_page v (shorten_page n v)"
  by (auto simp: shorter_page_def shorten_page_def honest_page_def take_is_prefix)

lemma degraded_shorten: "n \<le> page_length b \<Longrightarrow> degraded b (shorten_body n b)"
  by (cases "body_result b")
    (simp_all add: degraded_def shorten_body_def list_all2_refl shorter_request_refl shorter_shorten_page page_length_def)

section \<open>One body\<close>

lemma last_fit_le: "lo \<le> hi \<Longrightarrow> last_fit f lo hi \<le> hi"
proof (induction f lo hi rule: last_fit.induct)
  case (1 f lo hi)
  let ?mid = "lo + (hi - lo + 1) div 2"
  consider "\<not> lo < hi" | "lo < hi" "f ?mid" | "lo < hi" "\<not> f ?mid" by blast
  then show ?case
  proof cases
    case 1
    with "1.prems" show ?thesis by (subst last_fit.simps) simp
  next
    case 2
    then have "last_fit f ?mid hi \<le> hi" by (intro "1.IH"(1)) auto
    with 2 show ?thesis by (subst last_fit.simps) (simp add: Let_def)
  next
    case 3
    then have "last_fit f lo (?mid - 1) \<le> ?mid - 1" by (intro "1.IH"(2)) auto
    moreover have "?mid - 1 \<le> hi" using 3(1) by simp
    ultimately show ?thesis using 3 by (subst last_fit.simps) (simp add: Let_def)
  qed
qed

lemma last_fit_holds: "f lo \<Longrightarrow> f (last_fit f lo hi)"
proof (induction f lo hi rule: last_fit.induct)
  case (1 f lo hi)
  let ?mid = "lo + (hi - lo + 1) div 2"
  consider "\<not> lo < hi" | "lo < hi" "f ?mid" | "lo < hi" "\<not> f ?mid" by blast
  then show ?case
  proof cases
    case 1
    with "1.prems" show ?thesis by (subst last_fit.simps) simp
  next
    case 2
    with "1.IH"(1) [OF 2(1) refl 2(2) 2(2)] show ?thesis by (subst last_fit.simps) (simp add: Let_def)
  next
    case 3
    with "1.IH"(2) [OF 3(1) refl 3(2) "1.prems"] show ?thesis by (subst last_fit.simps) (simp add: Let_def)
  qed
qed

lemma shrunk_page_fits:
  assumes "shrunk_result_page b fits = Some finish"
  shows "fits (shorten_body finish b)" "finish \<le> page_length b"
proof -
  obtain v where v: "body_result b = Some v" using assms by (auto simp: shrunk_result_page_def split: Option.bind_splits)
  let ?ends = "tl (char_indices (page_text v))"
  let ?k = "last_fit (\<lambda>i. fits (shorten_body (?ends ! i) b)) 0 (length ?ends - 1)"
  from assms v have ends: "?ends \<noteq> []" "fits (shorten_body (hd ?ends) b)" and f: "finish = ?ends ! ?k"
    by (auto simp: shrunk_result_page_def Let_def split: if_splits)
  show "fits (shorten_body finish b)"
    unfolding f by (rule last_fit_holds) (use ends in \<open>simp add: hd_conv_nth\<close>)
  have "?k \<le> length ?ends - 1" by (rule last_fit_le) simp
  moreover have "0 < length ?ends" by (rule length_greater_0_conv [THEN iffD2]) (rule ends)
  ultimately have "?k < length ?ends" by linarith
  then have "finish \<in> set (char_indices (page_text v))" unfolding f by (metis list.set_sel(2) nth_mem tl_Nil length_0_conv not_less_zero)
  from char_indices_le [OF this] v show "finish \<le> page_length b" by (simp add: page_length_def)
qed

lemma bound_wait_body_ok:
  assumes "bound_wait_body codec fits b = Inr b'"
  shows "fits b' \<and> degraded b b'"
proof -
  let ?c1 = "shrink_detail codec fits b"
  let ?c2 = "shorten_questions ?c1"
  have d1: "degraded b ?c1" by (rule degraded_detail)
  have d2: "degraded b ?c2" by (rule degraded_trans [OF d1 degraded_questions])
  show ?thesis
  proof (cases "shrunk_result_page ?c2 fits")
    case None
    with assms d1 d2 show ?thesis by (auto simp: bound_wait_body_def Let_def split: if_splits)
  next
    case (Some finish)
    have "degraded b (shorten_body finish ?c2)"
      by (rule degraded_trans [OF d2 degraded_shorten]) (rule shrunk_page_fits [OF Some])
    with Some assms d1 d2 show ?thesis by (auto simp: bound_wait_body_def Let_def split: if_splits)
  qed
qed

section \<open>Several bodies\<close>

definition degraded_bodies :: "bodies \<Rightarrow> bodies \<Rightarrow> bool" where
  "degraded_bodies bs bs' \<longleftrightarrow> list_all2 (\<lambda>e e'. fst e' = fst e \<and> degraded (snd e) (snd e')) bs bs'"

lemma degraded_bodies_refl [simp]: "degraded_bodies bs bs"
  by (simp add: degraded_bodies_def list_all2_refl)

lemma degraded_bodies_trans [trans]: "degraded_bodies as bs \<Longrightarrow> degraded_bodies bs cs \<Longrightarrow> degraded_bodies as cs"
  unfolding degraded_bodies_def by (rule list_all2_trans) (auto intro: degraded_trans)

lemma degraded_bodies_length: "degraded_bodies bs bs' \<Longrightarrow> length bs' = length bs"
  by (simp add: degraded_bodies_def list_all2_lengthD)

lemma degraded_replace:
  assumes "k < length bs" "degraded (snd (bs ! k)) b"
  shows "degraded_bodies bs (replace_body k b bs)"
  unfolding degraded_bodies_def replace_body_def
  using assms by (auto simp: list_all2_conv_all_nth nth_list_update)

lemma degraded_structured: "k < length bs \<Longrightarrow> degraded_bodies bs (structured_shrink codec fits k bs)"
  unfolding structured_shrink_def Let_def
  by (auto intro!: degraded_replace intro: degraded_detail degraded_trans [OF degraded_detail degraded_questions])

lemma degraded_structured_fold:
  "set ks \<subseteq> {..< length bs} \<Longrightarrow> degraded_bodies bs (fold (structured_shrink codec fits) ks bs)"
proof (induction ks arbitrary: bs)
  case (Cons k ks)
  then have "degraded_bodies bs (structured_shrink codec fits k bs)" by (intro degraded_structured) simp
  moreover from degraded_bodies_length [OF this] Cons
  have "degraded_bodies (structured_shrink codec fits k bs) (fold (structured_shrink codec fits) ks (structured_shrink codec fits k bs))"
    by simp
  ultimately show ?case by (auto elim: degraded_bodies_trans)
qed simp

lemma degraded_coarse: "degraded b (coarse_body budget b)"
proof -
  have "shorter_page v (coarse_page budget v)" for v
    using prefix_length_le [OF truncate_prefix [of "page_text v" budget]]
    by (simp add: coarse_page_def shorter_page_refl shorter_shorten_page)
  then show ?thesis
    by (cases "body_result b") (simp_all add: degraded_def coarse_body_def list_all2_refl shorter_request_refl)
qed

lemma degraded_halve: "degraded b (halve_body b)"
proof (cases "body_result b")
  case (Some v)
  have "prev_char_boundary (page_text v) (min (max (length (page_text v) div 2) 1) (length (page_text v) - 1)) \<le> page_length b"
    by (rule order_trans [OF prev_char_boundary_le]) (simp add: page_length_def Some)
  with Some show ?thesis by (simp add: halve_body_def Let_def degraded_shorten)
qed (simp add: halve_body_def)

lemma degraded_halve_pages: "degraded_bodies bs (halve_pages fits bs)"
proof (induction fits bs rule: halve_pages.induct)
  case (1 fits bs)
  show ?case
  proof (cases "fits bs \<or> longest_page 0 0 None bs = None")
    case False
    then obtain k where k: "longest_page 0 0 None bs = Some k" "\<not> fits bs" by auto
    let ?bs = "replace_body k (halve_body (snd (bs ! k))) bs"
    have "degraded_bodies bs ?bs"
      using longest_page_less [OF k(1)] by (intro degraded_replace degraded_halve) simp
    moreover have "degraded_bodies ?bs (halve_pages fits ?bs)" if "\<not> page_length (snd (bs ! k)) \<le> 1"
      by (rule "1.IH" [OF k(2,1) that])
    ultimately show ?thesis
      using k by (subst halve_pages.simps) (auto elim: degraded_bodies_trans)
  qed (subst halve_pages.simps, auto)
qed

lemma degraded_bound_bodies: "degraded_bodies bs (bound_bodies codec fits bs)"
proof -
  let ?bs1 = "fold (structured_shrink codec fits) [0 ..< length bs] bs"
  let ?coarse = "\<lambda>budget. map (\<lambda>(i, b). (i, coarse_body budget b)) ?bs1"
  have s: "degraded_bodies bs ?bs1" by (rule degraded_structured_fold) auto
  have "degraded_bodies ?bs1 (?coarse budget)" for budget
    by (auto simp: degraded_bodies_def list_all2_conv_all_nth degraded_coarse split: prod.split)
  then have "degraded_bodies bs (halve_pages fits (?coarse budget))" for budget
    by (meson s degraded_bodies_trans degraded_halve_pages)
  with s show ?thesis by (simp add: bound_bodies_def Let_def)
qed

text \<open>
  Halving a page that is one character of two bytes leaves the empty page, with a cursor at its own offset; and
  a forced snapshot is marked as timed out whatever it found.
\<close>

lemma halved_to_nothing:
  assumes "body_result b = Some v" "page_text v = [CHR 0xC3, CHR 0xA9]" "page_total_bytes v = page_offset v + 2"
  shows "body_result (halve_body b) = Some (v\<lparr>page_text := [], page_next_offset := Some (page_offset v)\<rparr>)"
proof -
  have "prev_char_boundary [CHR 0xC3, CHR 0xA9] 1 = 0" by code_simp
  with assms show ?thesis by (simp add: halve_body_def shorten_body_def shorten_page_def Let_def)
qed

lemma forced_snapshot_timed_out: "mark_timed_out True [(i, b, False)] = [(i, b\<lparr>body_timed_out := True\<rparr>)]"
  by (simp add: mark_timed_out_def)

section \<open>Pages the service makes\<close>

lemma task_result_view_honest:
  assumes "task_result_view stored start limit why message = Inr v"
    and "length (final_text (stored_result stored)) \<le> u64_max"
  shows "honest_page v"
proof -
  obtain finish nxt where p: "paged_text_bounds (final_text (stored_result stored)) start limit ''result'' = Inr (finish, nxt)"
    using assms(1) by (auto simp: task_result_view_def result_page_bounds_def Let_def res_bind_def split: sum.splits)
  from paged_text_ok [OF p assms(2)] assms(1) p show ?thesis
    by (auto simp: task_result_view_def result_page_bounds_def honest_page_def Let_def)
qed

definition honest_body :: "TaskWaitBody \<Rightarrow> bool" where
  "honest_body b \<longleftrightarrow> pred_option honest_page (body_result b)"

lemma degraded_honest: "degraded b b' \<Longrightarrow> honest_body b \<Longrightarrow> honest_body b'"
  by (cases "body_result b"; cases "body_result b'") (auto simp: degraded_def honest_body_def shorter_page_def)

section \<open>What a cut response is\<close>

lemma bound_wait_body_fails:
  assumes "bound_wait_body codec fits b = Inl e"
  defines "smallest \<equiv> shorten_questions (shrink_detail codec fits b)"
  shows "e = frame_exceeded" "\<not> fits b" "\<not> fits (shrink_detail codec fits b)" "\<not> fits smallest"
    and "body_result smallest = Some v \<Longrightarrow> tl (char_indices (page_text v)) \<noteq> [] \<Longrightarrow>
         \<not> fits (shorten_body (hd (tl (char_indices (page_text v)))) smallest)"
proof -
  show "e = frame_exceeded" "\<not> fits b" "\<not> fits (shrink_detail codec fits b)" "\<not> fits smallest"
    using assms by (auto simp: bound_wait_body_def Let_def split: if_splits)
  assume v: "body_result smallest = Some v" "tl (char_indices (page_text v)) \<noteq> []"
  show "\<not> fits (shorten_body (hd (tl (char_indices (page_text v)))) smallest)"
  proof
    assume "fits (shorten_body (hd (tl (char_indices (page_text v)))) smallest)"
    with v obtain finish where f: "shrunk_result_page smallest fits = Some finish"
      by (auto simp: shrunk_result_page_def Let_def)
    with shrunk_page_fits(1) [OF f] assms show False
      by (auto simp: bound_wait_body_def Let_def split: if_splits)
  qed
qed

text \<open>
  C10. The response of a wait for one task is cut to the frame without lying. When the cut succeeds the body
  fits the frame, still names the same task, activity, receipt and pending requests in their order, every
  question is a prefix of the original that says so when it was cut, and the page of the result is a prefix
  of the page whose cursor points exactly behind it, so a caller that follows it misses nothing. When the cut
  fails, the body did not fit even with the shortest detail, the shortened questions and one character of the page.
\<close>

theorem wait_body_bounded:
  "case bound_wait_body codec fits b of
     Inr b' \<Rightarrow> fits b' \<and> degraded b b' \<and> (honest_body b \<longrightarrow> honest_body b')
   | Inl e \<Rightarrow>
       (let smallest = shorten_questions (shrink_detail codec fits b) in
        e = frame_exceeded \<and> \<not> fits b \<and> \<not> fits smallest
        \<and> (\<forall>v. body_result smallest = Some v \<and> tl (char_indices (page_text v)) \<noteq> []
              \<longrightarrow> \<not> fits (shorten_body (hd (tl (char_indices (page_text v)))) smallest)))"
proof (cases "bound_wait_body codec fits b")
  case (Inl e)
  from bound_wait_body_fails [OF Inl] Inl show ?thesis by (auto simp: Let_def)
next
  case (Inr b')
  from bound_wait_body_ok [OF Inr] Inr show ?thesis by (auto intro: degraded_honest)
qed

definition sample_body :: "string \<Rightarrow> TaskWaitBody" where
  "sample_body final =
     \<lparr>body_task = \<lparr>header_agent_id = ''a'', header_status = ''completed''\<rparr>, body_pending = [], body_activity = task_activity_view None,
      body_result = Some \<lparr>page_outcome = TaskOutcome.Completed, page_text = final, page_partial = False, page_offset = 0,
        page_total_bytes = length final, page_next_offset = None, page_reason_code = None, page_failure_message = None\<rparr>,
      body_timed_out = False, body_receipt = None\<rparr>"

theorem wait_body_bounded_witness:
  "\<exists>b'. bound_wait_body printing_codec (\<lambda>b. page_length b \<le> 4) (sample_body ''done now'') = Inr b'
     \<and> page_length b' \<le> 4 \<and> degraded (sample_body ''done now'') b' \<and> honest_body b'"
proof -
  let ?fits = "\<lambda>b. page_length b \<le> 4"
  have "\<not> Option.is_none (shrunk_result_page (sample_body ''done now'') ?fits)
      \<and> isl (bound_wait_body printing_codec ?fits (sample_body ''done now'')) = False"
    by code_simp
  moreover have "honest_body (sample_body ''done now'')" by (simp add: honest_body_def honest_page_def sample_body_def)
  ultimately show ?thesis
    using wait_body_bounded [of printing_codec ?fits "sample_body ''done now''"]
    by (cases "bound_wait_body printing_codec ?fits (sample_body ''done now'')") simp_all
qed

lemma longest_page_best:
  "longest_page k best found bs = found' \<Longrightarrow> (\<forall>e\<in>set bs. page_length (snd e) \<le> best) \<and> found' = found
     \<or> (\<exists>j < length bs. found' = Some (k + j) \<and> (\<forall>e\<in>set bs. page_length (snd e) \<le> page_length (snd (bs ! j)))
          \<and> best < page_length (snd (bs ! j)))"
proof (induction k best found bs arbitrary: found' rule: longest_page.induct)
  case (2 k best found i b bs)
  show ?case
  proof (cases "best < page_length b")
    case True
    with "2.prems" have "longest_page (Suc k) (page_length b) (Some k) bs = found'" by simp
    from "2.IH"(1) [OF True this] show ?thesis
    proof (elim disjE exE conjE)
      fix j
      assume "j < length bs" "found' = Some (Suc k + j)" "\<forall>e\<in>set bs. page_length (snd e) \<le> page_length (snd (bs ! j))"
        "page_length b < page_length (snd (bs ! j))"
      with True show ?thesis by (intro disjI2 exI [of _ "Suc j"]) auto
    qed (use True in \<open>auto intro!: exI [of _ 0]\<close>)
  next
    case False
    with "2.prems" have "longest_page (Suc k) best found bs = found'" by simp
    from "2.IH"(2) [OF False this] show ?thesis
    proof (elim disjE exE conjE)
      fix j
      assume "j < length bs" "found' = Some (Suc k + j)" "\<forall>e\<in>set bs. page_length (snd e) \<le> page_length (snd (bs ! j))"
        "best < page_length (snd (bs ! j))"
      with False show ?thesis by (intro disjI2 exI [of _ "Suc j"]) auto
    qed (use False in auto)
  qed
qed simp

lemma halve_pages_exhausted:
  "\<not> fits (halve_pages fits bs) \<Longrightarrow> e \<in> set (halve_pages fits bs) \<Longrightarrow> page_length (snd e) \<le> 1"
proof (induction fits bs arbitrary: e rule: halve_pages.induct)
  case (1 fits bs)
  from "1.prems" have nf: "\<not> fits bs" by (auto simp: halve_pages.simps [of fits bs] split: if_splits)
  consider "longest_page 0 0 None bs = None"
    | k where "longest_page 0 0 None bs = Some k" "page_length (snd (bs ! k)) \<le> 1"
    | k where "longest_page 0 0 None bs = Some k" "\<not> page_length (snd (bs ! k)) \<le> 1"
    by (cases "longest_page 0 0 None bs") auto
  then show ?case
  proof cases
    case 1
    with nf have "halve_pages fits bs = bs" by (simp add: halve_pages.simps [of fits bs])
    with longest_page_best [OF 1] "1.prems"(2) show ?thesis by fastforce
  next
    case 2
    with nf have "halve_pages fits bs = bs" by (simp add: halve_pages.simps [of fits bs])
    with longest_page_best [OF 2(1)] 2(2) "1.prems"(2) show ?thesis by fastforce
  next
    case 3
    with nf have eq: "halve_pages fits bs = halve_pages fits (replace_body k (halve_body (snd (bs ! k))) bs)"
      by (simp add: halve_pages.simps [of fits bs])
    show ?thesis by (rule "1.IH" [OF nf 3]) (use "1.prems" in \<open>simp_all add: eq\<close>)
  qed
qed

lemma bound_bodies_exhausted:
  assumes "\<not> fits (bound_bodies codec fits bs)" "e \<in> set (bound_bodies codec fits bs)"
  shows "page_length (snd e) \<le> 1"
  using assms halve_pages_exhausted unfolding bound_bodies_def Let_def by (auto split: if_splits)

lemma degraded_bodies_honest:
  "degraded_bodies bs bs' \<Longrightarrow> list_all (honest_body \<circ> snd) bs \<Longrightarrow> list_all (honest_body \<circ> snd) bs'"
  unfolding degraded_bodies_def by (induction bs bs' rule: list_all2_induct) (auto intro: degraded_honest)

text \<open>
  The response of a wait for several tasks is cut to the frame without losing a task. The bodies keep
  their ids and their order, each is a degraded form of the body it came from, pages that were honest stay
  so, and the map of problematic ids is not touched. The response is offered as fitting only when it does;
  otherwise no page of it has more than one byte left to give.
\<close>

theorem wait_bodies_bounded:
  assumes "bound_wait_many_result codec m = (m', ok)"
  shows "degraded_bodies (many_bodies m) (many_bodies m') \<and> many_error m' = many_error m
    \<and> (list_all (honest_body \<circ> snd) (many_bodies m) \<longrightarrow> list_all (honest_body \<circ> snd) (many_bodies m'))
    \<and> (if ok then wait_many_envelope_fits codec m' else list_all (\<lambda>e. page_length (snd e) \<le> 1) (many_bodies m'))"
proof -
  let ?fits = "\<lambda>bs. wait_many_envelope_fits codec (m\<lparr>many_bodies := bs\<rparr>)"
  let ?bs = "bound_bodies codec ?fits (many_bodies m)"
  have m': "m' = m\<lparr>many_bodies := ?bs\<rparr>" "ok = ?fits ?bs"
    using assms by (auto simp: bound_wait_many_result_def Let_def)
  have "degraded_bodies (many_bodies m) ?bs" by (rule degraded_bound_bodies)
  moreover have "list_all (\<lambda>e. page_length (snd e) \<le> 1) ?bs" if "\<not> ?fits ?bs"
    using bound_bodies_exhausted [of ?fits codec "many_bodies m"] that by (simp add: list_all_iff)
  ultimately show ?thesis unfolding m' by (auto dest: degraded_bodies_honest)
qed

lemma envelope_small:
  assumes "json_size (success_envelope (replicate MAX_REQUEST_ID_BYTES (CHR 0x01)) kind members) < 10000"
  shows "envelope_fits printing_codec kind members"
  using length_print_json [of "success_envelope (replicate MAX_REQUEST_ID_BYTES (CHR 0x01)) kind members"] assms
  by (simp add: envelope_fits_def printing_codec_def saturating_add_usize_def MAX_RESPONSE_FRAME_BYTES_def)

definition sample_many :: TaskWaitManyBody where
  "sample_many = \<lparr>many_bodies = [(''a'', sample_body ''one''), (''b'', sample_body ''two'')], many_error = [(''c'', ''unknown_agent'')]\<rparr>"

theorem wait_bodies_bounded_witness:
  "case bound_wait_many_result printing_codec sample_many of
     (m', ok) \<Rightarrow> ok \<and> wait_many_envelope_fits printing_codec m'
       \<and> degraded_bodies (many_bodies sample_many) (many_bodies m') \<and> many_error m' = [(''c'', ''unknown_agent'')]"
proof -
  obtain m' ok where r: "bound_wait_many_result printing_codec sample_many = (m', ok)" by (rule prod.exhaust)
  have "wait_many_envelope_fits printing_codec sample_many"
    unfolding wait_many_envelope_fits_def
    by (rule envelope_small)
      (simp add: sample_many_def sample_body_def success_envelope_def wait_many_json_def wait_body_json_def activity_json_def
        task_activity_view_def result_json_def opt_json_def nullable_def nat_json_def MAX_REQUEST_ID_BYTES_def TaskOutcome_as_str.simps to_decimal.simps)
  then have ok using r by (auto simp: bound_wait_many_result_def bound_bodies_def Let_def)
  with wait_bodies_bounded [OF r] r show ?thesis by (simp add: sample_many_def)
qed

end
