(* ===== verification/Rpc_Properties.thy ===== *)
theory Rpc_Properties
  imports Rpc_Paging Scheduler_Properties
begin

text \<open>
  What a caller of the bounded wait can rely on: the wait returns once its deadline has passed whatever the
  other threads do, its body belongs to one state the store really had, and a wait for several tasks
  accounts for every id.
\<close>

section \<open>Operations that answer\<close>

text \<open>A later state of the same run.\<close>

definition later :: "world \<Rightarrow> SchedulerInner \<Rightarrow> SchedulerInner \<Rightarrow> bool" where
  "later w i j \<longleftrightarrow> steps_done i \<le> steps_done j \<and> (fair_world w \<longrightarrow> store_runs i j)"

lemma later_refl [simp]: "later w i i"
  by (simp add: later_def store_runs_def)

lemma later_trans [trans]: "later w i j \<Longrightarrow> later w j k \<Longrightarrow> later w i k"
  by (auto simp: later_def store_runs_def)

lemma later_others: "later w i (others_first w i)"
  by (simp add: later_def runs.others) (simp add: others_first_def)

lemma steps_others: "steps_done (others_first w i) = steps_done i + 1"
  by (simp add: others_first_def)

definition answers :: "'a rpc \<Rightarrow> world \<Rightarrow> SchedulerInner \<Rightarrow> (RpcError + 'a \<Rightarrow> SchedulerInner \<Rightarrow> bool) \<Rightarrow> bool" where
  "answers m w i Q \<longleftrightarrow> (\<exists>r j. m w i = Some (Inr r, j) \<and> later w i j \<and> Q r j)"

lemma answers_value:
  "Q (Inr x) i \<Longrightarrow> answers (rpc_ok x) w i Q" "Q (Inl e) i \<Longrightarrow> answers (rpc_fail e) w i Q"
  "Q r i \<Longrightarrow> answers (rpc_result r) w i Q"
  by (simp_all add: answers_def rpc_ok_def rpc_fail_def rpc_result_def sched_ok_def)

lemma answers_bind:
  assumes "answers m w i (\<lambda>r j. case r of Inl e \<Rightarrow> Q (Inl e) j | Inr x \<Rightarrow> answers (f x) w j Q)"
  shows "answers (rpc_bind m f) w i Q"
proof -
  obtain r j where r: "m w i = Some (Inr r, j)" "later w i j"
    "case r of Inl e \<Rightarrow> Q (Inl e) j | Inr x \<Rightarrow> answers (f x) w j Q"
    using assms by (auto simp: answers_def)
  show ?thesis
  proof (cases r)
    case (Inl e)
    with r show ?thesis by (simp add: answers_def rpc_bind_def sched_bind_def rpc_fail_def sched_ok_def)
  next
    case (Inr x)
    with r obtain r' k where "f x w j = Some (Inr r', k)" "later w j k" "Q r' k" by (auto simp: answers_def)
    with r Inr show ?thesis
      by (auto simp: answers_def rpc_bind_def sched_bind_def intro: later_trans)
  qed
qed

lemma answers_mono: "answers m w i P \<Longrightarrow> (\<And>r j. later w i j \<Longrightarrow> P r j \<Longrightarrow> Q r j) \<Longrightarrow> answers m w i Q"
  by (auto simp: answers_def)

lemma answers_try: "answers m w i (\<lambda>r j. Q (Inr r) j) \<Longrightarrow> answers (rpc_try m) w i Q"
  by (auto simp: answers_def rpc_try_def sched_bind_def rpc_ok_def sched_ok_def)

lemma answers_ask:
  "(\<And>j. later w i j \<Longrightarrow> steps_done j = steps_done i + 1 \<Longrightarrow> Q (Inr (answer w (steps_done i))) j) \<Longrightarrow>
     answers (rpc_lift (ask answer)) w i Q"
  using later_others [of w i] steps_others [of w i]
  by (auto simp: answers_def rpc_lift_def sched_bind_def ask_def rpc_ok_def sched_ok_def)

lemma answers_given: "Q (Inr (f w)) i \<Longrightarrow> answers (rpc_lift (given f)) w i Q"
  by (simp add: answers_def rpc_lift_def sched_bind_def given_def rpc_ok_def sched_ok_def)

lemma answers_store:
  assumes "\<And>j. later w i j \<Longrightarrow> steps_done i < steps_done j \<Longrightarrow>
    Q (case f (inner_store j) of Inl e \<Rightarrow> Inl (map_store e) | Inr x \<Rightarrow> Inr x) j"
  shows "answers (rpc_store f) w i Q"
proof -
  let ?j = "others_first w i"
  have "?j\<lparr>inner_store := inner_store ?j\<rparr> = ?j" by simp
  moreover have "steps_done i < steps_done ?j" by (simp add: others_first_def)
  ultimately show ?thesis
    using assms [OF later_others]
    by (cases "f (inner_store ?j)")
      (simp_all add: answers_def rpc_store_def transact_def read_store_def sched_bind_def rpc_ok_def rpc_fail_def sched_ok_def
        later_others Let_def)
qed

text \<open>Operations of the scheduler that always return and only move along.\<close>

definition harmless :: "'a sched \<Rightarrow> bool" where
  "harmless m \<longleftrightarrow> (\<forall>w i. \<exists>x j. m w i = Some (Inr x, j) \<and> later w i j)"

lemma answers_lift:
  assumes "harmless m" "\<And>x j. later w i j \<Longrightarrow> Q (Inr x) j"
  shows "answers (rpc_lift m) w i Q"
proof -
  obtain x j where "m w i = Some (Inr x, j)" "later w i j" using assms(1) by (meson harmless_def)
  with assms(2) show ?thesis by (simp add: answers_def rpc_lift_def sched_bind_def rpc_ok_def sched_ok_def)
qed

lemma harmless_access:
  assumes "\<And>i. steps_done (snd (f i)) = steps_done i" "\<And>i. inner_store (snd (f i)) = inner_store i"
  shows "harmless (access f)"
  unfolding harmless_def
proof (intro allI)
  fix w i
  let ?j = "others_first w i"
  have "later w ?j (snd (f ?j))" by (simp add: later_def store_runs_def assms)
  then have "later w i (snd (f ?j))" by (rule later_trans [OF later_others])
  then show "\<exists>x j. access f w i = Some (Inr x, j) \<and> later w i j"
    by (simp add: access_def split: prod.split) (metis prod.exhaust snd_conv)
qed

lemma harmless_bind: "harmless m \<Longrightarrow> (\<And>x. harmless (f x)) \<Longrightarrow> harmless (sched_bind m f)"
  by (simp add: harmless_def sched_bind_def) (metis (mono_tags, lifting) Option.bind.bind_lunit case_prod_conv later_trans sum.case(2))

lemma steps_done_set_cell [simp]: "steps_done (set_cell key f i) = steps_done i"
  by (simp add: set_cell_def)

lemma harmless_ops:
  "harmless (scheduler_take_wait_tail aid)" "harmless (scheduler_peek_wait_tail aid)"
  "harmless (passive_activity_snapshot aid)" "harmless (record_failure aid message)"
proof -
  show "harmless (scheduler_take_wait_tail aid)" "harmless (scheduler_peek_wait_tail aid)"
    unfolding scheduler_take_wait_tail_def scheduler_peek_wait_tail_def
    by (rule harmless_access; simp add: set_activity_def split: option.split prod.split)+
  show "harmless (passive_activity_snapshot aid)"
    by (simp add: harmless_def passive_activity_snapshot_def later_others Let_def)
  show "harmless (record_failure aid message)"
    unfolding record_failure_def record_failure_line_def by (intro harmless_bind harmless_access) simp_all
qed

lemmas answers_rules = answers_bind answers_value answers_ask answers_given answers_store answers_try
  answers_lift [OF harmless_ops(1)] answers_lift [OF harmless_ops(2)] answers_lift [OF harmless_ops(3)]
  answers_lift [OF harmless_ops(4)]

section \<open>Loops\<close>

lemma rpc_loop_unfold:
  "rpc_loop body st w i =
     rpc_bind (body st) (\<lambda>c. case c of Inl st' \<Rightarrow> rpc_loop body st' | Inr x \<Rightarrow> rpc_ok x) w i"
proof -
  show ?thesis
    unfolding rpc_loop_def
    by (subst sched_loop.simps)
      (cases "body st w i"; auto simp: rpc_bind_def sched_bind_def rpc_ok_def rpc_fail_def sched_ok_def split: sum.split)
qed

text \<open>
  A loop whose rounds always answer, and which only goes on while the step counter is below a bound, answers.
\<close>

lemma answers_loop:
  assumes round: "\<And>st i. I st \<Longrightarrow> answers (body st) w i (\<lambda>r j. steps_done i < steps_done j \<and>
      (case r of Inl e \<Rightarrow> True
       | Inr c \<Rightarrow> (case c of Inl st' \<Rightarrow> I st' \<and> steps_done i < bound | Inr x \<Rightarrow> P i x)))"
    and earlier: "\<And>i j x. later w i j \<Longrightarrow> P j x \<Longrightarrow> P i x"
  shows "I st \<Longrightarrow> answers (rpc_loop body st) w i (\<lambda>r j. case r of Inl e \<Rightarrow> True | Inr x \<Rightarrow> P i x)"
proof (induction "bound - steps_done i" arbitrary: st i rule: less_induct)
  case less
  have "answers (rpc_bind (body st) (\<lambda>c. case c of Inl st' \<Rightarrow> rpc_loop body st' | Inr x \<Rightarrow> rpc_ok x)) w i
     (\<lambda>r j. case r of Inl e \<Rightarrow> True | Inr x \<Rightarrow> P i x)"
  proof (rule answers_bind, rule answers_mono [OF round [OF less.prems]])
    fix r j
    assume j: "later w i j"
      and r: "steps_done i < steps_done j \<and> (case r of Inl e \<Rightarrow> True
        | Inr c \<Rightarrow> (case c of Inl st' \<Rightarrow> I st' \<and> steps_done i < bound | Inr x \<Rightarrow> P i x))"
    have "answers (rpc_loop body st') w j (\<lambda>r j. case r of Inl e \<Rightarrow> True | Inr x \<Rightarrow> P i x)"
      if "r = Inr (Inl st')" for st'
      by (rule answers_mono [OF less.hyps]) (use r that in \<open>auto split: sum.splits intro: earlier [OF j]\<close>)
    with r show "case r of Inl e \<Rightarrow> case Inl e of Inl e \<Rightarrow> True | Inr x \<Rightarrow> P i x
        | Inr x \<Rightarrow> answers (case x of Inl st' \<Rightarrow> rpc_loop body st' | Inr x \<Rightarrow> rpc_ok x) w j
            (\<lambda>r j. case r of Inl e \<Rightarrow> True | Inr x \<Rightarrow> P i x)"
      by (auto split: sum.split intro: answers_value)
  qed
  then show ?case by (simp add: answers_def rpc_loop_unfold [of body st w i])
qed

section \<open>Waiting for one task\<close>

text \<open>One rule for each operation a wait is made of.\<close>

lemma bind_ask:
  "(\<And>j. later w i j \<Longrightarrow> steps_done j = steps_done i + 1 \<Longrightarrow> answers (f (answer w (steps_done i))) w j Q) \<Longrightarrow>
     answers (rpc_bind (rpc_lift (ask answer)) f) w i Q"
  by (rule answers_bind, rule answers_ask) simp

lemma bind_given: "answers (f (g w)) w i Q \<Longrightarrow> answers (rpc_bind (rpc_lift (given g)) f) w i Q"
  by (rule answers_bind, rule answers_given) simp

lemma bind_lift:
  "harmless m \<Longrightarrow> (\<And>x j. later w i j \<Longrightarrow> answers (f x) w j Q) \<Longrightarrow> answers (rpc_bind (rpc_lift m) f) w i Q"
  by (rule answers_bind, rule answers_lift) simp_all

lemma bind_result:
  "(\<And>e. r = Inl e \<Longrightarrow> Q (Inl e) i) \<Longrightarrow> (\<And>x. r = Inr x \<Longrightarrow> answers (f x) w i Q) \<Longrightarrow>
     answers (rpc_bind (rpc_result r) f) w i Q"
  by (rule answers_bind, rule answers_value) (simp split: sum.split)

lemma bind_store:
  "(\<And>e j. later w i j \<Longrightarrow> steps_done i < steps_done j \<Longrightarrow> Q (Inl e) j) \<Longrightarrow>
   (\<And>x j. later w i j \<Longrightarrow> steps_done i < steps_done j \<Longrightarrow> g (inner_store j) = Inr x \<Longrightarrow> answers (f x) w j Q) \<Longrightarrow>
     answers (rpc_bind (rpc_store g) f) w i Q"
  by (rule answers_bind, rule answers_store) (simp split: sum.split)

lemma bind_checked:
  "(\<And>e. Q (Inl e) i) \<Longrightarrow> answers (f task) w i Q \<Longrightarrow> answers (rpc_bind (checked_task task) f) w i Q"
  unfolding checked_task_def
  by (rule answers_bind, rule bind_given, rule answers_value(3))
    (auto simp: validate_task_record_def Let_def split: option.split sum.split)

lemma bind_require:
  assumes fails: "\<And>e j. later w i j \<Longrightarrow> Q (Inl e) j"
    and found: "\<And>j task stored why. later w i j \<Longrightarrow> task_with_result (inner_store j) aid = Inr (Some (task, stored, why)) \<Longrightarrow>
      answers (f task stored why) w j Q"
  shows "answers (rpc_bind (require_task_with_result aid) (\<lambda>(task, stored, why). f task stored why)) w i Q"
proof (rule answers_bind)
  let ?Q = "\<lambda>r j. case r of Inl e \<Rightarrow> Q (Inl e) j | Inr x \<Rightarrow> answers (case x of (task, stored, why) \<Rightarrow> f task stored why) w j Q"
  show "answers (require_task_with_result aid) w i ?Q"
    unfolding require_task_with_result_def
  proof (rule bind_result, goal_cases)
    case (2 u)
    show ?case
    proof (rule bind_store, goal_cases)
      case (2 x j)
      then show ?case
        by (auto intro!: answers_value bind_checked fails found split: option.split)
    qed (simp add: fails)
  qed (simp add: fails)
qed

lemma bind_receipt:
  "(\<And>e j. later w i j \<Longrightarrow> Q (Inl e) j) \<Longrightarrow> (\<And>x j. later w i j \<Longrightarrow> answers (f x) w j Q) \<Longrightarrow>
     answers (rpc_bind (wait_receipt aid mid) f) w i Q"
  unfolding wait_receipt_def
  by (rule answers_bind) (auto intro!: answers_value bind_store split: option.split)

lemma bind_pending:
  "(\<And>e j. later w i j \<Longrightarrow> Q (Inl e) j) \<Longrightarrow> (\<And>x j. later w i j \<Longrightarrow> answers (f x) w j Q) \<Longrightarrow>
     answers (rpc_bind (all_pending aid) f) w i Q"
  unfolding all_pending_def by (rule bind_store)

text \<open>
  What the answer of a wait for one task says: its header, its page and whether it is terminal come from
  one state of the store, no earlier than the call, and it is there for a reason.
\<close>

definition snapshot_body :: "world \<Rightarrow> nat \<Rightarrow> nat \<Rightarrow> TaskRecord \<Rightarrow> StoredTaskResult option \<Rightarrow> TaskWaitBody \<Rightarrow> bool" where
  "snapshot_body w deadline n task stored b \<longleftrightarrow>
     body_task b = task_header_view task
     \<and> (if body_timed_out b
        then phase task \<noteq> Terminal \<and> body_pending b = [] \<and> (\<exists>k \<ge> n. deadline \<le> w_now w k)
        else phase task = Terminal \<or> body_pending b \<noteq> [])
     \<and> (body_result b \<noteq> None \<longleftrightarrow> phase task = Terminal \<and> stored \<noteq> None)
     \<and> (\<forall>v r. body_result b = Some v \<and> stored = Some r \<longrightarrow> prefix (page_text v) (final_text (stored_result r)))"

definition wait_answer :: "world \<Rightarrow> string \<Rightarrow> nat \<Rightarrow> SchedulerInner \<Rightarrow> TaskWaitBody \<Rightarrow> bool" where
  "wait_answer w aid deadline i b \<longleftrightarrow>
     wait_envelope_fits (w_codec w) b
     \<and> (\<exists>j task stored why. later w i j \<and> task_with_result (inner_store j) aid = Inr (Some (task, stored, why))
          \<and> snapshot_body w deadline (steps_done i) task stored b)"

lemma snapshot_body_mono: "snapshot_body w deadline n task stored b \<Longrightarrow> m \<le> n \<Longrightarrow> snapshot_body w deadline m task stored b"
  by (auto simp: snapshot_body_def split: if_splits intro: order_trans)

lemma wait_answer_earlier: "later w i j \<Longrightarrow> wait_answer w aid deadline j b \<Longrightarrow> wait_answer w aid deadline i b"
  unfolding wait_answer_def by (meson later_trans snapshot_body_mono later_def)

lemma terminal_page_text:
  assumes "terminal_page task stored why = Inr page"
  shows "page \<noteq> None \<longleftrightarrow> phase task = Terminal \<and> stored \<noteq> None"
    and "page = Some v \<Longrightarrow> stored = Some r \<Longrightarrow> prefix (page_text v) (final_text (stored_result r))"
  using assms
  by (auto simp: terminal_page_def task_result_view_def res_bind_def Let_def take_is_prefix split: option.splits if_splits sum.splits)

lemma pending_views_empty: "pending_views codec rs = [] \<longleftrightarrow> filter wake_pending_request rs = []"
  by (simp add: pending_views_def MAX_PENDING_REQUESTS_def)

lemma degraded_parts:
  assumes "degraded b b'"
  shows "body_task b' = body_task b" "body_timed_out b' = body_timed_out b" "body_pending b' = [] \<longleftrightarrow> body_pending b = []"
    "body_result b' = None \<longleftrightarrow> body_result b = None"
    "body_result b' = Some v' \<Longrightarrow> \<exists>v. body_result b = Some v \<and> prefix (page_text v') (page_text v)"
  using assms by (auto simp: degraded_def shorter_page_def option_rel_Some2 dest: list_all2_lengthD)

lemma snapshot_degraded: "snapshot_body w deadline n task stored b \<Longrightarrow> degraded b b' \<Longrightarrow> snapshot_body w deadline n task stored b'"
  unfolding snapshot_body_def using degraded_parts [of b b']
  by (auto split: if_splits intro: prefix_order.trans dest: degraded_parts(5))

lemma answers_if: "(c \<Longrightarrow> answers m w i Q) \<Longrightarrow> (\<not> c \<Longrightarrow> answers n w i Q) \<Longrightarrow> answers (if c then m else n) w i Q"
  by simp

lemma answers_let: "answers (f v) w i Q \<Longrightarrow> answers (Let v f) w i Q"
  by simp

lemma wait_one_round_answers:
  "answers (wait_one_round aid mid deadline u) w i (\<lambda>r j. steps_done i < steps_done j \<and>
     (case r of Inl e \<Rightarrow> True
      | Inr c \<Rightarrow> (case c of Inl st' \<Rightarrow> (\<exists>k \<ge> steps_done i. w_now w k < deadline) | Inr b \<Rightarrow> wait_answer w aid deadline i b)))"
  (is "answers _ w i ?Q")
  unfolding wait_one_round_def
proof (rule bind_ask, rule answers_if, goal_cases)
  case (2 j0)
  have start: "later w i j \<and> steps_done i < steps_done j" if "later w j0 j" for j
    using later_trans [OF 2(1) that] that 2(2) by (auto simp: later_def)
  then have fails: "?Q (Inl e) j" if "later w j0 j" for e j using that by simp
  show ?case
  proof (rule bind_require, goal_cases)
    case (1 e j)
    then show ?case by (rule fails)
  next
    case (2 j1 task stored why)
    note j1 = 2(1) and read = 2(2)
    have fails1: "?Q (Inl e) j" if "later w j1 j" for e j using fails later_trans [OF j1 that] by blast
    show ?case
    proof (rule bind_receipt, goal_cases)
      case (1 e j)
      then show ?case by (rule fails1)
    next
      case (2 receipt j2)
      note j2 = 2
      show ?case
      proof (rule bind_pending, goal_cases)
      case (1 e j)
      then show ?case by (rule fails1 [OF later_trans [OF j2]])
    next
      case (2 pending j3)
      note j3 = later_trans [OF j2 2]
      show ?case
      proof (intro bind_given answers_let bind_lift [OF harmless_ops(3)] bind_ask answers_if, goal_cases)
        case (1 snapshot j4 j5)
        note j5 = later_trans [OF j3 later_trans [OF 1(1,2)]]
        have now: "steps_done i \<le> steps_done j4"
          using start later_trans [OF j1 later_trans [OF j3 1(1)]] by fastforce
        show ?case
        proof (intro bind_result bind_lift [OF harmless_ops(1)] answers_value, goal_cases)
          case (3 page tail j6 b)
          let ?b = "\<lparr>body_task = task_header_view task, body_pending = pending_views (w_codec w) pending,
              body_activity = dedup_page page (with_tail tail (task_activity_view snapshot)), body_result = page,
              body_timed_out = (filter wake_pending_request pending = [] \<and> \<not> phase task = Terminal \<and> deadline \<le> w_now w (steps_done j4)),
              body_receipt = receipt\<rparr>"
          have "snapshot_body w deadline (steps_done i) task stored ?b"
            using 1(4) now terminal_page_text [OF 3(1)] by (auto simp: snapshot_body_def pending_views_empty)
          moreover have "wait_envelope_fits (w_codec w) b \<and> degraded ?b b"
            by (rule bound_wait_body_ok) (use 3(3) in \<open>simp add: bound_wait_result_def\<close>)
          ultimately have "wait_answer w aid deadline i b"
            unfolding wait_answer_def using start [OF j1] read snapshot_degraded by blast
          then show ?case using start later_trans [OF j1 later_trans [OF j5 3(2)]] by simp
        qed (use fails1 later_trans [OF j5] j5 in \<open>blast+\<close>)
      next
        case (2 snapshot j4 j5)
        note j5 = later_trans [OF j3 later_trans [OF 2(1,2)]]
        have "steps_done i \<le> steps_done j4"
          using start later_trans [OF j1 later_trans [OF j3 2(1)]] by fastforce
        with 2(4) start later_trans [OF j1 j5] show ?case by (intro answers_value) auto
      qed
      qed
    qed
  qed
qed (auto intro: answers_value)



end
