(* ===== verification/Rpc_Wait_Many.thy ===== *)
theory Rpc_Wait_Many
  imports Rpc_Properties
begin

text \<open>
  The wait for several tasks returns, and accounts for every id of the call: a body for each id that names a
  task, in the order of the call, and an entry in the map of problematic ids for the others.
\<close>

section \<open>The map of problematic ids\<close>

lemma set_repeated: "set (repeated seen is) = {i \<in> set is. i \<in> set seen \<or> 1 < count_list is i}"
proof (induction "is" arbitrary: seen)
  case (Cons i "is")
  have "0 < count_list is x \<longleftrightarrow> x \<in> set is" for x by (simp add: count_list_0_iff flip: neq0_conv)
  then show ?case by (auto simp: Cons)
qed simp

lemma distinct_ids_simps [simp]: "set (distinct_ids is) = set is" "distinct (distinct_ids is)"
  by (simp_all add: distinct_ids_def)

lemma wait_errors_unknown: "(i, ''unknown_agent'') \<in> set (wait_errors duplicated unknown) \<longleftrightarrow> i \<in> set unknown"
  by (auto simp: wait_errors_def split: if_splits)

lemma wait_errors_duplicated:
  "(i, ''duplicated'') \<in> set (wait_errors duplicated unknown) \<longleftrightarrow> i \<in> set duplicated \<and> i \<notin> set unknown"
  by (auto simp: wait_errors_def split: if_splits)

lemma wait_errors_distinct: "distinct (map fst (wait_errors duplicated unknown))"
  by (simp add: wait_errors_def comp_def)

section \<open>Every operation answers\<close>

lemma answers_lift_bind_ok: "answers m w i P \<Longrightarrow> (\<And>e j. later w i j \<Longrightarrow> P (Inl e) j \<Longrightarrow> Q (Inl e) j) \<Longrightarrow>
    (\<And>x j. later w i j \<Longrightarrow> P (Inr x) j \<Longrightarrow> answers (f x) w j Q) \<Longrightarrow> answers (rpc_bind m f) w i Q"
  by (rule answers_bind, erule answers_mono) (auto split: sum.split)

lemma wait_body_answers:
  "answers (wait_body aid force) w i (\<lambda>r j. force \<longrightarrow> r \<noteq> Inr None)"
  unfolding wait_body_def
proof (rule bind_require, goal_cases)
  case (2 j1 task stored why)
  show ?case
    by (intro bind_pending bind_given answers_let bind_lift [OF harmless_ops(3)] answers_if bind_result
        bind_lift [OF harmless_ops(2)] answers_value) simp_all
qed simp

lemma scan_slot_answers: "answers (scan_slot aid slot) w i (\<lambda>r j. True)"
proof (cases slot)
  case None
  show ?thesis
    unfolding scan_slot_def None option.case
    by (rule answers_lift_bind_ok [where P = "\<lambda>_ _. True"], rule answers_try, rule answers_mono [OF wait_body_answers])
      (auto intro!: answers_value split: sum.split option.split prod.split)
next
  case (Some entry)
  consider b cached where "entry = (b, True, cached)" | b cached where "entry = (b, False, cached)"
    by (metis (full_types) prod.exhaust)
  then show ?thesis
  proof cases
    case 1
    show ?thesis
      unfolding scan_slot_def Some 1 option.case prod.case bool.case
      by (rule bind_store) (auto intro!: answers_value bind_lift [OF harmless_ops(4)] split: option.split)
  qed (simp add: scan_slot_def Some answers_value)
qed

definition scanned :: "wait_slots \<Rightarrow> string list \<Rightarrow> RpcError + (wait_slots \<times> string list \<times> bool \<times> bool) \<Rightarrow> bool" where
  "scanned slots unknown r \<longleftrightarrow>
     (case r of Inl e \<Rightarrow> True
      | Inr (slots', unknown', _, _) \<Rightarrow>
          map fst slots' = map fst slots \<and> set unknown' \<subseteq> set unknown \<union> fst ` set slots)"

lemma scan_slots_answers: "answers (scan_slots slots unknown) w i (\<lambda>r j. scanned slots unknown r)"
proof (induction slots unknown arbitrary: i rule: scan_slots.induct)
  case (1 unknown)
  then show ?case by (auto intro!: answers_value simp: scanned_def)
next
  case (2 aid slot slots unknown)
  show ?case
  proof (cases "aid \<in> set unknown")
    case True
    then show ?thesis
      by (simp, intro answers_lift_bind_ok [OF "2.IH"(1)])
        (auto intro!: answers_value simp: scanned_def split: prod.split)
  next
    case False
    show ?thesis
      unfolding scan_slots.simps if_not_P [OF False]
    proof (rule answers_lift_bind_ok [OF scan_slot_answers], simp add: scanned_def, clarify)
      fix slot' gone actionable settled j
      let ?unknown = "if gone then aid # unknown else unknown"
      show "answers (rpc_bind (scan_slots slots ?unknown) (\<lambda>(slots', unknown', actionable', settled').
          rpc_ok ((aid, slot') # slots', unknown', actionable \<or> actionable', settled \<and> settled'))) w j
          (\<lambda>r j. scanned ((aid, slot) # slots) unknown r)"
        by (rule answers_lift_bind_ok [OF "2.IH"(2) [OF False]])
          (auto intro!: answers_value simp: scanned_def split: prod.splits if_splits)
    qed
  qed
qed

lemma project_slots_answers:
  "answers (project_slots slots unknown) w i
     (\<lambda>r j. \<forall>bs. r = Inr bs \<longrightarrow> map fst bs = filter (\<lambda>aid. aid \<notin> set unknown) (map fst slots))"
proof (induction slots unknown arbitrary: i rule: project_slots.induct)
  case (1 unknown)
  then show ?case by (auto intro!: answers_value)
next
  case (2 aid slot slots unknown)
  show ?case
  proof (cases "aid \<in> set unknown")
    case True
    with "2.IH"(1) show ?thesis by simp
  next
    case False
    have body: "answers (case slot of Some (b, ended, _) \<Rightarrow> rpc_ok (b, ended)
        | None \<Rightarrow> rpc_bind (wait_body aid True) (\<lambda>forced. case forced of None \<Rightarrow> sched_panic | Some (b, _, _, _) \<Rightarrow> rpc_ok (b, False)))
        w i (\<lambda>r j. True)"
    proof (cases slot)
      case None
      show ?thesis
        unfolding None option.case
        by (rule answers_lift_bind_ok [OF wait_body_answers]) (auto intro!: answers_value split: option.split)
    qed (auto intro!: answers_value)
    show ?thesis
      unfolding project_slots.simps if_not_P [OF False]
    proof (rule answers_lift_bind_ok [OF body], simp, clarify)
      fix b ended j
      show "answers (rpc_bind (project_slots slots unknown) (\<lambda>bs. rpc_ok ((aid, b, ended) # bs))) w j
         (\<lambda>r j. \<forall>bs. r = Inr bs \<longrightarrow> map fst bs = filter (\<lambda>aid. aid \<notin> set unknown) (map fst ((aid, slot) # slots)))"
        by (rule answers_lift_bind_ok [OF "2.IH"(2) [OF False]]) (auto intro!: answers_value simp: False)
    qed
  qed
qed

lemma commit_tails_answers:
  "answers (commit_tails bs) w i (\<lambda>r j. \<forall>bs'. r = Inr bs' \<longrightarrow> map fst bs' = map fst bs)"
proof (induction bs arbitrary: i rule: commit_tails.induct)
  case (2 aid b bs)
  show ?case
    unfolding commit_tails.simps
    by (rule bind_lift [OF harmless_ops(1)], rule answers_lift_bind_ok [OF "2.IH"]) (auto intro!: answers_value)
qed (auto intro!: answers_value)


section \<open>The loop\<close>

text \<open>Every id of the call is in the response: with a body, or as unknown.\<close>

definition accounts_for :: "string list \<Rightarrow> TaskWaitManyBody \<Rightarrow> bool" where
  "accounts_for is m \<longleftrightarrow>
     (let unknown = {i. (i, ''unknown_agent'') \<in> set (many_error m)} in
      map fst (many_bodies m) = filter (\<lambda>i. i \<notin> unknown) (distinct_ids is) \<and> unknown \<subseteq> set is
      \<and> (\<forall>i. (i, ''duplicated'') \<in> set (many_error m) \<longleftrightarrow> i \<notin> unknown \<and> 1 < count_list is i)
      \<and> distinct (map fst (many_error m)))"

lemma accounts_forI:
  assumes "map fst (many_bodies m) = filter (\<lambda>i. i \<notin> set unknown) (distinct_ids is)" "set unknown \<subseteq> set is"
    and "many_error m = wait_errors (repeated [] is) unknown"
  shows "accounts_for is m"
proof -
  have "1 < count_list is i \<Longrightarrow> i \<in> set is" for i by (metis count_notin not_less_zero)
  with assms show ?thesis
    by (auto simp: accounts_for_def wait_errors_unknown wait_errors_duplicated wait_errors_distinct set_repeated Let_def)
qed

lemma degraded_bodies_ids: "degraded_bodies bs bs' \<Longrightarrow> map fst bs' = map fst bs"
  unfolding degraded_bodies_def by (induction bs bs' rule: list_all2_induct) auto

lemma wait_many_respond_answers:
  assumes "map fst slots = distinct_ids is" "set unknown \<subseteq> set is"
  shows "answers (wait_many_respond is slots unknown expired) w i (\<lambda>r j. \<forall>m. r = Inr m \<longrightarrow> accounts_for is m)"
  unfolding wait_many_respond_def
proof (rule answers_lift_bind_ok [OF project_slots_answers], simp, rule bind_given, goal_cases)
  case (1 projected j)
  let ?m = "\<lparr>many_bodies = mark_timed_out expired projected, many_error = wait_errors (repeated [] is) unknown\<rparr>"
  obtain m fits where bound: "bound_wait_many_result (w_codec w) ?m = (m, fits)" by fastforce
  then have m: "degraded_bodies (mark_timed_out expired projected) (many_bodies m)" "many_error m = wait_errors (repeated [] is) unknown"
    using degraded_bound_bodies by (auto simp: bound_wait_many_result_def Let_def)
  have ids: "map fst (many_bodies m) = filter (\<lambda>i. i \<notin> set unknown) (distinct_ids is)"
    using degraded_bodies_ids [OF m(1)] 1(2) assms(1) by (simp add: mark_timed_out_def comp_def case_prod_beta)
  show ?case
    unfolding bound prod.case
  proof (rule answers_if, goal_cases)
    case 2
    show ?case
      by (rule answers_lift_bind_ok [OF commit_tails_answers])
        (auto intro!: answers_value accounts_forI simp: m ids subsetD [OF assms(2)])
  qed (auto intro!: bind_lift [OF harmless_ops(4)] answers_value)
qed

lemma wait_many_round_answers:
  assumes "map fst (fst st) = distinct_ids is \<and> set (snd st) \<subseteq> set is"
  shows "answers (wait_many_round is deadline st) w i (\<lambda>r j. steps_done i < steps_done j \<and>
     (case r of Inl e \<Rightarrow> True
      | Inr c \<Rightarrow> (case c of
          Inl st' \<Rightarrow> (map fst (fst st') = distinct_ids is \<and> set (snd st') \<subseteq> set is)
            \<and> (\<exists>k \<ge> steps_done i. w_now w k < deadline)
        | Inr m \<Rightarrow> accounts_for is m)))" (is "answers _ w i ?Q")
proof -
  obtain slots unknown where st: "st = (slots, unknown)" by (cases st)
  have ids: "fst ` set slots = set is" using assms unfolding st by (metis distinct_ids_simps(1) fst_conv set_map)
  have ahead: "steps_done i < steps_done j" if "steps_done j0 = steps_done i + 1" "later w j0 j" for j0 j
    using that by (simp add: later_def)
  show ?thesis
    unfolding wait_many_round_def st prod.case
  proof (rule bind_ask, rule answers_if, goal_cases)
    case (1 j0)
    then show ?case by (auto intro!: bind_lift [OF harmless_ops(4)] answers_value intro: ahead)
  next
    case (2 j0)
    note j0 = 2
    show ?case
    proof (rule bind_ask, rule answers_lift_bind_ok [OF scan_slots_answers], goal_cases)
      case (1 j1 e j2)
      then show ?case using ahead [OF j0(2) later_trans] by simp
    next
      case (2 j1 x j2)
      obtain slots' unknown' actionable settled where x: "x = (slots', unknown', actionable, settled)" by (cases x)
      have kept: "map fst slots' = distinct_ids is" "set unknown' \<subseteq> set is"
        using 2(4) assms ids unfolding x st scanned_def by auto
      note j = 2(1,3)
      note past = ahead [OF j0(2) later_trans [OF j]]
      have now: "steps_done i \<le> steps_done j0" using j0(2) by simp
      show ?case
        unfolding x prod.case
      proof (rule answers_if, goal_cases)
        case 1
        show ?case
          by (rule answers_lift_bind_ok [OF wait_many_respond_answers [OF kept]])
            (auto intro!: answers_value ahead [OF j0(2)] dest: later_trans [OF later_trans [OF j]])
      next
        case 2
        with past now kept show ?case by (intro answers_value) auto
      qed
    qed
  qed
qed



end
