(* ===== verification/Agent_Config.thy ===== *)
theory Agent_Config
  imports Rpc_Views
begin

text \<open>
  The persisted configuration of the agents (\<open>external-daemon/src/rpc/config.rs\<close>): the migration of a
  document to the present schema, its checks, and what every accepted configuration guarantees.
\<close>

section \<open>Maps of JSON\<close>

text \<open>
  \<open>serde_json::Map\<close> and \<open>BTreeMap\<close>, as members in the order of their keys: \<open>insert\<close>, \<open>remove\<close> and
  \<open>entry().or_insert\<close>.
\<close>

fun map_insert :: "string \<Rightarrow> 'a \<Rightarrow> (string \<times> 'a) list \<Rightarrow> (string \<times> 'a) list" where
  "map_insert k v [] = [(k, v)]"
| "map_insert k v ((k', v') # ms) =
     (if k = k' then (k, v) # ms
      else if map nat_of_char k < map nat_of_char k' then (k, v) # (k', v') # ms
      else (k', v') # map_insert k v ms)"

definition map_remove :: "string \<Rightarrow> (string \<times> 'a) list \<Rightarrow> (string \<times> 'a) list" where
  "map_remove k ms = filter (\<lambda>m. fst m \<noteq> k) ms"

definition or_insert :: "string \<Rightarrow> 'a \<Rightarrow> (string \<times> 'a) list \<Rightarrow> (string \<times> 'a) list" where
  "or_insert k v ms = (if map_of ms k = None then map_insert k v ms else ms)"

section \<open>Data\<close>

record AgentConfigEntry =
  entry_enabled :: bool
  entry_spawn_supported :: bool
  entry_default_model :: "string option"
  entry_runtime_path :: "string option"
  entry_home :: "string option"
  entry_profile :: "string option"
  entry_version :: "string option"

record AgentConfigSnapshot =
  config_schema_version :: nat
  snapshot_revision :: "64 word"
  default_subagent :: "string option"
  runtime_process_model :: "string option"
  subagents :: "(string \<times> AgentConfigEntry) list"

definition closed_entry :: AgentConfigEntry where
  "closed_entry = \<lparr>entry_enabled = False, entry_spawn_supported = False, entry_default_model = None,
     entry_runtime_path = None, entry_home = None, entry_profile = None, entry_version = None\<rparr>"

definition config_default :: AgentConfigSnapshot where
  "config_default = \<lparr>config_schema_version = 2, snapshot_revision = 0, default_subagent = None, runtime_process_model = None,
     subagents = [(''agy'', closed_entry), (''codex'', closed_entry), (''dsh'', closed_entry), (''zcode'', closed_entry)]\<rparr>"

section \<open>Migration\<close>

definition config_error :: "string \<Rightarrow> RpcError" where
  "config_error message = rpc_error RpcValidation message"

definition runtime_field_ok :: "json_object \<Rightarrow> string \<Rightarrow> bool" where
  "runtime_field_ok entry field \<longleftrightarrow>
     (case map_of entry field of
        None \<Rightarrow> True
      | Some v \<Rightarrow> json_is_null v \<or> (case as_str v of Some s \<Rightarrow> s \<noteq> [] | None \<Rightarrow> False))"

definition has_boolean :: "json_object \<Rightarrow> string \<Rightarrow> bool" where
  "has_boolean entry field \<longleftrightarrow> (case map_of entry field of Some (JBool _) \<Rightarrow> True | _ \<Rightarrow> False)"

definition entry_defaults :: "json_object \<Rightarrow> json_object" where
  "entry_defaults entry =
     or_insert ''default_model'' JNull (or_insert ''spawn_supported'' (JBool False) (or_insert ''enabled'' (JBool False) entry))"

definition model_field_ok :: "json \<Rightarrow> bool" where
  "model_field_ok v \<longleftrightarrow> \<not> (as_str v = Some [] \<or> \<not> json_is_null v \<and> as_str v = None)"

definition normalize_entry :: "string \<Rightarrow> json \<Rightarrow> RpcError + json" where
  "normalize_entry name v =
     (case as_object v of
        None \<Rightarrow> Inl (config_error ''agent config entry must be an object'')
      | Some entry \<Rightarrow>
          if \<not> list_all (runtime_field_ok entry) [''runtime_path'', ''home'', ''profile'', ''version'']
          then Inl (config_error ''agent config runtime fields must be non-empty strings or null'')
          else if name = ''zcode'' \<and> (case map_of entry ''runtime_path'' of Some p \<Rightarrow> \<not> json_is_null p | None \<Rightarrow> False)
          then Inl (config_error ''agent config runtime_path is unsupported for zcode'')
          else
            (let entry' = entry_defaults entry in
             if \<not> has_boolean entry' ''enabled'' \<or> \<not> has_boolean entry' ''spawn_supported''
             then Inl (config_error ''agent config flags must be booleans'')
             else
               (case map_of entry' ''default_model'' of
                  None \<Rightarrow> Inr (JObject entry')
                | Some m \<Rightarrow>
                    if \<not> model_field_ok m then Inl (config_error ''agent config model selection is invalid'')
                    else if name = ''zcode'' \<and> \<not> json_is_null m
                    then Inl (rpc_error RpcModelSelectionUnsupported
                      ''agent config default_model is unsupported for zcode; spawn must carry an explicit provider/model'')
                    else Inr (JObject entry'))))"

definition rename_member :: "string \<Rightarrow> string \<Rightarrow> json_object \<Rightarrow> json_object" where
  "rename_member old new ms = (case map_of ms old of None \<Rightarrow> ms | Some v \<Rightarrow> map_insert new v (map_remove old ms))"

definition fields_match_version :: "json_object \<Rightarrow> bool" where
  "fields_match_version ms \<longleftrightarrow>
     (let legacy = (contains_key ms ''agents'' \<or> contains_key ms ''default_agent'');
          canonical = (contains_key ms ''subagents'' \<or> contains_key ms ''default_subagent'');
          version = Option.bind (map_of ms ''schema_version'') as_u64 in
      \<not> (legacy \<and> canonical \<or> version = Some 1 \<and> canonical \<or> version = Some 2 \<and> legacy))"

definition canonical_members :: "json_object \<Rightarrow> json_object" where
  "canonical_members ms =
     map_insert ''schema_version'' (JNumber (PosInt 2))
       (rename_member ''default_agent'' ''default_subagent'' (rename_member ''agents'' ''subagents'' ms))"

definition normalize_agent_config_value :: "json \<Rightarrow> RpcError + json" where
  "normalize_agent_config_value v =
     (case as_object v of
        None \<Rightarrow> Inl (config_error ''agent config is invalid'')
      | Some ms \<Rightarrow>
          if \<not> pred_option (\<lambda>s. as_u64 s = Some 1 \<or> as_u64 s = Some 2) (map_of ms ''schema_version'')
          then Inl (config_error ''unsupported agent config schema version'')
          else if \<not> fields_match_version ms
          then Inl (config_error ''agent config fields do not match schema version'')
          else
            (let ms' = canonical_members ms in
             case map_of ms' ''subagents'' of
               None \<Rightarrow> Inr (JObject ms')
             | Some agents \<Rightarrow>
                 (case as_object agents of
                    None \<Rightarrow> Inl (config_error ''agent config subagents must be an object'')
                  | Some es \<Rightarrow>
                      res_bind (res_collect (\<lambda>(name, e). res_bind (normalize_entry name e) (\<lambda>e'. Inr (name, e'))) es)
                        (\<lambda>es'. Inr (JObject (map_insert ''subagents'' (JObject es') ms'))))))"

section \<open>Reading\<close>

text \<open>The derived readers: unknown members are refused, a member with a default may be missing.\<close>

definition read_option :: "json_object \<Rightarrow> string \<Rightarrow> string option option" where
  "read_option ms k =
     (case map_of ms k of
        None \<Rightarrow> Some None
      | Some v \<Rightarrow> (case v of JNull \<Rightarrow> Some None | JString s \<Rightarrow> Some (Some s) | _ \<Rightarrow> None))"

definition read_bool :: "json_object \<Rightarrow> string \<Rightarrow> bool option" where
  "read_bool ms k = (case map_of ms k of Some (JBool b) \<Rightarrow> Some b | _ \<Rightarrow> None)"

definition read_unsigned :: "nat \<Rightarrow> json_object \<Rightarrow> string \<Rightarrow> nat option" where
  "read_unsigned limit ms k =
     (case map_of ms k of
        None \<Rightarrow> Some 0
      | Some v \<Rightarrow> (case as_u64 v of Some n \<Rightarrow> if n \<le> limit then Some n else None | None \<Rightarrow> None))"

definition entry_from_value :: "json \<Rightarrow> AgentConfigEntry option" where
  "entry_from_value v =
     Option.bind (as_object v) (\<lambda>ms.
     if \<not> list_all (\<lambda>m. fst m \<in> set [''enabled'', ''spawn_supported'', ''default_model'', ''runtime_path'', ''home'', ''profile'', ''version'']) ms
     then None
     else
       Option.bind (read_bool ms ''enabled'') (\<lambda>enabled.
       Option.bind (read_bool ms ''spawn_supported'') (\<lambda>spawn.
       Option.bind (read_option ms ''default_model'') (\<lambda>model.
       Option.bind (read_option ms ''runtime_path'') (\<lambda>path.
       Option.bind (read_option ms ''home'') (\<lambda>home.
       Option.bind (read_option ms ''profile'') (\<lambda>profile.
       Option.bind (read_option ms ''version'') (\<lambda>version.
       Some \<lparr>entry_enabled = enabled, entry_spawn_supported = spawn, entry_default_model = model,
         entry_runtime_path = path, entry_home = home, entry_profile = profile, entry_version = version\<rparr>))))))))"

definition snapshot_from_value :: "json \<Rightarrow> AgentConfigSnapshot option" where
  "snapshot_from_value v =
     Option.bind (as_object v) (\<lambda>ms.
     if \<not> list_all (\<lambda>m. fst m \<in> set [''schema_version'', ''revision'', ''default_subagent'', ''runtime_process_model'', ''subagents'']) ms
     then None
     else
       Option.bind (read_unsigned u32_max ms ''schema_version'') (\<lambda>schema.
       Option.bind (read_unsigned u64_max ms ''revision'') (\<lambda>rev.
       Option.bind (read_option ms ''default_subagent'') (\<lambda>default.
       Option.bind (read_option ms ''runtime_process_model'') (\<lambda>model.
       Option.bind (case map_of ms ''subagents'' of
           None \<Rightarrow> Some []
         | Some agents \<Rightarrow>
             Option.bind (as_object agents) (opt_collect (\<lambda>(name, e). map_option (Pair name) (entry_from_value e)))) (\<lambda>entries.
       Some \<lparr>config_schema_version = schema, snapshot_revision = of_nat rev, default_subagent = default,
         runtime_process_model = model, subagents = entries\<rparr>))))))"

definition agent_names :: "string list" where
  "agent_names = [''zcode'', ''dsh'', ''codex'', ''agy'']"

text \<open>The checks after reading.\<close>

definition complete_snapshot :: "AgentConfigSnapshot \<Rightarrow> RpcError + AgentConfigSnapshot" where
  "complete_snapshot c =
     (if config_schema_version c \<noteq> 2 then Inl (config_error ''unsupported agent config schema version'')
      else if \<not> pred_option (\<lambda>m. m \<in> set [''auto'', ''detached'', ''attached'']) (runtime_process_model c)
      then Inl (config_error ''agent config runtime_process_model must be one of auto, detached, attached'')
      else if \<not> list_all (\<lambda>e. fst e \<in> set agent_names) (subagents c)
      then Inl (config_error ''agent config contains an unknown agent'')
      else
        (let c' = c\<lparr>subagents := fold (\<lambda>(name, e). or_insert name e) (subagents config_default) (subagents c)\<rparr> in
         if \<not> pred_option (\<lambda>a. map_of (subagents c') a \<noteq> None) (default_subagent c')
         then Inl (rpc_error RpcAgentUnknown ''default_subagent is unknown'')
         else if \<not> pred_option (\<lambda>a. pred_option entry_enabled (map_of (subagents c') a)) (default_subagent c')
         then Inl (rpc_error RpcAgentDisabled ''default_subagent is disabled'')
         else Inr c'))"

definition parse_agent_config_snapshot :: "json_codec \<Rightarrow> string \<Rightarrow> RpcError + AgentConfigSnapshot" where
  "parse_agent_config_snapshot codec bytes =
     (case decoded codec bytes of
        None \<Rightarrow> Inl (config_error ''agent config is invalid'')
      | Some v \<Rightarrow>
          res_bind (normalize_agent_config_value v) (\<lambda>v'.
          res_bind (ok_or (config_error ''agent config is invalid'') (snapshot_from_value v')) complete_snapshot))"

text \<open>The variables of the environment that the service reads, and the reading of a file.\<close>

record service_env =
  env_config :: "path option"
  env_legacy_config :: "path option"
  env_home :: "path option"
  env_xdg_data_home :: "path option"
  env_codex_home :: "string option"
  env_read :: "path \<Rightarrow> io_error + string"

definition configured_path :: "service_env \<Rightarrow> path option" where
  "configured_path env = (case env_config env of Some p \<Rightarrow> Some p | None \<Rightarrow> env_legacy_config env)"

definition read_agent_config_snapshot :: "json_codec \<Rightarrow> service_env \<Rightarrow> RpcError + AgentConfigSnapshot" where
  "read_agent_config_snapshot codec env =
     (case configured_path env of
        None \<Rightarrow> Inr config_default
      | Some p \<Rightarrow>
          (case env_read env p of
             Inl e \<Rightarrow> if e = io_error.NotFound then Inr config_default else Inl (config_error ''agent config is unreadable'')
           | Inr bytes \<Rightarrow> parse_agent_config_snapshot codec bytes))"

section \<open>Laws of maps\<close>

lemma map_of_insert: "map_of (map_insert k v ms) = (map_of ms)(k \<mapsto> v)"
  by (induction k v ms rule: map_insert.induct) auto

lemma keys_insert: "fst ` set (map_insert k v ms) = insert k (fst ` set ms)"
  by (induction k v ms rule: map_insert.induct) auto

lemma set_insert: "set (map_insert k v ms) \<subseteq> insert (k, v) (set ms)"
  by (induction k v ms rule: map_insert.induct) auto

lemma map_of_remove: "map_of (map_remove k ms) = (map_of ms)(k := None)"
  by (induction ms) (auto simp: map_remove_def)

lemma map_of_or_insert: "map_of (or_insert k v ms) k' = (if k' = k \<and> map_of ms k = None then Some v else map_of ms k')"
  by (simp add: or_insert_def map_of_insert)

lemma keys_or_insert: "fst ` set (or_insert k v ms) = insert k (fst ` set ms)"
  by (auto simp: or_insert_def keys_insert map_of_eq_None_iff)

definition map_sorted :: "(string \<times> 'a) list \<Rightarrow> bool" where
  "map_sorted = sorted_wrt (\<lambda>a b. map nat_of_char (fst a) < map nat_of_char (fst b))"

lemma inj_nat_of_char: "inj nat_of_char"
  by (simp add: inj_def nat_of_char_def)

lemma map_sorted_insert: "map_sorted ms \<Longrightarrow> map_sorted (map_insert k v ms)"
proof (induction k v ms rule: map_insert.induct)
  case (2 k v k' v' ms)
  have "map nat_of_char k' < map nat_of_char k" if "k \<noteq> k'" "\<not> map nat_of_char k < map nat_of_char k'"
    using that by (metis inj_map_eq_map inj_nat_of_char not_less_iff_gr_or_eq)
  moreover have "map nat_of_char k' < map nat_of_char (fst e)" if "e \<in> set (map_insert k v ms)" "map nat_of_char k' < map nat_of_char k" for e
    using that set_insert [of k v ms] 2(2) by (auto simp: map_sorted_def)
  ultimately show ?case using 2 by (auto simp: map_sorted_def intro: less_trans)
qed (simp add: map_sorted_def)

lemma map_sorted_remove: "map_sorted ms \<Longrightarrow> map_sorted (map_remove k ms)"
  by (simp add: map_sorted_def map_remove_def sorted_wrt_filter)

lemma map_insert_same: "map_sorted ms \<Longrightarrow> map_of ms k = Some v \<Longrightarrow> map_insert k v ms = ms"
proof (induction k v ms rule: map_insert.induct)
  case (2 k v k' v' ms)
  have "map nat_of_char k' < map nat_of_char k" if "k \<noteq> k'"
    using 2(2,3) that by (auto simp: map_sorted_def dest!: map_of_SomeD)
  with 2 show ?case by (cases "k = k'") (auto simp: map_sorted_def)
qed simp

section \<open>Accepted entries\<close>

lemma normalize_entry_ok:
  assumes "normalize_entry name v = Inr v'"
  obtains entry where "v = JObject entry" "v' = JObject (entry_defaults entry)"
    and "list_all (runtime_field_ok entry) [''runtime_path'', ''home'', ''profile'', ''version'']"
    and "pred_option model_field_ok (map_of (entry_defaults entry) ''default_model'')"
    and "name = ''zcode'' \<longrightarrow> pred_option json_is_null (map_of entry ''runtime_path'')
      \<and> pred_option json_is_null (map_of (entry_defaults entry) ''default_model'')"
  using assms by (auto simp: normalize_entry_def Let_def split: option.splits if_splits)

lemma entry_defaults_other: "k \<notin> {''enabled'', ''spawn_supported'', ''default_model''} \<Longrightarrow> map_of (entry_defaults entry) k = map_of entry k"
  by (auto simp: entry_defaults_def map_of_or_insert)

lemma entry_defaults_present:
  "k \<in> {''enabled'', ''spawn_supported'', ''default_model''} \<Longrightarrow> map_of (entry_defaults entry) k \<noteq> None"
  by (auto simp: entry_defaults_def map_of_or_insert)

lemma entry_defaults_again: "entry_defaults (entry_defaults entry) = entry_defaults entry"
proof -
  have "map_of (entry_defaults entry) ''enabled'' \<noteq> None" "map_of (entry_defaults entry) ''spawn_supported'' \<noteq> None"
    "map_of (entry_defaults entry) ''default_model'' \<noteq> None"
    by (rule entry_defaults_present; simp)+
  then show ?thesis by (simp only: entry_defaults_def [of "entry_defaults entry"] or_insert_def if_False)
qed

lemma normalize_entry_again:
  assumes "normalize_entry name v = Inr v'"
  shows "normalize_entry name v' = Inr v'"
proof -
  obtain entry where e: "v = JObject entry" "v' = JObject (entry_defaults entry)" by (rule normalize_entry_ok [OF assms])
  have fields: "list_all (runtime_field_ok (entry_defaults entry)) [''runtime_path'', ''home'', ''profile'', ''version'']
      = list_all (runtime_field_ok entry) [''runtime_path'', ''home'', ''profile'', ''version'']"
    by (simp add: runtime_field_ok_def entry_defaults_other)
  have path: "map_of (entry_defaults entry) ''runtime_path'' = map_of entry ''runtime_path''" by (simp add: entry_defaults_other)
  have "normalize_entry name (JObject (entry_defaults entry)) = normalize_entry name (JObject entry)"
    unfolding normalize_entry_def as_object.simps option.case Let_def entry_defaults_again fields path ..
  with assms show ?thesis by (simp add: e)
qed

text \<open>What an entry guarantees once it is accepted.\<close>

definition entry_ok :: "string \<Rightarrow> AgentConfigEntry \<Rightarrow> bool" where
  "entry_ok name e \<longleftrightarrow>
     list_all (\<lambda>f. f e \<noteq> Some []) [entry_default_model, entry_runtime_path, entry_home, entry_profile, entry_version]
     \<and> (name = ''zcode'' \<longrightarrow> entry_default_model e = None \<and> entry_runtime_path e = None)"

lemma read_option_not_empty: "runtime_field_ok ms k \<Longrightarrow> read_option ms k = Some x \<Longrightarrow> x \<noteq> Some []"
  by (auto simp: runtime_field_ok_def read_option_def split: option.splits json.splits)

lemma read_option_null: "pred_option json_is_null (map_of ms k) \<Longrightarrow> read_option ms k = Some x \<Longrightarrow> x = None"
  by (auto simp: read_option_def split: option.splits json.splits)

lemma normalized_entry_read:
  assumes "normalize_entry name v = Inr v'" "entry_from_value v' = Some e"
  shows "entry_ok name e"
proof -
  obtain entry where v': "v' = JObject (entry_defaults entry)"
    and fields: "list_all (runtime_field_ok entry) [''runtime_path'', ''home'', ''profile'', ''version'']"
    and model: "pred_option model_field_ok (map_of (entry_defaults entry) ''default_model'')"
    and zcode: "name = ''zcode'' \<longrightarrow> pred_option json_is_null (map_of entry ''runtime_path'')
      \<and> pred_option json_is_null (map_of (entry_defaults entry) ''default_model'')"
    using normalize_entry_ok [OF assms(1)] by metis
  have reads: "read_option (entry_defaults entry) ''default_model'' = Some (entry_default_model e)"
    "read_option (entry_defaults entry) ''runtime_path'' = Some (entry_runtime_path e)"
    "read_option (entry_defaults entry) ''home'' = Some (entry_home e)"
    "read_option (entry_defaults entry) ''profile'' = Some (entry_profile e)"
    "read_option (entry_defaults entry) ''version'' = Some (entry_version e)"
    using assms(2) unfolding v' by (auto simp: entry_from_value_def bind_eq_Some_conv split: if_splits)
  have kept: "read_option (entry_defaults entry) k = read_option entry k" if "k \<in> {''runtime_path'', ''home'', ''profile'', ''version''}" for k
    using that by (auto simp: read_option_def entry_defaults_other)
  have "entry_default_model e \<noteq> Some []"
    using model reads(1) by (auto simp: read_option_def model_field_ok_def split: option.splits json.splits)
  moreover have "entry_runtime_path e \<noteq> Some []" "entry_home e \<noteq> Some []" "entry_profile e \<noteq> Some []" "entry_version e \<noteq> Some []"
    using fields reads kept by (auto dest: read_option_not_empty)
  moreover have "entry_default_model e = None \<and> entry_runtime_path e = None" if "name = ''zcode''"
    using zcode that reads kept by (auto dest: read_option_null)
  ultimately show ?thesis by (simp add: entry_ok_def)
qed

section \<open>Accepted configurations\<close>

definition config_ok :: "AgentConfigSnapshot \<Rightarrow> bool" where
  "config_ok c \<longleftrightarrow>
     config_schema_version c = 2 \<and> fst ` set (subagents c) = set agent_names
     \<and> (\<forall>m. runtime_process_model c = Some m \<longrightarrow> m \<in> {''auto'', ''detached'', ''attached''})
     \<and> (\<forall>a. default_subagent c = Some a \<longrightarrow> (\<exists>e. map_of (subagents c) a = Some e \<and> entry_enabled e))
     \<and> (\<forall>(name, e) \<in> set (subagents c). entry_ok name e)"

lemma res_collect_ok: "res_collect f xs = Inr ys \<Longrightarrow> list_all2 (\<lambda>x y. f x = Inr y) xs ys"
  by (induction xs arbitrary: ys) (auto simp: res_bind_def split: sum.splits)

lemma opt_collect_ok: "opt_collect f xs = Some ys \<Longrightarrow> list_all2 (\<lambda>x y. f x = Some y) xs ys"
  by (induction xs arbitrary: ys) (auto simp: bind_eq_Some_conv split: option.splits)


lemma list_all2_second: "list_all2 P xs ys \<Longrightarrow> y \<in> set ys \<Longrightarrow> \<exists>x \<in> set xs. P x y"
  by (induction rule: list_all2_induct) auto

lemma normalize_value_ok:
  assumes "normalize_agent_config_value v = Inr v'"
  obtains ms where "v = JObject ms" "v' = JObject (canonical_members ms)" "map_of (canonical_members ms) ''subagents'' = None"
  | ms es es' where "v = JObject ms" "v' = JObject (map_insert ''subagents'' (JObject es') (canonical_members ms))"
      "map_of (canonical_members ms) ''subagents'' = Some (JObject es)"
      "list_all2 (\<lambda>(name, e) (name', e'). name' = name \<and> normalize_entry name e = Inr e') es es'"
proof -
  obtain ms where ms: "v = JObject ms" using assms by (cases v) (auto simp: normalize_agent_config_value_def)
  show thesis
  proof (cases "map_of (canonical_members ms) ''subagents''")
    case None
    with assms ms show thesis
      by (intro that(1)) (auto simp: normalize_agent_config_value_def Let_def split: if_splits)
  next
    case (Some agents)
    with assms ms obtain es es' where es: "agents = JObject es"
      "res_collect (\<lambda>(name, e). res_bind (normalize_entry name e) (\<lambda>e'. Inr (name, e'))) es = Inr es'"
      "v' = JObject (map_insert ''subagents'' (JObject es') (canonical_members ms))"
      by (auto simp: normalize_agent_config_value_def Let_def res_bind_def split: if_splits option.splits sum.splits)
    have "list_all2 (\<lambda>(name, e) (name', e'). name' = name \<and> normalize_entry name e = Inr e') es es'"
      by (rule list_all2_mono [OF res_collect_ok [OF es(2)]]) (auto simp: res_bind_def split: sum.splits)
    with Some ms es show thesis by (intro that(2)) simp_all
  qed
qed

lemma snapshot_entries:
  assumes "normalize_agent_config_value v = Inr v'" "snapshot_from_value v' = Some c" "(name, e) \<in> set (subagents c)"
  shows "entry_ok name e"
  using assms(1)
proof (cases rule: normalize_value_ok)
  case (1 ms)
  with assms(2,3) show ?thesis by (auto simp: snapshot_from_value_def bind_eq_Some_conv split: if_splits)
next
  case (2 ms es es')
  from 2(2) assms(2) have "opt_collect (\<lambda>(name, e). map_option (Pair name) (entry_from_value e)) es' = Some (subagents c)"
    by (auto simp: snapshot_from_value_def bind_eq_Some_conv map_of_insert split: if_splits)
  from list_all2_second [OF opt_collect_ok [OF this] assms(3)] obtain v
    where v: "(name, v) \<in> set es'" "entry_from_value v = Some e" by auto
  from list_all2_second [OF 2(4) v(1)] obtain u where "normalize_entry name u = Inr v" by auto
  with v(2) show ?thesis by (intro normalized_entry_read)
qed


lemma complete_snapshot_ok:
  assumes "complete_snapshot c = Inr c'" "\<And>name e. (name, e) \<in> set (subagents c) \<Longrightarrow> entry_ok name e"
  shows "config_ok c'"
proof -
  let ?fill = "fold (\<lambda>(name, e). or_insert name e) (subagents config_default)"
  have c': "c' = c\<lparr>subagents := ?fill (subagents c)\<rparr>" and known: "fst ` set (subagents c) \<subseteq> set agent_names"
    and schema: "config_schema_version c = 2"
    and model: "\<And>m. runtime_process_model c = Some m \<Longrightarrow> m \<in> {''auto'', ''detached'', ''attached''}"
    and default: "\<And>a. default_subagent c = Some a \<Longrightarrow> \<exists>e. map_of (?fill (subagents c)) a = Some e \<and> entry_enabled e"
    using assms(1) by (auto simp: complete_snapshot_def Let_def list_all_iff split: if_splits)
  have closed: "entry_ok name closed_entry" for name by (simp add: entry_ok_def closed_entry_def)
  have ok: "\<forall>(name, e) \<in> set (or_insert n closed_entry ms). entry_ok name e" if "\<forall>(name, e) \<in> set ms. entry_ok name e" for n ms
    using that closed set_insert [of n closed_entry ms] by (auto simp: or_insert_def)
  have "\<forall>(name, e) \<in> set (subagents c). entry_ok name e" using assms(2) by auto
  from ok [OF ok [OF ok [OF ok [OF this]]]] have "\<forall>(name, e) \<in> set (?fill (subagents c)). entry_ok name e"
    by (simp add: config_default_def)
  moreover have "fst ` set (?fill (subagents c)) = set agent_names"
    using known by (auto simp: config_default_def keys_or_insert agent_names_def)
  ultimately show ?thesis
    using schema model default by (simp add: config_ok_def c')
qed

text \<open>
  C23. Every configuration the daemon accepts is complete and consistent, whatever the document was. It has
  exactly the four known agents; a default agent is one of them and enabled; the process model is one of
  the three; no text is empty; and zcode has neither a default model nor a runtime path, which its launch
  would ignore.
\<close>

theorem agent_config_consistent:
  assumes "read_agent_config_snapshot codec env = Inr c"
  shows "config_ok c"
proof -
  have "config_ok config_default"
    by (auto simp: config_ok_def config_default_def closed_entry_def entry_ok_def agent_names_def)
  moreover have "config_ok c" if parse: "parse_agent_config_snapshot codec bytes = Inr c" for bytes
  proof -
    obtain v v' c0 where "normalize_agent_config_value v = Inr v'" "snapshot_from_value v' = Some c0" "complete_snapshot c0 = Inr c"
      using parse by (auto simp: parse_agent_config_snapshot_def res_bind_def ok_or_def split: option.splits sum.splits)
    then show ?thesis by (intro complete_snapshot_ok) (auto intro: snapshot_entries)
  qed
  ultimately show ?thesis
    using assms by (auto simp: read_agent_config_snapshot_def split: option.splits sum.splits if_splits)
qed

definition legacy_document :: json where
  "legacy_document = JObject [(''agents'', JObject [(''codex'', JObject [(''enabled'', JBool True), (''home'', JString ''/h'')])]),
     (''default_agent'', JString ''codex''), (''schema_version'', JNumber (PosInt 1))]"

definition document_codec :: json_codec where
  "document_codec = printing_codec\<lparr>from_str := (\<lambda>_. Inr legacy_document)\<rparr>"

definition sample_env :: service_env where
  "sample_env = \<lparr>env_config = Some ''/c'', env_legacy_config = None, env_home = None, env_xdg_data_home = None,
     env_codex_home = None, env_read = (\<lambda>_. Inr [])\<rparr>"

theorem agent_config_consistent_witness:
  "\<exists>c. read_agent_config_snapshot document_codec sample_env = Inr c \<and> default_subagent c = Some ''codex'' \<and> config_ok c"
proof -
  have "normalize_agent_config_value legacy_document = Inr (JObject
      [(''default_subagent'', JString ''codex''), (''schema_version'', JNumber (PosInt 2)),
       (''subagents'', JObject [(''codex'', JObject [(''default_model'', JNull), (''enabled'', JBool True),
         (''home'', JString ''/h''), (''spawn_supported'', JBool False)])])])"
    by (simp add: normalize_agent_config_value_def legacy_document_def fields_match_version_def contains_key_def Let_def
        canonical_members_def rename_member_def map_remove_def normalize_entry_def runtime_field_ok_def entry_defaults_def
        or_insert_def has_boolean_def model_field_ok_def nat_of_char_def)
  then have "\<not> isl (read_agent_config_snapshot document_codec sample_env)
      \<and> default_subagent (projr (read_agent_config_snapshot document_codec sample_env)) = Some ''codex''"
    by (simp add: read_agent_config_snapshot_def sample_env_def configured_path_def parse_agent_config_snapshot_def document_codec_def decoded_def
        snapshot_from_value_def read_unsigned_def read_option_def read_bool_def entry_from_value_def complete_snapshot_def
        ok_or_def Let_def config_default_def or_insert_def agent_names_def nat_of_char_def closed_entry_def)
  then obtain c where "read_agent_config_snapshot document_codec sample_env = Inr c" "default_subagent c = Some ''codex''"
    by (cases "read_agent_config_snapshot document_codec sample_env") auto
  with agent_config_consistent show ?thesis by blast
qed

section \<open>Migration is stable\<close>

lemma map_sorted_canonical: "map_sorted ms \<Longrightarrow> map_sorted (canonical_members ms)"
  by (simp add: canonical_members_def rename_member_def map_sorted_insert map_sorted_remove split: option.split)

lemma canonical_absent: "k \<in> {''agents'', ''default_agent''} \<Longrightarrow> map_of (canonical_members ms) k = None"
  by (auto simp: canonical_members_def rename_member_def map_of_insert map_of_remove split: option.split)

lemma canonical_schema: "map_of (canonical_members ms) ''schema_version'' = Some (JNumber (PosInt 2))"
  by (simp add: canonical_members_def map_of_insert)

text \<open>A document whose top level is migrated already.\<close>

lemma canonical_again:
  assumes "map_sorted ms" "map_of ms ''agents'' = None" "map_of ms ''default_agent'' = None"
    "map_of ms ''schema_version'' = Some (JNumber (PosInt 2))"
  shows "canonical_members ms = ms" "fields_match_version ms"
  using assms map_insert_same [OF assms(1,4)]
  by (simp_all add: canonical_members_def rename_member_def fields_match_version_def contains_key_def)

lemma collect_again:
  assumes "list_all2 (\<lambda>(name, e) (name', e'). name' = name \<and> normalize_entry name e = Inr e') es es'"
  shows "res_collect (\<lambda>(name, e). res_bind (normalize_entry name e) (\<lambda>e'. Inr (name, e'))) es' = Inr es'"
  using assms by (induction rule: list_all2_induct) (auto simp: normalize_entry_again)

text \<open>
  C24. The migration of a configuration to the present schema is stable: migrating a migrated document
  changes nothing, so a configuration that was read once, from the older or from the present schema, reads the
  same from then on. (The members of a decoded object are in the order of their keys.)
\<close>

theorem config_migration_stable:
  assumes "normalize_agent_config_value (JObject ms) = Inr v" "map_sorted ms"
  shows "normalize_agent_config_value v = Inr v"
  using assms(1)
proof (cases rule: normalize_value_ok)
  case (1 ms')
  let ?ms = "canonical_members ms"
  have "canonical_members ?ms = ?ms" "fields_match_version ?ms"
    using canonical_again [OF map_sorted_canonical [OF assms(2)]] canonical_absent canonical_schema by simp_all
  with 1 canonical_schema [of ms] show ?thesis by (simp add: normalize_agent_config_value_def)
next
  case (2 ms' es es')
  let ?ms = "map_insert ''subagents'' (JObject es') (canonical_members ms)"
  have sorted: "map_sorted ?ms" by (intro map_sorted_insert map_sorted_canonical assms)
  have "canonical_members ?ms = ?ms" "fields_match_version ?ms"
    using canonical_again [OF sorted] canonical_absent canonical_schema by (simp_all add: map_of_insert)
  moreover have "map_of ?ms ''subagents'' = Some (JObject es')" by (simp add: map_of_insert)
  moreover have "map_insert ''subagents'' (JObject es') ?ms = ?ms" by (rule map_insert_same [OF sorted]) (simp add: map_of_insert)
  moreover have "map_of ?ms ''schema_version'' = Some (JNumber (PosInt 2))" by (simp add: map_of_insert canonical_schema)
  ultimately show ?thesis using 2 collect_again [OF 2(4)] by (simp add: normalize_agent_config_value_def)
qed

theorem config_migration_stable_witness:
  "\<exists>v. normalize_agent_config_value legacy_document = Inr v \<and> normalize_agent_config_value v = Inr v"
proof -
  obtain ms where ms: "legacy_document = JObject ms" "map_sorted ms"
    by (simp add: legacy_document_def map_sorted_def nat_of_char_def)
  obtain v where "normalize_agent_config_value legacy_document = Inr v"
    by (simp add: normalize_agent_config_value_def legacy_document_def fields_match_version_def contains_key_def Let_def
        canonical_members_def rename_member_def map_remove_def normalize_entry_def runtime_field_ok_def entry_defaults_def
        or_insert_def has_boolean_def model_field_ok_def nat_of_char_def)
  with config_migration_stable [of ms v] ms show ?thesis by auto
qed

end
