(* ===== verification/Profiles.thy ===== *)
theory Profiles
  imports Agent_Config
begin

text \<open>
  Named profiles of a submission (\<open>external-daemon/src/rpc/profiles.rs\<close>): reading a profile from its file,
  scanning the directory with its collisions, and the errors, which must fit the frame of the transport. The
  directory and its files are a parameter.
\<close>

section \<open>Data\<close>

record Profile =
  profile_name :: string
  profile_subagent :: "string option"
  profile_permission_mode :: "PermissionMode option"
  profile_model :: "string option"
  profile_effort :: "string option"
  profile_instructions :: "string option"
  profile_source_path :: path

record RawProfile =
  raw_name :: string
  raw_subagent :: "string option"
  raw_permission_mode :: "string option"
  raw_model :: "string option"
  raw_effort :: "string option"
  raw_instructions :: "string option"

definition PROFILE_FIELDS :: "string list" where
  "PROFILE_FIELDS = [''name'', ''subagent'', ''permission_mode'', ''model'', ''effort'', ''developer_instructions'']"

definition PRODUCT_NAME :: string where
  "PRODUCT_NAME = ''external-subagent''"

definition xdg_data_home :: "service_env \<Rightarrow> path \<Rightarrow> path" where
  "xdg_data_home env home =
     (case env_xdg_data_home env of
        Some p \<Rightarrow> if is_absolute p then p else path_join (path_join home ''.local'') ''share''
      | None \<Rightarrow> path_join (path_join home ''.local'') ''share'')"

definition default_data_root :: "service_env \<Rightarrow> path option" where
  "default_data_root env = map_option (\<lambda>home. path_join (xdg_data_home env home) PRODUCT_NAME) (env_home env)"

definition profiles_directory :: "service_env \<Rightarrow> path option" where
  "profiles_directory env =
     (case configured_path env of
        Some p \<Rightarrow> map_option (\<lambda>d. path_join d ''profiles'') (path_parent p)
      | None \<Rightarrow> map_option (\<lambda>d. path_join d ''profiles'') (default_data_root env))"

record ProfileRejection =
  rejected_file :: "path option"
  rejected_field :: "string option"
  rejected_diagnostic :: string

record ProfileFileDiagnostic =
  diag_file :: path
  diag_name :: "string option"
  diag_text :: string
  diag_rejection :: ProfileRejection

record LoadedProfiles =
  loaded_profiles :: "(string \<times> Profile) list"
  loaded_errors :: "ProfileFileDiagnostic list"

section \<open>Text that fits a JSON string\<close>

definition escaped_len :: "char \<Rightarrow> nat" where
  "escaped_len b =
     (let n = nat_of_char b in
      if n = 34 \<or> n = 92 then 2 else if n \<in> {8, 9, 10, 12, 13} then 2 else if n \<le> 31 then 6 else 1)"

definition json_escaped_byte_len :: "string \<Rightarrow> nat" where
  "json_escaped_byte_len s = sum_list (map escaped_len s)"

fun char_json_len :: "string \<Rightarrow> nat" where
  "char_json_len [b] = escaped_len b"
| "char_json_len ch = length ch"

fun fit_chars :: "nat \<Rightarrow> nat \<Rightarrow> string list \<Rightarrow> string" where
  "fit_chars n current [] = []"
| "fit_chars n current (ch # chs) =
     (if n < current + char_json_len ch then [] else ch @ fit_chars n (current + char_json_len ch) chs)"

definition truncate_json_escaped :: "string \<Rightarrow> nat \<Rightarrow> string" where
  "truncate_json_escaped s n = (if json_escaped_byte_len s \<le> n then s else fit_chars n 0 (chars s))"

definition PROFILE_ERROR_ENVELOPE_OVERHEAD :: nat where
  "PROFILE_ERROR_ENVELOPE_OVERHEAD = 8192"

definition MAX_ALLOWED_PROFILE_ERROR_JSON_BYTES :: nat where
  "MAX_ALLOWED_PROFILE_ERROR_JSON_BYTES = MAX_RESPONSE_FRAME_BYTES - PROFILE_ERROR_ENVELOPE_OVERHEAD"

definition PROFILE_ERROR_PREFIXES :: "string list" where
  "PROFILE_ERROR_PREFIXES =
     [''profile cannot be combined with'', ''profile is invalid'', ''profile file '' @ [CHR 0x27],
      ''profile directory '' @ [CHR 0x27], ''profile field '' @ [CHR 0x27], ''profile '' @ [CHR 0x27]]"

definition single_quoted :: "string \<Rightarrow> string" where
  "single_quoted s = [CHR 0x27] @ s @ [CHR 0x27]"

definition compose_diagnostic_text :: "ProfileRejection \<Rightarrow> string" where
  "compose_diagnostic_text r =
     (let diag = rejected_diagnostic r in
      if list_ex (starts_with diag) PROFILE_ERROR_PREFIXES then diag
      else
        (case (rejected_file r, rejected_field r) of
           (Some path, Some field) \<Rightarrow>
             if starts_with diag (''field '' @ single_quoted field)
             then ''profile file '' @ single_quoted path @ '' is invalid: '' @ diag
             else if starts_with diag ''cannot '' \<or> starts_with diag ''exceeds '' \<or> starts_with diag ''must be ''
             then ''profile file '' @ single_quoted path @ '' is invalid: field '' @ single_quoted field @ '' '' @ diag
             else ''profile file '' @ single_quoted path @ '' is invalid: field '' @ single_quoted field @ '': '' @ diag
         | (Some path, None) \<Rightarrow> ''profile file '' @ single_quoted path @ '' is invalid: '' @ diag
         | (None, Some field) \<Rightarrow> ''profile field '' @ single_quoted field @ '' is invalid: '' @ diag
         | (None, None) \<Rightarrow> ''profile is invalid: '' @ diag))"

definition SUFFIX_RESERVE :: nat where
  "SUFFIX_RESERVE = 32"

text \<open>The names that are added while there is room, and how many are left out.\<close>

fun add_names :: "string \<Rightarrow> nat \<Rightarrow> string \<Rightarrow> string list \<Rightarrow> string \<times> nat" where
  "add_names separator current message [] = (message, 0)"
| "add_names separator current message (name # names) =
     (let addition = separator @ name in
      if MAX_ALLOWED_PROFILE_ERROR_JSON_BYTES < current + json_escaped_byte_len addition + SUFFIX_RESERVE
      then (message, Suc (length names))
      else add_names '', '' (current + json_escaped_byte_len addition) (message @ addition) names)"

definition format_profile_rejection :: "ProfileRejection \<Rightarrow> string list \<Rightarrow> string" where
  "format_profile_rejection r names =
     (let sorted_names = sort_key (map nat_of_char) names; text = compose_diagnostic_text r in
      if sorted_names = []
      then truncate_json_escaped text
             (MAX_ALLOWED_PROFILE_ERROR_JSON_BYTES - json_escaped_byte_len ''; available profiles: none'')
           @ ''; available profiles: none''
      else
        (let message = truncate_json_escaped text (MAX_ALLOWED_PROFILE_ERROR_JSON_BYTES - 256) @ ''; available profiles: ['' in
         case add_names [] (json_escaped_byte_len message) message sorted_names of
           (listed, truncated) \<Rightarrow>
             if 0 < truncated then listed @ '', ... +'' @ to_decimal truncated @ '' more]'' else listed @ '']''))"

definition new_profile_error :: "RpcErrorCode \<Rightarrow> string \<Rightarrow> RpcError" where
  "new_profile_error code message =
     \<lparr>rpc_code = code, rpc_message = truncate_json_escaped message (MAX_RESPONSE_FRAME_BYTES - 8192), rpc_active_agent_id = None\<rparr>"

definition make_profile_rejection_error_with_code :: "RpcErrorCode \<Rightarrow> ProfileRejection \<Rightarrow> string list \<Rightarrow> RpcError" where
  "make_profile_rejection_error_with_code code r names = new_profile_error code (format_profile_rejection r names)"

definition make_profile_rejection_error :: "ProfileRejection \<Rightarrow> string list \<Rightarrow> RpcError" where
  "make_profile_rejection_error r names = make_profile_rejection_error_with_code RpcValidation r names"

definition profile_rejection :: "path option \<Rightarrow> string option \<Rightarrow> string \<Rightarrow> ProfileRejection" where
  "profile_rejection file field diag = \<lparr>rejected_file = file, rejected_field = field, rejected_diagnostic = diag\<rparr>"

section \<open>One file\<close>

definition valid_name :: "string \<Rightarrow> bool" where
  "valid_name raw \<longleftrightarrow> trim raw \<noteq> [] \<and> length raw \<le> 128 \<and> CHR 0x00 \<notin> set raw"

definition loose_top_level_name :: "json_codec \<Rightarrow> string \<Rightarrow> string option" where
  "loose_top_level_name codec content =
     Option.bind (decoded codec content) (\<lambda>v.
     Option.bind (get_str v ''name'') (\<lambda>raw. if valid_name raw then Some (trim raw) else None))"

fun mistyped_field :: "json_object \<Rightarrow> string option" where
  "mistyped_field [] = None"
| "mistyped_field ((field, v) # ms) =
     (if field = ''name''
      then (if as_str v = None then Some ''name'' else mistyped_field ms)
      else if field \<in> set PROFILE_FIELDS \<and> as_str v = None \<and> \<not> json_is_null v then Some field
      else mistyped_field ms)"

definition attribute_profile_field_type_error :: "json \<Rightarrow> path \<Rightarrow> ProfileRejection option" where
  "attribute_profile_field_type_error v file =
     Option.bind (as_object v) (\<lambda>ms.
       map_option (\<lambda>field. profile_rejection (Some file) (Some field) ''must be a string'') (mistyped_field ms))"

text \<open>
  The derived reader of \<open>RawProfile\<close>: an object without unknown members, or an array with the fields in their
  order, of which all but the first may be missing.
\<close>

definition option_text :: "json option \<Rightarrow> string option option" where
  "option_text v =
     (case v of
        None \<Rightarrow> Some None
      | Some w \<Rightarrow> (case w of JNull \<Rightarrow> Some None | JString s \<Rightarrow> Some (Some s) | _ \<Rightarrow> None))"

definition raw_profile_of :: "(string \<Rightarrow> json option) \<Rightarrow> RawProfile option" where
  "raw_profile_of member =
     Option.bind (Option.bind (member ''name'') as_str) (\<lambda>name.
     Option.bind (option_text (member ''subagent'')) (\<lambda>agent.
     Option.bind (option_text (member ''permission_mode'')) (\<lambda>mode.
     Option.bind (option_text (member ''model'')) (\<lambda>model.
     Option.bind (option_text (member ''effort'')) (\<lambda>effort.
     Option.bind (option_text (member ''developer_instructions'')) (\<lambda>instructions.
     Some \<lparr>raw_name = name, raw_subagent = agent, raw_permission_mode = mode, raw_model = model, raw_effort = effort,
       raw_instructions = instructions\<rparr>))))))"

definition raw_from_value :: "json \<Rightarrow> RawProfile option" where
  "raw_from_value v =
     (case v of
        JObject ms \<Rightarrow> if list_all (\<lambda>m. fst m \<in> set PROFILE_FIELDS) ms then raw_profile_of (map_of ms) else None
      | JArray vs \<Rightarrow> if length vs \<le> length PROFILE_FIELDS then raw_profile_of (map_of (zip PROFILE_FIELDS vs)) else None
      | _ \<Rightarrow> None)"

definition nonempty_trimmed :: "string option \<Rightarrow> string option" where
  "nonempty_trimmed v = Option.bind v (\<lambda>s. if trim s = [] then None else Some (trim s))"

definition profile_mode :: "path \<Rightarrow> string option \<Rightarrow> ProfileRejection + PermissionMode option" where
  "profile_mode file mode =
     (case mode of
        None \<Rightarrow> Inr None
      | Some m \<Rightarrow>
          (let t = trim m in
           if t = [] then Inr None
           else if t = ''build'' then Inr (Some BuildMode)
           else if t = ''edit'' then Inr (Some EditMode)
           else if t = ''plan'' then Inr (Some PlanMode)
           else if t = ''yolo'' then Inr (Some YoloMode)
           else Inl (profile_rejection (Some file) (Some ''permission_mode'')
             (''must be build, edit, plan, yolo, or empty, got '' @ single_quoted t))))"

definition parse_profile_json_internal :: "json_codec \<Rightarrow> string \<Rightarrow> path \<Rightarrow> ProfileRejection + Profile" where
  "parse_profile_json_internal codec content file =
     (case from_str codec content of
        Inl message \<Rightarrow> Inl (profile_rejection (Some file) None message)
      | Inr v \<Rightarrow>
          (case attribute_profile_field_type_error v file of
             Some r \<Rightarrow> Inl r
           | None \<Rightarrow>
               (case raw_from_value v of
                  None \<Rightarrow> Inl (profile_rejection (Some file) None (rejection codec v))
                | Some raw \<Rightarrow>
                    if trim (raw_name raw) = [] then Inl (profile_rejection (Some file) (Some ''name'') ''cannot be empty'')
                    else if 128 < length (raw_name raw)
                    then Inl (profile_rejection (Some file) (Some ''name'') ''exceeds 128 bytes'')
                    else if CHR 0x00 \<in> set (raw_name raw)
                    then Inl (profile_rejection (Some file) (Some ''name'') ''cannot contain NUL byte'')
                    else
                      res_bind (profile_mode file (raw_permission_mode raw)) (\<lambda>mode.
                      Inr \<lparr>profile_name = trim (raw_name raw), profile_subagent = nonempty_trimmed (raw_subagent raw),
                        profile_permission_mode = mode, profile_model = nonempty_trimmed (raw_model raw),
                        profile_effort = nonempty_trimmed (raw_effort raw),
                        profile_instructions = Option.bind (raw_instructions raw) (\<lambda>s. if trim s = [] then None else Some s),
                        profile_source_path = file\<rparr>))))"

definition parse_profile_json :: "json_codec \<Rightarrow> string \<Rightarrow> path \<Rightarrow> RpcError + Profile" where
  "parse_profile_json codec content file =
     (case parse_profile_json_internal codec content file of
        Inl r \<Rightarrow> Inl (make_profile_rejection_error r []) | Inr p \<Rightarrow> Inr p)"

section \<open>The directory\<close>

text \<open>
  What the scan reads of the file system: whether the directory is one, its entries or the text of the
  error, which entries are files, and their contents. \<open>hash_order\<close> is the order in which a hash map is
  walked.
\<close>

record profiles_io =
  io_is_dir :: "path \<Rightarrow> bool"
  io_read_dir :: "path \<Rightarrow> string + path list"
  io_is_file :: "path \<Rightarrow> bool"
  io_read_to_string :: "path \<Rightarrow> string + string"
  hash_order :: "string list \<Rightarrow> string list"

definition path_extension :: "path \<Rightarrow> string option" where
  "path_extension p =
     Option.bind (file_name p) (\<lambda>n.
       case split_once CHR ''.'' (rev n) of
         None \<Rightarrow> None | Some (after, before) \<Rightarrow> if before = [] then None else Some (rev after))"

text \<open>The entries share their parent, so paths compare by their last component.\<close>

definition profile_files :: "profiles_io \<Rightarrow> path list \<Rightarrow> path list" where
  "profile_files pio entries =
     sort_key (\<lambda>p. map (map nat_of_char \<circ> as_os_str) (components p))
       (filter (\<lambda>p. io_is_file pio p \<and> path_extension p = Some ''json'') entries)"

definition file_diagnostic :: "path \<Rightarrow> string option \<Rightarrow> ProfileRejection \<Rightarrow> ProfileFileDiagnostic" where
  "file_diagnostic file name r =
     \<lparr>diag_file = file, diag_name = name, diag_text = compose_diagnostic_text r, diag_rejection = r\<rparr>"

text \<open>One pass over the files: the claims of names, the candidates and the errors.\<close>

fun scan_files :: "json_codec \<Rightarrow> profiles_io \<Rightarrow> path list \<Rightarrow> (string \<times> path) list \<times> Profile list \<times> ProfileFileDiagnostic list" where
  "scan_files codec pio [] = ([], [], [])"
| "scan_files codec pio (file # files) =
     (case scan_files codec pio files of
        (claims, candidates, errors) \<Rightarrow>
          (case io_read_to_string pio file of
             Inl e \<Rightarrow>
               (claims, candidates,
                file_diagnostic file None (profile_rejection (Some file) None
                  (''profile file '' @ single_quoted file @ '' is unreadable: '' @ e)) # errors)
           | Inr content \<Rightarrow>
               (let name = loose_top_level_name codec content;
                    claims' = (case name of None \<Rightarrow> claims | Some n \<Rightarrow> (n, file) # claims) in
                case parse_profile_json_internal codec content file of
                  Inr p \<Rightarrow> (claims', p # candidates, errors)
                | Inl r \<Rightarrow> (claims', candidates, file_diagnostic file name r # errors))))"

definition name_owners :: "(string \<times> path) list \<Rightarrow> string \<Rightarrow> path list" where
  "name_owners claims name = map snd (filter (\<lambda>c. fst c = name) claims)"

text \<open>Another owner than \<open>file\<close>; the files of a directory are distinct, so two owners of a name have each another.\<close>

definition other_owner :: "path list \<Rightarrow> path \<Rightarrow> path" where
  "other_owner owners file = (case find (\<lambda>p. \<not> path_eq p file) owners of Some p \<Rightarrow> p | None \<Rightarrow> file)"

definition duplicate_rejection :: "path \<Rightarrow> string \<Rightarrow> path list \<Rightarrow> ProfileRejection" where
  "duplicate_rejection file name owners =
     profile_rejection (Some file) (Some ''name'')
       (''profile file '' @ single_quoted file @ '' is invalid: duplicate profile name '' @ single_quoted name
        @ '' already defined in '' @ single_quoted (other_owner owners file))"

fun keep_candidates :: "(string \<times> path) list \<Rightarrow> Profile list \<Rightarrow> LoadedProfiles \<Rightarrow> LoadedProfiles" where
  "keep_candidates claims [] loaded = loaded"
| "keep_candidates claims (p # ps) loaded =
     (let owners = name_owners claims (profile_name p) in
      keep_candidates claims ps
        (if 1 < length owners
         then loaded\<lparr>loaded_errors := loaded_errors loaded @
                [file_diagnostic (profile_source_path p) (Some (profile_name p))
                  (duplicate_rejection (profile_source_path p) (profile_name p) owners)]\<rparr>
         else loaded\<lparr>loaded_profiles := (profile_name p, p) # loaded_profiles loaded\<rparr>))"

definition has_duplicate_diagnostic :: "ProfileFileDiagnostic list \<Rightarrow> path \<Rightarrow> string \<Rightarrow> bool" where
  "has_duplicate_diagnostic errors file name \<longleftrightarrow>
     list_ex (\<lambda>d. path_eq (diag_file d) file \<and> diag_name d = Some name \<and> contains (diag_text d) ''duplicate profile name'') errors"

definition report_owner :: "string \<Rightarrow> path list \<Rightarrow> path \<Rightarrow> ProfileFileDiagnostic list \<Rightarrow> ProfileFileDiagnostic list" where
  "report_owner name owners file errors =
     (if has_duplicate_diagnostic errors file name then errors
      else errors @ [file_diagnostic file (Some name) (duplicate_rejection file name owners)])"

definition report_duplicates :: "(string \<times> path) list \<Rightarrow> string \<Rightarrow> ProfileFileDiagnostic list \<Rightarrow> ProfileFileDiagnostic list" where
  "report_duplicates claims name errors =
     (let owners = name_owners claims name in
      if 1 < length owners then fold (report_owner name owners) owners errors else errors)"

definition scan_profiles_dir :: "json_codec \<Rightarrow> profiles_io \<Rightarrow> path \<Rightarrow> LoadedProfiles" where
  "scan_profiles_dir codec pio dir =
     (if \<not> io_is_dir pio dir then \<lparr>loaded_profiles = [], loaded_errors = []\<rparr>
      else
        (case io_read_dir pio dir of
           Inl e \<Rightarrow>
             \<lparr>loaded_profiles = [],
              loaded_errors = [file_diagnostic dir None (profile_rejection (Some dir) None
                (''profile directory '' @ single_quoted dir @ '' is unreadable: '' @ e))]\<rparr>
         | Inr entries \<Rightarrow>
             (case scan_files codec pio (profile_files pio entries) of
                (claims, candidates, errors) \<Rightarrow>
                  (let loaded = keep_candidates claims candidates \<lparr>loaded_profiles = [], loaded_errors = errors\<rparr> in
                   loaded\<lparr>loaded_errors :=
                     fold (report_duplicates claims) (hash_order pio (remdups (map fst claims))) (loaded_errors loaded)\<rparr>))))"

definition sorted_profile_names :: "LoadedProfiles \<Rightarrow> string list" where
  "sorted_profile_names loaded = sort_key (map nat_of_char) (remdups (map fst (loaded_profiles loaded)))"

definition load_profiles_from_dir :: "json_codec \<Rightarrow> profiles_io \<Rightarrow> path \<Rightarrow> RpcError + (string \<times> Profile) list" where
  "load_profiles_from_dir codec pio dir =
     (let loaded = scan_profiles_dir codec pio dir in
      case loaded_errors loaded of
        d # _ \<Rightarrow> Inl (make_profile_rejection_error (diag_rejection d) (sorted_profile_names loaded))
      | [] \<Rightarrow> Inr (loaded_profiles loaded))"

definition scan_configured :: "json_codec \<Rightarrow> service_env \<Rightarrow> profiles_io \<Rightarrow> LoadedProfiles" where
  "scan_configured codec env pio =
     (case profiles_directory env of
        Some dir \<Rightarrow> scan_profiles_dir codec pio dir | None \<Rightarrow> \<lparr>loaded_profiles = [], loaded_errors = []\<rparr>)"

definition available_profile_names :: "json_codec \<Rightarrow> service_env \<Rightarrow> profiles_io \<Rightarrow> string list" where
  "available_profile_names codec env pio = sorted_profile_names (scan_configured codec env pio)"

definition missing_profile_rejection :: "string \<Rightarrow> ProfileFileDiagnostic list \<Rightarrow> ProfileRejection" where
  "missing_profile_rejection name errors =
     (case find (\<lambda>d. diag_name d = Some name) errors of
        Some d \<Rightarrow> diag_rejection d
      | None \<Rightarrow>
          (let unattributed = filter (\<lambda>d. diag_name d = None) errors in
           if unattributed \<noteq> []
           then profile_rejection None None (''profile '' @ single_quoted name @ '' not found (''
                  @ join_with ''; '' (map diag_text unattributed) @ '')'')
           else profile_rejection None None (''profile '' @ single_quoted name @ '' not found'')))"

definition load_profile :: "json_codec \<Rightarrow> service_env \<Rightarrow> profiles_io \<Rightarrow> string \<Rightarrow> RpcError + Profile" where
  "load_profile codec env pio name =
     (let loaded = scan_configured codec env pio in
      case map_of (loaded_profiles loaded) name of
        Some p \<Rightarrow> Inr p
      | None \<Rightarrow>
          Inl (make_profile_rejection_error (missing_profile_rejection name (loaded_errors loaded)) (sorted_profile_names loaded)))"

end
