(* ===== verification/Profile_Properties.thy ===== *)
theory Profile_Properties
  imports Profiles
begin

text \<open>
  A profile is found exactly when one file of the directory claims its name, and the error about one that is
  not fits the frame with the names that are available.
\<close>

section \<open>Errors fit the frame\<close>

lemma escaped_append [simp]: "json_escaped_byte_len (a @ b) = json_escaped_byte_len a + json_escaped_byte_len b"
  by (simp add: json_escaped_byte_len_def)

text \<open>Text in UTF-8: the bytes of an encoding of several bytes are not ASCII.\<close>

definition utf8_text :: "string \<Rightarrow> bool" where
  "utf8_text s \<longleftrightarrow> list_all (\<lambda>ch. length ch = 1 \<or> list_all (\<lambda>b. 128 \<le> nat_of_char b) ch) (chars s)"

lemma char_json_len_exact:
  assumes "length ch = 1 \<or> list_all (\<lambda>b. 128 \<le> nat_of_char b) ch"
  shows "char_json_len ch = json_escaped_byte_len ch"
proof (cases "length ch = 1")
  case True
  then show ?thesis by (auto simp: length_Suc_conv json_escaped_byte_len_def)
next
  case False
  with assms have "\<forall>c \<in> set ch. escaped_len c = 1" by (auto simp: escaped_len_def Let_def list_all_iff)
  then have "json_escaped_byte_len ch = length ch"
    unfolding json_escaped_byte_len_def by (induction ch) auto
  with False show ?thesis by (cases ch rule: char_json_len.cases) auto
qed

lemma fit_chars_prefix: "prefix (fit_chars n current chs) (concat chs)"
  by (induction n current chs rule: fit_chars.induct) auto

lemma fit_chars_bound:
  "list_all (\<lambda>ch. char_json_len ch = json_escaped_byte_len ch) chs \<Longrightarrow> current \<le> n \<Longrightarrow>
     current + json_escaped_byte_len (fit_chars n current chs) \<le> n"
proof (induction n current chs rule: fit_chars.induct)
  case (2 n current ch chs)
  show ?case
  proof (cases "n < current + char_json_len ch")
    case False
    with 2 show ?thesis by simp
  qed (use 2(3) in \<open>simp add: json_escaped_byte_len_def\<close>)
qed (simp add: json_escaped_byte_len_def)

lemma truncate_json_prefix: "prefix (truncate_json_escaped s n) s"
  using fit_chars_prefix [of n 0 "chars s"] by (simp add: truncate_json_escaped_def concat_chars)

lemma truncate_json_bound: "utf8_text s \<Longrightarrow> json_escaped_byte_len (truncate_json_escaped s n) \<le> n"
  using fit_chars_bound [of "chars s" 0 n]
  by (auto simp: truncate_json_escaped_def utf8_text_def list_all_iff char_json_len_exact)

lemma truncate_json_id: "json_escaped_byte_len s \<le> n \<Longrightarrow> truncate_json_escaped s n = s"
  by (simp add: truncate_json_escaped_def)

section \<open>The list of names\<close>

lemma join_append:
  "join_with sep (xs @ [y]) = (if xs = [] then y else join_with sep xs @ sep @ y)"
  by (induction xs) (auto simp: join_with_def neq_Nil_conv)

lemma add_names_spec:
  assumes "add_names separator current message names = (listed, truncated)"
    and "current = json_escaped_byte_len message" "current + SUFFIX_RESERVE \<le> MAX_ALLOWED_PROFILE_ERROR_JSON_BYTES"
    and "message = start @ join_with '', '' before" "separator = (if before = [] then [] else '', '')"
  shows "\<exists>k \<le> length names. listed = start @ join_with '', '' (before @ take k names) \<and> truncated = length names - k
    \<and> json_escaped_byte_len listed + SUFFIX_RESERVE \<le> MAX_ALLOWED_PROFILE_ERROR_JSON_BYTES"
  using assms
proof (induction separator current message names arbitrary: before rule: add_names.induct)
  case (1 separator current message)
  then show ?case by (auto intro!: exI [of _ 0])
next
  case (2 separator current message name names)
  let ?addition = "separator @ name"
  show ?case
  proof (cases "MAX_ALLOWED_PROFILE_ERROR_JSON_BYTES < current + json_escaped_byte_len ?addition + SUFFIX_RESERVE")
    case True
    with 2 show ?thesis by (intro exI [of _ 0]) auto
  next
    case False
    have eq: "message @ ?addition = start @ join_with '', '' (before @ [name])" using "2.prems" by (simp add: join_append)
    have run: "add_names '', '' (current + json_escaped_byte_len ?addition) (message @ ?addition) names = (listed, truncated)"
      using "2.prems"(1) False by (simp only: add_names.simps Let_def if_False)
    have cur: "current + json_escaped_byte_len ?addition = json_escaped_byte_len (message @ ?addition)"
      using "2.prems"(2) by simp
    have le: "current + json_escaped_byte_len ?addition + SUFFIX_RESERVE \<le> MAX_ALLOWED_PROFILE_ERROR_JSON_BYTES"
      using False by (simp only: not_less)
    obtain k where "k \<le> length names" "listed = start @ join_with '', '' ((before @ [name]) @ take k names)"
      "truncated = length names - k" "json_escaped_byte_len listed + SUFFIX_RESERVE \<le> MAX_ALLOWED_PROFILE_ERROR_JSON_BYTES"
      using "2.IH" [OF refl False run cur le eq] by auto
    then show ?thesis by (intro exI [of _ "Suc k"]) auto
  qed
qed

text \<open>The message as a reader sees it: a prefix of the diagnostic and the names, or how many were left out.\<close>

definition names_shown :: "string list \<Rightarrow> nat \<Rightarrow> string" where
  "names_shown names k =
     (if names = [] then ''; available profiles: none''
      else ''; available profiles: ['' @ join_with '', '' (take k names)
        @ (if k < length names then '', ... +'' @ to_decimal (length names - k) @ '' more]'' else '']''))"

lemma escaped_digits: "json_escaped_byte_len (to_decimal n) = length (to_decimal n)"
proof -
  have one: "escaped_len c = 1" if "is_ascii_digit c" for c
    using that by (auto simp: is_ascii_digit_def escaped_len_def Let_def)
  have "list_all is_ascii_digit s \<Longrightarrow> json_escaped_byte_len s = length s" for s
    by (induction s) (auto simp: json_escaped_byte_len_def one)
  with to_decimal_digits show ?thesis by blast
qed

lemma format_rejection_shape:
  assumes "utf8_text (compose_diagnostic_text r)" "length names < 10 ^ 19"
  shows "\<exists>diag k. prefix diag (compose_diagnostic_text r) \<and> k \<le> length names
    \<and> format_profile_rejection r names = diag @ names_shown (sort_key (map nat_of_char) names) k
    \<and> json_escaped_byte_len (format_profile_rejection r names) \<le> MAX_ALLOWED_PROFILE_ERROR_JSON_BYTES"
proof (cases "names = []")
  case True
  let ?suffix = "''; available profiles: none''"
  let ?diag = "truncate_json_escaped (compose_diagnostic_text r) (MAX_ALLOWED_PROFILE_ERROR_JSON_BYTES - json_escaped_byte_len ?suffix)"
  have "json_escaped_byte_len ?diag \<le> MAX_ALLOWED_PROFILE_ERROR_JSON_BYTES - json_escaped_byte_len ?suffix"
    by (rule truncate_json_bound [OF assms(1)])
  moreover have "json_escaped_byte_len ?suffix \<le> MAX_ALLOWED_PROFILE_ERROR_JSON_BYTES"
    by (simp add: json_escaped_byte_len_def escaped_len_def nat_of_char_def MAX_ALLOWED_PROFILE_ERROR_JSON_BYTES_def
        MAX_RESPONSE_FRAME_BYTES_def PROFILE_ERROR_ENVELOPE_OVERHEAD_def)
  moreover have "format_profile_rejection r names = ?diag @ ?suffix" using True by (simp add: format_profile_rejection_def Let_def)
  ultimately show ?thesis
    using True by (intro exI [of _ ?diag] exI [of _ 0]) (simp add: names_shown_def truncate_json_prefix)
next
  case False
  let ?sorted = "sort_key (map nat_of_char) names"
  let ?diag = "truncate_json_escaped (compose_diagnostic_text r) (MAX_ALLOWED_PROFILE_ERROR_JSON_BYTES - 256)"
  let ?message = "?diag @ ''; available profiles: [''"
  obtain listed truncated where run: "add_names [] (json_escaped_byte_len ?message) ?message ?sorted = (listed, truncated)"
    by fastforce
  have room: "json_escaped_byte_len ?message + SUFFIX_RESERVE \<le> MAX_ALLOWED_PROFILE_ERROR_JSON_BYTES"
    using truncate_json_bound [OF assms(1), of "MAX_ALLOWED_PROFILE_ERROR_JSON_BYTES - 256"]
    by (simp add: json_escaped_byte_len_def escaped_len_def nat_of_char_def MAX_ALLOWED_PROFILE_ERROR_JSON_BYTES_def
        MAX_RESPONSE_FRAME_BYTES_def PROFILE_ERROR_ENVELOPE_OVERHEAD_def SUFFIX_RESERVE_def)
  obtain k where k: "k \<le> length names" "listed = ?message @ join_with '', '' (take k ?sorted)" "truncated = length names - k"
    "json_escaped_byte_len listed + SUFFIX_RESERVE \<le> MAX_ALLOWED_PROFILE_ERROR_JSON_BYTES"
    using add_names_spec [OF run refl room, of ?message "[]"] by (auto simp: join_with_def)
  let ?rest = "if k < length names then '', ... +'' @ to_decimal (length names - k) @ '' more]'' else '']''"
  have nonempty: "?sorted \<noteq> []" using False by (metis length_0_conv length_sort)
  have shape: "format_profile_rejection r names = listed @ ?rest"
    using nonempty run k(3) by (simp add: format_profile_rejection_def Let_def)
  have "length (to_decimal (length names - k)) \<le> 19"
    using length_to_decimal_le [of "length names - k" 18] assms(2) by simp
  then have "json_escaped_byte_len ?rest \<le> SUFFIX_RESERVE"
    using escaped_digits [of "length names - k"]
    by (simp add: SUFFIX_RESERVE_def) (simp add: json_escaped_byte_len_def escaped_len_def nat_of_char_def)
  with k(4) have "json_escaped_byte_len (listed @ ?rest) \<le> MAX_ALLOWED_PROFILE_ERROR_JSON_BYTES" by simp
  with nonempty k shape show ?thesis
    by (intro exI [of _ ?diag] exI [of _ k]) (simp add: names_shown_def truncate_json_prefix)
qed

text \<open>
  C22. The error about a profile always fits the frame and always ends with the names that are available. Its
  message is a prefix of the diagnostic followed by the sorted names, or by as many of them as there is room
  for and the number of the others; encoded as JSON it stays below the limit, and the limit of the error type cuts
  nothing of it.
\<close>

theorem profile_error_complete:
  assumes "utf8_text (compose_diagnostic_text r)" "length names < 10 ^ 19"
  shows "\<exists>diag k. prefix diag (compose_diagnostic_text r) \<and> k \<le> length names
    \<and> rpc_message (make_profile_rejection_error_with_code code r names) = diag @ names_shown (sort_key (map nat_of_char) names) k
    \<and> json_escaped_byte_len (rpc_message (make_profile_rejection_error_with_code code r names)) + PROFILE_ERROR_ENVELOPE_OVERHEAD
        \<le> MAX_RESPONSE_FRAME_BYTES"
proof -
  obtain diag k where shape: "prefix diag (compose_diagnostic_text r)" "k \<le> length names"
    "format_profile_rejection r names = diag @ names_shown (sort_key (map nat_of_char) names) k"
    "json_escaped_byte_len (format_profile_rejection r names) \<le> MAX_ALLOWED_PROFILE_ERROR_JSON_BYTES"
    using format_rejection_shape [OF assms] by blast
  have "rpc_message (make_profile_rejection_error_with_code code r names) = format_profile_rejection r names"
    using truncate_json_id [OF shape(4)]
    by (simp add: make_profile_rejection_error_with_code_def new_profile_error_def MAX_ALLOWED_PROFILE_ERROR_JSON_BYTES_def
        PROFILE_ERROR_ENVELOPE_OVERHEAD_def)
  moreover have "PROFILE_ERROR_ENVELOPE_OVERHEAD \<le> MAX_RESPONSE_FRAME_BYTES"
    by (simp add: PROFILE_ERROR_ENVELOPE_OVERHEAD_def MAX_RESPONSE_FRAME_BYTES_def)
  ultimately show ?thesis
    using shape by (metis MAX_ALLOWED_PROFILE_ERROR_JSON_BYTES_def Nat.le_diff_conv2)
qed

theorem profile_error_complete_witness:
  "\<exists>diag k. prefix diag ''profile is invalid: x'' \<and> k \<le> length [''b'', ''a'']
    \<and> rpc_message (make_profile_rejection_error (profile_rejection None None ''x'') [''b'', ''a''])
        = diag @ names_shown (sort_key (map nat_of_char) [''b'', ''a'']) k"
proof -
  have shown: "compose_diagnostic_text (profile_rejection None None ''x'') = ''profile is invalid: x''" by code_simp
  have plain: "utf8_text ''profile is invalid: x''" by code_simp
  have few: "length [''b'', ''a''] < 10 ^ 19" by simp
  from profile_error_complete [of "profile_rejection None None ''x''" "[''b'', ''a'']" RpcValidation, unfolded shown, OF plain few]
  show ?thesis unfolding make_profile_rejection_error_def by blast
qed

lemma sole_filter:
  assumes "distinct xs" "x \<in> set xs" "P x"
  shows "length (filter P xs) \<le> 1 \<longleftrightarrow> (\<forall>y \<in> set xs. P y \<longrightarrow> y = x)"
proof -
  have "length (filter P xs) = card {y \<in> set xs. P y}"
    using assms(1) by (metis distinct_card distinct_filter set_filter)
  moreover have "card {y \<in> set xs. P y} \<le> 1 \<longleftrightarrow> (\<forall>y \<in> set xs. P y \<longrightarrow> y = x)"
    using assms(2,3) by (auto simp: card_le_Suc0_iff_eq)
  ultimately show ?thesis by simp
qed

section \<open>Which profile a name finds\<close>

definition claims_name :: "json_codec \<Rightarrow> profiles_io \<Rightarrow> path \<Rightarrow> string \<Rightarrow> bool" where
  "claims_name codec pio file name \<longleftrightarrow>
     (case io_read_to_string pio file of Inl _ \<Rightarrow> False | Inr content \<Rightarrow> loose_top_level_name codec content = Some name)"

definition holds_profile :: "json_codec \<Rightarrow> profiles_io \<Rightarrow> path \<Rightarrow> Profile \<Rightarrow> bool" where
  "holds_profile codec pio file p \<longleftrightarrow>
     (case io_read_to_string pio file of Inl _ \<Rightarrow> False | Inr content \<Rightarrow> parse_profile_json_internal codec content file = Inr p)"

lemma scan_files_owners:
  "scan_files codec pio files = (claims, candidates, errors) \<Longrightarrow>
     name_owners claims name = filter (\<lambda>file. claims_name codec pio file name) files"
  by (induction files arbitrary: claims candidates errors)
    (auto simp: name_owners_def claims_name_def Let_def split: prod.splits sum.splits option.splits)

lemma scan_files_candidates:
  "scan_files codec pio files = (claims, candidates, errors) \<Longrightarrow>
     p \<in> set candidates \<longleftrightarrow> (\<exists>file \<in> set files. holds_profile codec pio file p)"
  by (induction files arbitrary: claims candidates errors)
    (auto simp: holds_profile_def Let_def split: prod.splits sum.splits option.splits)

lemma keep_candidates_profiles:
  "loaded_profiles (keep_candidates claims ps loaded) =
     rev (map (\<lambda>p. (profile_name p, p)) (filter (\<lambda>p. length (name_owners claims (profile_name p)) \<le> 1) ps)) @ loaded_profiles loaded"
  by (induction claims ps loaded rule: keep_candidates.induct) (auto simp: Let_def)

lemma holds_source: "holds_profile codec pio file p \<Longrightarrow> profile_source_path p = file"
  by (auto simp: holds_profile_def parse_profile_json_internal_def res_bind_def split: sum.splits option.splits if_splits)

text \<open>The documents that hold a profile are objects, so their name is found at the top level.\<close>

definition claims_itself :: "json_codec \<Rightarrow> profiles_io \<Rightarrow> path \<Rightarrow> bool" where
  "claims_itself codec pio file \<longleftrightarrow>
     (case io_read_to_string pio file of
        Inl _ \<Rightarrow> True
      | Inr content \<Rightarrow> (case from_str codec content of Inl _ \<Rightarrow> True | Inr v \<Rightarrow> as_array v = None))"

lemma holds_claims:
  assumes "holds_profile codec pio file p" "claims_itself codec pio file"
  shows "claims_name codec pio file (profile_name p)"
proof -
  obtain content v raw where c: "io_read_to_string pio file = Inr content" "from_str codec content = Inr v" "raw_from_value v = Some raw"
    "trim (raw_name raw) \<noteq> []" "length (raw_name raw) \<le> 128" "CHR 0x00 \<notin> set (raw_name raw)" "profile_name p = trim (raw_name raw)"
    using assms(1) by (auto simp: holds_profile_def parse_profile_json_internal_def res_bind_def split: sum.splits option.splits if_splits)
  moreover have "as_array v = None" using assms(2) c by (simp add: claims_itself_def)
  ultimately have "get_str v ''name'' = Some (raw_name raw)"
    by (auto simp: raw_from_value_def raw_profile_of_def get_str_def bind_eq_Some_conv split: json.splits if_splits)
  with c show ?thesis by (simp add: claims_name_def loose_top_level_name_def decoded_def valid_name_def)
qed

text \<open>
  C21. A name finds a profile exactly when there is no doubt which one is meant: a file of the directory holds a
  valid profile of that name and no other file, valid or not, claims the name. Otherwise the answer is
  a validation error. (The documents are objects; a name is claimed by a file whose top level has it,
  even if the rest of the file is not a valid profile.)
\<close>

theorem profile_found_iff:
  assumes "profiles_directory env = Some dir" "io_is_dir pio dir" "io_read_dir pio dir = Inr entries" "distinct entries"
    and "\<forall>file \<in> set (profile_files pio entries). claims_itself codec pio file"
  shows "(load_profile codec env pio name = Inr p \<longleftrightarrow>
      (\<exists>file \<in> set (profile_files pio entries). holds_profile codec pio file p \<and> profile_name p = name
        \<and> (\<forall>other \<in> set (profile_files pio entries). claims_name codec pio other name \<longrightarrow> other = file)))
    \<and> (\<forall>e. load_profile codec env pio name = Inl e \<longrightarrow> rpc_code e = RpcValidation)"
proof -
  let ?files = "profile_files pio entries"
  obtain claims candidates errors where scan: "scan_files codec pio ?files = (claims, candidates, errors)" by (cases "scan_files codec pio ?files")
  define ps where "ps = filter (\<lambda>p. length (name_owners claims (profile_name p)) \<le> 1) candidates"
  have "loaded_profiles (scan_configured codec env pio) = rev (map (\<lambda>p. (profile_name p, p)) ps)"
    using assms(1-3) scan by (simp add: scan_configured_def scan_profiles_dir_def Let_def keep_candidates_profiles ps_def)
  then have load: "load_profile codec env pio name =
      (case map_of (rev (map (\<lambda>p. (profile_name p, p)) ps)) name of
         Some p \<Rightarrow> Inr p
       | None \<Rightarrow> Inl (make_profile_rejection_error (missing_profile_rejection name (loaded_errors (scan_configured codec env pio)))
           (sorted_profile_names (scan_configured codec env pio))))"
    by (simp add: load_profile_def Let_def)
  have distinct: "distinct ?files" using assms(4) by (simp add: profile_files_def)
  have kept: "p \<in> set ps \<longleftrightarrow> (\<exists>file \<in> set ?files. holds_profile codec pio file p
      \<and> (\<forall>other \<in> set ?files. claims_name codec pio other (profile_name p) \<longrightarrow> other = file))" for p
  proof -
    have "length (filter (\<lambda>file. claims_name codec pio file (profile_name p)) ?files) \<le> 1 \<longleftrightarrow>
        (\<forall>other \<in> set ?files. claims_name codec pio other (profile_name p) \<longrightarrow> other = f)"
      if "f \<in> set ?files" "holds_profile codec pio f p" for f
      by (rule sole_filter [OF distinct that(1)]) (use that assms(5) in \<open>auto intro: holds_claims\<close>)
    then show ?thesis
      unfolding ps_def set_filter mem_Collect_eq scan_files_candidates [OF scan] scan_files_owners [OF scan] by blast
  qed
  have unique: "p = q" if pq: "p \<in> set ps" "q \<in> set ps" "profile_name p = profile_name q" for p q
  proof -
    obtain f g where "f \<in> set ?files" "holds_profile codec pio f p" "g \<in> set ?files" "holds_profile codec pio g q"
      and "\<forall>other \<in> set ?files. claims_name codec pio other (profile_name p) \<longrightarrow> other = f"
      using pq(1,2) kept by blast
    moreover from this have "f = g" using holds_claims [of codec pio g q] assms(5) pq(3) by auto
    ultimately show "p = q" by (auto simp: holds_profile_def split: sum.splits)
  qed
  have "map_of (rev (map (\<lambda>p. (profile_name p, p)) ps)) name = Some p \<longleftrightarrow> p \<in> set ps \<and> profile_name p = name"
  proof
    assume "map_of (rev (map (\<lambda>p. (profile_name p, p)) ps)) name = Some p"
    from map_of_SomeD [OF this] show "p \<in> set ps \<and> profile_name p = name" by auto
  next
    assume p: "p \<in> set ps \<and> profile_name p = name"
    then have "(name, p) \<in> set (rev (map (\<lambda>p. (profile_name p, p)) ps))" by auto
    then obtain q where q: "map_of (rev (map (\<lambda>p. (profile_name p, p)) ps)) name = Some q"
      using weak_map_of_SomeI by fast
    from map_of_SomeD [OF this] have "q \<in> set ps" "profile_name q = name" by auto
    with unique p q show "map_of (rev (map (\<lambda>p. (profile_name p, p)) ps)) name = Some p" by metis
  qed
  with kept load show ?thesis
    by (auto simp: make_profile_rejection_error_def make_profile_rejection_error_with_code_def new_profile_error_def split: option.splits)
qed

text \<open>A directory with one file, whose codec reads the document of a profile.\<close>

definition review_document :: json where
  "review_document = JObject [(''model'', JString ''m''), (''name'', JString ''review'')]"

definition review_codec :: json_codec where
  "review_codec = printing_codec\<lparr>from_str := (\<lambda>_. Inr review_document)\<rparr>"

definition review_io :: profiles_io where
  "review_io = \<lparr>io_is_dir = (\<lambda>_. True), io_read_dir = (\<lambda>_. Inr [''/p/r.json'']), io_is_file = (\<lambda>_. True),
     io_read_to_string = (\<lambda>_. Inr []), hash_order = id\<rparr>"

definition review_profile :: Profile where
  "review_profile = \<lparr>profile_name = ''review'', profile_subagent = None, profile_permission_mode = None, profile_model = Some ''m'',
     profile_effort = None, profile_instructions = None, profile_source_path = ''/p/r.json''\<rparr>"

theorem profile_found_iff_witness: "load_profile review_codec sample_env review_io ''review'' = Inr review_profile"
proof -
  have dir: "profiles_directory sample_env = Some ''/profiles''" by code_simp
  have io: "io_is_dir review_io ''/profiles''" "io_read_dir review_io ''/profiles'' = Inr [''/p/r.json'']" "distinct [''/p/r.json'']"
    by (simp_all add: review_io_def)
  have files: "profile_files review_io [''/p/r.json''] = [''/p/r.json'']" by code_simp
  have itself: "\<forall>file \<in> set (profile_files review_io [''/p/r.json'']). claims_itself review_codec review_io file"
    unfolding files by (simp add: claims_itself_def review_io_def review_codec_def review_document_def)
  have "holds_profile review_codec review_io ''/p/r.json'' review_profile" by code_simp
  then have "\<exists>file \<in> set (profile_files review_io [''/p/r.json'']). holds_profile review_codec review_io file review_profile
      \<and> profile_name review_profile = ''review''
      \<and> (\<forall>other \<in> set (profile_files review_io [''/p/r.json'']). claims_name review_codec review_io other ''review'' \<longrightarrow> other = file)"
    unfolding files by (simp add: review_profile_def)
  with profile_found_iff [OF dir io itself, of "''review''" review_profile] show ?thesis by blast
qed

text \<open>
  The derived reader also accepts an array. Such a profile claims no name, so a second file with its name is not
  seen as a duplicate.
\<close>

lemma array_profile_unclaimed:
  assumes "from_str codec content = Inr (JArray [JString ''review''])"
  shows "loose_top_level_name codec content = None"
    and "\<exists>p. parse_profile_json_internal codec content file = Inr p \<and> profile_name p = ''review''"
proof -
  show "loose_top_level_name codec content = None"
    using assms by (simp add: loose_top_level_name_def decoded_def get_str_def)
  have "trim ''review'' = ''review''" by code_simp
  with assms show "\<exists>p. parse_profile_json_internal codec content file = Inr p \<and> profile_name p = ''review''"
    by (simp add: parse_profile_json_internal_def attribute_profile_field_type_error_def raw_from_value_def raw_profile_of_def
        PROFILE_FIELDS_def option_text_def profile_mode_def)
qed

end
