(* ===== verification/Agent_Admission.thy ===== *)
theory Agent_Admission
  imports Profiles Rpc_Wait
begin

text \<open>
  Admission of a submission to an agent (\<open>external-daemon/src/rpc/agents.rs\<close>, with the model tokens of
  \<open>subagents/dsh/src/acp/model.rs\<close>): the gates of an agent, the selection of its model and its effort,
  what each agent supports, and where a refusal comes from.
\<close>

section \<open>Model tokens\<close>

definition MAX_MODEL_TOKEN_BYTES :: nat where
  "MAX_MODEL_TOKEN_BYTES = 512"

datatype ModelSetError = TokenInvalid | NotOffered | Rejected string

definition validate_catalog_token :: "string \<Rightarrow> ModelSetError + unit" where
  "validate_catalog_token token =
     (if token = [] \<or> MAX_MODEL_TOKEN_BYTES < length token \<or> CHR 0x00 \<in> set token then Inl TokenInvalid else Inr ())"

definition parse_colon_token :: "string \<Rightarrow> ModelSetError + string \<times> string" where
  "parse_colon_token token =
     (if token = [] \<or> MAX_MODEL_TOKEN_BYTES < length token \<or> CHR 0x00 \<in> set token then Inl TokenInvalid
      else
        (case split_once CHR '':'' token of
           None \<Rightarrow> Inl TokenInvalid
         | Some (provider, model) \<Rightarrow> if provider = [] \<or> model = [] then Inl TokenInvalid else Inr (provider, model)))"

definition wire_token :: "json_codec \<Rightarrow> string \<Rightarrow> string \<Rightarrow> string" where
  "wire_token codec provider model = json_text codec (JArray [JString provider, JString model])"

definition config_id_offered :: "json option \<Rightarrow> string \<Rightarrow> bool" where
  "config_id_offered options config_id \<longleftrightarrow>
     (case Option.bind options as_array of
        None \<Rightarrow> False
      | Some os \<Rightarrow>
          list_ex (\<lambda>v. Option.bind (case json_get v ''id'' of Some i \<Rightarrow> Some i | None \<Rightarrow> json_get v ''configId'') as_str = Some config_id) os)"

definition model_option_offered :: "json option \<Rightarrow> bool" where
  "model_option_offered options = config_id_offered options ''model''"

definition reasoning_effort_option_offered :: "json option \<Rightarrow> bool" where
  "reasoning_effort_option_offered options = config_id_offered options ''reasoning_effort''"

definition classify_set_response :: "json + json \<Rightarrow> ModelSetError + unit" where
  "classify_set_response response =
     (case response of
        Inr _ \<Rightarrow> Inr ()
      | Inl e \<Rightarrow>
          Inl (Rejected (concat (take 256 (chars
            (case get_str e ''message'' of Some m \<Rightarrow> m | None \<Rightarrow> ''session rejected the config option''))))))"

section \<open>What a caller submits\<close>

record GeneralSubmitInput =
  submit_profile :: "string option"
  submit_agent :: "string option"
  submit_model :: "string option"
  submit_effort :: "string option"
  submit_instructions :: "string option"
  submit_manifest :: GeneralTaskManifest

datatype AdmissionField = FieldModel | FieldEffort | FieldSubagent | FieldPermissionMode | FieldNone

fun field_as_str :: "AdmissionField \<Rightarrow> string option" where
  "field_as_str FieldModel = Some ''model''"
| "field_as_str FieldEffort = Some ''effort''"
| "field_as_str FieldSubagent = Some ''subagent''"
| "field_as_str FieldPermissionMode = Some ''permission_mode''"
| "field_as_str FieldNone = None"

record AdmissionFailure =
  failure_error :: RpcError
  failure_field :: AdmissionField
  profile_provided :: bool

definition refuse :: "RpcErrorCode \<Rightarrow> string \<Rightarrow> AdmissionField \<Rightarrow> bool \<Rightarrow> AdmissionFailure + 'a" where
  "refuse code message field provided =
     Inl \<lparr>failure_error = rpc_error code message, failure_field = field, profile_provided = provided\<rparr>"

section \<open>The gate of an agent\<close>

text \<open>\<open>exec\<close>: whether a path is an executable file of the host.\<close>

definition runtime_executable :: "(path \<Rightarrow> bool) \<Rightarrow> AgentConfigEntry \<Rightarrow> bool" where
  "runtime_executable exec e \<longleftrightarrow>
     (case entry_runtime_path e of None \<Rightarrow> False | Some p \<Rightarrow> is_absolute p \<and> exec p)"

definition effective_spawn_supported :: "(path \<Rightarrow> bool) \<Rightarrow> string \<Rightarrow> AgentConfigEntry \<Rightarrow> bool" where
  "effective_spawn_supported exec agent e =
     (if agent = ''dsh''
      then entry_enabled e \<and> entry_spawn_supported e \<and> entry_profile e = Some ''acp'' \<and> runtime_executable exec e
      else if agent = ''codex'' then entry_enabled e \<and> entry_spawn_supported e \<and> runtime_executable exec e
      else if agent = ''agy'' then entry_enabled e \<and> entry_spawn_supported e \<and> runtime_executable exec e
      else entry_enabled e \<and> entry_spawn_supported e)"

definition permission_modes :: "(path \<Rightarrow> bool) \<Rightarrow> string \<Rightarrow> AgentConfigEntry \<Rightarrow> PermissionMode list" where
  "permission_modes exec agent e =
     (if \<not> effective_spawn_supported exec agent e then []
      else if agent = ''dsh'' then [BuildMode, PlanMode]
      else if agent = ''agy'' then [BuildMode, YoloMode]
      else [BuildMode, EditMode, PlanMode, YoloMode])"

definition quoted_name :: "string \<Rightarrow> string" where
  "quoted_name s = [CHR 0x22] @ s @ [CHR 0x22]"

definition unknown_agent_error :: "string list \<Rightarrow> RpcError" where
  "unknown_agent_error roster =
     rpc_error RpcAgentUnknown (''subagent is unknown, available subagents are [''
       @ join_with '', '' (map quoted_name roster) @ '']'')"

definition unknown_subagent_error :: "AgentConfigSnapshot \<Rightarrow> RpcError" where
  "unknown_subagent_error config = unknown_agent_error (map fst (filter (\<lambda>(_, e). entry_enabled e) (subagents config)))"

definition unknown_agent_name_error :: "AgentConfigSnapshot \<Rightarrow> RpcError" where
  "unknown_agent_name_error config = unknown_agent_error (map fst (subagents config))"

section \<open>Messages about tokens\<close>

definition with_cause :: "string \<Rightarrow> string \<Rightarrow> string" where
  "with_cause form cause = form @ ''; '' @ cause"

definition dsh_model_format_error :: "string \<Rightarrow> string" where
  "dsh_model_format_error token =
     (let form = ''dsh model must be {provider}:{model}'' in
      if token = [] then with_cause form ''the token is empty''
      else if MAX_MODEL_TOKEN_BYTES < length token then with_cause form ''the token exceeds 512 bytes''
      else if CHR 0x00 \<in> set token then with_cause form ''the token contains a NUL byte''
      else if CHR '':'' \<notin> set token then with_cause form (''the '' @ single_quoted '':'' @ '' separator is missing'')
      else if starts_with token '':'' then with_cause form ''the provider side is empty''
      else if ends_with token '':'' then with_cause form ''the model side is empty''
      else form)"

definition normalized_zcode_model :: "string \<Rightarrow> string option" where
  "normalized_zcode_model token =
     (if CHR ''/'' \<notin> set token then None
      else (case normalized_model_reference token of None \<Rightarrow> None | Some _ \<Rightarrow> Some token))"

definition zcode_model_format_error :: "string \<Rightarrow> string" where
  "zcode_model_format_error token =
     (let form = ''zcode model must be {provider}/{model}'' in
      if token = [] then with_cause form ''the token is empty''
      else if 128 < length token then with_cause form ''the token exceeds 128 bytes''
      else if CHR 0x00 \<in> set token then with_cause form ''the token contains a NUL byte''
      else
        (case split_once CHR ''/'' token of
           None \<Rightarrow> with_cause form (''the '' @ single_quoted ''/'' @ '' separator is missing'')
         | Some (provider, model) \<Rightarrow>
             if provider = [] then with_cause form ''the provider side is empty''
             else if model = [] then with_cause form ''the model side is empty''
             else if CHR ''/'' \<in> set model
             then with_cause form (''the token contains more than one '' @ single_quoted ''/'' @ '' separator'')
             else if \<not> is_provider_segment provider then with_cause form ''the provider side must be [A-Za-z0-9._-]+''
             else form))"

definition agy_model_is_valid :: "string \<Rightarrow> bool" where
  "agy_model_is_valid token \<longleftrightarrow>
     token \<noteq> [] \<and> length token \<le> 512 \<and> CHR 0x00 \<notin> set token \<and> CHR '':'' \<notin> set token \<and> CHR ''/'' \<notin> set token
     \<and> \<not> list_ex is_whitespace (chars token)"

definition agy_model_format_error :: "string \<Rightarrow> string" where
  "agy_model_format_error token =
     (let form = ''agy model must be a bare slug without a '' @ single_quoted '':'' @ '' or '' @ single_quoted ''/''
            @ '' separator or whitespace'' in
      if token = [] then with_cause form ''the token is empty''
      else if 512 < length token then with_cause form ''the token exceeds 512 bytes''
      else if CHR 0x00 \<in> set token then with_cause form ''the token contains a NUL byte''
      else if CHR '':'' \<in> set token \<or> CHR ''/'' \<in> set token
      then with_cause form (''the token contains a '' @ single_quoted '':'' @ '' or '' @ single_quoted ''/'' @ '' separator'')
      else if list_ex is_whitespace (chars token) then with_cause form ''the token contains whitespace''
      else form)"

section \<open>Effort and model\<close>

definition effort_byte :: "char \<Rightarrow> bool" where
  "effort_byte b \<longleftrightarrow> 97 \<le> nat_of_char b \<and> nat_of_char b \<le> 122 \<or> is_ascii_digit b \<or> b = CHR ''_''"

definition resolve_effort_selection :: "string \<Rightarrow> GeneralSubmitInput \<Rightarrow> bool \<Rightarrow> AdmissionFailure + string option" where
  "resolve_effort_selection agent input provided =
     (case submit_effort input of
        None \<Rightarrow> Inr None
      | Some raw \<Rightarrow>
          (let token = trim raw in
           if token = [] \<or> 24 < length token \<or> CHR 0x00 \<in> set token \<or> \<not> list_all effort_byte token
           then refuse RpcValidation ''effort token must be 1..24 bytes of lowercase [a-z0-9_] with no NUL'' FieldEffort provided
           else if agent = ''codex'' \<and> token \<notin> set [''low'', ''medium'', ''high'', ''xhigh'', ''max'']
           then refuse RpcValidation ''codex effort must be one of low, medium, high, xhigh, max'' FieldEffort provided
           else if agent = ''agy'' \<and> token \<notin> set [''low'', ''medium'', ''high'', ''max'']
           then refuse RpcValidation ''agy effort must be one of low, medium, high, max'' FieldEffort provided
           else Inr (Some token)))"

definition selected_token :: "GeneralSubmitInput \<Rightarrow> AgentConfigEntry \<Rightarrow> string option" where
  "selected_token input e =
     (case map_option trim (submit_model input) of Some t \<Rightarrow> Some t | None \<Rightarrow> map_option trim (entry_default_model e))"

definition selection_source :: "GeneralSubmitInput \<Rightarrow> string" where
  "selection_source input = (if submit_model input \<noteq> None then ''spawn_catalog'' else ''configured_default'')"

definition resolve_model_selection ::
    "string \<Rightarrow> GeneralSubmitInput \<Rightarrow> AgentConfigEntry \<Rightarrow> bool \<Rightarrow> AdmissionFailure + (string option \<times> string)" where
  "resolve_model_selection agent input e provided =
     (if agent = ''dsh''
      then
        (case selected_token input e of
           None \<Rightarrow> Inr (None, ''native'')
         | Some token \<Rightarrow>
             (case parse_colon_token token of
                Inl _ \<Rightarrow> refuse RpcValidation (dsh_model_format_error token) FieldModel provided
              | Inr _ \<Rightarrow> Inr (Some token, selection_source input)))
      else if agent = ''codex''
      then
        (case selected_token input e of
           None \<Rightarrow> refuse RpcValidation ''codex requires an explicit model or agents.codex.default_model'' FieldModel False
         | Some token \<Rightarrow>
             if token = [] \<or> 128 < length token \<or> CHR 0x00 \<in> set token \<or> CHR ''/'' \<in> set token
             then refuse RpcValidation ''model token is not a bounded non-empty string'' FieldModel provided
             else Inr (Some token, selection_source input))
      else if agent = ''agy''
      then
        (case selected_token input e of
           None \<Rightarrow> Inr (None, ''native'')
         | Some token \<Rightarrow>
             if \<not> agy_model_is_valid token then refuse RpcValidation (agy_model_format_error token) FieldModel provided
             else Inr (Some token, selection_source input))
      else if agent = ''zcode''
      then
        (case map_option trim (submit_model input) of
           None \<Rightarrow>
             refuse RpcValidation
               ''zcode model must be {provider}/{model}; an explicit model is required from the spawn request or a named profile''
               FieldModel False
         | Some token \<Rightarrow>
             (case normalized_zcode_model token of
                None \<Rightarrow> refuse RpcValidation (zcode_model_format_error token) FieldModel provided
              | Some m \<Rightarrow> Inr (Some m, ''spawn_catalog'')))
      else Inr (None, ''native''))"

section \<open>What each agent supports\<close>

definition MAX_DSH_WRITE_MANIFEST_ENTRIES :: nat where
  "MAX_DSH_WRITE_MANIFEST_ENTRIES = 256"

definition MAX_DSH_WRITE_MANIFEST_BYTES :: nat where
  "MAX_DSH_WRITE_MANIFEST_BYTES = 64 * 1024"

definition check_agent_support ::
    "json_codec \<Rightarrow> service_env \<Rightarrow> string \<Rightarrow> GeneralSubmitInput \<Rightarrow> AgentConfigEntry \<Rightarrow> bool \<Rightarrow> AdmissionFailure + unit" where
  "check_agent_support codec env agent input e mode_provided =
     (let m = submit_manifest input;
          mode = (case manifest_permission_mode m of Some x \<Rightarrow> x | None \<Rightarrow> BuildMode) in
      if agent = ''dsh'' \<and> mode \<notin> {BuildMode, PlanMode}
      then refuse RpcAgentUnsupported ''dsh first-launch admission supports only the build and plan permission modes''
             FieldPermissionMode mode_provided
      else if agent = ''dsh'' \<and>
        (MAX_DSH_WRITE_MANIFEST_ENTRIES < length (manifest_write m)
         \<or> MAX_DSH_WRITE_MANIFEST_BYTES < length (json_text codec (JArray (map JString (manifest_write m)))))
      then refuse RpcValidation ''dsh write manifest exceeds the admission bounds (max 256 entries / 64 KiB)'' FieldNone False
      else if agent = ''codex'' \<and> manifest_write m \<noteq> []
      then refuse RpcAgentUnsupported ''CODEX_WRITE_MANIFEST_UNSUPPORTED'' FieldNone False
      else if agent = ''codex'' \<and> entry_home e = None \<and> env_codex_home env = None
      then refuse RpcAgentUnsupported ''codex home is unconfigured'' FieldNone False
      else if agent = ''agy'' \<and> mode \<notin> {BuildMode, YoloMode}
      then refuse RpcAgentUnsupported ''AGY_PERMISSION_MODE_UNSUPPORTED'' FieldPermissionMode mode_provided
      else if agent = ''agy'' \<and> manifest_write m \<noteq> []
      then refuse RpcAgentUnsupported ''AGY_WRITE_MANIFEST_UNSUPPORTED'' FieldNone False
      else Inr ())"

section \<open>Admission\<close>

definition provided_by :: "Profile option \<Rightarrow> (Profile \<Rightarrow> 'a option) \<Rightarrow> bool" where
  "provided_by profile field = (case profile of None \<Rightarrow> False | Some p \<Rightarrow> field p \<noteq> None)"

definition check_text :: "string option \<Rightarrow> string \<Rightarrow> AdmissionField \<Rightarrow> bool \<Rightarrow> AdmissionFailure + unit" where
  "check_text v name field provided =
     (case v of
        None \<Rightarrow> Inr ()
      | Some s \<Rightarrow>
          (case validate_text (trim s) name 4096 of
             Inl e \<Rightarrow> Inl \<lparr>failure_error = e, failure_field = field, profile_provided = provided\<rparr>
           | Inr _ \<Rightarrow> Inr ()))"

definition admitted_entry ::
    "(path \<Rightarrow> bool) \<Rightarrow> GeneralSubmitInput \<Rightarrow> AgentConfigSnapshot \<Rightarrow> bool \<Rightarrow> AdmissionFailure + (string \<times> AgentConfigEntry)" where
  "admitted_entry exec input config provided =
     (case (case submit_agent input of Some a \<Rightarrow> Some a | None \<Rightarrow> default_subagent config) of
        None \<Rightarrow> refuse RpcAgentRequired ''agent is required when no default_subagent is configured'' FieldSubagent False
      | Some agent \<Rightarrow>
          (case map_of (subagents config) agent of
             None \<Rightarrow> Inl \<lparr>failure_error = unknown_subagent_error config, failure_field = FieldSubagent, profile_provided = provided\<rparr>
           | Some e \<Rightarrow>
               if \<not> entry_enabled e then refuse RpcAgentDisabled ''agent is disabled'' FieldSubagent provided
               else if \<not> effective_spawn_supported exec agent e
               then refuse RpcAgentUnsupported (''agent '' @ agent @ '' is unsupported'') FieldSubagent provided
               else Inr (agent, e)))"

definition kept_instructions :: "string \<Rightarrow> string option \<Rightarrow> string option" where
  "kept_instructions agent instructions =
     (if agent = ''codex'' then Option.bind instructions (\<lambda>s. if trim s = [] then None else Some s) else None)"

text \<open>\<open>version\<close>: the version of the daemon.\<close>

definition resolve_admission_with_instructions ::
    "json_codec \<Rightarrow> service_env \<Rightarrow> (path \<Rightarrow> bool) \<Rightarrow> string \<Rightarrow> GeneralSubmitInput \<Rightarrow> AgentConfigSnapshot \<Rightarrow> string option
       \<Rightarrow> Profile option \<Rightarrow> AdmissionFailure + AdmissionIdentity" where
  "resolve_admission_with_instructions codec env exec version input config instructions profile =
     (let agent_provided = (submit_agent input \<noteq> None \<and> provided_by profile profile_subagent);
          model_provided = (submit_model input \<noteq> None \<and> provided_by profile profile_model);
          effort_provided = (submit_effort input \<noteq> None \<and> provided_by profile profile_effort) in
      res_bind (check_text (submit_agent input) ''agent'' FieldSubagent agent_provided) (\<lambda>_.
      res_bind (check_text (submit_model input) ''model'' FieldModel model_provided) (\<lambda>_.
      res_bind (admitted_entry exec input config agent_provided) (\<lambda>(agent, e).
      res_bind (resolve_effort_selection agent input effort_provided) (\<lambda>effort.
      res_bind (resolve_model_selection agent input e model_provided) (\<lambda>(model, source).
      res_bind (check_agent_support codec env agent input e (provided_by profile profile_permission_mode)) (\<lambda>_.
      Inr \<lparr>admitted_agent = agent, config_revision = snapshot_revision config, adapter_version = version,
        admitted_model = model, model_source = source, admitted_effort = effort,
        developer_instructions = kept_instructions agent instructions\<rparr>)))))))"

definition resolve_admission ::
    "json_codec \<Rightarrow> service_env \<Rightarrow> (path \<Rightarrow> bool) \<Rightarrow> string \<Rightarrow> GeneralSubmitInput \<Rightarrow> AgentConfigSnapshot \<Rightarrow> RpcError + AdmissionIdentity" where
  "resolve_admission codec env exec version input config =
     (case resolve_admission_with_instructions codec env exec version input config None None of
        Inl f \<Rightarrow> Inl (failure_error f) | Inr identity \<Rightarrow> Inr identity)"

section \<open>What admission guarantees\<close>

text \<open>The selection of a model that an agent's runtime can be given.\<close>

definition model_admissible :: "string \<Rightarrow> GeneralSubmitInput \<Rightarrow> AgentConfigEntry \<Rightarrow> string option \<Rightarrow> string \<Rightarrow> bool" where
  "model_admissible agent input e model source \<longleftrightarrow>
     (case model of
        None \<Rightarrow> agent \<notin> {''zcode'', ''codex''} \<and> source = ''native''
          \<and> (agent \<in> {''dsh'', ''agy''} \<longrightarrow> submit_model input = None \<and> entry_default_model e = None)
      | Some token \<Rightarrow>
          (if source = ''spawn_catalog'' then map_option trim (submit_model input) = Some token
           else source = ''configured_default'' \<and> agent \<noteq> ''zcode'' \<and> submit_model input = None
             \<and> map_option trim (entry_default_model e) = Some token)
          \<and> token \<noteq> [] \<and> CHR 0x00 \<notin> set token
          \<and> (agent = ''zcode'' \<longrightarrow> (\<exists>provider name. provider_model_matches token provider name))
          \<and> (agent = ''dsh'' \<longrightarrow> (\<exists>provider name. token = provider @ '':'' @ name \<and> provider \<noteq> [] \<and> name \<noteq> [] \<and> CHR '':'' \<notin> set provider))
          \<and> (agent = ''codex'' \<longrightarrow> length token \<le> 128 \<and> CHR ''/'' \<notin> set token)
          \<and> (agent = ''agy'' \<longrightarrow> agy_model_is_valid token))"

definition support_admissible :: "service_env \<Rightarrow> string \<Rightarrow> GeneralSubmitInput \<Rightarrow> AgentConfigEntry \<Rightarrow> bool" where
  "support_admissible env agent input e \<longleftrightarrow>
     (let m = submit_manifest input in
      (agent = ''dsh'' \<longrightarrow> manifest_permission_mode m \<in> {None, Some BuildMode, Some PlanMode}
         \<and> length (manifest_write m) \<le> MAX_DSH_WRITE_MANIFEST_ENTRIES)
      \<and> (agent = ''agy'' \<longrightarrow> manifest_permission_mode m \<in> {None, Some BuildMode, Some YoloMode} \<and> manifest_write m = [])
      \<and> (agent = ''codex'' \<longrightarrow> manifest_write m = [] \<and> (entry_home e \<noteq> None \<or> env_codex_home env \<noteq> None)))"

definition effort_admissible :: "string \<Rightarrow> GeneralSubmitInput \<Rightarrow> string option \<Rightarrow> bool" where
  "effort_admissible agent input effort \<longleftrightarrow>
     effort = map_option trim (submit_effort input)
     \<and> (\<forall>t. effort = Some t \<longrightarrow> t \<noteq> [] \<and> length t \<le> 24 \<and> list_all effort_byte t
          \<and> (agent = ''codex'' \<longrightarrow> t \<in> {''low'', ''medium'', ''high'', ''xhigh'', ''max''})
          \<and> (agent = ''agy'' \<longrightarrow> t \<in> {''low'', ''medium'', ''high'', ''max''}))"

lemma normalized_zcode_ok:
  assumes "normalized_zcode_model token = Some m"
  shows "m = token \<and> token \<noteq> [] \<and> CHR 0x00 \<notin> set token \<and> (\<exists>provider name. provider_model_matches token provider name)"
proof -
  obtain provider name where n: "normalized_model_reference token = Some (provider, name)" and m: "m = token" "CHR ''/'' \<in> set token"
    using assms by (auto simp: normalized_zcode_model_def split: if_splits option.splits)
  obtain model where s: "split_once CHR ''/'' token = Some (provider, model)" "name = to_ascii_lowercase model"
    "is_provider_segment provider" "model \<noteq> []" "CHR ''/'' \<notin> set model" "length token \<le> 128" "CHR 0x00 \<notin> set token" "token \<noteq> []"
    using n m(2) split_once_None [of "CHR ''/''" token]
    by (auto simp: normalized_model_reference_def split: if_splits option.splits prod.splits)
  from s(1,6,7) have "length model \<le> 128" "CHR 0x00 \<notin> set model" by (auto simp: split_once_Some)
  with s n m have "provider_model_matches token provider model"
    by (simp add: provider_model_matches_def normalized_scoped_model_def)
  with s m show ?thesis by blast
qed

lemma resolve_model_ok:
  assumes "resolve_model_selection agent input e provided = Inr (model, source)"
  shows "model_admissible agent input e model source"
proof -
  have token: "if selection_source input = ''spawn_catalog'' then map_option trim (submit_model input) = Some t
      else submit_model input = None \<and> map_option trim (entry_default_model e) = Some t"
    if "selected_token input e = Some t" for t
    using that by (auto simp: selection_source_def selected_token_def split: option.splits)
  have none: "submit_model input = None \<and> entry_default_model e = None" if "selected_token input e = None"
    using that by (auto simp: selected_token_def split: option.splits)
  have sources: "selection_source input = ''spawn_catalog'' \<or> selection_source input = ''configured_default''"
    by (simp add: selection_source_def)
  have colon: "\<exists>provider name. t = provider @ '':'' @ name \<and> provider \<noteq> [] \<and> name \<noteq> [] \<and> CHR '':'' \<notin> set provider"
    "t \<noteq> []" "CHR 0x00 \<notin> set t" if "parse_colon_token t = Inr pm" for t pm
    using that by (auto 4 4 simp: parse_colon_token_def split_once_Some split: if_splits option.splits)
  have chosen: "model_admissible agent input e (Some t) (selection_source input)"
    if "selected_token input e = Some t" "agent \<noteq> ''zcode''" "t \<noteq> []" "CHR 0x00 \<notin> set t"
      "agent = ''dsh'' \<Longrightarrow> \<exists>provider name. t = provider @ '':'' @ name \<and> provider \<noteq> [] \<and> name \<noteq> [] \<and> CHR '':'' \<notin> set provider"
      "agent = ''codex'' \<Longrightarrow> length t \<le> 128 \<and> CHR ''/'' \<notin> set t" "agent = ''agy'' \<Longrightarrow> agy_model_is_valid t" for t
    using token [OF that(1)] that(2-) sources by (auto simp: model_admissible_def)
  have native: "model_admissible agent input e None ''native''" if "selected_token input e = None" "agent \<in> {''dsh'', ''agy''}"
    using none [OF that(1)] that(2) by (auto simp: model_admissible_def)
  consider (dsh) "agent = ''dsh''" | (codex) "agent = ''codex''" | (agy) "agent = ''agy''" | (zcode) "agent = ''zcode''"
    | (other) "agent \<notin> {''dsh'', ''codex'', ''agy'', ''zcode''}" by blast
  then show ?thesis
  proof cases
    case dsh
    show ?thesis
    proof (cases "selected_token input e")
      case None
      with dsh assms native show ?thesis by (simp add: resolve_model_selection_def)
    next
      case (Some t)
      with dsh assms obtain pm where pm: "parse_colon_token t = Inr pm" and r: "model = Some t" "source = selection_source input"
        by (auto simp: resolve_model_selection_def refuse_def split: sum.splits)
      show ?thesis unfolding r by (rule chosen [OF Some]) (use dsh colon [OF pm] in simp_all)
    qed
  next
    case codex
    with assms obtain t where t: "selected_token input e = Some t" "model = Some t" "source = selection_source input"
      "t \<noteq> []" "length t \<le> 128" "CHR 0x00 \<notin> set t" "CHR ''/'' \<notin> set t"
      by (auto simp: resolve_model_selection_def refuse_def split: option.splits if_splits)
    show ?thesis unfolding t(2,3) by (rule chosen [OF t(1)]) (use codex t in simp_all)
  next
    case agy
    show ?thesis
    proof (cases "selected_token input e")
      case None
      with agy assms native show ?thesis by (simp add: resolve_model_selection_def)
    next
      case (Some t)
      with agy assms have r: "agy_model_is_valid t" "model = Some t" "source = selection_source input"
        by (auto simp: resolve_model_selection_def refuse_def split: if_splits)
      show ?thesis unfolding r(2,3) by (rule chosen [OF Some]) (use agy r(1) in \<open>simp_all add: agy_model_is_valid_def\<close>)
    qed
  next
    case zcode
    obtain raw where raw: "submit_model input = Some raw"
      using zcode assms by (cases "submit_model input") (simp_all add: resolve_model_selection_def refuse_def)
    obtain m where m: "normalized_zcode_model (trim raw) = Some m" "model = Some m" "source = ''spawn_catalog''"
      using zcode assms raw by (cases "normalized_zcode_model (trim raw)") (simp_all add: resolve_model_selection_def refuse_def)
    with zcode raw normalized_zcode_ok [OF m(1)] show ?thesis by (simp add: model_admissible_def)
  next
    case other
    with assms show ?thesis by (auto simp: resolve_model_selection_def model_admissible_def)
  qed
qed

lemma resolve_effort_ok:
  "resolve_effort_selection agent input provided = Inr effort \<Longrightarrow> effort_admissible agent input effort"
  by (auto simp: resolve_effort_selection_def effort_admissible_def refuse_def Let_def split: option.splits if_splits)

lemma check_support_ok:
  assumes "check_agent_support codec env agent input e provided = Inr u"
  shows "support_admissible env agent input e"
proof -
  have mode: "m \<in> {None, Some BuildMode, x}" if "(case m of Some y \<Rightarrow> y | None \<Rightarrow> BuildMode) \<in> {BuildMode, the x}" "x \<noteq> None"
    for m x :: "PermissionMode option"
    using that by (cases m) auto
  consider "agent = ''dsh''" | "agent = ''agy''" | "agent = ''codex''" | "agent \<notin> {''dsh'', ''agy'', ''codex''}" by blast
  then show ?thesis
  proof cases
    case 1
    with assms mode [of "manifest_permission_mode (submit_manifest input)" "Some PlanMode"] show ?thesis
      by (simp add: check_agent_support_def support_admissible_def refuse_def Let_def not_less split: if_splits)
  next
    case 2
    with assms mode [of "manifest_permission_mode (submit_manifest input)" "Some YoloMode"] show ?thesis
      by (simp add: check_agent_support_def support_admissible_def refuse_def Let_def split: if_splits)
  next
    case 3
    with assms show ?thesis
      by (simp add: check_agent_support_def support_admissible_def refuse_def Let_def split: if_splits)
  qed (simp add: support_admissible_def Let_def)
qed

lemma admitted_entry_ok:
  assumes "admitted_entry exec input config provided = Inr (agent, e)"
  shows "map_of (subagents config) agent = Some e" "entry_enabled e" "effective_spawn_supported exec agent e"
    "agent = (case submit_agent input of Some a \<Rightarrow> a | None \<Rightarrow> the (default_subagent config))"
  using assms by (auto simp: admitted_entry_def refuse_def split: option.splits if_splits)


definition codex_config :: AgentConfigSnapshot where
  "codex_config = \<lparr>config_schema_version = 2, snapshot_revision = 7, default_subagent = Some ''codex'', runtime_process_model = None,
     subagents = [(''codex'', \<lparr>entry_enabled = True, entry_spawn_supported = True, entry_default_model = Some ''gpt'',
       entry_runtime_path = Some ''/bin/codex'', entry_home = Some ''/h'', entry_profile = None, entry_version = None\<rparr>)]\<rparr>"

definition plain_submit :: "string option \<Rightarrow> GeneralSubmitInput" where
  "plain_submit effort = \<lparr>submit_profile = None, submit_agent = None, submit_model = None, submit_effort = effort, submit_instructions = None,
     submit_manifest = \<lparr>manifest_schema = GENERAL_TASK_SCHEMA, manifest_agent_id = [], manifest_repository = ''/w'',
       manifest_permission_mode = None, manifest_prompt = ''p'', manifest_write = []\<rparr>\<rparr>"


lemma blame_model:
  assumes "resolve_model_selection agent input e prov = Inl x"
  shows "failure_field x = FieldModel \<and> (profile_provided x \<longrightarrow> prov)"
proof -
  consider "agent = ''dsh''" | "agent = ''codex''" | "agent = ''agy''" | "agent = ''zcode''"
    | "agent \<notin> {''dsh'', ''codex'', ''agy'', ''zcode''}" by blast
  then show ?thesis
    using assms by cases (auto simp: resolve_model_selection_def refuse_def split: option.splits sum.splits if_splits)
qed

lemma blame:
  "check_text v name field prov = Inl x \<Longrightarrow> failure_field x = field \<and> profile_provided x = prov"
  "admitted_entry exec input config prov = Inl x \<Longrightarrow> failure_field x = FieldSubagent \<and> (profile_provided x \<longrightarrow> prov)"
  "resolve_effort_selection agent input prov = Inl x \<Longrightarrow> failure_field x = FieldEffort \<and> profile_provided x = prov"
  "resolve_model_selection agent input e prov = Inl x \<Longrightarrow> failure_field x = FieldModel \<and> (profile_provided x \<longrightarrow> prov)"
  "check_agent_support codec env agent input e prov = Inl x \<Longrightarrow>
     profile_provided x \<longrightarrow> failure_field x = FieldPermissionMode \<and> prov"
      apply (auto simp: check_text_def split: option.splits sum.splits) [1]
     apply (auto simp: admitted_entry_def refuse_def split: option.splits if_splits) [1]
    apply (auto simp: resolve_effort_selection_def refuse_def Let_def split: option.splits if_splits) [1]
   apply (erule blame_model)
  apply (auto simp: check_agent_support_def refuse_def Let_def split: if_splits) [1]
  done

text \<open>
  A refusal is blamed on the profile only when the profile has the field that was refused, so the message
  that names a profile file and a field names one that is there.
\<close>

theorem refusal_attributed:
  assumes "resolve_admission_with_instructions codec env exec version input config instructions profile = Inl failure"
    and "profile_provided failure"
  shows "\<exists>p. profile = Some p \<and>
    (case failure_field failure of
       FieldModel \<Rightarrow> profile_model p \<noteq> None \<and> submit_model input \<noteq> None
     | FieldEffort \<Rightarrow> profile_effort p \<noteq> None \<and> submit_effort input \<noteq> None
     | FieldSubagent \<Rightarrow> profile_subagent p \<noteq> None \<and> submit_agent input \<noteq> None
     | FieldPermissionMode \<Rightarrow> profile_permission_mode p \<noteq> None
     | FieldNone \<Rightarrow> False)"
proof -
  consider (agent) prov where "check_text (submit_agent input) ''agent'' FieldSubagent prov = Inl failure"
      "prov \<longrightarrow> submit_agent input \<noteq> None \<and> provided_by profile profile_subagent"
    | (model) prov where "check_text (submit_model input) ''model'' FieldModel prov = Inl failure"
      "prov \<longrightarrow> submit_model input \<noteq> None \<and> provided_by profile profile_model"
    | (configured) prov where "admitted_entry exec input config prov = Inl failure"
      "prov \<longrightarrow> submit_agent input \<noteq> None \<and> provided_by profile profile_subagent"
    | (effort) agent prov where "resolve_effort_selection agent input prov = Inl failure"
      "prov \<longrightarrow> submit_effort input \<noteq> None \<and> provided_by profile profile_effort"
    | (selection) agent e prov where "resolve_model_selection agent input e prov = Inl failure"
      "prov \<longrightarrow> submit_model input \<noteq> None \<and> provided_by profile profile_model"
    | (support) agent e where "check_agent_support codec env agent input e (provided_by profile profile_permission_mode) = Inl failure"
    using assms(1) unfolding resolve_admission_with_instructions_def Let_def res_bind_def
    by (auto split: sum.splits)
  then show ?thesis
    using assms(2) by cases (auto dest!: blame simp: provided_by_def split: option.splits)
qed

definition effort_profile :: Profile where
  "effort_profile = \<lparr>profile_name = ''review'', profile_subagent = None, profile_permission_mode = None, profile_model = None,
     profile_effort = Some ''ultra'', profile_instructions = None, profile_source_path = ''/p/r.json''\<rparr>"

theorem refusal_attributed_witness:
  "\<exists>failure. resolve_admission_with_instructions printing_codec sample_env (\<lambda>_. True) ''1'' (plain_submit (Some ''ultra'')) codex_config
      None (Some effort_profile) = Inl failure
     \<and> profile_provided failure \<and> failure_field failure = FieldEffort \<and> profile_effort effort_profile \<noteq> None"
proof -
  let ?r = "resolve_admission_with_instructions printing_codec sample_env (\<lambda>_. True) ''1'' (plain_submit (Some ''ultra'')) codex_config
      None (Some effort_profile)"
  have "isl ?r \<and> profile_provided (projl ?r) \<and> failure_field (projl ?r) = FieldEffort" by code_simp
  then obtain failure where f: "?r = Inl failure" "profile_provided failure" "failure_field failure = FieldEffort" by (cases ?r) auto
  from refusal_attributed [OF f(1,2)] f show ?thesis by auto
qed

end
