(* ===== verification/Agy_Wire.thy ===== *)
theory Agy_Wire
  imports Agent_Admission
begin

text \<open>
  The stream of the \<open>agy\<close> agent (\<open>subagents/agy/src/{event,activity,session}.rs\<close>): the events of a line of
  its output, the tool activity of a step and the classification of the end of a turn. The derived
  readers are the functions from values to records that the attributes of the types generate.
\<close>

section \<open>Derived readers\<close>

text \<open>
  The reader of a structure takes an object, whose members it looks up by name, or an array, whose
  elements are the fields in order. An array may end early only where the remaining fields have a default,
  and has no further elements.
\<close>

definition struct_fields :: "(string \<times> bool) list \<Rightarrow> json \<Rightarrow> (string \<Rightarrow> json option) option" where
  "struct_fields names v =
     (case v of
        JObject ms \<Rightarrow> Some (map_of ms)
      | JArray xs \<Rightarrow>
          if length xs \<le> length names \<and> list_all snd (drop (length xs) names)
          then Some (map_of (zip (map fst names) xs)) else None
      | _ \<Rightarrow> None)"

definition read_text :: "json option \<Rightarrow> string option" where
  "read_text v = Option.bind v as_str"

definition default_text :: "json option \<Rightarrow> string option" where
  "default_text v = (case v of None \<Rightarrow> Some [] | Some x \<Rightarrow> as_str x)"

definition optional_field :: "(json \<Rightarrow> 'a option) \<Rightarrow> json option \<Rightarrow> 'a option option" where
  "optional_field read v =
     (case v of None \<Rightarrow> Some None | Some x \<Rightarrow> if json_is_null x then Some None else map_option Some (read x))"

definition default_u64 :: "json option \<Rightarrow> nat option" where
  "default_u64 v = (case v of None \<Rightarrow> Some 0 | Some x \<Rightarrow> as_u64 x)"

fun as_number :: "json \<Rightarrow> json_number option" where
  "as_number (JNumber n) = Some n"
| "as_number _ = None"

fun read_all :: "('a \<Rightarrow> 'b option) \<Rightarrow> 'a list \<Rightarrow> 'b list option" where
  "read_all read [] = Some []"
| "read_all read (x # xs) = Option.bind (read x) (\<lambda>y. map_option ((#) y) (read_all read xs))"

definition default_list :: "(json \<Rightarrow> 'a option) \<Rightarrow> json option \<Rightarrow> 'a list option" where
  "default_list read v = (case v of None \<Rightarrow> Some [] | Some x \<Rightarrow> Option.bind (as_array x) (read_all read))"

section \<open>Events\<close>

datatype StepState = StepActive | StepDone | StepStateOther string

definition step_state_of :: "string \<Rightarrow> StepState" where
  "step_state_of raw =
     (if raw = ''ACTIVE'' then StepActive else if raw = ''DONE'' then StepDone else StepStateOther raw)"

datatype StepType = UserInputStep | AgentResponseStep | ToolStep | SystemMessageStep | CheckpointStep | OtherStep string

definition step_type_of :: "string \<Rightarrow> StepType" where
  "step_type_of raw =
     (if raw = ''user_input'' then UserInputStep
      else if raw = ''agent_response'' then AgentResponseStep
      else if raw = ''tool'' then ToolStep
      else if raw = ''system_message'' then SystemMessageStep
      else if raw = ''checkpoint'' then CheckpointStep
      else OtherStep raw)"

fun step_type_text :: "StepType \<Rightarrow> string" where
  "step_type_text UserInputStep = ''user_input''"
| "step_type_text AgentResponseStep = ''agent_response''"
| "step_type_text ToolStep = ''tool''"
| "step_type_text SystemMessageStep = ''system_message''"
| "step_type_text CheckpointStep = ''checkpoint''"
| "step_type_text (OtherStep name) = name"

datatype ResultStatus =
    StatusSuccess | StatusError | StatusCanceled | StatusInterrupted | StatusInvalid | StatusWaiting | StatusRunning
  | StatusOther string

fun result_status_text :: "ResultStatus \<Rightarrow> string" where
  "result_status_text StatusSuccess = ''SUCCESS''"
| "result_status_text StatusError = ''ERROR''"
| "result_status_text StatusCanceled = ''CANCELED''"
| "result_status_text StatusInterrupted = ''INTERRUPTED''"
| "result_status_text StatusInvalid = ''INVALID''"
| "result_status_text StatusWaiting = ''WAITING''"
| "result_status_text StatusRunning = ''RUNNING''"
| "result_status_text (StatusOther status) = status"

definition result_status_of :: "string \<Rightarrow> ResultStatus" where
  "result_status_of raw =
     (if raw = ''SUCCESS'' then StatusSuccess
      else if raw = ''ERROR'' then StatusError
      else if raw = ''CANCELED'' then StatusCanceled
      else if raw = ''INTERRUPTED'' then StatusInterrupted
      else if raw = ''INVALID'' then StatusInvalid
      else if raw = ''WAITING'' then StatusWaiting
      else if raw = ''RUNNING'' then StatusRunning
      else StatusOther raw)"

record Usage =
  usage_input_tokens :: nat
  usage_output_tokens :: nat
  usage_thinking_tokens :: nat
  usage_cache_read_tokens :: nat
  usage_total_tokens :: nat

definition usage_from_value :: "json \<Rightarrow> Usage option" where
  "usage_from_value v =
     Option.bind (struct_fields [(''input_tokens'', True), (''output_tokens'', True), (''thinking_tokens'', True),
       (''cache_read_tokens'', True), (''total_tokens'', True)] v) (\<lambda>get.
     Option.bind (default_u64 (get ''input_tokens'')) (\<lambda>a.
     Option.bind (default_u64 (get ''output_tokens'')) (\<lambda>b.
     Option.bind (default_u64 (get ''thinking_tokens'')) (\<lambda>c.
     Option.bind (default_u64 (get ''cache_read_tokens'')) (\<lambda>d.
     Option.bind (default_u64 (get ''total_tokens'')) (\<lambda>e.
       Some \<lparr>usage_input_tokens = a, usage_output_tokens = b, usage_thinking_tokens = c, usage_cache_read_tokens = d,
             usage_total_tokens = e\<rparr>))))))"

record ToolInfo =
  tool_info_name :: "string option"
  tool_info_parameters :: "json option"
  tool_info_output :: "json option"

definition tool_info_from_value :: "json \<Rightarrow> ToolInfo option" where
  "tool_info_from_value v =
     Option.bind (struct_fields [(''name'', False), (''parameters'', False), (''output'', False)] v) (\<lambda>get.
     Option.bind (optional_field as_str (get ''name'')) (\<lambda>a.
     Option.bind (optional_field Some (get ''parameters'')) (\<lambda>b.
     Option.bind (optional_field Some (get ''output'')) (\<lambda>c.
       Some \<lparr>tool_info_name = a, tool_info_parameters = b, tool_info_output = c\<rparr>))))"

record DeniedAction =
  denied_name :: string
  denied_display_name :: string

definition denied_from_value :: "json \<Rightarrow> DeniedAction option" where
  "denied_from_value v =
     Option.bind (struct_fields [(''action'', True), (''display_name'', True)] v) (\<lambda>get.
     Option.bind (default_text (get ''action'')) (\<lambda>a.
     Option.bind (default_text (get ''display_name'')) (\<lambda>b.
       Some \<lparr>denied_name = a, denied_display_name = b\<rparr>)))"

record InitInfo =
  init_cwd :: "string option"
  init_tools :: "string list"
  init_permission_mode :: "string option"

definition init_from_value :: "json \<Rightarrow> InitInfo option" where
  "init_from_value v =
     Option.bind (struct_fields [(''cwd'', False), (''tools'', True), (''permission_mode'', False)] v) (\<lambda>get.
     Option.bind (optional_field as_str (get ''cwd'')) (\<lambda>a.
     Option.bind (default_list as_str (get ''tools'')) (\<lambda>b.
     Option.bind (optional_field as_str (get ''permission_mode'')) (\<lambda>c.
       Some \<lparr>init_cwd = a, init_tools = b, init_permission_mode = c\<rparr>))))"

record StepUpdate =
  step_conversation :: string
  step_index :: nat
  step_state :: StepState
  step_type :: StepType
  step_text_delta :: "string option"
  step_tool_name :: "string option"
  step_tool_info :: "ToolInfo option"
  step_duration :: "json_number option"
  step_usage :: "Usage option"

definition step_from_value :: "json \<Rightarrow> StepUpdate option" where
  "step_from_value v =
     Option.bind (struct_fields [(''conversation_id'', True), (''step_index'', False), (''state'', False), (''step_type'', False),
       (''text_delta'', False), (''tool_name'', False), (''tool_info'', False), (''duration_seconds'', False), (''usage'', False)] v) (\<lambda>get.
     Option.bind (default_text (get ''conversation_id'')) (\<lambda>conversation.
     Option.bind (Option.bind (get ''step_index'') as_u64) (\<lambda>index.
     Option.bind (read_text (get ''state'')) (\<lambda>state.
     Option.bind (read_text (get ''step_type'')) (\<lambda>kind.
     Option.bind (optional_field as_str (get ''text_delta'')) (\<lambda>delta.
     Option.bind (optional_field as_str (get ''tool_name'')) (\<lambda>tool.
     Option.bind (optional_field tool_info_from_value (get ''tool_info'')) (\<lambda>info.
     Option.bind (optional_field as_number (get ''duration_seconds'')) (\<lambda>duration.
     Option.bind (optional_field usage_from_value (get ''usage'')) (\<lambda>usage.
       Some \<lparr>step_conversation = conversation, step_index = index, step_state = step_state_of state,
             step_type = step_type_of kind, step_text_delta = delta, step_tool_name = tool, step_tool_info = info,
             step_duration = duration, step_usage = usage\<rparr>))))))))))"

record ResultPayload =
  result_conversation :: string
  result_status :: ResultStatus
  result_response :: string
  result_error :: "string option"
  result_denied_actions :: "DeniedAction list"
  result_structured_output :: "json option"
  result_json_schema :: "json option"
  result_duration :: "json_number option"
  result_num_turns :: nat
  result_usage :: "Usage option"

definition result_from_value :: "json \<Rightarrow> ResultPayload option" where
  "result_from_value v =
     Option.bind (struct_fields [(''conversation_id'', True), (''status'', False), (''response'', True), (''error'', False),
       (''denied_actions'', True), (''structured_output'', False), (''json_schema'', False), (''duration_seconds'', False),
       (''num_turns'', True), (''usage'', False)] v) (\<lambda>get.
     Option.bind (default_text (get ''conversation_id'')) (\<lambda>conversation.
     Option.bind (read_text (get ''status'')) (\<lambda>status.
     Option.bind (default_text (get ''response'')) (\<lambda>response.
     Option.bind (optional_field as_str (get ''error'')) (\<lambda>error.
     Option.bind (default_list denied_from_value (get ''denied_actions'')) (\<lambda>denied.
     Option.bind (optional_field Some (get ''structured_output'')) (\<lambda>structured.
     Option.bind (optional_field Some (get ''json_schema'')) (\<lambda>schema.
     Option.bind (optional_field as_number (get ''duration_seconds'')) (\<lambda>duration.
     Option.bind (default_u64 (get ''num_turns'')) (\<lambda>turns.
     Option.bind (optional_field usage_from_value (get ''usage'')) (\<lambda>usage.
       Some \<lparr>result_conversation = conversation, result_status = result_status_of status, result_response = response,
             result_error = error, result_denied_actions = denied, result_structured_output = structured,
             result_json_schema = schema, result_duration = duration, result_num_turns = turns, result_usage = usage\<rparr>)))))))))))"

datatype AgyEvent =
    AgyInit string InitInfo
  | AgyStep StepUpdate
  | AgyResult ResultPayload
  | AgyUnknown "string option" json

fun agy_conversation_id :: "AgyEvent \<Rightarrow> string option" where
  "agy_conversation_id (AgyInit c _) = (if c \<noteq> [] then Some c else None)"
| "agy_conversation_id (AgyStep s) = (if step_conversation s \<noteq> [] then Some (step_conversation s) else None)"
| "agy_conversation_id (AgyResult r) = (if result_conversation r \<noteq> [] then Some (result_conversation r) else None)"
| "agy_conversation_id (AgyUnknown _ _) = None"

definition payload_of :: "json \<Rightarrow> string \<Rightarrow> json" where
  "payload_of raw k = (case json_get raw k of Some v \<Rightarrow> v | None \<Rightarrow> JNull)"

definition fallback_conversation_id :: "json \<Rightarrow> string \<Rightarrow> string" where
  "fallback_conversation_id raw c =
     (if c = [] then (case get_str raw ''conversation_id'' of Some outer \<Rightarrow> outer | None \<Rightarrow> c) else c)"

text \<open>No event is what the code reports as an error of the reader.\<close>

definition agy_event_of :: "json \<Rightarrow> AgyEvent option" where
  "agy_event_of raw =
     (case get_str raw ''event'' of
        None \<Rightarrow> Some (AgyUnknown None raw)
      | Some name \<Rightarrow>
          if name = ''init''
          then map_option (AgyInit (case get_str raw ''conversation_id'' of Some c \<Rightarrow> c | None \<Rightarrow> []))
                 (init_from_value (payload_of raw ''init''))
          else if name = ''step_update''
          then map_option (\<lambda>s. AgyStep (s\<lparr>step_conversation := fallback_conversation_id raw (step_conversation s)\<rparr>))
                 (step_from_value (payload_of raw ''step_update''))
          else if name = ''result''
          then map_option (\<lambda>r. AgyResult (r\<lparr>result_conversation := fallback_conversation_id raw (result_conversation r)\<rparr>))
                 (result_from_value (payload_of raw ''result''))
          else Some (AgyUnknown (Some name) raw))"

definition parse_agy_line :: "json_codec \<Rightarrow> string \<Rightarrow> AgyEvent option" where
  "parse_agy_line codec line = Option.bind (decoded codec line) agy_event_of"

section \<open>Tool activity\<close>

datatype ToolPhase = PhaseStarted | PhaseResult

record ToolActivity =
  activity_conversation :: string
  activity_step_index :: nat
  activity_tool_name :: "string option"
  activity_phase :: ToolPhase

definition agy_tool_call_id :: "ToolActivity \<Rightarrow> string" where
  "agy_tool_call_id a = activity_conversation a @ '':'' @ to_decimal (activity_step_index a)"

definition tool_activity_event :: "ToolActivity \<Rightarrow> string \<Rightarrow> string \<Rightarrow> json" where
  "tool_activity_event a event turn =
     (case activity_phase a of
        PhaseStarted \<Rightarrow> tool_started_event event turn (agy_tool_call_id a) (activity_tool_name a)
      | PhaseResult \<Rightarrow> tool_result_event event turn (agy_tool_call_id a))"

definition tool_activity :: "AgyEvent \<Rightarrow> ToolActivity option" where
  "tool_activity event =
     (case event of
        AgyStep s \<Rightarrow>
          if step_type s \<noteq> ToolStep then None
          else
            map_option (\<lambda>stage.
              \<lparr>activity_conversation = step_conversation s, activity_step_index = step_index s,
               activity_tool_name = (case Option.bind (step_tool_info s) tool_info_name of
                 Some name \<Rightarrow> Some name | None \<Rightarrow> step_tool_name s),
               activity_phase = stage\<rparr>)
              (case step_state s of
                 StepActive \<Rightarrow> Some PhaseStarted | StepDone \<Rightarrow> Some PhaseResult | StepStateOther _ \<Rightarrow> None)
      | _ \<Rightarrow> None)"

definition canonical_activity :: "AgyEvent \<Rightarrow> string \<Rightarrow> string \<Rightarrow> json option" where
  "canonical_activity event eid turn = map_option (\<lambda>a. tool_activity_event a eid turn) (tool_activity event)"

section \<open>The end of a turn\<close>

definition INTERRUPTED_ERROR :: string where
  "INTERRUPTED_ERROR = ''interrupted''"

datatype TurnOutcome =
    TurnCompleted string
  | TurnCancelled string string
  | TurnFailed string

record TurnSettlement =
  settlement_conversation :: string
  settlement_status :: ResultStatus
  settlement_num_turns :: nat
  settlement_outcome :: TurnOutcome
  settlement_denied_actions :: "DeniedAction list"

record TurnClassifier =
  classifier_conversation :: "string option"
  classifier_last_step :: "nat option"
  classifier_continuous :: bool
  classifier_num_turns :: nat
  classifier_settled :: "TurnSettlement option"

definition turn_classifier_new :: TurnClassifier where
  "turn_classifier_new = \<lparr>classifier_conversation = None, classifier_last_step = None, classifier_continuous = True,
     classifier_num_turns = 0, classifier_settled = None\<rparr>"

definition ended_with_status :: "ResultPayload \<Rightarrow> string" where
  "ended_with_status r =
     (let error = (case result_error r of Some e \<Rightarrow> e | None \<Rightarrow> []) in
      if error \<noteq> [] then error else ''agy result ended with status '' @ result_status_text (result_status r))"

definition settle :: "ResultPayload \<Rightarrow> TurnSettlement" where
  "settle r =
     \<lparr>settlement_conversation = result_conversation r, settlement_status = result_status r,
      settlement_num_turns = result_num_turns r,
      settlement_outcome =
        (case result_status r of
           StatusSuccess \<Rightarrow> TurnCompleted (result_response r)
         | StatusInterrupted \<Rightarrow> TurnCancelled (result_response r) (case result_error r of Some e \<Rightarrow> e | None \<Rightarrow> ''interrupted'')
         | StatusCanceled \<Rightarrow> TurnCancelled (result_response r) (case result_error r of Some e \<Rightarrow> e | None \<Rightarrow> ''canceled'')
         | StatusError \<Rightarrow>
             if result_error r = Some INTERRUPTED_ERROR then TurnCancelled (result_response r) INTERRUPTED_ERROR
             else TurnFailed (ended_with_status r)
         | _ \<Rightarrow> TurnFailed (ended_with_status r)),
      settlement_denied_actions = result_denied_actions r\<rparr>"

definition note_conversation_id :: "string \<Rightarrow> TurnClassifier \<Rightarrow> TurnClassifier" where
  "note_conversation_id c st = (if c \<noteq> [] then st\<lparr>classifier_conversation := Some c\<rparr> else st)"

definition note_step_index :: "nat \<Rightarrow> TurnClassifier \<Rightarrow> TurnClassifier" where
  "note_step_index index st =
     (case classifier_last_step st of
        None \<Rightarrow> st\<lparr>classifier_last_step := Some index\<rparr>
      | Some seen \<Rightarrow>
          if index = seen then st
          else if index = (seen + 1) mod 2 ^ 64 then st\<lparr>classifier_last_step := Some index\<rparr>
          else if seen < index then st\<lparr>classifier_continuous := False, classifier_last_step := Some index\<rparr>
          else st\<lparr>classifier_continuous := False\<rparr>)"

fun classifier_observe :: "AgyEvent \<Rightarrow> TurnClassifier \<Rightarrow> TurnSettlement option \<times> TurnClassifier" where
  "classifier_observe (AgyInit c _) st = (None, note_conversation_id c st)"
| "classifier_observe (AgyStep s) st = (None, note_step_index (step_index s) (note_conversation_id (step_conversation s) st))"
| "classifier_observe (AgyResult r) st =
     (Some (settle r),
      (note_conversation_id (result_conversation r) st)
        \<lparr>classifier_num_turns := max (classifier_num_turns st) (result_num_turns r), classifier_settled := Some (settle r)\<rparr>)"
| "classifier_observe (AgyUnknown _ _) st = (None, st)"

end
