(* ===== verification/Agy_Events.thy ===== *)
theory Agy_Events
  imports Agy_Wire
begin

text \<open>
  The runtime of the \<open>agy\<close> agent in the daemon (\<open>external-daemon/src/agy/{events,transport}.rs\<close> and the
  turns of \<open>owner.rs\<close>): the gate of the session start, the turns with the inputs buffered for them, and
  the projection of the agent's stream to the daemon's events.

  The mutex of the turn is held over each of \<open>begin_turn\<close>, \<open>buffer_input\<close> and the settlement of a result, so
  these are functions on the state. The state also keeps what the sink was handed, oldest first, and how
  often the clock was read: \<open>clock i\<close> answers its \<open>i\<close>th reading.
\<close>

section \<open>State\<close>

definition AGY_MAX_DIAGNOSTIC_BYTES :: nat where
  "AGY_MAX_DIAGNOSTIC_BYTES = 16 * 1024"

datatype AgyStartState = StartPending | StartReady | StartFailed string

record AgyShared =
  agy_publisher :: PublisherState
  agy_tracker :: TurnTrackerState
  agy_session :: "string option"
  agy_start :: AgyStartState
  agy_classifier :: TurnClassifier
  agy_turn_open :: bool
  agy_pending_inputs :: nat
  agy_sequence :: nat
  agy_stop_boundaries :: nat
  agy_diagnostics :: string
  agy_records :: "LifecycleRecord list"
  agy_clock_reads :: nat

definition agy_shared_new :: "PublisherState \<Rightarrow> AgyShared" where
  "agy_shared_new publisher =
     \<lparr>agy_publisher = publisher, agy_tracker = turn_tracker_new, agy_session = None, agy_start = StartPending,
      agy_classifier = turn_classifier_new, agy_turn_open = False, agy_pending_inputs = 0, agy_sequence = 0,
      agy_stop_boundaries = 0, agy_diagnostics = [], agy_records = [], agy_clock_reads = 0\<rparr>"

section \<open>Emission\<close>

definition agy_next_sequence :: "AgyShared \<Rightarrow> nat \<times> AgyShared" where
  "agy_next_sequence st = (agy_sequence st + 1, st\<lparr>agy_sequence := (agy_sequence st + 1) mod 2 ^ 64\<rparr>)"

definition next_event_id :: "AgyShared \<Rightarrow> string \<times> AgyShared" where
  "next_event_id st = (let (n, st') = agy_next_sequence st in (''agy-event-'' @ to_decimal n, st'))"

definition canonical_event :: "json \<Rightarrow> Inbound" where
  "canonical_event params = Message (Event \<lparr>event_method = SESSION_EVENT, event_params = params\<rparr>)"

definition agy_publish :: "Inbound \<Rightarrow> AgyShared \<Rightarrow> AgyShared" where
  "agy_publish event st =
     (let (records, publisher) = emit_driver event None (agy_publisher st) in
      st\<lparr>agy_publisher := publisher, agy_records := agy_records st @ records\<rparr>)"

definition agy_track :: "(nat \<Rightarrow> nat) \<Rightarrow> Inbound \<Rightarrow> AgyShared \<Rightarrow> AgyShared" where
  "agy_track clock event st =
     st\<lparr>agy_tracker := turn_observe (clock (agy_clock_reads st)) event (agy_tracker st),
        agy_clock_reads := agy_clock_reads st + 1\<rparr>"

definition emit_lifecycle :: "string \<Rightarrow> AgyShared \<Rightarrow> AgyShared" where
  "emit_lifecycle method st =
     (let (n, st') = agy_next_sequence st in
      agy_publish (LifecycleEvent n method (classify_lifecycle method False)) st')"

definition emit_and_observe :: "(nat \<Rightarrow> nat) \<Rightarrow> json \<Rightarrow> AgyShared \<Rightarrow> AgyShared" where
  "emit_and_observe clock params st = agy_publish (canonical_event params) (agy_track clock (canonical_event params) st)"

definition emit_boundary :: "(nat \<Rightarrow> nat) \<Rightarrow> json \<Rightarrow> string \<Rightarrow> AgyShared \<Rightarrow> AgyShared" where
  "emit_boundary clock params lifecycle st =
     emit_lifecycle lifecycle (agy_track clock (canonical_event params) (agy_publish (canonical_event params) st))"

definition note_session :: "string \<Rightarrow> AgyShared \<Rightarrow> AgyShared" where
  "note_session c st = (if c = [] then st else st\<lparr>agy_session := Some c\<rparr>)"

definition effective_turn_id :: "AgyShared \<Rightarrow> string" where
  "effective_turn_id st = (case agy_session st of Some c \<Rightarrow> if c \<noteq> [] then c else ''agy-session'' | None \<Rightarrow> ''agy-session'')"

definition streaming_payload :: "string \<Rightarrow> AgyShared \<Rightarrow> json \<times> AgyShared" where
  "streaming_payload delta st =
     (let (eid, st') = next_event_id st in
      (JObject [(''eventId'', JString eid),
         (''payload'', JObject [(''assistantMessageId'', JNull), (''delta'', JString delta), (''kind'', JString ''text_delta'')]),
         (''turnId'', JString (effective_turn_id st')), (''type'', JString ''model.streaming'')], st'))"

definition stream_delta :: "(nat \<Rightarrow> nat) \<Rightarrow> string \<Rightarrow> AgyShared \<Rightarrow> AgyShared" where
  "stream_delta clock delta st = (let (params, st') = streaming_payload delta st in emit_and_observe clock params st')"

section \<open>Turns\<close>

definition started_params :: json where
  "started_params = JObject [(''type'', JString ''turn.started'')]"

definition emit_started :: "(nat \<Rightarrow> nat) \<Rightarrow> AgyShared \<Rightarrow> AgyShared" where
  "emit_started clock st = emit_boundary clock started_params ''turn.started'' st"

definition begin_turn :: "(nat \<Rightarrow> nat) \<Rightarrow> AgyShared \<Rightarrow> AgyShared" where
  "begin_turn clock st = emit_started clock (st\<lparr>agy_turn_open := True\<rparr>)"

text \<open>The write of a buffered input succeeds or fails while the turn is locked.\<close>

definition buffer_input :: "RuntimeCommandError + unit \<Rightarrow> AgyShared \<Rightarrow> (RuntimeCommandError + unit) \<times> AgyShared" where
  "buffer_input written st =
     (let st' = st\<lparr>agy_pending_inputs := agy_pending_inputs st + 1\<rparr> in
      case written of
        Inl error \<Rightarrow> (Inl error, st'\<lparr>agy_pending_inputs := agy_pending_inputs st' - 1\<rparr>)
      | Inr _ \<Rightarrow> (Inr (), st'))"

definition agy_turn_snapshot :: "AgyShared \<Rightarrow> TurnSnapshot" where
  "agy_turn_snapshot st =
     (let snapshot = turn_snapshot (agy_tracker st) in
      snapshot\<lparr>turn_active := turn_active snapshot \<or> 0 < agy_pending_inputs st\<rparr>)"

definition begin_pending_turn :: "(nat \<Rightarrow> nat) \<Rightarrow> AgyShared \<Rightarrow> AgyShared" where
  "begin_pending_turn clock st =
     (let st' = emit_started clock (st\<lparr>agy_turn_open := True\<rparr>) in st'\<lparr>agy_pending_inputs := agy_pending_inputs st' - 1\<rparr>)"

section \<open>The start of the session\<close>

definition start_failure_error :: "string \<Rightarrow> RuntimeCommandError" where
  "start_failure_error why =
     (let bounded = concat (take 512 (chars why)) in
      if contains why ''invalid model'' \<or> contains why ''invalid effort'' \<or> contains why ''model selection''
      then ModelRejected bounded else InvalidSession bounded)"

text \<open>
  The \<open>k\<close>th wait for the gate reads the clock and gives the gate and the session found on waking, and
  whether the wait timed out.
\<close>

partial_function (option) wait_start ::
    "nat \<Rightarrow> (nat \<Rightarrow> nat \<times> AgyStartState \<times> string option \<times> bool) \<Rightarrow> nat \<Rightarrow> AgyStartState \<Rightarrow> string option
       \<Rightarrow> (RuntimeCommandError + string) option" where
  "wait_start deadline wake k start session =
     (case start of
        StartReady \<Rightarrow> Some (Inr (case session of Some c \<Rightarrow> c | None \<Rightarrow> []))
      | StartFailed why \<Rightarrow> Some (Inl (start_failure_error why))
      | StartPending \<Rightarrow>
          (case wake k of
             (now, start', session', timed_out) \<Rightarrow>
               if deadline \<le> now then Some (Inl CommandTimeout)
               else if timed_out \<and> start' = StartPending then Some (Inl CommandTimeout)
               else wait_start deadline wake (k + 1) start' session'))"

definition mark_start_ready :: "AgyShared \<Rightarrow> AgyShared" where
  "mark_start_ready st = (if agy_start st = StartPending then st\<lparr>agy_start := StartReady\<rparr> else st)"

section \<open>The end of a turn\<close>

definition denied_text :: "DeniedAction \<Rightarrow> string" where
  "denied_text d =
     (if denied_display_name d = [] then denied_name d else denied_name d @ '' ('' @ denied_display_name d @ '')'')"

definition bounded_tail :: "string \<Rightarrow> string" where
  "bounded_tail tail =
     (let excess = length tail - AGY_MAX_DIAGNOSTIC_BYTES in
      if 0 < excess then drop (next_char_boundary tail excess) tail else tail)"

definition record_denied_actions :: "DeniedAction list \<Rightarrow> AgyShared \<Rightarrow> AgyShared" where
  "record_denied_actions entries st =
     (if entries = [] then st
      else
        (let line = ''agy denied_actions: '' @ join_with '', '' (map denied_text entries);
             tail = agy_diagnostics st in
         st\<lparr>agy_diagnostics := bounded_tail ((if tail = [] then [] else tail @ [CHR 0x0A]) @ line)\<rparr>))"

definition boundary_params :: "string \<Rightarrow> string \<Rightarrow> string \<Rightarrow> json_object \<Rightarrow> json" where
  "boundary_params kind eid turn payload =
     JObject [(''eventId'', JString eid), (''payload'', JObject payload), (''turnId'', JString turn), (''type'', JString kind)]"

definition end_turn :: "(nat \<Rightarrow> nat) \<Rightarrow> string \<Rightarrow> string \<Rightarrow> json_object \<Rightarrow> AgyShared \<Rightarrow> AgyShared" where
  "end_turn clock kind turn payload st =
     (let (eid, st') = next_event_id st in emit_boundary clock (boundary_params kind eid turn payload) kind st')"

definition apply_settlement :: "(nat \<Rightarrow> nat) \<Rightarrow> TurnSettlement \<Rightarrow> AgyShared \<Rightarrow> AgyShared" where
  "apply_settlement clock settlement st =
     (let turn = effective_turn_id st in
      case settlement_outcome settlement of
        TurnCompleted answer \<Rightarrow> end_turn clock ''turn.completed'' turn [(''response'', JString answer)] st
      | TurnFailed error \<Rightarrow>
          end_turn clock ''turn.failed'' turn [(''reason_code'', JString error)]
            (record_denied_actions (settlement_denied_actions settlement) st)
      | TurnCancelled answer error \<Rightarrow>
          (let st' = record_denied_actions (settlement_denied_actions settlement) st in
           end_turn clock ''turn.failed'' turn [(''reason_code'', JString error)]
             (if answer = [] then st' else stream_delta clock answer st')))"

definition settle_start :: "ResultPayload \<Rightarrow> AgyShared \<Rightarrow> bool \<times> AgyShared" where
  "settle_start r st =
     (if agy_start st \<noteq> StartPending then (True, st)
      else if result_conversation r = []
      then (False, st\<lparr>agy_start := StartFailed (case result_error r of Some e \<Rightarrow> e
             | None \<Rightarrow> ''agy session start failed with status '' @ result_status_text (result_status r))\<rparr>)
      else (True, (note_session (result_conversation r) st)\<lparr>agy_start := StartReady\<rparr>))"

definition settle_turn :: "(nat \<Rightarrow> nat) \<Rightarrow> ResultPayload \<Rightarrow> AgyShared \<Rightarrow> AgyShared" where
  "settle_turn clock r st0 =
     (let st = (if \<not> agy_turn_open st0 \<and> 0 < agy_pending_inputs st0
                   \<and> classifier_num_turns (agy_classifier st0) < result_num_turns r
                then begin_pending_turn clock st0 else st0) in
      if \<not> agy_turn_open st then st
      else
        (let (settlement, classifier) = classifier_observe (AgyResult r) (agy_classifier st);
             st' = st\<lparr>agy_turn_open := False, agy_classifier := classifier\<rparr> in
         case settlement of None \<Rightarrow> st' | Some x \<Rightarrow> apply_settlement clock x st'))"

definition project_result :: "(nat \<Rightarrow> nat) \<Rightarrow> ResultPayload \<Rightarrow> AgyShared \<Rightarrow> AgyShared" where
  "project_result clock r st =
     (let (settling, st') = settle_start r st in if settling then settle_turn clock r st' else st')"

section \<open>The projection of the stream\<close>

definition user_input_step :: "(nat \<Rightarrow> nat) \<Rightarrow> StepUpdate \<Rightarrow> AgyShared \<Rightarrow> AgyShared" where
  "user_input_step clock s st =
     (if step_type s = UserInputStep \<and> \<not> agy_turn_open st \<and> 0 < agy_pending_inputs st
      then begin_pending_turn clock st else st)"

definition response_step :: "(nat \<Rightarrow> nat) \<Rightarrow> StepUpdate \<Rightarrow> AgyShared \<Rightarrow> AgyShared" where
  "response_step clock s st =
     (case step_text_delta s of
        Some delta \<Rightarrow> if step_type s = AgentResponseStep \<and> delta \<noteq> [] then stream_delta clock delta st else st
      | None \<Rightarrow> st)"

text \<open>The parameters of a started tool are added to the payload of its activity.\<close>

definition with_input :: "json \<Rightarrow> json \<Rightarrow> json" where
  "with_input input activity =
     (case activity of
        JObject ms \<Rightarrow>
          JObject (map (\<lambda>(k, v). (k, if k = ''payload''
            then (case v of JObject ps \<Rightarrow> JObject (map_insert ''input'' input ps) | _ \<Rightarrow> v) else v)) ms)
      | _ \<Rightarrow> activity)"

definition activity_step :: "(nat \<Rightarrow> nat) \<Rightarrow> StepUpdate \<Rightarrow> AgyShared \<Rightarrow> AgyShared" where
  "activity_step clock s st =
     (let (eid, st') = next_event_id st in
      case canonical_activity (AgyStep s) eid (effective_turn_id st') of
        None \<Rightarrow> st'
      | Some activity \<Rightarrow>
          emit_and_observe clock
            (case Option.bind (step_tool_info s) tool_info_parameters of
               Some input \<Rightarrow>
                 if Option.bind (json_get activity ''payload'') (\<lambda>p. json_get p ''kind'') = Some (JString ''started'')
                 then with_input input activity else activity
             | None \<Rightarrow> activity) st')"

fun project_event :: "(nat \<Rightarrow> nat) \<Rightarrow> AgyEvent \<Rightarrow> AgyShared \<Rightarrow> AgyShared" where
  "project_event clock (AgyInit c _) st = mark_start_ready (note_session c st)"
| "project_event clock (AgyStep s) st =
     activity_step clock s (response_step clock s (user_input_step clock s (note_session (step_conversation s) st)))"
| "project_event clock (AgyResult r) st = project_result clock r st"
| "project_event clock (AgyUnknown _ _) st = st"

definition project_agy_inbound :: "json_codec \<Rightarrow> (nat \<Rightarrow> nat) \<Rightarrow> Inbound \<Rightarrow> AgyShared \<Rightarrow> Inbound option \<times> AgyShared" where
  "project_agy_inbound codec clock event st =
     (case event of
        Message (UnknownEvent _ raw) \<Rightarrow>
          (None, case parse_agy_line codec (json_text codec raw) of Some parsed \<Rightarrow> project_event clock parsed st | None \<Rightarrow> st)
      | _ \<Rightarrow> (Some event, st))"

section \<open>The pump\<close>

text \<open>What is observed of the process group is empty, not empty, or unknown.\<close>

definition classify_agy_exit :: "bool option \<Rightarrow> ChildExit \<Rightarrow> AgyShared \<Rightarrow> RuntimeTerminal" where
  "classify_agy_exit group_empty exit st =
     (if group_empty = Some True
      then
        (if exit = ExitedCode (Some 0)
         then
           (let turn = turn_snapshot (agy_tracker st) in
            if \<not> turn_active turn \<and> turn_boundary turn = Some BoundaryCompleted
            then TerminalCompleted (AlreadyExited exit) else TerminalRuntimeLost EventStreamLost)
         else TerminalExited exit)
      else TerminalOrphaned UnknownMembership)"

definition agy_emit_terminal :: "Inbound \<Rightarrow> RuntimeTerminal option \<Rightarrow> AgyShared \<Rightarrow> AgyShared" where
  "agy_emit_terminal event ending st =
     (let (records, publisher) = emit_driver event ending (agy_publisher st) in
      st\<lparr>agy_publisher := publisher, agy_records := agy_records st @ records\<rparr>)"

text \<open>One round of the pump on a received event, and whether it goes on.\<close>

definition agy_pump_round :: "json_codec \<Rightarrow> (nat \<Rightarrow> nat) \<Rightarrow> bool option \<Rightarrow> Inbound \<Rightarrow> AgyShared \<Rightarrow> bool \<times> AgyShared" where
  "agy_pump_round codec clock group_empty event st =
     (case event of
        ChildExited exit \<Rightarrow> (False, agy_emit_terminal event (Some (classify_agy_exit group_empty exit st)) st)
      | _ \<Rightarrow>
          (case project_agy_inbound codec clock event st of
             (Some projected, st') \<Rightarrow> (True, agy_publish projected st')
           | (None, st') \<Rightarrow> (True, st')))"

end
