(* ===== verification/Agy_Properties.thy ===== *)
theory Agy_Properties
  imports Agy_Events
begin

text \<open>
  What the runtime of the \<open>agy\<close> agent guarantees about turns: the tracker shows the state of the turn, a
  turn that was opened is settled at most once whatever the order of sends, buffered inputs, stream events,
  exits and stops, and what one result does in every state.
\<close>

section \<open>The view of the turns\<close>

definition turn_mark :: "LifecycleRecord \<Rightarrow> bool option" where
  "turn_mark r =
     (case record_event r of
        DriverEvent (Message (Event e)) \<Rightarrow>
          (case Contract_Wire.event_type e of
             None \<Rightarrow> None
           | Some kind \<Rightarrow>
               if kind = ''turn.started'' then Some True
               else if kind = ''turn.completed'' \<or> kind = ''turn.failed'' then Some False else None)
      | _ \<Rightarrow> None)"

definition turn_marks :: "LifecycleRecord list \<Rightarrow> bool list" where
  "turn_marks = List.map_filter turn_mark"

definition alive :: "AgyShared \<Rightarrow> bool" where
  "alive st \<longleftrightarrow> published_terminal (agy_publisher st) = None"

definition turn_view :: "AgyShared \<Rightarrow> bool \<times> TurnBoundary option \<times> nat \<times> bool \<times> bool list \<times> bool" where
  "turn_view st =
     (tracker_active (agy_tracker st), tracker_boundary (agy_tracker st), tracker_generation (agy_tracker st),
      agy_turn_open st, turn_marks (agy_records st), alive st)"

lemma turn_marks_simps [simp]:
  "turn_marks [] = []" "turn_marks (xs @ ys) = turn_marks xs @ turn_marks ys"
  "turn_marks (r # rs) = (case turn_mark r of None \<Rightarrow> [] | Some m \<Rightarrow> [m]) @ turn_marks rs"
  by (simp_all add: turn_marks_def map_filter_def split: option.splits)

lemma publish_records:
  "agy_records (agy_publish e st) =
     agy_records st @ (if alive st then [\<lparr>record_sequence = next_sequence (agy_publisher st), record_event = DriverEvent e\<rparr>] else [])"
  "alive (agy_publish e st) = alive st"
  by (auto simp: agy_publish_def emit_driver_def emit_locked_def alive_def split: OwnerState.splits)

lemma publish_frame [simp]:
  "agy_tracker (agy_publish e st) = agy_tracker st" "agy_turn_open (agy_publish e st) = agy_turn_open st"
  "agy_pending_inputs (agy_publish e st) = agy_pending_inputs st" "agy_start (agy_publish e st) = agy_start st"
  by (simp_all add: agy_publish_def split: prod.splits)

lemma track_frame [simp]:
  "agy_turn_open (agy_track clock e st) = agy_turn_open st" "agy_records (agy_track clock e st) = agy_records st"
  "agy_publisher (agy_track clock e st) = agy_publisher st" "agy_pending_inputs (agy_track clock e st) = agy_pending_inputs st"
  "agy_start (agy_track clock e st) = agy_start st"
  by (simp_all add: agy_track_def)

lemma view_updates [simp]:
  "turn_view (st\<lparr>agy_session := a\<rparr>) = turn_view st" "turn_view (st\<lparr>agy_start := b\<rparr>) = turn_view st"
  "turn_view (st\<lparr>agy_classifier := c\<rparr>) = turn_view st" "turn_view (st\<lparr>agy_pending_inputs := d\<rparr>) = turn_view st"
  "turn_view (st\<lparr>agy_sequence := e\<rparr>) = turn_view st" "turn_view (st\<lparr>agy_diagnostics := f\<rparr>) = turn_view st"
  "turn_view (st\<lparr>agy_stop_boundaries := g\<rparr>) = turn_view st"
  by (simp_all add: turn_view_def alive_def)

lemma view_event_id [simp]: "turn_view (snd (next_event_id st)) = turn_view st"
  by (simp add: next_event_id_def agy_next_sequence_def)

lemma view_note [simp]: "turn_view (note_session c st) = turn_view st" "turn_view (mark_start_ready st) = turn_view st"
  "turn_view (record_denied_actions entries st) = turn_view st"
  by (simp_all add: note_session_def mark_start_ready_def record_denied_actions_def Let_def)

lemma view_publish:
  "turn_view (agy_publish e st) =
     (let (a, b, g, o', ms, l) = turn_view st;
          m = turn_mark \<lparr>record_sequence = next_sequence (agy_publisher st), record_event = DriverEvent e\<rparr> in
      (a, b, g, o', ms @ (case m of Some x \<Rightarrow> if l then [x] else [] | None \<Rightarrow> []), l))"
  by (simp add: turn_view_def publish_records split: option.splits)

lemma view_lifecycle [simp]: "turn_view (emit_lifecycle kind st) = turn_view st"
  by (simp add: emit_lifecycle_def agy_next_sequence_def view_publish turn_mark_def split: prod.splits)

lemma event_type_canonical:
  "Contract_Wire.event_type \<lparr>event_method = SESSION_EVENT, event_params = params\<rparr> = get_str params ''type''"
  by (simp add: Contract_Wire.event_type_def)

lemma mark_canonical:
  assumes "get_str params ''type'' = Some kind"
  shows "turn_mark \<lparr>record_sequence = n, record_event = DriverEvent (canonical_event params)\<rparr> =
    (if kind = ''turn.started'' then Some True
     else if kind = ''turn.completed'' \<or> kind = ''turn.failed'' then Some False else None)"
  using assms by (simp add: turn_mark_def canonical_event_def event_type_canonical)

lemma view_track:
  assumes "get_str params ''type'' = Some kind" "turn_view st = (a, b, g, o', ms, l)"
  shows "turn_view (agy_track clock (canonical_event params) st) =
    (if kind = ''turn.started'' then (True, None, saturating_add_u64 g 1, o', ms, l)
     else if kind = ''turn.completed'' \<and> a then (False, Some BoundaryCompleted, g, o', ms, l)
     else if kind = ''turn.failed'' \<and> a then (False, Some BoundaryFailed, g, o', ms, l)
     else (a, b, g, o', ms, l))"
  using assms
  by (auto simp: turn_view_def agy_track_def turn_observe_def turn_started_def turn_ended_def canonical_event_def
      event_type_canonical Let_def alive_def)

lemma view_boundary:
  assumes "get_str params ''type'' = Some kind" "turn_view st = (a, b, g, o', ms, l)"
  shows "turn_view (emit_boundary clock params lifecycle st) =
    (let mark = (\<lambda>m. if l then [m] else []) in
     if kind = ''turn.started'' then (True, None, saturating_add_u64 g 1, o', ms @ mark True, l)
     else if kind = ''turn.completed'' then (False, if a then Some BoundaryCompleted else b, g, o', ms @ mark False, l)
     else if kind = ''turn.failed'' then (False, if a then Some BoundaryFailed else b, g, o', ms @ mark False, l)
     else (a, b, g, o', ms, l))"
proof -
  have "turn_view (agy_publish (canonical_event params) st) =
    (a, b, g, o', ms @ (if l then (if kind = ''turn.started'' then [True]
      else if kind = ''turn.completed'' \<or> kind = ''turn.failed'' then [False] else []) else []), l)"
    using assms by (simp add: view_publish mark_canonical)
  from view_track [OF assms(1) this] show ?thesis by (auto simp: emit_boundary_def Let_def)
qed

text \<open>An event that is no boundary of a turn changes nothing of the view.\<close>

lemma view_streamed:
  assumes "get_str params ''type'' = Some kind" "kind \<notin> {''turn.started'', ''turn.completed'', ''turn.failed''}"
  shows "turn_view (emit_and_observe clock params st) = turn_view st"
proof -
  obtain a b g o' ms l where v: "turn_view st = (a, b, g, o', ms, l)" by (cases "turn_view st") auto
  with view_track [OF assms(1) v] assms show ?thesis by (simp add: emit_and_observe_def view_publish mark_canonical)
qed

lemma view_stream_delta [simp]: "turn_view (stream_delta clock delta st) = turn_view st"
proof -
  obtain params st' where p: "streaming_payload delta st = (params, st')" by force
  then have "get_str params ''type'' = Some ''model.streaming''" "st' = snd (next_event_id st)"
    by (auto simp: streaming_payload_def get_str_def split: prod.splits)
  then show ?thesis using p by (simp add: stream_delta_def view_streamed)
qed

lemma view_started:
  assumes "turn_view st = (a, b, g, o', ms, l)"
  shows "turn_view (emit_started clock st) =
    (True, None, saturating_add_u64 g 1, o', ms @ (if l then [True] else []), l)"
  using view_boundary [OF _ assms, of started_params "''turn.started''"]
  by (simp add: emit_started_def started_params_def get_str_def)

lemma view_opened:
  assumes "turn_view st = (a, b, g, o', ms, l)"
  shows "turn_view (begin_turn clock st) = (True, None, saturating_add_u64 g 1, True, ms @ (if l then [True] else []), l)"
    and "turn_view (begin_pending_turn clock st) = turn_view (begin_turn clock st)"
proof -
  have "turn_view (st\<lparr>agy_turn_open := True\<rparr>) = (a, b, g, True, ms, l)"
    using assms by (auto simp: turn_view_def alive_def)
  from view_started [OF this] show "turn_view (begin_turn clock st) = (True, None, saturating_add_u64 g 1, True, ms @ (if l then [True] else []), l)"
    by (simp add: begin_turn_def)
  show "turn_view (begin_pending_turn clock st) = turn_view (begin_turn clock st)"
    by (simp add: begin_pending_turn_def begin_turn_def Let_def)
qed

text \<open>A settlement ends the turn that the tracker shows as active.\<close>

lemma view_end_turn:
  assumes "turn_view st = (a, b, g, o', ms, l)" "kind \<in> {''turn.completed'', ''turn.failed''}"
  shows "turn_view (end_turn clock kind turn payload st) =
    (False, if a then Some (if kind = ''turn.completed'' then BoundaryCompleted else BoundaryFailed) else b, g, o',
     ms @ (if l then [False] else []), l)"
proof -
  obtain eid st' where e: "next_event_id st = (eid, st')" by force
  then have "turn_view st' = (a, b, g, o', ms, l)" using view_event_id [of st] assms(1) by simp
  from view_boundary [OF _ this, of "boundary_params kind eid turn payload" kind clock kind] assms(2) e
  show ?thesis by (auto simp: end_turn_def boundary_params_def get_str_def)
qed

definition boundary_of :: "TurnOutcome \<Rightarrow> TurnBoundary" where
  "boundary_of x = (case x of TurnCompleted _ \<Rightarrow> BoundaryCompleted | _ \<Rightarrow> BoundaryFailed)"

lemma view_settled:
  assumes "turn_view st = (a, b, g, o', ms, l)"
  shows "turn_view (apply_settlement clock s st) =
    (False, if a then Some (boundary_of (settlement_outcome s)) else b, g, o', ms @ (if l then [False] else []), l)"
  using assms
  by (auto simp: apply_settlement_def boundary_of_def Let_def view_end_turn split: TurnOutcome.splits)

section \<open>Every turn is settled at most once\<close>

text \<open>An open turn may be opened again; only an open one may be settled.\<close>

fun once_settled :: "bool \<Rightarrow> bool list \<Rightarrow> bool" where
  "once_settled opened [] = True"
| "once_settled opened (m # ms) = ((m \<or> opened) \<and> once_settled m ms)"

definition left_open :: "bool list \<Rightarrow> bool" where
  "left_open ms \<longleftrightarrow> ms \<noteq> [] \<and> last ms"

lemma once_settled_snoc: "once_settled b (ms @ [m]) \<longleftrightarrow> once_settled b ms \<and> (m \<or> (if ms = [] then b else last ms))"
  by (induction ms arbitrary: b) auto

definition agy_inv :: "AgyShared \<Rightarrow> bool" where
  "agy_inv st \<longleftrightarrow>
     (case turn_view st of (a, b, g, opened, ms, l) \<Rightarrow>
        a = opened \<and> once_settled False ms \<and> (l \<longrightarrow> left_open ms = opened))"

inductive agy_step :: "AgyShared \<Rightarrow> AgyShared \<Rightarrow> bool" where
  send: "agy_step st (begin_turn clock st)"
| inject: "agy_step st (snd (buffer_input written st))"
| pump: "\<forall>e. event \<noteq> Message (Event e) \<Longrightarrow> agy_step st (snd (agy_pump_round codec clock group_empty event st))"
| stopping: "agy_step st (st\<lparr>agy_publisher := snd (begin_stopping (agy_publisher st))\<rparr>)"
| finished: "publish_terminal t (agy_publisher st) = (t', records, p) \<Longrightarrow>
    agy_step st (st\<lparr>agy_publisher := p, agy_records := agy_records st @ records\<rparr>)"
| forced: "publish_cleanup_terminal t (agy_publisher st) = (t', records, p) \<Longrightarrow>
    agy_step st (st\<lparr>agy_publisher := p, agy_records := agy_records st @ records\<rparr>)"
| stopped: "agy_step st (st\<lparr>agy_stop_boundaries := agy_stop_boundaries st + 1\<rparr>)"

definition agy_initial :: "AgyShared \<Rightarrow> bool" where
  "agy_initial st \<longleftrightarrow> st = agy_shared_new publisher_new"

lemma inv_view: "turn_view st' = turn_view st \<Longrightarrow> agy_inv st \<Longrightarrow> agy_inv st'"
  by (simp add: agy_inv_def)

lemma inv_opened: "agy_inv st \<Longrightarrow> agy_inv (begin_turn clock st) \<and> agy_inv (begin_pending_turn clock st)"
  by (cases "turn_view st") (auto simp: agy_inv_def view_opened once_settled_snoc left_open_def)

lemma inv_settled:
  assumes "agy_inv st" "agy_turn_open st"
  shows "agy_inv (apply_settlement clock x (st\<lparr>agy_turn_open := False, agy_classifier := c\<rparr>))"
proof -
  obtain a b g o' ms l where v: "turn_view st = (a, b, g, o', ms, l)" by (cases "turn_view st") auto
  then have "turn_view (st\<lparr>agy_turn_open := False, agy_classifier := c\<rparr>) = (a, b, g, False, ms, l)"
    by (auto simp: turn_view_def alive_def)
  from view_settled [OF this] v assms show ?thesis
    by (auto simp: agy_inv_def once_settled_snoc left_open_def turn_view_def)
qed

lemma inv_result: "agy_inv st \<Longrightarrow> agy_inv (project_result clock r st)"
proof -
  assume inv: "agy_inv st"
  obtain settling st1 where s: "settle_start r st = (settling, st1)" by force
  then have inv1: "agy_inv st1"
    using inv by (auto simp: settle_start_def split: if_splits intro: inv_view [rotated])
  define st2 where "st2 = (if \<not> agy_turn_open st1 \<and> 0 < agy_pending_inputs st1
      \<and> classifier_num_turns (agy_classifier st1) < result_num_turns r then begin_pending_turn clock st1 else st1)"
  have inv2: "agy_inv st2" using inv1 inv_opened by (simp add: st2_def)
  have "agy_inv (settle_turn clock r st1)"
    using inv2 inv_settled [OF inv2] by (simp add: settle_turn_def st2_def [symmetric] Let_def)
  with s inv1 show ?thesis by (simp add: project_result_def)
qed

lemma view_activity [simp]: "turn_view (activity_step clock s st) = turn_view st"
proof -
  have kind: "get_str v ''type'' = Some ''tool.updated'' \<and> get_str (with_input input v) ''type'' = Some ''tool.updated''"
    if "canonical_activity (AgyStep s) eid turn = Some v" for eid turn v input
  proof -
    from that obtain a where "v = tool_activity_event a eid turn" by (auto simp: canonical_activity_def)
    then show ?thesis
      by (cases "activity_phase a") (simp_all add: tool_activity_event_def tool_started_event_def tool_result_event_def
        tool_updated_def get_str_def with_input_def)
  qed
  obtain eid st' where e: "next_event_id st = (eid, st')" by force
  then have v: "turn_view st' = turn_view st" using view_event_id [of st] by simp
  show ?thesis
  proof (cases "canonical_activity (AgyStep s) eid (effective_turn_id st')")
    case None
    with e v show ?thesis by (simp add: activity_step_def)
  next
    case (Some activity)
    have neutral: "turn_view (emit_and_observe clock w st') = turn_view st'"
      if "w = activity \<or> (\<exists>input. w = with_input input activity)" for w
      using that kind [OF Some] by (intro view_streamed [of _ "''tool.updated''"]) auto
    show ?thesis
      using e Some v neutral by (auto simp: activity_step_def split: option.splits)
  qed
qed

lemma inv_event: "agy_inv st \<Longrightarrow> agy_inv (project_event clock e st)"
proof (cases e)
  case (AgyStep s)
  assume "agy_inv st"
  then have "agy_inv (user_input_step clock s (note_session (step_conversation s) st))"
    using inv_opened inv_view [OF view_note(1)] by (simp add: user_input_step_def)
  moreover have "turn_view (response_step clock s st') = turn_view st'" for st'
    by (simp add: response_step_def split: option.splits)
  ultimately show ?thesis using AgyStep by (auto intro: inv_view [rotated])
qed (auto intro: inv_result inv_view [rotated])

lemma inv_ended:
  assumes "agy_inv st" "turn_marks records = []" "published_terminal p = None \<longrightarrow> alive st"
  shows "agy_inv (st\<lparr>agy_publisher := p, agy_records := agy_records st @ records\<rparr>)"
  using assms by (auto simp: agy_inv_def turn_view_def alive_def)

lemma inv_step: "agy_step st st' \<Longrightarrow> agy_inv st \<Longrightarrow> agy_inv st'"
proof (induction rule: agy_step.induct)
  case (send st clock)
  then show ?case using inv_opened by blast
next
  case (inject st written)
  then show ?case by (auto simp: buffer_input_def Let_def split: sum.splits intro: inv_view [rotated])
next
  case (pump event st codec clock group_empty)
  have other: "turn_view (agy_publish event st) = turn_view st" if "\<forall>e. event \<noteq> Message (Event e)"
    using that by (auto simp: view_publish turn_mark_def split: Inbound.splits WireMessage.splits prod.splits)
  show ?case
  proof (cases event)
    case (ChildExited exit)
    have "turn_marks records = [] \<and> (published_terminal p = None \<longrightarrow> alive st)"
      if "emit_driver (ChildExited exit) t (agy_publisher st) = (records, p)" for t records p
      using that by (auto simp: emit_driver_def emit_locked_def publish_terminal_locked_def turn_mark_def alive_def
          Let_def split: OwnerState.splits option.splits if_splits)
    with ChildExited pump.prems show ?thesis
      by (auto simp: agy_pump_round_def agy_emit_terminal_def split: prod.splits intro: inv_ended)
  next
    case (Message m)
    with pump other show ?thesis
      by (cases m) (auto simp: agy_pump_round_def project_agy_inbound_def split: option.splits
        intro: inv_event inv_view [rotated])
  qed (use pump other in \<open>auto simp: agy_pump_round_def project_agy_inbound_def intro: inv_view [rotated]\<close>)
next
  case (stopping st)
  then show ?case
    by (auto simp: agy_inv_def turn_view_def alive_def begin_stopping_def split: OwnerState.splits)
next
  case (finished t st t' records p)
  then show ?case
    by (auto simp: publish_terminal_def publish_terminal_locked_def emit_locked_def turn_mark_def alive_def
        split: OwnerState.splits intro!: inv_ended)
next
  case (forced t st t' records p)
  then show ?case
    by (auto simp: publish_cleanup_terminal_def publish_terminal_locked_def emit_locked_def turn_mark_def intro!: inv_ended)
next
  case (stopped st)
  then show ?case by (auto intro: inv_view [rotated])
qed

interpretation agy: transition_system agy_initial agy_step agy_inv
proof
  show "agy_initial st \<Longrightarrow> agy_inv st" for st
    by (simp add: agy_initial_def agy_shared_new_def agy_inv_def turn_view_def turn_tracker_new_def left_open_def
        alive_def publisher_new_def)
qed (rule inv_step)


definition sample_payload :: "ResultStatus \<Rightarrow> nat \<Rightarrow> ResultPayload" where
  "sample_payload status turns =
     \<lparr>result_conversation = ''c'', result_status = status, result_response = ''ok'', result_error = None,
      result_denied_actions = [], result_structured_output = None, result_json_schema = None, result_duration = None,
      result_num_turns = turns, result_usage = None\<rparr>"

lemma reachable_begun: "reachable agy_initial agy_step (begin_turn clock (agy_shared_new publisher_new))"
proof -
  have "reachable agy_initial agy_step (agy_shared_new publisher_new)" by (rule reachable.initial) (simp add: agy_initial_def)
  then show ?thesis by (rule reachable.advance) (rule agy_step.send)
qed

lemma begun:
  "agy_turn_open (begin_turn clock st)" "agy_start (begin_turn clock st) = agy_start st"
  "alive (begin_turn clock st) = alive st"
proof -
  obtain a b g o' ms l where v: "turn_view st = (a, b, g, o', ms, l)" by (cases "turn_view st") auto
  from view_opened(1) [OF v, of clock] v show "agy_turn_open (begin_turn clock st)" "alive (begin_turn clock st) = alive st"
    by (auto simp: turn_view_def)
  show "agy_start (begin_turn clock st) = agy_start st"
    by (simp add: begin_turn_def emit_started_def emit_boundary_def emit_lifecycle_def agy_next_sequence_def)
qed


section \<open>What a result does\<close>

lemma settled_with:
  assumes "turn_view st = (a, b, g, True, ms, l)" "a"
  shows "turn_view (case classifier_observe (AgyResult r) (agy_classifier st) of
      (x, c) \<Rightarrow> case x of None \<Rightarrow> st\<lparr>agy_turn_open := False, agy_classifier := c\<rparr>
        | Some y \<Rightarrow> apply_settlement clock y (st\<lparr>agy_turn_open := False, agy_classifier := c\<rparr>))
    = (False, Some (boundary_of (settlement_outcome (settle r))), g, False, ms @ (if l then [False] else []), l)"
proof -
  have "turn_view (st\<lparr>agy_turn_open := False, agy_classifier := c\<rparr>) = (a, b, g, False, ms, l)" for c
    using assms by (auto simp: turn_view_def alive_def)
  from view_settled [OF this] assms(2) show ?thesis by simp
qed

lemma boundary_of_settle: "boundary_of (settlement_outcome (settle r)) = BoundaryCompleted \<longleftrightarrow> result_status r = StatusSuccess"
  by (auto simp: boundary_of_def settle_def split: ResultStatus.splits)



text \<open>
  The marker of a boundary carries the order that belongs to an idle session: the end of every turn
  is stored as out of order, although a turn was open.
\<close>

lemma settlement_marked_out_of_order:
  assumes "kind \<in> {''turn.completed'', ''turn.failed''}"
  shows "classify_lifecycle kind False = OutOfOrder ''turn.started'' \<and> classify_lifecycle kind True = InOrder"
  using assms by (auto simp: classify_lifecycle_def)

text \<open>An \<open>init\<close> without an identity opens the gate, and the bootstrap reports the empty session.\<close>

lemma init_without_identity_ready:
  "wait_start deadline wake k (agy_start (project_event clock (AgyInit [] info) (agy_shared_new p)))
     (agy_session (project_event clock (AgyInit [] info) (agy_shared_new p))) = Some (Inr [])"
  by (simp add: agy_shared_new_def note_session_def mark_start_ready_def wait_start.simps)

end
