(* ===== verification/Agent_Status.thy ===== *)
theory Agent_Status
  imports Agy_Wire
begin

text \<open>
  What the daemon knows of the agents of its host (\<open>external-daemon/src/agent_status.rs\<close>): the evidence of a
  probe of one agent in three layers, the store of the latest evidence, the probes themselves, and the
  status that callers are shown of them (\<open>rpc/agents.rs\<close>, \<open>rpc/views.rs\<close>).

  Processes and files are parameters (\<open>probe_io\<close>): what the version command answers, and how a session or
  a catalog exchange ended.
\<close>

section \<open>Evidence\<close>

datatype ProbeLayer = ProbeLocal | ProbeAuth | ProbeHi

record ProbeScope =
  scope_workspace :: "string option"
  scope_home :: "string option"
  scope_profile :: "string option"
  scope_version :: "string option"

definition default_scope :: ProbeScope where
  "default_scope = \<lparr>scope_workspace = None, scope_home = None, scope_profile = None, scope_version = None\<rparr>"

record AgentProbeInput =
  probe_agent :: string
  probe_through :: ProbeLayer
  probe_scope :: ProbeScope

definition VERSION_MISMATCH_INSTRUCTION :: string where
  "VERSION_MISMATCH_INSTRUCTION = ''version mismatch, it may not work as expected''"

definition PINNED_DSH_VERSION :: string where
  "PINNED_DSH_VERSION = ''0.2.0-rc.2''"

definition expected_version :: "string \<Rightarrow> string option \<Rightarrow> string option" where
  "expected_version agent configured = (if agent = ''dsh'' then Some PINNED_DSH_VERSION else configured)"

record VersionMismatch =
  mismatch_expected :: string
  mismatch_observed :: string

definition version_mismatch :: "string option \<Rightarrow> string option \<Rightarrow> VersionMismatch option" where
  "version_mismatch wanted seen =
     (case (wanted, seen) of
        (Some x, Some y) \<Rightarrow> if x \<noteq> y then Some \<lparr>mismatch_expected = x, mismatch_observed = y\<rparr> else None
      | _ \<Rightarrow> None)"

datatype EvidenceState = EvidenceReady | EvidenceDegraded | EvidenceUnavailable | EvidenceUnknown

record ScopeEvidence =
  evidence_path :: "string option"
  evidence_state :: EvidenceState
  evidence_scope :: ProbeScope
  evidence_version :: "string option"
  evidence_checked_at :: nat
  evidence_reason :: "string option"

definition unknown_evidence :: "ProbeScope \<Rightarrow> nat \<Rightarrow> string \<Rightarrow> ScopeEvidence" where
  "unknown_evidence scope checked why =
     \<lparr>evidence_path = None, evidence_state = EvidenceUnknown, evidence_scope = scope, evidence_version = None,
      evidence_checked_at = checked, evidence_reason = Some why\<rparr>"

record AgentProbeEvidence =
  evidence_agent :: string
  evidence_revision :: "64 word"
  evidence_local :: ScopeEvidence
  evidence_auth :: ScopeEvidence
  evidence_hi :: ScopeEvidence

record AgentModelsInput =
  models_agent :: string
  models_scope :: ProbeScope

record ModelCatalogEvidence =
  catalog_source :: string
  catalog_version :: "string option"
  catalog_scope :: ProbeScope
  catalog_checked_at :: nat

record AgentModelsOutput =
  output_agent :: string
  output_revision :: "64 word"
  output_supported :: bool
  output_models :: "string list"
  output_evidence :: ModelCatalogEvidence
  output_reason :: "string option"

section \<open>The store of the latest evidence\<close>

record AgentEvidenceStore =
  latest_evidence :: "string \<Rightarrow> AgentProbeEvidence option"
  latest_models :: "string \<Rightarrow> AgentModelsOutput option"

definition evidence_store_new :: AgentEvidenceStore where
  "evidence_store_new = \<lparr>latest_evidence = (\<lambda>_. None), latest_models = (\<lambda>_. None)\<rparr>"

definition preserved_or_stale :: "ScopeEvidence \<Rightarrow> ProbeScope \<Rightarrow> 64 word \<Rightarrow> 64 word \<Rightarrow> ScopeEvidence" where
  "preserved_or_stale v scope previous current =
     (if previous = current \<and> evidence_scope v = scope then v
      else if previous = current
      then \<lparr>evidence_path = None, evidence_state = EvidenceUnknown, evidence_scope = scope, evidence_version = None,
            evidence_checked_at = evidence_checked_at v, evidence_reason = Some ''not_probed''\<rparr>
      else v\<lparr>evidence_state := EvidenceUnknown, evidence_reason := Some ''stale_config_revision''\<rparr>)"

text \<open>The answer of the backend is merged into the store under its lock.\<close>

definition merged_evidence :: "AgentProbeInput \<Rightarrow> 64 word \<Rightarrow> AgentProbeEvidence \<Rightarrow> AgentProbeEvidence option \<Rightarrow> AgentProbeEvidence" where
  "merged_evidence input revision answer previous =
     (let e = answer\<lparr>evidence_revision := revision\<rparr> in
      case previous of
        None \<Rightarrow> e
      | Some p \<Rightarrow>
          (let keep = (\<lambda>v. preserved_or_stale v (probe_scope input) (evidence_revision p) revision) in
           case probe_through input of
             ProbeLocal \<Rightarrow> e\<lparr>evidence_auth := keep (evidence_auth p), evidence_hi := keep (evidence_hi p)\<rparr>
           | ProbeAuth \<Rightarrow> e\<lparr>evidence_hi := keep (evidence_hi p)\<rparr>
           | ProbeHi \<Rightarrow> e))"

definition record_probe :: "AgentProbeInput \<Rightarrow> 64 word \<Rightarrow> AgentProbeEvidence \<Rightarrow> AgentEvidenceStore \<Rightarrow> AgentProbeEvidence \<times> AgentEvidenceStore" where
  "record_probe input revision answer s =
     (let e = merged_evidence input revision answer (latest_evidence s (probe_agent input)) in
      (e, s\<lparr>latest_evidence := (latest_evidence s)(probe_agent input \<mapsto> e)\<rparr>))"

text \<open>The input of a refresh: the local layer, in the scope that was recorded last.\<close>

definition refresh_input :: "string \<Rightarrow> AgentEvidenceStore \<Rightarrow> AgentProbeInput" where
  "refresh_input agent s =
     \<lparr>probe_agent = agent, probe_through = ProbeLocal,
      probe_scope = (case latest_evidence s agent of Some p \<Rightarrow> evidence_scope (evidence_local p) | None \<Rightarrow> default_scope)\<rparr>"

definition probe_local_version ::
    "(AgentProbeInput \<Rightarrow> AgentProbeEvidence) \<Rightarrow> string \<Rightarrow> 64 word \<Rightarrow> AgentEvidenceStore \<Rightarrow> string option \<times> AgentEvidenceStore" where
  "probe_local_version backend agent revision s =
     (let input = refresh_input agent s; (e, s') = record_probe input revision (backend input) s in
      (evidence_version (evidence_local e), s'))"

definition record_models :: "AgentModelsInput \<Rightarrow> 64 word \<Rightarrow> AgentModelsOutput \<Rightarrow> AgentEvidenceStore \<Rightarrow> AgentModelsOutput \<times> AgentEvidenceStore" where
  "record_models input revision answer s =
     (let out = answer\<lparr>output_revision := revision\<rparr> in
      (out, s\<lparr>latest_models := (latest_models s)(models_agent input \<mapsto> out)\<rparr>))"

section \<open>Classification of failures\<close>

definition classify_provider_failure :: "json_codec \<Rightarrow> json \<Rightarrow> string \<Rightarrow> string" where
  "classify_provider_failure codec v diagnostic =
     (let t = to_ascii_lowercase (json_text codec v) @ to_ascii_lowercase diagnostic in
      if contains t ''401'' \<or> contains t ''unauthorized'' \<or> contains t ''unauthenticated'' then ''auth_401''
      else if contains t ''429'' \<or> contains t ''rate limit'' \<or> contains t ''rate_limit'' then ''rate_limit''
      else if contains t ''network'' \<or> contains t ''dns'' \<or> contains t ''connect'' \<or> contains t ''timed out'' \<or> contains t ''timeout''
      then ''network'' else ''transport'')"

definition contains_tool_signal :: "json_codec \<Rightarrow> json \<Rightarrow> bool" where
  "contains_tool_signal codec v \<longleftrightarrow>
     (let t = to_ascii_lowercase (json_text codec v) in
      contains t ''tool.'' \<or> contains t ''tool_call'' \<or> contains t ''permission.requested'' \<or> contains t ''requestpermission'')"

fun classify_request_error :: "json_codec \<Rightarrow> RequestError \<Rightarrow> string \<Rightarrow> string" where
  "classify_request_error codec RequestTimeout diagnostic = ''network''"
| "classify_request_error codec (RemoteError v) diagnostic = classify_provider_failure codec v diagnostic"
| "classify_request_error codec _ diagnostic = classify_provider_failure codec JNull diagnostic"

datatype SessionError =
    SessionShape string
  | SessionModel ModelSetError
  | SessionReasoningEffort
  | SessionTransport string
  | SessionTimeout
  | SessionRemote json

text \<open>\<open>str::parse::<i64>\<close>: a sign and digits, within the width.\<close>

definition parse_i64 :: "string \<Rightarrow> int option" where
  "parse_i64 s =
     (case s of
        CHR ''-'' # digits \<Rightarrow>
          if starts_with digits ''+'' then None
          else map_option (\<lambda>n. - int n) (parse_unsigned 9223372036854775808 digits)
      | _ \<Rightarrow> map_option int (parse_unsigned 9223372036854775807 s))"

definition remote_code :: "json \<Rightarrow> int option" where
  "remote_code v = Option.bind (json_get v ''code'') (\<lambda>code.
     case as_i64 code of
       Some n \<Rightarrow> Some n
     | None \<Rightarrow> Option.bind (as_str code) (\<lambda>s. if length s \<le> 16 then parse_i64 s else None))"

fun classify_dsh_session_error :: "SessionError \<Rightarrow> string" where
  "classify_dsh_session_error SessionTimeout = ''timeout''"
| "classify_dsh_session_error (SessionShape _) = ''shape''"
| "classify_dsh_session_error (SessionRemote v) =
     (let code = remote_code v in
      if code = Some (- 32001) \<or> code = Some 401 \<or> code = Some 403 then ''auth''
      else if code = Some (- 32002) \<or> code = Some 429 then ''rate_limit''
      else
        (let message = to_ascii_lowercase (concat (take 512 (chars (case get_str v ''message'' of Some m \<Rightarrow> m | None \<Rightarrow> [])))) in
         if contains message ''unauthorized'' \<or> contains message ''unauthenticated'' then ''auth''
         else if contains message ''rate limit'' \<or> contains message ''rate_limit'' then ''rate_limit'' else ''remote''))"
| "classify_dsh_session_error (SessionTransport _) = ''network''"
| "classify_dsh_session_error (SessionModel _) = ''shape''"
| "classify_dsh_session_error SessionReasoningEffort = ''shape''"

definition classify_codex_model_list_error :: "json \<Rightarrow> string" where
  "classify_codex_model_list_error v =
     (let message = (case get_str v ''message'' of Some m \<Rightarrow> m | None \<Rightarrow> []) in
      if contains message ''sign-in'' \<or> contains message ''sign in'' then ''auth_required'' else ''catalog_refused'')"

definition unavailable :: "ProbeScope \<Rightarrow> string option \<Rightarrow> nat \<Rightarrow> string \<Rightarrow> ScopeEvidence" where
  "unavailable scope version checked why =
     \<lparr>evidence_path = None, evidence_state = (if why = ''rate_limit'' then EvidenceDegraded else EvidenceUnavailable),
      evidence_scope = scope, evidence_version = version, evidence_checked_at = checked, evidence_reason = Some why\<rparr>"

definition derived_failure :: "ScopeEvidence \<Rightarrow> ProbeScope \<Rightarrow> nat \<Rightarrow> ScopeEvidence" where
  "derived_failure source scope checked = source\<lparr>evidence_scope := scope, evidence_checked_at := checked\<rparr>"

definition ready_evidence :: "ProbeScope \<Rightarrow> string option \<Rightarrow> nat \<Rightarrow> ScopeEvidence" where
  "ready_evidence scope version checked =
     \<lparr>evidence_path = None, evidence_state = EvidenceReady, evidence_scope = scope, evidence_version = version,
      evidence_checked_at = checked, evidence_reason = None\<rparr>"

section \<open>Probes of the host\<close>

record probe_io =
  io_now :: nat
  io_variable :: "string \<Rightarrow> string option"
  io_on_path :: "string \<Rightarrow> path option"
  io_tempdir :: "string \<Rightarrow> string option"
  io_runtime_source :: "path option"
  io_file :: "path \<Rightarrow> bool"
  io_directory :: "path \<Rightarrow> bool"
  io_executable_version :: "path \<Rightarrow> string + string"
  io_dsh_hi :: "path option \<Rightarrow> ProbeScope \<Rightarrow> string + SessionError option"
  io_agy_hi :: "path \<Rightarrow> string \<Rightarrow> string + (string + string) list \<times> string"
  io_zcode_hi :: "path \<Rightarrow> ProbeScope \<Rightarrow> string + string"
  io_zcode_catalog :: "path \<Rightarrow> ProbeScope \<Rightarrow> string + string list"
  io_codex_catalog :: "path \<Rightarrow> string \<Rightarrow> string + string list"
  io_dsh_catalog :: "path \<Rightarrow> ProbeScope \<Rightarrow> string + string list"
  io_agy_catalog :: "path \<Rightarrow> ProbeScope \<Rightarrow> string + string list"

definition discover_runtime :: "probe_io \<Rightarrow> string \<Rightarrow> string \<Rightarrow> path option" where
  "discover_runtime pio variable name = (case io_variable pio variable of Some p \<Rightarrow> Some p | None \<Rightarrow> io_on_path pio name)"

definition probe_local :: "probe_io \<Rightarrow> path option \<Rightarrow> ProbeScope \<Rightarrow> nat \<Rightarrow> ScopeEvidence" where
  "probe_local pio executable scope checked =
     (let missing = \<lparr>evidence_path = executable, evidence_state = EvidenceUnavailable, evidence_scope = scope,
        evidence_version = None, evidence_checked_at = checked, evidence_reason = Some ''missing''\<rparr> in
      case executable of
        None \<Rightarrow> missing
      | Some p \<Rightarrow>
          if \<not> io_file pio p then missing
          else
            (case io_executable_version pio p of
               Inr version \<Rightarrow> missing\<lparr>evidence_state := EvidenceReady, evidence_version := Some version, evidence_reason := None\<rparr>
             | Inl why \<Rightarrow> missing\<lparr>evidence_state := EvidenceDegraded, evidence_reason := Some why\<rparr>))"

definition probe_dsh_hi :: "probe_io \<Rightarrow> path option \<Rightarrow> ProbeScope \<Rightarrow> string option \<Rightarrow> nat \<Rightarrow> ScopeEvidence \<times> ScopeEvidence" where
  "probe_dsh_hi pio executable scope version checked =
     (let auth = unknown_evidence scope checked ''auth_not_probed'';
          failed = (\<lambda>why. (ready_evidence scope version checked)\<lparr>evidence_state := EvidenceUnavailable, evidence_reason := Some why\<rparr>) in
      case scope_workspace scope of
        None \<Rightarrow> (auth, failed ''workspace_missing'')
      | Some _ \<Rightarrow>
          (case io_dsh_hi pio executable scope of
             Inl why \<Rightarrow> (auth, failed why)
           | Inr None \<Rightarrow> (auth, ready_evidence scope version checked)
           | Inr (Some e) \<Rightarrow> (auth, failed (classify_dsh_session_error e))))"

text \<open>
  The stream of one turn of \<open>agy\<close>: the lines received, each a text or the reason it could not be read, and
  the reason of the end of the stream, the silent deadline or the closed pipe.
\<close>

fun run_agy_hi_stream :: "json_codec \<Rightarrow> (string + string) list \<Rightarrow> string \<Rightarrow> string + unit" where
  "run_agy_hi_stream codec [] ending = Inl ending"
| "run_agy_hi_stream codec (Inl why # frames) ending = Inl why"
| "run_agy_hi_stream codec (Inr line # frames) ending =
     (case parse_agy_line codec line of
        None \<Rightarrow> Inl ''transport''
      | Some (AgyStep s) \<Rightarrow>
          if step_type s = ToolStep then Inl ''policy_violation'' else run_agy_hi_stream codec frames ending
      | Some (AgyResult r) \<Rightarrow>
          if result_status r = StatusSuccess then Inr ()
          else Inl (classify_provider_failure codec JNull
                 (case result_error r of
                    Some e \<Rightarrow> if e \<noteq> [] then e else result_status_text (result_status r)
                  | None \<Rightarrow> result_status_text (result_status r)))
      | Some _ \<Rightarrow> run_agy_hi_stream codec frames ending)"

definition probe_agy_hi ::
    "json_codec \<Rightarrow> probe_io \<Rightarrow> path option \<Rightarrow> ProbeScope \<Rightarrow> string option \<Rightarrow> nat \<Rightarrow> ScopeEvidence \<times> ScopeEvidence" where
  "probe_agy_hi codec pio executable scope version checked =
     (let auth = unknown_evidence scope checked ''auth_not_probed''; failed = unavailable scope version checked in
      case executable of
        None \<Rightarrow> (auth, failed ''missing'')
      | Some p \<Rightarrow>
          if \<not> io_file pio p then (auth, failed ''missing'')
          else
            (case scope_workspace scope of
               None \<Rightarrow> (auth, failed ''workspace_missing'')
             | Some w \<Rightarrow>
                 if \<not> is_absolute w \<or> \<not> io_directory pio w then (auth, failed ''workspace_missing'')
                 else
                   (case io_agy_hi pio p w of
                      Inl _ \<Rightarrow> (auth, failed ''transport'')
                    | Inr (frames, ending) \<Rightarrow>
                        (case run_agy_hi_stream codec frames ending of
                           Inr _ \<Rightarrow> (auth, ready_evidence scope version checked)
                         | Inl why \<Rightarrow> (auth, failed why)))))"

definition probe_zcode_hi :: "probe_io \<Rightarrow> path \<Rightarrow> ProbeScope \<Rightarrow> string option \<Rightarrow> nat \<Rightarrow> ScopeEvidence \<times> ScopeEvidence" where
  "probe_zcode_hi pio executable scope version checked =
     (let e =
        (case scope_workspace scope of
           None \<Rightarrow> unknown_evidence scope checked ''workspace_required''
         | Some w \<Rightarrow>
             if \<not> is_absolute w \<or> \<not> io_directory pio w then unavailable scope version checked ''workspace_missing''
             else
               (case io_zcode_hi pio executable scope of
                  Inr _ \<Rightarrow> ready_evidence scope version checked
                | Inl why \<Rightarrow> unavailable scope version checked why)) in
      (e, e))"

definition home_variable :: "string \<Rightarrow> string" where
  "home_variable agent =
     (if agent = ''dsh'' then ''DSH_HOME'' else if agent = ''codex'' then ''CODEX_HOME''
      else if agent = ''agy'' then ''HOME'' else ''ZCODE_HOME'')"

definition with_home :: "probe_io \<Rightarrow> string \<Rightarrow> bool \<Rightarrow> ProbeScope \<Rightarrow> ProbeScope" where
  "with_home pio variable fallback scope =
     (case scope_home scope of
        Some _ \<Rightarrow> scope
      | None \<Rightarrow> scope\<lparr>scope_home := (case io_variable pio variable of
          Some h \<Rightarrow> Some h | None \<Rightarrow> if fallback then io_variable pio ''HOME'' else None)\<rparr>)"

definition with_workspace :: "probe_io \<Rightarrow> string \<Rightarrow> ProbeScope \<Rightarrow> ProbeScope" where
  "with_workspace pio label scope =
     (case scope_workspace scope of
        Some _ \<Rightarrow> scope
      | None \<Rightarrow> (case io_tempdir pio label of Some w \<Rightarrow> scope\<lparr>scope_workspace := Some w\<rparr> | None \<Rightarrow> scope))"

definition probed_scope :: "probe_io \<Rightarrow> AgentProbeInput \<Rightarrow> ProbeScope" where
  "probed_scope pio input =
     (let scope = with_home pio (home_variable (probe_agent input)) (home_variable (probe_agent input) \<noteq> ''CODEX_HOME'')
        (probe_scope input) in
      if probe_agent input = ''zcode'' \<and> probe_through input = ProbeHi
      then with_workspace pio ''external-subagent-probe-'' scope else scope)"

definition probed_executable :: "probe_io \<Rightarrow> string \<Rightarrow> path option" where
  "probed_executable pio agent =
     (if agent = ''zcode'' then io_runtime_source pio
      else if agent = ''dsh'' then discover_runtime pio ''DSH_RUNTIME_PATH'' ''dsh''
      else if agent = ''codex'' then discover_runtime pio ''CODEX_RUNTIME_PATH'' ''codex''
      else if agent = ''agy'' then discover_runtime pio ''AGY_RUNTIME_PATH'' ''agy'' else None)"

definition upper_layers ::
    "json_codec \<Rightarrow> probe_io \<Rightarrow> string \<Rightarrow> ProbeLayer \<Rightarrow> ProbeScope \<Rightarrow> path option \<Rightarrow> ScopeEvidence \<Rightarrow> nat
       \<Rightarrow> ScopeEvidence \<times> ScopeEvidence" where
  "upper_layers codec pio agent through scope executable here checked =
     (let auth0 = unknown_evidence scope checked ''auth_not_probed''; hi0 = unknown_evidence scope checked ''hi_not_probed'' in
      if agent = ''dsh'' \<and> through = ProbeHi then probe_dsh_hi pio executable scope (evidence_version here) checked
      else if agent = ''agy'' \<and> through = ProbeHi then probe_agy_hi codec pio executable scope (evidence_version here) checked
      else if agent = ''zcode'' \<and> through \<noteq> ProbeLocal
      then
        (if evidence_state here \<noteq> EvidenceReady
         then (derived_failure here scope checked, if through = ProbeHi then derived_failure here scope checked else hi0)
         else if through = ProbeAuth then (unknown_evidence scope checked ''auth_requires_hi'', hi0)
         else (case executable of Some p \<Rightarrow> probe_zcode_hi pio p scope (evidence_version here) checked | None \<Rightarrow> (auth0, hi0)))
      else (auth0, hi0))"

definition process_probe :: "json_codec \<Rightarrow> probe_io \<Rightarrow> AgentProbeInput \<Rightarrow> AgentProbeEvidence" where
  "process_probe codec pio input =
     (let checked = io_now pio; agent = probe_agent input; scope = probed_scope pio input; executable = probed_executable pio agent;
          here = probe_local pio executable scope checked;
          layers = upper_layers codec pio agent (probe_through input) scope executable here checked in
      \<lparr>evidence_agent = agent, evidence_revision = 0, evidence_local = here, evidence_auth = fst layers, evidence_hi = snd layers\<rparr>)"

section \<open>Catalogs of models\<close>

definition models_answer :: "AgentModelsInput \<Rightarrow> ModelCatalogEvidence \<Rightarrow> string + string list \<Rightarrow> AgentModelsOutput" where
  "models_answer input evidence r =
     \<lparr>output_agent = models_agent input, output_revision = 0, output_supported = (case r of Inl _ \<Rightarrow> False | Inr _ \<Rightarrow> True),
      output_models = (case r of Inl _ \<Rightarrow> [] | Inr models \<Rightarrow> models), output_evidence = evidence,
      output_reason = (case r of Inl why \<Rightarrow> Some why | Inr _ \<Rightarrow> None)\<rparr>"

definition catalog_of :: "string \<Rightarrow> ScopeEvidence \<Rightarrow> ModelCatalogEvidence" where
  "catalog_of source here = \<lparr>catalog_source = source, catalog_version = evidence_version here,
     catalog_scope = evidence_scope here, catalog_checked_at = evidence_checked_at here\<rparr>"

definition nonempty_catalog :: "string + string list \<Rightarrow> string + string list" where
  "nonempty_catalog r = (case r of Inr [] \<Rightarrow> Inl ''model_catalog_empty'' | _ \<Rightarrow> r)"

definition in_workspace :: "probe_io \<Rightarrow> ProbeScope \<Rightarrow> (string \<Rightarrow> string + 'a) \<Rightarrow> string + 'a" where
  "in_workspace pio scope f =
     (case scope_workspace scope of
        None \<Rightarrow> Inl ''workspace_required''
      | Some w \<Rightarrow> if \<not> is_absolute w \<or> \<not> io_directory pio w then Inl ''workspace_missing'' else f w)"

definition unready_reason :: "ScopeEvidence \<Rightarrow> string" where
  "unready_reason here = (case evidence_reason here of Some why \<Rightarrow> why | None \<Rightarrow> ''missing'')"

definition probe_zcode_models :: "probe_io \<Rightarrow> path option \<Rightarrow> AgentModelsInput \<Rightarrow> AgentModelsOutput" where
  "probe_zcode_models pio executable input =
     (let scope = with_workspace pio ''external-subagent-zcode-catalog-'' (with_home pio ''ZCODE_HOME'' True (models_scope input));
          here = probe_local pio executable scope (io_now pio) in
      models_answer input (catalog_of ''zcode_session_create_settings'' here)
        (if evidence_state here \<noteq> EvidenceReady then Inl (unready_reason here)
         else in_workspace pio scope (\<lambda>_.
           case executable of Some p \<Rightarrow> nonempty_catalog (io_zcode_catalog pio p scope) | None \<Rightarrow> Inl (unready_reason here))))"

definition probe_codex_models :: "probe_io \<Rightarrow> path option \<Rightarrow> AgentModelsInput \<Rightarrow> AgentModelsOutput" where
  "probe_codex_models pio executable input =
     (let named = with_home pio ''CODEX_HOME'' False (models_scope input);
          scope = (case scope_home named of
            Some _ \<Rightarrow> named | None \<Rightarrow> named\<lparr>scope_home := io_tempdir pio ''external-subagent-codex-catalog-''\<rparr>);
          here = probe_local pio executable scope (io_now pio) in
      models_answer input (catalog_of ''codex_app_server_model_list'' here)
        (if evidence_state here \<noteq> EvidenceReady then Inl (unready_reason here)
         else
           (case scope_home scope of
              None \<Rightarrow> Inl ''home_required''
            | Some home \<Rightarrow>
                if \<not> is_absolute home then Inl ''home_invalid''
                else (case executable of Some p \<Rightarrow> nonempty_catalog (io_codex_catalog pio p home) | None \<Rightarrow> Inl (unready_reason here)))))"

text \<open>A token of the catalog of \<open>dsh\<close> is shown as provider and model, unless the provider has a colon.\<close>

definition display_catalog_model_token :: "json_codec \<Rightarrow> string \<Rightarrow> string" where
  "display_catalog_model_token codec token =
     (case decoded codec token of
        Some (JArray [JString provider, JString model]) \<Rightarrow>
          if CHR '':'' \<in> set provider then token else provider @ '':'' @ model
      | _ \<Rightarrow> token)"

definition probe_dsh_models :: "json_codec \<Rightarrow> probe_io \<Rightarrow> path option \<Rightarrow> AgentModelsInput \<Rightarrow> AgentModelsOutput" where
  "probe_dsh_models codec pio executable input =
     (let scope = with_workspace pio ''external-subagent-dsh-catalog-'' (with_home pio ''DSH_HOME'' True (models_scope input));
          here = probe_local pio executable scope (io_now pio);
          answer = models_answer input (catalog_of ''dsh_acp_models_list'' here) in
      if evidence_state here \<noteq> EvidenceReady then (answer (Inl []))\<lparr>output_reason := evidence_reason here\<rparr>
      else
        answer (in_workspace pio scope (\<lambda>_.
          case executable of
            Some p \<Rightarrow> (case nonempty_catalog (io_dsh_catalog pio p scope) of
                Inr models \<Rightarrow> Inr (map (display_catalog_model_token codec) models) | Inl why \<Rightarrow> Inl why)
          | None \<Rightarrow> Inl (unready_reason here))))"

definition probe_agy_models :: "probe_io \<Rightarrow> path option \<Rightarrow> AgentModelsInput \<Rightarrow> AgentModelsOutput" where
  "probe_agy_models pio executable input =
     (let scope = with_workspace pio ''external-subagent-agy-catalog-'' (with_home pio ''HOME'' False (models_scope input));
          here = probe_local pio executable scope (io_now pio);
          answer = models_answer input (catalog_of ''agy_models_list'' here) in
      if evidence_state here \<noteq> EvidenceReady then (answer (Inl []))\<lparr>output_reason := evidence_reason here\<rparr>
      else
        answer (case executable of
          Some p \<Rightarrow> (case scope_workspace scope of None \<Rightarrow> Inl ''workspace_required'' | Some _ \<Rightarrow> io_agy_catalog pio p scope)
        | None \<Rightarrow> Inl (unready_reason here)))"

definition process_models :: "json_codec \<Rightarrow> probe_io \<Rightarrow> AgentModelsInput \<Rightarrow> AgentModelsOutput" where
  "process_models codec pio input =
     (if models_agent input = ''zcode'' then probe_zcode_models pio (io_runtime_source pio) input
      else if models_agent input = ''codex'' then probe_codex_models pio (discover_runtime pio ''CODEX_RUNTIME_PATH'' ''codex'') input
      else if models_agent input = ''agy'' then probe_agy_models pio (discover_runtime pio ''AGY_RUNTIME_PATH'' ''agy'') input
      else probe_dsh_models codec pio (io_variable pio ''DSH_RUNTIME_PATH'') input)"

text \<open>The tokens of a catalog: those of the option \<open>model\<close>, or else the identities of the listed models.\<close>

definition add_token :: "json option \<Rightarrow> string list \<Rightarrow> string list" where
  "add_token v tokens =
     (case Option.bind v as_str of
        Some t \<Rightarrow> if t \<noteq> [] \<and> length t \<le> 512 \<and> CHR 0x00 \<notin> set t \<and> t \<notin> set tokens then tokens @ [t] else tokens
      | None \<Rightarrow> tokens)"

fun walk_option :: "json \<Rightarrow> string list \<Rightarrow> string list"
  and walk_members :: "json_object \<Rightarrow> string list \<Rightarrow> string list"
  and walk_options :: "json list \<Rightarrow> string list \<Rightarrow> string list" where
  "walk_option (JObject ms) tokens = walk_members ms (add_token (map_of ms ''value'') tokens)"
| "walk_option v tokens = tokens"
| "walk_members [] tokens = tokens"
| "walk_members ((k, v) # ms) tokens =
     (if k = ''options'' then (case v of JArray vs \<Rightarrow> walk_options vs tokens | _ \<Rightarrow> tokens) else walk_members ms tokens)"
| "walk_options [] tokens = tokens"
| "walk_options (v # vs) tokens = walk_options vs (walk_option v tokens)"

definition option_tokens :: "json \<Rightarrow> string list \<Rightarrow> string list" where
  "option_tokens v tokens =
     (if Option.bind (case json_get v ''id'' of Some x \<Rightarrow> Some x | None \<Rightarrow> json_get v ''configId'') as_str \<noteq> Some ''model'' then tokens
      else
        (let started = add_token (json_get v ''currentValue'') tokens in
         case Option.bind (json_get v ''options'') as_array of Some vs \<Rightarrow> walk_options vs started | None \<Rightarrow> started))"

fun listed_tokens :: "json list \<Rightarrow> string list \<Rightarrow> string + string list" where
  "listed_tokens [] tokens = Inr tokens"
| "listed_tokens (m # ms) tokens =
     (case get_str m ''id'' of
        None \<Rightarrow> Inl ''protocol''
      | Some t \<Rightarrow>
          if t = [] \<or> 512 < length t \<or> CHR 0x00 \<in> set t then Inl ''protocol''
          else listed_tokens ms (if t \<in> set tokens then tokens else tokens @ [t]))"

definition parse_opaque_model_tokens :: "json \<Rightarrow> string + string list" where
  "parse_opaque_model_tokens catalog =
     (let models = (case Option.bind (json_get catalog ''models'') as_array of Some ms \<Rightarrow> ms | None \<Rightarrow> []);
          offered = (case Option.bind (json_get catalog ''configOptions'') as_array of
            Some opts \<Rightarrow> fold option_tokens opts [] | None \<Rightarrow> []) in
      if offered \<noteq> [] then Inr offered
      else if 256 < length models then Inl ''oversized''
      else listed_tokens models [])"

end
