(* ===== verification/Rpc_Status.thy ===== *)
theory Rpc_Status
  imports Agent_Status
begin

text \<open>
  The status surface (\<open>rpc/agents.rs\<close>, \<open>rpc/views.rs\<close> and the status of \<open>rpc/handlers.rs\<close>): the projection of
  the configuration and of the recorded evidence to what callers are shown, and what it guarantees about
  evidence that is no longer current.
\<close>

section \<open>Views\<close>

datatype ComponentStateView = ViewReady | ViewDegraded | ViewUnavailable | ViewUnknown

datatype AgentTransportView = ZcodeAppServer | DshAcp | CodexAppServer | AgyStreamJson

record AgentTransportSupportView =
  transport_kind :: AgentTransportView
  transport_probe :: bool
  transport_spawn :: bool

datatype AgentEffortSelectionModeView = ClosedSet | PassthroughToken

datatype AgentModelSelectionModeView = NativeOnly | CatalogToken

record AgentModelSelectionCapabilityView =
  model_selection_supported :: bool
  model_selection_mode :: AgentModelSelectionModeView

record AgentEffortSelectionCapabilityView =
  effort_selection_supported :: bool
  effort_selection_mode :: AgentEffortSelectionModeView

record AgentModelsStatusView =
  models_status_supported :: bool
  models_status_tokens :: "string list"
  models_status_source :: string
  models_status_version :: "string option"
  models_status_checked_at :: nat
  models_status_reason :: "string option"

record VersionMismatchView =
  view_expected :: string
  view_observed :: string
  view_instruction :: string

record AgentScopeStatusView =
  scope_view_path :: "string option"
  scope_view_state :: ComponentStateView
  scope_view_scope :: ProbeScope
  scope_view_version :: "string option"
  scope_view_checked_at :: "nat option"
  scope_view_reason :: "string option"

record AgentStatusView =
  status_agent :: string
  status_required_version :: "string option"
  status_version_mismatch :: "VersionMismatchView option"
  status_config_revision :: "64 word"
  status_configured :: bool
  status_enabled :: bool
  status_spawn_supported :: bool
  status_transport :: AgentTransportSupportView
  status_permission_modes :: "PermissionMode list"
  status_model_selection :: AgentModelSelectionCapabilityView
  status_effort_selection :: AgentEffortSelectionCapabilityView
  status_models :: "AgentModelsStatusView option"
  status_local :: AgentScopeStatusView
  status_auth :: AgentScopeStatusView
  status_hi :: AgentScopeStatusView

section \<open>The status of an agent\<close>

definition required_version :: "string \<Rightarrow> string option" where
  "required_version agent = (if agent = ''dsh'' then Some PINNED_DSH_VERSION else None)"

definition transport_support :: "(path \<Rightarrow> bool) \<Rightarrow> string \<Rightarrow> AgentConfigEntry \<Rightarrow> AgentTransportSupportView" where
  "transport_support exec agent e =
     \<lparr>transport_kind = (if agent = ''zcode'' then ZcodeAppServer else if agent = ''codex'' then CodexAppServer
        else if agent = ''agy'' then AgyStreamJson else DshAcp),
      transport_probe = True, transport_spawn = effective_spawn_supported exec agent e\<rparr>"

definition model_selection :: "(path \<Rightarrow> bool) \<Rightarrow> string \<Rightarrow> AgentConfigEntry \<Rightarrow> AgentModelSelectionCapabilityView" where
  "model_selection exec agent e =
     \<lparr>model_selection_supported = (agent \<in> {''zcode'', ''dsh'', ''codex'', ''agy''} \<and> effective_spawn_supported exec agent e),
      model_selection_mode = CatalogToken\<rparr>"

definition effort_selection :: "(path \<Rightarrow> bool) \<Rightarrow> string \<Rightarrow> AgentConfigEntry \<Rightarrow> AgentEffortSelectionCapabilityView" where
  "effort_selection exec agent e =
     \<lparr>effort_selection_supported = effective_spawn_supported exec agent e,
      effort_selection_mode = (if agent = ''codex'' \<or> agent = ''agy'' then ClosedSet else PassthroughToken)\<rparr>"

definition models_status :: "AgentModelsOutput option \<Rightarrow> 64 word \<Rightarrow> AgentModelsStatusView option" where
  "models_status recorded revision =
     map_option (\<lambda>r.
       let c = output_evidence r; current = output_revision r = revision in
       \<lparr>models_status_supported = (current \<and> output_supported r), models_status_tokens = (if current then output_models r else []),
        models_status_source = catalog_source c, models_status_version = catalog_version c,
        models_status_checked_at = catalog_checked_at c,
        models_status_reason = (if current then output_reason r else Some ''stale_config_revision'')\<rparr>) recorded"

definition was_checked :: "ScopeEvidence \<Rightarrow> bool" where
  "was_checked v = (case evidence_reason v of None \<Rightarrow> True | Some why \<Rightarrow> \<not> contains why ''not_probed'')"

definition stale_scope :: "ScopeEvidence \<Rightarrow> AgentScopeStatusView" where
  "stale_scope v =
     \<lparr>scope_view_path = evidence_path v, scope_view_state = ViewUnknown, scope_view_scope = evidence_scope v,
      scope_view_version = evidence_version v,
      scope_view_checked_at = (if was_checked v then Some (evidence_checked_at v) else None),
      scope_view_reason = Some ''stale_config_revision''\<rparr>"

definition unprobed_scope :: AgentScopeStatusView where
  "unprobed_scope = \<lparr>scope_view_path = None, scope_view_state = ViewUnknown, scope_view_scope = default_scope,
     scope_view_version = None, scope_view_checked_at = None, scope_view_reason = None\<rparr>"

fun component_state_of :: "EvidenceState \<Rightarrow> ComponentStateView" where
  "component_state_of EvidenceReady = ViewReady"
| "component_state_of EvidenceDegraded = ViewDegraded"
| "component_state_of EvidenceUnavailable = ViewUnavailable"
| "component_state_of EvidenceUnknown = ViewUnknown"

definition scope_status_view :: "ScopeEvidence \<Rightarrow> AgentScopeStatusView" where
  "scope_status_view v =
     \<lparr>scope_view_path = evidence_path v, scope_view_state = component_state_of (evidence_state v),
      scope_view_scope = evidence_scope v, scope_view_version = evidence_version v,
      scope_view_checked_at = (if was_checked v then Some (evidence_checked_at v) else None),
      scope_view_reason = (if was_checked v then evidence_reason v else None)\<rparr>"

definition current_scope :: "AgentProbeEvidence option \<Rightarrow> 64 word \<Rightarrow> (AgentProbeEvidence \<Rightarrow> ScopeEvidence) \<Rightarrow> AgentScopeStatusView" where
  "current_scope recorded revision sel =
     (case recorded of
        None \<Rightarrow> unprobed_scope
      | Some e \<Rightarrow> if evidence_revision e = revision then scope_status_view (sel e) else stale_scope (sel e))"

definition agent_status :: "(path \<Rightarrow> bool) \<Rightarrow> AgentConfigSnapshot \<Rightarrow> AgentEvidenceStore \<Rightarrow> string \<Rightarrow> AgentConfigEntry \<Rightarrow> AgentStatusView" where
  "agent_status exec config s agent e =
     (let recorded = latest_evidence s agent in
      \<lparr>status_agent = agent, status_required_version = required_version agent,
       status_version_mismatch = map_option (\<lambda>m. \<lparr>view_expected = mismatch_expected m, view_observed = mismatch_observed m,
           view_instruction = VERSION_MISMATCH_INSTRUCTION\<rparr>)
         (version_mismatch (expected_version agent (entry_version e))
            (Option.bind recorded (\<lambda>x. evidence_version (evidence_local x)))),
       status_config_revision = snapshot_revision config, status_configured = True, status_enabled = entry_enabled e,
       status_spawn_supported = effective_spawn_supported exec agent e, status_transport = transport_support exec agent e,
       status_permission_modes = permission_modes exec agent e, status_model_selection = model_selection exec agent e,
       status_effort_selection = effort_selection exec agent e,
       status_models = models_status (latest_models s agent) (snapshot_revision config),
       status_local = current_scope recorded (snapshot_revision config) evidence_local,
       status_auth = current_scope recorded (snapshot_revision config) evidence_auth,
       status_hi = current_scope recorded (snapshot_revision config) evidence_hi\<rparr>)"

definition STATUS_ROSTER :: "string list" where
  "STATUS_ROSTER = [''zcode'', ''dsh'', ''codex'', ''agy'']"

text \<open>The index of a configuration panics on a name it does not have; an accepted configuration has all four.\<close>

definition configured_agent_statuses ::
    "(path \<Rightarrow> bool) \<Rightarrow> AgentConfigSnapshot \<Rightarrow> AgentEvidenceStore \<Rightarrow> AgentStatusView list option" where
  "configured_agent_statuses exec config s =
     (if list_all (\<lambda>agent. map_of (subagents config) agent \<noteq> None) STATUS_ROSTER
      then Some (map (\<lambda>agent. agent_status exec config s agent (the (map_of (subagents config) agent))) STATUS_ROSTER)
      else None)"

definition unavailable_agent_statuses :: "(path \<Rightarrow> bool) \<Rightarrow> AgentStatusView list" where
  "unavailable_agent_statuses exec =
     map (\<lambda>agent.
       \<lparr>status_agent = agent, status_required_version = required_version agent, status_version_mismatch = None,
        status_config_revision = 0, status_configured = False, status_enabled = False, status_spawn_supported = False,
        status_transport = transport_support exec agent closed_entry, status_permission_modes = [],
        status_model_selection = model_selection exec agent closed_entry,
        status_effort_selection = effort_selection exec agent closed_entry, status_models = None,
        status_local = unprobed_scope, status_auth = unprobed_scope, status_hi = unprobed_scope\<rparr>) STATUS_ROSTER"

definition validate_agent_probe_input :: "AgentProbeInput \<Rightarrow> RpcError + unit" where
  "validate_agent_probe_input input =
     (let check = (\<lambda>name v. case v of
          None \<Rightarrow> Inr ()
        | Some x \<Rightarrow> res_bind (validate_text x name 4096) (\<lambda>_.
            if is_absolute x then Inr () else Inl (rpc_error RpcValidation (name @ '' must be absolute'')))) in
      res_bind (check ''workspace'' (scope_workspace (probe_scope input))) (\<lambda>_. check ''home'' (scope_home (probe_scope input))))"

definition validate_agent_models_input :: "AgentModelsInput \<Rightarrow> RpcError + unit" where
  "validate_agent_models_input input =
     validate_agent_probe_input \<lparr>probe_agent = models_agent input, probe_through = ProbeLocal, probe_scope = models_scope input\<rparr>"

section \<open>Components\<close>

definition aggregate_component_state :: "ComponentStateView list \<Rightarrow> ComponentStateView" where
  "aggregate_component_state states =
     (case remdups states of [] \<Rightarrow> ViewUnknown | [x] \<Rightarrow> x | _ \<Rightarrow> ViewDegraded)"

definition status_components :: "StoreError + string \<Rightarrow> AgentStatusView list \<Rightarrow> (string \<times> ComponentStateView) list" where
  "status_components journal agents =
     [(''daemon'', ViewReady),
      (''driver'', aggregate_component_state (map (\<lambda>a. scope_view_state (status_local a))
         (filter (\<lambda>a. status_enabled a \<and> status_spawn_supported a) agents))),
      (''facade'', ViewUnknown),
      (''model_auth'', aggregate_component_state (map (\<lambda>a. scope_view_state (status_auth a)) (filter status_enabled agents))),
      (''runtime'', aggregate_component_state (map (\<lambda>a. scope_view_state (status_local a)) (filter status_enabled agents))),
      (''scheduler'', ViewReady),
      (''store'', (case journal of
         Inr mode \<Rightarrow> if to_ascii_lowercase mode = ''wal'' then ViewReady else ViewDegraded | Inl _ \<Rightarrow> ViewUnavailable))]"

text \<open>
  The refresh before a status probes the local layer of every configured agent, each in a thread of its own;
  the order in which they record their answers does not matter, as they are of different agents.
\<close>

definition auto_probe_no_llm_layers ::
    "(AgentProbeInput \<Rightarrow> AgentProbeEvidence) \<Rightarrow> AgentConfigSnapshot \<Rightarrow> AgentEvidenceStore \<Rightarrow> AgentEvidenceStore" where
  "auto_probe_no_llm_layers backend config s =
     fold (\<lambda>name s'. snd (record_probe (refresh_input name s') (snapshot_revision config) (backend (refresh_input name s')) s'))
       (map fst (subagents config)) s"

definition models_sweep_input :: "AgentConfigSnapshot \<Rightarrow> string \<Rightarrow> AgentModelsInput" where
  "models_sweep_input config name =
     \<lparr>models_agent = name, models_scope =
        (case map_of (subagents config) ''dsh'' of
           Some e \<Rightarrow> if name = ''dsh'' then default_scope\<lparr>scope_profile := entry_profile e, scope_version := entry_version e\<rparr>
                     else default_scope
         | None \<Rightarrow> default_scope)\<rparr>"

definition models_sweep ::
    "(AgentModelsInput \<Rightarrow> AgentModelsOutput) \<Rightarrow> AgentConfigSnapshot \<Rightarrow> AgentEvidenceStore \<Rightarrow> AgentEvidenceStore" where
  "models_sweep backend config s =
     fold (\<lambda>name s'. snd (record_models (models_sweep_input config name) (snapshot_revision config)
         (backend (models_sweep_input config name)) s')) (map fst (subagents config)) s"

record SystemStatusView =
  system_components :: "(string \<times> ComponentStateView) list"
  system_agents :: "AgentStatusView list"

definition system_status ::
    "(path \<Rightarrow> bool) \<Rightarrow> (AgentProbeInput \<Rightarrow> AgentProbeEvidence) \<Rightarrow> RpcError + AgentConfigSnapshot \<Rightarrow> StoreError + string
       \<Rightarrow> AgentEvidenceStore \<Rightarrow> SystemStatusView option \<times> AgentEvidenceStore" where
  "system_status exec backend config journal s =
     (let s' = (case config of Inr c \<Rightarrow> auto_probe_no_llm_layers backend c s | Inl _ \<Rightarrow> s);
          agents = (case config of Inr c \<Rightarrow> configured_agent_statuses exec c s' | Inl _ \<Rightarrow> Some (unavailable_agent_statuses exec)) in
      (map_option (\<lambda>views. \<lparr>system_components = status_components journal views, system_agents = views\<rparr>) agents, s'))"

definition version_mismatch_instruction ::
    "(AgentProbeInput \<Rightarrow> AgentProbeEvidence) \<Rightarrow> RpcError + AgentConfigSnapshot \<Rightarrow> string \<Rightarrow> AgentEvidenceStore
       \<Rightarrow> string option \<times> AgentEvidenceStore" where
  "version_mismatch_instruction backend config agent s =
     (case config of
        Inl _ \<Rightarrow> (None, s)
      | Inr c \<Rightarrow>
          (case map_of (subagents c) agent of
             None \<Rightarrow> (None, s)
           | Some e \<Rightarrow>
               (case expected_version agent (entry_version e) of
                  None \<Rightarrow> (None, s)
                | Some wanted \<Rightarrow>
                    (let (seen, s') = probe_local_version backend agent (snapshot_revision c) s in
                     (case seen of
                        None \<Rightarrow> None
                      | Some v \<Rightarrow> map_option (\<lambda>_. VERSION_MISMATCH_INSTRUCTION) (version_mismatch (Some wanted) (Some v)), s')))))"

end
