(* ===== verification/Status_Properties.thy ===== *)
theory Status_Properties
  imports Rpc_Status
begin

text \<open>
  What the status surface guarantees: a layer is shown as anything but unknown only if a probe of that layer
  was made under the present configuration, and the refresh before a status keeps what dearer probes have
  found.
\<close>

section \<open>Runs of the evidence store\<close>

text \<open>
  The probes and catalog reads of a daemon in the order in which they were recorded. The environment of the
  process does not change; everything else of the host may.
\<close>

type_synonym probe_entry = "AgentProbeInput \<times> 64 word \<times> AgentProbeEvidence"

inductive evidence_run :: "(string \<Rightarrow> string option) \<Rightarrow> probe_entry list \<Rightarrow> AgentEvidenceStore \<Rightarrow> bool"
  for vars :: "string \<Rightarrow> string option" where
  nothing: "evidence_run vars [] evidence_store_new"
| probed: "evidence_run vars history s \<Longrightarrow> io_variable pio = vars \<Longrightarrow> answer = process_probe codec pio input \<Longrightarrow>
    evidence_run vars (history @ [(input, revision, answer)]) (snd (record_probe input revision answer s))"
| catalogued: "evidence_run vars history s \<Longrightarrow> evidence_run vars history (snd (record_models minput revision out s))"

definition home_settled :: "(string \<Rightarrow> string option) \<Rightarrow> string \<Rightarrow> ProbeScope \<Rightarrow> bool" where
  "home_settled vars agent scope \<longleftrightarrow> (\<forall>pio. io_variable pio = vars \<longrightarrow>
     with_home pio (home_variable agent) (home_variable agent \<noteq> ''CODEX_HOME'') scope = scope)"

text \<open>The layers of one answer are of one scope, with the home directory settled.\<close>

lemma probed_scope_settled:
  assumes "io_variable pio = vars"
  shows "home_settled vars (probe_agent input) (probed_scope pio input)"
  using assms
  by (auto simp: home_settled_def probed_scope_def with_home_def with_workspace_def Let_def split: option.splits if_splits)

lemma refreshed_scope:
  assumes "home_settled vars (probe_agent input) (probe_scope input)" "io_variable pio = vars" "probe_through input \<noteq> ProbeHi"
  shows "probed_scope pio input = probe_scope input"
  using assms by (auto simp: home_settled_def probed_scope_def Let_def)

lemma scope_of_parts:
  "evidence_scope (unknown_evidence scope n why) = scope" "evidence_scope (unavailable scope v n why) = scope"
  "evidence_scope (ready_evidence scope v n) = scope" "evidence_scope (derived_failure e scope n) = scope"
  "evidence_state (unknown_evidence scope n why) = EvidenceUnknown"
  by (simp_all add: unknown_evidence_def unavailable_def ready_evidence_def derived_failure_def)

lemma scope_of_hi:
  "evidence_scope (fst (probe_dsh_hi pio p scope v n)) = scope" "evidence_scope (snd (probe_dsh_hi pio p scope v n)) = scope"
  "evidence_scope (fst (probe_agy_hi codec pio p scope v n)) = scope" "evidence_scope (snd (probe_agy_hi codec pio p scope v n)) = scope"
  "evidence_scope (fst (probe_zcode_hi pio q scope v n)) = scope" "evidence_scope (snd (probe_zcode_hi pio q scope v n)) = scope"
  by (auto simp: probe_dsh_hi_def probe_agy_hi_def probe_zcode_hi_def scope_of_parts Let_def split: option.splits sum.splits)

lemma probe_local_scope: "evidence_scope (probe_local pio p scope n) = scope"
  by (simp add: probe_local_def Let_def split: option.splits sum.splits)

lemma upper_scopes:
  "evidence_scope (fst (upper_layers codec pio agent through scope p here n)) = scope"
  "evidence_scope (snd (upper_layers codec pio agent through scope p here n)) = scope"
  by (simp_all add: upper_layers_def scope_of_parts scope_of_hi Let_def split: option.splits)

lemma upper_unreached:
  "through \<noteq> ProbeHi \<Longrightarrow> evidence_state (snd (upper_layers codec pio agent through scope p here n)) = EvidenceUnknown"
  "through = ProbeLocal \<Longrightarrow> evidence_state (fst (upper_layers codec pio agent through scope p here n)) = EvidenceUnknown"
  by (cases through; simp add: upper_layers_def scope_of_parts Let_def)+

lemma answer_scopes:
  "evidence_scope (evidence_local (process_probe codec pio input)) = probed_scope pio input"
  "evidence_scope (evidence_auth (process_probe codec pio input)) = probed_scope pio input"
  "evidence_scope (evidence_hi (process_probe codec pio input)) = probed_scope pio input"
  by (simp_all add: process_probe_def probe_local_scope upper_scopes Let_def)

text \<open>A layer that the probe did not reach stays unknown.\<close>

lemma answer_layers:
  "probe_through input \<noteq> ProbeHi \<Longrightarrow> evidence_state (evidence_hi (process_probe codec pio input)) = EvidenceUnknown"
  "probe_through input = ProbeLocal \<Longrightarrow> evidence_state (evidence_auth (process_probe codec pio input)) = EvidenceUnknown"
  by (simp_all add: process_probe_def upper_unreached Let_def)

section \<open>Provenance\<close>

text \<open>
  What the store has of an agent: the layers that are not unknown are of the scope of the local layer and are
  the answers of probes under the recorded revision that reached them.
\<close>

definition from_probe :: "probe_entry list \<Rightarrow> string \<Rightarrow> 64 word \<Rightarrow> ProbeLayer set \<Rightarrow> (AgentProbeEvidence \<Rightarrow> ScopeEvidence) \<Rightarrow> ScopeEvidence \<Rightarrow> bool" where
  "from_probe history agent revision layers sel v \<longleftrightarrow>
     (\<exists>(input, r, answer) \<in> set history. probe_agent input = agent \<and> r = revision \<and> probe_through input \<in> layers \<and> sel answer = v)"

definition layer_backed ::
    "probe_entry list \<Rightarrow> string \<Rightarrow> AgentProbeEvidence \<Rightarrow> ProbeLayer set \<Rightarrow> (AgentProbeEvidence \<Rightarrow> ScopeEvidence) \<Rightarrow> bool" where
  "layer_backed history agent e layers sel \<longleftrightarrow>
     (evidence_state (sel e) \<noteq> EvidenceUnknown \<longrightarrow>
        evidence_scope (sel e) = evidence_scope (evidence_local e) \<and> from_probe history agent (evidence_revision e) layers sel (sel e))"

definition evidence_backed :: "(string \<Rightarrow> string option) \<Rightarrow> probe_entry list \<Rightarrow> string \<Rightarrow> AgentProbeEvidence \<Rightarrow> bool" where
  "evidence_backed vars history agent e \<longleftrightarrow>
     home_settled vars agent (evidence_scope (evidence_local e))
     \<and> from_probe history agent (evidence_revision e) UNIV evidence_local (evidence_local e)
     \<and> layer_backed history agent e {ProbeAuth, ProbeHi} evidence_auth
     \<and> layer_backed history agent e {ProbeHi} evidence_hi"

lemma from_probe_mono: "from_probe history agent r layers sel v \<Longrightarrow> from_probe (history @ later) agent r layers sel v"
  by (auto simp: from_probe_def)

lemma backed_mono: "evidence_backed vars history agent e \<Longrightarrow> evidence_backed vars (history @ later) agent e"
  by (auto simp: evidence_backed_def layer_backed_def intro: from_probe_mono)

text \<open>A layer that is kept from an earlier probe was of the scope of this one.\<close>

lemma kept_backed:
  assumes "evidence_backed vars history agent p" "layer_backed history agent p layers sel"
    and "evidence_state (preserved_or_stale (sel p) scope (evidence_revision p) revision) \<noteq> EvidenceUnknown"
  shows "preserved_or_stale (sel p) scope (evidence_revision p) revision = sel p \<and> evidence_revision p = revision
    \<and> scope = evidence_scope (evidence_local p) \<and> evidence_scope (sel p) = scope \<and> home_settled vars agent scope
    \<and> from_probe history agent revision layers sel (sel p)"
  using assms by (auto simp: preserved_or_stale_def evidence_backed_def layer_backed_def split: if_splits)

lemma merged_backed:
  assumes "\<forall>p. previous = Some p \<longrightarrow> evidence_backed vars history (probe_agent input) p" "io_variable pio = vars"
  shows "evidence_backed vars (history @ [(input, revision, process_probe codec pio input)]) (probe_agent input)
    (merged_evidence input revision (process_probe codec pio input) previous)"
proof -
  let ?a = "process_probe codec pio input"
  let ?h = "history @ [(input, revision, ?a)]"
  let ?m = "merged_evidence input revision ?a previous"
  have own: "from_probe ?h (probe_agent input) revision layers sel (sel ?a)" if "probe_through input \<in> layers" for layers sel
    using that by (auto simp: from_probe_def)
  have frame: "evidence_local ?m = evidence_local ?a" "evidence_revision ?m = revision"
    by (auto simp: merged_evidence_def Let_def split: option.splits ProbeLayer.splits)
  have kept: "evidence_scope v = probed_scope pio input \<and> from_probe ?h (probe_agent input) revision layers sel v"
    if "previous = Some p" "layer_backed history (probe_agent input) p layers sel" "probe_through input \<noteq> ProbeHi"
      "v = preserved_or_stale (sel p) (probe_scope input) (evidence_revision p) revision" "evidence_state v \<noteq> EvidenceUnknown" for p layers sel v
  proof -
    from kept_backed [of vars history "probe_agent input" p layers sel "probe_scope input" revision] that assms
    have k: "evidence_scope v = probe_scope input" "home_settled vars (probe_agent input) (probe_scope input)"
      "from_probe history (probe_agent input) revision layers sel v" by auto
    with refreshed_scope [OF k(2) assms(2) that(3)] show ?thesis by (auto intro: from_probe_mono)
  qed
  have auth: "layer_backed ?h (probe_agent input) ?m {ProbeAuth, ProbeHi} evidence_auth"
  proof (cases "previous = None \<or> probe_through input \<noteq> ProbeLocal")
    case True
    then have "evidence_auth ?m = evidence_auth ?a"
      by (auto simp: merged_evidence_def Let_def split: option.splits ProbeLayer.splits)
    with True own [of "{ProbeAuth, ProbeHi}" evidence_auth] answer_layers(2) [of input codec pio] frame show ?thesis
      by (cases "probe_through input") (auto simp: layer_backed_def answer_scopes)
  next
    case False
    then obtain p where p: "previous = Some p" by auto
    with False have "evidence_auth ?m = preserved_or_stale (evidence_auth p) (probe_scope input) (evidence_revision p) revision"
      by (auto simp: merged_evidence_def Let_def)
    with kept [OF p, of "{ProbeAuth, ProbeHi}" evidence_auth] assms(1) p False frame show ?thesis
      by (auto simp: layer_backed_def answer_scopes evidence_backed_def)
  qed
  have hi: "layer_backed ?h (probe_agent input) ?m {ProbeHi} evidence_hi"
  proof (cases "previous = None \<or> probe_through input = ProbeHi")
    case True
    then have "evidence_hi ?m = evidence_hi ?a"
      by (auto simp: merged_evidence_def Let_def split: option.splits ProbeLayer.splits)
    with True own [of "{ProbeHi}" evidence_hi] answer_layers(1) [of input codec pio] frame show ?thesis
      by (auto simp: layer_backed_def answer_scopes)
  next
    case False
    then obtain p where p: "previous = Some p" by auto
    with False have "evidence_hi ?m = preserved_or_stale (evidence_hi p) (probe_scope input) (evidence_revision p) revision"
      by (cases "probe_through input") (auto simp: merged_evidence_def Let_def)
    with kept [OF p, of "{ProbeHi}" evidence_hi] assms(1) p False frame show ?thesis
      by (auto simp: layer_backed_def answer_scopes evidence_backed_def)
  qed
  show ?thesis
    using auth hi own [of UNIV evidence_local] probed_scope_settled [OF assms(2), of input]
    by (simp add: evidence_backed_def frame answer_scopes)
qed

lemma run_backed:
  assumes "evidence_run vars history s" "latest_evidence s agent = Some e"
  shows "evidence_backed vars history agent e"
  using assms
proof (induction arbitrary: e rule: evidence_run.induct)
  case nothing
  then show ?case by (simp add: evidence_store_new_def)
next
  case (probed history s pio answer codec input revision)
  show ?case
  proof (cases "agent = probe_agent input")
    case True
    with probed.prems have "e = merged_evidence input revision answer (latest_evidence s (probe_agent input))"
      by (simp add: record_probe_def Let_def)
    with merged_backed [of "latest_evidence s (probe_agent input)" vars history input pio revision codec] probed True show ?thesis
      by auto
  next
    case False
    with probed show ?thesis by (auto simp: record_probe_def Let_def intro: backed_mono)
  qed
next
  case (catalogued history s minput revision out)
  then show ?case by (simp add: record_models_def Let_def)
qed

lemma shown_state:
  "scope_view_state (current_scope recorded revision sel) \<noteq> ViewUnknown \<longleftrightarrow>
     (\<exists>e. recorded = Some e \<and> evidence_revision e = revision \<and> evidence_state (sel e) \<noteq> EvidenceUnknown)"
proof -
  have "component_state_of x \<noteq> ViewUnknown \<longleftrightarrow> x \<noteq> EvidenceUnknown" for x by (cases x) auto
  then show ?thesis
    by (auto simp: current_scope_def unprobed_scope_def stale_scope_def scope_status_view_def split: option.splits)
qed

lemma shown_view:
  assumes "recorded = Some e" "evidence_revision e = revision"
  shows "current_scope recorded revision sel = scope_status_view (sel e)"
  using assms by (simp add: current_scope_def)

text \<open>
  C18. A status never shows outdated or invented evidence. A layer of an agent that is shown as ready, degraded or
  unavailable is the answer of a recorded probe of that agent, made under the revision of the configuration
  that the status is of, and the probe reached that layer.
\<close>

theorem status_backed_by_probe:
  assumes "evidence_run vars history s" "configured_agent_statuses exec config s = Some views" "v \<in> set views"
  shows "(scope_view_state (status_local v) \<noteq> ViewUnknown \<longrightarrow>
      (\<exists>(input, revision, answer) \<in> set history. probe_agent input = status_agent v \<and> revision = snapshot_revision config
        \<and> status_local v = scope_status_view (evidence_local answer)))
    \<and> (scope_view_state (status_auth v) \<noteq> ViewUnknown \<longrightarrow>
      (\<exists>(input, revision, answer) \<in> set history. probe_agent input = status_agent v \<and> revision = snapshot_revision config
        \<and> probe_through input \<noteq> ProbeLocal \<and> status_auth v = scope_status_view (evidence_auth answer)))
    \<and> (scope_view_state (status_hi v) \<noteq> ViewUnknown \<longrightarrow>
      (\<exists>(input, revision, answer) \<in> set history. probe_agent input = status_agent v \<and> revision = snapshot_revision config
        \<and> probe_through input = ProbeHi \<and> status_hi v = scope_status_view (evidence_hi answer)))"
proof -
  obtain agent entry where v: "v = agent_status exec config s agent entry"
    using assms(2,3) by (auto simp: configured_agent_statuses_def split: if_splits)
  let ?r = "latest_evidence s agent"
  have backed: "\<exists>(input, revision, answer) \<in> set history. probe_agent input = agent \<and> revision = snapshot_revision config
      \<and> probe_through input \<in> layers \<and> current_scope ?r (snapshot_revision config) sel = scope_status_view (sel answer)"
    if "scope_view_state (current_scope ?r (snapshot_revision config) sel) \<noteq> ViewUnknown"
      and "\<And>e. evidence_backed vars history agent e \<Longrightarrow> evidence_state (sel e) \<noteq> EvidenceUnknown \<Longrightarrow>
        from_probe history agent (evidence_revision e) layers sel (sel e)" for sel layers
  proof -
    from that(1) obtain e where e: "?r = Some e" "evidence_revision e = snapshot_revision config" "evidence_state (sel e) \<noteq> EvidenceUnknown"
      by (auto simp: shown_state)
    from that(2) [OF run_backed [OF assms(1) e(1)] e(3)] obtain input answer where
      "(input, snapshot_revision config, answer) \<in> set history" "probe_agent input = agent" "probe_through input \<in> layers" "sel answer = sel e"
      unfolding from_probe_def e(2) by auto
    then show ?thesis
      by (intro bexI [of _ "(input, snapshot_revision config, answer)"]) (auto simp: shown_view [OF e(1,2)])
  qed
  note here = backed [of evidence_local UNIV] and auth = backed [of evidence_auth "{ProbeAuth, ProbeHi}"]
    and hi = backed [of evidence_hi "{ProbeHi}"]
  have views: "status_agent v = agent" "status_local v = current_scope ?r (snapshot_revision config) evidence_local"
    "status_auth v = current_scope ?r (snapshot_revision config) evidence_auth"
    "status_hi v = current_scope ?r (snapshot_revision config) evidence_hi"
    by (simp_all add: v agent_status_def Let_def)
  show ?thesis
    unfolding views
  proof (intro conjI impI)
    assume "scope_view_state (current_scope ?r (snapshot_revision config) evidence_local) \<noteq> ViewUnknown"
    from here [OF this] show "\<exists>(input, revision, answer) \<in> set history. probe_agent input = agent \<and>
        revision = snapshot_revision config \<and> current_scope ?r (snapshot_revision config) evidence_local = scope_status_view (evidence_local answer)"
      by (fastforce simp: evidence_backed_def)
  next
    assume "scope_view_state (current_scope ?r (snapshot_revision config) evidence_auth) \<noteq> ViewUnknown"
    from auth [OF this] show "\<exists>(input, revision, answer) \<in> set history. probe_agent input = agent \<and>
        revision = snapshot_revision config \<and> probe_through input \<noteq> ProbeLocal \<and>
        current_scope ?r (snapshot_revision config) evidence_auth = scope_status_view (evidence_auth answer)"
      by (fastforce simp: evidence_backed_def layer_backed_def)
  next
    assume "scope_view_state (current_scope ?r (snapshot_revision config) evidence_hi) \<noteq> ViewUnknown"
    from hi [OF this] show "\<exists>(input, revision, answer) \<in> set history. probe_agent input = agent \<and>
        revision = snapshot_revision config \<and> probe_through input = ProbeHi \<and>
        current_scope ?r (snapshot_revision config) evidence_hi = scope_status_view (evidence_hi answer)"
      by (fastforce simp: evidence_backed_def layer_backed_def)
  qed
qed

definition ready_host :: probe_io where
  "ready_host =
     \<lparr>io_now = 5, io_variable = (\<lambda>_. None), io_on_path = (\<lambda>_. None), io_tempdir = (\<lambda>_. Some ''/t''),
      io_runtime_source = Some ''/z'', io_file = (\<lambda>_. True), io_directory = (\<lambda>_. True),
      io_executable_version = (\<lambda>_. Inr ''1.0.0''), io_dsh_hi = (\<lambda>_ _. Inr None), io_agy_hi = (\<lambda>_ _. Inl []),
      io_zcode_hi = (\<lambda>_ _. Inr ''s''), io_zcode_catalog = (\<lambda>_ _. Inr []), io_codex_catalog = (\<lambda>_ _. Inr []),
      io_dsh_catalog = (\<lambda>_ _. Inr []), io_agy_catalog = (\<lambda>_ _. Inr [])\<rparr>"

definition zcode_hi_input :: AgentProbeInput where
  "zcode_hi_input = \<lparr>probe_agent = ''zcode'', probe_through = ProbeHi, probe_scope = default_scope\<rparr>"

abbreviation ready_store :: AgentEvidenceStore where
  "ready_store \<equiv> snd (record_probe zcode_hi_input 0 (process_probe printing_codec ready_host zcode_hi_input) evidence_store_new)"

lemma ready_run:
  "evidence_run (\<lambda>_. None) [(zcode_hi_input, 0, process_probe printing_codec ready_host zcode_hi_input)] ready_store"
  using evidence_run.probed [OF evidence_run.nothing, of ready_host "\<lambda>_. None"] by (simp add: ready_host_def)

theorem status_backed_by_probe_witness:
  "\<exists>v \<in> set (the (configured_agent_statuses (\<lambda>_. True) config_default ready_store)).
     status_agent v = ''zcode'' \<and> scope_view_state (status_hi v) = ViewReady
     \<and> status_hi v = scope_status_view (evidence_hi (process_probe printing_codec ready_host zcode_hi_input))"
proof -
  let ?entry = "the (map_of (subagents config_default) ''zcode'')"
  let ?v = "agent_status (\<lambda>_. True) config_default ready_store ''zcode'' ?entry"
  have roster: "list_all (\<lambda>agent. map_of (subagents config_default) agent \<noteq> None) STATUS_ROSTER" by code_simp
  then obtain views where views: "configured_agent_statuses (\<lambda>_. True) config_default ready_store = Some views" "?v \<in> set views"
    by (auto simp: configured_agent_statuses_def STATUS_ROSTER_def)
  have ready: "scope_view_state (status_hi ?v) = ViewReady" by code_simp
  with status_backed_by_probe [OF ready_run views] have
    "status_hi ?v = scope_status_view (evidence_hi (process_probe printing_codec ready_host zcode_hi_input))" by auto
  moreover have "status_agent ?v = ''zcode''" by (simp add: agent_status_def Let_def)
  ultimately show ?thesis using views ready by auto
qed

section \<open>The refresh before a status\<close>

lemma refresh_keeps:
  assumes "evidence_run vars history s" "latest_evidence s agent = Some e" "evidence_revision e = revision"
    and "evidence_state (sel e) \<noteq> EvidenceUnknown" "sel = evidence_auth \<or> sel = evidence_hi"
  shows "sel (fst (record_probe (refresh_input agent s) revision answer s)) = sel e"
proof -
  have "evidence_scope (sel e) = evidence_scope (evidence_local e)"
    using run_backed [OF assms(1,2)] assms(4,5) by (auto simp: evidence_backed_def layer_backed_def)
  with assms show ?thesis
    by (auto simp: record_probe_def merged_evidence_def refresh_input_def preserved_or_stale_def Let_def)
qed

lemma refresh_other:
  "agent \<noteq> name \<Longrightarrow> latest_evidence (snd (record_probe (refresh_input name s) revision answer s)) agent = latest_evidence s agent"
  by (simp add: record_probe_def refresh_input_def Let_def)

lemma refresh_recorded:
  "latest_evidence (snd (record_probe (refresh_input name s) revision answer s)) name
     = Some (fst (record_probe (refresh_input name s) revision answer s))"
  "evidence_revision (fst (record_probe input revision answer s)) = revision"
  by (auto simp: record_probe_def refresh_input_def merged_evidence_def Let_def split: option.splits ProbeLayer.splits)

text \<open>
  C19. The refresh that every status makes first renews the local layer only: whatever the runtimes answer it, what an
  explicit probe has found of the credentials and of a live session of an agent under the present configuration
  is still there afterwards.
\<close>

theorem status_refresh_keeps_evidence:
  assumes "evidence_run vars history s" "io_variable pio = vars"
    and "latest_evidence s agent = Some e" "evidence_revision e = snapshot_revision config"
  shows "\<exists>e' history'. latest_evidence (auto_probe_no_llm_layers (process_probe codec pio) config s) agent = Some e'
    \<and> evidence_revision e' = snapshot_revision config
    \<and> (evidence_state (evidence_auth e) \<noteq> EvidenceUnknown \<longrightarrow> evidence_auth e' = evidence_auth e)
    \<and> (evidence_state (evidence_hi e) \<noteq> EvidenceUnknown \<longrightarrow> evidence_hi e' = evidence_hi e)
    \<and> evidence_run vars (history @ history') (auto_probe_no_llm_layers (process_probe codec pio) config s)"
proof -
  let ?rev = "snapshot_revision config"
  let ?step = "\<lambda>name s'. snd (record_probe (refresh_input name s') ?rev (process_probe codec pio (refresh_input name s')) s')"
  have "\<exists>e' history'. latest_evidence (fold ?step names s) agent = Some e' \<and> evidence_revision e' = ?rev
      \<and> (evidence_state (evidence_auth e) \<noteq> EvidenceUnknown \<longrightarrow> evidence_auth e' = evidence_auth e)
      \<and> (evidence_state (evidence_hi e) \<noteq> EvidenceUnknown \<longrightarrow> evidence_hi e' = evidence_hi e)
      \<and> evidence_run vars (history @ history') (fold ?step names s)" for names
    using assms(1,3,4)
  proof (induction names arbitrary: s history e)
    case Nil
    then show ?case by (auto intro: exI [of _ "[]"])
  next
    case (Cons name names)
    let ?answer = "process_probe codec pio (refresh_input name s)"
    have run: "evidence_run vars (history @ [(refresh_input name s, ?rev, ?answer)]) (?step name s)"
      using evidence_run.probed [OF Cons.prems(1) assms(2) refl] .
    obtain e1 where e1: "latest_evidence (?step name s) agent = Some e1" "evidence_revision e1 = ?rev"
      "evidence_state (evidence_auth e) \<noteq> EvidenceUnknown \<longrightarrow> evidence_auth e1 = evidence_auth e"
      "evidence_state (evidence_hi e) \<noteq> EvidenceUnknown \<longrightarrow> evidence_hi e1 = evidence_hi e"
    proof (cases "agent = name")
      case True
      with Cons.prems refresh_keeps [OF Cons.prems(1,2,3), of _ ?answer] show thesis
        by (intro that [of "fst (record_probe (refresh_input name s) ?rev ?answer s)"]) (auto simp: refresh_recorded)
    next
      case False
      with Cons.prems show thesis by (intro that [of e]) (simp_all add: refresh_other)
    qed
    from Cons.IH [OF run e1(1,2)] e1(3,4) show ?case by fastforce
  qed
  then show ?thesis by (simp add: auto_probe_no_llm_layers_def)
qed

theorem status_refresh_keeps_evidence_witness:
  "\<exists>e'. latest_evidence (auto_probe_no_llm_layers (process_probe printing_codec ready_host) config_default ready_store) ''zcode'' = Some e'
     \<and> evidence_state (evidence_hi e') = EvidenceReady"
proof -
  obtain e where e: "latest_evidence ready_store ''zcode'' = Some e"
    by (simp add: record_probe_def zcode_hi_input_def Let_def)
  have "evidence_state (evidence_hi (the (latest_evidence ready_store ''zcode''))) = EvidenceReady
      \<and> evidence_revision (the (latest_evidence ready_store ''zcode'')) = snapshot_revision config_default" by code_simp
  with e have "evidence_state (evidence_hi e) = EvidenceReady" "evidence_revision e = snapshot_revision config_default" by simp_all
  with status_refresh_keeps_evidence [OF ready_run _ e, of ready_host config_default printing_codec]
  show ?thesis by (auto simp: ready_host_def)
qed

text \<open>The rollup of no agent is unknown.\<close>

lemma empty_rollup_unknown: "aggregate_component_state [] = ViewUnknown"
  by (simp add: aggregate_component_state_def)

end
