(* ===== verification/Rpc_Handlers.thy ===== *)
theory Rpc_Handlers
  imports Status_Properties Scheduler_Submit
begin

text \<open>
  The service of the daemon (\<open>rpc/handlers.rs\<close>, \<open>rpc/types.rs\<close>, \<open>rpc/transport.rs\<close>): reading a frame, decoding and
  dispatching a request, one handler per method, and writing the response.

  The variables and files of the service, its profiles, the executables of the host, the probes and the
  fresh identifiers are parameters (\<open>service_host\<close>), given at the step at which they are read. The reader that
  the attributes of the request types generate is a parameter, too.
\<close>

section \<open>Requests and responses\<close>

datatype ResponseDecision = DecisionAllow | DecisionDeny | DecisionAnswer

fun response_decision_text :: "ResponseDecision \<Rightarrow> string" where
  "response_decision_text DecisionAllow = ''allow''"
| "response_decision_text DecisionDeny = ''deny''"
| "response_decision_text DecisionAnswer = ''answer''"

record TaskListQuery =
  list_agent :: "string option"
  list_repository :: "string option"
  list_phase :: "TaskPhase option"
  list_outcome :: "TaskOutcome option"
  list_cursor :: "string option"
  list_limit :: nat

record MessageInput =
  message_agent_id :: string
  message_given_id :: "string option"
  message_mode :: string
  message_content :: string

record RespondInput =
  respond_agent_id :: string
  respond_request_id :: string
  respond_decision :: ResponseDecision
  respond_content :: "string option"

datatype RpcMethod =
    MethodSystemStatus
  | MethodSystemStatusRefresh bool
  | MethodDaemonBeginDrain bool
  | MethodDaemonDrainStatus
  | MethodDaemonAbortDrain
  | MethodDaemonActivateReady
  | MethodAgentProbe AgentProbeInput
  | MethodAgentModels AgentModelsInput
  | MethodSubmitGeneral GeneralSubmitInput
  | MethodTaskList TaskListQuery
  | MethodTaskWait TaskWaitQuery
  | MethodTaskMessage MessageInput
  | MethodTaskRespond RespondInput
  | MethodTaskCancel string
  | MethodTaskResult string nat nat
  | MethodTaskClose string
  | MethodTaskObserve string

definition known_methods :: "string list" where
  "known_methods =
     [''system_status'', ''system_status_refresh'', ''daemon_begin_drain'', ''daemon_drain_status'', ''daemon_abort_drain'',
      ''daemon_activate_ready'', ''agent_probe'', ''agent_models'', ''submit_general'', ''task_list'', ''task_wait'',
      ''task_message'', ''task_respond'', ''task_cancel'', ''task_result'', ''task_close'', ''task_observe'']"

definition is_known :: "string \<Rightarrow> bool" where
  "is_known name \<longleftrightarrow> name \<in> set known_methods"

record DrainStatusView =
  drain_is_draining :: bool
  drain_active_count :: nat
  drain_resources_reaped :: bool
  drain_ready :: bool
  drain_updater_fired :: bool
  drain_claim :: "string option"

definition OBSERVATION_SCHEMA :: string where
  "OBSERVATION_SCHEMA = ''external-subagent-observation/1.1''"

record TaskObservationView =
  observation_view_schema :: string
  observation_view_agent :: string
  observation_view_count_scope :: string
  observation_view_tools :: "ObservedTool list"
  observation_view_reasoning :: "ObservedReasoning option"
  observation_view_coverage :: ObservationCoverage

datatype RpcSuccess =
    SuccessStatus SystemStatusView
  | SuccessDrain DrainStatusView
  | SuccessProbed AgentProbeEvidence AgentStatusView
  | SuccessModels AgentModelsOutput
  | SuccessSubmitted TaskView
  | SuccessListed "TaskView list" "string option"
  | SuccessWait TaskWaitBody
  | SuccessWaitMany TaskWaitManyBody
  | SuccessResult TaskView "TaskResultView option" "string option"
  | SuccessMessage string MessageDisposition TaskView
  | SuccessRespond ResponseOutcome TaskView
  | SuccessStopped TaskView
  | SuccessClosed TaskView
  | SuccessObserved TaskObservationView

record RpcResponse =
  response_request_id :: "string option"
  response_outcome :: "RpcError + RpcSuccess"

record RpcRequest =
  rpc_request_id :: string
  rpc_method :: RpcMethod

section \<open>The host of the service\<close>

record service_host =
  sv_env :: "nat \<Rightarrow> service_env"
  sv_profiles :: "nat \<Rightarrow> profiles_io"
  sv_exec :: "nat \<Rightarrow> path \<Rightarrow> bool"
  sv_probe :: "nat \<Rightarrow> probe_io"
  sv_journal :: "nat \<Rightarrow> StoreError + string"
  sv_uuid :: "nat \<Rightarrow> string"
  sv_version :: string
  sv_admission_agent :: "string \<Rightarrow> string option"
  sv_identity :: "json \<Rightarrow> AdmissionIdentity option"

definition asked :: "(world \<Rightarrow> nat \<Rightarrow> 'a) \<Rightarrow> 'a rpc" where
  "asked f = rpc_lift (ask f)"

definition read_config :: "service_host \<Rightarrow> AgentConfigSnapshot rpc" where
  "read_config h = rpc_bind (asked (\<lambda>w k. read_agent_config_snapshot (w_codec w) (sv_env h k))) rpc_result"

definition viewed_task :: "service_host \<Rightarrow> TaskRecord \<Rightarrow> TaskView rpc" where
  "viewed_task h task = rpc_lift (given (\<lambda>w. task_view (w_codec w) (sv_identity h) task))"

section \<open>Submission\<close>

definition MAX_DEVELOPER_INSTRUCTIONS_BYTES :: nat where
  "MAX_DEVELOPER_INSTRUCTIONS_BYTES = 1024 * 1024"

definition profile_conflict :: "GeneralSubmitInput \<Rightarrow> bool" where
  "profile_conflict input \<longleftrightarrow>
     submit_profile input \<noteq> None \<and>
       (submit_agent input \<noteq> None \<or> submit_model input \<noteq> None \<or> submit_effort input \<noteq> None
        \<or> submit_instructions input \<noteq> None \<or> manifest_permission_mode (submit_manifest input) \<noteq> None)"

definition profile_conflict_error :: RpcError where
  "profile_conflict_error = new_profile_error RpcValidation
     ''profile cannot be combined with subagent, permission_mode, model, effort, or developer_instructions; specify these in the profile JSON or omit profile''"

definition with_profile :: "Profile \<Rightarrow> GeneralSubmitInput \<Rightarrow> GeneralSubmitInput" where
  "with_profile p input =
     input\<lparr>submit_agent := profile_subagent p, submit_model := profile_model p, submit_effort := profile_effort p,
           submit_manifest := (submit_manifest input)\<lparr>manifest_permission_mode := profile_permission_mode p\<rparr>\<rparr>"

definition resolve_profile ::
    "service_host \<Rightarrow> GeneralSubmitInput \<Rightarrow> (GeneralSubmitInput \<times> string option \<times> Profile option) rpc" where
  "resolve_profile h input =
     (case submit_profile input of
        None \<Rightarrow>
          rpc_ok (input\<lparr>submit_instructions := None\<rparr>,
            Option.bind (submit_instructions input) (\<lambda>s. if trim s = [] then None else Some s), None)
      | Some name \<Rightarrow>
          if trim name = [] \<or> 128 < length name \<or> CHR 0x00 \<in> set name
          then
            rpc_bind (asked (\<lambda>w k. available_profile_names (w_codec w) (sv_env h k) (sv_profiles h k))) (\<lambda>available.
            rpc_fail (make_profile_rejection_error (profile_rejection None (Some ''profile'') ''profile is invalid'') available))
          else
            rpc_bind (asked (\<lambda>w k. load_profile (w_codec w) (sv_env h k) (sv_profiles h k) (trim name))) (\<lambda>loaded.
            rpc_bind (rpc_result loaded) (\<lambda>p.
            rpc_ok (with_profile p input, profile_instructions p, Some p))))"

definition instructions_bound :: "string option \<Rightarrow> RpcError + unit" where
  "instructions_bound instructions =
     (case instructions of
        Some s \<Rightarrow>
          if MAX_DEVELOPER_INSTRUCTIONS_BYTES < length s
          then Inl (rpc_error RpcValidation (''developer_instructions exceeds '' @ to_decimal MAX_DEVELOPER_INSTRUCTIONS_BYTES @ '' bytes''))
          else Inr ()
      | None \<Rightarrow> Inr ())"

definition effective_agent :: "GeneralSubmitInput \<Rightarrow> AgentConfigSnapshot \<Rightarrow> string option" where
  "effective_agent input config = (case submit_agent input of Some a \<Rightarrow> Some a | None \<Rightarrow> default_subagent config)"

definition spliced_prompt :: "string \<Rightarrow> string \<Rightarrow> string" where
  "spliced_prompt instructions prompt =
     ''Developer Instructions: '' @ instructions @ [CHR 0x0A] @ ''----------'' @ [CHR 0x0A] @ prompt"

definition splice_instructions ::
    "GeneralSubmitInput \<Rightarrow> AgentConfigSnapshot \<Rightarrow> string option \<Rightarrow> GeneralSubmitInput \<times> string option" where
  "splice_instructions input config instructions =
     (if effective_agent input config = Some ''codex'' then (input, instructions)
      else
        (case instructions of
           Some s \<Rightarrow>
             (if s \<noteq> []
              then input\<lparr>submit_manifest := (submit_manifest input)
                     \<lparr>manifest_prompt := spliced_prompt s (manifest_prompt (submit_manifest input))\<rparr>\<rparr>
              else input, None)
         | None \<Rightarrow> (input, None)))"

definition admission_refused :: "service_host \<Rightarrow> Profile option \<Rightarrow> AdmissionFailure \<Rightarrow> 'a rpc" where
  "admission_refused h profile failure =
     (case (profile_provided failure, profile, field_as_str (failure_field failure)) of
        (True, Some p, Some field) \<Rightarrow>
          rpc_bind (asked (\<lambda>w k. available_profile_names (w_codec w) (sv_env h k) (sv_profiles h k))) (\<lambda>available.
          rpc_fail (make_profile_rejection_error_with_code (rpc_code (failure_error failure))
            (profile_rejection (Some (profile_source_path p)) (Some field) (rpc_message (failure_error failure))) available))
      | _ \<Rightarrow> rpc_fail (failure_error failure))"

definition handle_submit :: "service_host \<Rightarrow> GeneralSubmitInput \<Rightarrow> RpcSuccess rpc" where
  "handle_submit h input0 =
     (if profile_conflict input0 then rpc_fail profile_conflict_error
      else
        rpc_bind (resolve_profile h input0) (\<lambda>(input1, instructions, profile).
        rpc_bind (rpc_result (instructions_bound instructions)) (\<lambda>_.
        rpc_bind (read_config h) (\<lambda>config.
        let (input, native) = splice_instructions input1 config instructions in
        rpc_bind (asked (\<lambda>w k. resolve_admission_with_instructions (w_codec w) (sv_env h k) (sv_exec h k) (sv_version h)
            input config native profile)) (\<lambda>admission.
        case admission of
          Inl failure \<Rightarrow> admission_refused h profile failure
        | Inr identity \<Rightarrow>
            rpc_bind (rpc_sched (submit_and_start_general (submit_manifest input) (Some identity))) (\<lambda>task.
            rpc_bind (viewed_task h task) (\<lambda>view. rpc_ok (SuccessSubmitted view))))))))"

section \<open>Tasks\<close>

definition parse_task_cursor :: "string \<Rightarrow> RpcError + nat" where
  "parse_task_cursor cursor =
     (case (if starts_with cursor ''task:'' then parse_unsigned u64_max (drop 5 cursor) else None) of
        Some n \<Rightarrow> if 0 < n then Inr n else Inl (rpc_error RpcValidation ''task cursor is invalid'')
      | None \<Rightarrow> Inl (rpc_error RpcValidation ''task cursor is invalid''))"

definition format_task_cursor :: "nat \<Rightarrow> string" where
  "format_task_cursor cursor = ''task:'' @ to_decimal cursor"

definition optional_text :: "string option \<Rightarrow> string \<Rightarrow> nat \<Rightarrow> RpcError + unit" where
  "optional_text v field cap = (case v of Some x \<Rightarrow> validate_text x field cap | None \<Rightarrow> Inr ())"

fun rpc_map :: "('a \<Rightarrow> 'b rpc) \<Rightarrow> 'a list \<Rightarrow> 'b list rpc" where
  "rpc_map f [] = rpc_ok []"
| "rpc_map f (x # xs) = rpc_bind (f x) (\<lambda>y. rpc_bind (rpc_map f xs) (\<lambda>ys. rpc_ok (y # ys)))"

definition handle_list :: "service_host \<Rightarrow> TaskListQuery \<Rightarrow> RpcSuccess rpc" where
  "handle_list h q =
     (if (case list_agent q of Some a \<Rightarrow> a \<notin> {''zcode'', ''dsh'', ''codex'', ''agy''} | None \<Rightarrow> False)
      then rpc_bind (read_config h) (\<lambda>config. rpc_fail (unknown_agent_name_error config))
      else if list_limit q = 0 \<or> MAX_LIST_TASKS < list_limit q
      then rpc_fail (rpc_error RpcValidation ''task list limit is outside the allowed range'')
      else
        rpc_bind (rpc_result (optional_text (list_repository q) ''repository'' 4096)) (\<lambda>_.
        rpc_bind (rpc_result (optional_text (list_cursor q) ''cursor'' 64)) (\<lambda>_.
        case list_repository q of
          None \<Rightarrow> rpc_fail (rpc_error RpcValidation ''at least one task list scope is required'')
        | Some named \<Rightarrow>
            rpc_bind (asked (\<lambda>w k. map_sum id (path_text (w_prep w)) (canonical_general_repository (w_fs w k) named))) (\<lambda>canonical.
            case canonical of
              Inl _ \<Rightarrow> rpc_fail (rpc_error RpcValidation ''repository scope is invalid'')
            | Inr scope \<Rightarrow>
                rpc_bind (rpc_result (case list_cursor q of
                    None \<Rightarrow> Inr None | Some c \<Rightarrow> res_bind (parse_task_cursor c) (\<lambda>n. Inr (Some n)))) (\<lambda>cursor.
                rpc_bind (rpc_store (\<lambda>s. list_task_page (sv_admission_agent h) s (Some scope)
                    \<lparr>filter_agent = list_agent q, filter_phase = list_phase q, filter_outcome = list_outcome q\<rparr>
                    cursor (list_limit q))) (\<lambda>page.
                rpc_bind (rpc_map (viewed_task h) (page_tasks page)) (\<lambda>views.
                rpc_ok (SuccessListed views (map_option format_task_cursor (next_cursor page))))))))))"

definition handle_wait :: "TaskWaitQuery \<Rightarrow> RpcSuccess rpc" where
  "handle_wait q =
     (if MAX_WAIT_SECONDS < wait_time q
      then rpc_fail (rpc_error RpcValidation ''wait_time must be between 0 and 299 seconds'')
      else
        (let refused = (case wait_agent_id q of
             WaitOne _ \<Rightarrow> None
           | WaitMany ids \<Rightarrow>
               if ids = [] then Some ''agent_id list must contain at least one id''
               else if MAX_WAIT_AGENTS < length ids then Some ''agent_id list supports at most 16 ids''
               else if wait_message_id q \<noteq> None then Some ''message_id is only supported with a single agent_id'' else None) in
         case refused of
           Some message \<Rightarrow> rpc_fail (rpc_error RpcValidation message)
         | None \<Rightarrow>
             rpc_bind (asked w_now) (\<lambda>now.
             rpc_bind (task_wait q (now + wait_time q * 1000000000)) (\<lambda>answer.
             rpc_ok (case answer of Inl b \<Rightarrow> SuccessWait b | Inr m \<Rightarrow> SuccessWaitMany m)))))"

definition handle_message :: "service_host \<Rightarrow> MessageInput \<Rightarrow> RpcSuccess rpc" where
  "handle_message h input =
     (if message_mode input \<notin> {''queue'', ''steer''} then rpc_fail (rpc_error RpcValidation ''mode must be queue or steer'')
      else
        rpc_bind (require_task_record (message_agent_id input)) (\<lambda>task.
        rpc_bind (rpc_result (case message_given_id input of Some m \<Rightarrow> validate_id m ''message_id'' | None \<Rightarrow> Inr ())) (\<lambda>_.
        rpc_bind (rpc_result (validate_text (message_content input) ''content'' (16 * 1024))) (\<lambda>_.
        rpc_bind (asked (\<lambda>w k. case message_given_id input of Some m \<Rightarrow> m | None \<Rightarrow> ''subagent-message-'' @ sv_uuid h k)) (\<lambda>mid.
        rpc_bind (rpc_sched (send_message (agent_id task) mid (message_mode input) (message_content input))) (\<lambda>disposition.
        rpc_bind (require_task_record (message_agent_id input)) (\<lambda>task'.
        rpc_bind (viewed_task h task') (\<lambda>view. rpc_ok (SuccessMessage mid disposition view)))))))))"

definition handle_respond :: "service_host \<Rightarrow> RespondInput \<Rightarrow> RpcSuccess rpc" where
  "handle_respond h input =
     rpc_bind (require_task_record (respond_agent_id input)) (\<lambda>task.
     rpc_bind (rpc_result (validate_id (respond_request_id input) ''request_id'')) (\<lambda>_.
     rpc_bind (rpc_result (optional_text (respond_content input) ''response content'' (16 * 1024))) (\<lambda>_.
     if respond_decision input = DecisionAnswer \<and> (case respond_content input of Some c \<Rightarrow> trim c = [] | None \<Rightarrow> True)
     then rpc_fail (rpc_error RpcValidation ''answer requires non-empty content'')
     else
       rpc_bind (rpc_sched (scheduler_respond_request (agent_id task) (respond_request_id input)
           (response_decision_text (respond_decision input)) (respond_content input))) (\<lambda>answered.
       rpc_bind (require_task_record (respond_agent_id input)) (\<lambda>task'.
       rpc_bind (viewed_task h task') (\<lambda>view. rpc_ok (SuccessRespond answered view)))))))"

definition handle_stop :: "service_host \<Rightarrow> (string \<Rightarrow> TaskPhase sched) \<Rightarrow> (TaskView \<Rightarrow> RpcSuccess) \<Rightarrow> string \<Rightarrow> RpcSuccess rpc" where
  "handle_stop h operation success aid =
     rpc_bind (require_task_record aid) (\<lambda>task.
     rpc_bind (rpc_sched (operation (agent_id task))) (\<lambda>_.
     rpc_bind (require_task_record aid) (\<lambda>task'.
     rpc_bind (viewed_task h task') (\<lambda>view. rpc_ok (success view)))))"

definition handle_cancel :: "service_host \<Rightarrow> string \<Rightarrow> RpcSuccess rpc" where
  "handle_cancel h aid = handle_stop h cancel_task SuccessStopped aid"

definition handle_close :: "service_host \<Rightarrow> string \<Rightarrow> RpcSuccess rpc" where
  "handle_close h aid = handle_stop h close_task SuccessClosed aid"

section \<open>Results and observation\<close>

definition handle_result :: "service_host \<Rightarrow> string \<Rightarrow> nat \<Rightarrow> nat \<Rightarrow> AgentEvidenceStore \<Rightarrow> (RpcSuccess \<times> AgentEvidenceStore) rpc" where
  "handle_result h aid offset limit es =
     rpc_bind (require_task_with_result aid) (\<lambda>(task, stored, why).
     if limit = 0 \<or> MAX_RESULT_CHUNK_BYTES < limit
     then rpc_fail (rpc_error RpcValidation (''result limit must be between 1 and '' @ to_decimal MAX_RESULT_CHUNK_BYTES
            @ '' bytes; received '' @ to_decimal limit))
     else
       rpc_bind (rpc_result (case stored of
           None \<Rightarrow> Inr None
         | Some r \<Rightarrow> res_bind (task_result_view r offset limit why (failure_message_projection task r)) (\<lambda>v. Inr (Some v)))) (\<lambda>page.
       rpc_bind (asked (\<lambda>w k.
           if (case page of Some v \<Rightarrow> is_failure_outcome (page_outcome v) | None \<Rightarrow> False)
           then version_mismatch_instruction (process_probe (w_codec w) (sv_probe h k))
                  (read_agent_config_snapshot (w_codec w) (sv_env h k)) (task_agent (w_prep w) task) es
           else (None, es))) (\<lambda>(instruction, es').
       rpc_bind (viewed_task h task) (\<lambda>view. rpc_ok (SuccessResult view page instruction, es')))))"

definition observation_snapshot_of :: "string \<Rightarrow> (ObservationSnapshot \<times> bool) sched" where
  "observation_snapshot_of aid =
     sched_bind (access (\<lambda>i. (activity_of aid i, i))) (\<lambda>activity.
     case activity of
       Some t \<Rightarrow> sched_ok (observation_snapshot (tracker_observation (tracker_state t)), runtime_source_verified t)
     | None \<Rightarrow>
         sched_bind (attempt (store_read (\<lambda>s. get_task s aid))) (\<lambda>found.
         sched_bind (given (\<lambda>w. case found of Inr (Some task) \<Rightarrow> task_agent (w_prep w) task = ''dsh'' | _ \<Rightarrow> False)) (\<lambda>dsh.
         sched_ok
           (if dsh
            then observation_unavailable\<lparr>observation_reasoning :=
                   (observation_reasoning observation_unavailable)\<lparr>reasoning_shown_source := source_dsh\<rparr>\<rparr>
            else observation_unavailable, False))))"

definition handle_observe :: "string \<Rightarrow> RpcSuccess rpc" where
  "handle_observe aid =
     rpc_bind (require_task_record aid) (\<lambda>task.
     rpc_bind (rpc_lift (observation_snapshot_of (agent_id task))) (\<lambda>(snapshot, verified).
     rpc_bind (rpc_lift (given (\<lambda>w. task_agent (w_prep w) task))) (\<lambda>adapter.
     if \<not> verified \<and> adapter \<notin> {''dsh'', ''codex'', ''agy''}
     then rpc_fail (rpc_error RpcUnavailable ''observation runtime source is not verified'')
     else
       rpc_ok (SuccessObserved
         \<lparr>observation_view_schema = OBSERVATION_SCHEMA, observation_view_agent = agent_id task,
          observation_view_count_scope = ''agent_lifetime'', observation_view_tools = observation_tools snapshot,
          observation_view_reasoning = (if adapter \<in> {''codex'', ''agy''} then None else Some (observation_reasoning snapshot)),
          observation_view_coverage = observation_coverage snapshot\<rparr>))))"

section \<open>The daemon\<close>

definition drain_status :: "string option \<Rightarrow> bool sched \<Rightarrow> RpcSuccess rpc" where
  "drain_status claim is_draining =
     rpc_lift (sched_bind is_draining (\<lambda>d.
       sched_bind (access (\<lambda>i. (scheduler_active_count i, i))) (\<lambda>n.
       sched_bind resources_reaped (\<lambda>reaped.
       sched_bind ready_for_activation (\<lambda>ready.
       sched_bind (access (\<lambda>i. (updater_fired i, i))) (\<lambda>fired.
       sched_ok (SuccessDrain \<lparr>drain_is_draining = d, drain_active_count = n, drain_resources_reaped = reaped, drain_ready = ready,
         drain_updater_fired = fired, drain_claim = claim\<rparr>)))))))"

definition draining_now :: "bool sched" where
  "draining_now = access (\<lambda>i. (draining i, i))"

definition handle_begin_drain :: "bool \<Rightarrow> RpcSuccess rpc" where
  "handle_begin_drain cancel_active =
     rpc_bind (rpc_lift begin_drain) (\<lambda>_.
     rpc_bind (if cancel_active then rpc_sched (sched_bind cancel_draining_tasks (\<lambda>_. sched_ok ())) else rpc_ok ()) (\<lambda>_.
     drain_status None (sched_ok True)))"

definition handle_abort_drain :: "RpcSuccess rpc" where
  "handle_abort_drain = rpc_bind (rpc_sched abort_drain) (\<lambda>_. drain_status None draining_now)"

definition handle_activate :: "RpcSuccess rpc" where
  "handle_activate = rpc_bind (rpc_lift claim_activation) (\<lambda>claim. drain_status claim draining_now)"

definition handle_status :: "service_host \<Rightarrow> AgentEvidenceStore \<Rightarrow> (RpcSuccess \<times> AgentEvidenceStore) rpc" where
  "handle_status h es =
     rpc_bind (asked (\<lambda>w k. system_status (sv_exec h k) (process_probe (w_codec w) (sv_probe h k))
         (read_agent_config_snapshot (w_codec w) (sv_env h k)) (sv_journal h k) es)) (\<lambda>(view, es').
     case view of Some v \<Rightarrow> rpc_ok (SuccessStatus v, es') | None \<Rightarrow> (\<lambda>w i. None))"

definition handle_status_refresh :: "service_host \<Rightarrow> bool \<Rightarrow> AgentEvidenceStore \<Rightarrow> (RpcSuccess \<times> AgentEvidenceStore) rpc" where
  "handle_status_refresh h probe es =
     (if probe
      then
        rpc_bind (read_config h) (\<lambda>config.
        rpc_bind (asked (\<lambda>w k. models_sweep (process_models (w_codec w) (sv_probe h k)) config es)) (\<lambda>es'.
        handle_status h es'))
      else handle_status h es)"

definition dsh_scope :: "AgentConfigSnapshot \<Rightarrow> string \<Rightarrow> ProbeScope \<Rightarrow> ProbeScope" where
  "dsh_scope config agent scope =
     (if agent \<noteq> ''dsh'' then scope
      else
        (case map_of (subagents config) ''dsh'' of
           None \<Rightarrow> scope
         | Some e \<Rightarrow>
             scope\<lparr>scope_profile := (case scope_profile scope of Some x \<Rightarrow> Some x | None \<Rightarrow> entry_profile e),
                   scope_version := (case scope_version scope of Some x \<Rightarrow> Some x | None \<Rightarrow> entry_version e)\<rparr>))"

text \<open>The statuses are those of the four known agents, and an accepted configuration names no other one: the
  last branch is the \<open>ok_or_else\<close> of a search that succeeds.\<close>

definition handle_probe :: "service_host \<Rightarrow> AgentProbeInput \<Rightarrow> AgentEvidenceStore \<Rightarrow> (RpcSuccess \<times> AgentEvidenceStore) rpc" where
  "handle_probe h input0 es =
     rpc_bind (rpc_result (validate_agent_probe_input input0)) (\<lambda>_.
     rpc_bind (read_config h) (\<lambda>config.
     if map_of (subagents config) (probe_agent input0) = None then rpc_fail (unknown_agent_name_error config)
     else
       let input = input0\<lparr>probe_scope := dsh_scope config (probe_agent input0) (probe_scope input0)\<rparr> in
       rpc_bind (asked (\<lambda>w k. record_probe input (snapshot_revision config) (process_probe (w_codec w) (sv_probe h k) input) es))
         (\<lambda>(evidence, es').
       rpc_bind (asked (\<lambda>w k. configured_agent_statuses (sv_exec h k) config es')) (\<lambda>statuses.
       case statuses of
         None \<Rightarrow> (\<lambda>w i. None)
       | Some views \<Rightarrow>
           (case List.find (\<lambda>v. status_agent v = probe_agent input) views of
              Some v \<Rightarrow> rpc_ok (SuccessProbed evidence v, es')
            | None \<Rightarrow> rpc_fail (rpc_error RpcAgentUnknown ''agent is unknown''))))))"

definition handle_models :: "service_host \<Rightarrow> AgentModelsInput \<Rightarrow> AgentEvidenceStore \<Rightarrow> (RpcSuccess \<times> AgentEvidenceStore) rpc" where
  "handle_models h input0 es =
     rpc_bind (rpc_result (validate_agent_models_input input0)) (\<lambda>_.
     rpc_bind (read_config h) (\<lambda>config.
     if map_of (subagents config) (models_agent input0) = None then rpc_fail (unknown_agent_name_error config)
     else
       let input = input0\<lparr>models_scope := dsh_scope config (models_agent input0) (models_scope input0)\<rparr> in
       rpc_bind (asked (\<lambda>w k. record_models input (snapshot_revision config) (process_models (w_codec w) (sv_probe h k) input) es))
         (\<lambda>(out, es'). rpc_ok (SuccessModels out, es'))))"

section \<open>Dispatch\<close>

definition without_evidence :: "AgentEvidenceStore \<Rightarrow> RpcSuccess rpc \<Rightarrow> (RpcSuccess \<times> AgentEvidenceStore) rpc" where
  "without_evidence es m = rpc_bind m (\<lambda>x. rpc_ok (x, es))"

definition dispatch :: "service_host \<Rightarrow> RpcMethod \<Rightarrow> AgentEvidenceStore \<Rightarrow> (RpcSuccess \<times> AgentEvidenceStore) rpc" where
  "dispatch h method es =
     (case method of
        MethodSystemStatus \<Rightarrow> handle_status h es
      | MethodSystemStatusRefresh probe \<Rightarrow> handle_status_refresh h probe es
      | MethodDaemonBeginDrain cancel_active \<Rightarrow> without_evidence es (handle_begin_drain cancel_active)
      | MethodDaemonDrainStatus \<Rightarrow> without_evidence es (drain_status None draining_now)
      | MethodDaemonAbortDrain \<Rightarrow> without_evidence es handle_abort_drain
      | MethodDaemonActivateReady \<Rightarrow> without_evidence es handle_activate
      | MethodAgentProbe input \<Rightarrow> handle_probe h input es
      | MethodAgentModels input \<Rightarrow> handle_models h input es
      | MethodSubmitGeneral input \<Rightarrow> without_evidence es (handle_submit h input)
      | MethodTaskList q \<Rightarrow> without_evidence es (handle_list h q)
      | MethodTaskWait q \<Rightarrow> without_evidence es (handle_wait q)
      | MethodTaskMessage input \<Rightarrow> without_evidence es (handle_message h input)
      | MethodTaskRespond input \<Rightarrow> without_evidence es (handle_respond h input)
      | MethodTaskCancel aid \<Rightarrow> without_evidence es (handle_cancel h aid)
      | MethodTaskResult aid offset limit \<Rightarrow> handle_result h aid offset limit es
      | MethodTaskClose aid \<Rightarrow> without_evidence es (handle_close h aid)
      | MethodTaskObserve aid \<Rightarrow> without_evidence es (handle_observe aid))"

section \<open>Frames\<close>

definition valid_request_id :: "string \<Rightarrow> bool" where
  "valid_request_id v \<longleftrightarrow> v \<noteq> [] \<and> length v \<le> MAX_REQUEST_ID_BYTES \<and> CHR 0x00 \<notin> set v"

definition rpc_refused :: "string option \<Rightarrow> RpcErrorCode \<Rightarrow> string \<Rightarrow> RpcResponse" where
  "rpc_refused rid code message = \<lparr>response_request_id = rid, response_outcome = Inl (rpc_error code message)\<rparr>"

definition frame_request_id :: "json \<Rightarrow> string option" where
  "frame_request_id v = Option.bind (get_str v ''request_id'') (\<lambda>s. if valid_request_id s then Some s else None)"

definition request_fields_known :: "json \<Rightarrow> bool" where
  "request_fields_known v =
     (case as_object v of
        Some ms \<Rightarrow> list_all (\<lambda>(k, _). k \<in> {''request_id'', ''method'', ''params''}) ms
      | None \<Rightarrow> False)"

definition with_drain_params :: "json \<Rightarrow> json" where
  "with_drain_params v =
     (if get_str v ''method'' = Some ''daemon_begin_drain'' \<and> json_get v ''params'' = None
      then (case v of JObject ms \<Rightarrow> JObject (map_insert ''params'' (JObject []) ms) | _ \<Rightarrow> v) else v)"

text \<open>What a frame asks for, or the response that refuses it. \<open>decode\<close> reads a request from its value.\<close>

definition accept_frame :: "json_codec \<Rightarrow> (json \<Rightarrow> RpcRequest option) \<Rightarrow> string \<Rightarrow> RpcResponse + RpcRequest" where
  "accept_frame codec decode frame =
     (if MAX_REQUEST_FRAME_BYTES < length frame + 1 then Inl (rpc_refused None RpcOversized ''request frame exceeds the RPC cap'')
      else
        (case decoded codec frame of
           None \<Rightarrow> Inl (rpc_refused None RpcMalformed ''request is not valid JSON'')
         | Some v \<Rightarrow>
             (let rid = frame_request_id v in
              if \<not> request_fields_known v then Inl (rpc_refused rid RpcValidation ''request fields are invalid'')
              else if (case get_str v ''method'' of Some m \<Rightarrow> \<not> is_known m | None \<Rightarrow> False)
              then Inl (rpc_refused rid RpcUnknownMethod ''unknown RPC method'')
              else
                (case decode (with_drain_params v) of
                   None \<Rightarrow> Inl (rpc_refused rid RpcValidation ''request fields are invalid'')
                 | Some request \<Rightarrow>
                     if \<not> valid_request_id (rpc_request_id request) then Inl (rpc_refused None RpcValidation ''request_id is invalid'')
                     else Inr request))))"

definition handle_bytes ::
    "service_host \<Rightarrow> (json \<Rightarrow> RpcRequest option) \<Rightarrow> string \<Rightarrow> AgentEvidenceStore \<Rightarrow> (RpcResponse \<times> AgentEvidenceStore) sched" where
  "handle_bytes h decode frame es =
     sched_bind (given (\<lambda>w. accept_frame (w_codec w) decode frame)) (\<lambda>accepted.
     case accepted of
       Inl refused \<Rightarrow> sched_ok (refused, es)
     | Inr request \<Rightarrow>
         sched_bind (dispatch h (rpc_method request) es) (\<lambda>r.
         sched_ok (case r of
             Inl e \<Rightarrow> (\<lparr>response_request_id = Some (rpc_request_id request), response_outcome = Inl e\<rparr>, es)
           | Inr (x, es') \<Rightarrow> (\<lparr>response_request_id = Some (rpc_request_id request), response_outcome = Inr x\<rparr>, es'))))"

section \<open>The transport\<close>

text \<open>
  Reading a frame from the fillings of the buffer, in the order of arrival: an empty filling is the end of
  the stream, as is the end of the list. A refused frame is the oversized one; an empty stream gives no frame.
\<close>

datatype FrameRead = FrameEmpty | FrameOversized | FrameRead string

definition ended_frame :: "string \<Rightarrow> FrameRead" where
  "ended_frame frame = (if frame = [] then FrameEmpty else FrameRead frame)"

fun read_limited_frame :: "nat \<Rightarrow> string \<Rightarrow> string list \<Rightarrow> FrameRead" where
  "read_limited_frame cap frame [] = ended_frame frame"
| "read_limited_frame cap frame (available # rest) =
     (if available = [] then ended_frame frame
      else
        (let taken = takeWhile (\<lambda>b. b \<noteq> CHR 0x0A) available in
         if cap < length frame + length taken then FrameOversized
         else if CHR 0x0A \<in> set available then FrameRead (frame @ taken)
         else read_limited_frame cap (frame @ taken) rest))"

definition oversized_response :: "RpcResponse \<Rightarrow> RpcResponse" where
  "oversized_response r =
     \<lparr>response_request_id = Option.bind (response_request_id r) (\<lambda>s. if s \<noteq> [] \<and> length s \<le> 128 then Some s else None),
      response_outcome = Inl (rpc_error RpcOversized ''response frame exceeds cap'')\<rparr>"

text \<open>\<open>print\<close> serializes a response. A response that does not fit is replaced; nothing is written if that does not fit either.\<close>

definition write_response :: "(RpcResponse \<Rightarrow> string) \<Rightarrow> RpcResponse \<Rightarrow> string option" where
  "write_response print r =
     (if length (print r) + 1 \<le> MAX_RESPONSE_FRAME_BYTES then Some (print r @ [CHR 0x0A])
      else if length (print (oversized_response r)) + 1 \<le> MAX_RESPONSE_FRAME_BYTES then Some (print (oversized_response r) @ [CHR 0x0A])
      else None)"

definition handle_connection ::
    "service_host \<Rightarrow> (json \<Rightarrow> RpcRequest option) \<Rightarrow> (RpcResponse \<Rightarrow> string) \<Rightarrow> string list \<Rightarrow> AgentEvidenceStore
       \<Rightarrow> (string option \<times> AgentEvidenceStore) sched" where
  "handle_connection h decode print chunks es =
     (case read_limited_frame (MAX_REQUEST_FRAME_BYTES - 1) [] chunks of
        FrameEmpty \<Rightarrow> sched_ok (None, es)
      | FrameOversized \<Rightarrow> sched_ok (write_response print (rpc_refused None RpcOversized ''request frame exceeds cap''), es)
      | FrameRead frame \<Rightarrow>
          sched_bind (handle_bytes h decode frame es) (\<lambda>(r, es'). sched_ok (write_response print r, es')))"

text \<open>Reaping the workers that have finished: the worker at the index is replaced by the last one. Whether a worker
  has finished is asked once per round.\<close>

definition swap_remove :: "nat \<Rightarrow> 'a list \<Rightarrow> 'a list" where
  "swap_remove n xs = butlast (xs[n := last xs])"

function reap_workers :: "(nat \<Rightarrow> 'a \<Rightarrow> bool) \<Rightarrow> nat \<Rightarrow> nat \<Rightarrow> 'a list \<Rightarrow> 'a list \<times> 'a list" where
  "reap_workers finished k n workers =
     (if n < length workers
      then
        if finished k (workers ! n)
        then (let (left, joined) = reap_workers finished (Suc k) n (swap_remove n workers) in (left, workers ! n # joined))
        else reap_workers finished (Suc k) (Suc n) workers
      else (workers, []))"
  by pat_completeness auto
termination
  by (relation "measure (\<lambda>(finished, k, n, workers). length workers - n)") (auto simp: swap_remove_def)

declare reap_workers.simps [simp del]

definition reap_finished_workers :: "(nat \<Rightarrow> 'a \<Rightarrow> bool) \<Rightarrow> 'a list \<Rightarrow> 'a list" where
  "reap_finished_workers finished workers = fst (reap_workers finished 0 0 workers)"

definition write_busy :: "(RpcResponse \<Rightarrow> string) \<Rightarrow> string option" where
  "write_busy print = write_response print (rpc_refused None RpcConflict ''server connection limit reached'')"

end
