(* ===== verification/Handler_Properties.thy ===== *)
theory Handler_Properties
  imports Rpc_Handlers Rpc_Properties "HOL-Library.Multiset"
begin

text \<open>
  What the service promises its clients: a frame is read the same however the stream is cut; a response carries the
  identity of its frame; a submission that succeeds was admitted and delivers its instructions; the
  cursors it hands out are accepted; finished workers are joined and no other one.
\<close>

section \<open>Frames\<close>

definition frame_of :: "nat \<Rightarrow> string \<Rightarrow> FrameRead" where
  "frame_of cap stream =
     (let frame = takeWhile (\<lambda>b. b \<noteq> CHR 0x0A) stream in
      if cap < length frame then FrameOversized else if stream = [] then FrameEmpty else FrameRead frame)"

lemma takeWhile_cut: "CHR 0x0A \<notin> set xs \<Longrightarrow> takeWhile (\<lambda>b. b \<noteq> CHR 0x0A) (xs @ ys) = xs @ takeWhile (\<lambda>b. b \<noteq> CHR 0x0A) ys"
  by (rule takeWhile_append2) auto

lemma takeWhile_stop: "CHR 0x0A \<in> set xs \<Longrightarrow> takeWhile (\<lambda>b. b \<noteq> CHR 0x0A) (xs @ ys) = takeWhile (\<lambda>b. b \<noteq> CHR 0x0A) xs"
  by (rule takeWhile_append1) auto

lemma takeWhile_none: "CHR 0x0A \<notin> set xs \<Longrightarrow> takeWhile (\<lambda>b. b \<noteq> CHR 0x0A) xs = xs"
  by (induction xs) auto

lemma read_limited_frame_of:
  assumes "\<forall>c \<in> set chunks. c \<noteq> []" "CHR 0x0A \<notin> set frame" "length frame \<le> cap"
  shows "read_limited_frame cap frame chunks = frame_of cap (frame @ concat chunks)"
  using assms
proof (induction cap frame chunks rule: read_limited_frame.induct)
  case (1 cap frame)
  then show ?case by (simp add: ended_frame_def frame_of_def Let_def takeWhile_none)
next
  case (2 cap frame available rest)
  let ?taken = "takeWhile (\<lambda>b. b \<noteq> CHR 0x0A) available"
  show ?case
  proof (cases "CHR 0x0A \<in> set available")
    case True
    then have "takeWhile (\<lambda>b. b \<noteq> CHR 0x0A) (frame @ available @ concat rest) = frame @ ?taken"
      using 2(3) by (simp add: takeWhile_cut takeWhile_stop)
    moreover have "available \<noteq> []" using True by auto
    ultimately show ?thesis using True by (simp add: frame_of_def Let_def)
  next
    case False
    have whole: "takeWhile (\<lambda>b. b \<noteq> CHR 0x0A) (frame @ available @ concat rest)
        = frame @ available @ takeWhile (\<lambda>b. b \<noteq> CHR 0x0A) (concat rest)"
      using 2(3) False by (simp add: takeWhile_cut)
    show ?thesis
    proof (cases "cap < length frame + length available")
      case True
      then show ?thesis using 2(2) False whole by (simp add: frame_of_def Let_def takeWhile_none)
    next
      case fits: False
      have "read_limited_frame cap (frame @ available) rest = frame_of cap ((frame @ available) @ concat rest)"
        using 2(1) [OF _ refl] 2(2-) False fits by (simp add: takeWhile_none)
      then show ?thesis using 2(2) fits False by (simp add: Let_def takeWhile_none)
    qed
  qed
qed

text \<open>
  C14. A frame is what the stream holds up to its first newline: whether it is oversized, empty or read, and what is
  read, depends on the bytes that arrive and not on how the arrivals are cut.
\<close>

theorem frame_reading_uncut:
  assumes "\<forall>c \<in> set chunks. c \<noteq> []"
  shows "read_limited_frame cap [] chunks = frame_of cap (concat chunks)"
  using read_limited_frame_of [OF assms, of "[]"] by simp

theorem frame_reading_uncut_witness:
  "read_limited_frame 3 [] [''a'', ''b'' @ [CHR 0x0A] @ ''c''] = FrameRead ''ab''
   \<and> read_limited_frame 1 [] [''a'', ''b'' @ [CHR 0x0A]] = FrameOversized"
proof -
  have "\<forall>c \<in> set [''a'', ''b'' @ [CHR 0x0A] @ ''c'']. c \<noteq> []" "\<forall>c \<in> set [''a'', ''b'' @ [CHR 0x0A]]. c \<noteq> []" by auto
  from frame_reading_uncut [OF this(1), of 3] frame_reading_uncut [OF this(2), of 1]
  show ?thesis by (simp add: frame_of_def)
qed

section \<open>Responses\<close>

lemma drain_params_id [simp]: "get_str (with_drain_params v) ''request_id'' = get_str v ''request_id''"
  by (cases v) (auto simp: with_drain_params_def get_str_def map_of_insert)

text \<open>The identity under which a frame is answered.\<close>

definition answer_id :: "json_codec \<Rightarrow> string \<Rightarrow> string option" where
  "answer_id codec frame =
     (if MAX_REQUEST_FRAME_BYTES < length frame + 1 then None else Option.bind (decoded codec frame) frame_request_id)"

definition refusal_codes :: "RpcErrorCode set" where
  "refusal_codes = {RpcOversized, RpcMalformed, RpcValidation, RpcUnknownMethod}"

lemma code_of_error [simp]: "rpc_code (rpc_error c m) = c"
  by (simp add: rpc_error_def)

lemma accept_refused:
  assumes "accept_frame codec decode frame = Inl r"
    and "\<forall>v q. decode v = Some q \<longrightarrow> get_str v ''request_id'' = Some (rpc_request_id q)"
  shows "response_request_id r = answer_id codec frame
    \<and> (\<exists>e. response_outcome r = Inl e \<and> rpc_code e \<in> refusal_codes)"
  using assms(1) assms(2) [rule_format, of "with_drain_params v" for v]
  by (auto simp: accept_frame_def rpc_refused_def answer_id_def refusal_codes_def Let_def frame_request_id_def
      split: if_splits option.splits)

lemma accept_accepted:
  assumes "accept_frame codec decode frame = Inr q"
    and "\<forall>v q. decode v = Some q \<longrightarrow> get_str v ''request_id'' = Some (rpc_request_id q)"
  shows "answer_id codec frame = Some (rpc_request_id q)"
  using assms(1) assms(2) [rule_format, of "with_drain_params v" for v]
  by (auto simp: accept_frame_def answer_id_def Let_def frame_request_id_def split: if_splits option.splits)


definition observing_decode :: "json \<Rightarrow> RpcRequest option" where
  "observing_decode v = Option.bind (get_str v ''request_id'') (\<lambda>rid.
     if get_str v ''method'' = Some ''daemon_drain_status'' then Some \<lparr>rpc_request_id = rid, rpc_method = MethodDaemonDrainStatus\<rparr> else None)"

definition unknown_codec :: json_codec where
  "unknown_codec = id_codec\<lparr>from_str := (\<lambda>_. Inr (JObject [(''method'', JString ''sudo''), (''request_id'', JString ''r1'')]))\<rparr>"


section \<open>Submission\<close>

definition others_only :: "world \<Rightarrow> SchedulerInner \<Rightarrow> SchedulerInner \<Rightarrow> bool" where
  "others_only w i j \<longleftrightarrow> (\<exists>n. j = (others_first w ^^ n) i)"

lemma others_only_refl [simp]: "others_only w i i"
  unfolding others_only_def by (metis funpow_0)

lemma others_only_step [simp]: "others_only w i (others_first w i)"
  unfolding others_only_def by (rule exI [of _ 1]) simp

lemma others_only_trans [trans]: "others_only w i j \<Longrightarrow> others_only w j k \<Longrightarrow> others_only w i k"
  unfolding others_only_def by (metis comp_apply funpow_add)

text \<open>What a submission asks for: the input with its profile resolved, the instructions it carries, and the profile.\<close>

definition sourced :: "service_host \<Rightarrow> world \<Rightarrow> GeneralSubmitInput \<Rightarrow> GeneralSubmitInput \<times> string option \<times> Profile option \<Rightarrow> bool" where
  "sourced h w input r \<longleftrightarrow>
     (case submit_profile input of
        None \<Rightarrow> r = (input\<lparr>submit_instructions := None\<rparr>,
            Option.bind (submit_instructions input) (\<lambda>s. if trim s = [] then None else Some s), None)
      | Some name \<Rightarrow> (\<exists>k p. load_profile (w_codec w) (sv_env h k) (sv_profiles h k) (trim name) = Inr p
            \<and> r = (with_profile p input, profile_instructions p, Some p)))"

text \<open>The instructions reach the agent once: over the channel of codex, or in front of the prompt.\<close>

definition delivers :: "string option \<Rightarrow> GeneralTaskManifest \<Rightarrow> GeneralTaskManifest \<Rightarrow> AdmissionIdentity \<Rightarrow> bool" where
  "delivers instructions before after identity =
     (case instructions of
        None \<Rightarrow> after = before \<and> developer_instructions identity = None
      | Some s \<Rightarrow>
          length s \<le> MAX_DEVELOPER_INSTRUCTIONS_BYTES \<and>
          (if admitted_agent identity = ''codex''
           then after = before \<and> developer_instructions identity = (if trim s = [] then None else Some s)
           else developer_instructions identity = None
             \<and> after = (if s = [] then before else before\<lparr>manifest_prompt := spliced_prompt s (manifest_prompt before)\<rparr>)))"

definition admitted_submission :: "service_host \<Rightarrow> world \<Rightarrow> GeneralSubmitInput \<Rightarrow> GeneralTaskManifest \<Rightarrow> AdmissionIdentity \<Rightarrow> bool" where
  "admitted_submission h w input manifest identity \<longleftrightarrow>
     \<not> profile_conflict input \<and>
     (\<exists>input1 instructions profile config k1 k2 native.
        sourced h w input (input1, instructions, profile)
        \<and> read_agent_config_snapshot (w_codec w) (sv_env h k1) = Inr config
        \<and> resolve_admission_with_instructions (w_codec w) (sv_env h k2) (sv_exec h k2) (sv_version h)
            (input1\<lparr>submit_manifest := manifest\<rparr>) config native profile = Inr identity
        \<and> delivers instructions (submit_manifest input1) manifest identity)"

lemma admission_agent:
  assumes "resolve_admission_with_instructions codec env exec version input config instructions profile = Inr identity"
  shows "effective_agent input config = Some (admitted_agent identity)
    \<and> developer_instructions identity = kept_instructions (admitted_agent identity) instructions"
proof -
  obtain agent e effort model source ap where entry: "admitted_entry exec input config ap = Inr (agent, e)"
    and identity: "identity = \<lparr>admitted_agent = agent, config_revision = snapshot_revision config, adapter_version = version,
        admitted_model = model, model_source = source, admitted_effort = effort,
        developer_instructions = kept_instructions agent instructions\<rparr>"
    using assms by (auto simp: resolve_admission_with_instructions_def Let_def res_bind_def split: sum.splits)
  then show ?thesis
    by (auto simp: admitted_entry_def refuse_def effective_agent_def split: option.splits if_splits)
qed

lemma splice_delivers:
  assumes "splice_instructions input config instructions = (input', native)" "instructions_bound instructions = Inr ()"
    and "resolve_admission_with_instructions codec env exec version input' config native profile = Inr identity"
  shows "input' = input\<lparr>submit_manifest := submit_manifest input'\<rparr>
    \<and> delivers instructions (submit_manifest input) (submit_manifest input') identity"
proof -
  have "effective_agent input' config = effective_agent input config"
    using assms(1) by (auto simp: splice_instructions_def effective_agent_def split: if_splits option.splits)
  then have agent: "effective_agent input config = Some (admitted_agent identity)"
    and kept: "developer_instructions identity = kept_instructions (admitted_agent identity) native"
    using admission_agent [OF assms(3)] by simp_all
  show ?thesis
  proof (cases "admitted_agent identity = ''codex''")
    case True
    then have "input' = input" "native = instructions" using assms(1) agent by (simp_all add: splice_instructions_def)
    then show ?thesis using True kept assms(2)
      by (cases instructions) (simp_all add: delivers_def kept_instructions_def instructions_bound_def split: if_splits)
  next
    case False
    then have "developer_instructions identity = None" using kept by (simp add: kept_instructions_def)
    then show ?thesis using False assms(1,2) agent
      by (cases instructions) (auto simp: delivers_def splice_instructions_def instructions_bound_def split: if_splits)
  qed
qed

text \<open>The ways of a service action: it answers, it refuses, or it goes on from a state that only others have changed.\<close>

definition quietly :: "'a rpc \<Rightarrow> world \<Rightarrow> ('a \<Rightarrow> bool) \<Rightarrow> bool" where
  "quietly m w P \<longleftrightarrow> (\<forall>i. \<exists>r j. m w i = Some (Inr r, j) \<and> others_only w i j \<and> (case r of Inl _ \<Rightarrow> True | Inr x \<Rightarrow> P x))"

lemma quietly_rules:
  "P x \<Longrightarrow> quietly (rpc_ok x) w P"
  "quietly (rpc_fail e) w P"
  "(\<And>x. r = Inr x \<Longrightarrow> P x) \<Longrightarrow> quietly (rpc_result r) w P"
  "(\<And>k. P (f w k)) \<Longrightarrow> quietly (asked f) w P"
  by (auto simp: quietly_def rpc_ok_def rpc_fail_def rpc_result_def asked_def rpc_lift_def ask_def sched_bind_def sched_ok_def
      split: sum.splits)

lemma quietly_bind:
  assumes "quietly m w P" "\<And>x. P x \<Longrightarrow> quietly (f x) w Q"
  shows "quietly (rpc_bind m f) w Q"
  unfolding quietly_def
proof
  fix i
  obtain r j where m: "m w i = Some (Inr r, j)" "others_only w i j" "case r of Inl _ \<Rightarrow> True | Inr x \<Rightarrow> P x"
    using assms(1) unfolding quietly_def by blast
  show "\<exists>r j. rpc_bind m f w i = Some (Inr r, j) \<and> others_only w i j \<and> (case r of Inl _ \<Rightarrow> True | Inr x \<Rightarrow> Q x)"
  proof (cases r)
    case (Inl e)
    then show ?thesis using m by (simp add: rpc_bind_def sched_bind_def rpc_fail_def sched_ok_def)
  next
    case (Inr x)
    then obtain r' k where "f x w j = Some (Inr r', k)" "others_only w j k" "case r' of Inl _ \<Rightarrow> True | Inr x \<Rightarrow> Q x"
      using assms(2) [of x] m(3) unfolding quietly_def by fastforce
    then show ?thesis using m Inr others_only_trans [OF m(2)] by (simp add: rpc_bind_def sched_bind_def)
  qed
qed

lemma quietly_unknown: "(\<And>x. quietly (f x) w Q) \<Longrightarrow> quietly (rpc_bind (asked g) f) w Q"
  by (rule quietly_bind [where P = "\<lambda>_. True"]) (auto intro: quietly_rules)

lemma resolve_profile_quiet: "quietly (resolve_profile h input) w (sourced h w input)"
proof (cases "submit_profile input")
  case None
  then show ?thesis by (auto simp: resolve_profile_def sourced_def intro!: quietly_rules(1))
next
  case (Some name)
  let ?found = "\<lambda>r. \<exists>k. r = load_profile (w_codec w) (sv_env h k) (sv_profiles h k) (trim name)"
  have "quietly (rpc_bind (rpc_result r) (\<lambda>p. rpc_ok (with_profile p input, profile_instructions p, Some p))) w (sourced h w input)"
    if "?found r" for r
    using that Some by (intro quietly_bind [where P = "\<lambda>p. r = Inr p"] quietly_rules) (auto simp: sourced_def)
  then have "quietly (rpc_bind (asked (\<lambda>w k. load_profile (w_codec w) (sv_env h k) (sv_profiles h k) (trim name)))
      (\<lambda>r. rpc_bind (rpc_result r) (\<lambda>p. rpc_ok (with_profile p input, profile_instructions p, Some p)))) w (sourced h w input)"
    by (intro quietly_bind [where P = ?found] quietly_rules) auto
  then show ?thesis using Some by (auto simp: resolve_profile_def intro!: quietly_unknown quietly_rules)
qed

text \<open>An action refuses, or goes on as one of the actions of \<open>Q\<close>, from a state that only others have changed.\<close>

definition leads :: "'a rpc \<Rightarrow> world \<Rightarrow> ('a rpc \<Rightarrow> bool) \<Rightarrow> bool" where
  "leads m w Q \<longleftrightarrow>
     (\<forall>i. (\<exists>e j. m w i = Some (Inr (Inl e), j) \<and> others_only w i j) \<or> (\<exists>g j. Q g \<and> others_only w i j \<and> m w i = g w j))"

lemma leads_refl: "Q g \<Longrightarrow> leads g w Q"
  unfolding leads_def using others_only_refl by blast

lemma leads_fail: "leads (rpc_fail e) w Q"
  by (simp add: leads_def rpc_fail_def sched_ok_def)

lemma leads_bind:
  assumes "quietly m w P" "\<And>x. P x \<Longrightarrow> leads (f x) w Q"
  shows "leads (rpc_bind m f) w Q"
  unfolding leads_def
proof
  fix i
  obtain r j where m: "m w i = Some (Inr r, j)" "others_only w i j" "case r of Inl _ \<Rightarrow> True | Inr x \<Rightarrow> P x"
    using assms(1) unfolding quietly_def by blast
  show "(\<exists>e j. rpc_bind m f w i = Some (Inr (Inl e), j) \<and> others_only w i j) \<or> (\<exists>g j. Q g \<and> others_only w i j \<and> rpc_bind m f w i = g w j)"
  proof (cases r)
    case (Inl e)
    then show ?thesis using m by (simp add: rpc_bind_def sched_bind_def rpc_fail_def sched_ok_def)
  next
    case (Inr x)
    then have "rpc_bind m f w i = f x w j" "leads (f x) w Q" using m assms(2) by (simp_all add: rpc_bind_def sched_bind_def)
    then show ?thesis using others_only_trans [OF m(2)] unfolding leads_def by metis
  qed
qed

lemma leads_unknown: "(\<And>x. leads (f x) w Q) \<Longrightarrow> leads (rpc_bind (asked g) f) w Q"
  by (rule leads_bind [where P = "\<lambda>_. True"]) (auto intro: quietly_rules)

lemma leads_refused: "leads (admission_refused h profile failure) w Q"
  by (auto simp: admission_refused_def intro!: leads_unknown leads_fail split: option.splits bool.splits)

lemma read_config_quiet: "quietly (read_config h) w (\<lambda>c. \<exists>k. read_agent_config_snapshot (w_codec w) (sv_env h k) = Inr c)"
  unfolding read_config_def
  by (rule quietly_bind [where P = "\<lambda>r. \<exists>k. r = read_agent_config_snapshot (w_codec w) (sv_env h k)"])
    (auto intro!: quietly_rules dest: sym)

definition started_submission :: "service_host \<Rightarrow> world \<Rightarrow> GeneralSubmitInput \<Rightarrow> RpcSuccess rpc \<Rightarrow> bool" where
  "started_submission h w input g \<longleftrightarrow>
     (\<exists>manifest identity. admitted_submission h w input manifest identity
        \<and> g = rpc_bind (rpc_sched (submit_and_start_general manifest (Some identity))) (\<lambda>task.
                rpc_bind (viewed_task h task) (\<lambda>view. rpc_ok (SuccessSubmitted view))))"

lemma submit_leads: "leads (handle_submit h input) w (started_submission h w input)"
proof (cases "profile_conflict input")
  case True
  then show ?thesis by (simp add: handle_submit_def leads_fail)
next
  case False
  have last: "leads (case admission of
        Inl failure \<Rightarrow> admission_refused h profile failure
      | Inr identity \<Rightarrow>
          rpc_bind (rpc_sched (submit_and_start_general (submit_manifest input2) (Some identity))) (\<lambda>task.
          rpc_bind (viewed_task h task) (\<lambda>view. rpc_ok (SuccessSubmitted view)))) w (started_submission h w input)"
    if "sourced h w input (input1, instructions, profile)" "instructions_bound instructions = Inr ()"
      "read_agent_config_snapshot (w_codec w) (sv_env h k1) = Inr config"
      "splice_instructions input1 config instructions = (input2, native)"
      "admission = resolve_admission_with_instructions (w_codec w) (sv_env h k2) (sv_exec h k2) (sv_version h) input2 config native profile"
    for input1 instructions profile config input2 native admission k1 k2
  proof (cases admission)
    case (Inl failure)
    then show ?thesis by (simp add: leads_refused)
  next
    case (Inr identity)
    have "resolve_admission_with_instructions (w_codec w) (sv_env h k2) (sv_exec h k2) (sv_version h) input2 config native profile = Inr identity"
      using that(5) Inr by simp
    then have "admitted_submission h w input (submit_manifest input2) identity"
      using splice_delivers [OF that(4,2)] that(1,3) False unfolding admitted_submission_def by metis
    then have "started_submission h w input (rpc_bind (rpc_sched (submit_and_start_general (submit_manifest input2) (Some identity)))
        (\<lambda>task. rpc_bind (viewed_task h task) (\<lambda>view. rpc_ok (SuccessSubmitted view))))"
      unfolding started_submission_def by blast
    then show ?thesis using Inr by (simp add: leads_refl)
  qed
  show ?thesis
    unfolding handle_submit_def if_not_P [OF False]
    apply (rule leads_bind [OF resolve_profile_quiet])
    apply (clarify, rule leads_bind [where P = "\<lambda>_. instructions_bound b = Inr ()" for b])
     apply (rule quietly_rules(3), simp)
    apply (rule leads_bind [OF read_config_quiet])
    apply (clarsimp split: prod.splits)
    apply (rule leads_bind [where P = "\<lambda>r. \<exists>k. r = resolve_admission_with_instructions (w_codec w) (sv_env h k) (sv_exec h k) (sv_version h) i c n p"
          for i c n p])
     apply (rule quietly_rules(4), blast)
    apply (elim exE, rule last, assumption+)
    done
qed


section \<open>Cursors and responses\<close>

lemma no_sign: "list_all is_ascii_digit (c # cs) \<Longrightarrow> c \<noteq> CHR ''+''"
proof -
  have "\<not> is_ascii_digit (CHR ''+'')" by code_simp
  then show "list_all is_ascii_digit (c # cs) \<Longrightarrow> c \<noteq> CHR ''+''" by auto
qed

lemma parse_unsigned_decimal: "n \<le> b \<Longrightarrow> parse_unsigned b (to_decimal n) = Some n"
proof -
  assume "n \<le> b"
  moreover obtain c cs where "to_decimal n = c # cs" by (cases "to_decimal n") (simp_all add: to_decimal.simps [of n] split: if_splits)
  moreover have "list_all is_ascii_digit (to_decimal n)" "digits_value (to_decimal n) 0 = n" by (simp_all add: to_decimal_digits)
  ultimately show ?thesis using no_sign [of c cs] by (simp add: parse_unsigned_def Let_def)
qed


text \<open>A response is one line that fits, or nothing; nothing only if not even the refusal fits.\<close>

lemma response_bounded:
  assumes "write_response print r = Some frame"
  shows "length frame \<le> MAX_RESPONSE_FRAME_BYTES \<and> (\<exists>s. frame = s @ [CHR 0x0A] \<and> (s = print r \<or> s = print (oversized_response r)))"
  using assms by (auto simp: write_response_def split: if_splits)

section \<open>Workers\<close>

lemma swap_remove_mset: "n < length xs \<Longrightarrow> add_mset (xs ! n) (mset (swap_remove n xs)) = mset xs"
proof -
  assume n: "n < length xs"
  then have ne: "xs \<noteq> []" by auto
  show ?thesis
  proof (cases "n = length xs - 1")
    case True
    then have "xs[n := last xs] = xs" using ne by (simp add: last_conv_nth)
    then show ?thesis using ne True
      by (metis swap_remove_def append_butlast_last_id last_conv_nth mset.simps(2) mset_append union_mset_add_mset_right add_mset_add_single mset.simps(1) add.right_neutral)
  next
    case False
    then have n': "n < length (butlast xs)" using n by simp
    then have "swap_remove n xs = (butlast xs)[n := last xs]" by (simp add: swap_remove_def butlast_list_update)
    then have "mset (swap_remove n xs) = add_mset (last xs) (mset (butlast xs) - {#butlast xs ! n#})"
      using n' by (simp add: mset_update)
    moreover have "butlast xs ! n = xs ! n" using n' by (simp add: nth_butlast)
    moreover have "mset xs = add_mset (last xs) (mset (butlast xs))"
      using ne by (metis append_butlast_last_id add_mset_add_single mset_append mset.simps)
    moreover have "xs ! n \<in># mset (butlast xs)" using n' nth_mem calculation(2) by (metis in_multiset_in_set)
    ultimately show ?thesis by simp
  qed
qed

text \<open>Every worker is either left or joined; only finished ones are joined; those that never finish are left.\<close>

lemma workers_partitioned:
  "reap_workers finished k n workers = (left, joined) \<Longrightarrow>
   mset workers = mset left + mset joined \<and> (\<forall>x \<in> set joined. \<exists>k. finished k x) \<and> take n workers = take n left"
proof (induction finished k n workers arbitrary: left joined rule: reap_workers.induct)
  case (1 finished k n workers)
  show ?case
  proof (cases "n < length workers \<and> finished k (workers ! n)")
    case True
    then obtain l j where r: "reap_workers finished (Suc k) n (swap_remove n workers) = (l, j)" "left = l" "joined = workers ! n # j"
      using 1(3) by (subst (asm) reap_workers.simps) (auto split: prod.splits)
    have same: "take n (swap_remove n workers) = take n workers"
      using True by (simp add: swap_remove_def take_butlast)
    have "mset (swap_remove n workers) = mset l + mset j \<and> (\<forall>x \<in> set j. \<exists>k. finished k x) \<and> take n (swap_remove n workers) = take n l"
      using 1(1) [OF _ _ r(1)] True by blast
    then show ?thesis using swap_remove_mset [of n workers] True r(2,3) same by auto
  next
    case False
    then show ?thesis
    proof (cases "n < length workers")
      case True
      then have r: "reap_workers finished (Suc k) (Suc n) workers = (left, joined)"
        using 1(3) False by (subst (asm) reap_workers.simps) simp
      have "mset workers = mset left + mset joined \<and> (\<forall>x \<in> set joined. \<exists>k. finished k x) \<and> take (Suc n) workers = take (Suc n) left"
        using 1(2) [OF _ _ r] True False by blast
      moreover from this have "take n workers = take n left" by (metis Suc_leD order_refl min_def take_take)
      ultimately show ?thesis by blast
    next
      case over: False
      then show ?thesis using 1(3) by (subst (asm) reap_workers.simps) simp
    qed
  qed
qed

end
