(* ===== verification/Spec2Isabelle.thy ===== *)
theory Spec2Isabelle
  imports Store_Examples Store_Schema General_Task Contract_Properties Runtime_Properties Diagnostic_Log
    Session_Properties Owner_Properties Sink_Properties Recovery_Properties Activity_Window
    Rpc_Wait_Many Profile_Properties Agy_Properties Handler_Properties
begin

text \<open>
  \<^bold>\<open>External subagents: the daemon's store, its permission policy, its scheduler and its runtimes.\<close>

  The program is a daemon that runs coding agents as external processes. A caller submits a \<^emph>\<open>general
  task\<close> (a prompt, a repository, a permission mode and a write manifest); the daemon validates it,
  allocates a scratch directory and an identity, stores it in an SQLite database, and lets schedulers
  claim and run it. While an agent runs, each of its tool requests is judged by the permission policy,
  messages and requests for input are exchanged through the database, and at the end a result is stored
  once. Everything that must survive a crash of the daemon is in the database; everything an agent may
  touch is decided by the policy. A \<^emph>\<open>runtime owner\<close> starts the session of a claimed task over the wire
  protocol, publishes what the agent sends as numbered records, answers its permission requests and
  ends it; the \<^emph>\<open>lifecycle sink\<close> stores those records and, at the end, the result. The \<^emph>\<open>scheduler\<close> ties
  them together: it admits tasks, starts the claimed ones, monitors, stops and closes them, delivers
  messages and answers, drains the daemon before an update and recovers what a crash has left behind.
  These parts and the interfaces between them are modelled here.

  \<^bold>\<open>Theories and the code they model\<close> (paths below \<open>src/crates\<close>).

  \<^item> \<open>Rust_Prelude\<close>, \<open>Rust_Path\<close>, \<open>Json_Value\<close>: what the code uses of the language and its library:
    results and \<open>?\<close> (\<open>res_bind\<close>), strings as UTF-8 byte lists, integer parsing with the bound of the
    width, \<open>Path\<close> and its components, the file system as a record of the calls made to it,
    \<open>serde_json::Value\<close>.
  \<^item> \<open>Policy_Paths\<close> (\<open>external-core/src/policy/{paths,requests}.rs\<close>, \<open>lib.rs\<close>), \<open>Policy_Commands\<close> and
    \<open>Policy_Operands\<close> (\<open>commands.rs\<close>: the git, find, sed, grep and option-table grammars and the
    tokenizer), \<open>Policy_Denial\<close> (\<open>denial.rs\<close>), \<open>Policy_Launcher\<close> (\<open>capabilities.rs\<close>, \<open>launcher.rs\<close>):
    one definition per function, in the order of the code. \<open>Policy_Grammar\<close> and \<open>Policy_Safety\<close> prove
    their properties.
  \<^item> \<open>General_Task\<close> (\<open>external-core/src/general.rs\<close>): manifests, preparation, scratch allocation, the
    launcher of a prepared task, completion records.
  \<^item> \<open>Store_Records\<close> (\<open>external-store/src/{records,error,store}.rs\<close>), \<open>Store_Tables\<close> (the tables of
    \<open>schema.rs\<close> and the statements and readers shared by the operations), \<open>Store_Schema\<close> (the schema
    gate and its migrations), \<open>Store_Tasks\<close> (\<open>tasks.rs\<close>), \<open>Store_Lifecycle\<close> (\<open>lifecycle.rs\<close>,
    \<open>recovery.rs\<close>), \<open>Store_Exchange\<close> (\<open>messages.rs\<close>, \<open>pending.rs\<close>, \<open>results.rs\<close>): every operation as
    a function from a store to an error or a value and a store.
  \<^item> \<open>Store_Frame\<close>, \<open>Store_Invariant\<close>, \<open>Store_Preservation\<close>, \<open>Store_Preservation_Control\<close>,
    \<open>Store_Preservation_Exchange\<close>: the views of the tables per task, the invariant of the store and
    its preservation, with the exact effect of each operation. \<open>Transition_System\<close> holds the locales
    of transition systems and of simulations of their components, and \<open>Store_Machine\<close> interprets them:
    the store as a step relation whose steps are all the operations in any order, and the abstract
    lifecycle of one task that it refines.
  \<^item> \<open>Store_Properties\<close> (what holds in every reachable store), \<open>Store_Contracts\<close> (what single
    operations promise), \<open>Store_Identities\<close> (the allocator of identities), \<open>Store_Examples\<close> (a concrete
    run that instantiates them).
  \<^item> \<open>Contract_Wire\<close> (\<open>external-contract/src/lib.rs\<close>): envelopes, their classification from a line of
    text, the projections of an agent's answers, model references and the parameters of requests;
    \<open>Contract_Properties\<close> proves strictness and round trips.
  \<^item> \<open>Runtime_Events\<close> (\<open>external-daemon/src/lib.rs\<close>: turn tracker, publisher; \<open>scheduler/state.rs\<close>: the
    lifecycle of a runtime; \<open>projection.rs\<close>: what of an event is stored), \<open>Runtime_Properties\<close>.
  \<^item> \<open>Runtime_Session\<close> (\<open>external-daemon/src/lib.rs\<close>: start, resume and model switch of a session, turns
    and waiting for them, over the driver as a command plane), \<open>Session_Properties\<close>; \<open>Runtime_Owner\<close> (the
    same file: the cache of offered permission responses, answers, the event pump, the end of a process,
    restarts), \<open>Owner_Properties\<close>.
  \<^item> \<open>Diagnostics\<close> (\<open>scheduler/diagnostics.rs\<close>: bounded failure records), \<open>Diagnostic_Log\<close> (the queue, its
    writer thread and the rotating files).
  \<^item> \<open>Lifecycle_Sink\<close> (\<open>external-daemon/src/lifecycle_sink.rs\<close>: emission, completion, storing of
    results with the precedence of cancellation), \<open>Sink_Properties\<close>.
  \<^item> \<open>Scheduler_State\<close> (\<open>external-daemon/src/scheduler/{types,state}.rs\<close>: errors, deadlines, the shared
    state and the form of its operations), \<open>Scheduler_Completion\<close> and \<open>Scheduler_Start\<close> (\<open>lifecycle.rs\<close>:
    the start and the end of a task; the delivery of a message of \<open>messages.rs\<close>), \<open>Scheduler_Control\<close>
    (\<open>control.rs\<close>: stopping and closing), \<open>Scheduler_Messages\<close> (\<open>messages.rs\<close>: sending, resuming,
    answering), \<open>Scheduler_Monitor\<close> (\<open>monitor.rs\<close>: the thread of a running task), \<open>Scheduler_Recovery\<close>
    (\<open>recovery.rs\<close>), \<open>Scheduler_Admission\<close> and \<open>Scheduler_Submit\<close> (\<open>admission.rs\<close>: submission, drain and
    activation). \<open>Scheduler_Safety\<close> has the rules by which every operation is shown to change the state
    only along a relation, \<open>Scheduler_Properties\<close> the scheduler as a transition system that refines the
    lifecycle of tasks, \<open>Recovery_Properties\<close> a calculus of weakest preconditions and with it the
    recovery after a restart.
  \<^item> \<open>Observation\<close> (\<open>external-daemon/src/observation.rs\<close>: the record of an agent's tool calls and of its
    public reasoning), \<open>Activity_Parser\<close> (\<open>external-contract/src/activity.rs\<close> and \<open>activity_parser.rs\<close>: the
    frames of tool activity) and \<open>Activity_Tracker\<close> (\<open>activity_tracker.rs\<close>: samples, window, the stream of
    text that waits deliver). \<open>Observation_Properties\<close>, \<open>Activity_Properties\<close> and \<open>Activity_Window\<close> prove
    their properties over every state a tracker can have, replacements included.
  \<^item> \<open>Rpc_Views\<close> (\<open>external-daemon/src/rpc/{errors,types,views}.rs\<close>: the errors of the service and what a
    caller is shown of a task) and \<open>Rpc_Wait\<close> (\<open>rpc/wait.rs\<close>: the waits for one and for several tasks and
    the cutting of their responses). \<open>Rpc_Paging\<close> proves what pages and cut responses are, \<open>Rpc_Properties\<close>
    has rules by which an operation of the service is shown to answer and with them the wait for one task,
    \<open>Rpc_Wait_Many\<close> the wait for several.
  \<^item> \<open>Agent_Config\<close> (\<open>rpc/config.rs\<close>: the configuration of the agents and its migration), \<open>Profiles\<close>
    (\<open>rpc/profiles.rs\<close>: the directory of profiles and the errors about them) with \<open>Profile_Properties\<close>, and
    \<open>Agent_Admission\<close> (\<open>rpc/agents.rs\<close> and \<open>subagents/dsh/src/acp/model.rs\<close>: the identity a submission is
    admitted with).
  \<^item> \<open>Agy_Wire\<close> (\<open>subagents/agy/src/{event,activity,session}.rs\<close>: the stream of an \<open>agy\<close> process, its tool
    activity and the settlement of its turns) and \<open>Agy_Events\<close> (\<open>external-daemon/src/agy/{events,transport}.rs\<close>: what
    the daemon makes of that stream, the gate of the start and the pump), with \<open>Agy_Properties\<close>.
  \<^item> \<open>Agent_Status\<close> (\<open>agent_status.rs\<close>: probes of installed agents, their catalogs and the evidence that is kept)
    and \<open>Rpc_Status\<close> (\<open>rpc/{agents,views,handlers}.rs\<close>: the status of the agents and of the system), with
    \<open>Status_Properties\<close>.
  \<^item> \<open>Rpc_Handlers\<close> (\<open>rpc/{handlers,types,transport}.rs\<close>: frames, requests, one handler per method, responses), with
    \<open>Handler_Properties\<close>.

  \<^bold>\<open>State.\<close> The store is the record \<open>store\<close>: its tables as lists of rows in the order of their rowids,
  and the counter of identities. An operation that fails rolls its transaction back, so an error carries
  no store. A run of several daemons or threads is a sequence of these operations, because each of them
  is one immediate transaction of the database; the step relation \<open>store_step\<close> therefore quantifies over
  every operation, caller and clock at every step. The daemon's in-memory objects (publisher, lifecycle,
  permission cache, logger, sink) are records, each guarded by one mutex in the code: a critical section is
  one function, and the step relations interleave these functions in any order. An operation of the sink
  that consists of several transactions takes what other threads do between them as an argument. An
  operation of the scheduler is a sequence of such steps on the record \<open>SchedulerInner\<close>; before each step
  the other threads do what the \<open>world\<close> says, and the answers of runtimes, clocks and processes at that
  step are the world's too.

  \<^bold>\<open>Parameters.\<close> What the sources only call is an argument: the clock (\<open>clock i\<close> answers the \<open>i\<close>-th call
  of an operation), the file system of a host (\<open>filesystem\<close>, \<open>submission_host\<close>), the SHA-256 of a
  result (\<open>digest\<close>), the agent named in a stored JSON text (\<open>admission_agent\<close>), the JSON reader and
  printer (\<open>json_codec\<close>), the decoder of a stored preparation (\<open>preparation_codec\<close>), the driver that
  answers the requests of a session (\<open>runtime_env\<close>), the file calls of the log writer (\<open>writer_io\<close>) and
  the other threads (\<open>interference\<close>, \<open>emission_env\<close>), and for the scheduler the record \<open>world\<close>, which
  has all of these at every step together with the answers of the managed runtimes. The admission of agents
  takes the variables of the service and its configuration file (\<open>service_env\<close>), the directory of profiles
  (\<open>profiles_io\<close>) and which paths are executable files; probes take the answers of the processes they start
  (\<open>probe_io\<close>), and the service all of these at every step (\<open>service_host\<close>) with the reader of requests and the
  printer of responses. Where a theorem
  relies on how these behave, the behaviour is a hypothesis, and its witness gives an instance.

  \<^bold>\<open>Bounds.\<close> Integers keep their widths where the code converts them: \<open>u64\<close> and \<open>usize\<close> values are
  refused by \<open>u64_to_i64\<close> when SQLite cannot hold them, decimal options are parsed at \<open>u8\<close>, \<open>u16\<close>,
  \<open>u32\<close> and \<open>u64\<close>, and the submission counter is a 64-bit word that wraps. The allocation loop has the
  32 attempts of the code as its recursion argument, so no fuel is chosen by the model; the loop that
  resolves a path that does not exist recurses on its parent, which is shorter. The two waits that may not
  end, \<open>wait_until\<close> and \<open>insert_retry\<close>, are partial functions into \<open>option\<close>; that they return once their
  deadline has passed is proved. The loops of the scheduler are instances of one partial function,
  \<open>sched_loop\<close>; what is proved of an operation with a loop holds of every run that returns, and that
  recovery returns is proved.

  \<^bold>\<open>What the theorems show.\<close> Policy: the tokenizer is the intended splitter and inverts quoting; the
  option grammars accept exactly their tables; every path operand is an argument; a request that is
  allowed changes only paths below the write roots, reads and read-only commands stay inside the
  worktree and the declared inputs, an external denial always wins, and a decision exists except for the
  one input that makes the code panic. Tasks: an accepted manifest gives a well-formed prepared task, the
  first free scratch name is taken, and what the task may write lies below its manifest. Store: the
  invariant holds in every reachable store, workspaces are exclusive, the ledger replays every task, the
  store refines the lifecycle, cancellation is final, earlier owners are fenced off, results are stored
  once, claims and messages respect their orders, recovery misses nothing, identities are never reused.
  Runtimes: lines are classified strictly and what is written is read back; the first prompt is sent only
  into a settled session with the admitted model; an answer to a permission request is one the agent has
  offered; records are numbered without gaps and end with terminals; a lifecycle only moves forward; a
  stored projection does not depend on redacted content; a process group counts as gone only if that was
  observed; waits end; an active task's result always ends it, and a stop wins; diagnostics are bounded.
  Scheduler: whatever its threads do and whatever they are answered, the store stays reachable and tasks
  move only along their lifecycle; recovery after a restart ends every recoverable task with the outcome
  its record calls for and touches no other. Activity: the text that waits receive is the agent's text in
  one stream, cut only where it says so; the counters of the window are exact, a frame that is delivered
  again adds nothing, and a snapshot of tool calls counts distinct calls and shows the newest. Service: a
  bounded wait returns once its deadline has passed and accounts for every id, its body comes from one state
  of the store, the pages of a result make up the result, and a response that is cut fits its frame and keeps
  an exact cursor. Admission: an accepted configuration is consistent and its migration stable, a name finds a
  profile exactly when one file alone claims it, an error about a profile fits its frame with the names that
  are available, and an admitted identity has an agent, a model, an effort and a permission mode that the launch
  can honour; a submission is refused with nothing done or starts exactly what was admitted, with its instructions
  delivered once. Status: a layer is ready only on the evidence of a probe of it under the configuration in force,
  and a refresh keeps what it does not probe. Frames: what is read does not depend on how the stream is cut, and a
  response carries the identity of its frame. Agy: every turn is started once and settled at most once, in order.

  \<^bold>\<open>Not modelled.\<close> The sockets of the RPC service, the MCP
  front end, the adapters of codex, dsh and zcode, the launch of agy and the process supervision in
  \<open>external-runtime\<close>, the Windows variants and the installer scripts: they are I/O
  around the modelled core, or are left for a later extension. Error texts produced by SQLite, serde and
  the operating system are represented by a constructor or a fixed text. The model is of a Unix host:
  \<open>project_verbatim\<close> is the identity there.
\<close>

section \<open>Identities across the store and the preparation of tasks\<close>

text \<open>
  The identity that the store reserves for a submission is the identity of the prepared task: it is
  a public identity, it never fails the validation of the manifest, and preparation neither replaces
  nor changes it.
\<close>

theorem reserved_identity_kept:
  assumes "reserve_task_id s = Inr (v, s')"
  shows "is_public_task_id v \<and> list_all identifier_byte v
    \<and> (\<forall>p nonce'. prepare_direct_submission h fs (m\<lparr>manifest_agent_id := v\<rparr>) nonce = (Inr p, nonce')
         \<longrightarrow> prepared_agent_id p = v \<and> prepared_wf p)"
proof -
  have v: "v = to_decimal (nat (next_id s))" "10000000 \<le> next_id s" "next_id s \<le> 99999999"
    using assms by (simp_all add: reserve_task_id_eval)
  then have digits: "list_all is_ascii_digit v" "length v = 8"
    using length_to_decimal [of 7 "nat (next_id s)"] by (simp_all add: to_decimal_digits)
  have "identifier_byte c" if "is_ascii_digit c" for c
    using that by (simp add: identifier_byte_def is_ascii_alphanumeric_def is_ascii_digit_def)
  with digits have "list_all identifier_byte v" by (simp add: list_all_iff)
  moreover have "is_public_task_id v" using digits by (simp add: is_public_task_id_def)
  moreover have "prepared_agent_id p = v \<and> prepared_wf p"
    if "prepare_direct_submission h fs (m\<lparr>manifest_agent_id := v\<rparr>) nonce = (Inr p, nonce')" for p nonce'
    using prepared_submission_wf [OF that] by simp
  ultimately show ?thesis by blast
qed

definition example_submitted :: GeneralTaskManifest where
  "example_submitted = example_manifest\<lparr>manifest_agent_id := ''10000000''\<rparr>"

lemma empty_store_reserves:
  "reserve_task_id empty_store = Inr (''10000000'', empty_store\<lparr>next_id := 10000001\<rparr>)"
proof -
  have "to_decimal 10000000 = ''10000000''"
    by (simp add: to_decimal.simps) code_simp
  then show ?thesis by (simp add: reserve_task_id_eval empty_store_def)
qed

theorem reserved_identity_kept_witness:
  "is_public_task_id ''10000000'' \<and> list_all identifier_byte ''10000000''"
  using reserved_identity_kept [OF empty_store_reserves] by blast

end
